(* ===== verification/Prelude.thy ===== *)
theory Prelude
  imports Main "HOL-Library.Word" "HOL-Library.AList"
begin

text \<open>
  Shared vocabulary of the development: the machine integers of src/common/types.h, byte
  strings, the casts the code writes, the two container shapes of the C++ standard library
  the code uses (a hash map as an association list in iteration order, an ordered map as an
  association list sorted by key), and the little-endian layout of integers in packed
  structs. Everything here is generic; no component is modelled in this theory.
\<close>

unbundle bit_operations_syntax

section \<open>Machine integers\<close>

text \<open>
  Unsigned integers are words of their width. Signed 32- and 64-bit values are mathematical
  integers in their range; the places where the code casts or could leave the range go
  through \<open>to_s32\<close> and \<open>to_s64\<close>, which are the two's complement truncations.
\<close>

type_synonym u8 = "8 word"
type_synonym u16 = "16 word"
type_synonym u32 = "32 word"
type_synonym u64 = "64 word"
type_synonym s32 = int
type_synonym s64 = int
type_synonym bytes = "u8 list"

definition to_s32 :: "int \<Rightarrow> s32" where
  "to_s32 x = sint (word_of_int x :: u32)"

definition to_s64 :: "int \<Rightarrow> s64" where
  "to_s64 x = sint (word_of_int x :: u64)"

lemma to_s32_id: "- (2 ^ 31) \<le> x \<Longrightarrow> x < 2 ^ 31 \<Longrightarrow> to_s32 x = x"
  unfolding to_s32_def by (simp add: sint_sbintrunc' signed_take_bit_int_eq_self)

lemma to_s64_id: "- (2 ^ 63) \<le> x \<Longrightarrow> x < 2 ^ 63 \<Longrightarrow> to_s64 x = x"
  unfolding to_s64_def by (simp add: sint_sbintrunc' signed_take_bit_int_eq_self)

lemma to_s32_bounds: "- (2 ^ 31) \<le> to_s32 x" "to_s32 x < 2 ^ 31"
  using sint_ge [of "word_of_int x :: u32"] sint_lt [of "word_of_int x :: u32"]
  by (simp_all add: to_s32_def)

lemma sint_small:
  fixes w :: u32
  assumes "uint w < 2 ^ 31"
  shows "sint w = uint w"
proof -
  have "signed_take_bit 31 (uint w) = uint w"
    using assms by (intro signed_take_bit_int_eq_self) (auto intro: order_trans [OF _ uint_ge_0])
  then show ?thesis by (simp add: sint_uint)
qed

lemma uint_inc:
  fixes w :: u32
  assumes "uint w < 2 ^ 32 - 1"
  shows "uint (w + 1) = uint w + 1"
  using assms by (simp add: uint_word_ariths take_bit_int_eq_self)

section \<open>Hash maps in iteration order\<close>

text \<open>
  A \<open>std::unordered_map\<close> is an association list whose order is the iteration order of the
  container. \<open>AList.update\<close> replaces the value of a present key in place and adds an
  absent one; \<open>AList.delete\<close> erases. The C++ standard leaves the position of a new key
  open: the model puts it last, and the properties of the development are stated for any
  order of the entries already present.
\<close>

abbreviation keys :: "('k \<times> 'v) list \<Rightarrow> 'k list" where
  "keys m \<equiv> map fst m"

definition at_or :: "'v \<Rightarrow> 'k \<Rightarrow> ('k \<times> 'v) list \<Rightarrow> 'v" where
  "at_or d k m = (case map_of m k of None \<Rightarrow> d | Some v \<Rightarrow> v)"

text \<open>\<open>operator[]\<close> followed by a write through the reference it returns.\<close>

definition modify_at :: "'v \<Rightarrow> 'k \<Rightarrow> ('v \<Rightarrow> 'v) \<Rightarrow> ('k \<times> 'v) list \<Rightarrow> ('k \<times> 'v) list" where
  "modify_at d k f m = AList.update k (f (at_or d k m)) m"

text \<open>The range-for over a map that writes its values and keeps its keys.\<close>

definition map_vals :: "('k \<Rightarrow> 'v \<Rightarrow> 'v) \<Rightarrow> ('k \<times> 'v) list \<Rightarrow> ('k \<times> 'v) list" where
  "map_vals f m = map (\<lambda>(k, v). (k, f k v)) m"

lemma at_or_Some [simp]: "map_of m k = Some v \<Longrightarrow> at_or d k m = v"
  by (simp add: at_or_def)

lemma at_or_None [simp]: "map_of m k = None \<Longrightarrow> at_or d k m = d"
  by (simp add: at_or_def)

lemma map_of_AList_update [simp]: "map_of (AList.update k v m) = (map_of m)(k \<mapsto> v)"
  by (rule AList.update_conv')

lemma map_of_AList_delete [simp]: "map_of (AList.delete k m) = (map_of m)(k := None)"
  by (rule AList.delete_conv')

lemma map_of_modify_at [simp]:
  "map_of (modify_at d k f m) = (map_of m)(k \<mapsto> f (at_or d k m))"
  by (simp add: modify_at_def)

lemma map_of_map_vals [simp]: "map_of (map_vals f m) k = map_option (f k) (map_of m k)"
  unfolding map_vals_def by (induction m) auto

lemma keys_map_vals [simp]: "keys (map_vals f m) = keys m"
  unfolding map_vals_def by (induction m) auto

lemma dom_map_vals: "dom (map_of (map_vals f m)) = dom (map_of m)"
  by (auto simp: dom_def)

lemma distinct_keys_update [simp]:
  "distinct (keys m) \<Longrightarrow> distinct (keys (AList.update k v m))"
  by (rule AList.distinct_update)

lemma distinct_keys_delete [simp]:
  "distinct (keys m) \<Longrightarrow> distinct (keys (AList.delete k m))"
  by (rule AList.distinct_delete)

lemma distinct_keys_modify_at [simp]:
  "distinct (keys m) \<Longrightarrow> distinct (keys (modify_at d k f m))"
  by (simp add: modify_at_def)

lemma dom_finite_card: "card (dom (map_of m)) \<le> length m"
proof -
  have "dom (map_of m) = fst ` set m" by (rule dom_map_of_conv_image_fst)
  then show ?thesis by (simp add: card_image_le [THEN order_trans, OF _ card_length])
qed

text \<open>The first entry of a map that satisfies a test: the loops that search a map.\<close>

fun find_key :: "('k \<Rightarrow> 'v \<Rightarrow> bool) \<Rightarrow> ('k \<times> 'v) list \<Rightarrow> 'k option" where
  "find_key P [] = None"
| "find_key P ((k, v) # m) = (if P k v then Some k else find_key P m)"

lemma find_key_Some:
  "distinct (keys m) \<Longrightarrow> find_key P m = Some k \<Longrightarrow> \<exists>v. map_of m k = Some v \<and> P k v"
proof (induction P m rule: find_key.induct)
  case (2 P k' v' m)
  show ?case
  proof (cases "P k' v'")
    case False
    with "2.prems" have "find_key P m = Some k" by simp
    with "2.IH" False "2.prems"(1) obtain v where v: "map_of m k = Some v" "P k v" by auto
    from v(1) have "k \<in> set (keys m)" by (force dest: map_of_SomeD)
    with "2.prems"(1) have "k \<noteq> k'" by auto
    with v show ?thesis by simp
  qed (use "2.prems" in simp)
qed simp

lemma find_key_None: "find_key P m = None \<longleftrightarrow> (\<forall>(k, v) \<in> set m. \<not> P k v)"
  by (induction P m rule: find_key.induct) auto

lemma find_key_in: "find_key P m = Some k \<Longrightarrow> k \<in> set (keys m)"
  by (induction P m rule: find_key.induct) (auto split: if_splits)

text \<open>The keys of the entries that satisfy a test, in iteration order.\<close>

definition keys_where :: "('k \<Rightarrow> 'v \<Rightarrow> bool) \<Rightarrow> ('k \<times> 'v) list \<Rightarrow> 'k list" where
  "keys_where P m = map fst (filter (\<lambda>(k, v). P k v) m)"

lemma in_keys_where:
  assumes "distinct (keys m)"
  shows "k \<in> set (keys_where P m) \<longleftrightarrow> (\<exists>v. map_of m k = Some v \<and> P k v)"
  using assms unfolding keys_where_def by (force simp: image_iff)

lemma distinct_keys_where: "distinct (keys m) \<Longrightarrow> distinct (keys_where P m)"
  unfolding keys_where_def by (induction m) (auto simp: image_iff split: if_splits)

section \<open>The interface of a keyed store\<close>

text \<open>
  What the clients of the containers rely on, whichever container it is: lookups after an
  insertion or an erasure, and an invariant the operations keep.
\<close>

locale kv_store =
  fixes find :: "'m \<Rightarrow> 'k \<Rightarrow> 'v option"
    and put :: "'k \<Rightarrow> 'v \<Rightarrow> 'm \<Rightarrow> 'm"
    and erase :: "'k \<Rightarrow> 'm \<Rightarrow> 'm"
    and inv :: "'m \<Rightarrow> bool"
  assumes find_put: "inv m \<Longrightarrow> find (put k v m) k' = (if k' = k then Some v else find m k')"
    and find_erase: "inv m \<Longrightarrow> find (erase k m) k' = (if k' = k then None else find m k')"
    and inv_put: "inv m \<Longrightarrow> inv (put k v m)"
    and inv_erase: "inv m \<Longrightarrow> inv (erase k m)"
begin

lemma erase_put: "inv m \<Longrightarrow> find (erase k (put k v m)) k' = (if k' = k then None else find m k')"
  by (simp add: find_erase find_put inv_put)

lemma put_put: "inv m \<Longrightarrow> find (put k w (put k v m)) k' = find (put k w m) k'"
  by (simp add: find_put inv_put)

text \<open>Erasing a list of keys one by one, as the clean-up loops of the code do.\<close>

lemma inv_erase_all: "inv m \<Longrightarrow> inv (fold erase ks m)"
  by (induction ks arbitrary: m) (auto simp: inv_erase)

lemma find_erase_all:
  "inv m \<Longrightarrow> find (fold erase ks m) k = (if k \<in> set ks then None else find m k)"
  by (induction ks arbitrary: m) (auto simp: inv_erase find_erase)

end

interpretation hash: kv_store map_of AList.update AList.delete "\<lambda>m. distinct (keys m)"
  by unfold_locales auto

section \<open>Ordered maps\<close>

text \<open>A \<open>std::map\<close>: an association list in strictly increasing order of its keys.\<close>

fun omap_put :: "'k::linorder \<Rightarrow> 'v \<Rightarrow> ('k \<times> 'v) list \<Rightarrow> ('k \<times> 'v) list" where
  "omap_put k v [] = [(k, v)]"
| "omap_put k v ((k', v') # m) =
     (if k < k' then (k, v) # (k', v') # m
      else if k = k' then (k, v) # m
      else (k', v') # omap_put k v m)"

definition omap_erase :: "'k::linorder \<Rightarrow> ('k \<times> 'v) list \<Rightarrow> ('k \<times> 'v) list" where
  "omap_erase k m = filter (\<lambda>(k', v). k' \<noteq> k) m"

definition omap_modify ::
  "'v \<Rightarrow> 'k::linorder \<Rightarrow> ('v \<Rightarrow> 'v) \<Rightarrow> ('k \<times> 'v) list \<Rightarrow> ('k \<times> 'v) list" where
  "omap_modify d k f m = omap_put k (f (at_or d k m)) m"

definition omap_inv :: "('k::linorder \<times> 'v) list \<Rightarrow> bool" where
  "omap_inv m \<longleftrightarrow> sorted_wrt (<) (keys m)"

lemma omap_inv_Nil [simp]: "omap_inv []"
  by (simp add: omap_inv_def)

lemma omap_inv_Cons: "omap_inv ((k, v) # m) \<longleftrightarrow> (\<forall>k' \<in> set (keys m). k < k') \<and> omap_inv m"
  by (simp add: omap_inv_def)

lemma omap_inv_distinct: "omap_inv m \<Longrightarrow> distinct (keys m)"
  by (simp add: omap_inv_def strict_sorted_iff)

lemma set_keys_omap_put: "set (keys (omap_put k v m)) = insert k (set (keys m))"
  by (induction k v m rule: omap_put.induct) auto

lemma map_of_omap_put: "map_of (omap_put k v m) = (map_of m)(k \<mapsto> v)"
  by (induction k v m rule: omap_put.induct) auto

lemma omap_inv_put: "omap_inv m \<Longrightarrow> omap_inv (omap_put k v m)"
proof (induction k v m rule: omap_put.induct)
  case (2 k v k' v' m)
  then show ?case
    by (auto simp: omap_inv_Cons set_keys_omap_put simp del: set_map)
qed (simp add: omap_inv_def)

lemma map_of_omap_erase: "map_of (omap_erase k m) = (map_of m)(k := None)"
  unfolding omap_erase_def by (induction m) (auto simp: fun_eq_iff)

lemma omap_inv_erase: "omap_inv m \<Longrightarrow> omap_inv (omap_erase k m)"
  unfolding omap_inv_def omap_erase_def by (induction m) (auto simp: image_iff)

interpretation omap: kv_store map_of omap_put omap_erase omap_inv
  by unfold_locales (auto simp: map_of_omap_put map_of_omap_erase omap_inv_put omap_inv_erase)

section \<open>Integers in packed structs\<close>

text \<open>
  The target is little-endian: \<open>memcpy\<close> of an integer of \<open>n\<close> bytes writes its low byte
  first.
\<close>

fun le_bytes :: "nat \<Rightarrow> 'a::len word \<Rightarrow> bytes" where
  "le_bytes 0 w = []"
| "le_bytes (Suc n) w = ucast w # le_bytes n (drop_bit 8 w)"

fun le_word :: "bytes \<Rightarrow> 'a::len word" where
  "le_word [] = 0"
| "le_word (b # bs) = ucast b OR push_bit 8 (le_word bs)"

lemma length_le_bytes [simp]: "length (le_bytes n w) = n"
  by (induction n arbitrary: w) auto

lemma le_word_le_bytes_take: "le_word (le_bytes n w) = take_bit (8 * n) w"
proof (induction n arbitrary: w)
  case (Suc n)
  show ?case
    by (rule bit_word_eqI)
      (auto simp: Suc bit_simps bit_or_iff algebra_simps)
qed simp

lemma le_word_le_bytes [simp]:
  fixes w :: "'a::len word"
  shows "LENGTH('a) \<le> 8 * n \<Longrightarrow> le_word (le_bytes n w) = w"
  by (simp add: le_word_le_bytes_take take_bit_word_eq_self)

lemma bit_le_word: "bit (le_word bs :: 'a::len word) i \<Longrightarrow> i < 8 * length bs"
proof (induction bs arbitrary: i)
  case (Cons b bs)
  show ?case
  proof (cases "i < 8")
    case False
    with Cons.prems have "bit (le_word bs :: 'a word) (i - 8)"
      by (auto simp: bit_simps dest: bit_imp_le_length)
    from Cons.IH [OF this] False show ?thesis by simp
  qed simp
qed simp

lemma le_bytes_le_word:
  "8 * length bs \<le> LENGTH('a) \<Longrightarrow> le_bytes (length bs) (le_word bs :: 'a::len word) = bs"
proof (induction bs)
  case (Cons b bs)
  let ?w = "le_word bs :: 'a word"
  have "ucast (ucast b OR push_bit 8 ?w :: 'a word) = b"
    using Cons.prems by (intro bit_word_eqI) (auto simp: bit_simps)
  moreover have "drop_bit 8 (ucast b OR push_bit 8 ?w) = ?w"
    using Cons.prems by (intro bit_word_eqI) (auto simp: bit_simps dest: bit_le_word bit_imp_le_length)
  ultimately show ?case using Cons by simp
qed simp

text \<open>A slice of a buffer, the source range of a \<open>memcpy\<close>.\<close>

definition mem_slice :: "nat \<Rightarrow> nat \<Rightarrow> 'a list \<Rightarrow> 'a list" where
  "mem_slice off n xs = take n (drop off xs)"

lemma slice_append_skip: "length xs \<le> off \<Longrightarrow> mem_slice off n (xs @ ys) = mem_slice (off - length xs) n ys"
  by (simp add: mem_slice_def)

lemma slice_append_hit: "length xs = n \<Longrightarrow> mem_slice 0 n (xs @ ys) = xs"
  by (simp add: mem_slice_def)

lemma slice_all: "length xs = n \<Longrightarrow> mem_slice 0 n xs = xs"
  by (simp add: mem_slice_def)

lemma length_mem_slice: "off + n \<le> length xs \<Longrightarrow> length (mem_slice off n xs) = n"
  by (simp add: mem_slice_def)

lemmas slice_simps = slice_append_skip slice_append_hit slice_all

end
