(* ===== verification/NpTypes.thy ===== *)
theory NpTypes
  imports Prelude
begin

text \<open>
  The identifiers shared by the Np libraries (np_types.h), the checks of an online id that
  np_signaling_state.cpp makes, the error codes of np_error.h the signaling library returns
  and the constants of np_signaling.h.
\<close>

section \<open>Online ids and Np ids (np_types.h)\<close>

definition ORBIS_NP_ONLINEID_MAX_LENGTH :: nat where
  [simp]: "ORBIS_NP_ONLINEID_MAX_LENGTH = 16"

definition ORBIS_NP_INVALID_SERVICE_LABEL :: u32 where [simp]: "ORBIS_NP_INVALID_SERVICE_LABEL = 0xFFFFFFFF"

text \<open>A character array is its list of bytes; the C type fixes the lengths (\<open>online_id_ok\<close>).\<close>

record OrbisNpOnlineId =
  oid_data :: bytes
  oid_term :: u8
  oid_dummy :: bytes

record OrbisNpId =
  handle :: OrbisNpOnlineId
  opt :: bytes
  np_reserved :: bytes

definition online_id_ok :: "OrbisNpOnlineId \<Rightarrow> bool" where
  "online_id_ok oid \<longleftrightarrow> length (oid_data oid) = 16 \<and> length (oid_dummy oid) = 3"

text \<open>\<open>OrbisNpOnlineId{}\<close> and \<open>OrbisNpId{}\<close>, the value-initialised structs.\<close>

definition zero_online_id :: OrbisNpOnlineId where
  "zero_online_id = \<lparr>oid_data = replicate 16 0, oid_term = 0, oid_dummy = replicate 3 0\<rparr>"

definition zero_np_id :: OrbisNpId where
  "zero_np_id = \<lparr>handle = zero_online_id, opt = replicate 8 0, np_reserved = replicate 8 0\<rparr>"

text \<open>\<open>memcpy(dst.data, src.data(), len)\<close> over a zeroed array.\<close>

definition SetNpOnlineId :: "bytes \<Rightarrow> OrbisNpOnlineId" where
  "SetNpOnlineId src =
     (let dst = zero_online_id;
          len = min (length src) ORBIS_NP_ONLINEID_MAX_LENGTH
      in dst\<lparr>oid_data := take len src @ drop len (oid_data dst), oid_term := 0\<rparr>)"

definition SetNpId :: "bytes \<Rightarrow> OrbisNpId" where
  "SetNpId online_id = zero_np_id\<lparr>handle := SetNpOnlineId online_id\<rparr>"

section \<open>Reading online ids (np_signaling_state.cpp)\<close>

definition OnlineIdToString :: "OrbisNpOnlineId \<Rightarrow> bytes" where
  "OnlineIdToString oid = takeWhile (\<lambda>b. b \<noteq> 0) (take ORBIS_NP_ONLINEID_MAX_LENGTH (oid_data oid))"

definition OnlineIdFromNpId :: "OrbisNpId \<Rightarrow> bytes" where
  "OnlineIdFromNpId np_id = OnlineIdToString (handle np_id)"

definition NpIdFromOnlineId :: "OrbisNpOnlineId \<Rightarrow> OrbisNpId" where
  "NpIdFromOnlineId online_id = zero_np_id\<lparr>handle := online_id\<rparr>"

definition OnlineIdEqualsString :: "OrbisNpOnlineId \<Rightarrow> bytes \<Rightarrow> bool" where
  "OnlineIdEqualsString online_id value \<longleftrightarrow> OnlineIdToString online_id = value"

text \<open>\<open>isalnum\<close> in the C locale.\<close>

definition is_alnum :: "u8 \<Rightarrow> bool" where
  "is_alnum b \<longleftrightarrow> (48 \<le> b \<and> b \<le> 57) \<or> (65 \<le> b \<and> b \<le> 90) \<or> (97 \<le> b \<and> b \<le> 122)"

definition is_print :: "u8 \<Rightarrow> bool" where
  "is_print b \<longleftrightarrow> 32 \<le> b \<and> b \<le> 126"

datatype validation_failure =
    TermNonzero
  | LengthBelowMinimum
  | LengthAboveMaximum
  | FirstCharacterInvalid
  | CharacterInvalid
  | ValidatorRejected

text \<open>
  The reason the code logs when the system validator refuses an id. \<open>strnlen(data, 17)\<close> reads
  the 16 bytes of \<open>data\<close> and then \<open>term\<close>, which the first test has found to be 0: its result
  is the index of the first NUL, 16 at most.
\<close>

definition OnlineIdValidationFailure :: "OrbisNpOnlineId \<Rightarrow> validation_failure" where
  "OnlineIdValidationFailure oid =
     (if oid_term oid \<noteq> 0 then TermNonzero
      else let len = length (takeWhile (\<lambda>b. b \<noteq> 0) (oid_data oid)) in
        if len < 3 then LengthBelowMinimum
        else if len > ORBIS_NP_ONLINEID_MAX_LENGTH then LengthAboveMaximum
        else if \<not> is_alnum (oid_data oid ! 0) then FirstCharacterInvalid
        else if \<exists>i \<in> set [1..<len]. \<not> is_alnum (oid_data oid ! i) \<and>
                  oid_data oid ! i \<noteq> 95 \<and> oid_data oid ! i \<noteq> 45 then CharacterInvalid
        else ValidatorRejected)"

definition HexBytes :: "bytes \<Rightarrow> string" where
  "HexBytes data = concat (map (\<lambda>b. [''0123456789abcdef'' ! unat (drop_bit 4 b),
                                     ''0123456789abcdef'' ! unat (b AND 15)]) data)"

definition PrintableOnlineId :: "OrbisNpOnlineId \<Rightarrow> bytes" where
  "PrintableOnlineId oid = map (\<lambda>b. if is_print b then b else 46) (oid_data oid)"

section \<open>Error codes and constants (np_error.h, np_signaling.h)\<close>

definition ORBIS_OK :: s32 where [simp]: "ORBIS_OK = 0"

definition ORBIS_NP_ERROR_USER_NOT_FOUND :: s32 where
  [simp]: "ORBIS_NP_ERROR_USER_NOT_FOUND = 0x80550007 - 2 ^ 32"
definition ORBIS_NP_SIGNALING_ERROR_NOT_INITIALIZED :: s32 where
  [simp]: "ORBIS_NP_SIGNALING_ERROR_NOT_INITIALIZED = 0x80552701 - 2 ^ 32"
definition ORBIS_NP_SIGNALING_ERROR_ALREADY_INITIALIZED :: s32 where
  [simp]: "ORBIS_NP_SIGNALING_ERROR_ALREADY_INITIALIZED = 0x80552702 - 2 ^ 32"
definition ORBIS_NP_SIGNALING_ERROR_OUT_OF_MEMORY :: s32 where
  [simp]: "ORBIS_NP_SIGNALING_ERROR_OUT_OF_MEMORY = 0x80552703 - 2 ^ 32"
definition ORBIS_NP_SIGNALING_ERROR_CTXID_NOT_AVAILABLE :: s32 where
  [simp]: "ORBIS_NP_SIGNALING_ERROR_CTXID_NOT_AVAILABLE = 0x80552704 - 2 ^ 32"
definition ORBIS_NP_SIGNALING_ERROR_CTX_NOT_FOUND :: s32 where
  [simp]: "ORBIS_NP_SIGNALING_ERROR_CTX_NOT_FOUND = 0x80552705 - 2 ^ 32"
definition ORBIS_NP_SIGNALING_ERROR_REQ_NOT_FOUND :: s32 where
  [simp]: "ORBIS_NP_SIGNALING_ERROR_REQ_NOT_FOUND = 0x80552707 - 2 ^ 32"
definition ORBIS_NP_SIGNALING_ERROR_CONN_NOT_FOUND :: s32 where
  [simp]: "ORBIS_NP_SIGNALING_ERROR_CONN_NOT_FOUND = 0x8055270E - 2 ^ 32"
definition ORBIS_NP_SIGNALING_ERROR_TERMINATED_BY_PEER :: s32 where
  [simp]: "ORBIS_NP_SIGNALING_ERROR_TERMINATED_BY_PEER = 0x80552710 - 2 ^ 32"
definition ORBIS_NP_SIGNALING_ERROR_TIMEOUT :: s32 where
  [simp]: "ORBIS_NP_SIGNALING_ERROR_TIMEOUT = 0x80552711 - 2 ^ 32"
definition ORBIS_NP_SIGNALING_ERROR_RESULT_NOT_FOUND :: s32 where
  [simp]: "ORBIS_NP_SIGNALING_ERROR_RESULT_NOT_FOUND = 0x80552713 - 2 ^ 32"
definition ORBIS_NP_SIGNALING_ERROR_CONN_IN_PROGRESS :: s32 where
  [simp]: "ORBIS_NP_SIGNALING_ERROR_CONN_IN_PROGRESS = 0x80552714 - 2 ^ 32"
definition ORBIS_NP_SIGNALING_ERROR_INVALID_ARGUMENT :: s32 where
  [simp]: "ORBIS_NP_SIGNALING_ERROR_INVALID_ARGUMENT = 0x80552715 - 2 ^ 32"
definition ORBIS_NP_SIGNALING_ERROR_OWN_NP_ID :: s32 where
  [simp]: "ORBIS_NP_SIGNALING_ERROR_OWN_NP_ID = 0x80552716 - 2 ^ 32"
definition ORBIS_NP_SIGNALING_ERROR_TERMINATED_BY_MYSELF :: s32 where
  [simp]: "ORBIS_NP_SIGNALING_ERROR_TERMINATED_BY_MYSELF = 0x80552718 - 2 ^ 32"
definition ORBIS_NP_SIGNALING_ERROR_EXCEED_RATE_LIMIT :: s32 where
  [simp]: "ORBIS_NP_SIGNALING_ERROR_EXCEED_RATE_LIMIT = 0x8055271A - 2 ^ 32"
definition ORBIS_NP_SIGNALING_ERROR_OWN_PEER_ADDRESS :: s32 where
  [simp]: "ORBIS_NP_SIGNALING_ERROR_OWN_PEER_ADDRESS = 0x8055271B - 2 ^ 32"
definition ORBIS_NP_MATCHING2_SIGNALING_ERROR_OUT_OF_MEMORY :: s32 where
  [simp]: "ORBIS_NP_MATCHING2_SIGNALING_ERROR_OUT_OF_MEMORY = 0x80550E03 - 2 ^ 32"
definition ORBIS_NP_MATCHING2_SIGNALING_ERROR_TERMINATED_BY_PEER :: s32 where
  [simp]: "ORBIS_NP_MATCHING2_SIGNALING_ERROR_TERMINATED_BY_PEER = 0x80550E10 - 2 ^ 32"
definition ORBIS_NP_MATCHING2_SIGNALING_ERROR_TIMEOUT :: s32 where
  [simp]: "ORBIS_NP_MATCHING2_SIGNALING_ERROR_TIMEOUT = 0x80550E11 - 2 ^ 32"
definition ORBIS_NP_MATCHING2_SIGNALING_ERROR_TERMINATED_BY_MYSELF :: s32 where
  [simp]: "ORBIS_NP_MATCHING2_SIGNALING_ERROR_TERMINATED_BY_MYSELF = 0x80550E18 - 2 ^ 32"

definition ORBIS_NP_SIGNALING_INTERNAL_ERROR_ALLOCATOR :: s32 where
  [simp]: "ORBIS_NP_SIGNALING_INTERNAL_ERROR_ALLOCATOR = 0x80559608 - 2 ^ 32"
definition ORBIS_NP_SIGNALING_INTERNAL_ERROR_NOT_INITIALIZED :: s32 where
  [simp]: "ORBIS_NP_SIGNALING_INTERNAL_ERROR_NOT_INITIALIZED = 0x8055960B - 2 ^ 32"

definition ORBIS_NP_SIGNALING_CONTEXT_OPTION_FLAG :: s32 where
  [simp]: "ORBIS_NP_SIGNALING_CONTEXT_OPTION_FLAG = 1"

definition ORBIS_NP_SIGNALING_CONN_STATUS_INACTIVE :: s32 where
  [simp]: "ORBIS_NP_SIGNALING_CONN_STATUS_INACTIVE = 0"
definition ORBIS_NP_SIGNALING_CONN_STATUS_PENDING :: s32 where
  [simp]: "ORBIS_NP_SIGNALING_CONN_STATUS_PENDING = 1"
definition ORBIS_NP_SIGNALING_CONN_STATUS_ACTIVE :: s32 where
  [simp]: "ORBIS_NP_SIGNALING_CONN_STATUS_ACTIVE = 2"

definition ORBIS_NP_SIGNALING_EVENT_DEAD :: s32 where
  [simp]: "ORBIS_NP_SIGNALING_EVENT_DEAD = 0"
definition ORBIS_NP_SIGNALING_EVENT_ESTABLISHED :: s32 where
  [simp]: "ORBIS_NP_SIGNALING_EVENT_ESTABLISHED = 1"
definition ORBIS_NP_SIGNALING_EVENT_NETINFO_ERROR :: s32 where
  [simp]: "ORBIS_NP_SIGNALING_EVENT_NETINFO_ERROR = 2"
definition ORBIS_NP_SIGNALING_EVENT_NETINFO_RESULT :: s32 where
  [simp]: "ORBIS_NP_SIGNALING_EVENT_NETINFO_RESULT = 3"
definition ORBIS_NP_SIGNALING_EVENT_PEER_ACTIVATED :: s32 where
  [simp]: "ORBIS_NP_SIGNALING_EVENT_PEER_ACTIVATED = 10"
definition ORBIS_NP_SIGNALING_EVENT_PEER_DEACTIVATED :: s32 where
  [simp]: "ORBIS_NP_SIGNALING_EVENT_PEER_DEACTIVATED = 11"
definition ORBIS_NP_SIGNALING_EVENT_MUTUAL_ACTIVATED :: s32 where
  [simp]: "ORBIS_NP_SIGNALING_EVENT_MUTUAL_ACTIVATED = 12"

section \<open>Lemmas\<close>

lemma SetNpOnlineId_data:
  "oid_data (SetNpOnlineId src) = take 16 src @ replicate (16 - length src) 0"
  by (simp add: SetNpOnlineId_def zero_online_id_def Let_def min_def)

lemma SetNpOnlineId_ok: "online_id_ok (SetNpOnlineId src)"
  by (simp add: online_id_ok_def SetNpOnlineId_data)
    (simp add: SetNpOnlineId_def zero_online_id_def Let_def)

lemma OnlineIdToString_length: "length (OnlineIdToString oid) \<le> 16"
  unfolding OnlineIdToString_def
  by (rule order_trans [OF length_takeWhile_le]) simp

lemma OnlineIdToString_no_nul: "0 \<notin> set (OnlineIdToString oid)"
  unfolding OnlineIdToString_def by (auto dest: set_takeWhileD)

lemma takeWhile_app_zeros: "takeWhile (\<lambda>b::u8. b \<noteq> 0) (xs @ replicate n 0) = takeWhile (\<lambda>b. b \<noteq> 0) xs"
  by (induction xs) (auto simp: takeWhile_eq_Nil_iff hd_replicate)

lemma handle_NpIdFromOnlineId [simp]: "handle (NpIdFromOnlineId oid) = oid"
  by (simp add: NpIdFromOnlineId_def)

text \<open>
  Storing a string in an online id and reading it back gives its first 16 bytes up
  to the first NUL; so a string of at most 16 bytes without NUL is read back unchanged.
\<close>

theorem online_id_roundtrip:
  "OnlineIdToString (SetNpOnlineId src) = takeWhile (\<lambda>b. b \<noteq> 0) (take 16 src)"
  by (simp add: OnlineIdToString_def SetNpOnlineId_data takeWhile_app_zeros)

lemma online_id_roundtrip_id:
  assumes "length src \<le> 16" and "0 \<notin> set src"
  shows "takeWhile (\<lambda>b. b \<noteq> 0) (take 16 src) = src"
  using assms by (auto simp: takeWhile_eq_all_conv)

end
