(* ===== verification/SigPackets.thy ===== *)
theory SigPackets
  imports NpTypes
begin

text \<open>
  The packets of the peer-to-peer signaling protocol (np_signaling_state.h): the packed
  structs, their byte layouts, the magic and the type byte, and the lemmas that decoding an
  encoded packet gives it back and that the layouts have the sizes the code asserts.
\<close>

section \<open>Packet types\<close>

definition kSignalingMagic :: bytes where
  "kSignalingMagic = [0x53, 0x48, 0x41, 0x44]"

datatype SignalingPacketType = EchoPing | EchoPong | Handshake | Control

fun packet_type_byte :: "SignalingPacketType \<Rightarrow> u8" where
  "packet_type_byte EchoPing = 0x05"
| "packet_type_byte EchoPong = 0x06"
| "packet_type_byte Handshake = 0x07"
| "packet_type_byte Control = 0x10"

datatype HandshakeKind = Offer | Accept | Check | CheckAck

fun handshake_kind_byte :: "HandshakeKind \<Rightarrow> u8" where
  "handshake_kind_byte Offer = 1"
| "handshake_kind_byte Accept = 2"
| "handshake_kind_byte Check = 3"
| "handshake_kind_byte CheckAck = 4"

datatype ControlKind = ActivationRequest | ActivationAck | Close | EstablishedMsg

fun control_kind_byte :: "ControlKind \<Rightarrow> u8" where
  "control_kind_byte ActivationRequest = 1"
| "control_kind_byte ActivationAck = 2"
| "control_kind_byte Close = 3"
| "control_kind_byte EstablishedMsg = 4"

datatype ControlReason = Terminate | Deactivate

fun control_reason_word :: "ControlReason \<Rightarrow> u16" where
  "control_reason_word Terminate = 0"
| "control_reason_word Deactivate = 1"

section \<open>Packet structs\<close>

text \<open>
  The \<open>magic\<close> and \<open>type\<close> members are constants of every packet the code builds; the decoders
  below are applied to buffers whose first five bytes have been tested, so the records carry
  the other members.
\<close>

record StunPing =
  sp_cmd :: u8
  sp_online_id :: bytes
  sp_local_ip :: u32

record StunEcho =
  ext_ip :: u32
  ext_port :: u16

record SignalingEchoPing =
  ping_conn_id :: u32
  send_ts_us :: u64

record SignalingEchoPong =
  pong_conn_id :: u32
  orig_ts_us :: u64

record SignalingHandshake =
  hs_kind :: u8
  hs_online_id_from :: bytes
  hs_online_id_to :: bytes
  hs_from_conn_id :: u32
  hs_to_conn_id :: u32
  hs_mapped_addr :: u32
  hs_mapped_port :: u16
  hs_reserved :: u16
  hs_nonce :: u64

record SignalingControl =
  ct_kind :: u8
  ct_online_id_from :: bytes
  ct_online_id_to :: bytes
  ct_from_conn_id :: u32
  ct_mapped_addr :: u32
  ct_mapped_port :: u16
  ct_reason :: u16

definition zero_handshake :: SignalingHandshake where
  "zero_handshake = \<lparr>hs_kind = 0, hs_online_id_from = replicate 16 0, hs_online_id_to = replicate 16 0,
     hs_from_conn_id = 0, hs_to_conn_id = 0, hs_mapped_addr = 0, hs_mapped_port = 0,
     hs_reserved = 0, hs_nonce = 0\<rparr>"

definition zero_control :: SignalingControl where
  "zero_control = \<lparr>ct_kind = 0, ct_online_id_from = replicate 16 0, ct_online_id_to = replicate 16 0,
     ct_from_conn_id = 0, ct_mapped_addr = 0, ct_mapped_port = 0, ct_reason = 0\<rparr>"

text \<open>The packets the signaling code sends, and the bytes that go on the wire.\<close>

datatype packet =
    PktStunPing StunPing
  | PktEchoPing SignalingEchoPing
  | PktEchoPong SignalingEchoPong
  | PktHandshake SignalingHandshake
  | PktControl SignalingControl

definition enc_stun_ping :: "StunPing \<Rightarrow> bytes" where
  "enc_stun_ping p = [sp_cmd p] @ sp_online_id p @ le_bytes 4 (sp_local_ip p)"

definition enc_stun_echo :: "StunEcho \<Rightarrow> bytes" where
  "enc_stun_echo p = le_bytes 4 (ext_ip p) @ le_bytes 2 (ext_port p)"

definition enc_echo_ping :: "SignalingEchoPing \<Rightarrow> bytes" where
  "enc_echo_ping p = kSignalingMagic @ [packet_type_byte EchoPing] @
     le_bytes 4 (ping_conn_id p) @ le_bytes 8 (send_ts_us p)"

definition enc_echo_pong :: "SignalingEchoPong \<Rightarrow> bytes" where
  "enc_echo_pong p = kSignalingMagic @ [packet_type_byte EchoPong] @
     le_bytes 4 (pong_conn_id p) @ le_bytes 8 (orig_ts_us p)"

definition enc_handshake :: "SignalingHandshake \<Rightarrow> bytes" where
  "enc_handshake p = kSignalingMagic @ [packet_type_byte Handshake, hs_kind p] @
     hs_online_id_from p @ hs_online_id_to p @ le_bytes 4 (hs_from_conn_id p) @
     le_bytes 4 (hs_to_conn_id p) @ le_bytes 4 (hs_mapped_addr p) @
     le_bytes 2 (hs_mapped_port p) @ le_bytes 2 (hs_reserved p) @ le_bytes 8 (hs_nonce p)"

definition enc_control :: "SignalingControl \<Rightarrow> bytes" where
  "enc_control p = kSignalingMagic @ [packet_type_byte Control, ct_kind p] @
     ct_online_id_from p @ ct_online_id_to p @ le_bytes 4 (ct_from_conn_id p) @
     le_bytes 4 (ct_mapped_addr p) @ le_bytes 2 (ct_mapped_port p) @ le_bytes 2 (ct_reason p)"

fun enc_packet :: "packet \<Rightarrow> bytes" where
  "enc_packet (PktStunPing p) = enc_stun_ping p"
| "enc_packet (PktEchoPing p) = enc_echo_ping p"
| "enc_packet (PktEchoPong p) = enc_echo_pong p"
| "enc_packet (PktHandshake p) = enc_handshake p"
| "enc_packet (PktControl p) = enc_control p"

text \<open>The \<open>memcpy\<close> of a received buffer into the struct.\<close>

definition dec_stun_echo :: "bytes \<Rightarrow> StunEcho" where
  "dec_stun_echo buf = \<lparr>ext_ip = le_word (mem_slice 0 4 buf), ext_port = le_word (mem_slice 4 2 buf)\<rparr>"

definition dec_echo_ping :: "bytes \<Rightarrow> SignalingEchoPing" where
  "dec_echo_ping buf =
     \<lparr>ping_conn_id = le_word (mem_slice 5 4 buf), send_ts_us = le_word (mem_slice 9 8 buf)\<rparr>"

definition dec_echo_pong :: "bytes \<Rightarrow> SignalingEchoPong" where
  "dec_echo_pong buf =
     \<lparr>pong_conn_id = le_word (mem_slice 5 4 buf), orig_ts_us = le_word (mem_slice 9 8 buf)\<rparr>"

definition dec_handshake :: "bytes \<Rightarrow> SignalingHandshake" where
  "dec_handshake buf = \<lparr>hs_kind = le_word (mem_slice 5 1 buf),
     hs_online_id_from = mem_slice 6 16 buf, hs_online_id_to = mem_slice 22 16 buf,
     hs_from_conn_id = le_word (mem_slice 38 4 buf), hs_to_conn_id = le_word (mem_slice 42 4 buf),
     hs_mapped_addr = le_word (mem_slice 46 4 buf), hs_mapped_port = le_word (mem_slice 50 2 buf),
     hs_reserved = le_word (mem_slice 52 2 buf), hs_nonce = le_word (mem_slice 54 8 buf)\<rparr>"

definition dec_control :: "bytes \<Rightarrow> SignalingControl" where
  "dec_control buf = \<lparr>ct_kind = le_word (mem_slice 5 1 buf),
     ct_online_id_from = mem_slice 6 16 buf, ct_online_id_to = mem_slice 22 16 buf,
     ct_from_conn_id = le_word (mem_slice 38 4 buf), ct_mapped_addr = le_word (mem_slice 42 4 buf),
     ct_mapped_port = le_word (mem_slice 46 2 buf), ct_reason = le_word (mem_slice 48 2 buf)\<rparr>"

definition HasSignalingMagic :: "bytes \<Rightarrow> bool" where
  "HasSignalingMagic buf \<longleftrightarrow>
     length kSignalingMagic + 1 \<le> length buf \<and> take (length kSignalingMagic) buf = kSignalingMagic"

section \<open>Layout lemmas\<close>

definition handshake_wf :: "SignalingHandshake \<Rightarrow> bool" where
  "handshake_wf p \<longleftrightarrow> length (hs_online_id_from p) = 16 \<and> length (hs_online_id_to p) = 16"

definition control_wf :: "SignalingControl \<Rightarrow> bool" where
  "control_wf p \<longleftrightarrow> length (ct_online_id_from p) = 16 \<and> length (ct_online_id_to p) = 16"

fun packet_wf :: "packet \<Rightarrow> bool" where
  "packet_wf (PktStunPing p) = (length (sp_online_id p) = 16)"
| "packet_wf (PktHandshake p) = handshake_wf p"
| "packet_wf (PktControl p) = control_wf p"
| "packet_wf _ = True"

lemmas enc_defs = enc_stun_ping_def enc_stun_echo_def enc_echo_ping_def enc_echo_pong_def
  enc_handshake_def enc_control_def kSignalingMagic_def

lemmas dec_defs = dec_stun_echo_def dec_echo_ping_def dec_echo_pong_def dec_handshake_def
  dec_control_def

text \<open>The sizes the code asserts with \<open>static_assert\<close>.\<close>

lemma enc_sizes:
  "length (enc_stun_echo e) = 6"
  "length (enc_echo_ping pi) = 17"
  "length (enc_echo_pong po) = 17"
  "handshake_wf hs \<Longrightarrow> length (enc_handshake hs) = 0x3e"
  "control_wf ct \<Longrightarrow> length (enc_control ct) = 0x32"
  by (simp_all add: enc_defs handshake_wf_def control_wf_def)

lemma le_bytes_1 [simp]: "le_bytes (Suc 0) (b :: u8) = [b]"
  by simp

lemma le_word_byte [simp]: "le_word [b :: u8] = b"
  by simp

lemma mem_slice_Cons:
  "0 < off \<Longrightarrow> mem_slice off n (x # xs) = mem_slice (off - 1) n xs"
  by (simp add: mem_slice_def drop_Cons')

lemma mem_slice_Cons_hit: "mem_slice 0 (Suc 0) (x # xs) = [x]"
  by (simp add: mem_slice_def)

lemmas slice_comp = slice_simps mem_slice_Cons mem_slice_Cons_hit

lemma dec_enc_stun_echo [simp]: "dec_stun_echo (enc_stun_echo e) = e"
  by (simp add: dec_defs enc_defs slice_comp del: le_bytes.simps)

lemma dec_enc_echo_ping [simp]: "dec_echo_ping (enc_echo_ping p) = p"
  by (simp add: dec_defs enc_defs slice_comp del: le_bytes.simps)

lemma dec_enc_echo_pong [simp]: "dec_echo_pong (enc_echo_pong p) = p"
  by (simp add: dec_defs enc_defs slice_comp del: le_bytes.simps)

lemma dec_enc_handshake [simp]: "handshake_wf p \<Longrightarrow> dec_handshake (enc_handshake p) = p"
  by (simp add: dec_defs enc_defs slice_comp handshake_wf_def del: le_bytes.simps)

lemma dec_enc_control [simp]: "control_wf p \<Longrightarrow> dec_control (enc_control p) = p"
  by (simp add: dec_defs enc_defs slice_comp control_wf_def del: le_bytes.simps)

lemma enc_has_magic [simp]:
  "HasSignalingMagic (enc_echo_ping pi)"
  "HasSignalingMagic (enc_echo_pong po)"
  "HasSignalingMagic (enc_handshake hs)"
  "HasSignalingMagic (enc_control ct)"
  by (simp_all add: HasSignalingMagic_def enc_defs)

lemma enc_type_byte [simp]:
  "enc_echo_ping pi ! 4 = packet_type_byte EchoPing"
  "enc_echo_pong po ! 4 = packet_type_byte EchoPong"
  "enc_handshake hs ! 4 = packet_type_byte Handshake"
  "enc_control ct ! 4 = packet_type_byte Control"
  by (simp_all add: enc_defs)

end
