(* ===== verification/SigTypes.thy ===== *)
theory SigTypes
  imports SigPackets
begin

text \<open>
  The state of the signaling library (np_signaling_state.h): peer transports, connections,
  contexts, queued callbacks and the process-wide \<open>NpSignalingState\<close>, with the matching2 caches
  the signaling code reads and writes (np_matching2_cache.h, the parts of \<open>ContextObject\<close> it
  uses) and the environment: the clock, the random device and the transport hooks.
\<close>

section \<open>Peer transports\<close>

datatype ConnState =
    Inactive | SendingOffer | WaitOffer | ConnCheck | SendingAccept | WaitAccept | Established

definition kActivateCooldownUs :: s64 where [simp]: "kActivateCooldownUs = 6000000"
definition kActivateBudgetMaxUs :: s64 where [simp]: "kActivateBudgetMaxUs = 600000000"
definition kProbeSampleCount :: u32 where [simp]: "kProbeSampleCount = 6"
definition kPeerNetInfoRequestIdPrefix :: u32 where [simp]: "kPeerNetInfoRequestIdPrefix = 0x21000000"

record PeerTransport =
  pt_transport_id :: s32
  pt_addr :: u32
  pt_port :: u16
  pt_local_addr :: u32
  pt_local_port :: u16
  pt_npid :: OrbisNpId
  pt_online_id :: OrbisNpOnlineId
  pt_local_online_id :: OrbisNpOnlineId
  pt_status :: s32
  pt_state :: ConnState
  pt_peer_activated :: bool
  pt_peer_established :: bool
  pt_transport_established_fired :: bool
  pt_is_initiator :: bool
  pt_probe_rtt_samples :: "s32 list"
  pt_probe_sample_write_index :: u32
  pt_last_echo_ping_us :: s64
  pt_last_peer_rx_us :: s64
  pt_last_handshake_send_us :: s64

definition zero_transport :: PeerTransport where
  "zero_transport = \<lparr>pt_transport_id = 0, pt_addr = 0, pt_port = 0, pt_local_addr = 0,
     pt_local_port = 0, pt_npid = zero_np_id, pt_online_id = zero_online_id,
     pt_local_online_id = zero_online_id, pt_status = ORBIS_NP_SIGNALING_CONN_STATUS_INACTIVE,
     pt_state = Inactive, pt_peer_activated = False, pt_peer_established = False,
     pt_transport_established_fired = False, pt_is_initiator = False,
     pt_probe_rtt_samples = replicate 6 (-1), pt_probe_sample_write_index = 0,
     pt_last_echo_ping_us = 0, pt_last_peer_rx_us = 0, pt_last_handshake_send_us = 0\<rparr>"

section \<open>Connections\<close>

record ConnectionInfo =
  ci_conn_id :: s32
  ci_ctx_id :: s32
  ci_transport_id :: s32
  ci_status :: s32
  ci_npid :: OrbisNpId
  ci_online_id :: OrbisNpOnlineId
  ci_sig1_established_event_fired :: bool
  ci_locally_activated :: bool
  ci_peer_activated :: bool
  ci_peer_activated_fired :: bool
  ci_mutual_fired :: bool
  ci_dead_fired :: bool

definition zero_connection :: ConnectionInfo where
  "zero_connection = \<lparr>ci_conn_id = 0, ci_ctx_id = 0, ci_transport_id = 0,
     ci_status = ORBIS_NP_SIGNALING_CONN_STATUS_INACTIVE, ci_npid = zero_np_id,
     ci_online_id = zero_online_id, ci_sig1_established_event_fired = False,
     ci_locally_activated = False, ci_peer_activated = False, ci_peer_activated_fired = False,
     ci_mutual_fired = False, ci_dead_fired = False\<rparr>"

section \<open>Contexts\<close>

text \<open>
  A function or data pointer is its address, 0 for null. The STUN condition variable has no
  data; \<open>ext_addr\<close> and \<open>ext_port\<close> are the atomics.
\<close>

type_synonym ptr = u64

record NpSignalingContext =
  cx_callback :: ptr
  cx_callback_arg :: ptr
  cx_active :: bool
  cx_flags :: u32
  cx_compiled_sdk_version :: u32
  cx_account_id :: u64
  cx_platform_type :: u32
  cx_owner_npid :: OrbisNpId
  cx_owner_online_id :: OrbisNpOnlineId
  cx_bound_port :: u16
  cx_ext_addr :: u32
  cx_ext_port :: u16
  cx_activate_budget_us :: s64
  cx_activate_last_update_us :: s64

definition zero_context :: NpSignalingContext where
  "zero_context = \<lparr>cx_callback = 0, cx_callback_arg = 0, cx_active = False, cx_flags = 0,
     cx_compiled_sdk_version = 0, cx_account_id = 0, cx_platform_type = 0,
     cx_owner_npid = zero_np_id, cx_owner_online_id = zero_online_id, cx_bound_port = 0,
     cx_ext_addr = 0, cx_ext_port = 0, cx_activate_budget_us = 0, cx_activate_last_update_us = 0\<rparr>"

text \<open>The key of the index from (context, peer) to connection; \<open>==\<close> compares all its bytes.\<close>

type_synonym CtxNpIdKey = "s32 \<times> OrbisNpId"

record QueuedDispatch =
  qd_fire_at :: s64
  qd_delay_ms :: u32
  qd_ctx_id :: s32
  qd_conn_id :: s32
  qd_event_type :: u32
  qd_error_code :: u32
  qd_callback :: ptr
  qd_callback_arg :: ptr

record PeerNetInfoResult =
  ni_ctx_id :: s32
  ni_conn_id :: s32
  ni_local_ipv4 :: u32
  ni_external_ipv4 :: u32
  ni_nat_route_kind :: u32

record PendingActivation =
  pa_conn_id :: s32
  pa_peer_online_id :: bytes
  pa_start_handshake :: bool

section \<open>The matching2 side of a connection (np_matching2_cache.h)\<close>

record PeerInfo =
  pi_addr :: u32
  pi_port :: u16
  pi_member_id :: u16
  pi_conn_id :: s32
  pi_status :: s32
  pi_online_id :: OrbisNpOnlineId
  pi_sent_established :: bool
  pi_active_since_us :: s64
  pi_ping_us :: u32

definition zero_peer :: PeerInfo where
  "zero_peer = \<lparr>pi_addr = 0, pi_port = 0, pi_member_id = 0, pi_conn_id = 0, pi_status = 0,
     pi_online_id = zero_online_id, pi_sent_established = False, pi_active_since_us = 0,
     pi_ping_us = 0\<rparr>"

record MemberBinCache =
  mb_id :: u16
  mb_update_date :: u64
  mb_data :: bytes

record MemberCache =
  mc_np_id :: OrbisNpId
  mc_account_id :: u64
  mc_platform :: s32
  mc_join_date :: u64
  mc_member_id :: u16
  mc_team_id :: u8
  mc_group_id :: u8
  mc_nat_type :: u8
  mc_flag_attr :: u32
  mc_addr :: u32
  mc_port :: u16
  mc_bins :: "(u16 \<times> MemberBinCache) list"

datatype SignalingType = TypeNone | TypeMesh | TypeStar

text \<open>The attributes of a room (np_matching2.h), whose data pointers are addresses.\<close>

record RoomBinAttrInternal =
  ba_last_update :: u64
  ba_member_id :: u16
  ba_id :: u16
  ba_ptr :: ptr
  ba_size :: u64

record RoomGroup =
  rg_id :: u8
  rg_has_passwd :: bool
  rg_has_label :: bool
  rg_label :: bytes
  rg_slots :: u32
  rg_group_members :: u32

record RoomCache =
  rc_num_slots :: u32
  rc_mask_password :: u64
  rc_signaling_type :: SignalingType
  rc_signaling_main_member :: u16
  rc_server_id :: u16
  rc_world_id :: u32
  rc_lobby_id :: u64
  rc_room_id :: u64
  rc_max_slot :: u16
  rc_public_slots :: u16
  rc_private_slots :: u16
  rc_open_public_slots :: u16
  rc_open_private_slots :: u16
  rc_passwd_slot_mask :: u64
  rc_joined_slot_mask :: u64
  rc_flags :: u32
  rc_bin_attrs_internal :: "RoomBinAttrInternal list"
  rc_bin_buffers :: "bytes list"
  rc_groups :: "(u8 \<times> RoomGroup) list"
  rc_members :: "(u16 \<times> MemberCache) list"
  rc_owner :: bool

text \<open>A matching2 context (np_matching2_internal.h), then its entry of the context cache.\<close>

record M2Context =
  m2_ctx_id :: u16
  m2_started :: bool
  m2_stop_pending :: bool
  m2_destroy_pending :: bool
  m2_a_variant :: bool
  m2_server_id :: u16
  m2_service_label :: u32
  m2_owner_np_id :: OrbisNpId
  m2_online_id :: OrbisNpOnlineId
  m2_world_id :: u32
  m2_lobby_id :: u64
  m2_room_id :: u64
  m2_my_member_id :: u16
  m2_is_room_owner :: bool
  m2_max_slot :: u32
  m2_flag_attr :: u32
  m2_context_callback :: ptr
  m2_context_callback_arg :: ptr
  m2_default_request_callback :: ptr
  m2_default_request_callback_arg :: ptr
  m2_per_request_callback :: ptr
  m2_per_request_callback_arg :: ptr
  m2_room_event_callback :: ptr
  m2_room_event_callback_arg :: ptr
  m2_room_message_callback :: ptr
  m2_room_message_callback_arg :: ptr
  m2_lobby_event_callback :: ptr
  m2_lobby_event_callback_arg :: ptr
  m2_lobby_message_callback :: ptr
  m2_lobby_message_callback_arg :: ptr
  m2_signaling_callback :: ptr
  m2_signaling_callback_arg :: ptr
  m2_peers :: "(u16 \<times> PeerInfo) list"
  m2_rooms :: "(u64 \<times> RoomCache) list"

datatype M2EventKind = M2Dead | M2Established

record M2Event =
  ev_ctx_id :: u16
  ev_room_id :: u64
  ev_member_id :: u16
  ev_sig_event :: M2EventKind
  ev_error_code :: s32

section \<open>The environment\<close>

datatype channel = SignalingSend | ControlSend

record SentPacket =
  sn_channel :: channel
  sn_packet :: packet
  sn_addr :: u32
  sn_port :: u16

text \<open>
  The hooks of np_signaling_transport.h, each of them nullable. A send hook is its result for
  the arguments it is given; what is sent is recorded in \<open>sent\<close>. The resolver returns its
  boolean with the two out values.
\<close>

record TransportHooks =
  signaling_send :: "(packet \<Rightarrow> u32 \<Rightarrow> u16 \<Rightarrow> s32) option"
  control_send :: "(packet \<Rightarrow> u32 \<Rightarrow> u16 \<Rightarrow> s32) option"
  transport_ready :: "bool option"
  configured_port :: "u16 option"
  advertised_addr :: "u32 option"
  ensure_transport :: "bool option"
  peer_resolver :: "(bytes \<Rightarrow> bool \<times> u32 \<times> u16) option"
  matching2_enabled :: bool
  mm_server_addr :: u32
  mm_server_udp_port :: u16

text \<open>
  The external calls the signaling code relies on: the successive readings of the steady clock in microseconds,
  the successive values of the random device, the system's online id check, the compiled SDK
  version (\<open>None\<close> when the call fails) and the NAT information of the network library
  (\<open>None\<close> when the call fails).
\<close>

record Platform =
  clock :: "nat \<Rightarrow> s64"
  random_device :: "nat \<Rightarrow> u32"
  valid_online_id :: "OrbisNpOnlineId \<Rightarrow> bool"
  compiled_sdk_version :: "u32 option"
  nat_info :: "(u32 \<times> u32) option"

record SigState =
  contexts :: "(s32 \<times> NpSignalingContext) list"
  connections :: "(s32 \<times> ConnectionInfo) list"
  peer_transports :: "(s32 \<times> PeerTransport) list"
  npid_to_conn :: "(CtxNpIdKey \<times> s32) list"
  peer_netinfo_results :: "(s32 \<times> PeerNetInfoResult) list"
  pending_activations :: "PendingActivation list"
  peer_netinfo_next_id :: u32
  peak_connection_count :: u32
  last_assigned_context_id :: u32
  connection_id_seed :: u32
  transport_id_seed :: u32
  initialized :: bool
  dispatch_queue :: "QueuedDispatch list"
  dispatch_thread :: bool
  dispatch_stop :: bool
  delivered :: "QueuedDispatch list"
  runtime_stop :: bool
  runtime_thread :: bool
  activation_thread :: bool
  context_refs :: u32
  external_ip :: u32
  m2_contexts :: "(u16 \<times> M2Context) list"
  m2_events :: "M2Event list"
  hooks :: TransportHooks
  sent :: "SentPacket list"
  platform :: Platform
  clock_reads :: nat
  random_reads :: nat

definition zero_hooks :: TransportHooks where
  "zero_hooks = \<lparr>signaling_send = None, control_send = None, transport_ready = None,
     configured_port = None, advertised_addr = None, ensure_transport = None,
     peer_resolver = None, matching2_enabled = False, mm_server_addr = 0, mm_server_udp_port = 0\<rparr>"

text \<open>The state of the library when the plugin is loaded on a given platform.\<close>

definition init_state :: "Platform \<Rightarrow> SigState" where
  "init_state pf = \<lparr>contexts = [], connections = [], peer_transports = [], npid_to_conn = [],
     peer_netinfo_results = [], pending_activations = [], peer_netinfo_next_id = 1,
     peak_connection_count = 0, last_assigned_context_id = 0, connection_id_seed = 0,
     transport_id_seed = 0, initialized = False, dispatch_queue = [], dispatch_thread = False,
     dispatch_stop = False, delivered = [], runtime_stop = False, runtime_thread = False,
     activation_thread = False, context_refs = 0, external_ip = 0, m2_contexts = [],
     m2_events = [], hooks = zero_hooks, sent = [], platform = pf, clock_reads = 0,
     random_reads = 0\<rparr>"

definition ResetSig1Data :: "SigState \<Rightarrow> SigState" where
  "ResetSig1Data s = s\<lparr>contexts := [], connections := [], npid_to_conn := [],
     peer_netinfo_results := [], pending_activations := [], peer_netinfo_next_id := 1,
     peak_connection_count := 0, last_assigned_context_id := 0, connection_id_seed := 0\<rparr>"

section \<open>Reading the clock, sending (np_signaling_transport.cpp)\<close>

definition NowUs :: "SigState \<Rightarrow> s64 \<times> SigState" where
  "NowUs s = (clock (platform s) (clock_reads s), s\<lparr>clock_reads := Suc (clock_reads s)\<rparr>)"

definition SignalingSendTo :: "packet \<Rightarrow> u32 \<Rightarrow> u16 \<Rightarrow> SigState \<Rightarrow> s32 \<times> SigState" where
  "SignalingSendTo pkt addr port s =
     (case signaling_send (hooks s) of
        None \<Rightarrow> (-1, s)
      | Some f \<Rightarrow> (f pkt addr port,
          s\<lparr>sent := sent s @ [\<lparr>sn_channel = SignalingSend, sn_packet = pkt, sn_addr = addr, sn_port = port\<rparr>]\<rparr>))"

definition ControlSendTo :: "packet \<Rightarrow> u32 \<Rightarrow> u16 \<Rightarrow> SigState \<Rightarrow> s32 \<times> SigState" where
  "ControlSendTo pkt addr port s =
     (case control_send (hooks s) of
        None \<Rightarrow> (-1, s)
      | Some f \<Rightarrow> (f pkt addr port,
          s\<lparr>sent := sent s @ [\<lparr>sn_channel = ControlSend, sn_packet = pkt, sn_addr = addr, sn_port = port\<rparr>]\<rparr>))"

definition TransportIsReady :: "SigState \<Rightarrow> bool" where
  "TransportIsReady s = (case transport_ready (hooks s) of None \<Rightarrow> False | Some b \<Rightarrow> b)"

definition ConfiguredPort :: "SigState \<Rightarrow> u16" where
  "ConfiguredPort s = (case configured_port (hooks s) of None \<Rightarrow> 0 | Some p \<Rightarrow> p)"

definition AdvertisedAddr :: "SigState \<Rightarrow> u32" where
  "AdvertisedAddr s = (case advertised_addr (hooks s) of None \<Rightarrow> 0 | Some a \<Rightarrow> a)"

definition EnsureTransport :: "SigState \<Rightarrow> bool" where
  "EnsureTransport s = (case ensure_transport (hooks s) of None \<Rightarrow> TransportIsReady s | Some b \<Rightarrow> b)"

definition ResolvePeer :: "bytes \<Rightarrow> SigState \<Rightarrow> bool \<times> u32 \<times> u16" where
  "ResolvePeer online_id s =
     (case peer_resolver (hooks s) of None \<Rightarrow> (False, 0, 0) | Some f \<Rightarrow> f online_id)"

definition SetPeerResolver ::
  "(bytes \<Rightarrow> bool \<times> u32 \<times> u16) option \<Rightarrow> SigState \<Rightarrow> SigState" where
  "SetPeerResolver fn s = s\<lparr>hooks := (hooks s)\<lparr>peer_resolver := fn\<rparr>\<rparr>"

definition SetMatching2Enabled :: "bool \<Rightarrow> SigState \<Rightarrow> SigState" where
  "SetMatching2Enabled enabled s = s\<lparr>hooks := (hooks s)\<lparr>matching2_enabled := enabled\<rparr>\<rparr>"

definition SetMmServerEndpoint :: "u32 \<Rightarrow> u16 \<Rightarrow> SigState \<Rightarrow> SigState" where
  "SetMmServerEndpoint addr udp_port s =
     s\<lparr>hooks := (hooks s)\<lparr>mm_server_addr := addr, mm_server_udp_port := udp_port\<rparr>\<rparr>"

section \<open>An example environment\<close>

text \<open>A concrete platform for the examples of the development: a clock that ticks every millisecond.\<close>

definition example_platform :: Platform where
  "example_platform = \<lparr>clock = (\<lambda>i. 1000 * (int i + 1)), random_device = (\<lambda>i. 0x12345678),
     valid_online_id = (\<lambda>oid. oid_term oid = 0), compiled_sdk_version = Some 0x5008001,
     nat_info = Some (0x0100007f, 2)\<rparr>"

definition example_hooks :: TransportHooks where
  "example_hooks = \<lparr>signaling_send = Some (\<lambda>pkt addr port. 0), control_send = Some (\<lambda>pkt addr port. 0),
     transport_ready = Some True, configured_port = Some 3658, advertised_addr = Some 0x0101a8c0,
     ensure_transport = Some True, peer_resolver = Some (\<lambda>oid. (True, 0x0201a8c0, 0x4a0e)),
     matching2_enabled = True, mm_server_addr = 0x0301a8c0, mm_server_udp_port = 0x4b0e\<rparr>"

definition example_state :: SigState where
  "example_state = (init_state example_platform)\<lparr>hooks := example_hooks, initialized := True\<rparr>"

end
