(* ===== verification/SigState.thy ===== *)
theory SigState
  imports SigTypes
begin

text \<open>
  The operations of np_signaling_state.cpp on the signaling state: validation of Np ids, the
  allocators of context and connection ids, removal of connections, the activation budget,
  connection information and statistics, staged peer network information, the parsing of
  dotted addresses and the staging of callbacks. The properties of each operation follow it.
\<close>

section \<open>Ids and their validity\<close>

definition IsValidNpId :: "Platform \<Rightarrow> OrbisNpId \<Rightarrow> bool" where
  "IsValidNpId pf np_id = valid_online_id pf (handle np_id)"

text \<open>
  A nullable pointer argument is an option. The result is the return code with what
  \<open>*out_npid\<close> holds afterwards (\<open>None\<close>: not written); \<open>*out_online_id\<close> is its handle when the
  code is \<open>ORBIS_OK\<close>.
\<close>

definition NormalizeNpId :: "Platform \<Rightarrow> OrbisNpId option \<Rightarrow> s32 \<times> OrbisNpId option" where
  "NormalizeNpId pf np_id =
     (case np_id of
        None \<Rightarrow> (ORBIS_NP_SIGNALING_ERROR_INVALID_ARGUMENT, None)
      | Some out_npid \<Rightarrow>
          if \<not> IsValidNpId pf out_npid
          then (ORBIS_NP_SIGNALING_ERROR_INVALID_ARGUMENT, Some out_npid)
          else (ORBIS_OK, Some out_npid))"

definition MakeCtxNpIdKey :: "s32 \<Rightarrow> OrbisNpId \<Rightarrow> CtxNpIdKey" where
  "MakeCtxNpIdKey ctx_id npid = (ctx_id, npid)"

definition IsContextValidLocked :: "s32 \<Rightarrow> SigState \<Rightarrow> bool" where
  "IsContextValidLocked ctx_id s =
     (case map_of (contexts s) ctx_id of None \<Rightarrow> False | Some ctx \<Rightarrow> cx_active ctx)"

section \<open>Allocators\<close>

fun alloc_context_loop :: "nat \<Rightarrow> u32 \<Rightarrow> SigState \<Rightarrow> s32 \<times> SigState" where
  "alloc_context_loop tries candidate s =
     (if tries = 0 then (-1, s)
      else if map_of (contexts s) (sint candidate) = None
      then (sint candidate, s\<lparr>last_assigned_context_id := candidate\<rparr>)
      else alloc_context_loop (tries - 1) (if candidate = 8 then 1 else candidate + 1) s)"

definition AllocateContextIdLocked :: "SigState \<Rightarrow> s32 \<times> SigState" where
  "AllocateContextIdLocked s =
     (let candidate = (if last_assigned_context_id s = 8 then 1
                       else last_assigned_context_id s + 1)
      in alloc_context_loop 8 candidate s)"

text \<open>
  Connection ids and transport ids come from the same search: a seed that runs through
  1..0x7fff and the ids already in use.
\<close>

definition next_seed :: "u32 \<Rightarrow> u32" where
  "next_seed seed = (let n = seed + 1 in if n = 0 \<or> n > 0x7fff then 1 else n)"

fun alloc_id_loop :: "nat \<Rightarrow> u32 \<Rightarrow> (s32 \<Rightarrow> bool) \<Rightarrow> s32 \<times> u32" where
  "alloc_id_loop tries seed used =
     (if tries = 0 then (-1, seed)
      else if seed \<noteq> 0 \<and> \<not> used (sint seed) then (sint seed, next_seed seed)
      else alloc_id_loop (tries - 1) (next_seed seed) used)"

declare alloc_context_loop.simps [simp del] alloc_id_loop.simps [simp del]

definition seed_of_random :: "u32 \<Rightarrow> u32" where
  "seed_of_random rnd =
     (let seed = (rnd div 0x4001) AND 0x7fff in if seed = 0 then 1 else seed)"

definition AllocateConnectionIdLocked :: "SigState \<Rightarrow> s32 \<times> SigState" where
  "AllocateConnectionIdLocked s0 =
     (let s = (if connection_id_seed s0 = 0
               then s0\<lparr>connection_id_seed :=
                         seed_of_random (random_device (platform s0) (random_reads s0)),
                       random_reads := Suc (random_reads s0)\<rparr>
               else s0);
          (id, seed) = alloc_id_loop 0x10000 (connection_id_seed s)
                         (\<lambda>c. map_of (connections s) c \<noteq> None)
      in (id, s\<lparr>connection_id_seed := seed\<rparr>))"

section \<open>Removing connections\<close>

definition RemoveConnectionLocked :: "s32 \<Rightarrow> SigState \<Rightarrow> SigState" where
  "RemoveConnectionLocked conn_id s =
     (case map_of (connections s) conn_id of
        None \<Rightarrow> s
      | Some ci \<Rightarrow>
          let map_key = MakeCtxNpIdKey (ci_ctx_id ci) (ci_npid ci);
              s' = (if map_of (npid_to_conn s) map_key = Some conn_id
                    then s\<lparr>npid_to_conn := AList.delete map_key (npid_to_conn s)\<rparr>
                    else s)
          in s'\<lparr>connections := AList.delete conn_id (connections s')\<rparr>)"

definition RemoveContextConnectionsLocked :: "s32 \<Rightarrow> SigState \<Rightarrow> SigState" where
  "RemoveContextConnectionsLocked ctx_id s =
     (let to_remove = keys_where (\<lambda>cid ci. ci_ctx_id ci = ctx_id) (connections s)
      in fold RemoveConnectionLocked to_remove s)"

definition SignalingEventName :: "u32 \<Rightarrow> string" where
  "SignalingEventName event_type =
     (if event_type = 0 then ''DEAD''
      else if event_type = 1 then ''ESTABLISHED''
      else if event_type = 2 then ''NETINFO_ERROR''
      else if event_type = 3 then ''NETINFO_RESULT''
      else if event_type = 10 then ''PEER_ACTIVATED''
      else if event_type = 11 then ''PEER_DEACTIVATED''
      else if event_type = 12 then ''MUTUAL_ACTIVATED''
      else ''UNKNOWN'')"

section \<open>The activation budget\<close>

text \<open>The budget of a context after a request at time \<open>now\<close>, and whether it is granted.\<close>

definition consume_budget :: "s64 \<Rightarrow> NpSignalingContext \<Rightarrow> bool \<times> NpSignalingContext" where
  "consume_budget now ctx =
     (let budget = (if cx_activate_last_update_us ctx = 0 then kActivateBudgetMaxUs
                    else let elapsed = max 0 (now - cx_activate_last_update_us ctx)
                         in min kActivateBudgetMaxUs (cx_activate_budget_us ctx + elapsed));
          ctx' = ctx\<lparr>cx_activate_last_update_us := now, cx_activate_budget_us := budget\<rparr>
      in if budget < kActivateCooldownUs then (False, ctx')
         else (True, ctx'\<lparr>cx_activate_budget_us := budget - kActivateCooldownUs\<rparr>))"

definition ConsumeActivationBudgetLocked :: "s32 \<Rightarrow> SigState \<Rightarrow> bool \<times> SigState" where
  "ConsumeActivationBudgetLocked ctx_id s =
     (let (now, s') = NowUs s;
          (ok, ctx') = consume_budget now (at_or zero_context ctx_id (contexts s'))
      in (ok, s'\<lparr>contexts := AList.update ctx_id ctx' (contexts s')\<rparr>))"

definition FW_170 :: u32 where [simp]: "FW_170 = 0x1700000"

definition ConsumeActivationBudgetGatedLocked :: "s32 \<Rightarrow> SigState \<Rightarrow> bool \<times> SigState" where
  "ConsumeActivationBudgetGatedLocked ctx_id s =
     (if cx_compiled_sdk_version (at_or zero_context ctx_id (contexts s)) < FW_170 then (True, s)
      else ConsumeActivationBudgetLocked ctx_id s)"

definition CaptureCompiledSdkVersion :: "Platform \<Rightarrow> u32" where
  "CaptureCompiledSdkVersion pf = (case compiled_sdk_version pf of None \<Rightarrow> 0 | Some ver \<Rightarrow> ver)"

section \<open>Status, addresses and probes\<close>

definition ConnectionStateFromStatus :: "s32 \<Rightarrow> s32" where
  "ConnectionStateFromStatus status =
     (if status = ORBIS_NP_SIGNALING_CONN_STATUS_ACTIVE then 10
      else if status = ORBIS_NP_SIGNALING_CONN_STATUS_PENDING then 1
      else 0)"

text \<open>
  The parser state is the octets seen, the current number and whether it has a digit; the
  four octets of the C array are written in order, so they are the list of those seen.
\<close>

fun parse_ipv4_loop :: "string \<Rightarrow> u32 list \<Rightarrow> u32 \<Rightarrow> bool \<Rightarrow> (u32 list \<times> u32 \<times> bool) option" where
  "parse_ipv4_loop [] octets cur any_digit = Some (octets, cur, any_digit)"
| "parse_ipv4_loop (c # cs) octets cur any_digit =
     (if of_char c \<ge> (48::nat) \<and> of_char c \<le> (57::nat)
      then let cur' = cur * 10 + of_nat (of_char c - 48)
           in if cur' > 255 then None else parse_ipv4_loop cs octets cur' True
      else if c = CHR ''.''
      then if \<not> any_digit \<or> length octets \<ge> 3 then None
           else parse_ipv4_loop cs (octets @ [cur]) 0 False
      else None)"

definition ParseIpv4Nbo :: "string \<Rightarrow> u32" where
  "ParseIpv4Nbo dotted =
     (case parse_ipv4_loop dotted [] 0 False of
        None \<Rightarrow> 0
      | Some (octets, cur, any_digit) \<Rightarrow>
          if \<not> any_digit \<or> length octets \<noteq> 3 then 0
          else (octets ! 0) OR (push_bit 8 (octets ! 1)) OR (push_bit 16 (octets ! 2))
               OR (push_bit 24 cur))"

text \<open>C++ integer division of the sums below: both operands are non-negative.\<close>

definition AverageProbeRtt :: "PeerTransport \<Rightarrow> s32" where
  "AverageProbeRtt tr =
     (let present = filter (\<lambda>sample. sample > 0) (pt_probe_rtt_samples tr)
      in if present = [] then 0 else to_s32 (sum_list present div int (length present)))"

definition ProbeLossPercent :: "PeerTransport \<Rightarrow> s32" where
  "ProbeLossPercent tr =
     (let present_samples = filter (\<lambda>sample. sample \<noteq> -1) (pt_probe_rtt_samples tr);
          zero_samples = filter (\<lambda>sample. sample = 0) present_samples
      in if present_samples = [] then 0
         else sint (word_of_int ((int (length zero_samples) * 100) div int (length present_samples)) :: u16))"

section \<open>Connection information\<close>

datatype conn_info_code =
    InfoRtt | InfoBandwidth | InfoPeerNpId | InfoPeerAddr | InfoMappedAddr | InfoPacketLoss
  | InfoPeerAddressA | InfoUnknown

definition conn_info_code_of :: "s32 \<Rightarrow> conn_info_code" where
  "conn_info_code_of c =
     (if c = 1 then InfoRtt else if c = 2 then InfoBandwidth else if c = 3 then InfoPeerNpId
      else if c = 4 then InfoPeerAddr else if c = 5 then InfoMappedAddr
      else if c = 6 then InfoPacketLoss else if c = 7 then InfoPeerAddressA else InfoUnknown)"

text \<open>What the call writes through the out pointer it was given.\<close>

datatype conn_info_value =
    ValInt s32 | ValNpId OrbisNpId | ValAddr u32 u16 | ValAccount u64 u32

text \<open>
  \<open>out_a\<close> and \<open>out_b\<close> say whether the pointers are non-null. A call whose pointers are both
  set writes the same value through both, except for the two codes that read one pointer only.
\<close>

definition GetConnectionInfoInternal ::
  "s32 \<Rightarrow> s32 \<Rightarrow> s32 \<Rightarrow> bool \<Rightarrow> bool \<Rightarrow> SigState \<Rightarrow> s32 \<times> conn_info_value option" where
  "GetConnectionInfoInternal ctx_id conn_id info_code out_a out_b s =
     (if \<not> IsContextValidLocked ctx_id s then (ORBIS_NP_SIGNALING_ERROR_CTX_NOT_FOUND, None)
      else case map_of (connections s) conn_id of
        None \<Rightarrow> (ORBIS_NP_SIGNALING_ERROR_CONN_NOT_FOUND, None)
      | Some ci \<Rightarrow>
        if ci_ctx_id ci \<noteq> ctx_id then (ORBIS_NP_SIGNALING_ERROR_CONN_NOT_FOUND, None)
        else
          let transport = map_of (peer_transports s) (ci_transport_id ci);
              established = (ConnectionStateFromStatus (ci_status ci) = 10);
              put = (\<lambda>v. if out_a \<or> out_b then Some v else None)
          in if established \<and> transport = None then (ORBIS_NP_SIGNALING_ERROR_CONN_NOT_FOUND, None)
          else case conn_info_code_of info_code of
            InfoRtt \<Rightarrow>
              if \<not> established then (ORBIS_NP_SIGNALING_ERROR_CONN_IN_PROGRESS, None)
              else (ORBIS_OK, put (ValInt (AverageProbeRtt (the transport))))
          | InfoBandwidth \<Rightarrow>
              if \<not> established then (ORBIS_NP_SIGNALING_ERROR_CONN_IN_PROGRESS, None)
              else (ORBIS_OK, put (ValInt 0))
          | InfoPeerNpId \<Rightarrow>
              if out_a then (ORBIS_OK, Some (ValNpId (ci_npid ci)))
              else (ORBIS_NP_SIGNALING_ERROR_INVALID_ARGUMENT, None)
          | InfoPeerAddr \<Rightarrow>
              if \<not> established then (ORBIS_NP_SIGNALING_ERROR_CONN_IN_PROGRESS, None)
              else (ORBIS_OK, put (ValAddr (pt_addr (the transport)) (pt_port (the transport))))
          | InfoMappedAddr \<Rightarrow>
              if \<not> established then (ORBIS_NP_SIGNALING_ERROR_CONN_IN_PROGRESS, None)
              else (ORBIS_OK, put (ValAddr (pt_local_addr (the transport)) (pt_local_port (the transport))))
          | InfoPacketLoss \<Rightarrow>
              if \<not> established then (ORBIS_NP_SIGNALING_ERROR_CONN_IN_PROGRESS, None)
              else (ORBIS_OK, put (ValInt (ProbeLossPercent (the transport))))
          | InfoPeerAddressA \<Rightarrow>
              if out_a then (ORBIS_NP_SIGNALING_ERROR_INVALID_ARGUMENT, None)
              else if out_b then
                (case map_of (contexts s) ctx_id of
                   Some ctx \<Rightarrow>
                     if cx_account_id ctx \<noteq> 0 \<or> cx_platform_type ctx \<noteq> 0
                     then (ORBIS_OK, Some (ValAccount (cx_account_id ctx) (cx_platform_type ctx)))
                     else (ORBIS_NP_SIGNALING_ERROR_CONN_IN_PROGRESS, None)
                 | None \<Rightarrow> (ORBIS_NP_SIGNALING_ERROR_CONN_IN_PROGRESS, None))
              else (ORBIS_NP_SIGNALING_ERROR_INVALID_ARGUMENT, None)
          | InfoUnknown \<Rightarrow> (ORBIS_NP_SIGNALING_ERROR_INVALID_ARGUMENT, None))"

section \<open>Statistics\<close>

record ConnectionStatistics =
  st_peak :: u32
  st_active :: u32
  st_transient :: u32
  st_established :: u32

definition count_status :: "(s32 \<Rightarrow> bool) \<Rightarrow> SigState \<Rightarrow> u32" where
  "count_status P s =
     of_nat (length (filter (\<lambda>(cid, ci). P (ConnectionStateFromStatus (ci_status ci))) (connections s)))"

definition SnapshotConnectionStatisticsLocked :: "SigState \<Rightarrow> ConnectionStatistics \<times> SigState" where
  "SnapshotConnectionStatisticsLocked s =
     (let established = count_status (\<lambda>st. st = 10) s;
          transient = count_status (\<lambda>st. st \<noteq> 10 \<and> st \<noteq> 0) s;
          active = transient + established;
          s' = (if active > peak_connection_count s then s\<lparr>peak_connection_count := active\<rparr> else s)
      in (\<lparr>st_peak = peak_connection_count s', st_active = active, st_transient = transient,
           st_established = established\<rparr>, s'))"

section \<open>Staged peer network information\<close>

text \<open>
  \<open>info\<close> is zero-initialised before \<open>sceNetCtlGetNatInfo\<close>, whose result code is not read: a
  failing call leaves zeroes.
\<close>

definition StagePeerNetInfoResultLocked :: "s32 \<Rightarrow> SigState \<Rightarrow> u32 \<times> SigState" where
  "StagePeerNetInfoResultLocked ctx_id s =
     (let req_id = kPeerNetInfoRequestIdPrefix OR peer_netinfo_next_id s;
          (mapped, nat) = (case nat_info (platform s) of None \<Rightarrow> (0, 0) | Some i \<Rightarrow> i);
          result = \<lparr>ni_ctx_id = ctx_id, ni_conn_id = sint req_id, ni_local_ipv4 = 0,
                    ni_external_ipv4 = mapped, ni_nat_route_kind = nat\<rparr>
      in (req_id, s\<lparr>peer_netinfo_next_id := peer_netinfo_next_id s + 1,
                    peer_netinfo_results :=
                      AList.update (ni_conn_id result) result (peer_netinfo_results s)\<rparr>))"

definition TakePeerNetInfoResultLocked ::
  "s32 \<Rightarrow> s32 \<Rightarrow> SigState \<Rightarrow> PeerNetInfoResult option \<times> SigState" where
  "TakePeerNetInfoResultLocked ctx_id req_or_conn_id s =
     (case map_of (peer_netinfo_results s) req_or_conn_id of
        None \<Rightarrow> (None, s)
      | Some r \<Rightarrow>
          if ni_ctx_id r \<noteq> ctx_id then (None, s)
          else (Some r, s\<lparr>peer_netinfo_results :=
                            AList.delete req_or_conn_id (peer_netinfo_results s)\<rparr>))"

definition DropPeerNetInfoResultLocked :: "s32 \<Rightarrow> s32 \<Rightarrow> SigState \<Rightarrow> bool \<times> SigState" where
  "DropPeerNetInfoResultLocked ctx_id req_or_conn_id s =
     (let (r, s') = TakePeerNetInfoResultLocked ctx_id req_or_conn_id s in (r \<noteq> None, s'))"

section \<open>Staging callbacks\<close>

text \<open>\<open>multimap::emplace\<close>: after every entry whose time is not later.\<close>

fun dispatch_emplace :: "QueuedDispatch \<Rightarrow> QueuedDispatch list \<Rightarrow> QueuedDispatch list" where
  "dispatch_emplace d [] = [d]"
| "dispatch_emplace d (x # xs) =
     (if qd_fire_at d < qd_fire_at x then d # x # xs else x # dispatch_emplace d xs)"

definition StageBasicCallbackLocked ::
  "NpSignalingContext \<Rightarrow> s32 \<Rightarrow> s32 \<Rightarrow> s32 \<Rightarrow> s32 \<Rightarrow> SigState \<Rightarrow> SigState" where
  "StageBasicCallbackLocked ctx ctx_id conn_id event_type event_data s =
     (if cx_callback ctx = 0 then s
      else
        let (now, s') = NowUs s;
            dispatch = \<lparr>qd_fire_at = now, qd_delay_ms = 0, qd_ctx_id = ctx_id,
                        qd_conn_id = conn_id, qd_event_type = word_of_int event_type,
                        qd_error_code = word_of_int event_data,
                        qd_callback = cx_callback ctx, qd_callback_arg = cx_callback_arg ctx\<rparr>
        in if dispatch_stop s' then s'
           else s'\<lparr>dispatch_queue := dispatch_emplace dispatch (dispatch_queue s')\<rparr>)"

definition DispatchConnectionEvent :: "s32 \<Rightarrow> s32 \<Rightarrow> s32 \<Rightarrow> SigState \<Rightarrow> SigState" where
  "DispatchConnectionEvent conn_id event_type event_data s =
     (case map_of (connections s) conn_id of
        None \<Rightarrow> s
      | Some ci \<Rightarrow>
          let owner_ctx = ci_ctx_id ci in
          (case map_of (contexts s) owner_ctx of
             None \<Rightarrow> s
           | Some ctx \<Rightarrow>
               if cx_active ctx
               then StageBasicCallbackLocked ctx owner_ctx conn_id event_type event_data s
               else s))"

definition DispatchPeerActivatedEvent :: "s32 \<Rightarrow> SigState \<Rightarrow> SigState" where
  "DispatchPeerActivatedEvent conn_id s =
     (case map_of (connections s) conn_id of
        None \<Rightarrow> s
      | Some ci \<Rightarrow>
          let owner_ctx = ci_ctx_id ci;
              local_npid = (case map_of (contexts s) owner_ctx of
                              None \<Rightarrow> zero_np_id | Some ctx \<Rightarrow> cx_owner_npid ctx)
          in fold (\<lambda>(cid, ctx) st.
                     if cid = owner_ctx \<or> \<not> cx_active ctx then st
                     else if cx_owner_npid ctx = local_npid
                     then StageBasicCallbackLocked ctx cid conn_id
                            ORBIS_NP_SIGNALING_EVENT_PEER_ACTIVATED 0 st
                     else st)
                  (contexts s) s)"

section \<open>Queries by peer\<close>

definition GetActiveConnectionIdForPeer :: "bytes \<Rightarrow> SigState \<Rightarrow> s32" where
  "GetActiveConnectionIdForPeer online_id s =
     (case find_key (\<lambda>conn_id ci. OnlineIdEqualsString (ci_online_id ci) online_id \<and>
                       ci_status ci = ORBIS_NP_SIGNALING_CONN_STATUS_ACTIVE) (connections s) of
        None \<Rightarrow> 0 | Some conn_id \<Rightarrow> conn_id)"

definition GetConnectionStatusForPeer :: "bytes \<Rightarrow> SigState \<Rightarrow> s32 \<times> s32" where
  "GetConnectionStatusForPeer online_id s =
     (case find_key (\<lambda>conn_id ci. OnlineIdEqualsString (ci_online_id ci) online_id) (connections s) of
        None \<Rightarrow> (ORBIS_NP_SIGNALING_CONN_STATUS_INACTIVE, 0)
      | Some conn_id \<Rightarrow> (ci_status (at_or zero_connection conn_id (connections s)), conn_id))"

definition GetPeerAddress :: "bytes \<Rightarrow> SigState \<Rightarrow> (u32 \<times> u16) option" where
  "GetPeerAddress online_id s =
     (case find_key (\<lambda>conn_id ci. OnlineIdEqualsString (ci_online_id ci) online_id) (connections s) of
        None \<Rightarrow> None
      | Some conn_id \<Rightarrow>
          map_option (\<lambda>t. (pt_addr t, pt_port t))
            (map_of (peer_transports s)
               (ci_transport_id (at_or zero_connection conn_id (connections s)))))"

section \<open>Allocators hand out fresh ids\<close>

text \<open>
  What the callers of an id allocator rely on, whatever the table it allocates for: the table
  is untouched, a returned id is new and in range, and the search fails only when every id of
  the range is taken.
\<close>

locale id_allocator =
  fixes alloc :: "'s \<Rightarrow> s32 \<times> 's"
    and entries :: "'s \<Rightarrow> (s32 \<times> 'v) list"
    and inv :: "'s \<Rightarrow> bool"
    and bound :: int
  assumes alloc_entries: "inv s \<Longrightarrow> entries (snd (alloc s)) = entries s"
    and alloc_inv: "inv s \<Longrightarrow> inv (snd (alloc s))"
    and alloc_fresh: "inv s \<Longrightarrow> fst (alloc s) \<noteq> -1 \<Longrightarrow>
          1 \<le> fst (alloc s) \<and> fst (alloc s) \<le> bound \<and>
          map_of (entries s) (fst (alloc s)) = None"
    and alloc_full: "inv s \<Longrightarrow> fst (alloc s) = -1 \<Longrightarrow> {1..bound} \<subseteq> dom (map_of (entries s))"
begin

lemma alloc_negative: "inv s \<Longrightarrow> fst (alloc s) < 0 \<longleftrightarrow> fst (alloc s) = -1"
  using alloc_fresh [of s] by linarith

lemma alloc_pos: "inv s \<Longrightarrow> \<not> fst (alloc s) < 0 \<Longrightarrow> 1 \<le> fst (alloc s)"
  using alloc_fresh [of s] by (auto simp: alloc_negative)

lemma alloc_succeeds:
  assumes "inv s" and "int (length (entries s)) < bound"
  shows "fst (alloc s) \<noteq> -1"
proof
  assume "fst (alloc s) = -1"
  with assms(1) have "{1..bound} \<subseteq> dom (map_of (entries s))" by (rule alloc_full)
  then have "card {1..bound} \<le> card (dom (map_of (entries s)))"
    by (intro card_mono finite_dom_map_of)
  also have "\<dots> \<le> length (entries s)" by (rule dom_finite_card)
  finally show False using assms(2) by simp
qed

lemma alloc_fails_iff:
  assumes "inv s"
  shows "fst (alloc s) = -1 \<longleftrightarrow> {1..bound} \<subseteq> dom (map_of (entries s))"
proof
  assume "fst (alloc s) = -1"
  with assms show "{1..bound} \<subseteq> dom (map_of (entries s))" by (rule alloc_full)
next
  assume full: "{1..bound} \<subseteq> dom (map_of (entries s))"
  show "fst (alloc s) = -1"
  proof (rule ccontr)
    assume "fst (alloc s) \<noteq> -1"
    from alloc_fresh [OF assms this] full show False by (auto simp: subset_iff dom_def)
  qed
qed

text \<open>Registering an entry under the new id keeps every entry of the table.\<close>

lemma register_keeps:
  assumes "inv s" and "fst (alloc s) \<noteq> -1" and "map_of (entries s) k = Some v"
  shows "map_of (AList.update (fst (alloc s)) w (entries (snd (alloc s)))) k = Some v"
  using alloc_fresh [OF assms(1,2)] assms by (auto simp: alloc_entries)

end

text \<open>The ids a cyclic search visits: \<open>n\<close> ids from 1, starting at \<open>c\<close>.\<close>

definition cyc :: "int \<Rightarrow> int \<Rightarrow> nat \<Rightarrow> int" where
  "cyc n c k = (c - 1 + int k) mod n + 1"

lemma cyc_0: "1 \<le> c \<Longrightarrow> c \<le> n \<Longrightarrow> cyc n c 0 = c"
  by (simp add: cyc_def)

lemma cyc_Suc: "0 < n \<Longrightarrow> cyc n c (Suc k) = cyc n (if c = n then 1 else c + 1) k"
  by (cases "c = n") (auto simp: cyc_def algebra_simps mod_add_self1)

lemma cyc_onto:
  assumes "1 \<le> i" "i \<le> n" "n \<le> int m"
  shows "\<exists>k < m. cyc n c k = i"
proof (intro exI conjI)
  let ?k = "nat ((i - c) mod n)"
  have pos: "0 < n" using assms by linarith
  have k: "int ?k = (i - c) mod n" using pos by simp
  have "(c - 1 + (i - c) mod n) mod n = (i - 1) mod n"
    by (simp add: mod_add_right_eq)
  then show "cyc n c ?k = i" using assms pos by (simp add: cyc_def k)
  have "(i - c) mod n < n" using pos by simp
  then show "?k < m" using k assms(3) by linarith
qed

lemma context_candidate_step:
  fixes c :: u32
  assumes "1 \<le> uint c" "uint c \<le> 8"
  shows "uint (if c = 8 then 1 else c + 1) = (if uint c = 8 then 1 else uint c + 1)"
proof (cases "c = 8")
  case False
  then have "uint c \<noteq> 8" by (simp add: word_uint_eq_iff)
  then show ?thesis using False assms by (simp add: uint_inc)
qed simp

lemma alloc_context_loop_spec:
  assumes "1 \<le> uint c" "uint c \<le> 8" "alloc_context_loop n c s = (nid, s')"
  shows "(nid = -1 \<and> s' = s \<and> (\<forall>k < n. map_of (contexts s) (cyc 8 (uint c) k) \<noteq> None)) \<or>
         (1 \<le> nid \<and> nid \<le> 8 \<and> map_of (contexts s) nid = None \<and>
          s' = s\<lparr>last_assigned_context_id := word_of_int nid\<rparr>)"
  using assms
proof (induction n arbitrary: c)
  case 0
  then show ?case by (simp add: alloc_context_loop.simps [of 0])
next
  case (Suc n)
  have sc: "sint c = uint c" using Suc.prems(2) by (intro sint_small) simp
  show ?case
  proof (cases "map_of (contexts s) (uint c) = None")
    case True
    with Suc.prems sc show ?thesis
      by (auto simp: alloc_context_loop.simps [of "Suc n"])
  next
    case False
    let ?c = "if c = 8 then 1 else c + 1"
    have u: "uint ?c = (if uint c = 8 then 1 else uint c + 1)"
      using Suc.prems(1,2) by (rule context_candidate_step)
    have "alloc_context_loop n ?c s = (nid, s')"
      using Suc.prems(3) False sc by (simp add: alloc_context_loop.simps [of "Suc n"])
    moreover have "1 \<le> uint ?c" "uint ?c \<le> 8" using Suc.prems(1,2) unfolding u by auto
    ultimately have IH: "(nid = -1 \<and> s' = s \<and> (\<forall>k < n. map_of (contexts s) (cyc 8 (uint ?c) k) \<noteq> None)) \<or>
         (1 \<le> nid \<and> nid \<le> 8 \<and> map_of (contexts s) nid = None \<and>
          s' = s\<lparr>last_assigned_context_id := word_of_int nid\<rparr>)"
      by (rule Suc.IH [rotated 2])
    have "\<And>k. cyc 8 (uint c) (Suc k) = cyc 8 (uint ?c) k" unfolding u by (simp add: cyc_Suc)
    moreover have "cyc 8 (uint c) 0 = uint c" using Suc.prems(1,2) by (rule cyc_0)
    ultimately have "(\<forall>k < n. map_of (contexts s) (cyc 8 (uint ?c) k) \<noteq> None) \<Longrightarrow>
        (\<forall>k < Suc n. map_of (contexts s) (cyc 8 (uint c) k) \<noteq> None)"
      using False by (metis less_Suc_eq_0_disj)
    with IH show ?thesis by blast
  qed
qed

definition context_seed_ok :: "SigState \<Rightarrow> bool" where
  "context_seed_ok s \<longleftrightarrow> uint (last_assigned_context_id s) \<le> 8"

lemma AllocateContextId_cases:
  assumes "context_seed_ok s" "AllocateContextIdLocked s = (nid, s')"
  shows "(nid = -1 \<and> s' = s \<and> {1..8} \<subseteq> dom (map_of (contexts s))) \<or>
         (1 \<le> nid \<and> nid \<le> 8 \<and> map_of (contexts s) nid = None \<and>
          s' = s\<lparr>last_assigned_context_id := word_of_int nid\<rparr>)"
proof -
  let ?c = "if last_assigned_context_id s = 8 then 1 else last_assigned_context_id s + 1"
  have range: "1 \<le> uint ?c" "uint ?c \<le> 8"
  proof -
    have le: "uint (last_assigned_context_id s) \<le> 8" using assms(1) by (simp add: context_seed_ok_def)
    have "last_assigned_context_id s \<noteq> 8 \<Longrightarrow> uint (last_assigned_context_id s) \<noteq> 8"
      by (simp add: word_uint_eq_iff)
    with le show "1 \<le> uint ?c" "uint ?c \<le> 8" by (auto simp: uint_inc)
  qed
  have "alloc_context_loop 8 ?c s = (nid, s')"
    using assms(2) by (simp add: AllocateContextIdLocked_def Let_def)
  from alloc_context_loop_spec [OF range this]
  consider "nid = -1" "s' = s" "\<forall>k < 8. map_of (contexts s) (cyc 8 (uint ?c) k) \<noteq> None"
    | "1 \<le> nid \<and> nid \<le> 8 \<and> map_of (contexts s) nid = None \<and>
          s' = s\<lparr>last_assigned_context_id := word_of_int nid\<rparr>" by blast
  then show ?thesis
  proof cases
    case 1
    have "i \<in> dom (map_of (contexts s))" if "i \<in> {1..8}" for i
      using cyc_onto [of i 8 8 "uint ?c"] that 1(3) by (auto simp: dom_def)
    with 1 show ?thesis by blast
  qed blast
qed

interpretation context_ids: id_allocator AllocateContextIdLocked contexts context_seed_ok 8
proof unfold_locales
  fix s assume ok: "context_seed_ok s"
  obtain nid s' where r: "AllocateContextIdLocked s = (nid, s')" by force
  note c = AllocateContextId_cases [OF ok r]
  show "contexts (snd (AllocateContextIdLocked s)) = contexts s" using c r by auto
  show "context_seed_ok (snd (AllocateContextIdLocked s))"
    using c r ok by (auto simp: context_seed_ok_def uint_word_of_int)
  show "fst (AllocateContextIdLocked s) \<noteq> -1 \<Longrightarrow>
      1 \<le> fst (AllocateContextIdLocked s) \<and> fst (AllocateContextIdLocked s) \<le> 8 \<and>
      map_of (contexts s) (fst (AllocateContextIdLocked s)) = None"
    using c r by auto
  show "fst (AllocateContextIdLocked s) = -1 \<Longrightarrow> {1..8} \<subseteq> dom (map_of (contexts s))"
    using c r by auto
qed

subsection \<open>Connection and transport ids\<close>

definition seed_ok :: "u32 \<Rightarrow> bool" where
  "seed_ok seed \<longleftrightarrow> 1 \<le> uint seed \<and> uint seed \<le> 0x7fff"

lemma next_seed_step:
  assumes "seed_ok seed"
  shows "uint (next_seed seed) = (if uint seed = 0x7fff then 1 else uint seed + 1)"
proof -
  have u: "uint (seed + 1) = uint seed + 1" using assms by (simp add: seed_ok_def uint_inc)
  have nz: "seed + 1 \<noteq> 0" using u assms by (auto simp: word_uint_eq_iff seed_ok_def)
  have gt: "seed + 1 > 0x7fff \<longleftrightarrow> uint seed = 0x7fff"
    using assms u by (auto simp: word_less_def seed_ok_def)
  show ?thesis using u nz gt by (auto simp: next_seed_def Let_def)
qed

lemma next_seed_ok: "seed_ok seed \<Longrightarrow> seed_ok (next_seed seed)"
  using next_seed_step [of seed] by (auto simp: seed_ok_def)

lemma alloc_id_loop_spec:
  assumes "seed_ok seed" "alloc_id_loop n seed used = (nid, seed')"
  shows "seed_ok seed' \<and>
     ((nid = -1 \<and> (\<forall>k < n. used (cyc 0x7fff (uint seed) k))) \<or>
      (1 \<le> nid \<and> nid \<le> 0x7fff \<and> \<not> used nid))"
  using assms
proof (induction n arbitrary: seed)
  case 0
  then show ?case by (simp add: alloc_id_loop.simps [of 0])
next
  case (Suc n)
  have range: "1 \<le> uint seed" "uint seed \<le> 0x7fff" using Suc.prems(1) by (auto simp: seed_ok_def)
  have sc: "sint seed = uint seed" using range(2) by (intro sint_small) simp
  have nz: "seed \<noteq> 0" using range(1) by auto
  show ?case
  proof (cases "used (uint seed)")
    case False
    with Suc.prems sc nz range show ?thesis
      by (auto simp: alloc_id_loop.simps [of "Suc n"] next_seed_ok)
  next
    case True
    have "alloc_id_loop n (next_seed seed) used = (nid, seed')"
      using Suc.prems(2) True sc by (simp add: alloc_id_loop.simps [of "Suc n"])
    with Suc.IH [OF next_seed_ok [OF Suc.prems(1)]] have IH: "seed_ok seed' \<and>
     ((nid = -1 \<and> (\<forall>k < n. used (cyc 0x7fff (uint (next_seed seed)) k))) \<or>
      (1 \<le> nid \<and> nid \<le> 0x7fff \<and> \<not> used nid))" by blast
    have "\<And>k. cyc 0x7fff (uint seed) (Suc k) = cyc 0x7fff (uint (next_seed seed)) k"
      using Suc.prems(1) by (simp add: cyc_Suc next_seed_step)
    moreover have "cyc 0x7fff (uint seed) 0 = uint seed" using range by (rule cyc_0)
    ultimately have "(\<forall>k < n. used (cyc 0x7fff (uint (next_seed seed)) k)) \<Longrightarrow>
        (\<forall>k < Suc n. used (cyc 0x7fff (uint seed) k))"
      using True by (metis less_Suc_eq_0_disj)
    with IH show ?thesis by blast
  qed
qed

lemma alloc_id_loop_exhausts:
  assumes "seed_ok seed" "alloc_id_loop 0x10000 seed used = (-1, seed')" "1 \<le> i" "i \<le> 0x7fff"
  shows "used i"
proof -
  have "\<forall>k < 0x10000. used (cyc 0x7fff (uint seed) k)"
    using alloc_id_loop_spec [OF assms(1,2)] by auto
  moreover have "\<exists>k < 0x10000. cyc 0x7fff (uint seed) k = i"
    using assms(3,4) by (intro cyc_onto) auto
  ultimately show ?thesis by blast
qed

lemma seed_of_random_ok: "seed_ok (seed_of_random rnd)"
proof -
  let ?x = "(rnd div 0x4001) AND 0x7fff :: u32"
  have "uint ?x \<le> 0x7fff"
  proof -
    have "?x \<le> 0x7fff" by (rule word_and_le1)
    then show ?thesis by (simp add: word_le_def)
  qed
  moreover have "1 \<le> uint ?x" if "?x \<noteq> 0"
  proof -
    from that have "uint ?x \<noteq> 0" by (simp add: word_uint_eq_iff)
    with uint_ge_0 [of ?x] show ?thesis by linarith
  qed
  ultimately show ?thesis by (auto simp: seed_of_random_def seed_ok_def Let_def)
qed

definition conn_seed_ok :: "SigState \<Rightarrow> bool" where
  "conn_seed_ok s \<longleftrightarrow> connection_id_seed s = 0 \<or> seed_ok (connection_id_seed s)"

text \<open>The seed after it has been drawn, if it had to be.\<close>

definition seeded :: "SigState \<Rightarrow> SigState" where
  "seeded s0 = (if connection_id_seed s0 = 0
     then s0\<lparr>connection_id_seed := seed_of_random (random_device (platform s0) (random_reads s0)),
             random_reads := Suc (random_reads s0)\<rparr>
     else s0)"

lemma AllocateConnectionId_loop:
  "AllocateConnectionIdLocked s =
     (case alloc_id_loop 0x10000 (connection_id_seed (seeded s))
             (\<lambda>c. map_of (connections s) c \<noteq> None)
      of (nid, seed) \<Rightarrow> (nid, (seeded s)\<lparr>connection_id_seed := seed\<rparr>))"
  by (simp add: AllocateConnectionIdLocked_def seeded_def Let_def)

lemma seeded_ok: "conn_seed_ok s \<Longrightarrow> seed_ok (connection_id_seed (seeded s))"
  by (auto simp: seeded_def conn_seed_ok_def seed_of_random_ok)

lemma seeded_frame [simp]:
  "connections (seeded s) = connections s"
  "peer_transports (seeded s) = peer_transports s"
  "npid_to_conn (seeded s) = npid_to_conn s"
  "contexts (seeded s) = contexts s"
  by (simp_all add: seeded_def)

lemma AllocateConnectionId_cases:
  assumes "conn_seed_ok s" "AllocateConnectionIdLocked s = (nid, s')"
  shows "connections s' = connections s \<and> conn_seed_ok s' \<and>
    ((nid = -1 \<and> {1..0x7fff} \<subseteq> dom (map_of (connections s))) \<or>
     (1 \<le> nid \<and> nid \<le> 0x7fff \<and> map_of (connections s) nid = None))"
proof -
  let ?used = "\<lambda>c. map_of (connections s) c \<noteq> None"
  obtain n seed where l: "alloc_id_loop 0x10000 (connection_id_seed (seeded s)) ?used = (n, seed)"
    by force
  have r: "nid = n" "s' = (seeded s)\<lparr>connection_id_seed := seed\<rparr>"
    using assms(2) l by (simp_all add: AllocateConnectionId_loop)
  note spec = alloc_id_loop_spec [OF seeded_ok [OF assms(1)] l]
  have "{1..0x7fff} \<subseteq> dom (map_of (connections s))" if "n = -1"
    using alloc_id_loop_exhausts [OF seeded_ok [OF assms(1)] l [unfolded that]]
    by (auto simp: dom_def)
  with spec r show ?thesis by (auto simp: conn_seed_ok_def)
qed

interpretation conn_ids: id_allocator AllocateConnectionIdLocked connections conn_seed_ok "0x7fff"
proof unfold_locales
  fix s assume ok: "conn_seed_ok s"
  obtain nid s' where r: "AllocateConnectionIdLocked s = (nid, s')" by force
  note c = AllocateConnectionId_cases [OF ok r]
  show "connections (snd (AllocateConnectionIdLocked s)) = connections s" using c r by simp
  show "conn_seed_ok (snd (AllocateConnectionIdLocked s))" using c r by simp
  show "fst (AllocateConnectionIdLocked s) \<noteq> -1 \<Longrightarrow>
      1 \<le> fst (AllocateConnectionIdLocked s) \<and> fst (AllocateConnectionIdLocked s) \<le> 0x7fff \<and>
      map_of (connections s) (fst (AllocateConnectionIdLocked s)) = None"
    using c r by auto
  show "fst (AllocateConnectionIdLocked s) = -1 \<Longrightarrow> {1..0x7fff} \<subseteq> dom (map_of (connections s))"
    using c r by auto
qed

section \<open>The index of connections\<close>

text \<open>
  Every entry of \<open>npid_to_conn\<close> leads to a live connection that belongs to the context and the
  peer of its key.
\<close>

definition index_ok :: "SigState \<Rightarrow> bool" where
  "index_ok s \<longleftrightarrow> (\<forall>k c. map_of (npid_to_conn s) k = Some c \<longrightarrow>
     (\<exists>ci. map_of (connections s) c = Some ci \<and> MakeCtxNpIdKey (ci_ctx_id ci) (ci_npid ci) = k))"

lemma index_okD:
  "index_ok s \<Longrightarrow> map_of (npid_to_conn s) k = Some c \<Longrightarrow>
     \<exists>ci. map_of (connections s) c = Some ci \<and> MakeCtxNpIdKey (ci_ctx_id ci) (ci_npid ci) = k"
  unfolding index_ok_def by blast

lemma RemoveConnection_connections [simp]:
  "map_of (connections (RemoveConnectionLocked cid s)) = (map_of (connections s))(cid := None)"
  by (auto simp: RemoveConnectionLocked_def Let_def fun_eq_iff split: option.splits)

lemma RemoveConnection_distinct:
  "distinct (keys (connections s)) \<Longrightarrow> distinct (keys (connections (RemoveConnectionLocked cid s)))"
  by (auto simp: RemoveConnectionLocked_def Let_def split: option.splits)

lemma RemoveConnection_frame [simp]:
  "contexts (RemoveConnectionLocked cid s) = contexts s"
  "peer_transports (RemoveConnectionLocked cid s) = peer_transports s"
  "peer_netinfo_results (RemoveConnectionLocked cid s) = peer_netinfo_results s"
  "pending_activations (RemoveConnectionLocked cid s) = pending_activations s"
  "dispatch_queue (RemoveConnectionLocked cid s) = dispatch_queue s"
  "initialized (RemoveConnectionLocked cid s) = initialized s"
  "context_refs (RemoveConnectionLocked cid s) = context_refs s"
  "connection_id_seed (RemoveConnectionLocked cid s) = connection_id_seed s"
  "transport_id_seed (RemoveConnectionLocked cid s) = transport_id_seed s"
  "last_assigned_context_id (RemoveConnectionLocked cid s) = last_assigned_context_id s"
  by (simp_all add: RemoveConnectionLocked_def Let_def split: option.splits)

lemma RemoveConnection_index:
  assumes "index_ok s"
  shows "index_ok (RemoveConnectionLocked cid s)"
proof (cases "map_of (connections s) cid")
  case None
  then show ?thesis using assms by (simp add: RemoveConnectionLocked_def)
next
  case (Some ci)
  let ?k = "MakeCtxNpIdKey (ci_ctx_id ci) (ci_npid ci)"
  show ?thesis unfolding index_ok_def
  proof (intro allI impI)
    fix k c assume kc: "map_of (npid_to_conn (RemoveConnectionLocked cid s)) k = Some c"
    have old: "map_of (npid_to_conn s) k = Some c"
      using kc Some by (auto simp: RemoveConnectionLocked_def Let_def split: if_splits)
    from index_okD [OF assms old] obtain ci' where
      ci': "map_of (connections s) c = Some ci'" "MakeCtxNpIdKey (ci_ctx_id ci') (ci_npid ci') = k"
      by blast
    have "c \<noteq> cid"
      using kc Some ci' old by (auto simp: RemoveConnectionLocked_def Let_def split: if_splits)
    with ci' show "\<exists>ci. map_of (connections (RemoveConnectionLocked cid s)) c = Some ci \<and>
        MakeCtxNpIdKey (ci_ctx_id ci) (ci_npid ci) = k" by simp
  qed
qed

lemma fold_Remove_index: "index_ok s \<Longrightarrow> index_ok (fold RemoveConnectionLocked cs s)"
  by (induction cs arbitrary: s) (auto simp: RemoveConnection_index)

lemma fold_Remove_connections:
  "map_of (connections (fold RemoveConnectionLocked cs s)) c =
     (if c \<in> set cs then None else map_of (connections s) c)"
  by (induction cs arbitrary: s) auto

lemma fold_Remove_frame [simp]:
  "contexts (fold RemoveConnectionLocked cs s) = contexts s"
  "peer_transports (fold RemoveConnectionLocked cs s) = peer_transports s"
  "peer_netinfo_results (fold RemoveConnectionLocked cs s) = peer_netinfo_results s"
  "initialized (fold RemoveConnectionLocked cs s) = initialized s"
  "context_refs (fold RemoveConnectionLocked cs s) = context_refs s"
  by (induction cs arbitrary: s) auto

lemma fold_Remove_distinct:
  "distinct (keys (connections s)) \<Longrightarrow> distinct (keys (connections (fold RemoveConnectionLocked cs s)))"
  by (induction cs arbitrary: s) (auto simp: RemoveConnection_distinct)

lemma RemoveContextConnections_connections:
  assumes "distinct (keys (connections s))"
  shows "map_of (connections (RemoveContextConnectionsLocked ctx s)) c =
    (case map_of (connections s) c of None \<Rightarrow> None
     | Some ci \<Rightarrow> if ci_ctx_id ci = ctx then None else Some ci)"
  using assms
  by (auto simp: RemoveContextConnectionsLocked_def fold_Remove_connections in_keys_where
      simp del: map_of_eq_Some_iff split: option.splits)

section \<open>The activation budget is a token bucket\<close>

text \<open>
  A run of requests at the given times, with the number of those granted. The bucket holds at
  most 600 s of credit, gains the time that passes and pays 6 s per granted request.
\<close>

fun run_budget :: "s64 list \<Rightarrow> NpSignalingContext \<Rightarrow> nat \<times> NpSignalingContext" where
  "run_budget [] ctx = (0, ctx)"
| "run_budget (t # ts) ctx =
     (let (ok, ctx') = consume_budget t ctx; (n, ctx'') = run_budget ts ctx'
      in ((if ok then Suc n else n), ctx''))"

definition budget_ok :: "NpSignalingContext \<Rightarrow> bool" where
  "budget_ok ctx \<longleftrightarrow> 0 \<le> cx_activate_budget_us ctx \<and>
     cx_activate_budget_us ctx \<le> kActivateBudgetMaxUs \<and> 0 < cx_activate_last_update_us ctx"

lemma consume_budget_step:
  assumes "budget_ok ctx" "cx_activate_last_update_us ctx \<le> t" "consume_budget t ctx = (ok, ctx')"
  shows "budget_ok ctx' \<and> cx_activate_last_update_us ctx' = t \<and>
    cx_activate_budget_us ctx' + (if ok then kActivateCooldownUs else 0)
      \<le> cx_activate_budget_us ctx + (t - cx_activate_last_update_us ctx)"
  using assms unfolding consume_budget_def budget_ok_def Let_def
  by (auto split: if_splits)

lemma consume_budget_grants:
  assumes "budget_ok ctx"
    and "kActivateCooldownUs \<le> cx_activate_budget_us ctx + (t - cx_activate_last_update_us ctx)"
    and "cx_activate_last_update_us ctx \<le> t"
  shows "fst (consume_budget t ctx)"
  using assms by (auto simp: consume_budget_def budget_ok_def Let_def)

lemma run_budget_credit:
  assumes "budget_ok ctx" "sorted (cx_activate_last_update_us ctx # ts)"
    "run_budget ts ctx = (n, ctx')"
  shows "budget_ok ctx' \<and>
    cx_activate_last_update_us ctx' = last (cx_activate_last_update_us ctx # ts) \<and>
    cx_activate_budget_us ctx' + kActivateCooldownUs * int n
      \<le> cx_activate_budget_us ctx +
         (last (cx_activate_last_update_us ctx # ts) - cx_activate_last_update_us ctx)"
  using assms
proof (induction ts arbitrary: ctx n ctx')
  case Nil
  then show ?case by simp
next
  case (Cons t ts)
  obtain ok c1 where c1: "consume_budget t ctx = (ok, c1)" by force
  obtain m c2 where c2: "run_budget ts c1 = (m, c2)" by force
  have le: "cx_activate_last_update_us ctx \<le> t" using Cons.prems(2) by simp
  from consume_budget_step [OF Cons.prems(1) le c1] have
    b1: "budget_ok c1" and l1: "cx_activate_last_update_us c1 = t" and
    p1: "cx_activate_budget_us c1 + (if ok then kActivateCooldownUs else 0)
      \<le> cx_activate_budget_us ctx + (t - cx_activate_last_update_us ctx)" by auto
  have "sorted (cx_activate_last_update_us c1 # ts)" using Cons.prems(2) l1 by simp
  from Cons.IH [OF b1 this c2] have IH: "budget_ok c2"
    "cx_activate_last_update_us c2 = last (t # ts)"
    "cx_activate_budget_us c2 + kActivateCooldownUs * int m \<le>
       cx_activate_budget_us c1 + (last (t # ts) - t)" by (simp_all add: l1)
  have res: "n = (if ok then Suc m else m)" "ctx' = c2"
    using Cons.prems(3) c1 c2 by (auto simp: Let_def)
  show ?case using IH p1 res by (auto simp: algebra_simps)
qed

section \<open>Dotted addresses\<close>

definition digit_char :: "nat \<Rightarrow> char" where
  "digit_char d = char_of (48 + d)"

definition show_octet :: "nat \<Rightarrow> string" where
  "show_octet n =
     (if n < 10 then [digit_char n]
      else if n < 100 then [digit_char (n div 10), digit_char (n mod 10)]
      else [digit_char (n div 100), digit_char (n div 10 mod 10), digit_char (n mod 10)])"

definition dotted_quad :: "nat \<Rightarrow> nat \<Rightarrow> nat \<Rightarrow> nat \<Rightarrow> string" where
  "dotted_quad a b c d =
     show_octet a @ ''.'' @ show_octet b @ ''.'' @ show_octet c @ ''.'' @ show_octet d"

lemma digit_char_code: "d < 10 \<Longrightarrow> of_char (digit_char d) = 48 + d"
  by (simp add: digit_char_def)

lemma parse_digit:
  assumes "d < 10" "10 * n + d < 256"
  shows "parse_ipv4_loop (digit_char d # cs) octets (of_nat n) b =
         parse_ipv4_loop cs octets (of_nat (10 * n + d)) True"
proof -
  have eq: "of_nat n * 10 + of_nat d = (of_nat (10 * n + d) :: u32)" by (simp add: algebra_simps)
  have "unat (of_nat (10 * n + d) :: u32) = 10 * n + d"
    using assms(2) by (simp only: unat_of_nat) simp
  then have le: "\<not> (of_nat (10 * n + d) :: u32) > 255"
    using assms(2) by (simp only: word_less_nat_alt not_less) simp
  show ?thesis
    using assms(1) le by (simp add: digit_char_code Let_def eq del: of_nat_add of_nat_mult)
qed

lemma parse_octet:
  assumes "n < 256"
  shows "parse_ipv4_loop (show_octet n @ cs) octets 0 False =
         parse_ipv4_loop cs octets (of_nat n) True"
proof -
  consider "n < 10" | "10 \<le> n" "n < 100" | "100 \<le> n" by linarith
  then show ?thesis
  proof cases
    case 1
    then show ?thesis
      using parse_digit [of n 0 cs octets False] by (simp add: show_octet_def)
  next
    case 2
    have "10 * (n div 10) + n mod 10 = n" by simp
    with 2 show ?thesis
      using parse_digit [of "n div 10" 0 "digit_char (n mod 10) # cs" octets False]
        parse_digit [of "n mod 10" "n div 10" cs octets True]
      by (simp add: show_octet_def del: parse_ipv4_loop.simps)
  next
    case 3
    have e: "10 * (n div 10) + n mod 10 = n" "10 * (n div 100) + n div 10 mod 10 = n div 10"
      by (simp_all add: div_mult2_eq [of n 10 10, simplified])
    have b: "n div 100 < 10" "n div 10 mod 10 < 10" "n mod 10 < 10" "n div 10 < 256"
      using assms by auto
    show ?thesis
      using 3 e b assms parse_digit [of "n div 100" 0 "digit_char (n div 10 mod 10) # digit_char (n mod 10) # cs" octets False]
        parse_digit [of "n div 10 mod 10" "n div 100" "digit_char (n mod 10) # cs" octets True]
        parse_digit [of "n mod 10" "n div 10" cs octets True]
      by (simp add: show_octet_def del: parse_ipv4_loop.simps)
  qed
qed

lemma parse_dot:
  "length octets < 3 \<Longrightarrow>
   parse_ipv4_loop (CHR ''.'' # cs) octets cur True = parse_ipv4_loop cs (octets @ [cur]) 0 False"
  by simp

lemma octet_word: "n < 256 \<Longrightarrow> (ucast (of_nat n :: u8) :: u32) = of_nat n"
  by (simp add: unsigned_of_nat take_bit_nat_eq_self)

lemma ParseIpv4_quad:
  assumes "a < 256" "b < 256" "c < 256" "d < 256"
  shows "ParseIpv4Nbo (dotted_quad a b c d) = le_word (map of_nat [a, b, c, d])"
proof -
  have last: "parse_ipv4_loop (show_octet d) octets 0 False = Some (octets, of_nat d, True)" for octets
    using parse_octet [OF assms(4), of "[]" octets] by simp
  have "parse_ipv4_loop (dotted_quad a b c d) [] 0 False =
      Some ([of_nat a, of_nat b, of_nat c], of_nat d, True)"
    using assms by (simp add: dotted_quad_def parse_octet last parse_dot del: parse_ipv4_loop.simps)
  then show ?thesis
    using assms by (simp add: ParseIpv4Nbo_def octet_word push_bit_or ac_simps)
qed

section \<open>Staged information is taken once\<close>

lemma Take_Some:
  "TakePeerNetInfoResultLocked ctx_id req s = (Some x, s') \<longleftrightarrow>
     map_of (peer_netinfo_results s) req = Some x \<and> ni_ctx_id x = ctx_id \<and>
     s' = s\<lparr>peer_netinfo_results := AList.delete req (peer_netinfo_results s)\<rparr>"
  by (cases "map_of (peer_netinfo_results s) req") (auto simp: TakePeerNetInfoResultLocked_def)

lemma Take_None:
  "TakePeerNetInfoResultLocked ctx_id req s = (None, s') \<longleftrightarrow>
     s' = s \<and> (\<forall>x. map_of (peer_netinfo_results s) req = Some x \<longrightarrow> ni_ctx_id x \<noteq> ctx_id)"
  by (cases "map_of (peer_netinfo_results s) req") (auto simp: TakePeerNetInfoResultLocked_def)

section \<open>Callbacks leave in the order they were staged\<close>

definition queue_sorted :: "QueuedDispatch list \<Rightarrow> bool" where
  "queue_sorted q \<longleftrightarrow> sorted (map qd_fire_at q)"

lemma set_dispatch_emplace: "set (dispatch_emplace d q) = insert d (set q)"
  by (induction d q rule: dispatch_emplace.induct) auto

lemma dispatch_emplace_sorted: "queue_sorted q \<Longrightarrow> queue_sorted (dispatch_emplace d q)"
  by (induction d q rule: dispatch_emplace.induct)
    (auto simp: queue_sorted_def set_dispatch_emplace intro: order.trans)

lemma dispatch_emplace_last:
  "\<forall>x \<in> set q. qd_fire_at x \<le> qd_fire_at d \<Longrightarrow> dispatch_emplace d q = q @ [d]"
  by (induction d q rule: dispatch_emplace.induct) auto

text \<open>
  A clock that never goes back, and a queue none of whose entries is later than its last
  reading: what staging keeps.
\<close>

definition clock_mono :: "SigState \<Rightarrow> bool" where
  "clock_mono s \<longleftrightarrow> (\<forall>i j. i \<le> j \<longrightarrow> clock (platform s) i \<le> clock (platform s) j)"

definition queue_past :: "SigState \<Rightarrow> bool" where
  "queue_past s \<longleftrightarrow> (\<forall>d \<in> set (dispatch_queue s). \<exists>i < clock_reads s. qd_fire_at d = clock (platform s) i)"

lemma StageBasic_queue:
  assumes "clock_mono s" "queue_past s"
  shows "\<exists>new. dispatch_queue (StageBasicCallbackLocked ctx c n e v s) = dispatch_queue s @ new \<and>
     length new \<le> 1 \<and>
     (\<forall>d \<in> set new. qd_ctx_id d = c \<and> qd_conn_id d = n \<and> qd_event_type d = word_of_int e \<and>
        qd_error_code d = word_of_int v \<and> qd_callback d = cx_callback ctx)"
proof -
  have le: "\<forall>x \<in> set (dispatch_queue s). qd_fire_at x \<le> clock (platform s) (clock_reads s)"
    using assms by (fastforce simp: clock_mono_def queue_past_def)
  show ?thesis
    using le by (auto simp: StageBasicCallbackLocked_def NowUs_def Let_def dispatch_emplace_last)
qed

lemma StageBasic_frame [simp]:
  "connections (StageBasicCallbackLocked ctx c n e v s) = connections s"
  "contexts (StageBasicCallbackLocked ctx c n e v s) = contexts s"
  "peer_transports (StageBasicCallbackLocked ctx c n e v s) = peer_transports s"
  "npid_to_conn (StageBasicCallbackLocked ctx c n e v s) = npid_to_conn s"
  "platform (StageBasicCallbackLocked ctx c n e v s) = platform s"
  "connection_id_seed (StageBasicCallbackLocked ctx c n e v s) = connection_id_seed s"
  "transport_id_seed (StageBasicCallbackLocked ctx c n e v s) = transport_id_seed s"
  "last_assigned_context_id (StageBasicCallbackLocked ctx c n e v s) = last_assigned_context_id s"
  "sent (StageBasicCallbackLocked ctx c n e v s) = sent s"
  "hooks (StageBasicCallbackLocked ctx c n e v s) = hooks s"
  "m2_contexts (StageBasicCallbackLocked ctx c n e v s) = m2_contexts s"
  "m2_events (StageBasicCallbackLocked ctx c n e v s) = m2_events s"
  "initialized (StageBasicCallbackLocked ctx c n e v s) = initialized s"
  "context_refs (StageBasicCallbackLocked ctx c n e v s) = context_refs s"
  "pending_activations (StageBasicCallbackLocked ctx c n e v s) = pending_activations s"
  by (simp_all add: StageBasicCallbackLocked_def NowUs_def Let_def)

lemma StageBasic_queue_past:
  assumes "clock_mono s" "queue_past s"
  shows "queue_past (StageBasicCallbackLocked ctx c n e v s)"
  using assms
  by (fastforce simp: StageBasicCallbackLocked_def NowUs_def Let_def queue_past_def
      set_dispatch_emplace less_Suc_eq)

section \<open>Properties\<close>

text \<open>
  Context ids: with the last id in its range, the allocator returns a free id of
  1..8 and records it, or -1, and -1 exactly when the eight ids are all in use.
\<close>

theorem AllocateContextId_spec:
  assumes "uint (last_assigned_context_id s) \<le> 8"
  shows "case AllocateContextIdLocked s of (nid, s') \<Rightarrow>
    (if {1..8} \<subseteq> dom (map_of (contexts s)) then nid = -1 \<and> s' = s
     else 1 \<le> nid \<and> nid \<le> 8 \<and> map_of (contexts s) nid = None \<and>
       s' = s\<lparr>last_assigned_context_id := word_of_int nid\<rparr>)"
proof -
  have ok: "context_seed_ok s" using assms by (simp add: context_seed_ok_def)
  obtain nid s' where r: "AllocateContextIdLocked s = (nid, s')" by force
  have f: "nid = -1 \<longleftrightarrow> {1..8} \<subseteq> dom (map_of (contexts s))"
    using context_ids.alloc_fails_iff [OF ok] by (simp only: r fst_conv)
  show ?thesis
    using AllocateContextId_cases [OF ok r] unfolding r prod.case f [symmetric] by auto
qed

theorem AllocateContextId_spec_witness:
  "case AllocateContextIdLocked (example_state\<lparr>contexts := [(8, zero_context), (1, zero_context)],
       last_assigned_context_id := 8\<rparr>) of (nid, s') \<Rightarrow> 2 \<le> nid \<and> nid \<le> 7"
proof -
  let ?s = "example_state\<lparr>contexts := [(8, zero_context), (1, zero_context)],
       last_assigned_context_id := 8\<rparr>"
  have h: "uint (last_assigned_context_id ?s) \<le> 8" by simp
  have "(2::int) \<in> {1..8}" "2 \<notin> dom (map_of (contexts ?s))" by (auto simp: dom_def)
  then have "\<not> {1..8} \<subseteq> dom (map_of (contexts ?s))" by blast
  moreover obtain nid s' where r: "AllocateContextIdLocked ?s = (nid, s')" by force
  ultimately have n: "1 \<le> nid" "nid \<le> 8" "map_of (contexts ?s) nid = None"
    using AllocateContextId_spec [OF h] by (simp_all only: r prod.case if_False)
  from n(3) have "nid \<noteq> 8" "nid \<noteq> 1" by (auto split: if_splits)
  with n r show ?thesis by simp
qed

text \<open>
  Connection ids: with a seed that is unset or in 1..0x7fff, the allocator keeps the
  connections and the seed's range, and returns an id of 1..0x7fff that no connection has, or
  -1, and -1 exactly when all 32767 ids are in use: its 65536 attempts are enough.
\<close>

theorem AllocateConnectionId_spec:
  assumes "connection_id_seed s = 0 \<or> (1 \<le> uint (connection_id_seed s) \<and> uint (connection_id_seed s) \<le> 0x7fff)"
  shows "case AllocateConnectionIdLocked s of (nid, s') \<Rightarrow>
    connections s' = connections s \<and>
    1 \<le> uint (connection_id_seed s') \<and> uint (connection_id_seed s') \<le> 0x7fff \<and>
    (if {1..0x7fff} \<subseteq> dom (map_of (connections s)) then nid = -1
     else 1 \<le> nid \<and> nid \<le> 0x7fff \<and> map_of (connections s) nid = None)"
proof -
  have ok: "conn_seed_ok s" using assms by (simp add: conn_seed_ok_def seed_ok_def)
  obtain nid s' where r: "AllocateConnectionIdLocked s = (nid, s')" by force
  obtain n seed where l: "alloc_id_loop 0x10000 (connection_id_seed (seeded s))
      (\<lambda>c. map_of (connections s) c \<noteq> None) = (n, seed)" by force
  have "seed_ok (connection_id_seed s')"
    using alloc_id_loop_spec [OF seeded_ok [OF ok] l] r l by (auto simp: AllocateConnectionId_loop)
  then show ?thesis
    using AllocateConnectionId_cases [OF ok r] conn_ids.alloc_fails_iff [OF ok] r
    by (auto simp: seed_ok_def)
qed

theorem AllocateConnectionId_spec_witness:
  "fst (AllocateConnectionIdLocked (example_state\<lparr>connections := [(1, zero_connection)]\<rparr>)) \<noteq> -1"
proof -
  let ?s = "example_state\<lparr>connections := [(1, zero_connection)]\<rparr>"
  have h: "connection_id_seed ?s = 0 \<or> (1 \<le> uint (connection_id_seed ?s) \<and> uint (connection_id_seed ?s) \<le> 0x7fff)"
    by (simp add: example_state_def init_state_def)
  have "(2::int) \<in> {1..0x7fff}" "2 \<notin> dom (map_of (connections ?s))" by (auto simp: dom_def)
  then have "\<not> {1..0x7fff} \<subseteq> dom (map_of (connections ?s))" by blast
  with AllocateConnectionId_spec [OF h] show ?thesis by (auto split: prod.splits)
qed



text \<open>
  Parsing a dotted quad gives the address in network byte order: the four bytes of
  the result in memory are the four numbers, in order.
\<close>

theorem ParseIpv4Nbo_roundtrip:
  assumes "a < 256" "b < 256" "c < 256" "d < 256"
  shows "le_bytes 4 (ParseIpv4Nbo (dotted_quad a b c d)) = map of_nat [a, b, c, d]"
  using le_bytes_le_word [of "map of_nat [a, b, c, d]", where 'a = 32]
  by (simp add: ParseIpv4_quad [OF assms] numeral_eq_Suc del: le_word.simps le_bytes.simps)

theorem ParseIpv4Nbo_roundtrip_witness:
  "dotted_quad 127 0 0 1 = ''127.0.0.1'' \<and> le_bytes 4 (ParseIpv4Nbo ''127.0.0.1'') = [127, 0, 0, 1]"
proof -
  have q: "dotted_quad 127 0 0 1 = ''127.0.0.1''"
    by (simp add: dotted_quad_def show_octet_def digit_char_def char_of_def bit_simps)
  with ParseIpv4Nbo_roundtrip [of 127 0 0 1] show ?thesis by (simp del: le_bytes.simps)
qed

end
