(* ===== verification/SigTransport.thy ===== *)
theory SigTransport
  imports SigState
begin

text \<open>
  Peer transports and their connections, the first half of np_signaling_handler.cpp: states
  and statuses, lookup and creation of transports, the status sync of connections, the packets
  built from a transport, the initiator's handshake step, and closing and establishing with
  the callbacks they stage.
\<close>

section \<open>States\<close>

definition StatusFromState :: "ConnState \<Rightarrow> s32" where
  "StatusFromState state =
     (if state = Established then ORBIS_NP_SIGNALING_CONN_STATUS_ACTIVE
      else if state = Inactive then ORBIS_NP_SIGNALING_CONN_STATUS_INACTIVE
      else ORBIS_NP_SIGNALING_CONN_STATUS_PENDING)"

definition SetTransportStateLocked :: "ConnState \<Rightarrow> PeerTransport \<Rightarrow> PeerTransport" where
  "SetTransportStateLocked new_state tr = tr\<lparr>pt_state := new_state, pt_status := StatusFromState new_state\<rparr>"

text \<open>A write through a reference into \<open>peer_transports\<close>.\<close>

definition upd_transport :: "s32 \<Rightarrow> (PeerTransport \<Rightarrow> PeerTransport) \<Rightarrow> SigState \<Rightarrow> SigState" where
  "upd_transport tid f s = s\<lparr>peer_transports := modify_at zero_transport tid f (peer_transports s)\<rparr>"

definition the_transport :: "s32 \<Rightarrow> SigState \<Rightarrow> PeerTransport" where
  "the_transport tid s = at_or zero_transport tid (peer_transports s)"

definition AverageRtt :: "PeerTransport \<Rightarrow> u32" where
  "AverageRtt tr =
     (let present = filter (\<lambda>sample. sample > 0) (pt_probe_rtt_samples tr)
      in if present = [] then 0
         else word_of_int (sum_list present div int (length present)))"

definition record_rtt :: "s32 \<Rightarrow> PeerTransport \<Rightarrow> PeerTransport" where
  "record_rtt rtt_us tr =
     (let idx = pt_probe_sample_write_index tr mod kProbeSampleCount
      in tr\<lparr>pt_probe_rtt_samples := (pt_probe_rtt_samples tr)[unat idx := rtt_us],
            pt_probe_sample_write_index := idx + 1\<rparr>)"

section \<open>Finding and creating transports\<close>

definition AllocateTransportIdLocked :: "SigState \<Rightarrow> s32 \<times> SigState" where
  "AllocateTransportIdLocked s =
     (let seed0 = (if transport_id_seed s = 0 then 1 else transport_id_seed s);
          (nid, seed) = alloc_id_loop 0x10000 seed0 (\<lambda>c. map_of (peer_transports s) c \<noteq> None)
      in (nid, s\<lparr>transport_id_seed := seed\<rparr>))"

definition TransportMatchesOnlineId :: "PeerTransport \<Rightarrow> bytes \<Rightarrow> bool" where
  "TransportMatchesOnlineId tr online_id \<longleftrightarrow>
     pt_state tr \<noteq> Inactive \<and> OnlineIdEqualsString (pt_online_id tr) online_id"

definition FindTransportByOnlineIdLocked :: "bytes \<Rightarrow> SigState \<Rightarrow> s32" where
  "FindTransportByOnlineIdLocked online_id s =
     (case find_key (\<lambda>tid tr. TransportMatchesOnlineId tr online_id) (peer_transports s) of
        None \<Rightarrow> 0 | Some tid \<Rightarrow> tid)"

definition GetTransportLocked :: "s32 \<Rightarrow> SigState \<Rightarrow> PeerTransport option" where
  "GetTransportLocked tid s = map_of (peer_transports s) tid"

definition HasSig1ConnectionForTransportLocked :: "s32 \<Rightarrow> SigState \<Rightarrow> bool" where
  "HasSig1ConnectionForTransportLocked tid s \<longleftrightarrow>
     find_key (\<lambda>cid ci. ci_transport_id ci = tid \<and>
        ci_status ci \<noteq> ORBIS_NP_SIGNALING_CONN_STATUS_INACTIVE \<and> \<not> ci_dead_fired ci)
       (connections s) \<noteq> None"

definition SyncSig1StatusLocked :: "PeerTransport \<Rightarrow> ConnectionInfo \<Rightarrow> ConnectionInfo" where
  "SyncSig1StatusLocked tr ci = ci\<lparr>ci_status := pt_status tr\<rparr>"

definition SyncSig1ConnectionsForTransportLocked :: "s32 \<Rightarrow> SigState \<Rightarrow> SigState" where
  "SyncSig1ConnectionsForTransportLocked tid s =
     (case map_of (peer_transports s) tid of
        None \<Rightarrow> s
      | Some tr \<Rightarrow> s\<lparr>connections :=
          map_vals (\<lambda>cid ci. if ci_transport_id ci = tid then SyncSig1StatusLocked tr ci else ci)
            (connections s)\<rparr>)"

definition CreateTransportLocked ::
  "OrbisNpOnlineId \<Rightarrow> OrbisNpOnlineId \<Rightarrow> OrbisNpId \<Rightarrow> u32 \<Rightarrow> u16 \<Rightarrow> SigState \<Rightarrow> s32 \<times> SigState" where
  "CreateTransportLocked local_online_id peer_online_id peer_npid addr port s =
     (let (tid, s1) = AllocateTransportIdLocked s
      in if tid < 0 then (tid, s1)
         else let tr = zero_transport\<lparr>pt_transport_id := tid,
                        pt_local_online_id := local_online_id, pt_online_id := peer_online_id,
                        pt_npid := peer_npid, pt_addr := addr, pt_port := port,
                        pt_status := ORBIS_NP_SIGNALING_CONN_STATUS_PENDING,
                        pt_state := SendingOffer, pt_is_initiator := True\<rparr>
              in (tid, s1\<lparr>peer_transports := AList.update tid tr (peer_transports s1)\<rparr>))"

text \<open>The update of a transport that is already there.\<close>

definition refresh_transport ::
  "OrbisNpOnlineId \<Rightarrow> OrbisNpOnlineId \<Rightarrow> OrbisNpId \<Rightarrow> u32 \<Rightarrow> u16 \<Rightarrow> PeerTransport \<Rightarrow> PeerTransport" where
  "refresh_transport local_online_id peer_online_id peer_npid addr port tr =
     (let t1 = (if oid_data (pt_local_online_id tr) ! 0 = 0
                then tr\<lparr>pt_local_online_id := local_online_id\<rparr> else tr);
          t2 = (if oid_data (pt_online_id t1) ! 0 = 0
                then t1\<lparr>pt_online_id := peer_online_id, pt_npid := peer_npid\<rparr> else t1);
          t3 = (if addr \<noteq> 0 \<and> port \<noteq> 0 then t2\<lparr>pt_addr := addr, pt_port := port\<rparr> else t2)
      in if pt_state t3 = Inactive
         then (SetTransportStateLocked SendingOffer t3)\<lparr>pt_is_initiator := True\<rparr>
         else t3)"

definition EnsureTransportLocked ::
  "OrbisNpOnlineId \<Rightarrow> OrbisNpOnlineId \<Rightarrow> OrbisNpId \<Rightarrow> u32 \<Rightarrow> u16 \<Rightarrow> SigState \<Rightarrow> s32 \<times> SigState" where
  "EnsureTransportLocked local_online_id peer_online_id peer_npid addr port s =
     (let peer_id = OnlineIdToString peer_online_id;
          tid = FindTransportByOnlineIdLocked peer_id s
      in if tid = 0
         then CreateTransportLocked local_online_id peer_online_id peer_npid addr port s
         else (tid, upd_transport tid
                 (refresh_transport local_online_id peer_online_id peer_npid addr port) s))"

section \<open>Finding connections\<close>

definition PacketOnlineIdToString :: "bytes \<Rightarrow> bytes" where
  "PacketOnlineIdToString online_id = takeWhile (\<lambda>b. b \<noteq> 0) (take 16 online_id)"

definition ConnectionMatchesOnlineId :: "ConnectionInfo \<Rightarrow> bytes \<Rightarrow> bool" where
  "ConnectionMatchesOnlineId ci online_id \<longleftrightarrow>
     \<not> ci_dead_fired ci \<and> ci_status ci \<noteq> ORBIS_NP_SIGNALING_CONN_STATUS_INACTIVE \<and>
     OnlineIdEqualsString (ci_online_id ci) online_id"

definition FindConnectionByOnlineIdLocked :: "bytes \<Rightarrow> s32 \<Rightarrow> SigState \<Rightarrow> s32" where
  "FindConnectionByOnlineIdLocked online_id preferred_ctx_id s =
     (let any = (case find_key (\<lambda>cid ci. ConnectionMatchesOnlineId ci online_id) (connections s) of
                   None \<Rightarrow> 0 | Some cid \<Rightarrow> cid)
      in if preferred_ctx_id \<noteq> 0
         then (case find_key (\<lambda>cid ci. ci_ctx_id ci = preferred_ctx_id \<and>
                                 ConnectionMatchesOnlineId ci online_id) (connections s) of
                 Some cid \<Rightarrow> cid | None \<Rightarrow> any)
         else any)"

section \<open>Packets built from a transport\<close>

definition MakeHandshakeLocked :: "PeerTransport \<Rightarrow> HandshakeKind \<Rightarrow> SigState \<Rightarrow> SignalingHandshake" where
  "MakeHandshakeLocked tr kind s =
     zero_handshake\<lparr>hs_kind := handshake_kind_byte kind,
       hs_from_conn_id := word_of_int (pt_transport_id tr),
       hs_online_id_from := oid_data (pt_local_online_id tr),
       hs_online_id_to := oid_data (pt_online_id tr),
       hs_mapped_addr := external_ip s, hs_mapped_port := 0\<rparr>"

definition SendHandshakeLocked :: "s32 \<Rightarrow> SignalingHandshake \<Rightarrow> SigState \<Rightarrow> SigState" where
  "SendHandshakeLocked tid pkt s =
     (let tr = the_transport tid s
      in if pt_addr tr = 0 \<or> pt_port tr = 0 then s
         else
           let (now, s1) = NowUs s;
               s2 = upd_transport tid (\<lambda>t. t\<lparr>pt_last_handshake_send_us := now\<rparr>) s1;
               (rc, s3) = SignalingSendTo (PktHandshake pkt) (pt_addr tr) (pt_port tr) s2
           in SyncSig1ConnectionsForTransportLocked (pt_transport_id tr) s3)"

definition MakeControlOfTransport :: "PeerTransport \<Rightarrow> ControlKind \<Rightarrow> SigState \<Rightarrow> SignalingControl" where
  "MakeControlOfTransport tr kind s =
     zero_control\<lparr>ct_kind := control_kind_byte kind,
       ct_from_conn_id := word_of_int (pt_transport_id tr),
       ct_online_id_from := oid_data (pt_local_online_id tr),
       ct_online_id_to := oid_data (pt_online_id tr),
       ct_mapped_addr := external_ip s, ct_mapped_port := 0\<rparr>"

definition MakeControlOfConnection :: "ConnectionInfo \<Rightarrow> ControlKind \<Rightarrow> SigState \<Rightarrow> SignalingControl" where
  "MakeControlOfConnection ci kind s =
     (case GetTransportLocked (ci_transport_id ci) s of
        Some tr \<Rightarrow> MakeControlOfTransport tr kind s
      | None \<Rightarrow> zero_control)"

definition SendActivate :: "ConnectionInfo \<Rightarrow> SigState \<Rightarrow> SigState" where
  "SendActivate ci s =
     (case GetTransportLocked (ci_transport_id ci) s of
        None \<Rightarrow> s
      | Some tr \<Rightarrow>
          if pt_addr tr = 0 \<or> pt_port tr = 0 then s
          else snd (ControlSendTo (PktControl (MakeControlOfConnection ci ActivationRequest s))
                     (pt_addr tr) (pt_port tr) s))"

definition SendControlCloseLocked :: "ConnectionInfo \<Rightarrow> ControlReason \<Rightarrow> SigState \<Rightarrow> SigState" where
  "SendControlCloseLocked ci reason s =
     (case GetTransportLocked (ci_transport_id ci) s of
        None \<Rightarrow> s
      | Some tr \<Rightarrow>
          if pt_addr tr = 0 \<or> pt_port tr = 0 then s
          else snd (ControlSendTo
                 (PktControl ((MakeControlOfConnection ci Close s)\<lparr>ct_reason := control_reason_word reason\<rparr>))
                 (pt_addr tr) (pt_port tr) s))"

definition QueueActivationLocked :: "s32 \<Rightarrow> bytes \<Rightarrow> bool \<Rightarrow> SigState \<Rightarrow> SigState" where
  "QueueActivationLocked conn_id peer_online_id start_handshake s =
     s\<lparr>pending_activations := pending_activations s @
        [\<lparr>pa_conn_id = conn_id, pa_peer_online_id = peer_online_id,
          pa_start_handshake = start_handshake\<rparr>]\<rparr>"

section \<open>The initiator's step\<close>

text \<open>
  The handshake packet for each state, with the state the transport moves to, and nothing for
  an established transport.
\<close>

fun initiator_step :: "ConnState \<Rightarrow> (HandshakeKind \<times> ConnState option) option" where
  "initiator_step SendingAccept = Some (Accept, None)"
| "initiator_step WaitOffer = Some (Offer, Some SendingOffer)"
| "initiator_step ConnCheck = Some (Check, None)"
| "initiator_step SendingOffer = Some (Offer, None)"
| "initiator_step WaitAccept = Some (Offer, None)"
| "initiator_step Established = None"
| "initiator_step Inactive = Some (Offer, Some SendingOffer)"

definition StartTransportHandshakeInitiator :: "s32 \<Rightarrow> SigState \<Rightarrow> SigState" where
  "StartTransportHandshakeInitiator tid s =
     (case GetTransportLocked tid s of
        None \<Rightarrow> s
      | Some tr \<Rightarrow>
          let s1 = upd_transport tid (\<lambda>t. t\<lparr>pt_is_initiator := True\<rparr>) s
          in case initiator_step (pt_state tr) of
               None \<Rightarrow> s1
             | Some (kind, new_state) \<Rightarrow>
                 let s2 = (case new_state of None \<Rightarrow> s1
                           | Some st \<Rightarrow> upd_transport tid (SetTransportStateLocked st) s1);
                     pkt = MakeHandshakeLocked (the_transport tid s2) kind s2
                 in if kind = Check
                    then let (now, s3) = NowUs s2
                         in SendHandshakeLocked tid (pkt\<lparr>hs_nonce := word_of_int now\<rparr>) s3
                    else SendHandshakeLocked tid pkt s2)"

section \<open>Matching2 peers of a transport\<close>

definition kMaxContexts :: nat where [simp]: "kMaxContexts = 10"

definition m2_context_ids :: "u16 list" where
  "m2_context_ids = map of_nat [1..<Suc kMaxContexts]"

definition kMatching2ConnInactive :: s32 where [simp]: "kMatching2ConnInactive = 0"
definition kMatching2ConnPending :: s32 where [simp]: "kMatching2ConnPending = 1"
definition kMatching2ConnActive :: s32 where [simp]: "kMatching2ConnActive = 2"

text \<open>The first room, in key order, that has the member; 0 if none has.\<close>

definition room_of_member :: "(u64 \<times> RoomCache) list \<Rightarrow> u16 \<Rightarrow> u64" where
  "room_of_member rooms member_id =
     (case find_key (\<lambda>rid room. map_of (rc_members room) member_id \<noteq> None) rooms of
        None \<Rightarrow> 0 | Some rid \<Rightarrow> rid)"

definition QueueMatching2SignalingEvent ::
  "M2Context \<Rightarrow> u64 \<Rightarrow> u16 \<Rightarrow> M2EventKind \<Rightarrow> s32 \<Rightarrow> SigState \<Rightarrow> SigState" where
  "QueueMatching2SignalingEvent ctx room_id member_id event error_code s =
     (if m2_signaling_callback ctx = 0 then s
      else s\<lparr>m2_events := m2_events s @
        [\<lparr>ev_ctx_id = m2_ctx_id ctx, ev_room_id = room_id, ev_member_id = member_id,
          ev_sig_event = event, ev_error_code = error_code\<rparr>]\<rparr>)"

definition reset_peer :: "PeerInfo \<Rightarrow> PeerInfo" where
  "reset_peer p = p\<lparr>pi_status := kMatching2ConnInactive, pi_sent_established := False,
                    pi_active_since_us := 0\<rparr>"

text \<open>The body of the loop over contexts, for one context that exists.\<close>

definition m2_dead_in_context :: "s32 \<Rightarrow> s32 \<Rightarrow> u16 \<Rightarrow> M2Context \<Rightarrow> SigState \<Rightarrow> SigState" where
  "m2_dead_in_context tid error_code xid ctx s =
     (let hit = keys_where (\<lambda>mid p. pi_conn_id p = tid) (m2_peers ctx);
          ctx' = ctx\<lparr>m2_peers := map_vals (\<lambda>mid p. if pi_conn_id p = tid then reset_peer p else p)
                                 (m2_peers ctx)\<rparr>;
          s1 = s\<lparr>m2_contexts := AList.update xid ctx' (m2_contexts s)\<rparr>
      in fold (\<lambda>mid st. let room_id = room_of_member (m2_rooms ctx) mid
                        in if room_id \<noteq> 0
                           then QueueMatching2SignalingEvent ctx room_id mid M2Dead error_code st
                           else st) hit s1)"

definition QueueMatching2DeadForTransport :: "s32 \<Rightarrow> s32 \<Rightarrow> SigState \<Rightarrow> SigState" where
  "QueueMatching2DeadForTransport tid error_code s =
     fold (\<lambda>xid st. case map_of (m2_contexts st) xid of
                     None \<Rightarrow> st
                   | Some ctx \<Rightarrow> m2_dead_in_context tid error_code xid ctx st)
       m2_context_ids s"

section \<open>Closing\<close>

definition CloseConnectionAndDispatchDead :: "s32 \<Rightarrow> s32 \<Rightarrow> s32 \<Rightarrow> SigState \<Rightarrow> SigState" where
  "CloseConnectionAndDispatchDead conn_id sig_error_code matching2_error_code s =
     (case map_of (connections s) conn_id of
        None \<Rightarrow> s
      | Some ci \<Rightarrow>
          if ci_status ci = ORBIS_NP_SIGNALING_CONN_STATUS_INACTIVE \<or> ci_dead_fired ci then s
          else
            let tid = ci_transport_id ci;
                s1 = (case GetTransportLocked tid s of None \<Rightarrow> s
                      | Some tr \<Rightarrow> upd_transport tid (SetTransportStateLocked Inactive) s);
                s2 = s1\<lparr>connections := AList.update conn_id
                         (ci\<lparr>ci_status := ORBIS_NP_SIGNALING_CONN_STATUS_INACTIVE,
                             ci_dead_fired := True\<rparr>) (connections s1)\<rparr>;
                s3 = (if tid \<noteq> 0 then QueueMatching2DeadForTransport tid matching2_error_code s2
                      else s2);
                s4 = (if ci_ctx_id ci \<noteq> 0
                      then DispatchConnectionEvent conn_id ORBIS_NP_SIGNALING_EVENT_DEAD
                             sig_error_code s3
                      else s3)
            in RemoveConnectionLocked conn_id s4)"

definition CloseTransportAndDispatchDead :: "s32 \<Rightarrow> s32 \<Rightarrow> s32 \<Rightarrow> SigState \<Rightarrow> SigState" where
  "CloseTransportAndDispatchDead tid sig_error_code matching2_error_code s =
     (case GetTransportLocked tid s of
        None \<Rightarrow> s
      | Some tr \<Rightarrow>
          if pt_state tr = Inactive then s
          else
            let s1 = upd_transport tid (SetTransportStateLocked Inactive) s;
                dying = (\<lambda>cid ci. ci_transport_id ci = tid \<and> \<not> ci_dead_fired ci);
                sig1_conns = keys_where (\<lambda>cid ci. dying cid ci \<and> ci_ctx_id ci \<noteq> 0) (connections s1);
                s2 = s1\<lparr>connections := map_vals (\<lambda>cid ci. if dying cid ci
                        then ci\<lparr>ci_dead_fired := True,
                                ci_status := ORBIS_NP_SIGNALING_CONN_STATUS_INACTIVE\<rparr>
                        else ci) (connections s1)\<rparr>;
                s3 = QueueMatching2DeadForTransport tid matching2_error_code s2;
                s4 = fold (\<lambda>cid. DispatchConnectionEvent cid ORBIS_NP_SIGNALING_EVENT_DEAD
                                   sig_error_code) sig1_conns s3;
                s5 = fold RemoveConnectionLocked sig1_conns s4
            in s5\<lparr>peer_transports := AList.delete tid (peer_transports s5)\<rparr>)"

section \<open>Establishing\<close>

definition wants_peer_activated :: "ConnectionInfo \<Rightarrow> bool" where
  "wants_peer_activated ci \<longleftrightarrow>
     ci_peer_activated ci \<and> \<not> ci_locally_activated ci \<and> \<not> ci_peer_activated_fired ci"

definition wants_established :: "ConnectionInfo \<Rightarrow> bool" where
  "wants_established ci \<longleftrightarrow> ci_ctx_id ci \<noteq> 0 \<and> ci_locally_activated ci \<and>
     ci_status ci = ORBIS_NP_SIGNALING_CONN_STATUS_ACTIVE \<and> \<not> ci_sig1_established_event_fired ci"

definition wants_mutual :: "ConnectionInfo \<Rightarrow> bool" where
  "wants_mutual ci \<longleftrightarrow> ci_ctx_id ci \<noteq> 0 \<and> ci_locally_activated ci \<and>
     ci_status ci = ORBIS_NP_SIGNALING_CONN_STATUS_ACTIVE \<and> ci_peer_activated ci \<and>
     \<not> ci_mutual_fired ci"

text \<open>
  The body of the loop over the connections of the transport: the status sync and the flags
  of the events that fire. The three tests read none of the flags the others set.
\<close>

definition establish_ci :: "PeerTransport \<Rightarrow> ConnectionInfo \<Rightarrow> ConnectionInfo" where
  "establish_ci tr ci =
     (let c = SyncSig1StatusLocked tr ci
      in c\<lparr>ci_peer_activated_fired := ci_peer_activated_fired c \<or> wants_peer_activated c,
           ci_sig1_established_event_fired := ci_sig1_established_event_fired c \<or> wants_established c,
           ci_mutual_fired := ci_mutual_fired c \<or> wants_mutual c\<rparr>)"

text \<open>The locked section's effect on the transport: what it becomes and the packet to send.\<close>

definition establish_transport :: "bool \<Rightarrow> PeerTransport \<Rightarrow> SigState \<Rightarrow> PeerTransport \<times> SignalingControl option \<times> SigState" where
  "establish_transport peer_activated_hint tr s =
     (let t1 = (if peer_activated_hint then tr\<lparr>pt_peer_activated := True\<rparr> else tr)
      in if pt_transport_established_fired t1 then (t1, None, s)
         else
           let (now, s1) = NowUs s;
               t2 = (SetTransportStateLocked Established t1)
                      \<lparr>pt_transport_established_fired := True, pt_last_peer_rx_us := now\<rparr>
           in (t2, if pt_addr t2 \<noteq> 0 \<and> pt_port t2 \<noteq> 0
                   then Some (MakeControlOfTransport t2 EstablishedMsg s1) else None, s1))"

definition EstablishConnection :: "s32 \<Rightarrow> bool \<Rightarrow> SigState \<Rightarrow> SigState" where
  "EstablishConnection tid peer_activated_hint s =
     (case GetTransportLocked tid s of
        None \<Rightarrow> s
      | Some tr \<Rightarrow>
          let (t2, established_pkt, s1) = establish_transport peer_activated_hint tr s;
              fires = (\<lambda>W. keys_where (\<lambda>cid ci. ci_transport_id ci = tid \<and>
                                          W (SyncSig1StatusLocked t2 ci)) (connections s1));
              sig1_peer_activated = fires wants_peer_activated;
              sig1_established = fires wants_established;
              sig1_mutual = fires wants_mutual;
              s2 = s1\<lparr>peer_transports := AList.update tid t2 (peer_transports s1),
                      connections := map_vals (\<lambda>cid ci. if ci_transport_id ci = tid
                                       then establish_ci t2 ci else ci) (connections s1)\<rparr>;
              s3 = (case established_pkt of None \<Rightarrow> s2
                    | Some pkt \<Rightarrow> snd (ControlSendTo (PktControl pkt) (pt_addr t2) (pt_port t2) s2));
              s4 = fold DispatchPeerActivatedEvent sig1_peer_activated s3;
              s5 = fold (\<lambda>cid. DispatchConnectionEvent cid ORBIS_NP_SIGNALING_EVENT_ESTABLISHED 0)
                     sig1_established s4
          in fold (\<lambda>cid. DispatchConnectionEvent cid ORBIS_NP_SIGNALING_EVENT_MUTUAL_ACTIVATED 0)
               sig1_mutual s5)"

end
