(* ===== verification/SigHandler.thy ===== *)
theory SigHandler
  imports SigTransport
begin

text \<open>
  The event handlers of np_signaling_handler.cpp: queued activations, received handshake and
  control packets, the dispatch of a received datagram, and activation, deactivation and
  termination of a connection. A handler is one step of the model: the code takes the state
  mutex again for each of its sections, and the model runs the sections of a handler one after
  the other.
\<close>

section \<open>Queued activations\<close>

definition process_activation ::
  "PendingActivation \<Rightarrow> SigState \<times> PendingActivation list \<Rightarrow> SigState \<times> PendingActivation list" where
  "process_activation act st =
     (let (s, retry) = st
      in case map_of (connections s) (pa_conn_id act) of
           None \<Rightarrow> (s, retry)
         | Some ci \<Rightarrow>
             if ci_status ci = ORBIS_NP_SIGNALING_CONN_STATUS_INACTIVE then (s, retry)
             else
               let tid = ci_transport_id ci;
                   (ok, peer_addr, peer_port) = ResolvePeer (pa_peer_online_id act) s
               in if \<not> (ok \<and> peer_addr \<noteq> 0 \<and> peer_port \<noteq> 0) then (s, retry @ [act])
                  else case GetTransportLocked tid s of
                    None \<Rightarrow> (s, retry)
                  | Some tr \<Rightarrow>
                      let s1 = upd_transport tid (\<lambda>t. t\<lparr>pt_addr := peer_addr, pt_port := peer_port\<rparr>) s;
                          ci' = SyncSig1StatusLocked (the_transport tid s1) ci;
                          s2 = s1\<lparr>connections := AList.update (pa_conn_id act) ci' (connections s1)\<rparr>;
                          s3 = SendActivate ci' s2;
                          already_established = (pt_state tr = Established)
                      in (if pa_start_handshake act then StartTransportHandshakeInitiator tid s3
                          else if already_established then EstablishConnection tid False s3
                          else s3, retry))"

definition ProcessPendingActivations :: "SigState \<Rightarrow> SigState" where
  "ProcessPendingActivations s =
     (if pending_activations s = [] then s
      else
        let work = pending_activations s;
            (s1, retry) = fold process_activation work (s\<lparr>pending_activations := []\<rparr>, [])
        in s1\<lparr>pending_activations := pending_activations s1 @ retry\<rparr>)"

section \<open>Handshake packets\<close>

definition handshake_endpoint :: "u32 \<Rightarrow> u16 \<Rightarrow> SignalingHandshake \<Rightarrow> PeerTransport \<Rightarrow> PeerTransport" where
  "handshake_endpoint from_addr from_port pkt t =
     t\<lparr>pt_addr := (if hs_mapped_addr pkt \<noteq> 0 then hs_mapped_addr pkt else from_addr),
       pt_port := from_port\<rparr>"

definition on_offer :: "u32 \<Rightarrow> u16 \<Rightarrow> SignalingHandshake \<Rightarrow> s32 \<Rightarrow> SigState \<Rightarrow> SigState \<times> SignalingHandshake" where
  "on_offer from_addr from_port pkt tid s =
     (let s1 = upd_transport tid (\<lambda>t.
            let t1 = (handshake_endpoint from_addr from_port pkt t)\<lparr>pt_peer_activated := True\<rparr>
            in if pt_state t1 \<noteq> Established then SetTransportStateLocked SendingAccept t1 else t1) s
      in (s1, MakeHandshakeLocked (the_transport tid s1) Accept s1))"

definition on_accept ::
  "u32 \<Rightarrow> u16 \<Rightarrow> SignalingHandshake \<Rightarrow> s32 \<Rightarrow> SigState \<Rightarrow> SigState \<times> SignalingHandshake option" where
  "on_accept from_addr from_port pkt tid s =
     (let s1 = upd_transport tid
                 (\<lambda>t. handshake_endpoint from_addr from_port pkt (t\<lparr>pt_peer_activated := True\<rparr>)) s
      in if pt_state (the_transport tid s1) \<in> {SendingOffer, WaitAccept, SendingAccept, WaitOffer}
         then let s2 = upd_transport tid (SetTransportStateLocked ConnCheck) s1;
                  reply = MakeHandshakeLocked (the_transport tid s2) Check s2;
                  (now, s3) = NowUs s2
              in (s3, Some (reply\<lparr>hs_nonce := word_of_int now\<rparr>))
         else (s1, None))"

definition on_check :: "SignalingHandshake \<Rightarrow> s32 \<Rightarrow> SigState \<Rightarrow> SigState \<times> SignalingHandshake" where
  "on_check pkt tid s =
     (let reply = (MakeHandshakeLocked (the_transport tid s) CheckAck s)\<lparr>hs_nonce := hs_nonce pkt\<rparr>;
          s1 = (if pt_state (the_transport tid s) \<in> {SendingAccept, WaitOffer}
                then upd_transport tid (SetTransportStateLocked ConnCheck) s else s)
      in (s1, reply))"

definition on_check_ack :: "SignalingHandshake \<Rightarrow> s32 \<Rightarrow> SigState \<Rightarrow> SigState \<times> s32" where
  "on_check_ack pkt tid s =
     (let (now, s1) = NowUs s;
          rtt_us = to_s64 (now - sint (hs_nonce pkt));
          s2 = (if rtt_us \<ge> 0 then upd_transport tid (record_rtt (to_s32 rtt_us)) s1 else s1)
      in (s2, if pt_state (the_transport tid s2) \<noteq> Established then tid else 0))"

text \<open>The locked section after the lookup: the state, the reply, and the transport to establish (0: none).\<close>

definition handshake_section ::
  "u32 \<Rightarrow> u16 \<Rightarrow> SignalingHandshake \<Rightarrow> s32 \<Rightarrow> SigState \<Rightarrow> SigState \<times> SignalingHandshake option \<times> s32" where
  "handshake_section from_addr from_port pkt tid s =
     (let (now, s0) = NowUs s;
          s1 = upd_transport tid (\<lambda>t. t\<lparr>pt_last_peer_rx_us := now\<rparr>) s0
      in if hs_kind pkt = handshake_kind_byte Offer
         then let (s2, r) = on_offer from_addr from_port pkt tid s1 in (s2, Some r, 0)
         else if hs_kind pkt = handshake_kind_byte Accept
         then let (s2, r) = on_accept from_addr from_port pkt tid s1 in (s2, r, 0)
         else if hs_kind pkt = handshake_kind_byte Check
         then let (s2, r) = on_check pkt tid s1 in (s2, Some r, 0)
         else if hs_kind pkt = handshake_kind_byte CheckAck
         then let (s2, e) = on_check_ack pkt tid s1 in (s2, None, e)
         else (s1, None, 0))"

definition HandleHandshakePacket :: "u32 \<Rightarrow> u16 \<Rightarrow> SignalingHandshake \<Rightarrow> SigState \<Rightarrow> SigState" where
  "HandleHandshakePacket from_addr from_port pkt s =
     (let tid = FindTransportByOnlineIdLocked (PacketOnlineIdToString (hs_online_id_from pkt)) s
      in if tid = 0 then s
         else
           let (s2, reply, establish) = handshake_section from_addr from_port pkt tid s;
               s3 = SyncSig1ConnectionsForTransportLocked tid s2;
               s4 = (case reply of None \<Rightarrow> s3
                     | Some r \<Rightarrow> (case GetTransportLocked tid s3 of None \<Rightarrow> s3
                                  | Some tr \<Rightarrow> SendHandshakeLocked tid r s3))
           in if establish \<noteq> 0 then EstablishConnection establish True s4 else s4)"

section \<open>Control packets\<close>

definition control_addr :: "u32 \<Rightarrow> SignalingControl \<Rightarrow> u32" where
  "control_addr from_addr pkt = (if ct_mapped_addr pkt \<noteq> 0 then ct_mapped_addr pkt else from_addr)"

definition active_context_of :: "bytes \<Rightarrow> SigState \<Rightarrow> s32" where
  "active_context_of to_id s =
     (case find_key (\<lambda>cid ctx. cx_active ctx \<and> OnlineIdEqualsString (cx_owner_online_id ctx) to_id)
             (contexts s) of
        None \<Rightarrow> 0 | Some cid \<Rightarrow> cid)"

text \<open>The transport of the requesting peer, created when there is none; a negative id ends the handler.\<close>

definition request_transport ::
  "u32 \<Rightarrow> u16 \<Rightarrow> SignalingControl \<Rightarrow> s32 \<Rightarrow> s32 \<Rightarrow> SigState \<Rightarrow> s32 \<times> SigState" where
  "request_transport from_addr from_port pkt ctx_id found s =
     (let peer_online_id = SetNpOnlineId (take 16 (ct_online_id_from pkt));
          local_online_id = (if ctx_id \<noteq> 0 then cx_owner_online_id (at_or zero_context ctx_id (contexts s))
                             else SetNpOnlineId (take 16 (ct_online_id_to pkt)))
      in if found = 0
         then EnsureTransportLocked local_online_id peer_online_id (NpIdFromOnlineId peer_online_id)
                (control_addr from_addr pkt) from_port s
         else (found, s))"

text \<open>The connection of a context to the requesting peer: found, created (negative: no id left), or 0.\<close>

definition request_connection :: "SignalingControl \<Rightarrow> s32 \<Rightarrow> s32 \<Rightarrow> SigState \<Rightarrow> s32 \<times> SigState" where
  "request_connection pkt ctx_id tid s =
     (let from_id = PacketOnlineIdToString (ct_online_id_from pkt);
          peer_online_id = SetNpOnlineId (take 16 (ct_online_id_from pkt));
          peer_npid = NpIdFromOnlineId peer_online_id;
          conn_id = (if ctx_id \<noteq> 0 then FindConnectionByOnlineIdLocked from_id ctx_id s else 0)
      in if ctx_id \<noteq> 0 \<and> conn_id = 0
         then let (cid, s1) = AllocateConnectionIdLocked s
              in if cid < 0 then (cid, s1)
                 else let ci = SyncSig1StatusLocked (the_transport tid s1)
                                 (zero_connection\<lparr>ci_conn_id := cid, ci_ctx_id := ctx_id,
                                    ci_transport_id := tid, ci_locally_activated := False,
                                    ci_peer_activated := True, ci_online_id := peer_online_id,
                                    ci_npid := peer_npid\<rparr>)
                      in (cid, s1\<lparr>connections := AList.update cid ci (connections s1),
                                  npid_to_conn := AList.update (MakeCtxNpIdKey ctx_id peer_npid) cid
                                                    (npid_to_conn s1)\<rparr>)
         else (conn_id, s))"

definition on_activation_request ::
  "u32 \<Rightarrow> u16 \<Rightarrow> SignalingControl \<Rightarrow> s32 \<Rightarrow> SigState \<Rightarrow> SigState" where
  "on_activation_request from_addr from_port pkt found s =
     (let ctx_id = active_context_of (PacketOnlineIdToString (ct_online_id_to pkt)) s;
          (tid, s1) = request_transport from_addr from_port pkt ctx_id found s
      in if tid < 0 then s1
         else
           let s2 = upd_transport tid (\<lambda>t.
                      let t1 = t\<lparr>pt_peer_activated := True, pt_addr := control_addr from_addr pkt,
                                 pt_port := from_port\<rparr>
                      in if pt_state t1 = Inactive then SetTransportStateLocked WaitOffer t1 else t1) s1;
               (conn_id, s3) = request_connection pkt ctx_id tid s2
           in if conn_id < 0 then s3
              else
                let s4 = (if conn_id \<noteq> 0
                          then s3\<lparr>connections := modify_at zero_connection conn_id
                                 (\<lambda>ci. ci\<lparr>ci_peer_activated := True, ci_transport_id := tid\<rparr>)
                                 (connections s3)\<rparr>
                          else s3);
                    s5 = SyncSig1ConnectionsForTransportLocked tid s4;
                    tr = the_transport tid s5;
                    ack = MakeControlOfTransport tr ActivationAck s5;
                    s6 = (if pt_addr tr \<noteq> 0 \<and> pt_port tr \<noteq> 0
                          then snd (ControlSendTo (PktControl ack) (pt_addr tr) (pt_port tr) s5)
                          else s5)
                in if pt_state tr = Established then EstablishConnection tid False s6 else s6)"

definition on_close :: "SignalingControl \<Rightarrow> s32 \<Rightarrow> SigState \<Rightarrow> SigState" where
  "on_close pkt tid s =
     (let from_id = PacketOnlineIdToString (ct_online_id_from pkt);
          conn_id = FindConnectionByOnlineIdLocked from_id 0 s
      in if ct_reason pkt = control_reason_word Deactivate \<and> conn_id \<noteq> 0 \<and>
            pt_state (the_transport tid s) = Established
         then DispatchConnectionEvent conn_id ORBIS_NP_SIGNALING_EVENT_PEER_DEACTIVATED 0 s
         else if conn_id = 0
         then QueueMatching2DeadForTransport tid ORBIS_NP_MATCHING2_SIGNALING_ERROR_TERMINATED_BY_PEER
                (upd_transport tid (SetTransportStateLocked Inactive) s)
         else CloseConnectionAndDispatchDead conn_id ORBIS_NP_SIGNALING_ERROR_TERMINATED_BY_PEER
                ORBIS_NP_MATCHING2_SIGNALING_ERROR_TERMINATED_BY_PEER s)"

definition HandleControlPacket :: "u32 \<Rightarrow> u16 \<Rightarrow> SignalingControl \<Rightarrow> SigState \<Rightarrow> SigState" where
  "HandleControlPacket from_addr from_port pkt s =
     (let tid = FindTransportByOnlineIdLocked (PacketOnlineIdToString (ct_online_id_from pkt)) s
      in if ct_kind pkt = control_kind_byte ActivationRequest
         then on_activation_request from_addr from_port pkt tid s
         else if tid = 0 then s
         else if ct_kind pkt = control_kind_byte ActivationAck
         then SyncSig1ConnectionsForTransportLocked tid
                (upd_transport tid (\<lambda>t.
                   let t1 = t\<lparr>pt_peer_activated := True\<rparr>
                   in if ct_mapped_addr pkt \<noteq> 0 then t1\<lparr>pt_addr := ct_mapped_addr pkt\<rparr> else t1) s)
         else if ct_kind pkt = control_kind_byte EstablishedMsg
         then let s1 = upd_transport tid (\<lambda>t. t\<lparr>pt_peer_established := True\<rparr>) s
              in if pt_state (the_transport tid s1) = Established
                 then EstablishConnection tid False s1 else s1
         else if ct_kind pkt = control_kind_byte Close then on_close pkt tid s
         else s)"

section \<open>Received datagrams\<close>

definition HandleStunEcho :: "StunEcho \<Rightarrow> SigState \<Rightarrow> SigState" where
  "HandleStunEcho echo s =
     s\<lparr>contexts := map_vals (\<lambda>cid ctx. if cx_active ctx
          then ctx\<lparr>cx_ext_addr := ext_ip echo, cx_ext_port := ext_port echo\<rparr> else ctx) (contexts s),
       external_ip := ext_ip echo\<rparr>"

definition on_echo_ping :: "u32 \<Rightarrow> u16 \<Rightarrow> SignalingEchoPing \<Rightarrow> SigState \<Rightarrow> SigState" where
  "on_echo_ping from_addr from_port ping s =
     snd (SignalingSendTo (PktEchoPong \<lparr>pong_conn_id = ping_conn_id ping, orig_ts_us = send_ts_us ping\<rparr>)
            from_addr from_port s)"

definition on_echo_pong :: "SignalingEchoPong \<Rightarrow> SigState \<Rightarrow> SigState" where
  "on_echo_pong pong s =
     (let (now, s1) = NowUs s;
          rtt = to_s32 (to_s64 (now - sint (orig_ts_us pong)));
          rtt_us = (if rtt < 0 then 0 else rtt);
          tid = sint (pong_conn_id pong)
      in case map_of (peer_transports s1) tid of
           None \<Rightarrow> s1
         | Some tr \<Rightarrow> upd_transport tid (record_rtt rtt_us) s1)"

definition ProcessSignalingPacket :: "bytes \<Rightarrow> u32 \<Rightarrow> u16 \<Rightarrow> SigState \<Rightarrow> SigState" where
  "ProcessSignalingPacket buf from_addr from_port s =
     (if length buf = 6 then HandleStunEcho (dec_stun_echo buf) s
      else if \<not> HasSignalingMagic buf then s
      else if length buf = 0x32 \<and> buf ! 4 = packet_type_byte Control
      then HandleControlPacket from_addr from_port (dec_control buf) s
      else if length buf = 17 \<and> buf ! 4 = packet_type_byte EchoPing
      then on_echo_ping from_addr from_port (dec_echo_ping buf) s
      else if length buf = 17 \<and> buf ! 4 = packet_type_byte EchoPong
      then on_echo_pong (dec_echo_pong buf) s
      else if length buf = 0x3e \<and> buf ! 4 = packet_type_byte Handshake
      then HandleHandshakePacket from_addr from_port (dec_handshake buf) s
      else s)"

section \<open>Activation, deactivation, termination\<close>

text \<open>
  The locked section of \<open>ActivateSig1\<close> once the request is granted: the connection of the
  context to the peer, reused or created. The result is the connection id or an error, the
  state, and whether the transport was established already.
\<close>

definition activate_lookup :: "s32 \<Rightarrow> OrbisNpId \<Rightarrow> SigState \<Rightarrow> s32 \<times> SigState" where
  "activate_lookup ctx_id peer_npid s =
     (case map_of (npid_to_conn s) (MakeCtxNpIdKey ctx_id peer_npid) of
        None \<Rightarrow> (0, s)
      | Some c \<Rightarrow>
          (case map_of (connections s) c of
             None \<Rightarrow> (0, s)
           | Some ci \<Rightarrow>
               if ci_status ci = ORBIS_NP_SIGNALING_CONN_STATUS_INACTIVE
               then (0, RemoveConnectionLocked c s) else (c, s)))"

definition activate_new ::
  "s32 \<Rightarrow> OrbisNpId \<Rightarrow> OrbisNpOnlineId \<Rightarrow> s32 \<Rightarrow> SigState \<Rightarrow> s32 \<times> SigState" where
  "activate_new ctx_id peer_npid peer_online_id tid s =
     (let (cid, s1) = AllocateConnectionIdLocked s
      in if cid < 0 then (cid, s1)
         else let ci = SyncSig1StatusLocked (the_transport tid s1)
                         (zero_connection\<lparr>ci_conn_id := cid, ci_ctx_id := ctx_id,
                            ci_transport_id := tid, ci_locally_activated := True,
                            ci_npid := peer_npid, ci_online_id := peer_online_id\<rparr>);
                  ci' = (if ci_status ci = ORBIS_NP_SIGNALING_CONN_STATUS_INACTIVE
                         then ci\<lparr>ci_status := ORBIS_NP_SIGNALING_CONN_STATUS_PENDING\<rparr> else ci)
              in (cid, s1\<lparr>connections := AList.update cid ci' (connections s1)\<rparr>))"

definition activate_reuse ::
  "s32 \<Rightarrow> OrbisNpId \<Rightarrow> OrbisNpOnlineId \<Rightarrow> s32 \<Rightarrow> s32 \<Rightarrow> SigState \<Rightarrow> SigState" where
  "activate_reuse ctx_id peer_npid peer_online_id tid conn_id s =
     (let tr = the_transport tid s;
          s1 = (if pt_state tr \<in> {Inactive, WaitOffer}
                then upd_transport tid (SetTransportStateLocked SendingOffer) s else s)
      in s1\<lparr>connections := modify_at zero_connection conn_id
              (\<lambda>ci. SyncSig1StatusLocked (the_transport tid s1)
                 (ci\<lparr>ci_ctx_id := ctx_id, ci_transport_id := tid, ci_locally_activated := True,
                     ci_npid := peer_npid, ci_online_id := peer_online_id\<rparr>)) (connections s1)\<rparr>)"

definition activate_granted ::
  "s32 \<Rightarrow> OrbisNpId \<Rightarrow> OrbisNpOnlineId \<Rightarrow> NpSignalingContext \<Rightarrow> SigState \<Rightarrow> (s32 + s32 \<times> bool) \<times> SigState" where
  "activate_granted ctx_id peer_npid peer_online_id ctx s =
     (let (conn_id, s1) = activate_lookup ctx_id peer_npid s;
          (tid, s2) = EnsureTransportLocked (cx_owner_online_id ctx) peer_online_id peer_npid 0 0 s1
      in if tid < 0 then (Inl ORBIS_NP_SIGNALING_ERROR_OUT_OF_MEMORY, s2)
         else
           let established = (pt_state (the_transport tid s2) = Established);
               (cid, queue_activation, s3) =
                 (if conn_id = 0
                  then let (cid, s3) = activate_new ctx_id peer_npid peer_online_id tid s2
                       in (cid, True, s3)
                  else (conn_id,
                        \<not> ci_locally_activated (at_or zero_connection conn_id (connections s2)),
                        activate_reuse ctx_id peer_npid peer_online_id tid conn_id s2))
           in if cid < 0 then (Inl ORBIS_NP_SIGNALING_ERROR_OUT_OF_MEMORY, s3)
              else
                let s4 = s3\<lparr>npid_to_conn := AList.update (MakeCtxNpIdKey ctx_id peer_npid) cid
                              (npid_to_conn s3)\<rparr>;
                    s5 = (if queue_activation
                          then QueueActivationLocked cid (OnlineIdToString peer_online_id)
                                 (\<not> established) s4
                          else s4)
                in (Inr (cid, established), s5))"

text \<open>\<open>None\<close> for the out pointer is the null pointer; the second result is what \<open>*out_conn_id\<close> gets.\<close>

definition ActivateSig1 ::
  "s32 \<Rightarrow> OrbisNpId \<Rightarrow> OrbisNpOnlineId \<Rightarrow> bool \<Rightarrow> SigState \<Rightarrow> s32 \<times> s32 option \<times> SigState" where
  "ActivateSig1 ctx_id peer_npid peer_online_id out_conn_id s =
     (if \<not> out_conn_id then (ORBIS_NP_SIGNALING_ERROR_INVALID_ARGUMENT, None, s)
      else if \<not> initialized s then (ORBIS_NP_SIGNALING_ERROR_NOT_INITIALIZED, None, s)
      else case map_of (contexts s) ctx_id of
        None \<Rightarrow> (ORBIS_NP_SIGNALING_ERROR_CTX_NOT_FOUND, None, s)
      | Some ctx \<Rightarrow>
          if \<not> cx_active ctx then (ORBIS_NP_SIGNALING_ERROR_CTX_NOT_FOUND, None, s)
          else if cx_owner_npid ctx = peer_npid then (ORBIS_NP_SIGNALING_ERROR_OWN_NP_ID, None, s)
          else
            let (ok, s1) = ConsumeActivationBudgetGatedLocked ctx_id s
            in if \<not> ok then (ORBIS_NP_SIGNALING_ERROR_EXCEED_RATE_LIMIT, None, s1)
               else
                 case activate_granted ctx_id peer_npid peer_online_id ctx s1 of
                   (Inl e, s2) \<Rightarrow> (e, None, s2)
                 | (Inr (conn_id, reused_established), s2) \<Rightarrow>
                     (ORBIS_OK, Some conn_id,
                      if reused_established
                      then (case map_of (connections s2) conn_id of
                              None \<Rightarrow> s2
                            | Some ci \<Rightarrow> if ci_transport_id ci \<noteq> 0
                                then EstablishConnection (ci_transport_id ci) False s2 else s2)
                      else s2))"

definition DeactivateSig1 :: "s32 \<Rightarrow> SigState \<Rightarrow> SigState" where
  "DeactivateSig1 conn_id s =
     (case map_of (connections s) conn_id of
        None \<Rightarrow> s
      | Some ci \<Rightarrow>
          let active = (case GetTransportLocked (ci_transport_id ci) s of
                          None \<Rightarrow> False | Some tr \<Rightarrow> pt_state tr = Established);
              s1 = (if active \<and> \<not> ci_dead_fired ci then SendControlCloseLocked ci Deactivate s else s)
          in CloseConnectionAndDispatchDead conn_id ORBIS_NP_SIGNALING_ERROR_TERMINATED_BY_MYSELF
               ORBIS_NP_MATCHING2_SIGNALING_ERROR_TERMINATED_BY_MYSELF s1)"

definition TerminateSig1 :: "s32 \<Rightarrow> SigState \<Rightarrow> SigState" where
  "TerminateSig1 conn_id s =
     (let s1 = (case map_of (connections s) conn_id of
                  None \<Rightarrow> s | Some ci \<Rightarrow> SendControlCloseLocked ci Terminate s)
      in CloseConnectionAndDispatchDead conn_id ORBIS_NP_SIGNALING_ERROR_TERMINATED_BY_MYSELF
           ORBIS_NP_MATCHING2_SIGNALING_ERROR_TERMINATED_BY_MYSELF s1)"

end
