(* ===== verification/SigRuntime.thy ===== *)
theory SigRuntime
  imports SigHandler
begin

text \<open>
  The periodic work and the threads of the signaling library: receive loops, echo probes,
  resends and timeouts, publication of the endpoint, the sync of matching2 peers, the start and
  stop of the matching2 connections of a context (np_signaling_handler.cpp), and the dispatch
  thread, heap and runtime hooks (np_signaling_helpers.cpp).
\<close>

section \<open>Receive loops\<close>

text \<open>
  A datagram as the receive hook returns it, with its return code: the loop reads until a code
  is not positive. The hook copies at most the 256 bytes of the buffer.
\<close>

type_synonym Datagram = "bytes \<times> u32 \<times> u16"

fun drain_packets :: "Datagram list \<Rightarrow> SigState \<Rightarrow> SigState" where
  "drain_packets [] s = s"
| "drain_packets ((buf, from_addr, from_port) # rest) s =
     (if buf = [] then s
      else drain_packets rest (ProcessSignalingPacket (take 256 buf) from_addr from_port s))"

definition DrainSignalingPackets :: "Datagram list \<Rightarrow> SigState \<Rightarrow> SigState" where
  "DrainSignalingPackets received s = drain_packets received s"

definition DrainControlPackets :: "Datagram list \<Rightarrow> SigState \<Rightarrow> SigState" where
  "DrainControlPackets received s = drain_packets received s"

section \<open>Publication of the endpoint\<close>

definition PublishOnlineId :: "OrbisNpOnlineId \<Rightarrow> SigState \<Rightarrow> bool \<times> SigState" where
  "PublishOnlineId online_id s =
     (if \<not> matching2_enabled (hooks s) \<or> oid_data online_id ! 0 = 0 then (False, s)
      else if mm_server_addr (hooks s) = 0 \<or> mm_server_udp_port (hooks s) = 0 then (False, s)
      else let ping = \<lparr>sp_cmd = 1, sp_online_id = oid_data online_id, sp_local_ip = AdvertisedAddr s\<rparr>;
               (rc, s1) = SignalingSendTo (PktStunPing ping) (mm_server_addr (hooks s))
                            (mm_server_udp_port (hooks s)) s
           in (rc \<ge> 0, s1))"

text \<open>The loop over the ids of the active contexts and the started matching2 contexts.\<close>

fun publish_loop :: "OrbisNpOnlineId list \<Rightarrow> bytes list \<Rightarrow> nat \<Rightarrow> SigState \<Rightarrow> nat \<times> SigState" where
  "publish_loop [] names count s = (count, s)"
| "publish_loop (oid # oids) names count s =
     (let name = OnlineIdToString oid
      in if name = [] \<or> name \<in> set names then publish_loop oids names count s
         else let (ok, s1) = PublishOnlineId oid s
              in publish_loop oids (names @ [name]) (if ok then Suc count else count) s1)"

definition published_ids :: "SigState \<Rightarrow> OrbisNpOnlineId list" where
  "published_ids s =
     map (cx_owner_online_id \<circ> snd) (filter (\<lambda>(cid, ctx). cx_active ctx) (contexts s)) @
     concat (map (\<lambda>xid. case map_of (m2_contexts s) xid of
                          None \<Rightarrow> []
                        | Some ctx \<Rightarrow> if m2_started ctx then [m2_online_id ctx] else [])
               m2_context_ids)"

definition PublishSignalingInfo :: "SigState \<Rightarrow> nat \<times> SigState" where
  "PublishSignalingInfo s = publish_loop (published_ids s) [] 0 s"

section \<open>Echo probes\<close>

definition kEchoIntervalUs :: s64 where [simp]: "kEchoIntervalUs = 1000000"

definition echo_due :: "s64 \<Rightarrow> PeerTransport \<Rightarrow> bool" where
  "echo_due now tr \<longleftrightarrow>
     \<not> (pt_status tr \<noteq> ORBIS_NP_SIGNALING_CONN_STATUS_ACTIVE \<or> pt_addr tr = 0 \<or> pt_port tr = 0) \<and>
     \<not> (pt_last_echo_ping_us tr \<noteq> 0 \<and> now - pt_last_echo_ping_us tr < kEchoIntervalUs)"

definition SendEchoPings :: "SigState \<Rightarrow> SigState" where
  "SendEchoPings s =
     (let (now, s1) = NowUs s;
          targets = filter (\<lambda>(tid, tr). echo_due now tr) (peer_transports s1);
          s2 = s1\<lparr>peer_transports := map_vals (\<lambda>tid tr. if echo_due now tr
                    then tr\<lparr>pt_last_echo_ping_us := now\<rparr> else tr) (peer_transports s1)\<rparr>
      in fold (\<lambda>(tid, tr) st. snd (SignalingSendTo
                 (PktEchoPing \<lparr>ping_conn_id = word_of_int tid, send_ts_us = word_of_int now\<rparr>)
                 (pt_addr tr) (pt_port tr) st)) targets s2)"

section \<open>Resends and timeouts\<close>

definition kMatching2StepIntervalUs :: s64 where [simp]: "kMatching2StepIntervalUs = 500000"
definition kMatching2TimeoutUs :: s64 where [simp]: "kMatching2TimeoutUs = 30000000"
definition kMatching2EstablishDelayUs :: s64 where [simp]: "kMatching2EstablishDelayUs = 1000000"
definition kStunPingIntervalUs :: s64 where [simp]: "kStunPingIntervalUs = 5000000"

definition step_skips :: "PeerTransport \<Rightarrow> bool" where
  "step_skips tr \<longleftrightarrow> pt_status tr = ORBIS_NP_SIGNALING_CONN_STATUS_ACTIVE \<or> pt_state tr = Inactive"

definition step_timeout :: "s64 \<Rightarrow> PeerTransport \<Rightarrow> bool" where
  "step_timeout now tr \<longleftrightarrow> \<not> step_skips tr \<and>
     pt_last_handshake_send_us tr \<noteq> 0 \<and> now - pt_last_handshake_send_us tr > kMatching2TimeoutUs"

definition step_resend :: "s64 \<Rightarrow> PeerTransport \<Rightarrow> bool" where
  "step_resend now tr \<longleftrightarrow> \<not> step_skips tr \<and> \<not> step_timeout now tr \<and>
     (pt_last_handshake_send_us tr = 0 \<or>
      now - pt_last_handshake_send_us tr \<ge> kMatching2StepIntervalUs)"

definition StepPendingConnections :: "SigState \<Rightarrow> SigState" where
  "StepPendingConnections s =
     (let (now, s1) = NowUs s;
          resend = keys_where (\<lambda>tid tr. step_resend now tr) (peer_transports s1);
          timeout = keys_where (\<lambda>tid tr. step_timeout now tr) (peer_transports s1);
          s2 = fold StartTransportHandshakeInitiator resend s1
      in fold (\<lambda>tid. CloseTransportAndDispatchDead tid ORBIS_NP_SIGNALING_ERROR_TIMEOUT
                 ORBIS_NP_MATCHING2_SIGNALING_ERROR_TIMEOUT) timeout s2)"

section \<open>Matching2 peers\<close>

definition ShouldConnectToPeer :: "RoomCache \<Rightarrow> u16 \<Rightarrow> u16 \<Rightarrow> bool" where
  "ShouldConnectToPeer room self peer =
     (if peer = 0 \<or> peer = self then False
      else if rc_signaling_type room = TypeNone then False
      else if rc_signaling_type room = TypeStar \<and> rc_signaling_main_member room \<noteq> 0
      then self = rc_signaling_main_member room \<or> peer = rc_signaling_main_member room
      else True)"

definition ResolvePeerEndpoint :: "MemberCache \<Rightarrow> SigState \<Rightarrow> (u32 \<times> u16) option" where
  "ResolvePeerEndpoint member s =
     (if mc_addr member \<noteq> 0 \<and> mc_port member \<noteq> 0 then Some (mc_addr member, mc_port member)
      else let online_id = OnlineIdToString (handle (mc_np_id member));
               (ok, addr, port) = ResolvePeer online_id s
           in if online_id \<noteq> [] \<and> ok \<and> addr \<noteq> 0 \<and> port \<noteq> 0 then Some (addr, port) else None)"

record Snapshot =
  sp_ctx_id :: u16
  sp_room_id :: u64
  sp_member_id :: u16
  sp_transport_id :: s32
  sp_status :: s32
  sp_addr :: u32
  sp_port :: u16
  sp_rtt :: u32

definition peer_snapshot :: "SigState \<Rightarrow> M2Context \<Rightarrow> u16 \<times> PeerInfo \<Rightarrow> Snapshot list" where
  "peer_snapshot s ctx mp =
     (let (member_id, peer) = mp
      in if pi_conn_id peer = 0 then []
         else case map_of (peer_transports s) (pi_conn_id peer) of
           None \<Rightarrow> []
         | Some tr \<Rightarrow>
             let room_id = room_of_member (m2_rooms ctx) member_id
             in if room_id = 0 then []
                else [\<lparr>sp_ctx_id = m2_ctx_id ctx, sp_room_id = room_id, sp_member_id = member_id,
                       sp_transport_id = pi_conn_id peer, sp_status = pt_status tr,
                       sp_addr = pt_addr tr, sp_port = pt_port tr, sp_rtt = AverageRtt tr\<rparr>])"

definition m2_get :: "u16 \<Rightarrow> SigState \<Rightarrow> M2Context option" where
  "m2_get xid s = (if xid = 0 \<or> xid > 10 then None else map_of (m2_contexts s) xid)"

definition peer_snapshots :: "SigState \<Rightarrow> Snapshot list" where
  "peer_snapshots s =
     concat (map (\<lambda>xid. case m2_get xid s of
                          None \<Rightarrow> []
                        | Some ctx \<Rightarrow> if m2_signaling_callback ctx = 0 then []
                                      else concat (map (peer_snapshot s ctx) (m2_peers ctx)))
               m2_context_ids)"

text \<open>
  The peer after a snapshot, whether the clock was read, and whether the established event is
  queued. \<open>now_us\<close> is the reading the code makes on that path.
\<close>

definition sync_peer :: "s64 \<Rightarrow> Snapshot \<Rightarrow> PeerInfo \<Rightarrow> PeerInfo \<times> bool" where
  "sync_peer now_us sn p0 =
     (let p1 = p0\<lparr>pi_conn_id := sp_transport_id sn, pi_member_id := sp_member_id sn,
                  pi_addr := sp_addr sn, pi_port := sp_port sn, pi_ping_us := sp_rtt sn,
                  pi_status := (if sp_status sn = ORBIS_NP_SIGNALING_CONN_STATUS_ACTIVE
                                then kMatching2ConnActive
                                else if sp_status sn = ORBIS_NP_SIGNALING_CONN_STATUS_PENDING
                                then kMatching2ConnPending else kMatching2ConnInactive)\<rparr>;
          p2 = (if pi_status p1 \<noteq> kMatching2ConnActive then p1\<lparr>pi_active_since_us := 0\<rparr>
                else if \<not> pi_sent_established p1
                then let p = (if pi_active_since_us p1 = 0
                              then p1\<lparr>pi_active_since_us := now_us\<rparr> else p1)
                     in if now_us - pi_active_since_us p < kMatching2EstablishDelayUs
                        then p\<lparr>pi_status := kMatching2ConnPending\<rparr> else p
                else p1)
      in if pi_status p2 = kMatching2ConnActive \<and> \<not> pi_sent_established p2
         then (p2\<lparr>pi_sent_established := True\<rparr>, True) else (p2, False))"

definition sync_reads_clock :: "Snapshot \<Rightarrow> PeerInfo \<Rightarrow> bool" where
  "sync_reads_clock sn p \<longleftrightarrow>
     sp_status sn = ORBIS_NP_SIGNALING_CONN_STATUS_ACTIVE \<and> \<not> pi_sent_established p"

definition apply_snapshot :: "Snapshot \<Rightarrow> SigState \<Rightarrow> SigState" where
  "apply_snapshot sn s =
     (case m2_get (sp_ctx_id sn) s of
        None \<Rightarrow> s
      | Some ctx \<Rightarrow>
          if m2_signaling_callback ctx = 0 then s
          else
            let p0 = at_or zero_peer (sp_member_id sn) (m2_peers ctx);
                (now_us, s1) = (if sync_reads_clock sn p0 then NowUs s else (0, s));
                (p, fire) = sync_peer now_us sn p0;
                ctx' = ctx\<lparr>m2_peers := omap_put (sp_member_id sn) p (m2_peers ctx)\<rparr>;
                s2 = s1\<lparr>m2_contexts := AList.update (sp_ctx_id sn) ctx' (m2_contexts s1)\<rparr>
            in if fire
               then QueueMatching2SignalingEvent ctx (sp_room_id sn) (sp_member_id sn)
                      M2Established ORBIS_OK s2
               else s2)"

definition SyncMatching2Peers :: "SigState \<Rightarrow> SigState" where
  "SyncMatching2Peers s = fold apply_snapshot (peer_snapshots s) s"

definition FindMatching2MemberNpId :: "u64 \<Rightarrow> SigState \<Rightarrow> OrbisNpId option" where
  "FindMatching2MemberNpId account_id s =
     (case filter (\<lambda>member. mc_account_id member = account_id \<and> oid_data (handle (mc_np_id member)) ! 0 \<noteq> 0)
             (concat (map (\<lambda>xid. case m2_get xid s of
                                   None \<Rightarrow> []
                                 | Some ctx \<Rightarrow> concat (map (\<lambda>(rid, room). map snd (rc_members room)) (m2_rooms ctx)))
                        m2_context_ids)) of
        [] \<Rightarrow> None
      | member # rest \<Rightarrow> Some (mc_np_id member))"

definition start_target :: "u16 \<Rightarrow> u16 \<times> MemberCache \<Rightarrow> SigState \<times> s32 list \<Rightarrow> SigState \<times> s32 list" where
  "start_target xid target st =
     (let (member_id, member) = target; (s, pending_transports) = st
      in case ResolvePeerEndpoint member s of
           None \<Rightarrow> (s, pending_transports)
         | Some (peer_addr, peer_port) \<Rightarrow>
             case m2_get xid s of
               None \<Rightarrow> (s, pending_transports)
             | Some ctx \<Rightarrow>
             let (tid, s1) = EnsureTransportLocked (m2_online_id ctx) (handle (mc_np_id member))
                               (mc_np_id member) peer_addr peer_port s
             in if tid < 0 then (s1, pending_transports)
                else
                  let s2 = (if pt_state (the_transport tid s1) = WaitOffer
                            then upd_transport tid (SetTransportStateLocked SendingOffer) s1 else s1);
                      tr = the_transport tid s2;
                      peer = (at_or zero_peer member_id (m2_peers ctx))\<lparr>pi_conn_id := tid,
                               pi_member_id := member_id, pi_addr := peer_addr, pi_port := peer_port,
                               pi_status := (if pt_status tr = ORBIS_NP_SIGNALING_CONN_STATUS_ACTIVE
                                             then kMatching2ConnActive else kMatching2ConnPending)\<rparr>;
                      ctx' = ctx\<lparr>m2_peers := omap_put member_id peer (m2_peers ctx)\<rparr>
                  in (s2\<lparr>m2_contexts := AList.update xid ctx' (m2_contexts s2)\<rparr>,
                      if pt_state tr \<noteq> Established then pending_transports @ [tid]
                      else pending_transports))"

definition StartMatching2 :: "u16 \<Rightarrow> SigState \<Rightarrow> SigState" where
  "StartMatching2 xid s =
     (case m2_get xid s of
        None \<Rightarrow> s
      | Some ctx \<Rightarrow>
          if m2_signaling_callback ctx = 0 \<or> \<not> EnsureTransport s then s
          else
            let targets = concat (map (\<lambda>(rid, room).
                            filter (\<lambda>(mid, member). ShouldConnectToPeer room (m2_my_member_id ctx) mid)
                              (rc_members room)) (m2_rooms ctx));
                (s1, pending_transports) = fold (start_target xid) targets (s, [])
            in fold StartTransportHandshakeInitiator pending_transports (SyncMatching2Peers s1))"

definition room_transports :: "M2Context \<Rightarrow> u64 \<Rightarrow> s32 list" where
  "room_transports ctx room_id =
     (case map_of (m2_rooms ctx) room_id of
        None \<Rightarrow> []
      | Some room \<Rightarrow> concat (map (\<lambda>(mid, member).
            case map_of (m2_peers ctx) mid of
              None \<Rightarrow> []
            | Some peer \<Rightarrow> if pi_conn_id peer \<noteq> 0 then [pi_conn_id peer] else [])
          (rc_members room)))"

definition StopMatching2Room :: "u16 \<Rightarrow> u64 \<Rightarrow> s32 \<Rightarrow> SigState \<Rightarrow> SigState" where
  "StopMatching2Room xid room_id error_code s =
     (case m2_get xid s of
        None \<Rightarrow> s
      | Some ctx \<Rightarrow>
          fold (\<lambda>tid st. if HasSig1ConnectionForTransportLocked tid st then st
                         else CloseTransportAndDispatchDead tid error_code error_code st)
            (room_transports ctx room_id) s)"

definition StopMatching2 :: "u16 \<Rightarrow> s32 \<Rightarrow> SigState \<Rightarrow> SigState" where
  "StopMatching2 xid error_code s =
     (case m2_get xid s of
        None \<Rightarrow> s
      | Some ctx \<Rightarrow> fold (\<lambda>rid. StopMatching2Room xid rid error_code) (keys (m2_rooms ctx)) s)"

section \<open>The runtime thread\<close>

text \<open>
  One turn of \<open>ThreadMain\<close>: \<open>control\<close> and \<open>signaling\<close> are the datagrams the two receive hooks
  deliver in it, \<open>last_publish\<close> the local variable of the loop (0 before the first publication).
\<close>

definition runtime_turn :: "Datagram list \<Rightarrow> Datagram list \<Rightarrow> s64 \<times> SigState \<Rightarrow> s64 \<times> SigState" where
  "runtime_turn control signaling st =
     (let (last_publish, s) = st
      in if runtime_stop s \<or> \<not> EnsureTransport s then (last_publish, s)
         else
           let (now, s0) = NowUs s;
               s1 = DrainControlPackets control s0;
               s2 = DrainSignalingPackets signaling s1;
               s3 = StepPendingConnections s2;
               s4 = SendEchoPings s3;
               s5 = SyncMatching2Peers s4
           in if last_publish = 0 \<or> now - last_publish \<ge> kStunPingIntervalUs
              then let (count, s6) = PublishSignalingInfo s5
                   in (if count \<noteq> 0 then now else last_publish, s6)
              else (last_publish, s5))"

definition activation_turn :: "SigState \<Rightarrow> SigState" where
  "activation_turn s = (if runtime_stop s then s else ProcessPendingActivations s)"

definition SigStart :: "SigState \<Rightarrow> SigState" where
  "SigStart s =
     (if runtime_thread s then s
      else s\<lparr>runtime_stop := False, runtime_thread := True, activation_thread := True\<rparr>)"

definition SigStop :: "SigState \<Rightarrow> SigState" where
  "SigStop s =
     (if context_refs s > 0 then s
      else s\<lparr>runtime_stop := True, runtime_thread := False, activation_thread := False\<rparr>)"

definition AddContextRef :: "SigState \<Rightarrow> SigState" where
  "AddContextRef s = SigStart (s\<lparr>context_refs := context_refs s + 1\<rparr>)"

definition ReleaseContextRef :: "SigState \<Rightarrow> SigState" where
  "ReleaseContextRef s =
     (let s1 = (if context_refs s > 0 then s\<lparr>context_refs := context_refs s - 1\<rparr> else s)
      in if context_refs s1 = 0 then SigStop s1 else s1)"

section \<open>The dispatch thread (np_signaling_helpers.cpp)\<close>

text \<open>One round of the dispatch loop that does not block: the callback it makes is logged.\<close>

definition dispatch_round :: "SigState \<Rightarrow> SigState" where
  "dispatch_round s =
     (if dispatch_stop s then s
      else case dispatch_queue s of
        [] \<Rightarrow> s
      | d # rest \<Rightarrow>
          let (now, s1) = NowUs s
          in if qd_fire_at d > now then s1
             else let s2 = s1\<lparr>dispatch_queue := rest\<rparr>
                  in if qd_callback d = 0 then s2 else s2\<lparr>delivered := delivered s2 @ [d]\<rparr>)"

definition StartDispatchThread :: "SigState \<Rightarrow> SigState" where
  "StartDispatchThread s = s\<lparr>dispatch_stop := False, dispatch_thread := True\<rparr>"

definition StopDispatchThread :: "SigState \<Rightarrow> SigState" where
  "StopDispatchThread s = s\<lparr>dispatch_stop := True, dispatch_queue := [], dispatch_thread := False\<rparr>"

end
