(* ===== verification/SigInvariant.thy ===== *)
theory SigInvariant
  imports SigRuntime
begin

text \<open>
  The invariant of the signaling state and its preservation by the handlers: transports carry
  their key, the status of their state and no unused state, connections carry their key and
  consistent event flags, the index leads to live connections, and the id seeds and the
  context table stay in range.
\<close>

section \<open>The part of the state the invariant reads\<close>

definition core :: "SigState \<Rightarrow> (s32 \<times> NpSignalingContext) list \<times> (s32 \<times> ConnectionInfo) list \<times>
    (s32 \<times> PeerTransport) list \<times> (CtxNpIdKey \<times> s32) list \<times> u32 \<times> u32 \<times> u32" where
  "core s = (contexts s, connections s, peer_transports s, npid_to_conn s,
             last_assigned_context_id s, connection_id_seed s, transport_id_seed s)"

lemma coreD:
  assumes "core s' = core s"
  shows "contexts s' = contexts s" "connections s' = connections s"
    "peer_transports s' = peer_transports s" "npid_to_conn s' = npid_to_conn s"
    "last_assigned_context_id s' = last_assigned_context_id s"
    "connection_id_seed s' = connection_id_seed s" "transport_id_seed s' = transport_id_seed s"
  using assms by (simp_all add: core_def)

lemma coreI:
  assumes "contexts s' = contexts s" "connections s' = connections s"
    "peer_transports s' = peer_transports s" "npid_to_conn s' = npid_to_conn s"
    "last_assigned_context_id s' = last_assigned_context_id s"
    "connection_id_seed s' = connection_id_seed s" "transport_id_seed s' = transport_id_seed s"
  shows "core s' = core s"
  using assms by (simp add: core_def)

lemma core_fold:
  assumes "\<And>x s. core (f x s) = core s"
  shows "core (fold f xs s) = core s"
  using assms by (induction xs arbitrary: s) auto

text \<open>Reading the clock, sending, staging callbacks and matching2 events leave it alone.\<close>

lemma core_NowUs: "core (snd (NowUs s)) = core s"
  by (simp add: NowUs_def core_def)

lemma core_SignalingSendTo: "core (snd (SignalingSendTo pkt a p s)) = core s"
  by (simp add: SignalingSendTo_def core_def split: option.splits)

lemma core_ControlSendTo: "core (snd (ControlSendTo pkt a p s)) = core s"
  by (simp add: ControlSendTo_def core_def split: option.splits)

lemma core_StageBasic: "core (StageBasicCallbackLocked ctx c n e v s) = core s"
  by (simp add: core_def)

lemma core_DispatchConnectionEvent: "core (DispatchConnectionEvent cid e v s) = core s"
  by (simp add: DispatchConnectionEvent_def Let_def core_StageBasic split: option.splits)

lemma core_DispatchPeerActivatedEvent: "core (DispatchPeerActivatedEvent cid s) = core s"
  by (auto simp: DispatchPeerActivatedEvent_def Let_def core_StageBasic split: option.splits
      intro!: core_fold)

lemma core_QueueM2Event: "core (QueueMatching2SignalingEvent ctx r m e v s) = core s"
  by (simp add: QueueMatching2SignalingEvent_def core_def)

lemma core_m2_dead_in_context: "core (m2_dead_in_context tid e xid ctx s) = core s"
proof -
  let ?s1 = "s\<lparr>m2_contexts := AList.update xid (ctx\<lparr>m2_peers := map_vals (\<lambda>mid p.
      if pi_conn_id p = tid then reset_peer p else p) (m2_peers ctx)\<rparr>) (m2_contexts s)\<rparr>"
  have "core ?s1 = core s" by (simp add: core_def)
  then show ?thesis
    unfolding m2_dead_in_context_def Let_def
    by (subst core_fold) (simp_all add: core_QueueM2Event)
qed

lemma core_QueueM2Dead: "core (QueueMatching2DeadForTransport tid e s) = core s"
  unfolding QueueMatching2DeadForTransport_def
  by (rule core_fold) (simp add: core_m2_dead_in_context split: option.splits)

lemma core_SendActivate: "core (SendActivate ci s) = core s"
  by (simp add: SendActivate_def core_ControlSendTo split: option.splits)

lemma core_SendControlClose: "core (SendControlCloseLocked ci r s) = core s"
  by (simp add: SendControlCloseLocked_def core_ControlSendTo split: option.splits)

lemma core_QueueActivation: "core (QueueActivationLocked c p b s) = core s"
  by (simp add: QueueActivationLocked_def core_def)

lemmas frame_NowUs [simp] = coreD [OF core_NowUs]
lemmas frame_SignalingSendTo [simp] = coreD [OF core_SignalingSendTo]
lemmas frame_ControlSendTo [simp] = coreD [OF core_ControlSendTo]
lemmas frame_DispatchConnectionEvent [simp] = coreD [OF core_DispatchConnectionEvent]
lemmas frame_DispatchPeerActivatedEvent [simp] = coreD [OF core_DispatchPeerActivatedEvent]
lemmas frame_QueueM2Event [simp] = coreD [OF core_QueueM2Event]
lemmas frame_QueueM2Dead [simp] = coreD [OF core_QueueM2Dead]
lemmas frame_SendActivate [simp] = coreD [OF core_SendActivate]
lemmas frame_SendControlClose [simp] = coreD [OF core_SendControlClose]
lemmas frame_QueueActivation [simp] = coreD [OF core_QueueActivation]

lemma core_fold_dispatch: "core (fold (\<lambda>cid. DispatchConnectionEvent cid e v) cs s) = core s"
  by (rule core_fold) (rule core_DispatchConnectionEvent)

lemma core_fold_peer_activated: "core (fold DispatchPeerActivatedEvent cs s) = core s"
  by (rule core_fold) (rule core_DispatchPeerActivatedEvent)

lemmas frame_fold_dispatch [simp] = coreD [OF core_fold_dispatch]
lemmas frame_fold_peer_activated [simp] = coreD [OF core_fold_peer_activated]

section \<open>The invariant\<close>

definition tr_ok :: "s32 \<Rightarrow> PeerTransport \<Rightarrow> bool" where
  "tr_ok tid tr \<longleftrightarrow> pt_transport_id tr = tid \<and> 1 \<le> tid \<and> tid \<le> 0x7fff \<and>
     pt_status tr = StatusFromState (pt_state tr) \<and>
     pt_state tr \<noteq> WaitOffer \<and> pt_state tr \<noteq> WaitAccept \<and>
     (pt_state tr = Established \<longrightarrow> pt_transport_established_fired tr) \<and>
     length (pt_probe_rtt_samples tr) = 6 \<and> uint (pt_probe_sample_write_index tr) \<le> 6"

definition trs_ok :: "(s32 \<times> PeerTransport) list \<Rightarrow> bool" where
  "trs_ok m \<longleftrightarrow> distinct (keys m) \<and> (\<forall>tid tr. map_of m tid = Some tr \<longrightarrow> tr_ok tid tr)"

text \<open>
  \<open>D\<close> holds the connections whose dead event has been decided (none between handlers), \<open>T\<close> the
  transports there are.
\<close>

definition ci_ok :: "s32 set \<Rightarrow> s32 set \<Rightarrow> s32 \<Rightarrow> ConnectionInfo \<Rightarrow> bool" where
  "ci_ok D T cid ci \<longleftrightarrow> ci_conn_id ci = cid \<and> 1 \<le> cid \<and> cid \<le> 0x7fff \<and> ci_ctx_id ci \<noteq> 0 \<and>
     ci_transport_id ci \<in> insert 0 T \<and> (ci_dead_fired ci \<longrightarrow> cid \<in> D) \<and>
     ci_status ci \<in> range StatusFromState \<and>
     (ci_status ci = ORBIS_NP_SIGNALING_CONN_STATUS_ACTIVE \<longrightarrow> ci_transport_id ci \<in> T) \<and>
     (ci_sig1_established_event_fired ci \<longrightarrow> ci_locally_activated ci) \<and>
     (ci_mutual_fired ci \<longrightarrow> ci_sig1_established_event_fired ci \<and> ci_peer_activated ci) \<and>
     (ci_peer_activated_fired ci \<longrightarrow> ci_peer_activated ci)"

definition cis_ok :: "s32 set \<Rightarrow> s32 set \<Rightarrow> (s32 \<times> ConnectionInfo) list \<Rightarrow> bool" where
  "cis_ok D T m \<longleftrightarrow> distinct (keys m) \<and> (\<forall>cid ci. map_of m cid = Some ci \<longrightarrow> ci_ok D T cid ci)"

definition ctxs_ok :: "SigState \<Rightarrow> bool" where
  "ctxs_ok s \<longleftrightarrow> distinct (keys (contexts s)) \<and> set (keys (contexts s)) \<subseteq> {1..8} \<and>
     context_seed_ok s"

definition tseed_ok :: "SigState \<Rightarrow> bool" where
  "tseed_ok s \<longleftrightarrow> transport_id_seed s = 0 \<or> seed_ok (transport_id_seed s)"

text \<open>Every connection belongs to a context that is there.\<close>

definition owners_ok :: "SigState \<Rightarrow> bool" where
  "owners_ok s \<longleftrightarrow> (\<forall>cid ci. map_of (connections s) cid = Some ci \<longrightarrow>
     ci_ctx_id ci \<in> dom (map_of (contexts s)))"

abbreviation tids :: "SigState \<Rightarrow> s32 set" where
  "tids s \<equiv> dom (map_of (peer_transports s))"

definition sig_invD :: "s32 set \<Rightarrow> SigState \<Rightarrow> bool" where
  "sig_invD D s \<longleftrightarrow> trs_ok (peer_transports s) \<and> cis_ok D (tids s) (connections s) \<and>
     index_ok s \<and> owners_ok s \<and> ctxs_ok s \<and> tseed_ok s \<and> conn_seed_ok s"

definition sig_inv :: "SigState \<Rightarrow> bool" where
  "sig_inv s \<longleftrightarrow> sig_invD {} s"

lemmas state_preds = index_ok_def owners_ok_def ctxs_ok_def context_seed_ok_def tseed_ok_def conn_seed_ok_def

lemma sig_invD_core: assumes "core s' = core s" shows "sig_invD D s' = sig_invD D s"
  unfolding sig_invD_def state_preds coreD [OF assms] by (rule refl)

lemma sig_inv_core: "core s' = core s \<Longrightarrow> sig_inv s' = sig_inv s"
  unfolding sig_inv_def by (rule sig_invD_core)

lemma sig_invD_cong:
  assumes "sig_invD D s" "contexts s' = contexts s" "last_assigned_context_id s' = last_assigned_context_id s"
    "connection_id_seed s' = connection_id_seed s" "transport_id_seed s' = transport_id_seed s"
    "trs_ok (peer_transports s')" "cis_ok E (tids s') (connections s')" "index_ok s'" "owners_ok s'"
  shows "sig_invD E s'"
  using assms by (simp add: sig_invD_def ctxs_ok_def context_seed_ok_def tseed_ok_def conn_seed_ok_def)

lemma sig_invD_D:
  assumes "sig_invD D s"
  shows "trs_ok (peer_transports s)" "cis_ok D (tids s) (connections s)" "index_ok s" "ctxs_ok s"
    "tseed_ok s" "conn_seed_ok s" "owners_ok s"
  using assms by (simp_all add: sig_invD_def)

lemma sig_inv_init: "sig_inv (init_state pf)"
  by (simp add: sig_inv_def sig_invD_def state_preds init_state_def trs_ok_def cis_ok_def)

section \<open>Transports\<close>

lemma trs_okD: "trs_ok m \<Longrightarrow> map_of m tid = Some tr \<Longrightarrow> tr_ok tid tr"
  by (simp add: trs_ok_def del: map_of_eq_Some_iff)

lemma trs_ok_update: "trs_ok m \<Longrightarrow> tr_ok tid tr \<Longrightarrow> trs_ok (AList.update tid tr m)"
  by (simp add: trs_ok_def del: map_of_eq_Some_iff)

lemma trs_ok_delete: "trs_ok m \<Longrightarrow> trs_ok (AList.delete tid m)"
  by (simp add: trs_ok_def del: map_of_eq_Some_iff)

lemma trs_ok_map_vals:
  "trs_ok m \<Longrightarrow> (\<And>tid tr. tr_ok tid tr \<Longrightarrow> tr_ok tid (f tid tr)) \<Longrightarrow> trs_ok (map_vals f m)"
  by (auto simp: trs_ok_def simp del: map_of_eq_Some_iff)

lemma peer_transports_upd [simp]:
  "peer_transports (upd_transport tid f s) = modify_at zero_transport tid f (peer_transports s)"
  by (simp add: upd_transport_def)

lemma upd_transport_frame [simp]:
  "contexts (upd_transport tid f s) = contexts s"
  "connections (upd_transport tid f s) = connections s"
  "npid_to_conn (upd_transport tid f s) = npid_to_conn s"
  "last_assigned_context_id (upd_transport tid f s) = last_assigned_context_id s"
  "connection_id_seed (upd_transport tid f s) = connection_id_seed s"
  "transport_id_seed (upd_transport tid f s) = transport_id_seed s"
  "external_ip (upd_transport tid f s) = external_ip s"
  "platform (upd_transport tid f s) = platform s"
  "clock_reads (upd_transport tid f s) = clock_reads s"
  "hooks (upd_transport tid f s) = hooks s"
  "sent (upd_transport tid f s) = sent s"
  "initialized (upd_transport tid f s) = initialized s"
  "dispatch_queue (upd_transport tid f s) = dispatch_queue s"
  "pending_activations (upd_transport tid f s) = pending_activations s"
  "m2_contexts (upd_transport tid f s) = m2_contexts s"
  "m2_events (upd_transport tid f s) = m2_events s"
  by (simp_all add: upd_transport_def)

lemma trs_ok_modify:
  assumes "trs_ok m" "tid \<in> dom (map_of m)" "\<And>tr. map_of m tid = Some tr \<Longrightarrow> tr_ok tid tr \<Longrightarrow> tr_ok tid (f tr)"
  shows "trs_ok (modify_at d tid f m)"
proof -
  from assms(2) obtain tr where tr: "map_of m tid = Some tr" by blast
  with assms(1,3) have "tr_ok tid (f tr)" by (blast dest: trs_okD)
  with tr assms(1) show ?thesis by (simp add: modify_at_def trs_ok_update)
qed

lemma the_transport_Some: "map_of (peer_transports s) tid = Some tr \<Longrightarrow> the_transport tid s = tr"
  by (simp add: the_transport_def)

lemma the_transport_upd [simp]: "the_transport tid (upd_transport tid f s) = f (the_transport tid s)"
  by (simp add: the_transport_def at_or_def split: option.splits)

lemma tids_upd [simp]: "tids (upd_transport tid f s) = insert tid (tids s)"
  by simp

text \<open>A change of one transport that is there.\<close>

lemma sig_invD_upd:
  assumes "sig_invD D s" "tid \<in> tids s"
    "\<And>tr. map_of (peer_transports s) tid = Some tr \<Longrightarrow> tr_ok tid tr \<Longrightarrow> tr_ok tid (f tr)"
  shows "sig_invD D (upd_transport tid f s)"
proof (rule sig_invD_cong [OF assms(1)])
  show "trs_ok (peer_transports (upd_transport tid f s))"
    using assms by (simp add: trs_ok_modify sig_invD_D)
  show "cis_ok D (tids (upd_transport tid f s)) (connections (upd_transport tid f s))"
    using assms(1,2) by (simp only: tids_upd insert_absorb upd_transport_frame sig_invD_D(2))
  show "index_ok (upd_transport tid f s)"
    using assms(1) by (simp add: sig_invD_def index_ok_def)
  show "owners_ok (upd_transport tid f s)"
    using assms(1) by (simp add: sig_invD_def owners_ok_def)
qed simp_all

lemma tr_ok_SetState:
  "tr_ok tid tr \<Longrightarrow> st \<notin> {WaitOffer, WaitAccept, Established} \<Longrightarrow> tr_ok tid (SetTransportStateLocked st tr)"
  by (auto simp: tr_ok_def SetTransportStateLocked_def)

lemma tr_ok_fields [simp]:
  "tr_ok tid (tr\<lparr>pt_is_initiator := b\<rparr>) = tr_ok tid tr"
  "tr_ok tid (tr\<lparr>pt_last_handshake_send_us := v\<rparr>) = tr_ok tid tr"
  "tr_ok tid (tr\<lparr>pt_last_peer_rx_us := v\<rparr>) = tr_ok tid tr"
  "tr_ok tid (tr\<lparr>pt_last_echo_ping_us := v\<rparr>) = tr_ok tid tr"
  "tr_ok tid (tr\<lparr>pt_addr := a\<rparr>) = tr_ok tid tr"
  "tr_ok tid (tr\<lparr>pt_port := p\<rparr>) = tr_ok tid tr"
  "tr_ok tid (tr\<lparr>pt_peer_activated := b\<rparr>) = tr_ok tid tr"
  "tr_ok tid (tr\<lparr>pt_peer_established := b\<rparr>) = tr_ok tid tr"
  "tr_ok tid (tr\<lparr>pt_local_online_id := oid\<rparr>) = tr_ok tid tr"
  "tr_ok tid (tr\<lparr>pt_online_id := oid\<rparr>) = tr_ok tid tr"
  "tr_ok tid (tr\<lparr>pt_npid := n\<rparr>) = tr_ok tid tr"
  by (simp_all add: tr_ok_def)

lemma tr_ok_record_rtt: "tr_ok tid tr \<Longrightarrow> tr_ok tid (record_rtt r tr)"
proof -
  assume ok: "tr_ok tid tr"
  let ?i = "pt_probe_sample_write_index tr mod 6 :: u32"
  have "uint ?i < 6" by (simp add: uint_mod)
  then have "uint (?i + 1) \<le> 6" by (simp add: uint_inc)
  with ok show ?thesis by (simp add: tr_ok_def record_rtt_def Let_def)
qed

section \<open>Connections\<close>

lemma cis_ok_update: "cis_ok D T m \<Longrightarrow> ci_ok D T cid ci \<Longrightarrow> cis_ok D T (AList.update cid ci m)"
  by (simp add: cis_ok_def del: map_of_eq_Some_iff)

lemma cis_ok_delete: "cis_ok D T m \<Longrightarrow> cis_ok (D - {cid}) T (AList.delete cid m)"
  by (auto simp: cis_ok_def ci_ok_def simp del: map_of_eq_Some_iff)

lemma cis_ok_map_vals:
  "distinct (keys m) \<Longrightarrow> (\<And>cid ci. map_of m cid = Some ci \<Longrightarrow> ci_ok D T cid (f cid ci)) \<Longrightarrow>
     cis_ok D T (map_vals f m)"
  unfolding cis_ok_def by fastforce

lemma cis_ok_restrict:
  "cis_ok D T m \<Longrightarrow>
     (\<And>cid ci. map_of m cid = Some ci \<Longrightarrow> ci_transport_id ci \<in> T \<Longrightarrow> ci_transport_id ci \<in> U) \<Longrightarrow>
     cis_ok D U m"
  unfolding cis_ok_def ci_ok_def by blast

lemma cis_okD: "cis_ok D T m \<Longrightarrow> map_of m cid = Some ci \<Longrightarrow> ci_ok D T cid ci"
  by (simp add: cis_ok_def del: map_of_eq_Some_iff)

lemma ci_ok_mono: "ci_ok D T cid ci \<Longrightarrow> D \<subseteq> E \<Longrightarrow> T \<subseteq> U \<Longrightarrow> ci_ok E U cid ci"
  by (auto simp: ci_ok_def)

lemma cis_ok_mono: "cis_ok D T m \<Longrightarrow> D \<subseteq> E \<Longrightarrow> T \<subseteq> U \<Longrightarrow> cis_ok E U m"
  unfolding cis_ok_def using ci_ok_mono by blast

lemma sig_invD_mono: "sig_invD D s \<Longrightarrow> D \<subseteq> E \<Longrightarrow> sig_invD E s"
  by (auto simp: sig_invD_def intro: cis_ok_mono)

text \<open>A change of connections that keeps the owner and the peer of each keeps the index.\<close>

definition same_owner :: "ConnectionInfo \<Rightarrow> ConnectionInfo \<Rightarrow> bool" where
  "same_owner ci ci' \<longleftrightarrow> ci_ctx_id ci' = ci_ctx_id ci \<and> ci_npid ci' = ci_npid ci"

lemma index_ok_change:
  assumes "index_ok s" "npid_to_conn s' = npid_to_conn s"
    "\<And>cid ci. map_of (connections s) cid = Some ci \<Longrightarrow>
       \<exists>ci'. map_of (connections s') cid = Some ci' \<and> same_owner ci ci'"
  shows "index_ok s'"
  unfolding index_ok_def
proof (intro allI impI)
  fix k c assume "map_of (npid_to_conn s') k = Some c"
  with assms(1,2) obtain ci where ci: "map_of (connections s) c = Some ci"
    "MakeCtxNpIdKey (ci_ctx_id ci) (ci_npid ci) = k" by (metis index_okD)
  with assms(3) show "\<exists>ci. map_of (connections s') c = Some ci \<and>
      MakeCtxNpIdKey (ci_ctx_id ci) (ci_npid ci) = k"
    by (fastforce simp: same_owner_def)
qed

lemma owners_ok_change:
  assumes "owners_ok s" "contexts s' = contexts s"
    "\<And>cid ci. map_of (connections s') cid = Some ci \<Longrightarrow> ci_ctx_id ci \<in> dom (map_of (contexts s)) \<or>
       (\<exists>ci0. map_of (connections s) cid = Some ci0 \<and> same_owner ci0 ci)"
  shows "owners_ok s'"
  unfolding owners_ok_def
proof (intro allI impI)
  fix cid ci assume "map_of (connections s') cid = Some ci"
  from assms(3) [OF this] show "ci_ctx_id ci \<in> dom (map_of (contexts s'))"
    using assms(1) unfolding assms(2) owners_ok_def same_owner_def by metis
qed

lemma sig_invD_owner:
  "sig_invD D s \<Longrightarrow> map_of (connections s) cid = Some ci \<Longrightarrow> ci_ctx_id ci \<in> dom (map_of (contexts s))"
  unfolding sig_invD_def owners_ok_def by blast

text \<open>Writing one connection, and writing its entry of the index.\<close>

lemma sig_invD_put_connection:
  assumes "sig_invD D s" "ci_ok E (tids s) cid ci" "D \<subseteq> E"
    "\<And>ci0. map_of (connections s) cid = Some ci0 \<Longrightarrow> same_owner ci0 ci"
    "ci_ctx_id ci \<in> dom (map_of (contexts s))"
  shows "sig_invD E (s\<lparr>connections := AList.update cid ci (connections s)\<rparr>)"
proof (rule sig_invD_cong [OF assms(1)])
  let ?s = "s\<lparr>connections := AList.update cid ci (connections s)\<rparr>"
  show "trs_ok (peer_transports ?s)" using assms(1) by (simp add: sig_invD_D)
  show "cis_ok E (tids ?s) (connections ?s)"
    using assms(1-3) by (auto intro: cis_ok_update cis_ok_mono [OF sig_invD_D(2)])
  show "index_ok ?s"
    by (rule index_ok_change [OF sig_invD_D(3) [OF assms(1)]])
      (use assms(4) in \<open>auto simp: same_owner_def simp del: map_of_eq_Some_iff\<close>)
  show "owners_ok ?s"
    by (rule owners_ok_change [OF sig_invD_D(7) [OF assms(1)]])
      (use assms(5) in \<open>auto simp: same_owner_def split: if_splits simp del: map_of_eq_Some_iff\<close>)
qed simp_all

lemma sig_invD_put_index:
  assumes "sig_invD D s" "map_of (connections s) cid = Some ci" "k = MakeCtxNpIdKey (ci_ctx_id ci) (ci_npid ci)"
  shows "sig_invD D (s\<lparr>npid_to_conn := AList.update k cid (npid_to_conn s)\<rparr>)"
proof (rule sig_invD_cong [OF assms(1)])
  let ?s = "s\<lparr>npid_to_conn := AList.update k cid (npid_to_conn s)\<rparr>"
  show "index_ok ?s"
    using sig_invD_D(3) [OF assms(1)] assms(2,3) by (auto simp: index_ok_def split: if_splits simp del: map_of_eq_Some_iff)
  show "owners_ok ?s" using sig_invD_D(7) [OF assms(1)] by (simp add: owners_ok_def)
qed (use assms(1) in \<open>simp_all add: sig_invD_D\<close>)

text \<open>The shape shared by the status sync and the establishing loop.\<close>

definition ci_step :: "s32 set \<Rightarrow> (s32 \<Rightarrow> ConnectionInfo \<Rightarrow> ConnectionInfo) \<Rightarrow> bool" where
  "ci_step T f \<longleftrightarrow> (\<forall>cid ci. same_owner ci (f cid ci) \<and> (\<forall>D. ci_ok D T cid ci \<longrightarrow> ci_ok D T cid (f cid ci)))"

lemma sig_invD_map_connections:
  assumes "sig_invD D s" "ci_step (tids s) f"
  shows "sig_invD D (s\<lparr>connections := map_vals f (connections s)\<rparr>)"
proof (rule sig_invD_cong [OF assms(1)])
  let ?s = "s\<lparr>connections := map_vals f (connections s)\<rparr>"
  show "trs_ok (peer_transports ?s)" using assms(1) by (simp add: sig_invD_D)
  have "cis_ok D (tids s) (map_vals f (connections s))"
    using sig_invD_D(2) [OF assms(1)] assms(2)
    by (intro cis_ok_map_vals) (auto simp: cis_ok_def ci_step_def simp del: map_of_eq_Some_iff)
  then show "cis_ok D (tids ?s) (connections ?s)" by simp
  show "index_ok ?s"
    by (rule index_ok_change [OF sig_invD_D(3) [OF assms(1)]])
      (use assms(2) in \<open>auto simp: ci_step_def simp del: map_of_eq_Some_iff\<close>)
  show "owners_ok ?s"
    by (rule owners_ok_change [OF sig_invD_D(7) [OF assms(1)]])
      (use assms(2) in \<open>auto simp: ci_step_def simp del: map_of_eq_Some_iff\<close>)
qed simp_all

lemma tr_ok_status: "tr_ok tid tr \<Longrightarrow> pt_status tr \<in> range StatusFromState"
  by (simp add: tr_ok_def)

lemma ci_ok_Sync:
  "ci_ok D T cid ci \<Longrightarrow> tr_ok tid tr \<Longrightarrow> ci_transport_id ci \<in> T \<Longrightarrow> ci_ok D T cid (SyncSig1StatusLocked tr ci)"
  using tr_ok_status by (simp add: ci_ok_def SyncSig1StatusLocked_def)

lemma ci_step_sync:
  "tr_ok tid tr \<Longrightarrow> tid \<in> T \<Longrightarrow>
     ci_step T (\<lambda>cid ci. if ci_transport_id ci = tid then SyncSig1StatusLocked tr ci else ci)"
  by (simp add: ci_step_def ci_ok_Sync) (simp add: SyncSig1StatusLocked_def same_owner_def)

lemma ci_step_establish:
  assumes "tr_ok tid tr" "tid \<in> T"
  shows "ci_step T (\<lambda>cid ci. if ci_transport_id ci = tid then establish_ci tr ci else ci)"
proof -
  have "ci_ok D T cid (establish_ci tr ci)" if "ci_ok D T cid ci" "ci_transport_id ci = tid" for D cid ci
    using ci_ok_Sync [OF that(1) assms(1)] that(2) assms(2)
    by (auto simp: establish_ci_def Let_def ci_ok_def wants_mutual_def wants_established_def
        wants_peer_activated_def)
  then show ?thesis
    by (simp add: ci_step_def) (simp add: establish_ci_def SyncSig1StatusLocked_def same_owner_def Let_def)
qed

lemma sig_invD_Sync: "sig_invD D s \<Longrightarrow> sig_invD D (SyncSig1ConnectionsForTransportLocked tid s)"
  using sig_invD_D(1) [of D s]
  by (auto simp: SyncSig1ConnectionsForTransportLocked_def split: option.splits simp del: map_of_eq_Some_iff
      intro!: sig_invD_map_connections ci_step_sync dest: trs_okD)

lemma Sync_frame [simp]:
  "peer_transports (SyncSig1ConnectionsForTransportLocked tid s) = peer_transports s"
  "contexts (SyncSig1ConnectionsForTransportLocked tid s) = contexts s"
  "npid_to_conn (SyncSig1ConnectionsForTransportLocked tid s) = npid_to_conn s"
  "keys (connections (SyncSig1ConnectionsForTransportLocked tid s)) = keys (connections s)"
  "sent (SyncSig1ConnectionsForTransportLocked tid s) = sent s"
  "external_ip (SyncSig1ConnectionsForTransportLocked tid s) = external_ip s"
  by (simp_all add: SyncSig1ConnectionsForTransportLocked_def split: option.splits)

section \<open>Sending and the clock\<close>

lemma core_set [simp]:
  "core (s\<lparr>pending_activations := p\<rparr>) = core s" "core (s\<lparr>m2_contexts := m\<rparr>) = core s"
  "core (s\<lparr>clock_reads := n\<rparr>) = core s" "core (s\<lparr>dispatch_queue := q\<rparr>) = core s"
  "core (s\<lparr>delivered := q\<rparr>) = core s" "core (s\<lparr>external_ip := a\<rparr>) = core s"
  by (simp_all add: core_def)

lemmas sig_invD_frames [simp] =
  sig_invD_core [OF core_NowUs] sig_invD_core [OF core_SignalingSendTo]
  sig_invD_core [OF core_ControlSendTo] sig_invD_core [OF core_DispatchConnectionEvent]
  sig_invD_core [OF core_DispatchPeerActivatedEvent] sig_invD_core [OF core_QueueM2Event]
  sig_invD_core [OF core_QueueM2Dead] sig_invD_core [OF core_SendActivate]
  sig_invD_core [OF core_SendControlClose] sig_invD_core [OF core_QueueActivation]
  sig_invD_core [OF core_fold_dispatch] sig_invD_core [OF core_fold_peer_activated]

lemmas sig_invD_set [simp] = core_set [THEN sig_invD_core]

lemma sig_invD_SendHandshake:
  assumes "sig_invD D s" "tid \<in> tids s"
  shows "sig_invD D (SendHandshakeLocked tid pkt s)"
proof -
  have "sig_invD D (upd_transport tid (\<lambda>t. t\<lparr>pt_last_handshake_send_us := now\<rparr>) (snd (NowUs s)))" for now
    using assms by (intro sig_invD_upd) simp_all
  then show ?thesis using assms(1)
    by (simp add: SendHandshakeLocked_def Let_def split_beta sig_invD_Sync)
qed

lemma SendHandshake_tids [simp]: "tid \<in> tids s \<Longrightarrow> tids (SendHandshakeLocked tid pkt s) = tids s"
  by (auto simp: SendHandshakeLocked_def Let_def split_beta)

section \<open>Finding and creating transports\<close>

lemma FindTransport_found:
  assumes "trs_ok (peer_transports s)" "FindTransportByOnlineIdLocked nid s = tid" "tid \<noteq> 0"
  shows "\<exists>tr. map_of (peer_transports s) tid = Some tr \<and> pt_state tr \<noteq> Inactive \<and>
    OnlineIdEqualsString (pt_online_id tr) nid"
proof -
  have d: "distinct (keys (peer_transports s))" using assms(1) by (simp add: trs_ok_def)
  from assms(2,3) have "find_key (\<lambda>tid tr. TransportMatchesOnlineId tr nid) (peer_transports s) = Some tid"
    by (auto simp: FindTransportByOnlineIdLocked_def split: option.splits)
  from find_key_Some [OF d this] show ?thesis by (simp add: TransportMatchesOnlineId_def)
qed

definition tseeded :: "SigState \<Rightarrow> u32" where
  "tseeded s = (if transport_id_seed s = 0 then 1 else transport_id_seed s)"

lemma tseeded_ok: "tseed_ok s \<Longrightarrow> seed_ok (tseeded s)"
  by (auto simp: tseed_ok_def tseeded_def seed_ok_def)

lemma AllocateTransportId_loop:
  "AllocateTransportIdLocked s =
     (case alloc_id_loop 0x10000 (tseeded s) (\<lambda>c. map_of (peer_transports s) c \<noteq> None) of
        (nid, seed) \<Rightarrow> (nid, s\<lparr>transport_id_seed := seed\<rparr>))"
  by (simp add: AllocateTransportIdLocked_def tseeded_def Let_def)

lemma AllocateTransportId_cases:
  assumes "tseed_ok s" "AllocateTransportIdLocked s = (nid, s')"
  shows "(\<exists>seed. seed_ok seed \<and> s' = s\<lparr>transport_id_seed := seed\<rparr>) \<and>
    ((nid = -1 \<and> {1..0x7fff} \<subseteq> tids s) \<or>
     (1 \<le> nid \<and> nid \<le> 0x7fff \<and> map_of (peer_transports s) nid = None))"
proof -
  let ?used = "\<lambda>c. map_of (peer_transports s) c \<noteq> None"
  obtain n seed where l: "alloc_id_loop 0x10000 (tseeded s) ?used = (n, seed)" by force
  have r: "nid = n" "s' = s\<lparr>transport_id_seed := seed\<rparr>"
    using assms(2) l by (simp_all add: AllocateTransportId_loop)
  note spec = alloc_id_loop_spec [OF tseeded_ok [OF assms(1)] l]
  have "{1..0x7fff} \<subseteq> tids s" if "n = -1"
    using alloc_id_loop_exhausts [OF tseeded_ok [OF assms(1)] l [unfolded that]] by (auto simp: dom_def)
  with spec r show ?thesis by blast
qed

interpretation transport_ids: id_allocator AllocateTransportIdLocked peer_transports tseed_ok "0x7fff"
proof unfold_locales
  fix s assume ok: "tseed_ok s"
  obtain nid s' where r: "AllocateTransportIdLocked s = (nid, s')" by force
  note c = AllocateTransportId_cases [OF ok r]
  show "peer_transports (snd (AllocateTransportIdLocked s)) = peer_transports s" using c r by auto
  show "tseed_ok (snd (AllocateTransportIdLocked s))" using c r by (auto simp: tseed_ok_def)
  show "fst (AllocateTransportIdLocked s) \<noteq> -1 \<Longrightarrow>
      1 \<le> fst (AllocateTransportIdLocked s) \<and> fst (AllocateTransportIdLocked s) \<le> 0x7fff \<and>
      map_of (peer_transports s) (fst (AllocateTransportIdLocked s)) = None"
    using c r by auto
  show "fst (AllocateTransportIdLocked s) = -1 \<Longrightarrow> {1..0x7fff} \<subseteq> tids s" using c r by auto
qed

lemma sig_invD_seed: "sig_invD D s \<Longrightarrow> seed_ok seed \<Longrightarrow> sig_invD D (s\<lparr>transport_id_seed := seed\<rparr>)"
  by (simp add: sig_invD_def state_preds)

text \<open>A transport a request gets: it is there and not inactive; everything else is as it was.\<close>

definition got_transport :: "s32 set \<Rightarrow> SigState \<Rightarrow> s32 \<Rightarrow> SigState \<Rightarrow> bool" where
  "got_transport D s tid s' \<longleftrightarrow> sig_invD D s' \<and> tids s \<subseteq> tids s' \<and>
     connections s' = connections s \<and> contexts s' = contexts s \<and> npid_to_conn s' = npid_to_conn s \<and>
     m2_contexts s' = m2_contexts s \<and> hooks s' = hooks s \<and>
     (\<not> tid < 0 \<longrightarrow> tid \<in> tids s' \<and> tid \<noteq> 0 \<and> pt_state (the_transport tid s') \<noteq> Inactive)"

lemma sig_invD_add_transport:
  assumes "sig_invD D s" "tr_ok tid tr"
  shows "sig_invD D (s\<lparr>peer_transports := AList.update tid tr (peer_transports s)\<rparr>)"
proof (rule sig_invD_cong [OF assms(1)])
  let ?s = "s\<lparr>peer_transports := AList.update tid tr (peer_transports s)\<rparr>"
  show "trs_ok (peer_transports ?s)" using assms by (simp add: sig_invD_D trs_ok_update)
  show "cis_ok D (tids ?s) (connections ?s)"
    using sig_invD_D(2) [OF assms(1)] by (auto intro: cis_ok_mono)
  show "index_ok ?s" using assms(1) by (simp add: sig_invD_def index_ok_def)
  show "owners_ok ?s" using assms(1) by (simp add: sig_invD_def owners_ok_def)
qed simp_all

lemma got_CreateTransport:
  assumes "sig_invD D s" "CreateTransportLocked l p n a port s = (tid, s')"
  shows "got_transport D s tid s'"
proof -
  obtain nid s1 where r: "AllocateTransportIdLocked s = (nid, s1)" by force
  from AllocateTransportId_cases [OF sig_invD_D(5) [OF assms(1)] r] obtain seed where
    s1: "seed_ok seed" "s1 = s\<lparr>transport_id_seed := seed\<rparr>" and
    n: "nid = -1 \<or> 1 \<le> nid \<and> nid \<le> 0x7fff" by blast
  have i1: "sig_invD D s1" using sig_invD_seed [OF assms(1)] s1 by simp
  have fr: "connections s1 = connections s" "contexts s1 = contexts s" "npid_to_conn s1 = npid_to_conn s"
    "m2_contexts s1 = m2_contexts s" "hooks s1 = hooks s" "peer_transports s1 = peer_transports s"
    using s1 by simp_all
  show ?thesis
  proof (cases "nid < 0")
    case True
    with assms(2) r i1 fr show ?thesis by (simp add: CreateTransportLocked_def got_transport_def Let_def)
  next
    case False
    let ?tr = "zero_transport\<lparr>pt_transport_id := nid, pt_local_online_id := l, pt_online_id := p,
      pt_npid := n, pt_addr := a, pt_port := port, pt_status := ORBIS_NP_SIGNALING_CONN_STATUS_PENDING,
      pt_state := SendingOffer, pt_is_initiator := True\<rparr>"
    have e: "tid = nid" "s' = s1\<lparr>peer_transports := AList.update nid ?tr (peer_transports s1)\<rparr>"
      using assms(2) r False by (auto simp: CreateTransportLocked_def Let_def)
    have ok: "tr_ok nid ?tr" using n False by (simp add: tr_ok_def zero_transport_def StatusFromState_def)
    have tr: "the_transport nid s' = ?tr" by (simp add: e the_transport_def)
    show ?thesis
      unfolding got_transport_def using sig_invD_add_transport [OF i1 ok] n False fr tr by (auto simp: e)
  qed
qed

lemma refresh_transport_ok:
  assumes "tr_ok tid tr" "pt_state tr \<noteq> Inactive"
  shows "tr_ok tid (refresh_transport l p n a port tr) \<and> pt_state (refresh_transport l p n a port tr) = pt_state tr"
  using assms by (auto simp: refresh_transport_def Let_def)

lemma got_EnsureTransport:
  assumes "sig_invD D s" "EnsureTransportLocked l p n a port s = (tid, s')"
  shows "got_transport D s tid s'"
proof (cases "FindTransportByOnlineIdLocked (OnlineIdToString p) s = 0")
  case True
  with assms show ?thesis by (intro got_CreateTransport) (simp_all add: EnsureTransportLocked_def Let_def)
next
  case False
  let ?f = "refresh_transport l p n a port"
  from False assms(2) have e: "FindTransportByOnlineIdLocked (OnlineIdToString p) s = tid" "tid \<noteq> 0"
    "s' = upd_transport tid ?f s"
    by (auto simp: EnsureTransportLocked_def Let_def)
  from FindTransport_found [OF sig_invD_D(1) [OF assms(1)] e(1,2)] obtain tr where
    tr: "map_of (peer_transports s) tid = Some tr" "pt_state tr \<noteq> Inactive" by blast
  have in_s: "tid \<in> tids s" using tr(1) by blast
  have "sig_invD D s'"
    unfolding e(3) using assms(1) in_s tr refresh_transport_ok by (intro sig_invD_upd) fastforce+
  moreover have "the_transport tid s' = ?f tr" using tr(1) by (simp add: e(3) the_transport_Some)
  moreover have "pt_state (?f tr) \<noteq> Inactive"
    using refresh_transport_ok [OF trs_okD [OF sig_invD_D(1) [OF assms(1)] tr(1)] tr(2)] tr(2) by metis
  ultimately show ?thesis
    using in_s e(2) tids_upd [of tid ?f s] by (auto simp: got_transport_def e(3) simp del: peer_transports_upd map_of_eq_Some_iff)
qed

section \<open>The initiator's step, establishing\<close>

lemma sig_invD_SetState:
  assumes "sig_invD D s" "tid \<in> tids s" "st \<notin> {WaitOffer, WaitAccept, Established}"
  shows "sig_invD D (upd_transport tid (SetTransportStateLocked st) s)"
  using assms by (intro sig_invD_upd) (auto simp: tr_ok_SetState)

lemma initiator_step_state: "initiator_step st = Some (k, Some st') \<Longrightarrow> st' = SendingOffer"
  by (cases st) auto

lemma sig_invD_StartHandshake:
  assumes "sig_invD D s"
  shows "sig_invD D (StartTransportHandshakeInitiator tid s)"
proof (cases "map_of (peer_transports s) tid")
  case None
  with assms show ?thesis by (simp add: StartTransportHandshakeInitiator_def GetTransportLocked_def)
next
  case (Some tr)
  then have t: "tid \<in> tids s" by blast
  let ?s1 = "upd_transport tid (\<lambda>t. t\<lparr>pt_is_initiator := True\<rparr>) s"
  have i1: "sig_invD D ?s1" using assms t by (intro sig_invD_upd) simp_all
  show ?thesis
  proof (cases "initiator_step (pt_state tr)")
    case None
    with Some i1 show ?thesis by (simp add: StartTransportHandshakeInitiator_def GetTransportLocked_def Let_def)
  next
    case (Some step)
    obtain kind st where st: "step = (kind, st)" by force
    let ?s2 = "case st of None \<Rightarrow> ?s1 | Some x \<Rightarrow> upd_transport tid (SetTransportStateLocked x) ?s1"
    have t1: "tid \<in> tids ?s1" by simp
    have i2: "sig_invD D ?s2"
      using i1 Some st sig_invD_SetState [OF i1 t1] by (cases st) (auto dest: initiator_step_state)
    have t2: "tid \<in> tids ?s2" by (cases st) simp_all
    then have t3: "tid \<in> tids (snd (NowUs ?s2))" by simp
    have "sig_invD D (SendHandshakeLocked tid p ?s2)" "sig_invD D (SendHandshakeLocked tid p (snd (NowUs ?s2)))" for p
      using i2 sig_invD_SendHandshake [OF _ t2] sig_invD_SendHandshake [OF _ t3] by simp_all
    with \<open>map_of (peer_transports s) tid = Some tr\<close> Some st show ?thesis
      by (simp add: StartTransportHandshakeInitiator_def GetTransportLocked_def Let_def split_beta)
  qed
qed

lemma establish_transport_ok:
  assumes "tr_ok tid tr" "establish_transport hint tr s = (t2, pkt, s1)"
  shows "tr_ok tid t2 \<and> core s1 = core s"
  using assms core_NowUs [of s]
  by (auto simp: establish_transport_def Let_def split_beta tr_ok_def SetTransportStateLocked_def split: if_splits)

lemma sig_invD_Establish:
  assumes "sig_invD D s"
  shows "sig_invD D (EstablishConnection tid hint s)"
proof (cases "map_of (peer_transports s) tid")
  case None
  with assms show ?thesis by (simp add: EstablishConnection_def GetTransportLocked_def)
next
  case (Some tr)
  obtain t2 pkt s1 where e: "establish_transport hint tr s = (t2, pkt, s1)" by (metis prod_cases3)
  have ok: "tr_ok tid t2" "core s1 = core s"
    using establish_transport_ok [OF trs_okD [OF sig_invD_D(1) [OF assms] Some] e] by simp_all
  let ?s1' = "s1\<lparr>peer_transports := AList.update tid t2 (peer_transports s1)\<rparr>"
  let ?s2 = "?s1'\<lparr>connections := map_vals (\<lambda>cid ci. if ci_transport_id ci = tid then establish_ci t2 ci else ci)
      (connections ?s1')\<rparr>"
  have "sig_invD D ?s1'" using assms ok by (intro sig_invD_add_transport) (simp_all add: sig_invD_core [OF ok(2)])
  then have i2: "sig_invD D ?s2" by (rule sig_invD_map_connections) (simp add: ci_step_establish [OF ok(1)])
  have i3: "sig_invD D (case pkt of None \<Rightarrow> ?s2 | Some p \<Rightarrow> snd (ControlSendTo (PktControl p) a q ?s2))" for a q
    using i2 by (cases pkt) (simp_all only: option.case sig_invD_frames)
  have eq: "?s2 = s1\<lparr>peer_transports := AList.update tid t2 (peer_transports s1), connections := map_vals
      (\<lambda>cid ci. if ci_transport_id ci = tid then establish_ci t2 ci else ci) (connections s1)\<rparr>" by simp
  show ?thesis
    unfolding EstablishConnection_def GetTransportLocked_def Some option.case e Let_def prod.case
    by (simp only: sig_invD_frames) (rule i3 [unfolded eq])
qed

section \<open>Closing\<close>

lemma sig_invD_Remove:
  assumes "sig_invD D s"
  shows "sig_invD (D - {cid}) (RemoveConnectionLocked cid s)"
proof (rule sig_invD_cong [OF assms])
  show "cis_ok (D - {cid}) (tids (RemoveConnectionLocked cid s)) (connections (RemoveConnectionLocked cid s))"
    using sig_invD_D(2) [OF assms] RemoveConnection_distinct [of s cid]
    by (auto simp: cis_ok_def ci_ok_def simp del: map_of_eq_Some_iff split: if_splits)
  show "owners_ok (RemoveConnectionLocked cid s)"
    by (rule owners_ok_change [OF sig_invD_D(7) [OF assms]])
      (auto simp: same_owner_def split: if_splits simp del: map_of_eq_Some_iff)
qed (use sig_invD_D [OF assms] in \<open>simp_all add: RemoveConnection_index\<close>)

lemma sig_invD_fold_Remove:
  "sig_invD D s \<Longrightarrow> sig_invD (D - set cs) (fold RemoveConnectionLocked cs s)"
proof (induction cs arbitrary: D s)
  case (Cons c cs)
  have "D - set (c # cs) = D - {c} - set cs" by auto
  with Cons.IH [OF sig_invD_Remove [OF Cons.prems]] show ?case by (simp only: fold_simps)
qed simp

lemma sig_inv_CloseConnection:
  assumes "sig_inv s"
  shows "sig_inv (CloseConnectionAndDispatchDead cid e1 e2 s)"
proof (cases "map_of (connections s) cid")
  case None
  with assms show ?thesis by (simp add: CloseConnectionAndDispatchDead_def)
next
  case (Some ci)
  show ?thesis
  proof (cases "ci_status ci = ORBIS_NP_SIGNALING_CONN_STATUS_INACTIVE \<or> ci_dead_fired ci")
    case True
    with Some assms show ?thesis by (simp add: CloseConnectionAndDispatchDead_def)
  next
    case False
    have i: "sig_invD {} s" using assms by (simp add: sig_inv_def)
    let ?tid = "ci_transport_id ci"
    have ok: "ci_ok {} (tids s) cid ci" by (rule cis_okD [OF sig_invD_D(2) [OF i] Some])
    then have c: "ci_ctx_id ci \<noteq> 0" by (simp add: ci_ok_def)
    let ?s1 = "case GetTransportLocked ?tid s of None \<Rightarrow> s
        | Some tr \<Rightarrow> upd_transport ?tid (SetTransportStateLocked Inactive) s"
    let ?ci = "ci\<lparr>ci_status := ORBIS_NP_SIGNALING_CONN_STATUS_INACTIVE, ci_dead_fired := True\<rparr>"
    have i1: "sig_invD {} ?s1"
      using i sig_invD_SetState [OF i, of ?tid Inactive] by (auto simp: GetTransportLocked_def split: option.split)
    have f1: "connections ?s1 = connections s" "tids s \<subseteq> tids ?s1"
      by (auto split: option.split)
    have ok1: "ci_ok {cid} (tids ?s1) cid ?ci"
      using ok f1(2) by (auto simp: ci_ok_def StatusFromState_def image_iff intro!: exI [of _ Inactive] simp del: map_of_eq_Some_iff)
    let ?s2 = "?s1\<lparr>connections := AList.update cid ?ci (connections ?s1)\<rparr>"
    have i2: "sig_invD {cid} ?s2"
      using Some sig_invD_owner [OF i Some]
      by (intro sig_invD_put_connection [OF i1 ok1]) (auto simp: same_owner_def f1 split: option.split)
    have i3: "sig_invD {cid} (if ?tid \<noteq> 0 then QueueMatching2DeadForTransport ?tid e2 ?s2 else ?s2)"
      using i2 by (simp only: if_distrib [of "sig_invD {cid}"] sig_invD_frames if_cancel)
    show ?thesis
      unfolding CloseConnectionAndDispatchDead_def Some option.case if_not_P [OF False] Let_def sig_inv_def
        if_P [OF c]
      by (rule sig_invD_Remove [of "{cid}" _ cid, simplified Diff_cancel]) (simp only: sig_invD_frames i3)
  qed
qed

lemma sig_inv_CloseTransport:
  assumes "sig_inv s"
  shows "sig_inv (CloseTransportAndDispatchDead tid e1 e2 s)"
proof (cases "map_of (peer_transports s) tid")
  case None
  with assms show ?thesis by (simp add: CloseTransportAndDispatchDead_def GetTransportLocked_def)
next
  case (Some tr)
  show ?thesis
  proof (cases "pt_state tr = Inactive")
    case True
    with Some assms show ?thesis by (simp add: CloseTransportAndDispatchDead_def GetTransportLocked_def)
  next
    case False
    have i: "sig_invD {} s" using assms by (simp add: sig_inv_def)
    have t: "tid \<in> tids s" using Some by blast
    let ?s1 = "upd_transport tid (SetTransportStateLocked Inactive) s"
    let ?dying = "\<lambda>cid ci. ci_transport_id ci = tid \<and> \<not> ci_dead_fired ci"
    let ?cs = "keys_where (\<lambda>cid ci. ?dying cid ci \<and> ci_ctx_id ci \<noteq> 0) (connections ?s1)"
    let ?f = "\<lambda>cid ci. if ?dying cid ci then ci\<lparr>ci_dead_fired := True,
        ci_status := ORBIS_NP_SIGNALING_CONN_STATUS_INACTIVE\<rparr> else ci"
    let ?s2 = "?s1\<lparr>connections := map_vals ?f (connections ?s1)\<rparr>"
    have i1: "sig_invD {} ?s1" using i t by (intro sig_invD_SetState) auto
    have cs: "c \<in> set ?cs \<longleftrightarrow> (\<exists>ci. map_of (connections s) c = Some ci \<and> ci_transport_id ci = tid)" for c
      using sig_invD_D(2) [OF i] by (auto simp: cis_ok_def ci_ok_def in_keys_where simp del: map_of_eq_Some_iff)
    have st: "(0::s32) \<in> range StatusFromState"
      by (auto simp: StatusFromState_def image_iff intro!: exI [of _ Inactive])
    have i2: "sig_invD (set ?cs) ?s2"
    proof (rule sig_invD_cong [OF i1])
      show "trs_ok (peer_transports ?s2)" using sig_invD_D(1) [OF i1] by simp
      have "ci_ok (set ?cs) (tids ?s2) c (?f c ci)" if c: "map_of (connections s) c = Some ci" for c ci
      proof -
        have "ci_ok {} (tids s) c ci" by (rule cis_okD [OF sig_invD_D(2) [OF i] c])
        moreover have "c \<in> set ?cs" if "ci_transport_id ci = tid" using cs c that by blast
        ultimately show ?thesis using st t by (auto simp: ci_ok_def simp del: map_of_eq_Some_iff)
      qed
      then show "cis_ok (set ?cs) (tids ?s2) (connections ?s2)"
        using sig_invD_D(2) [OF i] cis_ok_map_vals [of "connections s" _ _ ?f]
        by (simp add: cis_ok_def [of "{}"] del: map_of_eq_Some_iff)
      show "index_ok ?s2"
        by (rule index_ok_change [OF sig_invD_D(3) [OF i1]]) (auto simp: same_owner_def simp del: map_of_eq_Some_iff)
      show "owners_ok ?s2"
        by (rule owners_ok_change [OF sig_invD_D(7) [OF i1]]) (auto simp: same_owner_def simp del: map_of_eq_Some_iff)
    qed simp_all
    let ?s4 = "fold (\<lambda>c. DispatchConnectionEvent c ORBIS_NP_SIGNALING_EVENT_DEAD e1) ?cs
        (QueueMatching2DeadForTransport tid e2 ?s2)"
    let ?s5 = "fold RemoveConnectionLocked ?cs ?s4"
    have i5: "sig_invD {} ?s5" using sig_invD_fold_Remove [of "set ?cs" ?s4 ?cs] i2 by simp
    have gone: "ci_transport_id ci \<noteq> tid" if "map_of (connections ?s5) c = Some ci" for c ci
      using that cs by (auto simp: fold_Remove_connections split: if_splits simp del: map_of_eq_Some_iff)
    have i6: "sig_invD {} (?s5\<lparr>peer_transports := AList.delete tid (peer_transports ?s5)\<rparr>)"
    proof (rule sig_invD_cong [OF i5])
      let ?s6 = "?s5\<lparr>peer_transports := AList.delete tid (peer_transports ?s5)\<rparr>"
      show "trs_ok (peer_transports ?s6)" using sig_invD_D(1) [OF i5] by (simp add: trs_ok_delete)
      have "cis_ok {} (tids ?s6) (connections ?s5)"
      proof (rule cis_ok_restrict [OF sig_invD_D(2) [OF i5]])
        fix c ci assume c: "map_of (connections ?s5) c = Some ci" "ci_transport_id ci \<in> tids ?s5"
        with gone [OF c(1)] show "ci_transport_id ci \<in> tids ?s6" by simp
      qed
      then show "cis_ok {} (tids ?s6) (connections ?s6)" by simp
      show "index_ok ?s6" using sig_invD_D(3) [OF i5] by (simp add: index_ok_def)
      show "owners_ok ?s6" using sig_invD_D(7) [OF i5] by (simp add: owners_ok_def)
    qed simp_all
    show ?thesis
      unfolding CloseTransportAndDispatchDead_def GetTransportLocked_def Some option.case if_not_P [OF False]
        Let_def sig_inv_def
      by (rule i6)
  qed
qed

section \<open>Queued activations\<close>

lemma sig_invD_put_synced:
  assumes "sig_invD D s" "map_of (connections s) cid = Some ci"
    "map_of (peer_transports s) (ci_transport_id ci) = Some tr"
  shows "sig_invD D (s\<lparr>connections := AList.update cid (SyncSig1StatusLocked tr ci) (connections s)\<rparr>)"
proof (rule sig_invD_put_connection [OF assms(1)])
  show "ci_ok D (tids s) cid (SyncSig1StatusLocked tr ci)"
    using ci_ok_Sync cis_okD [OF sig_invD_D(2) [OF assms(1)] assms(2)] trs_okD [OF sig_invD_D(1) [OF assms(1)] assms(3)] assms(3)
    by blast
  show "same_owner ci0 (SyncSig1StatusLocked tr ci)" if "map_of (connections s) cid = Some ci0" for ci0
    using that assms(2) by (simp add: same_owner_def SyncSig1StatusLocked_def)
  show "ci_ctx_id (SyncSig1StatusLocked tr ci) \<in> dom (map_of (contexts s))"
    using sig_invD_owner [OF assms(1,2)] by (simp add: SyncSig1StatusLocked_def)
qed simp

lemma sig_invD_process_activation:
  assumes "sig_invD D s"
  shows "sig_invD D (fst (process_activation act (s, retry)))"
proof (cases "map_of (connections s) (pa_conn_id act)")
  case None
  with assms show ?thesis by (simp add: process_activation_def)
next
  case (Some ci)
  obtain ok a p where res: "ResolvePeer (pa_peer_online_id act) s = (ok, a, p)" by (metis prod_cases3)
  let ?tid = "ci_transport_id ci"
  show ?thesis
  proof (cases "map_of (peer_transports s) ?tid")
    case None
    with assms Some res show ?thesis by (simp add: process_activation_def GetTransportLocked_def Let_def)
  next
    case tr: (Some tr)
    let ?s1 = "upd_transport ?tid (\<lambda>t. t\<lparr>pt_addr := a, pt_port := p\<rparr>) s"
    let ?tr = "tr\<lparr>pt_addr := a, pt_port := p\<rparr>"
    let ?s2 = "?s1\<lparr>connections := AList.update (pa_conn_id act) (SyncSig1StatusLocked ?tr ci) (connections ?s1)\<rparr>"
    have i1: "sig_invD D ?s1" using assms tr by (intro sig_invD_upd) auto
    have "map_of (peer_transports ?s1) ?tid = Some ?tr" using tr by simp
    from sig_invD_put_synced [OF i1 _ this] Some have i2: "sig_invD D ?s2" by simp
    have the: "the_transport ?tid s = tr" using tr by (simp add: the_transport_def)
    from i2 show ?thesis
      using assms Some res tr by (simp add: process_activation_def GetTransportLocked_def Let_def the
          sig_invD_StartHandshake sig_invD_Establish)
  qed
qed

lemma sig_invD_fold_process:
  "sig_invD D (fst st) \<Longrightarrow> sig_invD D (fst (fold process_activation acts st))"
proof (induction acts arbitrary: st)
  case (Cons act acts)
  then show ?case using sig_invD_process_activation [of D "fst st" act "snd st"] by simp
qed simp

lemma sig_inv_ProcessPendingActivations: "sig_inv s \<Longrightarrow> sig_inv (ProcessPendingActivations s)"
  using sig_invD_fold_process [of "{}" "(s\<lparr>pending_activations := []\<rparr>, [])" "pending_activations s"]
  by (simp add: ProcessPendingActivations_def sig_inv_def Let_def split_beta)

section \<open>Handshake packets\<close>

lemma sig_invD_upd_reply:
  assumes "sig_invD D s" "tid \<in> tids s" "\<And>tr. tr_ok tid tr \<Longrightarrow> tr_ok tid (f tr)"
  shows "sig_invD D (upd_transport tid f s) \<and> tid \<in> tids (upd_transport tid f s)"
  using assms sig_invD_upd [OF assms(1,2)] by simp

lemma on_offer_ok:
  assumes "sig_invD D s" "tid \<in> tids s"
  shows "sig_invD D (fst (on_offer a p pkt tid s)) \<and> tid \<in> tids (fst (on_offer a p pkt tid s))"
  using assms unfolding on_offer_def Let_def fst_conv
  by (intro sig_invD_upd_reply) (auto simp: handshake_endpoint_def tr_ok_SetState)

lemma on_accept_ok:
  assumes "sig_invD D s" "tid \<in> tids s"
  shows "sig_invD D (fst (on_accept a p pkt tid s)) \<and> tid \<in> tids (fst (on_accept a p pkt tid s))"
proof -
  let ?s1 = "upd_transport tid (\<lambda>t. handshake_endpoint a p pkt (t\<lparr>pt_peer_activated := True\<rparr>)) s"
  let ?s2 = "upd_transport tid (SetTransportStateLocked ConnCheck) ?s1"
  have s1: "sig_invD D ?s1 \<and> tid \<in> tids ?s1"
    using assms by (intro sig_invD_upd_reply) (simp_all add: handshake_endpoint_def)
  then have s2: "sig_invD D ?s2 \<and> tid \<in> tids ?s2" by (intro sig_invD_upd_reply) (auto simp: tr_ok_SetState)
  then have "sig_invD D (snd (NowUs ?s2)) \<and> tid \<in> tids (snd (NowUs ?s2))" by simp
  with s1 show ?thesis by (simp add: on_accept_def Let_def split_beta del: the_transport_upd)
qed

lemma on_check_ok:
  assumes "sig_invD D s" "tid \<in> tids s"
  shows "sig_invD D (fst (on_check pkt tid s)) \<and> tid \<in> tids (fst (on_check pkt tid s))"
  using assms sig_invD_upd_reply [OF assms, of "SetTransportStateLocked ConnCheck"]
  by (simp add: on_check_def Let_def tr_ok_SetState)

lemma on_check_ack_ok:
  assumes "sig_invD D s" "tid \<in> tids s"
  shows "sig_invD D (fst (on_check_ack pkt tid s)) \<and> tid \<in> tids (fst (on_check_ack pkt tid s))"
proof -
  have "sig_invD D (snd (NowUs s))" "tid \<in> tids (snd (NowUs s))" using assms by simp_all
  from sig_invD_upd_reply [OF this, of "record_rtt r" for r] this show ?thesis
    by (simp add: on_check_ack_def Let_def split_beta tr_ok_record_rtt)
qed

lemma handshake_section_ok:
  assumes "sig_invD D s" "tid \<in> tids s"
  shows "sig_invD D (fst (handshake_section a p pkt tid s)) \<and> tid \<in> tids (fst (handshake_section a p pkt tid s))"
proof -
  define s1 where "s1 = upd_transport tid (\<lambda>t. t\<lparr>pt_last_peer_rx_us := fst (NowUs s)\<rparr>) (snd (NowUs s))"
  have s1: "sig_invD D s1" "tid \<in> tids s1"
    using assms sig_invD_upd_reply [of D "snd (NowUs s)"] by (simp_all add: s1_def)
  show ?thesis
    unfolding handshake_section_def Let_def split_beta s1_def [symmetric]
    using s1 on_offer_ok [OF s1, of a p pkt] on_accept_ok [OF s1, of a p pkt]
      on_check_ok [OF s1, of pkt] on_check_ack_ok [OF s1, of pkt] by simp
qed

lemma sig_invD_HandleHandshake:
  assumes "sig_invD D s"
  shows "sig_invD D (HandleHandshakePacket a p pkt s)"
proof -
  define tid where "tid = FindTransportByOnlineIdLocked (PacketOnlineIdToString (hs_online_id_from pkt)) s"
  show ?thesis
  proof (cases "tid = 0")
    case True
    with assms show ?thesis by (simp add: HandleHandshakePacket_def tid_def)
  next
    case False
    then have "tid \<in> tids s"
      using FindTransport_found [OF sig_invD_D(1) [OF assms]] tid_def by blast
    moreover obtain s2 r e where x: "handshake_section a p pkt tid s = (s2, r, e)" by (metis prod_cases3)
    ultimately have s2: "sig_invD D s2" "tid \<in> tids s2"
      using handshake_section_ok [OF assms, of tid a p pkt] by simp_all
    let ?s3 = "SyncSig1ConnectionsForTransportLocked tid s2"
    have "sig_invD D ?s3" "tid \<in> tids ?s3" using s2 by (simp_all add: sig_invD_Sync)
    then have "sig_invD D (case r of None \<Rightarrow> ?s3 | Some q \<Rightarrow> (case GetTransportLocked tid ?s3 of None \<Rightarrow> ?s3
         | Some tr \<Rightarrow> SendHandshakeLocked tid q ?s3))"
      by (simp add: sig_invD_SendHandshake split: option.split)
    with False x show ?thesis
      by (simp add: HandleHandshakePacket_def tid_def [symmetric] Let_def sig_invD_Establish)
  qed
qed

section \<open>Control packets\<close>

lemma request_transport_got:
  assumes "sig_invD D s" "found = FindTransportByOnlineIdLocked nid s"
    "request_transport a p pkt ctx_id found s = (tid, s')"
  shows "got_transport D s tid s'"
proof (cases "found = 0")
  case True
  with assms(1,3) show ?thesis
    by (intro got_EnsureTransport) (auto simp: request_transport_def Let_def)
next
  case False
  with assms(3) have e: "tid = found" "s' = s" by (auto simp: request_transport_def Let_def)
  from FindTransport_found [OF sig_invD_D(1) [OF assms(1)] assms(2) [symmetric] False] assms(1) False e
  show ?thesis by (auto simp: got_transport_def the_transport_def)
qed

lemma FindConnection_found:
  assumes "distinct (keys (connections s))" "FindConnectionByOnlineIdLocked nid pref s = cid" "cid \<noteq> 0"
  shows "\<exists>ci. map_of (connections s) cid = Some ci \<and> ConnectionMatchesOnlineId ci nid"
proof -
  have "find_key P (connections s) = Some cid \<Longrightarrow> \<exists>ci. map_of (connections s) cid = Some ci \<and> P cid ci" for P
    by (rule find_key_Some [OF assms(1)])
  then show ?thesis
    using assms(2,3) by (fastforce simp: FindConnectionByOnlineIdLocked_def Let_def
        split: if_splits option.splits)
qed

lemma sig_invD_Allocate:
  assumes "sig_invD D s" "AllocateConnectionIdLocked s = (nid, s')"
  shows "sig_invD D s' \<and> connections s' = connections s \<and> peer_transports s' = peer_transports s \<and>
    contexts s' = contexts s \<and>
    (\<not> nid < 0 \<longrightarrow> 1 \<le> nid \<and> nid \<le> 0x7fff \<and> map_of (connections s) nid = None)"
proof -
  from AllocateConnectionId_cases [OF sig_invD_D(6) [OF assms(1)] assms(2)]
  have c: "connections s' = connections s" "conn_seed_ok s'"
    "\<not> nid < 0 \<longrightarrow> 1 \<le> nid \<and> nid \<le> 0x7fff \<and> map_of (connections s) nid = None" by auto
  have f: "peer_transports s' = peer_transports s" "contexts s' = contexts s" "npid_to_conn s' = npid_to_conn s"
    "last_assigned_context_id s' = last_assigned_context_id s" "transport_id_seed s' = transport_id_seed s"
    using assms(2) by (auto simp: AllocateConnectionId_loop seeded_def split: prod.splits if_splits)
  show ?thesis
    using assms(1) c f by (simp add: sig_invD_def index_ok_def owners_ok_def ctxs_ok_def context_seed_ok_def tseed_ok_def)
qed

text \<open>The record of a new connection: \<open>base\<close> carries its flags.\<close>

lemma ci_ok_new:
  assumes "tr_ok tid tr" "tid \<in> T" "1 \<le> cid" "cid \<le> 0x7fff" "ctx_id \<noteq> 0"
  shows "ci_ok D T cid (SyncSig1StatusLocked tr (zero_connection\<lparr>ci_conn_id := cid, ci_ctx_id := ctx_id,
     ci_transport_id := tid, ci_locally_activated := l, ci_peer_activated := p, ci_online_id := oid,
     ci_npid := n\<rparr>))"
  using assms tr_ok_status [OF assms(1)] by (simp add: ci_ok_def SyncSig1StatusLocked_def zero_connection_def)

lemma the_transport_ok: "sig_invD D s \<Longrightarrow> tid \<in> tids s \<Longrightarrow> tr_ok tid (the_transport tid s)"
  by (auto simp: the_transport_def dest!: trs_okD [OF sig_invD_D(1)])

lemma request_connection_ok:
  assumes "sig_invD D s" "tid \<in> tids s" "request_connection pkt ctx_id tid s = (cid, s')"
    "ctx_id \<noteq> 0 \<Longrightarrow> ctx_id \<in> dom (map_of (contexts s))"
  shows "sig_invD D s' \<and> peer_transports s' = peer_transports s \<and>
    (\<not> cid < 0 \<and> cid \<noteq> 0 \<longrightarrow> cid \<in> dom (map_of (connections s')))"
proof -
  let ?from = "PacketOnlineIdToString (ct_online_id_from pkt)"
  let ?oid = "SetNpOnlineId (take 16 (ct_online_id_from pkt))"
  let ?found = "if ctx_id \<noteq> 0 then FindConnectionByOnlineIdLocked ?from ctx_id s else 0"
  show ?thesis
  proof (cases "ctx_id \<noteq> 0 \<and> ?found = 0")
    case False
    with assms(3) have "cid = ?found" "s' = s" by (auto simp: request_connection_def Let_def split: if_splits)
    with assms(1) show ?thesis
      using FindConnection_found [of s ?from ctx_id cid] sig_invD_D(2) [OF assms(1)]
      by (auto simp: cis_ok_def split: if_splits)
  next
    case True
    obtain nid s1 where al: "AllocateConnectionIdLocked s = (nid, s1)" by force
    note a = sig_invD_Allocate [OF assms(1) al]
    show ?thesis
    proof (cases "nid < 0")
      case neg: True
      with assms(3) True al have "cid = nid" "s' = s1" by (auto simp: request_connection_def Let_def)
      with a neg show ?thesis by simp
    next
      case pos: False
      let ?ci = "SyncSig1StatusLocked (the_transport tid s1) (zero_connection\<lparr>ci_conn_id := nid,
          ci_ctx_id := ctx_id, ci_transport_id := tid, ci_locally_activated := False, ci_peer_activated := True,
          ci_online_id := ?oid, ci_npid := NpIdFromOnlineId ?oid\<rparr>)"
      let ?s2 = "s1\<lparr>connections := AList.update nid ?ci (connections s1)\<rparr>"
      have t1: "tid \<in> tids s1" using a assms(2) by simp
      have "ci_ok D (tids s1) nid ?ci"
        using a pos True t1 the_transport_ok [of D s1 tid] by (intro ci_ok_new) auto
      then have i2: "sig_invD D ?s2"
        using a pos True assms(4) by (intro sig_invD_put_connection) (auto simp: SyncSig1StatusLocked_def)
      have c2: "map_of (connections ?s2) nid = Some ?ci" by simp
      have k: "MakeCtxNpIdKey ctx_id (NpIdFromOnlineId ?oid) = MakeCtxNpIdKey (ci_ctx_id ?ci) (ci_npid ?ci)"
        by (simp add: SyncSig1StatusLocked_def)
      have s': "cid = nid" "s' = ?s2\<lparr>npid_to_conn := AList.update (MakeCtxNpIdKey ctx_id (NpIdFromOnlineId ?oid)) nid
          (npid_to_conn ?s2)\<rparr>"
        using assms(3) True al pos by (auto simp: request_connection_def Let_def)
      have "sig_invD D s'" unfolding s'(2) by (rule sig_invD_put_index [OF i2 c2 k])
      then show ?thesis using a s' by simp
    qed
  qed
qed

lemma sig_invD_peer_activated:
  assumes "sig_invD D s" "cid \<in> dom (map_of (connections s))" "tid \<in> tids s"
  shows "sig_invD D (s\<lparr>connections := modify_at zero_connection cid
     (\<lambda>ci. ci\<lparr>ci_peer_activated := True, ci_transport_id := tid\<rparr>) (connections s)\<rparr>)"
proof -
  from assms(2) obtain ci where ci: "map_of (connections s) cid = Some ci" by blast
  have "ci_ok D (tids s) cid (ci\<lparr>ci_peer_activated := True, ci_transport_id := tid\<rparr>)"
    using cis_okD [OF sig_invD_D(2) [OF assms(1)] ci] assms(3) by (simp add: ci_ok_def del: map_of_eq_Some_iff)
  from sig_invD_put_connection [OF assms(1) this] ci sig_invD_owner [OF assms(1) ci] show ?thesis
    by (simp add: modify_at_def same_owner_def)
qed

lemma sig_invD_request_ack:
  assumes "sig_invD D s" "tid \<in> tids s"
  shows "sig_invD D (if pt_state tr = Established
     then EstablishConnection tid False (if c then snd (ControlSendTo q x y s) else s)
     else (if c then snd (ControlSendTo q x y s) else s))"
  using assms sig_invD_Establish by simp

lemma active_context_in:
  "active_context_of nid s \<noteq> 0 \<Longrightarrow> active_context_of nid s \<in> dom (map_of (contexts s))"
  unfolding active_context_of_def dom_map_of_conv_image_fst
  by (auto split: option.splits dest!: find_key_in)

lemma sig_invD_on_activation_request:
  assumes "sig_invD D s" "found = FindTransportByOnlineIdLocked nid s"
  shows "sig_invD D (on_activation_request a p pkt found s)"
proof -
  define ctx_id where "ctx_id = active_context_of (PacketOnlineIdToString (ct_online_id_to pkt)) s"
  obtain tid s1 where rt: "request_transport a p pkt ctx_id found s = (tid, s1)" by force
  have g: "got_transport D s tid s1" by (rule request_transport_got [OF assms rt])
  then have i1: "sig_invD D s1" by (simp add: got_transport_def)
  show ?thesis
  proof (cases "tid < 0")
    case True
    with i1 rt show ?thesis by (simp add: on_activation_request_def ctx_id_def [symmetric] Let_def)
  next
    case False
    with g have t1: "tid \<in> tids s1" and st: "pt_state (the_transport tid s1) \<noteq> Inactive"
      by (simp_all add: got_transport_def)
    define s2 where "s2 = upd_transport tid (\<lambda>t.
        let t1 = t\<lparr>pt_peer_activated := True, pt_addr := control_addr a pkt, pt_port := p\<rparr>
        in if pt_state t1 = Inactive then SetTransportStateLocked WaitOffer t1 else t1) s1"
    have i2: "sig_invD D s2" unfolding s2_def
      using st by (intro sig_invD_upd [OF i1 t1]) (auto simp: Let_def the_transport_Some)
    have t2: "tid \<in> tids s2" by (simp add: s2_def)
    obtain cid s3 where rc: "request_connection pkt ctx_id tid s2 = (cid, s3)" by force
    have "ctx_id \<in> dom (map_of (contexts s2))" if "ctx_id \<noteq> 0"
      using active_context_in that g by (simp add: s2_def ctx_id_def got_transport_def)
    note i3 = request_connection_ok [OF i2 t2 rc this]
    show ?thesis
    proof (cases "cid < 0")
      case True
      with i3 rt rc False show ?thesis
        by (simp add: on_activation_request_def ctx_id_def [symmetric] Let_def s2_def)
    next
      case pos: False
      define s4 where "s4 = (if cid \<noteq> 0 then s3\<lparr>connections := modify_at zero_connection cid
          (\<lambda>ci. ci\<lparr>ci_peer_activated := True, ci_transport_id := tid\<rparr>) (connections s3)\<rparr> else s3)"
      have "sig_invD D s4 \<and> tid \<in> tids s4"
        using i3 pos t2 sig_invD_peer_activated [of D s3 cid tid] by (simp add: s4_def)
      then have i5: "sig_invD D (SyncSig1ConnectionsForTransportLocked tid s4)"
        "tid \<in> tids (SyncSig1ConnectionsForTransportLocked tid s4)"
        by (simp_all add: sig_invD_Sync)
      show ?thesis
        unfolding on_activation_request_def ctx_id_def [symmetric] rt Let_def prod.case
          s2_def [unfolded Let_def, symmetric] rc s4_def [symmetric] if_not_P [OF False] if_not_P [OF pos]
        by (rule sig_invD_request_ack [OF i5])
    qed
  qed
qed

lemma sig_inv_on_close:
  assumes "sig_inv s" "tid \<in> tids s"
  shows "sig_inv (on_close pkt tid s)"
proof -
  have i: "sig_invD {} s" using assms(1) by (simp add: sig_inv_def)
  have "sig_inv (QueueMatching2DeadForTransport tid e (upd_transport tid (SetTransportStateLocked Inactive) s))" for e
    using sig_invD_SetState [OF i assms(2)] by (simp add: sig_inv_def)
  then show ?thesis
    using assms(1) sig_inv_CloseConnection [OF assms(1)]
    by (simp add: on_close_def Let_def sig_inv_def)
qed

lemma sig_inv_HandleControl:
  assumes "sig_inv s"
  shows "sig_inv (HandleControlPacket a p pkt s)"
proof -
  define tid where "tid = FindTransportByOnlineIdLocked (PacketOnlineIdToString (ct_online_id_from pkt)) s"
  have i: "sig_invD {} s" using assms by (simp add: sig_inv_def)
  have req: "sig_inv (on_activation_request a p pkt tid s)"
    using sig_invD_on_activation_request [OF i tid_def] by (simp add: sig_inv_def)
  show ?thesis
  proof (cases "tid = 0")
    case True
    with req assms show ?thesis by (simp add: HandleControlPacket_def tid_def)
  next
    case False
    then have t: "tid \<in> tids s" using FindTransport_found [OF sig_invD_D(1) [OF i]] tid_def by blast
    have upd: "sig_inv (upd_transport tid f s)" if "\<And>tr. tr_ok tid tr \<Longrightarrow> tr_ok tid (f tr)" for f
      using sig_invD_upd_reply [OF i t that] by (simp add: sig_inv_def)
    have ack: "sig_inv (SyncSig1ConnectionsForTransportLocked tid (upd_transport tid (\<lambda>t.
        let t1 = t\<lparr>pt_peer_activated := True\<rparr>
        in if ct_mapped_addr pkt \<noteq> 0 then t1\<lparr>pt_addr := ct_mapped_addr pkt\<rparr> else t1) s))"
      using upd sig_invD_Sync by (simp add: sig_inv_def Let_def)
    have est: "sig_inv (upd_transport tid (\<lambda>t. t\<lparr>pt_peer_established := True\<rparr>) s)" by (rule upd) simp
    show ?thesis
      using req ack est assms sig_inv_on_close [OF assms t, of pkt] sig_invD_Establish
      by (simp add: HandleControlPacket_def tid_def [symmetric] Let_def sig_inv_def del: the_transport_upd)
  qed
qed

section \<open>Received datagrams\<close>

lemma sig_invD_HandleStunEcho: "sig_invD D s \<Longrightarrow> sig_invD D (HandleStunEcho e s)"
  by (simp add: HandleStunEcho_def sig_invD_def state_preds dom_map_vals)

lemma sig_invD_on_echo_ping: "sig_invD D s \<Longrightarrow> sig_invD D (on_echo_ping a p q s)"
  by (simp add: on_echo_ping_def)

lemma sig_invD_on_echo_pong: "sig_invD D s \<Longrightarrow> sig_invD D (on_echo_pong q s)"
  by (auto simp: on_echo_pong_def Let_def split_beta split: option.split
      intro!: sig_invD_upd tr_ok_record_rtt simp del: map_of_eq_Some_iff)

lemma sig_inv_ProcessSignalingPacket: "sig_inv s \<Longrightarrow> sig_inv (ProcessSignalingPacket buf a p s)"
  using sig_inv_HandleControl [of s a p "dec_control buf"] sig_invD_HandleHandshake sig_invD_on_echo_pong
    sig_invD_on_echo_ping sig_invD_HandleStunEcho
  by (simp add: ProcessSignalingPacket_def sig_inv_def)

section \<open>Activation, deactivation, termination\<close>

lemma sig_invD_Remove_keep: "sig_invD {} s \<Longrightarrow> sig_invD {} (RemoveConnectionLocked cid s)"
  using sig_invD_Remove [of "{}" s cid] by simp

lemma activate_lookup_ok:
  assumes "sig_inv s" "activate_lookup ctx_id n s = (c, s1)"
  shows "sig_inv s1 \<and> contexts s1 = contexts s \<and> (c = 0 \<or> (\<exists>ci. map_of (connections s1) c = Some ci \<and>
     ci_ctx_id ci = ctx_id \<and> ci_npid ci = n))"
  using assms index_okD [OF sig_invD_D(3) [OF assms(1) [unfolded sig_inv_def]], of "MakeCtxNpIdKey ctx_id n"]
  by (auto simp: activate_lookup_def sig_inv_def sig_invD_Remove_keep MakeCtxNpIdKey_def
      split: option.splits if_splits)

lemma activate_new_ok:
  assumes "sig_invD {} s" "tid \<in> tids s" "ctx_id \<noteq> 0" "ctx_id \<in> dom (map_of (contexts s))"
    "activate_new ctx_id n oid tid s = (cid, s1)"
  shows "sig_invD {} s1 \<and> (\<not> cid < 0 \<longrightarrow> (\<exists>ci. map_of (connections s1) cid = Some ci \<and>
     ci_ctx_id ci = ctx_id \<and> ci_npid ci = n \<and> ci_locally_activated ci))"
proof -
  obtain nid s0 where al: "AllocateConnectionIdLocked s = (nid, s0)" by force
  note a = sig_invD_Allocate [OF assms(1) al]
  show ?thesis
  proof (cases "nid < 0")
    case True
    with assms(5) al a show ?thesis by (auto simp: activate_new_def)
  next
    case False
    let ?ci = "SyncSig1StatusLocked (the_transport tid s0) (zero_connection\<lparr>ci_conn_id := nid,
        ci_ctx_id := ctx_id, ci_transport_id := tid, ci_locally_activated := True, ci_npid := n,
        ci_online_id := oid\<rparr>)"
    let ?ci' = "if ci_status ?ci = ORBIS_NP_SIGNALING_CONN_STATUS_INACTIVE
        then ?ci\<lparr>ci_status := ORBIS_NP_SIGNALING_CONN_STATUS_PENDING\<rparr> else ?ci"
    have s1: "cid = nid" "s1 = s0\<lparr>connections := AList.update nid ?ci' (connections s0)\<rparr>"
      using assms(5) al False by (auto simp: activate_new_def Let_def)
    have t: "tid \<in> tids s0" using a assms(2) by simp
    have tr: "tr_ok tid (the_transport tid s0)" using a t the_transport_ok by blast
    have pend: "(1::s32) \<in> range StatusFromState"
      by (auto simp: StatusFromState_def image_iff intro!: exI [of _ SendingOffer])
    have "ci_ok {} (tids s0) nid ?ci'"
      using tr_ok_status [OF tr] t a False assms(3) pend
      by (auto simp: ci_ok_def SyncSig1StatusLocked_def zero_connection_def simp del: map_of_eq_Some_iff)
    then have "sig_invD {} s1"
      unfolding s1(2) using a False assms(4) by (intro sig_invD_put_connection) (auto simp: SyncSig1StatusLocked_def)
    then show ?thesis by (simp add: s1 SyncSig1StatusLocked_def)
  qed
qed

lemma activate_reuse_ok:
  assumes "sig_invD {} s" "tid \<in> tids s" "ctx_id \<noteq> 0"
    "map_of (connections s) cid = Some ci" "ci_ctx_id ci = ctx_id" "ci_npid ci = n"
  shows "sig_invD {} (activate_reuse ctx_id n oid tid cid s) \<and>
    (\<exists>ci. map_of (connections (activate_reuse ctx_id n oid tid cid s)) cid = Some ci \<and>
       ci_ctx_id ci = ctx_id \<and> ci_npid ci = n \<and> ci_locally_activated ci)"
proof -
  let ?s1 = "if pt_state (the_transport tid s) \<in> {Inactive, WaitOffer}
      then upd_transport tid (SetTransportStateLocked SendingOffer) s else s"
  have i1: "sig_invD {} ?s1" "tid \<in> tids ?s1" "connections ?s1 = connections s"
    using assms(1,2) by (simp_all add: sig_invD_SetState)
  let ?ci = "ci\<lparr>ci_ctx_id := ctx_id, ci_transport_id := tid, ci_locally_activated := True, ci_npid := n,
      ci_online_id := oid\<rparr>"
  let ?ci' = "SyncSig1StatusLocked (the_transport tid ?s1) ?ci"
  have "ci_ok {} (tids ?s1) cid ci"
    by (rule cis_okD [OF sig_invD_D(2) [OF i1(1)]]) (simp only: i1(3) assms(4))
  then have "ci_ok {} (tids ?s1) cid ?ci" using assms(3) i1(2) unfolding ci_ok_def by simp
  from ci_ok_Sync [OF this the_transport_ok [OF i1(1,2)]] i1(2)
  have "sig_invD {} (?s1\<lparr>connections := AList.update cid ?ci' (connections ?s1)\<rparr>)"
    using assms(4-6) i1(3) sig_invD_owner [OF assms(1,4)]
    by (intro sig_invD_put_connection [OF i1(1)]) (auto simp: same_owner_def SyncSig1StatusLocked_def)
  moreover have "activate_reuse ctx_id n oid tid cid s = ?s1\<lparr>connections := AList.update cid ?ci' (connections ?s1)\<rparr>"
    using assms(4) i1(3) by (simp add: activate_reuse_def Let_def modify_at_def)
  ultimately show ?thesis by (simp add: SyncSig1StatusLocked_def)
qed

lemma activate_granted_ok:
  assumes "sig_inv s" "ctx_id \<in> dom (map_of (contexts s))"
    "activate_granted ctx_id n oid ctx s = (r, s')"
  shows "sig_inv s' \<and> (case r of Inl e \<Rightarrow> True | Inr (cid, est) \<Rightarrow>
    (\<exists>ci. map_of (connections s') cid = Some ci \<and> ci_ctx_id ci = ctx_id \<and> ci_npid ci = n \<and>
       ci_locally_activated ci) \<and> map_of (npid_to_conn s') (MakeCtxNpIdKey ctx_id n) = Some cid)"
proof -
  have nz: "ctx_id \<noteq> 0"
    using assms sig_invD_D(4) [of "{}" s] by (force simp: sig_inv_def ctxs_ok_def dom_map_of_conv_image_fst)
  obtain c s1 where l: "activate_lookup ctx_id n s = (c, s1)" by force
  note l1 = activate_lookup_ok [OF assms(1) l]
  obtain tid s2 where e: "EnsureTransportLocked (cx_owner_online_id ctx) oid n 0 0 s1 = (tid, s2)" by force
  have g: "got_transport {} s1 tid s2" using l1 got_EnsureTransport [OF _ e] by (simp add: sig_inv_def)
  define x where "x = (if c = 0
      then let (cid, s3) = activate_new ctx_id n oid tid s2 in (cid, True, s3)
      else (c, \<not> ci_locally_activated (at_or zero_connection c (connections s2)),
            activate_reuse ctx_id n oid tid c s2))"
  obtain cid q s3 where x: "x = (cid, q, s3)" by (metis prod_cases3)
  show ?thesis
  proof (cases "tid < 0")
    case True
    with g l e assms(3) show ?thesis by (auto simp: activate_granted_def got_transport_def sig_inv_def)
  next
    case False
    with g l1 assms(2) have t2: "sig_invD {} s2" "tid \<in> tids s2" "connections s2 = connections s1"
      "ctx_id \<in> dom (map_of (contexts s2))"
      by (simp_all add: got_transport_def)
    have s3: "sig_invD {} s3 \<and> (\<not> cid < 0 \<longrightarrow> (\<exists>ci. map_of (connections s3) cid = Some ci \<and>
        ci_ctx_id ci = ctx_id \<and> ci_npid ci = n \<and> ci_locally_activated ci))"
    proof (cases "c = 0")
      case True
      then have "activate_new ctx_id n oid tid s2 = (cid, s3)"
        using x by (auto simp: x_def split: prod.splits)
      then show ?thesis using activate_new_ok [OF t2(1,2) nz t2(4)] by blast
    next
      case False
      then have "cid = c" "s3 = activate_reuse ctx_id n oid tid c s2" using x by (auto simp: x_def)
      with l1 False activate_reuse_ok [OF t2(1,2) nz, of c _ n oid] t2(3) show ?thesis by auto
    qed
    then have s4: "sig_invD {} (s3\<lparr>npid_to_conn := AList.update (MakeCtxNpIdKey ctx_id n) cid (npid_to_conn s3)\<rparr>)"
      if "\<not> cid < 0"
      using that by (auto intro!: sig_invD_put_index)
    let ?s4 = "s3\<lparr>npid_to_conn := AList.update (MakeCtxNpIdKey ctx_id n) cid (npid_to_conn s3)\<rparr>"
    let ?est = "pt_state (the_transport tid s2) = Established"
    have "(if cid < 0 then (Inl ORBIS_NP_SIGNALING_ERROR_OUT_OF_MEMORY, s3)
        else (Inr (cid, ?est), if q then QueueActivationLocked cid (OnlineIdToString oid) (\<not> ?est) ?s4 else ?s4))
        = (r, s')"
      using assms(3) unfolding activate_granted_def l prod.case e Let_def if_not_P [OF False]
        x_def [unfolded Let_def, symmetric] x .
    then consider "cid < 0" "r = Inl ORBIS_NP_SIGNALING_ERROR_OUT_OF_MEMORY" "s' = s3"
      | "\<not> cid < 0" "r = Inr (cid, ?est)" "s' = (if q then QueueActivationLocked cid (OnlineIdToString oid) (\<not> ?est) ?s4 else ?s4)"
      by (auto split: if_splits)
    then show ?thesis
    proof cases
      case 1
      with s3 show ?thesis by (simp add: sig_inv_def)
    next
      case 2
      then have "sig_invD {} s'" "connections s' = connections s3" "npid_to_conn s' = npid_to_conn ?s4"
        using s4 by simp_all
      with s3 2 show ?thesis by (simp add: sig_inv_def)
    qed
  qed
qed

lemma sig_invD_ConsumeBudget:
  assumes "sig_invD D s" "ctx_id \<in> dom (map_of (contexts s))"
  shows "sig_invD D (snd (ConsumeActivationBudgetGatedLocked ctx_id s)) \<and>
    dom (map_of (contexts (snd (ConsumeActivationBudgetGatedLocked ctx_id s)))) = dom (map_of (contexts s))"
proof -
  have k: "fst ` set (AList.update ctx_id c (contexts s)) = fst ` set (contexts s)" for c
    using assms(2) by (simp only: dom_map_of_conv_image_fst [symmetric]) auto
  show ?thesis
    using assms
    by (auto simp: ConsumeActivationBudgetGatedLocked_def ConsumeActivationBudgetLocked_def split_beta
        sig_invD_def state_preds k simp del: map_of_eq_Some_iff)
qed

lemma sig_inv_ActivateSig1:
  assumes "sig_inv s"
  shows "sig_inv (snd (snd (ActivateSig1 ctx_id n oid out s)))"
proof (cases "map_of (contexts s) ctx_id")
  case None
  with assms show ?thesis by (simp add: ActivateSig1_def)
next
  case (Some ctx)
  obtain ok s1 where b: "ConsumeActivationBudgetGatedLocked ctx_id s = (ok, s1)" by force
  have i1: "sig_inv s1" and d: "dom (map_of (contexts s1)) = dom (map_of (contexts s))"
    using sig_invD_ConsumeBudget [of "{}" s ctx_id] assms Some b by (simp_all add: sig_inv_def domIff)
  obtain r s2 where g: "activate_granted ctx_id n oid ctx s1 = (r, s2)" by force
  have i2: "sig_inv s2"
    using activate_granted_ok [OF i1 _ g] d Some by (simp add: domIff)
  show ?thesis
    using assms Some b i1 g i2 sig_invD_Establish [of "{}" s2]
    by (auto simp: ActivateSig1_def sig_inv_def split: sum.split option.split prod.split)
qed

lemma sig_inv_DeactivateSig1: "sig_inv s \<Longrightarrow> sig_inv (DeactivateSig1 cid s)"
  by (auto simp: DeactivateSig1_def Let_def sig_inv_def split: option.split
      intro!: sig_inv_CloseConnection [unfolded sig_inv_def])

lemma sig_inv_TerminateSig1: "sig_inv s \<Longrightarrow> sig_inv (TerminateSig1 cid s)"
  by (auto simp: TerminateSig1_def Let_def sig_inv_def split: option.split
      intro!: sig_inv_CloseConnection [unfolded sig_inv_def])

section \<open>The runtime\<close>

lemma sig_inv_fold: "(\<And>x s. sig_inv s \<Longrightarrow> sig_inv (f x s)) \<Longrightarrow> sig_inv s \<Longrightarrow> sig_inv (fold f xs s)"
  by (induction xs arbitrary: s) auto

lemma sig_inv_drain: "sig_inv s \<Longrightarrow> sig_inv (drain_packets ds s)"
  by (induction ds s rule: drain_packets.induct) (auto simp: sig_inv_ProcessSignalingPacket)

lemma sig_inv_Publish: "sig_inv s \<Longrightarrow> sig_inv (snd (publish_loop oids names n s))"
  by (induction oids names n s rule: publish_loop.induct)
    (auto simp: Let_def PublishOnlineId_def sig_inv_def split_beta)

lemma sig_inv_SendEchoPings: "sig_inv s \<Longrightarrow> sig_inv (SendEchoPings s)"
proof -
  assume s: "sig_inv s"
  let ?f = "\<lambda>now tid tr. if echo_due now tr then tr\<lparr>pt_last_echo_ping_us := now\<rparr> else tr"
  let ?s1 = "snd (NowUs s)"
  let ?s2 = "\<lambda>now. ?s1\<lparr>peer_transports := map_vals (?f now) (peer_transports ?s1)\<rparr>"
  have i1: "sig_invD {} ?s1" using s by (simp add: sig_inv_def)
  have i2: "sig_inv (?s2 now)" for now
    unfolding sig_inv_def
  proof (rule sig_invD_cong [OF i1])
    show "trs_ok (peer_transports (?s2 now))"
      using sig_invD_D(1) [OF i1] by (simp add: trs_ok_map_vals)
    have "tids (?s2 now) = tids ?s1" by (auto simp: dom_def)
    then show "cis_ok {} (tids (?s2 now)) (connections (?s2 now))" using sig_invD_D(2) [OF i1] by simp
    show "index_ok (?s2 now)" using sig_invD_D(3) [OF i1] by (simp add: index_ok_def)
    show "owners_ok (?s2 now)" using sig_invD_D(7) [OF i1] by (simp add: owners_ok_def)
  qed simp_all
  have "sig_inv (snd (SignalingSendTo p a q t)) = sig_inv t" for p a q t by (simp add: sig_inv_def)
  then show ?thesis
    unfolding SendEchoPings_def Let_def split_beta by (intro sig_inv_fold i2) simp
qed

lemma sig_inv_StepPendingConnections: "sig_inv s \<Longrightarrow> sig_inv (StepPendingConnections s)"
  unfolding StepPendingConnections_def Let_def split_beta
  by (intro sig_inv_fold sig_inv_CloseTransport) (simp_all add: sig_inv_def sig_invD_StartHandshake)

lemma sig_inv_apply_snapshot: "sig_inv s \<Longrightarrow> sig_inv (apply_snapshot sn s)"
  by (auto simp: apply_snapshot_def Let_def sig_inv_def split_beta split: option.split)

lemma sig_inv_SyncMatching2Peers: "sig_inv s \<Longrightarrow> sig_inv (SyncMatching2Peers s)"
  unfolding SyncMatching2Peers_def by (rule sig_inv_fold [OF sig_inv_apply_snapshot])

lemma sig_inv_start_target:
  assumes "sig_inv s"
  shows "sig_inv (fst (start_target xid target (s, ts)))"
proof -
  obtain mid member where m: "target = (mid, member)" by force
  show ?thesis
  proof (cases "ResolvePeerEndpoint member s")
    case None
    with assms m show ?thesis by (simp add: start_target_def)
  next
    case (Some ep)
    obtain a p where ep: "ep = (a, p)" by force
    show ?thesis
    proof (cases "m2_get xid s")
      case None
      with assms m Some ep show ?thesis by (simp add: start_target_def)
    next
      case ctx: (Some ctx)
      obtain tid s1 where e: "EnsureTransportLocked (m2_online_id ctx) (handle (mc_np_id member))
          (mc_np_id member) a p s = (tid, s1)" by force
      have g: "got_transport {} s tid s1" using assms got_EnsureTransport [OF _ e] by (simp add: sig_inv_def)
      have "sig_invD {} (if pt_state (the_transport tid s1) = WaitOffer
          then upd_transport tid (SetTransportStateLocked SendingOffer) s1 else s1)" if "\<not> tid < 0"
        using g that by (auto simp: got_transport_def simp del: map_of_eq_Some_iff intro!: sig_invD_SetState)
      moreover have "sig_invD {} s1" using g by (simp add: got_transport_def)
      ultimately show ?thesis
        using m Some ep ctx e by (simp add: start_target_def sig_inv_def Let_def)
    qed
  qed
qed

lemma sig_inv_StartMatching2:
  assumes "sig_inv s"
  shows "sig_inv (StartMatching2 xid s)"
proof -
  have f: "sig_inv (fst (fold (start_target xid) targets st))" if "sig_inv (fst st)" for targets st
    using that
  proof (induction targets arbitrary: st)
    case (Cons t targets)
    then show ?case using sig_inv_start_target [of "fst st" xid t "snd st"] by simp
  qed simp
  have "sig_inv (fold StartTransportHandshakeInitiator ts (SyncMatching2Peers s1))" if "sig_inv s1" for ts s1
    using sig_inv_SyncMatching2Peers [OF that]
    by (rule sig_inv_fold [rotated]) (simp add: sig_inv_def sig_invD_StartHandshake)
  then show ?thesis
    using assms f [of "(s, [])"] by (auto simp: StartMatching2_def Let_def split_beta split: option.split)
qed

lemma sig_inv_StopMatching2Room: "sig_inv s \<Longrightarrow> sig_inv (StopMatching2Room xid rid e s)"
  unfolding StopMatching2Room_def
  by (auto split: option.split intro!: sig_inv_fold sig_inv_CloseTransport)

lemma sig_inv_StopMatching2: "sig_inv s \<Longrightarrow> sig_inv (StopMatching2 xid e s)"
  unfolding StopMatching2_def
  by (auto split: option.split intro!: sig_inv_fold sig_inv_StopMatching2Room)

lemma sig_inv_runtime_turn:
  assumes "sig_inv s"
  shows "sig_inv (snd (runtime_turn control signaling (p, s)))"
proof -
  define s5 where "s5 = SyncMatching2Peers (SendEchoPings (StepPendingConnections
      (DrainSignalingPackets signaling (DrainControlPackets control (snd (NowUs s))))))"
  have "sig_inv (snd (NowUs s))" using assms by (simp add: sig_inv_def)
  then have "sig_inv s5"
    unfolding s5_def DrainSignalingPackets_def DrainControlPackets_def
    by (intro sig_inv_SyncMatching2Peers sig_inv_SendEchoPings sig_inv_StepPendingConnections sig_inv_drain)
  then have "sig_inv (snd (PublishSignalingInfo s5))" "sig_inv s5"
    by (simp_all add: PublishSignalingInfo_def sig_inv_Publish)
  with assms show ?thesis
    by (simp add: runtime_turn_def split_beta Let_def s5_def)
qed

lemma core_SigStart [simp]: "core (SigStart s) = core s" by (simp add: SigStart_def core_def)
lemma core_SigStop [simp]: "core (SigStop s) = core s" by (simp add: SigStop_def core_def)
lemma core_AddContextRef [simp]: "core (AddContextRef s) = core s" by (simp add: AddContextRef_def) (simp add: core_def)
lemma core_ReleaseContextRef [simp]: "core (ReleaseContextRef s) = core s"
  by (simp add: ReleaseContextRef_def Let_def) (simp add: core_def)
lemma core_StartDispatch [simp]: "core (StartDispatchThread s) = core s" by (simp add: StartDispatchThread_def core_def)
lemma core_StopDispatch [simp]: "core (StopDispatchThread s) = core s" by (simp add: StopDispatchThread_def core_def)
lemma core_dispatch_round: "core (dispatch_round s) = core s"
  using core_NowUs [of s] by (auto simp: dispatch_round_def Let_def split_beta split: list.split)

end
