(* ===== verification/SigApi.thy ===== *)
theory SigApi
  imports SigRuntime
begin

text \<open>
  The exported functions of the signaling library (np_signaling.cpp) and the heap and runtime
  they start (np_signaling_helpers.cpp). A null pointer argument is \<open>None\<close> or \<open>False\<close>; a function
  returns its code, what it writes through its out pointers (\<open>None\<close>: nothing), and the state.
  Readings of the clock that only feed a log line are left out.
\<close>

section \<open>Heap and runtime (np_signaling_helpers.cpp)\<close>

record HelperState =
  heap_initialized :: bool
  heap_base :: ptr
  heap_size :: s64
  hooks_registered :: bool
  echo_probe_word2 :: u64
  echo_probe_word3 :: u64
  echo_thread_handle :: u64
  echo_thread_status :: s32

definition init_helpers :: HelperState where
  "init_helpers = \<lparr>heap_initialized = False, heap_base = 0, heap_size = 0, hooks_registered = False,
     echo_probe_word2 = 0, echo_probe_word3 = 0, echo_thread_handle = -1, echo_thread_status = -1\<rparr>"

text \<open>
  The system calls of these functions: the mapping of memory of a size (its code and the
  address), the socket, and the ioctl (its code and the 36 bytes it leaves in the buffer).
\<close>

record KernelCalls =
  kc_map :: "u64 \<Rightarrow> s32 \<times> ptr"
  kc_socket :: s32
  kc_ioctl :: "s32 \<times> bytes"

definition AlignUp :: "u64 \<Rightarrow> u64 \<Rightarrow> u64" where
  "AlignUp value alignment =
     (let m = value mod alignment; v = value - m in if m = 0 then v else v + alignment)"

definition InitSignalingHeap :: "KernelCalls \<Rightarrow> s64 \<Rightarrow> HelperState \<Rightarrow> s32 \<times> HelperState" where
  "InitSignalingHeap kc pool_size h =
     (if pool_size = 0 \<or> heap_initialized h then (ORBIS_NP_SIGNALING_INTERNAL_ERROR_ALLOCATOR, h)
      else
        let aligned_size = AlignUp (word_of_int pool_size) 0x4000;
            (rc, base) = kc_map kc aligned_size
        in if rc < 0 then (rc, h)
           else (ORBIS_OK, h\<lparr>heap_initialized := True, heap_base := base,
                              heap_size := sint aligned_size\<rparr>))"

definition ShutdownSignalingHeap :: "HelperState \<Rightarrow> HelperState" where
  "ShutdownSignalingHeap h =
     (if \<not> heap_initialized h then h
      else let h1 = h\<lparr>heap_initialized := False\<rparr>
           in if heap_base h1 \<noteq> 0 then h1\<lparr>heap_base := 0, heap_size := 0\<rparr> else h1)"

definition RegisterRuntimeHooks :: "HelperState \<Rightarrow> HelperState" where
  "RegisterRuntimeHooks h = h\<lparr>hooks_registered := True\<rparr>"

text \<open>The registered hooks are the start and the stop of the dispatch thread.\<close>

definition StartMainRuntime :: "HelperState \<Rightarrow> SigState \<Rightarrow> s32 \<times> SigState" where
  "StartMainRuntime h s =
     (if \<not> hooks_registered h then (ORBIS_NP_SIGNALING_INTERNAL_ERROR_NOT_INITIALIZED, s)
      else (ORBIS_OK, StartDispatchThread s))"

definition StartEchoRuntime :: "KernelCalls \<Rightarrow> HelperState \<Rightarrow> s32 \<times> HelperState" where
  "StartEchoRuntime kc h =
     (let sock = kc_socket kc
      in if sock < 0 then (sock, h)
         else let (ioctl_rc, ioctl_data) = kc_ioctl kc
              in (ioctl_rc,
                  h\<lparr>echo_probe_word2 := (if ioctl_rc \<ge> 0 then le_word (mem_slice 16 8 ioctl_data) else 0),
                    echo_probe_word3 := (if ioctl_rc \<ge> 0 then le_word (mem_slice 24 8 ioctl_data) else 0),
                    echo_thread_handle := -1, echo_thread_status := -1\<rparr>))"

definition ShutdownRuntime :: "HelperState \<Rightarrow> SigState \<Rightarrow> HelperState \<times> SigState" where
  "ShutdownRuntime h s =
     (h\<lparr>echo_probe_word2 := 0, echo_probe_word3 := 0, echo_thread_handle := -1,
        echo_thread_status := -1\<rparr>,
      if hooks_registered h then StopDispatchThread s else s)"

section \<open>Initialising and terminating\<close>

text \<open>
  The thread parameters go to the thread creation only; the heap gets the memory size, 0
  standing for its default.
\<close>

definition sceNpSignalingInitialize ::
  "KernelCalls \<Rightarrow> s64 \<Rightarrow> HelperState \<Rightarrow> SigState \<Rightarrow> s32 \<times> HelperState \<times> SigState" where
  "sceNpSignalingInitialize kc memory_size h s =
     (if initialized s then (ORBIS_NP_SIGNALING_ERROR_ALREADY_INITIALIZED, h, s)
      else
        let (heap_rc, h1) = InitSignalingHeap kc (if memory_size = 0 then 0x20000 else memory_size) h
        in if heap_rc < 0 then (heap_rc, h1, s)
           else
             let h2 = RegisterRuntimeHooks h1;
                 s2 = s\<lparr>initialized := True\<rparr>;
                 (rc, s3) = StartMainRuntime h2 s2
             in if rc < 0 then (rc, ShutdownSignalingHeap h2, s3\<lparr>initialized := False\<rparr>)
                else
                  let (echo_rc, h4) = StartEchoRuntime kc h2
                  in if echo_rc < 0
                     then let (h5, s5) = ShutdownRuntime h4 (s3\<lparr>initialized := False\<rparr>)
                          in (echo_rc, ShutdownSignalingHeap h5, s5)
                     else (ORBIS_OK, h4, s3))"

definition sceNpSignalingTerminate :: "HelperState \<Rightarrow> SigState \<Rightarrow> s32 \<times> HelperState \<times> SigState" where
  "sceNpSignalingTerminate h s =
     (if \<not> initialized s then (ORBIS_NP_SIGNALING_ERROR_NOT_INITIALIZED, h, s)
      else
        let (h1, s1) = ShutdownRuntime h (s\<lparr>initialized := False\<rparr>);
            h2 = ShutdownSignalingHeap h1;
            context_count = length (contexts s1);
            s2 = ResetSig1Data s1
        in (ORBIS_OK, h2, (ReleaseContextRef ^^ context_count) s2))"

section \<open>Contexts\<close>

text \<open>The fields a new context gets; the clock is read before the configured port.\<close>

definition create_context ::
  "ptr \<Rightarrow> ptr \<Rightarrow> OrbisNpId \<Rightarrow> u32 \<Rightarrow> u64 \<Rightarrow> SigState \<Rightarrow> s32 \<times> s32 option \<times> SigState" where
  "create_context callback callback_arg owner_npid flags account_id s =
     (let (ctx_id, s1) = AllocateContextIdLocked s
      in if ctx_id < 0 then (ORBIS_NP_SIGNALING_ERROR_CTXID_NOT_AVAILABLE, None, s1)
         else
           let (now, s2) = NowUs s1;
               ctx = (at_or zero_context ctx_id (contexts s2))\<lparr>
                       cx_callback := callback, cx_callback_arg := callback_arg,
                       cx_active := True, cx_owner_npid := owner_npid,
                       cx_owner_online_id := handle owner_npid, cx_flags := flags,
                       cx_compiled_sdk_version := CaptureCompiledSdkVersion (platform s2),
                       cx_activate_budget_us := kActivateBudgetMaxUs,
                       cx_activate_last_update_us := now, cx_bound_port := ConfiguredPort s2\<rparr>;
               ctx' = (if account_id = 0 then ctx
                       else ctx\<lparr>cx_account_id := account_id, cx_platform_type := 0\<rparr>)
           in (ORBIS_OK, Some ctx_id,
               AddContextRef (s2\<lparr>contexts := AList.update ctx_id ctx' (contexts s2)\<rparr>)))"

definition sceNpSignalingCreateContext ::
  "OrbisNpId option \<Rightarrow> ptr \<Rightarrow> ptr \<Rightarrow> bool \<Rightarrow> SigState \<Rightarrow> s32 \<times> s32 option \<times> SigState" where
  "sceNpSignalingCreateContext np_id callback callback_arg out_context_id s =
     (if \<not> initialized s then (ORBIS_NP_SIGNALING_ERROR_NOT_INITIALIZED, None, s)
      else if \<not> out_context_id then (ORBIS_NP_SIGNALING_ERROR_INVALID_ARGUMENT, None, s)
      else case NormalizeNpId (platform s) np_id of
        (rc, Some owner_npid) \<Rightarrow>
          if rc \<noteq> ORBIS_OK then (ORBIS_NP_SIGNALING_ERROR_INVALID_ARGUMENT, None, s)
          else create_context callback callback_arg owner_npid 2 0 s
      | (rc, None) \<Rightarrow> (ORBIS_NP_SIGNALING_ERROR_INVALID_ARGUMENT, None, s))"

text \<open>
  \<open>get_npid\<close> and \<open>get_account_id\<close> are the system's \<open>sceNpGetNpId\<close> and \<open>sceNpGetAccountIdA\<close>: a
  negative code or a value.
\<close>

definition sceNpSignalingCreateContextA ::
  "(s32 \<Rightarrow> s32 + OrbisNpId) \<Rightarrow> (s32 \<Rightarrow> s32 + u64) \<Rightarrow> s32 \<Rightarrow> ptr \<Rightarrow> ptr \<Rightarrow> bool \<Rightarrow> SigState \<Rightarrow>
     s32 \<times> s32 option \<times> SigState" where
  "sceNpSignalingCreateContextA get_npid get_account_id user_id callback callback_arg out_context_id s =
     (if \<not> initialized s then (ORBIS_NP_SIGNALING_ERROR_NOT_INITIALIZED, None, s)
      else if user_id = -1 \<or> \<not> out_context_id then (ORBIS_NP_SIGNALING_ERROR_INVALID_ARGUMENT, None, s)
      else case get_npid user_id of
        Inl npid_rc \<Rightarrow> (npid_rc, None, s)
      | Inr owner_npid \<Rightarrow>
          (case get_account_id user_id of
             Inl account_rc \<Rightarrow> (account_rc, None, s)
           | Inr account_id \<Rightarrow>
               if account_id = 0 then (ORBIS_NP_ERROR_USER_NOT_FOUND, None, s)
               else create_context callback callback_arg owner_npid (4 OR 2) account_id s))"

definition sceNpSignalingDeleteContext :: "s32 \<Rightarrow> SigState \<Rightarrow> s32 \<times> SigState" where
  "sceNpSignalingDeleteContext ctx_id s =
     (if \<not> initialized s then (ORBIS_NP_SIGNALING_ERROR_NOT_INITIALIZED, s)
      else
        let active_conns = keys_where (\<lambda>cid ci. ci_ctx_id ci = ctx_id \<and>
                             ci_status ci \<noteq> ORBIS_NP_SIGNALING_CONN_STATUS_INACTIVE) (connections s);
            s1 = fold TerminateSig1 active_conns s;
            s2 = RemoveContextConnectionsLocked ctx_id s1;
            s3 = s2\<lparr>peer_netinfo_results :=
                      filter (\<lambda>(req, r). ni_ctx_id r \<noteq> ctx_id) (peer_netinfo_results s2),
                    contexts := AList.delete ctx_id (contexts s2)\<rparr>
        in (ORBIS_OK, ReleaseContextRef s3))"

definition sceNpSignalingSetContextOption :: "s32 \<Rightarrow> s32 \<Rightarrow> s32 \<Rightarrow> SigState \<Rightarrow> s32 \<times> SigState" where
  "sceNpSignalingSetContextOption ctx_id option_id option_value s =
     (if \<not> initialized s then (ORBIS_NP_SIGNALING_ERROR_NOT_INITIALIZED, s)
      else case map_of (contexts s) ctx_id of
        None \<Rightarrow> (ORBIS_NP_SIGNALING_ERROR_CTX_NOT_FOUND, s)
      | Some ctx \<Rightarrow>
          let set_flags = (\<lambda>fl. s\<lparr>contexts := AList.update ctx_id (ctx\<lparr>cx_flags := fl\<rparr>) (contexts s)\<rparr>)
          in if \<not> cx_active ctx then (ORBIS_NP_SIGNALING_ERROR_CTX_NOT_FOUND, s)
             else if option_id \<noteq> ORBIS_NP_SIGNALING_CONTEXT_OPTION_FLAG
             then (ORBIS_NP_SIGNALING_ERROR_INVALID_ARGUMENT, s)
             else if option_value = 0 then (ORBIS_OK, set_flags (cx_flags ctx AND NOT 2))
             else if option_value = 1 then (ORBIS_OK, set_flags (cx_flags ctx OR 2))
             else (ORBIS_NP_SIGNALING_ERROR_INVALID_ARGUMENT, s))"

definition sceNpSignalingGetContextOption :: "s32 \<Rightarrow> s32 \<Rightarrow> bool \<Rightarrow> SigState \<Rightarrow> s32 \<times> s32 option" where
  "sceNpSignalingGetContextOption ctx_id option_id out_option_value s =
     (if \<not> initialized s then (ORBIS_NP_SIGNALING_ERROR_NOT_INITIALIZED, None)
      else if \<not> out_option_value then (ORBIS_NP_SIGNALING_ERROR_INVALID_ARGUMENT, None)
      else case map_of (contexts s) ctx_id of
        None \<Rightarrow> (ORBIS_NP_SIGNALING_ERROR_CTX_NOT_FOUND, None)
      | Some ctx \<Rightarrow>
          if \<not> cx_active ctx then (ORBIS_NP_SIGNALING_ERROR_CTX_NOT_FOUND, None)
          else if option_id \<noteq> ORBIS_NP_SIGNALING_CONTEXT_OPTION_FLAG
          then (ORBIS_NP_SIGNALING_ERROR_INVALID_ARGUMENT, None)
          else (ORBIS_OK, Some (if cx_flags ctx AND 2 \<noteq> 0 then 1 else 0)))"

section \<open>Connections\<close>

definition sceNpSignalingActivateConnection ::
  "s32 \<Rightarrow> OrbisNpId option \<Rightarrow> bool \<Rightarrow> SigState \<Rightarrow> s32 \<times> s32 option \<times> SigState" where
  "sceNpSignalingActivateConnection ctx_id peer_np_id out_conn_id s =
     (if \<not> initialized s then (ORBIS_NP_SIGNALING_ERROR_NOT_INITIALIZED, None, s)
      else if peer_np_id = None \<or> \<not> out_conn_id then (ORBIS_NP_SIGNALING_ERROR_INVALID_ARGUMENT, None, s)
      else case NormalizeNpId (platform s) peer_np_id of
        (normalize_rc, npid) \<Rightarrow>
          if normalize_rc \<noteq> ORBIS_OK then (normalize_rc, None, s)
          else ActivateSig1 ctx_id (the npid) (handle (the npid)) out_conn_id s)"

record AccountPlatformPair =
  ap_account_id :: u64
  ap_platform_type :: u32

text \<open>The connection of the account-based call when no matching2 member has the account.\<close>

definition activate_account :: "s32 \<Rightarrow> SigState \<Rightarrow> s32 \<times> s32 option \<times> SigState" where
  "activate_account ctx_id s =
     (let (ok, s1) = ConsumeActivationBudgetGatedLocked ctx_id s
      in if \<not> ok then (ORBIS_NP_SIGNALING_ERROR_EXCEED_RATE_LIMIT, None, s1)
         else
           let (cid, s2) = AllocateConnectionIdLocked s1
           in if cid < 0 then (ORBIS_NP_SIGNALING_ERROR_OUT_OF_MEMORY, None, s2)
              else let ci = zero_connection\<lparr>ci_conn_id := cid, ci_ctx_id := ctx_id,
                              ci_status := ORBIS_NP_SIGNALING_CONN_STATUS_PENDING\<rparr>
                   in (ORBIS_OK, Some cid, s2\<lparr>connections := AList.update cid ci (connections s2)\<rparr>))"

text \<open>The member a well-formed account address names, in the caches of the matching2 contexts.\<close>

definition account_member :: "AccountPlatformPair option \<Rightarrow> bool \<Rightarrow> SigState \<Rightarrow> OrbisNpId option" where
  "account_member peer_addr out_conn_id s =
     (case peer_addr of
        None \<Rightarrow> None
      | Some p \<Rightarrow> if ap_account_id p \<noteq> 0 \<and> ap_platform_type p \<noteq> 0 \<and> out_conn_id
                  then FindMatching2MemberNpId (ap_account_id p) s else None)"

definition sceNpSignalingActivateConnectionA ::
  "s32 \<Rightarrow> AccountPlatformPair option \<Rightarrow> bool \<Rightarrow> SigState \<Rightarrow> s32 \<times> s32 option \<times> SigState" where
  "sceNpSignalingActivateConnectionA ctx_id peer_addr out_conn_id s =
     (case account_member peer_addr out_conn_id s of
        Some peer_npid \<Rightarrow>
          (let (rc, out, s1) = ActivateSig1 ctx_id peer_npid (handle peer_npid) out_conn_id s
           in (if rc = ORBIS_NP_SIGNALING_ERROR_OWN_NP_ID
               then ORBIS_NP_SIGNALING_ERROR_OWN_PEER_ADDRESS else rc, out, s1))
      | None \<Rightarrow>
          if \<not> initialized s then (ORBIS_NP_SIGNALING_ERROR_NOT_INITIALIZED, None, s)
          else case peer_addr of
            None \<Rightarrow> (ORBIS_NP_SIGNALING_ERROR_INVALID_ARGUMENT, None, s)
          | Some p \<Rightarrow>
              if ap_account_id p = 0 \<or> \<not> out_conn_id \<or> ap_platform_type p = 0
              then (ORBIS_NP_SIGNALING_ERROR_INVALID_ARGUMENT, None, s)
              else case map_of (contexts s) ctx_id of
                None \<Rightarrow> (ORBIS_NP_SIGNALING_ERROR_CTX_NOT_FOUND, None, s)
              | Some ctx \<Rightarrow>
                  if \<not> cx_active ctx then (ORBIS_NP_SIGNALING_ERROR_CTX_NOT_FOUND, None, s)
                  else if cx_flags ctx AND 4 \<noteq> 0 \<and> cx_account_id ctx = ap_account_id p \<and>
                          cx_platform_type ctx = ap_platform_type p
                  then (ORBIS_NP_SIGNALING_ERROR_OWN_PEER_ADDRESS, None, s)
                  else activate_account ctx_id s)"

text \<open>The checks the calls on one connection of a context start with; 0 when they pass.\<close>

definition conn_guard :: "s32 \<Rightarrow> s32 \<Rightarrow> SigState \<Rightarrow> s32" where
  "conn_guard ctx_id conn_id s =
     (if \<not> initialized s then ORBIS_NP_SIGNALING_ERROR_NOT_INITIALIZED
      else if \<not> IsContextValidLocked ctx_id s then ORBIS_NP_SIGNALING_ERROR_CTX_NOT_FOUND
      else case map_of (connections s) conn_id of
        None \<Rightarrow> ORBIS_NP_SIGNALING_ERROR_CONN_NOT_FOUND
      | Some ci \<Rightarrow> if ci_ctx_id ci \<noteq> ctx_id then ORBIS_NP_SIGNALING_ERROR_CONN_NOT_FOUND
                   else ORBIS_OK)"

definition sceNpSignalingDeactivateConnection :: "s32 \<Rightarrow> s32 \<Rightarrow> SigState \<Rightarrow> s32 \<times> SigState" where
  "sceNpSignalingDeactivateConnection ctx_id conn_id s =
     (let rc = conn_guard ctx_id conn_id s
      in if rc \<noteq> ORBIS_OK then (rc, s) else (ORBIS_OK, DeactivateSig1 conn_id s))"

definition sceNpSignalingTerminateConnection :: "s32 \<Rightarrow> s32 \<Rightarrow> SigState \<Rightarrow> s32 \<times> SigState" where
  "sceNpSignalingTerminateConnection ctx_id conn_id s =
     (let rc = conn_guard ctx_id conn_id s
      in if rc \<noteq> ORBIS_OK then (rc, s)
         else (ORBIS_OK, RemoveConnectionLocked conn_id (TerminateSig1 conn_id s)))"

text \<open>The code, the status written, and the address and port written.\<close>

definition sceNpSignalingGetConnectionStatus ::
  "s32 \<Rightarrow> s32 \<Rightarrow> bool \<Rightarrow> bool \<Rightarrow> bool \<Rightarrow> SigState \<Rightarrow> s32 \<times> s32 option \<times> u32 option \<times> u16 option" where
  "sceNpSignalingGetConnectionStatus ctx_id conn_id out_status out_peer_addr out_peer_port s =
     (if \<not> initialized s then (ORBIS_NP_SIGNALING_ERROR_NOT_INITIALIZED, None, None, None)
      else if \<not> out_status then (ORBIS_NP_SIGNALING_ERROR_INVALID_ARGUMENT, None, None, None)
      else if \<not> IsContextValidLocked ctx_id s then (ORBIS_NP_SIGNALING_ERROR_CTX_NOT_FOUND, None, None, None)
      else
        let inactive = (ORBIS_OK, Some ORBIS_NP_SIGNALING_CONN_STATUS_INACTIVE, None, None)
        in case map_of (connections s) conn_id of
          None \<Rightarrow> inactive
        | Some ci \<Rightarrow>
            if ci_ctx_id ci \<noteq> ctx_id then inactive
            else
              let transport = map_of (peer_transports s) (ci_transport_id ci);
                  state = ConnectionStateFromStatus (ci_status ci)
              in if state = 10
                 then (ORBIS_OK, Some ORBIS_NP_SIGNALING_CONN_STATUS_ACTIVE,
                       if out_peer_addr then map_option pt_addr transport else None,
                       if out_peer_port then map_option pt_port transport else None)
                 else if state \<noteq> 0
                 then (ORBIS_OK, Some ORBIS_NP_SIGNALING_CONN_STATUS_PENDING, None, None)
                 else inactive)"

definition sceNpSignalingGetConnectionInfo ::
  "s32 \<Rightarrow> s32 \<Rightarrow> s32 \<Rightarrow> bool \<Rightarrow> SigState \<Rightarrow> s32 \<times> conn_info_value option" where
  "sceNpSignalingGetConnectionInfo ctx_id conn_id info_code out_info s =
     (if \<not> initialized s then (ORBIS_NP_SIGNALING_ERROR_NOT_INITIALIZED, None)
      else if \<not> out_info then (ORBIS_NP_SIGNALING_ERROR_INVALID_ARGUMENT, None)
      else GetConnectionInfoInternal ctx_id conn_id info_code True False s)"

definition sceNpSignalingGetConnectionInfoA ::
  "s32 \<Rightarrow> s32 \<Rightarrow> s32 \<Rightarrow> bool \<Rightarrow> SigState \<Rightarrow> s32 \<times> conn_info_value option" where
  "sceNpSignalingGetConnectionInfoA ctx_id conn_id info_code out_info s =
     (if \<not> initialized s then (ORBIS_NP_SIGNALING_ERROR_NOT_INITIALIZED, None)
      else if \<not> out_info then (ORBIS_NP_SIGNALING_ERROR_INVALID_ARGUMENT, None)
      else GetConnectionInfoInternal ctx_id conn_id info_code False True s)"

definition sceNpSignalingGetConnectionFromNpId ::
  "s32 \<Rightarrow> OrbisNpId option \<Rightarrow> bool \<Rightarrow> SigState \<Rightarrow> s32 \<times> s32 option" where
  "sceNpSignalingGetConnectionFromNpId ctx_id peer_np_id out_conn_id s =
     (if \<not> initialized s then (ORBIS_NP_SIGNALING_ERROR_NOT_INITIALIZED, None)
      else if peer_np_id = None \<or> \<not> out_conn_id then (ORBIS_NP_SIGNALING_ERROR_INVALID_ARGUMENT, None)
      else let (rc, npid) = NormalizeNpId (platform s) peer_np_id
      in if rc \<noteq> ORBIS_OK then (ORBIS_NP_SIGNALING_ERROR_INVALID_ARGUMENT, None)
         else if \<not> IsContextValidLocked ctx_id s then (ORBIS_NP_SIGNALING_ERROR_CTX_NOT_FOUND, None)
         else case map_of (npid_to_conn s) (MakeCtxNpIdKey ctx_id (the npid)) of
           None \<Rightarrow> (ORBIS_NP_SIGNALING_ERROR_CONN_NOT_FOUND, None)
         | Some c \<Rightarrow>
             if map_of (connections s) c = None then (ORBIS_NP_SIGNALING_ERROR_CONN_NOT_FOUND, None)
             else (ORBIS_OK, Some c))"

definition sceNpSignalingGetConnectionFromPeerAddress ::
  "s32 \<Rightarrow> u32 \<Rightarrow> u16 \<Rightarrow> bool \<Rightarrow> SigState \<Rightarrow> s32 \<times> s32 option" where
  "sceNpSignalingGetConnectionFromPeerAddress ctx_id peer_addr peer_port out_conn_id s =
     (if \<not> initialized s then (ORBIS_NP_SIGNALING_ERROR_NOT_INITIALIZED, None)
      else if \<not> out_conn_id then (ORBIS_NP_SIGNALING_ERROR_INVALID_ARGUMENT, None)
      else if \<not> IsContextValidLocked ctx_id s then (ORBIS_NP_SIGNALING_ERROR_CTX_NOT_FOUND, None)
      else case find_key (\<lambda>cid ci.
                  (case map_of (peer_transports s) (ci_transport_id ci) of
                     None \<Rightarrow> False
                   | Some tr \<Rightarrow> ci_ctx_id ci = ctx_id \<and> pt_addr tr = peer_addr \<and> pt_port tr = peer_port \<and>
                       ConnectionStateFromStatus (ci_status ci) = 10)) (connections s) of
        Some cid \<Rightarrow> (ORBIS_OK, Some cid)
      | None \<Rightarrow> (ORBIS_NP_SIGNALING_ERROR_CONN_NOT_FOUND, None))"

definition sceNpSignalingGetConnectionFromPeerAddressA ::
  "s32 \<Rightarrow> AccountPlatformPair option \<Rightarrow> bool \<Rightarrow> SigState \<Rightarrow> s32" where
  "sceNpSignalingGetConnectionFromPeerAddressA ctx_id peer_addr out_conn_id s =
     (if \<not> initialized s then ORBIS_NP_SIGNALING_ERROR_NOT_INITIALIZED
      else if peer_addr = None \<or> \<not> out_conn_id then ORBIS_NP_SIGNALING_ERROR_INVALID_ARGUMENT
      else case map_of (contexts s) ctx_id of
        None \<Rightarrow> ORBIS_NP_SIGNALING_ERROR_CTX_NOT_FOUND
      | Some ctx \<Rightarrow>
          if \<not> cx_active ctx then ORBIS_NP_SIGNALING_ERROR_CTX_NOT_FOUND
          else if cx_flags ctx AND 4 = 0 then ORBIS_NP_SIGNALING_ERROR_INVALID_ARGUMENT
          else ORBIS_NP_SIGNALING_ERROR_CONN_NOT_FOUND)"

section \<open>Network information\<close>

record NetInfo =
  nf_size :: u64
  nf_local_addr :: u32
  nf_mapped_addr :: u32
  nf_nat_status :: s32
  nf_pad_14 :: u32

text \<open>
  \<open>ip\<close> is the address text of the network utility, \<open>retrieved\<close> what it holds after it has been
  told to look it up; the external address is the one the STUN echo left.
\<close>

definition sceNpSignalingGetLocalNetInfo ::
  "string \<Rightarrow> string \<Rightarrow> NetInfo option \<Rightarrow> SigState \<Rightarrow> s32 \<times> NetInfo option" where
  "sceNpSignalingGetLocalNetInfo ip retrieved info s =
     (if \<not> initialized s then (ORBIS_NP_SIGNALING_ERROR_NOT_INITIALIZED, info)
      else case info of
        None \<Rightarrow> (ORBIS_NP_SIGNALING_ERROR_INVALID_ARGUMENT, None)
      | Some i \<Rightarrow>
          if nf_size i \<noteq> 24 then (ORBIS_NP_SIGNALING_ERROR_INVALID_ARGUMENT, info)
          else
            let parsed = ParseIpv4Nbo (if ip = [] then retrieved else ip);
                local_addr = (if parsed = 0 then ParseIpv4Nbo ''127.0.0.1'' else parsed);
                (nat_mapped, nat_status) = (case nat_info (platform s) of None \<Rightarrow> (0, 0)
                                            | Some (m, t) \<Rightarrow> (m, sint t));
                mapped = (if nat_mapped = 0
                          then (if external_ip s \<noteq> 0 then external_ip s else local_addr)
                          else nat_mapped)
            in (ORBIS_OK, Some (i\<lparr>nf_local_addr := local_addr, nf_mapped_addr := mapped,
                                  nf_nat_status := nat_status, nf_pad_14 := 0\<rparr>)))"

definition sceNpSignalingGetPeerNetInfo ::
  "s32 \<Rightarrow> OrbisNpId option \<Rightarrow> bool \<Rightarrow> SigState \<Rightarrow> s32 \<times> u32 option \<times> SigState" where
  "sceNpSignalingGetPeerNetInfo ctx_id peer_np_id out_req_id s =
     (if \<not> initialized s then (ORBIS_NP_SIGNALING_ERROR_NOT_INITIALIZED, None, s)
      else if peer_np_id = None \<or> \<not> out_req_id then (ORBIS_NP_SIGNALING_ERROR_INVALID_ARGUMENT, None, s)
      else if fst (NormalizeNpId (platform s) peer_np_id) \<noteq> ORBIS_OK
      then (ORBIS_NP_SIGNALING_ERROR_INVALID_ARGUMENT, None, s)
      else if \<not> IsContextValidLocked ctx_id s then (ORBIS_NP_SIGNALING_ERROR_CTX_NOT_FOUND, None, s)
      else let (req_id, s1) = StagePeerNetInfoResultLocked ctx_id s
           in if req_id = 0 then (ORBIS_NP_MATCHING2_SIGNALING_ERROR_OUT_OF_MEMORY, None, s1)
              else (ORBIS_OK, Some req_id, s1))"

text \<open>\<open>payload\<close> says whether the account payload is non-null; its contents are not read.\<close>

definition sceNpSignalingGetPeerNetInfoA ::
  "s32 \<Rightarrow> bool \<Rightarrow> bool \<Rightarrow> SigState \<Rightarrow> s32 \<times> u32 option \<times> SigState" where
  "sceNpSignalingGetPeerNetInfoA ctx_id payload out_req_id s =
     (if \<not> initialized s then (ORBIS_NP_SIGNALING_ERROR_NOT_INITIALIZED, None, s)
      else if \<not> payload \<or> \<not> out_req_id then (ORBIS_NP_SIGNALING_ERROR_INVALID_ARGUMENT, None, s)
      else case map_of (contexts s) ctx_id of
        None \<Rightarrow> (ORBIS_NP_SIGNALING_ERROR_CTX_NOT_FOUND, None, s)
      | Some ctx \<Rightarrow>
          if \<not> cx_active ctx then (ORBIS_NP_SIGNALING_ERROR_CTX_NOT_FOUND, None, s)
          else if cx_flags ctx AND 4 = 0 then (ORBIS_NP_SIGNALING_ERROR_INVALID_ARGUMENT, None, s)
          else let (req_id, s1) = StagePeerNetInfoResultLocked ctx_id s
               in if req_id = 0 then (ORBIS_NP_MATCHING2_SIGNALING_ERROR_OUT_OF_MEMORY, None, s1)
                  else (ORBIS_OK, Some req_id, s1))"

definition sceNpSignalingCancelPeerNetInfo :: "s32 \<Rightarrow> s32 \<Rightarrow> SigState \<Rightarrow> s32 \<times> SigState" where
  "sceNpSignalingCancelPeerNetInfo ctx_id req_or_conn_id s =
     (if \<not> initialized s then (ORBIS_NP_SIGNALING_ERROR_NOT_INITIALIZED, s)
      else if \<not> IsContextValidLocked ctx_id s then (ORBIS_NP_SIGNALING_ERROR_CTX_NOT_FOUND, s)
      else let (dropped, s1) = DropPeerNetInfoResultLocked ctx_id req_or_conn_id s
           in if \<not> dropped then (ORBIS_NP_SIGNALING_ERROR_REQ_NOT_FOUND, s1) else (ORBIS_OK, s1))"

definition sceNpSignalingGetPeerNetInfoResult ::
  "s32 \<Rightarrow> s32 \<Rightarrow> NetInfo option \<Rightarrow> SigState \<Rightarrow> s32 \<times> NetInfo option \<times> SigState" where
  "sceNpSignalingGetPeerNetInfoResult ctx_id conn_id peer_net_info s =
     (if \<not> initialized s then (ORBIS_NP_SIGNALING_ERROR_NOT_INITIALIZED, peer_net_info, s)
      else case peer_net_info of
        None \<Rightarrow> (ORBIS_NP_SIGNALING_ERROR_INVALID_ARGUMENT, None, s)
      | Some i \<Rightarrow>
          if \<not> IsContextValidLocked ctx_id s
          then (ORBIS_NP_SIGNALING_ERROR_CTX_NOT_FOUND, peer_net_info, s)
          else if nf_size i \<noteq> 24 then (ORBIS_NP_SIGNALING_ERROR_INVALID_ARGUMENT, peer_net_info, s)
          else case TakePeerNetInfoResultLocked ctx_id conn_id s of
            (None, s1) \<Rightarrow> (ORBIS_NP_SIGNALING_ERROR_RESULT_NOT_FOUND, peer_net_info, s1)
          | (Some r, s1) \<Rightarrow>
              (ORBIS_OK, Some (i\<lparr>nf_local_addr := ni_local_ipv4 r, nf_mapped_addr := ni_external_ipv4 r,
                                 nf_nat_status := sint (ni_nat_route_kind r), nf_pad_14 := 0\<rparr>), s1))"

section \<open>Statistics\<close>

record MemoryInfo =
  mi_current_in_use :: u64
  mi_peak_in_use :: u64
  mi_max_system_size :: u64

definition sceNpSignalingGetMemoryInfo :: "bool \<Rightarrow> SigState \<Rightarrow> s32 \<times> MemoryInfo option" where
  "sceNpSignalingGetMemoryInfo info s =
     (if \<not> initialized s then (ORBIS_NP_SIGNALING_ERROR_NOT_INITIALIZED, None)
      else if \<not> info then (ORBIS_NP_SIGNALING_ERROR_INVALID_ARGUMENT, None)
      else (ORBIS_OK, Some \<lparr>mi_current_in_use = 0, mi_peak_in_use = 0, mi_max_system_size = 0x20000\<rparr>))"

definition sceNpSignalingGetConnectionStatistics ::
  "bool \<Rightarrow> SigState \<Rightarrow> s32 \<times> ConnectionStatistics option \<times> SigState" where
  "sceNpSignalingGetConnectionStatistics stats s =
     (if \<not> initialized s then (ORBIS_NP_SIGNALING_ERROR_NOT_INITIALIZED, None, s)
      else if \<not> stats then (ORBIS_NP_SIGNALING_ERROR_INVALID_ARGUMENT, None, s)
      else let (st, s1) = SnapshotConnectionStatisticsLocked s in (ORBIS_OK, Some st, s1))"

end
