(* ===== verification/SigSystem.thy ===== *)
theory SigSystem
  imports SigInvariant SigApi
begin

text \<open>
  The signaling library as a state machine: one step is one exported call, one received
  datagram, one turn of a thread or one change made by the code around it. The invariant holds
  in every reachable state, whatever the order of the steps.
\<close>

section \<open>The exported calls keep the invariant\<close>

lemma sig_inv_frame:
  assumes "sig_inv s" "contexts s' = contexts s" "connections s' = connections s"
    "peer_transports s' = peer_transports s" "npid_to_conn s' = npid_to_conn s"
    "last_assigned_context_id s' = last_assigned_context_id s"
    "connection_id_seed s' = connection_id_seed s" "transport_id_seed s' = transport_id_seed s"
  shows "sig_inv s'"
  using sig_inv_core [OF coreI [OF assms(2-8)]] assms(1) by blast

lemma sig_inv_put_context:
  assumes "sig_inv s" "1 \<le> cid" "cid \<le> 8"
  shows "sig_inv (s\<lparr>contexts := AList.update cid ctx (contexts s)\<rparr>)"
proof -
  have "set (keys (AList.update cid ctx (contexts s))) = insert cid (set (keys (contexts s)))"
    by (simp only: set_map dom_map_of_conv_image_fst [symmetric]) simp
  with assms show ?thesis
    by (auto simp: sig_inv_def sig_invD_def state_preds simp del: set_map)
qed

lemma sig_inv_last_context:
  assumes "sig_inv s" "1 \<le> cid" "cid \<le> 8"
  shows "sig_inv (s\<lparr>last_assigned_context_id := word_of_int cid\<rparr>)"
proof -
  have "uint (word_of_int cid :: u32) = cid"
    using assms(2,3) by (simp add: uint_word_of_int)
  with assms show ?thesis by (simp add: sig_inv_def sig_invD_def state_preds)
qed

lemma sig_inv_create_context:
  assumes "sig_inv s"
  shows "sig_inv (snd (snd (create_context cb arg npid fl acc s)))"
proof -
  obtain cid s1 where al: "AllocateContextIdLocked s = (cid, s1)" by force
  have ok: "context_seed_ok s" using assms by (simp add: sig_inv_def sig_invD_def ctxs_ok_def)
  note c = AllocateContextId_cases [OF ok al]
  have i1: "sig_inv s1"
    using c assms sig_inv_last_context [OF assms, of cid] by auto
  have i2: "sig_inv (snd (NowUs s1))" using i1 by (simp add: sig_inv_def)
  show ?thesis
  proof (cases "cid < 0")
    case True
    with i1 al show ?thesis by (simp add: create_context_def)
  next
    case False
    with c have "1 \<le> cid" "cid \<le> 8" by auto
    from sig_inv_put_context [OF i2 this] al False show ?thesis
      by (simp add: create_context_def Let_def split_beta sig_inv_core [OF core_AddContextRef])
  qed
qed

lemma sig_inv_CreateContext:
  "sig_inv s \<Longrightarrow> sig_inv (snd (snd (sceNpSignalingCreateContext n cb arg out s)))"
  by (auto simp: sceNpSignalingCreateContext_def sig_inv_create_context split: prod.split option.split)

lemma sig_inv_CreateContextA:
  "sig_inv s \<Longrightarrow> sig_inv (snd (snd (sceNpSignalingCreateContextA gn ga u cb arg out s)))"
  by (auto simp: sceNpSignalingCreateContextA_def sig_inv_create_context split: sum.split)

lemma sig_inv_Remove: "sig_inv s \<Longrightarrow> sig_inv (RemoveConnectionLocked cid s)"
  by (simp add: sig_inv_def sig_invD_Remove_keep)

lemma sig_inv_DeleteContext: "sig_inv s \<Longrightarrow> sig_inv (snd (sceNpSignalingDeleteContext cid s))"
proof -
  assume i: "sig_inv s"
  define s1 where "s1 = fold TerminateSig1
      (keys_where (\<lambda>c ci. ci_ctx_id ci = cid \<and> ci_status ci \<noteq> ORBIS_NP_SIGNALING_CONN_STATUS_INACTIVE)
         (connections s)) s"
  define s2 where "s2 = RemoveContextConnectionsLocked cid s1"
  have i1: "sig_inv s1" unfolding s1_def using i by (intro sig_inv_fold sig_inv_TerminateSig1)
  then have "sig_inv s2"
    unfolding s2_def RemoveContextConnectionsLocked_def Let_def by (intro sig_inv_fold sig_inv_Remove)
  have "distinct (keys (connections s1))" using i1 by (simp add: sig_inv_def sig_invD_def cis_ok_def)
  from RemoveContextConnections_connections [OF this, of cid]
  have gone: "ci_ctx_id ci \<noteq> cid" if "map_of (connections s2) c = Some ci" for c ci
    using that by (auto simp: s2_def split: option.splits if_splits simp del: map_of_eq_Some_iff)
  note \<open>sig_inv s2\<close>
  moreover have "set (keys (AList.delete cid (contexts s2))) \<subseteq> set (keys (contexts s2))"
    by (simp only: set_map dom_map_of_conv_image_fst [symmetric]) auto
  moreover have "owners_ok (s2\<lparr>contexts := AList.delete cid (contexts s2)\<rparr>)"
    using \<open>sig_inv s2\<close> gone by (auto simp: sig_inv_def sig_invD_def owners_ok_def simp del: map_of_eq_Some_iff)
  ultimately have "sig_inv (s2\<lparr>contexts := AList.delete cid (contexts s2)\<rparr>)"
    by (auto simp: sig_inv_def sig_invD_def index_ok_def ctxs_ok_def context_seed_ok_def tseed_ok_def
        conn_seed_ok_def simp del: set_map)
  then have "sig_inv (s2\<lparr>peer_netinfo_results := p, contexts := AList.delete cid (contexts s2)\<rparr>)" for p
    by (rule sig_inv_frame) simp_all
  then show ?thesis
    using i unfolding sceNpSignalingDeleteContext_def Let_def s1_def [symmetric] s2_def [symmetric]
    by (simp add: sig_inv_core [OF core_ReleaseContextRef])
qed

lemma sig_inv_context_ids: "sig_inv s \<Longrightarrow> map_of (contexts s) cid = Some ctx \<Longrightarrow> 1 \<le> cid \<and> cid \<le> 8"
  by (force simp: sig_inv_def sig_invD_def ctxs_ok_def)

lemma sig_inv_SetContextOption: "sig_inv s \<Longrightarrow> sig_inv (snd (sceNpSignalingSetContextOption cid oi v s))"
  by (auto simp: sceNpSignalingSetContextOption_def Let_def split: option.split
      intro!: sig_inv_put_context dest: sig_inv_context_ids)

lemma sig_inv_ActivateConnection:
  "sig_inv s \<Longrightarrow> sig_inv (snd (snd (sceNpSignalingActivateConnection cid n out s)))"
  by (auto simp: sceNpSignalingActivateConnection_def sig_inv_ActivateSig1 split: prod.split)

lemma sig_inv_activate_account:
  assumes "sig_inv s" "map_of (contexts s) cid = Some ctx"
  shows "sig_inv (snd (snd (activate_account cid s)))"
proof -
  obtain ok s1 where b: "ConsumeActivationBudgetGatedLocked cid s = (ok, s1)" by force
  have i1: "sig_invD {} s1" and dom1: "cid \<in> dom (map_of (contexts s1))"
    using sig_invD_ConsumeBudget [of "{}" s cid] assms b by (simp_all add: sig_inv_def domIff)
  obtain nid s2 where al: "AllocateConnectionIdLocked s1 = (nid, s2)" by force
  note a = sig_invD_Allocate [OF i1 al]
  have "sig_invD {} (s2\<lparr>connections := AList.update nid (zero_connection\<lparr>ci_conn_id := nid, ci_ctx_id := cid,
      ci_status := ORBIS_NP_SIGNALING_CONN_STATUS_PENDING\<rparr>) (connections s2)\<rparr>)" if "\<not> nid < 0"
    using a that sig_inv_context_ids [OF assms] dom1
    by (intro sig_invD_put_connection [where D = "{}"])
      (auto simp: ci_ok_def zero_connection_def StatusFromState_def image_iff intro!: exI [of _ SendingOffer])
  then show ?thesis
    using b al i1 a by (simp add: activate_account_def sig_inv_def)
qed

lemma sig_inv_ActivateConnectionA:
  "sig_inv s \<Longrightarrow> sig_inv (snd (snd (sceNpSignalingActivateConnectionA cid p out s)))"
  by (auto simp: sceNpSignalingActivateConnectionA_def sig_inv_activate_account split_beta Let_def
      split: option.split intro: sig_inv_ActivateSig1)

lemma sig_inv_DeactivateConnection: "sig_inv s \<Longrightarrow> sig_inv (snd (sceNpSignalingDeactivateConnection cid c s))"
  by (simp add: sceNpSignalingDeactivateConnection_def Let_def sig_inv_DeactivateSig1)

lemma sig_inv_TerminateConnection: "sig_inv s \<Longrightarrow> sig_inv (snd (sceNpSignalingTerminateConnection cid c s))"
  by (simp add: sceNpSignalingTerminateConnection_def Let_def sig_inv_TerminateSig1 sig_inv_Remove)

lemma core_Stage [simp]: "core (snd (StagePeerNetInfoResultLocked c s)) = core s"
  by (simp add: StagePeerNetInfoResultLocked_def Let_def core_def split_beta)

lemma core_Take [simp]: "core (snd (TakePeerNetInfoResultLocked c r s)) = core s"
  by (auto simp: TakePeerNetInfoResultLocked_def core_def split: option.split)

lemma core_GetPeerNetInfo [simp]: "core (snd (snd (sceNpSignalingGetPeerNetInfo c n out s))) = core s"
  by (simp add: sceNpSignalingGetPeerNetInfo_def Let_def split_beta)

lemma core_GetPeerNetInfoA [simp]: "core (snd (snd (sceNpSignalingGetPeerNetInfoA c n out s))) = core s"
  by (simp add: sceNpSignalingGetPeerNetInfoA_def Let_def split_beta split: option.split)

lemma core_CancelPeerNetInfo [simp]: "core (snd (sceNpSignalingCancelPeerNetInfo c r s)) = core s"
  by (simp add: sceNpSignalingCancelPeerNetInfo_def DropPeerNetInfoResultLocked_def Let_def split_beta)

lemma core_GetPeerNetInfoResult [simp]: "core (snd (snd (sceNpSignalingGetPeerNetInfoResult c r i s))) = core s"
  using core_Take [of c r s]
  by (auto simp: sceNpSignalingGetPeerNetInfoResult_def split: option.split prod.split simp del: core_Take)

lemma core_GetConnectionStatistics [simp]: "core (snd (snd (sceNpSignalingGetConnectionStatistics o' s))) = core s"
  by (simp add: sceNpSignalingGetConnectionStatistics_def SnapshotConnectionStatisticsLocked_def
      Let_def split_beta core_def)

section \<open>The system and its steps\<close>

text \<open>
  The state of the library's globals and of the signaling state, with what the code around the
  library may do to the parts it shares: the transport hooks, and the matching2 contexts and
  event queue, which the matching2 library writes too.
\<close>

type_synonym Sys = "HelperState \<times> SigState"

inductive sys_step :: "Sys \<Rightarrow> Sys \<Rightarrow> bool" where
  initialize: "sceNpSignalingInitialize kc memory_size h s = (rc, h', s') \<Longrightarrow> sys_step (h, s) (h', s')"
| terminate: "sceNpSignalingTerminate h s = (rc, h', s') \<Longrightarrow> sys_step (h, s) (h', s')"
| create_context: "sys_step (h, s) (h, snd (snd (sceNpSignalingCreateContext np_id cb arg out s)))"
| create_context_a: "sys_step (h, s) (h, snd (snd (sceNpSignalingCreateContextA gn ga user cb arg out s)))"
| delete_context: "sys_step (h, s) (h, snd (sceNpSignalingDeleteContext ctx_id s))"
| set_option: "sys_step (h, s) (h, snd (sceNpSignalingSetContextOption ctx_id oid v s))"
| activate: "sys_step (h, s) (h, snd (snd (sceNpSignalingActivateConnection ctx_id np_id out s)))"
| activate_a: "sys_step (h, s) (h, snd (snd (sceNpSignalingActivateConnectionA ctx_id peer out s)))"
| deactivate: "sys_step (h, s) (h, snd (sceNpSignalingDeactivateConnection ctx_id conn_id s))"
| terminate_conn: "sys_step (h, s) (h, snd (sceNpSignalingTerminateConnection ctx_id conn_id s))"
| peer_net_info: "sys_step (h, s) (h, snd (snd (sceNpSignalingGetPeerNetInfo ctx_id np_id out s)))"
| peer_net_info_a: "sys_step (h, s) (h, snd (snd (sceNpSignalingGetPeerNetInfoA ctx_id payload out s)))"
| cancel_net_info: "sys_step (h, s) (h, snd (sceNpSignalingCancelPeerNetInfo ctx_id req s))"
| net_info_result: "sys_step (h, s) (h, snd (snd (sceNpSignalingGetPeerNetInfoResult ctx_id req info s)))"
| statistics: "sys_step (h, s) (h, snd (snd (sceNpSignalingGetConnectionStatistics out s)))"
| datagram: "sys_step (h, s) (h, ProcessSignalingPacket buf from_addr from_port s)"
| runtime: "sys_step (h, s) (h, snd (runtime_turn control signaling (last_publish, s)))"
| activations: "sys_step (h, s) (h, activation_turn s)"
| dispatch: "sys_step (h, s) (h, dispatch_round s)"
| start_matching2: "sys_step (h, s) (h, StartMatching2 xid s)"
| stop_matching2: "sys_step (h, s) (h, StopMatching2 xid e s)"
| stop_room: "sys_step (h, s) (h, StopMatching2Room xid rid e s)"
| add_ref: "sys_step (h, s) (h, AddContextRef s)"
| release_ref: "sys_step (h, s) (h, ReleaseContextRef s)"
| environment: "sys_step (h, s) (h, s\<lparr>hooks := hs, m2_contexts := m2, m2_events := ev\<rparr>)"

inductive reachable :: "Platform \<Rightarrow> Sys \<Rightarrow> bool" for pf where
  start: "reachable pf (init_helpers, init_state pf)"
| step: "reachable pf st \<Longrightarrow> sys_step st st' \<Longrightarrow> reachable pf st'"

inductive_cases sys_stepE: "sys_step (h, s) st'"
inductive_simps reachable_simps: "reachable pf st"

section \<open>The invariant of the system\<close>

lemma sig_inv_reset: "sig_inv s \<Longrightarrow> sig_inv (ResetSig1Data s)"
  by (simp add: ResetSig1Data_def sig_inv_def sig_invD_def state_preds cis_ok_def)

lemma sig_inv_initialized [simp]: "sig_inv (s\<lparr>initialized := b\<rparr>) = sig_inv s"
  by (rule sig_inv_core) (simp add: core_def)

lemma sig_inv_dispatch_threads [simp]:
  "sig_inv (StartDispatchThread s) = sig_inv s" "sig_inv (StopDispatchThread s) = sig_inv s"
  "sig_inv (ReleaseContextRef s) = sig_inv s" "sig_inv (AddContextRef s) = sig_inv s"
  by (simp_all add: sig_inv_core [OF core_StartDispatch] sig_inv_core [OF core_StopDispatch]
      sig_inv_core [OF core_ReleaseContextRef] sig_inv_core [OF core_AddContextRef])

lemma sig_inv_Initialize:
  "sig_inv s \<Longrightarrow> sceNpSignalingInitialize kc ms h s = (rc, h', s') \<Longrightarrow> sig_inv s'"
  by (auto simp: sceNpSignalingInitialize_def StartMainRuntime_def ShutdownRuntime_def Let_def
      split: prod.splits if_splits)

lemma sig_inv_Terminate:
  "sig_inv s \<Longrightarrow> sceNpSignalingTerminate h s = (rc, h', s') \<Longrightarrow> sig_inv s'"
proof -
  have iter: "sig_inv t \<Longrightarrow> sig_inv ((ReleaseContextRef ^^ n) t)" for n t by (induction n) auto
  show "sig_inv s \<Longrightarrow> sceNpSignalingTerminate h s = (rc, h', s') \<Longrightarrow> sig_inv s'"
    by (auto simp: sceNpSignalingTerminate_def ShutdownRuntime_def Let_def iter sig_inv_reset
        split: prod.splits if_splits)
qed

lemma core_environment: "core (s\<lparr>hooks := hs, m2_contexts := m2, m2_events := ev\<rparr>) = core s"
  by (simp add: core_def)

lemma sig_inv_core_step: "core s' = core s \<Longrightarrow> sig_inv s \<Longrightarrow> sig_inv s'"
  using sig_inv_core by blast

lemma sig_inv_sys_step: "sys_step (h, s) (h', s') \<Longrightarrow> sig_inv s \<Longrightarrow> sig_inv s'"
  by (erule sys_stepE)
    (auto simp: activation_turn_def
      intro: sig_inv_Initialize sig_inv_Terminate sig_inv_CreateContext sig_inv_CreateContextA
        sig_inv_DeleteContext sig_inv_SetContextOption sig_inv_ActivateConnection
        sig_inv_ActivateConnectionA sig_inv_DeactivateConnection sig_inv_TerminateConnection
        sig_inv_ProcessSignalingPacket sig_inv_runtime_turn sig_inv_StartMatching2 sig_inv_StopMatching2
        sig_inv_StopMatching2Room sig_inv_ProcessPendingActivations
        sig_inv_core_step [OF core_environment] sig_inv_core_step [OF core_dispatch_round]
        sig_inv_core_step [OF core_GetPeerNetInfo] sig_inv_core_step [OF core_GetPeerNetInfoA]
        sig_inv_core_step [OF core_CancelPeerNetInfo] sig_inv_core_step [OF core_GetPeerNetInfoResult]
        sig_inv_core_step [OF core_GetConnectionStatistics])

lemma reachable_inv: "reachable pf st \<Longrightarrow> sig_inv (snd st)"
proof (induction rule: reachable.induct)
  case start
  show ?case by (simp add: sig_inv_init)
next
  case (step st st')
  then show ?case using sig_inv_sys_step [of "fst st" "snd st" "fst st'" "snd st'"] by simp
qed

lemma reachable_sig_inv: "reachable pf (h, s) \<Longrightarrow> sig_inv s"
  using reachable_inv by fastforce

section \<open>An example run\<close>

text \<open>A reachable state for the witnesses: a context, a connection request and its transport.\<close>

definition demo_npid :: "bytes \<Rightarrow> OrbisNpId" where
  "demo_npid name = NpIdFromOnlineId (SetNpOnlineId name)"

definition demo0 :: Sys where
  "demo0 = (let (rc, h, s) = sceNpSignalingInitialize \<lparr>kc_map = \<lambda>sz. (0, 0x1000), kc_socket = 3, kc_ioctl = (0, [])\<rparr>
                               0 init_helpers (init_state example_platform)
            in (h, s\<lparr>hooks := example_hooks, m2_contexts := [], m2_events := []\<rparr>))"

definition demo1 :: Sys where
  "demo1 = (fst demo0, snd (snd (sceNpSignalingCreateContext (Some (demo_npid [65, 66, 67])) 0x4000 0 True (snd demo0))))"

definition demo2 :: Sys where
  "demo2 = (fst demo1, snd (snd (sceNpSignalingActivateConnection 1 (Some (demo_npid [88, 89, 90])) True (snd demo1))))"

lemma demo0_reachable: "reachable example_platform demo0"
proof -
  let ?kc = "\<lparr>kc_map = \<lambda>sz. (0, 0x1000), kc_socket = 3, kc_ioctl = (0, [])\<rparr>"
  obtain rc h s where i: "sceNpSignalingInitialize ?kc 0 init_helpers (init_state example_platform) = (rc, h, s)"
    by (metis prod_cases3)
  have "reachable example_platform (h, s)"
    by (rule reachable.step [OF reachable.start sys_step.initialize [OF i]])
  from reachable.step [OF this sys_step.environment] show ?thesis by (simp add: demo0_def i)
qed

lemma demo1_reachable: "reachable example_platform demo1"
  unfolding demo1_def
  by (rule reachable.step [OF _ sys_step.create_context]) (simp add: demo0_reachable)

lemma demo2_reachable: "reachable example_platform demo2"
  unfolding demo2_def
  by (rule reachable.step [OF _ sys_step.activate]) (simp add: demo1_reachable)

lemma demo0_state: "snd demo0 = (init_state example_platform)\<lparr>initialized := True, dispatch_thread := True,
    hooks := example_hooks\<rparr>"
  by (simp add: demo0_def sceNpSignalingInitialize_def InitSignalingHeap_def init_helpers_def init_state_def
      RegisterRuntimeHooks_def StartMainRuntime_def StartEchoRuntime_def StartDispatchThread_def AlignUp_def Let_def)

definition demo_ctx :: NpSignalingContext where
  "demo_ctx = zero_context\<lparr>cx_callback := 0x4000, cx_active := True, cx_owner_npid := demo_npid [65, 66, 67],
     cx_owner_online_id := handle (demo_npid [65, 66, 67]), cx_flags := 2, cx_compiled_sdk_version := 0x5008001,
     cx_activate_budget_us := 600000000, cx_activate_last_update_us := 1000, cx_bound_port := 3658\<rparr>"

lemma oid_term_demo [simp]: "oid_term (handle (demo_npid n)) = 0"
  by (simp add: demo_npid_def SetNpOnlineId_def Let_def)

lemma demo1_state: "snd demo1 = (snd demo0)\<lparr>contexts := [(1, demo_ctx)], last_assigned_context_id := 1,
    clock_reads := 1, context_refs := 1, runtime_thread := True, activation_thread := True\<rparr>"
  by (simp add: demo1_def demo0_state sceNpSignalingCreateContext_def NormalizeNpId_def IsValidNpId_def
    example_platform_def init_state_def Let_def demo_ctx_def CaptureCompiledSdkVersion_def ConfiguredPort_def
    example_hooks_def create_context_def AllocateContextIdLocked_def alloc_context_loop.simps [of 8] NowUs_def AddContextRef_def
    SigStart_def at_or_def zero_context_def)

lemma demo_names [simp]: "demo_npid [65, 66, 67] \<noteq> demo_npid [88, 89, 90]"
  "OnlineIdToString (handle (demo_npid [88, 89, 90])) = [88, 89, 90]"
  by (simp_all add: demo_npid_def OnlineIdToString_def SetNpOnlineId_def zero_online_id_def zero_np_id_def
      NpIdFromOnlineId_def Let_def)

definition demo_tr :: PeerTransport where
  "demo_tr = zero_transport\<lparr>pt_transport_id := 1, pt_npid := demo_npid [88, 89, 90],
     pt_online_id := handle (demo_npid [88, 89, 90]), pt_local_online_id := handle (demo_npid [65, 66, 67]),
     pt_status := 1, pt_state := SendingOffer, pt_is_initiator := True\<rparr>"

definition demo_conn :: ConnectionInfo where
  "demo_conn = zero_connection\<lparr>ci_conn_id := 18640, ci_ctx_id := 1, ci_transport_id := 1, ci_status := 1,
     ci_npid := demo_npid [88, 89, 90], ci_online_id := handle (demo_npid [88, 89, 90]),
     ci_locally_activated := True\<rparr>"

lemma demo_activate_state:
  "sceNpSignalingActivateConnection 1 (Some (demo_npid [88, 89, 90])) True (snd demo1) =
   (ORBIS_OK, Some 18640, (snd demo1)\<lparr>
    contexts := [(1, demo_ctx\<lparr>cx_activate_budget_us := 594000000, cx_activate_last_update_us := 2000\<rparr>)],
    connections := [(18640, demo_conn)], peer_transports := [(1, demo_tr)],
    npid_to_conn := [((1, demo_npid [88, 89, 90]), 18640)],
    pending_activations := [\<lparr>pa_conn_id = 18640, pa_peer_online_id = [88, 89, 90], pa_start_handshake = True\<rparr>],
    clock_reads := 2, random_reads := 1, connection_id_seed := 18641, transport_id_seed := 2\<rparr>)"
  by (simp add: demo1_state demo0_state sceNpSignalingActivateConnection_def NormalizeNpId_def
    IsValidNpId_def example_platform_def init_state_def Let_def demo_ctx_def ActivateSig1_def
    ConsumeActivationBudgetGatedLocked_def ConsumeActivationBudgetLocked_def consume_budget_def NowUs_def
    activate_granted_def activate_lookup_def EnsureTransportLocked_def FindTransportByOnlineIdLocked_def
    CreateTransportLocked_def AllocateTransportIdLocked_def alloc_id_loop.simps [of 65536] next_seed_def
    activate_new_def AllocateConnectionIdLocked_def seed_of_random_def the_transport_def at_or_def
    SyncSig1StatusLocked_def MakeCtxNpIdKey_def QueueActivationLocked_def demo_tr_def demo_conn_def
    zero_transport_def zero_connection_def zero_context_def)


lemma demo2_state: "snd demo2 = (snd demo1)\<lparr>
    contexts := [(1, demo_ctx\<lparr>cx_activate_budget_us := 594000000, cx_activate_last_update_us := 2000\<rparr>)],
    connections := [(18640, demo_conn)], peer_transports := [(1, demo_tr)],
    npid_to_conn := [((1, demo_npid [88, 89, 90]), 18640)],
    pending_activations := [\<lparr>pa_conn_id = 18640, pa_peer_online_id = [88, 89, 90], pa_start_handshake = True\<rparr>],
    clock_reads := 2, random_reads := 1, connection_id_seed := 18641, transport_id_seed := 2\<rparr>"
  by (simp add: demo2_def demo_activate_state)

lemma demo_activate:
  "sceNpSignalingActivateConnection 1 (Some (demo_npid [88, 89, 90])) True (snd demo1) =
     (ORBIS_OK, Some 18640, snd demo2)"
  by (simp add: demo2_def demo_activate_state)

lemmas demo_states = demo2_state demo1_state demo0_state

section \<open>Properties of every reachable state\<close>

text \<open>
  Claim C3. In every reachable state each transport has the id it is stored under, between 1 and
  0x7fff, the status that its state stands for, and neither of the two states WaitOffer and
  WaitAccept; an established one has fired its transport's established event.
\<close>

theorem transport_table_inv:
  assumes "reachable pf (h, s)" and "map_of (peer_transports s) tid = Some tr"
  shows "pt_transport_id tr = tid \<and> 1 \<le> tid \<and> tid \<le> 0x7fff \<and>
    pt_status tr = StatusFromState (pt_state tr) \<and> pt_state tr \<notin> {WaitOffer, WaitAccept} \<and>
    (pt_state tr \<noteq> Established \<or> pt_transport_established_fired tr)"
  using trs_okD [OF sig_invD_D(1) [OF reachable_sig_inv [OF assms(1), unfolded sig_inv_def]] assms(2)]
  by (auto simp: tr_ok_def)

theorem transport_table_inv_witness:
  "pt_transport_id demo_tr = 1 \<and> pt_status demo_tr = StatusFromState (pt_state demo_tr)"
proof -
  have r: "reachable example_platform (fst demo2, snd demo2)" by (simp add: demo2_reachable)
  have m: "map_of (peer_transports (snd demo2)) 1 = Some demo_tr" by (simp add: demo2_state)
  from transport_table_inv [OF r m] show ?thesis by blast
qed



text \<open>
  The lookup by peer never returns a dangling or foreign connection: in a reachable
  state, a connection id that sceNpSignalingGetConnectionFromNpId returns is one of a live
  connection of that context to that peer.
\<close>

theorem GetConnectionFromNpId_sound:
  assumes "reachable pf (h, s)"
    and "sceNpSignalingGetConnectionFromNpId ctx_id (Some npid) True s = (ORBIS_OK, Some cid)"
  shows "\<exists>ci. map_of (connections s) cid = Some ci \<and> ci_ctx_id ci = ctx_id \<and> ci_npid ci = npid"
proof -
  have i: "sig_invD {} s" using reachable_sig_inv [OF assms(1)] by (simp add: sig_inv_def)
  from assms(2) have "map_of (npid_to_conn s) (MakeCtxNpIdKey ctx_id npid) = Some cid"
    by (auto simp: sceNpSignalingGetConnectionFromNpId_def NormalizeNpId_def Let_def
        split: if_splits option.splits)
  from index_okD [OF sig_invD_D(3) [OF i] this] show ?thesis by (auto simp: MakeCtxNpIdKey_def)
qed

theorem GetConnectionFromNpId_sound_witness:
  "sceNpSignalingGetConnectionFromNpId 1 (Some (demo_npid [88, 89, 90])) True (snd demo2) = (ORBIS_OK, Some 18640) \<and>
   (\<exists>ci. map_of (connections (snd demo2)) 18640 = Some ci \<and> ci_ctx_id ci = 1 \<and> ci_npid ci = demo_npid [88, 89, 90])"
proof -
  have r: "reachable example_platform (fst demo2, snd demo2)" by (simp add: demo2_reachable)
  have g: "sceNpSignalingGetConnectionFromNpId 1 (Some (demo_npid [88, 89, 90])) True (snd demo2) = (ORBIS_OK, Some 18640)"
    by (simp add: demo_states sceNpSignalingGetConnectionFromNpId_def NormalizeNpId_def IsValidNpId_def
        IsContextValidLocked_def MakeCtxNpIdKey_def init_state_def example_platform_def demo_ctx_def Let_def)
  from GetConnectionFromNpId_sound [OF r g] g show ?thesis by blast
qed

end
