(* ===== verification/SigConnProps.thy ===== *)
theory SigConnProps
  imports SigSystem "HOL-Library.Multiset"
begin

text \<open>
  Connections: what activation returns, which callbacks closing and establishing stage and how
  often, and what they leave of the other connections of the transport.
\<close>

section \<open>The effect of establishing\<close>

lemma Establish_eq:
  assumes "map_of (peer_transports s) tid = Some tr" "establish_transport hint tr s = (t2, pkt, s1)"
  shows "connections (EstablishConnection tid hint s) =
      map_vals (\<lambda>cid ci. if ci_transport_id ci = tid then establish_ci t2 ci else ci) (connections s1)"
    "peer_transports (EstablishConnection tid hint s) = AList.update tid t2 (peer_transports s1)"
    "npid_to_conn (EstablishConnection tid hint s) = npid_to_conn s1"
    "contexts (EstablishConnection tid hint s) = contexts s1"
  unfolding EstablishConnection_def GetTransportLocked_def assms(1) option.case assms(2) Let_def prod.case
  by (cases pkt; simp)+

lemma establish_transport_core: "establish_transport hint tr s = (t2, pkt, s1) \<Longrightarrow> core s1 = core s"
  using core_NowUs [of s] by (auto simp: establish_transport_def Let_def split_beta split: if_splits)

lemma establish_ci_fields [simp]:
  "ci_ctx_id (establish_ci tr ci) = ci_ctx_id ci" "ci_npid (establish_ci tr ci) = ci_npid ci"
  "ci_locally_activated (establish_ci tr ci) = ci_locally_activated ci"
  "ci_transport_id (establish_ci tr ci) = ci_transport_id ci"
  by (simp_all add: establish_ci_def Let_def SyncSig1StatusLocked_def)

lemma Establish_keeps_owner:
  assumes "map_of (connections s) cid = Some ci"
  shows "\<exists>ci'. map_of (connections (EstablishConnection tid hint s)) cid = Some ci' \<and>
    ci_ctx_id ci' = ci_ctx_id ci \<and> ci_npid ci' = ci_npid ci \<and>
    ci_locally_activated ci' = ci_locally_activated ci"
proof (cases "map_of (peer_transports s) tid")
  case None
  with assms show ?thesis by (simp add: EstablishConnection_def GetTransportLocked_def)
next
  case (Some tr)
  obtain t2 pkt s1 where e: "establish_transport hint tr s = (t2, pkt, s1)" by (metis prod_cases3)
  have "connections s1 = connections s" using coreD(2) [OF establish_transport_core [OF e]] .
  with assms show ?thesis by (simp add: Establish_eq(1) [OF Some e])
qed

lemma Establish_npid_to_conn [simp]: "npid_to_conn (EstablishConnection tid hint s) = npid_to_conn s"
proof (cases "map_of (peer_transports s) tid")
  case None
  then show ?thesis by (simp add: EstablishConnection_def GetTransportLocked_def)
next
  case (Some tr)
  obtain t2 pkt s1 where e: "establish_transport hint tr s = (t2, pkt, s1)" by (metis prod_cases3)
  show ?thesis using coreD(4) [OF establish_transport_core [OF e]] by (simp add: Establish_eq(3) [OF Some e])
qed

lemma Establish_keys [simp]: "keys (connections (EstablishConnection tid hint s)) = keys (connections s)"
proof (cases "map_of (peer_transports s) tid")
  case None
  then show ?thesis by (simp add: EstablishConnection_def GetTransportLocked_def)
next
  case (Some tr)
  obtain t2 pkt s1 where e: "establish_transport hint tr s = (t2, pkt, s1)" by (metis prod_cases3)
  show ?thesis using coreD(2) [OF establish_transport_core [OF e]] by (simp add: Establish_eq(1) [OF Some e])
qed

section \<open>Activation\<close>

lemma ActivateConnection_OK:
  assumes "sceNpSignalingActivateConnection ctx_id (Some npid) True s = (ORBIS_OK, Some cid, s')"
  obtains ctx s1 est s2 where "map_of (contexts s) ctx_id = Some ctx"
    "ConsumeActivationBudgetGatedLocked ctx_id s = (True, s1)"
    "activate_granted ctx_id npid (handle npid) ctx s1 = (Inr (cid, est), s2)"
    "s' = s2 \<or> (\<exists>tid. s' = EstablishConnection tid False s2)"
  using assms
  by (auto simp: sceNpSignalingActivateConnection_def ActivateSig1_def NormalizeNpId_def Let_def
      split: if_splits option.splits prod.splits sum.splits)

text \<open>
  Claim C5. A successful activation, in a reachable state, returns a connection of that context
  to that peer that is locally activated, and the peer index leads to it.
\<close>

theorem ActivateConnection_spec:
  assumes "reachable pf (h, s)"
    and "sceNpSignalingActivateConnection ctx_id (Some npid) True s = (ORBIS_OK, Some cid, s')"
  shows "(\<exists>ci. map_of (connections s') cid = Some ci \<and> ci_ctx_id ci = ctx_id \<and> ci_npid ci = npid \<and>
      ci_locally_activated ci) \<and>
    map_of (npid_to_conn s') (MakeCtxNpIdKey ctx_id npid) = Some cid"
proof -
  from assms(2) obtain ctx s1 est s2 where a: "map_of (contexts s) ctx_id = Some ctx"
    "ConsumeActivationBudgetGatedLocked ctx_id s = (True, s1)"
    "activate_granted ctx_id npid (handle npid) ctx s1 = (Inr (cid, est), s2)"
    "s' = s2 \<or> (\<exists>tid. s' = EstablishConnection tid False s2)" by (rule ActivateConnection_OK)
  have i1: "sig_inv s1" "ctx_id \<in> dom (map_of (contexts s1))"
    using sig_invD_ConsumeBudget [of "{}" s ctx_id] reachable_sig_inv [OF assms(1)] a(1,2)
    by (simp_all add: sig_inv_def domIff)
  from activate_granted_ok [OF i1 a(3)] obtain ci where ci: "map_of (connections s2) cid = Some ci"
    "ci_ctx_id ci = ctx_id" "ci_npid ci = npid" "ci_locally_activated ci"
    "map_of (npid_to_conn s2) (MakeCtxNpIdKey ctx_id npid) = Some cid" by auto
  from a(4) ci Establish_keeps_owner [OF ci(1)] show ?thesis by fastforce
qed

theorem ActivateConnection_spec_witness:
  "\<exists>cid s'. sceNpSignalingActivateConnection 1 (Some (demo_npid [88, 89, 90])) True (snd demo1) =
      (ORBIS_OK, Some cid, s') \<and> map_of (npid_to_conn s') (MakeCtxNpIdKey 1 (demo_npid [88, 89, 90])) = Some cid"
proof -
  have r: "reachable example_platform (fst demo1, snd demo1)" by (simp add: demo1_reachable)
  have c: "sceNpSignalingActivateConnection 1 (Some (demo_npid [88, 89, 90])) True (snd demo1) =
      (ORBIS_OK, Some 18640, snd demo2)"
    by (simp add: demo_activate)
  from ActivateConnection_spec [OF r c] c show ?thesis by blast
qed

lemma set_keys_modify: "k \<in> set (keys m) \<Longrightarrow> set (keys (modify_at d k f m)) = set (keys m)"
  by (simp only: modify_at_def set_map dom_map_of_conv_image_fst [symmetric]) auto

lemma activate_reuse_keys:
  "cid \<in> set (keys (connections s)) \<Longrightarrow>
     set (keys (connections (activate_reuse ctx n oid tid cid s))) = set (keys (connections s))"
  by (simp add: activate_reuse_def Let_def set_keys_modify del: set_map)

lemma activate_granted_reuse:
  assumes "sig_inv s" "map_of (npid_to_conn s) (MakeCtxNpIdKey ctx_id n) = Some c"
    "map_of (connections s) c = Some ci" "ci_status ci \<noteq> ORBIS_NP_SIGNALING_CONN_STATUS_INACTIVE"
    "activate_granted ctx_id n oid ctx s = (Inr (cid, est), s')"
  shows "cid = c \<and> set (keys (connections s')) = set (keys (connections s))"
proof -
  have l: "activate_lookup ctx_id n s = (c, s)" using assms(2-4) by (simp add: activate_lookup_def)
  have c: "c \<noteq> 0" using cis_okD [OF sig_invD_D(2) [OF assms(1) [unfolded sig_inv_def]] assms(3)] by (simp add: ci_ok_def)
  obtain tid s2 where e: "EnsureTransportLocked (cx_owner_online_id ctx) oid n 0 0 s = (tid, s2)" by force
  have k: "connections s2 = connections s"
    using got_EnsureTransport [OF assms(1) [unfolded sig_inv_def] e] by (simp add: got_transport_def)
  have "c \<in> set (keys (connections s2))" using assms(3) k by (force dest: map_of_SomeD)
  from activate_reuse_keys [OF this] show ?thesis
    using assms(5) l c e k
    by (auto simp: activate_granted_def Let_def QueueActivationLocked_def simp del: set_map split: if_splits)
qed

lemma Consume_frame:
  "connections (snd (ConsumeActivationBudgetGatedLocked c s)) = connections s"
  "npid_to_conn (snd (ConsumeActivationBudgetGatedLocked c s)) = npid_to_conn s"
  by (simp_all add: ConsumeActivationBudgetGatedLocked_def ConsumeActivationBudgetLocked_def split_beta)

text \<open>
  Activating a peer that the context already has a live connection to returns that
  connection and creates none.
\<close>

theorem ActivateConnection_reuses:
  assumes "reachable pf (h, s)"
    and "map_of (npid_to_conn s) (MakeCtxNpIdKey ctx_id npid) = Some c"
    and "map_of (connections s) c = Some ci"
    and "ci_status ci \<noteq> ORBIS_NP_SIGNALING_CONN_STATUS_INACTIVE"
    and "sceNpSignalingActivateConnection ctx_id (Some npid) True s = (ORBIS_OK, Some cid, s')"
  shows "cid = c \<and> set (keys (connections s')) = set (keys (connections s))"
proof -
  from assms(5) obtain ctx s1 est s2 where a: "map_of (contexts s) ctx_id = Some ctx"
    "ConsumeActivationBudgetGatedLocked ctx_id s = (True, s1)"
    "activate_granted ctx_id npid (handle npid) ctx s1 = (Inr (cid, est), s2)"
    "s' = s2 \<or> (\<exists>tid. s' = EstablishConnection tid False s2)" by (rule ActivateConnection_OK)
  have i1: "sig_inv s1"
    using sig_invD_ConsumeBudget [of "{}" s ctx_id] reachable_sig_inv [OF assms(1)] a(1,2)
    by (simp add: sig_inv_def domIff)
  have eq: "npid_to_conn s1 = npid_to_conn s" "connections s1 = connections s"
    using Consume_frame [of ctx_id s] a(2) by simp_all
  have n1: "map_of (npid_to_conn s1) (MakeCtxNpIdKey ctx_id npid) = Some c" "map_of (connections s1) c = Some ci"
    unfolding eq by (fact assms(2), fact assms(3))
  have "cid = c \<and> set (keys (connections s2)) = set (keys (connections s))"
    using activate_granted_reuse [OF i1 n1 assms(4) a(3)] unfolding eq .
  moreover have "keys (connections s') = keys (connections s2)" using a(4) by (elim disjE exE) (simp_all only: Establish_keys)
  ultimately show ?thesis by (simp only: simp_thms)
qed

theorem ActivateConnection_reuses_witness:
  "\<exists>s'. sceNpSignalingActivateConnection 1 (Some (demo_npid [88, 89, 90])) True (snd demo2) =
      (ORBIS_OK, Some 18640, s') \<and> set (keys (connections s')) = {18640}"
proof -
  have r: "reachable example_platform (fst demo2, snd demo2)" by (simp add: demo2_reachable)
  have n: "map_of (npid_to_conn (snd demo2)) (MakeCtxNpIdKey 1 (demo_npid [88, 89, 90])) = Some 18640"
    by (simp add: demo2_state MakeCtxNpIdKey_def)
  have c: "map_of (connections (snd demo2)) 18640 = Some demo_conn" by (simp add: demo2_state)
  have st: "ci_status demo_conn \<noteq> ORBIS_NP_SIGNALING_CONN_STATUS_INACTIVE" by (simp add: demo_conn_def)
  have oi: "OnlineIdEqualsString (pt_online_id demo_tr) [88, 89, 90]"
    by (simp add: demo_tr_def OnlineIdEqualsString_def)
  have "\<exists>cid s'. sceNpSignalingActivateConnection 1 (Some (demo_npid [88, 89, 90])) True (snd demo2) =
      (ORBIS_OK, Some cid, s')"
    by (simp add: demo_states sceNpSignalingActivateConnection_def NormalizeNpId_def
      IsValidNpId_def example_platform_def init_state_def Let_def demo_ctx_def ActivateSig1_def
      ConsumeActivationBudgetGatedLocked_def ConsumeActivationBudgetLocked_def consume_budget_def NowUs_def
      activate_granted_def activate_lookup_def EnsureTransportLocked_def FindTransportByOnlineIdLocked_def
      TransportMatchesOnlineId_def OnlineIdEqualsString_def demo_tr_def demo_conn_def MakeCtxNpIdKey_def
      the_transport_def refresh_transport_def)
  then obtain cid s' where a: "sceNpSignalingActivateConnection 1 (Some (demo_npid [88, 89, 90])) True (snd demo2) =
      (ORBIS_OK, Some cid, s')" by blast
  from ActivateConnection_reuses [OF r n c st a] a show ?thesis by (simp add: demo2_state)
qed

section \<open>Closing\<close>

definition disp :: "SigState \<Rightarrow> QueuedDispatch list \<times> bool \<times> nat \<times> Platform" where
  "disp s = (dispatch_queue s, dispatch_stop s, clock_reads s, platform s)"

lemma dispD:
  assumes "disp s' = disp s"
  shows "dispatch_queue s' = dispatch_queue s" "dispatch_stop s' = dispatch_stop s"
    "clock_reads s' = clock_reads s" "platform s' = platform s"
  using assms by (simp_all add: disp_def)

lemma disp_fold: "(\<And>x s. disp (f x s) = disp s) \<Longrightarrow> disp (fold f xs s) = disp s"
  by (induction xs arbitrary: s) auto

lemma disp_QueueM2Event: "disp (QueueMatching2SignalingEvent ctx r m e v s) = disp s"
  by (simp add: QueueMatching2SignalingEvent_def disp_def)

lemma disp_m2_dead_in_context: "disp (m2_dead_in_context tid e xid ctx s) = disp s"
proof -
  have "disp (s\<lparr>m2_contexts := m\<rparr>) = disp s" for m by (simp add: disp_def)
  then show ?thesis
    unfolding m2_dead_in_context_def Let_def by (subst disp_fold) (simp_all add: disp_QueueM2Event)
qed

lemma disp_QueueM2Dead: "disp (QueueMatching2DeadForTransport tid e s) = disp s"
  unfolding QueueMatching2DeadForTransport_def
  by (rule disp_fold) (simp add: disp_m2_dead_in_context split: option.splits)

lemmas disp_QueueM2Dead_frame [simp] = dispD [OF disp_QueueM2Dead]

lemma mset_dispatch_emplace: "mset (dispatch_emplace d q) = add_mset d (mset q)"
  by (induction d q rule: dispatch_emplace.induct) auto

definition dead_dispatch :: "s64 \<Rightarrow> NpSignalingContext \<Rightarrow> ConnectionInfo \<Rightarrow> s32 \<Rightarrow> QueuedDispatch" where
  "dead_dispatch now ctx ci e = \<lparr>qd_fire_at = now, qd_delay_ms = 0, qd_ctx_id = ci_ctx_id ci,
     qd_conn_id = ci_conn_id ci, qd_event_type = word_of_int ORBIS_NP_SIGNALING_EVENT_DEAD,
     qd_error_code = word_of_int e, qd_callback = cx_callback ctx, qd_callback_arg = cx_callback_arg ctx\<rparr>"

text \<open>The state in which the dead event of a closing connection is staged.\<close>

definition closing_state :: "s32 \<Rightarrow> ConnectionInfo \<Rightarrow> s32 \<Rightarrow> SigState \<Rightarrow> SigState" where
  "closing_state cid ci e2 s =
     (let tid = ci_transport_id ci;
          s1 = (case GetTransportLocked tid s of None \<Rightarrow> s
                | Some tr \<Rightarrow> upd_transport tid (SetTransportStateLocked Inactive) s);
          s2 = s1\<lparr>connections := AList.update cid
                 (ci\<lparr>ci_status := ORBIS_NP_SIGNALING_CONN_STATUS_INACTIVE, ci_dead_fired := True\<rparr>)
                 (connections s1)\<rparr>
      in if tid \<noteq> 0 then QueueMatching2DeadForTransport tid e2 s2 else s2)"

lemma Close_eq:
  assumes "map_of (connections s) cid = Some ci" "ci_status ci \<noteq> ORBIS_NP_SIGNALING_CONN_STATUS_INACTIVE"
    "\<not> ci_dead_fired ci" "ci_ctx_id ci \<noteq> 0"
  shows "CloseConnectionAndDispatchDead cid e1 e2 s = RemoveConnectionLocked cid
     (DispatchConnectionEvent cid ORBIS_NP_SIGNALING_EVENT_DEAD e1 (closing_state cid ci e2 s))"
  using assms by (simp add: CloseConnectionAndDispatchDead_def closing_state_def Let_def)

lemma closing_state_frame:
  "contexts (closing_state cid ci e2 s) = contexts s"
  "dispatch_queue (closing_state cid ci e2 s) = dispatch_queue s"
  "dispatch_stop (closing_state cid ci e2 s) = dispatch_stop s"
  "clock_reads (closing_state cid ci e2 s) = clock_reads s"
  "platform (closing_state cid ci e2 s) = platform s"
  "connections (closing_state cid ci e2 s) = AList.update cid
     (ci\<lparr>ci_status := ORBIS_NP_SIGNALING_CONN_STATUS_INACTIVE, ci_dead_fired := True\<rparr>) (connections s)"
  "peer_transports (closing_state cid ci e2 s) = (case GetTransportLocked (ci_transport_id ci) s of
     None \<Rightarrow> peer_transports s
   | Some tr \<Rightarrow> modify_at zero_transport (ci_transport_id ci) (SetTransportStateLocked Inactive) (peer_transports s))"
  by (simp_all add: closing_state_def Let_def upd_transport_def split: option.split)

lemma Close_removed:
  "map_of (connections s) cid = None \<Longrightarrow> CloseConnectionAndDispatchDead cid e1 e2 s = s"
  by (simp add: CloseConnectionAndDispatchDead_def)

text \<open>
  Claim C6. Closing a live connection of an active context stages its DEAD callback exactly
  once: the queue gains that one entry, the connection is gone, and closing it again changes
  nothing.
\<close>

theorem Close_dispatches_dead_once:
  assumes "reachable pf (h, s)" and "map_of (connections s) cid = Some ci"
    and "ci_status ci \<noteq> ORBIS_NP_SIGNALING_CONN_STATUS_INACTIVE"
    and "map_of (contexts s) (ci_ctx_id ci) = Some ctx" and "cx_active ctx" and "cx_callback ctx \<noteq> 0"
    and "\<not> dispatch_stop s"
  shows "let s' = CloseConnectionAndDispatchDead cid e1 e2 s in
    mset (dispatch_queue s') =
      add_mset (dead_dispatch (clock (platform s) (clock_reads s)) ctx ci e1) (mset (dispatch_queue s)) \<and>
    map_of (connections s') cid = None \<and> CloseConnectionAndDispatchDead cid e3 e4 s' = s'"
proof -
  have i: "sig_invD {} s" using reachable_sig_inv [OF assms(1)] by (simp add: sig_inv_def)
  have ok: "ci_conn_id ci = cid" "\<not> ci_dead_fired ci" "ci_ctx_id ci \<noteq> 0"
    using cis_okD [OF sig_invD_D(2) [OF i] assms(2)] by (auto simp: ci_ok_def)
  define s' where "s' = CloseConnectionAndDispatchDead cid e1 e2 s"
  have e: "s' = RemoveConnectionLocked cid
      (DispatchConnectionEvent cid ORBIS_NP_SIGNALING_EVENT_DEAD e1 (closing_state cid ci e2 s))"
    unfolding s'_def by (rule Close_eq [OF assms(2,3) ok(2,3)])
  have "mset (dispatch_queue s') = add_mset (dead_dispatch (clock (platform s) (clock_reads s)) ctx ci e1)
      (mset (dispatch_queue s))"
    using assms(4-7) ok(1)
    by (simp add: e DispatchConnectionEvent_def closing_state_frame StageBasicCallbackLocked_def NowUs_def
        mset_dispatch_emplace dead_dispatch_def Let_def)
  moreover have r: "map_of (connections s') cid = None" by (simp add: e)
  ultimately show ?thesis
    unfolding s'_def [symmetric] Let_def using Close_removed [OF r] by simp
qed

theorem Close_dispatches_dead_once_witness:
  "map_of (connections (CloseConnectionAndDispatchDead 18640 7 8 (snd demo2))) 18640 = None \<and>
   size (mset (dispatch_queue (CloseConnectionAndDispatchDead 18640 7 8 (snd demo2)))) = 1"
proof -
  have r: "reachable example_platform (fst demo2, snd demo2)" by (simp add: demo2_reachable)
  have c: "map_of (connections (snd demo2)) 18640 = Some demo_conn" by (simp add: demo2_state)
  have st: "ci_status demo_conn \<noteq> ORBIS_NP_SIGNALING_CONN_STATUS_INACTIVE" by (simp add: demo_conn_def)
  let ?ctx = "demo_ctx\<lparr>cx_activate_budget_us := 594000000, cx_activate_last_update_us := 2000\<rparr>"
  have x: "map_of (contexts (snd demo2)) (ci_ctx_id demo_conn) = Some ?ctx" "cx_active ?ctx" "cx_callback ?ctx \<noteq> 0"
    "\<not> dispatch_stop (snd demo2)"
    by (simp_all add: demo_states demo_conn_def demo_ctx_def init_state_def)
  have q: "dispatch_queue (snd demo2) = []" by (simp add: demo_states init_state_def)
  from Close_dispatches_dead_once [OF r c st x, of 7 8 0 0] q show ?thesis by (simp add: Let_def)
qed

text \<open>
  Closing a connection makes the transport it shares inactive, and leaves every other
  connection of that transport in the state it was, an active one active.
\<close>

theorem Close_leaves_siblings:
  assumes "map_of (connections s) cid = Some ci" and "ci_status ci \<noteq> ORBIS_NP_SIGNALING_CONN_STATUS_INACTIVE"
    and "\<not> ci_dead_fired ci" and "ci_ctx_id ci \<noteq> 0"
    and "map_of (peer_transports s) (ci_transport_id ci) = Some tr" and "other \<noteq> cid"
  shows "let s' = CloseConnectionAndDispatchDead cid e1 e2 s in
    map_of (connections s') other = map_of (connections s) other \<and>
    pt_state (the_transport (ci_transport_id ci) s') = Inactive"
  using assms(5,6)
  by (simp add: Close_eq [OF assms(1-4)] closing_state_frame the_transport_def GetTransportLocked_def
      SetTransportStateLocked_def Let_def)

theorem Close_leaves_siblings_witness:
  "let s = (snd demo2)\<lparr>connections := [(18640, demo_conn), (5, demo_conn\<lparr>ci_conn_id := 5, ci_status := 2\<rparr>)]\<rparr>;
       s' = CloseConnectionAndDispatchDead 18640 7 8 s
   in map_option ci_status (map_of (connections s') 5) = Some ORBIS_NP_SIGNALING_CONN_STATUS_ACTIVE \<and>
      pt_state (the_transport 1 s') = Inactive"
proof -
  let ?s = "(snd demo2)\<lparr>connections := [(18640, demo_conn), (5, demo_conn\<lparr>ci_conn_id := 5, ci_status := 2\<rparr>)]\<rparr>"
  have c: "map_of (connections ?s) 18640 = Some demo_conn" by simp
  have f: "ci_status demo_conn \<noteq> ORBIS_NP_SIGNALING_CONN_STATUS_INACTIVE" "\<not> ci_dead_fired demo_conn"
    "ci_ctx_id demo_conn \<noteq> 0" by (simp_all add: demo_conn_def zero_connection_def)
  have t: "map_of (peer_transports ?s) (ci_transport_id demo_conn) = Some demo_tr"
    by (simp add: demo2_state demo_conn_def)
  have tid: "ci_transport_id demo_conn = 1" by (simp add: demo_conn_def)
  from Close_leaves_siblings [OF c f t, of 5 7 8] show ?thesis by (simp add: Let_def tid)
qed

section \<open>Establishing fires once\<close>

lemma establish_ci_idem: "establish_ci tr (establish_ci tr ci) = establish_ci tr ci"
  by (rule ConnectionInfo.equality) (auto simp: establish_ci_def Let_def SyncSig1StatusLocked_def wants_peer_activated_def
      wants_established_def wants_mutual_def)

lemma establish_ci_done:
  "\<not> wants_peer_activated (SyncSig1StatusLocked tr (establish_ci tr ci))"
  "\<not> wants_established (SyncSig1StatusLocked tr (establish_ci tr ci))"
  "\<not> wants_mutual (SyncSig1StatusLocked tr (establish_ci tr ci))"
  by (auto simp: establish_ci_def Let_def SyncSig1StatusLocked_def wants_peer_activated_def
      wants_established_def wants_mutual_def)

lemma keys_where_done:
  assumes "\<And>ci. \<not> W (f ci)" "\<And>ci. ci_transport_id (f ci) = ci_transport_id ci"
  shows "keys_where (\<lambda>cid ci. ci_transport_id ci = tid \<and> W ci)
    (map_vals (\<lambda>cid ci. if ci_transport_id ci = tid then f ci else ci) m) = []"
  using assms by (auto simp: keys_where_def map_vals_def filter_empty_conv split: if_splits)

lemma map_vals_idem: "(\<And>k v. f k (f k v) = f k v) \<Longrightarrow> map_vals f (map_vals f m) = map_vals f m"
  by (auto simp: map_vals_def)

lemma establish_transport_fired: "establish_transport hint tr s = (t2, pkt, s1) \<Longrightarrow> pt_transport_established_fired t2"
  by (auto simp: establish_transport_def Let_def split_beta split: if_splits)

text \<open>
  The events of an established transport fire once: establishing it again changes
  nothing, so no callback is staged and no packet is sent a second time.
\<close>

theorem Establish_idempotent:
  "EstablishConnection tid False (EstablishConnection tid hint s) = EstablishConnection tid hint s"
proof (cases "map_of (peer_transports s) tid")
  case None
  then show ?thesis by (simp add: EstablishConnection_def GetTransportLocked_def)
next
  case (Some tr)
  obtain t2 pkt s1 where e: "establish_transport hint tr s = (t2, pkt, s1)" by (metis prod_cases3)
  define E where "E = EstablishConnection tid hint s"
  let ?f = "\<lambda>cid ci. if ci_transport_id ci = tid then establish_ci t2 ci else ci"
  have c: "connections E = map_vals ?f (connections s1)" unfolding E_def by (rule Establish_eq(1) [OF Some e])
  have t: "map_of (peer_transports E) tid = Some t2" unfolding E_def by (simp add: Establish_eq(2) [OF Some e])
  have e2: "establish_transport False t2 E = (t2, None, E)"
    using establish_transport_fired [OF e] by (simp add: establish_transport_def)
  have none: "keys_where (\<lambda>cid ci. ci_transport_id ci = tid \<and> W (SyncSig1StatusLocked t2 ci)) (connections E) = []"
    if "\<And>ci. \<not> W (SyncSig1StatusLocked t2 (establish_ci t2 ci))" for W
    unfolding c using keys_where_done [of "\<lambda>ci. W (SyncSig1StatusLocked t2 ci)" "establish_ci t2" tid] that by simp
  have "map_vals ?f (connections E) = connections E"
    unfolding c by (rule map_vals_idem) (simp add: establish_ci_idem)
  then have "E\<lparr>peer_transports := AList.update tid t2 (peer_transports E),
      connections := map_vals ?f (connections E)\<rparr> = E"
    using t by (simp add: update_triv)
  then show ?thesis
    unfolding E_def [symmetric]
    by (subst EstablishConnection_def)
      (simp add: GetTransportLocked_def t e2 Let_def none establish_ci_done)
qed

text \<open>
  A transport that has been established and was left by it cannot be established
  again: whatever handshake it repeats, it keeps the state it is in.
\<close>

theorem Establish_only_once:
  assumes "map_of (peer_transports s) tid = Some tr" and "pt_transport_established_fired tr"
  shows "pt_state (the_transport tid (EstablishConnection tid hint s)) = pt_state tr \<and>
    pt_status (the_transport tid (EstablishConnection tid hint s)) = pt_status tr"
proof -
  obtain t2 pkt s1 where e: "establish_transport hint tr s = (t2, pkt, s1)" by (metis prod_cases3)
  have "pt_state t2 = pt_state tr \<and> pt_status t2 = pt_status tr"
    using e assms(2) by (auto simp: establish_transport_def Let_def split: if_splits)
  then show ?thesis by (simp add: the_transport_def Establish_eq(2) [OF assms(1) e])
qed

theorem Establish_only_once_witness:
  "pt_state (the_transport 1 (EstablishConnection 1 True ((snd demo2)\<lparr>peer_transports :=
     [(1, demo_tr\<lparr>pt_state := ConnCheck, pt_transport_established_fired := True\<rparr>)]\<rparr>))) = ConnCheck"
proof -
  let ?tr = "demo_tr\<lparr>pt_state := ConnCheck, pt_transport_established_fired := True\<rparr>"
  have t: "map_of (peer_transports ((snd demo2)\<lparr>peer_transports := [(1, ?tr)]\<rparr>)) 1 = Some ?tr" by simp
  from Establish_only_once [OF t, of True] show ?thesis by simp
qed

end
