(* ===== verification/SigProtocol.thy ===== *)
theory SigProtocol
  imports SigConnProps
begin

text \<open>
  The protocol between two peers: the routing of received datagrams, the echo probe, the
  offer, accept, check, acknowledgement handshake, its resends and its timeout.
\<close>

section \<open>Routing\<close>

text \<open>
  Claim C4. Whatever the library sends, the receiver hands to the handler of its type, with the
  fields it was built from; a STUN ping, which is for the server, is ignored.
\<close>

theorem packet_routing:
  assumes "packet_wf p"
  shows "ProcessSignalingPacket (enc_packet p) from_addr from_port s =
    (case p of PktStunPing _ \<Rightarrow> s
     | PktEchoPing q \<Rightarrow> on_echo_ping from_addr from_port q s
     | PktEchoPong q \<Rightarrow> on_echo_pong q s
     | PktHandshake q \<Rightarrow> HandleHandshakePacket from_addr from_port q s
     | PktControl q \<Rightarrow> HandleControlPacket from_addr from_port q s)"
proof (cases p)
  case (PktStunPing q)
  with assms have "length (enc_packet p) = 21" by (simp add: enc_stun_ping_def)
  then have "length (enc_packet p) \<notin> {6, 0x32, 17, 0x3e}" by simp
  with PktStunPing show ?thesis by (auto simp: ProcessSignalingPacket_def)
qed (use assms in \<open>auto simp: ProcessSignalingPacket_def enc_sizes\<close>)

theorem packet_routing_witness:
  "ProcessSignalingPacket (enc_packet (PktEchoPong \<lparr>pong_conn_id = 1, orig_ts_us = 5\<rparr>)) 9 9 (snd demo2) =
   on_echo_pong \<lparr>pong_conn_id = 1, orig_ts_us = 5\<rparr> (snd demo2)"
  using packet_routing [of "PktEchoPong \<lparr>pong_conn_id = 1, orig_ts_us = 5\<rparr>" 9 9 "snd demo2"] by simp

text \<open>
  A datagram that is neither a STUN echo nor starts with the signaling magic changes
  nothing, and so does a handshake packet of a peer the library has no live transport to.
\<close>

theorem unsolicited_ignored:
  "(if length buf \<noteq> 6 \<and> \<not> HasSignalingMagic buf
    then ProcessSignalingPacket buf from_addr from_port s = s else True) \<and>
   (if FindTransportByOnlineIdLocked (PacketOnlineIdToString (hs_online_id_from pkt)) s = 0
    then HandleHandshakePacket from_addr from_port pkt s = s else True)"
  by (simp add: ProcessSignalingPacket_def HandleHandshakePacket_def)

section \<open>Echo probes\<close>

text \<open>
  The echo probe measures the round trip: the answer to a ping goes back to where the
  ping came from, changes nothing else, and when it arrives at the sender, the time since the
  ping was sent is recorded as a sample of the transport it was sent for.
\<close>

theorem echo_round_trip:
  assumes "signaling_send (hooks sB) = Some f"
    and "1 \<le> tid" and "tid \<le> 0x7fff" and "map_of (peer_transports sA) tid = Some tr"
    and "0 \<le> t0" and "t0 \<le> fst (NowUs sA)" and "fst (NowUs sA) < 2 ^ 63" and "fst (NowUs sA) - t0 < 2 ^ 31"
  shows "\<exists>pong. ProcessSignalingPacket
      (enc_packet (PktEchoPing \<lparr>ping_conn_id = word_of_int tid, send_ts_us = word_of_int t0\<rparr>)) addrA portA sB =
        sB\<lparr>sent := sent sB @ [\<lparr>sn_channel = SignalingSend, sn_packet = PktEchoPong pong,
                               sn_addr = addrA, sn_port = portA\<rparr>]\<rparr> \<and>
    ProcessSignalingPacket (enc_packet (PktEchoPong pong)) addrB portB sA =
      upd_transport tid (record_rtt (fst (NowUs sA) - t0)) (snd (NowUs sA))"
proof -
  let ?ping = "\<lparr>ping_conn_id = word_of_int tid, send_ts_us = word_of_int t0\<rparr> :: SignalingEchoPing"
  let ?pong = "\<lparr>pong_conn_id = word_of_int tid, orig_ts_us = word_of_int t0\<rparr> :: SignalingEchoPong"
  have b: "on_echo_ping addrA portA ?ping sB =
      sB\<lparr>sent := sent sB @ [\<lparr>sn_channel = SignalingSend, sn_packet = PktEchoPong ?pong,
                             sn_addr = addrA, sn_port = portA\<rparr>]\<rparr>"
    using assms(1) by (simp add: on_echo_ping_def SignalingSendTo_def)
  have t: "sint (word_of_int tid :: u32) = tid"
    using assms(2,3) by (intro to_s32_id [unfolded to_s32_def]) simp_all
  have u: "sint (word_of_int t0 :: u64) = t0"
    using assms(5-7) by (intro to_s64_id [unfolded to_s64_def]) simp_all
  have r: "to_s32 (to_s64 (fst (NowUs sA) - t0)) = fst (NowUs sA) - t0"
    using assms(5-8) by (simp add: to_s32_id to_s64_id)
  have a: "on_echo_pong ?pong sA = upd_transport tid (record_rtt (fst (NowUs sA) - t0)) (snd (NowUs sA))"
    using assms(4,6) by (simp add: on_echo_pong_def Let_def split_beta t u r)
  show ?thesis
    using a b packet_routing [of "PktEchoPing ?ping" addrA portA sB]
      packet_routing [of "PktEchoPong ?pong" addrB portB sA] by (intro exI [of _ ?pong]) simp
qed

theorem echo_round_trip_witness:
  "\<exists>pong. ProcessSignalingPacket (enc_packet (PktEchoPong pong)) 3 4 (snd demo2) =
     upd_transport 1 (record_rtt 1000) (snd (NowUs (snd demo2)))"
proof -
  have s: "signaling_send (hooks (snd demo2)) = Some (\<lambda>pkt addr port. 0)"
    by (simp add: demo_states example_hooks_def)
  have m: "map_of (peer_transports (snd demo2)) 1 = Some demo_tr" by (simp add: demo2_state)
  have now: "fst (NowUs (snd demo2)) = 3000"
    by (simp add: demo_states NowUs_def init_state_def example_platform_def)
  have "\<exists>pong. ProcessSignalingPacket
      (enc_packet (PktEchoPing \<lparr>ping_conn_id = word_of_int 1, send_ts_us = word_of_int 2000\<rparr>)) 1 2 (snd demo2) =
        (snd demo2)\<lparr>sent := sent (snd demo2) @ [\<lparr>sn_channel = SignalingSend, sn_packet = PktEchoPong pong,
                               sn_addr = 1, sn_port = 2\<rparr>]\<rparr> \<and>
    ProcessSignalingPacket (enc_packet (PktEchoPong pong)) 3 4 (snd demo2) =
      upd_transport 1 (record_rtt (fst (NowUs (snd demo2)) - 2000)) (snd (NowUs (snd demo2)))"
    by (rule echo_round_trip [OF s]) (use m now in simp_all)
  then show ?thesis by (auto simp: now)
qed

text \<open>
  The samples are a ring of the last six: whatever the ring held and wherever its
  index stood, after six samples it holds exactly those six.
\<close>

theorem rtt_ring_last_six:
  assumes "length (pt_probe_rtt_samples tr) = 6" and "length rs = 6"
  shows "mset (pt_probe_rtt_samples (fold record_rtt rs tr)) = mset rs \<and>
    length (pt_probe_rtt_samples (fold record_rtt rs tr)) = 6"
proof -
  obtain x0 x1 x2 x3 x4 x5 where xs: "pt_probe_rtt_samples tr = [x0, x1, x2, x3, x4, x5]"
    using assms(1) by (auto simp: numeral_eq_Suc length_Suc_conv)
  obtain r0 r1 r2 r3 r4 r5 where rs: "rs = [r0, r1, r2, r3, r4, r5]"
    using assms(2) by (auto simp: numeral_eq_Suc length_Suc_conv)
  let ?i = "pt_probe_sample_write_index tr mod 6 :: u32"
  have "uint ?i \<in> {0, 1, 2, 3, 4, 5}" by (auto simp: uint_mod)
  then have i: "?i \<in> {0, 1, 2, 3, 4, 5}" by (auto simp: word_uint_eq_iff)
  show ?thesis
    using i by (elim insertE emptyE) (simp_all add: rs xs record_rtt_def Let_def)
qed

theorem rtt_ring_last_six_witness:
  "mset (pt_probe_rtt_samples (fold record_rtt [5, 6, 7, 8, 9, 10] zero_transport)) = {#5, 6, 7, 8, 9, 10#}"
  using rtt_ring_last_six [of zero_transport "[5, 6, 7, 8, 9, 10]"] by (simp add: zero_transport_def)

section \<open>The handshake\<close>

lemma find_key_update_same:
  "map_of m k = Some v \<Longrightarrow> P k v' = P k v \<Longrightarrow> find_key P (AList.update k v' m) = find_key P m"
  by (induction m) auto

text \<open>
  A node that can take part: its transport \<open>tid\<close> is the one found for the peer, it has an
  endpoint, and its handshake hook is set.
\<close>

definition node :: "s32 \<Rightarrow> bytes \<Rightarrow> SigState \<Rightarrow> bool" where
  "node tid peer s \<longleftrightarrow> FindTransportByOnlineIdLocked peer s = tid \<and> tid \<noteq> 0 \<and> tid \<in> tids s \<and>
     signaling_send (hooks s) \<noteq> None"

definition endpoint_set :: "PeerTransport \<Rightarrow> bool" where
  "endpoint_set tr \<longleftrightarrow> pt_addr tr \<noteq> 0 \<and> pt_port tr \<noteq> 0"

lemma FindTransport_cong:
  "peer_transports s' = peer_transports s \<Longrightarrow>
     FindTransportByOnlineIdLocked nid s' = FindTransportByOnlineIdLocked nid s"
  by (simp add: FindTransportByOnlineIdLocked_def)

lemma FindTransport_upd:
  assumes "tid \<in> tids s" "TransportMatchesOnlineId (f (the_transport tid s)) nid =
      TransportMatchesOnlineId (the_transport tid s) nid"
  shows "FindTransportByOnlineIdLocked nid (upd_transport tid f s) = FindTransportByOnlineIdLocked nid s"
proof -
  from assms(1) obtain tr where tr: "map_of (peer_transports s) tid = Some tr" by blast
  then have "find_key (\<lambda>k t. TransportMatchesOnlineId t nid) (AList.update tid (f tr) (peer_transports s)) =
      find_key (\<lambda>k t. TransportMatchesOnlineId t nid) (peer_transports s)"
    using assms(2) by (intro find_key_update_same) (simp_all add: the_transport_def)
  then show ?thesis by (simp add: FindTransportByOnlineIdLocked_def modify_at_def tr)
qed

lemma node_found:
  assumes "node tid peer s" "trs_ok (peer_transports s)"
  shows "pt_state (the_transport tid s) \<noteq> Inactive"
proof -
  have "FindTransportByOnlineIdLocked peer s = tid" "tid \<noteq> 0" using assms(1) by (simp_all add: node_def)
  from FindTransport_found [OF assms(2) this] show ?thesis by (auto simp: the_transport_def)
qed

lemma node_upd:
  assumes "node tid peer s" "pt_state (the_transport tid s) \<noteq> Inactive"
    "pt_state (f (the_transport tid s)) \<noteq> Inactive"
    "pt_online_id (f (the_transport tid s)) = pt_online_id (the_transport tid s)"
  shows "node tid peer (upd_transport tid f s)"
  using assms FindTransport_upd [of tid s f peer]
  by (auto simp: node_def TransportMatchesOnlineId_def)

lemma node_frame:
  "node tid peer s \<Longrightarrow> peer_transports s' = peer_transports s \<Longrightarrow> hooks s' = hooks s \<Longrightarrow> node tid peer s'"
  using FindTransport_cong [of s' s peer] by (simp add: node_def)

lemma the_transport_frame: "peer_transports s' = peer_transports s \<Longrightarrow> the_transport tid s' = the_transport tid s"
  by (simp add: the_transport_def)

lemma NowUs_frame2 [simp]: "hooks (snd (NowUs s)) = hooks s" "sent (snd (NowUs s)) = sent s"
  "external_ip (snd (NowUs s)) = external_ip s" "dispatch_queue (snd (NowUs s)) = dispatch_queue s"
  by (simp_all add: NowUs_def)

lemma Sync_hooks [simp]: "hooks (SyncSig1ConnectionsForTransportLocked tid s) = hooks s"
  by (simp add: SyncSig1ConnectionsForTransportLocked_def split: option.split)

lemma node_NowUs: "node tid peer s \<Longrightarrow> node tid peer (snd (NowUs s))"
  by (rule node_frame) simp_all

lemma node_Sync: "node tid peer s \<Longrightarrow> node tid peer (SyncSig1ConnectionsForTransportLocked t s)"
  by (rule node_frame) simp_all

lemma the_transport_simps [simp]:
  "the_transport tid (snd (NowUs s)) = the_transport tid s"
  "the_transport tid (SyncSig1ConnectionsForTransportLocked t s) = the_transport tid s"
  by (simp_all add: the_transport_def)

text \<open>What sending a handshake packet does for a node with an endpoint.\<close>

lemma Send_effect:
  assumes "node tid peer s" "endpoint_set (the_transport tid s)" "pt_state (the_transport tid s) \<noteq> Inactive"
  shows "node tid peer (SendHandshakeLocked tid pkt s) \<and>
    the_transport tid (SendHandshakeLocked tid pkt s) =
      (the_transport tid s)\<lparr>pt_last_handshake_send_us := fst (NowUs s)\<rparr> \<and>
    sent (SendHandshakeLocked tid pkt s) = sent s @ [\<lparr>sn_channel = SignalingSend, sn_packet = PktHandshake pkt,
      sn_addr = pt_addr (the_transport tid s), sn_port = pt_port (the_transport tid s)\<rparr>]"
proof -
  let ?s2 = "upd_transport tid (\<lambda>t. t\<lparr>pt_last_handshake_send_us := fst (NowUs s)\<rparr>) (snd (NowUs s))"
  obtain f where f: "signaling_send (hooks s) = Some f" using assms(1) by (auto simp: node_def)
  have n2: "node tid peer ?s2"
    by (rule node_upd [OF node_NowUs [OF assms(1)]]) (simp_all add: assms(3))
  let ?s3 = "?s2\<lparr>sent := sent ?s2 @ [\<lparr>sn_channel = SignalingSend, sn_packet = PktHandshake pkt,
      sn_addr = pt_addr (the_transport tid s), sn_port = pt_port (the_transport tid s)\<rparr>]\<rparr>"
  have "node tid peer ?s3" by (rule node_frame [OF n2]) simp_all
  then have n3: "node tid peer (SyncSig1ConnectionsForTransportLocked t ?s3)" for t by (rule node_Sync)
  have eq: "SendHandshakeLocked tid pkt s =
      SyncSig1ConnectionsForTransportLocked (pt_transport_id (the_transport tid s)) ?s3"
    using assms(2) f
    by (simp add: SendHandshakeLocked_def Let_def split_beta endpoint_set_def SignalingSendTo_def)
  show ?thesis unfolding eq using n3 the_transport_frame [of ?s3 ?s2 tid] by simp
qed

definition send_state :: "ConnState \<Rightarrow> HandshakeKind \<Rightarrow> bool" where
  "send_state st kind \<longleftrightarrow> (st = SendingOffer \<and> kind = Offer) \<or> (st = ConnCheck \<and> kind = Check)"

text \<open>A handshake packet of a node, as its peer will read it.\<close>

definition from_node :: "s32 \<Rightarrow> HandshakeKind \<Rightarrow> SigState \<Rightarrow> SentPacket \<Rightarrow> bool" where
  "from_node tid kind s p \<longleftrightarrow> (\<exists>h. sn_packet p = PktHandshake h \<and> hs_kind h = handshake_kind_byte kind \<and>
     hs_online_id_from h = oid_data (pt_local_online_id (the_transport tid s)) \<and>
     length (hs_online_id_to h) = 16)"

lemma Start_effect:
  assumes "node tid peer s" "endpoint_set (the_transport tid s)"
    "send_state (pt_state (the_transport tid s)) kind" "length (oid_data (pt_online_id (the_transport tid s))) = 16"
  shows "let s' = StartTransportHandshakeInitiator tid s in node tid peer s' \<and>
    (\<exists>b v. the_transport tid s' = (the_transport tid s)\<lparr>pt_is_initiator := b, pt_last_handshake_send_us := v\<rparr>) \<and>
    from_node tid kind s (last (sent s'))"
proof -
  let ?s1 = "upd_transport tid (\<lambda>t. t\<lparr>pt_is_initiator := True\<rparr>) s"
  have ni: "pt_state (the_transport tid s) \<noteq> Inactive" using assms(3) by (auto simp: send_state_def)
  have n1: "node tid peer ?s1" by (rule node_upd [OF assms(1)]) (simp_all add: ni)
  obtain tr where tr: "map_of (peer_transports s) tid = Some tr" using assms(1) by (auto simp: node_def)
  have the: "the_transport tid s = tr" using tr by (simp add: the_transport_def)
  have step: "initiator_step (pt_state tr) = Some (kind, None)"
    using assms(3) the by (auto simp: send_state_def)
  let ?s2 = "if kind = Check then snd (NowUs ?s1) else ?s1"
  have n2: "node tid peer ?s2" using n1 node_NowUs by simp
  have t2: "the_transport tid ?s2 = tr\<lparr>pt_is_initiator := True\<rparr>" by (simp add: the)
  let ?pkt = "MakeHandshakeLocked (tr\<lparr>pt_is_initiator := True\<rparr>) kind ?s1"
  let ?pkt2 = "if kind = Check then ?pkt\<lparr>hs_nonce := word_of_int (fst (NowUs ?s1))\<rparr> else ?pkt"
  have eq: "StartTransportHandshakeInitiator tid s = SendHandshakeLocked tid ?pkt2 ?s2"
    by (simp add: StartTransportHandshakeInitiator_def GetTransportLocked_def tr step Let_def split_beta the)
  have "endpoint_set (the_transport tid ?s2)" "pt_state (the_transport tid ?s2) \<noteq> Inactive"
    using assms(2) ni unfolding t2 the by (simp_all add: endpoint_set_def)
  from Send_effect [OF n2 this, of ?pkt2] have e: "node tid peer (StartTransportHandshakeInitiator tid s)"
    "the_transport tid (StartTransportHandshakeInitiator tid s) =
       tr\<lparr>pt_is_initiator := True, pt_last_handshake_send_us := fst (NowUs ?s2)\<rparr>"
    "sn_packet (last (sent (StartTransportHandshakeInitiator tid s))) = PktHandshake ?pkt2"
    unfolding eq t2 by simp_all
  have "from_node tid kind s (last (sent (StartTransportHandshakeInitiator tid s)))"
    unfolding from_node_def e(3) using assms(4)
    by (simp add: MakeHandshakeLocked_def the)
  with e show ?thesis unfolding Let_def the by blast
qed

lemma Handle_reply:
  assumes "node tid peer s" "PacketOnlineIdToString (hs_online_id_from h) = peer"
    "handshake_section a q h tid s = (s2, Some r, 0)" "node tid peer s2"
    "endpoint_set (the_transport tid s2)" "pt_state (the_transport tid s2) \<noteq> Inactive"
  shows "node tid peer (HandleHandshakePacket a q h s) \<and>
    (\<exists>v. the_transport tid (HandleHandshakePacket a q h s) =
       (the_transport tid s2)\<lparr>pt_last_handshake_send_us := v\<rparr>) \<and>
    sn_packet (last (sent (HandleHandshakePacket a q h s))) = PktHandshake r"
proof -
  let ?s3 = "SyncSig1ConnectionsForTransportLocked tid s2"
  have n3: "node tid peer ?s3" by (rule node_Sync [OF assms(4)])
  obtain tr where "map_of (peer_transports s2) tid = Some tr" using assms(4) by (auto simp: node_def)
  then have "HandleHandshakePacket a q h s = SendHandshakeLocked tid r ?s3"
    using assms(1-3) by (simp add: HandleHandshakePacket_def node_def GetTransportLocked_def Let_def)
  then show ?thesis using Send_effect [OF n3, of r] assms(5,6) by auto
qed

text \<open>What a transport keeps through the handshake.\<close>

definition same_peer :: "PeerTransport \<Rightarrow> PeerTransport \<Rightarrow> bool" where
  "same_peer tr tr' \<longleftrightarrow> pt_local_online_id tr' = pt_local_online_id tr \<and> pt_online_id tr' = pt_online_id tr \<and>
     pt_transport_established_fired tr' = pt_transport_established_fired tr"

lemma same_peer_refl [simp]: "same_peer tr tr"
  by (simp add: same_peer_def)

lemma same_peer_trans: "same_peer a b \<Longrightarrow> same_peer b c \<Longrightarrow> same_peer a c"
  by (simp add: same_peer_def)

text \<open>The state after a reply, with the packet that went out.\<close>

definition replied :: "s32 \<Rightarrow> bytes \<Rightarrow> SigState \<Rightarrow> ConnState \<Rightarrow> HandshakeKind \<Rightarrow> SigState \<Rightarrow> bool" where
  "replied tid peer s st kind s' \<longleftrightarrow> node tid peer s' \<and> pt_state (the_transport tid s') = st \<and>
     endpoint_set (the_transport tid s') \<and> same_peer (the_transport tid s) (the_transport tid s') \<and>
     from_node tid kind s (last (sent s'))"

text \<open>The first write of the section: the time of reception.\<close>

definition received :: "s32 \<Rightarrow> SigState \<Rightarrow> SigState" where
  "received tid s = upd_transport tid (\<lambda>t. t\<lparr>pt_last_peer_rx_us := fst (NowUs s)\<rparr>) (snd (NowUs s))"

lemma received_node:
  assumes "node tid peer s" "pt_state (the_transport tid s) \<noteq> Inactive"
  shows "node tid peer (received tid s)"
    "the_transport tid (received tid s) = (the_transport tid s)\<lparr>pt_last_peer_rx_us := fst (NowUs s)\<rparr>"
  unfolding received_def by (rule node_upd [OF node_NowUs [OF assms(1)]]) (simp_all add: assms(2))

lemma replied_intro:
  assumes "node tid peer s" "PacketOnlineIdToString (hs_online_id_from h) = peer"
    "handshake_section a q h tid s = (s2, Some r, 0)" "node tid peer s2"
    "endpoint_set (the_transport tid s2)" "pt_state (the_transport tid s2) = st" "st \<noteq> Inactive"
    "same_peer (the_transport tid s) (the_transport tid s2)"
    "hs_kind r = handshake_kind_byte kind"
    "hs_online_id_from r = oid_data (pt_local_online_id (the_transport tid s))" "length (hs_online_id_to r) = 16"
  shows "replied tid peer s st kind (HandleHandshakePacket a q h s)"
proof -
  have "pt_state (the_transport tid s2) \<noteq> Inactive" using assms(6,7) by simp
  from Handle_reply [OF assms(1-5) this] obtain v where
    n: "node tid peer (HandleHandshakePacket a q h s)" and
    t: "the_transport tid (HandleHandshakePacket a q h s) = (the_transport tid s2)\<lparr>pt_last_handshake_send_us := v\<rparr>" and
    p: "sn_packet (last (sent (HandleHandshakePacket a q h s))) = PktHandshake r" by blast
  show ?thesis
    unfolding replied_def t from_node_def using n p assms(5,6,8-11)
    by (simp add: endpoint_set_def same_peer_def)
qed

lemma Offer_effect:
  assumes "node tid peer s" "PacketOnlineIdToString (hs_online_id_from h) = peer"
    "hs_kind h = handshake_kind_byte Offer" "a \<noteq> 0" "q \<noteq> 0"
    "pt_state (the_transport tid s) \<notin> {Established, Inactive}"
    "length (oid_data (pt_online_id (the_transport tid s))) = 16"
  shows "replied tid peer s SendingAccept Accept (HandleHandshakePacket a q h s)"
proof -
  let ?g = "\<lambda>t. let t1 = (handshake_endpoint a q h t)\<lparr>pt_peer_activated := True\<rparr>
            in if pt_state t1 \<noteq> Established then SetTransportStateLocked SendingAccept t1 else t1"
  let ?s2 = "upd_transport tid ?g (received tid s)"
  have ni: "pt_state (the_transport tid s) \<noteq> Inactive" using assms(6) by simp
  note rx = received_node [OF assms(1) ni]
  have n2: "node tid peer ?s2"
    by (rule node_upd [OF rx(1)]) (simp_all add: rx(2) ni handshake_endpoint_def SetTransportStateLocked_def Let_def)
  have t2: "the_transport tid ?s2 = ?g ((the_transport tid s)\<lparr>pt_last_peer_rx_us := fst (NowUs s)\<rparr>)"
    by (simp add: rx(2))
  have sec: "handshake_section a q h tid s = (?s2, Some (MakeHandshakeLocked (the_transport tid ?s2) Accept ?s2), 0)"
    using assms(3) by (simp add: handshake_section_def received_def on_offer_def Let_def split_beta)
  show ?thesis
    by (rule replied_intro [OF assms(1,2) sec n2])
      (use assms(4-7) in \<open>auto simp: rx(2) handshake_endpoint_def SetTransportStateLocked_def endpoint_set_def
        same_peer_def MakeHandshakeLocked_def Let_def\<close>)
qed

lemma Accept_effect:
  assumes "node tid peer s" "PacketOnlineIdToString (hs_online_id_from h) = peer"
    "hs_kind h = handshake_kind_byte Accept" "a \<noteq> 0" "q \<noteq> 0"
    "pt_state (the_transport tid s) \<in> {SendingOffer, SendingAccept}"
    "length (oid_data (pt_online_id (the_transport tid s))) = 16"
  shows "replied tid peer s ConnCheck Check (HandleHandshakePacket a q h s)"
proof -
  let ?g = "\<lambda>t. handshake_endpoint a q h (t\<lparr>pt_peer_activated := True\<rparr>)"
  let ?s1 = "upd_transport tid ?g (received tid s)"
  let ?s2 = "upd_transport tid (SetTransportStateLocked ConnCheck) ?s1"
  have ni: "pt_state (the_transport tid s) \<noteq> Inactive" using assms(6) by auto
  note rx = received_node [OF assms(1) ni]
  have n1: "node tid peer ?s1"
    by (rule node_upd [OF rx(1)]) (simp_all add: rx(2) ni handshake_endpoint_def)
  have t1: "the_transport tid ?s1 = ?g ((the_transport tid s)\<lparr>pt_last_peer_rx_us := fst (NowUs s)\<rparr>)"
    by (simp add: rx(2))
  have n2: "node tid peer ?s2"
    by (rule node_upd [OF n1]) (simp_all add: rx(2) ni handshake_endpoint_def SetTransportStateLocked_def)
  have n3: "node tid peer (snd (NowUs ?s2))" by (rule node_NowUs [OF n2])
  have t3: "the_transport tid (snd (NowUs ?s2)) = SetTransportStateLocked ConnCheck (the_transport tid ?s1)" by simp
  have st: "pt_state (the_transport tid ?s1) \<in> {SendingOffer, WaitAccept, SendingAccept, WaitOffer}"
    using assms(6) by (auto simp: rx(2) handshake_endpoint_def)
  have sec: "handshake_section a q h tid s = (snd (NowUs ?s2),
      Some ((MakeHandshakeLocked (the_transport tid ?s2) Check ?s2)\<lparr>hs_nonce := word_of_int (fst (NowUs ?s2))\<rparr>), 0)"
    using assms(3) st by (simp add: handshake_section_def received_def on_accept_def Let_def split_beta)
  show ?thesis
    by (rule replied_intro [OF assms(1,2) sec n3])
      (use assms(4-7) in \<open>auto simp: t3 rx(2) handshake_endpoint_def SetTransportStateLocked_def endpoint_set_def
        same_peer_def MakeHandshakeLocked_def\<close>)
qed

lemma Check_effect:
  assumes "node tid peer s" "PacketOnlineIdToString (hs_online_id_from h) = peer"
    "hs_kind h = handshake_kind_byte Check" "endpoint_set (the_transport tid s)"
    "pt_state (the_transport tid s) \<in> {SendingAccept, Established}"
    "length (oid_data (pt_online_id (the_transport tid s))) = 16"
  shows "replied tid peer s (if pt_state (the_transport tid s) = SendingAccept then ConnCheck else Established)
    CheckAck (HandleHandshakePacket a q h s)"
proof -
  let ?s1 = "received tid s"
  let ?s2 = "if pt_state (the_transport tid s) = SendingAccept
      then upd_transport tid (SetTransportStateLocked ConnCheck) ?s1 else ?s1"
  have ni: "pt_state (the_transport tid s) \<noteq> Inactive" using assms(5) by auto
  note rx = received_node [OF assms(1) ni]
  have n2: "node tid peer ?s2"
    using rx(1) node_upd [OF rx(1), of "SetTransportStateLocked ConnCheck"] ni
    by (simp add: rx(2) SetTransportStateLocked_def)
  have sec: "handshake_section a q h tid s =
      (?s2, Some ((MakeHandshakeLocked (the_transport tid ?s1) CheckAck ?s1)\<lparr>hs_nonce := hs_nonce h\<rparr>), 0)"
    using assms(3,5) rx(2) by (auto simp: handshake_section_def received_def on_check_def Let_def split_beta)
  show ?thesis
    by (rule replied_intro [OF assms(1,2) sec n2])
      (use assms(4-6) in \<open>auto simp: rx(2) SetTransportStateLocked_def endpoint_set_def
        same_peer_def MakeHandshakeLocked_def\<close>)
qed

text \<open>The acknowledgement establishes the transport.\<close>

lemma fold_hooks: "(\<And>x s. hooks (f x s) = hooks s) \<Longrightarrow> hooks (fold f xs s) = hooks s"
  by (induction xs arbitrary: s) simp_all

lemma StageBasic_hooks [simp]: "hooks (StageBasicCallbackLocked ctx x cid e v s) = hooks s"
  by (simp add: StageBasicCallbackLocked_def Let_def split_beta)

lemma Dispatch_hooks [simp]: "hooks (DispatchConnectionEvent cid e v s) = hooks s"
  by (simp add: DispatchConnectionEvent_def Let_def split: option.splits)

lemma DispatchPeerActivated_hooks [simp]: "hooks (DispatchPeerActivatedEvent cid s) = hooks s"
  by (simp add: DispatchPeerActivatedEvent_def Let_def split_beta fold_hooks split: option.splits)

lemma ControlSendTo_hooks [simp]: "hooks (snd (ControlSendTo p a q s)) = hooks s"
  by (simp add: ControlSendTo_def split: option.splits)

lemma Establish_hooks [simp]: "hooks (EstablishConnection tid hint s) = hooks s"
proof (cases "map_of (peer_transports s) tid")
  case None
  then show ?thesis by (simp add: EstablishConnection_def GetTransportLocked_def)
next
  case (Some tr)
  obtain t2 pkt s1 where e: "establish_transport hint tr s = (t2, pkt, s1)" by (metis prod_cases3)
  then have h: "hooks s1 = hooks s" by (auto simp: establish_transport_def Let_def split_beta split: if_splits)
  show ?thesis
    unfolding EstablishConnection_def GetTransportLocked_def Some option.case e Let_def prod.case
    by (cases pkt) (simp_all add: fold_hooks h)
qed

lemma record_rtt_frame [simp]:
  "pt_state (record_rtt r t) = pt_state t" "pt_online_id (record_rtt r t) = pt_online_id t"
  "pt_local_online_id (record_rtt r t) = pt_local_online_id t" "pt_addr (record_rtt r t) = pt_addr t"
  "pt_port (record_rtt r t) = pt_port t"
  "pt_transport_established_fired (record_rtt r t) = pt_transport_established_fired t"
  by (simp_all add: record_rtt_def Let_def)

definition established :: "s32 \<Rightarrow> bytes \<Rightarrow> SigState \<Rightarrow> SigState \<Rightarrow> bool" where
  "established tid peer s s' \<longleftrightarrow> node tid peer s' \<and> pt_state (the_transport tid s') = Established \<and>
     pt_online_id (the_transport tid s') = pt_online_id (the_transport tid s) \<and>
     pt_local_online_id (the_transport tid s') = pt_local_online_id (the_transport tid s) \<and>
     endpoint_set (the_transport tid s')"

lemma Establish_effect:
  assumes "node tid peer s" "pt_state (the_transport tid s) \<noteq> Inactive"
    "\<not> pt_transport_established_fired (the_transport tid s)" "endpoint_set (the_transport tid s)"
  shows "established tid peer s (EstablishConnection tid True s)"
proof -
  let ?s' = "EstablishConnection tid True s"
  from assms(1) obtain tr where tr: "map_of (peer_transports s) tid = Some tr" by (auto simp: node_def)
  obtain t2 pkt s1 where e: "establish_transport True tr s = (t2, pkt, s1)" by (metis prod_cases3)
  have the: "the_transport tid s = tr" using tr by (simp add: the_transport_def)
  have nf: "\<not> pt_transport_established_fired tr" using assms(3) the by simp
  have t2: "pt_state t2 = Established" "pt_online_id t2 = pt_online_id tr"
    "pt_local_online_id t2 = pt_local_online_id tr" "endpoint_set t2"
    using e nf assms(4) unfolding the
    by (auto simp: establish_transport_def Let_def split_beta SetTransportStateLocked_def endpoint_set_def)
  have m: "peer_transports ?s' = AList.update tid t2 (peer_transports s)"
    using coreD(3) [OF establish_transport_core [OF e]] by (simp add: Establish_eq(2) [OF tr e])
  then have the': "the_transport tid ?s' = t2" by (simp add: the_transport_def)
  have "node tid peer (upd_transport tid (\<lambda>_. t2) s)"
    by (rule node_upd [OF assms(1,2)]) (simp_all add: t2 the)
  then have "node tid peer ?s'" by (rule node_frame) (simp_all add: m modify_at_def tr)
  then show ?thesis by (simp add: established_def the' the t2)
qed

lemma CheckAck_effect:
  assumes "node tid peer s" "PacketOnlineIdToString (hs_online_id_from h) = peer"
    "hs_kind h = handshake_kind_byte CheckAck" "endpoint_set (the_transport tid s)"
    "pt_state (the_transport tid s) \<notin> {Inactive, Established}"
    "\<not> pt_transport_established_fired (the_transport tid s)"
  shows "established tid peer s (HandleHandshakePacket a q h s)"
proof -
  let ?rtt = "to_s64 (fst (NowUs (received tid s)) - sint (hs_nonce h))"
  let ?g = "if ?rtt \<ge> 0 then record_rtt (to_s32 ?rtt) else (\<lambda>t. t)"
  let ?s2 = "if ?rtt \<ge> 0 then upd_transport tid (record_rtt (to_s32 ?rtt)) (snd (NowUs (received tid s)))
      else snd (NowUs (received tid s))"
  have ni: "pt_state (the_transport tid s) \<noteq> Inactive" using assms(5) by simp
  note rx = received_node [OF assms(1) ni]
  note n1 = node_NowUs [OF rx(1)]
  have n2: "node tid peer ?s2"
    using n1 node_upd [OF n1, of "record_rtt (to_s32 ?rtt)"] ni by (simp add: rx(2))
  have keep: "pt_state (the_transport tid ?s2) = pt_state (the_transport tid s)"
    "pt_online_id (the_transport tid ?s2) = pt_online_id (the_transport tid s)"
    "pt_local_online_id (the_transport tid ?s2) = pt_local_online_id (the_transport tid s)"
    "pt_addr (the_transport tid ?s2) = pt_addr (the_transport tid s)"
    "pt_port (the_transport tid ?s2) = pt_port (the_transport tid s)"
    "pt_transport_established_fired (the_transport tid ?s2) = pt_transport_established_fired (the_transport tid s)"
    by (simp_all add: rx(2))
  have sec: "handshake_section a q h tid s = (?s2, None, tid)"
    using assms(3,5) keep(1) by (simp add: handshake_section_def received_def on_check_ack_def Let_def split_beta)
  let ?s3 = "SyncSig1ConnectionsForTransportLocked tid ?s2"
  have eq: "HandleHandshakePacket a q h s = EstablishConnection tid True ?s3"
    using assms(1,2) sec by (simp add: HandleHandshakePacket_def node_def Let_def)
  have "established tid peer ?s3 (EstablishConnection tid True ?s3)"
    by (rule Establish_effect [OF node_Sync [OF n2]])
      (use assms(4-6) keep in \<open>simp_all add: endpoint_set_def\<close>)
  then show ?thesis unfolding eq established_def using keep by simp
qed

text \<open>
  A packet that one node sent, as the network delivers it to the other: the bytes of the last
  packet sent, with the address and port the receiver sees.
\<close>

definition deliver_last :: "SigState \<Rightarrow> u32 \<Rightarrow> u16 \<Rightarrow> SigState \<Rightarrow> SigState" where
  "deliver_last from addr port to = ProcessSignalingPacket (enc_packet (sn_packet (last (sent from)))) addr port to"

text \<open>
  One run of the handshake between the nodes A and B: A (with the transport \<open>ta\<close>) sends its
  offer, four packets go back and forth, then B (with \<open>tb\<close>), which is checking, resends its check
  as \<open>StepPendingConnections\<close> does, and gets its acknowledgement. The endpoint of A as B sees it
  is \<open>addrA\<close>, \<open>portA\<close>, that of B as A sees it \<open>addrB\<close>, \<open>portB\<close>.
\<close>

definition handshake_run ::
  "s32 \<Rightarrow> s32 \<Rightarrow> u32 \<Rightarrow> u16 \<Rightarrow> u32 \<Rightarrow> u16 \<Rightarrow> SigState \<Rightarrow> SigState \<Rightarrow> SigState \<times> SigState" where
  "handshake_run ta tb addrA portA addrB portB sA sB =
     (let a1 = StartTransportHandshakeInitiator ta sA;
          b1 = deliver_last a1 addrA portA sB;
          a2 = deliver_last b1 addrB portB a1;
          b2 = deliver_last a2 addrA portA b1;
          a3 = deliver_last b2 addrB portB a2;
          b3 = StartTransportHandshakeInitiator tb b2;
          a4 = deliver_last b3 addrB portB a3;
          b4 = deliver_last a4 addrA portA b3
      in (a4, b4))"

lemma deliver_from_node:
  assumes "from_node t kind s (last (sent s'))" "length (oid_data (pt_local_online_id (the_transport t s))) = 16"
  obtains h where "deliver_last s' a q r = HandleHandshakePacket a q h r" "hs_kind h = handshake_kind_byte kind"
    "hs_online_id_from h = oid_data (pt_local_online_id (the_transport t s))"
proof -
  from assms(1) obtain h where h: "sn_packet (last (sent s')) = PktHandshake h" "hs_kind h = handshake_kind_byte kind"
    "hs_online_id_from h = oid_data (pt_local_online_id (the_transport t s))" "length (hs_online_id_to h) = 16"
    by (auto simp: from_node_def)
  have "packet_wf (PktHandshake h)" using h(3,4) assms(2) by (simp add: handshake_wf_def)
  then have "deliver_last s' a q r = HandleHandshakePacket a q h r"
    unfolding deliver_last_def h(1)
    by (simp add: ProcessSignalingPacket_def enc_sizes)
  with h that show ?thesis by blast
qed

text \<open>
  A node that knows its peer as \<open>peer\<close> and signs its packets as \<open>me\<close>; what the two nodes of a
  handshake keep of that.
\<close>

definition named :: "s32 \<Rightarrow> bytes \<Rightarrow> SigState \<Rightarrow> bool" where
  "named tid me s \<longleftrightarrow> length (oid_data (pt_online_id (the_transport tid s))) = 16 \<and>
     length (oid_data (pt_local_online_id (the_transport tid s))) = 16 \<and>
     PacketOnlineIdToString (oid_data (pt_local_online_id (the_transport tid s))) = me"

lemma named_same: "same_peer (the_transport tid s) (the_transport tid s') \<Longrightarrow> named tid me s' = named tid me s"
  by (simp add: named_def same_peer_def)

lemma named_established: "established tid peer s s' \<Longrightarrow> named tid me s' = named tid me s"
  by (simp add: named_def established_def)

text \<open>One delivery: what the receiver does is what its handler does with a packet of that kind.\<close>

lemma deliver_step:
  assumes "from_node t kind s (last (sent s'))" "named t other s"
    "\<And>h. PacketOnlineIdToString (hs_online_id_from h) = other \<Longrightarrow> hs_kind h = handshake_kind_byte kind \<Longrightarrow>
      P (HandleHandshakePacket a q h r)"
  shows "P (deliver_last s' a q r)"
proof -
  have "length (oid_data (pt_local_online_id (the_transport t s))) = 16" using assms(2) by (simp add: named_def)
  from deliver_from_node [OF assms(1) this] obtain h where
    "deliver_last s' a q r = HandleHandshakePacket a q h r" "hs_kind h = handshake_kind_byte kind"
    "hs_online_id_from h = oid_data (pt_local_online_id (the_transport t s))" by blast
  with assms(2,3) show ?thesis by (simp add: named_def)
qed

text \<open>The first half: four packets establish A and leave B checking.\<close>

lemma handshake_first_half:
  assumes "node ta nameB sA" "node tb nameA sB" "named ta nameA sA" "named tb nameB sB"
    "endpoint_set (the_transport ta sA)" "pt_state (the_transport ta sA) = SendingOffer"
    "pt_state (the_transport tb sB) \<notin> {Established, Inactive}"
    "\<not> pt_transport_established_fired (the_transport ta sA)"
    "\<not> pt_transport_established_fired (the_transport tb sB)"
    "addrA \<noteq> 0" "portA \<noteq> 0" "addrB \<noteq> 0" "portB \<noteq> 0"
    "a1 = StartTransportHandshakeInitiator ta sA" "b1 = deliver_last a1 addrA portA sB"
    "a2 = deliver_last b1 addrB portB a1" "b2 = deliver_last a2 addrA portA b1"
    "a3 = deliver_last b2 addrB portB a2"
  shows "\<exists>x. replied tb nameA x ConnCheck CheckAck b2 \<and> named tb nameB b2 \<and>
      \<not> pt_transport_established_fired (the_transport tb b2)"
    "\<exists>x. established ta nameB x a3 \<and> named ta nameA a3"
proof -
  have "send_state (pt_state (the_transport ta sA)) Offer" using assms(6) by (simp add: send_state_def)
  from Start_effect [OF assms(1,5) this] assms(3,14) obtain b v where
    a1: "node ta nameB a1" "the_transport ta a1 = (the_transport ta sA)\<lparr>pt_is_initiator := b, pt_last_handshake_send_us := v\<rparr>"
      "from_node ta Offer sA (last (sent a1))"
    by (auto simp: Let_def named_def)
  have A1: "named ta nameA a1" "endpoint_set (the_transport ta a1)" "pt_state (the_transport ta a1) = SendingOffer"
    "\<not> pt_transport_established_fired (the_transport ta a1)"
    using assms(3,5,6,8) by (simp_all add: a1(2) named_def endpoint_set_def)
  have B1: "replied tb nameA sB SendingAccept Accept b1" unfolding assms(15)
    by (rule deliver_step [OF a1(3) assms(3)], rule Offer_effect [OF assms(2)])
      (use assms(4,7,10,11) in \<open>simp_all add: named_def\<close>)
  then have b1: "node tb nameA b1" "from_node tb Accept sB (last (sent b1))" "named tb nameB b1"
    "pt_state (the_transport tb b1) = SendingAccept" "endpoint_set (the_transport tb b1)"
    "same_peer (the_transport tb sB) (the_transport tb b1)"
    using assms(4) named_same [of tb sB b1 nameB] by (simp_all add: replied_def)
  have A2: "replied ta nameB a1 ConnCheck Check a2" unfolding assms(16)
    by (rule deliver_step [OF b1(2) assms(4)], rule Accept_effect [OF a1(1)])
      (use A1 assms(12,13) in \<open>simp_all add: named_def\<close>)
  then have a2: "node ta nameB a2" "from_node ta Check a1 (last (sent a2))" "named ta nameA a2"
    "pt_state (the_transport ta a2) = ConnCheck" "endpoint_set (the_transport ta a2)"
    "\<not> pt_transport_established_fired (the_transport ta a2)"
    using A1(1,4) named_same [of ta a1 a2 nameA] by (simp_all add: replied_def same_peer_def)
  have B2: "replied tb nameA b1 ConnCheck CheckAck b2" unfolding assms(17)
    by (rule deliver_step [OF a2(2) A1(1)], drule Check_effect [OF b1(1), of _ addrA portA])
      (use b1 in \<open>simp_all add: named_def\<close>)
  then have b2: "from_node tb CheckAck b1 (last (sent b2))" "named tb nameB b2"
    "\<not> pt_transport_established_fired (the_transport tb b2)"
    using b1(3,6) assms(9) named_same [of tb b1 b2 nameB] by (simp_all add: replied_def same_peer_def)
  show "\<exists>x. replied tb nameA x ConnCheck CheckAck b2 \<and> named tb nameB b2 \<and>
      \<not> pt_transport_established_fired (the_transport tb b2)" using B2 b2 by blast
  have "established ta nameB a2 a3" unfolding assms(18)
    by (rule deliver_step [OF b2(1) b1(3)], rule CheckAck_effect [OF a2(1)])
      (use a2 in simp_all)
  then show "\<exists>x. established ta nameB x a3 \<and> named ta nameA a3"
    using a2(3) named_established by blast
qed


definition demoA :: SigState where
  "demoA = (snd demo2)\<lparr>peer_transports := [(1, demo_tr\<lparr>pt_addr := 7, pt_port := 8\<rparr>)]\<rparr>"

definition demoB :: SigState where
  "demoB = (snd demo2)\<lparr>peer_transports :=
     [(1, demo_tr\<lparr>pt_online_id := handle (demo_npid [65, 66, 67]),
                  pt_local_online_id := handle (demo_npid [88, 89, 90])\<rparr>)]\<rparr>"

lemma demo_nodes:
  "node 1 [88, 89, 90] demoA" "node 1 [65, 66, 67] demoB"
  "named 1 [65, 66, 67] demoA" "named 1 [88, 89, 90] demoB"
  by (simp_all add: node_def named_def demoA_def demoB_def demo_states init_state_def demo_tr_def example_hooks_def
      FindTransportByOnlineIdLocked_def TransportMatchesOnlineId_def the_transport_def at_or_def demo_npid_def
      OnlineIdEqualsString_def OnlineIdToString_def NpIdFromOnlineId_def SetNpOnlineId_def zero_online_id_def
      PacketOnlineIdToString_def Let_def)


end
