(* ===== verification/SigTimers.thy ===== *)
theory SigTimers
  imports SigProtocol
begin

text \<open>
  Time: the resends and the timeout of a pending transport, the delay of the established event
  of a matching2 peer, the dispatch queue and the staged network information.
\<close>

section \<open>Later states\<close>

definition later :: "SigState \<Rightarrow> SigState \<Rightarrow> bool" where
  "later s s' \<longleftrightarrow> platform s' = platform s \<and> clock_reads s \<le> clock_reads s'"

lemma later_refl [simp]: "later s s"
  by (simp add: later_def)

lemma later_trans: "later a b \<Longrightarrow> later b c \<Longrightarrow> later a c"
  by (simp add: later_def)

lemma later_now: "clock_mono s \<Longrightarrow> later s s' \<Longrightarrow> fst (NowUs s) \<le> fst (NowUs s')"
  by (simp add: clock_mono_def later_def NowUs_def)

lemma later_NowUs [simp]: "later s (snd (NowUs s))"
  by (simp add: later_def NowUs_def)

lemma later_upd [simp]: "later s (upd_transport tid f s') = later s s'"
  by (simp add: later_def)

lemma later_Sync [simp]: "later s (SyncSig1ConnectionsForTransportLocked tid s') = later s s'"
  by (simp add: later_def SyncSig1ConnectionsForTransportLocked_def split: option.split)

lemma later_SignalingSendTo [simp]: "later s (snd (SignalingSendTo p a q s')) = later s s'"
  by (simp add: later_def SignalingSendTo_def split: option.split)

lemma later_Send: "later s (SendHandshakeLocked tid pkt s)"
  unfolding SendHandshakeLocked_def Let_def split_beta by simp

section \<open>Resends\<close>

text \<open>
  What sending a handshake packet does to the transports: an endpoint that is set makes it stamp
  the transport with a later reading of the clock.
\<close>

definition stamped :: "SigState \<Rightarrow> PeerTransport \<Rightarrow> bool" where
  "stamped s tr \<longleftrightarrow> (endpoint_set tr \<longrightarrow> (\<exists>s1. later s s1 \<and> pt_last_handshake_send_us tr = fst (NowUs s1)))"

lemma stamped_later: "later s s' \<Longrightarrow> stamped s' tr \<Longrightarrow> stamped s tr"
  unfolding stamped_def using later_trans by blast

lemma SignalingSendTo_transports [simp]:
  "peer_transports (snd (SignalingSendTo p a q s)) = peer_transports s"
  "the_transport t (snd (SignalingSendTo p a q s)) = the_transport t s"
  by (simp_all add: SignalingSendTo_def the_transport_def split: option.split)

lemma map_of_the_transport: "tid \<in> tids s \<Longrightarrow> map_of (peer_transports s) tid = Some (the_transport tid s)"
  by (auto simp: the_transport_def)

lemma Send_stamps:
  assumes "tid \<in> tids s"
  shows "map_of (peer_transports (SendHandshakeLocked tid pkt s)) k =
      (if k = tid then Some (the_transport tid (SendHandshakeLocked tid pkt s)) else map_of (peer_transports s) k)"
    "stamped s (the_transport tid (SendHandshakeLocked tid pkt s))"
proof -
  let ?s' = "SendHandshakeLocked tid pkt s"
  have "tid \<in> tids ?s'" using assms by (simp add: SendHandshakeLocked_def Let_def split_beta)
  moreover have "map_of (peer_transports ?s') k = map_of (peer_transports s) k" if "k \<noteq> tid"
    using that by (simp add: SendHandshakeLocked_def Let_def split_beta)
  ultimately show "map_of (peer_transports ?s') k =
      (if k = tid then Some (the_transport tid ?s') else map_of (peer_transports s) k)"
    using map_of_the_transport by simp
  show "stamped s (the_transport tid ?s')"
  proof (cases "endpoint_set (the_transport tid s)")
    case True
    then have "pt_last_handshake_send_us (the_transport tid ?s') = fst (NowUs s)"
      by (simp add: SendHandshakeLocked_def Let_def split_beta endpoint_set_def)
    then show ?thesis unfolding stamped_def using later_refl by blast
  next
    case False
    then have "?s' = s" by (auto simp: SendHandshakeLocked_def Let_def endpoint_set_def)
    with False show ?thesis by (simp add: stamped_def)
  qed
qed

lemma Start_stamps:
  assumes "map_of (peer_transports s) tid = Some tr" "pt_state tr \<noteq> Established"
  defines "s' \<equiv> StartTransportHandshakeInitiator tid s"
  shows "map_of (peer_transports s') k = (if k = tid then Some (the_transport tid s') else map_of (peer_transports s) k)"
    "stamped s (the_transport tid s')" "later s s'"
proof -
  obtain kind new where step: "initiator_step (pt_state tr) = Some (kind, new)"
    using assms(2) by (cases "pt_state tr") auto
  define s1 where "s1 = upd_transport tid (\<lambda>t. t\<lparr>pt_is_initiator := True\<rparr>) s"
  define s2 where "s2 = (case new of None \<Rightarrow> s1 | Some st \<Rightarrow> upd_transport tid (SetTransportStateLocked st) s1)"
  have l2: "later s s2" and t2: "tid \<in> tids s2"
    and o2: "k \<noteq> tid \<Longrightarrow> map_of (peer_transports s2) k = map_of (peer_transports s) k" for k
    by (simp_all add: s2_def s1_def split: option.split)
  let ?pkt = "MakeHandshakeLocked (the_transport tid s2) kind s2"
  have eq0: "s' = (if kind = Check then SendHandshakeLocked tid (?pkt\<lparr>hs_nonce := word_of_int (fst (NowUs s2))\<rparr>)
      (snd (NowUs s2)) else SendHandshakeLocked tid ?pkt s2)"
    unfolding s'_def StartTransportHandshakeInitiator_def GetTransportLocked_def assms(1) option.case Let_def step
      prod.case s1_def s2_def split_beta by (simp only: fst_conv snd_conv)
  then obtain s3 pkt where eq: "s' = SendHandshakeLocked tid pkt s3" and s3: "s3 = s2 \<or> s3 = snd (NowUs s2)"
    by (metis (full_types))
  have l3: "later s s3" using s3 l2 later_trans [OF l2 later_NowUs] by auto
  have t3: "tid \<in> tids s3" and o3: "k \<noteq> tid \<Longrightarrow> map_of (peer_transports s3) k = map_of (peer_transports s) k" for k
    using s3 t2 o2 by auto
  show "map_of (peer_transports s') k = (if k = tid then Some (the_transport tid s') else map_of (peer_transports s) k)"
    unfolding eq using Send_stamps(1) [OF t3, of pkt k] o3 by simp
  show "stamped s (the_transport tid s')"
    unfolding eq by (rule stamped_later [OF l3 Send_stamps(2) [OF t3]])
  show "later s s'" unfolding eq by (rule later_trans [OF l3 later_Send])
qed

text \<open>The loop of resends over transports that are pending.\<close>

lemma resend_loop:
  assumes "\<forall>tid \<in> set rs. \<exists>tr. map_of (peer_transports s) tid = Some tr \<and> pt_state tr \<noteq> Established"
    "distinct rs" "map_of (peer_transports (fold StartTransportHandshakeInitiator rs s)) k = Some tr'"
  shows "if k \<in> set rs then stamped s tr' else map_of (peer_transports s) k = Some tr'"
  using assms
proof (induction rs arbitrary: s)
  case Nil
  then show ?case by simp
next
  case (Cons tid rs)
  from Cons.prems(1) obtain tr where tr: "map_of (peer_transports s) tid = Some tr" "pt_state tr \<noteq> Established" by auto
  let ?s1 = "StartTransportHandshakeInitiator tid s"
  note st = Start_stamps [OF tr]
  have "\<forall>t \<in> set rs. \<exists>tr. map_of (peer_transports ?s1) t = Some tr \<and> pt_state tr \<noteq> Established"
    using Cons.prems(1,2) st(1) by auto
  from Cons.IH [OF this] Cons.prems(2,3)
  have "if k \<in> set rs then stamped ?s1 tr' else map_of (peer_transports ?s1) k = Some tr'" by simp
  then show ?case using Cons.prems(2) st stamped_later [OF st(3)] by (auto split: if_splits)
qed


lemma demoA_inv: "sig_inv demoA"
proof -
  have i: "sig_invD {} (snd demo2)"
    using reachable_sig_inv [of example_platform "fst demo2" "snd demo2"] by (simp add: demo2_reachable sig_inv_def)
  have t: "1 \<in> tids (snd demo2)" by (simp add: demo2_state)
  have e: "demoA = upd_transport 1 (\<lambda>t. t\<lparr>pt_addr := 7, pt_port := 8\<rparr>) (snd demo2)"
    by (simp add: demoA_def upd_transport_def demo2_state modify_at_def at_or_def)
  show ?thesis unfolding e sig_inv_def by (rule sig_invD_upd [OF i t]) (simp add: tr_ok_def)
qed

lemma demoA_clock: "clock_mono demoA" "fst (NowUs demoA) = 3000"
  by (simp_all add: clock_mono_def NowUs_def demoA_def demo_states init_state_def example_platform_def)


section \<open>The established event of a matching2 peer\<close>

text \<open>
  The peer entry of a member through a run of snapshots, each with the time the sync reads, and
  whether each sync queues the event.
\<close>

fun sync_run :: "(s64 \<times> Snapshot) list \<Rightarrow> PeerInfo \<Rightarrow> PeerInfo \<times> bool list" where
  "sync_run [] p = (p, [])"
| "sync_run ((now_us, sn) # rest) p =
     (let (p1, fire) = sync_peer now_us sn p; (p2, fires) = sync_run rest p1 in (p2, fire # fires))"

lemma sync_run_append:
  "sync_run (xs @ ys) p =
     (let (p1, fs) = sync_run xs p; (p2, gs) = sync_run ys p1 in (p2, fs @ gs))"
  by (induction xs arbitrary: p) (auto simp: Let_def split_beta)

lemma sync_run_snoc:
  "sync_run (xs @ [(now_us, sn)]) p =
     (let (p1, fires) = sync_run xs p; (p2, fire) = sync_peer now_us sn p1 in (p2, fires @ [fire]))"
  by (simp add: sync_run_append Let_def split_beta)

definition snapshot_active :: "Snapshot \<Rightarrow> bool" where
  "snapshot_active sn \<longleftrightarrow> sp_status sn = ORBIS_NP_SIGNALING_CONN_STATUS_ACTIVE"

text \<open>The snapshots are active from index \<open>j\<close> to the last.\<close>

definition active_from :: "(s64 \<times> Snapshot) list \<Rightarrow> nat \<Rightarrow> bool" where
  "active_from xs j \<longleftrightarrow> (\<forall>k < length xs. j \<le> k \<longrightarrow> snapshot_active (snd (xs ! k)))"

lemma active_from_snoc:
  "j \<le> length xs \<Longrightarrow> active_from (xs @ [(now_us, sn)]) j \<longleftrightarrow> active_from xs j \<and> snapshot_active sn"
  by (auto simp: active_from_def nth_append less_Suc_eq)

definition sync_inv :: "(s64 \<times> Snapshot) list \<Rightarrow> PeerInfo \<Rightarrow> bool list \<Rightarrow> bool" where
  "sync_inv xs p fires \<longleftrightarrow> length fires = length xs \<and> pi_sent_established p = (True \<in> set fires) \<and>
     count_list fires True \<le> 1 \<and>
     (if pi_sent_established p then True
      else (pi_active_since_us p = 0 \<or> (\<exists>j < length xs. pi_active_since_us p = fst (xs ! j) \<and> active_from xs j)) \<and>
        (\<forall>j < length xs. active_from xs j \<longrightarrow> pi_active_since_us p \<noteq> 0 \<and> pi_active_since_us p \<le> fst (xs ! j)))"

text \<open>The two ways a sync goes when the event has not been queued.\<close>

lemma sync_peer_cases:
  assumes "sync_peer now_us sn p = (p', fire)" "now_us \<noteq> 0"
  shows "if pi_sent_established p then pi_sent_established p' \<and> \<not> fire
    else if \<not> snapshot_active sn then pi_active_since_us p' = 0 \<and> \<not> pi_sent_established p' \<and> \<not> fire
    else pi_active_since_us p' = (if pi_active_since_us p = 0 then now_us else pi_active_since_us p) \<and>
      fire = (now_us - pi_active_since_us p' \<ge> kMatching2EstablishDelayUs) \<and> pi_sent_established p' = fire"
proof (cases "pi_sent_established p")
  case True
  with assms show ?thesis
    by (cases "sp_status sn = 2"; cases "sp_status sn = 1") (auto simp: sync_peer_def Let_def snapshot_active_def)
next
  case False
  show ?thesis
  proof (cases "snapshot_active sn")
    case True
    with False assms show ?thesis
      by (cases "pi_active_since_us p = 0";
          cases "now_us - pi_active_since_us p < kMatching2EstablishDelayUs")
        (auto simp: sync_peer_def Let_def snapshot_active_def)
  next
    case False
    with \<open>\<not> pi_sent_established p\<close> assms show ?thesis
      by (cases "sp_status sn = 1") (auto simp: sync_peer_def Let_def snapshot_active_def)
  qed
qed


lemma count_list_snoc: "count_list (xs @ [x]) y = count_list xs y + (if x = y then 1 else 0)"
  by (induction xs) auto

lemma sync_inv_step:
  assumes "sync_inv xs p fires" "sync_peer now_us sn p = (p', fire)" "0 < now_us"
    "\<forall>x \<in> set xs. 0 < fst x \<and> fst x \<le> now_us"
  shows "sync_inv (xs @ [(now_us, sn)]) p' (fires @ [fire])"
proof -
  have c: "if pi_sent_established p then pi_sent_established p' \<and> \<not> fire
    else if \<not> snapshot_active sn then pi_active_since_us p' = 0 \<and> \<not> pi_sent_established p' \<and> \<not> fire
    else pi_active_since_us p' = (if pi_active_since_us p = 0 then now_us else pi_active_since_us p) \<and>
      fire = (now_us - pi_active_since_us p' \<ge> kMatching2EstablishDelayUs) \<and> pi_sent_established p' = fire"
    by (rule sync_peer_cases [OF assms(2)]) (use assms(3) in simp)
  have base: "length fires = length xs" "pi_sent_established p = (True \<in> set fires)" "count_list fires True \<le> 1"
    using assms(1) by (simp_all add: sync_inv_def)
  have cnt: "True \<notin> set fires \<Longrightarrow> count_list fires True = 0" by (simp add: count_list_0_iff)
  show ?thesis
  proof (cases "pi_sent_established p")
    case True
    with c base show ?thesis by (auto simp: sync_inv_def count_list_snoc)
  next
    case False
    with assms(1) have inv:
      "pi_active_since_us p = 0 \<or> (\<exists>j < length xs. pi_active_since_us p = fst (xs ! j) \<and> active_from xs j)"
      "\<forall>j < length xs. active_from xs j \<longrightarrow> pi_active_since_us p \<noteq> 0 \<and> pi_active_since_us p \<le> fst (xs ! j)"
      by (simp_all add: sync_inv_def)
    show ?thesis
    proof (cases "snapshot_active sn")
      case False
      with c base cnt \<open>\<not> pi_sent_established p\<close> show ?thesis
        by (auto simp: sync_inv_def count_list_snoc active_from_snoc less_Suc_eq_le)
    next
      case True
      have le: "pi_active_since_us p \<le> now_us" using inv(1) assms(3,4) nth_mem by fastforce
      have last: "active_from (xs @ [(now_us, sn)]) (length xs)" using True by (simp add: active_from_def nth_append)
      have s': "pi_active_since_us p' = (if pi_active_since_us p = 0 then now_us else pi_active_since_us p)"
        and f': "pi_sent_established p' = fire" using c False True by auto
      have a: "\<exists>j < Suc (length xs). pi_active_since_us p' = fst ((xs @ [(now_us, sn)]) ! j) \<and>
          active_from (xs @ [(now_us, sn)]) j"
        using inv(1) s' last True by (cases "pi_active_since_us p = 0")
          (force simp: nth_append, force simp: nth_append active_from_snoc less_Suc_eq)
      have b: "pi_active_since_us p' \<noteq> 0 \<and> pi_active_since_us p' \<le> fst ((xs @ [(now_us, sn)]) ! j)"
        if "j < Suc (length xs)" "active_from (xs @ [(now_us, sn)]) j" for j
      proof (cases "j < length xs")
        case True
        then have "active_from xs j" using that active_from_snoc [of j xs now_us sn] by simp
        with inv(2) True s' show ?thesis by (simp add: nth_append)
      next
        case False
        with that(1) s' assms(3) le show ?thesis by (simp add: less_Suc_eq nth_append)
      qed
      show ?thesis
        using base cnt False f' a b by (cases fire) (simp_all add: sync_inv_def count_list_snoc)
    qed
  qed
qed

lemma sync_inv_run:
  assumes "sync_run xs p0 = (p, fires)" "\<forall>x \<in> set xs. 0 < fst x" "sorted (map fst xs)"
    "\<not> pi_sent_established p0" "pi_active_since_us p0 = 0"
  shows "sync_inv xs p fires"
  using assms
proof (induction xs arbitrary: p fires rule: rev_induct)
  case Nil
  then show ?case by (auto simp: sync_inv_def)
next
  case (snoc x xs)
  obtain now_us sn where x: "x = (now_us, sn)" by (cases x)
  obtain p1 fs where r: "sync_run xs p0 = (p1, fs)" by (cases "sync_run xs p0")
  obtain p2 f where q: "sync_peer now_us sn p1 = (p2, f)" by (cases "sync_peer now_us sn p1")
  have "p = p2" "fires = fs @ [f]" using snoc.prems(1) by (simp_all add: x sync_run_snoc r q)
  moreover have "sync_inv xs p1 fs" using snoc.IH [OF r] snoc.prems by (simp add: sorted_append)
  moreover have "\<forall>x \<in> set xs. 0 < fst x \<and> fst x \<le> now_us" using snoc.prems by (auto simp: x sorted_append)
  ultimately show ?case using sync_inv_step [OF _ q] snoc.prems(2) by (simp add: x)
qed

lemma sync_run_length: "length (snd (sync_run xs p)) = length xs"
  by (induction xs arbitrary: p) (auto simp: Let_def split_beta)

lemma sync_run_at:
  assumes "sync_run xs p0 = (p, fires)" "i < length xs"
  obtains q where "sync_run (take i xs) p0 = (q, take i fires)"
    "fires ! i = snd (sync_peer (fst (xs ! i)) (snd (xs ! i)) q)"
proof -
  obtain q fs where r: "sync_run (take i xs) p0 = (q, fs)" by (cases "sync_run (take i xs) p0")
  have l: "length fs = i" using sync_run_length [of "take i xs" p0] r assms(2) by simp
  obtain now_us sn where x: "xs ! i = (now_us, sn)" by (cases "xs ! i")
  obtain q2 f where s: "sync_peer now_us sn q = (q2, f)" by (cases "sync_peer now_us sn q")
  obtain q3 gs where t: "sync_run (drop (Suc i) xs) q2 = (q3, gs)" by (cases "sync_run (drop (Suc i) xs) q2")
  have "sync_run (take i xs @ (now_us, sn) # drop (Suc i) xs) p0 = (q3, fs @ f # gs)"
    by (simp add: sync_run_append r s t)
  then have "fires = fs @ f # gs" using assms x id_take_nth_drop [OF assms(2)] by simp
  with r l s x that show ?thesis by (simp add: nth_append)
qed

text \<open>
  Claim C37. The established event of a matching2 peer is queued exactly once, at the first sync
  that sees its transport active throughout a whole second: over any run of syncs with a clock
  that does not go back, sync number \<open>i\<close> queues it if and only if no earlier one did and the
  transport has been active at every sync since one at least a second earlier.
\<close>

theorem established_event_once_after_delay:
  assumes "sync_run xs p0 = (p, fires)" and "\<forall>x \<in> set xs. 0 < fst x" and "sorted (map fst xs)"
    and "\<not> pi_sent_established p0" and "pi_active_since_us p0 = 0"
  shows "count_list fires True \<le> 1 \<and>
    (\<forall>i < length xs. fires ! i \<longleftrightarrow> True \<notin> set (take i fires) \<and>
       (\<exists>j \<le> i. fst (xs ! i) - fst (xs ! j) \<ge> kMatching2EstablishDelayUs \<and>
          (\<forall>k. j \<le> k \<and> k \<le> i \<longrightarrow> sp_status (snd (xs ! k)) = ORBIS_NP_SIGNALING_CONN_STATUS_ACTIVE)))"
proof (intro conjI allI impI)
  show "count_list fires True \<le> 1" using sync_inv_run [OF assms] by (simp add: sync_inv_def)
next
  fix i assume i: "i < length xs"
  let ?now = "fst (xs ! i)" and ?xs = "take i xs"
  from sync_run_at [OF assms(1) i] obtain q where q: "sync_run ?xs p0 = (q, take i fires)"
    "fires ! i = snd (sync_peer ?now (snd (xs ! i)) q)" by blast
  have inv: "sync_inv ?xs q (take i fires)"
    by (rule sync_inv_run [OF q(1)])
      (use assms(2-5) in \<open>auto simp: take_map [symmetric] sorted_wrt_take dest: in_set_takeD\<close>)
  have "0 < ?now" using assms(2) i by simp
  with sync_peer_cases [of ?now "snd (xs ! i)" q] obtain q2 where
    c: "if pi_sent_established q then \<not> fires ! i
      else if \<not> snapshot_active (snd (xs ! i)) then \<not> fires ! i
      else fires ! i = (?now - (if pi_active_since_us q = 0 then ?now else pi_active_since_us q) \<ge> 1000000)"
    using q(2) by (cases "sync_peer ?now (snd (xs ! i)) q") (auto split: if_splits)
  have act: "(\<forall>k. j \<le> k \<and> k \<le> i \<longrightarrow> sp_status (snd (xs ! k)) = ORBIS_NP_SIGNALING_CONN_STATUS_ACTIVE) \<longleftrightarrow>
      active_from ?xs j \<and> snapshot_active (snd (xs ! i))" if "j \<le> i" for j
    using that i by (auto simp: active_from_def snapshot_active_def le_eq_less_or_eq)
  show "fires ! i \<longleftrightarrow> True \<notin> set (take i fires) \<and>
       (\<exists>j \<le> i. fst (xs ! i) - fst (xs ! j) \<ge> kMatching2EstablishDelayUs \<and>
          (\<forall>k. j \<le> k \<and> k \<le> i \<longrightarrow> sp_status (snd (xs ! k)) = ORBIS_NP_SIGNALING_CONN_STATUS_ACTIVE))"
  proof (cases "pi_sent_established q \<or> \<not> snapshot_active (snd (xs ! i))")
    case True
    then show ?thesis using c inv act by (auto simp: sync_inv_def split: if_splits)
  next
    case False
    have ns: "True \<notin> set (take i fires)" using inv False by (simp add: sync_inv_def)
    have s0: "pi_active_since_us q = 0 \<or> (\<exists>j < i. pi_active_since_us q = fst (xs ! j) \<and> active_from ?xs j)"
      and s1: "\<And>j. j < i \<Longrightarrow> active_from ?xs j \<Longrightarrow> pi_active_since_us q \<noteq> 0 \<and> pi_active_since_us q \<le> fst (xs ! j)"
      using inv False i unfolding sync_inv_def by (auto split: if_splits)
    have f: "fires ! i = (?now - (if pi_active_since_us q = 0 then ?now else pi_active_since_us q) \<ge> 1000000)"
      using c False by simp
    have "fires ! i \<longleftrightarrow> (\<exists>j \<le> i. ?now - fst (xs ! j) \<ge> 1000000 \<and> active_from ?xs j)"
    proof
      assume "fires ! i"
      then show "\<exists>j \<le> i. ?now - fst (xs ! j) \<ge> 1000000 \<and> active_from ?xs j"
        using f s0 by (cases "pi_active_since_us q = 0") (simp, metis less_imp_le_nat)
    next
      assume "\<exists>j \<le> i. ?now - fst (xs ! j) \<ge> 1000000 \<and> active_from ?xs j"
      then obtain j where j: "j \<le> i" "?now - fst (xs ! j) \<ge> 1000000" "active_from ?xs j" by blast
      then have "j < i" by (cases "j = i") auto
      with s1 [OF this j(3)] j(2) f show "fires ! i" by simp
    qed
    then show ?thesis using ns act False by auto
  qed
qed

text \<open>A snapshot of an established transport.\<close>

definition demo_snapshot :: Snapshot where
  "demo_snapshot = \<lparr>sp_ctx_id = 1, sp_room_id = 1, sp_member_id = 2, sp_transport_id = 1, sp_status = 2,
     sp_addr = 7, sp_port = 8, sp_rtt = 0\<rparr>"

theorem established_event_once_after_delay_witness:
  "snd (sync_run [(5, demo_snapshot), (400000, demo_snapshot), (1000005, demo_snapshot)] zero_peer) ! 2 \<and>
   count_list (snd (sync_run [(5, demo_snapshot), (400000, demo_snapshot), (1000005, demo_snapshot)] zero_peer)) True \<le> 1"
proof -
  let ?xs = "[(5, demo_snapshot), (400000, demo_snapshot), (1000005, demo_snapshot)]"
  obtain p fires where r: "sync_run ?xs zero_peer = (p, fires)" by (cases "sync_run ?xs zero_peer")
  have c: "count_list fires True \<le> 1"
    by (rule conjunct1 [OF established_event_once_after_delay [OF r]]) (simp_all add: zero_peer_def)
  have "fires = [False, False, True]"
    using r by (auto simp: sync_peer_def demo_snapshot_def zero_peer_def Let_def)
  with c r show ?thesis by simp
qed
section \<open>Callbacks\<close>

lemma dispatch_round_due:
  assumes "\<not> dispatch_stop s" "dispatch_queue s = d # rest" "qd_fire_at d \<le> fst (NowUs s)"
  shows "dispatch_queue (dispatch_round s) = rest"
    "delivered (dispatch_round s) = delivered s @ (if qd_callback d \<noteq> 0 then [d] else [])"
    "\<not> dispatch_stop (dispatch_round s)" "platform (dispatch_round s) = platform s"
    "clock_reads s \<le> clock_reads (dispatch_round s)"
  using assms by (auto simp: dispatch_round_def Let_def NowUs_def)

lemma dispatch_rounds:
  assumes "\<not> dispatch_stop s" "clock_mono s" "\<forall>d \<in> set (dispatch_queue s). qd_fire_at d \<le> fst (NowUs s)"
  shows "delivered ((dispatch_round ^^ m) s) =
      delivered s @ filter (\<lambda>d. qd_callback d \<noteq> 0) (take m (dispatch_queue s)) \<and>
    dispatch_queue ((dispatch_round ^^ m) s) = drop m (dispatch_queue s)"
  using assms
proof (induction m arbitrary: s)
  case 0
  then show ?case by simp
next
  case (Suc m)
  have st: "(dispatch_round ^^ Suc m) s = (dispatch_round ^^ m) (dispatch_round s)"
    by (simp only: funpow_Suc_right comp_def)
  show ?case
  proof (cases "dispatch_queue s")
    case Nil
    then have e: "dispatch_round s = s" by (simp add: dispatch_round_def)
    have "delivered ((dispatch_round ^^ m) s) = delivered s \<and> dispatch_queue ((dispatch_round ^^ m) s) = []"
      using Suc.IH [OF Suc.prems] Nil by simp
    then show ?thesis unfolding st e using Nil by simp
  next
    case (Cons d rest)
    then have due: "qd_fire_at d \<le> fst (NowUs s)" using Suc.prems(3) by simp
    note r = dispatch_round_due [OF Suc.prems(1) Cons due]
    have l: "later s (dispatch_round s)" using r(4,5) by (simp add: later_def)
    have c: "clock_mono (dispatch_round s)" using Suc.prems(2) r(4) by (simp add: clock_mono_def)
    have "\<forall>x \<in> set (dispatch_queue (dispatch_round s)). qd_fire_at x \<le> fst (NowUs (dispatch_round s))"
      using Suc.prems(3) Cons r(1) later_now [OF Suc.prems(2) l] by fastforce
    from Suc.IH [OF r(3) c this] show ?thesis unfolding st by (simp add: r(1,2) Cons)
  qed
qed

text \<open>
  Callbacks leave in the order they were staged: with a clock that does not go back,
  a callback that is staged goes behind all that wait, and the rounds of the dispatch thread make
  the waiting callbacks first to last, one a round, then the new one.
\<close>

theorem staged_callback_is_delivered:
  assumes "clock_mono s" and "queue_past s" and "\<not> dispatch_stop s" and "cx_callback ctx \<noteq> 0"
  shows "\<exists>d. qd_ctx_id d = ctx_id \<and> qd_conn_id d = conn_id \<and> qd_event_type d = word_of_int event \<and>
      qd_error_code d = word_of_int v \<and> qd_callback d = cx_callback ctx \<and>
      qd_callback_arg d = cx_callback_arg ctx \<and>
    (\<forall>m. let s' = (dispatch_round ^^ m) (StageBasicCallbackLocked ctx ctx_id conn_id event v s);
             waiting = dispatch_queue s @ [d]
         in delivered s' = delivered s @ filter (\<lambda>d. qd_callback d \<noteq> 0) (take m waiting) \<and>
            dispatch_queue s' = drop m waiting)"
proof -
  let ?s1 = "StageBasicCallbackLocked ctx ctx_id conn_id event v s"
  have le: "\<forall>x \<in> set (dispatch_queue s). qd_fire_at x \<le> clock (platform s) (clock_reads s)"
    using assms(1,2) by (fastforce simp: clock_mono_def queue_past_def)
  then obtain d where d: "dispatch_queue ?s1 = dispatch_queue s @ [d]" "qd_fire_at d = fst (NowUs s)"
    "qd_ctx_id d = ctx_id" "qd_conn_id d = conn_id" "qd_event_type d = word_of_int event"
    "qd_error_code d = word_of_int v" "qd_callback d = cx_callback ctx" "qd_callback_arg d = cx_callback_arg ctx"
    using assms(3,4) by (auto simp: StageBasicCallbackLocked_def NowUs_def Let_def dispatch_emplace_last)
  have f: "\<not> dispatch_stop ?s1" "delivered ?s1 = delivered s" "later s ?s1" "clock_mono ?s1"
    using assms by (auto simp: StageBasicCallbackLocked_def NowUs_def Let_def later_def clock_mono_def)
  have now: "fst (NowUs s) \<le> fst (NowUs ?s1)" by (rule later_now [OF assms(1) f(3)])
  have "\<forall>x \<in> set (dispatch_queue ?s1). qd_fire_at x \<le> fst (NowUs ?s1)"
    using le d(2) now unfolding d(1) by (auto simp: NowUs_def)
  from dispatch_rounds [OF f(1,4) this] show ?thesis
    by (intro exI [of _ d]) (simp add: d f(2) Let_def)
qed

theorem staged_callback_is_delivered_witness:
  "\<exists>d. qd_conn_id d = 18640 \<and>
     delivered ((dispatch_round ^^ 1) (StageBasicCallbackLocked demo_ctx 1 18640 2 0 (snd demo2))) = [d]"
proof -
  have c: "clock_mono (snd demo2)"
    by (simp add: clock_mono_def demo_states init_state_def example_platform_def)
  have q: "queue_past (snd demo2)" "\<not> dispatch_stop (snd demo2)" "cx_callback demo_ctx \<noteq> 0"
    "dispatch_queue (snd demo2) = []" "delivered (snd demo2) = []"
    by (simp_all add: queue_past_def demo_states init_state_def demo_ctx_def)
  from staged_callback_is_delivered [OF c q(1-3), of 1 18640 2 0] obtain d where
    d: "qd_conn_id d = 18640" "qd_callback d = cx_callback demo_ctx" and
    m: "\<forall>m. let s' = (dispatch_round ^^ m) (StageBasicCallbackLocked demo_ctx 1 18640 2 0 (snd demo2));
             waiting = dispatch_queue (snd demo2) @ [d]
         in delivered s' = delivered (snd demo2) @ filter (\<lambda>d. qd_callback d \<noteq> 0) (take m waiting) \<and>
            dispatch_queue s' = drop m waiting" by blast
  from m [rule_format, of 1] d q(3-5) show ?thesis by (intro exI [of _ d]) (simp add: Let_def)
qed

section \<open>Staged network information\<close>

text \<open>
  The information staged for GetPeerNetInfo is handed out exactly once: the request id
  that is returned takes the result it stands for, in the context it was asked in, and a second
  take, or one from another context, finds nothing.
\<close>

theorem netinfo_taken_once:
  "case StagePeerNetInfoResultLocked ctx_id s of (req, s1) \<Rightarrow>
     (case TakePeerNetInfoResultLocked ctx_id (sint req) s1 of (r, s2) \<Rightarrow>
        (\<exists>info. r = Some info \<and> ni_ctx_id info = ctx_id \<and> ni_conn_id info = sint req \<and>
           (case nat_info (platform s) of
              None \<Rightarrow> ni_external_ipv4 info = 0 \<and> ni_nat_route_kind info = 0
            | Some (ip, kind) \<Rightarrow> ni_external_ipv4 info = ip \<and> ni_nat_route_kind info = kind)) \<and>
        TakePeerNetInfoResultLocked ctx_id (sint req) s2 = (None, s2)) \<and>
     (if other \<noteq> ctx_id then TakePeerNetInfoResultLocked other (sint req) s1 = (None, s1) else True)"
  by (auto simp: StagePeerNetInfoResultLocked_def TakePeerNetInfoResultLocked_def Let_def
      split: option.splits)

section \<open>Deleting a context that is not there\<close>

text \<open>
  DeleteContext of an id that names no context, and that no connection names, answers
  OK and still gives back a reference of the runtime: with one context created, it stops the
  threads, although that context is still there and active.
\<close>

theorem DeleteContext_unknown_stops_runtime:
  assumes "initialized s" and "map_of (contexts s) ctx_id = None" and "context_refs s = 1"
    and "\<forall>(cid, ci) \<in> set (connections s). ci_ctx_id ci \<noteq> ctx_id"
  shows "case sceNpSignalingDeleteContext ctx_id s of (rc, s') \<Rightarrow>
    rc = ORBIS_OK \<and> contexts s' = contexts s \<and> connections s' = connections s \<and>
    context_refs s' = 0 \<and> runtime_stop s' \<and> \<not> runtime_thread s' \<and> \<not> activation_thread s'"
proof -
  have k: "keys_where (\<lambda>cid ci. ci_ctx_id ci = ctx_id \<and> W ci) (connections s) = []" for W
    using assms(4) by (auto simp: keys_where_def filter_empty_conv)
  have k2: "keys_where (\<lambda>cid ci. ci_ctx_id ci = ctx_id) (connections s) = []"
    using k [of "\<lambda>_. True"] by simp
  have r: "RemoveContextConnectionsLocked ctx_id s = s"
    by (simp add: RemoveContextConnectionsLocked_def k2)
  have d: "AList.delete ctx_id (contexts s) = contexts s"
    using assms(2) by (simp add: map_of_eq_None_iff delete_id)
  show ?thesis
    by (simp add: sceNpSignalingDeleteContext_def assms(1,3) k r d ReleaseContextRef_def SigStop_def Let_def)
qed

theorem DeleteContext_unknown_stops_runtime_witness:
  "runtime_thread (snd demo2) \<and> contexts (snd (sceNpSignalingDeleteContext 5 (snd demo2))) = contexts (snd demo2) \<and>
   \<not> runtime_thread (snd (sceNpSignalingDeleteContext 5 (snd demo2)))"
proof -
  have h: "initialized (snd demo2)" "map_of (contexts (snd demo2)) 5 = None" "context_refs (snd demo2) = 1"
    "\<forall>(cid, ci) \<in> set (connections (snd demo2)). ci_ctx_id ci \<noteq> 5" "runtime_thread (snd demo2)"
    by (simp_all add: demo_states demo_conn_def)
  from DeleteContext_unknown_stops_runtime [OF h(1-4)] h(5) show ?thesis
    by (cases "sceNpSignalingDeleteContext 5 (snd demo2)") simp
qed

end
