(* ===== verification/SigApiProps.thy ===== *)
theory SigApiProps
  imports SigSystem
begin

text \<open>
  What the exported functions of the signaling library promise: the life cycle of the library,
  contexts, and the connections of a context.
\<close>

section \<open>Frames\<close>

text \<open>What closing a connection leaves alone: the contexts, and all but the closed connection.\<close>

lemma CloseConnection_contexts [simp]:
  "contexts (CloseConnectionAndDispatchDead cid e1 e2 s) = contexts s"
  by (simp add: CloseConnectionAndDispatchDead_def Let_def split: option.split)

lemma TerminateSig1_contexts [simp]: "contexts (TerminateSig1 cid s) = contexts s"
  by (simp add: TerminateSig1_def Let_def split: option.split)

lemma fold_Terminate_contexts [simp]: "contexts (fold TerminateSig1 cs s) = contexts s"
  by (induction cs arbitrary: s) simp_all

lemma RemoveContextConnections_contexts [simp]:
  "contexts (RemoveContextConnectionsLocked ctx s) = contexts s"
  by (simp add: RemoveContextConnectionsLocked_def)

lemma Start_Stop_frame [simp]:
  "contexts (ReleaseContextRef s) = contexts s" "connections (ReleaseContextRef s) = connections s"
  "npid_to_conn (ReleaseContextRef s) = npid_to_conn s"
  "peer_netinfo_results (ReleaseContextRef s) = peer_netinfo_results s"
  "contexts (AddContextRef s) = contexts s" "connections (AddContextRef s) = connections s"
  by (simp_all add: ReleaseContextRef_def SigStop_def AddContextRef_def SigStart_def Let_def)

section \<open>Initialisation\<close>

lemma AlignUp_uint:
  assumes "0 < uint a" "uint v + uint a \<le> 2 ^ 64"
  shows "uint (AlignUp v a) = (if uint v mod uint a = 0 then uint v else uint v - uint v mod uint a + uint a)"
proof -
  have m: "uint (v mod a) = uint v mod uint a" by (rule uint_mod)
  have le: "uint v mod uint a \<le> uint v" using assms(1) by (intro zmod_le_nonneg_dividend) simp
  have s: "uint (v - v mod a) = uint v - uint v mod uint a"
    using le m by (simp add: uint_sub_if')
  have z: "v mod a = 0 \<longleftrightarrow> uint v mod uint a = 0" using m by (simp add: word_uint_eq_iff)
  show ?thesis
  proof (cases "uint v mod uint a = 0")
    case True
    with z s show ?thesis by (simp add: AlignUp_def Let_def)
  next
    case False
    then have "uint v - uint v mod uint a + uint a < 2 ^ 64"
      using assms le pos_mod_sign [of "uint a" "uint v"] by linarith
    with False z s show ?thesis
      by (simp add: AlignUp_def Let_def uint_plus_if')
  qed
qed

text \<open>
  The heap size: rounding up to a positive alignment, where it fits 64 bits, gives
  the least multiple of the alignment that is not below the value.
\<close>

theorem AlignUp_spec:
  assumes "0 < uint a" and "uint v + uint a \<le> 2 ^ 64"
  shows "uint a dvd uint (AlignUp v a) \<and> uint v \<le> uint (AlignUp v a) \<and> uint (AlignUp v a) < uint v + uint a"
proof -
  have b: "0 \<le> uint v mod uint a" "uint v mod uint a < uint a" using assms(1) by simp_all
  have d: "uint a dvd uint v - uint v mod uint a" by (rule dvd_minus_mod)
  show ?thesis
  proof (cases "uint v mod uint a = 0")
    case True
    then show ?thesis using assms(1) by (simp add: AlignUp_uint [OF assms] dvd_eq_mod_eq_0)
  next
    case False
    with b d show ?thesis by (simp add: AlignUp_uint [OF assms])
  qed
qed

theorem AlignUp_spec_witness: "uint (AlignUp 0x20001 0x4000) = 0x24000 \<and> 0x4000 dvd uint (AlignUp 0x20001 0x4000)"
  using AlignUp_spec [where a = "0x4000" and v = "0x20001"] by (simp add: AlignUp_def)

text \<open>
  Initialisation succeeds or leaves no trace: an initialized library refuses and is
  left alone; otherwise success leaves the library initialized with its heap, its runtime hooks
  and a running dispatch thread, and a failure (a negative code) leaves it uninitialized with
  no heap, so that it can be tried again.
\<close>

theorem Initialize_spec:
  "case sceNpSignalingInitialize kc memory_size h s of (rc, h', s') \<Rightarrow>
     if initialized s then rc = ORBIS_NP_SIGNALING_ERROR_ALREADY_INITIALIZED \<and> h' = h \<and> s' = s
     else if rc = ORBIS_OK
     then \<not> heap_initialized h \<and> initialized s' \<and> heap_initialized h' \<and> hooks_registered h' \<and>
          dispatch_thread s' \<and> \<not> dispatch_stop s' \<and> contexts s' = contexts s \<and> connections s' = connections s
     else rc < 0 \<and> \<not> initialized s' \<and> contexts s' = contexts s \<and>
          (if heap_initialized h then h' = h \<and> s' = s else \<not> heap_initialized h')"
proof -
  obtain irc idata where io: "kc_ioctl kc = (irc, idata)" by force
  show ?thesis
    by (auto simp: sceNpSignalingInitialize_def InitSignalingHeap_def StartMainRuntime_def
        StartEchoRuntime_def ShutdownRuntime_def ShutdownSignalingHeap_def RegisterRuntimeHooks_def
        StartDispatchThread_def StopDispatchThread_def io Let_def split: prod.splits if_splits)
qed

section \<open>Contexts\<close>

lemma contexts_full:
  assumes "sig_inv s"
  shows "length (contexts s) \<le> 8 \<and> (length (contexts s) = 8 \<longleftrightarrow> {1..8} \<subseteq> dom (map_of (contexts s)))"
proof -
  have d: "distinct (keys (contexts s))" and k: "set (keys (contexts s)) \<subseteq> {1..8}"
    using assms by (auto simp: sig_inv_def sig_invD_def ctxs_ok_def)
  have l: "length (contexts s) = card (set (keys (contexts s)))"
    using distinct_card [OF d] by simp
  have le: "card (set (keys (contexts s))) \<le> 8" using card_mono [OF _ k] by simp
  have "card (set (keys (contexts s))) = 8 \<longleftrightarrow> set (keys (contexts s)) = {1..8}"
    using card_subset_eq [OF _ k] by auto
  moreover have "dom (map_of (contexts s)) = set (keys (contexts s))" by (simp add: dom_map_of_conv_image_fst)
  ultimately show ?thesis using l le k by auto
qed

text \<open>
  Creating a context: in a reachable initialized state, with a valid id, it fails with
  CTXID_NOT_AVAILABLE exactly when eight contexts are there; otherwise it adds one active context
  under a fresh id of 1..8, with the caller's callback and a full activation budget, touches no
  other context, takes one reference and starts the runtime.
\<close>

theorem CreateContext_spec:
  assumes "reachable pf (h, s)" and "initialized s" and "valid_online_id (platform s) (handle npid)"
  shows "case sceNpSignalingCreateContext (Some npid) cb arg True s of (rc, out, s') \<Rightarrow>
    if length (contexts s) = 8
    then rc = ORBIS_NP_SIGNALING_ERROR_CTXID_NOT_AVAILABLE \<and> out = None \<and> s' = s
    else \<exists>cid ctx. rc = ORBIS_OK \<and> out = Some cid \<and> 1 \<le> cid \<and> cid \<le> 8 \<and>
      map_of (contexts s) cid = None \<and> map_of (contexts s') = (map_of (contexts s))(cid \<mapsto> ctx) \<and>
      cx_active ctx \<and> cx_callback ctx = cb \<and> cx_callback_arg ctx = arg \<and> cx_owner_npid ctx = npid \<and>
      cx_activate_budget_us ctx = kActivateBudgetMaxUs \<and> connections s' = connections s \<and>
      context_refs s' = context_refs s + 1 \<and> runtime_thread s'"
proof -
  have i: "sig_inv s" by (rule reachable_sig_inv [OF assms(1)])
  have ok: "context_seed_ok s" using i by (simp add: sig_inv_def sig_invD_def ctxs_ok_def)
  obtain cid s1 where al: "AllocateContextIdLocked s = (cid, s1)" by force
  note c = AllocateContextId_cases [OF ok al]
  have full: "length (contexts s) = 8 \<longleftrightarrow> cid = -1"
    using contexts_full [OF i] c by (auto simp: subset_iff dom_def)
  have call: "sceNpSignalingCreateContext (Some npid) cb arg True s = create_context cb arg npid 2 0 s"
    using assms(2,3) by (simp add: sceNpSignalingCreateContext_def NormalizeNpId_def IsValidNpId_def)
  show ?thesis
  proof (cases "cid = -1")
    case True
    with c have "s1 = s" by auto
    with True al full show ?thesis by (simp add: call create_context_def)
  next
    case False
    with c have p: "1 \<le> cid" "cid \<le> 8" "map_of (contexts s) cid = None"
      "s1 = s\<lparr>last_assigned_context_id := word_of_int cid\<rparr>" by auto
    then show ?thesis
      using False full al
      by (simp add: call create_context_def Let_def NowUs_def AddContextRef_def SigStart_def)
        (intro exI conjI, rule refl, simp_all)
  qed
qed

theorem CreateContext_spec_witness:
  "\<exists>cid s'. sceNpSignalingCreateContext (Some (demo_npid [88, 89, 90])) 5 6 True (snd demo2) = (ORBIS_OK, Some cid, s') \<and> cid \<noteq> 1"
proof -
  have r: "reachable example_platform (fst demo2, snd demo2)" by (simp add: demo2_reachable)
  have i: "initialized (snd demo2)" by (simp add: demo_states)
  have v: "valid_online_id (platform (snd demo2)) (handle (demo_npid [88, 89, 90]))"
    by (simp add: demo_states init_state_def example_platform_def)
  have l: "length (contexts (snd demo2)) = 1" and one: "map_of (contexts (snd demo2)) 1 \<noteq> None"
    by (simp_all add: demo_states)
  from CreateContext_spec [OF r i v, of 5 6] l one show ?thesis by (fastforce split: prod.splits)
qed

text \<open>
  Claim C36. Deleting a context of a reachable initialized state leaves nothing of it: no
  context, no connection, no entry of the peer index, no staged network information; the other
  contexts are as they were.
\<close>

theorem DeleteContext_complete:
  assumes "reachable pf (h, s)" and "initialized s"
  shows "case sceNpSignalingDeleteContext ctx_id s of (rc, s') \<Rightarrow> rc = ORBIS_OK \<and>
    map_of (contexts s') = (map_of (contexts s))(ctx_id := None) \<and>
    (\<nexists>cid ci. map_of (connections s') cid = Some ci \<and> ci_ctx_id ci = ctx_id) \<and>
    (\<nexists>npid cid. map_of (npid_to_conn s') (MakeCtxNpIdKey ctx_id npid) = Some cid) \<and>
    (\<nexists>req r. (req, r) \<in> set (peer_netinfo_results s') \<and> ni_ctx_id r = ctx_id)"
proof -
  have i: "sig_inv s" by (rule reachable_sig_inv [OF assms(1)])
  define s' where "s' = snd (sceNpSignalingDeleteContext ctx_id s)"
  have r: "sceNpSignalingDeleteContext ctx_id s = (ORBIS_OK, s')"
    using assms(2) by (simp add: s'_def sceNpSignalingDeleteContext_def Let_def)
  have i': "sig_invD {} s'"
    using sig_inv_DeleteContext [OF i, of ctx_id] by (simp add: s'_def sig_inv_def)
  have c: "map_of (contexts s') = (map_of (contexts s))(ctx_id := None)"
    using assms(2) by (simp add: s'_def sceNpSignalingDeleteContext_def Let_def)
  have n: "\<nexists>req r. (req, r) \<in> set (peer_netinfo_results s') \<and> ni_ctx_id r = ctx_id"
    using assms(2) by (auto simp: s'_def sceNpSignalingDeleteContext_def Let_def)
  have k: "\<nexists>cid ci. map_of (connections s') cid = Some ci \<and> ci_ctx_id ci = ctx_id"
    using sig_invD_owner [OF i'] c by (fastforce simp del: map_of_eq_Some_iff)
  moreover have "\<nexists>npid cid. map_of (npid_to_conn s') (MakeCtxNpIdKey ctx_id npid) = Some cid"
    using index_okD [OF sig_invD_D(3) [OF i']] k by (fastforce simp: MakeCtxNpIdKey_def simp del: map_of_eq_Some_iff)
  ultimately show ?thesis using r c n by simp
qed

theorem DeleteContext_complete_witness:
  "\<nexists>cid ci. map_of (connections (snd (sceNpSignalingDeleteContext 1 (snd demo2)))) cid = Some ci \<and> ci_ctx_id ci = 1"
proof -
  have r: "reachable example_platform (fst demo2, snd demo2)" by (simp add: demo2_reachable)
  have i: "initialized (snd demo2)" by (simp add: demo_states)
  from DeleteContext_complete [OF r i, of 1] show ?thesis
    by (cases "sceNpSignalingDeleteContext 1 (snd demo2)") (simp del: map_of_eq_Some_iff)
qed

text \<open>
  An uninitialized library answers every call that uses its state with
  NOT_INITIALIZED and leaves the state as it was.
\<close>

theorem api_not_initialized:
  assumes "\<not> initialized s"
  shows "fst (sceNpSignalingTerminate h s) = ORBIS_NP_SIGNALING_ERROR_NOT_INITIALIZED \<and>
    snd (snd (sceNpSignalingTerminate h s)) = s \<and>
    sceNpSignalingCreateContext n cb arg out s = (ORBIS_NP_SIGNALING_ERROR_NOT_INITIALIZED, None, s) \<and>
    sceNpSignalingCreateContextA gn ga u cb arg out s = (ORBIS_NP_SIGNALING_ERROR_NOT_INITIALIZED, None, s) \<and>
    sceNpSignalingDeleteContext c s = (ORBIS_NP_SIGNALING_ERROR_NOT_INITIALIZED, s) \<and>
    sceNpSignalingActivateConnection c n out s = (ORBIS_NP_SIGNALING_ERROR_NOT_INITIALIZED, None, s) \<and>
    sceNpSignalingActivateConnectionA c p out s = (ORBIS_NP_SIGNALING_ERROR_NOT_INITIALIZED, None, s) \<and>
    sceNpSignalingDeactivateConnection c k s = (ORBIS_NP_SIGNALING_ERROR_NOT_INITIALIZED, s) \<and>
    sceNpSignalingTerminateConnection c k s = (ORBIS_NP_SIGNALING_ERROR_NOT_INITIALIZED, s) \<and>
    sceNpSignalingSetContextOption c oi v s = (ORBIS_NP_SIGNALING_ERROR_NOT_INITIALIZED, s) \<and>
    sceNpSignalingGetPeerNetInfo c n out s = (ORBIS_NP_SIGNALING_ERROR_NOT_INITIALIZED, None, s) \<and>
    sceNpSignalingGetPeerNetInfoA c out2 out s = (ORBIS_NP_SIGNALING_ERROR_NOT_INITIALIZED, None, s) \<and>
    sceNpSignalingCancelPeerNetInfo c k s = (ORBIS_NP_SIGNALING_ERROR_NOT_INITIALIZED, s) \<and>
    sceNpSignalingGetPeerNetInfoResult c k i s = (ORBIS_NP_SIGNALING_ERROR_NOT_INITIALIZED, i, s) \<and>
    sceNpSignalingGetConnectionStatistics out s = (ORBIS_NP_SIGNALING_ERROR_NOT_INITIALIZED, None, s)"
proof -
  have a: "account_member p False s = None"
    by (simp add: account_member_def split: option.split)
  show ?thesis
    using assms a
    by (auto simp: sceNpSignalingTerminate_def sceNpSignalingCreateContext_def sceNpSignalingCreateContextA_def
      sceNpSignalingDeleteContext_def sceNpSignalingActivateConnection_def sceNpSignalingActivateConnectionA_def
      sceNpSignalingDeactivateConnection_def sceNpSignalingTerminateConnection_def conn_guard_def
      sceNpSignalingSetContextOption_def sceNpSignalingGetPeerNetInfo_def sceNpSignalingGetPeerNetInfoA_def
      sceNpSignalingCancelPeerNetInfo_def sceNpSignalingGetPeerNetInfoResult_def ActivateSig1_def Let_def
      sceNpSignalingGetConnectionStatistics_def split: option.split)
qed

theorem api_not_initialized_witness:
  "sceNpSignalingDeleteContext 3 (init_state example_platform) =
     (ORBIS_NP_SIGNALING_ERROR_NOT_INITIALIZED, init_state example_platform)"
proof -
  have "\<not> initialized (init_state example_platform)" by (simp add: init_state_def)
  from api_not_initialized [OF this] show ?thesis by blast
qed

end
