(* ===== verification/P2P.thy ===== *)
theory P2P
  imports SigPackets
begin

text \<open>
  The peer-to-peer UDP transport (net_util/net_p2p.cpp, net_p2p.h): the socket with its
  jailbroken bind and its fallback ports, the start, stop and retry, the classification of
  received datagrams into the three channels with their bounded queues, and the send and
  receive operations behind the signaling hooks. The kernel calls are a parameter: their results
  are functions of the number of the call; what they change in the process (open sockets,
  credentials) is written out in the state.
\<close>

section \<open>Constants and addresses\<close>

definition SignalingVport :: u16 where [simp]: "SignalingVport = 0xffff"
definition P2PPortFallbacks :: nat where [simp]: "P2PPortFallbacks = 16"
definition ChannelQueueBytes :: u64 where [simp]: "ChannelQueueBytes = 40 * 1024"
definition RecvBufferSize :: nat where [simp]: "RecvBufferSize = 2048"
definition ORBIS_NET_ADHOC_PORT :: u16 where [simp]: "ORBIS_NET_ADHOC_PORT = 3658"
definition ORBIS_NET_AF_INET :: u8 where [simp]: "ORBIS_NET_AF_INET = 2"
definition ORBIS_NET_ERROR_EADDRINUSE :: s32 where [simp]: "ORBIS_NET_ERROR_EADDRINUSE = 0x80410130 - 0x100000000"

text \<open>\<open>sceNetHtons\<close> and \<open>sceNetNtohs\<close> on a little-endian machine.\<close>

definition swap16 :: "u16 \<Rightarrow> u16" where
  "swap16 w = push_bit 8 w OR drop_bit 8 w"

lemma swap16_swap16 [simp]: "swap16 (swap16 w) = w"
  by (rule bit_word_eqI) (auto simp: swap16_def bit_simps)

lemma swap16_0 [simp]: "swap16 0 = 0"
  by (simp add: swap16_def)

lemma swap16_eq_0 [simp]: "swap16 w = 0 \<longleftrightarrow> w = 0"
  by (metis swap16_swap16 swap16_0)

record OrbisNetSockaddrIn =
  sin_len :: u8
  sin_family :: u8
  sin_port :: u16
  sin_addr :: u32
  sin_vport :: u16

definition MakeSockaddr :: "u32 \<Rightarrow> u16 \<Rightarrow> OrbisNetSockaddrIn" where
  "MakeSockaddr addr port = \<lparr>sin_len = 16, sin_family = ORBIS_NET_AF_INET, sin_port = port,
     sin_addr = addr, sin_vport = swap16 SignalingVport\<rparr>"

section \<open>State\<close>

datatype Channel = Signaling | ControlCh | Matching2

record Packet =
  pk_data :: bytes
  pk_from_addr :: u32
  pk_from_port :: u16

record JbcCred =
  cr_uid :: u32
  cr_ruid :: u32
  cr_svuid :: u32
  cr_rgid :: u32
  cr_svgid :: u32
  cr_prison :: u64
  cr_cdir :: u64
  cr_rdir :: u64
  cr_jdir :: u64
  cr_sceProcType :: u64
  cr_sonyCred :: u64
  cr_sceProcCap :: u64

definition zero_cred :: JbcCred where
  "zero_cred = \<lparr>cr_uid = 0, cr_ruid = 0, cr_svuid = 0, cr_rgid = 0, cr_svgid = 0, cr_prison = 0, cr_cdir = 0,
     cr_rdir = 0, cr_jdir = 0, cr_sceProcType = 0, cr_sonyCred = 0, cr_sceProcCap = 0\<rparr>"

text \<open>
  The members of \<open>P2PTransport\<close>, then what the calls leave in the process: the open sockets, the
  addresses they are bound to, the credentials, whether the daemon has jailbroken it, and the
  number of calls made.
\<close>

record P2PTransport =
  m_socket :: s32
  m_bound_port :: u16
  m_configured_port :: u16
  m_advertised_addr :: u32
  m_retry_after :: s64
  m_queues :: "Channel \<Rightarrow> Packet list"
  m_queue_bytes :: "Channel \<Rightarrow> u64"
  open_sockets :: "s32 list"
  bound_ports :: "s32 \<Rightarrow> u16"
  proc_cred :: JbcCred
  daemon_jailbroken :: bool
  calls :: nat

definition init_p2p :: "JbcCred \<Rightarrow> P2PTransport" where
  "init_p2p cred = \<lparr>m_socket = -1, m_bound_port = 0, m_configured_port = 0, m_advertised_addr = 0,
     m_retry_after = 0, m_queues = (\<lambda>_. []), m_queue_bytes = (\<lambda>_. 0), open_sockets = [],
     bound_ports = (\<lambda>_. 0), proc_cred = cred, daemon_jailbroken = False, calls = 0\<rparr>"

text \<open>
  The results of the calls. \<open>sys_get_cred\<close> is the return code with what the structure holds when
  the call fails; \<open>sys_set_cred\<close> the return code with the credentials a failing call leaves.
  \<open>sys_getsockname\<close> gets the port the socket is bound to, in network order as \<open>sin_port\<close>.
\<close>

record NetOps =
  sys_socket :: "nat \<Rightarrow> s32"
  sys_bind :: "nat \<Rightarrow> OrbisNetSockaddrIn \<Rightarrow> s32"
  sys_getsockname :: "nat \<Rightarrow> u16 \<Rightarrow> s32 \<times> u16"
  sys_sendto :: "nat \<Rightarrow> bytes \<Rightarrow> OrbisNetSockaddrIn \<Rightarrow> s32"
  sys_now :: "nat \<Rightarrow> s64"
  sys_get_cred :: "nat \<Rightarrow> s32 \<times> JbcCred"
  sys_set_cred :: "nat \<Rightarrow> s32 \<times> JbcCred"
  sys_daemon :: "nat \<Rightarrow> bool"
  is_ps5 :: bool
  settings_p2p_port :: s32
  netctl_ip :: "u32 option"

definition tick :: "P2PTransport \<Rightarrow> nat \<times> P2PTransport" where
  "tick s = (calls s, s\<lparr>calls := Suc (calls s)\<rparr>)"

section \<open>The socket\<close>

definition sceNetSocket :: "NetOps \<Rightarrow> P2PTransport \<Rightarrow> s32 \<times> P2PTransport" where
  "sceNetSocket ops s =
     (let (n, s1) = tick s; sock = sys_socket ops n
      in (sock, if sock < 0 then s1 else s1\<lparr>open_sockets := sock # open_sockets s1\<rparr>))"

definition sceNetBind :: "NetOps \<Rightarrow> s32 \<Rightarrow> OrbisNetSockaddrIn \<Rightarrow> P2PTransport \<Rightarrow> s32 \<times> P2PTransport" where
  "sceNetBind ops sock sa s =
     (let (n, s1) = tick s; rc = sys_bind ops n sa
      in (rc, if rc < 0 then s1 else s1\<lparr>bound_ports := (bound_ports s1)(sock := sin_port sa)\<rparr>))"

definition sceNetSocketClose :: "s32 \<Rightarrow> P2PTransport \<Rightarrow> P2PTransport" where
  "sceNetSocketClose sock s = s\<lparr>open_sockets := remove1 sock (open_sockets s)\<rparr>"

definition jbc_get_cred :: "NetOps \<Rightarrow> P2PTransport \<Rightarrow> s32 \<times> JbcCred \<times> P2PTransport" where
  "jbc_get_cred ops s =
     (let (n, s1) = tick s; (ret, junk) = sys_get_cred ops n
      in (ret, if ret = 0 then proc_cred s1 else junk, s1))"

definition jbc_set_cred :: "NetOps \<Rightarrow> JbcCred \<Rightarrow> P2PTransport \<Rightarrow> s32 \<times> P2PTransport" where
  "jbc_set_cred ops cred s =
     (let (n, s1) = tick s; (ret, left) = sys_set_cred ops n
      in (ret, s1\<lparr>proc_cred := (if ret = 0 then cred else left)\<rparr>))"

definition JailbreakViaDaemon :: "NetOps \<Rightarrow> P2PTransport \<Rightarrow> bool \<times> P2PTransport" where
  "JailbreakViaDaemon ops s =
     (let (n, s1) = tick s; ok = sys_daemon ops n
      in (ok, if ok then s1\<lparr>daemon_jailbroken := True\<rparr> else s1))"

definition RejailViaDaemon :: "P2PTransport \<Rightarrow> P2PTransport" where
  "RejailViaDaemon s = s\<lparr>daemon_jailbroken := False\<rparr>"

definition jailbroken :: "JbcCred \<Rightarrow> JbcCred" where
  "jailbroken cred = cred\<lparr>cr_sceProcCap := 0xffffffffffffffff, cr_sceProcType := 0x3801000000000013,
     cr_sonyCred := 0xffffffffffffffff\<rparr>"

text \<open>The second bind of \<open>BindSocket\<close>, with the process jailbroken around it.\<close>

definition jailbroken_bind :: "NetOps \<Rightarrow> u16 \<Rightarrow> s32 \<Rightarrow> OrbisNetSockaddrIn \<Rightarrow> P2PTransport \<Rightarrow> s32 \<times> P2PTransport" where
  "jailbroken_bind ops udp_port sock sa s =
     (let use_libjbc = \<not> is_ps5 ops;
          (use_daemon, s1) = (if use_libjbc then (False, s) else JailbreakViaDaemon ops s);
          (orig_cred, s2) = (if use_libjbc
                             then let (ret, jb_cred, t) = jbc_get_cred ops s1;
                                      (ret2, t2) = jbc_set_cred ops (jailbroken jb_cred) t
                                  in (jb_cred, t2)
                             else (zero_cred, s1));
          (rc, s3) = sceNetBind ops sock sa s2;
          s4 = (if rc < 0 then sceNetSocketClose sock s3 else s3);
          s5 = (if use_libjbc then snd (jbc_set_cred ops orig_cred s4)
                else if use_daemon then RejailViaDaemon s4 else s4)
      in (rc, s5))"

definition BindSocket :: "NetOps \<Rightarrow> u16 \<Rightarrow> P2PTransport \<Rightarrow> s32 \<times> P2PTransport" where
  "BindSocket ops udp_port s =
     (let (sock, s1) = sceNetSocket ops s
      in if sock < 0 then (sock, s1)
         else
           let sa = MakeSockaddr 0 (swap16 udp_port);
               (rc, s2) = sceNetBind ops sock sa s1;
               (rc2, s3) = (if rc < 0 then jailbroken_bind ops udp_port sock sa s2 else (rc, s2))
           in (if rc2 \<ge> 0 then sock else rc2, s3))"

section \<open>Start, stop, retry\<close>

text \<open>The loop over the fallback ports, from attempt \<open>i\<close> with the result of the one before.\<close>

function start_loop :: "NetOps \<Rightarrow> u16 \<Rightarrow> bool \<Rightarrow> nat \<Rightarrow> s32 \<times> u16 \<times> P2PTransport \<Rightarrow> s32 \<times> u16 \<times> P2PTransport" where
  "start_loop ops udp_port allow_fallback i (sock, port, s) =
     (if sock = ORBIS_NET_ERROR_EADDRINUSE \<and> allow_fallback \<and> udp_port \<noteq> 0 \<and> i \<le> P2PPortFallbacks \<and>
         unat udp_port + i \<le> 0xffff
      then let port' = udp_port + of_nat i; (sock', s') = BindSocket ops port' s
           in start_loop ops udp_port allow_fallback (Suc i) (sock', port', s')
      else (sock, port, s))"
  by pat_completeness auto
termination by (relation "measure (\<lambda>(_, _, _, i, _). Suc P2PPortFallbacks - i)") auto

declare start_loop.simps [simp del]

definition StartLocked :: "NetOps \<Rightarrow> u16 \<Rightarrow> bool \<Rightarrow> P2PTransport \<Rightarrow> u16 \<times> P2PTransport" where
  "StartLocked ops udp_port allow_fallback s =
     (let (sock0, s0) = BindSocket ops udp_port s;
          (sock, port, s1) = start_loop ops udp_port allow_fallback 1 (sock0, udp_port, s0)
      in if sock < 0 then (0, s1)
         else
           let (n, s2) = tick s1;
               (rc, name) = sys_getsockname ops n (bound_ports s2 sock);
               port' = (if rc \<ge> 0 \<and> name \<noteq> 0 then swap16 name else port)
           in (port', s2\<lparr>m_socket := sock, m_bound_port := port'\<rparr>))"

definition StopLocked :: "P2PTransport \<Rightarrow> P2PTransport" where
  "StopLocked s =
     (let s1 = (if m_socket s \<ge> 0 then sceNetSocketClose (m_socket s) s else s)
      in s1\<lparr>m_socket := -1, m_bound_port := 0, m_retry_after := 0, m_queues := (\<lambda>_. []),
            m_queue_bytes := (\<lambda>_. 0)\<rparr>)"

definition PortToBind :: "NetOps \<Rightarrow> P2PTransport \<Rightarrow> u16" where
  "PortToBind ops s =
     (let port = settings_p2p_port ops
      in if port > 0 \<and> port \<le> 0xffff then word_of_int port
         else if m_configured_port s \<noteq> 0 then m_configured_port s else ORBIS_NET_ADHOC_PORT)"

definition RunningLocked :: "NetOps \<Rightarrow> P2PTransport \<Rightarrow> bool \<times> P2PTransport" where
  "RunningLocked ops s =
     (let (n, s1) = tick s; now = sys_now ops n;
          s2 = (if m_socket s1 < 0 \<and> now \<ge> m_retry_after s1
                then let (port, t) = StartLocked ops (PortToBind ops s1) True s1
                     in if port = 0 then t\<lparr>m_retry_after := now + 2000000\<rparr> else t
                else s1)
      in (m_socket s2 \<ge> 0, s2))"

section \<open>Received datagrams\<close>

definition Classify :: "bytes \<Rightarrow> Channel" where
  "Classify packet =
     (if length packet < 5 \<or> take 4 packet \<noteq> [0x53, 0x48, 0x41, 0x44] then Signaling
      else if packet ! 4 = 0x10 then ControlCh
      else if packet ! 4 = 0x21 then Matching2
      else Signaling)"

text \<open>
  One turn of the receive loop for a datagram; a full channel drops it. The datagrams the socket
  holds are those the calls of \<open>sceNetRecvfrom\<close> return before the one that fails; the buffer cuts
  each to its size.
\<close>

definition enqueue :: "bytes \<times> u32 \<times> u16 \<Rightarrow> P2PTransport \<Rightarrow> P2PTransport" where
  "enqueue d s =
     (let (data, from_addr, from_port) = d;
          packet = take RecvBufferSize data;
          channel = Classify packet
      in if m_queue_bytes s channel + of_nat (length packet) > ChannelQueueBytes then s
         else s\<lparr>m_queue_bytes := (m_queue_bytes s)(channel := m_queue_bytes s channel + of_nat (length packet)),
                m_queues := (m_queues s)(channel := m_queues s channel @
                  [\<lparr>pk_data = packet, pk_from_addr = from_addr, pk_from_port = from_port\<rparr>])\<rparr>)"

definition DrainLocked :: "(bytes \<times> u32 \<times> u16) list \<Rightarrow> P2PTransport \<Rightarrow> P2PTransport" where
  "DrainLocked held s = fold enqueue held s"

section \<open>Operations\<close>

definition Configure :: "u16 \<Rightarrow> u32 \<Rightarrow> P2PTransport \<Rightarrow> P2PTransport" where
  "Configure udp_port advertised_addr s =
     s\<lparr>m_configured_port := udp_port, m_advertised_addr := advertised_addr\<rparr>"

definition Start :: "NetOps \<Rightarrow> u16 \<Rightarrow> P2PTransport \<Rightarrow> u16 \<times> P2PTransport" where
  "Start ops udp_port s = StartLocked ops udp_port False (StopLocked s)"

definition Stop :: "P2PTransport \<Rightarrow> P2PTransport" where
  "Stop s = StopLocked s"

definition Ensure :: "NetOps \<Rightarrow> P2PTransport \<Rightarrow> bool \<times> P2PTransport" where
  "Ensure ops s = RunningLocked ops s"

definition IsReady :: "P2PTransport \<Rightarrow> bool" where
  "IsReady s \<longleftrightarrow> m_socket s \<ge> 0"

definition GetConfiguredPort :: "NetOps \<Rightarrow> P2PTransport \<Rightarrow> u16" where
  "GetConfiguredPort ops s = PortToBind ops s"

definition GetBoundPort :: "P2PTransport \<Rightarrow> u16" where
  "GetBoundPort s = m_bound_port s"

definition GetAdvertisedAddr :: "NetOps \<Rightarrow> P2PTransport \<Rightarrow> u32" where
  "GetAdvertisedAddr ops s =
     (if m_advertised_addr s \<noteq> 0 then m_advertised_addr s
      else case netctl_ip ops of None \<Rightarrow> 0 | Some addr \<Rightarrow> addr)"

definition GetAdvertisedPort :: "NetOps \<Rightarrow> P2PTransport \<Rightarrow> u16" where
  "GetAdvertisedPort ops s =
     (if GetBoundPort s \<noteq> 0 then GetBoundPort s else GetConfiguredPort ops s)"

text \<open>\<open>None\<close> stands for the null pointer.\<close>

definition SendTo :: "NetOps \<Rightarrow> bytes option \<Rightarrow> u32 \<Rightarrow> u32 \<Rightarrow> u16 \<Rightarrow> P2PTransport \<Rightarrow> s32 \<times> P2PTransport" where
  "SendTo ops data len dest_addr dest_port s =
     (let (running, s1) = RunningLocked ops s
      in if \<not> running \<or> (data = None \<and> len \<noteq> 0) then (-1, s1)
         else
           let (n, s2) = tick s1;
               payload = (case data of None \<Rightarrow> [] | Some d \<Rightarrow> take (unat len) d);
               rc = sys_sendto ops n payload (MakeSockaddr dest_addr dest_port)
           in (if rc \<ge> 0 then sint len else -1, s2))"

text \<open>The result code, what is written to the buffer, the sender's address and port, and the state.\<close>

definition RecvFrom ::
  "NetOps \<Rightarrow> (bytes \<times> u32 \<times> u16) list \<Rightarrow> Channel \<Rightarrow> u32 \<Rightarrow> P2PTransport \<Rightarrow>
     s32 \<times> (bytes \<times> u32 \<times> u16) option \<times> P2PTransport" where
  "RecvFrom ops held channel len s =
     (let (running, s1) = RunningLocked ops s
      in if \<not> running then (-1, None, s1)
         else
           let s2 = DrainLocked held s1
           in case m_queues s2 channel of
                [] \<Rightarrow> (-1, None, s2)
              | packet # rest \<Rightarrow>
                  let s3 = s2\<lparr>m_queues := (m_queues s2)(channel := rest),
                              m_queue_bytes := (m_queue_bytes s2)(channel :=
                                m_queue_bytes s2 channel - of_nat (length (pk_data packet)))\<rparr>;
                      n = min len (of_nat (length (pk_data packet)))
                  in (sint n, Some (take (unat n) (pk_data packet), pk_from_addr packet, pk_from_port packet), s3))"

text \<open>The functions of the namespace, on the one instance.\<close>

definition P2PSignalingRecvFrom ::
  "NetOps \<Rightarrow> (bytes \<times> u32 \<times> u16) list \<Rightarrow> u32 \<Rightarrow> P2PTransport \<Rightarrow> s32 \<times> (bytes \<times> u32 \<times> u16) option \<times> P2PTransport" where
  "P2PSignalingRecvFrom ops held len s = RecvFrom ops held Signaling len s"

definition P2PControlRecvFrom ::
  "NetOps \<Rightarrow> (bytes \<times> u32 \<times> u16) list \<Rightarrow> u32 \<Rightarrow> P2PTransport \<Rightarrow> s32 \<times> (bytes \<times> u32 \<times> u16) option \<times> P2PTransport" where
  "P2PControlRecvFrom ops held len s = RecvFrom ops held ControlCh len s"

definition P2PMatching2RecvFrom ::
  "NetOps \<Rightarrow> (bytes \<times> u32 \<times> u16) list \<Rightarrow> u32 \<Rightarrow> P2PTransport \<Rightarrow> s32 \<times> (bytes \<times> u32 \<times> u16) option \<times> P2PTransport" where
  "P2PMatching2RecvFrom ops held len s = RecvFrom ops held Matching2 len s"

section \<open>The invariant\<close>

text \<open>The bytes a channel accounts for are those it holds, and no more than its bound.\<close>

definition queue_ok :: "Packet list \<Rightarrow> u64 \<Rightarrow> bool" where
  "queue_ok q b \<longleftrightarrow> unat b = sum_list (map (length \<circ> pk_data) q) \<and> b \<le> ChannelQueueBytes"

text \<open>The only socket open is the transport's, the port is set only with it, and the daemon is off.\<close>

definition socket_ok :: "P2PTransport \<Rightarrow> bool" where
  "socket_ok s \<longleftrightarrow> open_sockets s = (if m_socket s < 0 then [] else [m_socket s]) \<and>
     (m_socket s < 0 \<longrightarrow> m_bound_port s = 0) \<and> \<not> daemon_jailbroken s"

definition queues_ok :: "P2PTransport \<Rightarrow> bool" where
  "queues_ok s \<longleftrightarrow> (\<forall>c. queue_ok (m_queues s c) (m_queue_bytes s c))"

inductive p2p_reach :: "NetOps \<Rightarrow> JbcCred \<Rightarrow> P2PTransport \<Rightarrow> bool" for ops cred where
  init: "p2p_reach ops cred (init_p2p cred)"
| configure: "p2p_reach ops cred s \<Longrightarrow> p2p_reach ops cred (Configure port addr s)"
| start: "p2p_reach ops cred s \<Longrightarrow> p2p_reach ops cred (snd (Start ops port s))"
| stop: "p2p_reach ops cred s \<Longrightarrow> p2p_reach ops cred (Stop s)"
| ensure: "p2p_reach ops cred s \<Longrightarrow> p2p_reach ops cred (snd (Ensure ops s))"
| send: "p2p_reach ops cred s \<Longrightarrow> p2p_reach ops cred (snd (SendTo ops data len addr port s))"
| recv: "p2p_reach ops cred s \<Longrightarrow> p2p_reach ops cred (snd (snd (RecvFrom ops held channel len s)))"

text \<open>What the calls around the socket keep of the rest of the state.\<close>

definition p2p_core ::
  "P2PTransport \<Rightarrow> s32 \<times> u16 \<times> u16 \<times> (Channel \<Rightarrow> Packet list) \<times> (Channel \<Rightarrow> u64)" where
  "p2p_core s = (m_socket s, m_bound_port s, m_configured_port s, m_queues s, m_queue_bytes s)"

lemma p2p_coreD:
  "p2p_core s' = p2p_core s \<Longrightarrow> m_socket s' = m_socket s \<and> m_bound_port s' = m_bound_port s \<and>
     m_configured_port s' = m_configured_port s \<and> m_queues s' = m_queues s \<and> m_queue_bytes s' = m_queue_bytes s"
  by (simp add: p2p_core_def)

lemmas call_defs = tick_def sceNetSocket_def sceNetBind_def sceNetSocketClose_def jbc_get_cred_def
  jbc_set_cred_def JailbreakViaDaemon_def RejailViaDaemon_def

lemma BindSocket_core: "p2p_core (snd (BindSocket ops port s)) = p2p_core s"
  by (simp add: BindSocket_def jailbroken_bind_def call_defs p2p_core_def Let_def split_beta)

lemma BindSocket_sockets:
  assumes "BindSocket ops port s = (sock, s')" "open_sockets s = []" "\<not> daemon_jailbroken s"
  shows "open_sockets s' = (if sock < 0 then [] else [sock]) \<and> \<not> daemon_jailbroken s'"
  using assms
  by (auto simp: BindSocket_def jailbroken_bind_def call_defs Let_def split_beta split: if_splits)

text \<open>What every attempt of the start keeps, the result holds.\<close>

lemma start_loop_keeps:
  assumes step: "\<And>sock port s. P (sock, s) \<Longrightarrow> sock < 0 \<Longrightarrow> P (BindSocket ops port s)"
    and start: "P (sock, s)" and "start_loop ops udp allow i (sock, port, s) = (sock', port', s')"
  shows "P (sock', s')"
  using start assms(3)
proof (induction "17 - i" arbitrary: i sock port s)
  case 0
  then show ?case by (subst (asm) start_loop.simps) simp
next
  case (Suc k)
  show ?case
  proof (cases "sock = ORBIS_NET_ERROR_EADDRINUSE \<and> allow \<and> udp \<noteq> 0 \<and> i \<le> P2PPortFallbacks \<and> unat udp + i \<le> 0xffff")
    case True
    obtain k2 s2 where b: "BindSocket ops (udp + of_nat i) s = (k2, s2)" by (cases "BindSocket ops (udp + of_nat i) s")
    with True Suc.prems(2) have r: "start_loop ops udp allow (Suc i) (k2, udp + of_nat i, s2) = (sock', port', s')"
      by (subst (asm) start_loop.simps) (simp add: Let_def)
    have "P (k2, s2)" using step [OF Suc.prems(1), of "udp + of_nat i"] True b by simp
    moreover have "k = 17 - Suc i" using Suc.hyps(2) by simp
    ultimately show ?thesis using Suc.hyps(1) r by blast
  next
    case False
    then show ?thesis using Suc.prems by (subst (asm) start_loop.simps) auto
  qed
qed

lemma StartLocked_core:
  "m_configured_port (snd (StartLocked ops port allow s)) = m_configured_port s \<and>
   m_queues (snd (StartLocked ops port allow s)) = m_queues s \<and>
   m_queue_bytes (snd (StartLocked ops port allow s)) = m_queue_bytes s"
proof -
  obtain k0 s0 where b: "BindSocket ops port s = (k0, s0)" by (cases "BindSocket ops port s")
  obtain k p s1 where l: "start_loop ops port allow 1 (k0, port, s0) = (k, p, s1)"
    by (cases "start_loop ops port allow 1 (k0, port, s0)")
  have "(\<lambda>(_, t). p2p_core t = p2p_core s) (k, s1)"
  proof (rule start_loop_keeps [OF _ _ l])
    show "case BindSocket ops p t of (_, t) \<Rightarrow> p2p_core t = p2p_core s"
      if "case (k, t) of (_, t) \<Rightarrow> p2p_core t = p2p_core s" for k p t
      using that BindSocket_core [of ops p t] by (simp add: split_beta)
    show "case (k0, s0) of (_, t) \<Rightarrow> p2p_core t = p2p_core s" using BindSocket_core [of ops port s] b by simp
  qed
  then have "p2p_core s1 = p2p_core s" by simp
  then show ?thesis
    using p2p_coreD [of s1 s] by (simp add: StartLocked_def b l tick_def Let_def split_beta del: One_nat_def)
qed

lemma StartLocked_sockets:
  assumes "open_sockets s = []" "\<not> daemon_jailbroken s" "m_socket s < 0" "m_bound_port s = 0"
  shows "socket_ok (snd (StartLocked ops port allow s))"
proof -
  let ?P = "\<lambda>(sock, t). open_sockets t = (if sock < 0 then [] else [sock]) \<and> \<not> daemon_jailbroken t \<and>
    p2p_core t = p2p_core s"
  have bind: "?P (BindSocket ops p t)"
    if "open_sockets t = []" "\<not> daemon_jailbroken t" "p2p_core t = p2p_core s" for p t
    using BindSocket_sockets [of ops p t] BindSocket_core [of ops p t] that by (cases "BindSocket ops p t") auto
  obtain k0 s0 where b: "BindSocket ops port s = (k0, s0)" by (cases "BindSocket ops port s")
  obtain k p s1 where l: "start_loop ops port allow 1 (k0, port, s0) = (k, p, s1)"
    by (cases "start_loop ops port allow 1 (k0, port, s0)")
  have "?P (k, s1)"
  proof (rule start_loop_keeps [OF _ _ l])
    show "?P (BindSocket ops p t)" if "?P (sock, t)" "sock < 0" for sock p t
      using that bind by simp
    show "?P (k0, s0)" using bind [of s port] assms(1,2) b by simp
  qed
  then show ?thesis
    using assms(3,4) p2p_coreD [of s1 s]
    by (auto simp: StartLocked_def b l tick_def socket_ok_def Let_def split_beta simp del: One_nat_def)
qed

lemma StopLocked_ok: "socket_ok s \<Longrightarrow> socket_ok (StopLocked s) \<and> queues_ok (StopLocked s)"
  by (auto simp: StopLocked_def socket_ok_def queues_ok_def queue_ok_def sceNetSocketClose_def Let_def)

lemma RunningLocked_ok:
  assumes "socket_ok s" "queues_ok s"
  shows "socket_ok (snd (RunningLocked ops s)) \<and> queues_ok (snd (RunningLocked ops s))"
proof -
  let ?s1 = "snd (tick s)"
  have s1: "socket_ok ?s1" "queues_ok ?s1" using assms by (simp_all add: tick_def socket_ok_def queues_ok_def)
  have st: "socket_ok (snd (StartLocked ops p True ?s1))" if "m_socket s < 0" for p
    by (rule StartLocked_sockets) (use s1 that in \<open>auto simp: socket_ok_def tick_def\<close>)
  have q: "queues_ok (snd (StartLocked ops p True ?s1))" for p
    using s1(2) StartLocked_core [of ops p True ?s1] by (simp add: queues_ok_def)
  have up: "socket_ok (t\<lparr>m_retry_after := x\<rparr>) = socket_ok t" "queues_ok (t\<lparr>m_retry_after := x\<rparr>) = queues_ok t" for t x
    by (simp_all add: socket_ok_def queues_ok_def)
  show ?thesis
    using s1 st q by (auto simp: RunningLocked_def tick_def up Let_def split_beta)
qed

section \<open>Queues\<close>

lemma unat_len:
  "length (data :: bytes) \<le> 2048 \<Longrightarrow> unat (of_nat (length data) :: u64) = length data"
  by (simp add: unsigned_of_nat take_bit_nat_eq_self)

lemma queues_okD:
  assumes "queues_ok s"
  shows "unat (m_queue_bytes s c) = sum_list (map (length \<circ> pk_data) (m_queues s c))"
    "unat (m_queue_bytes s c) \<le> 40960"
proof -
  have "queue_ok (m_queues s c) (m_queue_bytes s c)" using assms by (simp add: queues_ok_def)
  then show "unat (m_queue_bytes s c) = sum_list (map (length \<circ> pk_data) (m_queues s c))"
    "unat (m_queue_bytes s c) \<le> 40960" by (simp_all add: queue_ok_def word_le_nat_alt)
qed

lemma enqueue_ok:
  assumes "queues_ok s"
  shows "queues_ok (enqueue d s)"
proof -
  obtain data a q where d: "d = (data, a, q)" by (cases d)
  let ?p = "take RecvBufferSize data" and ?c = "Classify (take RecvBufferSize data)"
  have le: "length ?p \<le> 2048" by simp
  then have l: "unat (of_nat (length ?p) :: u64) = length ?p" by (rule unat_len)
  note b = queues_okD [OF assms]
  have nowrap: "unat (m_queue_bytes s ?c + of_nat (length ?p)) = unat (m_queue_bytes s ?c) + length ?p"
    by (subst unat_add_lem [THEN iffD1]) (use b(2) [of ?c] l le in \<open>auto simp del: length_take\<close>)
  show ?thesis
    using assms b(1) nowrap
    by (auto simp: enqueue_def d queues_ok_def queue_ok_def Let_def not_less simp del: length_take)
qed

lemma DrainLocked_ok: "queues_ok s \<Longrightarrow> queues_ok (DrainLocked held s)"
  unfolding DrainLocked_def by (induction held arbitrary: s) (auto intro: enqueue_ok)

lemma enqueue_frame:
  "m_socket (enqueue d s) = m_socket s \<and> m_bound_port (enqueue d s) = m_bound_port s \<and>
   open_sockets (enqueue d s) = open_sockets s \<and> daemon_jailbroken (enqueue d s) = daemon_jailbroken s"
  by (simp add: enqueue_def Let_def split: prod.split)

lemma DrainLocked_frame:
  "m_socket (DrainLocked held s) = m_socket s \<and> m_bound_port (DrainLocked held s) = m_bound_port s \<and>
   open_sockets (DrainLocked held s) = open_sockets s \<and> daemon_jailbroken (DrainLocked held s) = daemon_jailbroken s"
  unfolding DrainLocked_def by (induction held arbitrary: s) (auto simp: enqueue_frame)

lemma DrainLocked_socket_ok: "socket_ok (DrainLocked held s) = socket_ok s"
  by (simp add: socket_ok_def DrainLocked_frame)

lemma pop_ok:
  assumes "queues_ok s" "m_queues s c = packet # rest"
  shows "queues_ok (s\<lparr>m_queues := (m_queues s)(c := rest),
    m_queue_bytes := (m_queue_bytes s)(c := m_queue_bytes s c - of_nat (length (pk_data packet)))\<rparr>)"
proof -
  have q: "queue_ok (packet # rest) (m_queue_bytes s c)" using assms by (metis queues_ok_def)
  then have le: "length (pk_data packet) \<le> unat (m_queue_bytes s c)" "unat (m_queue_bytes s c) \<le> 40960"
    by (auto simp: queue_ok_def word_le_nat_alt)
  then have l: "unat (of_nat (length (pk_data packet)) :: u64) = length (pk_data packet)"
    by (simp add: unsigned_of_nat take_bit_nat_eq_self)
  have "unat (m_queue_bytes s c - of_nat (length (pk_data packet))) = unat (m_queue_bytes s c) - length (pk_data packet)"
    by (subst unat_sub) (use le l in \<open>auto simp: word_le_nat_alt\<close>)
  then have "queue_ok rest (m_queue_bytes s c - of_nat (length (pk_data packet)))"
    using q by (auto simp: queue_ok_def word_le_nat_alt)
  then show ?thesis using assms(1) by (simp add: queues_ok_def)
qed

lemma RecvFrom_ok:
  assumes "socket_ok s" "queues_ok s"
  shows "socket_ok (snd (snd (RecvFrom ops held c len s))) \<and> queues_ok (snd (snd (RecvFrom ops held c len s)))"
proof -
  obtain running s1 where r: "RunningLocked ops s = (running, s1)" by (cases "RunningLocked ops s")
  then have s1: "socket_ok s1" "queues_ok s1" using RunningLocked_ok [OF assms, of ops] by simp_all
  let ?s2 = "DrainLocked held s1"
  have s2: "socket_ok ?s2" "queues_ok ?s2" using s1 by (simp_all add: DrainLocked_socket_ok DrainLocked_ok)
  show ?thesis
  proof (cases "m_queues ?s2 c")
    case Nil
    then show ?thesis using s1 s2 by (simp add: RecvFrom_def r Let_def)
  next
    case (Cons packet rest)
    have "socket_ok (?s2\<lparr>m_queues := x, m_queue_bytes := y\<rparr>)" for x y using s2(1) by (simp add: socket_ok_def)
    with s1 pop_ok [OF s2(2) Cons] show ?thesis by (simp add: RecvFrom_def r Cons Let_def)
  qed
qed

lemma p2p_reach_ok: "p2p_reach ops cred s \<Longrightarrow> socket_ok s \<and> queues_ok s"
proof (induction rule: p2p_reach.induct)
  case init
  then show ?case by (simp add: init_p2p_def socket_ok_def queues_ok_def queue_ok_def)
next
  case (configure s port addr)
  then show ?case by (simp add: Configure_def socket_ok_def queues_ok_def)
next
  case (start s port)
  then have st: "socket_ok (StopLocked s)" "queues_ok (StopLocked s)" using StopLocked_ok by blast+
  have "m_socket (StopLocked s) < 0" by (simp add: StopLocked_def Let_def)
  with st show ?case
    using StartLocked_sockets [of "StopLocked s" ops port False] StartLocked_core [of ops port False "StopLocked s"]
    by (simp add: Start_def queues_ok_def socket_ok_def)
next
  case (stop s)
  then show ?case using StopLocked_ok by (simp add: Stop_def)
next
  case (ensure s)
  then show ?case using RunningLocked_ok by (simp add: Ensure_def)
next
  case (send s data len addr port)
  then have r: "socket_ok (snd (RunningLocked ops s))" "queues_ok (snd (RunningLocked ops s))"
    using RunningLocked_ok by blast+
  have "snd (SendTo ops data len addr port s) = snd (RunningLocked ops s) \<or>
      snd (SendTo ops data len addr port s) = snd (tick (snd (RunningLocked ops s)))"
    by (simp add: SendTo_def Let_def split_beta)
  with r show ?case by (auto simp: tick_def socket_ok_def queues_ok_def)
next
  case (recv s held channel len)
  then show ?case using RecvFrom_ok by blast
qed

section \<open>Properties\<close>


definition ex_ops :: NetOps where
  "ex_ops = \<lparr>sys_socket = (\<lambda>n. 3), sys_bind = (\<lambda>n sa. 0), sys_getsockname = (\<lambda>n p. (0, p)), sys_sendto = (\<lambda>n d sa. 0),
     sys_now = (\<lambda>n. 1000000 * (int n + 1)), sys_get_cred = (\<lambda>n. (0, zero_cred)), sys_set_cred = (\<lambda>n. (0, zero_cred)),
     sys_daemon = (\<lambda>n. False), is_ps5 = False, settings_p2p_port = 0, netctl_ip = None\<rparr>"


definition packet_of :: "bytes \<times> u32 \<times> u16 \<Rightarrow> Packet" where
  "packet_of d = (case d of (data, a, q) \<Rightarrow> \<lparr>pk_data = take RecvBufferSize data, pk_from_addr = a, pk_from_port = q\<rparr>)"

definition held_for :: "Channel \<Rightarrow> (bytes \<times> u32 \<times> u16) list \<Rightarrow> Packet list" where
  "held_for c held = filter (\<lambda>p. Classify (pk_data p) = c) (map packet_of held)"

lemma enqueue_other:
  "Classify (pk_data (packet_of d)) \<noteq> c \<Longrightarrow> m_queues (enqueue d s) c = m_queues s c \<and>
     m_queue_bytes (enqueue d s) c = m_queue_bytes s c"
  by (auto simp: enqueue_def packet_of_def Let_def split: prod.split)

lemma enqueue_fits:
  assumes "queues_ok s" "Classify (pk_data (packet_of d)) = c"
    "unat (m_queue_bytes s c) + length (pk_data (packet_of d)) \<le> 40960"
  shows "m_queues (enqueue d s) c = m_queues s c @ [packet_of d]"
    "unat (m_queue_bytes (enqueue d s) c) = unat (m_queue_bytes s c) + length (pk_data (packet_of d))"
proof -
  obtain data a q where d: "d = (data, a, q)" by (cases d)
  let ?p = "take RecvBufferSize data"
  have le: "length ?p \<le> 2048" by simp
  then have l: "unat (of_nat (length ?p) :: u64) = length ?p" by (rule unat_len)
  have n: "unat (m_queue_bytes s c + of_nat (length ?p)) = unat (m_queue_bytes s c) + length ?p"
    by (subst unat_add_lem [THEN iffD1]) (use assms(3) l in \<open>auto simp: d packet_of_def simp del: length_take\<close>)
  have fits: "\<not> m_queue_bytes s c + of_nat (length ?p) > ChannelQueueBytes"
    using assms(3) n by (simp add: word_less_nat_alt d packet_of_def del: length_take)
  with assms(2) have e: "m_queues (enqueue d s) c = m_queues s c @ [packet_of d]"
    "m_queue_bytes (enqueue d s) c = m_queue_bytes s c + of_nat (length ?p)"
    by (simp_all add: enqueue_def packet_of_def d Let_def)
  show "m_queues (enqueue d s) c = m_queues s c @ [packet_of d]" by (rule e(1))
  show "unat (m_queue_bytes (enqueue d s) c) = unat (m_queue_bytes s c) + length (pk_data (packet_of d))"
    unfolding e(2) n by (simp add: d packet_of_def)
qed

lemma DrainLocked_fits:
  assumes "queues_ok s" "unat (m_queue_bytes s c) + sum_list (map (length \<circ> pk_data) (held_for c held)) \<le> 40960"
  shows "m_queues (DrainLocked held s) c = m_queues s c @ held_for c held"
  using assms
proof (induction held arbitrary: s)
  case Nil
  then show ?case by (simp add: DrainLocked_def held_for_def)
next
  case (Cons d held)
  have step: "DrainLocked (d # held) s = DrainLocked held (enqueue d s)" by (simp add: DrainLocked_def)
  show ?case
  proof (cases "Classify (pk_data (packet_of d)) = c")
    case True
    then have h: "held_for c (d # held) = packet_of d # held_for c held" by (simp add: held_for_def)
    have f: "unat (m_queue_bytes s c) + length (pk_data (packet_of d)) \<le> 40960" using Cons.prems(2) h by simp
    note e = enqueue_fits [OF Cons.prems(1) True f]
    show ?thesis
      using Cons.IH [OF enqueue_ok [OF Cons.prems(1)], of d] Cons.prems(2) by (simp add: step h e)
  next
    case False
    then have h: "held_for c (d # held) = held_for c held" by (simp add: held_for_def)
    show ?thesis
      using Cons.IH [OF enqueue_ok [OF Cons.prems(1)], of d] Cons.prems(2) enqueue_other [OF False, of s]
      by (simp add: step h)
  qed
qed


definition ex_started :: P2PTransport where
  "ex_started = snd (Ensure ex_ops (init_p2p zero_cred))"

lemma ex_started: "m_socket ex_started = 3" "m_queues ex_started c = []" "m_queue_bytes ex_started c = 0"
  by (simp_all add: ex_started_def Ensure_def RunningLocked_def StartLocked_def PortToBind_def ex_ops_def init_p2p_def
      BindSocket_def call_defs start_loop.simps [where sock = 3] Let_def)


text \<open>
  Each packet of the signaling protocol arrives in the channel its receive loop
  reads: the control packets in the control channel, all others, and the STUN answers of the
  server, in the signaling channel; none is taken for matching2 traffic. The STUN answers have no
  magic, and one that reports the address 83.72.65.68, which reads as the magic, is not covered.
\<close>

theorem packets_classified:
  assumes "packet_wf p" and "\<forall>q. p = PktStunPing q \<longrightarrow> sp_cmd q = 1"
    and "ext_ip e \<noteq> 0x44414853"
  shows "Classify (take RecvBufferSize (enc_packet p)) = (case p of PktControl _ \<Rightarrow> ControlCh | _ \<Rightarrow> Signaling) \<and>
    Classify (take RecvBufferSize (enc_stun_echo e)) = Signaling"
proof
  show "Classify (take RecvBufferSize (enc_packet p)) = (case p of PktControl _ \<Rightarrow> ControlCh | _ \<Rightarrow> Signaling)"
    using assms(1,2) by (cases p) (auto simp: Classify_def enc_defs)
  have "le_bytes 4 (ext_ip e) \<noteq> [0x53, 0x48, 0x41, 0x44]"
  proof
    assume "le_bytes 4 (ext_ip e) = [0x53, 0x48, 0x41, 0x44]"
    then have "le_word (le_bytes 4 (ext_ip e)) = (le_word [0x53, 0x48, 0x41, 0x44] :: u32)" by simp
    with assms(3) show False by (simp add: le_word_le_bytes)
  qed
  then show "Classify (take RecvBufferSize (enc_stun_echo e)) = Signaling"
    by (simp add: Classify_def enc_stun_echo_def)
qed

theorem packets_classified_witness:
  "Classify (take RecvBufferSize (enc_packet (PktControl zero_control))) = ControlCh"
  using packets_classified [of "PktControl zero_control" "\<lparr>ext_ip = 0, ext_port = 0\<rparr>"]
  by (simp add: control_wf_def zero_control_def)

definition port_net :: "(u16 \<Rightarrow> bool) \<Rightarrow> NetOps \<Rightarrow> bool" where
  "port_net busy ops \<longleftrightarrow> (\<forall>n. sys_socket ops n \<ge> 0) \<and>
     (\<forall>n sa. sys_bind ops n sa = (if busy (swap16 (sin_port sa)) then ORBIS_NET_ERROR_EADDRINUSE else 0)) \<and>
     (\<forall>n p. sys_getsockname ops n p = (0, p))"

lemma BindSocket_port:
  assumes "port_net busy ops" "BindSocket ops port s = (sock, s')"
  shows "busy port \<Longrightarrow> sock = ORBIS_NET_ERROR_EADDRINUSE"
    "\<not> busy port \<Longrightarrow> sock \<ge> 0 \<and> bound_ports s' sock = swap16 port"
proof -
  have b: "sys_bind ops n (MakeSockaddr 0 (swap16 port)) = (if busy port then ORBIS_NET_ERROR_EADDRINUSE else 0)"
    "sys_socket ops n \<ge> 0" for n
    using assms(1) by (simp_all add: port_net_def MakeSockaddr_def)
  have nn: "\<not> sys_socket ops n < 0" for n using b(2) [of n] by simp
  show "busy port \<Longrightarrow> sock = ORBIS_NET_ERROR_EADDRINUSE"
    using assms(2) b(1) nn by (auto simp: BindSocket_def jailbroken_bind_def call_defs Let_def split_beta)
  show "\<not> busy port \<Longrightarrow> sock \<ge> 0 \<and> bound_ports s' sock = swap16 port"
    using assms(2) b nn
    by (auto simp: BindSocket_def sceNetSocket_def sceNetBind_def tick_def Let_def MakeSockaddr_def)
qed

text \<open>The state of the loop: the last attempt's result, and every attempt before it was refused.\<close>

definition attempt :: "(u16 \<Rightarrow> bool) \<Rightarrow> u16 \<Rightarrow> nat \<Rightarrow> s32 \<Rightarrow> u16 \<Rightarrow> P2PTransport \<Rightarrow> bool" where
  "attempt busy udp i sock port s \<longleftrightarrow> port = udp + of_nat i \<and> unat udp + i \<le> 0xffff \<and>
     (\<forall>j < i. busy (udp + of_nat j)) \<and>
     (if busy port then sock = ORBIS_NET_ERROR_EADDRINUSE else sock \<ge> 0 \<and> bound_ports s sock = swap16 port)"

lemma start_loop_port:
  assumes "port_net busy ops" "udp \<noteq> 0" "attempt busy udp i sock port s" "i \<le> 16"
    "start_loop ops udp True (Suc i) (sock, port, s) = (sock', port', s')"
  shows "\<exists>k \<le> 16. attempt busy udp k sock' port' s' \<and>
    (busy port' \<longrightarrow> k = 16 \<or> unat udp + k = 0xffff)"
  using assms(3-5)
proof (induction "16 - i" arbitrary: i sock port s)
  case 0
  then have "i = 16" by simp
  with 0 have "sock' = sock" "port' = port" "s' = s" by (simp_all add: start_loop.simps [where i = 17])
  with 0 \<open>i = 16\<close> show ?case by auto
next
  case (Suc n)
  show ?case
  proof (cases "busy port \<and> unat udp + Suc i \<le> 0xffff")
    case True
    then have e: "sock = ORBIS_NET_ERROR_EADDRINUSE" using Suc.prems(1) by (simp add: attempt_def)
    let ?p = "udp + of_nat (Suc i)"
    obtain k2 s2 where b: "BindSocket ops ?p s = (k2, s2)" by (cases "BindSocket ops ?p s")
    have i: "Suc i \<le> 16" using Suc.hyps(2) by simp
    have r: "start_loop ops udp True (Suc (Suc i)) (k2, ?p, s2) = (sock', port', s')"
      using Suc.prems(3) e True assms(2) b i
      by (subst (asm) start_loop.simps) (simp add: Let_def del: of_nat_Suc)
    have "\<forall>j < Suc i. busy (udp + of_nat j)"
      using True Suc.prems(1) by (auto simp: attempt_def less_Suc_eq)
    then have "attempt busy udp (Suc i) k2 ?p s2"
      using BindSocket_port [OF assms(1) b] True by (simp add: attempt_def del: of_nat_Suc)
    from Suc.hyps(1) [OF _ this i r] Suc.hyps(2) show ?thesis by simp
  next
    case False
    then have "\<not> (sock = ORBIS_NET_ERROR_EADDRINUSE \<and> unat udp + Suc i \<le> 0xffff)"
      using Suc.prems(1) by (auto simp: attempt_def split: if_splits)
    then have "sock' = sock" "port' = port" "s' = s"
      using Suc.prems(3) by (subst (asm) start_loop.simps; auto)+
    with False Suc.prems(1,2) show ?thesis by (intro exI [of _ i]) (auto simp: attempt_def)
  qed
qed

text \<open>
  Starting with fallback takes the first free port: when a port is refused exactly
  when it is busy, the transport ends on the first of the requested port and the 16 after it that
  is not, never past 0xffff, and reports 0 only when all of them are busy.
\<close>

theorem StartLocked_first_free_port:
  assumes "port_net busy ops" and "udp_port \<noteq> 0" and "StartLocked ops udp_port True s = (port, s')"
  shows "(if port = 0 then m_socket s' = m_socket s
     else m_socket s' \<ge> 0 \<and> m_bound_port s' = port) \<and>
    (if \<exists>i \<le> 16. unat udp_port + i \<le> 0xffff \<and> \<not> busy (udp_port + of_nat i)
     then \<exists>i \<le> 16. unat udp_port + i \<le> 0xffff \<and> port = udp_port + of_nat i \<and> \<not> busy port \<and>
            (\<forall>j < i. busy (udp_port + of_nat j))
     else port = 0)"
proof -
  obtain k0 s0 where b: "BindSocket ops udp_port s = (k0, s0)" by (cases "BindSocket ops udp_port s")
  obtain sock p s1 where l: "start_loop ops udp_port True (Suc 0) (k0, udp_port, s0) = (sock, p, s1)"
    by (cases "start_loop ops udp_port True (Suc 0) (k0, udp_port, s0)")
  have "unat udp_port < 2 ^ 16" using unsigned_less [of udp_port] by simp
  then have "attempt busy udp_port 0 k0 udp_port s0"
    using BindSocket_port [OF assms(1) b] by (auto simp: attempt_def)
  from start_loop_port [OF assms(1,2) this _ l] obtain k where
    k: "k \<le> 16" "attempt busy udp_port k sock p s1" "busy p \<longrightarrow> k = 16 \<or> unat udp_port + k = 0xffff" by auto
  have p: "p = udp_port + of_nat k" "unat udp_port + k \<le> 0xffff" "\<forall>j < k. busy (udp_port + of_nat j)"
    using k(2) by (simp_all add: attempt_def)
  have u: "unat p = unat udp_port + k"
    unfolding p(1) using p(2) k(1)
    by (subst unat_add_lem [THEN iffD1]) (simp_all add: unsigned_of_nat take_bit_nat_eq_self)
  then have p0: "p \<noteq> 0" using assms(2) by (auto simp: unat_eq_0 [symmetric] simp del: unat_eq_0)
  show ?thesis
  proof (cases "busy p")
    case True
    then have "sock = ORBIS_NET_ERROR_EADDRINUSE" using k(2) by (simp add: attempt_def)
    then have r: "port = 0" "s' = s1" using assms(3) by (simp_all add: StartLocked_def b l)
    have "p2p_core s1 = p2p_core s"
      using BindSocket_core [of ops] b l start_loop_keeps [where P = "\<lambda>x. p2p_core (snd x) = p2p_core s", OF _ _ l]
      by (metis snd_conv)
    then have m: "m_socket s1 = m_socket s" using p2p_coreD by blast
    have "busy (udp_port + of_nat i)" if "i \<le> 16" "unat udp_port + i \<le> 0xffff" for i
      using that p True k(3) by (cases "i < k"; cases "i = k") auto
    then show ?thesis using r m by auto
  next
    case False
    then have sk: "sock \<ge> 0" "bound_ports s1 sock = swap16 p" using k(2) by (simp_all add: attempt_def)
    have g: "sys_getsockname ops n q = (0, q)" for n q using assms(1) by (simp add: port_net_def)
    have r: "port = p" "m_socket s' = sock" "m_bound_port s' = p"
      using assms(3) sk p0 by (auto simp: StartLocked_def b l g tick_def Let_def)
    show ?thesis using r sk(1) p0 p k(1) False by (auto intro!: exI [of _ k])
  qed
qed

definition busy_ops :: NetOps where
  "busy_ops = ex_ops\<lparr>sys_bind := (\<lambda>n sa. if swap16 (sin_port sa) \<in> {3658, 3659}
     then ORBIS_NET_ERROR_EADDRINUSE else 0)\<rparr>"

theorem StartLocked_first_free_port_witness:
  "fst (StartLocked busy_ops 3658 True (init_p2p zero_cred)) = 3660"
proof -
  let ?busy = "\<lambda>p. p \<in> {3658, 3659 :: u16}"
  have n: "port_net ?busy busy_ops" by (simp add: port_net_def busy_ops_def ex_ops_def)
  obtain port s' where r: "StartLocked busy_ops 3658 True (init_p2p zero_cred) = (port, s')"
    by (cases "StartLocked busy_ops 3658 True (init_p2p zero_cred)")
  have ex: "\<exists>i \<le> 16. unat (3658 :: u16) + i \<le> 0xffff \<and> \<not> ?busy (3658 + of_nat i)"
    by (rule exI [of _ 2]) simp
  from StartLocked_first_free_port [OF n _ r] ex obtain i where
    i: "i \<le> 16" "port = 3658 + of_nat i" "\<not> ?busy port" "\<forall>j < i. ?busy (3658 + of_nat j)" by auto
  have "i \<noteq> 0" by (rule notI) (use i(2,3) in simp)
  moreover have "i \<noteq> 1" by (rule notI) (use i(2,3) in simp)
  moreover have "\<not> 2 < i"
  proof
    assume "2 < i"
    with i(4) have "?busy (3658 + of_nat 2)" by blast
    then show False by simp
  qed
  ultimately have "i = 2" by linarith
  then show ?thesis using i(2) r by simp
qed

text \<open>
  Binding with borrowed rights gives them back: when the credential calls succeed,
  BindSocket leaves the process with the credentials it had, whether or not the bind succeeded.
\<close>

theorem BindSocket_restores_cred:
  assumes "\<forall>n. fst (sys_get_cred ops n) = 0 \<and> fst (sys_set_cred ops n) = 0"
  shows "proc_cred (snd (BindSocket ops udp_port s)) = proc_cred s"
  using assms by (simp add: BindSocket_def jailbroken_bind_def call_defs Let_def split_beta)

theorem BindSocket_restores_cred_witness:
  "proc_cred (snd (BindSocket busy_ops 3658 (init_p2p zero_cred))) = zero_cred"
  using BindSocket_restores_cred [of busy_ops 3658 "init_p2p zero_cred"]
  by (simp add: busy_ops_def ex_ops_def init_p2p_def)

text \<open>
  When reading the credentials fails, the code goes on: it gives the process the
  contents of the structure the failed call left, with the jailbreak values, for the bind, and
  those contents again when it is done. The credentials the process had are lost.
\<close>

theorem BindSocket_failed_get_cred:
  assumes "\<not> is_ps5 ops" and "\<forall>n. sys_socket ops n \<ge> 0" and "\<forall>n sa. sys_bind ops n sa < 0"
    and "\<forall>n. fst (sys_get_cred ops n) \<noteq> 0 \<and> snd (sys_get_cred ops n) = junk"
    and "\<forall>n. fst (sys_set_cred ops n) = 0"
  shows "proc_cred (snd (BindSocket ops udp_port s)) = junk"
proof -
  have "\<not> sys_socket ops n < 0" for n using assms(2) by (simp add: not_less)
  then show ?thesis
    using assms by (simp add: BindSocket_def jailbroken_bind_def call_defs Let_def split_beta)
qed

theorem BindSocket_failed_get_cred_witness:
  "proc_cred (snd (BindSocket (ex_ops\<lparr>sys_bind := \<lambda>n sa. -1, sys_get_cred := \<lambda>n. (-1, zero_cred)\<rparr>) 3658
     (init_p2p (zero_cred\<lparr>cr_uid := 1\<rparr>)))) = zero_cred"
  by (rule BindSocket_failed_get_cred) (simp_all add: ex_ops_def)

text \<open>
  Empty datagrams are not bounded: the byte account does not see them, so a sender of
  empty datagrams makes the signaling queue grow by every one of them, whatever the bound.
\<close>

theorem empty_datagrams_unbounded:
  assumes "queues_ok s"
  shows "length (m_queues (DrainLocked (replicate n ([], addr, port)) s) Signaling) = length (m_queues s Signaling) + n \<and>
    m_queue_bytes (DrainLocked (replicate n ([], addr, port)) s) = m_queue_bytes s"
  using assms
proof (induction n arbitrary: s)
  case 0
  then show ?case by (simp add: DrainLocked_def)
next
  case (Suc n)
  have "\<not> m_queue_bytes s Signaling > ChannelQueueBytes"
    using queues_okD(2) [OF Suc.prems, of Signaling] by (simp add: word_less_nat_alt)
  then have e: "m_queue_bytes (enqueue ([], addr, port) s) = m_queue_bytes s"
    "length (m_queues (enqueue ([], addr, port) s) Signaling) = Suc (length (m_queues s Signaling))"
    by (simp_all add: enqueue_def Classify_def Let_def)
  have "DrainLocked (replicate (Suc n) ([], addr, port)) s =
      DrainLocked (replicate n ([], addr, port)) (enqueue ([], addr, port) s)" by (simp add: DrainLocked_def)
  then show ?case using Suc.IH [OF enqueue_ok [OF Suc.prems]] e by simp
qed

theorem empty_datagrams_unbounded_witness:
  "length (m_queues (DrainLocked (replicate 1000000 ([], 1, 2)) (init_p2p zero_cred)) Signaling) = 1000000"
proof -
  have "queues_ok (init_p2p zero_cred)" using p2p_reach_ok [OF p2p_reach.init] by blast
  from empty_datagrams_unbounded [OF this, of 1000000 1 2] show ?thesis by (simp add: init_p2p_def)
qed

end
