(* ===== verification/ByteFile.thy ===== *)
theory ByteFile
  imports Prelude
begin

text \<open>
  Reading a file image in memory: the outcome of a parser, in which a read outside the image and
  an exception are values of their own, checked reads, and big-endian integers
  (common/endian.h).
\<close>

section \<open>Outcomes\<close>

datatype 'a outcome = OutOfBounds | Threw | Returned 'a

fun bind_outcome :: "'a outcome \<Rightarrow> ('a \<Rightarrow> 'b outcome) \<Rightarrow> 'b outcome" where
  "bind_outcome OutOfBounds f = OutOfBounds"
| "bind_outcome Threw f = Threw"
| "bind_outcome (Returned x) f = f x"

named_theorems returned_iff \<open>when a composed outcome returns\<close>

lemma bind_Returned [returned_iff]: "bind_outcome m f = Returned y \<longleftrightarrow> (\<exists>x. m = Returned x \<and> f x = Returned y)"
  by (cases m) auto

lemma Let_Returned [returned_iff]: "(let x = v in f x) = Returned y \<longleftrightarrow> f v = Returned y"
  by simp

section \<open>Checked reads\<close>

text \<open>\<open>n\<close> bytes at an offset: the \<open>memcpy\<close> out of the image.\<close>

definition read_mem :: "bytes \<Rightarrow> nat \<Rightarrow> nat \<Rightarrow> bytes outcome" where
  "read_mem buf off n = (if off + n \<le> length buf then Returned (take n (drop off buf)) else OutOfBounds)"

text \<open>The C string at an offset, which ends at the first NUL.\<close>

definition read_cstr :: "bytes \<Rightarrow> nat \<Rightarrow> bytes outcome" where
  "read_cstr buf off = (if 0 \<in> set (drop off buf) then Returned (takeWhile (\<lambda>b. b \<noteq> 0) (drop off buf)) else OutOfBounds)"

lemma read_mem_app [simp]:
  "off = length pre \<Longrightarrow> n = length x \<Longrightarrow> read_mem (pre @ x @ post) off n = Returned x"
  by (simp add: read_mem_def)

lemma read_mem_at:
  "drop off buf = x @ post \<Longrightarrow> n = length x \<Longrightarrow> off \<le> length buf \<Longrightarrow> read_mem buf off n = Returned x"
  by (auto simp: read_mem_def dest: arg_cong [of _ _ length])

lemma read_mem_bound: "read_mem buf off n = Returned x \<Longrightarrow> off + n \<le> length buf \<and> length x = n"
  by (auto simp: read_mem_def split: if_splits)

lemma read_cstr_at:
  "drop off buf = x @ 0 # post \<Longrightarrow> 0 \<notin> set x \<Longrightarrow> read_cstr buf off = Returned x"
proof -
  assume d: "drop off buf = x @ 0 # post" and x: "0 \<notin> set x"
  have "takeWhile (\<lambda>b. b \<noteq> 0) (x @ 0 # post) = x" using x by (induction x) auto
  then show "read_cstr buf off = Returned x" by (simp add: read_cstr_def d)
qed

lemma drop_past: "drop off buf = x @ post \<Longrightarrow> off \<le> length buf \<Longrightarrow>
  drop (off + length x) buf = post \<and> off + length x \<le> length buf"
  by (metis append_eq_conv_conj drop_drop add.commute length_append length_drop le_add_diff_inverse add_le_cancel_left le_add1)

section \<open>Big-endian integers\<close>

definition be_bytes :: "nat \<Rightarrow> 'a::len word \<Rightarrow> bytes" where
  "be_bytes n w = rev (le_bytes n w)"

definition be_word :: "bytes \<Rightarrow> 'a::len word" where
  "be_word bs = le_word (rev bs)"

lemma length_be_bytes [simp]: "length (be_bytes n w) = n"
  by (simp add: be_bytes_def)

lemma be_bytes_be_word:
  "length bs = n \<Longrightarrow> 8 * n \<le> LENGTH('a) \<Longrightarrow> be_bytes n (be_word bs :: 'a::len word) = bs"
  using le_bytes_le_word [of "rev bs", where 'a = 'a] by (simp add: be_bytes_def be_word_def)

lemma be_word_be_bytes [simp]:
  fixes w :: "'a::len word"
  shows "LENGTH('a) \<le> 8 * n \<Longrightarrow> be_word (be_bytes n w) = w"
  by (simp add: be_word_def be_bytes_def le_word_le_bytes)

end
