(* ===== verification/NpBind.thy ===== *)
theory NpBind
  imports ByteFile
begin

text \<open>
  The npbind file of a title (core/file_format/npbind.cpp, npbind.h): the header, the bodies of
  four tagged entries, and the digest, loaded from an image in memory; opening and reading the
  file itself is the caller's.
\<close>

section \<open>Data\<close>

definition NPBIND_MAGIC :: u32 where [simp]: "NPBIND_MAGIC = 0xD294A018"

record NpBindHeader =
  nh_magic :: u32
  nh_version :: u32
  nh_file_size :: u64
  nh_entry_size :: u64
  nh_num_entries :: u64
  nh_padding :: bytes

record NPBindEntryRaw =
  en_type :: u16
  en_size :: u16
  en_data :: bytes

record NPBindBody =
  nb_npcommid :: NPBindEntryRaw
  nb_trophy :: NPBindEntryRaw
  nb_unk1 :: NPBindEntryRaw
  nb_unk2 :: NPBindEntryRaw

record NPBindFile =
  m_header :: NpBindHeader
  m_bodies :: "NPBindBody list"
  m_digest :: bytes

definition kHeaderSize :: nat where [simp]: "kHeaderSize = 0x80"

definition zero_header :: NpBindHeader where
  "zero_header = \<lparr>nh_magic = 0, nh_version = 0, nh_file_size = 0, nh_entry_size = 0, nh_num_entries = 0,
     nh_padding = replicate 0x60 0\<rparr>"

definition Clear :: "NPBindFile \<Rightarrow> NPBindFile" where
  "Clear f = f\<lparr>m_header := zero_header, m_bodies := [], m_digest := replicate 20 0\<rparr>"

text \<open>The packed header as the \<open>memcpy\<close> fills it.\<close>

definition dec_header :: "bytes \<Rightarrow> NpBindHeader" where
  "dec_header b = \<lparr>nh_magic = be_word (mem_slice 0 4 b), nh_version = be_word (mem_slice 4 4 b),
     nh_file_size = be_word (mem_slice 8 8 b), nh_entry_size = be_word (mem_slice 16 8 b),
     nh_num_entries = be_word (mem_slice 24 8 b), nh_padding = mem_slice 32 0x60 b\<rparr>"

section \<open>Loading\<close>

text \<open>The lambda \<open>read_entry\<close>: the entry with the next offset, or \<open>None\<close> for false.\<close>

definition read_entry :: "bytes \<Rightarrow> nat \<Rightarrow> (NPBindEntryRaw \<times> nat) option outcome" where
  "read_entry data off =
     (if off + 4 > length data then Returned None
      else bind_outcome (read_mem data off 2) (\<lambda>ty.
           bind_outcome (read_mem data (off + 2) 2) (\<lambda>sz.
             let size = be_word sz :: u16
             in if off + 4 + unat size > length data then Returned None
                else bind_outcome (read_mem data (off + 4) (unat size)) (\<lambda>d.
                  Returned (Some (\<lparr>en_type = be_word ty, en_size = size, en_data = d\<rparr>,
                                  off + 4 + unat size))))))"

definition read_next :: "bytes \<Rightarrow> nat \<Rightarrow> (NPBindEntryRaw \<Rightarrow> nat \<Rightarrow> 'a option outcome) \<Rightarrow> 'a option outcome" where
  "read_next data off k =
     bind_outcome (read_entry data off) (\<lambda>r. case r of None \<Rightarrow> Returned None | Some (e, off') \<Rightarrow> k e off')"

definition read_body :: "bytes \<Rightarrow> nat \<Rightarrow> (NPBindBody \<times> nat) option outcome" where
  "read_body data off =
     (if off + 4 * 4 > length data then Returned None
      else read_next data off (\<lambda>npcommid o1. read_next data o1 (\<lambda>trophy o2.
           read_next data o2 (\<lambda>unk1 o3. read_next data o3 (\<lambda>unk2 o4.
             Returned (Some (\<lparr>nb_npcommid = npcommid, nb_trophy = trophy, nb_unk1 = unk1, nb_unk2 = unk2\<rparr>,
               if o4 + 0x98 \<le> length data then o4 + 0x98 else length data)))))))"

text \<open>The loop over the bodies: whether it ended without a refusal, and the bodies read so far.\<close>

fun load_bodies :: "bytes \<Rightarrow> nat \<Rightarrow> nat \<Rightarrow> NPBindBody list \<Rightarrow> (bool \<times> NPBindBody list) outcome" where
  "load_bodies data 0 off bodies = Returned (True, bodies)"
| "load_bodies data (Suc n) off bodies =
     bind_outcome (read_body data off) (\<lambda>r. case r of
       None \<Rightarrow> Returned (False, bodies)
     | Some (body, off') \<Rightarrow> load_bodies data n off' (bodies @ [body]))"

text \<open>\<open>max_bodies\<close> is the \<open>max_size\<close> of the vector, past which \<open>reserve\<close> throws.\<close>

definition Load :: "nat \<Rightarrow> bytes \<Rightarrow> NPBindFile \<Rightarrow> (bool \<times> NPBindFile) outcome" where
  "Load max_bodies data f0 =
     (let f = Clear f0
      in if length data < kHeaderSize then Returned (False, f)
         else bind_outcome (read_mem data 0 kHeaderSize) (\<lambda>h.
           let f1 = f\<lparr>m_header := dec_header h\<rparr>
           in if nh_magic (m_header f1) \<noteq> NPBIND_MAGIC then Returned (False, f1)
              else if unat (nh_num_entries (m_header f1)) > max_bodies then Threw
              else bind_outcome (load_bodies data (unat (nh_num_entries (m_header f1))) kHeaderSize []) (\<lambda>(ok, bodies).
                let f2 = f1\<lparr>m_bodies := bodies\<rparr>
                in if \<not> ok then Returned (False, f2)
                   else if length data \<ge> 20
                   then bind_outcome (read_mem data (length data - 20) 20) (\<lambda>d. Returned (True, f2\<lparr>m_digest := d\<rparr>))
                   else Returned (True, f2\<lparr>m_digest := replicate 20 0\<rparr>))))"

section \<open>Accessors\<close>

definition GetNpCommIds :: "NPBindFile \<Rightarrow> bytes list" where
  "GetNpCommIds f = filter (\<lambda>d. d \<noteq> []) (map (en_data \<circ> nb_npcommid) (m_bodies f))"

definition GetBody :: "nat \<Rightarrow> NPBindFile \<Rightarrow> NPBindBody outcome" where
  "GetBody index f = (if index < length (m_bodies f) then Returned (m_bodies f ! index) else Threw)"

definition BodyCount :: "NPBindFile \<Rightarrow> nat" where
  "BodyCount f = length (m_bodies f)"

definition IsValid :: "NPBindFile \<Rightarrow> bool" where
  "IsValid f \<longleftrightarrow> nh_magic (m_header f) = NPBIND_MAGIC"

section \<open>Reads stay inside the image\<close>

lemma read_entry_in_bounds: "\<exists>r. read_entry data off = Returned r"
  by (auto simp: read_entry_def read_mem_def Let_def)

lemma read_next_in_bounds:
  assumes "\<And>e o'. \<exists>r. k e o' = Returned r"
  shows "\<exists>r. read_next data off k = Returned r"
proof -
  obtain r where "read_entry data off = Returned r" using read_entry_in_bounds by blast
  then show ?thesis using assms by (auto simp: read_next_def split: option.split)
qed

lemma read_body_in_bounds: "\<exists>r. read_body data off = Returned r"
  unfolding read_body_def by (auto intro!: read_next_in_bounds)

lemma load_bodies_in_bounds:
  "\<exists>ok bs. load_bodies data n off bodies = Returned (ok, bs) \<and> (ok \<longrightarrow> length bs = length bodies + n)"
proof (induction n arbitrary: off bodies)
  case 0
  then show ?case by auto
next
  case (Suc n)
  obtain r where r: "read_body data off = Returned r" using read_body_in_bounds by blast
  show ?case
  proof (cases r)
    case None
    then show ?thesis using r by auto
  next
    case (Some p)
    then obtain body off' where "p = (body, off')" by (cases p)
    then show ?thesis using r Some Suc.IH [of off' "bodies @ [body]"] by auto
  qed
qed

text \<open>
  Loading reads no byte outside the image, whatever the bytes are: it returns, or
  throws exactly when a header with the right magic claims more bodies than a vector can
  reserve; and when it succeeds it has as many bodies as the header says.
\<close>

theorem Load_in_bounds:
  "case Load max_bodies data f of
     OutOfBounds \<Rightarrow> False
   | Threw \<Rightarrow> length data \<ge> 0x80 \<and> be_word (take 4 data) = NPBIND_MAGIC \<and>
       unat (nh_num_entries (dec_header (take 0x80 data))) > max_bodies
   | Returned (ok, f') \<Rightarrow> (if ok then IsValid f' \<and> BodyCount f' = unat (nh_num_entries (m_header f')) \<and>
       m_digest f' = drop (length data - 20) data else True)"
proof (cases "length data < 0x80")
  case True
  then show ?thesis by (simp add: Load_def Let_def)
next
  case False
  let ?h = "dec_header (take 0x80 data)"
  have rh: "read_mem data 0 kHeaderSize = Returned (take 0x80 data)" using False by (simp add: read_mem_def)
  have mg: "nh_magic ?h = be_word (take 4 data)" by (simp add: dec_header_def mem_slice_def take_take)
  obtain ok bs where l: "load_bodies data (unat (nh_num_entries ?h)) 0x80 [] = Returned (ok, bs)"
    "ok \<longrightarrow> length bs = unat (nh_num_entries ?h)"
    using load_bodies_in_bounds [of data "unat (nh_num_entries ?h)" "0x80" "[]"] by auto
  have rd: "read_mem data (length data - 20) 20 = Returned (drop (length data - 20) data)"
    using False by (simp add: read_mem_def)
  have h0: "kHeaderSize \<le> length data" using False by simp
  show ?thesis
    using False l h0
    by (auto simp: Load_def Let_def rh [unfolded kHeaderSize_def] rd mg [symmetric] IsValid_def BodyCount_def)
qed

section \<open>Images\<close>

text \<open>
  The layout the loader expects, written out as an encoder: the packed header, the bodies each
  followed by its padding, and the digest.
\<close>

definition enc_header :: "NpBindHeader \<Rightarrow> bytes" where
  "enc_header h = be_bytes 4 (nh_magic h) @ be_bytes 4 (nh_version h) @ be_bytes 8 (nh_file_size h) @
     be_bytes 8 (nh_entry_size h) @ be_bytes 8 (nh_num_entries h) @ nh_padding h"

definition enc_entry :: "NPBindEntryRaw \<Rightarrow> bytes" where
  "enc_entry e = be_bytes 2 (en_type e) @ be_bytes 2 (en_size e) @ en_data e"

definition enc_body :: "NPBindBody \<Rightarrow> bytes" where
  "enc_body b = enc_entry (nb_npcommid b) @ enc_entry (nb_trophy b) @ enc_entry (nb_unk1 b) @ enc_entry (nb_unk2 b)"

definition entry_wf :: "NPBindEntryRaw \<Rightarrow> bool" where
  "entry_wf e \<longleftrightarrow> unat (en_size e) = length (en_data e)"

definition body_wf :: "NPBindBody \<times> bytes \<Rightarrow> bool" where
  "body_wf = (\<lambda>(b, pad). list_all entry_wf [nb_npcommid b, nb_trophy b, nb_unk1 b, nb_unk2 b] \<and> length pad = 0x98)"

definition npbind_image :: "NpBindHeader \<Rightarrow> (NPBindBody \<times> bytes) list \<Rightarrow> bytes \<Rightarrow> bytes" where
  "npbind_image h bodies digest =
     enc_header h @ concat (map (\<lambda>(b, pad). enc_body b @ pad) bodies) @ digest"

lemma dec_enc_header:
  "length (nh_padding h) = 0x60 \<Longrightarrow> length (enc_header h) = 0x80 \<and> dec_header (enc_header h) = h"
  by (simp add: enc_header_def dec_header_def mem_slice_def)

lemma read_entry_at:
  assumes "drop off data = enc_entry e @ post" and "off \<le> length data" and "entry_wf e"
  shows "read_entry data off = Returned (Some (e, off + length (enc_entry e)))"
proof -
  have d2: "drop (off + 2) data = be_bytes 2 (en_size e) @ en_data e @ post \<and> off + 2 \<le> length data"
    using drop_past [OF assms(1) [unfolded enc_entry_def append.assoc] assms(2)] by simp
  have d4: "drop (off + 4) data = en_data e @ post \<and> off + 4 \<le> length data"
    using drop_past [OF d2 [THEN conjunct1] d2 [THEN conjunct2]] by (simp only: add.assoc length_be_bytes) simp
  have "off + 4 + length (en_data e) \<le> length data"
    using drop_past [OF d4 [THEN conjunct1] d4 [THEN conjunct2]] by blast
  note fit = this and wf = assms(3) [unfolded entry_wf_def]
  have d0: "drop off data = be_bytes 2 (en_type e) @ be_bytes 2 (en_size e) @ en_data e @ post"
    using assms(1) by (simp add: enc_entry_def)
  have r0: "read_mem data off 2 = Returned (be_bytes 2 (en_type e))" by (rule read_mem_at [OF d0]) (simp_all add: assms)
  have r2: "read_mem data (off + 2) 2 = Returned (be_bytes 2 (en_size e))"
    by (rule read_mem_at [OF d2 [THEN conjunct1]]) (use d2 in simp_all)
  have r4: "read_mem data (off + 4) (length (en_data e)) = Returned (en_data e)"
    by (rule read_mem_at [OF d4 [THEN conjunct1]]) (use d4 in simp_all)
  have n: "\<not> length data < off + 4" "\<not> length data < off + 4 + length (en_data e)" using d4 fit by simp_all
  show ?thesis
    using n by (simp add: read_entry_def r0 r2 [simplified] wf r4 Let_def be_word_be_bytes enc_entry_def)
qed

lemma read_next_at:
  assumes "drop off data = enc_entry e @ post" and "off \<le> length data" and "entry_wf e"
  shows "read_next data off k = k e (off + length (enc_entry e))"
  using read_entry_at [OF assms] by (simp add: read_next_def)

lemma read_body_at:
  assumes d: "drop off data = enc_body b @ pad @ post" and off: "off \<le> length data" and wf: "body_wf (b, pad)"
  shows "read_body data off = Returned (Some (b, off + length (enc_body b @ pad)))"
proof -
  have w: "entry_wf (nb_npcommid b)" "entry_wf (nb_trophy b)" "entry_wf (nb_unk1 b)" "entry_wf (nb_unk2 b)"
    "length pad = 0x98" using wf by (auto simp: body_wf_def)
  define o1 where "o1 = off + length (enc_entry (nb_npcommid b))"
  define o2 where "o2 = o1 + length (enc_entry (nb_trophy b))"
  define o3 where "o3 = o2 + length (enc_entry (nb_unk1 b))"
  define o4 where "o4 = o3 + length (enc_entry (nb_unk2 b))"
  note d0 = d [unfolded enc_body_def append.assoc]
  note p1 = drop_past [OF d0 off, folded o1_def]
  note p2 = drop_past [OF p1 [THEN conjunct1] p1 [THEN conjunct2], folded o2_def]
  note p3 = drop_past [OF p2 [THEN conjunct1] p2 [THEN conjunct2], folded o3_def]
  note p4 = drop_past [OF p3 [THEN conjunct1] p3 [THEN conjunct2], folded o4_def]
  note r1 = read_next_at [OF d0 off w(1), folded o1_def]
  note r2 = read_next_at [OF p1 [THEN conjunct1] p1 [THEN conjunct2] w(2), folded o2_def]
  note r3 = read_next_at [OF p2 [THEN conjunct1] p2 [THEN conjunct2] w(3), folded o3_def]
  note r4 = read_next_at [OF p3 [THEN conjunct1] p3 [THEN conjunct2] w(4), folded o4_def]
  have o4: "o4 + 0x98 = off + length (enc_body b @ pad)"
    using w(5) by (simp add: o1_def o2_def o3_def o4_def enc_body_def)
  have fit: "o4 + 0x98 \<le> length data" using drop_past [OF p4 [THEN conjunct1] p4 [THEN conjunct2]] w(5) by simp
  have "off \<le> o4" by (simp add: o1_def o2_def o3_def o4_def)
  then have "\<not> off + 4 * 4 > length data" using fit by simp
  then show ?thesis
    unfolding read_body_def by (simp only: r1 r2 r3 r4 fit if_True if_False o4 [symmetric]) simp
qed

lemma load_bodies_at:
  assumes "drop off data = concat (map (\<lambda>(b, pad). enc_body b @ pad) bodies) @ post"
    and "off \<le> length data" and "list_all body_wf bodies"
  shows "load_bodies data (length bodies) off acc = Returned (True, acc @ map fst bodies)"
  using assms
proof (induction bodies arbitrary: off acc)
  case Nil
  then show ?case by simp
next
  case (Cons x bodies)
  obtain b pad where x: "x = (b, pad)" by (cases x)
  with Cons.prems have "drop off data = enc_body b @ pad @ concat (map (\<lambda>(b, pad). enc_body b @ pad) bodies) @ post"
    "body_wf (b, pad)" "list_all body_wf bodies"
    by auto
  note r = read_body_at [OF this(1) Cons.prems(2) this(2)] and l = this(3)
    and q = drop_past [of off data "enc_body b @ pad", OF _ Cons.prems(2)]
  have "drop off data = (enc_body b @ pad) @ concat (map (\<lambda>(b, pad). enc_body b @ pad) bodies) @ post"
    using Cons.prems(1) x by simp
  note q' = q [OF this]
  show ?case using r x Cons.IH [OF q' [THEN conjunct1] q' [THEN conjunct2] l, of "acc @ [b]"] by simp
qed

text \<open>
  Loading is the inverse of the layout: the image of a header with the right magic
  and the right count, of bodies whose sizes say how long their data are, whatever the padding
  bytes, and of a digest, loads back as exactly these, over whatever the object held before.
\<close>

theorem Load_roundtrip:
  assumes "nh_magic h = NPBIND_MAGIC" and "unat (nh_num_entries h) = length bodies"
    and "length (nh_padding h) = 0x60" and "list_all body_wf bodies" and "length digest = 20"
    and "length bodies \<le> max_bodies"
  shows "Load max_bodies (npbind_image h bodies digest) f =
    Returned (True, f\<lparr>m_header := h, m_bodies := map fst bodies, m_digest := digest\<rparr>)"
proof -
  let ?d = "npbind_image h bodies digest"
  have h: "length (enc_header h) = 0x80" "dec_header (enc_header h) = h" using dec_enc_header [OF assms(3)] by auto
  have d: "drop 0x80 ?d = concat (map (\<lambda>(b, pad). enc_body b @ pad) bodies) @ digest"
    using h(1) by (simp add: npbind_image_def)
  have len: "0x80 \<le> length ?d" "20 \<le> length ?d" using h(1) by (simp_all add: npbind_image_def)
  have rh: "read_mem ?d 0 0x80 = Returned (enc_header h)"
    using len h(1) by (simp add: read_mem_def npbind_image_def)
  have rd: "read_mem ?d (length ?d - 20) 20 = Returned digest"
    using len assms(5) by (simp add: read_mem_def npbind_image_def)
  show ?thesis
    using len assms load_bodies_at [OF d len(1) assms(4), of "[]"]
    by (simp add: Load_def Let_def Clear_def rh rd h)
qed

definition demo_entry :: "u16 \<Rightarrow> bytes \<Rightarrow> NPBindEntryRaw" where
  "demo_entry ty d = \<lparr>en_type = ty, en_size = of_nat (length d), en_data = d\<rparr>"

definition demo_body :: NPBindBody where
  "demo_body = \<lparr>nb_npcommid = demo_entry 0x10 [78, 80], nb_trophy = demo_entry 0x11 [1],
     nb_unk1 = demo_entry 0x12 [], nb_unk2 = demo_entry 0x13 [3]\<rparr>"

definition demo_header :: NpBindHeader where
  "demo_header = zero_header\<lparr>nh_magic := NPBIND_MAGIC, nh_num_entries := 1\<rparr>"

lemma Load_roundtrip_witness:
  "Load 5 (npbind_image demo_header [(demo_body, replicate 0x98 7)] (replicate 20 1))
      \<lparr>m_header = zero_header, m_bodies = [], m_digest = []\<rparr> =
    Returned (True, \<lparr>m_header = demo_header, m_bodies = [demo_body], m_digest = replicate 20 1\<rparr>)"
  by (subst Load_roundtrip)
    (simp_all add: demo_header_def zero_header_def demo_body_def demo_entry_def body_wf_def entry_wf_def)

end
