(* ===== verification/PsfFile.thy ===== *)
theory PsfFile
  imports ByteFile
begin

text \<open>
  The param.sfo file of a title (core/file_format/psf.cpp, psf.h): the parser of an image in
  memory, which checks no offset, and the lookups by key. A read outside the image is the
  outcome \<open>OutOfBounds\<close>; memory for the values is taken to suffice.
\<close>

section \<open>Data\<close>

definition PSF_MAGIC :: u32 where [simp]: "PSF_MAGIC = 0x00505346"
definition PSF_VERSION_1_1 :: u32 where [simp]: "PSF_VERSION_1_1 = 0x00000101"
definition PSF_VERSION_1_0 :: u32 where [simp]: "PSF_VERSION_1_0 = 0x00000100"

record PSFHeader =
  ph_magic :: u32
  ph_version :: u32
  ph_key_table_offset :: u32
  ph_data_table_offset :: u32
  ph_index_table_entries :: u32

text \<open>\<open>re_param_fmt\<close> is the raw memory of the field, which the code reads with \<open>Raw()\<close>.\<close>

record PSFRawEntry =
  re_key_offset :: u16
  re_param_fmt :: u16
  re_param_len :: u32
  re_param_max_len :: u32
  re_data_offset :: u32

datatype PSFEntryFmt = Binary | Text | Integer | Unknown u16

definition fmt_of :: "u16 \<Rightarrow> PSFEntryFmt" where
  "fmt_of raw = (if raw = 0x0004 then Binary else if raw = 0x0204 then Text
     else if raw = 0x0404 then Integer else Unknown raw)"

record Entry =
  e_key :: bytes
  e_param_fmt :: PSFEntryFmt
  e_max_len :: u32

record PSF =
  entry_list :: "Entry list"
  map_binaries :: "nat \<Rightarrow> bytes option"
  map_strings :: "nat \<Rightarrow> bytes option"
  map_integers :: "nat \<Rightarrow> s32 option"

text \<open>\<open>emplace\<close> of an \<open>unordered_map\<close>: an entry that is there stays.\<close>

definition emplace :: "nat \<Rightarrow> 'a \<Rightarrow> (nat \<Rightarrow> 'a option) \<Rightarrow> nat \<Rightarrow> 'a option" where
  "emplace i v m = (if m i = None then m(i \<mapsto> v) else m)"

definition dec_psf_header :: "bytes \<Rightarrow> PSFHeader" where
  "dec_psf_header b = \<lparr>ph_magic = be_word (mem_slice 0 4 b), ph_version = le_word (mem_slice 4 4 b),
     ph_key_table_offset = le_word (mem_slice 8 4 b), ph_data_table_offset = le_word (mem_slice 12 4 b),
     ph_index_table_entries = le_word (mem_slice 16 4 b)\<rparr>"

definition dec_raw_entry :: "bytes \<Rightarrow> PSFRawEntry" where
  "dec_raw_entry b = \<lparr>re_key_offset = le_word (mem_slice 0 2 b), re_param_fmt = le_word (mem_slice 2 2 b),
     re_param_len = le_word (mem_slice 4 4 b), re_param_max_len = le_word (mem_slice 8 4 b),
     re_data_offset = le_word (mem_slice 12 4 b)\<rparr>"

section \<open>Opening\<close>

text \<open>The switch over the format: the value of entry \<open>i\<close>, at offset \<open>off\<close>, goes to the map of its type.\<close>

definition store_value :: "bytes \<Rightarrow> nat \<Rightarrow> PSFRawEntry \<Rightarrow> PSFEntryFmt \<Rightarrow> nat \<Rightarrow> PSF \<Rightarrow> PSF outcome" where
  "store_value psf_buffer i raw_entry fmt off psf = (case fmt of
       Binary \<Rightarrow> bind_outcome (read_mem psf_buffer off (unat (re_param_len raw_entry)))
         (\<lambda>value. Returned (psf\<lparr>map_binaries := emplace i value (map_binaries psf)\<rparr>))
     | Text \<Rightarrow> bind_outcome (read_cstr psf_buffer off)
         (\<lambda>c_str. Returned (psf\<lparr>map_strings := emplace i c_str (map_strings psf)\<rparr>))
     | Integer \<Rightarrow> bind_outcome (read_mem psf_buffer off 4)
         (\<lambda>b. Returned (psf\<lparr>map_integers := emplace i (sint (le_word b :: u32)) (map_integers psf)\<rparr>))
     | Unknown _ \<Rightarrow> Returned psf)"

text \<open>The body of the loop over the index.\<close>

definition open_entry :: "bytes \<Rightarrow> PSFHeader \<Rightarrow> nat \<Rightarrow> PSF \<Rightarrow> PSF outcome" where
  "open_entry psf_buffer header i psf =
     bind_outcome (read_mem psf_buffer (20 + i * 16) 16) (\<lambda>b.
       let raw_entry = dec_raw_entry b
       in bind_outcome (read_cstr psf_buffer (unat (ph_key_table_offset header) + unat (re_key_offset raw_entry)))
            (\<lambda>key.
               let fmt = fmt_of (re_param_fmt raw_entry);
                   entry = \<lparr>e_key = key, e_param_fmt = fmt, e_max_len = re_param_max_len raw_entry\<rparr>
               in store_value psf_buffer i raw_entry fmt
                    (unat (ph_data_table_offset header) + unat (re_data_offset raw_entry))
                    (psf\<lparr>entry_list := entry_list psf @ [entry]\<rparr>)))"

fun open_loop :: "bytes \<Rightarrow> PSFHeader \<Rightarrow> nat \<Rightarrow> nat \<Rightarrow> PSF \<Rightarrow> PSF outcome" where
  "open_loop psf_buffer header i 0 psf = Returned psf"
| "open_loop psf_buffer header i (Suc n) psf =
     bind_outcome (open_entry psf_buffer header i psf) (open_loop psf_buffer header (Suc i) n)"

definition Open :: "bytes \<Rightarrow> PSF \<Rightarrow> (bool \<times> PSF) outcome" where
  "Open psf_buffer psf0 =
     (let psf = psf0\<lparr>entry_list := [], map_binaries := \<lambda>_. None, map_strings := \<lambda>_. None,
                     map_integers := \<lambda>_. None\<rparr>
      in bind_outcome (read_mem psf_buffer 0 20) (\<lambda>h.
           let header = dec_psf_header h
           in if ph_magic header \<noteq> PSF_MAGIC then Returned (False, psf)
              else if ph_version header \<noteq> PSF_VERSION_1_1 \<and> ph_version header \<noteq> PSF_VERSION_1_0
              then Returned (False, psf)
              else bind_outcome (open_loop psf_buffer header 0 (unat (ph_index_table_entries header)) psf)
                     (\<lambda>psf'. Returned (True, psf'))))"

section \<open>Lookups\<close>

text \<open>\<open>None\<close> is the end iterator.\<close>

fun find_index :: "bytes \<Rightarrow> Entry list \<Rightarrow> nat option" where
  "find_index key [] = None"
| "find_index key (e # es) = (if e_key e = key then Some 0 else map_option Suc (find_index key es))"

definition FindEntry :: "bytes \<Rightarrow> PSF \<Rightarrow> nat option" where
  "FindEntry key psf = find_index key (entry_list psf)"

text \<open>\<open>at\<close> of a map throws when the index is not there.\<close>

definition map_at :: "(nat \<Rightarrow> 'a option) \<Rightarrow> nat \<Rightarrow> 'a outcome" where
  "map_at m i = (case m i of None \<Rightarrow> Threw | Some v \<Rightarrow> Returned v)"

definition get_value :: "(PSF \<Rightarrow> nat \<Rightarrow> 'a option) \<Rightarrow> bytes \<Rightarrow> PSF \<Rightarrow> 'a option outcome" where
  "get_value the_map key psf = (case FindEntry key psf of
       None \<Rightarrow> Returned None
     | Some index \<Rightarrow> bind_outcome (map_at (the_map psf) index) (\<lambda>v. Returned (Some v)))"

definition GetBinary :: "bytes \<Rightarrow> PSF \<Rightarrow> bytes option outcome" where
  "GetBinary key psf = get_value map_binaries key psf"

definition GetString :: "bytes \<Rightarrow> PSF \<Rightarrow> bytes option outcome" where
  "GetString key psf = get_value map_strings key psf"

definition GetInteger :: "bytes \<Rightarrow> PSF \<Rightarrow> s32 option outcome" where
  "GetInteger key psf = get_value map_integers key psf"

section \<open>Images\<close>

text \<open>A value with its key and its maximal length, and the layout of a whole file.\<close>

datatype PsfValue = BinV bytes | TextV bytes | IntV u32

fun value_blob :: "PsfValue \<Rightarrow> bytes" where
  "value_blob (BinV b) = b"
| "value_blob (TextV t) = t @ [0]"
| "value_blob (IntV w) = le_bytes 4 w"

fun value_raw :: "PsfValue \<Rightarrow> u16" where
  "value_raw (BinV b) = 0x0004"
| "value_raw (TextV t) = 0x0204"
| "value_raw (IntV w) = 0x0404"

type_synonym item = "bytes \<times> PsfValue \<times> u32"

definition key_blobs :: "item list \<Rightarrow> bytes list" where
  "key_blobs es = map (\<lambda>(k, v, m). k @ [0]) es"

definition data_blobs :: "item list \<Rightarrow> bytes list" where
  "data_blobs es = map (\<lambda>(k, v, m). value_blob v) es"

definition raw_of :: "item list \<Rightarrow> nat \<Rightarrow> PSFRawEntry" where
  "raw_of es i = (case es ! i of (k, v, m) \<Rightarrow>
     \<lparr>re_key_offset = of_nat (length (concat (take i (key_blobs es)))), re_param_fmt = value_raw v,
      re_param_len = of_nat (length (value_blob v)), re_param_max_len = m,
      re_data_offset = of_nat (length (concat (take i (data_blobs es))))\<rparr>)"

definition enc_raw_entry :: "PSFRawEntry \<Rightarrow> bytes" where
  "enc_raw_entry r = le_bytes 2 (re_key_offset r) @ le_bytes 2 (re_param_fmt r) @ le_bytes 4 (re_param_len r) @
     le_bytes 4 (re_param_max_len r) @ le_bytes 4 (re_data_offset r)"

definition index_blobs :: "item list \<Rightarrow> bytes list" where
  "index_blobs es = map (\<lambda>i. enc_raw_entry (raw_of es i)) [0..<length es]"

definition header_of :: "u32 \<Rightarrow> item list \<Rightarrow> PSFHeader" where
  "header_of version es = \<lparr>ph_magic = PSF_MAGIC, ph_version = version,
     ph_key_table_offset = of_nat (20 + 16 * length es),
     ph_data_table_offset = of_nat (20 + 16 * length es + length (concat (key_blobs es))),
     ph_index_table_entries = of_nat (length es)\<rparr>"

definition enc_psf_header :: "PSFHeader \<Rightarrow> bytes" where
  "enc_psf_header h = be_bytes 4 (ph_magic h) @ le_bytes 4 (ph_version h) @ le_bytes 4 (ph_key_table_offset h) @
     le_bytes 4 (ph_data_table_offset h) @ le_bytes 4 (ph_index_table_entries h)"

definition psf_image :: "u32 \<Rightarrow> item list \<Rightarrow> bytes" where
  "psf_image version es = enc_psf_header (header_of version es) @ concat (index_blobs es) @
     concat (key_blobs es) @ concat (data_blobs es)"

definition psf_items_ok :: "u32 \<Rightarrow> item list \<Rightarrow> bool" where
  "psf_items_ok version es \<longleftrightarrow> length (concat (key_blobs es)) < 2 ^ 16 \<and> length (psf_image version es) < 2 ^ 32 \<and>
     list_all (\<lambda>(k, v, m). 0 \<notin> set k \<and> (case v of TextV t \<Rightarrow> 0 \<notin> set t | _ \<Rightarrow> True)) es"

text \<open>What the parser makes of the items: the abstract file.\<close>

definition psf_entry :: "item \<Rightarrow> Entry" where
  "psf_entry = (\<lambda>(k, v, m). \<lparr>e_key = k, e_param_fmt = fmt_of (value_raw v), e_max_len = m\<rparr>)"

definition psf_of :: "item list \<Rightarrow> PSF" where
  "psf_of es = \<lparr>entry_list = map psf_entry es,
     map_binaries = (\<lambda>i. if i < length es then (case fst (snd (es ! i)) of BinV b \<Rightarrow> Some b | _ \<Rightarrow> None) else None),
     map_strings = (\<lambda>i. if i < length es then (case fst (snd (es ! i)) of TextV t \<Rightarrow> Some t | _ \<Rightarrow> None) else None),
     map_integers = (\<lambda>i. if i < length es then (case fst (snd (es ! i)) of IntV w \<Rightarrow> Some (sint w) | _ \<Rightarrow> None) else None)\<rparr>"

section \<open>The layout is read back\<close>

lemma drop_concat: "i < length xss \<Longrightarrow> drop (length (concat (take i xss))) (concat xss) = xss ! i @ concat (drop (Suc i) xss)"
proof -
  assume i: "i < length xss"
  have "concat xss = concat (take i xss) @ xss ! i @ concat (drop (Suc i) xss)"
    using arg_cong [OF id_take_nth_drop [OF i], of concat] by simp
  then show ?thesis by (metis append_eq_conv_conj)
qed

lemma length_concat_take: "length (concat (take i xss)) \<le> length (concat xss)"
  by (metis append_take_drop_id concat_append length_append le_add1)

lemma length_enc_raw [simp]: "length (enc_raw_entry r) = 16"
  by (simp add: enc_raw_entry_def)

lemma length_enc_psf_header [simp]: "length (enc_psf_header h) = 20"
  by (simp add: enc_psf_header_def)

lemma dec_enc_raw [simp]: "dec_raw_entry (enc_raw_entry r) = r"
  by (simp add: enc_raw_entry_def dec_raw_entry_def mem_slice_def)

lemma dec_enc_psf_header [simp]: "dec_psf_header (enc_psf_header h) = h"
  by (simp add: enc_psf_header_def dec_psf_header_def mem_slice_def)

lemma length_concat_16: "list_all (\<lambda>b. length b = 16) bs \<Longrightarrow> length (concat bs) = 16 * length bs"
  by (induction bs) auto

lemma length_index [simp]: "length (concat (index_blobs es)) = 16 * length es"
  by (subst length_concat_16) (simp_all add: index_blobs_def list_all_iff)

lemma length_index_take: "i \<le> length es \<Longrightarrow> length (concat (take i (index_blobs es))) = 16 * i"
  by (subst length_concat_16) (auto simp: index_blobs_def list_all_iff dest!: in_set_takeD)

lemma length_psf_image:
  "length (psf_image v es) = 20 + 16 * length es + length (concat (key_blobs es)) + length (concat (data_blobs es))"
  by (simp add: psf_image_def)

lemma unat_of_nat_less: "n < 2 ^ LENGTH('a) \<Longrightarrow> unat (of_nat n :: 'a::len word) = n"
  by (simp add: unsigned_of_nat take_bit_nat_eq_self)

lemma header_of_fields:
  assumes "psf_items_ok v es"
  shows "unat (ph_key_table_offset (header_of v es)) = 20 + 16 * length es"
    and "unat (ph_data_table_offset (header_of v es)) = 20 + 16 * length es + length (concat (key_blobs es))"
    and "unat (ph_index_table_entries (header_of v es)) = length es"
  using assms unfolding header_of_def PSFHeader.simps psf_items_ok_def length_psf_image
  by (subst unat_of_nat_less; simp)+

lemma image_parts:
  assumes "psf_items_ok v es" and "i < length es"
  shows "drop (20 + i * 16) (psf_image v es) = enc_raw_entry (raw_of es i) @
      concat (drop (Suc i) (index_blobs es)) @ concat (key_blobs es) @ concat (data_blobs es)"
    and "drop (unat (ph_key_table_offset (header_of v es)) + unat (re_key_offset (raw_of es i))) (psf_image v es) =
      key_blobs es ! i @ concat (drop (Suc i) (key_blobs es)) @ concat (data_blobs es)"
    and "drop (unat (ph_data_table_offset (header_of v es)) + unat (re_data_offset (raw_of es i))) (psf_image v es) =
      data_blobs es ! i @ concat (drop (Suc i) (data_blobs es))"
proof -
  have len: "length (key_blobs es) = length es" "length (data_blobs es) = length es" "length (index_blobs es) = length es"
    by (simp_all add: key_blobs_def data_blobs_def index_blobs_def)
  have fit: "length (concat (key_blobs es)) < 2 ^ 16" "length (psf_image v es) < 2 ^ 32"
    using assms by (simp_all add: psf_items_ok_def)
  have k: "unat (re_key_offset (raw_of es i)) = length (concat (take i (key_blobs es)))"
    using fit length_concat_take [of i "key_blobs es"]
    by (simp add: raw_of_def split_beta unat_of_nat_less)
  have d: "unat (re_data_offset (raw_of es i)) = length (concat (take i (data_blobs es)))"
    using fit length_concat_take [of i "data_blobs es"]
    by (simp add: raw_of_def split_beta unat_of_nat_less length_psf_image)
  note h = header_of_fields [OF assms(1)]
  have ix: "index_blobs es ! i = enc_raw_entry (raw_of es i)" using assms(2) by (simp add: index_blobs_def)
  show "drop (20 + i * 16) (psf_image v es) = enc_raw_entry (raw_of es i) @
      concat (drop (Suc i) (index_blobs es)) @ concat (key_blobs es) @ concat (data_blobs es)"
    using drop_concat [of i "index_blobs es"] assms(2) len length_index_take [of i es] ix
    by (simp add: psf_image_def mult.commute)
  show "drop (unat (ph_key_table_offset (header_of v es)) + unat (re_key_offset (raw_of es i))) (psf_image v es) =
      key_blobs es ! i @ concat (drop (Suc i) (key_blobs es)) @ concat (data_blobs es)"
    unfolding h k using drop_concat [of i "key_blobs es"] assms(2) len length_concat_take [of i "key_blobs es"]
    by (simp add: psf_image_def)
  show "drop (unat (ph_data_table_offset (header_of v es)) + unat (re_data_offset (raw_of es i))) (psf_image v es) =
      data_blobs es ! i @ concat (drop (Suc i) (data_blobs es))"
    unfolding h d using drop_concat [of i "data_blobs es"] assms(2) len
    by (simp add: psf_image_def)
qed

lemma psf_of_take_Suc:
  assumes "i < length es" and "es ! i = (k, v, m)"
  shows "psf_of (take (Suc i) es) = (let p = (psf_of (take i es))\<lparr>entry_list := map psf_entry (take i es) @ [psf_entry (k, v, m)]\<rparr>
    in case v of BinV b \<Rightarrow> p\<lparr>map_binaries := emplace i b (map_binaries p)\<rparr>
     | TextV t \<Rightarrow> p\<lparr>map_strings := emplace i t (map_strings p)\<rparr>
     | IntV w \<Rightarrow> p\<lparr>map_integers := emplace i (sint w) (map_integers p)\<rparr>)"
  using assms
  by (cases v) (auto simp: psf_of_def emplace_def take_Suc_conv_app_nth nth_append fun_eq_iff Let_def less_Suc_eq)

lemma open_entry_at:
  assumes ok: "psf_items_ok v es" and i: "i < length es"
  shows "open_entry (psf_image v es) (header_of v es) i (psf_of (take i es)) = Returned (psf_of (take (Suc i) es))"
proof -
  obtain k x m where e: "es ! i = (k, x, m)" by (cases "es ! i") auto
  have key: "key_blobs es ! i = k @ [0]" and dat: "data_blobs es ! i = value_blob x"
    using i e by (simp_all add: key_blobs_def data_blobs_def)
  have wf: "0 \<notin> set k" "case x of TextV t \<Rightarrow> 0 \<notin> set t | _ \<Rightarrow> True"
    using ok i e by (auto simp: psf_items_ok_def list_all_length)
  note parts = image_parts [OF ok i, unfolded key dat]
  let ?off = "unat (ph_data_table_offset (header_of v es)) + unat (re_data_offset (raw_of es i))"
  have raw: "read_mem (psf_image v es) (20 + i * 16) 16 = Returned (enc_raw_entry (raw_of es i))"
    by (rule read_mem_at [OF parts(1)]) (use i in \<open>simp_all add: length_psf_image\<close>)
  have kr: "read_cstr (psf_image v es)
      (unat (ph_key_table_offset (header_of v es)) + unat (re_key_offset (raw_of es i))) = Returned k"
    by (rule read_cstr_at) (use parts(2) wf(1) in simp_all)
  have len: "length (value_blob x) < 2 ^ 32" "?off + length (value_blob x) \<le> length (psf_image v es) \<or> value_blob x = []"
  proof -
    have "length (value_blob x) \<le> length (psf_image v es)" using arg_cong [OF parts(3), of length] by simp
    then show "length (value_blob x) < 2 ^ 32" using ok by (simp add: psf_items_ok_def)
    show "?off + length (value_blob x) \<le> length (psf_image v es) \<or> value_blob x = []"
      using arg_cong [OF parts(3), of length] by (cases "value_blob x") auto
  qed
  have off: "?off \<le> length (psf_image v es)"
  proof -
    have "unat (re_data_offset (raw_of es i)) \<le> length (concat (take i (data_blobs es)))"
      by (simp add: raw_of_def split_beta unsigned_of_nat take_bit_nat_less_eq_self)
    then show ?thesis using length_concat_take [of i "data_blobs es"] header_of_fields [OF ok]
      by (simp add: length_psf_image)
  qed
  have dm: "read_mem (psf_image v es) ?off (length (value_blob x)) = Returned (value_blob x)"
    by (rule read_mem_at [OF parts(3) refl off])
  have r: "re_param_fmt (raw_of es i) = value_raw x" "unat (re_param_len (raw_of es i)) = length (value_blob x)"
    "re_param_max_len (raw_of es i) = m"
    using len(1) e by (simp_all add: raw_of_def unat_of_nat_less)
  have st: "entry_list (psf_of (take i es)) = map psf_entry (take i es)" by (simp add: psf_of_def)
  show ?thesis
  proof (cases x)
    case (TextV t)
    have "read_cstr (psf_image v es) ?off = Returned t"
      by (rule read_cstr_at) (use parts(3) wf(2) TextV in simp_all)
    then show ?thesis using TextV
      by (simp add: open_entry_def raw kr r store_value_def psf_of_take_Suc [OF i e] fmt_of_def st psf_entry_def Let_def)
  next
    case (BinV b)
    then show ?thesis using dm
      by (simp add: open_entry_def raw kr r store_value_def psf_of_take_Suc [OF i e] fmt_of_def st psf_entry_def Let_def)
  next
    case (IntV w)
    then show ?thesis using dm
      by (simp add: open_entry_def raw kr r store_value_def psf_of_take_Suc [OF i e] fmt_of_def st psf_entry_def Let_def)
  qed
qed

lemma open_loop_at:
  assumes "psf_items_ok v es" and "i + n = length es"
  shows "open_loop (psf_image v es) (header_of v es) i n (psf_of (take i es)) = Returned (psf_of es)"
  using assms(2)
proof (induction n arbitrary: i)
  case 0
  then show ?case by simp
next
  case (Suc n)
  then show ?case using open_entry_at [OF assms(1), of i] by simp
qed

lemma Open_image:
  assumes "psf_items_ok v es" and "v \<in> {PSF_VERSION_1_0, PSF_VERSION_1_1}"
  shows "Open (psf_image v es) psf0 = Returned (True, psf_of es)"
proof -
  have h: "read_mem (psf_image v es) 0 20 = Returned (enc_psf_header (header_of v es))"
    by (rule read_mem_at [where post = "concat (index_blobs es) @ concat (key_blobs es) @ concat (data_blobs es)"])
      (simp_all add: psf_image_def)
  have m: "ph_magic (header_of v es) = PSF_MAGIC" "ph_version (header_of v es) = v" by (simp_all add: header_of_def)
  have "psf0\<lparr>entry_list := [], map_binaries := \<lambda>_. None, map_strings := \<lambda>_. None, map_integers := \<lambda>_. None\<rparr> = psf_of (take 0 es)"
    by (simp add: psf_of_def)
  then show ?thesis
    using assms(2) open_loop_at [OF assms(1), of 0 "length es"]
    by (auto simp: Open_def Let_def h header_of_fields [OF assms(1)] m)
qed

section \<open>Properties\<close>

lemma find_index_nth:
  "distinct (map e_key es) \<Longrightarrow> i < length es \<Longrightarrow> find_index (e_key (es ! i)) es = Some i"
  by (induction es arbitrary: i) (auto simp: nth_Cons' split: if_splits)

lemma find_index_None: "key \<notin> e_key ` set es \<Longrightarrow> find_index key es = None"
  by (induction es) auto

lemma find_index_Some: "find_index key es = Some i \<Longrightarrow> i < length es \<and> e_key (es ! i) = key"
  by (induction es arbitrary: i) (auto split: if_splits)

text \<open>
  Claim C40. A param.sfo file is read back: an image of items under distinct keys opens, over
  whatever the object held before, and each lookup of the type of an item returns its value,
  each other lookup of its key throws, and a key that is not there gives nothing.
\<close>

theorem Open_roundtrip:
  assumes "psf_items_ok v es" and "v \<in> {PSF_VERSION_1_0, PSF_VERSION_1_1}" and "distinct (map fst es)"
  shows "\<exists>psf. Open (psf_image v es) psf0 = Returned (True, psf) \<and>
    (\<forall>k. case map_of es k of
       None \<Rightarrow> GetBinary k psf = Returned None \<and> GetString k psf = Returned None \<and> GetInteger k psf = Returned None
     | Some (BinV b, _) \<Rightarrow> GetBinary k psf = Returned (Some b) \<and> GetString k psf = Threw \<and> GetInteger k psf = Threw
     | Some (TextV t, _) \<Rightarrow> GetString k psf = Returned (Some t) \<and> GetBinary k psf = Threw \<and> GetInteger k psf = Threw
     | Some (IntV w, _) \<Rightarrow> GetInteger k psf = Returned (Some (sint w)) \<and> GetBinary k psf = Threw \<and> GetString k psf = Threw)"
proof -
  have key: "e_key (psf_entry x) = fst x" for x by (simp add: psf_entry_def split_beta)
  have lookup: "case map_of es k of
       None \<Rightarrow> FindEntry k (psf_of es) = None
     | Some (val, m) \<Rightarrow> (\<exists>i < length es. es ! i = (k, val, m) \<and> FindEntry k (psf_of es) = Some i)" for k
  proof (cases "map_of es k")
    case None
    then have "k \<notin> fst ` set es" by (simp add: map_of_eq_None_iff)
    then show ?thesis using None
      by (force simp: FindEntry_def psf_of_def key intro!: find_index_None)
  next
    case (Some p)
    then obtain i where i: "i < length es" "es ! i = (k, p)"
      by (metis in_set_conv_nth map_of_SomeD)
    have "distinct (map e_key (map psf_entry es))" using assms(3) by (simp add: key comp_def)
    from find_index_nth [OF this, of i] i have "FindEntry k (psf_of es) = Some i"
      by (simp add: FindEntry_def psf_of_def key)
    then show ?thesis using Some i by (cases p) auto
  qed
  have "case map_of es k of
       None \<Rightarrow> GetBinary k (psf_of es) = Returned None \<and> GetString k (psf_of es) = Returned None \<and>
               GetInteger k (psf_of es) = Returned None
     | Some (BinV b, _) \<Rightarrow> GetBinary k (psf_of es) = Returned (Some b) \<and> GetString k (psf_of es) = Threw \<and>
               GetInteger k (psf_of es) = Threw
     | Some (TextV t, _) \<Rightarrow> GetString k (psf_of es) = Returned (Some t) \<and> GetBinary k (psf_of es) = Threw \<and>
               GetInteger k (psf_of es) = Threw
     | Some (IntV w, _) \<Rightarrow> GetInteger k (psf_of es) = Returned (Some (sint w)) \<and> GetBinary k (psf_of es) = Threw \<and>
               GetString k (psf_of es) = Threw" for k
    using lookup [of k]
    by (auto simp: GetBinary_def GetString_def GetInteger_def get_value_def map_at_def psf_of_def
        split: option.splits prod.splits PsfValue.splits)
  with Open_image [OF assms(1,2)] show ?thesis by blast
qed

definition demo_items :: "item list" where
  "demo_items = [([65, 66], TextV [88, 89], 4), ([67], IntV 7, 4)]"

lemma Open_roundtrip_witness:
  "\<exists>psf. Open (psf_image 0x100 demo_items) (psf_of []) = Returned (True, psf) \<and>
     GetInteger [67] psf = Returned (Some 7) \<and> GetString [65, 66] psf = Returned (Some [88, 89]) \<and>
     GetInteger [65, 66] psf = Threw \<and> GetBinary [1] psf = Returned None"
proof -
  have "psf_items_ok 0x100 demo_items"
    by (simp add: psf_items_ok_def length_psf_image) (simp add: demo_items_def key_blobs_def data_blobs_def)
  from Open_roundtrip [OF this, of "psf_of []"] obtain psf where
    o: "Open (psf_image 0x100 demo_items) (psf_of []) = Returned (True, psf)" and
    g: "\<And>k. case map_of demo_items k of
       None \<Rightarrow> GetBinary k psf = Returned None \<and> GetString k psf = Returned None \<and> GetInteger k psf = Returned None
     | Some (BinV b, _) \<Rightarrow> GetBinary k psf = Returned (Some b) \<and> GetString k psf = Threw \<and> GetInteger k psf = Threw
     | Some (TextV t, _) \<Rightarrow> GetString k psf = Returned (Some t) \<and> GetBinary k psf = Threw \<and> GetInteger k psf = Threw
     | Some (IntV w, _) \<Rightarrow> GetInteger k psf = Returned (Some (sint w)) \<and> GetBinary k psf = Threw \<and> GetString k psf = Threw"
    by (auto simp: demo_items_def)
  show ?thesis using o g [of "[67]"] g [of "[65, 66]"] g [of "[1]"] by (auto simp: demo_items_def)
qed

text \<open>
  The parser trusts the image: one that is too short for its header, or whose header
  claims more index entries than follow it, is read out of bounds, whatever the object held.
\<close>

theorem Open_out_of_bounds:
  assumes "length buf < 20 \<or>
    (be_word (take 4 buf) = PSF_MAGIC \<and> le_word (mem_slice 4 4 buf) = PSF_VERSION_1_1 \<and>
     length buf < 20 + 16 * unat (le_word (mem_slice 16 4 buf) :: u32))"
  shows "Open buf psf0 = OutOfBounds"
proof (cases "length buf < 20")
  case True
  then show ?thesis by (simp add: Open_def Let_def read_mem_def)
next
  case False
  have loop: "open_loop buf h i n psf = OutOfBounds" if "length buf < 20 + 16 * (i + n)" "20 + 16 * i \<le> length buf"
    for h i n psf using that
  proof (induction n arbitrary: i psf)
    case 0
    then show ?case by simp
  next
    case (Suc n)
    show ?case
    proof (cases "20 + 16 * Suc i \<le> length buf")
      case True
      then have "open_entry buf h i psf = OutOfBounds \<or> (\<exists>psf'. open_entry buf h i psf = Returned psf')"
        by (auto simp: open_entry_def store_value_def read_mem_def read_cstr_def Let_def split: PSFEntryFmt.split)
      then show ?thesis using Suc.IH [of "Suc i"] Suc.prems True by auto
    next
      case False
      then show ?thesis by (simp add: open_entry_def read_mem_def mult.commute)
    qed
  qed
  have r: "read_mem buf 0 20 = Returned (take 20 buf)" using False by (simp add: read_mem_def)
  have s: "mem_slice 4 4 (take 20 buf) = mem_slice 4 4 buf" "mem_slice 16 4 (take 20 buf) = mem_slice 16 4 buf"
    "mem_slice 0 4 (take 20 buf) = take 4 buf"
    by (simp_all add: mem_slice_def drop_take)
  show ?thesis using assms False loop [of 0] by (simp add: Open_def Let_def r dec_psf_header_def s)
qed

lemma Open_out_of_bounds_witness:
  "Open [] (psf_of []) = OutOfBounds \<and>
   Open (enc_psf_header \<lparr>ph_magic = PSF_MAGIC, ph_version = PSF_VERSION_1_1, ph_key_table_offset = 0,
     ph_data_table_offset = 0, ph_index_table_entries = 1\<rparr>) (psf_of []) = OutOfBounds"
  by (intro conjI; rule Open_out_of_bounds) (simp_all add: enc_psf_header_def mem_slice_def)

end
