(* ===== verification/ShadNetClient.thy ===== *)
theory ShadNetClient
  imports ByteFile NpTypes
begin

text \<open>
  The client of the shadNet server (shadnet/client.cpp, client.h): connecting with retries, the
  framing of packets on the TCP stream, the dispatch of replies and notifications, and the send
  queue. The protobuf messages are generated code: their serialisers and parsers are the
  parameter \<open>ProtoOps\<close>, which the properties leave arbitrary. The results of the socket calls of
  one connection attempt, and the bytes the server will send, are its \<open>ConnectEnv\<close>.
\<close>

section \<open>Protocol constants\<close>

definition SHAD_HEADER_SIZE :: nat where [simp]: "SHAD_HEADER_SIZE = 15"
definition SHAD_CONNECT_MAX_ATTEMPTS :: nat where [simp]: "SHAD_CONNECT_MAX_ATTEMPTS = 4"
definition SHAD_CONNECT_RETRY_BACKOFF_MS :: nat where [simp]: "SHAD_CONNECT_RETRY_BACKOFF_MS = 1000"
definition SHAD_PROTOCOL_VERSION :: u32 where [simp]: "SHAD_PROTOCOL_VERSION = 1"
definition SHAD_MAX_PACKET_SIZE :: u32 where [simp]: "SHAD_MAX_PACKET_SIZE = 0x800000"

datatype PacketType = Request | Reply | Notification | ServerInfo

fun packet_type_raw :: "PacketType \<Rightarrow> u8" where
  "packet_type_raw Request = 0"
| "packet_type_raw Reply = 1"
| "packet_type_raw Notification = 2"
| "packet_type_raw ServerInfo = 3"

text \<open>Commands and errors stay raw: a cast to the enum keeps values that are not members.\<close>

type_synonym CommandType = u16
type_synonym ErrorType = u8

definition CmdLogin :: CommandType where [simp]: "CmdLogin = 0"
definition CmdAddFriend :: CommandType where [simp]: "CmdAddFriend = 8"
definition CmdRemoveFriend :: CommandType where [simp]: "CmdRemoveFriend = 9"
definition CmdAddBlock :: CommandType where [simp]: "CmdAddBlock = 10"
definition CmdRemoveBlock :: CommandType where [simp]: "CmdRemoveBlock = 11"
definition CmdGetServerFeatures :: CommandType where [simp]: "CmdGetServerFeatures = 12"
definition CmdSetClientVersion :: CommandType where [simp]: "CmdSetClientVersion = 13"
definition CmdGetToken :: CommandType where [simp]: "CmdGetToken = 39"
definition CmdSetAppearOffline :: CommandType where [simp]: "CmdSetAppearOffline = 40"
definition CmdLookupOnlineId :: CommandType where [simp]: "CmdLookupOnlineId = 41"
definition CmdGetAuthorizationCode :: CommandType where [simp]: "CmdGetAuthorizationCode = 42"
definition CmdUnlockTrophy :: CommandType where [simp]: "CmdUnlockTrophy = 301"
definition CmdSyncTrophies :: CommandType where [simp]: "CmdSyncTrophies = 302"

definition NoError :: ErrorType where [simp]: "NoError = 0"
definition ErrMalformed :: ErrorType where [simp]: "ErrMalformed = 1"
definition ErrInvalidInput :: ErrorType where [simp]: "ErrInvalidInput = 3"
definition ErrTooSoon :: ErrorType where [simp]: "ErrTooSoon = 4"
definition ErrUnauthorized :: ErrorType where [simp]: "ErrUnauthorized = 23"

datatype ShadNetState = StOk | FailureInput | FailureResolve | FailureConnect | FailureServerInfo |
  FailureAuth | FailureAlreadyIn | FailureUsername | FailurePassword | FailureToken |
  FailureProtocol | FailureOther

section \<open>Data\<close>

record FriendEntry =
  fe_npid :: bytes
  fe_online :: bool

record LoginResult =
  lr_error :: ErrorType
  lr_avatar_url :: bytes
  lr_user_id :: u64
  lr_friends :: "FriendEntry list"
  lr_requests_sent :: "bytes list"
  lr_requests_received :: "bytes list"
  lr_blocked :: "bytes list"

definition zero_login_result :: LoginResult where
  "zero_login_result = \<lparr>lr_error = ErrMalformed, lr_avatar_url = [], lr_user_id = 0, lr_friends = [],
     lr_requests_sent = [], lr_requests_received = [], lr_blocked = []\<rparr>"

record NotifyServiceUnavailable =
  su_service :: u32
  su_reason :: u32
  su_in_use :: u32
  su_limit :: u32

record NotifyClientRejected =
  cr_reason :: u32
  cr_message :: bytes
  cr_version :: bytes

record NotifyWebApiPushEvent =
  wp_np_service_name :: bytes
  wp_np_service_label :: u32
  wp_data_type :: bytes
  wp_data :: bytes
  wp_from_npid :: bytes
  wp_to_npid :: bytes
  wp_extd_data :: "(bytes \<times> bytes) list"
  wp_from_account_id :: u64
  wp_to_account_id :: u64

definition zero_push_event :: NotifyWebApiPushEvent where
  "zero_push_event = \<lparr>wp_np_service_name = [], wp_np_service_label = 0, wp_data_type = [], wp_data = [],
     wp_from_npid = [], wp_to_npid = [], wp_extd_data = [], wp_from_account_id = 0, wp_to_account_id = 0\<rparr>"

record MatchingBinAttr =
  ba_attr_id :: u32
  ba_update_date :: u64
  ba_update_member_id :: u32
  ba_data :: bytes

record RoomEventMember =
  rm_npid :: bytes
  rm_account_id :: u64
  rm_platform :: u32
  rm_member_id :: u32
  rm_team_id :: u32
  rm_is_owner :: bool
  rm_join_date :: u64
  rm_nat_type :: u32
  rm_flag_attr :: u32
  rm_group_id :: u32
  rm_addr :: bytes
  rm_port :: u32
  rm_bin_attrs :: "MatchingBinAttr list"

definition zero_room_member :: RoomEventMember where
  "zero_room_member = \<lparr>rm_npid = [], rm_account_id = 0, rm_platform = 0, rm_member_id = 0, rm_team_id = 0,
     rm_is_owner = False, rm_join_date = 0, rm_nat_type = 0, rm_flag_attr = 0, rm_group_id = 0, rm_addr = [],
     rm_port = 0, rm_bin_attrs = []\<rparr>"

record NotifyRoomEvent =
  re_ctx_id :: u32
  re_room_id :: u64
  re_event :: u32
  re_event_cause :: u32
  re_error_code :: s32
  re_flags :: u32
  re_has_passwd_mask :: bool
  re_passwd_slot_mask :: u64
  re_member :: RoomEventMember
  re_bin_attrs :: "MatchingBinAttr list"

record NotifyRoomMessage =
  rg_ctx_id :: u32
  rg_room_id :: u64
  rg_src_member_id :: u32
  rg_event :: u32
  rg_cast_type :: u32
  rg_dst_member_ids :: "u32 list"
  rg_src_npid :: bytes
  rg_src_account_id :: u64
  rg_src_platform :: u32
  rg_msg :: bytes

text \<open>What the callbacks of the client are called with, and which callback each goes to.\<close>

datatype ClientEvent =
    LoginEv LoginResult
  | FriendQueryEv bytes
  | FriendNewEv bytes bool
  | FriendLostEv bytes
  | FriendStatusEv bytes bool u64
  | RoomEv NotifyRoomEvent
  | RoomMessageEv NotifyRoomMessage
  | WebApiPushEv NotifyWebApiPushEvent
  | ServiceUnavailableEv NotifyServiceUnavailable
  | ClientRejectedEv NotifyClientRejected
  | AsyncReplyEv CommandType u64 ErrorType bytes

datatype ClientSlot = OnLogin | OnFriendQuery | OnFriendNew | OnFriendLost | OnFriendStatus | OnRoomEvent |
  OnRoomMessage | OnWebApiPush | OnServiceUnavailable | OnClientRejected | OnAsyncReply

fun slot_of :: "ClientEvent \<Rightarrow> ClientSlot" where
  "slot_of (LoginEv _) = OnLogin"
| "slot_of (FriendQueryEv _) = OnFriendQuery"
| "slot_of (FriendNewEv _ _) = OnFriendNew"
| "slot_of (FriendLostEv _) = OnFriendLost"
| "slot_of (FriendStatusEv _ _ _) = OnFriendStatus"
| "slot_of (RoomEv _) = OnRoomEvent"
| "slot_of (RoomMessageEv _) = OnRoomMessage"
| "slot_of (WebApiPushEv _) = OnWebApiPush"
| "slot_of (ServiceUnavailableEv _) = OnServiceUnavailable"
| "slot_of (ClientRejectedEv _) = OnClientRejected"
| "slot_of (AsyncReplyEv _ _ _ _) = OnAsyncReply"

text \<open>
  The request messages that are serialised. A storage request names its owner by online id, by
  virtual user or by account, and may check the last author (account and online id) and date.
\<close>

record TusOwner =
  to_npid :: bytes
  to_virtualuser :: "bytes option"
  to_accountid :: "s64 option"

record TusChecks =
  tk_author :: "(s64 \<times> bytes option) option"
  tk_date :: "u64 option"

datatype PbRequest =
    LoginRequest (pl_npid: bytes) (pl_password: bytes) (pl_token: "bytes option") (pl_title_id: bytes)
      (pl_title_name: bytes) (pl_appear_offline: bool)
  | FriendCommandRequest bytes
  | SetAppearOfflineRequest bool
  | LookupOnlineIdRequest bytes
  | GetAuthorizationCodeRequest bytes bytes
  | SetClientVersionRequest bytes
  | UnlockTrophyRequest s32 u64
  | SyncTrophiesRequest "(s32 \<times> u64) list"
  | RecordScoreRequest u32 s32 s64 "bytes option" "bytes option" u64
  | RecordScoreGameDataRequest u32 s32 s64
  | GetScoreGameDataRequest u32 bytes s32
  | GetScoreGameDataByAccountIdRequest u32 u64 s32
  | GetScoreNpIdRequest u32 bool bool "(bytes \<times> s32) list"
  | GetScoreRangeRequest u32 u32 u32 bool bool
  | GetScoreAccountIdRequest u32 "(s64 \<times> s32) list" bool bool
  | GetScoreFriendsRequest u32 bool u32 u32 bool bool
  | TusSlotsRequest TusOwner "s32 list"
  | TusSetMultiSlotVariableRequest TusOwner "s32 list" "s64 list"
  | TssGetDataRequest s32 "u64 option" "u64 option" "(s32 \<times> u64) option"
  | TusGetDataRequest TusOwner s32
  | TusMultiUserRequest s32 "bytes list" "bytes list" "s64 list"
  | TusTryAndSetVariableRequest TusOwner s32 s32 s64 "s64 option" TusChecks
  | TusAddAndGetVariableRequest TusOwner s32 s64 TusChecks
  | TusFriendsRequest s32 bool s32 u32 u32
  | TusSetDataRequest TusOwner s32 bytes "bytes option" TusChecks

record PbLoginReply =
  pr_avatar_url :: bytes
  pr_user_id :: u64
  pr_friends :: "FriendEntry list"
  pr_friend_requests_sent :: "bytes list"
  pr_friend_requests_received :: "bytes list"
  pr_blocked :: "bytes list"

record PbRoomEvent =
  pe_ctx_id :: u32
  pe_room_id :: u64
  pe_event :: u32
  pe_event_cause :: u32
  pe_error_code :: s32
  pe_flags :: u32
  pe_has_passwd_mask :: bool
  pe_passwd_slot_mask :: u64
  pe_member :: "RoomEventMember option"
  pe_bin_attrs :: "MatchingBinAttr list"

record ProtoOps =
  po_serialise :: "PbRequest \<Rightarrow> bytes"
  po_login :: "bytes \<Rightarrow> PbLoginReply option"
  po_token :: "bytes \<Rightarrow> bytes option"
  po_features :: "bytes \<Rightarrow> (bool \<times> bool) option"
  po_friend_query :: "bytes \<Rightarrow> bytes option"
  po_friend_new :: "bytes \<Rightarrow> (bytes \<times> bool) option"
  po_friend_lost :: "bytes \<Rightarrow> bytes option"
  po_friend_status :: "bytes \<Rightarrow> (bytes \<times> bool \<times> u64) option"
  po_room_event :: "bytes \<Rightarrow> PbRoomEvent option"
  po_room_message :: "bytes \<Rightarrow> NotifyRoomMessage option"
  po_service_unavailable :: "bytes \<Rightarrow> NotifyServiceUnavailable option"
  po_client_rejected :: "bytes \<Rightarrow> NotifyClientRejected option"
  po_title_id :: bytes
  po_title_name :: bytes
  po_version :: bytes

text \<open>
  The state of a client. \<open>cl_rx\<close> is what the server will have sent on the current socket, \<open>cl_tx\<close>
  what the client has sent on it; \<open>cl_sem_*\<close> tell whether the binary semaphore is released; the
  last three fields count the network resources held.
\<close>

record ShadNetClient =
  cl_npid :: bytes
  cl_password :: bytes
  cl_token :: bytes
  cl_appear_offline :: bool
  cl_terminate :: bool
  cl_connected :: bool
  cl_authenticated :: bool
  cl_state :: ShadNetState
  cl_sem_connected :: bool
  cl_sem_authenticated :: bool
  cl_sock :: s32
  cl_rx :: bytes
  cl_tx :: bytes
  cl_reader :: bool
  cl_writer :: bool
  cl_send_queue :: "bytes list"
  cl_avatar_url :: bytes
  cl_user_id :: u64
  cl_bearer_token :: bytes
  cl_addr_local :: u32
  cl_addr_server :: u32
  cl_server_protocol_version :: u32
  cl_matching2_enabled :: bool
  cl_trophies_enabled :: bool
  cl_server_features_received :: bool
  cl_friends :: "FriendEntry list"
  cl_pkt_counter :: u64
  cl_handlers :: "ClientSlot \<Rightarrow> bool"
  cl_events :: "ClientEvent list"
  cl_pools :: nat
  cl_resolvers :: nat
  cl_sockets :: nat

definition new_client :: ShadNetClient where
  "new_client = \<lparr>cl_npid = [], cl_password = [], cl_token = [], cl_appear_offline = False, cl_terminate = False,
     cl_connected = False, cl_authenticated = False, cl_state = StOk, cl_sem_connected = False,
     cl_sem_authenticated = False, cl_sock = -1, cl_rx = [], cl_tx = [], cl_reader = False, cl_writer = False,
     cl_send_queue = [], cl_avatar_url = [], cl_user_id = 0, cl_bearer_token = [], cl_addr_local = 0,
     cl_addr_server = 0, cl_server_protocol_version = 0, cl_matching2_enabled = False,
     cl_trophies_enabled = False, cl_server_features_received = False, cl_friends = [], cl_pkt_counter = 1,
     cl_handlers = (\<lambda>_. False), cl_events = [], cl_pools = 0, cl_resolvers = 0, cl_sockets = 0\<rparr>"

text \<open>Calling a callback that may be empty.\<close>

definition notify :: "ClientEvent \<Rightarrow> ShadNetClient \<Rightarrow> ShadNetClient" where
  "notify e c = (if cl_handlers c (slot_of e) then c\<lparr>cl_events := cl_events c @ [e]\<rparr> else c)"

section \<open>Little-endian fields and blobs\<close>

definition PutLE16 :: "u16 \<Rightarrow> bytes" where "PutLE16 v = le_bytes 2 v"
definition PutLE32 :: "u32 \<Rightarrow> bytes" where "PutLE32 v = le_bytes 4 v"
definition PutLE64 :: "u64 \<Rightarrow> bytes" where "PutLE64 v = le_bytes 8 v"
definition GetLE16 :: "nat \<Rightarrow> bytes \<Rightarrow> u16" where "GetLE16 off p = le_word (mem_slice off 2 p)"
definition GetLE32 :: "nat \<Rightarrow> bytes \<Rightarrow> u32" where "GetLE32 off p = le_word (mem_slice off 4 p)"
definition GetLE64 :: "nat \<Rightarrow> bytes \<Rightarrow> u64" where "GetLE64 off p = le_word (mem_slice off 8 p)"

definition MakeProtoPayload :: "bytes \<Rightarrow> bytes" where
  "MakeProtoPayload serialised = PutLE32 (of_nat (length serialised)) @ serialised"

definition MakeComIdPayload :: "bytes \<Rightarrow> bytes \<Rightarrow> bytes" where
  "MakeComIdPayload com_id proto_bytes = com_id @ PutLE32 (of_nat (length proto_bytes)) @ proto_bytes"

text \<open>Positions are 32-bit signed; the length is compared after a cast to a signed value.\<close>

definition ExtractBlob :: "bytes \<Rightarrow> s32 \<Rightarrow> bytes outcome" where
  "ExtractBlob p pos =
     (if pos + 4 > to_s32 (int (length p)) then Returned []
      else
        let len = GetLE32 (nat pos) p;
            pos' = pos + 4
        in if pos' + to_s32 (uint len) > to_s32 (int (length p)) then Returned []
           else read_mem p (nat pos') (unat len))"

section \<open>Sending\<close>

definition BuildPacket :: "CommandType \<Rightarrow> u64 \<Rightarrow> bytes \<Rightarrow> bytes" where
  "BuildPacket cmd i payload =
     packet_type_raw Request # PutLE16 cmd @ PutLE32 (of_nat (SHAD_HEADER_SIZE + length payload)) @
     PutLE64 i @ payload"

definition SubmitRequest :: "CommandType \<Rightarrow> bytes \<Rightarrow> ShadNetClient \<Rightarrow> u64 \<times> ShadNetClient" where
  "SubmitRequest cmd payload c =
     (let pkt_id = cl_pkt_counter c
      in (pkt_id, c\<lparr>cl_pkt_counter := pkt_id + 1, cl_send_queue := cl_send_queue c @ [BuildPacket cmd pkt_id payload]\<rparr>))"

definition submit_proto :: "ProtoOps \<Rightarrow> CommandType \<Rightarrow> PbRequest \<Rightarrow> ShadNetClient \<Rightarrow> u64 \<times> ShadNetClient" where
  "submit_proto ops cmd req = SubmitRequest cmd (MakeProtoPayload (po_serialise ops req))"

definition AddFriend :: "ProtoOps \<Rightarrow> bytes \<Rightarrow> ShadNetClient \<Rightarrow> u64 \<times> ShadNetClient" where
  "AddFriend ops npid = submit_proto ops CmdAddFriend (FriendCommandRequest npid)"

definition RemoveFriend :: "ProtoOps \<Rightarrow> bytes \<Rightarrow> ShadNetClient \<Rightarrow> u64 \<times> ShadNetClient" where
  "RemoveFriend ops npid = submit_proto ops CmdRemoveFriend (FriendCommandRequest npid)"

definition AddBlock :: "ProtoOps \<Rightarrow> bytes \<Rightarrow> ShadNetClient \<Rightarrow> u64 \<times> ShadNetClient" where
  "AddBlock ops npid = submit_proto ops CmdAddBlock (FriendCommandRequest npid)"

definition RemoveBlock :: "ProtoOps \<Rightarrow> bytes \<Rightarrow> ShadNetClient \<Rightarrow> u64 \<times> ShadNetClient" where
  "RemoveBlock ops npid = submit_proto ops CmdRemoveBlock (FriendCommandRequest npid)"

definition SetAppearOffline :: "ProtoOps \<Rightarrow> bool \<Rightarrow> ShadNetClient \<Rightarrow> u64 \<times> ShadNetClient" where
  "SetAppearOffline ops enable c =
     (let c1 = c\<lparr>cl_appear_offline := enable\<rparr>
      in if \<not> cl_authenticated c1 then (0, c1)
         else submit_proto ops CmdSetAppearOffline (SetAppearOfflineRequest enable) c1)"

definition LookupOnlineId :: "ProtoOps \<Rightarrow> bytes \<Rightarrow> ShadNetClient \<Rightarrow> u64 \<times> ShadNetClient" where
  "LookupOnlineId ops npid = submit_proto ops CmdLookupOnlineId (LookupOnlineIdRequest npid)"

definition GetAuthorizationCodeCmd :: "ProtoOps \<Rightarrow> bytes \<Rightarrow> bytes \<Rightarrow> ShadNetClient \<Rightarrow> u64 \<times> ShadNetClient" where
  "GetAuthorizationCodeCmd ops client_id scope =
     submit_proto ops CmdGetAuthorizationCode (GetAuthorizationCodeRequest client_id scope)"

definition ReportClientVersion :: "ProtoOps \<Rightarrow> ShadNetClient \<Rightarrow> u64 \<times> ShadNetClient" where
  "ReportClientVersion ops = submit_proto ops CmdSetClientVersion (SetClientVersionRequest (po_version ops))"

definition UnlockTrophy :: "ProtoOps \<Rightarrow> bytes \<Rightarrow> s32 \<Rightarrow> u64 \<Rightarrow> ShadNetClient \<Rightarrow> u64 \<times> ShadNetClient" where
  "UnlockTrophy ops com_id trophy_id timestamp =
     SubmitRequest CmdUnlockTrophy (MakeComIdPayload com_id (po_serialise ops (UnlockTrophyRequest trophy_id timestamp)))"

definition SyncTrophies :: "ProtoOps \<Rightarrow> bytes \<Rightarrow> (s32 \<times> u64) list \<Rightarrow> ShadNetClient \<Rightarrow> u64 \<times> ShadNetClient" where
  "SyncTrophies ops com_id local_trophies =
     SubmitRequest CmdSyncTrophies (MakeComIdPayload com_id (po_serialise ops (SyncTrophiesRequest local_trophies)))"

definition RequestServerFeatures :: "ShadNetClient \<Rightarrow> ShadNetClient" where
  "RequestServerFeatures c = snd (SubmitRequest CmdGetServerFeatures [] c)"

text \<open>
  One round of the writer thread: it takes the whole queue and sends it packet by packet;
  \<open>send_ok\<close> are the results of \<open>SendAll\<close>. A failure ends the thread and drops the rest of the batch.
\<close>

fun send_batch :: "bytes list \<Rightarrow> bool list \<Rightarrow> ShadNetClient \<Rightarrow> ShadNetClient" where
  "send_batch [] oks c = c"
| "send_batch (pkt # batch) oks c =
     (if \<not> cl_connected c then c
      else case oks of
        True # oks' \<Rightarrow> send_batch batch oks' (c\<lparr>cl_tx := cl_tx c @ pkt\<rparr>)
      | _ \<Rightarrow> c\<lparr>cl_writer := False\<rparr>)"

definition writer_turn :: "bool list \<Rightarrow> ShadNetClient \<Rightarrow> ShadNetClient" where
  "writer_turn oks c =
     (if \<not> cl_writer c then c
      else if cl_terminate c then c\<lparr>cl_writer := False\<rparr>
      else if cl_send_queue c = [] then c
      else send_batch (cl_send_queue c) oks (c\<lparr>cl_send_queue := []\<rparr>))"

end
