(* ===== verification/ShadNetReader.thy ===== *)
theory ShadNetReader
  imports ShadNetClient
begin

text \<open>
  The receiving side of the client (shadnet/client.cpp): the handlers of replies and
  notifications, the reader thread over the bytes of the stream, connecting and the retry loop.
  A read outside a payload is the outcome \<open>OutOfBounds\<close>.
\<close>

section \<open>The socket\<close>

definition DoDisconnect :: "ShadNetClient \<Rightarrow> ShadNetClient" where
  "DoDisconnect c = (if cl_sock c \<noteq> -1 then c\<lparr>cl_sock := -1, cl_sockets := cl_sockets c - 1\<rparr> else c)"

text \<open>\<open>n\<close> bytes of the stream; \<open>None\<close> when the connection ends before, or is closed here.\<close>

definition RecvN :: "nat \<Rightarrow> ShadNetClient \<Rightarrow> bytes option \<times> ShadNetClient" where
  "RecvN n c =
     (if n = 0 then (Some [], c)
      else if cl_terminate c \<or> cl_sock c = -1 then (None, c)
      else if length (cl_rx c) < n then (None, c\<lparr>cl_rx := []\<rparr>)
      else (Some (take n (cl_rx c)), c\<lparr>cl_rx := drop n (cl_rx c)\<rparr>))"

section \<open>Replies\<close>

definition login_failure_state :: "ErrorType \<Rightarrow> ShadNetState" where
  "login_failure_state e = (if e = 6 then FailureAlreadyIn else if e = 7 then FailureUsername
     else if e = 8 then FailurePassword else if e = 9 then FailureToken else FailureAuth)"

definition login_accepted :: "PbLoginReply \<Rightarrow> LoginResult \<Rightarrow> ShadNetClient \<Rightarrow> LoginResult \<times> ShadNetClient" where
  "login_accepted pb res0 c =
     (let res = res0\<lparr>lr_avatar_url := pr_avatar_url pb, lr_user_id := pr_user_id pb, lr_friends := pr_friends pb,
                lr_requests_sent := pr_friend_requests_sent pb, lr_requests_received := pr_friend_requests_received pb,
                lr_blocked := pr_blocked pb\<rparr>;
          c1 = c\<lparr>cl_avatar_url := lr_avatar_url res, cl_user_id := lr_user_id res, cl_friends := lr_friends res,
                 cl_authenticated := True\<rparr>
      in (res, snd (SubmitRequest CmdGetToken [] c1)))"

definition login_failed :: "ShadNetState \<Rightarrow> ShadNetClient \<Rightarrow> ShadNetClient" where
  "login_failed st c = DoDisconnect (c\<lparr>cl_state := st, cl_sem_authenticated := True\<rparr>)"

definition HandleLoginReply :: "ProtoOps \<Rightarrow> bytes \<Rightarrow> ShadNetClient \<Rightarrow> ShadNetClient outcome" where
  "HandleLoginReply ops payload c =
     (if payload = [] then Returned (notify (LoginEv zero_login_result) c)
      else
        let res = zero_login_result\<lparr>lr_error := hd payload\<rparr>
        in if lr_error res = NoError
           then bind_outcome (ExtractBlob payload 1) (\<lambda>blob.
                  case (if blob = [] then None else po_login ops blob) of
                    Some pb \<Rightarrow> let (res1, c1) = login_accepted pb res c in Returned (notify (LoginEv res1) c1)
                  | None \<Rightarrow> Returned (notify (LoginEv (res\<lparr>lr_error := ErrMalformed\<rparr>)) (login_failed FailureProtocol c)))
           else Returned (notify (LoginEv res) (login_failed (login_failure_state (lr_error res)) c)))"

definition HandleGetTokenReply :: "ProtoOps \<Rightarrow> bytes \<Rightarrow> ShadNetClient \<Rightarrow> ShadNetClient outcome" where
  "HandleGetTokenReply ops payload c =
     (if payload = [] then Returned (RequestServerFeatures c)
      else if hd payload \<noteq> NoError then Returned (RequestServerFeatures c)
      else bind_outcome (ExtractBlob payload 1) (\<lambda>blob.
             case (if blob = [] then None else po_token ops blob) of
               None \<Rightarrow> Returned (RequestServerFeatures c)
             | Some token \<Rightarrow> Returned (RequestServerFeatures (c\<lparr>cl_bearer_token := token\<rparr>))))"

definition HandleServerFeaturesReply :: "ProtoOps \<Rightarrow> bytes \<Rightarrow> ShadNetClient \<Rightarrow> ShadNetClient outcome" where
  "HandleServerFeaturesReply ops payload c =
     bind_outcome
       (if payload \<noteq> [] \<and> hd payload = NoError
        then bind_outcome (ExtractBlob payload 1) (\<lambda>blob.
               Returned (if blob = [] then None else po_features ops blob))
        else Returned None)
       (\<lambda>features.
          let c1 = c\<lparr>cl_matching2_enabled := (case features of Some (m, t) \<Rightarrow> m | None \<Rightarrow> False),
                     cl_trophies_enabled := (case features of Some (m, t) \<Rightarrow> t | None \<Rightarrow> False),
                     cl_server_features_received := (features \<noteq> None)\<rparr>;
              c2 = snd (ReportClientVersion ops c1)
          in Returned (c2\<lparr>cl_sem_authenticated := True\<rparr>))"

section \<open>Notifications\<close>

definition room_event_of :: "PbRoomEvent \<Rightarrow> NotifyRoomEvent" where
  "room_event_of pb = \<lparr>re_ctx_id = pe_ctx_id pb, re_room_id = pe_room_id pb, re_event = pe_event pb,
     re_event_cause = pe_event_cause pb, re_error_code = pe_error_code pb, re_flags = pe_flags pb,
     re_has_passwd_mask = pe_has_passwd_mask pb, re_passwd_slot_mask = pe_passwd_slot_mask pb,
     re_member = (case pe_member pb of Some m \<Rightarrow> m | None \<Rightarrow> zero_room_member), re_bin_attrs = pe_bin_attrs pb\<rparr>"

text \<open>The loop over the extended data: the pairs read, the offset, and whether it was complete.\<close>

fun read_extd :: "bytes \<Rightarrow> nat \<Rightarrow> s32 \<Rightarrow> (bytes \<times> bytes) list \<Rightarrow> (s32 \<times> (bytes \<times> bytes) list \<times> bool) outcome" where
  "read_extd payload 0 off acc = Returned (off, acc, True)"
| "read_extd payload (Suc n) off acc =
     (let sz = to_s32 (int (length payload))
      in if off + 4 > sz then Returned (off, acc, False)
         else bind_outcome (ExtractBlob payload off) (\<lambda>key.
           let off1 = off + 4 + int (length key)
           in if off1 + 4 > sz then Returned (off1, acc, False)
              else bind_outcome (ExtractBlob payload off1) (\<lambda>val.
                read_extd payload n (off1 + 4 + int (length val)) (acc @ [(key, val)]))))"

definition read_extd_section :: "bytes \<Rightarrow> s32 \<Rightarrow> NotifyWebApiPushEvent \<Rightarrow> NotifyWebApiPushEvent outcome" where
  "read_extd_section payload off n =
     (let sz = to_s32 (int (length payload))
      in if off + 4 \<le> sz
         then let count = GetLE32 (nat off) payload
              in bind_outcome (read_extd payload (unat (min count 256)) (off + 4) [])
                   (\<lambda>(off1, extd, loop_complete).
                      let n1 = n\<lparr>wp_extd_data := extd\<rparr>
                      in if count \<le> 256 \<and> loop_complete \<and> off1 + 16 \<le> sz
                         then Returned (n1\<lparr>wp_from_account_id := GetLE64 (nat off1) payload,
                                           wp_to_account_id := GetLE64 (nat (off1 + 8)) payload\<rparr>)
                         else Returned n1)
         else Returned n)"

definition parse_push_event :: "bytes \<Rightarrow> NotifyWebApiPushEvent outcome" where
  "parse_push_event payload =
     (let sz = to_s32 (int (length payload))
      in bind_outcome (ExtractBlob payload 0) (\<lambda>service.
         let off0 = 4 + int (length service);
             (label, off1) = (if off0 + 4 \<le> sz then (GetLE32 (nat off0) payload, off0 + 4) else (0, off0))
         in bind_outcome (ExtractBlob payload off1) (\<lambda>data_type.
         let off2 = off1 + 4 + int (length data_type)
         in bind_outcome (ExtractBlob payload off2) (\<lambda>dat.
         let off3 = off2 + 4 + int (length dat)
         in bind_outcome (ExtractBlob payload off3) (\<lambda>from_npid.
         let off4 = off3 + 4 + int (length from_npid)
         in bind_outcome (ExtractBlob payload off4) (\<lambda>to_npid.
         let off5 = off4 + 4 + int (length to_npid)
         in read_extd_section payload off5
              (zero_push_event\<lparr>wp_np_service_name := service, wp_np_service_label := label,
                 wp_data_type := data_type, wp_data := dat, wp_from_npid := from_npid, wp_to_npid := to_npid\<rparr>)))))))"

definition opt_notify :: "ClientEvent option \<Rightarrow> ShadNetClient \<Rightarrow> ShadNetClient outcome" where
  "opt_notify e c = Returned (case e of None \<Rightarrow> c | Some e \<Rightarrow> notify e c)"

definition HandleNotification :: "ProtoOps \<Rightarrow> u16 \<Rightarrow> bytes \<Rightarrow> ShadNetClient \<Rightarrow> ShadNetClient outcome" where
  "HandleNotification ops cmd_raw payload c =
     bind_outcome (ExtractBlob payload 0) (\<lambda>blob.
       if blob = [] \<and> cmd_raw \<noteq> 17 then Returned c
       else if cmd_raw = 5 then opt_notify (map_option FriendQueryEv (po_friend_query ops blob)) c
       else if cmd_raw = 6 then opt_notify (map_option (\<lambda>(npid, online). FriendNewEv npid online) (po_friend_new ops blob)) c
       else if cmd_raw = 7 then opt_notify (map_option FriendLostEv (po_friend_lost ops blob)) c
       else if cmd_raw = 8 then
         opt_notify (map_option (\<lambda>(npid, online, ts). FriendStatusEv npid online ts) (po_friend_status ops blob)) c
       else if cmd_raw = 10 then opt_notify (map_option (RoomEv \<circ> room_event_of) (po_room_event ops blob)) c
       else if cmd_raw = 11 then opt_notify (map_option RoomMessageEv (po_room_message ops blob)) c
       else if cmd_raw = 17 then bind_outcome (parse_push_event payload) (\<lambda>n. Returned (notify (WebApiPushEv n) c))
       else if cmd_raw = 18 then opt_notify (map_option ServiceUnavailableEv (po_service_unavailable ops blob)) c
       else if cmd_raw = 19 then opt_notify (map_option ClientRejectedEv (po_client_rejected ops blob)) c
       else Returned c)"

section \<open>Dispatch and the reader thread\<close>

definition DispatchPacket :: "ProtoOps \<Rightarrow> u8 \<Rightarrow> u16 \<Rightarrow> u64 \<Rightarrow> bytes \<Rightarrow> ShadNetClient \<Rightarrow> ShadNetClient outcome" where
  "DispatchPacket ops ptype cmd_raw pkt_id payload c =
     (if ptype = packet_type_raw Reply then
        if cmd_raw = CmdLogin then HandleLoginReply ops payload c
        else if cmd_raw = CmdGetToken then HandleGetTokenReply ops payload c
        else if cmd_raw = CmdGetServerFeatures then HandleServerFeaturesReply ops payload c
        else Returned (notify (AsyncReplyEv cmd_raw pkt_id (if payload = [] then ErrMalformed else hd payload) (drop 1 payload)) c)
      else if ptype = packet_type_raw Notification then HandleNotification ops cmd_raw payload c
      else Returned c)"

lemma DoDisconnect_rx [simp]: "cl_rx (DoDisconnect c) = cl_rx c"
  by (simp add: DoDisconnect_def)

text \<open>One turn of the loop: \<open>None\<close> when it breaks.\<close>

definition reader_turn :: "ProtoOps \<Rightarrow> ShadNetClient \<Rightarrow> (ShadNetClient outcome option) \<times> ShadNetClient" where
  "reader_turn ops c =
     (case RecvN SHAD_HEADER_SIZE c of
        (None, c1) \<Rightarrow> (None, c1)
      | (Some hdr, c1) \<Rightarrow>
          let ptype = hd hdr; cmd_raw = GetLE16 1 hdr; total_sz = GetLE32 3 hdr; pkt_id = GetLE64 7 hdr
          in if unat total_sz < SHAD_HEADER_SIZE \<or> total_sz > SHAD_MAX_PACKET_SIZE
             then (None, c1\<lparr>cl_state := FailureProtocol\<rparr>)
             else case RecvN (unat total_sz - SHAD_HEADER_SIZE) c1 of
                    (None, c2) \<Rightarrow> (None, c2)
                  | (Some payload, c2) \<Rightarrow> (Some (DispatchPacket ops ptype cmd_raw pkt_id payload c2), c2))"

definition reader_end :: "ShadNetClient \<Rightarrow> ShadNetClient" where
  "reader_end c =
     (let c1 = (if \<not> cl_authenticated c
                then c\<lparr>cl_state := (if cl_state c = StOk then FailureOther else cl_state c), cl_sem_authenticated := True\<rparr>
                else c)
      in c1\<lparr>cl_connected := False, cl_authenticated := False, cl_reader := False\<rparr>)"

lemma RecvN_rx: "RecvN n c = (r, c') \<Longrightarrow> length (cl_rx c') \<le> length (cl_rx c) \<and>
  (n > 0 \<longrightarrow> r \<noteq> None \<longrightarrow> length (cl_rx c') < length (cl_rx c))"
  by (auto simp: RecvN_def split: if_splits)

lemma notify_rx [simp]: "cl_rx (notify e c) = cl_rx c"
  by (simp add: notify_def)

lemma SubmitRequest_rx [simp]: "cl_rx (snd (SubmitRequest cmd p c)) = cl_rx c"
  by (simp add: SubmitRequest_def Let_def)

lemma HandleLoginReply_rx: "HandleLoginReply ops payload c = Returned c' \<Longrightarrow> cl_rx c' = cl_rx c"
  by (auto simp: HandleLoginReply_def Let_def returned_iff login_failed_def login_accepted_def
      split: if_splits option.splits)

lemma HandleGetTokenReply_rx: "HandleGetTokenReply ops payload c = Returned c' \<Longrightarrow> cl_rx c' = cl_rx c"
  by (auto simp: HandleGetTokenReply_def returned_iff RequestServerFeatures_def split: if_splits option.splits)

lemma HandleServerFeaturesReply_rx: "HandleServerFeaturesReply ops payload c = Returned c' \<Longrightarrow> cl_rx c' = cl_rx c"
  by (auto simp: HandleServerFeaturesReply_def returned_iff Let_def ReportClientVersion_def submit_proto_def)

lemma HandleNotification_rx: "HandleNotification ops cmd payload c = Returned c' \<Longrightarrow> cl_rx c' = cl_rx c"
  by (auto simp: HandleNotification_def returned_iff opt_notify_def split: if_splits option.splits)

lemma DispatchPacket_rx: "DispatchPacket ops ty cmd i payload c = Returned c' \<Longrightarrow> cl_rx c' = cl_rx c"
  by (auto simp: DispatchPacket_def HandleLoginReply_rx HandleGetTokenReply_rx HandleServerFeaturesReply_rx
      HandleNotification_rx split: if_splits)

lemma reader_turn_rx:
  "reader_turn ops c = (Some (Returned c'), d) \<Longrightarrow> length (cl_rx c') < length (cl_rx c)"
  by (auto simp: reader_turn_def Let_def split: prod.splits option.splits if_splits
      dest!: RecvN_rx DispatchPacket_rx)

text \<open>The thread runs until a read fails or a packet is corrupt; every turn consumes bytes of the stream.\<close>

function reader_loop :: "ProtoOps \<Rightarrow> ShadNetClient \<Rightarrow> ShadNetClient outcome" where
  "reader_loop ops c =
     (if cl_terminate c then Returned (reader_end c)
      else case reader_turn ops c of
        (None, c1) \<Rightarrow> Returned (reader_end c1)
      | (Some OutOfBounds, c1) \<Rightarrow> OutOfBounds
      | (Some Threw, c1) \<Rightarrow> Threw
      | (Some (Returned c1), _) \<Rightarrow> reader_loop ops c1)"
  by pat_completeness auto
termination by (relation "measure (\<lambda>(ops, c). length (cl_rx c))") (auto dest!: reader_turn_rx [OF sym])

declare reader_loop.simps [simp del]

section \<open>Connecting\<close>

text \<open>The results of the calls of one attempt.\<close>

record ConnectEnv =
  ce_pool :: s32
  ce_resolver :: s32
  ce_ntoa :: s32
  ce_resolver_destroy :: s32
  ce_pool_destroy :: s32
  ce_socket :: s32
  ce_nbio :: s32
  ce_connect :: s32
  ce_einprogress :: bool
  ce_select :: s32
  ce_so_error :: s32
  ce_sockname :: "u32 option"
  ce_peername :: "u32 option"
  ce_stream :: bytes

definition server_info :: "ShadNetClient \<Rightarrow> bool \<times> ShadNetClient" where
  "server_info c =
     (case RecvN SHAD_HEADER_SIZE c of
        (None, c1) \<Rightarrow> (False, (DoDisconnect c1)\<lparr>cl_state := FailureServerInfo\<rparr>)
      | (Some hdr, c1) \<Rightarrow>
          if hd hdr \<noteq> packet_type_raw ServerInfo then (False, (DoDisconnect c1)\<lparr>cl_state := FailureServerInfo\<rparr>)
          else
            let total_sz = unat (GetLE32 3 hdr);
                payload_sz = (if total_sz > SHAD_HEADER_SIZE then total_sz - SHAD_HEADER_SIZE else 0)
            in case RecvN payload_sz c1 of
                 (None, c2) \<Rightarrow> (False, (DoDisconnect c2)\<lparr>cl_state := FailureServerInfo\<rparr>)
               | (Some si, c2) \<Rightarrow>
                   if payload_sz \<ge> 4
                   then let c3 = c2\<lparr>cl_server_protocol_version := GetLE32 0 si\<rparr>
                        in if GetLE32 0 si \<noteq> SHAD_PROTOCOL_VERSION
                           then (False, (DoDisconnect c3)\<lparr>cl_state := FailureProtocol\<rparr>)
                           else (True, c3\<lparr>cl_connected := True\<rparr>)
                   else (True, c2\<lparr>cl_connected := True\<rparr>))"

definition open_socket :: "ConnectEnv \<Rightarrow> ShadNetClient \<Rightarrow> bool \<times> ShadNetClient" where
  "open_socket env c =
     (let c1 = c\<lparr>cl_sock := ce_socket env, cl_sockets := cl_sockets c + (if ce_socket env = -1 then 0 else 1),
                 cl_rx := ce_stream env, cl_tx := []\<rparr>
      in if ce_socket env = -1 \<or> ce_nbio env \<noteq> 0 then (False, c1\<lparr>cl_state := FailureConnect\<rparr>)
         else if \<not> ((ce_connect env = 0 \<or> ce_connect env < 0 \<and> ce_einprogress env) \<and>
                    ce_select env > 0 \<and> ce_so_error env = 0)
         then (False, (DoDisconnect c1)\<lparr>cl_state := FailureConnect\<rparr>)
         else server_info (c1\<lparr>cl_addr_local := (case ce_sockname env of Some a \<Rightarrow> a | None \<Rightarrow> cl_addr_local c1),
                              cl_addr_server := (case ce_peername env of Some a \<Rightarrow> a | None \<Rightarrow> cl_addr_server c1)\<rparr>))"

definition DoConnect :: "ConnectEnv \<Rightarrow> ShadNetClient \<Rightarrow> bool \<times> ShadNetClient" where
  "DoConnect env c0 =
     (let c = c0\<lparr>cl_state := StOk\<rparr>
      in if ce_pool env < 0 then (False, c\<lparr>cl_state := FailureConnect\<rparr>)
         else let c1 = c\<lparr>cl_pools := cl_pools c + 1\<rparr>
         in if ce_resolver env < 0 then (False, c1\<lparr>cl_state := FailureConnect\<rparr>)
         else let c2 = c1\<lparr>cl_resolvers := cl_resolvers c1 + 1\<rparr>
         in if ce_ntoa env \<noteq> 0 then (False, c2\<lparr>cl_state := FailureConnect\<rparr>)
         else let c3 = (if ce_resolver_destroy env = 0 then c2\<lparr>cl_resolvers := cl_resolvers c2 - 1\<rparr> else c2);
                  c4 = (if ce_pool_destroy env = 0 then c3\<lparr>cl_pools := cl_pools c3 - 1\<rparr> else c3)
         in open_socket env c4)"

text \<open>The retry loop: whether it connected, and the milliseconds slept between the attempts.\<close>

function connect_loop :: "(nat \<Rightarrow> ConnectEnv) \<Rightarrow> nat \<Rightarrow> nat \<Rightarrow> nat \<Rightarrow> ShadNetClient \<Rightarrow> bool \<times> nat \<times> ShadNetClient" where
  "connect_loop env attempt backoff_ms slept c =
     (if attempt > SHAD_CONNECT_MAX_ATTEMPTS \<or> cl_terminate c then (False, slept, c)
      else let (ok, c1) = DoConnect (env attempt) c
           in if ok then (True, slept, c1)
              else if cl_state c1 = FailureProtocol then (False, slept, c1)
              else if cl_terminate c1 \<or> attempt = SHAD_CONNECT_MAX_ATTEMPTS then (False, slept, c1)
              else connect_loop env (attempt + 1) (min (backoff_ms * 2) 8000) (slept + backoff_ms) c1)"
  by pat_completeness auto
termination by (relation "measure (\<lambda>(env, attempt, _). Suc SHAD_CONNECT_MAX_ATTEMPTS - attempt)") auto

declare connect_loop.simps [simp del]

text \<open>\<open>login_sent\<close> is the result of sending the login packet.\<close>

definition ConnectThread :: "ProtoOps \<Rightarrow> (nat \<Rightarrow> ConnectEnv) \<Rightarrow> bool \<Rightarrow> ShadNetClient \<Rightarrow> nat \<times> ShadNetClient" where
  "ConnectThread ops env login_sent c =
     (let (connected, slept, c1) = connect_loop env 1 SHAD_CONNECT_RETRY_BACKOFF_MS 0 c
      in if \<not> connected then (slept, c1\<lparr>cl_sem_connected := True, cl_sem_authenticated := True\<rparr>)
         else
           let c2 = c1\<lparr>cl_reader := True, cl_writer := True, cl_sem_connected := True\<rparr>;
               req = LoginRequest (cl_npid c2) (cl_password c2) (if cl_token c2 = [] then None else Some (cl_token c2))
                       (po_title_id ops) (po_title_name ops) (cl_appear_offline c2);
               pkt_id = cl_pkt_counter c2;
               c3 = c2\<lparr>cl_pkt_counter := pkt_id + 1\<rparr>
           in if \<not> login_sent then (slept, c3\<lparr>cl_state := FailureOther\<rparr>)
              else (slept, c3\<lparr>cl_tx := cl_tx c3 @ BuildPacket CmdLogin pkt_id (MakeProtoPayload (po_serialise ops req))\<rparr>))"

definition StartClient ::
  "ProtoOps \<Rightarrow> (nat \<Rightarrow> ConnectEnv) \<Rightarrow> bool \<Rightarrow> bytes \<Rightarrow> bytes \<Rightarrow> bytes \<Rightarrow> ShadNetClient \<Rightarrow> nat \<times> ShadNetClient" where
  "StartClient ops env login_sent npid password token c =
     ConnectThread ops env login_sent
       (c\<lparr>cl_npid := npid, cl_password := password, cl_token := token, cl_terminate := False\<rparr>)"

text \<open>Stopping: the semaphores are released, the socket is closed, and the threads end.\<close>

definition StopClient :: "ShadNetClient \<Rightarrow> ShadNetClient" where
  "StopClient c0 =
     (let c = DoDisconnect (c0\<lparr>cl_terminate := True, cl_sem_connected := True, cl_sem_authenticated := True\<rparr>);
          c1 = (if cl_reader c then reader_end c else c)
      in c1\<lparr>cl_writer := False\<rparr>)"

text \<open>\<open>None\<close>: the caller waits. The semaphore is binary: acquiring it takes its token.\<close>

definition WaitForAuthenticated :: "ShadNetClient \<Rightarrow> (ShadNetState \<times> ShadNetClient) option" where
  "WaitForAuthenticated c =
     (if cl_authenticated c then Some (StOk, c)
      else if cl_sem_authenticated c
      then Some (if cl_authenticated c then StOk else cl_state c, c\<lparr>cl_sem_authenticated := False\<rparr>)
      else None)"

definition WaitForConnection :: "ShadNetClient \<Rightarrow> (ShadNetState \<times> ShadNetClient) option" where
  "WaitForConnection c =
     (if cl_connected c then Some (StOk, c)
      else if cl_sem_connected c
      then Some (if cl_connected c then StOk else cl_state c, c\<lparr>cl_sem_connected := False\<rparr>)
      else None)"

end
