(* ===== verification/NpErrors.thy ===== *)
theory NpErrors
  imports NpTypes
begin

text \<open>The error codes of np_error.h that the manager, auth, utility, score and storage libraries return.\<close>

definition ORBIS_NP_ERROR_INVALID_ARGUMENT :: s32 where
  [simp]: "ORBIS_NP_ERROR_INVALID_ARGUMENT = 0x80550003 - 2 ^ 32"
definition ORBIS_NP_ERROR_SIGNED_OUT :: s32 where
  [simp]: "ORBIS_NP_ERROR_SIGNED_OUT = 0x80550006 - 2 ^ 32"
definition ORBIS_NP_ERROR_CALLBACK_ALREADY_REGISTERED :: s32 where
  [simp]: "ORBIS_NP_ERROR_CALLBACK_ALREADY_REGISTERED = 0x80550008 - 2 ^ 32"
definition ORBIS_NP_ERROR_CALLBACK_NOT_REGISTERED :: s32 where
  [simp]: "ORBIS_NP_ERROR_CALLBACK_NOT_REGISTERED = 0x80550009 - 2 ^ 32"
definition ORBIS_NP_ERROR_INVALID_SIZE :: s32 where
  [simp]: "ORBIS_NP_ERROR_INVALID_SIZE = 0x80550011 - 2 ^ 32"
definition ORBIS_NP_ERROR_ABORTED :: s32 where
  [simp]: "ORBIS_NP_ERROR_ABORTED = 0x80550012 - 2 ^ 32"
definition ORBIS_NP_ERROR_REQUEST_MAX :: s32 where
  [simp]: "ORBIS_NP_ERROR_REQUEST_MAX = 0x80550013 - 2 ^ 32"
definition ORBIS_NP_ERROR_REQUEST_NOT_FOUND :: s32 where
  [simp]: "ORBIS_NP_ERROR_REQUEST_NOT_FOUND = 0x80550014 - 2 ^ 32"
definition ORBIS_NP_ERROR_INVALID_ID :: s32 where
  [simp]: "ORBIS_NP_ERROR_INVALID_ID = 0x80550015 - 2 ^ 32"
definition ORBIS_NP_ERROR_CALLBACK_MAX :: s32 where
  [simp]: "ORBIS_NP_ERROR_CALLBACK_MAX = 0x8055001D - 2 ^ 32"
definition ORBIS_NP_AUTH_ERROR_INVALID_ARGUMENT :: s32 where
  [simp]: "ORBIS_NP_AUTH_ERROR_INVALID_ARGUMENT = 0x80550301 - 2 ^ 32"
definition ORBIS_NP_AUTH_ERROR_INVALID_SIZE :: s32 where
  [simp]: "ORBIS_NP_AUTH_ERROR_INVALID_SIZE = 0x80550302 - 2 ^ 32"
definition ORBIS_NP_AUTH_ERROR_ABORTED :: s32 where
  [simp]: "ORBIS_NP_AUTH_ERROR_ABORTED = 0x80550304 - 2 ^ 32"
definition ORBIS_NP_AUTH_ERROR_REQUEST_MAX :: s32 where
  [simp]: "ORBIS_NP_AUTH_ERROR_REQUEST_MAX = 0x80550305 - 2 ^ 32"
definition ORBIS_NP_AUTH_ERROR_REQUEST_NOT_FOUND :: s32 where
  [simp]: "ORBIS_NP_AUTH_ERROR_REQUEST_NOT_FOUND = 0x80550306 - 2 ^ 32"
definition ORBIS_NP_AUTH_ERROR_INVALID_ID :: s32 where
  [simp]: "ORBIS_NP_AUTH_ERROR_INVALID_ID = 0x80550307 - 2 ^ 32"
definition ORBIS_NP_AUTH_ERROR_NO_TOKEN_RECEIVED :: s32 where
  [simp]: "ORBIS_NP_AUTH_ERROR_NO_TOKEN_RECEIVED = 0x80550308 - 2 ^ 32"
definition ORBIS_NP_AUTH_ERROR_SERVICE_DOWN :: s32 where
  [simp]: "ORBIS_NP_AUTH_ERROR_SERVICE_DOWN = 0x80550401 - 2 ^ 32"
definition ORBIS_NP_AUTH_ERROR_SERVICE_BUSY :: s32 where
  [simp]: "ORBIS_NP_AUTH_ERROR_SERVICE_BUSY = 0x80550402 - 2 ^ 32"
definition ORBIS_NP_COMMUNITY_ERROR_INVALID_ARGUMENT :: s32 where
  [simp]: "ORBIS_NP_COMMUNITY_ERROR_INVALID_ARGUMENT = 0x80550704 - 2 ^ 32"
definition ORBIS_NP_COMMUNITY_ERROR_NO_LOGIN :: s32 where
  [simp]: "ORBIS_NP_COMMUNITY_ERROR_NO_LOGIN = 0x80550705 - 2 ^ 32"
definition ORBIS_NP_COMMUNITY_ERROR_TOO_MANY_OBJECTS :: s32 where
  [simp]: "ORBIS_NP_COMMUNITY_ERROR_TOO_MANY_OBJECTS = 0x80550706 - 2 ^ 32"
definition ORBIS_NP_COMMUNITY_ERROR_ABORTED :: s32 where
  [simp]: "ORBIS_NP_COMMUNITY_ERROR_ABORTED = 0x80550707 - 2 ^ 32"
definition ORBIS_NP_COMMUNITY_ERROR_BAD_RESPONSE :: s32 where
  [simp]: "ORBIS_NP_COMMUNITY_ERROR_BAD_RESPONSE = 0x80550708 - 2 ^ 32"
definition ORBIS_NP_COMMUNITY_ERROR_INSUFFICIENT_ARGUMENT :: s32 where
  [simp]: "ORBIS_NP_COMMUNITY_ERROR_INSUFFICIENT_ARGUMENT = 0x8055070C - 2 ^ 32"
definition ORBIS_NP_COMMUNITY_ERROR_INVALID_ID :: s32 where
  [simp]: "ORBIS_NP_COMMUNITY_ERROR_INVALID_ID = 0x8055070E - 2 ^ 32"
definition ORBIS_NP_COMMUNITY_ERROR_INVALID_TYPE :: s32 where
  [simp]: "ORBIS_NP_COMMUNITY_ERROR_INVALID_TYPE = 0x80550711 - 2 ^ 32"
definition ORBIS_NP_COMMUNITY_ERROR_INVALID_ALIGNMENT :: s32 where
  [simp]: "ORBIS_NP_COMMUNITY_ERROR_INVALID_ALIGNMENT = 0x80550714 - 2 ^ 32"
definition ORBIS_NP_COMMUNITY_ERROR_TOO_MANY_SLOTID :: s32 where
  [simp]: "ORBIS_NP_COMMUNITY_ERROR_TOO_MANY_SLOTID = 0x80550718 - 2 ^ 32"
definition ORBIS_NP_COMMUNITY_ERROR_TOO_MANY_NPID :: s32 where
  [simp]: "ORBIS_NP_COMMUNITY_ERROR_TOO_MANY_NPID = 0x80550719 - 2 ^ 32"
definition ORBIS_NP_COMMUNITY_SERVER_ERROR_FORBIDDEN :: s32 where
  [simp]: "ORBIS_NP_COMMUNITY_SERVER_ERROR_FORBIDDEN = 0x80550806 - 2 ^ 32"
definition ORBIS_NP_COMMUNITY_SERVER_ERROR_INTERNAL_SERVER_ERROR :: s32 where
  [simp]: "ORBIS_NP_COMMUNITY_SERVER_ERROR_INTERNAL_SERVER_ERROR = 0x80550807 - 2 ^ 32"
definition ORBIS_NP_COMMUNITY_SERVER_ERROR_USER_PROFILE_NOT_FOUND :: s32 where
  [simp]: "ORBIS_NP_COMMUNITY_SERVER_ERROR_USER_PROFILE_NOT_FOUND = 0x8055080D - 2 ^ 32"
definition ORBIS_NP_COMMUNITY_SERVER_ERROR_GAME_RANKING_NOT_FOUND :: s32 where
  [simp]: "ORBIS_NP_COMMUNITY_SERVER_ERROR_GAME_RANKING_NOT_FOUND = 0x80550812 - 2 ^ 32"
definition ORBIS_NP_COMMUNITY_SERVER_ERROR_RANKING_STORE_NOT_FOUND :: s32 where
  [simp]: "ORBIS_NP_COMMUNITY_SERVER_ERROR_RANKING_STORE_NOT_FOUND = 0x80550814 - 2 ^ 32"
definition ORBIS_NP_COMMUNITY_SERVER_ERROR_NOT_BEST_SCORE :: s32 where
  [simp]: "ORBIS_NP_COMMUNITY_SERVER_ERROR_NOT_BEST_SCORE = 0x80550815 - 2 ^ 32"
definition ORBIS_NP_COMMUNITY_SERVER_ERROR_RANKING_BOARD_MASTER_NOT_FOUND :: s32 where
  [simp]: "ORBIS_NP_COMMUNITY_SERVER_ERROR_RANKING_BOARD_MASTER_NOT_FOUND = 0x80550817 - 2 ^ 32"
definition ORBIS_NP_COMMUNITY_SERVER_ERROR_RANKING_GAME_DATA_MASTER_NOT_FOUND :: s32 where
  [simp]: "ORBIS_NP_COMMUNITY_SERVER_ERROR_RANKING_GAME_DATA_MASTER_NOT_FOUND = 0x80550818 - 2 ^ 32"
definition ORBIS_NP_COMMUNITY_SERVER_ERROR_TOO_LARGE_DATA :: s32 where
  [simp]: "ORBIS_NP_COMMUNITY_SERVER_ERROR_TOO_LARGE_DATA = 0x8055081A - 2 ^ 32"
definition ORBIS_NP_COMMUNITY_SERVER_ERROR_INVALID_SCORE :: s32 where
  [simp]: "ORBIS_NP_COMMUNITY_SERVER_ERROR_INVALID_SCORE = 0x80550823 - 2 ^ 32"
definition ORBIS_NP_COMMUNITY_SERVER_ERROR_GAME_DATA_ALREADY_EXISTS :: s32 where
  [simp]: "ORBIS_NP_COMMUNITY_SERVER_ERROR_GAME_DATA_ALREADY_EXISTS = 0x8055082C - 2 ^ 32"
definition ORBIS_NP_COMMUNITY_SERVER_ERROR_CONDITIONS_NOT_SATISFIED :: s32 where
  [simp]: "ORBIS_NP_COMMUNITY_SERVER_ERROR_CONDITIONS_NOT_SATISFIED = 0x80550873 - 2 ^ 32"

end
