(* ===== verification/RequestCtx.thy ===== *)
theory RequestCtx
  imports NpErrors
begin

text \<open>
  The request contexts that the Np libraries share with the shadNet handler (np_auth_ctx.h,
  np_score_ctx.h, np_tus_ctx.h, np_utility_ctx.h): a result that is set once and waited for. Their
  common contract is a locale, interpreted on each of them. \<open>shared_ptr\<close>s to contexts are
  addresses into a store.
\<close>

section \<open>The contract\<close>

locale result_cell =
  fixes result :: "'c \<Rightarrow> s32 option"
    and set_result :: "s32 \<Rightarrow> 'c \<Rightarrow> 'c"
  assumes set_fresh: "result c = None \<Longrightarrow> result (set_result r c) = Some r"
    and set_done: "result c \<noteq> None \<Longrightarrow> set_result r c = c"
begin

lemma result_set: "result (set_result r c) = Some (case result c of None \<Rightarrow> r | Some r0 \<Rightarrow> r0)"
  by (cases "result c") (auto simp: set_fresh set_done)

lemma set_twice: "set_result r' (set_result r c) = set_result r c"
  by (rule set_done) (simp add: result_set)

text \<open>Whoever races to set the result, the first one wins.\<close>

lemma first_wins: "fold set_result rs (set_result r c) = set_result r c"
  by (induction rs) (simp_all add: set_twice)

end

section \<open>The contexts\<close>

text \<open>
  \<open>ac_auth_code\<close> is what has been written to the buffer the caller passed, \<open>ac_issuer_id\<close> to its
  integer; \<open>ac_has_issuer\<close> tells whether that pointer is not null.
\<close>

record AuthRequestCtx =
  ac_result :: "s32 option"
  ac_auth_code :: "bytes option"
  ac_has_issuer :: bool
  ac_issuer_id :: "s32 option"

definition new_auth_ctx :: AuthRequestCtx where
  "new_auth_ctx = \<lparr>ac_result = None, ac_auth_code = None, ac_has_issuer = False, ac_issuer_id = None\<rparr>"

definition AuthSetResult :: "s32 \<Rightarrow> AuthRequestCtx \<Rightarrow> AuthRequestCtx" where
  "AuthSetResult r ctx = (if ac_result ctx \<noteq> None then ctx else ctx\<lparr>ac_result := Some r\<rparr>)"

definition SetAuthorizationCode :: "bytes \<Rightarrow> s32 \<Rightarrow> AuthRequestCtx \<Rightarrow> AuthRequestCtx" where
  "SetAuthorizationCode code issuer ctx =
     (if ac_result ctx \<noteq> None then ctx
      else ctx\<lparr>ac_auth_code := Some (code @ replicate (136 - length code) 0),
               ac_issuer_id := (if ac_has_issuer ctx then Some issuer else ac_issuer_id ctx),
               ac_result := Some ORBIS_OK\<rparr>)"

record LookupTimeouts =
  lt_resolve_retry :: s32
  lt_resolve_timeout :: u32
  lt_conn_timeout :: u32
  lt_send_timeout :: u32
  lt_recv_timeout :: u32

record LookupRequestCtx =
  lc_result :: "s32 option"
  lc_title_ctx_id :: s32
  lc_is_async :: bool
  lc_used :: bool
  lc_aborted :: bool
  lc_timeouts :: "LookupTimeouts option"

definition LookupSetResult :: "s32 \<Rightarrow> LookupRequestCtx \<Rightarrow> LookupRequestCtx" where
  "LookupSetResult r ctx = (if lc_result ctx \<noteq> None then ctx else ctx\<lparr>lc_result := Some r\<rparr>)"

record ScoreRequestCtx =
  sc_result :: "s32 option"
  sc_title_ctx_id :: s32
  sc_user_id :: s32
  sc_pc_id :: s32
  sc_has_tmp_rank :: bool
  sc_tmp_rank :: "u32 option"
  sc_game_data_recv_offset :: u64
  sc_game_data_recv_cache :: bytes
  sc_game_data_recv_key :: bytes
  sc_game_data_send_buf :: bytes
  sc_game_data_send_total :: u64

definition new_score_ctx :: ScoreRequestCtx where
  "new_score_ctx = \<lparr>sc_result = None, sc_title_ctx_id = 0, sc_user_id = -1, sc_pc_id = 0, sc_has_tmp_rank = False,
     sc_tmp_rank = None, sc_game_data_recv_offset = 0, sc_game_data_recv_cache = [], sc_game_data_recv_key = [],
     sc_game_data_send_buf = [], sc_game_data_send_total = 0\<rparr>"

definition ScoreSetResult :: "s32 \<Rightarrow> ScoreRequestCtx \<Rightarrow> ScoreRequestCtx" where
  "ScoreSetResult r ctx = (if sc_result ctx \<noteq> None then ctx else ctx\<lparr>sc_result := Some r\<rparr>)"

definition BeginOp :: "ScoreRequestCtx \<Rightarrow> bool \<times> ScoreRequestCtx" where
  "BeginOp ctx = (if sc_result ctx = Some ORBIS_NP_COMMUNITY_ERROR_ABORTED then (False, ctx)
     else (True, ctx\<lparr>sc_result := None\<rparr>))"

record TusRequestCtx =
  tc_result :: "s32 option"

definition TusSetResult :: "s32 \<Rightarrow> TusRequestCtx \<Rightarrow> TusRequestCtx" where
  "TusSetResult r ctx = (if tc_result ctx \<noteq> None then ctx else ctx\<lparr>tc_result := Some r\<rparr>)"

interpretation auth_cell: result_cell ac_result AuthSetResult
  by unfold_locales (auto simp: AuthSetResult_def)

interpretation lookup_cell: result_cell lc_result LookupSetResult
  by unfold_locales (auto simp: LookupSetResult_def)

interpretation score_cell: result_cell sc_result ScoreSetResult
  by unfold_locales (auto simp: ScoreSetResult_def)

interpretation tus_cell: result_cell tc_result TusSetResult
  by unfold_locales (auto simp: TusSetResult_def)


end
