(* ===== verification/HandlerState.thy ===== *)
theory HandlerState
  imports ShadNetReader RequestCtx
begin

text \<open>
  The state of the handler that connects the Np libraries with the shadNet clients
  (np_handler.h), and the structures of the score and storage libraries its replies fill
  (np_score.h, np_tus.h). Padding and reserved fields, which no code reads, are left out. Memory
  of the game that the handler writes through pointers is a store from addresses to typed
  arrays; a pointer is an address, or \<open>None\<close> when null, and a write that is not inside an array
  is the outcome \<open>OutOfBounds\<close>.
\<close>

type_synonym addr = nat

section \<open>Structures of the score library (np_score.h)\<close>

record OrbisNpScoreBoardInfo =
  bi_rank_limit :: u32
  bi_update_mode :: u32
  bi_sort_mode :: u32
  bi_upload_num_limit :: u32
  bi_upload_size_limit :: u64

record OrbisNpScoreGameInfo =
  gi_info_size :: u64
  gi_data :: bytes

record OrbisNpScoreRankData =
  rd_np_id :: OrbisNpId
  rd_pc_id :: s32
  rd_serial_rank :: u32
  rd_rank :: u32
  rd_highest_rank :: u32
  rd_has_game_data :: s32
  rd_score_value :: s64
  rd_record_date :: u64

record OrbisNpScoreRankDataA =
  ra_online_id :: OrbisNpOnlineId
  ra_pc_id :: s32
  ra_serial_rank :: u32
  ra_rank :: u32
  ra_highest_rank :: u32
  ra_has_game_data :: s32
  ra_score_value :: s64
  ra_record_date :: u64
  ra_account_id :: u64

record OrbisNpScorePlayerRankData =
  pd_has_data :: s32
  pd_rank_data :: OrbisNpScoreRankData

record OrbisNpScorePlayerRankDataA =
  pa_has_data :: s32
  pa_rank_data :: OrbisNpScoreRankDataA

section \<open>Structures of the storage library (np_tus.h)\<close>

record OrbisNpTssDataStatus =
  ts_modified :: u64
  ts_status :: s32
  ts_content_length :: u64

record OrbisNpTusDataInfo =
  di_size :: u64
  di_data :: bytes

record OrbisNpTusDataStatus =
  ds_owner_id :: OrbisNpId
  ds_has_data :: s32
  ds_last_changed_date :: u64
  ds_last_changed_author_id :: OrbisNpId
  ds_data :: "addr option"
  ds_data_size :: u64
  ds_info :: OrbisNpTusDataInfo

record OrbisNpTusDataStatusA =
  da_owner_id :: OrbisNpOnlineId
  da_has_data :: s32
  da_last_changed_date :: u64
  da_last_changed_author_id :: OrbisNpOnlineId
  da_data :: "addr option"
  da_data_size :: u64
  da_info :: OrbisNpTusDataInfo
  da_owner_account_id :: u64
  da_last_changed_author_account_id :: u64

record OrbisNpTusDataStatusForCrossSave =
  dc_owner_id :: OrbisNpId
  dc_has_data :: s32
  dc_last_changed_date :: u64
  dc_last_changed_author_id :: OrbisNpId
  dc_data :: "addr option"
  dc_data_size :: u64
  dc_info :: OrbisNpTusDataInfo
  dc_owner_account_id :: u64
  dc_last_changed_author_account_id :: u64

record OrbisNpTusVariable =
  tv_owner_id :: OrbisNpId
  tv_has_data :: s32
  tv_last_changed_date :: u64
  tv_last_changed_author_id :: OrbisNpId
  tv_variable :: s64
  tv_old_variable :: s64
  tv_owner_account_id :: u64
  tv_last_changed_author_account_id :: u64

record OrbisNpTusVariableA =
  va_owner_id :: OrbisNpOnlineId
  va_has_data :: s32
  va_last_changed_date :: u64
  va_last_changed_author_id :: OrbisNpOnlineId
  va_variable :: s64
  va_old_variable :: s64
  va_owner_account_id :: u64
  va_last_changed_author_account_id :: u64

text \<open>\<open>OrbisNpTusVariableForCrossSave\<close> has the fields of \<open>OrbisNpTusVariable\<close>, laid out unpacked.\<close>

type_synonym OrbisNpTusVariableForCrossSave = OrbisNpTusVariable

section \<open>Memory of the game\<close>

text \<open>
  An object in memory: a whole value, or the first \<open>n\<close> bytes of a value over what was there
  before (a \<open>memcpy\<close> with a size below the size of the struct).
\<close>

datatype 'a obj = Whole 'a | Prefix nat 'a "'a obj"

record GameMem =
  gm_u32 :: "addr \<rightharpoonup> u32 list"
  gm_u64 :: "addr \<rightharpoonup> u64 list"
  gm_buf :: "addr \<rightharpoonup> bytes"
  gm_board :: "addr \<rightharpoonup> OrbisNpScoreBoardInfo list"
  gm_comment :: "addr \<rightharpoonup> bytes list"
  gm_info :: "addr \<rightharpoonup> OrbisNpScoreGameInfo list"
  gm_rank :: "addr \<rightharpoonup> OrbisNpScoreRankData list"
  gm_rank_a :: "addr \<rightharpoonup> OrbisNpScoreRankDataA list"
  gm_player :: "addr \<rightharpoonup> OrbisNpScorePlayerRankData list"
  gm_player_a :: "addr \<rightharpoonup> OrbisNpScorePlayerRankDataA list"
  gm_var :: "addr \<rightharpoonup> OrbisNpTusVariable list"
  gm_var_a :: "addr \<rightharpoonup> OrbisNpTusVariableA list"
  gm_var_cs :: "addr \<rightharpoonup> OrbisNpTusVariableForCrossSave list"
  gm_status :: "addr \<rightharpoonup> OrbisNpTusDataStatus obj list"
  gm_status_a :: "addr \<rightharpoonup> OrbisNpTusDataStatusA obj list"
  gm_status_cs :: "addr \<rightharpoonup> OrbisNpTusDataStatusForCrossSave obj list"
  gm_tss :: "addr \<rightharpoonup> OrbisNpTssDataStatus list"

text \<open>Changing element \<open>i\<close> of the array at a pointer.\<close>

definition write_at :: "addr option \<Rightarrow> nat \<Rightarrow> ('a \<Rightarrow> 'a) \<Rightarrow> (addr \<rightharpoonup> 'a list) \<Rightarrow> (addr \<rightharpoonup> 'a list) outcome" where
  "write_at p i f m =
     (case p of
        None \<Rightarrow> OutOfBounds
      | Some a \<Rightarrow>
          (case m a of
             None \<Rightarrow> OutOfBounds
           | Some xs \<Rightarrow> if i < length xs then Returned (m(a \<mapsto> xs[i := f (xs ! i)])) else OutOfBounds))"

text \<open>An output parameter: nothing happens when the pointer is null.\<close>

definition write_out :: "addr option \<Rightarrow> 'a \<Rightarrow> (addr \<rightharpoonup> 'a list) \<Rightarrow> (addr \<rightharpoonup> 'a list) outcome" where
  "write_out p v m = (if p = None then Returned m else write_at p 0 (\<lambda>_. v) m)"

text \<open>\<open>memcpy\<close> of a source, cut to the size of the destination, over the destination.\<close>

definition overlay :: "'a list \<Rightarrow> 'a list \<Rightarrow> 'a list" where
  "overlay src dst = take (length dst) src @ drop (length src) dst"

lemma length_overlay [simp]: "length (overlay src dst) = length dst"
  by (simp add: overlay_def)

lemma write_at_Returned [returned_iff]:
  "write_at p i f m = Returned m' \<longleftrightarrow>
     (\<exists>a xs. p = Some a \<and> m a = Some xs \<and> i < length xs \<and> m' = m(a \<mapsto> xs[i := f (xs ! i)]))"
  by (auto simp: write_at_def split: option.splits)

lemma write_out_Returned [returned_iff]:
  "write_out p v m = Returned m' \<longleftrightarrow> (case p of None \<Rightarrow> m' = m
     | Some a \<Rightarrow> \<exists>xs. m a = Some xs \<and> xs \<noteq> [] \<and> m' = m(a \<mapsto> xs[0 := v]))"
  by (auto simp: write_out_def write_at_def split: option.splits)

section \<open>Writes that stay inside\<close>

text \<open>An array at a pointer, null or holding at least \<open>n\<close> elements.\<close>

definition holds :: "nat \<Rightarrow> (addr \<rightharpoonup> 'a list) \<Rightarrow> addr option \<Rightarrow> bool" where
  "holds n m p \<longleftrightarrow> (case p of None \<Rightarrow> True | Some a \<Rightarrow> (case m a of None \<Rightarrow> False | Some xs \<Rightarrow> n \<le> length xs))"

text \<open>Running to the end with a postcondition, and its rules.\<close>

definition safe :: "('a \<Rightarrow> bool) \<Rightarrow> 'a outcome \<Rightarrow> bool" where
  "safe P m \<longleftrightarrow> (\<exists>x. m = Returned x \<and> P x)"

lemma safe_Returned [simp]: "safe P (Returned x) = P x"
  by (simp add: safe_def)

lemma safe_bind: "safe P m \<Longrightarrow> (\<And>x. P x \<Longrightarrow> safe Q (f x)) \<Longrightarrow> safe Q (bind_outcome m f)"
  by (auto simp: safe_def)

lemma safe_if: "(b \<Longrightarrow> safe P x) \<Longrightarrow> (\<not> b \<Longrightarrow> safe P y) \<Longrightarrow> safe P (if b then x else y)"
  by simp

lemma safe_mono: "safe P m \<Longrightarrow> (\<And>x. P x \<Longrightarrow> Q x) \<Longrightarrow> safe Q m"
  by (auto simp: safe_def)

definition grows :: "(addr \<rightharpoonup> 'a list) \<Rightarrow> (addr \<rightharpoonup> 'a list) \<Rightarrow> bool" where
  "grows m m' \<longleftrightarrow> (\<forall>n q. holds n m q \<longrightarrow> holds n m' q)"

lemma growsD: "grows m m' \<Longrightarrow> holds n m q \<Longrightarrow> holds n m' q"
  by (simp add: grows_def)

lemma safe_write_at:
  assumes "holds n m p" and "p \<noteq> None" and "i < n"
  shows "safe (grows m) (write_at p i f m)"
  using assms by (auto simp: grows_def holds_def safe_def write_at_def split: option.splits if_splits)

lemma safe_write_out:
  assumes "holds 1 m p"
  shows "safe (grows m) (write_out p v m)"
  using safe_write_at [OF assms, of 0] by (simp add: write_out_def grows_def)

lemma holds_le: "holds n m p \<Longrightarrow> k \<le> n \<Longrightarrow> holds k m p"
  by (auto simp: holds_def split: option.splits)

section \<open>State of the handler (np_handler.h)\<close>

datatype OrbisNpState = NotSignedUp | SignedOut | SignedIn

record FriendInfo =
  fi_npid :: bytes
  fi_online :: bool

record FriendListSnapshot =
  fs_friends :: "FriendInfo list"
  fs_requests_received :: "bytes list"
  fs_requests_sent :: "bytes list"
  fs_blocked :: "bytes list"

definition empty_snapshot :: FriendListSnapshot where
  "empty_snapshot = \<lparr>fs_friends = [], fs_requests_received = [], fs_requests_sent = [], fs_blocked = []\<rparr>"

record PendingInvitation =
  pi_session_id :: bytes
  pi_invitation_id :: bytes
  pi_from_npid :: bytes
  pi_to_npid :: bytes
  pi_valid_until :: s64
  pi_from_account_id :: u64

text \<open>Times of the steady clock are in milliseconds.\<close>

record ReconnectState =
  rs_next_attempt :: int
  rs_backoff :: int

record PendingAuthRequest =
  qa_req :: "addr option"
  qa_user_id :: s32

record PendingScoreRequest =
  qs_req :: "addr option"
  qs_cmd :: CommandType
  qs_user_id :: s32
  qs_requested_np_ids :: "bytes list"
  qs_rank_array :: "addr option"
  qs_plain_rank_array :: "addr option"
  qs_a_rank_array :: "addr option"
  qs_a_player_rank_array :: "addr option"
  qs_comment_array :: "addr option"
  qs_info_array :: "addr option"
  qs_board_info :: "addr option"
  qs_data_out :: "addr option"
  qs_recv_size :: u64
  qs_total_size_out :: "addr option"
  qs_last_sort_date :: "addr option"
  qs_total_record :: "addr option"
  qs_array_num :: u64

definition new_score_pending :: PendingScoreRequest where
  "new_score_pending = \<lparr>qs_req = None, qs_cmd = 0, qs_user_id = -1, qs_requested_np_ids = [], qs_rank_array = None,
     qs_plain_rank_array = None, qs_a_rank_array = None, qs_a_player_rank_array = None, qs_comment_array = None,
     qs_info_array = None, qs_board_info = None, qs_data_out = None, qs_recv_size = 0, qs_total_size_out = None,
     qs_last_sort_date = None, qs_total_record = None, qs_array_num = 0\<rparr>"

record PendingTusRequest =
  qt_req :: "addr option"
  qt_cmd :: CommandType
  qt_user_id :: s32
  qt_variable_array :: "addr option"
  qt_variable_array_a :: "addr option"
  qt_variable_array_cs :: "addr option"
  qt_status_array :: "addr option"
  qt_status_array_a :: "addr option"
  qt_status_array_cs :: "addr option"
  qt_data_out :: "addr option"
  qt_data_cap :: u64
  qt_data_offset :: u64
  qt_status_cap :: u64
  qt_tss_status_out :: "addr option"
  qt_tss_content_length_out :: "addr option"
  qt_total_out :: "addr option"
  qt_array_num :: u64

definition new_tus_pending :: PendingTusRequest where
  "new_tus_pending = \<lparr>qt_req = None, qt_cmd = 0, qt_user_id = -1, qt_variable_array = None, qt_variable_array_a = None,
     qt_variable_array_cs = None, qt_status_array = None, qt_status_array_a = None, qt_status_array_cs = None,
     qt_data_out = None, qt_data_cap = 0, qt_data_offset = 0, qt_status_cap = 0, qt_tss_status_out = None,
     qt_tss_content_length_out = None, qt_total_out = None, qt_array_num = 0\<rparr>"

record CbEntry =
  cb_handle :: s32
  cb_func :: "addr option"
  cb_userdata :: "addr option"

text \<open>The event the web API library is handed (np_web_api.h).\<close>

record PushEventInput =
  ev_target_user_id :: s32
  ev_np_service_name :: bytes
  ev_np_service_label :: u32
  ev_data_type :: bytes
  ev_data :: bytes
  ev_has_from :: bool
  ev_from_online_id :: OrbisNpOnlineId
  ev_has_to :: bool
  ev_to_online_id :: OrbisNpOnlineId
  ev_extd_data :: "(bytes \<times> bytes) list"
  ev_from_account_id :: u64
  ev_to_account_id :: u64

definition zero_push_input :: PushEventInput where
  "zero_push_input = \<lparr>ev_target_user_id = 0, ev_np_service_name = [], ev_np_service_label = 0, ev_data_type = [],
     ev_data = [], ev_has_from = False, ev_from_online_id = zero_online_id, ev_has_to = False,
     ev_to_online_id = zero_online_id, ev_extd_data = [], ev_from_account_id = 0, ev_to_account_id = 0\<rparr>"

record SessionInvitationEvent =
  si_session_id :: bytes
  si_invitation_id :: bytes
  si_flag :: s32
  si_online_id :: bytes
  si_user_id :: s32
  si_referral_online_id :: bytes
  si_referral_account_id :: u64

text \<open>The calls the handler makes to the other libraries and to registered callbacks, in order.\<close>

datatype HandlerCall =
    StateCallback addr s32 OrbisNpState
  | SetMmShadNetClient s32 bool
  | Matching2Reply CommandType u64 ErrorType bytes
  | EnqueuePushEvent PushEventInput
  | PromptPush s32 bytes bytes bytes
  | PromptDismiss bytes
  | TrophiesMerged addr "(s32 \<times> u64) list"
  | SystemServiceEvent SessionInvitationEvent

record NpHandler =
  hn_initialized :: bool
  hn_worker_running :: bool
  hn_reconnects :: "(s32 \<times> ReconnectState) list"
  hn_clients :: "(s32 \<times> ShadNetClient) list"
  hn_np_ids :: "(s32 \<times> OrbisNpId) list"
  hn_state_cbs :: "(s32 \<times> CbEntry) list"
  hn_next_handle :: s32
  hn_friend_states :: "(s32 \<times> FriendListSnapshot) list"
  hn_pending_auth :: "(u64 \<times> PendingAuthRequest) list"
  hn_pending_score :: "(u64 \<times> PendingScoreRequest) list"
  hn_pending_tus :: "(u64 \<times> PendingTusRequest) list"
  hn_pending_trophy :: "(u64 \<times> addr) list"
  hn_pending_invites :: "(s32 \<times> PendingInvitation list) list"
  hn_auth_ctxs :: "addr \<rightharpoonup> AuthRequestCtx"
  hn_score_ctxs :: "addr \<rightharpoonup> ScoreRequestCtx"
  hn_tus_ctxs :: "addr \<rightharpoonup> TusRequestCtx"
  hn_mem :: GameMem
  hn_calls :: "HandlerCall list"

definition empty_mem :: GameMem where
  "empty_mem = \<lparr>gm_u32 = Map.empty, gm_u64 = Map.empty, gm_buf = Map.empty, gm_board = Map.empty,
     gm_comment = Map.empty, gm_info = Map.empty, gm_rank = Map.empty, gm_rank_a = Map.empty,
     gm_player = Map.empty, gm_player_a = Map.empty, gm_var = Map.empty, gm_var_a = Map.empty,
     gm_var_cs = Map.empty, gm_status = Map.empty, gm_status_a = Map.empty, gm_status_cs = Map.empty,
     gm_tss = Map.empty\<rparr>"

definition init_handler :: NpHandler where
  "init_handler = \<lparr>hn_initialized = False, hn_worker_running = False, hn_reconnects = [], hn_clients = [],
     hn_np_ids = [], hn_state_cbs = [], hn_next_handle = 0, hn_friend_states = [], hn_pending_auth = [],
     hn_pending_score = [], hn_pending_tus = [], hn_pending_trophy = [], hn_pending_invites = [],
     hn_auth_ctxs = Map.empty, hn_score_ctxs = Map.empty, hn_tus_ctxs = Map.empty, hn_mem = empty_mem,
     hn_calls = []\<rparr>"

definition call :: "HandlerCall \<Rightarrow> NpHandler \<Rightarrow> NpHandler" where
  "call c h = h\<lparr>hn_calls := hn_calls h @ [c]\<rparr>"

text \<open>
  What the handler reads from its surroundings: the settings (shadnet/config.h), the communication
  ids of the title (common/elf_info.h), and the parsers of the replies, which are generated code.
\<close>

record PbRankEntry =
  pk_npid :: bytes
  pk_pcid :: s32
  pk_rank :: u32
  pk_sharedrank :: u32
  pk_hasgamedata :: bool
  pk_score :: s64
  pk_recorddate :: u64
  pk_accountid :: s64

record PbScoreResponse =
  ps_rankarray :: "PbRankEntry list"
  ps_commentarray :: "bytes list"
  ps_infoarray :: "bytes list"
  ps_lastsortdate :: u64
  ps_totalrecord :: u32

record PbTusVariable =
  px_ownernpid :: bytes
  px_set :: bool
  px_lastchangeddate :: u64
  px_lastchangedauthornpid :: bytes
  px_variable :: s64
  px_oldvariable :: s64
  px_owneraccountid :: s64
  px_lastchangedauthoraccountid :: s64

record PbTusDataStatus =
  py_ownernpid :: bytes
  py_set :: bool
  py_lastchangeddate :: u64
  py_lastchangedauthornpid :: bytes
  py_datasize :: u64
  py_info :: bytes
  py_owneraccountid :: s64
  py_lastchangedauthoraccountid :: s64

record PbTssGetDataResponse =
  pz_data :: bytes
  pz_contentlength :: u64
  pz_lastmodified :: u64
  pz_statuscodetype :: s32

record HandlerConfig =
  hc_server_url :: bytes
  hc_appear_offline :: "s32 \<Rightarrow> bool"
  hc_enabled :: "s32 \<Rightarrow> bool"
  hc_npid :: "s32 \<Rightarrow> bytes"
  hc_password :: "s32 \<Rightarrow> bytes"
  hc_np_comm_ids :: "bytes list"
  hc_ops :: ProtoOps
  hc_pb_auth_code :: "bytes \<Rightarrow> bytes option"
  hc_pb_sync_trophies :: "bytes \<Rightarrow> (s32 \<times> u64) list option"
  hc_pb_board_info :: "bytes \<Rightarrow> OrbisNpScoreBoardInfo option"
  hc_pb_score :: "bytes \<Rightarrow> PbScoreResponse option"
  hc_pb_tus_variables :: "bytes \<Rightarrow> (PbTusVariable list \<times> u32) option"
  hc_pb_tus_statuses :: "bytes \<Rightarrow> (PbTusDataStatus list \<times> u32) option"
  hc_pb_tus_data :: "bytes \<Rightarrow> (PbTusDataStatus \<times> bytes) option"
  hc_pb_tss_data :: "bytes \<Rightarrow> PbTssGetDataResponse option"

section \<open>Setting the results of requests\<close>

definition at_addr :: "('c \<Rightarrow> 'c) \<Rightarrow> addr \<Rightarrow> (addr \<rightharpoonup> 'c) \<Rightarrow> (addr \<rightharpoonup> 'c)" where
  "at_addr f a m = (case m a of None \<Rightarrow> m | Some c \<Rightarrow> m(a \<mapsto> f c))"

definition auth_set :: "addr \<Rightarrow> s32 \<Rightarrow> NpHandler \<Rightarrow> NpHandler" where
  "auth_set a r h = h\<lparr>hn_auth_ctxs := at_addr (AuthSetResult r) a (hn_auth_ctxs h)\<rparr>"

definition score_set :: "addr \<Rightarrow> s32 \<Rightarrow> NpHandler \<Rightarrow> NpHandler" where
  "score_set a r h = h\<lparr>hn_score_ctxs := at_addr (ScoreSetResult r) a (hn_score_ctxs h)\<rparr>"

definition tus_set :: "addr \<Rightarrow> s32 \<Rightarrow> NpHandler \<Rightarrow> NpHandler" where
  "tus_set a r h = h\<lparr>hn_tus_ctxs := at_addr (TusSetResult r) a (hn_tus_ctxs h)\<rparr>"

lemma at_addr_same: "at_addr f a m a = map_option f (m a)"
  by (simp add: at_addr_def split: option.splits)

lemma at_addr_other: "b \<noteq> a \<Longrightarrow> at_addr f a m b = m b"
  by (simp add: at_addr_def split: option.splits)

lemma at_addr_apply: "at_addr f a m b = (if b = a then map_option f (m b) else m b)"
  by (simp add: at_addr_same at_addr_other)

end
