(* ===== verification/NpHandler.thy ===== *)
theory NpHandler
  imports HandlerState
begin

text \<open>
  The handler (np_handler.cpp, np_handler_friends.cpp, np_handler_trophy.cpp): signing users in and
  out, the worker that reconnects dropped users, the lookups, the state callbacks, the friend
  lists, and what happens to the requests of a user who signs out. Replies of the server are
  routed in HandlerConnect.
\<close>

section \<open>Lookups\<close>

definition IsSignedIn :: "s32 \<Rightarrow> NpHandler \<Rightarrow> bool" where
  "IsSignedIn user_id h =
     (case map_of (hn_clients h) user_id of
        None \<Rightarrow> False
      | Some c \<Rightarrow> hn_initialized h \<and> cl_authenticated c)"

definition GetNpId :: "s32 \<Rightarrow> NpHandler \<Rightarrow> OrbisNpId" where
  "GetNpId user_id h = at_or zero_np_id user_id (hn_np_ids h)"

definition GetBearerToken :: "s32 \<Rightarrow> NpHandler \<Rightarrow> bytes" where
  "GetBearerToken user_id h =
     (case map_of (hn_clients h) user_id of None \<Rightarrow> [] | Some c \<Rightarrow> cl_bearer_token c)"

definition GetAccountId :: "s32 \<Rightarrow> NpHandler \<Rightarrow> u64" where
  "GetAccountId user_id h = (case map_of (hn_clients h) user_id of None \<Rightarrow> 0 | Some c \<Rightarrow> cl_user_id c)"

definition GetUserIdByAccountId :: "u64 \<Rightarrow> NpHandler \<Rightarrow> s32" where
  "GetUserIdByAccountId account_id h =
     (case find_key (\<lambda>uid c. cl_user_id c = account_id) (hn_clients h) of None \<Rightarrow> -1 | Some uid \<Rightarrow> uid)"

text \<open>\<open>strncmp(a, b, n) == 0\<close>: the strings agree up to their first NUL or the length.\<close>

definition strn_equal :: "bytes \<Rightarrow> bytes \<Rightarrow> nat \<Rightarrow> bool" where
  "strn_equal a b n = (takeWhile (\<lambda>x. x \<noteq> 0) (take n a) = takeWhile (\<lambda>x. x \<noteq> 0) (take n b))"

definition GetUserIdByOnlineId :: "OrbisNpOnlineId \<Rightarrow> NpHandler \<Rightarrow> s32" where
  "GetUserIdByOnlineId online_id h =
     (case find_key (\<lambda>uid np_id. strn_equal (oid_data (handle np_id)) (oid_data online_id) ORBIS_NP_ONLINEID_MAX_LENGTH)
             (hn_np_ids h) of
        Some uid \<Rightarrow> uid
      | None \<Rightarrow> (case hn_np_ids h of [(uid, _)] \<Rightarrow> uid | _ \<Rightarrow> -1))"

section \<open>Communication ids\<close>

definition IsValidNpCommId :: "bytes \<Rightarrow> bool" where
  "IsValidNpCommId com_id \<longleftrightarrow> com_id \<noteq> [] \<and> (\<exists>c \<in> set com_id. c \<noteq> 0)"

definition COM_ID_LEN :: nat where [simp]: "COM_ID_LEN = 12"

definition GetNpCommId :: "HandlerConfig \<Rightarrow> s32 \<Rightarrow> bytes" where
  "GetNpCommId cfg service_label =
     (let ids = hc_np_comm_ids cfg;
          com_id = (if ids = [] then []
                    else ids ! (if 0 \<le> service_label \<and> nat service_label < length ids then nat service_label else 0))
      in if length com_id < COM_ID_LEN then com_id @ replicate (COM_ID_LEN - length com_id) 0
         else take COM_ID_LEN com_id)"

lemma GetNpCommId_length: "length (GetNpCommId cfg label) = 12"
  by (simp add: GetNpCommId_def Let_def)

section \<open>State callbacks\<close>

definition RegisterStateCallback :: "addr option \<Rightarrow> addr option \<Rightarrow> NpHandler \<Rightarrow> s32 \<times> NpHandler" where
  "RegisterStateCallback cb userdata h =
     (let k = hn_next_handle h
      in (k, h\<lparr>hn_next_handle := to_s32 (k + 1),
              hn_state_cbs := omap_put k \<lparr>cb_handle = k, cb_func = cb, cb_userdata = userdata\<rparr> (hn_state_cbs h)\<rparr>))"

definition UnregisterStateCallback :: "s32 \<Rightarrow> NpHandler \<Rightarrow> NpHandler" where
  "UnregisterStateCallback k h = h\<lparr>hn_state_cbs := omap_erase k (hn_state_cbs h)\<rparr>"

definition fire_one :: "s32 \<Rightarrow> OrbisNpState \<Rightarrow> s32 \<times> CbEntry \<Rightarrow> NpHandler \<Rightarrow> NpHandler" where
  "fire_one user_id st e h = (case cb_func (snd e) of None \<Rightarrow> h | Some f \<Rightarrow> call (StateCallback f user_id st) h)"

definition FireStateCallback :: "s32 \<Rightarrow> OrbisNpState \<Rightarrow> NpHandler \<Rightarrow> NpHandler" where
  "FireStateCallback user_id st h = fold (fire_one user_id st) (hn_state_cbs h) h"

section \<open>Friends (np_handler_friends.cpp)\<close>

definition upd_friends :: "s32 \<Rightarrow> (FriendListSnapshot \<Rightarrow> FriendListSnapshot) \<Rightarrow> NpHandler \<Rightarrow> NpHandler" where
  "upd_friends user_id f h = h\<lparr>hn_friend_states := omap_modify empty_snapshot user_id f (hn_friend_states h)\<rparr>"

text \<open>Sets the status of the first entry with that name, or adds an entry.\<close>

fun put_friend :: "bytes \<Rightarrow> bool \<Rightarrow> FriendInfo list \<Rightarrow> FriendInfo list" where
  "put_friend npid online [] = [\<lparr>fi_npid = npid, fi_online = online\<rparr>]"
| "put_friend npid online (f # fs) =
     (if fi_npid f = npid then f\<lparr>fi_online := online\<rparr> # fs else f # put_friend npid online fs)"

definition OnFriendQuery :: "s32 \<Rightarrow> bytes \<Rightarrow> NpHandler \<Rightarrow> NpHandler" where
  "OnFriendQuery user_id from_npid =
     upd_friends user_id (\<lambda>st.
       if from_npid \<in> set (fs_requests_received st) then st
       else st\<lparr>fs_requests_received := fs_requests_received st @ [from_npid]\<rparr>)"

definition OnFriendNew :: "s32 \<Rightarrow> bytes \<Rightarrow> bool \<Rightarrow> NpHandler \<Rightarrow> NpHandler" where
  "OnFriendNew user_id npid online =
     upd_friends user_id (\<lambda>st.
       st\<lparr>fs_friends := put_friend npid online (fs_friends st),
          fs_requests_received := filter (\<lambda>x. x \<noteq> npid) (fs_requests_received st),
          fs_requests_sent := filter (\<lambda>x. x \<noteq> npid) (fs_requests_sent st)\<rparr>)"

definition OnFriendLost :: "s32 \<Rightarrow> bytes \<Rightarrow> NpHandler \<Rightarrow> NpHandler" where
  "OnFriendLost user_id npid =
     upd_friends user_id (\<lambda>st. st\<lparr>fs_friends := filter (\<lambda>f. fi_npid f \<noteq> npid) (fs_friends st)\<rparr>)"

definition OnFriendStatus :: "s32 \<Rightarrow> bytes \<Rightarrow> bool \<Rightarrow> NpHandler \<Rightarrow> NpHandler" where
  "OnFriendStatus user_id npid online =
     upd_friends user_id (\<lambda>st. st\<lparr>fs_friends := put_friend npid online (fs_friends st)\<rparr>)"

definition OnLoginResult :: "s32 \<Rightarrow> LoginResult \<Rightarrow> NpHandler \<Rightarrow> NpHandler" where
  "OnLoginResult user_id res h =
     (if lr_error res \<noteq> NoError then h
      else
        let snap = \<lparr>fs_friends = map (\<lambda>f. \<lparr>fi_npid = fe_npid f, fi_online = fe_online f\<rparr>) (lr_friends res),
                    fs_requests_received = lr_requests_received res, fs_requests_sent = lr_requests_sent res,
                    fs_blocked = lr_blocked res\<rparr>
        in h\<lparr>hn_friend_states := omap_put user_id snap (hn_friend_states h)\<rparr>)"

definition GetFriendList :: "s32 \<Rightarrow> NpHandler \<Rightarrow> FriendListSnapshot" where
  "GetFriendList user_id h = at_or empty_snapshot user_id (hn_friend_states h)"

section \<open>Signing out\<close>

text \<open>
  One of the loops of \<open>FailPendingRequests\<close>: the requests of the user, in the order of the map, get
  the error, and are erased.
\<close>

definition fail_table ::
  "('p \<Rightarrow> s32) \<Rightarrow> ('p \<Rightarrow> addr option) \<Rightarrow> (addr \<Rightarrow> NpHandler \<Rightarrow> NpHandler) \<Rightarrow> s32 \<Rightarrow> (u64 \<times> 'p) list \<Rightarrow>
   NpHandler \<Rightarrow> (u64 \<times> 'p) list \<times> NpHandler" where
  "fail_table owner req set_result user_id m h =
     (filter (\<lambda>(k, p). owner p \<noteq> user_id) m,
      fold (\<lambda>(k, p) h. if owner p = user_id then (case req p of None \<Rightarrow> h | Some a \<Rightarrow> set_result a h) else h) m h)"

definition FailPendingRequests :: "s32 \<Rightarrow> s32 \<Rightarrow> NpHandler \<Rightarrow> NpHandler" where
  "FailPendingRequests user_id error_code h =
     (let (tus, h1) = fail_table qt_user_id qt_req (\<lambda>a. tus_set a error_code) user_id (hn_pending_tus h) h;
          h1' = h1\<lparr>hn_pending_tus := tus\<rparr>;
          (score, h2) = fail_table qs_user_id qs_req (\<lambda>a. score_set a error_code) user_id (hn_pending_score h1') h1';
          h2' = h2\<lparr>hn_pending_score := score\<rparr>;
          (auth, h3) = fail_table qa_user_id qa_req (\<lambda>a. auth_set a error_code) user_id (hn_pending_auth h2') h2'
      in h3\<lparr>hn_pending_auth := auth\<rparr>)"

text \<open>The client that is stopped here is destroyed: no one else keeps it.\<close>

definition DisconnectUser :: "s32 \<Rightarrow> NpHandler \<Rightarrow> NpHandler" where
  "DisconnectUser user_id h =
     (case map_of (hn_clients h) user_id of
        None \<Rightarrow> h
      | Some client \<Rightarrow>
          let h1 = h\<lparr>hn_clients := omap_erase user_id (hn_clients h),
                     hn_friend_states := omap_erase user_id (hn_friend_states h)\<rparr>;
              h2 = FailPendingRequests user_id ORBIS_NP_ERROR_SIGNED_OUT h1
          in FireStateCallback user_id SignedOut h2)"

definition OnUserLoggedOut :: "s32 \<Rightarrow> NpHandler \<Rightarrow> NpHandler" where
  "OnUserLoggedOut user_id h = DisconnectUser user_id (h\<lparr>hn_reconnects := AList.delete user_id (hn_reconnects h)\<rparr>)"

definition OnClientRejected :: "s32 \<Rightarrow> NpHandler \<Rightarrow> NpHandler" where
  "OnClientRejected user_id h =
     h\<lparr>hn_reconnects := AList.delete user_id (hn_reconnects h), hn_initialized := False\<rparr>"

section \<open>Invitations and push events (np_handler_invitation.cpp, np_handler_web_api.cpp)\<close>

text \<open>\<open>strtoull\<close> and \<open>strtoll\<close> are functions of the C library: the digits after an optional sign, with saturation.\<close>

definition is_space :: "u8 \<Rightarrow> bool" where
  "is_space b \<longleftrightarrow> b = 32 \<or> (9 \<le> b \<and> b \<le> 13)"

definition is_digit :: "u8 \<Rightarrow> bool" where
  "is_digit b \<longleftrightarrow> 48 \<le> b \<and> b \<le> 57"

text \<open>The sign and the digits of a decimal number; \<open>None\<close> when there are none.\<close>

definition parse_decimal :: "bytes \<Rightarrow> int option" where
  "parse_decimal str =
     (let s = dropWhile is_space str;
          neg = (s \<noteq> [] \<and> hd s = 45);
          s1 = (if s \<noteq> [] \<and> (hd s = 45 \<or> hd s = 43) then tl s else s);
          ds = takeWhile is_digit s1;
          v = foldl (\<lambda>n d. n * 10 + (uint d - 48)) 0 ds
      in if ds = [] then None else Some (if neg then - v else v))"

definition stoi :: "bytes \<Rightarrow> int option" where
  "stoi str = (case parse_decimal str of
     None \<Rightarrow> None
   | Some v \<Rightarrow> if v < - (2 ^ 31) \<or> 2 ^ 31 \<le> v then None else Some v)"

definition strtoll :: "bytes \<Rightarrow> s64" where
  "strtoll str = (case parse_decimal str of
     None \<Rightarrow> 0
   | Some v \<Rightarrow> max (- (2 ^ 63)) (min (2 ^ 63 - 1) v))"

definition strtoull :: "bytes \<Rightarrow> u64" where
  "strtoull str = (case parse_decimal str of
     None \<Rightarrow> 0
   | Some v \<Rightarrow> if \<bar>v\<bar> \<ge> 2 ^ 64 then 2 ^ 64 - 1 else word_of_int v)"

definition key_fromAccountId :: bytes where "key_fromAccountId = map (of_nat \<circ> of_char) ''fromAccountId''"
definition key_sessionId :: bytes where "key_sessionId = map (of_nat \<circ> of_char) ''sessionId''"
definition key_invitationId :: bytes where "key_invitationId = map (of_nat \<circ> of_char) ''invitationId''"
definition key_validUntil :: bytes where "key_validUntil = map (of_nat \<circ> of_char) ''validUntil''"
definition name_sessionInvitation :: bytes where "name_sessionInvitation = map (of_nat \<circ> of_char) ''sessionInvitation''"

definition push_input :: "s32 \<Rightarrow> NotifyWebApiPushEvent \<Rightarrow> NpHandler \<Rightarrow> PushEventInput" where
  "push_input user_id n h =
     (let ev = zero_push_input\<lparr>ev_target_user_id := user_id, ev_np_service_name := wp_np_service_name n,
                ev_np_service_label := wp_np_service_label n, ev_data_type := wp_data_type n, ev_data := wp_data n\<rparr>;
          ev1 = (if wp_from_npid n \<noteq> []
                 then ev\<lparr>ev_has_from := True, ev_from_online_id := zero_online_id\<lparr>oid_data := overlay (wp_from_npid n) (oid_data zero_online_id)\<rparr>\<rparr>
                 else ev);
          ev2 = (if wp_to_npid n \<noteq> []
                 then ev1\<lparr>ev_has_to := True, ev_to_online_id := zero_online_id\<lparr>oid_data := overlay (wp_to_npid n) (oid_data zero_online_id)\<rparr>\<rparr>
                 else ev1);
          ev3 = ev2\<lparr>ev_extd_data := wp_extd_data n,
                    ev_to_account_id := (if wp_to_account_id n \<noteq> 0 then wp_to_account_id n else GetAccountId user_id h),
                    ev_from_account_id := wp_from_account_id n\<rparr>;
          ev4 = (if ev_from_account_id ev3 = 0
                 then (case map_of (wp_extd_data n) key_fromAccountId of
                         None \<Rightarrow> ev3
                       | Some v \<Rightarrow> ev3\<lparr>ev_from_account_id := strtoull v\<rparr>)
                 else ev3)
      in if ev_to_account_id ev4 \<noteq> 0
         then (let ev5 = ev4\<lparr>ev_has_to := True\<rparr>
               in if wp_to_npid n = []
                  then (case map_of (hn_np_ids h) user_id of
                          None \<Rightarrow> ev5
                        | Some np_id \<Rightarrow> ev5\<lparr>ev_to_online_id := (ev_to_online_id ev5)\<lparr>oid_data := oid_data (handle np_id)\<rparr>\<rparr>)
                  else ev5)
         else ev4)"

text \<open>The loop over the extended data of an invitation: the last value of each key counts.\<close>

fun invitation_fields :: "(bytes \<times> bytes) list \<Rightarrow> bytes \<times> bytes \<times> s64 \<Rightarrow> bytes \<times> bytes \<times> s64" where
  "invitation_fields [] acc = acc"
| "invitation_fields ((k, v) # kvs) (session_id, invitation_id, valid_until) =
     invitation_fields kvs
       (if k = key_sessionId then (v, invitation_id, valid_until)
        else if k = key_invitationId then (session_id, v, valid_until)
        else if k = key_validUntil then (session_id, invitation_id, strtoll v)
        else (session_id, invitation_id, valid_until))"

definition OnWebApiPushEvent :: "s32 \<Rightarrow> NotifyWebApiPushEvent \<Rightarrow> NpHandler \<Rightarrow> NpHandler" where
  "OnWebApiPushEvent user_id n h =
     (let ev = push_input user_id n h;
          h1 = call (EnqueuePushEvent ev) h
      in if wp_np_service_name n = name_sessionInvitation
         then (let (session_id, invitation_id, valid_until) = invitation_fields (wp_extd_data n) ([], [], 0)
               in if session_id \<noteq> []
                  then (let invite = \<lparr>pi_session_id = session_id, pi_invitation_id = invitation_id,
                                   pi_from_npid = wp_from_npid n, pi_to_npid = wp_to_npid n,
                                   pi_valid_until = valid_until, pi_from_account_id = ev_from_account_id ev\<rparr>
                        in call (PromptPush user_id invitation_id session_id (wp_from_npid n))
                             (h1\<lparr>hn_pending_invites := omap_modify [] user_id
                                   (\<lambda>v. filter (\<lambda>p. pi_invitation_id p \<noteq> invitation_id) v @ [invite]) (hn_pending_invites h1)\<rparr>))
                  else h1)
         else h1)"

definition GetPendingInvitations :: "int \<Rightarrow> s32 \<Rightarrow> NpHandler \<Rightarrow> PendingInvitation list" where
  "GetPendingInvitations now user_id h =
     (case map_of (hn_pending_invites h) user_id of
        None \<Rightarrow> []
      | Some v \<Rightarrow> filter (\<lambda>p. pi_valid_until p = 0 \<or> now \<le> pi_valid_until p) v)"

text \<open>\<open>strncpy\<close> into a zeroed array of \<open>n\<close> characters.\<close>

definition strncpy0 :: "nat \<Rightarrow> bytes \<Rightarrow> bytes" where
  "strncpy0 n s = (let t = take n (takeWhile (\<lambda>b. b \<noteq> 0) s) in t @ replicate (n - length t) 0)"

definition PostSessionInvitationEvent ::
  "s32 \<Rightarrow> bytes \<Rightarrow> bytes \<Rightarrow> bytes \<Rightarrow> bytes \<Rightarrow> u64 \<Rightarrow> NpHandler \<Rightarrow> NpHandler" where
  "PostSessionInvitationEvent user_id session_id invitation_id accepter inviter inviter_account_id =
     call (SystemServiceEvent
       \<lparr>si_session_id = strncpy0 44 session_id @ [0],
        si_invitation_id = (if invitation_id \<noteq> [] then strncpy0 59 invitation_id else replicate 59 0) @ [0],
        si_flag = (if invitation_id \<noteq> [] then 1 else 0),
        si_online_id = strncpy0 16 accepter,
        si_user_id = user_id,
        si_referral_online_id = strncpy0 16 inviter,
        si_referral_account_id = inviter_account_id\<rparr>)"

text \<open>The first invitation with an id, and the list without it.\<close>

fun take_invitation :: "bytes \<Rightarrow> PendingInvitation list \<Rightarrow> (PendingInvitation \<times> PendingInvitation list) option" where
  "take_invitation i [] = None"
| "take_invitation i (p # v) =
     (if pi_invitation_id p = i then Some (p, v)
      else map_option (\<lambda>(q, v'). (q, p # v')) (take_invitation i v))"

definition AcceptSessionInvitation :: "s32 \<Rightarrow> bytes \<Rightarrow> NpHandler \<Rightarrow> bool \<times> NpHandler" where
  "AcceptSessionInvitation user_id invitation_id h =
     (case (case map_of (hn_pending_invites h) user_id of None \<Rightarrow> None | Some v \<Rightarrow> take_invitation invitation_id v) of
        None \<Rightarrow> (False, call (PromptDismiss invitation_id) h)
      | Some (invite, v) \<Rightarrow>
          (True, PostSessionInvitationEvent user_id (pi_session_id invite) invitation_id (pi_to_npid invite)
                   (pi_from_npid invite) (pi_from_account_id invite)
                   (call (PromptDismiss invitation_id)
                      (h\<lparr>hn_pending_invites := omap_put user_id v (hn_pending_invites h)\<rparr>))))"

definition DeclineSessionInvitation :: "s32 \<Rightarrow> bytes \<Rightarrow> NpHandler \<Rightarrow> NpHandler" where
  "DeclineSessionInvitation user_id invitation_id h =
     (let h1 = call (PromptDismiss invitation_id) h
      in case map_of (hn_pending_invites h1) user_id of
           None \<Rightarrow> h1
         | Some v \<Rightarrow> h1\<lparr>hn_pending_invites :=
             omap_put user_id (filter (\<lambda>p. pi_invitation_id p \<noteq> invitation_id) v) (hn_pending_invites h1)\<rparr>)"

end
