(* ===== verification/HandlerScore.thy ===== *)
theory HandlerScore
  imports NpHandler
begin

text \<open>
  The score requests of the handler and their replies (np_handler_score.cpp). A request is sent
  (\<open>score_send\<close>) and then registered under the id of its packet (\<open>score_register\<close>): the code does
  the two under different locks. The reply takes the registered request out, writes the arrays of
  the game and sets the result.
\<close>

definition CmdGetBoardInfos :: CommandType where [simp]: "CmdGetBoardInfos = 30"
definition CmdRecordScore :: CommandType where [simp]: "CmdRecordScore = 31"
definition CmdRecordScoreData :: CommandType where [simp]: "CmdRecordScoreData = 32"
definition CmdGetScoreData :: CommandType where [simp]: "CmdGetScoreData = 33"
definition CmdGetScoreRange :: CommandType where [simp]: "CmdGetScoreRange = 34"
definition CmdGetScoreFriends :: CommandType where [simp]: "CmdGetScoreFriends = 35"
definition CmdGetScoreNpId :: CommandType where [simp]: "CmdGetScoreNpId = 36"
definition CmdGetScoreAccountId :: CommandType where [simp]: "CmdGetScoreAccountId = 37"
definition CmdGetScoreGameDataByAccId :: CommandType where [simp]: "CmdGetScoreGameDataByAccId = 38"

section \<open>Sending and registering\<close>

text \<open>\<open>std::map::emplace\<close>: a key that is there keeps its value.\<close>

definition omap_emplace :: "'k::linorder \<Rightarrow> 'v \<Rightarrow> ('k \<times> 'v) list \<Rightarrow> ('k \<times> 'v) list" where
  "omap_emplace k v m = (if map_of m k = None then omap_put k v m else m)"

definition send_request :: "s32 \<Rightarrow> CommandType \<Rightarrow> bytes \<Rightarrow> ShadNetClient \<Rightarrow> NpHandler \<Rightarrow> u64 \<times> NpHandler" where
  "send_request user_id cmd payload client h =
     (let (pkt_id, client') = SubmitRequest cmd payload client
      in (pkt_id, h\<lparr>hn_clients := omap_put user_id client' (hn_clients h)\<rparr>))"

text \<open>The first half: the guards, and the packet in the queue of the client.\<close>

definition score_send :: "HandlerConfig \<Rightarrow> s32 \<Rightarrow> s32 \<Rightarrow> CommandType \<Rightarrow> bytes \<Rightarrow> NpHandler \<Rightarrow> (s32 + u64) \<times> NpHandler" where
  "score_send cfg user_id service_label cmd payload h =
     (case map_of (hn_clients h) user_id of
        None \<Rightarrow> (Inl ORBIS_NP_ERROR_SIGNED_OUT, h)
      | Some client \<Rightarrow>
          if \<not> cl_authenticated client then (Inl ORBIS_NP_COMMUNITY_ERROR_NO_LOGIN, h)
          else let com_id = GetNpCommId cfg service_label
               in if \<not> IsValidNpCommId com_id then (Inl ORBIS_NP_COMMUNITY_ERROR_INVALID_ARGUMENT, h)
                  else let (pkt_id, h1) = send_request user_id cmd (com_id @ payload) client h
                       in (Inr pkt_id, h1))"

definition score_register :: "u64 \<Rightarrow> PendingScoreRequest \<Rightarrow> NpHandler \<Rightarrow> NpHandler" where
  "score_register pkt_id pending h = h\<lparr>hn_pending_score := omap_emplace pkt_id pending (hn_pending_score h)\<rparr>"

definition score_request ::
  "HandlerConfig \<Rightarrow> s32 \<Rightarrow> s32 \<Rightarrow> CommandType \<Rightarrow> bytes \<Rightarrow> PendingScoreRequest \<Rightarrow> NpHandler \<Rightarrow> s32 \<times> NpHandler" where
  "score_request cfg user_id service_label cmd payload pending h =
     (case score_send cfg user_id service_label cmd payload h of
        (Inl err, h1) \<Rightarrow> (err, h1)
      | (Inr pkt_id, h1) \<Rightarrow> (ORBIS_OK, score_register pkt_id (pending\<lparr>qs_cmd := cmd, qs_user_id := user_id\<rparr>) h1))"

definition proto_payload :: "HandlerConfig \<Rightarrow> PbRequest \<Rightarrow> bytes" where
  "proto_payload cfg req = MakeProtoPayload (po_serialise (hc_ops cfg) req)"

section \<open>The requests\<close>

definition RecordScore ::
  "HandlerConfig \<Rightarrow> s32 \<Rightarrow> s32 \<Rightarrow> u32 \<Rightarrow> s32 \<Rightarrow> s64 \<Rightarrow> bytes option \<Rightarrow> bytes option \<Rightarrow> u64 \<Rightarrow> addr option \<Rightarrow>
   NpHandler \<Rightarrow> s32 \<times> NpHandler" where
  "RecordScore cfg user_id service_label board_id pc_id score comment game_info compare_date req =
     score_request cfg user_id service_label CmdRecordScore
       (proto_payload cfg (RecordScoreRequest board_id pc_id score
          (if comment = Some [] then None else comment) (if game_info = Some [] then None else game_info) compare_date))
       (new_score_pending\<lparr>qs_req := req\<rparr>)"

definition RecordGameData ::
  "HandlerConfig \<Rightarrow> s32 \<Rightarrow> s32 \<Rightarrow> u32 \<Rightarrow> s32 \<Rightarrow> s64 \<Rightarrow> bytes option \<Rightarrow> addr option \<Rightarrow> NpHandler \<Rightarrow> s32 \<times> NpHandler" where
  "RecordGameData cfg user_id service_label board_id pc_id score dat req =
     score_request cfg user_id service_label CmdRecordScoreData
       (proto_payload cfg (RecordScoreGameDataRequest board_id pc_id score) @ (case dat of None \<Rightarrow> [] | Some d \<Rightarrow> d))
       (new_score_pending\<lparr>qs_req := req\<rparr>)"

definition GetGameData ::
  "HandlerConfig \<Rightarrow> s32 \<Rightarrow> s32 \<Rightarrow> u32 \<Rightarrow> bytes \<Rightarrow> s32 \<Rightarrow> addr option \<Rightarrow> u64 \<Rightarrow> addr option \<Rightarrow> addr option \<Rightarrow>
   NpHandler \<Rightarrow> s32 \<times> NpHandler" where
  "GetGameData cfg user_id service_label board_id np_id pc_id data_out recv_size total_size_out req =
     score_request cfg user_id service_label CmdGetScoreData
       (proto_payload cfg (GetScoreGameDataRequest board_id np_id pc_id))
       (new_score_pending\<lparr>qs_req := req, qs_data_out := data_out, qs_recv_size := recv_size,
          qs_total_size_out := total_size_out\<rparr>)"

definition GetGameDataByAccountId ::
  "HandlerConfig \<Rightarrow> s32 \<Rightarrow> s32 \<Rightarrow> u32 \<Rightarrow> u64 \<Rightarrow> s32 \<Rightarrow> addr option \<Rightarrow> u64 \<Rightarrow> addr option \<Rightarrow> addr option \<Rightarrow>
   NpHandler \<Rightarrow> s32 \<times> NpHandler" where
  "GetGameDataByAccountId cfg user_id service_label board_id account_id pc_id data_out recv_size total_size_out req =
     score_request cfg user_id service_label CmdGetScoreGameDataByAccId
       (proto_payload cfg (GetScoreGameDataByAccountIdRequest board_id account_id pc_id))
       (new_score_pending\<lparr>qs_req := req, qs_data_out := data_out, qs_recv_size := recv_size,
          qs_total_size_out := total_size_out\<rparr>)"

definition GetBoardInfo ::
  "HandlerConfig \<Rightarrow> s32 \<Rightarrow> s32 \<Rightarrow> u32 \<Rightarrow> addr option \<Rightarrow> addr option \<Rightarrow> NpHandler \<Rightarrow> s32 \<times> NpHandler" where
  "GetBoardInfo cfg user_id service_label board_id board_info req =
     score_request cfg user_id service_label CmdGetBoardInfos (PutLE32 board_id)
       (new_score_pending\<lparr>qs_req := req, qs_board_info := board_info\<rparr>)"

text \<open>The arguments the ranking requests share: the arrays and the two totals.\<close>

record RankOut =
  ro_comment_array :: "addr option"
  ro_info_array :: "addr option"
  ro_last_sort_date :: "addr option"
  ro_total_record :: "addr option"

definition rank_pending :: "RankOut \<Rightarrow> u64 \<Rightarrow> addr option \<Rightarrow> PendingScoreRequest" where
  "rank_pending out array_num req =
     new_score_pending\<lparr>qs_req := req, qs_comment_array := ro_comment_array out, qs_info_array := ro_info_array out,
       qs_last_sort_date := ro_last_sort_date out, qs_total_record := ro_total_record out, qs_array_num := array_num\<rparr>"

definition GetRankingByNpId ::
  "HandlerConfig \<Rightarrow> s32 \<Rightarrow> s32 \<Rightarrow> u32 \<Rightarrow> bytes list \<Rightarrow> s32 list \<Rightarrow> addr option \<Rightarrow> RankOut \<Rightarrow> addr option \<Rightarrow>
   NpHandler \<Rightarrow> s32 \<times> NpHandler" where
  "GetRankingByNpId cfg user_id service_label board_id np_ids pc_ids rank_array out req h =
     (if pc_ids \<noteq> [] \<and> length pc_ids \<noteq> length np_ids then (ORBIS_NP_COMMUNITY_ERROR_INVALID_ARGUMENT, h)
      else score_request cfg user_id service_label CmdGetScoreNpId
             (proto_payload cfg (GetScoreNpIdRequest board_id (ro_comment_array out \<noteq> None) (ro_info_array out \<noteq> None)
                (zip np_ids (if pc_ids = [] then replicate (length np_ids) 0 else pc_ids))))
             ((rank_pending out (of_nat (length np_ids)) req)\<lparr>qs_requested_np_ids := np_ids, qs_rank_array := rank_array\<rparr>) h)"

definition GetRankingByRange ::
  "HandlerConfig \<Rightarrow> s32 \<Rightarrow> s32 \<Rightarrow> u32 \<Rightarrow> u32 \<Rightarrow> u32 \<Rightarrow> addr option \<Rightarrow> RankOut \<Rightarrow> addr option \<Rightarrow>
   NpHandler \<Rightarrow> s32 \<times> NpHandler" where
  "GetRankingByRange cfg user_id service_label board_id start_serial_rank array_num rank_array out req =
     score_request cfg user_id service_label CmdGetScoreRange
       (proto_payload cfg (GetScoreRangeRequest board_id start_serial_rank array_num
          (ro_comment_array out \<noteq> None) (ro_info_array out \<noteq> None)))
       ((rank_pending out (ucast array_num) req)\<lparr>qs_plain_rank_array := rank_array\<rparr>)"

definition GetRankingByRangeA ::
  "HandlerConfig \<Rightarrow> s32 \<Rightarrow> s32 \<Rightarrow> u32 \<Rightarrow> u32 \<Rightarrow> u32 \<Rightarrow> addr option \<Rightarrow> RankOut \<Rightarrow> addr option \<Rightarrow>
   NpHandler \<Rightarrow> s32 \<times> NpHandler" where
  "GetRankingByRangeA cfg user_id service_label board_id start_serial_rank array_num rank_array out req =
     score_request cfg user_id service_label CmdGetScoreRange
       (proto_payload cfg (GetScoreRangeRequest board_id start_serial_rank array_num
          (ro_comment_array out \<noteq> None) (ro_info_array out \<noteq> None)))
       ((rank_pending out (ucast array_num) req)\<lparr>qs_a_rank_array := rank_array\<rparr>)"

definition GetRankingByAccountId ::
  "HandlerConfig \<Rightarrow> s32 \<Rightarrow> s32 \<Rightarrow> u32 \<Rightarrow> u64 list \<Rightarrow> s32 list \<Rightarrow> addr option \<Rightarrow> RankOut \<Rightarrow> addr option \<Rightarrow>
   NpHandler \<Rightarrow> s32 \<times> NpHandler" where
  "GetRankingByAccountId cfg user_id service_label board_id account_ids pc_ids rank_array out req =
     score_request cfg user_id service_label CmdGetScoreAccountId
       (proto_payload cfg (GetScoreAccountIdRequest board_id
          (map (\<lambda>i. (to_s64 (uint (account_ids ! i)), if i < length pc_ids then pc_ids ! i else 0)) [0..<length account_ids])
          (ro_comment_array out \<noteq> None) (ro_info_array out \<noteq> None)))
       ((rank_pending out (of_nat (length account_ids)) req)\<lparr>qs_a_player_rank_array := rank_array\<rparr>)"

definition GetFriendsRanking ::
  "HandlerConfig \<Rightarrow> s32 \<Rightarrow> s32 \<Rightarrow> u32 \<Rightarrow> bool \<Rightarrow> u32 \<Rightarrow> u32 \<Rightarrow> addr option \<Rightarrow> RankOut \<Rightarrow> addr option \<Rightarrow>
   NpHandler \<Rightarrow> s32 \<times> NpHandler" where
  "GetFriendsRanking cfg user_id service_label board_id include_self start_serial_rank array_num rank_array out req =
     score_request cfg user_id service_label CmdGetScoreFriends
       (proto_payload cfg (GetScoreFriendsRequest board_id include_self start_serial_rank array_num
          (ro_comment_array out \<noteq> None) (ro_info_array out \<noteq> None)))
       ((rank_pending out (ucast array_num) req)\<lparr>qs_plain_rank_array := rank_array\<rparr>)"

definition GetFriendsRankingA ::
  "HandlerConfig \<Rightarrow> s32 \<Rightarrow> s32 \<Rightarrow> u32 \<Rightarrow> bool \<Rightarrow> u32 \<Rightarrow> u32 \<Rightarrow> addr option \<Rightarrow> RankOut \<Rightarrow> addr option \<Rightarrow>
   NpHandler \<Rightarrow> s32 \<times> NpHandler" where
  "GetFriendsRankingA cfg user_id service_label board_id include_self start_serial_rank array_num rank_array out req =
     score_request cfg user_id service_label CmdGetScoreFriends
       (proto_payload cfg (GetScoreFriendsRequest board_id include_self start_serial_rank array_num
          (ro_comment_array out \<noteq> None) (ro_info_array out \<noteq> None)))
       ((rank_pending out (ucast array_num) req)\<lparr>qs_a_rank_array := rank_array\<rparr>)"

section \<open>Filling the arrays\<close>

definition copy_online_id :: "bytes \<Rightarrow> OrbisNpOnlineId \<Rightarrow> OrbisNpOnlineId" where
  "copy_online_id npid oid = oid\<lparr>oid_data := overlay npid (oid_data oid), oid_term := 0\<rparr>"

definition shared_rank :: "PbRankEntry \<Rightarrow> u32" where
  "shared_rank r = (if pk_sharedrank r \<noteq> 0 then pk_sharedrank r else pk_rank r)"

definition fill_rank :: "PbRankEntry \<Rightarrow> OrbisNpScoreRankData \<Rightarrow> OrbisNpScoreRankData" where
  "fill_rank r d = d\<lparr>rd_np_id := (rd_np_id d)\<lparr>handle := copy_online_id (pk_npid r) (handle (rd_np_id d))\<rparr>,
     rd_pc_id := pk_pcid r, rd_serial_rank := pk_rank r, rd_rank := shared_rank r, rd_highest_rank := shared_rank r,
     rd_has_game_data := (if pk_hasgamedata r then 1 else 0), rd_score_value := pk_score r,
     rd_record_date := pk_recorddate r\<rparr>"

definition fill_rank_a :: "PbRankEntry \<Rightarrow> OrbisNpScoreRankDataA \<Rightarrow> OrbisNpScoreRankDataA" where
  "fill_rank_a r d = d\<lparr>ra_online_id := copy_online_id (pk_npid r) (ra_online_id d),
     ra_pc_id := pk_pcid r, ra_serial_rank := pk_rank r, ra_rank := shared_rank r, ra_highest_rank := shared_rank r,
     ra_has_game_data := (if pk_hasgamedata r then 1 else 0), ra_score_value := pk_score r,
     ra_record_date := pk_recorddate r, ra_account_id := word_of_int (pk_accountid r)\<rparr>"

definition fill_extras ::
  "PbScoreResponse \<Rightarrow> nat \<Rightarrow> nat \<Rightarrow> addr option \<Rightarrow> addr option \<Rightarrow> GameMem \<Rightarrow> GameMem outcome" where
  "fill_extras resp i k comment_array info_array m =
     bind_outcome
       (if comment_array \<noteq> None \<and> i < length (ps_commentarray resp)
        then bind_outcome (write_at comment_array k (overlay (take 63 (ps_commentarray resp ! i))) (gm_comment m))
               (\<lambda>x. Returned (m\<lparr>gm_comment := x\<rparr>))
        else Returned m)
       (\<lambda>m1. if info_array \<noteq> None \<and> i < length (ps_infoarray resp)
             then bind_outcome
                    (write_at info_array k (\<lambda>g. g\<lparr>gi_info_size := of_nat (min (length (ps_infoarray resp ! i)) 189),
                                                 gi_data := overlay (ps_infoarray resp ! i) (gi_data g)\<rparr>) (gm_info m1))
                    (\<lambda>x. Returned (m1\<lparr>gm_info := x\<rparr>))
             else Returned m1)"

text \<open>The loops that pack the entries with an online id: \<open>i\<close> counts the entries, \<open>k\<close> the slots.\<close>

fun fill_packed ::
  "(nat \<Rightarrow> PbRankEntry \<Rightarrow> GameMem \<Rightarrow> GameMem outcome) \<Rightarrow> (nat \<Rightarrow> nat \<Rightarrow> GameMem \<Rightarrow> GameMem outcome) \<Rightarrow> nat \<Rightarrow>
   PbRankEntry list \<Rightarrow> nat \<Rightarrow> nat \<Rightarrow> GameMem \<Rightarrow> (nat \<times> GameMem) outcome" where
  "fill_packed wr extras max_slots [] i k m = Returned (k, m)"
| "fill_packed wr extras max_slots (r # rs) i k m =
     (if \<not> k < max_slots then Returned (k, m)
      else if pk_npid r = [] then fill_packed wr extras max_slots rs (i + 1) k m
      else bind_outcome (wr k r m) (\<lambda>m1. bind_outcome (extras i k m1) (\<lambda>m2.
             fill_packed wr extras max_slots rs (i + 1) (k + 1) m2)))"

definition write_rank :: "addr option \<Rightarrow> nat \<Rightarrow> PbRankEntry \<Rightarrow> GameMem \<Rightarrow> GameMem outcome" where
  "write_rank p k r m = bind_outcome (write_at p k (fill_rank r) (gm_rank m)) (\<lambda>x. Returned (m\<lparr>gm_rank := x\<rparr>))"

definition write_rank_a :: "addr option \<Rightarrow> nat \<Rightarrow> PbRankEntry \<Rightarrow> GameMem \<Rightarrow> GameMem outcome" where
  "write_rank_a p k r m = bind_outcome (write_at p k (fill_rank_a r) (gm_rank_a m)) (\<lambda>x. Returned (m\<lparr>gm_rank_a := x\<rparr>))"

definition FillPlainRankArrayFromProto ::
  "PbScoreResponse \<Rightarrow> u64 \<Rightarrow> addr option \<Rightarrow> addr option \<Rightarrow> addr option \<Rightarrow> GameMem \<Rightarrow> (nat \<times> GameMem) outcome" where
  "FillPlainRankArrayFromProto resp max_slots rank_array comment_array info_array m =
     fill_packed (write_rank rank_array) (\<lambda>i k. fill_extras resp i k comment_array info_array)
       (unat max_slots) (ps_rankarray resp) 0 0 m"

definition FillPlainRankArrayAFromProto ::
  "PbScoreResponse \<Rightarrow> u64 \<Rightarrow> addr option \<Rightarrow> addr option \<Rightarrow> addr option \<Rightarrow> GameMem \<Rightarrow> (nat \<times> GameMem) outcome" where
  "FillPlainRankArrayAFromProto resp max_slots rank_array comment_array info_array m =
     fill_packed (write_rank_a rank_array) (\<lambda>i k. fill_extras resp i k comment_array info_array)
       (unat max_slots) (ps_rankarray resp) 0 0 m"

text \<open>The loops that keep the positions of the request: the entry \<open>i\<close> goes into slot \<open>i\<close>.\<close>

fun fill_players ::
  "(nat \<Rightarrow> PbRankEntry \<Rightarrow> GameMem \<Rightarrow> GameMem outcome) \<Rightarrow> (nat \<Rightarrow> nat \<Rightarrow> GameMem \<Rightarrow> GameMem outcome) \<Rightarrow>
   PbRankEntry list \<Rightarrow> nat \<Rightarrow> nat \<Rightarrow> GameMem \<Rightarrow> (nat \<times> GameMem) outcome" where
  "fill_players wr extras [] i found m = Returned (found, m)"
| "fill_players wr extras (r # rs) i found m =
     (if pk_npid r = [] then fill_players wr extras rs (i + 1) found m
      else bind_outcome (wr i r m) (\<lambda>m1. bind_outcome (extras i i m1) (\<lambda>m2.
             fill_players wr extras rs (i + 1) (found + 1) m2)))"

definition write_player :: "addr option \<Rightarrow> nat \<Rightarrow> PbRankEntry \<Rightarrow> GameMem \<Rightarrow> GameMem outcome" where
  "write_player p i r m =
     bind_outcome (write_at p i (\<lambda>d. d\<lparr>pd_has_data := 1, pd_rank_data := fill_rank r (pd_rank_data d)\<rparr>) (gm_player m))
       (\<lambda>x. Returned (m\<lparr>gm_player := x\<rparr>))"

definition write_player_a :: "addr option \<Rightarrow> nat \<Rightarrow> PbRankEntry \<Rightarrow> GameMem \<Rightarrow> GameMem outcome" where
  "write_player_a p i r m =
     bind_outcome (write_at p i (\<lambda>d. d\<lparr>pa_has_data := 1, pa_rank_data := fill_rank_a r (pa_rank_data d)\<rparr>) (gm_player_a m))
       (\<lambda>x. Returned (m\<lparr>gm_player_a := x\<rparr>))"

definition FillPlayerRankArrayAFromProto ::
  "PbScoreResponse \<Rightarrow> u64 \<Rightarrow> addr option \<Rightarrow> addr option \<Rightarrow> addr option \<Rightarrow> GameMem \<Rightarrow> (nat \<times> GameMem) outcome" where
  "FillPlayerRankArrayAFromProto resp requested_count rank_array comment_array info_array m =
     (let n = min (int (length (ps_rankarray resp))) (to_s32 (uint requested_count))
      in fill_players (write_player_a rank_array) (\<lambda>i k. fill_extras resp i k comment_array info_array)
           (take (nat n) (ps_rankarray resp)) 0 0 m)"

definition FillRankArrayFromProto ::
  "PbScoreResponse \<Rightarrow> bytes list \<Rightarrow> addr option \<Rightarrow> addr option \<Rightarrow> addr option \<Rightarrow> GameMem \<Rightarrow> (nat \<times> GameMem) outcome" where
  "FillRankArrayFromProto resp requested_np_ids rank_array comment_array info_array m =
     (let n = min (int (length (ps_rankarray resp))) (to_s32 (int (length requested_np_ids)))
      in fill_players (write_player rank_array) (\<lambda>i k. fill_extras resp i k comment_array info_array)
           (take (nat n) (ps_rankarray resp)) 0 0 m)"

end
