(* ===== verification/HandlerTus.thy ===== *)
theory HandlerTus
  imports HandlerScore
begin

text \<open>
  The storage requests of the handler (np_handler_tus.cpp). As for scores, a request is sent
  (\<open>tus_send\<close>) and then registered (\<open>tus_register\<close>) under another lock; unlike scores it is
  sent whether or not the client is authenticated.
\<close>

definition CmdTusSetData :: CommandType where [simp]: "CmdTusSetData = 201"
definition CmdTusGetData :: CommandType where [simp]: "CmdTusGetData = 202"
definition CmdTusSetMultiSlotVariable :: CommandType where [simp]: "CmdTusSetMultiSlotVariable = 203"
definition CmdTusGetMultiSlotVariable :: CommandType where [simp]: "CmdTusGetMultiSlotVariable = 204"
definition CmdTusAddAndGetVariable :: CommandType where [simp]: "CmdTusAddAndGetVariable = 205"
definition CmdTusGetMultiSlotDataStatus :: CommandType where [simp]: "CmdTusGetMultiSlotDataStatus = 206"
definition CmdTusGetMultiUserDataStatus :: CommandType where [simp]: "CmdTusGetMultiUserDataStatus = 207"
definition CmdTusGetFriendsDataStatus :: CommandType where [simp]: "CmdTusGetFriendsDataStatus = 208"
definition CmdTusDeleteMultiSlotData :: CommandType where [simp]: "CmdTusDeleteMultiSlotData = 209"
definition CmdTusGetMultiUserVariable :: CommandType where [simp]: "CmdTusGetMultiUserVariable = 210"
definition CmdTusTryAndSetVariable :: CommandType where [simp]: "CmdTusTryAndSetVariable = 211"
definition CmdTusGetFriendsVariable :: CommandType where [simp]: "CmdTusGetFriendsVariable = 212"
definition CmdTusDeleteMultiSlotVariable :: CommandType where [simp]: "CmdTusDeleteMultiSlotVariable = 213"
definition CmdTssGetData :: CommandType where [simp]: "CmdTssGetData = 214"

section \<open>Helpers\<close>

definition BuildTusPayload :: "bytes \<Rightarrow> bytes \<Rightarrow> bytes" where
  "BuildTusPayload com_id proto_bytes = com_id @ PutLE32 (of_nat (length proto_bytes)) @ proto_bytes"

text \<open>At most fifteen characters are copied.\<close>

definition CopyNpHandle :: "bytes \<Rightarrow> OrbisNpId" where
  "CopyNpHandle src = zero_np_id\<lparr>handle := (handle zero_np_id)\<lparr>oid_data :=
     overlay (take 15 src) (oid_data (handle zero_np_id))\<rparr>\<rparr>"

text \<open>\<open>tolower\<close> of the C locale.\<close>

definition to_lower_char :: "u8 \<Rightarrow> u8" where
  "to_lower_char b = (if 65 \<le> b \<and> b \<le> 90 then b + 32 else b)"

definition ToLower :: "bytes \<Rightarrow> bytes" where
  "ToLower input = map to_lower_char input"

text \<open>
  The owner of the storage: a virtual user, an account, or the account of the user when the online
  id is empty or his own.
\<close>

definition tus_owner :: "bytes \<Rightarrow> bytes \<Rightarrow> s64 \<Rightarrow> ShadNetClient \<Rightarrow> TusOwner" where
  "tus_owner owner_np_id virtual_user owner_account_id client =
     (let ow = \<lparr>to_npid = owner_np_id, to_virtualuser = None, to_accountid = None\<rparr>
      in if virtual_user \<noteq> [] then ow\<lparr>to_virtualuser := Some virtual_user\<rparr>
         else if owner_account_id \<noteq> 0 then ow\<lparr>to_accountid := Some owner_account_id\<rparr>
         else if owner_np_id = [] \<or> ToLower owner_np_id = ToLower (cl_npid client)
         then ow\<lparr>to_accountid := Some (to_s64 (uint (cl_user_id client)))\<rparr>
         else ow)"

definition tus_checks :: "bool \<Rightarrow> s64 \<Rightarrow> bytes \<Rightarrow> bool \<Rightarrow> u64 \<Rightarrow> TusChecks" where
  "tus_checks has_author_check author author_np_id has_date_check date =
     \<lparr>tk_author = (if has_author_check then Some (author, if author_np_id \<noteq> [] then Some author_np_id else None) else None),
      tk_date = (if has_date_check then Some date else None)\<rparr>"

section \<open>Sending and registering\<close>

definition tus_send ::
  "HandlerConfig \<Rightarrow> s32 \<Rightarrow> s32 \<Rightarrow> CommandType \<Rightarrow> (ShadNetClient \<Rightarrow> PbRequest) \<Rightarrow> NpHandler \<Rightarrow> (s32 + u64) \<times> NpHandler" where
  "tus_send cfg user_id service_label cmd req h =
     (case map_of (hn_clients h) user_id of
        None \<Rightarrow> (Inl ORBIS_NP_ERROR_SIGNED_OUT, h)
      | Some client \<Rightarrow>
          let com_id = GetNpCommId cfg service_label
          in if \<not> IsValidNpCommId com_id then (Inl ORBIS_NP_COMMUNITY_ERROR_INVALID_ARGUMENT, h)
             else let (pkt_id, h1) = send_request user_id cmd
                        (BuildTusPayload com_id (po_serialise (hc_ops cfg) (req client))) client h
                  in (Inr pkt_id, h1))"

definition tus_register :: "u64 \<Rightarrow> PendingTusRequest \<Rightarrow> NpHandler \<Rightarrow> NpHandler" where
  "tus_register pkt_id pending h = h\<lparr>hn_pending_tus := omap_emplace pkt_id pending (hn_pending_tus h)\<rparr>"

definition tus_request ::
  "HandlerConfig \<Rightarrow> s32 \<Rightarrow> s32 \<Rightarrow> CommandType \<Rightarrow> (ShadNetClient \<Rightarrow> PbRequest) \<Rightarrow> PendingTusRequest \<Rightarrow>
   NpHandler \<Rightarrow> s32 \<times> NpHandler" where
  "tus_request cfg user_id service_label cmd req pending h =
     (case tus_send cfg user_id service_label cmd req h of
        (Inl err, h1) \<Rightarrow> (err, h1)
      | (Inr pkt_id, h1) \<Rightarrow> (ORBIS_OK, tus_register pkt_id (pending\<lparr>qt_cmd := cmd, qt_user_id := user_id\<rparr>) h1))"

text \<open>The three arrays of variables, and of statuses, a request can have filled.\<close>

record VarOut =
  vo_plain :: "addr option"
  vo_a :: "addr option"
  vo_cs :: "addr option"

definition var_pending :: "VarOut \<Rightarrow> u64 \<Rightarrow> addr option \<Rightarrow> PendingTusRequest" where
  "var_pending out array_num ctx =
     new_tus_pending\<lparr>qt_req := ctx, qt_variable_array := vo_plain out, qt_variable_array_a := vo_a out,
       qt_variable_array_cs := vo_cs out, qt_array_num := array_num\<rparr>"

record StatusOut =
  so_plain :: "addr option"
  so_a :: "addr option"
  so_cs :: "addr option"

definition status_pending :: "StatusOut \<Rightarrow> u64 \<Rightarrow> addr option \<Rightarrow> PendingTusRequest" where
  "status_pending out array_num ctx =
     new_tus_pending\<lparr>qt_req := ctx, qt_status_array := so_plain out, qt_status_array_a := so_a out,
       qt_status_array_cs := so_cs out, qt_array_num := array_num\<rparr>"

section \<open>The requests\<close>

definition TusGetMultiSlotVariable ::
  "HandlerConfig \<Rightarrow> s32 \<Rightarrow> s32 \<Rightarrow> bytes \<Rightarrow> bytes \<Rightarrow> s32 list \<Rightarrow> VarOut \<Rightarrow> u64 \<Rightarrow> addr option \<Rightarrow> s64 \<Rightarrow>
   NpHandler \<Rightarrow> s32 \<times> NpHandler" where
  "TusGetMultiSlotVariable cfg user_id service_label owner_np_id virtual_user slot_ids out array_num ctx owner_account_id =
     tus_request cfg user_id service_label CmdTusGetMultiSlotVariable
       (\<lambda>client. TusSlotsRequest (tus_owner owner_np_id virtual_user owner_account_id client) slot_ids)
       (var_pending out array_num ctx)"

definition TusSetMultiSlotVariable ::
  "HandlerConfig \<Rightarrow> s32 \<Rightarrow> s32 \<Rightarrow> bytes \<Rightarrow> bytes \<Rightarrow> s32 list \<Rightarrow> s64 list \<Rightarrow> addr option \<Rightarrow> s64 \<Rightarrow>
   NpHandler \<Rightarrow> s32 \<times> NpHandler" where
  "TusSetMultiSlotVariable cfg user_id service_label owner_np_id virtual_user slot_ids values ctx owner_account_id =
     tus_request cfg user_id service_label CmdTusSetMultiSlotVariable
       (\<lambda>client. TusSetMultiSlotVariableRequest (tus_owner owner_np_id virtual_user owner_account_id client) slot_ids values)
       (new_tus_pending\<lparr>qt_req := ctx\<rparr>)"

definition TssGetData ::
  "HandlerConfig \<Rightarrow> s32 \<Rightarrow> s32 \<Rightarrow> s32 \<Rightarrow> u64 option \<Rightarrow> u64 option \<Rightarrow> (s32 \<times> u64) option \<Rightarrow> addr option \<Rightarrow>
   addr option \<Rightarrow> u64 \<Rightarrow> addr option \<Rightarrow> addr option \<Rightarrow> NpHandler \<Rightarrow> s32 \<times> NpHandler" where
  "TssGetData cfg user_id service_label slot_id offset last_byte if_param status_out data_out data_cap ctx content_length_out =
     tus_request cfg user_id service_label CmdTssGetData
       (\<lambda>_. TssGetDataRequest slot_id offset last_byte if_param)
       (new_tus_pending\<lparr>qt_req := ctx, qt_tss_status_out := status_out, qt_tss_content_length_out := content_length_out,
          qt_data_out := data_out, qt_data_cap := data_cap\<rparr>)"

definition TusGetData ::
  "HandlerConfig \<Rightarrow> s32 \<Rightarrow> s32 \<Rightarrow> bytes \<Rightarrow> bytes \<Rightarrow> s64 \<Rightarrow> s32 \<Rightarrow> StatusOut \<Rightarrow> u64 \<Rightarrow> addr option \<Rightarrow> u64 \<Rightarrow> u64 \<Rightarrow>
   addr option \<Rightarrow> NpHandler \<Rightarrow> s32 \<times> NpHandler" where
  "TusGetData cfg user_id service_label owner_np_id virtual_user owner_account_id slot_id out status_cap
     data_out data_cap data_offset ctx =
     tus_request cfg user_id service_label CmdTusGetData
       (\<lambda>client. TusGetDataRequest (tus_owner owner_np_id virtual_user owner_account_id client) slot_id)
       ((status_pending out 1 ctx)\<lparr>qt_status_cap := status_cap, qt_data_out := data_out, qt_data_cap := data_cap,
          qt_data_offset := data_offset\<rparr>)"

definition TusDeleteMultiSlotData ::
  "HandlerConfig \<Rightarrow> s32 \<Rightarrow> s32 \<Rightarrow> bytes \<Rightarrow> bytes \<Rightarrow> s64 \<Rightarrow> s32 list \<Rightarrow> addr option \<Rightarrow> NpHandler \<Rightarrow> s32 \<times> NpHandler" where
  "TusDeleteMultiSlotData cfg user_id service_label owner_np_id virtual_user owner_account_id slot_ids ctx =
     tus_request cfg user_id service_label CmdTusDeleteMultiSlotData
       (\<lambda>client. TusSlotsRequest (tus_owner owner_np_id virtual_user owner_account_id client) slot_ids)
       (new_tus_pending\<lparr>qt_req := ctx\<rparr>)"

definition TusDeleteMultiSlotVariable ::
  "HandlerConfig \<Rightarrow> s32 \<Rightarrow> s32 \<Rightarrow> bytes \<Rightarrow> bytes \<Rightarrow> s64 \<Rightarrow> s32 list \<Rightarrow> addr option \<Rightarrow> NpHandler \<Rightarrow> s32 \<times> NpHandler" where
  "TusDeleteMultiSlotVariable cfg user_id service_label owner_np_id virtual_user owner_account_id slot_ids ctx =
     tus_request cfg user_id service_label CmdTusDeleteMultiSlotVariable
       (\<lambda>client. TusSlotsRequest (tus_owner owner_np_id virtual_user owner_account_id client) slot_ids)
       (new_tus_pending\<lparr>qt_req := ctx\<rparr>)"

definition TusGetMultiUserDataStatus ::
  "HandlerConfig \<Rightarrow> s32 \<Rightarrow> s32 \<Rightarrow> s32 \<Rightarrow> bytes list \<Rightarrow> bytes list \<Rightarrow> s64 list \<Rightarrow> StatusOut \<Rightarrow> u64 \<Rightarrow> addr option \<Rightarrow>
   NpHandler \<Rightarrow> s32 \<times> NpHandler" where
  "TusGetMultiUserDataStatus cfg user_id service_label slot_id owner_np_ids virtual_users owner_account_ids out array_num ctx =
     tus_request cfg user_id service_label CmdTusGetMultiUserDataStatus
       (\<lambda>_. TusMultiUserRequest slot_id virtual_users owner_np_ids owner_account_ids)
       (status_pending out array_num ctx)"

definition TusGetMultiUserVariable ::
  "HandlerConfig \<Rightarrow> s32 \<Rightarrow> s32 \<Rightarrow> s32 \<Rightarrow> bytes list \<Rightarrow> bytes list \<Rightarrow> s64 list \<Rightarrow> VarOut \<Rightarrow> u64 \<Rightarrow> addr option \<Rightarrow>
   NpHandler \<Rightarrow> s32 \<times> NpHandler" where
  "TusGetMultiUserVariable cfg user_id service_label slot_id owner_np_ids virtual_users owner_account_ids out array_num ctx =
     tus_request cfg user_id service_label CmdTusGetMultiUserVariable
       (\<lambda>_. TusMultiUserRequest slot_id virtual_users owner_np_ids owner_account_ids)
       (var_pending out array_num ctx)"

definition TusTryAndSetVariable ::
  "HandlerConfig \<Rightarrow> s32 \<Rightarrow> s32 \<Rightarrow> bytes \<Rightarrow> bytes \<Rightarrow> s64 \<Rightarrow> s32 \<Rightarrow> s32 \<Rightarrow> s64 \<Rightarrow> s64 option \<Rightarrow>
   bool \<Rightarrow> s64 \<Rightarrow> bytes \<Rightarrow> bool \<Rightarrow> u64 \<Rightarrow> VarOut \<Rightarrow>
   addr option \<Rightarrow> NpHandler \<Rightarrow> s32 \<times> NpHandler" where
  "TusTryAndSetVariable cfg user_id service_label owner_np_id virtual_user owner_account_id slot_id ope_type v compare
     has_author_check author author_np_id has_date_check date out ctx =
     tus_request cfg user_id service_label CmdTusTryAndSetVariable
       (\<lambda>client. TusTryAndSetVariableRequest (tus_owner owner_np_id virtual_user owner_account_id client)
                   slot_id ope_type v compare (tus_checks has_author_check author author_np_id has_date_check date))
       (var_pending out 1 ctx)"

definition TusAddAndGetVariable ::
  "HandlerConfig \<Rightarrow> s32 \<Rightarrow> s32 \<Rightarrow> bytes \<Rightarrow> bytes \<Rightarrow> s64 \<Rightarrow> s32 \<Rightarrow> s64 \<Rightarrow>
   bool \<Rightarrow> s64 \<Rightarrow> bytes \<Rightarrow> bool \<Rightarrow> u64 \<Rightarrow> VarOut \<Rightarrow> addr option \<Rightarrow>
   NpHandler \<Rightarrow> s32 \<times> NpHandler" where
  "TusAddAndGetVariable cfg user_id service_label owner_np_id virtual_user owner_account_id slot_id in_variable
     has_author_check author author_np_id has_date_check date out ctx =
     tus_request cfg user_id service_label CmdTusAddAndGetVariable
       (\<lambda>client. TusAddAndGetVariableRequest (tus_owner owner_np_id virtual_user owner_account_id client)
                   slot_id in_variable (tus_checks has_author_check author author_np_id has_date_check date))
       (var_pending out 1 ctx)"

definition TusGetFriendsDataStatus ::
  "HandlerConfig \<Rightarrow> s32 \<Rightarrow> s32 \<Rightarrow> s32 \<Rightarrow> bool \<Rightarrow> s32 \<Rightarrow> u32 \<Rightarrow> StatusOut \<Rightarrow> u64 \<Rightarrow> addr option \<Rightarrow> u32 \<Rightarrow> addr option \<Rightarrow>
   NpHandler \<Rightarrow> s32 \<times> NpHandler" where
  "TusGetFriendsDataStatus cfg user_id service_label slot_id include_self sort_type max_num out array_num ctx start_offset hits_out =
     tus_request cfg user_id service_label CmdTusGetFriendsDataStatus
       (\<lambda>_. TusFriendsRequest slot_id include_self sort_type max_num start_offset)
       ((status_pending out array_num ctx)\<lparr>qt_total_out := hits_out\<rparr>)"

definition TusGetFriendsVariable ::
  "HandlerConfig \<Rightarrow> s32 \<Rightarrow> s32 \<Rightarrow> s32 \<Rightarrow> bool \<Rightarrow> s32 \<Rightarrow> u32 \<Rightarrow> VarOut \<Rightarrow> u64 \<Rightarrow> addr option \<Rightarrow> u32 \<Rightarrow> addr option \<Rightarrow>
   NpHandler \<Rightarrow> s32 \<times> NpHandler" where
  "TusGetFriendsVariable cfg user_id service_label slot_id include_self sort_type max_num out array_num ctx start_offset hits_out =
     tus_request cfg user_id service_label CmdTusGetFriendsVariable
       (\<lambda>_. TusFriendsRequest slot_id include_self sort_type max_num start_offset)
       ((var_pending out array_num ctx)\<lparr>qt_total_out := hits_out\<rparr>)"

definition TusGetMultiSlotDataStatus ::
  "HandlerConfig \<Rightarrow> s32 \<Rightarrow> s32 \<Rightarrow> bytes \<Rightarrow> bytes \<Rightarrow> s64 \<Rightarrow> s32 list \<Rightarrow> StatusOut \<Rightarrow> u64 \<Rightarrow> addr option \<Rightarrow>
   NpHandler \<Rightarrow> s32 \<times> NpHandler" where
  "TusGetMultiSlotDataStatus cfg user_id service_label owner_np_id virtual_user owner_account_id slot_ids out array_num ctx =
     tus_request cfg user_id service_label CmdTusGetMultiSlotDataStatus
       (\<lambda>client. TusSlotsRequest (tus_owner owner_np_id virtual_user owner_account_id client) slot_ids)
       (status_pending out array_num ctx)"

definition TusSetData ::
  "HandlerConfig \<Rightarrow> s32 \<Rightarrow> s32 \<Rightarrow> bytes \<Rightarrow> bytes \<Rightarrow> s64 \<Rightarrow> s32 \<Rightarrow> bytes \<Rightarrow> bytes \<Rightarrow>
   bool \<Rightarrow> s64 \<Rightarrow> bytes \<Rightarrow> bool \<Rightarrow> u64 \<Rightarrow> addr option \<Rightarrow>
   NpHandler \<Rightarrow> s32 \<times> NpHandler" where
  "TusSetData cfg user_id service_label owner_np_id virtual_user owner_account_id slot_id blob info
     has_author_check author author_np_id has_date_check date ctx =
     tus_request cfg user_id service_label CmdTusSetData
       (\<lambda>client. TusSetDataRequest (tus_owner owner_np_id virtual_user owner_account_id client) slot_id blob
                   (if info \<noteq> [] then Some info else None) (tus_checks has_author_check author author_np_id has_date_check date))
       (new_tus_pending\<lparr>qt_req := ctx\<rparr>)"

end
