(* ===== verification/HandlerScoreReply.thy ===== *)
theory HandlerScoreReply
  imports HandlerScore
begin

text \<open>The replies to score requests (\<open>OnScoreReply\<close> in np_handler_score.cpp).\<close>

section \<open>Errors\<close>

definition score_error :: "CommandType \<Rightarrow> ErrorType \<Rightarrow> s32" where
  "score_error cmd err =
     (if err = 29 then ORBIS_NP_COMMUNITY_SERVER_ERROR_NOT_BEST_SCORE
      else if err = 30 then ORBIS_NP_COMMUNITY_SERVER_ERROR_INVALID_SCORE
      else if err = 31 then ORBIS_NP_COMMUNITY_SERVER_ERROR_GAME_DATA_ALREADY_EXISTS
      else if err = 34 then ORBIS_NP_COMMUNITY_SERVER_ERROR_TOO_LARGE_DATA
      else if err = 32 then ORBIS_NP_COMMUNITY_SERVER_ERROR_CONDITIONS_NOT_SATISFIED
      else if err = 26 then
        (if cmd = CmdGetScoreData \<or> cmd = CmdGetScoreGameDataByAccId
         then ORBIS_NP_COMMUNITY_SERVER_ERROR_RANKING_GAME_DATA_MASTER_NOT_FOUND
         else if cmd = CmdRecordScoreData then ORBIS_NP_COMMUNITY_SERVER_ERROR_RANKING_STORE_NOT_FOUND
         else ORBIS_NP_COMMUNITY_SERVER_ERROR_RANKING_BOARD_MASTER_NOT_FOUND)
      else if err = 23 then ORBIS_NP_COMMUNITY_SERVER_ERROR_FORBIDDEN
      else if err = 24 then ORBIS_NP_COMMUNITY_SERVER_ERROR_INTERNAL_SERVER_ERROR
      else ORBIS_NP_COMMUNITY_ERROR_BAD_RESPONSE)"

section \<open>Pieces of the reply\<close>

text \<open>\<open>req->SetResult(r)\<close>, through a pointer that must not be null.\<close>

definition finish_score :: "addr option \<Rightarrow> s32 \<Rightarrow> NpHandler \<Rightarrow> NpHandler outcome" where
  "finish_score req r h = (case req of None \<Rightarrow> OutOfBounds | Some a \<Rightarrow> Returned (score_set a r h))"

text \<open>The message of a reply, behind its length; \<open>None\<close> when the length does not fit the body.\<close>

definition reply_blob :: "bytes \<Rightarrow> bytes option" where
  "reply_blob body =
     (if length body < 4 then None
      else let n = unat (GetLE32 0 body)
           in if 4 + n > length body then None else Some (take n (drop 4 body)))"

definition with_mem :: "NpHandler \<Rightarrow> GameMem outcome \<Rightarrow> NpHandler outcome" where
  "with_mem h m = bind_outcome m (\<lambda>x. Returned (h\<lparr>hn_mem := x\<rparr>))"

definition out_u32 :: "addr option \<Rightarrow> u32 \<Rightarrow> GameMem \<Rightarrow> GameMem outcome" where
  "out_u32 p v m = bind_outcome (write_out p v (gm_u32 m)) (\<lambda>x. Returned (m\<lparr>gm_u32 := x\<rparr>))"

definition out_u64 :: "addr option \<Rightarrow> u64 \<Rightarrow> GameMem \<Rightarrow> GameMem outcome" where
  "out_u64 p v m = bind_outcome (write_out p v (gm_u64 m)) (\<lambda>x. Returned (m\<lparr>gm_u64 := x\<rparr>))"

text \<open>\<open>memcpy\<close> of bytes to the beginning of a buffer.\<close>

definition copy_out :: "addr option \<Rightarrow> bytes \<Rightarrow> GameMem \<Rightarrow> GameMem outcome" where
  "copy_out p src m =
     (case p of
        None \<Rightarrow> OutOfBounds
      | Some a \<Rightarrow>
          (case gm_buf m a of
             None \<Rightarrow> OutOfBounds
           | Some b \<Rightarrow> if length src \<le> length b then Returned (m\<lparr>gm_buf := (gm_buf m)(a \<mapsto> src @ drop (length src) b)\<rparr>)
                       else OutOfBounds))"

definition upd_score_ctx :: "addr option \<Rightarrow> (ScoreRequestCtx \<Rightarrow> ScoreRequestCtx) \<Rightarrow> NpHandler \<Rightarrow> NpHandler outcome" where
  "upd_score_ctx req f h =
     (case req of None \<Rightarrow> OutOfBounds | Some a \<Rightarrow> Returned (h\<lparr>hn_score_ctxs := at_addr f a (hn_score_ctxs h)\<rparr>))"

section \<open>The replies\<close>

text \<open>The temporary rank goes through a pointer the request context holds.\<close>

definition record_score_reply :: "PendingScoreRequest \<Rightarrow> bytes \<Rightarrow> NpHandler \<Rightarrow> NpHandler outcome" where
  "record_score_reply p body h =
     bind_outcome
       (upd_score_ctx (qs_req p)
          (\<lambda>c. if sc_has_tmp_rank c \<and> 4 \<le> length body then c\<lparr>sc_tmp_rank := Some (GetLE32 0 body)\<rparr> else c) h)
       (finish_score (qs_req p) ORBIS_OK)"

definition game_data_reply :: "PendingScoreRequest \<Rightarrow> bytes \<Rightarrow> NpHandler \<Rightarrow> NpHandler outcome" where
  "game_data_reply p body h =
     (case reply_blob body of
        None \<Rightarrow> finish_score (qs_req p) ORBIS_NP_COMMUNITY_ERROR_BAD_RESPONSE h
      | Some blob \<Rightarrow>
          bind_outcome (with_mem h (out_u64 (qs_total_size_out p) (of_nat (length blob)) (hn_mem h))) (\<lambda>h1.
            let copies = (qs_data_out p \<noteq> None \<and> qs_recv_size p > 0);
                copy_n = (if copies then min (length blob) (unat (qs_recv_size p)) else 0)
            in bind_outcome
                 (if copies then with_mem h1 (copy_out (qs_data_out p) (take copy_n blob) (hn_mem h1)) else Returned h1) (\<lambda>h2.
               bind_outcome
                 (upd_score_ctx (qs_req p)
                    (\<lambda>c. if copy_n < unat (qs_recv_size p)
                         then c\<lparr>sc_game_data_recv_offset := 0, sc_game_data_recv_cache := []\<rparr>
                         else c\<lparr>sc_game_data_recv_offset := of_nat copy_n, sc_game_data_recv_cache := blob\<rparr>) h2)
                 (finish_score (qs_req p) (to_s32 (int copy_n))))))"

definition board_info_reply :: "HandlerConfig \<Rightarrow> PendingScoreRequest \<Rightarrow> bytes \<Rightarrow> NpHandler \<Rightarrow> NpHandler outcome" where
  "board_info_reply cfg p body h =
     (case (case reply_blob body of None \<Rightarrow> None | Some blob \<Rightarrow> hc_pb_board_info cfg blob) of
        None \<Rightarrow> finish_score (qs_req p) ORBIS_NP_COMMUNITY_ERROR_BAD_RESPONSE h
      | Some info \<Rightarrow>
          bind_outcome
            (with_mem h (bind_outcome (write_out (qs_board_info p) info (gm_board (hn_mem h)))
               (\<lambda>x. Returned ((hn_mem h)\<lparr>gm_board := x\<rparr>))))
            (finish_score (qs_req p) ORBIS_OK))"

text \<open>Filling from a parsed ranking, the two totals, and the result.\<close>

definition ranking_reply ::
  "HandlerConfig \<Rightarrow> PendingScoreRequest \<Rightarrow> bytes \<Rightarrow> (PbScoreResponse \<Rightarrow> GameMem \<Rightarrow> (nat \<times> GameMem) outcome) \<Rightarrow>
   (nat \<Rightarrow> bool) \<Rightarrow> (nat \<Rightarrow> s32) \<Rightarrow> NpHandler \<Rightarrow> NpHandler outcome" where
  "ranking_reply cfg p body fill write_meta result h =
     (case (case reply_blob body of None \<Rightarrow> None | Some blob \<Rightarrow> hc_pb_score cfg blob) of
        None \<Rightarrow> finish_score (qs_req p) ORBIS_NP_COMMUNITY_ERROR_BAD_RESPONSE h
      | Some resp \<Rightarrow>
          bind_outcome (fill resp (hn_mem h)) (\<lambda>(found, m1).
            bind_outcome (if write_meta found then out_u64 (qs_last_sort_date p) (ps_lastsortdate resp) m1 else Returned m1) (\<lambda>m2.
            bind_outcome (if write_meta found then out_u32 (qs_total_record p) (ps_totalrecord resp) m2 else Returned m2) (\<lambda>m3.
              finish_score (qs_req p) (result found) (h\<lparr>hn_mem := m3\<rparr>)))))"

definition found_result :: "nat \<Rightarrow> s32" where
  "found_result found = (if found \<noteq> 0 then int found else ORBIS_NP_COMMUNITY_SERVER_ERROR_GAME_RANKING_NOT_FOUND)"

definition score_success ::
  "HandlerConfig \<Rightarrow> CommandType \<Rightarrow> PendingScoreRequest \<Rightarrow> bytes \<Rightarrow> NpHandler \<Rightarrow> NpHandler outcome" where
  "score_success cfg cmd p body h =
     (if cmd = CmdRecordScore then record_score_reply p body h
      else if cmd = CmdRecordScoreData then finish_score (qs_req p) ORBIS_OK h
      else if cmd = CmdGetScoreData \<or> cmd = CmdGetScoreGameDataByAccId then game_data_reply p body h
      else if cmd = CmdGetBoardInfos then board_info_reply cfg p body h
      else if cmd = CmdGetScoreNpId then
        ranking_reply cfg p body
          (\<lambda>resp. FillRankArrayFromProto resp (qs_requested_np_ids p) (qs_rank_array p) (qs_comment_array p) (qs_info_array p))
          (\<lambda>_. True) found_result h
      else if cmd = CmdGetScoreAccountId then
        ranking_reply cfg p body
          (\<lambda>resp. FillPlayerRankArrayAFromProto resp (qs_array_num p) (qs_a_player_rank_array p) (qs_comment_array p) (qs_info_array p))
          (\<lambda>_. True) found_result h
      else if cmd = CmdGetScoreRange \<or> cmd = CmdGetScoreFriends then
        ranking_reply cfg p body
          (\<lambda>resp. if qs_a_rank_array p \<noteq> None
                  then FillPlainRankArrayAFromProto resp (qs_array_num p) (qs_a_rank_array p) (qs_comment_array p) (qs_info_array p)
                  else FillPlainRankArrayFromProto resp (qs_array_num p) (qs_plain_rank_array p) (qs_comment_array p) (qs_info_array p))
          (\<lambda>found. cmd \<noteq> CmdGetScoreFriends \<or> found > 0)
          (\<lambda>found. if cmd = CmdGetScoreFriends then int found else found_result found) h
      else finish_score (qs_req p) ORBIS_NP_COMMUNITY_ERROR_BAD_RESPONSE h)"

definition OnScoreReply ::
  "HandlerConfig \<Rightarrow> s32 \<Rightarrow> CommandType \<Rightarrow> u64 \<Rightarrow> ErrorType \<Rightarrow> bytes \<Rightarrow> NpHandler \<Rightarrow> NpHandler outcome" where
  "OnScoreReply cfg user_id cmd pkt_id err body h =
     (case map_of (hn_pending_score h) pkt_id of
        None \<Rightarrow> Returned h
      | Some pending \<Rightarrow>
          let h1 = h\<lparr>hn_pending_score := omap_erase pkt_id (hn_pending_score h)\<rparr>
          in if err \<noteq> NoError then finish_score (qs_req pending) (score_error cmd err) h1
             else score_success cfg cmd pending body h1)"

section \<open>No write leaves the arrays\<close>

text \<open>The arrays a ranking fills, for \<open>n\<close> slots.\<close>

definition rank_mem_ok :: "nat \<Rightarrow> PendingScoreRequest \<Rightarrow> GameMem \<Rightarrow> bool" where
  "rank_mem_ok n p m \<longleftrightarrow>
     holds n (gm_comment m) (qs_comment_array p) \<and> holds n (gm_info m) (qs_info_array p) \<and>
     holds n (gm_rank m) (qs_plain_rank_array p) \<and> holds n (gm_rank_a m) (qs_a_rank_array p) \<and>
     holds n (gm_player m) (qs_rank_array p) \<and> holds n (gm_player_a m) (qs_a_player_rank_array p) \<and>
     holds 1 (gm_u64 m) (qs_last_sort_date p) \<and> holds 1 (gm_u32 m) (qs_total_record p)"

lemma rank_mem_ok_grows [intro]:
  "rank_mem_ok n p m \<Longrightarrow> grows (gm_comment m) x \<Longrightarrow> rank_mem_ok n p (m\<lparr>gm_comment := x\<rparr>)"
  "rank_mem_ok n p m \<Longrightarrow> grows (gm_info m) y \<Longrightarrow> rank_mem_ok n p (m\<lparr>gm_info := y\<rparr>)"
  "rank_mem_ok n p m \<Longrightarrow> grows (gm_rank m) z \<Longrightarrow> rank_mem_ok n p (m\<lparr>gm_rank := z\<rparr>)"
  "rank_mem_ok n p m \<Longrightarrow> grows (gm_rank_a m) u \<Longrightarrow> rank_mem_ok n p (m\<lparr>gm_rank_a := u\<rparr>)"
  "rank_mem_ok n p m \<Longrightarrow> grows (gm_player m) v \<Longrightarrow> rank_mem_ok n p (m\<lparr>gm_player := v\<rparr>)"
  "rank_mem_ok n p m \<Longrightarrow> grows (gm_player_a m) w \<Longrightarrow> rank_mem_ok n p (m\<lparr>gm_player_a := w\<rparr>)"
  "rank_mem_ok n p m \<Longrightarrow> grows (gm_u64 m) d \<Longrightarrow> rank_mem_ok n p (m\<lparr>gm_u64 := d\<rparr>)"
  "rank_mem_ok n p m \<Longrightarrow> grows (gm_u32 m) e \<Longrightarrow> rank_mem_ok n p (m\<lparr>gm_u32 := e\<rparr>)"
  by (simp_all add: rank_mem_ok_def growsD)

lemma fill_extras_ok:
  assumes "rank_mem_ok n p m" and "k < n"
  shows "safe (rank_mem_ok n p) (fill_extras resp i k (qs_comment_array p) (qs_info_array p) m)"
  unfolding fill_extras_def
proof (rule safe_bind [where P = "rank_mem_ok n p"])
  have "holds n (gm_comment m) (qs_comment_array p)" using assms by (simp add: rank_mem_ok_def)
  then show "safe (rank_mem_ok n p) (if qs_comment_array p \<noteq> None \<and> i < length (ps_commentarray resp)
      then bind_outcome (write_at (qs_comment_array p) k (overlay (take 63 (ps_commentarray resp ! i))) (gm_comment m))
             (\<lambda>x. Returned (m\<lparr>gm_comment := x\<rparr>))
      else Returned m)"
    using assms by (auto intro!: safe_bind safe_write_at)
next
  fix m1 assume m1: "rank_mem_ok n p m1"
  then have "holds n (gm_info m1) (qs_info_array p)" by (simp add: rank_mem_ok_def)
  then show "safe (rank_mem_ok n p) (if qs_info_array p \<noteq> None \<and> i < length (ps_infoarray resp)
      then bind_outcome
             (write_at (qs_info_array p) k (\<lambda>g. g\<lparr>gi_info_size := of_nat (min (length (ps_infoarray resp ! i)) 189),
                gi_data := overlay (ps_infoarray resp ! i) (gi_data g)\<rparr>) (gm_info m1))
             (\<lambda>x. Returned (m1\<lparr>gm_info := x\<rparr>))
      else Returned m1)"
    using m1 assms(2) by (auto intro!: safe_bind safe_write_at)
qed

text \<open>What the two loops need of their writers.\<close>

lemma fill_packed_ok:
  assumes wr: "\<And>k r m. P m \<Longrightarrow> k < n \<Longrightarrow> safe P (wr k r m)"
    and ex: "\<And>i k m. P m \<Longrightarrow> k < n \<Longrightarrow> safe P (extras i k m)"
    and "P m"
  shows "safe (\<lambda>(_, m'). P m') (fill_packed wr extras n rs i k m)"
  using assms(3)
proof (induction rs arbitrary: i k m)
  case (Cons r rs)
  show ?case
    using Cons by (auto intro!: safe_bind [OF wr] safe_bind [OF ex])
qed simp

lemma fill_players_ok:
  assumes wr: "\<And>k r m. P m \<Longrightarrow> k < n \<Longrightarrow> safe P (wr k r m)"
    and ex: "\<And>i k m. P m \<Longrightarrow> k < n \<Longrightarrow> safe P (extras i k m)"
    and "P m" and "i + length rs \<le> n"
  shows "safe (\<lambda>(_, m'). P m') (fill_players wr extras rs i found m)"
  using assms(3,4)
proof (induction rs arbitrary: i found m)
  case (Cons r rs)
  show ?case
    using Cons by (auto intro!: safe_bind [OF wr] safe_bind [OF ex])
qed simp

end
