(* ===== verification/HandlerTusReply.thy ===== *)
theory HandlerTusReply
  imports HandlerTus HandlerScoreReply
begin

text \<open>The replies to storage requests (\<open>OnTusReply\<close> in np_handler_tus.cpp).\<close>

section \<open>Errors and results\<close>

definition tus_error :: "ErrorType \<Rightarrow> s32" where
  "tus_error err =
     (if err = 23 then ORBIS_NP_COMMUNITY_SERVER_ERROR_FORBIDDEN
      else if err = 26 then ORBIS_NP_COMMUNITY_SERVER_ERROR_USER_PROFILE_NOT_FOUND
      else if err = 24 then ORBIS_NP_COMMUNITY_SERVER_ERROR_INTERNAL_SERVER_ERROR
      else if err = 32 then ORBIS_NP_COMMUNITY_SERVER_ERROR_CONDITIONS_NOT_SATISFIED
      else ORBIS_NP_COMMUNITY_ERROR_BAD_RESPONSE)"

text \<open>The calls of \<open>req->SetResult\<close> of a reply, in order: the first one counts.\<close>

definition finish_tus :: "addr option \<Rightarrow> s32 list \<Rightarrow> NpHandler \<Rightarrow> NpHandler outcome" where
  "finish_tus req rs h = (case req of None \<Rightarrow> OutOfBounds | Some a \<Rightarrow> Returned (fold (tus_set a) rs h))"

section \<open>Structures of the reply\<close>

definition zero_variable :: OrbisNpTusVariable where
  "zero_variable = \<lparr>tv_owner_id = zero_np_id, tv_has_data = 0, tv_last_changed_date = 0,
     tv_last_changed_author_id = zero_np_id, tv_variable = 0, tv_old_variable = 0, tv_owner_account_id = 0,
     tv_last_changed_author_account_id = 0\<rparr>"

definition zero_info :: OrbisNpTusDataInfo where
  "zero_info = \<lparr>di_size = 0, di_data = replicate 384 0\<rparr>"

definition fill_variable :: "PbTusVariable \<Rightarrow> OrbisNpTusVariable" where
  "fill_variable s = zero_variable\<lparr>tv_owner_id := CopyNpHandle (px_ownernpid s), tv_has_data := (if px_set s then 1 else 0),
     tv_last_changed_date := px_lastchangeddate s, tv_last_changed_author_id := CopyNpHandle (px_lastchangedauthornpid s),
     tv_variable := px_variable s, tv_old_variable := px_oldvariable s,
     tv_owner_account_id := word_of_int (px_owneraccountid s),
     tv_last_changed_author_account_id := word_of_int (px_lastchangedauthoraccountid s)\<rparr>"

definition fill_variable_for_cross_save :: "PbTusVariable \<Rightarrow> OrbisNpTusVariableForCrossSave" where
  "fill_variable_for_cross_save s = zero_variable\<lparr>tv_owner_id := CopyNpHandle (px_ownernpid s),
     tv_has_data := (if px_set s then 1 else 0), tv_last_changed_date := px_lastchangeddate s,
     tv_last_changed_author_id := CopyNpHandle (px_lastchangedauthornpid s),
     tv_variable := px_variable s, tv_old_variable := px_oldvariable s,
     tv_owner_account_id := word_of_int (px_owneraccountid s),
     tv_last_changed_author_account_id := word_of_int (px_lastchangedauthoraccountid s)\<rparr>"

text \<open>\<open>memcpy\<close> of all sixteen characters into a zeroed online id.\<close>

definition online_id_of :: "bytes \<Rightarrow> OrbisNpOnlineId" where
  "online_id_of npid = zero_online_id\<lparr>oid_data := overlay npid (oid_data zero_online_id)\<rparr>"

definition fill_variable_a :: "PbTusVariable \<Rightarrow> OrbisNpTusVariableA" where
  "fill_variable_a s = \<lparr>va_owner_id = online_id_of (px_ownernpid s), va_has_data = (if px_set s then 1 else 0),
     va_last_changed_date = px_lastchangeddate s, va_last_changed_author_id = online_id_of (px_lastchangedauthornpid s),
     va_variable = px_variable s, va_old_variable = px_oldvariable s,
     va_owner_account_id = word_of_int (px_owneraccountid s),
     va_last_changed_author_account_id = word_of_int (px_lastchangedauthoraccountid s)\<rparr>"

text \<open>The size of the information is not cut to the size of its buffer.\<close>

definition data_info :: "bytes \<Rightarrow> OrbisNpTusDataInfo" where
  "data_info info = zero_info\<lparr>di_size := of_nat (length info), di_data := overlay info (di_data zero_info)\<rparr>"

definition fill_status :: "PbTusDataStatus \<Rightarrow> OrbisNpTusDataStatus" where
  "fill_status s = \<lparr>ds_owner_id = CopyNpHandle (py_ownernpid s), ds_has_data = (if py_set s then 1 else 0),
     ds_last_changed_date = py_lastchangeddate s, ds_last_changed_author_id = CopyNpHandle (py_lastchangedauthornpid s),
     ds_data = None, ds_data_size = py_datasize s, ds_info = data_info (py_info s)\<rparr>"

definition fill_status_a :: "PbTusDataStatus \<Rightarrow> OrbisNpTusDataStatusA" where
  "fill_status_a s = \<lparr>da_owner_id = online_id_of (py_ownernpid s), da_has_data = (if py_set s then 1 else 0),
     da_last_changed_date = py_lastchangeddate s, da_last_changed_author_id = online_id_of (py_lastchangedauthornpid s),
     da_data = None, da_data_size = py_datasize s, da_info = data_info (py_info s),
     da_owner_account_id = word_of_int (py_owneraccountid s),
     da_last_changed_author_account_id = word_of_int (py_lastchangedauthoraccountid s)\<rparr>"

definition fill_status_for_cross_save :: "PbTusDataStatus \<Rightarrow> OrbisNpTusDataStatusForCrossSave" where
  "fill_status_for_cross_save s = \<lparr>dc_owner_id = CopyNpHandle (py_ownernpid s), dc_has_data = (if py_set s then 1 else 0),
     dc_last_changed_date = py_lastchangeddate s, dc_last_changed_author_id = CopyNpHandle (py_lastchangedauthornpid s),
     dc_data = None, dc_data_size = py_datasize s, dc_info = data_info (py_info s),
     dc_owner_account_id = word_of_int (py_owneraccountid s),
     dc_last_changed_author_account_id = word_of_int (py_lastchangedauthoraccountid s)\<rparr>"

section \<open>Writing the arrays\<close>

text \<open>Element \<open>i\<close> of the reply goes to element \<open>i\<close> of the array.\<close>

fun fill_array :: "addr option \<Rightarrow> nat \<Rightarrow> 'a list \<Rightarrow> (addr \<rightharpoonup> 'a list) \<Rightarrow> (addr \<rightharpoonup> 'a list) outcome" where
  "fill_array p i [] m = Returned m"
| "fill_array p i (x # xs) m = bind_outcome (write_at p i (\<lambda>_. x) m) (fill_array p (i + 1) xs)"

text \<open>As many as were asked for and came.\<close>

definition asked :: "u64 \<Rightarrow> 'a list \<Rightarrow> 'a list" where
  "asked array_num xs = take (unat array_num) xs"

definition fill_variables :: "PendingTusRequest \<Rightarrow> PbTusVariable list \<Rightarrow> GameMem \<Rightarrow> (nat \<times> GameMem) outcome" where
  "fill_variables p vars m =
     (let vs = asked (qt_array_num p) vars
      in if qt_variable_array_a p \<noteq> None
         then bind_outcome (fill_array (qt_variable_array_a p) 0 (map fill_variable_a vs) (gm_var_a m))
                (\<lambda>x. Returned (length vs, m\<lparr>gm_var_a := x\<rparr>))
         else if qt_variable_array_cs p \<noteq> None
         then bind_outcome (fill_array (qt_variable_array_cs p) 0 (map fill_variable_for_cross_save vs) (gm_var_cs m))
                (\<lambda>x. Returned (length vs, m\<lparr>gm_var_cs := x\<rparr>))
         else if qt_variable_array p \<noteq> None
         then bind_outcome (fill_array (qt_variable_array p) 0 (map fill_variable vs) (gm_var m))
                (\<lambda>x. Returned (length vs, m\<lparr>gm_var := x\<rparr>))
         else Returned (0, m))"

definition fill_statuses :: "PendingTusRequest \<Rightarrow> PbTusDataStatus list \<Rightarrow> GameMem \<Rightarrow> GameMem outcome" where
  "fill_statuses p statuses m =
     (let ss = asked (qt_array_num p) statuses
      in if qt_status_array_a p \<noteq> None
         then bind_outcome (fill_array (qt_status_array_a p) 0 (map (Whole \<circ> fill_status_a) ss) (gm_status_a m))
                (\<lambda>x. Returned (m\<lparr>gm_status_a := x\<rparr>))
         else if qt_status_array_cs p \<noteq> None
         then bind_outcome (fill_array (qt_status_array_cs p) 0 (map (Whole \<circ> fill_status_for_cross_save) ss) (gm_status_cs m))
                (\<lambda>x. Returned (m\<lparr>gm_status_cs := x\<rparr>))
         else if qt_status_array p \<noteq> None
         then bind_outcome (fill_array (qt_status_array p) 0 (map (Whole \<circ> fill_status) ss) (gm_status m))
                (\<lambda>x. Returned (m\<lparr>gm_status := x\<rparr>))
         else Returned m)"

definition out_total :: "addr option \<Rightarrow> u32 \<Rightarrow> nat \<Rightarrow> GameMem \<Rightarrow> GameMem outcome" where
  "out_total p total_num n m = out_u32 p (if total_num \<noteq> 0 then total_num else of_nat n) m"

text \<open>
  The status of one slot is copied up to the size the caller gave, none meaning the whole; sizes of
  the structs are those of the 64-bit layout.
\<close>

definition sizeof_status :: nat where "sizeof_status = 496"
definition sizeof_status_a :: nat where "sizeof_status_a = 528"
definition sizeof_status_cs :: nat where "sizeof_status_cs = 528"

definition copy_obj :: "u64 \<Rightarrow> nat \<Rightarrow> 'a \<Rightarrow> 'a obj \<Rightarrow> 'a obj" where
  "copy_obj status_cap sz v old =
     (if status_cap = 0 \<or> sz \<le> unat status_cap then Whole v else Prefix (unat status_cap) v old)"

definition write_status :: "PendingTusRequest \<Rightarrow> PbTusDataStatus \<Rightarrow> nat \<Rightarrow> GameMem \<Rightarrow> GameMem outcome" where
  "write_status p status recv m =
     (let d = (if recv \<noteq> 0 then qt_data_out p else None); cap = qt_status_cap p
      in if qt_status_array_a p \<noteq> None
         then bind_outcome (write_at (qt_status_array_a p) 0
                (copy_obj cap sizeof_status_a ((fill_status_a status)\<lparr>da_data := d\<rparr>)) (gm_status_a m))
                (\<lambda>x. Returned (m\<lparr>gm_status_a := x\<rparr>))
         else if qt_status_array_cs p \<noteq> None
         then bind_outcome (write_at (qt_status_array_cs p) 0
                (copy_obj cap sizeof_status_cs ((fill_status_for_cross_save status)\<lparr>dc_data := d\<rparr>)) (gm_status_cs m))
                (\<lambda>x. Returned (m\<lparr>gm_status_cs := x\<rparr>))
         else if qt_status_array p \<noteq> None
         then bind_outcome (write_at (qt_status_array p) 0
                (copy_obj cap sizeof_status ((fill_status status)\<lparr>ds_data := d\<rparr>)) (gm_status m))
                (\<lambda>x. Returned (m\<lparr>gm_status := x\<rparr>))
         else Returned m)"

section \<open>The replies\<close>

text \<open>Each gives the results that are set and the memory; a reply that does not parse is \<open>bad_reply\<close>.\<close>

definition bad_reply :: "GameMem \<Rightarrow> (s32 list \<times> GameMem) outcome" where
  "bad_reply m = Returned ([ORBIS_NP_COMMUNITY_ERROR_BAD_RESPONSE], m)"

definition parse_tus_body :: "(bytes \<Rightarrow> 'a option) \<Rightarrow> bytes \<Rightarrow> 'a option" where
  "parse_tus_body parse body = (case reply_blob body of None \<Rightarrow> None | Some blob \<Rightarrow> parse blob)"

definition variables_reply ::
  "HandlerConfig \<Rightarrow> CommandType \<Rightarrow> PendingTusRequest \<Rightarrow> bytes \<Rightarrow> GameMem \<Rightarrow> (s32 list \<times> GameMem) outcome" where
  "variables_reply cfg cmd p body m =
     (case parse_tus_body (hc_pb_tus_variables cfg) body of
        None \<Rightarrow> bad_reply m
      | Some (vars, total_num) \<Rightarrow>
          bind_outcome (fill_variables p vars m) (\<lambda>(filled, m1).
            bind_outcome (out_total (qt_total_out p) total_num (length vars) m1) (\<lambda>m2.
              Returned ((if cmd = CmdTusGetMultiSlotVariable \<or> cmd = CmdTusGetMultiUserVariable \<or> cmd = CmdTusGetFriendsVariable
                         then [to_s32 (int filled)] else []) @ [ORBIS_OK], m2))))"

definition tss_reply ::
  "HandlerConfig \<Rightarrow> PendingTusRequest \<Rightarrow> bytes \<Rightarrow> GameMem \<Rightarrow> (s32 list \<times> GameMem) outcome" where
  "tss_reply cfg p body m =
     (case parse_tus_body (hc_pb_tss_data cfg) body of
        None \<Rightarrow> bad_reply m
      | Some resp \<Rightarrow>
          bind_outcome
            (if qt_data_out p \<noteq> None \<and> pz_data resp \<noteq> []
             then copy_out (qt_data_out p) (take (unat (qt_data_cap p)) (pz_data resp)) m else Returned m) (\<lambda>m1.
            bind_outcome (out_u64 (qt_tss_content_length_out p) (pz_contentlength resp) m1) (\<lambda>m2.
              bind_outcome
                (write_out (qt_tss_status_out p) \<lparr>ts_modified = pz_lastmodified resp, ts_status = pz_statuscodetype resp,
                   ts_content_length = pz_contentlength resp\<rparr> (gm_tss m2))
                (\<lambda>x. Returned ([ORBIS_OK], m2\<lparr>gm_tss := x\<rparr>)))))"

definition tus_data_reply ::
  "HandlerConfig \<Rightarrow> PendingTusRequest \<Rightarrow> bytes \<Rightarrow> GameMem \<Rightarrow> (s32 list \<times> GameMem) outcome" where
  "tus_data_reply cfg p body m =
     (case parse_tus_body (hc_pb_tus_data cfg) body of
        None \<Rightarrow> bad_reply m
      | Some (status, blob) \<Rightarrow>
          let off = unat (qt_data_offset p);
              copies = (qt_data_out p \<noteq> None \<and> off < length blob);
              recv = (if copies then min (unat (qt_data_cap p)) (length blob - off) else 0)
          in bind_outcome
               (if copies then copy_out (qt_data_out p) (take recv (drop off blob)) m else Returned m) (\<lambda>m1.
               bind_outcome (write_status p status recv m1) (\<lambda>m2. Returned ([to_s32 (int recv)], m2))))"

definition statuses_reply ::
  "HandlerConfig \<Rightarrow> PendingTusRequest \<Rightarrow> bytes \<Rightarrow> GameMem \<Rightarrow> (s32 list \<times> GameMem) outcome" where
  "statuses_reply cfg p body m =
     (case parse_tus_body (hc_pb_tus_statuses cfg) body of
        None \<Rightarrow> bad_reply m
      | Some (statuses, total_num) \<Rightarrow>
          bind_outcome (fill_statuses p statuses m) (\<lambda>m1.
            bind_outcome (out_total (qt_total_out p) total_num (length statuses) m1) (\<lambda>m2.
              Returned ([to_s32 (int (length (asked (qt_array_num p) statuses)))], m2))))"

definition tus_success ::
  "HandlerConfig \<Rightarrow> CommandType \<Rightarrow> PendingTusRequest \<Rightarrow> bytes \<Rightarrow> GameMem \<Rightarrow> (s32 list \<times> GameMem) outcome" where
  "tus_success cfg cmd p body m =
     (if cmd \<in> {CmdTusGetMultiSlotVariable, CmdTusTryAndSetVariable, CmdTusGetMultiUserVariable,
               CmdTusGetFriendsVariable, CmdTusAddAndGetVariable} then variables_reply cfg cmd p body m
      else if cmd = CmdTssGetData then tss_reply cfg p body m
      else if cmd = CmdTusGetData then tus_data_reply cfg p body m
      else if cmd \<in> {CmdTusGetMultiSlotDataStatus, CmdTusGetMultiUserDataStatus, CmdTusGetFriendsDataStatus}
      then statuses_reply cfg p body m
      else Returned ([ORBIS_OK], m))"

definition OnTusReply ::
  "HandlerConfig \<Rightarrow> s32 \<Rightarrow> CommandType \<Rightarrow> u64 \<Rightarrow> ErrorType \<Rightarrow> bytes \<Rightarrow> NpHandler \<Rightarrow> NpHandler outcome" where
  "OnTusReply cfg user_id cmd pkt_id err body h =
     (case map_of (hn_pending_tus h) pkt_id of
        None \<Rightarrow> Returned h
      | Some pending \<Rightarrow>
          let h1 = h\<lparr>hn_pending_tus := omap_erase pkt_id (hn_pending_tus h)\<rparr>
          in if err \<noteq> NoError then finish_tus (qt_req pending) [tus_error err] h1
             else bind_outcome (tus_success cfg cmd pending body (hn_mem h1)) (\<lambda>(rs, m).
                    finish_tus (qt_req pending) rs (h1\<lparr>hn_mem := m\<rparr>)))"

end
