(* ===== verification/HandlerConnect.thy ===== *)
theory HandlerConnect
  imports HandlerTusReply
begin

text \<open>
  Authorization codes and trophies (np_handler_auth.cpp, np_handler_trophy.cpp), the routing of
  replies and notifications to their handlers, and connecting users: \<open>Initialize\<close>,
  \<open>ConnectUser\<close>, the worker thread that reconnects (np_handler.cpp).
\<close>

section \<open>Authorization codes\<close>

definition NpAuthIssuerId :: s32 where "NpAuthIssuerId = 0x100"

definition AuthErrorFromReply :: "ErrorType \<Rightarrow> s32" where
  "AuthErrorFromReply err =
     (if err = ErrInvalidInput then ORBIS_NP_AUTH_ERROR_INVALID_ARGUMENT
      else if err = ErrUnauthorized then ORBIS_NP_ERROR_SIGNED_OUT
      else if err = ErrTooSoon then ORBIS_NP_AUTH_ERROR_SERVICE_BUSY
      else ORBIS_NP_AUTH_ERROR_SERVICE_DOWN)"

text \<open>Here the request is sent and registered in one section of the lock of the table.\<close>

definition RequestAuthorizationCode ::
  "HandlerConfig \<Rightarrow> s32 \<Rightarrow> bytes \<Rightarrow> bytes \<Rightarrow> addr option \<Rightarrow> NpHandler \<Rightarrow> s32 \<times> NpHandler" where
  "RequestAuthorizationCode cfg user_id client_id scope ctx h =
     (case map_of (hn_clients h) user_id of
        None \<Rightarrow> (ORBIS_NP_ERROR_SIGNED_OUT, h)
      | Some client \<Rightarrow>
          if \<not> cl_authenticated client then (ORBIS_NP_ERROR_SIGNED_OUT, h)
          else let (pkt_id, client') = GetAuthorizationCodeCmd (hc_ops cfg) client_id scope client
               in (ORBIS_OK, h\<lparr>hn_clients := omap_put user_id client' (hn_clients h),
                     hn_pending_auth := omap_emplace pkt_id \<lparr>qa_req = ctx, qa_user_id = user_id\<rparr> (hn_pending_auth h)\<rparr>))"

definition auth_code_set :: "addr \<Rightarrow> bytes \<Rightarrow> s32 \<Rightarrow> NpHandler \<Rightarrow> NpHandler" where
  "auth_code_set a code issuer h = h\<lparr>hn_auth_ctxs := at_addr (SetAuthorizationCode code issuer) a (hn_auth_ctxs h)\<rparr>"

definition OnAuthReply :: "HandlerConfig \<Rightarrow> s32 \<Rightarrow> u64 \<Rightarrow> ErrorType \<Rightarrow> bytes \<Rightarrow> NpHandler \<Rightarrow> NpHandler" where
  "OnAuthReply cfg user_id pkt_id err body h =
     (case map_of (hn_pending_auth h) pkt_id of
        None \<Rightarrow> h
      | Some p \<Rightarrow>
          let h1 = h\<lparr>hn_pending_auth := omap_erase pkt_id (hn_pending_auth h)\<rparr>
          in case qa_req p of
               None \<Rightarrow> h1
             | Some a \<Rightarrow>
                 if err \<noteq> NoError then auth_set a (AuthErrorFromReply err) h1
                 else case (case reply_blob body of None \<Rightarrow> None | Some blob \<Rightarrow> hc_pb_auth_code cfg blob) of
                        None \<Rightarrow> auth_set a ORBIS_NP_AUTH_ERROR_NO_TOKEN_RECEIVED h1
                      | Some code \<Rightarrow>
                          if code = [] \<or> 129 \<le> length code then auth_set a ORBIS_NP_AUTH_ERROR_NO_TOKEN_RECEIVED h1
                          else auth_code_set a code NpAuthIssuerId h1)"

section \<open>Trophies\<close>

text \<open>The client of a user who may use trophies, and the communication id.\<close>

definition trophy_client :: "HandlerConfig \<Rightarrow> s32 \<Rightarrow> s32 \<Rightarrow> NpHandler \<Rightarrow> (ShadNetClient \<times> bytes) option" where
  "trophy_client cfg user_id service_label h =
     (case map_of (hn_clients h) user_id of
        None \<Rightarrow> None
      | Some client \<Rightarrow>
          if \<not> cl_authenticated client then None
          else if \<not> cl_trophies_enabled client then None
          else let com_id = GetNpCommId cfg service_label
               in if \<not> IsValidNpCommId com_id then None else Some (client, com_id))"

definition ReportTrophyUnlock :: "HandlerConfig \<Rightarrow> s32 \<Rightarrow> s32 \<Rightarrow> s32 \<Rightarrow> u64 \<Rightarrow> NpHandler \<Rightarrow> NpHandler" where
  "ReportTrophyUnlock cfg user_id service_label trophy_id timestamp h =
     (case trophy_client cfg user_id service_label h of
        None \<Rightarrow> h
      | Some (client, com_id) \<Rightarrow>
          h\<lparr>hn_clients := omap_put user_id (snd (UnlockTrophy (hc_ops cfg) com_id trophy_id timestamp client)) (hn_clients h)\<rparr>)"

definition HandlerSyncTrophies ::
  "HandlerConfig \<Rightarrow> s32 \<Rightarrow> s32 \<Rightarrow> (s32 \<times> u64) list \<Rightarrow> addr option \<Rightarrow> NpHandler \<Rightarrow> NpHandler" where
  "HandlerSyncTrophies cfg user_id service_label local_trophies on_merged h =
     (case trophy_client cfg user_id service_label h of
        None \<Rightarrow> h
      | Some (client, com_id) \<Rightarrow>
          let (pkt_id, client') = SyncTrophies (hc_ops cfg) com_id local_trophies client;
              h1 = h\<lparr>hn_clients := omap_put user_id client' (hn_clients h)\<rparr>
          in case on_merged of
               None \<Rightarrow> h1
             | Some f \<Rightarrow> h1\<lparr>hn_pending_trophy := omap_emplace pkt_id f (hn_pending_trophy h1)\<rparr>)"

text \<open>
  The check of the declared size adds in 32 bits: the sum wraps for the four largest sizes, which
  pass it, and the parser is given bytes outside the body.
\<close>

definition OnTrophyReply :: "HandlerConfig \<Rightarrow> s32 \<Rightarrow> CommandType \<Rightarrow> u64 \<Rightarrow> ErrorType \<Rightarrow> bytes \<Rightarrow> NpHandler \<Rightarrow> NpHandler outcome" where
  "OnTrophyReply cfg user_id cmd pkt_id err body h =
     (if cmd \<noteq> CmdSyncTrophies then Returned h
      else case map_of (hn_pending_trophy h) pkt_id of
        None \<Rightarrow> Returned h
      | Some on_merged \<Rightarrow>
          let h1 = h\<lparr>hn_pending_trophy := omap_erase pkt_id (hn_pending_trophy h)\<rparr>
          in if err \<noteq> NoError \<or> length body < 4 then Returned h1
             else let blob_sz = GetLE32 0 body
                  in if length body < unat (4 + blob_sz) then Returned h1
                     else if length body < 4 + unat blob_sz then OutOfBounds
                     else case hc_pb_sync_trophies cfg (take (unat blob_sz) (drop 4 body)) of
                            None \<Rightarrow> Returned h1
                          | Some merged \<Rightarrow> Returned (call (TrophiesMerged on_merged merged) h1))"

section \<open>Routing\<close>

definition OnAsyncReply :: "HandlerConfig \<Rightarrow> s32 \<Rightarrow> CommandType \<Rightarrow> u64 \<Rightarrow> ErrorType \<Rightarrow> bytes \<Rightarrow> NpHandler \<Rightarrow> NpHandler outcome" where
  "OnAsyncReply cfg user_id cmd pkt_id err body h =
     (if 30 \<le> cmd \<and> cmd < 39 then OnScoreReply cfg user_id cmd pkt_id err body h
      else if 100 \<le> cmd \<and> cmd \<le> 200 then Returned (call (Matching2Reply cmd pkt_id err body) h)
      else if 201 \<le> cmd \<and> cmd \<le> 300 then OnTusReply cfg user_id cmd pkt_id err body h
      else if 301 \<le> cmd \<and> cmd \<le> 400 then OnTrophyReply cfg user_id cmd pkt_id err body h
      else if cmd = CmdGetAuthorizationCode then Returned (OnAuthReply cfg user_id pkt_id err body h)
      else Returned h)"

text \<open>
  The callbacks \<open>ConnectUser\<close> installs. The callbacks for room events and messages belong to
  matching2. A refused service is only reported to the user.
\<close>

fun OnClientEvent :: "HandlerConfig \<Rightarrow> s32 \<Rightarrow> ClientEvent \<Rightarrow> NpHandler \<Rightarrow> NpHandler outcome" where
  "OnClientEvent cfg user_id (LoginEv res) h = Returned (OnLoginResult user_id res h)"
| "OnClientEvent cfg user_id (FriendQueryEv npid) h = Returned (OnFriendQuery user_id npid h)"
| "OnClientEvent cfg user_id (FriendNewEv npid online) h = Returned (OnFriendNew user_id npid online h)"
| "OnClientEvent cfg user_id (FriendLostEv npid) h = Returned (OnFriendLost user_id npid h)"
| "OnClientEvent cfg user_id (FriendStatusEv npid online _) h = Returned (OnFriendStatus user_id npid online h)"
| "OnClientEvent cfg user_id (WebApiPushEv n) h = Returned (OnWebApiPushEvent user_id n h)"
| "OnClientEvent cfg user_id (ServiceUnavailableEv _) h = Returned h"
| "OnClientEvent cfg user_id (ClientRejectedEv _) h = Returned (OnClientRejected user_id h)"
| "OnClientEvent cfg user_id (AsyncReplyEv cmd pkt_id err body) h = OnAsyncReply cfg user_id cmd pkt_id err body h"
| "OnClientEvent cfg user_id (RoomEv _) h = Returned h"
| "OnClientEvent cfg user_id (RoomMessageEv _) h = Returned h"

fun deliver_events :: "HandlerConfig \<Rightarrow> s32 \<Rightarrow> ClientEvent list \<Rightarrow> NpHandler \<Rightarrow> NpHandler outcome" where
  "deliver_events cfg user_id [] h = Returned h"
| "deliver_events cfg user_id (e # es) h = bind_outcome (OnClientEvent cfg user_id e h) (deliver_events cfg user_id es)"

section \<open>Waiting for the login\<close>

text \<open>One step of the reader thread, its end included.\<close>

definition reader_step :: "ProtoOps \<Rightarrow> ShadNetClient \<Rightarrow> ShadNetClient outcome" where
  "reader_step ops c =
     (if cl_terminate c then Returned (reader_end c)
      else case reader_turn ops c of (None, c1) \<Rightarrow> Returned (reader_end c1) | (Some r, _) \<Rightarrow> r)"

fun reader_steps :: "ProtoOps \<Rightarrow> nat \<Rightarrow> ShadNetClient \<Rightarrow> ShadNetClient outcome" where
  "reader_steps ops 0 c = Returned c"
| "reader_steps ops (Suc n) c =
     (if cl_reader c then bind_outcome (reader_step ops c) (reader_steps ops n) else Returned c)"

lemma DispatchPacket_rx_le: "reader_turn ops c = (None, c1) \<Longrightarrow> length (cl_rx c1) \<le> length (cl_rx c)"
  by (auto simp: reader_turn_def Let_def split: prod.splits option.splits if_splits dest!: RecvN_rx)

lemma reader_end_rx [simp]: "cl_rx (reader_end c) = cl_rx c" "cl_reader (reader_end c) = False"
  by (simp_all add: reader_end_def Let_def)

lemma reader_step_rx:
  assumes "reader_step ops c = Returned c'" and "cl_reader c"
  shows "2 * length (cl_rx c') + of_bool (cl_reader c') < 2 * length (cl_rx c) + 1"
proof (cases "cl_terminate c")
  case True
  then show ?thesis using assms by (auto simp: reader_step_def)
next
  case False
  obtain r c1 where t: "reader_turn ops c = (r, c1)" by (cases "reader_turn ops c")
  show ?thesis
  proof (cases r)
    case None
    then show ?thesis using False assms t DispatchPacket_rx_le [of ops c c1] by (auto simp: reader_step_def)
  next
    case (Some r')
    then have "reader_turn ops c = (Some (Returned c'), c1)" using False assms t by (simp add: reader_step_def)
    then have "length (cl_rx c') < length (cl_rx c)" by (rule reader_turn_rx)
    then show ?thesis by (auto simp: of_bool_def)
  qed
qed

text \<open>
  Acquiring the semaphore while the reader thread runs: the caller goes on as soon as it is
  released. \<open>None\<close>: the reader has ended and no one will release it; the caller waits forever.
\<close>

function acquire_authenticated :: "ProtoOps \<Rightarrow> ShadNetClient \<Rightarrow> (ShadNetState \<times> ShadNetClient) option outcome" where
  "acquire_authenticated ops c =
     (if cl_sem_authenticated c
      then Returned (Some (if cl_authenticated c then StOk else cl_state c, c\<lparr>cl_sem_authenticated := False\<rparr>))
      else if \<not> cl_reader c then Returned None
      else case reader_step ops c of
             OutOfBounds \<Rightarrow> OutOfBounds
           | Threw \<Rightarrow> Threw
           | Returned c1 \<Rightarrow> acquire_authenticated ops c1)"
  by pat_completeness auto
termination
proof (relation "measure (\<lambda>(ops, c). 2 * length (cl_rx c) + of_bool (cl_reader c))", goal_cases)
  case (2 ops c c1)
  then show ?case using reader_step_rx [of ops c c1] by simp
qed simp

declare acquire_authenticated.simps [simp del]

text \<open>\<open>early\<close>: the steps the reader thread takes before the caller looks at the flag.\<close>

definition wait_for_login :: "ProtoOps \<Rightarrow> nat \<Rightarrow> ShadNetClient \<Rightarrow> (ShadNetState \<times> ShadNetClient) option outcome" where
  "wait_for_login ops early c =
     bind_outcome (reader_steps ops early c) (\<lambda>c1.
       if cl_authenticated c1 then Returned (Some (StOk, c1)) else acquire_authenticated ops c1)"

section \<open>Connecting a user\<close>

text \<open>
  What the network does during one attempt to connect a user, and how far the reader thread is when
  the caller reads the state and when it asks for the login.
\<close>

record UserEnv =
  ue_connect :: "nat \<Rightarrow> ConnectEnv"
  ue_login_sent :: bool
  ue_first :: nat
  ue_early :: nat

definition handler_slots :: "ClientSlot \<Rightarrow> bool" where
  "handler_slots s \<longleftrightarrow> s \<noteq> OnRoomEvent \<and> s \<noteq> OnRoomMessage"

definition np_id_of :: "bytes \<Rightarrow> OrbisNpId" where
  "np_id_of npid = zero_np_id\<lparr>handle := (handle zero_np_id)\<lparr>oid_data := overlay npid (oid_data (handle zero_np_id))\<rparr>\<rparr>"

definition user_client :: "HandlerConfig \<Rightarrow> UserEnv \<Rightarrow> s32 \<Rightarrow> bytes \<Rightarrow> bytes \<Rightarrow> ShadNetClient" where
  "user_client cfg env user_id npid password =
     snd (StartClient (hc_ops cfg) (ue_connect env) (ue_login_sent env) npid password []
            (snd (SetAppearOffline (hc_ops cfg) (hc_appear_offline cfg user_id) (new_client\<lparr>cl_handlers := handler_slots\<rparr>))))"

text \<open>
  The events the client delivered while the caller waited have reached their handlers; they touch
  nothing the caller uses meanwhile, so that they are handled here in one go. \<open>None\<close>: the caller
  never returns.
\<close>

definition user_signed_in :: "s32 \<Rightarrow> bytes \<Rightarrow> ShadNetClient \<Rightarrow> NpHandler \<Rightarrow> NpHandler" where
  "user_signed_in user_id npid client h =
     (let h1 = call (SetMmShadNetClient user_id (cl_matching2_enabled client)) h;
          h2 = h1\<lparr>hn_np_ids := omap_put user_id (np_id_of npid) (hn_np_ids h1),
                  hn_clients := omap_put user_id (client\<lparr>cl_events := []\<rparr>) (hn_clients h1)\<rparr>
      in FireStateCallback user_id SignedIn h2)"

definition ConnectUser ::
  "HandlerConfig \<Rightarrow> UserEnv \<Rightarrow> s32 \<Rightarrow> bytes \<Rightarrow> bytes \<Rightarrow> NpHandler \<Rightarrow> (bool \<times> NpHandler) option outcome" where
  "ConnectUser cfg env user_id npid password h =
     bind_outcome (reader_steps (hc_ops cfg) (ue_first env) (user_client cfg env user_id npid password)) (\<lambda>client.
       if cl_state client \<noteq> StOk
       then bind_outcome (deliver_events cfg user_id (cl_events client) h) (\<lambda>h1. Returned (Some (False, h1)))
       else bind_outcome (wait_for_login (hc_ops cfg) (ue_early env) client) (\<lambda>r.
         case r of
           None \<Rightarrow> Returned None
         | Some (auth_state, c1) \<Rightarrow>
             bind_outcome (deliver_events cfg user_id (cl_events c1) h) (\<lambda>h1.
               Returned (Some (if auth_state \<noteq> StOk then (False, h1) else (True, user_signed_in user_id npid c1 h1))))))"

section \<open>The address of the server\<close>

text \<open>\<open>rfind(':')\<close>: what is before and behind the last colon.\<close>

definition split_last_colon :: "bytes \<Rightarrow> (bytes \<times> bytes) option" where
  "split_last_colon url =
     (if 58 \<in> set url
      then Some (rev (tl (dropWhile (\<lambda>b. b \<noteq> 58) (rev url))), rev (takeWhile (\<lambda>b. b \<noteq> 58) (rev url)))
      else None)"

definition server_port :: "HandlerConfig \<Rightarrow> (bytes \<times> u16) option" where
  "server_port cfg =
     (case split_last_colon (hc_server_url cfg) of
        None \<Rightarrow> None
      | Some (hostname, rest) \<Rightarrow> (case stoi rest of None \<Rightarrow> None | Some v \<Rightarrow> Some (hostname, word_of_int v)))"

definition ConnectUserById :: "HandlerConfig \<Rightarrow> UserEnv \<Rightarrow> s32 \<Rightarrow> NpHandler \<Rightarrow> (bool \<times> NpHandler) option outcome" where
  "ConnectUserById cfg env user_id h =
     (if IsSignedIn user_id h then Returned (Some (True, h))
      else if server_port cfg = None then Returned (Some (False, h))
      else if \<not> hc_enabled cfg user_id then Returned (Some (False, h))
      else ConnectUser cfg env user_id (hc_npid cfg user_id) (hc_password cfg user_id) h)"

section \<open>Initialisation\<close>

definition StartWorker :: "NpHandler \<Rightarrow> NpHandler" where
  "StartWorker h = h\<lparr>hn_worker_running := True\<rparr>"

definition bind_run :: "'a option outcome \<Rightarrow> ('a \<Rightarrow> 'b option outcome) \<Rightarrow> 'b option outcome" where
  "bind_run m f = bind_outcome m (\<lambda>r. case r of None \<Rightarrow> Returned None | Some x \<Rightarrow> f x)"

text \<open>The loop over the users who are logged in on the console; -1 ends the list.\<close>

fun connect_users :: "HandlerConfig \<Rightarrow> (s32 \<Rightarrow> UserEnv) \<Rightarrow> s32 list \<Rightarrow> NpHandler \<Rightarrow> NpHandler option outcome" where
  "connect_users cfg envs [] h = Returned (Some h)"
| "connect_users cfg envs (u # us) h =
     (if u = -1 then Returned (Some h)
      else if \<not> hc_enabled cfg u then connect_users cfg envs us h
      else bind_run (ConnectUser cfg (envs u) u (hc_npid cfg u) (hc_password cfg u) h) (\<lambda>(_, h1).
             connect_users cfg envs us h1))"

text \<open>
  \<open>probe_ok\<close> is the result of probing the server, \<open>user_list\<close> that of asking the console for its
  logged-in users.
\<close>

definition Initialize ::
  "HandlerConfig \<Rightarrow> bool \<Rightarrow> s32 list option \<Rightarrow> (s32 \<Rightarrow> UserEnv) \<Rightarrow> NpHandler \<Rightarrow> NpHandler option outcome" where
  "Initialize cfg probe_ok user_list envs h =
     (if hn_initialized h then Returned (Some h)
      else if server_port cfg = None \<or> \<not> probe_ok then Returned (Some (h\<lparr>hn_initialized := False\<rparr>))
      else case user_list of
             None \<Rightarrow> Returned (Some (h\<lparr>hn_initialized := False\<rparr>))
           | Some us \<Rightarrow>
               bind_run (connect_users cfg envs (take 4 us) (h\<lparr>hn_initialized := True\<rparr>)) (\<lambda>h1.
                 Returned (Some (if hn_clients h1 = [] then h1\<lparr>hn_initialized := False\<rparr> else StartWorker h1))))"

definition OnUserLoggedIn :: "HandlerConfig \<Rightarrow> UserEnv \<Rightarrow> s32 \<Rightarrow> NpHandler \<Rightarrow> NpHandler option outcome" where
  "OnUserLoggedIn cfg env user_id h =
     bind_run (ConnectUserById cfg env user_id h) (\<lambda>(ok, h1). Returned (Some (if ok then StartWorker h1 else h1)))"

section \<open>The worker thread\<close>

definition MarkForReconnect :: "int \<Rightarrow> s32 \<Rightarrow> NpHandler \<Rightarrow> NpHandler" where
  "MarkForReconnect now user_id h =
     (if \<not> hn_initialized h then h
      else h\<lparr>hn_reconnects := AList.update user_id \<lparr>rs_next_attempt = now + 2000, rs_backoff = 2000\<rparr> (hn_reconnects h)\<rparr>)"

text \<open>The readings of the clock, for each user: when he is found due and when his attempt failed.\<close>

record WorkerClock =
  wc_mark :: "s32 \<Rightarrow> int"
  wc_due :: "s32 \<Rightarrow> int"
  wc_retry :: "s32 \<Rightarrow> int"

definition due_users :: "WorkerClock \<Rightarrow> NpHandler \<Rightarrow> s32 list" where
  "due_users clk h =
     map fst (filter (\<lambda>(u, st). map_of (hn_clients h) u \<noteq> None \<or> rs_next_attempt st \<le> wc_due clk u) (hn_reconnects h))"

definition after_attempt :: "int \<Rightarrow> s32 \<Rightarrow> bool \<Rightarrow> NpHandler \<Rightarrow> NpHandler" where
  "after_attempt now u ok h =
     (if ok \<or> map_of (hn_clients h) u \<noteq> None then h\<lparr>hn_reconnects := AList.delete u (hn_reconnects h)\<rparr>
      else case map_of (hn_reconnects h) u of
             None \<Rightarrow> h
           | Some st \<Rightarrow>
               let b = min (rs_backoff st * 2) 30000
               in h\<lparr>hn_reconnects := AList.update u \<lparr>rs_next_attempt = now + b, rs_backoff = b\<rparr> (hn_reconnects h)\<rparr>)"

fun try_due :: "HandlerConfig \<Rightarrow> (s32 \<Rightarrow> UserEnv) \<Rightarrow> WorkerClock \<Rightarrow> s32 list \<Rightarrow> NpHandler \<Rightarrow> NpHandler option outcome" where
  "try_due cfg envs clk [] h = Returned (Some h)"
| "try_due cfg envs clk (u # us) h =
     (if \<not> hn_worker_running h then Returned (Some h)
      else if \<not> hn_initialized h
      then try_due cfg envs clk us (h\<lparr>hn_reconnects := AList.delete u (hn_reconnects h)\<rparr>)
      else bind_run (ConnectUserById cfg (envs u) u h) (\<lambda>(ok, h1).
             try_due cfg envs clk us (after_attempt (wc_retry clk u) u ok h1)))"

definition TryReconnect :: "HandlerConfig \<Rightarrow> (s32 \<Rightarrow> UserEnv) \<Rightarrow> WorkerClock \<Rightarrow> NpHandler \<Rightarrow> NpHandler option outcome" where
  "TryReconnect cfg envs clk h = try_due cfg envs clk (due_users clk h) h"

definition drop_user :: "WorkerClock \<Rightarrow> s32 \<Rightarrow> NpHandler \<Rightarrow> NpHandler" where
  "drop_user clk u h = MarkForReconnect (wc_mark clk u) u (DisconnectUser u h)"

definition dropped_users :: "NpHandler \<Rightarrow> s32 list" where
  "dropped_users h = map fst (filter (\<lambda>(u, c). \<not> cl_connected c) (hn_clients h))"

definition WorkerTurn :: "HandlerConfig \<Rightarrow> (s32 \<Rightarrow> UserEnv) \<Rightarrow> WorkerClock \<Rightarrow> NpHandler \<Rightarrow> NpHandler option outcome" where
  "WorkerTurn cfg envs clk h = TryReconnect cfg envs clk (fold (drop_user clk) (dropped_users h) h)"

end
