(* ===== verification/HandlerFrame.thy ===== *)
theory HandlerFrame
  imports HandlerConnect
begin

text \<open>What events and requests leave alone: who is connected, and how reconnecting stands.\<close>

section \<open>Events keep the connections\<close>

definition same_conn :: "NpHandler \<Rightarrow> NpHandler \<Rightarrow> bool" where
  "same_conn h h' \<longleftrightarrow>
     hn_clients h' = hn_clients h \<and> hn_np_ids h' = hn_np_ids h \<and> hn_state_cbs h' = hn_state_cbs h \<and>
     hn_reconnects h' = hn_reconnects h \<and> hn_worker_running h' = hn_worker_running h \<and>
     hn_initialized h' = hn_initialized h"

named_theorems same_conn_intros

lemma same_conn_refl [simp]: "same_conn h h"
  by (simp add: same_conn_def)

lemma same_conn_trans: "same_conn h1 h2 \<Longrightarrow> same_conn h2 h3 \<Longrightarrow> same_conn h1 h3"
  by (simp add: same_conn_def)

lemma same_conn_upd [simp]:
  "same_conn h (h'\<lparr>hn_mem := m\<rparr>) = same_conn h h'"
  "same_conn h (h'\<lparr>hn_score_ctxs := sc\<rparr>) = same_conn h h'"
  "same_conn h (h'\<lparr>hn_tus_ctxs := tc\<rparr>) = same_conn h h'"
  "same_conn h (h'\<lparr>hn_auth_ctxs := ac\<rparr>) = same_conn h h'"
  "same_conn h (h'\<lparr>hn_calls := cs\<rparr>) = same_conn h h'"
  "same_conn h (h'\<lparr>hn_friend_states := fs\<rparr>) = same_conn h h'"
  "same_conn h (h'\<lparr>hn_pending_invites := iv\<rparr>) = same_conn h h'"
  "same_conn h (h'\<lparr>hn_pending_score := ps\<rparr>) = same_conn h h'"
  "same_conn h (h'\<lparr>hn_pending_tus := pt\<rparr>) = same_conn h h'"
  "same_conn h (h'\<lparr>hn_pending_auth := pa\<rparr>) = same_conn h h'"
  "same_conn h (h'\<lparr>hn_pending_trophy := py\<rparr>) = same_conn h h'"
  by (simp_all add: same_conn_def)

lemma same_conn_set [simp]:
  "same_conn h (score_set a r h') = same_conn h h'"
  "same_conn h (tus_set a r h') = same_conn h h'"
  "same_conn h (auth_set a r h') = same_conn h h'"
  "same_conn h (auth_code_set a code i h') = same_conn h h'"
  "same_conn h (call c h') = same_conn h h'"
  by (simp_all add: score_set_def tus_set_def auth_set_def auth_code_set_def call_def)

lemma finish_score_same: "finish_score req r h = Returned h' \<Longrightarrow> same_conn h0 h \<Longrightarrow> same_conn h0 h'"
  by (auto simp: finish_score_def split: option.splits)

lemma upd_score_ctx_same: "upd_score_ctx req f h = Returned h' \<Longrightarrow> same_conn h0 h \<Longrightarrow> same_conn h0 h'"
  by (auto simp: upd_score_ctx_def split: option.splits)

lemma with_mem_same: "with_mem h m = Returned h' \<Longrightarrow> same_conn h0 h \<Longrightarrow> same_conn h0 h'"
  by (auto simp: with_mem_def returned_iff)

lemma ranking_reply_same:
  "ranking_reply cfg p body fill meta result h = Returned h' \<Longrightarrow> same_conn h0 h \<Longrightarrow> same_conn h0 h'"
  by (auto simp: ranking_reply_def returned_iff split: option.splits dest!: finish_score_same)

lemma game_data_reply_same: "game_data_reply p body h = Returned h' \<Longrightarrow> same_conn h0 h \<Longrightarrow> same_conn h0 h'"
  by (auto simp: game_data_reply_def Let_def returned_iff split: option.splits if_splits
      dest!: finish_score_same upd_score_ctx_same with_mem_same)

lemma board_info_reply_same: "board_info_reply cfg p body h = Returned h' \<Longrightarrow> same_conn h0 h \<Longrightarrow> same_conn h0 h'"
  by (auto simp: board_info_reply_def returned_iff split: option.splits dest!: finish_score_same with_mem_same)

lemma record_score_reply_same: "record_score_reply p body h = Returned h' \<Longrightarrow> same_conn h0 h \<Longrightarrow> same_conn h0 h'"
  by (auto simp: record_score_reply_def returned_iff dest!: finish_score_same upd_score_ctx_same)

lemma OnScoreReply_same: "OnScoreReply cfg u cmd i err body h = Returned h' \<Longrightarrow> same_conn h h'"
  by (auto simp: OnScoreReply_def score_success_def Let_def split: option.splits if_splits
      dest!: finish_score_same ranking_reply_same game_data_reply_same board_info_reply_same record_score_reply_same)

lemma fold_tus_set_same: "same_conn h0 h \<Longrightarrow> same_conn h0 (fold (tus_set a) rs h)"
  by (induction rs arbitrary: h) simp_all

lemma OnTusReply_same: "OnTusReply cfg u cmd i err body h = Returned h' \<Longrightarrow> same_conn h h'"
  by (auto simp: OnTusReply_def Let_def finish_tus_def returned_iff fold_tus_set_same split: option.splits if_splits)

lemma OnTrophyReply_same: "OnTrophyReply cfg u cmd i err body h = Returned h' \<Longrightarrow> same_conn h h'"
  by (auto simp: OnTrophyReply_def Let_def split: option.splits if_splits)

lemma OnAuthReply_same: "same_conn h (OnAuthReply cfg u i err body h)"
  by (auto simp: OnAuthReply_def Let_def split: option.splits)

lemma OnAsyncReply_same: "OnAsyncReply cfg u cmd i err body h = Returned h' \<Longrightarrow> same_conn h h'"
  by (auto simp: OnAsyncReply_def OnScoreReply_same OnTusReply_same OnTrophyReply_same OnAuthReply_same split: if_splits)

lemma OnWebApiPushEvent_same: "same_conn h (OnWebApiPushEvent u n h)"
  by (auto simp: OnWebApiPushEvent_def Let_def split: prod.splits)

text \<open>Only a rejection touches the connections: it turns the handler off.\<close>

lemma OnClientEvent_conn:
  "OnClientEvent cfg u e h = Returned h' \<Longrightarrow>
   same_conn h h' \<or> h' = OnClientRejected u h"
  by (cases "(cfg, u, e, h)" rule: OnClientEvent.cases)
    (auto simp: OnAsyncReply_same OnWebApiPushEvent_same OnLoginResult_def OnFriendQuery_def OnFriendNew_def
      OnFriendLost_def OnFriendStatus_def upd_friends_def)

text \<open>What every event keeps.\<close>

definition keeps_users :: "NpHandler \<Rightarrow> NpHandler \<Rightarrow> bool" where
  "keeps_users h h' \<longleftrightarrow>
     hn_clients h' = hn_clients h \<and> hn_np_ids h' = hn_np_ids h \<and> hn_state_cbs h' = hn_state_cbs h \<and>
     set (hn_reconnects h') \<subseteq> set (hn_reconnects h) \<and> hn_worker_running h' = hn_worker_running h"

lemma keeps_users_refl [simp]: "keeps_users h h"
  by (simp add: keeps_users_def)

lemma keeps_users_trans: "keeps_users h1 h2 \<Longrightarrow> keeps_users h2 h3 \<Longrightarrow> keeps_users h1 h3"
  unfolding keeps_users_def by (metis subset_trans)

lemma OnClientEvent_keeps: "OnClientEvent cfg u e h = Returned h' \<Longrightarrow> keeps_users h h'"
  by (drule OnClientEvent_conn) (auto simp: keeps_users_def same_conn_def OnClientRejected_def AList.delete_eq)

lemma deliver_events_keeps: "deliver_events cfg u es h = Returned h' \<Longrightarrow> keeps_users h h'"
proof (induction es arbitrary: h)
  case (Cons e es)
  then obtain h1 where "OnClientEvent cfg u e h = Returned h1" "deliver_events cfg u es h1 = Returned h'"
    by (auto simp: returned_iff)
  then show ?case using Cons.IH OnClientEvent_keeps keeps_users_trans by blast
qed simp

section \<open>Callbacks of the state\<close>

definition state_calls :: "s32 \<Rightarrow> OrbisNpState \<Rightarrow> (s32 \<times> CbEntry) list \<Rightarrow> HandlerCall list" where
  "state_calls u st cbs = map (\<lambda>f. StateCallback f u st) (List.map_filter (\<lambda>e. cb_func (snd e)) cbs)"

lemma FireStateCallback_eq: "FireStateCallback u st h = h\<lparr>hn_calls := hn_calls h @ state_calls u st (hn_state_cbs h)\<rparr>"
proof -
  have "fold (fire_one u st) cbs h = h\<lparr>hn_calls := hn_calls h @ state_calls u st cbs\<rparr>" for cbs
    by (induction cbs arbitrary: h)
      (auto simp: fire_one_def call_def state_calls_def List.map_filter_simps split: option.splits)
  then show ?thesis by (simp add: FireStateCallback_def)
qed

lemma FireStateCallback_same [simp]: "same_conn h0 (FireStateCallback u st h) = same_conn h0 h"
  by (simp add: FireStateCallback_eq)

section \<open>Failing the requests of a user\<close>

context result_cell
begin

text \<open>Setting the same result at a list of addresses, in any order and however often.\<close>

lemma fold_at_addr:
  "fold (\<lambda>a. at_addr (set_result r) a) as m b = (if b \<in> set as then map_option (set_result r) (m b) else m b)"
  by (induction as arbitrary: m) (auto simp: at_addr_apply set_twice option.map_comp comp_def)

end

text \<open>The contexts of the pending requests of a user.\<close>

definition user_reqs :: "('p \<Rightarrow> s32) \<Rightarrow> ('p \<Rightarrow> addr option) \<Rightarrow> s32 \<Rightarrow> (u64 \<times> 'p) list \<Rightarrow> addr list" where
  "user_reqs owner req u m = List.map_filter (\<lambda>(k, p). if owner p = u then req p else None) m"

lemma in_user_reqs: "a \<in> set (user_reqs owner req u m) \<longleftrightarrow> (\<exists>k p. (k, p) \<in> set m \<and> owner p = u \<and> req p = Some a)"
  by (force simp: user_reqs_def List.map_filter_def split: prod.splits if_splits)

lemma fail_table_eq:
  "fail_table owner req set_result u m h =
     (filter (\<lambda>(k, p). owner p \<noteq> u) m, fold set_result (user_reqs owner req u m) h)"
proof -
  have "fold (\<lambda>(k, p) h. if owner p = u then (case req p of None \<Rightarrow> h | Some a \<Rightarrow> set_result a h) else h) m h =
      fold set_result (user_reqs owner req u m) h"
    by (induction m arbitrary: h) (auto simp: user_reqs_def List.map_filter_simps split: option.splits if_splits)
  then show ?thesis by (simp add: fail_table_def)
qed

lemma fold_tus_sets: "fold (\<lambda>a. tus_set a r) as h = h\<lparr>hn_tus_ctxs := fold (\<lambda>a. at_addr (TusSetResult r) a) as (hn_tus_ctxs h)\<rparr>"
  by (induction as arbitrary: h) (simp_all add: tus_set_def)

lemma fold_score_sets: "fold (\<lambda>a. score_set a r) as h = h\<lparr>hn_score_ctxs := fold (\<lambda>a. at_addr (ScoreSetResult r) a) as (hn_score_ctxs h)\<rparr>"
  by (induction as arbitrary: h) (simp_all add: score_set_def)

lemma fold_auth_sets: "fold (\<lambda>a. auth_set a r) as h = h\<lparr>hn_auth_ctxs := fold (\<lambda>a. at_addr (AuthSetResult r) a) as (hn_auth_ctxs h)\<rparr>"
  by (induction as arbitrary: h) (simp_all add: auth_set_def)

lemma FailPendingRequests_eq:
  "FailPendingRequests u r h = h\<lparr>
     hn_pending_tus := filter (\<lambda>(k, p). qt_user_id p \<noteq> u) (hn_pending_tus h),
     hn_pending_score := filter (\<lambda>(k, p). qs_user_id p \<noteq> u) (hn_pending_score h),
     hn_pending_auth := filter (\<lambda>(k, p). qa_user_id p \<noteq> u) (hn_pending_auth h),
     hn_tus_ctxs := fold (\<lambda>a. at_addr (TusSetResult r) a) (user_reqs qt_user_id qt_req u (hn_pending_tus h)) (hn_tus_ctxs h),
     hn_score_ctxs := fold (\<lambda>a. at_addr (ScoreSetResult r) a) (user_reqs qs_user_id qs_req u (hn_pending_score h)) (hn_score_ctxs h),
     hn_auth_ctxs := fold (\<lambda>a. at_addr (AuthSetResult r) a) (user_reqs qa_user_id qa_req u (hn_pending_auth h)) (hn_auth_ctxs h)\<rparr>"
  by (simp add: FailPendingRequests_def fail_table_eq fold_tus_sets fold_score_sets fold_auth_sets Let_def)

end
