(* ===== verification/HandlerScoreProps.thy ===== *)
theory HandlerScoreProps
  imports HandlerScoreReply
begin

text \<open>The properties of score requests and their replies.\<close>

section \<open>Replies stay inside the arrays and complete the request\<close>

text \<open>What a registered request must provide for the reply to its command.\<close>

definition score_fits :: "CommandType \<Rightarrow> PendingScoreRequest \<Rightarrow> GameMem \<Rightarrow> bool" where
  "score_fits cmd p m \<longleftrightarrow>
     qs_req p \<noteq> None \<and> rank_mem_ok (unat (qs_array_num p)) p m \<and>
     holds 1 (gm_board m) (qs_board_info p) \<and> holds 1 (gm_u64 m) (qs_total_size_out p) \<and>
     holds (unat (qs_recv_size p)) (gm_buf m) (qs_data_out p) \<and>
     (cmd = CmdGetScoreNpId \<longrightarrow> qs_rank_array p \<noteq> None \<and> length (qs_requested_np_ids p) \<le> unat (qs_array_num p)) \<and>
     (cmd = CmdGetScoreAccountId \<longrightarrow> qs_a_player_rank_array p \<noteq> None) \<and>
     (cmd \<in> {CmdGetScoreRange, CmdGetScoreFriends} \<longrightarrow> qs_a_rank_array p \<noteq> None \<or> qs_plain_rank_array p \<noteq> None)"

text \<open>The effect of a reply on the other requests: none; and its own request has a result.\<close>

definition answered :: "addr option \<Rightarrow> NpHandler \<Rightarrow> NpHandler \<Rightarrow> bool" where
  "answered req h h' \<longleftrightarrow>
     hn_pending_score h' = hn_pending_score h \<and>
     (\<forall>a. req = Some a \<longrightarrow> hn_score_ctxs h a \<noteq> None \<longrightarrow>
        (\<exists>c. hn_score_ctxs h' a = Some c \<and> sc_result c \<noteq> None)) \<and>
     (\<forall>b. req \<noteq> Some b \<longrightarrow> hn_score_ctxs h' b = hn_score_ctxs h b)"

text \<open>What the steps before the result keep.\<close>

definition kept :: "addr option \<Rightarrow> NpHandler \<Rightarrow> NpHandler \<Rightarrow> bool" where
  "kept req h h' \<longleftrightarrow>
     hn_pending_score h' = hn_pending_score h \<and>
     (\<forall>b. hn_score_ctxs h b \<noteq> None \<longrightarrow> hn_score_ctxs h' b \<noteq> None) \<and>
     (\<forall>b. req \<noteq> Some b \<longrightarrow> hn_score_ctxs h' b = hn_score_ctxs h b)"

lemma kept_refl [simp]: "kept req h h"
  by (simp add: kept_def)

lemma kept_mem [simp]: "kept req h (h'\<lparr>hn_mem := m\<rparr>) = kept req h h'"
  by (simp add: kept_def)

lemma finish_score_safe:
  assumes "req \<noteq> None" and "kept req h h'"
  shows "safe (answered req h) (finish_score req r h')"
proof -
  obtain a where a: "req = Some a" using assms(1) by auto
  have "\<exists>c. hn_score_ctxs (score_set a r h') a = Some c \<and> sc_result c \<noteq> None"
    if c0: "hn_score_ctxs h a \<noteq> None"
  proof -
    obtain c where "hn_score_ctxs h' a = Some c" using c0 assms(2) a by (auto simp: kept_def)
    then show ?thesis by (simp add: score_set_def at_addr_same score_cell.result_set)
  qed
  then show ?thesis
    using assms(2) a by (auto simp: finish_score_def answered_def kept_def score_set_def at_addr_other)
qed

lemma upd_score_ctx_safe:
  assumes "req \<noteq> None" and "kept req h h'"
  shows "safe (\<lambda>h''. kept req h h'' \<and> hn_mem h'' = hn_mem h') (upd_score_ctx req f h')"
  using assms by (auto simp: upd_score_ctx_def kept_def at_addr_def split: option.splits)

lemma to_s32_le: "0 \<le> x \<Longrightarrow> to_s32 x \<le> x"
  by (simp add: to_s32_def sint_sbintrunc' signed_take_bit_int_less_eq_self_iff)

lemma players_length: "length (take (nat (min (int (length rs)) (to_s32 (int k)))) rs) \<le> k"
proof -
  have "nat (min (int (length rs)) (to_s32 (int k))) \<le> k" using to_s32_le [of "int k"] by linarith
  then show ?thesis by simp
qed

lemma ranking_reply_safe:
  assumes "qs_req p \<noteq> None" and "rank_mem_ok n p (hn_mem h)"
    and fill: "\<And>resp m. rank_mem_ok n p m \<Longrightarrow> safe (\<lambda>(_, m'). rank_mem_ok n p m') (fill resp m)"
  shows "safe (answered (qs_req p) h) (ranking_reply cfg p body fill meta result h)"
proof (cases "case reply_blob body of None \<Rightarrow> None | Some blob \<Rightarrow> hc_pb_score cfg blob")
  case None
  then show ?thesis using finish_score_safe [OF assms(1)] by (simp add: ranking_reply_def)
next
  case (Some resp)
  have w64: "safe (rank_mem_ok n p) (out_u64 (qs_last_sort_date p) v m)" if "rank_mem_ok n p m" for v m
    unfolding out_u64_def using that by (auto intro!: safe_bind [OF safe_write_out] simp: rank_mem_ok_def growsD)
  have w32: "safe (rank_mem_ok n p) (out_u32 (qs_total_record p) v m)" if "rank_mem_ok n p m" for v m
    unfolding out_u32_def using that by (auto intro!: safe_bind [OF safe_write_out] simp: rank_mem_ok_def growsD)
  show ?thesis
    unfolding ranking_reply_def Some option.case
    by (rule safe_bind [OF fill [OF assms(2)]])
      (auto intro!: safe_bind [where P = "rank_mem_ok n p"] w64 w32 finish_score_safe assms(1))
qed

lemma copy_out_safe:
  assumes "holds (length src) (gm_buf m) p" and "p \<noteq> None"
  shows "safe (\<lambda>_. True) (copy_out p src m)"
  using assms by (auto simp: copy_out_def holds_def split: option.splits)

lemma game_data_reply_safe:
  assumes "qs_req p \<noteq> None" and "holds 1 (gm_u64 (hn_mem h)) (qs_total_size_out p)"
    and "holds (unat (qs_recv_size p)) (gm_buf (hn_mem h)) (qs_data_out p)"
  shows "safe (answered (qs_req p) h) (game_data_reply p body h)"
proof (cases "reply_blob body")
  case None
  then show ?thesis using finish_score_safe [OF assms(1)] by (simp add: game_data_reply_def)
next
  case (Some blob)
  let ?n = "unat (qs_recv_size p)"
  let ?Q = "\<lambda>h'. kept (qs_req p) h h'"
  let ?P = "\<lambda>h'. ?Q h' \<and> gm_buf (hn_mem h') = gm_buf (hn_mem h)"
  let ?copies = "qs_data_out p \<noteq> None \<and> qs_recv_size p > 0"
  let ?k = "if ?copies then min (length blob) ?n else 0"
  have step1: "safe ?P (with_mem h (out_u64 (qs_total_size_out p) v (hn_mem h)))" for v
    unfolding with_mem_def out_u64_def
    using assms(2) by (auto intro!: safe_bind [OF safe_bind [OF safe_write_out], where P = "\<lambda>m. gm_buf m = gm_buf (hn_mem h)"])
  have step2: "safe ?Q (if ?copies then with_mem h1 (copy_out (qs_data_out p) (take ?k blob) (hn_mem h1)) else Returned h1)"
    if h1: "?P h1" for h1
  proof -
    have "holds (length (take ?k blob)) (gm_buf (hn_mem h1)) (qs_data_out p)"
      using assms(3) h1 by (auto intro: holds_le)
    then show ?thesis using h1 unfolding with_mem_def by (auto intro!: safe_bind [OF copy_out_safe])
  qed
  show ?thesis
    unfolding game_data_reply_def Some option.case Let_def
    by (rule safe_bind [OF step1], rule safe_bind [OF step2], assumption,
        rule safe_bind [OF upd_score_ctx_safe [OF assms(1)]], assumption, rule finish_score_safe [OF assms(1)]) simp
qed

lemma board_info_reply_safe:
  assumes "qs_req p \<noteq> None" and "holds 1 (gm_board (hn_mem h)) (qs_board_info p)"
  shows "safe (answered (qs_req p) h) (board_info_reply cfg p body h)"
  unfolding board_info_reply_def with_mem_def
  using assms finish_score_safe [OF assms(1)]
  by (auto split: option.splits intro!: safe_bind [where P = "kept (qs_req p) h"] safe_bind [OF safe_bind [OF safe_write_out], where P = "\<lambda>_. True"])

lemma record_score_reply_safe:
  "qs_req p \<noteq> None \<Longrightarrow> safe (answered (qs_req p) h) (record_score_reply p body h)"
  unfolding record_score_reply_def
  by (rule safe_bind [OF upd_score_ctx_safe [OF _ kept_refl]]) (auto intro: finish_score_safe)

lemma score_success_safe:
  assumes "score_fits cmd p (hn_mem h)"
  shows "safe (answered (qs_req p) h) (score_success cfg cmd p body h)"
proof -
  let ?n = "unat (qs_array_num p)"
  note f = assms [unfolded score_fits_def]
  have r: "qs_req p \<noteq> None" and m: "rank_mem_ok ?n p (hn_mem h)" using f by auto
  have ex: "\<And>i k m resp. rank_mem_ok ?n p m \<Longrightarrow> k < ?n \<Longrightarrow>
      safe (rank_mem_ok ?n p) (fill_extras resp i k (qs_comment_array p) (qs_info_array p) m)"
    by (rule fill_extras_ok)
  have w1: "safe (rank_mem_ok ?n p) (write_rank (qs_plain_rank_array p) k e m)"
    if "qs_plain_rank_array p \<noteq> None" "rank_mem_ok ?n p m" "k < ?n" for k e m
    using that unfolding write_rank_def by (auto intro!: safe_bind [OF safe_write_at] simp: rank_mem_ok_def growsD)
  have w2: "safe (rank_mem_ok ?n p) (write_rank_a (qs_a_rank_array p) k e m)"
    if "qs_a_rank_array p \<noteq> None" "rank_mem_ok ?n p m" "k < ?n" for k e m
    using that unfolding write_rank_a_def by (auto intro!: safe_bind [OF safe_write_at] simp: rank_mem_ok_def growsD)
  have w3: "safe (rank_mem_ok ?n p) (write_player (qs_rank_array p) k e m)"
    if "qs_rank_array p \<noteq> None" "rank_mem_ok ?n p m" "k < ?n" for k e m
    using that unfolding write_player_def by (auto intro!: safe_bind [OF safe_write_at] simp: rank_mem_ok_def growsD)
  have w4: "safe (rank_mem_ok ?n p) (write_player_a (qs_a_player_rank_array p) k e m)"
    if "qs_a_player_rank_array p \<noteq> None" "rank_mem_ok ?n p m" "k < ?n" for k e m
    using that unfolding write_player_a_def by (auto intro!: safe_bind [OF safe_write_at] simp: rank_mem_ok_def growsD)
  have np: "safe (\<lambda>(_, m'). rank_mem_ok ?n p m') (FillRankArrayFromProto resp (qs_requested_np_ids p) (qs_rank_array p)
      (qs_comment_array p) (qs_info_array p) m)" if "cmd = CmdGetScoreNpId" "rank_mem_ok ?n p m" for resp m
    unfolding FillRankArrayFromProto_def Let_def
    using that f players_length [of "ps_rankarray resp" "length (qs_requested_np_ids p)"]
    by (intro fill_players_ok [where n = ?n]) (auto intro: w3 ex order_trans)
  have ac: "safe (\<lambda>(_, m'). rank_mem_ok ?n p m') (FillPlayerRankArrayAFromProto resp (qs_array_num p)
      (qs_a_player_rank_array p) (qs_comment_array p) (qs_info_array p) m)"
    if "cmd = CmdGetScoreAccountId" "rank_mem_ok ?n p m" for resp m
    unfolding FillPlayerRankArrayAFromProto_def Let_def
    using that f players_length [of "ps_rankarray resp" ?n]
    by (intro fill_players_ok [where n = ?n]) (auto intro: w4 ex)
  have rg: "safe (\<lambda>(_, m'). rank_mem_ok ?n p m')
      ((if qs_a_rank_array p \<noteq> None
        then FillPlainRankArrayAFromProto resp (qs_array_num p) (qs_a_rank_array p) (qs_comment_array p) (qs_info_array p)
        else FillPlainRankArrayFromProto resp (qs_array_num p) (qs_plain_rank_array p) (qs_comment_array p) (qs_info_array p)) m)"
    if "cmd = CmdGetScoreRange \<or> cmd = CmdGetScoreFriends" "rank_mem_ok ?n p m" for resp m
    using that f unfolding FillPlainRankArrayAFromProto_def FillPlainRankArrayFromProto_def
    by (cases "qs_a_rank_array p = None") (auto intro!: fill_packed_ok intro: w1 w2 ex)
  show ?thesis
    unfolding score_success_def
  proof (intro safe_if, goal_cases)
    case 1
    show ?case by (rule record_score_reply_safe [OF r])
  next
    case 2
    show ?case by (rule finish_score_safe [OF r kept_refl])
  next
    case 3
    show ?case by (rule game_data_reply_safe [OF r]) (use f in auto)
  next
    case 4
    show ?case by (rule board_info_reply_safe [OF r]) (use f in auto)
  next
    case 5
    show ?case by (rule ranking_reply_safe [OF r m np [OF 5(5)]])
  next
    case 6
    show ?case by (rule ranking_reply_safe [OF r m ac [OF 6(6)]])
  next
    case 7
    show ?case by (rule ranking_reply_safe [OF r m rg [OF 7(7)]])
  next
    case 8
    show ?case by (rule finish_score_safe [OF r kept_refl])
  qed
qed


definition demo_cfg :: HandlerConfig where
  "demo_cfg = \<lparr>hc_server_url = [104, 58, 49], hc_appear_offline = (\<lambda>_. False), hc_enabled = (\<lambda>_. True), hc_npid = (\<lambda>_. [65]),
     hc_password = (\<lambda>_. []), hc_np_comm_ids = [[78, 80]],
     hc_ops = \<lparr>po_serialise = (\<lambda>_. []), po_login = (\<lambda>_. None), po_token = (\<lambda>_. None),
       po_features = (\<lambda>_. None), po_friend_query = (\<lambda>_. None), po_friend_new = (\<lambda>_. None),
       po_friend_lost = (\<lambda>_. None), po_friend_status = (\<lambda>_. None), po_room_event = (\<lambda>_. None),
       po_room_message = (\<lambda>_. None), po_service_unavailable = (\<lambda>_. None), po_client_rejected = (\<lambda>_. None),
       po_title_id = [], po_title_name = [], po_version = []\<rparr>,
     hc_pb_auth_code = Some, hc_pb_sync_trophies = (\<lambda>_. Some []), hc_pb_board_info = (\<lambda>_. None),
     hc_pb_score = (\<lambda>_. Some \<lparr>ps_rankarray =
       [\<lparr>pk_npid = [66], pk_pcid = 0, pk_rank = 1, pk_sharedrank = 0, pk_hasgamedata = False, pk_score = 9,
         pk_recorddate = 0, pk_accountid = 2\<rparr>], ps_commentarray = [], ps_infoarray = [], ps_lastsortdate = 0,
       ps_totalrecord = 1\<rparr>), hc_pb_tus_variables = (\<lambda>_. None),
     hc_pb_tus_statuses = (\<lambda>_. None), hc_pb_tus_data = (\<lambda>_. None), hc_pb_tss_data = (\<lambda>_. None)\<rparr>"

text \<open>A handler whose user 1 is authenticated and has asked, in packet 7, for one entry of a ranking.\<close>

definition demo_range_pending :: PendingScoreRequest where
  "demo_range_pending = new_score_pending\<lparr>qs_req := Some 1, qs_cmd := CmdGetScoreRange, qs_user_id := 1,
     qs_plain_rank_array := Some 2, qs_array_num := 1\<rparr>"

definition demo_rank :: OrbisNpScoreRankData where
  "demo_rank = \<lparr>rd_np_id = zero_np_id, rd_pc_id = 0, rd_serial_rank = 0, rd_rank = 0, rd_highest_rank = 0,
     rd_has_game_data = 0, rd_score_value = 0, rd_record_date = 0\<rparr>"

definition demo_handler :: NpHandler where
  "demo_handler = init_handler\<lparr>hn_initialized := True,
     hn_clients := [(1, new_client\<lparr>cl_authenticated := True, cl_pkt_counter := 8\<rparr>),
                    (2, new_client\<lparr>cl_authenticated := True, cl_pkt_counter := 7\<rparr>)],
     hn_pending_score := [(7, demo_range_pending)], hn_score_ctxs := [1 \<mapsto> new_score_ctx],
     hn_mem := empty_mem\<lparr>gm_rank := [2 \<mapsto> [demo_rank]]\<rparr>\<rparr>"

lemma demo_handler_simps [simp]:
  "hn_pending_score demo_handler = [(7, demo_range_pending)]"
  "hn_score_ctxs demo_handler = [1 \<mapsto> new_score_ctx]"
  "hn_mem demo_handler = empty_mem\<lparr>gm_rank := [2 \<mapsto> [demo_rank]]\<rparr>"
  "map_of (hn_clients demo_handler) 2 = Some (new_client\<lparr>cl_authenticated := True, cl_pkt_counter := 7\<rparr>)"
  by (simp_all add: demo_handler_def)


section \<open>The packed ranking\<close>

lemma fill_extras_frame:
  assumes "holds n (gm_comment m) ca" and "holds n (gm_info m) ia" and "k < n"
  shows "safe (\<lambda>m'. gm_rank m' = gm_rank m \<and> holds n (gm_comment m') ca \<and> holds n (gm_info m') ia)
    (fill_extras resp i k ca ia m)"
  unfolding fill_extras_def
  by (rule safe_bind [where P = "\<lambda>m'. gm_rank m' = gm_rank m \<and> holds n (gm_comment m') ca \<and> holds n (gm_info m') ia"])
    (use assms in \<open>auto intro!: safe_bind [OF safe_write_at] simp: growsD\<close>)

lemma fill_packed_spec:
  assumes "gm_rank m a = Some xs" and "n \<le> length xs" and "k \<le> n"
    and "holds n (gm_comment m) ca" and "holds n (gm_info m) ia"
  shows "\<exists>m'. fill_packed (write_rank (Some a)) (\<lambda>i k. fill_extras resp i k ca ia) n rs i k m =
      Returned (min n (k + length (filter (\<lambda>r. pk_npid r \<noteq> []) rs)), m') \<and>
    gm_rank m' a = Some (take k xs @ map2 fill_rank (take (n - k) (filter (\<lambda>r. pk_npid r \<noteq> []) rs)) (drop k xs) @
      drop (min n (k + length (filter (\<lambda>r. pk_npid r \<noteq> []) rs))) xs)"
  using assms
proof (induction rs arbitrary: i k m xs)
  case Nil
  then show ?case by auto
next
  case (Cons r rs)
  let ?es = "filter (\<lambda>r. pk_npid r \<noteq> []) rs"
  consider "k = n" | "k < n" "pk_npid r = []" | "k < n" "pk_npid r \<noteq> []" using Cons.prems(3) by linarith
  then show ?case
  proof cases
    case 3
    let ?ys = "xs[k := fill_rank r (xs ! k)]"
    let ?m1 = "m\<lparr>gm_rank := (gm_rank m)(a \<mapsto> ?ys)\<rparr>"
    have k: "k < length xs" using 3 Cons.prems(2) by linarith
    have w: "write_rank (Some a) k r m = Returned ?m1"
      using Cons.prems(1) k by (simp add: write_rank_def write_at_def)
    obtain m2 where m2: "fill_extras resp i k ca ia ?m1 = Returned m2" "gm_rank m2 = gm_rank ?m1"
      "holds n (gm_comment m2) ca" "holds n (gm_info m2) ia"
      using fill_extras_frame [of n ?m1 ca ia k resp i] Cons.prems(4,5) 3 by (auto simp: safe_def)
    obtain m' where m': "fill_packed (write_rank (Some a)) (\<lambda>i k. fill_extras resp i k ca ia) n rs (i + 1) (k + 1) m2 =
        Returned (min n (k + 1 + length ?es), m')"
      "gm_rank m' a = Some (take (k + 1) ?ys @ map2 fill_rank (take (n - (k + 1)) ?es) (drop (k + 1) ?ys) @
        drop (min n (k + 1 + length ?es)) ?ys)"
      using Cons.IH [of m2 ?ys "k + 1" "i + 1"] m2 Cons.prems 3 by auto
    let ?c = "min n (k + 1 + length ?es)"
    have nk: "n - k = Suc (n - (k + 1))" using 3 by simp
    have d: "drop k xs = xs ! k # drop (k + 1) xs" using k by (simp add: Cons_nth_drop_Suc)
    have t: "take (k + 1) ?ys = take k xs @ [fill_rank r (xs ! k)]" using k by (simp add: take_Suc_conv_app_nth)
    have "k < ?c" using 3 by simp
    then have dc: "drop ?c ?ys = drop ?c xs" "drop (k + 1) ?ys = drop (k + 1) xs" by simp_all
    have es: "filter (\<lambda>r. pk_npid r \<noteq> []) (r # rs) = r # ?es" using 3 by simp
    have c: "min n (k + length (r # ?es)) = ?c" by simp
    have "fill_packed (write_rank (Some a)) (\<lambda>i k. fill_extras resp i k ca ia) n (r # rs) i k m = Returned (?c, m')"
      using 3 w m2(1) m'(1) by simp
    moreover have "gm_rank m' a = Some (take k xs @ map2 fill_rank (take (n - k) (r # ?es)) (drop k xs) @ drop ?c xs)"
      unfolding m'(2) t dc d nk by simp
    ultimately show ?thesis unfolding es c by blast
  qed (use Cons in auto)
qed

text \<open>
  Claim C12. A ranking arrives packed: the entries of the reply that name a player fill the array from
  its beginning, in order and without gaps, as many as fit; the others are skipped, the slots
  behind keep what they held, and the number of filled slots is what the request returns.
\<close>

theorem ranking_packed:
  assumes "gm_rank m a = Some xs" and "unat n \<le> length xs"
    and "holds (unat n) (gm_comment m) ca" and "holds (unat n) (gm_info m) ia"
    and "es = filter (\<lambda>r. pk_npid r \<noteq> []) (ps_rankarray resp)"
  shows "\<exists>m'. FillPlainRankArrayFromProto resp n (Some a) ca ia m = Returned (min (unat n) (length es), m') \<and>
    gm_rank m' a = Some (map2 fill_rank (take (unat n) es) xs @ drop (min (unat n) (length es)) xs)"
  using fill_packed_spec [of m a xs "unat n" 0 ca ia resp "ps_rankarray resp" 0] assms
  by (simp add: FillPlainRankArrayFromProto_def)

theorem ranking_packed_witness:
  "\<exists>m'. FillPlainRankArrayFromProto
      \<lparr>ps_rankarray = [\<lparr>pk_npid = [], pk_pcid = 0, pk_rank = 1, pk_sharedrank = 0, pk_hasgamedata = False,
         pk_score = 9, pk_recorddate = 0, pk_accountid = 2\<rparr>], ps_commentarray = [], ps_infoarray = [],
         ps_lastsortdate = 0, ps_totalrecord = 1\<rparr> 1 (Some 2) None None (hn_mem demo_handler) = Returned (0, m') \<and>
    gm_rank m' 2 = Some [demo_rank]"
  using ranking_packed [of "hn_mem demo_handler" 2 "[demo_rank]" 1 None None "[]"
      "\<lparr>ps_rankarray = [\<lparr>pk_npid = [], pk_pcid = 0, pk_rank = 1, pk_sharedrank = 0, pk_hasgamedata = False,
         pk_score = 9, pk_recorddate = 0, pk_accountid = 2\<rparr>], ps_commentarray = [], ps_infoarray = [],
         ps_lastsortdate = 0, ps_totalrecord = 1\<rparr>"]
  by (simp add: holds_def)

section \<open>Requests that are never completed\<close>

lemma emplace_keeps: "map_of m k = Some v \<Longrightarrow> omap_emplace k w m = m"
  by (simp add: omap_emplace_def)

text \<open>
  Packet ids are counted per client, but the table of score requests is one for all users:
  when a request of another user is pending under the id that the client of this user uses next,
  the request is sent and answered with OK, and is not registered, so no reply will complete it.
\<close>

theorem score_request_id_collision:
  assumes "map_of (hn_clients h) user_id = Some client" and "cl_authenticated client"
    and "IsValidNpCommId (GetNpCommId cfg service_label)"
    and "map_of (hn_pending_score h) (cl_pkt_counter client) = Some other"
  shows "\<exists>h'. score_request cfg user_id service_label cmd payload pending h = (ORBIS_OK, h') \<and>
    hn_pending_score h' = hn_pending_score h"
  using assms by (simp add: score_request_def score_send_def send_request_def SubmitRequest_def Let_def
      score_register_def emplace_keeps)

theorem score_request_id_collision_witness:
  "\<exists>h'. score_request demo_cfg 2 0 CmdGetScoreRange [] new_score_pending demo_handler = (ORBIS_OK, h') \<and>
    hn_pending_score h' = [(7, demo_range_pending)]"
  using score_request_id_collision [of demo_handler 2 "new_client\<lparr>cl_authenticated := True, cl_pkt_counter := 7\<rparr>"
      demo_cfg 0 demo_range_pending CmdGetScoreRange "[]" new_score_pending]
  by (simp add: IsValidNpCommId_def GetNpCommId_def demo_cfg_def)

text \<open>
  The request is sent before it is registered, so its reply can come in between; it is
  dropped then, and leaves the handler exactly as if the server had not answered.
\<close>

theorem early_score_reply_lost:
  assumes "score_send cfg user_id service_label cmd payload h = (Inr pkt_id, h1)"
    and "map_of (hn_pending_score h) pkt_id = None"
  shows "OnScoreReply cfg user_id cmd pkt_id err body h1 = Returned h1"
  using assms by (auto simp: OnScoreReply_def score_send_def send_request_def SubmitRequest_def Let_def
      split: option.splits if_splits prod.splits)

theorem early_score_reply_lost_witness:
  "OnScoreReply demo_cfg 1 CmdGetBoardInfos 8 0 [] (snd (score_send demo_cfg 1 0 CmdGetBoardInfos [] demo_handler)) =
     Returned (snd (score_send demo_cfg 1 0 CmdGetBoardInfos [] demo_handler))"
proof -
  have "fst (score_send demo_cfg 1 0 CmdGetBoardInfos [] demo_handler) = Inr 8"
    by (simp add: score_send_def demo_handler_def send_request_def SubmitRequest_def IsValidNpCommId_def
        GetNpCommId_def demo_cfg_def)
  then show ?thesis
    by (intro early_score_reply_lost [where h = demo_handler and payload = "[]"]) (auto simp: prod_eq_iff)
qed

section \<open>Replies to another command\<close>

text \<open>
  A reply is filled in by the command it names, not by the command of its request: when a
  request for a range of a ranking is answered by a ranking of accounts that names a player, the
  reply is written through a null array.
\<close>

theorem mismatched_reply_out_of_bounds:
  assumes "map_of (hn_pending_score h) pkt_id = Some p" and "qs_cmd p = CmdGetScoreRange"
    and "qs_a_player_rank_array p = None" and "qs_array_num p = 1"
    and "reply_blob body = Some blob" and "hc_pb_score cfg blob = Some resp"
    and "ps_rankarray resp = r # rs" and "pk_npid r \<noteq> []"
  shows "OnScoreReply cfg user_id CmdGetScoreAccountId pkt_id 0 body h = OutOfBounds"
proof -
  have "to_s32 1 = 1" by (simp add: to_s32_def)
  then have "nat (min (int (length (r # rs))) (to_s32 (uint (1 :: u64)))) = 1" by simp
  then have "take (nat (min (int (length (r # rs))) (to_s32 (uint (1 :: u64))))) (r # rs) = [r]" by simp
  then have "FillPlayerRankArrayAFromProto resp (qs_array_num p) (qs_a_player_rank_array p) (qs_comment_array p)
      (qs_info_array p) (hn_mem h) = OutOfBounds"
    using assms(3,4,7,8)
    by (simp add: FillPlayerRankArrayAFromProto_def write_player_a_def write_at_def del: take_Suc_Cons)
  then show ?thesis
    using assms by (simp add: OnScoreReply_def score_success_def ranking_reply_def)
qed

lemma empty_blob: "reply_blob [0, 0, 0, 0] = Some []"
  by (simp add: reply_blob_def GetLE32_def mem_slice_def Let_def)

theorem mismatched_reply_out_of_bounds_witness:
  "OnScoreReply demo_cfg 1 CmdGetScoreAccountId 7 0 [0, 0, 0, 0] demo_handler = OutOfBounds"
  using mismatched_reply_out_of_bounds [of demo_handler 7 demo_range_pending "[0, 0, 0, 0]" "[]" demo_cfg
      "the (hc_pb_score demo_cfg [])" "hd (ps_rankarray (the (hc_pb_score demo_cfg [])))" "[]" 1]
  by (simp add: demo_range_pending_def new_score_pending_def empty_blob demo_cfg_def)

end
