(* ===== verification/HandlerTusProps.thy ===== *)
theory HandlerTusProps
  imports HandlerTusReply HandlerScoreProps
begin

text \<open>The properties of storage requests and their replies.\<close>

section \<open>Filling arrays\<close>

lemma fill_array_spec:
  assumes "m a = Some ys" and "i + length xs \<le> length ys"
  shows "fill_array (Some a) i xs m = Returned (m(a \<mapsto> take i ys @ xs @ drop (i + length xs) ys))"
  using assms
proof (induction xs arbitrary: i m ys)
  case (Cons x xs)
  let ?ys = "ys[i := x]"
  have i: "i < length ys" using Cons.prems by simp
  have "fill_array (Some a) (i + 1) xs (m(a \<mapsto> ?ys)) =
      Returned ((m(a \<mapsto> ?ys))(a \<mapsto> take (i + 1) ?ys @ xs @ drop (i + 1 + length xs) ?ys))"
    by (rule Cons.IH) (use Cons.prems(2) in simp_all)
  moreover have "take (i + 1) ?ys = take i ys @ [x]" using i by (simp add: take_Suc_conv_app_nth)
  moreover have "drop (i + 1 + length xs) ?ys = drop (i + length (x # xs)) ys" by simp
  moreover have "write_at (Some a) i (\<lambda>_. x) m = Returned (m(a \<mapsto> ?ys))" using Cons.prems(1) i by (simp add: write_at_def)
  ultimately show ?case by (simp only: fill_array.simps bind_outcome.simps fun_upd_upd append_assoc append.simps)
qed (auto simp: fun_upd_idem)

lemma fill_array_safe:
  assumes "holds n m p" and "p \<noteq> None" and "length xs \<le> n"
  shows "safe (grows m) (fill_array p 0 xs m)"
proof -
  obtain a where a: "p = Some a" using assms(2) by auto
  then obtain ys where ys: "m a = Some ys" "n \<le> length ys" using assms(1) by (auto simp: holds_def split: option.splits)
  have "fill_array p 0 xs m = Returned (m(a \<mapsto> xs @ drop (length xs) ys))"
    using fill_array_spec [of m a ys 0 xs] ys assms(3) a by simp
  then show ?thesis using ys assms(3) by (auto simp: grows_def holds_def split: option.splits if_splits)
qed

lemma asked_le: "length (asked n xs) \<le> unat n"
  by (simp add: asked_def)

section \<open>Replies stay inside the arrays and complete the request\<close>

text \<open>What a request must provide: room for what it asks for behind each pointer that is not null.\<close>

definition tus_fits :: "PendingTusRequest \<Rightarrow> GameMem \<Rightarrow> bool" where
  "tus_fits p m \<longleftrightarrow>
     (let n = max 1 (unat (qt_array_num p))
      in holds n (gm_var m) (qt_variable_array p) \<and> holds n (gm_var_a m) (qt_variable_array_a p) \<and>
         holds n (gm_var_cs m) (qt_variable_array_cs p) \<and> holds n (gm_status m) (qt_status_array p) \<and>
         holds n (gm_status_a m) (qt_status_array_a p) \<and> holds n (gm_status_cs m) (qt_status_array_cs p) \<and>
         holds (unat (qt_data_cap p)) (gm_buf m) (qt_data_out p) \<and> holds 1 (gm_tss m) (qt_tss_status_out p) \<and>
         holds 1 (gm_u64 m) (qt_tss_content_length_out p) \<and> holds 1 (gm_u32 m) (qt_total_out p))"

lemma tus_fitsD:
  assumes "tus_fits p m"
  shows "holds (unat (qt_array_num p)) (gm_var m) (qt_variable_array p)"
    and "holds (unat (qt_array_num p)) (gm_var_a m) (qt_variable_array_a p)"
    and "holds (unat (qt_array_num p)) (gm_var_cs m) (qt_variable_array_cs p)"
    and "holds (unat (qt_array_num p)) (gm_status m) (qt_status_array p)"
    and "holds (unat (qt_array_num p)) (gm_status_a m) (qt_status_array_a p)"
    and "holds (unat (qt_array_num p)) (gm_status_cs m) (qt_status_array_cs p)"
    and "holds 1 (gm_status m) (qt_status_array p)" and "holds 1 (gm_status_a m) (qt_status_array_a p)"
    and "holds 1 (gm_status_cs m) (qt_status_array_cs p)"
    and "holds (unat (qt_data_cap p)) (gm_buf m) (qt_data_out p)" and "holds 1 (gm_tss m) (qt_tss_status_out p)"
    and "holds 1 (gm_u64 m) (qt_tss_content_length_out p)" and "holds 1 (gm_u32 m) (qt_total_out p)"
  using assms by (auto simp: tus_fits_def Let_def intro: holds_le)

abbreviation gives_result :: "(s32 list \<times> GameMem) outcome \<Rightarrow> bool" where
  "gives_result x \<equiv> safe (\<lambda>(rs, _). rs \<noteq> []) x"

abbreviation totals_ok :: "PendingTusRequest \<Rightarrow> GameMem \<Rightarrow> bool" where
  "totals_ok p m \<equiv> holds 1 (gm_u32 m) (qt_total_out p)"

lemma bad_reply_gives [simp]: "gives_result (bad_reply m)"
  by (simp add: bad_reply_def)

lemma fill_variables_safe: "tus_fits p m \<Longrightarrow> safe (\<lambda>(_, m'). totals_ok p m') (fill_variables p vars m)"
  unfolding fill_variables_def Let_def
  by (intro safe_if safe_bind [OF fill_array_safe [where n = "unat (qt_array_num p)"]])
    (auto simp: asked_le dest: tus_fitsD)

lemma fill_statuses_safe: "tus_fits p m \<Longrightarrow> safe (totals_ok p) (fill_statuses p statuses m)"
  unfolding fill_statuses_def Let_def
  by (intro safe_if safe_bind [OF fill_array_safe [where n = "unat (qt_array_num p)"]])
    (auto simp: asked_le dest: tus_fitsD)

lemma out_total_safe: "totals_ok p m \<Longrightarrow> safe (\<lambda>_. True) (out_total (qt_total_out p) t n m)"
  by (auto simp: out_total_def out_u32_def intro!: safe_bind [OF safe_write_out])

lemma variables_reply_safe: "tus_fits p m \<Longrightarrow> gives_result (variables_reply cfg cmd p body m)"
  unfolding variables_reply_def
  by (auto split: option.splits intro!: safe_bind [OF fill_variables_safe] safe_bind [OF out_total_safe])

lemma statuses_reply_safe: "tus_fits p m \<Longrightarrow> gives_result (statuses_reply cfg p body m)"
  unfolding statuses_reply_def
  by (auto split: option.splits intro!: safe_bind [OF fill_statuses_safe] safe_bind [OF out_total_safe])

lemma copy_out_frame:
  assumes "holds n (gm_buf m) p" and "length src \<le> n" and "p \<noteq> None"
  shows "safe (\<lambda>m'. \<exists>b. m' = m\<lparr>gm_buf := b\<rparr>) (copy_out p src m)"
  using assms by (auto simp: copy_out_def holds_def split: option.splits)

lemma tus_fits_buf: "tus_fits p m \<Longrightarrow> \<exists>b. m' = m\<lparr>gm_buf := b\<rparr> \<Longrightarrow>
  holds 1 (gm_u64 m') (qt_tss_content_length_out p) \<and> holds 1 (gm_tss m') (qt_tss_status_out p) \<and>
  holds 1 (gm_status m') (qt_status_array p) \<and> holds 1 (gm_status_a m') (qt_status_array_a p) \<and>
  holds 1 (gm_status_cs m') (qt_status_array_cs p)"
  by (auto dest: tus_fitsD)

lemma tss_reply_safe:
  assumes "tus_fits p m"
  shows "gives_result (tss_reply cfg p body m)"
proof (cases "parse_tus_body (hc_pb_tss_data cfg) body")
  case (Some resp)
  let ?Q = "\<lambda>m'. holds 1 (gm_u64 m') (qt_tss_content_length_out p) \<and> holds 1 (gm_tss m') (qt_tss_status_out p)"
  have step1: "safe ?Q (if qt_data_out p \<noteq> None \<and> pz_data resp \<noteq> []
      then copy_out (qt_data_out p) (take (unat (qt_data_cap p)) (pz_data resp)) m else Returned m)"
    using assms tus_fits_buf [OF assms]
    by (auto intro!: safe_mono [OF copy_out_frame [OF tus_fitsD(10) [OF assms]]] dest: tus_fitsD)
  have step2: "safe (\<lambda>m'. holds 1 (gm_tss m') (qt_tss_status_out p))
      (out_u64 (qt_tss_content_length_out p) v m1)" if "?Q m1" for v m1
    using that by (auto simp: out_u64_def intro!: safe_bind [OF safe_write_out])
  show ?thesis
    unfolding tss_reply_def Some option.case
    by (rule safe_bind [OF step1], rule safe_bind [OF step2], assumption)
      (auto intro!: safe_bind [OF safe_write_out])
qed (simp add: tss_reply_def)

lemma write_status_safe:
  "holds 1 (gm_status m) (qt_status_array p) \<Longrightarrow> holds 1 (gm_status_a m) (qt_status_array_a p) \<Longrightarrow>
   holds 1 (gm_status_cs m) (qt_status_array_cs p) \<Longrightarrow> safe (\<lambda>_. True) (write_status p st recv m)"
  unfolding write_status_def Let_def
  by (intro safe_if safe_bind [OF safe_write_at]) auto

lemma tus_data_reply_safe:
  assumes "tus_fits p m"
  shows "gives_result (tus_data_reply cfg p body m)"
proof (cases "parse_tus_body (hc_pb_tus_data cfg) body")
  case (Some x)
  obtain status blob where x: "x = (status, blob)" by (cases x)
  let ?Q = "\<lambda>m'. holds 1 (gm_status m') (qt_status_array p) \<and> holds 1 (gm_status_a m') (qt_status_array_a p) \<and>
    holds 1 (gm_status_cs m') (qt_status_array_cs p)"
  have step1: "safe ?Q (if copies then copy_out (qt_data_out p) (take recv (drop off blob)) m else Returned m)"
    if "copies \<Longrightarrow> recv \<le> unat (qt_data_cap p) \<and> qt_data_out p \<noteq> None" for copies recv off
    using that assms tus_fits_buf [OF assms]
    by (auto intro!: safe_mono [OF copy_out_frame [OF tus_fitsD(10) [OF assms]]] dest: tus_fitsD)
  show ?thesis
    unfolding tus_data_reply_def Some option.case x prod.case Let_def
    by (rule safe_bind [OF step1], simp, rule safe_bind [OF write_status_safe]) auto
qed (simp add: tus_data_reply_def)

lemma tus_success_safe: "tus_fits p m \<Longrightarrow> gives_result (tus_success cfg cmd p body m)"
  unfolding tus_success_def
  by (intro safe_if variables_reply_safe tss_reply_safe tus_data_reply_safe statuses_reply_safe) simp_all

lemma fold_tus_set:
  "hn_pending_tus (fold (tus_set a) rs h) = hn_pending_tus h"
  "hn_mem (fold (tus_set a) rs h) = hn_mem h"
  "hn_tus_ctxs (fold (tus_set a) rs h) = at_addr (fold TusSetResult rs) a (hn_tus_ctxs h)"
proof -
  show "hn_pending_tus (fold (tus_set a) rs h) = hn_pending_tus h" "hn_mem (fold (tus_set a) rs h) = hn_mem h"
    by (induction rs arbitrary: h) (simp_all add: tus_set_def)
  show "hn_tus_ctxs (fold (tus_set a) rs h) = at_addr (fold TusSetResult rs) a (hn_tus_ctxs h)"
  proof (induction rs arbitrary: h)
    case Nil
    show ?case by (auto simp: at_addr_def fun_upd_idem split: option.splits)
  next
    case (Cons r rs)
    have "hn_tus_ctxs (fold (tus_set a) (r # rs) h) = at_addr (fold TusSetResult rs) a (hn_tus_ctxs (tus_set a r h))"
      using Cons by simp
    also have "\<dots> = at_addr (fold TusSetResult (r # rs)) a (hn_tus_ctxs h)"
      by (auto simp: tus_set_def at_addr_def split: option.splits)
    finally show ?case .
  qed
qed

lemma tus_results: "rs \<noteq> [] \<Longrightarrow> tc_result (fold TusSetResult rs c) = Some (case tc_result c of None \<Rightarrow> hd rs | Some r \<Rightarrow> r)"
  by (cases rs) (auto simp: tus_cell.first_wins tus_cell.result_set split: option.splits)

text \<open>The first result of a reply is the result of its request.\<close>

lemma finish_tus_result:
  assumes "rs \<noteq> []" and "hn_tus_ctxs h a = Some c" and "tc_result c = None"
  shows "\<exists>h'. finish_tus (Some a) rs h = Returned h' \<and> hn_mem h' = hn_mem h \<and>
    hn_pending_tus h' = hn_pending_tus h \<and>
    hn_tus_ctxs h' = (hn_tus_ctxs h)(a \<mapsto> fold TusSetResult rs c) \<and>
    tc_result (fold TusSetResult rs c) = Some (hd rs)"
  using assms by (auto simp: finish_tus_def fold_tus_set tus_results at_addr_def)

text \<open>
  Storage replies never write outside the memory of the game and complete their request:
  whatever the reply is, its command and bytes included, when there is room for what was asked
  behind every pointer of the request, the request is no longer registered and has a result, and
  no other request is touched.
\<close>

theorem OnTusReply_completes:
  assumes "map_of (hn_pending_tus h) pkt_id = Some p" and "qt_req p = Some a" and "tus_fits p (hn_mem h)"
    and "hn_tus_ctxs h a = Some c" and "tc_result c = None"
  shows "\<exists>h' c'. OnTusReply cfg user_id cmd pkt_id err body h = Returned h' \<and>
    hn_pending_tus h' = omap_erase pkt_id (hn_pending_tus h) \<and>
    hn_tus_ctxs h' = (hn_tus_ctxs h)(a \<mapsto> c') \<and> tc_result c' \<noteq> None"
proof -
  let ?h = "h\<lparr>hn_pending_tus := omap_erase pkt_id (hn_pending_tus h)\<rparr>"
  obtain rs m where rs: "tus_success cfg cmd p body (hn_mem h) = Returned (rs, m)" "rs \<noteq> []"
    using tus_success_safe [OF assms(3), of cfg cmd body] by (auto simp: safe_def)
  have ok: "\<exists>h'. finish_tus (Some a) rs (?h\<lparr>hn_mem := m\<rparr>) = Returned h' \<and>
      hn_pending_tus h' = omap_erase pkt_id (hn_pending_tus h) \<and>
      hn_tus_ctxs h' = (hn_tus_ctxs h)(a \<mapsto> fold TusSetResult rs c) \<and> tc_result (fold TusSetResult rs c) \<noteq> None"
    using finish_tus_result [of rs "?h\<lparr>hn_mem := m\<rparr>" a c] rs(2) assms by auto
  have bad: "\<exists>h'. finish_tus (Some a) [tus_error err] ?h = Returned h' \<and>
      hn_pending_tus h' = omap_erase pkt_id (hn_pending_tus h) \<and>
      hn_tus_ctxs h' = (hn_tus_ctxs h)(a \<mapsto> fold TusSetResult [tus_error err] c) \<and>
      tc_result (fold TusSetResult [tus_error err] c) \<noteq> None"
    using finish_tus_result [of "[tus_error err]" ?h a c] assms by auto
  show ?thesis
    using ok bad assms(1,2) rs(1) by (auto simp: OnTusReply_def Let_def simp del: fold_simps)
qed

text \<open>A handler whose user 1 has asked, in packet 9, for one variable.\<close>

definition demo_tus_pending :: PendingTusRequest where
  "demo_tus_pending = new_tus_pending\<lparr>qt_req := Some 1, qt_cmd := CmdTusGetMultiSlotVariable, qt_user_id := 1,
     qt_variable_array := Some 2, qt_array_num := 1\<rparr>"

definition demo_tus_handler :: NpHandler where
  "demo_tus_handler = init_handler\<lparr>hn_pending_tus := [(9, demo_tus_pending)], hn_tus_ctxs := [1 \<mapsto> \<lparr>tc_result = None\<rparr>],
     hn_mem := empty_mem\<lparr>gm_var := [2 \<mapsto> [zero_variable]]\<rparr>\<rparr>"

definition demo_pb_variable :: PbTusVariable where
  "demo_pb_variable = \<lparr>px_ownernpid = [65], px_set = True, px_lastchangeddate = 3, px_lastchangedauthornpid = [66],
     px_variable = 7, px_oldvariable = 6, px_owneraccountid = 1, px_lastchangedauthoraccountid = 2\<rparr>"

definition demo_tus_cfg :: HandlerConfig where
  "demo_tus_cfg = demo_cfg\<lparr>hc_pb_tus_variables := (\<lambda>_. Some ([demo_pb_variable], 0))\<rparr>"

theorem OnTusReply_completes_witness:
  "\<exists>h' c'. OnTusReply demo_cfg 1 CmdTusGetData 9 0 [] demo_tus_handler = Returned h' \<and>
    hn_pending_tus h' = omap_erase 9 (hn_pending_tus demo_tus_handler) \<and>
    hn_tus_ctxs h' = (hn_tus_ctxs demo_tus_handler)(1 \<mapsto> c') \<and> tc_result c' \<noteq> None"
  by (rule OnTusReply_completes [where p = demo_tus_pending and c = "\<lparr>tc_result = None\<rparr>"])
    (simp_all add: demo_tus_handler_def demo_tus_pending_def new_tus_pending_def tus_fits_def holds_def Let_def)

section \<open>What a reply of variables delivers\<close>

text \<open>
  A reply with the variables of several slots or users fills the array of the game from its
  beginning, in the order of the reply and no more than were asked for, leaves the rest of it, and
  sets the number of variables filled as the result; that \<open>ORBIS_OK\<close> is set afterwards does not
  change it.
\<close>

theorem variables_reply_spec:
  assumes "map_of (hn_pending_tus h) pkt_id = Some p"
    and "qt_req p = Some a" and "hn_tus_ctxs h a = Some c" and "tc_result c = None"
    and "cmd \<in> {CmdTusGetMultiSlotVariable, CmdTusGetMultiUserVariable, CmdTusGetFriendsVariable}"
    and "parse_tus_body (hc_pb_tus_variables cfg) body = Some (vars, total_num)"
    and "qt_variable_array p = Some v" and "qt_variable_array_a p = None" and "qt_variable_array_cs p = None"
    and "qt_total_out p = None"
    and "gm_var (hn_mem h) v = Some ys" and "n = min (unat (qt_array_num p)) (length vars)" and "n \<le> length ys"
  shows "\<exists>h' c'. OnTusReply cfg user_id cmd pkt_id NoError body h = Returned h' \<and>
    gm_var (hn_mem h') v = Some (map fill_variable (take n vars) @ drop n ys) \<and>
    hn_tus_ctxs h' a = Some c' \<and> tc_result c' = Some (to_s32 (int n))"
proof -
  let ?h = "h\<lparr>hn_pending_tus := omap_erase pkt_id (hn_pending_tus h)\<rparr>"
  have vs: "asked (qt_array_num p) vars = take n vars" using assms(12) by (simp add: asked_def min_def)
  have len: "length (take n vars) = n" using assms(12) by simp
  let ?m = "(hn_mem h)\<lparr>gm_var := (gm_var (hn_mem h))(v \<mapsto> map fill_variable (take n vars) @ drop n ys)\<rparr>"
  have fa: "fill_array (Some v) 0 (map fill_variable (take n vars)) (gm_var (hn_mem h)) =
      Returned ((gm_var (hn_mem h))(v \<mapsto> map fill_variable (take n vars) @ drop n ys))"
    using fill_array_spec [of "gm_var (hn_mem h)" v ys 0 "map fill_variable (take n vars)"] assms(11,13) len by simp
  have fv: "fill_variables p vars (hn_mem h) = Returned (n, ?m)"
    unfolding fill_variables_def Let_def vs using assms(7-9) fa len by simp
  have tot: "out_total (qt_total_out p) t k m = Returned m" for t k m
    using assms(10) by (simp add: out_total_def out_u32_def write_out_def)
  have vr: "variables_reply cfg cmd p body (hn_mem h) = Returned ([to_s32 (int n), ORBIS_OK], ?m)"
    using assms(5,6) fv tot by (auto simp: variables_reply_def)
  have ts: "tus_success cfg cmd p body (hn_mem h) = Returned ([to_s32 (int n), ORBIS_OK], ?m)"
    using assms(5) vr by (auto simp: tus_success_def)
  obtain h' where h': "finish_tus (Some a) [to_s32 (int n), ORBIS_OK] (?h\<lparr>hn_mem := ?m\<rparr>) = Returned h'"
    "hn_mem h' = ?m" "hn_tus_ctxs h' = (hn_tus_ctxs h)(a \<mapsto> fold TusSetResult [to_s32 (int n), ORBIS_OK] c)"
    "tc_result (fold TusSetResult [to_s32 (int n), ORBIS_OK] c) = Some (to_s32 (int n))"
    using finish_tus_result [of "[to_s32 (int n), ORBIS_OK]" "?h\<lparr>hn_mem := ?m\<rparr>" a c] assms(3,4) by auto
  have "OnTusReply cfg user_id cmd pkt_id NoError body h = Returned h'"
    using assms(1,2) ts h'(1) by (simp add: OnTusReply_def Let_def)
  then show ?thesis using h'(2-4) by auto
qed

theorem variables_reply_spec_witness:
  "\<exists>h' c'. OnTusReply demo_tus_cfg 1 CmdTusGetMultiSlotVariable 9 NoError [0, 0, 0, 0] demo_tus_handler = Returned h' \<and>
    gm_var (hn_mem h') 2 = Some [fill_variable demo_pb_variable] \<and>
    hn_tus_ctxs h' 1 = Some c' \<and> tc_result c' = Some 1"
proof -
  have "\<exists>h' c'. OnTusReply demo_tus_cfg 1 CmdTusGetMultiSlotVariable 9 NoError [0, 0, 0, 0] demo_tus_handler = Returned h' \<and>
    gm_var (hn_mem h') 2 = Some (map fill_variable (take 1 [demo_pb_variable]) @ drop 1 [zero_variable]) \<and>
    hn_tus_ctxs h' 1 = Some c' \<and> tc_result c' = Some (to_s32 (int 1))"
    by (rule variables_reply_spec [where p = demo_tus_pending and c = "\<lparr>tc_result = None\<rparr>" and total_num = 0])
      (simp_all add: demo_tus_handler_def demo_tus_pending_def new_tus_pending_def demo_tus_cfg_def parse_tus_body_def
        empty_blob)
  then show ?thesis by (simp add: to_s32_def)
qed

section \<open>Online ids in replies\<close>

text \<open>
  The plain and the cross-save structures of a reply carry online ids of at most fifteen
  characters: a shorter name is read back as it was sent, and a name of sixteen characters, the
  length that online ids may have, comes back without its last character. The structures of the
  new interface carry all sixteen.
\<close>

theorem CopyNpHandle_roundtrip:
  assumes "length npid \<le> 16" and "0 \<notin> set npid"
  shows "OnlineIdFromNpId (CopyNpHandle npid) = take 15 npid \<and> OnlineIdToString (online_id_of npid) = npid"
proof -
  have z: "oid_data zero_online_id = replicate 16 0" "handle zero_np_id = zero_online_id"
    by (simp_all add: zero_online_id_def zero_np_id_def)
  have str: "takeWhile (\<lambda>b. b \<noteq> 0) (take 16 (s @ replicate (16 - length s) 0)) = s"
    if "length s \<le> 16" "0 \<notin> set s" for s :: bytes
    using that by (auto simp: takeWhile_app_zeros takeWhile_eq_all_conv)
  have ov: "overlay s (replicate 16 0) = s @ replicate (16 - length s) 0" if "length s \<le> 16" for s :: bytes
    using that by (simp add: overlay_def)
  have t: "length (take 15 npid) \<le> 16" "0 \<notin> set (take 15 npid)" using assms by (auto dest: in_set_takeD)
  have "OnlineIdFromNpId (CopyNpHandle npid) = take 15 npid"
    using str [OF t] by (simp add: OnlineIdFromNpId_def OnlineIdToString_def CopyNpHandle_def z ov [OF t(1)])
  moreover have "OnlineIdToString (online_id_of npid) = npid"
    using str [OF assms] by (simp add: OnlineIdToString_def online_id_of_def z ov [OF assms(1)])
  ultimately show ?thesis ..
qed

theorem CopyNpHandle_roundtrip_witness:
  "OnlineIdFromNpId (CopyNpHandle (replicate 16 65)) = replicate 15 65"
  using CopyNpHandle_roundtrip [of "replicate 16 65"] by simp

text \<open>The size in the information of a status is the size the server sent, above its buffer too.\<close>

lemma data_info_size: "di_size (data_info info) = of_nat (length info)" "length (di_data (data_info info)) = 384"
  by (simp_all add: data_info_def zero_info_def)

end
