(* ===== verification/ShadNetProps.thy ===== *)
theory ShadNetProps
  imports ShadNetReader
begin

text \<open>
  Properties of the shadNet client: the reader thread refines a list of packets, the hand-written
  codec of push events round-trips, a length with the top bit set is read out of bounds, and the
  retry loop is bounded but leaks what a failed name resolution has opened.
\<close>

section \<open>Framing\<close>

text \<open>A packet as the server writes it: type, command, id, payload.\<close>

type_synonym Frame = "u8 \<times> u16 \<times> u64 \<times> bytes"

definition frame :: "Frame \<Rightarrow> bytes" where
  "frame = (\<lambda>(ty, cmd, i, payload).
     ty # PutLE16 cmd @ PutLE32 (of_nat (SHAD_HEADER_SIZE + length payload)) @ PutLE64 i @ payload)"

definition frame_ok :: "Frame \<Rightarrow> bool" where
  "frame_ok = (\<lambda>(ty, cmd, i, payload). SHAD_HEADER_SIZE + length payload \<le> 0x800000)"

lemma BuildPacket_frame: "BuildPacket cmd i payload = frame (packet_type_raw Request, cmd, i, payload)"
  by (simp add: BuildPacket_def frame_def)

text \<open>
  The abstract reader: the packets are dispatched one by one, as long as the socket is open;
  \<open>tail\<close> is the beginning of a packet that the connection cut off.
\<close>

fun read_packets :: "ProtoOps \<Rightarrow> bytes \<Rightarrow> Frame list \<Rightarrow> ShadNetClient \<Rightarrow> ShadNetClient outcome" where
  "read_packets ops tail [] c = Returned (reader_end (if cl_sock c = -1 then c else c\<lparr>cl_rx := []\<rparr>))"
| "read_packets ops tail ((ty, cmd, i, payload) # ps) c =
     (if cl_sock c = -1 then Returned (reader_end c)
      else bind_outcome (DispatchPacket ops ty cmd i payload (c\<lparr>cl_rx := concat (map frame ps) @ tail\<rparr>))
             (read_packets ops tail ps))"

lemma header_fields:
  assumes "hdr = ty # PutLE16 cmd @ PutLE32 n @ PutLE64 i"
  shows "length hdr = 15" "hd hdr = ty" "GetLE16 1 hdr = cmd" "GetLE32 3 hdr = n" "GetLE64 7 hdr = i"
  unfolding assms GetLE16_def GetLE32_def GetLE64_def PutLE16_def PutLE32_def PutLE64_def
  by (simp_all add: mem_slice_def numeral_eq_Suc del: le_bytes.simps)

lemma RecvN_app:
  "n = length x \<Longrightarrow> cl_rx c = x @ rest \<Longrightarrow> cl_sock c \<noteq> -1 \<Longrightarrow> \<not> cl_terminate c \<Longrightarrow>
   RecvN n c = (Some x, c\<lparr>cl_rx := rest\<rparr>)"
  by (auto simp: RecvN_def)

lemma reader_turn_frame:
  assumes "frame_ok (ty, cmd, i, payload)" and rx: "cl_rx c = frame (ty, cmd, i, payload) @ rest"
    and c: "cl_sock c \<noteq> -1" "\<not> cl_terminate c"
  shows "reader_turn ops c = (Some (DispatchPacket ops ty cmd i payload (c\<lparr>cl_rx := rest\<rparr>)), c\<lparr>cl_rx := rest\<rparr>)"
proof -
  let ?n = "of_nat (SHAD_HEADER_SIZE + length payload) :: u32"
  define hdr where "hdr = ty # PutLE16 cmd @ PutLE32 ?n @ PutLE64 i"
  note hf = header_fields [OF hdr_def]
  have "SHAD_HEADER_SIZE + length payload \<le> 0x800000" using assms(1) by (simp add: frame_ok_def)
  then have n: "unat ?n = SHAD_HEADER_SIZE + length payload"
    by (subst unsigned_of_nat, subst take_bit_nat_eq_self) simp_all
  then have big: "\<not> ?n > SHAD_MAX_PACKET_SIZE"
    using \<open>SHAD_HEADER_SIZE + length payload \<le> 0x800000\<close> by (simp add: word_less_nat_alt del: of_nat_add)
  have rx': "cl_rx c = hdr @ payload @ rest" using rx by (simp add: frame_def hdr_def)
  have r1: "RecvN SHAD_HEADER_SIZE c = (Some hdr, c\<lparr>cl_rx := payload @ rest\<rparr>)"
    by (rule RecvN_app) (use rx' c hf in simp_all)
  have r2: "RecvN (length payload) (c\<lparr>cl_rx := payload @ rest\<rparr>) = (Some payload, c\<lparr>cl_rx := rest\<rparr>)"
    using RecvN_app [of "length payload" payload "c\<lparr>cl_rx := payload @ rest\<rparr>" rest] c by simp
  show ?thesis
    unfolding reader_turn_def r1 using n big r2 by (simp add: Let_def hf del: of_nat_add One_nat_def)
qed

text \<open>Nothing that a packet triggers sets the flag that stops the thread.\<close>

lemma notify_terminate [simp]: "cl_terminate (notify e c) = cl_terminate c"
  by (simp add: notify_def)

lemma SubmitRequest_terminate [simp]: "cl_terminate (snd (SubmitRequest cmd p c)) = cl_terminate c"
  by (simp add: SubmitRequest_def Let_def)

lemma DoDisconnect_terminate [simp]: "cl_terminate (DoDisconnect c) = cl_terminate c"
  by (simp add: DoDisconnect_def)

lemma DispatchPacket_terminate:
  "DispatchPacket ops ty cmd i payload c = Returned c' \<Longrightarrow> cl_terminate c' = cl_terminate c"
  by (auto simp: DispatchPacket_def HandleLoginReply_def HandleGetTokenReply_def HandleServerFeaturesReply_def
      HandleNotification_def RequestServerFeatures_def ReportClientVersion_def submit_proto_def opt_notify_def
      login_failed_def login_accepted_def Let_def returned_iff split: if_splits option.splits)


text \<open>Two replies that go to the asynchronous callback, and the beginning of a third.\<close>

definition demo_ops :: ProtoOps where
  "demo_ops = \<lparr>po_serialise = (\<lambda>_. []), po_login = (\<lambda>_. None), po_token = (\<lambda>_. None),
     po_features = (\<lambda>_. None), po_friend_query = (\<lambda>_. None), po_friend_new = (\<lambda>_. None),
     po_friend_lost = (\<lambda>_. None), po_friend_status = (\<lambda>_. None), po_room_event = (\<lambda>_. None),
     po_room_message = (\<lambda>_. None), po_service_unavailable = (\<lambda>_. None), po_client_rejected = (\<lambda>_. None),
     po_title_id = [], po_title_name = [], po_version = []\<rparr>"

definition demo_client :: ShadNetClient where
  "demo_client = new_client\<lparr>cl_sock := 5, cl_handlers := (\<lambda>_. True),
     cl_rx := concat (map frame [(1, 42, 7, [0, 9]), (1, 200, 8, [])]) @ [1, 42]\<rparr>"


section \<open>Blobs\<close>

definition enc_blob :: "bytes \<Rightarrow> bytes" where
  "enc_blob b = PutLE32 (of_nat (length b)) @ b"

lemma MakeProtoPayload_blob: "MakeProtoPayload b = enc_blob b"
  by (simp add: MakeProtoPayload_def enc_blob_def)

lemma to_s32_nat: "n < 2 ^ 31 \<Longrightarrow> to_s32 (int n) = int n"
  by (simp add: to_s32_id)

lemma uint_of_nat_s32: "n < 2 ^ 31 \<Longrightarrow> to_s32 (uint (of_nat n :: u32)) = int n"
proof -
  assume "n < 2 ^ 31"
  then have "uint (of_nat n :: u32) = int n"
    by (simp add: unsigned_of_nat take_bit_nat_eq_self flip: uint_nat)
  then show "to_s32 (uint (of_nat n :: u32)) = int n" using \<open>n < 2 ^ 31\<close> by (simp add: to_s32_id)
qed

lemma GetLE_at:
  "drop off p = PutLE32 w @ rest \<Longrightarrow> GetLE32 off p = w"
  "drop off p = PutLE64 w' @ rest \<Longrightarrow> GetLE64 off p = w'"
  by (simp_all add: GetLE32_def GetLE64_def PutLE32_def PutLE64_def mem_slice_def)

lemma ExtractBlob_at:
  assumes d: "drop off p = enc_blob b @ rest" and off: "off \<le> length p" and len: "length p < 2 ^ 31"
  shows "ExtractBlob p (int off) = Returned b"
proof -
  have fit: "off + 4 + length b \<le> length p"
    using drop_past [OF d off] by (simp add: enc_blob_def PutLE32_def)
  have d4: "drop (off + 4) p = b @ rest"
    using drop_past [OF d [unfolded enc_blob_def append.assoc] off] by (simp add: PutLE32_def)
  have g: "GetLE32 off p = of_nat (length b)" using GetLE_at(1) d by (simp add: enc_blob_def)
  have s: "to_s32 (uint (of_nat (length b) :: u32)) = int (length b)"
    by (rule uint_of_nat_s32) (use fit len in linarith)
  have u: "unat (of_nat (length b) :: u32) = length b"
    using fit len by (subst unsigned_of_nat, subst take_bit_nat_eq_self) simp_all
  have r: "read_mem p (off + 4) (length b) = Returned b"
    by (rule read_mem_at [OF d4]) (use fit in simp_all)
  have n: "nat (int off + 4) = off + 4" by simp
  show ?thesis
    using fit r by (simp add: ExtractBlob_def to_s32_nat [OF len] g s u n Let_def)
qed

lemma blob_step:
  assumes d: "drop off p = enc_blob b @ rest" and off: "off \<le> length p" and len: "length p < 2 ^ 31"
  shows "ExtractBlob p (int off) = Returned b \<and> drop (off + (4 + length b)) p = rest \<and> off + (4 + length b) \<le> length p"
  using ExtractBlob_at [OF assms] drop_past [OF d off] by (simp add: enc_blob_def PutLE32_def)

text \<open>A push event as the server writes it.\<close>

definition enc_pair :: "bytes \<times> bytes \<Rightarrow> bytes" where
  "enc_pair = (\<lambda>(k, v). enc_blob k @ enc_blob v)"

definition enc_push_event :: "NotifyWebApiPushEvent \<Rightarrow> bytes" where
  "enc_push_event e = enc_blob (wp_np_service_name e) @ PutLE32 (wp_np_service_label e) @ enc_blob (wp_data_type e) @
     enc_blob (wp_data e) @ enc_blob (wp_from_npid e) @ enc_blob (wp_to_npid e) @
     PutLE32 (of_nat (length (wp_extd_data e))) @ concat (map enc_pair (wp_extd_data e)) @
     PutLE64 (wp_from_account_id e) @ PutLE64 (wp_to_account_id e)"

lemma read_extd_at:
  assumes "drop off p = concat (map enc_pair xs) @ rest" and "off \<le> length p" and len: "length p < 2 ^ 31"
  shows "read_extd p (length xs) (int off) acc = Returned (int (off + length (concat (map enc_pair xs))), acc @ xs, True)"
  using assms(1,2)
proof (induction xs arbitrary: off acc)
  case Nil
  then show ?case by simp
next
  case (Cons x xs)
  obtain k v where x: "x = (k, v)" by (cases x)
  have d: "drop off p = enc_blob k @ enc_blob v @ concat (map enc_pair xs) @ rest"
    using Cons.prems(1) x by (simp add: enc_pair_def)
  note b1 = blob_step [OF d Cons.prems(2) len]
  note b2 = blob_step [OF b1 [THEN conjunct2, THEN conjunct1] b1 [THEN conjunct2, THEN conjunct2] len]
  define off2 where "off2 = off + (4 + length k) + (4 + length v)"
  have i: "int off + 4 + int (length k) = int (off + (4 + length k))"
    "int (off + (4 + length k)) + 4 + int (length v) = int off2" by (simp_all add: off2_def)
  have fit: "\<not> int off + 4 > int (length p)" "\<not> int (off + (4 + length k)) + 4 > int (length p)"
    using b1 b2 by linarith+
  have ih: "read_extd p (length xs) (int off2) (acc @ [(k, v)]) =
      Returned (int (off2 + length (concat (map enc_pair xs))), (acc @ [(k, v)]) @ xs, True)"
    by (rule Cons.IH) (use b2 in \<open>simp_all add: off2_def\<close>)
  have "off + length (concat (map enc_pair (x # xs))) = off2 + length (concat (map enc_pair xs))"
    by (simp add: x enc_pair_def enc_blob_def PutLE32_def off2_def)
  then show ?case
    using ih b1 b2 x by (simp only: read_extd.simps list.size to_s32_nat [OF len] i fit Let_def if_False
        bind_outcome.simps add_Suc_right add_0_right append.assoc append_Cons append_Nil)
qed

lemma label_step:
  "drop off p = PutLE32 w @ rest \<Longrightarrow> off \<le> length p \<Longrightarrow>
   GetLE32 off p = w \<and> drop (off + 4) p = rest \<and> off + 4 \<le> length p"
  using drop_past [of off p "PutLE32 w" rest] by (simp add: GetLE_at PutLE32_def)

text \<open>
  Claim C10. A push event of the server is read as it was written: for every event with at most 256
  extended entries whose image is shorter than 2 GiB, the parser returns the event, with all its
  fields.
\<close>

theorem push_event_roundtrip:
  assumes len: "length (enc_push_event e) < 2 ^ 31" and n: "length (wp_extd_data e) \<le> 256"
  shows "parse_push_event (enc_push_event e) = Returned e"
proof -
  let ?p = "enc_push_event e"
  define o1 where "o1 = 4 + length (wp_np_service_name e)"
  define o2 where "o2 = o1 + 4"
  define o3 where "o3 = o2 + (4 + length (wp_data_type e))"
  define o4 where "o4 = o3 + (4 + length (wp_data e))"
  define o5 where "o5 = o4 + (4 + length (wp_from_npid e))"
  define o6 where "o6 = o5 + (4 + length (wp_to_npid e))"
  define o7 where "o7 = o6 + 4"
  define o8 where "o8 = o7 + length (concat (map enc_pair (wp_extd_data e)))"
  have d0: "drop 0 ?p = ?p" by simp
  note b0 = blob_step [OF d0 [unfolded enc_push_event_def] _ len [unfolded enc_push_event_def],
      folded enc_push_event_def, simplified, folded o1_def]
  note l1 = label_step [OF b0 [THEN conjunct2, THEN conjunct1] b0 [THEN conjunct2, THEN conjunct2], folded o2_def]
  note b2 = blob_step [OF l1 [THEN conjunct2, THEN conjunct1] l1 [THEN conjunct2, THEN conjunct2] len, folded o3_def]
  note b3 = blob_step [OF b2 [THEN conjunct2, THEN conjunct1] b2 [THEN conjunct2, THEN conjunct2] len, folded o4_def]
  note b4 = blob_step [OF b3 [THEN conjunct2, THEN conjunct1] b3 [THEN conjunct2, THEN conjunct2] len, folded o5_def]
  note b5 = blob_step [OF b4 [THEN conjunct2, THEN conjunct1] b4 [THEN conjunct2, THEN conjunct2] len, folded o6_def]
  note l6 = label_step [OF b5 [THEN conjunct2, THEN conjunct1] b5 [THEN conjunct2, THEN conjunct2], folded o7_def]
  note x7 = read_extd_at [OF l6 [THEN conjunct2, THEN conjunct1] l6 [THEN conjunct2, THEN conjunct2] len, of "[]", folded o8_def]
  have d8: "drop o8 ?p = PutLE64 (wp_from_account_id e) @ PutLE64 (wp_to_account_id e) \<and> o8 \<le> length ?p"
    using drop_past [OF l6 [THEN conjunct2, THEN conjunct1] l6 [THEN conjunct2, THEN conjunct2]] by (simp add: o8_def)
  then have d9: "drop (o8 + 8) ?p = PutLE64 (wp_to_account_id e) @ [] \<and> o8 + 16 \<le> length ?p"
    using drop_past [of o8 ?p "PutLE64 (wp_from_account_id e)"] arg_cong [of _ _ length]
    by (fastforce simp: PutLE64_def dest: arg_cong [of _ _ length])
  have c: "unat (min (of_nat (length (wp_extd_data e)) :: u32) 256) = length (wp_extd_data e)"
    "(of_nat (length (wp_extd_data e)) :: u32) \<le> 256"
  proof -
    have u: "unat (of_nat (length (wp_extd_data e)) :: u32) = length (wp_extd_data e)"
      using n by (subst unsigned_of_nat, subst take_bit_nat_eq_self) simp_all
    then show "(of_nat (length (wp_extd_data e)) :: u32) \<le> 256" using n by (simp add: word_le_nat_alt)
    then show "unat (min (of_nat (length (wp_extd_data e)) :: u32) 256) = length (wp_extd_data e)"
      using u by (simp add: min_def)
  qed
  have i: "4 + int (length (wp_np_service_name e)) = int o1" "int o1 + 4 = int o2"
    "int o2 + 4 + int (length (wp_data_type e)) = int o3" "int o3 + 4 + int (length (wp_data e)) = int o4"
    "int o4 + 4 + int (length (wp_from_npid e)) = int o5" "int o5 + 4 + int (length (wp_to_npid e)) = int o6"
    "int o6 + 4 = int o7" "int o8 + 8 = int (o8 + 8)" "int o8 + 16 = int (o8 + 16)"
    by (simp_all add: o1_def o2_def o3_def o4_def o5_def o6_def o7_def)
  have fits: "o2 \<le> length ?p" "o7 \<le> length ?p" using l1 l6 by simp_all
  have fa: "GetLE64 o8 ?p = wp_from_account_id e" "GetLE64 (o8 + 8) ?p = wp_to_account_id e"
    using GetLE_at(2) d8 d9 by blast+
  have eqs: "min (GetLE32 o6 ?p) 256 = min (of_nat (length (wp_extd_data e))) 256" "GetLE32 o6 ?p \<le> 256"
    "o2 \<le> length ?p" "o7 \<le> length ?p" "o8 + 16 \<le> length ?p" "GetLE32 o1 ?p = wp_np_service_label e"
    using l1 l6 c d9 by simp_all
  have "parse_push_event ?p = Returned (zero_push_event\<lparr>wp_np_service_name := wp_np_service_name e,
      wp_np_service_label := wp_np_service_label e, wp_data_type := wp_data_type e, wp_data := wp_data e,
      wp_from_npid := wp_from_npid e, wp_to_npid := wp_to_npid e, wp_extd_data := wp_extd_data e,
      wp_from_account_id := wp_from_account_id e, wp_to_account_id := wp_to_account_id e\<rparr>)"
    unfolding parse_push_event_def read_extd_section_def
    by (simp only: Let_def to_s32_nat [OF len] b0 [THEN conjunct1] b2 [THEN conjunct1] b3 [THEN conjunct1]
        b4 [THEN conjunct1] b5 [THEN conjunct1] x7 bind_outcome.simps prod.case i nat_int of_nat_le_iff
        eqs c fa if_True simp_thms append_Nil)
  then show ?thesis by (simp add: zero_push_event_def)
qed

lemma push_event_roundtrip_witness:
  "parse_push_event (enc_push_event (zero_push_event\<lparr>wp_np_service_name := [1, 2], wp_np_service_label := 3,
     wp_extd_data := [([4], []), ([5, 6], [7])], wp_to_account_id := 8\<rparr>)) =
   Returned (zero_push_event\<lparr>wp_np_service_name := [1, 2], wp_np_service_label := 3,
     wp_extd_data := [([4], []), ([5, 6], [7])], wp_to_account_id := 8\<rparr>)"
  by (rule push_event_roundtrip) (simp_all add: zero_push_event_def enc_push_event_def enc_blob_def enc_pair_def PutLE32_def PutLE64_def)

text \<open>
  The length of a blob is trusted when its top bit is set: a notification whose first
  length is 2 GiB or more, however short the packet is, makes the reader thread read outside the
  packet.
\<close>

theorem huge_blob_out_of_bounds:
  assumes "cl_rx c = frame (packet_type_raw Notification, cmd, i, PutLE32 n @ body) @ rest"
    and "length body \<le> 0x800000 - 19" and "0x80000000 \<le> n" and "cl_sock c \<noteq> -1" and "\<not> cl_terminate c"
  shows "reader_loop ops c = OutOfBounds"
proof -
  let ?p = "PutLE32 n @ body"
  have ok: "frame_ok (packet_type_raw Notification, cmd, i, ?p)"
    using assms(2) by (simp add: frame_ok_def PutLE32_def)
  have len: "length ?p < 2 ^ 31" using assms(2) by (simp add: PutLE32_def)
  have g: "GetLE32 0 ?p = n" by (rule GetLE_at(1)) simp
  have n: "2 ^ 31 \<le> uint n" using assms(3) by (simp add: word_le_def)
  have lt: "uint n < 2 ^ 32" using unsigned_less [of n] by simp
  have "uint n div 2 ^ 31 = 1" using n lt by simp
  then have "bit (uint n) 31" by (simp add: bit_iff_odd)
  then have neg: "to_s32 (uint n) < 0"
    using lt by (simp add: to_s32_def sint_uint signed_take_bit_eq_take_bit_minus take_bit_int_eq_self)
  have "2 ^ 31 \<le> unat n" using assms(3) by (simp add: word_le_nat_alt)
  then have "\<not> 4 + unat n \<le> length ?p" using len by linarith
  moreover have l4: "length ?p = 4 + length body" by (simp add: PutLE32_def)
  ultimately have "\<not> unat n \<le> length body" by simp
  then have "ExtractBlob ?p 0 = OutOfBounds"
    using neg l4 unfolding ExtractBlob_def to_s32_nat [OF len] by (simp add: g Let_def read_mem_def)
  then have "DispatchPacket ops (packet_type_raw Notification) cmd i ?p c' = OutOfBounds" for c'
    by (simp add: DispatchPacket_def HandleNotification_def)
  then show ?thesis
    using reader_turn_frame [OF ok assms(1) assms(4,5)] assms(5)
    by (subst reader_loop.simps) simp
qed

lemma huge_blob_out_of_bounds_witness:
  "reader_loop demo_ops (new_client\<lparr>cl_sock := 5,
     cl_rx := frame (packet_type_raw Notification, 5, 0, PutLE32 0x80000000 @ [])\<rparr>) = OutOfBounds"
  by (rule huge_blob_out_of_bounds [where rest = "[]" and body = "[]"]) (simp_all add: new_client_def, (rule order_refl)?)

section \<open>Connecting\<close>

lemma open_socket_terminate: "cl_terminate (snd (open_socket env c)) = cl_terminate c"
  by (simp add: open_socket_def server_info_def RecvN_def Let_def split: prod.splits option.splits)

lemma DoConnect_terminate: "cl_terminate (snd (DoConnect env c)) = cl_terminate c"
  by (simp add: DoConnect_def Let_def open_socket_terminate)

text \<open>The sleep before attempt \<open>n\<close>: 1, 2 and 4 seconds.\<close>

lemma connect_loop_slept:
  "connect_loop env attempt backoff slept c = (ok, slept', c') \<Longrightarrow>
   slept' \<le> slept + (if attempt \<le> 4 then backoff * (2 ^ (4 - attempt) - 1) else 0)"
proof (induction env attempt backoff slept c rule: connect_loop.induct)
  case (1 env attempt backoff slept c)
  show ?case
  proof (cases "attempt > SHAD_CONNECT_MAX_ATTEMPTS \<or> cl_terminate c")
    case True
    then show ?thesis using "1.prems" by (subst (asm) connect_loop.simps) (auto split: if_splits)
  next
    case False
    obtain o1 c1 where d: "DoConnect (env attempt) c = (o1, c1)" by (cases "DoConnect (env attempt) c")
    show ?thesis
    proof (cases "o1 \<or> cl_state c1 = FailureProtocol \<or> cl_terminate c1 \<or> attempt = SHAD_CONNECT_MAX_ATTEMPTS")
      case True
      then show ?thesis using "1.prems" False d by (subst (asm) connect_loop.simps) (auto split: if_splits)
    next
      case go: False
      have eq: "connect_loop env (attempt + 1) (min (backoff * 2) 8000) (slept + backoff) c1 = (ok, slept', c')"
        using "1.prems" False go d by (subst (asm) connect_loop.simps) (simp split: if_splits)
      have ih: "slept' \<le> slept + backoff + min (backoff * 2) 8000 * (2 ^ (4 - (attempt + 1)) - 1)"
        using "1.IH" [OF False d [symmetric] refl _ _ _ eq] False go by (auto simp: d)
      obtain k where k: "4 - attempt = Suc k" "4 - (attempt + 1) = k" using False go
        by (metis SHAD_CONNECT_MAX_ATTEMPTS_def Suc_diff_Suc add.commute plus_1_eq_Suc linorder_neqE_nat)
      have "min (backoff * 2) 8000 * (2 ^ k - 1) \<le> backoff * 2 * (2 ^ k - 1)" by (rule mult_right_mono) simp_all
      moreover have "backoff + backoff * 2 * (2 ^ k - 1) = backoff * (2 ^ Suc k - 1)"
        by (cases "(2::nat) ^ k") (simp_all add: algebra_simps)
      ultimately have "slept' \<le> slept + backoff * (2 ^ Suc k - 1)" using ih unfolding k by linarith
      then show ?thesis using k False by simp
    qed
  qed
qed

text \<open>
  Connecting ends: whatever the network does, starting a client sleeps at most seven
  seconds between its attempts, and who waits for the connection is woken.
\<close>

theorem StartClient_wakes_waiters:
  "case StartClient ops env login_sent npid password token c of (slept, c') \<Rightarrow>
     slept \<le> 7000 \<and> WaitForConnection c' \<noteq> None"
proof -
  obtain ok slept c1 where l: "connect_loop env 1 1000 0
      (c\<lparr>cl_npid := npid, cl_password := password, cl_token := token, cl_terminate := False\<rparr>) = (ok, slept, c1)"
    using prod_cases3 by blast
  from connect_loop_slept [OF l] have "slept \<le> 7000" by simp
  then show ?thesis using l
    by (auto simp: StartClient_def ConnectThread_def WaitForConnection_def Let_def simp del: One_nat_def)
qed

lemma DoConnect_unresolved:
  assumes "0 \<le> ce_pool env" and "0 \<le> ce_resolver env" and "ce_ntoa env \<noteq> 0"
  shows "DoConnect env c = (False, c\<lparr>cl_state := FailureConnect, cl_pools := cl_pools c + 1, cl_resolvers := cl_resolvers c + 1\<rparr>)"
  using assms by (simp add: DoConnect_def Let_def)

text \<open>
  A failed name resolution leaks: when the name of the server does not resolve, a start
  makes its four attempts and leaves four network pools and four resolvers behind.
\<close>

theorem unresolved_name_leaks:
  assumes "\<forall>k. 0 \<le> ce_pool (env k) \<and> 0 \<le> ce_resolver (env k) \<and> ce_ntoa (env k) \<noteq> 0"
  shows "case StartClient ops env login_sent npid password token c of (slept, c') \<Rightarrow>
    slept = 7000 \<and> cl_pools c' = cl_pools c + 4 \<and> cl_resolvers c' = cl_resolvers c + 4 \<and>
    cl_state c' = FailureConnect \<and> cl_sem_connected c' \<and> cl_sem_authenticated c'"
proof -
  have d: "DoConnect (env k) c = (False, c\<lparr>cl_state := FailureConnect, cl_pools := cl_pools c + 1,
      cl_resolvers := cl_resolvers c + 1\<rparr>)" for k c
    using assms DoConnect_unresolved by blast
  have l: "connect_loop env n b s c = connect_loop env (n + 1) (min (b * 2) 8000) (s + b)
      (c\<lparr>cl_state := FailureConnect, cl_pools := cl_pools c + 1, cl_resolvers := cl_resolvers c + 1\<rparr>)"
    if "n < 4" "\<not> cl_terminate c" for n b s c
    using that by (subst connect_loop.simps) (simp add: d)
  have l4: "connect_loop env 4 b s c =
      (False, s, c\<lparr>cl_state := FailureConnect, cl_pools := cl_pools c + 1, cl_resolvers := cl_resolvers c + 1\<rparr>)"
    if "\<not> cl_terminate c" for b s c
    using that by (subst connect_loop.simps) (simp add: d)
  show ?thesis
    by (simp add: StartClient_def ConnectThread_def Let_def l l4 del: One_nat_def)
qed

definition unresolved_env :: ConnectEnv where
  "unresolved_env = \<lparr>ce_pool = 1, ce_resolver = 1, ce_ntoa = -1, ce_resolver_destroy = 0, ce_pool_destroy = 0,
     ce_socket = 5, ce_nbio = 0, ce_connect = 0, ce_einprogress = False, ce_select = 1, ce_so_error = 0,
     ce_sockname = None, ce_peername = None, ce_stream = []\<rparr>"

lemma unresolved_name_leaks_witness:
  "case StartClient demo_ops (\<lambda>_. unresolved_env) True [] [] [] new_client of (slept, c') \<Rightarrow>
    slept = 7000 \<and> cl_pools c' = cl_pools new_client + 4 \<and> cl_resolvers c' = cl_resolvers new_client + 4 \<and>
    cl_state c' = FailureConnect \<and> cl_sem_connected c' \<and> cl_sem_authenticated c'"
  by (rule unresolved_name_leaks) (simp add: unresolved_env_def)

section \<open>Logging in\<close>

text \<open>
  A login reply settles the login, except an empty one: a reply with a parsable body
  authenticates the client and asks for its token; every other non-empty reply closes the
  connection and wakes the waiter with the failure it names; an empty reply changes nothing but
  calls the callback, so that who waits for the login goes on waiting.
\<close>

theorem login_reply_outcome:
  assumes "HandleLoginReply ops payload c = Returned c'" and "\<not> cl_authenticated c"
  shows "if payload = [] then c' = notify (LoginEv zero_login_result) c \<and>
      (WaitForAuthenticated c' = None \<longleftrightarrow> WaitForAuthenticated c = None)
    else if cl_authenticated c' then hd payload = NoError \<and> WaitForAuthenticated c' = Some (StOk, c') \<and>
      cl_send_queue c' = cl_send_queue c @ [BuildPacket CmdGetToken (cl_pkt_counter c) []]
    else cl_sock c' = -1 \<and> (\<exists>c''. WaitForAuthenticated c' =
      Some (if hd payload = NoError then FailureProtocol else login_failure_state (hd payload), c''))"
  using assms
  by (auto simp: HandleLoginReply_def Let_def returned_iff notify_def login_failed_def login_accepted_def
      SubmitRequest_def DoDisconnect_def WaitForAuthenticated_def split: if_splits option.splits)

lemma login_reply_outcome_witness:
  "case HandleLoginReply demo_ops [8] (new_client\<lparr>cl_sock := 5\<rparr>) of
     Returned c' \<Rightarrow> cl_sock c' = -1 \<and> (\<exists>c''. WaitForAuthenticated c' = Some (FailurePassword, c''))
   | _ \<Rightarrow> False"
proof -
  obtain c' where c: "HandleLoginReply demo_ops [8] (new_client\<lparr>cl_sock := 5\<rparr>) = Returned c'" "\<not> cl_authenticated c'"
    by (auto simp: HandleLoginReply_def Let_def notify_def login_failed_def DoDisconnect_def new_client_def)
  then show ?thesis
    using login_reply_outcome [OF c(1)] by (simp add: new_client_def login_failure_state_def)
qed

end
