(* ===== verification/HandlerConnectProps.thy ===== *)
theory HandlerConnectProps
  imports HandlerFrame HandlerTusProps ShadNetProps
begin

text \<open>The properties of connecting, signing out and reconnecting.\<close>

section \<open>Signing out\<close>

lemma fold_list_set_nonempty: "as \<noteq> [] \<Longrightarrow> fold f as m = fold f (tl as) (f (hd as) m)"
  by (cases as) simp_all

text \<open>
  Claim C14. Signing out completes every pending request of the user, with the error for being signed
  out unless it had a result: score, storage and authorization requests of the user leave their
  tables, exactly their contexts are set, and those of other users are untouched; the user has no
  client and no friend list any more, and every registered callback is told, once and in order.
\<close>

theorem DisconnectUser_completes:
  assumes "map_of (hn_clients h) u = Some client" and "h' = DisconnectUser u h"
  shows "map_of (hn_clients h') = (map_of (hn_clients h))(u := None) \<and>
    map_of (hn_friend_states h') u = None \<and>
    hn_pending_score h' = filter (\<lambda>(k, p). qs_user_id p \<noteq> u) (hn_pending_score h) \<and>
    hn_pending_tus h' = filter (\<lambda>(k, p). qt_user_id p \<noteq> u) (hn_pending_tus h) \<and>
    hn_pending_auth h' = filter (\<lambda>(k, p). qa_user_id p \<noteq> u) (hn_pending_auth h) \<and>
    (\<forall>a. hn_score_ctxs h' a =
       (if \<exists>k p. (k, p) \<in> set (hn_pending_score h) \<and> qs_user_id p = u \<and> qs_req p = Some a
        then map_option (ScoreSetResult ORBIS_NP_ERROR_SIGNED_OUT) (hn_score_ctxs h a) else hn_score_ctxs h a)) \<and>
    (\<forall>a. hn_tus_ctxs h' a =
       (if \<exists>k p. (k, p) \<in> set (hn_pending_tus h) \<and> qt_user_id p = u \<and> qt_req p = Some a
        then map_option (TusSetResult ORBIS_NP_ERROR_SIGNED_OUT) (hn_tus_ctxs h a) else hn_tus_ctxs h a)) \<and>
    (\<forall>a. hn_auth_ctxs h' a =
       (if \<exists>k p. (k, p) \<in> set (hn_pending_auth h) \<and> qa_user_id p = u \<and> qa_req p = Some a
        then map_option (AuthSetResult ORBIS_NP_ERROR_SIGNED_OUT) (hn_auth_ctxs h a) else hn_auth_ctxs h a)) \<and>
    hn_calls h' = hn_calls h @ state_calls u SignedOut (hn_state_cbs h)"
  unfolding assms(2) DisconnectUser_def assms(1) option.case Let_def FailPendingRequests_eq FireStateCallback_eq
  by (simp add: score_cell.fold_at_addr tus_cell.fold_at_addr auth_cell.fold_at_addr in_user_reqs map_of_omap_erase,
    blast)

theorem DisconnectUser_completes_witness:
  "hn_pending_score (DisconnectUser 1 demo_handler) = [] \<and>
   hn_score_ctxs (DisconnectUser 1 demo_handler) 1 =
     Some (ScoreSetResult ORBIS_NP_ERROR_SIGNED_OUT new_score_ctx)"
proof -
  have c: "map_of (hn_clients demo_handler) 1 = Some (new_client\<lparr>cl_authenticated := True, cl_pkt_counter := 8\<rparr>)"
    by (simp add: demo_handler_def)
  note spec = DisconnectUser_completes [OF c refl]
  have "\<exists>k p. (k, p) \<in> set (hn_pending_score demo_handler) \<and> qs_user_id p = 1 \<and> qs_req p = Some 1"
    by (simp add: demo_range_pending_def)
  then have "hn_score_ctxs (DisconnectUser 1 demo_handler) 1 =
      map_option (ScoreSetResult ORBIS_NP_ERROR_SIGNED_OUT) (hn_score_ctxs demo_handler 1)"
    using spec by presburger
  moreover have "hn_pending_score (DisconnectUser 1 demo_handler) = []"
    using spec by (simp add: demo_range_pending_def)
  ultimately show ?thesis by simp
qed

text \<open>
  The online id of a user stays registered when the user signs out: the lookups go on
  answering with it.
\<close>

theorem signed_out_still_found:
  assumes "map_of (hn_clients h) u = Some client" and "hn_np_ids h = [(u, np_id)]"
  shows "\<not> IsSignedIn u (OnUserLoggedOut u h) \<and> GetNpId u (OnUserLoggedOut u h) = np_id \<and>
    GetUserIdByOnlineId online_id (OnUserLoggedOut u h) = u"
proof -
  let ?h = "h\<lparr>hn_reconnects := AList.delete u (hn_reconnects h)\<rparr>"
  have c: "map_of (hn_clients ?h) u = Some client" using assms(1) by simp
  have ids: "hn_np_ids (DisconnectUser u ?h) = [(u, np_id)]"
    using c assms(2) by (simp add: DisconnectUser_def Let_def FailPendingRequests_eq FireStateCallback_eq)
  have "map_of (hn_clients (DisconnectUser u ?h)) u = None"
    using c by (simp add: DisconnectUser_def Let_def FailPendingRequests_eq FireStateCallback_eq map_of_omap_erase)
  then show ?thesis
    using ids by (simp add: OnUserLoggedOut_def IsSignedIn_def GetNpId_def GetUserIdByOnlineId_def at_or_def
        split: option.split)
qed

theorem signed_out_still_found_witness:
  "GetUserIdByOnlineId zero_online_id (OnUserLoggedOut 1 (demo_handler\<lparr>hn_np_ids := [(1, zero_np_id)]\<rparr>)) = 1"
  using signed_out_still_found [of "demo_handler\<lparr>hn_np_ids := [(1, zero_np_id)]\<rparr>" 1 _ zero_np_id zero_online_id]
  by (simp add: demo_handler_def)

section \<open>Signing in\<close>


section \<open>The login seen from the reader thread\<close>

lemma reader_step_frame:
  assumes "frame_ok (ty, cmd, i, payload)" and "cl_rx c = frame (ty, cmd, i, payload) @ rest"
    and "cl_sock c \<noteq> -1" and "\<not> cl_terminate c"
  shows "reader_step ops c = DispatchPacket ops ty cmd i payload (c\<lparr>cl_rx := rest\<rparr>)"
  using assms by (simp add: reader_step_def reader_turn_frame)

definition login_reply :: "u64 \<Rightarrow> bytes \<Rightarrow> Frame" where
  "login_reply i b = (packet_type_raw Reply, CmdLogin, i, NoError # enc_blob b)"

text \<open>An accepted login authenticates the client, and does not release who waits for it.\<close>

lemma login_step:
  assumes "frame_ok (login_reply i b)" and "cl_rx c = frame (login_reply i b) @ rest"
    and "cl_sock c \<noteq> -1" and "\<not> cl_terminate c" and "b \<noteq> []" and "po_login ops b = Some pb"
  shows "\<exists>c' evs. reader_step ops c = Returned c' \<and> cl_authenticated c' \<and> cl_rx c' = rest \<and>
    cl_sem_authenticated c' = cl_sem_authenticated c \<and> cl_sock c' = cl_sock c \<and> cl_terminate c' = cl_terminate c \<and>
    cl_reader c' = cl_reader c \<and> cl_state c' = cl_state c \<and> cl_matching2_enabled c' = cl_matching2_enabled c \<and>
    cl_events c' = cl_events c @ evs \<and> (\<forall>e \<in> set evs. \<exists>res. e = LoginEv res)"
proof -
  have len: "length (NoError # enc_blob b) < 2 ^ 31" using assms(1) by (simp add: login_reply_def frame_ok_def)
  have blob: "ExtractBlob (NoError # enc_blob b) 1 = Returned b"
    using ExtractBlob_at [of 1 "NoError # enc_blob b" b "[]"] len by simp
  have "reader_step ops c = HandleLoginReply ops (NoError # enc_blob b) (c\<lparr>cl_rx := rest\<rparr>)"
    using reader_step_frame [OF assms(1,2) [unfolded login_reply_def] assms(3,4)]
    by (simp add: DispatchPacket_def)
  also have "\<dots> = (let (res1, c1) = login_accepted pb (zero_login_result\<lparr>lr_error := NoError\<rparr>) (c\<lparr>cl_rx := rest\<rparr>)
      in Returned (notify (LoginEv res1) c1))"
    using assms(5,6) blob by (simp add: HandleLoginReply_def)
  finally show ?thesis
    by (simp add: login_accepted_def SubmitRequest_def Let_def notify_def)
qed

lemma reader_step_end:
  assumes "length (cl_rx c) < SHAD_HEADER_SIZE" and "cl_sock c \<noteq> -1" and "\<not> cl_terminate c"
  shows "reader_step ops c = Returned (reader_end (c\<lparr>cl_rx := []\<rparr>))"
  using assms by (simp add: reader_step_def reader_turn_def RecvN_def)


text \<open>The server accepts the login of the demo client, and is gone.\<close>

definition demo_login_ops :: ProtoOps where
  "demo_login_ops = demo_ops\<lparr>
     po_login := (\<lambda>_. Some \<lparr>pr_avatar_url = [], pr_user_id = 77, pr_friends = [], pr_friend_requests_sent = [],
       pr_friend_requests_received = [], pr_blocked = []\<rparr>)\<rparr>"


section \<open>Two logins that are taken for complete too early\<close>

lemma deliver_login_events:
  "\<forall>e \<in> set evs. \<exists>res. e = LoginEv res \<Longrightarrow> \<exists>h'. deliver_events cfg u evs h = Returned h'"
  by (induction evs arbitrary: h) auto

lemma state_calls_no_mm: "SetMmShadNetClient v b \<notin> set (state_calls u st cbs)"
  by (auto simp: state_calls_def)

lemma early_login:
  assumes "user_client cfg env u npid password = c" and "ue_first env = 0" and "ue_early env = 1"
    and "cl_state c = StOk" and "cl_events c = []" and "\<not> cl_matching2_enabled c" and "cl_reader c"
    and "frame_ok (login_reply i b)" and "cl_rx c = frame (login_reply i b) @ rest"
    and "cl_sock c \<noteq> -1" and "\<not> cl_terminate c" and "b \<noteq> []" and "po_login (hc_ops cfg) b = Some pb"
  shows "\<exists>h'. ConnectUser cfg env u npid password h = Returned (Some (True, h')) \<and>
    SetMmShadNetClient u False \<in> set (hn_calls h')"
proof -
  obtain c' evs where c': "reader_step (hc_ops cfg) c = Returned c'" "cl_authenticated c'" "cl_matching2_enabled c' = cl_matching2_enabled c"
    "cl_events c' = evs" "\<forall>e \<in> set evs. \<exists>res. e = LoginEv res"
    using login_step [OF assms(8-13)] assms(5) by (elim exE conjE) (erule that, simp_all)
  obtain h1 where h1: "deliver_events cfg u evs h = Returned h1" using deliver_login_events [OF c'(5)] by blast
  have "wait_for_login (hc_ops cfg) 1 c = Returned (Some (StOk, c'))"
    using c' assms(7) by (simp add: wait_for_login_def)
  then have "ConnectUser cfg env u npid password h = Returned (Some (True, user_signed_in u npid c' h1))"
    using assms c' h1 by (simp add: ConnectUser_def)
  moreover have "SetMmShadNetClient u False \<in> set (hn_calls (user_signed_in u npid c' h1))"
    using c'(3) assms(6) by (simp add: user_signed_in_def Let_def call_def FireStateCallback_eq)
  ultimately show ?thesis by blast
qed

text \<open>
  When the reply to the login is handled before the caller asks for it, the caller does not
  wait for the features of the server: the user is signed in and matching2 is handed the client
  with matching2 switched off, whatever the server is about to answer.
\<close>

theorem early_login_misses_features:
  assumes "user_client cfg env u npid password = c" and "ue_first env = 0" and "ue_early env = 1"
    and "cl_state c = StOk" and "cl_events c = []" and "\<not> cl_matching2_enabled c" and "cl_reader c"
    and "frame_ok (login_reply i b)" and "cl_rx c = frame (login_reply i b) @ rest"
    and "cl_sock c \<noteq> -1" and "\<not> cl_terminate c" and "b \<noteq> []" and "po_login (hc_ops cfg) b = Some pb"
  shows "\<exists>h'. ConnectUser cfg env u npid password h = Returned (Some (True, h')) \<and>
    SetMmShadNetClient u False \<in> set (hn_calls h')"
  by (rule early_login [OF assms])

text \<open>
  A reply about the features of the server releases who waits for the login, whether or not
  there was one: when it comes first, the user counts as signed in with a client that is not
  authenticated.
\<close>

theorem features_sign_in_without_login:
  assumes "user_client cfg env u npid password = c" and "ue_first env = 0" and "ue_early env = 0"
    and "cl_state c = StOk" and "cl_events c = []" and "cl_reader c"
    and "\<not> cl_authenticated c" and "\<not> cl_sem_authenticated c"
    and "frame_ok (packet_type_raw Reply, CmdGetServerFeatures, i, [])"
    and "cl_rx c = frame (packet_type_raw Reply, CmdGetServerFeatures, i, []) @ rest"
    and "cl_sock c \<noteq> -1" and "\<not> cl_terminate c"
  shows "\<exists>h'. ConnectUser cfg env u npid password h = Returned (Some (True, h')) \<and> \<not> IsSignedIn u h'"
proof -
  let ?c = "c\<lparr>cl_rx := rest\<rparr>"
  have "reader_step (hc_ops cfg) c = HandleServerFeaturesReply (hc_ops cfg) [] ?c"
    using reader_step_frame [OF assms(9-12)] by (simp add: DispatchPacket_def)
  then obtain c' where c': "reader_step (hc_ops cfg) c = Returned c'" "cl_sem_authenticated c'" "\<not> cl_authenticated c'"
    "cl_state c' = StOk" "cl_events c' = []"
    using assms(4,5,7) by (auto simp: HandleServerFeaturesReply_def ReportClientVersion_def submit_proto_def
        SubmitRequest_def Let_def)
  let ?d = "c'\<lparr>cl_sem_authenticated := False\<rparr>"
  have "acquire_authenticated (hc_ops cfg) c' = Returned (Some (StOk, ?d))"
    using c' by (subst acquire_authenticated.simps) simp
  then have "wait_for_login (hc_ops cfg) 0 c = Returned (Some (StOk, ?d))"
    using c' assms(6-8) by (simp add: wait_for_login_def acquire_authenticated.simps [of _ c])
  then have "ConnectUser cfg env u npid password h = Returned (Some (True, user_signed_in u npid ?d h))"
    using assms c' by (simp add: ConnectUser_def)
  moreover have "\<not> IsSignedIn u (user_signed_in u npid ?d h)"
    using c'(3) by (simp add: user_signed_in_def Let_def call_def FireStateCallback_eq IsSignedIn_def map_of_omap_put)
  ultimately show ?thesis by blast
qed

text \<open>The demo server: it sends its information, and then the packets \<open>ps\<close>.\<close>

definition demo_env :: "Frame list \<Rightarrow> nat \<Rightarrow> UserEnv" where
  "demo_env ps early = \<lparr>ue_connect = (\<lambda>_. \<lparr>ce_pool = 1, ce_resolver = 1, ce_ntoa = 0, ce_resolver_destroy = 0,
     ce_pool_destroy = 0, ce_socket = 5, ce_nbio = 0, ce_connect = 0, ce_einprogress = False, ce_select = 1,
     ce_so_error = 0, ce_sockname = None, ce_peername = None,
     ce_stream = frame (packet_type_raw ServerInfo, 0, 0, []) @ concat (map frame ps)\<rparr>),
     ue_login_sent = True, ue_first = 0, ue_early = early\<rparr>"

definition demo_login_cfg :: HandlerConfig where
  "demo_login_cfg = demo_cfg\<lparr>hc_ops := demo_login_ops\<rparr>"

lemma demo_server_info:
  assumes "cl_rx c = frame (packet_type_raw ServerInfo, 0, 0, []) @ rest" and "cl_sock c \<noteq> -1" and "\<not> cl_terminate c"
  shows "server_info c = (True, c\<lparr>cl_rx := rest, cl_connected := True\<rparr>)"
proof -
  define hdr where "hdr = packet_type_raw ServerInfo # PutLE16 0 @ PutLE32 15 @ PutLE64 0"
  note hf = header_fields [OF hdr_def]
  have "RecvN SHAD_HEADER_SIZE c = (Some hdr, c\<lparr>cl_rx := rest\<rparr>)"
    by (rule RecvN_app) (use assms hf in \<open>simp_all add: frame_def hdr_def\<close>)
  then show ?thesis using hf by (simp add: server_info_def Let_def RecvN_def)
qed

lemma demo_user_client:
  "cl_state c = StOk \<and> cl_events c = [] \<and> cl_reader c \<and> \<not> cl_authenticated c \<and> \<not> cl_sem_authenticated c \<and>
   \<not> cl_matching2_enabled c \<and> cl_rx c = concat (map frame ps) \<and> cl_sock c = 5 \<and> \<not> cl_terminate c"
  if "c = user_client demo_login_cfg (demo_env ps early) 1 [65] []"
proof -
  show ?thesis
    unfolding that user_client_def demo_env_def
    by (simp add: StartClient_def ConnectThread_def connect_loop.simps DoConnect_def open_socket_def demo_server_info
        SetAppearOffline_def new_client_def demo_login_cfg_def demo_login_ops_def demo_cfg_def Let_def)
qed

lemma demo_connects:
  "\<exists>h'. ConnectUser demo_login_cfg (demo_env [login_reply 1 [65]] 1) 1 [65] [] init_handler = Returned (Some (True, h')) \<and>
    SetMmShadNetClient 1 False \<in> set (hn_calls h')"
  using demo_user_client [OF refl, of "[login_reply 1 [65]]" 1]
  by (intro early_login [OF refl, where i = 1 and b = "[65]" and rest = "[]" and
        pb = "the (po_login demo_login_ops [])"])
    (simp_all add: demo_env_def demo_login_cfg_def demo_login_ops_def frame_ok_def login_reply_def enc_blob_def PutLE32_def)

theorem early_login_misses_features_witness:
  "\<exists>h'. ConnectUser demo_login_cfg (demo_env [login_reply 1 [65]] 1) 1 [65] [] init_handler = Returned (Some (True, h')) \<and>
    SetMmShadNetClient 1 False \<in> set (hn_calls h')"
  using demo_user_client [OF refl, of "[login_reply 1 [65]]" 1]
  by (intro early_login_misses_features [OF refl, where i = 1 and b = "[65]" and rest = "[]" and
        pb = "the (po_login demo_login_ops [])"])
    (simp_all add: demo_env_def demo_login_cfg_def demo_login_ops_def frame_ok_def login_reply_def enc_blob_def PutLE32_def)

theorem features_sign_in_without_login_witness:
  "\<exists>h'. ConnectUser demo_login_cfg (demo_env [(packet_type_raw Reply, CmdGetServerFeatures, 1, [])] 0) 1 [65] [] init_handler =
     Returned (Some (True, h')) \<and> \<not> IsSignedIn 1 h'"
  using demo_user_client [OF refl, of "[(packet_type_raw Reply, CmdGetServerFeatures, 1, [])]" 0]
  by (intro features_sign_in_without_login [OF refl, where i = 1 and rest = "[]"])
    (simp_all add: demo_env_def frame_ok_def)


end
