(* ===== verification/HandlerSystem.thy ===== *)
theory HandlerSystem
  imports HandlerConnectProps
begin

text \<open>
  The handler as a system: logging users in and out, the turns of the worker thread, what the
  clients deliver and the requests of the libraries, in any order; and its invariant.
\<close>

section \<open>Steps\<close>

text \<open>A step of the threads of a client can leave it in any state; the handler is not involved.\<close>

inductive handler_step :: "HandlerConfig \<Rightarrow> NpHandler \<Rightarrow> NpHandler \<Rightarrow> bool" for cfg :: HandlerConfig where
  step_init: "Initialize cfg probe us envs h = Returned (Some h') \<Longrightarrow> handler_step cfg h h'"
| step_login: "OnUserLoggedIn cfg env u h = Returned (Some h') \<Longrightarrow> handler_step cfg h h'"
| step_logout: "handler_step cfg h (OnUserLoggedOut u h)"
| step_worker: "hn_worker_running h \<Longrightarrow> WorkerTurn cfg envs clk h = Returned (Some h') \<Longrightarrow> handler_step cfg h h'"
| step_client: "map_of (hn_clients h) u = Some c \<Longrightarrow>
    handler_step cfg h (h\<lparr>hn_clients := omap_put u c' (hn_clients h)\<rparr>)"
| step_event: "OnClientEvent cfg u e h = Returned h' \<Longrightarrow> handler_step cfg h h'"
| step_score_send: "score_send cfg u label cmd payload h = (r, h') \<Longrightarrow> handler_step cfg h h'"
| step_score_register: "handler_step cfg h (score_register i p h)"
| step_tus_send: "tus_send cfg u label cmd req h = (r, h') \<Longrightarrow> handler_step cfg h h'"
| step_tus_register: "handler_step cfg h (tus_register i q h)"
| step_auth: "RequestAuthorizationCode cfg u client_id scope ctx h = (r, h') \<Longrightarrow> handler_step cfg h h'"
| step_trophy: "handler_step cfg h (ReportTrophyUnlock cfg u label t ts h)"
| step_sync: "handler_step cfg h (HandlerSyncTrophies cfg u label local f h)"
| step_register: "RegisterStateCallback cb ud h = (k, h') \<Longrightarrow> handler_step cfg h h'"
| step_unregister: "handler_step cfg h (UnregisterStateCallback k h)"
| step_accept: "AcceptSessionInvitation u inv_id h = (b, h') \<Longrightarrow> handler_step cfg h h'"
| step_decline: "handler_step cfg h (DeclineSessionInvitation u inv_id h)"

inductive handler_reachable :: "HandlerConfig \<Rightarrow> NpHandler \<Rightarrow> bool" for cfg :: HandlerConfig where
  handler_start: "handler_reachable cfg init_handler"
| handler_next: "handler_reachable cfg h \<Longrightarrow> handler_step cfg h h' \<Longrightarrow> handler_reachable cfg h'"

section \<open>Invariant\<close>

text \<open>
  The maps are maps, whoever has a client has an online id, the delays between attempts to
  reconnect stay between two and thirty seconds, and the worker runs while someone is connected.
\<close>

definition backoff_ok :: "ReconnectState \<Rightarrow> bool" where
  "backoff_ok st \<longleftrightarrow> 2000 \<le> rs_backoff st \<and> rs_backoff st \<le> 30000"

definition users_inv :: "NpHandler \<Rightarrow> bool" where
  "users_inv h \<longleftrightarrow>
     omap_inv (hn_clients h) \<and> omap_inv (hn_np_ids h) \<and>
     dom (map_of (hn_clients h)) \<subseteq> dom (map_of (hn_np_ids h)) \<and>
     (\<forall>(u, st) \<in> set (hn_reconnects h). backoff_ok st)"

definition handler_inv :: "NpHandler \<Rightarrow> bool" where
  "handler_inv h \<longleftrightarrow> users_inv h \<and> (hn_clients h \<noteq> [] \<longrightarrow> hn_worker_running h)"

lemma users_inv_keeps: "keeps_users h h' \<Longrightarrow> users_inv h \<Longrightarrow> users_inv h'"
  by (auto simp: keeps_users_def users_inv_def)

lemma handler_inv_keeps: "keeps_users h h' \<Longrightarrow> handler_inv h \<Longrightarrow> handler_inv h'"
  using users_inv_keeps [of h h'] by (auto simp: handler_inv_def keeps_users_def)

lemma same_conn_keeps: "same_conn h h' \<Longrightarrow> keeps_users h h'"
  by (simp add: same_conn_def keeps_users_def)

lemma update_entries: "x \<in> set (AList.update k v m) \<Longrightarrow> x = (k, v) \<or> x \<in> set m"
  by (induction m) (auto split: if_splits)

lemma users_inv_delete: "users_inv h \<Longrightarrow> users_inv (h\<lparr>hn_reconnects := AList.delete u (hn_reconnects h)\<rparr>)"
  by (auto simp: users_inv_def AList.delete_eq)

lemma users_inv_update:
  "users_inv h \<Longrightarrow> backoff_ok st \<Longrightarrow> users_inv (h\<lparr>hn_reconnects := AList.update u st (hn_reconnects h)\<rparr>)"
  using update_entries [of _ u st "hn_reconnects h"] by (fastforce simp: users_inv_def)

lemma users_inv_flags [simp]:
  "users_inv (h\<lparr>hn_initialized := b\<rparr>) = users_inv h" "users_inv (h\<lparr>hn_worker_running := b\<rparr>) = users_inv h"
  by (simp_all add: users_inv_def)

lemma users_inv_put:
  assumes "users_inv h" and "map_of (hn_clients h) u \<noteq> None"
  shows "users_inv (h\<lparr>hn_clients := omap_put u c (hn_clients h)\<rparr>)"
  using assms by (auto simp: users_inv_def omap_inv_put map_of_omap_put)

lemma omap_put_ne [simp]: "omap_put k v m \<noteq> []"
  by (cases m) (auto split: if_splits)

lemma users_inv_signed_in: "users_inv h \<Longrightarrow> users_inv (user_signed_in u npid c h)"
  by (auto simp: users_inv_def user_signed_in_def Let_def call_def FireStateCallback_eq omap_inv_put map_of_omap_put)

text \<open>Connecting keeps the worker flag, and the clients of the other users.\<close>

lemma ConnectUser_users:
  assumes "ConnectUser cfg env u npid pw h = Returned (Some (ok, h'))" and "users_inv h"
  shows "users_inv h' \<and> hn_worker_running h' = hn_worker_running h \<and> (ok \<or> hn_clients h' = hn_clients h)"
proof -
  have "(\<exists>evs. deliver_events cfg u evs h = Returned h' \<and> \<not> ok) \<or>
      (\<exists>(c :: ShadNetClient) h1. deliver_events cfg u (cl_events c) h = Returned h1 \<and> h' = user_signed_in u npid c h1 \<and> ok)"
    using assms(1) by (auto simp: ConnectUser_def returned_iff split: if_splits option.splits) blast
  then consider (failed) evs where "deliver_events cfg u evs h = Returned h'" "\<not> ok"
    | (signed) c :: ShadNetClient and h1 where "deliver_events cfg u (cl_events c) h = Returned h1" "h' = user_signed_in u npid c h1" ok
    by blast
  then show ?thesis
  proof cases
    case failed
    then have "keeps_users h h'" by (simp add: deliver_events_keeps)
    then show ?thesis using users_inv_keeps assms(2) by (auto simp: keeps_users_def)
  next
    case signed
    then have "keeps_users h h1" by (simp add: deliver_events_keeps)
    then have "users_inv h1" "hn_worker_running h1 = hn_worker_running h"
      using users_inv_keeps assms(2) by (auto simp: keeps_users_def)
    moreover have "hn_worker_running (user_signed_in u npid c h1) = hn_worker_running h1"
      by (simp add: user_signed_in_def Let_def call_def FireStateCallback_eq)
    ultimately show ?thesis using signed users_inv_signed_in by simp
  qed
qed

lemma ConnectUserById_users:
  assumes "ConnectUserById cfg env u h = Returned (Some (ok, h'))" and "users_inv h"
  shows "users_inv h' \<and> hn_worker_running h' = hn_worker_running h \<and> (ok \<or> hn_clients h' = hn_clients h)"
  using assms ConnectUser_users by (auto simp: ConnectUserById_def split: if_splits)

lemma bind_run_Some:
  "bind_run m f = Returned (Some y) \<longleftrightarrow> (\<exists>x. m = Returned (Some x) \<and> f x = Returned (Some y))"
  by (auto simp: bind_run_def returned_iff split: option.splits)

lemma connect_users_inv:
  "connect_users cfg envs us h = Returned (Some h') \<Longrightarrow> users_inv h \<Longrightarrow>
   users_inv h' \<and> hn_worker_running h' = hn_worker_running h"
proof (induction us arbitrary: h)
  case (Cons u us)
  then show ?case by (auto simp: bind_run_Some split: if_splits dest: ConnectUser_users)
qed simp

lemma after_attempt_users:
  assumes "users_inv h"
  shows "users_inv (after_attempt now u ok h)" "hn_worker_running (after_attempt now u ok h) = hn_worker_running h"
    "hn_clients (after_attempt now u ok h) = hn_clients h"
proof -
  have "backoff_ok \<lparr>rs_next_attempt = t, rs_backoff = min (rs_backoff st * 2) 30000\<rparr>"
    if "map_of (hn_reconnects h) u = Some st" for st t
  proof -
    have "backoff_ok st" using that assms map_of_SomeD by (fastforce simp: users_inv_def)
    then show ?thesis by (simp add: backoff_ok_def)
  qed
  then show "users_inv (after_attempt now u ok h)" using assms
    by (auto simp: after_attempt_def users_inv_delete users_inv_update Let_def split: option.splits)
qed (auto simp: after_attempt_def Let_def split: option.splits)

lemma try_due_users:
  "try_due cfg envs clk us h = Returned (Some h') \<Longrightarrow> users_inv h \<Longrightarrow> hn_worker_running h \<Longrightarrow>
   users_inv h' \<and> hn_worker_running h'"
proof (induction us arbitrary: h)
  case (Cons u us)
  show ?case
  proof (cases "hn_initialized h")
    case True
    then obtain ok h1 where "ConnectUserById cfg (envs u) u h = Returned (Some (ok, h1))"
      "try_due cfg envs clk us (after_attempt (wc_retry clk u) u ok h1) = Returned (Some h')"
      using Cons.prems by (auto simp: bind_run_Some)
    then show ?thesis using Cons.IH Cons.prems ConnectUserById_users [of cfg "envs u" u h ok h1]
      by (auto simp: after_attempt_users)
  qed (use Cons users_inv_delete in \<open>auto simp: bind_run_Some\<close>)
qed simp

lemma DisconnectUser_users:
  assumes "users_inv h"
  shows "users_inv (DisconnectUser u h)" "hn_worker_running (DisconnectUser u h) = hn_worker_running h"
    "hn_initialized (DisconnectUser u h) = hn_initialized h"
    "hn_clients (DisconnectUser u h) = (if map_of (hn_clients h) u = None then hn_clients h else omap_erase u (hn_clients h))"
  using assms by (auto simp: DisconnectUser_def Let_def FailPendingRequests_eq FireStateCallback_eq users_inv_def
      omap_inv_erase map_of_omap_erase split: option.splits)

lemma drop_user_users:
  assumes "users_inv h"
  shows "users_inv (drop_user clk u h)" "hn_worker_running (drop_user clk u h) = hn_worker_running h"
  using assms DisconnectUser_users [OF assms, of u] users_inv_update [of "DisconnectUser u h"]
  by (auto simp: drop_user_def MarkForReconnect_def backoff_ok_def)

lemma drop_users_users:
  "users_inv h \<Longrightarrow> users_inv (fold (drop_user clk) us h) \<and> hn_worker_running (fold (drop_user clk) us h) = hn_worker_running h"
  by (induction us arbitrary: h) (simp_all add: drop_user_users)

lemma WorkerTurn_users:
  assumes "WorkerTurn cfg envs clk h = Returned (Some h')" and "users_inv h" and "hn_worker_running h"
  shows "users_inv h' \<and> hn_worker_running h'"
  using assms try_due_users drop_users_users by (auto simp: WorkerTurn_def TryReconnect_def)

section \<open>Every step keeps the invariant\<close>

lemma Initialize_inv:
  assumes "Initialize cfg probe us envs h = Returned (Some h')" and "handler_inv h"
  shows "handler_inv h'"
proof -
  have "users_inv h" using assms(2) by (simp add: handler_inv_def)
  then show ?thesis using assms
    by (auto simp: Initialize_def bind_run_Some handler_inv_def StartWorker_def split: if_splits option.splits
        dest!: connect_users_inv)
qed

lemma OnUserLoggedIn_inv:
  assumes "OnUserLoggedIn cfg env u h = Returned (Some h')" and "handler_inv h"
  shows "handler_inv h'"
proof -
  obtain ok h1 where h1: "ConnectUserById cfg env u h = Returned (Some (ok, h1))" "h' = (if ok then StartWorker h1 else h1)"
    using assms(1) by (auto simp: OnUserLoggedIn_def bind_run_Some)
  then show ?thesis using ConnectUserById_users [OF h1(1)] assms(2) by (auto simp: handler_inv_def StartWorker_def)
qed

lemma OnUserLoggedOut_inv: "handler_inv h \<Longrightarrow> handler_inv (OnUserLoggedOut u h)"
proof -
  assume i: "handler_inv h"
  let ?h = "h\<lparr>hn_reconnects := AList.delete u (hn_reconnects h)\<rparr>"
  have "users_inv ?h" using i users_inv_delete by (simp add: handler_inv_def)
  then show "handler_inv (OnUserLoggedOut u h)"
    using i DisconnectUser_users [of ?h u]
    by (auto simp: handler_inv_def OnUserLoggedOut_def omap_erase_def split: if_splits)
qed

text \<open>Sending a request puts a packet into the queue of a client that is there.\<close>

lemma put_client_inv:
  "handler_inv h \<Longrightarrow> map_of (hn_clients h) u \<noteq> None \<Longrightarrow> handler_inv (h\<lparr>hn_clients := omap_put u c (hn_clients h)\<rparr>)"
  using users_inv_put [of h u c] by (cases "hn_clients h") (auto simp: handler_inv_def)

lemma handler_inv_upd [simp]:
  "handler_inv (h\<lparr>hn_pending_score := ps\<rparr>) = handler_inv h"
  "handler_inv (h\<lparr>hn_pending_tus := pt\<rparr>) = handler_inv h"
  "handler_inv (h\<lparr>hn_pending_auth := pa\<rparr>) = handler_inv h"
  "handler_inv (h\<lparr>hn_pending_trophy := py\<rparr>) = handler_inv h"
  "handler_inv (h\<lparr>hn_state_cbs := cbs\<rparr>) = handler_inv h"
  "handler_inv (h\<lparr>hn_next_handle := k\<rparr>) = handler_inv h"
  "handler_inv (h\<lparr>hn_pending_invites := iv\<rparr>) = handler_inv h"
  "handler_inv (h\<lparr>hn_calls := cs\<rparr>) = handler_inv h"
  by (simp_all add: handler_inv_def users_inv_def)

lemma send_request_inv:
  "send_request u cmd payload client h = (i, h') \<Longrightarrow> handler_inv h \<Longrightarrow> map_of (hn_clients h) u \<noteq> None \<Longrightarrow> handler_inv h'"
  by (auto simp: send_request_def put_client_inv split: prod.splits)

lemma score_send_inv: "score_send cfg u label cmd payload h = (r, h') \<Longrightarrow> handler_inv h \<Longrightarrow> handler_inv h'"
  by (auto simp: score_send_def Let_def send_request_inv split: option.splits if_splits prod.splits)

lemma tus_send_inv: "tus_send cfg u label cmd req h = (r, h') \<Longrightarrow> handler_inv h \<Longrightarrow> handler_inv h'"
  by (auto simp: tus_send_def Let_def send_request_inv split: option.splits if_splits prod.splits)

lemma RequestAuthorizationCode_inv:
  "RequestAuthorizationCode cfg u client_id scope ctx h = (r, h') \<Longrightarrow> handler_inv h \<Longrightarrow> handler_inv h'"
  by (auto simp: RequestAuthorizationCode_def put_client_inv split: option.splits if_splits prod.splits)

lemma trophy_client_Some: "trophy_client cfg u label h = Some (c, com) \<Longrightarrow> map_of (hn_clients h) u = Some c"
  by (auto simp: trophy_client_def Let_def split: option.splits if_splits)

lemma trophy_inv:
  "handler_inv h \<Longrightarrow> handler_inv (ReportTrophyUnlock cfg u label t ts h)"
  "handler_inv h \<Longrightarrow> handler_inv (HandlerSyncTrophies cfg u label loc f h)"
  by (auto simp: ReportTrophyUnlock_def HandlerSyncTrophies_def put_client_inv trophy_client_Some Let_def
      split: option.splits prod.splits)

theorem handler_step_inv: "handler_step cfg h h' \<Longrightarrow> handler_inv h \<Longrightarrow> handler_inv h'"
proof (induction rule: handler_step.induct)
  case (step_worker h envs clk h')
  then show ?case using WorkerTurn_users by (auto simp: handler_inv_def)
next
  case (step_event u e h h')
  then show ?case using OnClientEvent_keeps handler_inv_keeps by blast
qed (auto simp: Initialize_inv OnUserLoggedIn_inv OnUserLoggedOut_inv put_client_inv score_send_inv tus_send_inv
    RequestAuthorizationCode_inv trophy_inv score_register_def tus_register_def RegisterStateCallback_def Let_def
    UnregisterStateCallback_def AcceptSessionInvitation_def DeclineSessionInvitation_def PostSessionInvitationEvent_def
    call_def split: option.splits prod.splits)


lemma demo_server_port: "server_port demo_login_cfg = Some ([104], 1)"
  by (simp add: server_port_def split_last_colon_def stoi_def parse_decimal_def is_space_def is_digit_def Let_def
      demo_login_cfg_def demo_cfg_def)


end
