(* ===== verification/RequestTable.thy ===== *)
theory RequestTable
  imports NpErrors
begin

text \<open>
  The contract of the tables of requests that the Np libraries keep (np_manager_requests.cpp,
  np_auth.cpp, np_utility.cpp, np_score.cpp, np_tus.cpp): creating hands out an id that no live
  request has, up to a limit, and deleting frees exactly one id. It is stated as an abstract set of
  ids, a locale \<open>request_table\<close> for the operations of a library, and the lemma that any sequence of
  them refines the set.
\<close>

text \<open>What a call returns: at once, or what the request context at the address gets as its result.\<close>

datatype answer = Answer s32 | WaitFor nat

datatype table_op = CreateOp | DeleteOp s32

text \<open>The values of a machine integer, and a subtraction below the least one, which wraps.\<close>

definition is_s32 :: "int \<Rightarrow> bool" where
  "is_s32 x \<longleftrightarrow> - (2 ^ 31) \<le> x \<and> x < 2 ^ 31"

lemma to_s32_is_s32: "is_s32 x \<Longrightarrow> to_s32 x = x"
  by (simp add: is_s32_def to_s32_id)

lemma to_s32_wraps:
  assumes "- (2 ^ 32) \<le> x" and "x < - (2 ^ 31)"
  shows "to_s32 x = x + 2 ^ 32"
proof -
  have "(word_of_int (x + 2 ^ 32) :: u32) = word_of_int x"
    unfolding word_of_int_eq_iff by (simp add: take_bit_eq_mod)
  then have "to_s32 x = to_s32 (x + 2 ^ 32)" by (simp only: to_s32_def)
  also have "\<dots> = x + 2 ^ 32" using assms by (intro to_s32_id) auto
  finally show ?thesis .
qed

lemma length_omap_put: "map_of m k = None \<Longrightarrow> length (omap_put k v m) = Suc (length m)"
  by (induction k v m rule: omap_put.induct) (auto split: if_splits)

fun op_ids_ok :: "table_op \<Rightarrow> bool" where
  "op_ids_ok CreateOp = True"
| "op_ids_ok (DeleteOp i) = is_s32 i"

text \<open>The operations of a library, run one after the other, with what they return.\<close>

fun run_table :: "('s \<Rightarrow> s32 \<times> 's) \<Rightarrow> (s32 \<Rightarrow> 's \<Rightarrow> s32 \<times> 's) \<Rightarrow> table_op list \<Rightarrow> 's \<Rightarrow> s32 list \<times> 's" where
  "run_table new del [] s = ([], s)"
| "run_table new del (CreateOp # ops) s =
     (let (r, s1) = new s; (rs, s2) = run_table new del ops s1 in (r # rs, s2))"
| "run_table new del (DeleteOp i # ops) s =
     (let (r, s1) = del i s; (rs, s2) = run_table new del ops s1 in (r # rs, s2))"

text \<open>
  The abstract table: a set of positive ids of at most \<open>limit\<close> elements. Which id a creation
  returns is left open.
\<close>

fun table_spec :: "nat \<Rightarrow> table_op list \<Rightarrow> s32 list \<Rightarrow> s32 set \<Rightarrow> s32 set \<Rightarrow> bool" where
  "table_spec limit [] [] L L' = (L' = L)"
| "table_spec limit (CreateOp # ops) (r # rs) L L' =
     (if card L < limit then 0 < r \<and> r \<notin> L \<and> table_spec limit ops rs (insert r L) L'
      else r < 0 \<and> table_spec limit ops rs L L')"
| "table_spec limit (DeleteOp i # ops) (r # rs) L L' =
     (if i \<in> L then r = 0 \<and> table_spec limit ops rs (L - {i}) L'
      else r < 0 \<and> table_spec limit ops rs L L')"
| "table_spec limit _ _ L L' = False"

text \<open>
  \<open>ok k s\<close>: the table is well formed and can hand out ids \<open>k\<close> more times before the counter of
  its ids overflows; a table that reuses ids is \<open>ok k\<close> for every \<open>k\<close>.
\<close>

locale request_table =
  fixes ok :: "nat \<Rightarrow> 's \<Rightarrow> bool"
    and live :: "'s \<Rightarrow> s32 set"
    and new :: "'s \<Rightarrow> s32 \<times> 's"
    and del :: "s32 \<Rightarrow> 's \<Rightarrow> s32 \<times> 's"
    and limit :: nat
  assumes new_room: "ok (Suc k) s \<Longrightarrow> card (live s) < limit \<Longrightarrow>
      \<exists>i s'. new s = (i, s') \<and> 0 < i \<and> i \<notin> live s \<and> live s' = insert i (live s) \<and> ok k s'"
    and new_full: "ok (Suc k) s \<Longrightarrow> limit \<le> card (live s) \<Longrightarrow> \<exists>e. new s = (e, s) \<and> e < 0"
    and del_live: "ok k s \<Longrightarrow> i \<in> live s \<Longrightarrow> \<exists>s'. del i s = (0, s') \<and> live s' = live s - {i} \<and> ok k s'"
    and del_unknown: "ok k s \<Longrightarrow> is_s32 i \<Longrightarrow> i \<notin> live s \<Longrightarrow> \<exists>e. del i s = (e, s) \<and> e < 0"
    and ok_mono: "ok (Suc k) s \<Longrightarrow> ok k s"
begin

theorem run_refines:
  assumes "ok (length ops) s" and "list_all op_ids_ok ops" and "run_table new del ops s = (rs, s')"
  shows "table_spec limit ops rs (live s) (live s')"
  using assms
proof (induction ops arbitrary: s rs)
  case (Cons op ops)
  note okS = Cons.prems(1)[simplified]
  from Cons.prems(2) have ids: "op_ids_ok op" "list_all op_ids_ok ops" by auto
  show ?case
  proof (cases op)
    case CreateOp
    show ?thesis
    proof (cases "card (live s) < limit")
      case True
      from new_room [OF okS True] obtain i s1
        where i: "new s = (i, s1)" "0 < i" "i \<notin> live s" "live s1 = insert i (live s)" "ok (length ops) s1"
        by blast
      with Cons.prems(3) CreateOp obtain rs1
        where "run_table new del ops s1 = (rs1, s')" "rs = i # rs1"
        by (auto split: prod.splits)
      with Cons.IH [OF i(5) ids(2)] i True CreateOp show ?thesis by simp
    next
      case False
      from new_full [OF okS] False obtain e where e: "new s = (e, s)" "e < 0" by auto
      with Cons.prems(3) CreateOp obtain rs1
        where "run_table new del ops s = (rs1, s')" "rs = e # rs1"
        by (auto split: prod.splits)
      with Cons.IH [OF ok_mono [OF okS] ids(2)] e False CreateOp show ?thesis by simp
    qed
  next
    case (DeleteOp i)
    show ?thesis
    proof (cases "i \<in> live s")
      case True
      from del_live [OF ok_mono [OF okS] True] obtain s1
        where d: "del i s = (0, s1)" "live s1 = live s - {i}" "ok (length ops) s1"
        by blast
      with Cons.prems(3) DeleteOp obtain rs1
        where "run_table new del ops s1 = (rs1, s')" "rs = 0 # rs1"
        by (auto split: prod.splits)
      with Cons.IH [OF d(3) ids(2)] d True DeleteOp show ?thesis by simp
    next
      case False
      from ids(1) DeleteOp have "is_s32 i" by simp
      from del_unknown [OF ok_mono [OF okS] this False] obtain e where e: "del i s = (e, s)" "e < 0" by blast
      with Cons.prems(3) DeleteOp obtain rs1
        where "run_table new del ops s = (rs1, s')" "rs = e # rs1"
        by (auto split: prod.splits)
      with Cons.IH [OF ok_mono [OF okS] ids(2)] e False DeleteOp show ?thesis by simp
    qed
  qed
qed simp

end

section \<open>Tables with a counter\<close>

text \<open>
  The usual implementation: an ordered map and a counter of ids that is never reset. What a library
  adds to it, such as the title context that a new request needs, is \<open>usable\<close>.
\<close>

definition counter_ok :: "(s32 \<times> 'r) list \<Rightarrow> s32 \<Rightarrow> nat \<Rightarrow> bool" where
  "counter_ok m nx k \<longleftrightarrow> omap_inv m \<and> (\<forall>i \<in> set (keys m). 1 \<le> i \<and> i < nx) \<and> 1 \<le> nx \<and> nx + int k < 2 ^ 31"

lemma counter_ok_new:
  assumes "counter_ok m nx (Suc k)"
  shows "map_of m nx = None" and "to_s32 (nx + 1) = nx + 1" and "counter_ok (omap_put nx v m) (nx + 1) k"
proof -
  show new: "map_of m nx = None" using assms by (auto simp: counter_ok_def map_of_eq_None_iff)
  show "to_s32 (nx + 1) = nx + 1" using assms by (intro to_s32_id) (auto simp: counter_ok_def)
  show "counter_ok (omap_put nx v m) (nx + 1) k"
    using assms new by (auto simp: counter_ok_def omap_inv_put set_keys_omap_put simp del: set_map)
qed

lemma set_keys_omap_erase: "set (keys (omap_erase i m)) = set (keys m) - {i}"
  by (auto simp: omap_erase_def)

lemma counter_ok_erase: "counter_ok m nx k \<Longrightarrow> counter_ok (omap_erase i m) nx k"
  by (simp add: counter_ok_def omap_inv_erase set_keys_omap_erase del: set_map)

lemma counter_ok_card: "counter_ok m nx k \<Longrightarrow> card (set (keys m)) = length m"
  by (metis counter_ok_def omap_inv_distinct distinct_card length_map)

locale counter_table =
  fixes reqs :: "'s \<Rightarrow> (s32 \<times> 'r) list"
    and nxt :: "'s \<Rightarrow> s32"
    and usable :: "'s \<Rightarrow> bool"
    and new :: "'s \<Rightarrow> s32 \<times> 's"
    and del :: "s32 \<Rightarrow> 's \<Rightarrow> s32 \<times> 's"
    and limit :: nat
  assumes new_adds: "usable s \<Longrightarrow> length (reqs s) < limit \<Longrightarrow> \<exists>v s'. new s = (nxt s, s') \<and>
      reqs s' = omap_put (nxt s) v (reqs s) \<and> nxt s' = to_s32 (nxt s + 1) \<and> usable s'"
    and full: "usable s \<Longrightarrow> limit \<le> length (reqs s) \<Longrightarrow> \<exists>e. new s = (e, s) \<and> e < 0"
    and del_known: "usable s \<Longrightarrow> map_of (reqs s) i \<noteq> None \<Longrightarrow> \<exists>s'. del i s = (0, s') \<and>
      reqs s' = omap_erase i (reqs s) \<and> nxt s' = nxt s \<and> usable s'"
    and unknown: "usable s \<Longrightarrow> map_of (reqs s) i = None \<Longrightarrow> \<exists>e. del i s = (e, s) \<and> e < 0"

sublocale counter_table \<subseteq> table: request_table "\<lambda>k s. usable s \<and> counter_ok (reqs s) (nxt s) k"
  "\<lambda>s. set (keys (reqs s))" new del limit
proof (unfold_locales, goal_cases)
  case (1 k s)
  then have ok: "counter_ok (reqs s) (nxt s) (Suc k)" by simp
  with 1 have "length (reqs s) < limit" by (simp add: counter_ok_card del: set_map)
  then obtain v s' where s': "new s = (nxt s, s')" "reqs s' = omap_put (nxt s) v (reqs s)" "nxt s' = to_s32 (nxt s + 1)" "usable s'"
    using new_adds 1 by blast
  moreover have "0 < nxt s" "nxt s \<notin> set (keys (reqs s))" using ok by (auto simp: counter_ok_def)
  ultimately show ?case
    using counter_ok_new [OF ok] by (auto simp: set_keys_omap_put simp del: set_map)
next
  case (2 k s)
  then show ?case using full counter_ok_card by metis
next
  case (3 k s i)
  then have "map_of (reqs s) i \<noteq> None" by (simp add: map_of_eq_None_iff)
  then obtain s' where "del i s = (0, s')" "reqs s' = omap_erase i (reqs s)" "nxt s' = nxt s" "usable s'"
    using del_known 3(1) by blast
  with 3(1) show ?case by (auto simp: set_keys_omap_erase counter_ok_erase simp del: set_map)
next
  case (4 k s i)
  then have "map_of (reqs s) i = None" by (simp add: map_of_eq_None_iff)
  with 4 show ?case using unknown by blast
next
  case (5 k s)
  then show ?case by (auto simp: counter_ok_def)
qed

end
