(* ===== verification/NpManagerReq.thy ===== *)
theory NpManagerReq
  imports NpHandler RequestTable
begin

text \<open>
  The requests of the manager library (np_manager_requests.cpp): a vector of slots that are reused,
  ids that name a slot, and the checks a game runs on a request. An out parameter is an argument
  that tells whether the pointer is not null, and what is written to it is a part of the result,
  \<open>None\<close> when nothing is. The lock of the table makes every function one step.
\<close>

section \<open>The table\<close>

datatype NpRequestState = ReqNone | ReqReady | ReqAborted | ReqComplete

record NpRequest =
  nr_state :: NpRequestState
  nr_async :: bool
  nr_result :: s32

record NpManagerRequests =
  g_active_requests :: s32
  g_requests :: "NpRequest list"

definition init_requests :: NpManagerRequests where
  "init_requests = \<lparr>g_active_requests = 0, g_requests = []\<rparr>"

definition ORBIS_NP_MANAGER_REQUEST_LIMIT :: s32 where [simp]: "ORBIS_NP_MANAGER_REQUEST_LIMIT = 0x20"
definition ORBIS_NP_MANAGER_REQUEST_ID_OFFSET :: s32 where [simp]: "ORBIS_NP_MANAGER_REQUEST_ID_OFFSET = 0x20000000"

text \<open>The loop that looks for a free slot: its index, or the number of slots.\<close>

fun free_slot :: "NpRequest list \<Rightarrow> nat" where
  "free_slot [] = 0"
| "free_slot (r # rs) = (if nr_state r = ReqNone then 0 else Suc (free_slot rs))"

text \<open>A slot that is reused keeps the result it had.\<close>

definition CreateNpRequest :: "bool \<Rightarrow> NpManagerRequests \<Rightarrow> s32 \<times> NpManagerRequests" where
  "CreateNpRequest async m =
     (if g_active_requests m = ORBIS_NP_MANAGER_REQUEST_LIMIT then (ORBIS_NP_ERROR_REQUEST_MAX, m)
      else
        let i = free_slot (g_requests m);
            reqs = (if i < length (g_requests m)
                    then (g_requests m)[i := (g_requests m ! i)\<lparr>nr_state := ReqReady, nr_async := async\<rparr>]
                    else g_requests m @ [\<lparr>nr_state = ReqReady, nr_async = async, nr_result = 0\<rparr>])
        in (to_s32 (int i + ORBIS_NP_MANAGER_REQUEST_ID_OFFSET + 1),
            \<lparr>g_active_requests = to_s32 (g_active_requests m + 1), g_requests = reqs\<rparr>))"

definition req_index :: "s32 \<Rightarrow> s32" where
  "req_index req_id = to_s32 (req_id - ORBIS_NP_MANAGER_REQUEST_ID_OFFSET - 1)"

text \<open>The test at the head of every operation on a request.\<close>

definition request_missing :: "s32 \<Rightarrow> NpManagerRequests \<Rightarrow> bool" where
  "request_missing req_id m \<longleftrightarrow>
     g_active_requests m = 0 \<or> req_index req_id < 0 \<or> int (length (g_requests m)) \<le> req_index req_id \<or>
     nr_state (g_requests m ! nat (req_index req_id)) = ReqNone"

definition slot_at :: "s32 \<Rightarrow> NpManagerRequests \<Rightarrow> NpRequest" where
  "slot_at req_id m = g_requests m ! nat (req_index req_id)"

definition set_slot :: "s32 \<Rightarrow> NpRequest \<Rightarrow> NpManagerRequests \<Rightarrow> NpManagerRequests" where
  "set_slot req_id r m = m\<lparr>g_requests := (g_requests m)[nat (req_index req_id) := r]\<rparr>"

text \<open>\<open>GetRequest\<close> returns an error, or nothing when the request is ready to be worked on.\<close>

definition GetRequest :: "s32 \<Rightarrow> NpManagerRequests \<Rightarrow> s32 option \<times> NpManagerRequests" where
  "GetRequest req_id m =
     (if req_id = 0 then (Some ORBIS_NP_ERROR_INVALID_ARGUMENT, m)
      else if request_missing req_id m then (Some ORBIS_NP_ERROR_REQUEST_NOT_FOUND, m)
      else if nr_state (slot_at req_id m) = ReqComplete
      then (Some ORBIS_NP_ERROR_INVALID_ARGUMENT,
            set_slot req_id ((slot_at req_id m)\<lparr>nr_result := ORBIS_NP_ERROR_INVALID_ARGUMENT\<rparr>) m)
      else if nr_state (slot_at req_id m) = ReqAborted
      then (Some ORBIS_NP_ERROR_ABORTED,
            set_slot req_id ((slot_at req_id m)\<lparr>nr_result := ORBIS_NP_ERROR_ABORTED\<rparr>) m)
      else (None, m))"

definition CompleteRequest :: "s32 \<Rightarrow> s32 \<Rightarrow> NpManagerRequests \<Rightarrow> s32 \<times> NpManagerRequests" where
  "CompleteRequest req_id result m =
     (let r = slot_at req_id m
      in (if result \<noteq> ORBIS_OK \<and> nr_async r then ORBIS_OK else result,
          set_slot req_id (r\<lparr>nr_state := ReqComplete, nr_result := result\<rparr>) m))"

section \<open>Creating\<close>

definition sceNpCreateRequest :: "NpManagerRequests \<Rightarrow> s32 \<times> NpManagerRequests" where
  "sceNpCreateRequest = CreateNpRequest False"

text \<open>A parameter structure is its size field, \<open>None\<close> for a null pointer; it has 24 bytes.\<close>

definition sceNpCreateAsyncRequest :: "u64 option \<Rightarrow> NpManagerRequests \<Rightarrow> s32 \<times> NpManagerRequests" where
  "sceNpCreateAsyncRequest param m =
     (case param of
        None \<Rightarrow> (ORBIS_NP_ERROR_INVALID_ARGUMENT, m)
      | Some sz \<Rightarrow> if sz \<noteq> 24 then (ORBIS_NP_ERROR_INVALID_SIZE, m) else CreateNpRequest True m)"

section \<open>Working on a request\<close>

text \<open>
  The section under the lock that the checks share: it returns the code, whether the caller writes
  its outputs, and the table.
\<close>

definition complete_for_user :: "s32 \<Rightarrow> s32 \<Rightarrow> NpHandler \<Rightarrow> NpManagerRequests \<Rightarrow> s32 \<times> bool \<times> NpManagerRequests" where
  "complete_for_user req_id user_id h m =
     (case GetRequest req_id m of
        (Some err, m1) \<Rightarrow> (err, False, m1)
      | (None, m1) \<Rightarrow>
          if \<not> IsSignedIn user_id h
          then (let (rc, m2) = CompleteRequest req_id ORBIS_NP_ERROR_SIGNED_OUT m1 in (rc, False, m2))
          else (let (rc, m2) = CompleteRequest req_id ORBIS_OK m1 in (rc, True, m2)))"

definition sceNpCheckNpAvailabilityA :: "s32 \<Rightarrow> s32 \<Rightarrow> NpHandler \<Rightarrow> NpManagerRequests \<Rightarrow> s32 \<times> NpManagerRequests" where
  "sceNpCheckNpAvailabilityA req_id user_id h m =
     (if user_id = -1 then (ORBIS_NP_ERROR_INVALID_ARGUMENT, m)
      else let (rc, ok, m1) = complete_for_user req_id user_id h m in (rc, m1))"

definition sceNpCheckNpAvailability ::
  "s32 \<Rightarrow> OrbisNpOnlineId option \<Rightarrow> NpHandler \<Rightarrow> NpManagerRequests \<Rightarrow> s32 \<times> NpManagerRequests" where
  "sceNpCheckNpAvailability req_id online_id h m =
     (case online_id of
        None \<Rightarrow> (ORBIS_NP_ERROR_INVALID_ARGUMENT, m)
      | Some oid \<Rightarrow>
          let user_id = GetUserIdByOnlineId oid h
          in if user_id = -1 then (ORBIS_NP_ERROR_USER_NOT_FOUND, m)
             else sceNpCheckNpAvailabilityA req_id user_id h m)"

definition sceNpCheckNpReachability :: "s32 \<Rightarrow> s32 \<Rightarrow> NpHandler \<Rightarrow> NpManagerRequests \<Rightarrow> s32 \<times> NpManagerRequests" where
  "sceNpCheckNpReachability req_id user_id h m =
     (if user_id = -1 then (ORBIS_NP_ERROR_INVALID_ARGUMENT, m)
      else let (rc, ok, m1) = complete_for_user req_id user_id h m in (rc, m1))"

record OrbisNpCheckPlusParameter =
  cpp_size :: u64
  cpp_user_id :: s32
  cpp_features :: u64
  cpp_reserved :: bytes

definition FW_350 :: u32 where [simp]: "FW_350 = 0x3500000"

text \<open>The structure has 56 bytes; the version of the firmware is compared unsigned.\<close>

definition sceNpCheckPlus ::
  "s32 \<Rightarrow> OrbisNpCheckPlusParameter option \<Rightarrow> bool \<Rightarrow> s32 \<Rightarrow> NpHandler \<Rightarrow> NpManagerRequests \<Rightarrow>
   s32 \<times> bool option \<times> NpManagerRequests" where
  "sceNpCheckPlus req_id param has_result firmware h m =
     (case param of
        None \<Rightarrow> (ORBIS_NP_ERROR_INVALID_ARGUMENT, None, m)
      | Some p \<Rightarrow>
          if req_id = 0 \<or> \<not> has_result then (ORBIS_NP_ERROR_INVALID_ARGUMENT, None, m)
          else if cpp_size p \<noteq> 56 then (ORBIS_NP_ERROR_INVALID_SIZE, None, m)
          else if cpp_user_id p = -1 then (ORBIS_NP_ERROR_INVALID_ARGUMENT, None, m)
          else if cpp_features p < 1 \<or> cpp_features p > 3 then (ORBIS_NP_ERROR_INVALID_ARGUMENT, None, m)
          else if cpp_features p \<noteq> 1 \<and> FW_350 \<le> word_of_int firmware then (ORBIS_NP_ERROR_INVALID_ARGUMENT, None, m)
          else if \<exists>b \<in> set (cpp_reserved p). b \<noteq> 0 then (ORBIS_NP_ERROR_INVALID_ARGUMENT, None, m)
          else let (rc, ok, m1) = complete_for_user req_id (cpp_user_id p) h m
               in (rc, if ok then Some True else None, m1))"

text \<open>The two letters that are written over the beginning of the language code.\<close>

definition language_en :: bytes where "language_en = [101, 110]"

definition sceNpGetAccountLanguageA ::
  "s32 \<Rightarrow> s32 \<Rightarrow> bool \<Rightarrow> NpHandler \<Rightarrow> NpManagerRequests \<Rightarrow> s32 \<times> bytes option \<times> NpManagerRequests" where
  "sceNpGetAccountLanguageA req_id user_id has_language h m =
     (if \<not> has_language \<or> user_id = -1 then (ORBIS_NP_ERROR_INVALID_ARGUMENT, None, m)
      else let (rc, ok, m1) = complete_for_user req_id user_id h m
           in (rc, if ok then Some language_en else None, m1))"

definition sceNpGetAccountLanguage ::
  "s32 \<Rightarrow> OrbisNpOnlineId option \<Rightarrow> bool \<Rightarrow> NpHandler \<Rightarrow> NpManagerRequests \<Rightarrow> s32 \<times> bytes option \<times> NpManagerRequests" where
  "sceNpGetAccountLanguage req_id online_id has_language h m =
     (case online_id of
        None \<Rightarrow> (ORBIS_NP_ERROR_INVALID_ARGUMENT, None, m)
      | Some oid \<Rightarrow>
          if \<not> has_language then (ORBIS_NP_ERROR_INVALID_ARGUMENT, None, m)
          else let user_id = GetUserIdByOnlineId oid h
               in if user_id = -1 then (ORBIS_NP_ERROR_USER_NOT_FOUND, None, m)
                  else sceNpGetAccountLanguageA req_id user_id has_language h m)"

text \<open>The age, and the restrictions on content, chat and user generated content.\<close>

type_synonym ParentalControl = "int \<times> bool \<times> bool \<times> bool"

definition sceNpGetParentalControlInfoA ::
  "s32 \<Rightarrow> s32 \<Rightarrow> bool \<Rightarrow> bool \<Rightarrow> NpHandler \<Rightarrow> NpManagerRequests \<Rightarrow> s32 \<times> ParentalControl option \<times> NpManagerRequests" where
  "sceNpGetParentalControlInfoA req_id user_id has_age has_info h m =
     (if \<not> has_age \<or> \<not> has_info \<or> user_id = -1 then (ORBIS_NP_ERROR_INVALID_ARGUMENT, None, m)
      else let (rc, ok, m1) = complete_for_user req_id user_id h m
           in (rc, if ok then Some (18, False, False, False) else None, m1))"

definition sceNpGetParentalControlInfo ::
  "s32 \<Rightarrow> OrbisNpOnlineId option \<Rightarrow> bool \<Rightarrow> bool \<Rightarrow> NpHandler \<Rightarrow> NpManagerRequests \<Rightarrow>
   s32 \<times> ParentalControl option \<times> NpManagerRequests" where
  "sceNpGetParentalControlInfo req_id online_id has_age has_info h m =
     (case online_id of
        None \<Rightarrow> (ORBIS_NP_ERROR_INVALID_ARGUMENT, None, m)
      | Some oid \<Rightarrow>
          if \<not> has_age \<or> \<not> has_info then (ORBIS_NP_ERROR_INVALID_ARGUMENT, None, m)
          else let user_id = GetUserIdByOnlineId oid h
               in if user_id = -1 then (ORBIS_NP_ERROR_USER_NOT_FOUND, None, m)
                  else sceNpGetParentalControlInfoA req_id user_id has_age has_info h m)"

section \<open>Ending and waiting\<close>

definition sceNpAbortRequest :: "s32 \<Rightarrow> NpManagerRequests \<Rightarrow> s32 \<times> NpManagerRequests" where
  "sceNpAbortRequest req_id m =
     (if request_missing req_id m then (ORBIS_NP_ERROR_REQUEST_NOT_FOUND, m)
      else if nr_state (slot_at req_id m) = ReqComplete then (ORBIS_OK, m)
      else (ORBIS_OK, set_slot req_id ((slot_at req_id m)\<lparr>nr_state := ReqAborted\<rparr>) m))"

definition unset_or_at_least :: "u32 \<Rightarrow> u32 \<Rightarrow> bool" where
  "unset_or_at_least v min_us \<longleftrightarrow> v = 0 \<or> min_us \<le> v"

text \<open>The timeouts are checked and not kept.\<close>

definition timeouts_ok :: "s32 \<Rightarrow> u32 \<Rightarrow> u32 \<Rightarrow> u32 \<Rightarrow> u32 \<Rightarrow> bool" where
  "timeouts_ok resolve_retry resolve_timeout conn_timeout send_timeout recv_timeout \<longleftrightarrow>
     \<not> (resolve_retry = 0 \<and> resolve_timeout = 0 \<and> conn_timeout = 0 \<and> send_timeout = 0 \<and> recv_timeout = 0) \<and>
     0 \<le> resolve_retry \<and> unset_or_at_least resolve_timeout 1000000 \<and>
     unset_or_at_least conn_timeout 10000000 \<and> unset_or_at_least send_timeout 10000000 \<and>
     unset_or_at_least recv_timeout 10000000"

definition sceNpSetTimeout ::
  "s32 \<Rightarrow> s32 \<Rightarrow> u32 \<Rightarrow> u32 \<Rightarrow> u32 \<Rightarrow> u32 \<Rightarrow> NpManagerRequests \<Rightarrow> s32" where
  "sceNpSetTimeout req_id resolve_retry resolve_timeout conn_timeout send_timeout recv_timeout m =
     (if req_id \<le> 0 then ORBIS_NP_ERROR_INVALID_ARGUMENT
      else if \<not> timeouts_ok resolve_retry resolve_timeout conn_timeout send_timeout recv_timeout
      then ORBIS_NP_ERROR_INVALID_ARGUMENT
      else if request_missing req_id m then ORBIS_NP_ERROR_REQUEST_NOT_FOUND
      else ORBIS_OK)"

definition sceNpWaitAsync :: "s32 \<Rightarrow> bool \<Rightarrow> NpManagerRequests \<Rightarrow> s32 \<times> s32 option" where
  "sceNpWaitAsync req_id has_result m =
     (if \<not> has_result then (ORBIS_NP_ERROR_INVALID_ARGUMENT, None)
      else if request_missing req_id m then (ORBIS_NP_ERROR_REQUEST_NOT_FOUND, None)
      else if \<not> nr_async (slot_at req_id m) \<or> nr_state (slot_at req_id m) = ReqReady
      then (ORBIS_NP_ERROR_INVALID_ID, None)
      else (ORBIS_OK, Some (nr_result (slot_at req_id m))))"

definition sceNpPollAsync :: "s32 \<Rightarrow> bool \<Rightarrow> NpManagerRequests \<Rightarrow> s32 \<times> s32 option" where
  "sceNpPollAsync req_id has_result m =
     (if \<not> has_result then (ORBIS_NP_ERROR_INVALID_ARGUMENT, None)
      else if request_missing req_id m then (ORBIS_NP_ERROR_REQUEST_NOT_FOUND, None)
      else if \<not> nr_async (slot_at req_id m) \<or> nr_state (slot_at req_id m) = ReqReady
      then (ORBIS_NP_ERROR_INVALID_ID, None)
      else (ORBIS_OK, Some (nr_result (slot_at req_id m))))"

definition sceNpDeleteRequest :: "s32 \<Rightarrow> NpManagerRequests \<Rightarrow> s32 \<times> NpManagerRequests" where
  "sceNpDeleteRequest req_id m =
     (if request_missing req_id m then (ORBIS_NP_ERROR_REQUEST_NOT_FOUND, m)
      else (ORBIS_OK,
            (set_slot req_id ((slot_at req_id m)\<lparr>nr_state := ReqNone\<rparr>) m)
              \<lparr>g_active_requests := to_s32 (g_active_requests m - 1)\<rparr>))"

definition sceNpSetGamePresenceOnline :: "s32 \<Rightarrow> OrbisNpOnlineId option \<Rightarrow> NpManagerRequests \<Rightarrow> s32" where
  "sceNpSetGamePresenceOnline req_id online_id m =
     (if req_id = 0 \<or> online_id = None then ORBIS_NP_ERROR_INVALID_ARGUMENT
      else if request_missing req_id m then ORBIS_NP_ERROR_REQUEST_NOT_FOUND
      else ORBIS_OK)"

definition sceNpSetGamePresenceOnlineA :: "s32 \<Rightarrow> s32 \<Rightarrow> NpHandler \<Rightarrow> NpManagerRequests \<Rightarrow> s32" where
  "sceNpSetGamePresenceOnlineA req_id user_id h m =
     (if user_id = -1 then ORBIS_NP_ERROR_INVALID_ARGUMENT
      else sceNpSetGamePresenceOnline req_id (Some (handle (GetNpId user_id h))) m)"

end
