(* ===== verification/NpManagerProps.thy ===== *)
theory NpManagerProps
  imports NpManagerReq
begin

text \<open>
  What the requests of the manager promise: the invariant of the slots, that the table is a table of
  ids in the sense of RequestTable, and how results are reported.
\<close>

section \<open>The slots\<close>

abbreviation used :: "NpRequest \<Rightarrow> bool" where
  "used r \<equiv> nr_state r \<noteq> ReqNone"

definition mgr_ok :: "NpManagerRequests \<Rightarrow> bool" where
  "mgr_ok m \<longleftrightarrow> length (g_requests m) \<le> 32 \<and> g_active_requests m = int (length (filter used (g_requests m)))"

definition live_requests :: "NpManagerRequests \<Rightarrow> s32 set" where
  "live_requests m = (\<lambda>i. int i + 0x20000001) ` {i. i < length (g_requests m) \<and> used (g_requests m ! i)}"

lemma finite_live: "finite (live_requests m)"
  unfolding live_requests_def by simp

lemma card_live: "card (live_requests m) = length (filter used (g_requests m))"
proof -
  have "inj_on (\<lambda>i. int i + 0x20000001 :: int) A" for A by (auto simp: inj_on_def)
  then show ?thesis
    unfolding live_requests_def by (simp add: card_image length_filter_conv_card)
qed

lemma active_is_card: "mgr_ok m \<Longrightarrow> g_active_requests m = int (card (live_requests m))"
  by (simp add: mgr_ok_def card_live)

lemma free_slot_le: "free_slot rs \<le> length rs"
  by (induction rs) auto

lemma free_slot_free: "free_slot rs < length rs \<Longrightarrow> nr_state (rs ! free_slot rs) = ReqNone"
  by (induction rs) auto

lemma free_slot_none: "free_slot rs = length rs \<Longrightarrow> r \<in> set rs \<Longrightarrow> used r"
  by (induction rs) (auto split: if_splits)

lemma filter_update_on:
  "i < length xs \<Longrightarrow> \<not> P (xs ! i) \<Longrightarrow> P y \<Longrightarrow> length (filter P (xs[i := y])) = Suc (length (filter P xs))"
  by (induction xs arbitrary: i) (auto split: nat.splits)

lemma filter_update_off:
  "i < length xs \<Longrightarrow> P (xs ! i) \<Longrightarrow> \<not> P y \<Longrightarrow> Suc (length (filter P (xs[i := y]))) = length (filter P xs)"
  by (induction xs arbitrary: i) (auto split: nat.splits)

lemma filter_update_same:
  "i < length xs \<Longrightarrow> P y = P (xs ! i) \<Longrightarrow> length (filter P (xs[i := y])) = length (filter P xs)"
  by (induction xs arbitrary: i) (auto split: nat.splits)

text \<open>An id of a machine integer names a slot exactly when it is live.\<close>

lemma req_index_live:
  assumes "i < length (g_requests m)" and "mgr_ok m"
  shows "req_index (int i + 0x20000001) = int i"
  using assms by (simp add: req_index_def mgr_ok_def to_s32_id)

lemma missing_iff:
  assumes ok: "mgr_ok m" and id: "is_s32 req_id"
  shows "request_missing req_id m \<longleftrightarrow> req_id \<notin> live_requests m"
proof (cases "req_id < 0x20000001 \<or> req_id \<ge> 0x20000001 + int (length (g_requests m))")
  case True
  have "req_index req_id < 0 \<or> int (length (g_requests m)) \<le> req_index req_id"
  proof (cases "- (2 ^ 31) \<le> req_id - 0x20000001")
    case True
    with id have "req_index req_id = req_id - 0x20000001"
      by (auto simp: req_index_def is_s32_def to_s32_id)
    with \<open>req_id < 0x20000001 \<or> _\<close> show ?thesis by auto
  next
    case False
    with id have "req_index req_id = req_id - 0x20000001 + 2 ^ 32"
      using to_s32_wraps [of "req_id - 0x20000001"] by (auto simp: req_index_def is_s32_def)
    with False id ok show ?thesis by (auto simp: is_s32_def mgr_ok_def)
  qed
  with True show ?thesis by (auto simp: request_missing_def live_requests_def)
next
  case False
  then have "req_id = int (nat (req_id - 0x20000001)) + 0x20000001" "nat (req_id - 0x20000001) < length (g_requests m)"
    by auto
  then obtain i where i: "req_id = int i + 0x20000001" "i < length (g_requests m)" by blast
  with ok have x: "req_index req_id = int i" by (simp add: req_index_live)
  have "g_active_requests m \<noteq> 0" if "used (g_requests m ! i)"
    using ok i that by (auto simp: mgr_ok_def filter_empty_conv)
  with i x show ?thesis by (auto simp: request_missing_def live_requests_def)
qed

lemma found_slot:
  assumes "\<not> request_missing req_id m"
  shows "nat (req_index req_id) < length (g_requests m)" and "used (slot_at req_id m)"
  using assms by (auto simp: request_missing_def slot_at_def)

lemma set_slot_ok:
  assumes "mgr_ok m" and "\<not> request_missing req_id m" and "used r"
  shows "mgr_ok (set_slot req_id r m)"
  using assms found_slot [OF assms(2)]
  by (simp add: mgr_ok_def set_slot_def filter_update_same slot_at_def)

lemma set_slot_live:
  assumes "\<not> request_missing req_id m" and "used r"
  shows "live_requests (set_slot req_id r m) = live_requests m"
  using assms found_slot [OF assms(1)]
  by (auto simp: live_requests_def set_slot_def slot_at_def nth_list_update)

lemma CreateNpRequest_room:
  assumes ok: "mgr_ok m" and room: "card (live_requests m) < 32"
  obtains i where "CreateNpRequest async m = (i, snd (CreateNpRequest async m))" and "0x20000001 \<le> i" and "i \<le> 0x20000020"
    and "i \<notin> live_requests m"
    and "live_requests (snd (CreateNpRequest async m)) = insert i (live_requests m)"
    and "mgr_ok (snd (CreateNpRequest async m))"
proof -
  define k where "k = free_slot (g_requests m)"
  define reqs where "reqs = (if k < length (g_requests m)
        then (g_requests m)[k := (g_requests m ! k)\<lparr>nr_state := ReqReady, nr_async := async\<rparr>]
        else g_requests m @ [\<lparr>nr_state = ReqReady, nr_async = async, nr_result = 0\<rparr>])"
  have act: "g_active_requests m = int (card (live_requests m))" by (rule active_is_card [OF ok])
  have kl: "k \<le> length (g_requests m)" unfolding k_def by (rule free_slot_le)
  have full: "length (g_requests m) = card (live_requests m)" if "k = length (g_requests m)"
  proof -
    have "\<forall>r \<in> set (g_requests m). used r" using that free_slot_none unfolding k_def by blast
    then show ?thesis by (simp add: card_live)
  qed
  have k32: "k < 32"
  proof (cases "k < length (g_requests m)")
    case True with ok show ?thesis by (simp add: mgr_ok_def)
  next
    case False with kl full room show ?thesis by simp
  qed
  have len: "length reqs \<le> 32"
    using ok full room kl by (auto simp: reqs_def mgr_ok_def)
  have cnt: "length (filter used reqs) = Suc (length (filter used (g_requests m)))"
    unfolding reqs_def using kl free_slot_free [of "g_requests m"]
    by (auto simp: filter_update_on k_def)
  have eq: "CreateNpRequest async m =
      (int k + 0x20000001, \<lparr>g_active_requests = g_active_requests m + 1, g_requests = reqs\<rparr>)"
    using act room k32
    by (simp add: CreateNpRequest_def Let_def k_def [symmetric] reqs_def [symmetric] to_s32_id)
  have "int k + 0x20000001 \<notin> live_requests m"
    using free_slot_free [of "g_requests m"] kl by (auto simp: live_requests_def k_def)
  moreover have "live_requests (snd (CreateNpRequest async m)) = insert (int k + 0x20000001) (live_requests m)"
    unfolding eq using kl free_slot_free [of "g_requests m"]
    by (auto simp: live_requests_def reqs_def nth_list_update nth_append k_def image_iff split: if_splits)
  moreover have "mgr_ok (snd (CreateNpRequest async m))"
    unfolding eq using len cnt ok by (simp add: mgr_ok_def)
  ultimately show ?thesis
    using that [of "int k + 0x20000001"] k32 by (simp add: eq)
qed

lemma CreateNpRequest_full:
  assumes "mgr_ok m" and "32 \<le> card (live_requests m)"
  shows "CreateNpRequest async m = (ORBIS_NP_ERROR_REQUEST_MAX, m)"
proof -
  have "card (live_requests m) \<le> 32"
    using assms(1) le_trans [OF length_filter_le [of used "g_requests m"]] by (simp add: mgr_ok_def card_live)
  with assms show ?thesis by (simp add: CreateNpRequest_def active_is_card)
qed

lemma DeleteRequest_live:
  assumes ok: "mgr_ok m" and live: "i \<in> live_requests m"
  obtains m' where "sceNpDeleteRequest i m = (0, m')" and "live_requests m' = live_requests m - {i}" and "mgr_ok m'"
proof -
  from live obtain k where k: "i = int k + 0x20000001" "k < length (g_requests m)" "used (g_requests m ! k)"
    by (auto simp: live_requests_def)
  have "is_s32 i" using k ok by (auto simp: is_s32_def mgr_ok_def)
  with live ok have nm: "\<not> request_missing i m" by (simp add: missing_iff)
  have x: "req_index i = int k" using k ok by (simp add: req_index_live)
  define m' where "m' = snd (sceNpDeleteRequest i m)"
  have act: "g_active_requests m = int (length (filter used (g_requests m)))" using ok by (simp add: mgr_ok_def)
  have cnt: "Suc (length (filter used ((g_requests m)[k := (g_requests m ! k)\<lparr>nr_state := ReqNone\<rparr>]))) =
      length (filter used (g_requests m))"
    using k by (intro filter_update_off) auto
  have le: "length (filter used (g_requests m)) \<le> 32"
    using ok le_trans [OF length_filter_le [of used "g_requests m"]] by (simp add: mgr_ok_def)
  have a: "to_s32 (g_active_requests m - 1) =
      int (length (filter used ((g_requests m)[k := (g_requests m ! k)\<lparr>nr_state := ReqNone\<rparr>])))"
    using act cnt le by (subst to_s32_id) auto
  have "mgr_ok m'"
    using ok nm x a unfolding m'_def
    by (simp add: sceNpDeleteRequest_def mgr_ok_def set_slot_def slot_at_def)
  moreover have "live_requests m' = live_requests m - {i}"
    using nm x k unfolding m'_def
    by (auto simp: sceNpDeleteRequest_def live_requests_def set_slot_def slot_at_def nth_list_update)
  moreover have "sceNpDeleteRequest i m = (0, m')"
    using nm unfolding m'_def by (simp add: sceNpDeleteRequest_def)
  ultimately show ?thesis using that by blast
qed

interpretation mgr_table: request_table "\<lambda>k m. mgr_ok m" live_requests "CreateNpRequest async" sceNpDeleteRequest 32
  for async :: bool
proof (unfold_locales, goal_cases)
  case (1 k s)
  from CreateNpRequest_room [OF this, of async] show ?case by (metis less_le_trans zero_less_numeral)
next
  case (2 k s)
  then show ?case by (simp add: CreateNpRequest_full)
next
  case (3 k s i)
  then show ?case by (meson DeleteRequest_live)
next
  case (4 k s i)
  then show ?case by (simp add: missing_iff sceNpDeleteRequest_def)
qed

section \<open>Every operation keeps the slots well formed\<close>

lemma GetRequest_keeps:
  assumes "mgr_ok m"
  shows "mgr_ok (snd (GetRequest req_id m))"
    and "live_requests (snd (GetRequest req_id m)) = live_requests m"
  using assms found_slot(2) [of req_id m]
  by (auto simp: GetRequest_def set_slot_ok set_slot_live)

lemma GetRequest_ready:
  "GetRequest req_id m = (None, m') \<Longrightarrow>
     m' = m \<and> \<not> request_missing req_id m \<and> nr_state (slot_at req_id m) = ReqReady"
  using found_slot(2) [of req_id m]
  by (cases "nr_state (slot_at req_id m)") (auto simp: GetRequest_def split: if_splits)

lemma complete_for_user_keeps:
  assumes "mgr_ok m"
  shows "mgr_ok (snd (snd (complete_for_user req_id user_id h m)))"
    and "live_requests (snd (snd (complete_for_user req_id user_id h m))) = live_requests m"
  using GetRequest_keeps [OF assms, of req_id] GetRequest_ready [of req_id m] assms
  by (auto simp: complete_for_user_def CompleteRequest_def Let_def set_slot_ok set_slot_live
      split: prod.splits option.splits)

lemma complete_for_user_ok:
  "complete_for_user req_id user_id h m = (rc, ok, m') \<Longrightarrow> mgr_ok m \<Longrightarrow> mgr_ok m'"
  using complete_for_user_keeps(1) [of m req_id user_id h] by simp

lemma AbortRequest_keeps:
  assumes "mgr_ok m"
  shows "mgr_ok (snd (sceNpAbortRequest req_id m))"
    and "live_requests (snd (sceNpAbortRequest req_id m)) = live_requests m"
  using assms by (auto simp: sceNpAbortRequest_def set_slot_ok set_slot_live)

text \<open>The states of the table: every operation that changes it is a step.\<close>

inductive mgr_reach :: "NpManagerRequests \<Rightarrow> bool" where
  mgr_init: "mgr_reach init_requests"
| mgr_create: "mgr_reach m \<Longrightarrow> mgr_reach (snd (sceNpCreateRequest m))"
| mgr_create_async: "mgr_reach m \<Longrightarrow> mgr_reach (snd (sceNpCreateAsyncRequest param m))"
| mgr_availability: "mgr_reach m \<Longrightarrow> mgr_reach (snd (sceNpCheckNpAvailability i oid h m))"
| mgr_availability_a: "mgr_reach m \<Longrightarrow> mgr_reach (snd (sceNpCheckNpAvailabilityA i u h m))"
| mgr_reachability: "mgr_reach m \<Longrightarrow> mgr_reach (snd (sceNpCheckNpReachability i u h m))"
| mgr_plus: "mgr_reach m \<Longrightarrow> mgr_reach (snd (snd (sceNpCheckPlus i p b fw h m)))"
| mgr_language: "mgr_reach m \<Longrightarrow> mgr_reach (snd (snd (sceNpGetAccountLanguage i oid b h m)))"
| mgr_language_a: "mgr_reach m \<Longrightarrow> mgr_reach (snd (snd (sceNpGetAccountLanguageA i u b h m)))"
| mgr_parental: "mgr_reach m \<Longrightarrow> mgr_reach (snd (snd (sceNpGetParentalControlInfo i oid b b' h m)))"
| mgr_parental_a: "mgr_reach m \<Longrightarrow> mgr_reach (snd (snd (sceNpGetParentalControlInfoA i u b b' h m)))"
| mgr_abort: "mgr_reach m \<Longrightarrow> mgr_reach (snd (sceNpAbortRequest i m))"
| mgr_delete: "is_s32 i \<Longrightarrow> mgr_reach m \<Longrightarrow> mgr_reach (snd (sceNpDeleteRequest i m))"

lemmas manager_checks = sceNpCheckNpAvailability_def sceNpCheckNpAvailabilityA_def sceNpCheckNpReachability_def
  sceNpCheckPlus_def sceNpGetAccountLanguage_def sceNpGetAccountLanguageA_def sceNpGetParentalControlInfo_def
  sceNpGetParentalControlInfoA_def

lemma Create_keeps: "mgr_ok m \<Longrightarrow> mgr_ok (snd (CreateNpRequest async m))"
  by (cases "card (live_requests m) < 32") (auto simp: CreateNpRequest_full elim: CreateNpRequest_room)

lemma Delete_keeps:
  assumes "mgr_ok m" and "is_s32 i"
  shows "mgr_ok (snd (sceNpDeleteRequest i m))"
proof (cases "i \<in> live_requests m")
  case True
  then show ?thesis using DeleteRequest_live [OF assms(1) True] by (metis snd_conv)
next
  case False
  with assms show ?thesis by (simp add: missing_iff sceNpDeleteRequest_def)
qed

lemma mgr_reach_ok: "mgr_reach m \<Longrightarrow> mgr_ok m"
proof (induction rule: mgr_reach.induct)
  case mgr_init
  show ?case by (simp add: mgr_ok_def init_requests_def)
next
  case (mgr_create m)
  then show ?case by (simp add: sceNpCreateRequest_def Create_keeps)
next
  case (mgr_create_async m param)
  then show ?case by (simp add: sceNpCreateAsyncRequest_def Create_keeps split: option.splits)
next
  case (mgr_delete i m)
  then show ?case by (simp add: Delete_keeps)
qed (auto simp: manager_checks AbortRequest_keeps Let_def split: option.splits prod.splits
      dest: complete_for_user_ok)

text \<open>
  In every reachable state of the manager there are at most 32 slots, the count of active
  requests is the number of slots in use, and the ids of live requests are the numbers from
  0x20000001 to 0x20000020 that name those slots: an id is refused exactly when it is not live.
\<close>
theorem manager_slots_inv:
  assumes "mgr_reach m"
  shows "length (g_requests m) \<le> 32 \<and> g_active_requests m = int (card (live_requests m)) \<and>
    live_requests m \<subseteq> {0x20000001..0x20000020} \<and>
    (\<forall>i. is_s32 i \<longrightarrow> request_missing i m = (i \<notin> live_requests m))"
  using mgr_reach_ok [OF assms] missing_iff active_is_card
  by (auto simp: mgr_ok_def live_requests_def)

lemma manager_slots_inv_witness:
  "length (g_requests (snd (sceNpCreateRequest init_requests))) \<le> 32"
  using manager_slots_inv [OF mgr_create [OF mgr_init]] by blast

text \<open>
  Claim C17. The request table of the manager is a table of at most 32 ids: along any sequence of
  creations and deletions, whatever ids the game passes, a creation returns a new positive id
  exactly when fewer than 32 requests are live, and a deletion succeeds exactly on a live id.
\<close>
theorem manager_table_refines:
  assumes "list_all op_ids_ok ops" and "run_table (CreateNpRequest async) sceNpDeleteRequest ops init_requests = (rs, m)"
  shows "table_spec 32 ops rs {} (live_requests m)"
proof -
  have "mgr_ok init_requests" by (simp add: mgr_ok_def init_requests_def)
  moreover have "live_requests init_requests = {}" by (simp add: live_requests_def init_requests_def)
  ultimately show ?thesis using mgr_table.run_refines [OF _ assms] by simp
qed

lemma manager_table_refines_witness:
  "table_spec 32 [CreateOp, DeleteOp 7] [0x20000001, ORBIS_NP_ERROR_REQUEST_NOT_FOUND] {} {0x20000001}"
proof -
  have i: "req_index 7 < 0" by (simp add: req_index_def to_s32_id)
  have "run_table (CreateNpRequest True) sceNpDeleteRequest [CreateOp, DeleteOp 7] init_requests =
      ([0x20000001, ORBIS_NP_ERROR_REQUEST_NOT_FOUND],
       \<lparr>g_active_requests = 1, g_requests = [\<lparr>nr_state = ReqReady, nr_async = True, nr_result = 0\<rparr>]\<rparr>)"
    using i by (simp add: CreateNpRequest_def init_requests_def sceNpDeleteRequest_def request_missing_def to_s32_id)
  from manager_table_refines [OF _ this] show ?thesis by (simp add: is_s32_def live_requests_def)
qed

section \<open>Results\<close>

lemma ready_slot:
  assumes "mgr_reach m" and "i \<in> live_requests m"
  shows "is_s32 i" and "\<not> request_missing i m" and "i \<noteq> 0"
proof -
  have "i \<in> {0x20000001..0x20000020}"
    using mgr_reach_ok [OF assms(1)] assms(2) by (auto simp: mgr_ok_def live_requests_def)
  then show r: "is_s32 i" "i \<noteq> 0" by (auto simp: is_s32_def)
  then show "\<not> request_missing i m" using missing_iff [OF mgr_reach_ok [OF assms(1)] r(1)] assms(2) by simp
qed

lemma slot_at_set:
  assumes "\<not> request_missing i m"
  shows "slot_at i (set_slot i r m) = r"
  using found_slot(1) [OF assms] by (simp add: slot_at_def set_slot_def)

lemma slot_at_set_other:
  assumes "mgr_ok m" and "i \<in> live_requests m" and "j \<in> live_requests m" and "j \<noteq> i"
  shows "slot_at j (set_slot i r m) = slot_at j m"
  using assms by (auto simp: live_requests_def slot_at_def set_slot_def req_index_live)

text \<open>
  Checking the availability of a signed in or signed out user on a ready request completes
  it with OK or SIGNED\_OUT: a synchronous request returns that result and can not be waited for; an
  asynchronous one returns OK and a wait or a poll reports the result. No other request changes.
\<close>
theorem availability_completes:
  assumes m: "mgr_reach m" and live: "i \<in> live_requests m" and ready: "nr_state (slot_at i m) = ReqReady"
    and user: "user_id \<noteq> -1"
    and call: "sceNpCheckNpAvailabilityA i user_id h m = (rc, m')"
  shows "let result = (if IsSignedIn user_id h then ORBIS_OK else ORBIS_NP_ERROR_SIGNED_OUT); async = nr_async (slot_at i m)
    in rc = (if async then ORBIS_OK else result) \<and>
       sceNpWaitAsync i True m' = (if async then (ORBIS_OK, Some result) else (ORBIS_NP_ERROR_INVALID_ID, None)) \<and>
       sceNpPollAsync i True m' = sceNpWaitAsync i True m' \<and>
       live_requests m' = live_requests m \<and> (\<forall>j \<in> live_requests m. j \<noteq> i \<longrightarrow> slot_at j m' = slot_at j m)"
proof -
  note ok = mgr_reach_ok [OF m]
  note nm = ready_slot [OF m live]
  define result where "result = (if IsSignedIn user_id h then ORBIS_OK else ORBIS_NP_ERROR_SIGNED_OUT)"
  have get: "GetRequest i m = (None, m)"
    using nm ready by (simp add: GetRequest_def)
  have m': "m' = set_slot i ((slot_at i m)\<lparr>nr_state := ReqComplete, nr_result := result\<rparr>) m"
    and rc: "rc = (if nr_async (slot_at i m) then ORBIS_OK else result)"
    using call user by (auto simp: sceNpCheckNpAvailabilityA_def complete_for_user_def get CompleteRequest_def
        Let_def result_def split: if_splits)
  have nm': "\<not> request_missing i m'"
    using missing_iff [OF set_slot_ok [OF ok nm(2)] nm(1)] set_slot_live [OF nm(2)] live
    by (simp add: m')
  have "sceNpWaitAsync i True m' =
      (if nr_async (slot_at i m) then (ORBIS_OK, Some result) else (ORBIS_NP_ERROR_INVALID_ID, None))"
    using nm' slot_at_set [OF nm(2)] by (simp add: sceNpWaitAsync_def m')
  moreover have "sceNpPollAsync i True m' = sceNpWaitAsync i True m'"
    by (simp add: sceNpPollAsync_def sceNpWaitAsync_def)
  moreover have "live_requests m' = live_requests m"
    unfolding m' by (rule set_slot_live [OF nm(2)]) simp
  moreover have "\<forall>j \<in> live_requests m. j \<noteq> i \<longrightarrow> slot_at j m' = slot_at j m"
    using slot_at_set_other [OF ok live] by (simp add: m')
  ultimately show ?thesis using rc by (simp add: result_def [symmetric] Let_def)
qed

lemma Create_slot:
  assumes ok: "mgr_ok m" and new: "CreateNpRequest async m = (i, m')" and i: "0 < i"
  defines "k \<equiv> free_slot (g_requests m)"
  shows "i = int k + 0x20000001 \<and> slot_at i m' = \<lparr>nr_state = ReqReady, nr_async = async,
      nr_result = (if k < length (g_requests m) then nr_result (g_requests m ! k) else 0)\<rparr>"
proof -
  have room: "card (live_requests m) < 32"
    using CreateNpRequest_full [OF ok, of async] new i by (cases "card (live_requests m) < 32") auto
  obtain j where j: "CreateNpRequest async m = (j, snd (CreateNpRequest async m))" "0x20000001 \<le> j" "j \<le> 0x20000020"
    by (rule CreateNpRequest_room [OF ok room])
  have a: "g_active_requests m \<noteq> 32" using room active_is_card [OF ok] by simp
  have kl: "k \<le> length (g_requests m)" unfolding k_def by (rule free_slot_le)
  with ok have "k \<le> 32" by (simp add: mgr_ok_def)
  with new a have ieq: "i = int k + 0x20000001"
    by (simp add: CreateNpRequest_def Let_def k_def [symmetric] to_s32_id)
  then have x: "req_index i = int k" using \<open>k \<le> 32\<close> by (simp add: req_index_def to_s32_id)
  show ?thesis
    using new a kl x ieq by (auto simp: CreateNpRequest_def Let_def k_def [symmetric] slot_at_def nth_append)
qed

text \<open>
  A request that is aborted before any work is done on it is not reported as aborted: the
  abort succeeds, and a wait answers OK with the result the slot had before, which is the result of
  an earlier request in that slot, and OK in a slot that is new.
\<close>
theorem aborted_request_reports_stale_result:
  assumes m: "mgr_reach m" and new: "sceNpCreateAsyncRequest (Some 24) m = (i, m1)" and i: "0 < i"
  defines "k \<equiv> free_slot (g_requests m)"
  shows "fst (sceNpAbortRequest i m1) = ORBIS_OK \<and>
    sceNpWaitAsync i True (snd (sceNpAbortRequest i m1)) =
      (ORBIS_OK, Some (if k < length (g_requests m) then nr_result (g_requests m ! k) else ORBIS_OK))"
proof -
  note ok = mgr_reach_ok [OF m]
  from new have new': "CreateNpRequest True m = (i, m1)" by (simp add: sceNpCreateAsyncRequest_def)
  have room: "card (live_requests m) < 32"
    using CreateNpRequest_full [OF ok, of True] new' i by (cases "card (live_requests m) < 32") auto
  have m1: "mgr_reach m1" using mgr_create_async [OF m, of "Some 24"] new by simp
  have live: "i \<in> live_requests m1"
    by (rule CreateNpRequest_room [OF ok room, of True]) (use new' in auto)
  note nm = ready_slot [OF m1 live]
  have slot: "slot_at i m1 = \<lparr>nr_state = ReqReady, nr_async = True,
      nr_result = (if k < length (g_requests m) then nr_result (g_requests m ! k) else 0)\<rparr>"
    using Create_slot [OF ok new' i] unfolding k_def by (rule conjunct2)
  define m2 where "m2 = set_slot i ((slot_at i m1)\<lparr>nr_state := ReqAborted\<rparr>) m1"
  have abort: "sceNpAbortRequest i m1 = (ORBIS_OK, m2)"
    using nm slot by (simp add: sceNpAbortRequest_def m2_def)
  have "\<not> request_missing i m2"
    using missing_iff [OF set_slot_ok [OF mgr_reach_ok [OF m1] nm(2)] nm(1)] set_slot_live [OF nm(2)] live
    by (simp add: m2_def)
  then show ?thesis
    using slot slot_at_set [OF nm(2)] by (simp add: abort sceNpWaitAsync_def m2_def)
qed

lemma aborted_request_reports_stale_result_witness:
  "sceNpWaitAsync 0x20000001 True (snd (sceNpAbortRequest 0x20000001
     (snd (sceNpCreateAsyncRequest (Some 24) init_requests)))) = (ORBIS_OK, Some ORBIS_OK)"
proof -
  have "sceNpCreateAsyncRequest (Some 24) init_requests =
      (0x20000001, snd (sceNpCreateAsyncRequest (Some 24) init_requests))"
    by (simp add: sceNpCreateAsyncRequest_def CreateNpRequest_def init_requests_def to_s32_id)
  from aborted_request_reports_stale_result [OF mgr_init this] show ?thesis
    by (simp add: init_requests_def)
qed

definition demo_async_request :: NpManagerRequests where
  "demo_async_request = \<lparr>g_active_requests = 1, g_requests = [\<lparr>nr_state = ReqReady, nr_async = True, nr_result = 0\<rparr>]\<rparr>"

lemma availability_completes_witness:
  "sceNpWaitAsync 0x20000001 True (snd (sceNpCheckNpAvailabilityA 0x20000001 1 init_handler demo_async_request)) =
     (ORBIS_OK, Some ORBIS_NP_ERROR_SIGNED_OUT)"
proof -
  have eq: "demo_async_request = snd (sceNpCreateAsyncRequest (Some 24) init_requests)"
    by (simp add: sceNpCreateAsyncRequest_def CreateNpRequest_def init_requests_def to_s32_id demo_async_request_def)
  have r: "mgr_reach demo_async_request" unfolding eq by (rule mgr_create_async [OF mgr_init])
  have "0x20000001 \<in> live_requests demo_async_request" "nr_state (slot_at 0x20000001 demo_async_request) = ReqReady"
    by (auto simp: live_requests_def demo_async_request_def slot_at_def req_index_def to_s32_id)
  from availability_completes [OF r this, of 1 init_handler] show ?thesis
    by (cases "sceNpCheckNpAvailabilityA 0x20000001 1 init_handler demo_async_request")
      (simp add: Let_def IsSignedIn_def init_handler_def demo_async_request_def slot_at_def req_index_def to_s32_id)
qed

end
