(* ===== verification/NpManager.thy ===== *)
theory NpManager
  imports NpManagerReq "HOL-Library.List_Lexorder"
begin

text \<open>
  The manager library: its callbacks and the queue of sign in events (np_manager_callbacks.cpp), and
  the functions a game asks for users and accounts with (np_manager.cpp). Functions of the game are
  addresses; the calls of them are the list \<open>mg_calls\<close>, in order. The callbacks run outside the locks,
  on copies taken under them.
\<close>

section \<open>State\<close>

datatype OrbisNpReachabilityState = Unavailable | Available | Reachable

record Callback =
  cf_func :: "addr option"
  cf_userdata :: "addr option"

definition no_callback :: Callback where
  "no_callback = \<lparr>cf_func = None, cf_userdata = None\<rparr>"

record NpStateCallbackA = Callback +
  ca_in_use :: bool

definition free_state_cb :: NpStateCallbackA where
  "free_state_cb = \<lparr>cf_func = None, cf_userdata = None, ca_in_use = False\<rparr>"

record GamePresenceCallbackA =
  pc_handle :: s32
  pc_func :: "addr option"
  pc_userdata :: "addr option"
  pc_in_use :: bool

definition free_presence_cb :: GamePresenceCallbackA where
  "free_presence_cb = \<lparr>pc_handle = 0, pc_func = None, pc_userdata = None, pc_in_use = False\<rparr>"

record PendingNpStateEvent =
  pe_user_id :: s32
  pe_state :: OrbisNpState
  pe_np_id :: OrbisNpId
  pe_has_np_id :: bool

datatype ManagerCall =
    LegacyStateCall addr s32 OrbisNpState "OrbisNpId option" "addr option"
  | StateACall addr s32 OrbisNpState "addr option"
  | ToolkitCall addr s32 OrbisNpState "addr option"
  | ReachabilityCall addr s32 OrbisNpReachabilityState "addr option"
  | LibraryCall addr

record NpManagerState =
  mg_reachability_cb :: Callback
  mg_reachability_last :: "(s32 \<times> OrbisNpReachabilityState) list"
  mg_toolkit_cb :: Callback
  mg_state_cb :: Callback
  mg_state_a_cbs :: "NpStateCallbackA list"
  mg_presence_cb :: Callback
  mg_presence_a_cbs :: "GamePresenceCallbackA list"
  mg_presence_next_handle :: s32
  mg_plus_event_cb :: Callback
  mg_state_events :: "PendingNpStateEvent list"
  mg_np_callbacks :: "(bytes \<times> addr) list"
  mg_calls :: "ManagerCall list"

definition init_manager :: NpManagerState where
  "init_manager = \<lparr>mg_reachability_cb = no_callback, mg_reachability_last = [], mg_toolkit_cb = no_callback,
     mg_state_cb = no_callback, mg_state_a_cbs = replicate 8 free_state_cb, mg_presence_cb = no_callback,
     mg_presence_a_cbs = replicate 8 free_presence_cb, mg_presence_next_handle = 0, mg_plus_event_cb = no_callback,
     mg_state_events = [], mg_np_callbacks = [], mg_calls = []\<rparr>"

section \<open>Registering callbacks\<close>

definition sceNpRegisterNpReachabilityStateCallback ::
  "addr option \<Rightarrow> addr option \<Rightarrow> NpManagerState \<Rightarrow> s32 \<times> NpManagerState" where
  "sceNpRegisterNpReachabilityStateCallback callback userdata g =
     (if callback = None then (ORBIS_NP_ERROR_INVALID_ARGUMENT, g)
      else if cf_func (mg_reachability_cb g) \<noteq> None then (ORBIS_NP_ERROR_CALLBACK_ALREADY_REGISTERED, g)
      else (ORBIS_OK, g\<lparr>mg_reachability_cb := \<lparr>cf_func = callback, cf_userdata = userdata\<rparr>, mg_reachability_last := []\<rparr>))"

definition sceNpUnregisterNpReachabilityStateCallback :: "NpManagerState \<Rightarrow> s32 \<times> NpManagerState" where
  "sceNpUnregisterNpReachabilityStateCallback g =
     (if cf_func (mg_reachability_cb g) = None then (ORBIS_NP_ERROR_CALLBACK_NOT_REGISTERED, g)
      else (ORBIS_OK, g\<lparr>mg_reachability_cb := no_callback, mg_reachability_last := []\<rparr>))"

definition sceNpRegisterStateCallbackForToolkit ::
  "addr option \<Rightarrow> addr option \<Rightarrow> NpManagerState \<Rightarrow> s32 \<times> NpManagerState" where
  "sceNpRegisterStateCallbackForToolkit callback userdata g =
     (if callback = None then (ORBIS_NP_ERROR_INVALID_ARGUMENT, g)
      else if cf_func (mg_toolkit_cb g) \<noteq> None then (ORBIS_NP_ERROR_CALLBACK_ALREADY_REGISTERED, g)
      else (ORBIS_OK, g\<lparr>mg_toolkit_cb := \<lparr>cf_func = callback, cf_userdata = userdata\<rparr>\<rparr>))"

definition sceNpUnregisterStateCallbackForToolkit :: "NpManagerState \<Rightarrow> s32 \<times> NpManagerState" where
  "sceNpUnregisterStateCallbackForToolkit g =
     (if cf_func (mg_toolkit_cb g) = None then (ORBIS_NP_ERROR_CALLBACK_NOT_REGISTERED, g)
      else (ORBIS_OK, g\<lparr>mg_toolkit_cb := no_callback\<rparr>))"

definition sceNpRegisterStateCallback ::
  "addr option \<Rightarrow> addr option \<Rightarrow> NpManagerState \<Rightarrow> s32 \<times> NpManagerState" where
  "sceNpRegisterStateCallback callback userdata g =
     (if callback = None then (ORBIS_NP_ERROR_INVALID_ARGUMENT, g)
      else if cf_func (mg_state_cb g) \<noteq> None then (ORBIS_NP_ERROR_CALLBACK_ALREADY_REGISTERED, g)
      else (ORBIS_OK, g\<lparr>mg_state_cb := \<lparr>cf_func = callback, cf_userdata = userdata\<rparr>\<rparr>))"

definition sceNpUnregisterStateCallback :: "NpManagerState \<Rightarrow> s32 \<times> NpManagerState" where
  "sceNpUnregisterStateCallback g =
     (if cf_func (mg_state_cb g) = None then (ORBIS_NP_ERROR_CALLBACK_NOT_REGISTERED, g)
      else (ORBIS_OK, g\<lparr>mg_state_cb := no_callback\<rparr>))"

text \<open>The index of the first entry of an array that satisfies a test, or its length.\<close>

fun first_index :: "('a \<Rightarrow> bool) \<Rightarrow> 'a list \<Rightarrow> nat" where
  "first_index P [] = 0"
| "first_index P (x # xs) = (if P x then 0 else Suc (first_index P xs))"

definition sceNpRegisterStateCallbackA ::
  "addr option \<Rightarrow> addr option \<Rightarrow> NpManagerState \<Rightarrow> s32 \<times> NpManagerState" where
  "sceNpRegisterStateCallbackA callback userdata g =
     (if callback = None then (ORBIS_NP_ERROR_INVALID_ARGUMENT, g)
      else if \<exists>e \<in> set (mg_state_a_cbs g). ca_in_use e \<and> cf_func e = callback
      then (ORBIS_NP_ERROR_CALLBACK_ALREADY_REGISTERED, g)
      else
        let i = first_index (\<lambda>e. \<not> ca_in_use e) (mg_state_a_cbs g)
        in if i < length (mg_state_a_cbs g)
           then (int i + 1, g\<lparr>mg_state_a_cbs := (mg_state_a_cbs g)
                   [i := \<lparr>cf_func = callback, cf_userdata = userdata, ca_in_use = True\<rparr>]\<rparr>)
           else (ORBIS_NP_ERROR_CALLBACK_MAX, g))"

definition sceNpUnregisterStateCallbackA :: "s32 \<Rightarrow> NpManagerState \<Rightarrow> s32 \<times> NpManagerState" where
  "sceNpUnregisterStateCallbackA callback_id g =
     (if callback_id \<le> 0 \<or> callback_id > int (length (mg_state_a_cbs g)) then (ORBIS_NP_ERROR_INVALID_ARGUMENT, g)
      else if \<not> ca_in_use (mg_state_a_cbs g ! nat (callback_id - 1)) then (ORBIS_NP_ERROR_CALLBACK_NOT_REGISTERED, g)
      else (ORBIS_OK, g\<lparr>mg_state_a_cbs := (mg_state_a_cbs g)[nat (callback_id - 1) := free_state_cb]\<rparr>))"

definition sceNpRegisterGamePresenceCallback :: "addr option \<Rightarrow> addr option \<Rightarrow> NpManagerState \<Rightarrow> NpManagerState" where
  "sceNpRegisterGamePresenceCallback callback userdata g =
     g\<lparr>mg_presence_cb := \<lparr>cf_func = callback, cf_userdata = userdata\<rparr>\<rparr>"

definition sceNpRegisterGamePresenceCallbackA ::
  "addr option \<Rightarrow> addr option \<Rightarrow> NpManagerState \<Rightarrow> s32 \<times> NpManagerState" where
  "sceNpRegisterGamePresenceCallbackA callback userdata g =
     (if callback = None then (ORBIS_NP_ERROR_INVALID_ARGUMENT, g)
      else
        let i = first_index (\<lambda>e. \<not> pc_in_use e) (mg_presence_a_cbs g);
            hnd = to_s32 (mg_presence_next_handle g + 1)
        in if i < length (mg_presence_a_cbs g)
           then (hnd, g\<lparr>mg_presence_next_handle := hnd, mg_presence_a_cbs := (mg_presence_a_cbs g)
                   [i := \<lparr>pc_handle = hnd, pc_func = callback, pc_userdata = userdata, pc_in_use = True\<rparr>]\<rparr>)
           else (ORBIS_NP_ERROR_CALLBACK_MAX, g))"

definition sceNpUnregisterGamePresenceCallbackA :: "s32 \<Rightarrow> NpManagerState \<Rightarrow> s32 \<times> NpManagerState" where
  "sceNpUnregisterGamePresenceCallbackA callback_id g =
     (let i = first_index (\<lambda>e. pc_in_use e \<and> pc_handle e = callback_id) (mg_presence_a_cbs g)
      in if i < length (mg_presence_a_cbs g)
         then (ORBIS_OK, g\<lparr>mg_presence_a_cbs := (mg_presence_a_cbs g)[i := free_presence_cb]\<rparr>)
         else (ORBIS_NP_ERROR_CALLBACK_NOT_REGISTERED, g))"

definition sceNpRegisterPlusEventCallback ::
  "addr option \<Rightarrow> addr option \<Rightarrow> NpManagerState \<Rightarrow> s32 \<times> NpManagerState" where
  "sceNpRegisterPlusEventCallback callback userdata g =
     (if callback = None then (ORBIS_NP_ERROR_INVALID_ARGUMENT, g)
      else if cf_func (mg_plus_event_cb g) \<noteq> None then (ORBIS_NP_ERROR_CALLBACK_ALREADY_REGISTERED, g)
      else (ORBIS_OK, g\<lparr>mg_plus_event_cb := \<lparr>cf_func = callback, cf_userdata = userdata\<rparr>\<rparr>))"

definition sceNpUnregisterPlusEventCallback :: "NpManagerState \<Rightarrow> s32 \<times> NpManagerState" where
  "sceNpUnregisterPlusEventCallback g =
     (if cf_func (mg_plus_event_cb g) = None then (ORBIS_NP_ERROR_CALLBACK_NOT_REGISTERED, g)
      else (ORBIS_OK, g\<lparr>mg_plus_event_cb := no_callback\<rparr>))"

text \<open>The parameter has the layout of the one of \<open>sceNpCheckPlus\<close>; the SDK version is the title's.\<close>

definition sceNpNotifyPlusFeature :: "OrbisNpCheckPlusParameter option \<Rightarrow> s32 \<Rightarrow> s32" where
  "sceNpNotifyPlusFeature param sdk_ver =
     (case param of
        None \<Rightarrow> ORBIS_NP_ERROR_INVALID_ARGUMENT
      | Some p \<Rightarrow>
          if cpp_size p \<noteq> 56 then ORBIS_NP_ERROR_INVALID_SIZE
          else if cpp_user_id p = -1 then ORBIS_NP_ERROR_INVALID_ARGUMENT
          else if cpp_features p \<ge> 4 \<or> cpp_features p = 0 \<or> (FW_350 \<le> word_of_int sdk_ver \<and> cpp_features p \<noteq> 1)
          then ORBIS_NP_ERROR_INVALID_ARGUMENT
          else if \<exists>b \<in> set (cpp_reserved p). b \<noteq> 0 then ORBIS_NP_ERROR_INVALID_ARGUMENT
          else ORBIS_OK)"

text \<open>\<open>emplace\<close> keeps a callback that is already registered under the key.\<close>

definition RegisterNpCallback :: "bytes \<Rightarrow> addr \<Rightarrow> NpManagerState \<Rightarrow> NpManagerState" where
  "RegisterNpCallback key cb g =
     (if map_of (mg_np_callbacks g) key \<noteq> None then g else g\<lparr>mg_np_callbacks := omap_put key cb (mg_np_callbacks g)\<rparr>)"

definition DeregisterNpCallback :: "bytes \<Rightarrow> NpManagerState \<Rightarrow> NpManagerState" where
  "DeregisterNpCallback key g = g\<lparr>mg_np_callbacks := omap_erase key (mg_np_callbacks g)\<rparr>"

section \<open>Sign in events\<close>

definition QueueNpStateEvent :: "s32 \<Rightarrow> OrbisNpState \<Rightarrow> NpHandler \<Rightarrow> NpManagerState \<Rightarrow> NpManagerState" where
  "QueueNpStateEvent user_id st h g =
     g\<lparr>mg_state_events := mg_state_events g @
         [\<lparr>pe_user_id = user_id, pe_state = st,
           pe_np_id = (if st = SignedIn then GetNpId user_id h else zero_np_id), pe_has_np_id = (st = SignedIn)\<rparr>]\<rparr>"

definition reach_of :: "OrbisNpState \<Rightarrow> OrbisNpReachabilityState" where
  "reach_of st = (if st = SignedIn then Reachable else Unavailable)"

text \<open>The loop that records the changes of reachability: what was told last, and the changes to tell.\<close>

fun reach_changes ::
  "PendingNpStateEvent list \<Rightarrow> (s32 \<times> OrbisNpReachabilityState) list \<Rightarrow>
   (s32 \<times> OrbisNpReachabilityState) list \<times> (s32 \<times> OrbisNpReachabilityState) list" where
  "reach_changes [] last_told = (last_told, [])"
| "reach_changes (e # es) last_told =
     (let r = reach_of (pe_state e); u = pe_user_id e
      in if map_of last_told u = Some r then reach_changes es last_told
         else let (l, cs) = reach_changes es (omap_put u r last_told) in (l, (u, r) # cs))"

definition event_calls :: "NpManagerState \<Rightarrow> PendingNpStateEvent \<Rightarrow> ManagerCall list" where
  "event_calls g e =
     (case cf_func (mg_state_cb g) of
        None \<Rightarrow> []
      | Some f \<Rightarrow> [LegacyStateCall f (pe_user_id e) (pe_state e)
                     (if pe_has_np_id e then Some (pe_np_id e) else None) (cf_userdata (mg_state_cb g))]) @
     List.map_filter (\<lambda>c. if ca_in_use c
         then map_option (\<lambda>f. StateACall f (pe_user_id e) (pe_state e) (cf_userdata c)) (cf_func c)
         else None) (mg_state_a_cbs g) @
     (case cf_func (mg_toolkit_cb g) of
        None \<Rightarrow> []
      | Some f \<Rightarrow> [ToolkitCall f (pe_user_id e) (pe_state e) (cf_userdata (mg_toolkit_cb g))])"

definition DispatchPendingNpStateCallbacks :: "NpManagerState \<Rightarrow> NpManagerState" where
  "DispatchPendingNpStateCallbacks g =
     (if mg_state_events g = [] then g
      else
        let events = mg_state_events g;
            (told, changes) = (if cf_func (mg_reachability_cb g) \<noteq> None
                               then reach_changes events (mg_reachability_last g)
                               else (mg_reachability_last g, []));
            reach = (case cf_func (mg_reachability_cb g) of
                       None \<Rightarrow> []
                     | Some f \<Rightarrow> map (\<lambda>(u, r). ReachabilityCall f u r (cf_userdata (mg_reachability_cb g))) changes)
        in g\<lparr>mg_state_events := [], mg_reachability_last := told,
             mg_calls := mg_calls g @ concat (map (event_calls g) events) @ reach\<rparr>)"

definition sceNpCheckCallback :: "NpManagerState \<Rightarrow> s32 \<times> NpManagerState" where
  "sceNpCheckCallback g =
     (let g1 = DispatchPendingNpStateCallbacks g
      in (ORBIS_OK, g1\<lparr>mg_calls := mg_calls g1 @ map (\<lambda>(key, cb). LibraryCall cb) (mg_np_callbacks g1)\<rparr>))"

definition sceNpCheckCallbackForLib :: "NpManagerState \<Rightarrow> s32 \<times> NpManagerState" where
  "sceNpCheckCallbackForLib g = (ORBIS_OK, DispatchPendingNpStateCallbacks g)"

section \<open>Users and accounts (np_manager.cpp)\<close>

definition FW_400 :: u32 where [simp]: "FW_400 = 0x4000000"
definition FW_900 :: u32 where [simp]: "FW_900 = 0x9000000"

definition sceNpGetState :: "s32 \<Rightarrow> s32 \<Rightarrow> bool \<Rightarrow> NpHandler \<Rightarrow> s32 \<times> OrbisNpState option" where
  "sceNpGetState firmware user_id has_state h =
     (if user_id = -1 \<and> FW_900 \<le> word_of_int firmware then (ORBIS_NP_ERROR_INVALID_ARGUMENT, None)
      else if \<not> has_state then (ORBIS_NP_ERROR_INVALID_ARGUMENT, None)
      else (ORBIS_OK, Some (if IsSignedIn user_id h then SignedIn else SignedOut)))"

definition sceNpGetNpId :: "s32 \<Rightarrow> s32 \<Rightarrow> bool \<Rightarrow> NpHandler \<Rightarrow> s32 \<times> OrbisNpId option" where
  "sceNpGetNpId firmware user_id has_np_id h =
     (if user_id = -1
      then (if FW_900 \<le> word_of_int firmware then ORBIS_NP_ERROR_INVALID_ARGUMENT else ORBIS_NP_ERROR_USER_NOT_FOUND, None)
      else if \<not> has_np_id then (ORBIS_NP_ERROR_INVALID_ARGUMENT, None)
      else if \<not> IsSignedIn user_id h then (ORBIS_NP_ERROR_SIGNED_OUT, None)
      else (ORBIS_OK, Some (GetNpId user_id h)))"

definition sceNpGetOnlineId :: "s32 \<Rightarrow> s32 \<Rightarrow> bool \<Rightarrow> NpHandler \<Rightarrow> s32 \<times> OrbisNpOnlineId option" where
  "sceNpGetOnlineId firmware user_id has_online_id h =
     (if user_id = -1
      then (if FW_900 \<le> word_of_int firmware then ORBIS_NP_ERROR_INVALID_ARGUMENT else ORBIS_NP_ERROR_USER_NOT_FOUND, None)
      else if \<not> has_online_id then (ORBIS_NP_ERROR_INVALID_ARGUMENT, None)
      else if \<not> IsSignedIn user_id h then (ORBIS_NP_ERROR_SIGNED_OUT, None)
      else (ORBIS_OK, Some (handle (GetNpId user_id h))))"

definition sceNpGetAccountId :: "OrbisNpOnlineId option \<Rightarrow> bool \<Rightarrow> NpHandler \<Rightarrow> s32 \<times> u64 option" where
  "sceNpGetAccountId online_id has_account_id h =
     (case online_id of
        None \<Rightarrow> (ORBIS_NP_ERROR_INVALID_ARGUMENT, None)
      | Some oid \<Rightarrow>
          if \<not> has_account_id then (ORBIS_NP_ERROR_INVALID_ARGUMENT, None)
          else let user_id = GetUserIdByOnlineId oid h
               in if user_id = -1 then (ORBIS_NP_ERROR_USER_NOT_FOUND, None)
                  else if \<not> IsSignedIn user_id h then (ORBIS_NP_ERROR_SIGNED_OUT, None)
                  else (ORBIS_OK, Some (GetAccountId user_id h)))"

definition sceNpGetAccountIdA :: "s32 \<Rightarrow> bool \<Rightarrow> NpHandler \<Rightarrow> s32 \<times> u64 option" where
  "sceNpGetAccountIdA user_id has_account_id h =
     (if \<not> has_account_id \<or> user_id = -1 then (ORBIS_NP_ERROR_INVALID_ARGUMENT, None)
      else if \<not> IsSignedIn user_id h then (ORBIS_NP_ERROR_SIGNED_OUT, None)
      else (ORBIS_OK, Some (GetAccountId user_id h)))"

text \<open>The country is "us" in a zeroed structure; the date of birth is the first day of 2000.\<close>

definition country_us :: bytes where "country_us = [117, 115, 0, 0]"

definition sceNpGetAccountCountryA :: "s32 \<Rightarrow> bool \<Rightarrow> NpHandler \<Rightarrow> s32 \<times> bytes option" where
  "sceNpGetAccountCountryA user_id has_country_code h =
     (if \<not> has_country_code \<or> user_id = -1 then (ORBIS_NP_ERROR_INVALID_ARGUMENT, None)
      else if \<not> IsSignedIn user_id h then (ORBIS_NP_ERROR_SIGNED_OUT, None)
      else (ORBIS_OK, Some country_us))"

definition sceNpGetAccountCountry :: "OrbisNpOnlineId option \<Rightarrow> bool \<Rightarrow> NpHandler \<Rightarrow> s32 \<times> bytes option" where
  "sceNpGetAccountCountry online_id has_country_code h =
     (case online_id of
        None \<Rightarrow> (ORBIS_NP_ERROR_INVALID_ARGUMENT, None)
      | Some oid \<Rightarrow>
          if \<not> has_country_code then (ORBIS_NP_ERROR_INVALID_ARGUMENT, None)
          else let user_id = GetUserIdByOnlineId oid h
               in if user_id = -1 then (ORBIS_NP_ERROR_USER_NOT_FOUND, None)
                  else sceNpGetAccountCountryA user_id has_country_code h)"

record OrbisNpDate =
  nd_year :: u16
  nd_month :: u8
  nd_day :: u8

definition sceNpGetAccountDateOfBirthA :: "s32 \<Rightarrow> bool \<Rightarrow> NpHandler \<Rightarrow> s32 \<times> OrbisNpDate option" where
  "sceNpGetAccountDateOfBirthA user_id has_date h =
     (if \<not> has_date \<or> user_id = -1 then (ORBIS_NP_ERROR_INVALID_ARGUMENT, None)
      else if \<not> IsSignedIn user_id h then (ORBIS_NP_ERROR_SIGNED_OUT, None)
      else (ORBIS_OK, Some \<lparr>nd_year = 2000, nd_month = 1, nd_day = 1\<rparr>))"

definition sceNpGetAccountDateOfBirth :: "OrbisNpOnlineId option \<Rightarrow> bool \<Rightarrow> NpHandler \<Rightarrow> s32 \<times> OrbisNpDate option" where
  "sceNpGetAccountDateOfBirth online_id has_date h =
     (case online_id of
        None \<Rightarrow> (ORBIS_NP_ERROR_INVALID_ARGUMENT, None)
      | Some oid \<Rightarrow>
          if \<not> has_date then (ORBIS_NP_ERROR_INVALID_ARGUMENT, None)
          else let user_id = GetUserIdByOnlineId oid h
               in if user_id = -1 then (ORBIS_NP_ERROR_USER_NOT_FOUND, None)
                  else sceNpGetAccountDateOfBirthA user_id has_date h)"

datatype OrbisNpGamePresenseStatus = PresenceOffline | PresenceOnline

definition sceNpGetGamePresenceStatus ::
  "OrbisNpOnlineId option \<Rightarrow> bool \<Rightarrow> NpHandler \<Rightarrow> s32 \<times> OrbisNpGamePresenseStatus option" where
  "sceNpGetGamePresenceStatus online_id has_status h =
     (case online_id of
        None \<Rightarrow> (ORBIS_NP_ERROR_INVALID_ARGUMENT, None)
      | Some oid \<Rightarrow>
          if \<not> has_status then (ORBIS_NP_ERROR_INVALID_ARGUMENT, None)
          else let user_id = GetUserIdByOnlineId oid h
               in (ORBIS_OK, Some (if user_id \<noteq> -1 \<and> IsSignedIn user_id h then PresenceOnline else PresenceOffline)))"

definition sceNpGetGamePresenceStatusA :: "s32 \<Rightarrow> bool \<Rightarrow> NpHandler \<Rightarrow> s32 \<times> OrbisNpGamePresenseStatus option" where
  "sceNpGetGamePresenceStatusA user_id has_status h =
     (if \<not> has_status \<or> user_id = -1 then (ORBIS_NP_ERROR_INVALID_ARGUMENT, None)
      else (ORBIS_OK, Some (if IsSignedIn user_id h then PresenceOnline else PresenceOffline)))"

definition sceNpGetNpReachabilityState ::
  "s32 \<Rightarrow> s32 \<Rightarrow> bool \<Rightarrow> NpHandler \<Rightarrow> s32 \<times> OrbisNpReachabilityState option" where
  "sceNpGetNpReachabilityState firmware user_id has_state h =
     (if \<not> has_state then (ORBIS_NP_ERROR_INVALID_ARGUMENT, None)
      else if user_id = -1 \<and> FW_400 \<le> word_of_int firmware then (ORBIS_NP_ERROR_INVALID_ARGUMENT, None)
      else (ORBIS_OK, Some (if IsSignedIn user_id h then Reachable else Unavailable)))"

definition sceNpGetUserIdByAccountId :: "u64 \<Rightarrow> bool \<Rightarrow> NpHandler \<Rightarrow> s32 \<times> s32 option" where
  "sceNpGetUserIdByAccountId account_id has_user_id h =
     (if account_id = 0 \<or> \<not> has_user_id then (ORBIS_NP_ERROR_INVALID_ARGUMENT, None)
      else let found = GetUserIdByAccountId account_id h
           in if found = -1 then (ORBIS_NP_ERROR_SIGNED_OUT, None) else (ORBIS_OK, Some found))"

definition sceNpGetUserIdByOnlineId :: "OrbisNpOnlineId option \<Rightarrow> bool \<Rightarrow> NpHandler \<Rightarrow> s32 \<times> s32 option" where
  "sceNpGetUserIdByOnlineId online_id has_user_id h =
     (case online_id of
        None \<Rightarrow> (ORBIS_NP_ERROR_INVALID_ARGUMENT, None)
      | Some oid \<Rightarrow>
          if \<not> has_user_id then (ORBIS_NP_ERROR_INVALID_ARGUMENT, None)
          else let found = GetUserIdByOnlineId oid h
               in if found = -1 then (ORBIS_NP_ERROR_SIGNED_OUT, None) else (ORBIS_OK, Some found))"

text \<open>The output is cleared before the user is checked.\<close>

definition sceNpHasSignedUp :: "HandlerConfig \<Rightarrow> s32 \<Rightarrow> s32 \<Rightarrow> bool \<Rightarrow> s32 \<times> bool option" where
  "sceNpHasSignedUp cfg firmware user_id has_out =
     (if \<not> has_out then (ORBIS_NP_ERROR_INVALID_ARGUMENT, None)
      else if user_id = -1 \<and> FW_900 \<le> word_of_int firmware then (ORBIS_NP_ERROR_INVALID_ARGUMENT, Some False)
      else (ORBIS_OK, Some (hc_npid cfg user_id \<noteq> [])))"

definition sceNpIsPlusMember :: "s32 \<Rightarrow> bool \<Rightarrow> s32 \<times> bool option" where
  "sceNpIsPlusMember user_id has_result =
     (if \<not> has_result then (ORBIS_NP_ERROR_INVALID_ARGUMENT, None) else (ORBIS_OK, Some True))"

record OrbisNpContentRestriction =
  cr_size :: u64
  cr_default_age_restriction :: int
  cr_age_restriction_count :: s32
  cr_age_restriction :: "addr option"

definition sceNpSetContentRestriction :: "OrbisNpContentRestriction option \<Rightarrow> s32" where
  "sceNpSetContentRestriction restriction =
     (case restriction of
        None \<Rightarrow> ORBIS_NP_ERROR_INVALID_ARGUMENT
      | Some r \<Rightarrow>
          if cr_size r \<noteq> 24 then ORBIS_NP_ERROR_INVALID_SIZE
          else if cr_default_age_restriction r < 0 \<or> cr_age_restriction_count r > 0x100 then ORBIS_NP_ERROR_INVALID_ARGUMENT
          else if cr_age_restriction_count r > 0 \<and> cr_age_restriction r = None then ORBIS_NP_ERROR_INVALID_ARGUMENT
          else ORBIS_OK)"

definition sceNpSetNpTitleId :: "bool \<Rightarrow> bool \<Rightarrow> s32" where
  "sceNpSetNpTitleId has_title_id has_title_secret =
     (if \<not> has_title_id \<or> \<not> has_title_secret then ORBIS_NP_ERROR_INVALID_ARGUMENT else ORBIS_OK)"

end
