(* ===== verification/NpManagerEvents.thy ===== *)
theory NpManagerEvents
  imports NpManager HandlerConnectProps
begin

text \<open>
  The way of a sign in event from the handler to the game: the callback the manager registers with
  the handler queues it (RegisterHooks), the user service brings users in and out
  (UpdateNpStateFromEvent), and the game's check of its callbacks delivers it. The properties say
  that no event is lost, repeated or reordered, however the checks fall.
\<close>

section \<open>From the handler to the queue\<close>

text \<open>
  The handler calls the function that the manager registered, here the address \<open>hook\<close>; the calls it
  made between two of its states are the new ones of \<open>hn_calls\<close>.
\<close>

definition deliver_state_call :: "addr \<Rightarrow> NpHandler \<Rightarrow> HandlerCall \<Rightarrow> NpManagerState \<Rightarrow> NpManagerState" where
  "deliver_state_call hook h c g =
     (case c of StateCallback f u st \<Rightarrow> if f = hook then QueueNpStateEvent u st h g else g | _ \<Rightarrow> g)"

definition forward_state_calls :: "addr \<Rightarrow> NpHandler \<Rightarrow> NpHandler \<Rightarrow> NpManagerState \<Rightarrow> NpManagerState" where
  "forward_state_calls hook h h' g = fold (deliver_state_call hook h') (drop (length (hn_calls h)) (hn_calls h')) g"

datatype UserEvent = LoginEvent | LogoutEvent | OtherEvent

text \<open>Connecting may not return, which is \<open>None\<close>.\<close>

definition UpdateNpStateFromEvent ::
  "HandlerConfig \<Rightarrow> UserEnv \<Rightarrow> addr \<Rightarrow> UserEvent \<Rightarrow> s32 \<Rightarrow> NpHandler \<Rightarrow> NpManagerState \<Rightarrow>
   (NpHandler \<times> NpManagerState) option outcome" where
  "UpdateNpStateFromEvent cfg env hook event_type user_id h g =
     (if \<not> hn_initialized h then Returned (Some (h, QueueNpStateEvent user_id SignedOut h g))
      else
        case event_type of
          LoginEvent \<Rightarrow> bind_run (OnUserLoggedIn cfg env user_id h)
            (\<lambda>h'. Returned (Some (h', forward_state_calls hook h h' g)))
        | LogoutEvent \<Rightarrow>
            (let h' = OnUserLoggedOut user_id h in Returned (Some (h', forward_state_calls hook h h' g)))
        | OtherEvent \<Rightarrow> Returned (Some (h, g)))"

section \<open>Reachability\<close>

lemma reach_changes_append:
  "reach_changes (es @ fs) told =
     (let (t1, c1) = reach_changes es told; (t2, c2) = reach_changes fs t1 in (t2, c1 @ c2))"
  by (induction es told rule: reach_changes.induct) (auto simp: Let_def split: prod.splits)

text \<open>The reference: the values that differ from the one before, starting from what was told last.\<close>

fun changes_from :: "'a option \<Rightarrow> 'a list \<Rightarrow> 'a list" where
  "changes_from prev [] = []"
| "changes_from prev (x # xs) = (if prev = Some x then changes_from prev xs else x # changes_from (Some x) xs)"

lemma changes_from_Some: "x # changes_from (Some x) xs = remdups_adj (x # xs)"
  by (induction xs arbitrary: x) auto

lemma changes_from_remdups: "changes_from None xs = remdups_adj xs"
  by (cases xs) (simp_all add: changes_from_Some)

definition user_reach :: "s32 \<Rightarrow> PendingNpStateEvent list \<Rightarrow> OrbisNpReachabilityState list" where
  "user_reach u es = map (reach_of \<circ> pe_state) (filter (\<lambda>e. pe_user_id e = u) es)"

lemma reach_changes_user:
  "reach_changes es told = (told', cs) \<Longrightarrow>
     map snd (filter (\<lambda>c. fst c = u) cs) = changes_from (map_of told u) (user_reach u es) \<and>
     map_of told' u = (if user_reach u es = [] then map_of told u else Some (last (user_reach u es)))"
proof (induction es arbitrary: told told' cs)
  case (Cons e es)
  let ?r = "reach_of (pe_state e)" and ?v = "pe_user_id e"
  have ur: "user_reach u (e # es) = (if ?v = u then ?r # user_reach u es else user_reach u es)"
    by (simp add: user_reach_def)
  show ?case
  proof (cases "map_of told ?v = Some ?r")
    case True
    with Cons.prems have "reach_changes es told = (told', cs)" by (simp add: Let_def)
    from Cons.IH [OF this] True show ?thesis unfolding ur by auto
  next
    case False
    obtain cs1 where cs1: "reach_changes es (omap_put ?v ?r told) = (told', cs1)" "cs = (?v, ?r) # cs1"
      using Cons.prems False by (auto simp: Let_def split: prod.splits)
    from Cons.IH [OF cs1(1)] False show ?thesis unfolding ur cs1(2) by (auto simp: map_of_omap_put)
  qed
qed (simp add: user_reach_def)

section \<open>Delivery\<close>

fun is_reach_call :: "ManagerCall \<Rightarrow> bool" where
  "is_reach_call (ReachabilityCall f u r d) = True"
| "is_reach_call c = False"

lemma event_calls_no_reach: "c \<in> set (event_calls g e) \<Longrightarrow> \<not> is_reach_call c"
  by (auto simp: event_calls_def List.map_filter_def split: option.splits if_splits)

definition reach_told :: "NpManagerState \<Rightarrow> PendingNpStateEvent list \<Rightarrow> (s32 \<times> OrbisNpReachabilityState) list" where
  "reach_told g es = (if cf_func (mg_reachability_cb g) \<noteq> None then snd (reach_changes es (mg_reachability_last g)) else [])"

definition told_after :: "NpManagerState \<Rightarrow> PendingNpStateEvent list \<Rightarrow> (s32 \<times> OrbisNpReachabilityState) list" where
  "told_after g es =
     (if cf_func (mg_reachability_cb g) \<noteq> None then fst (reach_changes es (mg_reachability_last g)) else mg_reachability_last g)"

definition reach_calls_of :: "NpManagerState \<Rightarrow> (s32 \<times> OrbisNpReachabilityState) list \<Rightarrow> ManagerCall list" where
  "reach_calls_of g cs = (case cf_func (mg_reachability_cb g) of
     None \<Rightarrow> [] | Some f \<Rightarrow> map (\<lambda>(u, r). ReachabilityCall f u r (cf_userdata (mg_reachability_cb g))) cs)"

lemma Dispatch_eq:
  "DispatchPendingNpStateCallbacks g = g\<lparr>mg_state_events := [], mg_reachability_last := told_after g (mg_state_events g),
     mg_calls := mg_calls g @ concat (map (event_calls g) (mg_state_events g)) @
       reach_calls_of g (reach_told g (mg_state_events g))\<rparr>"
  by (cases "mg_state_events g")
    (auto simp: DispatchPendingNpStateCallbacks_def told_after_def reach_told_def reach_calls_of_def
      split: option.splits prod.splits)

text \<open>The callbacks that a dispatch reads.\<close>

definition same_callbacks :: "NpManagerState \<Rightarrow> NpManagerState \<Rightarrow> bool" where
  "same_callbacks g g' \<longleftrightarrow> mg_state_cb g' = mg_state_cb g \<and> mg_state_a_cbs g' = mg_state_a_cbs g \<and>
     mg_toolkit_cb g' = mg_toolkit_cb g \<and> mg_reachability_cb g' = mg_reachability_cb g"

lemma same_callbacks_calls:
  assumes "same_callbacks g g'"
  shows "event_calls g' = event_calls g" and "reach_calls_of g' = reach_calls_of g"
  using assms unfolding same_callbacks_def event_calls_def reach_calls_of_def fun_eq_iff
  by (elim conjE; simp only: simp_thms)+

lemma same_callbacks_Dispatch: "same_callbacks g (DispatchPendingNpStateCallbacks (g\<lparr>mg_state_events := es\<rparr>))"
  by (simp add: same_callbacks_def Dispatch_eq)

text \<open>The game checks its callbacks after each batch of events.\<close>

definition run_batches :: "PendingNpStateEvent list list \<Rightarrow> NpManagerState \<Rightarrow> NpManagerState" where
  "run_batches = fold (\<lambda>es g. DispatchPendingNpStateCallbacks (g\<lparr>mg_state_events := mg_state_events g @ es\<rparr>))"

lemma run_batches_calls:
  assumes "mg_state_events g = []"
  shows "filter is_reach_call (mg_calls (run_batches bs g)) =
           filter is_reach_call (mg_calls g) @ reach_calls_of g (reach_told g (concat bs)) \<and>
         filter (\<lambda>c. \<not> is_reach_call c) (mg_calls (run_batches bs g)) =
           filter (\<lambda>c. \<not> is_reach_call c) (mg_calls g) @ concat (map (event_calls g) (concat bs)) \<and>
         mg_reachability_last (run_batches bs g) = told_after g (concat bs)"
  using assms
proof (induction bs arbitrary: g)
  case Nil
  then show ?case by (simp add: run_batches_def reach_told_def told_after_def reach_calls_of_def split: option.splits)
next
  case (Cons b bs)
  let ?g = "DispatchPendingNpStateCallbacks (g\<lparr>mg_state_events := mg_state_events g @ b\<rparr>)"
  have ev: "mg_state_events ?g = []" by (simp add: Dispatch_eq)
  have cb: "event_calls ?g = event_calls g" "reach_calls_of ?g = reach_calls_of g"
    using same_callbacks_calls [OF same_callbacks_Dispatch] by simp_all
  have told: "reach_told g (b @ concat bs) = reach_told g b @ reach_told ?g (concat bs)"
    "told_after g (b @ concat bs) = told_after ?g (concat bs)"
    using Cons.prems by (auto simp: Dispatch_eq reach_told_def told_after_def reach_changes_append split: prod.splits)
  have r1: "filter is_reach_call (concat (map (event_calls g') es)) = []" for g' es
    using event_calls_no_reach by (auto simp: filter_empty_conv)
  have r2: "filter (\<lambda>c. \<not> is_reach_call c) (concat (map (event_calls g') es)) = concat (map (event_calls g') es)" for g' es
    using event_calls_no_reach by (auto simp: filter_id_conv)
  have r3: "filter is_reach_call (reach_calls_of g' cs) = reach_calls_of g' cs" for g' cs
    by (auto simp: reach_calls_of_def filter_id_conv split: option.splits)
  have r4: "filter (\<lambda>c. \<not> is_reach_call c) (reach_calls_of g' cs) = []" for g' cs
    by (auto simp: reach_calls_of_def filter_empty_conv split: option.splits)
  have app: "reach_calls_of g' (cs @ ds) = reach_calls_of g' cs @ reach_calls_of g' ds" for g' cs ds
    by (simp add: reach_calls_of_def split: option.splits)
  have b: "event_calls (g\<lparr>mg_state_events := es\<rparr>) = event_calls g" "reach_calls_of (g\<lparr>mg_state_events := es\<rparr>) = reach_calls_of g"
    "reach_told (g\<lparr>mg_state_events := es\<rparr>) = reach_told g" for es
    using same_callbacks_calls [of g "g\<lparr>mg_state_events := es\<rparr>"]
    by (simp_all add: same_callbacks_def fun_eq_iff reach_told_def)
  have calls: "mg_calls ?g = mg_calls g @ concat (map (event_calls g) b) @ reach_calls_of g (reach_told g b)"
    using Cons.prems by (simp add: Dispatch_eq b)
  have step: "run_batches (b # bs) g = run_batches bs ?g" by (simp add: run_batches_def)
  show ?case
    using Cons.IH [OF ev] unfolding step cb calls by (simp add: r1 r2 r3 r4 app told)
qed

section \<open>No event is lost\<close>


definition demo_event :: "OrbisNpState \<Rightarrow> PendingNpStateEvent" where
  "demo_event st = \<lparr>pe_user_id = 1, pe_state = st, pe_np_id = zero_np_id, pe_has_np_id = (st = SignedIn)\<rparr>"

definition demo_manager :: NpManagerState where
  "demo_manager = init_manager\<lparr>mg_reachability_cb := \<lparr>cf_func = Some 7, cf_userdata = None\<rparr>,
     mg_state_cb := \<lparr>cf_func = Some 8, cf_userdata = None\<rparr>\<rparr>"


text \<open>
  Claim C19. The reachability callback hears of a user exactly when the reachability changes: a check
  of the callbacks reports, for each user, the values of the queued events without repetitions and
  without a first value that was told before, and remembers the last one.
\<close>
theorem reachability_told_once_per_change:
  assumes "cf_func (mg_reachability_cb g) = Some f" and "g' = DispatchPendingNpStateCallbacks g"
  shows "filter (\<lambda>c. \<exists>r. c = ReachabilityCall f u r (cf_userdata (mg_reachability_cb g))) (drop (length (mg_calls g)) (mg_calls g')) =
      map (\<lambda>r. ReachabilityCall f u r (cf_userdata (mg_reachability_cb g)))
        (changes_from (map_of (mg_reachability_last g) u) (user_reach u (mg_state_events g))) \<and>
    map_of (mg_reachability_last g') u =
      (if user_reach u (mg_state_events g) = [] then map_of (mg_reachability_last g) u
       else Some (last (user_reach u (mg_state_events g)))) \<and>
    mg_state_events g' = []"
proof -
  let ?d = "cf_userdata (mg_reachability_cb g)"
  obtain told' cs where rc: "reach_changes (mg_state_events g) (mg_reachability_last g) = (told', cs)" by fastforce
  note user = reach_changes_user [OF rc, of u]
  have none: "filter (\<lambda>c. \<exists>r. c = ReachabilityCall f u r ?d) (concat (map (event_calls g) es)) = []" for es
    using event_calls_no_reach by (fastforce simp: filter_empty_conv)
  have "filter (\<lambda>c. \<exists>r. c = ReachabilityCall f u r ?d) (map (\<lambda>(v, r). ReachabilityCall f v r ?d) cs) =
      map (\<lambda>r. ReachabilityCall f u r ?d) (map snd (filter (\<lambda>c. fst c = u) cs))"
    by (induction cs) auto
  then show ?thesis
    using assms user rc none by (simp add: Dispatch_eq reach_told_def told_after_def reach_calls_of_def)
qed

lemma reachability_told_once_per_change_witness:
  "drop 0 (filter (\<lambda>c. \<exists>r. c = ReachabilityCall 7 1 r None) (mg_calls (DispatchPendingNpStateCallbacks
     (demo_manager\<lparr>mg_state_events := [demo_event SignedIn, demo_event SignedIn, demo_event SignedOut]\<rparr>)))) =
   [ReachabilityCall 7 1 Reachable None, ReachabilityCall 7 1 Unavailable None]"
  using reachability_told_once_per_change [OF _ refl,
      of "demo_manager\<lparr>mg_state_events := [demo_event SignedIn, demo_event SignedIn, demo_event SignedOut]\<rparr>" 7 1]
  by (simp add: demo_manager_def init_manager_def demo_event_def user_reach_def reach_of_def)

lemma forward_hooked:
  assumes "hn_state_cbs h = [(k, e)]" and "cb_func e = Some hook" and "hn_calls h' = hn_calls h @ state_calls u st (hn_state_cbs h)"
  shows "forward_state_calls hook h h' g = QueueNpStateEvent u st h' g"
  using assms by (simp add: forward_state_calls_def state_calls_def deliver_state_call_def List.map_filter_simps)



end
