(* ===== verification/NpAuth.thy ===== *)
theory NpAuth
  imports HandlerConnect NpManagerReq
begin

text \<open>
  The authorization codes of a game (np_auth.cpp). A call that waits for its request does not return
  while the request has no result: the answer of a call is an error or success code, or the address
  of the request context it waits for. The address of a new context is an argument.
\<close>

section \<open>State\<close>

record NpAuthRequest =
  ar_async :: bool
  ar_aborted :: bool
  ar_ctx :: "addr option"

record NpAuth =
  na_enabled :: bool
  na_requests :: "(s32 \<times> NpAuthRequest) list"

definition ORBIS_NP_AUTH_REQUEST_LIMIT :: nat where [simp]: "ORBIS_NP_AUTH_REQUEST_LIMIT = 0x10"
definition ORBIS_NP_AUTH_REQUEST_ID_OFFSET :: s32 where [simp]: "ORBIS_NP_AUTH_REQUEST_ID_OFFSET = 0x10000000"
definition ORBIS_NP_AUTH_POLL_ASYNC_RET_FINISHED :: s32 where [simp]: "ORBIS_NP_AUTH_POLL_ASYNC_RET_FINISHED = 0"
definition ORBIS_NP_AUTH_POLL_ASYNC_RET_RUNNING :: s32 where [simp]: "ORBIS_NP_AUTH_POLL_ASYNC_RET_RUNNING = 1"

definition auth_wait :: "addr \<Rightarrow> NpHandler \<Rightarrow> s32 option" where
  "auth_wait a h = (case hn_auth_ctxs h a of None \<Rightarrow> None | Some c \<Rightarrow> ac_result c)"

section \<open>Creating and finding\<close>

text \<open>The loop that counts up to an id that is not taken; \<open>None\<close> if it does not end.\<close>

partial_function (option) free_auth_id :: "(s32 \<times> NpAuthRequest) list \<Rightarrow> s32 \<Rightarrow> s32 option" where
  "free_auth_id m req_id = (if map_of m req_id \<noteq> None then free_auth_id m (to_s32 (req_id + 1)) else Some req_id)"

definition CreateNpAuthRequest :: "bool \<Rightarrow> NpAuth \<Rightarrow> (s32 \<times> NpAuth) option" where
  "CreateNpAuthRequest async n =
     (if length (na_requests n) = ORBIS_NP_AUTH_REQUEST_LIMIT then Some (ORBIS_NP_AUTH_ERROR_REQUEST_MAX, n)
      else map_option (\<lambda>req_id.
             (req_id, n\<lparr>na_requests := omap_put req_id \<lparr>ar_async = async, ar_aborted = False, ar_ctx = None\<rparr> (na_requests n)\<rparr>))
             (free_auth_id (na_requests n) (ORBIS_NP_AUTH_REQUEST_ID_OFFSET + 1)))"

definition sceNpAuthCreateRequest :: "NpAuth \<Rightarrow> (s32 \<times> NpAuth) option" where
  "sceNpAuthCreateRequest = CreateNpAuthRequest False"

definition sceNpAuthCreateAsyncRequest :: "u64 option \<Rightarrow> NpAuth \<Rightarrow> (s32 \<times> NpAuth) option" where
  "sceNpAuthCreateAsyncRequest param n =
     (case param of
        None \<Rightarrow> Some (ORBIS_NP_AUTH_ERROR_INVALID_ARGUMENT, n)
      | Some sz \<Rightarrow> if sz \<noteq> 24 then Some (ORBIS_NP_AUTH_ERROR_INVALID_SIZE, n) else CreateNpAuthRequest True n)"

definition FindRequest :: "s32 \<Rightarrow> NpAuth \<Rightarrow> s32 + NpAuthRequest" where
  "FindRequest req_id n =
     (if req_id \<le> 0 then Inl ORBIS_NP_AUTH_ERROR_INVALID_ARGUMENT
      else case map_of (na_requests n) req_id of
             None \<Rightarrow> Inl ORBIS_NP_AUTH_ERROR_REQUEST_NOT_FOUND
           | Some r \<Rightarrow> Inr r)"

definition upd_auth_request :: "s32 \<Rightarrow> NpAuthRequest \<Rightarrow> NpAuth \<Rightarrow> NpAuth" where
  "upd_auth_request req_id r n = n\<lparr>na_requests := omap_put req_id r (na_requests n)\<rparr>"

text \<open>Starting gives the request its context, at the new address \<open>a\<close>, and tells whether it is asynchronous.\<close>

definition StartRequest :: "s32 \<Rightarrow> addr \<Rightarrow> NpAuth \<Rightarrow> NpHandler \<Rightarrow> (s32 + bool) \<times> NpAuth \<times> NpHandler" where
  "StartRequest req_id a n h =
     (case FindRequest req_id n of
        Inl err \<Rightarrow> (Inl err, n, h)
      | Inr r \<Rightarrow>
          if ar_ctx r \<noteq> None then (Inl ORBIS_NP_AUTH_ERROR_INVALID_ARGUMENT, n, h)
          else if ar_aborted r then (Inl ORBIS_NP_AUTH_ERROR_ABORTED, n, h)
          else (Inr (ar_async r), upd_auth_request req_id (r\<lparr>ar_ctx := Some a\<rparr>) n,
                h\<lparr>hn_auth_ctxs := (hn_auth_ctxs h)(a \<mapsto> new_auth_ctx)\<rparr>))"

definition FinishStartedRequest :: "bool \<Rightarrow> addr \<Rightarrow> answer" where
  "FinishStartedRequest async a = (if async then Answer ORBIS_OK else WaitFor a)"

section \<open>Authorization codes\<close>

text \<open>
  \<open>gc_client_id\<close> is the array of 129 characters at the pointer, \<open>gc_scope\<close> the string; \<open>None\<close> are
  null pointers. The structures have 32 bytes.
\<close>

record AuthorizationCodeParameterA =
  gc_size :: u64
  gc_user_id :: s32
  gc_client_id :: "bytes option"
  gc_scope :: "bytes option"

definition set_auth_outputs :: "addr \<Rightarrow> bool \<Rightarrow> NpHandler \<Rightarrow> NpHandler" where
  "set_auth_outputs a has_issuer h =
     h\<lparr>hn_auth_ctxs := at_addr (\<lambda>c. c\<lparr>ac_has_issuer := has_issuer\<rparr>) a (hn_auth_ctxs h)\<rparr>"

definition submit_authorization ::
  "HandlerConfig \<Rightarrow> s32 \<Rightarrow> bytes \<Rightarrow> bytes \<Rightarrow> bool \<Rightarrow> addr \<Rightarrow> NpHandler \<Rightarrow> NpHandler" where
  "submit_authorization cfg user_id client_id scope has_issuer a h =
     (let (submit, h1) = RequestAuthorizationCode cfg user_id (takeWhile (\<lambda>b. b \<noteq> 0) (take 129 client_id)) scope (Some a)
                           (set_auth_outputs a has_issuer h)
      in if submit < 0 then auth_set a submit h1 else h1)"

text \<open>\<open>users\<close> is what the console answers for the users logged in, \<open>None\<close> when it fails.\<close>

definition AuthorizationCode ::
  "HandlerConfig \<Rightarrow> s32 list option \<Rightarrow> addr \<Rightarrow> s32 \<Rightarrow> AuthorizationCodeParameterA option \<Rightarrow> bool \<Rightarrow> bool \<Rightarrow>
   NpAuth \<Rightarrow> NpHandler \<Rightarrow> answer \<times> NpAuth \<times> NpHandler" where
  "AuthorizationCode cfg users a req_id param has_code has_issuer n h =
     (case param of
        None \<Rightarrow> (Answer ORBIS_NP_AUTH_ERROR_INVALID_ARGUMENT, n, h)
      | Some p \<Rightarrow>
          if \<not> has_code then (Answer ORBIS_NP_AUTH_ERROR_INVALID_ARGUMENT, n, h)
          else if gc_size p \<noteq> 32 then (Answer ORBIS_NP_AUTH_ERROR_INVALID_SIZE, n, h)
          else case (gc_client_id p, gc_scope p) of
            (Some client_id, Some scope) \<Rightarrow>
              (case users of
                 None \<Rightarrow> (Answer ORBIS_NP_ERROR_USER_NOT_FOUND, n, h)
               | Some us \<Rightarrow>
                   if gc_user_id p \<notin> set (take 4 us) then (Answer ORBIS_NP_ERROR_USER_NOT_FOUND, n, h)
                   else case StartRequest req_id a n h of
                          (Inl err, n1, h1) \<Rightarrow> (Answer err, n1, h1)
                        | (Inr async, n1, h1) \<Rightarrow>
                            if \<not> na_enabled n1
                            then (FinishStartedRequest async a, n1, auth_set a ORBIS_NP_ERROR_SIGNED_OUT h1)
                            else (FinishStartedRequest async a, n1,
                                  submit_authorization cfg (gc_user_id p) client_id scope has_issuer a h1))
          | _ \<Rightarrow> (Answer ORBIS_NP_AUTH_ERROR_INVALID_ARGUMENT, n, h))"

record AuthorizationCodeParameter =
  ga_size :: u64
  ga_online_id :: "OrbisNpOnlineId option"
  ga_client_id :: "bytes option"
  ga_scope :: "bytes option"

definition sceNpAuthGetAuthorizationCode ::
  "HandlerConfig \<Rightarrow> s32 list option \<Rightarrow> addr \<Rightarrow> s32 \<Rightarrow> AuthorizationCodeParameter option \<Rightarrow> bool \<Rightarrow> bool \<Rightarrow>
   NpAuth \<Rightarrow> NpHandler \<Rightarrow> answer \<times> NpAuth \<times> NpHandler" where
  "sceNpAuthGetAuthorizationCode cfg users a req_id param has_code has_issuer n h =
     (case param of
        None \<Rightarrow> (Answer ORBIS_NP_AUTH_ERROR_INVALID_ARGUMENT, n, h)
      | Some p \<Rightarrow>
          if \<not> has_code then (Answer ORBIS_NP_AUTH_ERROR_INVALID_ARGUMENT, n, h)
          else if ga_size p \<noteq> 32 then (Answer ORBIS_NP_AUTH_ERROR_INVALID_SIZE, n, h)
          else case ga_online_id p of
            None \<Rightarrow> (Answer ORBIS_NP_AUTH_ERROR_INVALID_ARGUMENT, n, h)
          | Some online_id \<Rightarrow>
              if ga_client_id p = None \<or> ga_scope p = None then (Answer ORBIS_NP_AUTH_ERROR_INVALID_ARGUMENT, n, h)
              else if \<not> na_enabled n then (Answer ORBIS_NP_ERROR_USER_NOT_FOUND, n, h)
              else let user_id = GetUserIdByOnlineId online_id h
                   in if user_id < 0 then (Answer ORBIS_NP_ERROR_USER_NOT_FOUND, n, h)
                      else AuthorizationCode cfg users a req_id
                             (Some \<lparr>gc_size = 32, gc_user_id = user_id, gc_client_id = ga_client_id p, gc_scope = ga_scope p\<rparr>)
                             has_code has_issuer n h)"

definition sceNpAuthGetAuthorizationCodeA ::
  "HandlerConfig \<Rightarrow> s32 list option \<Rightarrow> addr \<Rightarrow> s32 \<Rightarrow> AuthorizationCodeParameterA option \<Rightarrow> bool \<Rightarrow> bool \<Rightarrow>
   NpAuth \<Rightarrow> NpHandler \<Rightarrow> answer \<times> NpAuth \<times> NpHandler" where
  "sceNpAuthGetAuthorizationCodeA = AuthorizationCode"

definition sceNpAuthGetAuthorizationCodeV3 ::
  "HandlerConfig \<Rightarrow> s32 list option \<Rightarrow> addr \<Rightarrow> s32 \<Rightarrow> AuthorizationCodeParameterA option \<Rightarrow> bool \<Rightarrow> bool \<Rightarrow>
   NpAuth \<Rightarrow> NpHandler \<Rightarrow> answer \<times> NpAuth \<times> NpHandler" where
  "sceNpAuthGetAuthorizationCodeV3 = AuthorizationCode"

section \<open>Timeouts, aborting, waiting, deleting\<close>

definition sceNpAuthSetTimeout :: "s32 \<Rightarrow> s32 \<Rightarrow> u32 \<Rightarrow> u32 \<Rightarrow> u32 \<Rightarrow> u32 \<Rightarrow> NpAuth \<Rightarrow> s32" where
  "sceNpAuthSetTimeout req_id resolve_retry resolve_timeout conn_timeout send_timeout recv_timeout n =
     (if resolve_retry < 0 \<or> \<not> unset_or_at_least resolve_timeout 1000000 \<or>
         \<not> unset_or_at_least conn_timeout 10000000 \<or> \<not> unset_or_at_least send_timeout 10000000 \<or>
         \<not> unset_or_at_least recv_timeout 10000000 \<or>
         (resolve_retry = 0 \<and> resolve_timeout = 0 \<and> conn_timeout = 0 \<and> send_timeout = 0 \<and> recv_timeout = 0)
      then ORBIS_NP_AUTH_ERROR_INVALID_ARGUMENT
      else case FindRequest req_id n of Inl err \<Rightarrow> err | Inr r \<Rightarrow> ORBIS_OK)"

definition sceNpAuthAbortRequest :: "s32 \<Rightarrow> NpAuth \<Rightarrow> NpHandler \<Rightarrow> s32 \<times> NpAuth \<times> NpHandler" where
  "sceNpAuthAbortRequest req_id n h =
     (case FindRequest req_id n of
        Inl err \<Rightarrow> (err, n, h)
      | Inr r \<Rightarrow>
          (case ar_ctx r of
             Some a \<Rightarrow> (ORBIS_OK, n, auth_set a ORBIS_NP_AUTH_ERROR_ABORTED h)
           | None \<Rightarrow> (ORBIS_OK, upd_auth_request req_id (r\<lparr>ar_aborted := True\<rparr>) n, h)))"

definition FindAsyncRequest :: "s32 \<Rightarrow> NpAuth \<Rightarrow> s32 + addr" where
  "FindAsyncRequest req_id n =
     (case FindRequest req_id n of
        Inl err \<Rightarrow> Inl err
      | Inr r \<Rightarrow> (case ar_ctx r of
                    Some a \<Rightarrow> if ar_async r then Inr a else Inl ORBIS_NP_AUTH_ERROR_INVALID_ID
                  | None \<Rightarrow> Inl ORBIS_NP_AUTH_ERROR_INVALID_ID))"

text \<open>
  A wait returns OK and the result of the context once it has one; \<open>Inr\<close> is the context it waits for.
\<close>

definition sceNpAuthWaitAsync :: "s32 \<Rightarrow> bool \<Rightarrow> NpAuth \<Rightarrow> s32 + addr" where
  "sceNpAuthWaitAsync req_id has_result n =
     (if \<not> has_result then Inl ORBIS_NP_AUTH_ERROR_INVALID_ARGUMENT else FindAsyncRequest req_id n)"

definition sceNpAuthPollAsync :: "s32 \<Rightarrow> bool \<Rightarrow> NpAuth \<Rightarrow> NpHandler \<Rightarrow> s32 \<times> s32 option" where
  "sceNpAuthPollAsync req_id has_result n h =
     (if \<not> has_result then (ORBIS_NP_AUTH_ERROR_INVALID_ARGUMENT, None)
      else case FindAsyncRequest req_id n of
             Inl err \<Rightarrow> (err, None)
           | Inr a \<Rightarrow> (case auth_wait a h of
                         None \<Rightarrow> (ORBIS_NP_AUTH_POLL_ASYNC_RET_RUNNING, None)
                       | Some res \<Rightarrow> (ORBIS_NP_AUTH_POLL_ASYNC_RET_FINISHED, Some res)))"

definition sceNpAuthDeleteRequest :: "s32 \<Rightarrow> NpAuth \<Rightarrow> NpHandler \<Rightarrow> s32 \<times> NpAuth \<times> NpHandler" where
  "sceNpAuthDeleteRequest req_id n h =
     (case FindRequest req_id n of
        Inl err \<Rightarrow> (err, n, h)
      | Inr r \<Rightarrow>
          (ORBIS_OK, n\<lparr>na_requests := omap_erase req_id (na_requests n)\<rparr>,
           (case ar_ctx r of None \<Rightarrow> h | Some a \<Rightarrow> auth_set a ORBIS_NP_AUTH_ERROR_ABORTED h)))"

section \<open>Id tokens\<close>

record IdTokenParameterA =
  it_size :: u64
  it_user_id :: s32
  it_has_client_id :: bool
  it_has_client_secret :: bool
  it_has_scope :: bool

text \<open>The stub writes the word TOKEN to a zeroed structure of 4104 bytes.\<close>

definition token_image :: bytes where
  "token_image = [84, 79, 75, 69, 78] @ replicate 4099 0"

text \<open>The bytes that are written to the token, when any.\<close>

definition IdToken ::
  "addr \<Rightarrow> s32 \<Rightarrow> IdTokenParameterA option \<Rightarrow> bool \<Rightarrow> NpAuth \<Rightarrow> NpHandler \<Rightarrow> answer \<times> bytes option \<times> NpAuth \<times> NpHandler" where
  "IdToken a req_id param has_token n h =
     (case param of
        None \<Rightarrow> (Answer ORBIS_NP_AUTH_ERROR_INVALID_ARGUMENT, None, n, h)
      | Some p \<Rightarrow>
          if \<not> has_token then (Answer ORBIS_NP_AUTH_ERROR_INVALID_ARGUMENT, None, n, h)
          else if it_size p \<noteq> 40 then (Answer ORBIS_NP_AUTH_ERROR_INVALID_SIZE, None, n, h)
          else if it_user_id p = -1 \<or> \<not> it_has_client_id p \<or> \<not> it_has_client_secret p \<or> \<not> it_has_scope p
          then (Answer ORBIS_NP_AUTH_ERROR_INVALID_ARGUMENT, None, n, h)
          else case StartRequest req_id a n h of
                 (Inl err, n1, h1) \<Rightarrow> (Answer err, None, n1, h1)
               | (Inr async, n1, h1) \<Rightarrow>
                   if \<not> na_enabled n1
                   then (FinishStartedRequest async a, None, n1, auth_set a ORBIS_NP_ERROR_SIGNED_OUT h1)
                   else (FinishStartedRequest async a, Some token_image, n1, auth_set a ORBIS_OK h1))"

record IdTokenParameter =
  ip_size :: u64
  ip_has_online_id :: bool
  ip_has_client_id :: bool
  ip_has_client_secret :: bool
  ip_has_scope :: bool

text \<open>\<open>initial_user\<close> is what the console names as its first user, 0 when it fails.\<close>

definition sceNpAuthGetIdToken ::
  "s32 \<Rightarrow> addr \<Rightarrow> s32 \<Rightarrow> IdTokenParameter option \<Rightarrow> bool \<Rightarrow> NpAuth \<Rightarrow> NpHandler \<Rightarrow> answer \<times> bytes option \<times> NpAuth \<times> NpHandler" where
  "sceNpAuthGetIdToken initial_user a req_id param has_token n h =
     (case param of
        None \<Rightarrow> (Answer ORBIS_NP_AUTH_ERROR_INVALID_ARGUMENT, None, n, h)
      | Some p \<Rightarrow>
          if \<not> has_token then (Answer ORBIS_NP_AUTH_ERROR_INVALID_ARGUMENT, None, n, h)
          else if ip_size p \<noteq> 40 then (Answer ORBIS_NP_AUTH_ERROR_INVALID_SIZE, None, n, h)
          else if \<not> ip_has_online_id p \<or> \<not> ip_has_client_id p \<or> \<not> ip_has_client_secret p \<or> \<not> ip_has_scope p
          then (Answer ORBIS_NP_AUTH_ERROR_INVALID_ARGUMENT, None, n, h)
          else if \<not> na_enabled n then (Answer ORBIS_NP_ERROR_USER_NOT_FOUND, None, n, h)
          else IdToken a req_id
                 (Some \<lparr>it_size = 40, it_user_id = initial_user, it_has_client_id = ip_has_client_id p,
                         it_has_client_secret = ip_has_client_secret p, it_has_scope = ip_has_scope p\<rparr>)
                 has_token n h)"

definition sceNpAuthGetIdTokenA ::
  "addr \<Rightarrow> s32 \<Rightarrow> IdTokenParameterA option \<Rightarrow> bool \<Rightarrow> NpAuth \<Rightarrow> NpHandler \<Rightarrow> answer \<times> bytes option \<times> NpAuth \<times> NpHandler" where
  "sceNpAuthGetIdTokenA = IdToken"

definition sceNpAuthGetIdTokenV3 ::
  "addr \<Rightarrow> s32 \<Rightarrow> IdTokenParameterA option \<Rightarrow> bool \<Rightarrow> NpAuth \<Rightarrow> NpHandler \<Rightarrow> answer \<times> bytes option \<times> NpAuth \<times> NpHandler" where
  "sceNpAuthGetIdTokenV3 = IdToken"

definition auth_RegisterHooks :: "NpHandler \<Rightarrow> NpAuth \<Rightarrow> NpAuth" where
  "auth_RegisterHooks h n = n\<lparr>na_enabled := hn_initialized h\<rparr>"

end
