(* ===== verification/NpAuthProps.thy ===== *)
theory NpAuthProps
  imports NpAuth HandlerSystem RequestTable
begin

text \<open>
  Authorization codes: creating a request ends, the requests are a table of ids, and nothing is
  written to the buffers of a game once its request has a result, whatever the handler does.
\<close>

section \<open>Creating a request\<close>

definition auth_ok :: "NpAuth \<Rightarrow> bool" where
  "auth_ok n \<longleftrightarrow> omap_inv (na_requests n) \<and> length (na_requests n) \<le> 16 \<and>
     (\<forall>i \<in> set (keys (na_requests n)). 0x10000001 \<le> i \<and> i \<le> 0x10000010)"

definition live_auth :: "NpAuth \<Rightarrow> s32 set" where
  "live_auth n = set (keys (na_requests n))"

lemma live_auth_iff: "i \<in> live_auth n \<longleftrightarrow> map_of (na_requests n) i \<noteq> None"
  by (simp add: live_auth_def map_of_eq_None_iff)

lemma card_live_auth: "auth_ok n \<Longrightarrow> card (live_auth n) = length (na_requests n)"
  unfolding auth_ok_def live_auth_def by (metis distinct_card length_map omap_inv_distinct)

text \<open>The loop ends at the least id that is not taken, when there is one within reach.\<close>

lemma free_auth_id_ends:
  assumes "map_of m (i + int k) = None" and "\<forall>j < k. map_of m (i + int j) \<noteq> None"
    and "- (2 ^ 31) \<le> i" and "i + int k < 2 ^ 31"
  shows "free_auth_id m i = Some (i + int k)"
  using assms
proof (induction k arbitrary: i)
  case 0
  then show ?case by (simp add: free_auth_id.simps)
next
  case (Suc k)
  have taken: "map_of m i \<noteq> None" using Suc.prems(2) by (metis add_0_right int_ops(1) zero_less_Suc)
  have nxt: "to_s32 (i + 1) = i + 1" using Suc.prems(3,4) by (intro to_s32_id) auto
  have "free_auth_id m (i + 1) = Some (i + 1 + int k)"
  proof (rule Suc.IH)
    show "map_of m (i + 1 + int k) = None" using Suc.prems(1) by (simp add: algebra_simps)
    show "\<forall>j<k. map_of m (i + 1 + int j) \<noteq> None"
    proof (intro allI impI)
      fix j assume "j < k"
      then have "map_of m (i + int (Suc j)) \<noteq> None" using Suc.prems(2) by (metis Suc_less_eq)
      then show "map_of m (i + 1 + int j) \<noteq> None" by (simp add: algebra_simps)
    qed
  qed (use Suc.prems in auto)
  then show ?case using taken nxt by (subst free_auth_id.simps) (simp add: algebra_simps)
qed

lemma least_free:
  assumes "length (m :: (s32 \<times> 'v) list) < n"
  obtains k where "k < n" and "map_of m (i + int k) = None" and "\<forall>j < k. map_of m (i + int j) \<noteq> None"
proof -
  have "\<exists>k<n. map_of m (i + int k) = None"
  proof (rule ccontr)
    assume "\<not> (\<exists>k<n. map_of m (i + int k) = None)"
    then have "(\<lambda>k. i + int k) ` {..<n} \<subseteq> fst ` set m" by (fastforce simp: map_of_eq_None_iff)
    moreover have "card ((\<lambda>k. i + int k) ` {..<n}) = n" by (subst card_image) (auto simp: inj_on_def)
    ultimately have "n \<le> card (fst ` set m)" by (metis List.finite_set card_mono finite_imageI)
    also have "\<dots> \<le> length m" using card_image_le [of "set m" fst] card_length [of m] by simp
    finally show False using assms by simp
  qed
  then obtain k0 where k0: "k0 < n" "map_of m (i + int k0) = None" by blast
  define k where "k = (LEAST k. map_of m (i + int k) = None)"
  have "map_of m (i + int k) = None" unfolding k_def by (rule LeastI [of _ k0]) (rule k0)
  moreover have "k \<le> k0" unfolding k_def by (rule Least_le) (rule k0)
  moreover have "\<forall>j < k. map_of m (i + int j) \<noteq> None" unfolding k_def using not_less_Least by blast
  ultimately show ?thesis using that k0 by (meson le_less_trans)
qed

lemma CreateNpAuthRequest_room:
  assumes ok: "auth_ok n" and room: "length (na_requests n) < 16"
  obtains i where "0x10000001 \<le> i" and "i \<le> 0x10000010" and "i \<notin> live_auth n"
    and "\<forall>j. 0x10000001 \<le> j \<and> j < i \<longrightarrow> j \<in> live_auth n"
    and "CreateNpAuthRequest async n = Some (i, n\<lparr>na_requests :=
           omap_put i \<lparr>ar_async = async, ar_aborted = False, ar_ctx = None\<rparr> (na_requests n)\<rparr>)"
proof -
  obtain k where k: "k < 16" "map_of (na_requests n) (0x10000001 + int k) = None"
    "\<forall>j < k. map_of (na_requests n) (0x10000001 + int j) \<noteq> None"
    by (rule least_free [where i = "0x10000001", OF room])
  have "free_auth_id (na_requests n) 0x10000001 = Some (0x10000001 + int k)"
    by (rule free_auth_id_ends [OF k(2,3)]) (use k(1) in simp_all)
  then have "CreateNpAuthRequest async n = Some (0x10000001 + int k, n\<lparr>na_requests :=
      omap_put (0x10000001 + int k) \<lparr>ar_async = async, ar_aborted = False, ar_ctx = None\<rparr> (na_requests n)\<rparr>)"
    using room by (simp add: CreateNpAuthRequest_def)
  moreover have "\<forall>j. 0x10000001 \<le> j \<and> j < 0x10000001 + int k \<longrightarrow> j \<in> live_auth n"
  proof (intro allI impI)
    fix j :: int assume j: "0x10000001 \<le> j \<and> j < 0x10000001 + int k"
    then have "nat (j - 0x10000001) < k" "j = 0x10000001 + int (nat (j - 0x10000001))" by auto
    then show "j \<in> live_auth n" using k(3) live_auth_iff by metis
  qed
  ultimately show ?thesis using that [of "0x10000001 + int k"] k by (simp add: live_auth_iff)
qed

lemma CreateNpAuthRequest_full:
  "16 \<le> length (na_requests n) \<Longrightarrow> auth_ok n \<Longrightarrow> CreateNpAuthRequest async n = Some (ORBIS_NP_AUTH_ERROR_REQUEST_MAX, n)"
  by (auto simp: CreateNpAuthRequest_def auth_ok_def)

lemma auth_ok_put:
  assumes "auth_ok n" and "length (na_requests n) < 16" and "0x10000001 \<le> i" and "i \<le> 0x10000010" and "i \<notin> live_auth n"
  shows "auth_ok (n\<lparr>na_requests := omap_put i r (na_requests n)\<rparr>)"
  using assms by (auto simp: auth_ok_def omap_inv_put set_keys_omap_put length_omap_put live_auth_iff simp del: set_map)

lemma live_auth_put: "live_auth (n\<lparr>na_requests := omap_put i r (na_requests n)\<rparr>) = insert i (live_auth n)"
  unfolding live_auth_def by (simp add: set_keys_omap_put del: set_map)

definition auth_new :: "bool \<Rightarrow> NpAuth \<Rightarrow> s32 \<times> NpAuth" where
  "auth_new async n = the (CreateNpAuthRequest async n)"

definition auth_del :: "NpHandler \<Rightarrow> s32 \<Rightarrow> NpAuth \<Rightarrow> s32 \<times> NpAuth" where
  "auth_del h i n = (let (rc, n', h') = sceNpAuthDeleteRequest i n h in (rc, n'))"

interpretation auth_table: request_table "\<lambda>k n. auth_ok n" live_auth "auth_new async" "auth_del h" 16
  for async h
proof (unfold_locales, goal_cases)
  case (1 k s)
  then have room: "length (na_requests s) < 16" by (simp add: card_live_auth)
  obtain i where i: "0x10000001 \<le> i" "i \<le> 0x10000010" "i \<notin> live_auth s"
    "CreateNpAuthRequest async s = Some (i, s\<lparr>na_requests :=
           omap_put i \<lparr>ar_async = async, ar_aborted = False, ar_ctx = None\<rparr> (na_requests s)\<rparr>)"
    using CreateNpAuthRequest_room [OF 1(1) room] by metis
  then show ?case
    using auth_ok_put [OF 1(1) room i(1-3)] live_auth_put by (auto simp: auth_new_def)
next
  case (2 k s)
  then show ?case by (simp add: CreateNpAuthRequest_full card_live_auth auth_new_def)
next
  case (3 k s i)
  then have "0 < i" by (auto simp: auth_ok_def live_auth_def)
  moreover obtain r where "map_of (na_requests s) i = Some r" using 3 by (auto simp: live_auth_iff)
  moreover have "set (omap_erase i (na_requests s)) = {x \<in> set (na_requests s). fst x \<noteq> i}"
    by (auto simp: omap_erase_def)
  moreover have "length (omap_erase i (na_requests s)) \<le> length (na_requests s)" by (simp add: omap_erase_def)
  ultimately show ?case
    using 3(1) by (auto simp: auth_del_def sceNpAuthDeleteRequest_def FindRequest_def auth_ok_def live_auth_def
        omap_inv_erase)
next
  case (4 k s i)
  then show ?case by (auto simp: auth_del_def sceNpAuthDeleteRequest_def FindRequest_def live_auth_iff)
qed

section \<open>A result is final\<close>

definition answers_kept :: "NpHandler \<Rightarrow> NpHandler \<Rightarrow> bool" where
  "answers_kept h h' \<longleftrightarrow> (\<forall>a c. hn_auth_ctxs h a = Some c \<and> ac_result c \<noteq> None \<longrightarrow> hn_auth_ctxs h' a = Some c)"

lemma answers_kept_same: "hn_auth_ctxs h' = hn_auth_ctxs h \<Longrightarrow> answers_kept h h'"
  by (simp add: answers_kept_def)

lemma answers_kept_trans: "answers_kept h1 h2 \<Longrightarrow> answers_kept h2 h3 \<Longrightarrow> answers_kept h1 h3"
  unfolding answers_kept_def by blast

lemma auth_set_kept: "answers_kept h (auth_set a r h)" "answers_kept h (auth_code_set a code i h)"
  by (auto simp: answers_kept_def auth_set_def auth_code_set_def at_addr_apply AuthSetResult_def SetAuthorizationCode_def)

lemma auth_of_set [simp]:
  "hn_auth_ctxs (score_set a r h) = hn_auth_ctxs h" "hn_auth_ctxs (tus_set a r h) = hn_auth_ctxs h"
  "hn_auth_ctxs (call c h) = hn_auth_ctxs h"
  by (simp_all add: score_set_def tus_set_def call_def)

lemma auth_of_score:
  "finish_score req r h = Returned h' \<Longrightarrow> hn_auth_ctxs h' = hn_auth_ctxs h"
  "upd_score_ctx req f h = Returned h' \<Longrightarrow> hn_auth_ctxs h' = hn_auth_ctxs h"
  "with_mem h m = Returned h' \<Longrightarrow> hn_auth_ctxs h' = hn_auth_ctxs h"
  by (auto simp: finish_score_def upd_score_ctx_def with_mem_def returned_iff split: option.splits)

lemma auth_of_ranking: "ranking_reply cfg p body fill meta result h = Returned h' \<Longrightarrow> hn_auth_ctxs h' = hn_auth_ctxs h"
  by (auto simp: ranking_reply_def returned_iff split: option.splits dest!: auth_of_score)

lemma auth_of_game_data: "game_data_reply p body h = Returned h' \<Longrightarrow> hn_auth_ctxs h' = hn_auth_ctxs h"
  by (auto simp: game_data_reply_def Let_def returned_iff split: option.splits if_splits dest!: auth_of_score)

lemma auth_of_board_info: "board_info_reply cfg p body h = Returned h' \<Longrightarrow> hn_auth_ctxs h' = hn_auth_ctxs h"
  by (auto simp: board_info_reply_def returned_iff split: option.splits dest!: auth_of_score)

lemma auth_of_record: "record_score_reply p body h = Returned h' \<Longrightarrow> hn_auth_ctxs h' = hn_auth_ctxs h"
  by (auto simp: record_score_reply_def returned_iff dest!: auth_of_score)

lemma auth_of_OnScoreReply: "OnScoreReply cfg u cmd i err body h = Returned h' \<Longrightarrow> hn_auth_ctxs h' = hn_auth_ctxs h"
  by (auto simp: OnScoreReply_def score_success_def Let_def split: option.splits if_splits
      dest!: auth_of_score auth_of_ranking auth_of_game_data auth_of_board_info auth_of_record)

lemma auth_of_OnTusReply: "OnTusReply cfg u cmd i err body h = Returned h' \<Longrightarrow> hn_auth_ctxs h' = hn_auth_ctxs h"
proof -
  have "hn_auth_ctxs (fold (tus_set a) rs h) = hn_auth_ctxs h" for a rs h
    by (induction rs arbitrary: h) simp_all
  then show "OnTusReply cfg u cmd i err body h = Returned h' \<Longrightarrow> ?thesis"
    by (auto simp: OnTusReply_def Let_def finish_tus_def returned_iff split: option.splits if_splits)
qed

lemma OnTrophyReply_kept: "OnTrophyReply cfg u cmd i err body h = Returned h' \<Longrightarrow> hn_auth_ctxs h' = hn_auth_ctxs h"
  by (auto simp: OnTrophyReply_def Let_def call_def split: option.splits if_splits)

lemma OnAuthReply_kept: "answers_kept h (OnAuthReply cfg u i err body h)"
  using auth_set_kept [of "h\<lparr>hn_pending_auth := omap_erase i (hn_pending_auth h)\<rparr>"]
  by (auto simp: OnAuthReply_def Let_def answers_kept_def split: option.splits)

lemma OnClientEvent_kept: "OnClientEvent cfg u e h = Returned h' \<Longrightarrow> answers_kept h h'"
  by (cases "(cfg, u, e, h)" rule: OnClientEvent.cases)
    (auto simp: OnAsyncReply_def auth_of_OnScoreReply auth_of_OnTusReply OnTrophyReply_kept OnAuthReply_kept
      answers_kept_same OnWebApiPushEvent_def OnLoginResult_def OnFriendQuery_def OnFriendNew_def OnFriendLost_def
      OnFriendStatus_def upd_friends_def OnClientRejected_def Let_def split: if_splits prod.splits)

lemma deliver_events_kept: "deliver_events cfg u es h = Returned h' \<Longrightarrow> answers_kept h h'"
proof (induction es arbitrary: h)
  case (Cons e es)
  then obtain h1 where "OnClientEvent cfg u e h = Returned h1" "deliver_events cfg u es h1 = Returned h'"
    by (auto simp: returned_iff)
  then show ?case using Cons.IH OnClientEvent_kept answers_kept_trans by blast
qed (simp add: answers_kept_same)

lemma ConnectUser_kept:
  assumes "ConnectUser cfg env u npid pw h = Returned (Some (ok, h'))"
  shows "answers_kept h h'"
proof -
  have "(\<exists>evs. deliver_events cfg u evs h = Returned h') \<or>
      (\<exists>(c :: ShadNetClient) h1. deliver_events cfg u (cl_events c) h = Returned h1 \<and> h' = user_signed_in u npid c h1)"
    using assms(1) by (auto simp: ConnectUser_def returned_iff split: if_splits option.splits) blast+
  moreover have "answers_kept h1 (user_signed_in u npid c h1)" for c :: ShadNetClient and h1
    by (rule answers_kept_same) (simp add: user_signed_in_def Let_def FireStateCallback_eq)
  ultimately show ?thesis using deliver_events_kept answers_kept_trans by blast
qed

lemma ConnectUserById_kept: "ConnectUserById cfg env u h = Returned (Some (ok, h')) \<Longrightarrow> answers_kept h h'"
  by (auto simp: ConnectUserById_def ConnectUser_kept answers_kept_same split: if_splits option.splits)

lemma connect_users_kept: "connect_users cfg envs us h = Returned (Some h') \<Longrightarrow> answers_kept h h'"
proof (induction us arbitrary: h)
  case (Cons u us)
  then show ?case
    by (auto simp: bind_run_Some answers_kept_same split: if_splits) (blast dest: ConnectUser_kept intro: answers_kept_trans)
qed (simp add: answers_kept_same)

lemma DisconnectUser_kept: "answers_kept h (DisconnectUser u h)"
  by (auto simp: DisconnectUser_def Let_def FailPendingRequests_eq FireStateCallback_eq answers_kept_def
      auth_cell.fold_at_addr AuthSetResult_def split: option.splits)

lemma drop_users_kept: "answers_kept h (fold (drop_user clk) us h)"
proof (induction us arbitrary: h)
  case (Cons u us)
  have "answers_kept h (drop_user clk u h)"
    using DisconnectUser_kept [of h u] by (simp add: drop_user_def MarkForReconnect_def answers_kept_def)
  then show ?case using Cons.IH answers_kept_trans by fastforce
qed (simp add: answers_kept_same)

lemma try_due_kept: "try_due cfg envs clk us h = Returned (Some h') \<Longrightarrow> answers_kept h h'"
proof (induction us arbitrary: h)
  case (Cons u us)
  have same: "answers_kept h1 (after_attempt t v ok h1)" for h1 t v ok
    by (rule answers_kept_same) (auto simp: after_attempt_def Let_def split: option.splits)
  show ?case
  proof (cases "hn_initialized h \<and> hn_worker_running h")
    case True
    then obtain ok h1 where "ConnectUserById cfg (envs u) u h = Returned (Some (ok, h1))"
      "try_due cfg envs clk us (after_attempt (wc_retry clk u) u ok h1) = Returned (Some h')"
      using Cons.prems by (auto simp: bind_run_Some)
    then show ?thesis using Cons.IH ConnectUserById_kept same answers_kept_trans by metis
  next
    case False
    with Cons show ?thesis by (fastforce simp: bind_run_Some answers_kept_def split: if_splits)
  qed
qed (simp add: answers_kept_same)

lemma send_request_kept: "send_request u cmd payload client h = (i, h') \<Longrightarrow> answers_kept h h'"
  by (auto simp: send_request_def answers_kept_same split: prod.splits)

theorem handler_step_kept: "handler_step cfg h h' \<Longrightarrow> answers_kept h h'"
proof (induction rule: handler_step.induct)
  case (step_init probe us envs h h')
  then show ?case
    by (auto simp: Initialize_def bind_run_Some StartWorker_def answers_kept_def split: if_splits option.splits
        dest!: connect_users_kept)
next
  case (step_login env u h h')
  then show ?case
    by (auto simp: OnUserLoggedIn_def bind_run_Some StartWorker_def answers_kept_def dest!: ConnectUserById_kept split: if_splits)
next
  case (step_logout h u)
  show ?case
    using DisconnectUser_kept [of "h\<lparr>hn_reconnects := AList.delete u (hn_reconnects h)\<rparr>" u]
    by (simp add: OnUserLoggedOut_def answers_kept_def)
next
  case (step_worker h envs clk h')
  then show ?case
    unfolding WorkerTurn_def TryReconnect_def using try_due_kept drop_users_kept answers_kept_trans by blast
next
  case (step_event u e h h')
  then show ?case by (rule OnClientEvent_kept)
next
  case (step_score_send u label cmd payload h r h')
  then show ?case
    by (auto simp: score_send_def Let_def send_request_kept answers_kept_same split: option.splits if_splits prod.splits)
next
  case (step_tus_send u label cmd req h r h')
  then show ?case
    by (auto simp: tus_send_def Let_def send_request_kept answers_kept_same split: option.splits if_splits prod.splits)
next
  case (step_auth u client_id scope ctx h r h')
  then show ?case
    by (auto simp: RequestAuthorizationCode_def answers_kept_same split: option.splits if_splits prod.splits)
qed (auto simp: answers_kept_same score_register_def tus_register_def RegisterStateCallback_def Let_def
    UnregisterStateCallback_def AcceptSessionInvitation_def DeclineSessionInvitation_def PostSessionInvitationEvent_def
    ReportTrophyUnlock_def HandlerSyncTrophies_def call_def split: option.splits prod.splits)

lemma handler_steps_kept: "(handler_step cfg)\<^sup>*\<^sup>* h h' \<Longrightarrow> answers_kept h h'"
  by (induction rule: rtranclp_induct) (auto simp: answers_kept_same intro: answers_kept_trans handler_step_kept)

section \<open>Properties\<close>

text \<open>
  Claim C21. Creating an authorization request always ends, although its loop has no bound: it
  fails exactly when sixteen requests exist, and otherwise returns the least id above the offset
  that no request has, which lies among the first sixteen.
\<close>
theorem auth_creation_ends:
  assumes "auth_ok n"
  shows "\<exists>i n'. CreateNpAuthRequest async n = Some (i, n') \<and> auth_ok n' \<and>
    (if length (na_requests n) = 16 then i = ORBIS_NP_AUTH_ERROR_REQUEST_MAX \<and> n' = n
     else 0x10000001 \<le> i \<and> i \<le> 0x10000010 \<and> i \<notin> live_auth n \<and> live_auth n' = insert i (live_auth n) \<and>
       (\<forall>j. 0x10000001 \<le> j \<and> j < i \<longrightarrow> j \<in> live_auth n))"
proof (cases "length (na_requests n) = 16")
  case True
  then show ?thesis using assms by (simp add: CreateNpAuthRequest_full)
next
  case False
  with assms have room: "length (na_requests n) < 16" by (simp add: auth_ok_def)
  obtain i where i: "0x10000001 \<le> i" "i \<le> 0x10000010" "i \<notin> live_auth n"
    "\<forall>j. 0x10000001 \<le> j \<and> j < i \<longrightarrow> j \<in> live_auth n"
    "CreateNpAuthRequest async n = Some (i, n\<lparr>na_requests :=
           omap_put i \<lparr>ar_async = async, ar_aborted = False, ar_ctx = None\<rparr> (na_requests n)\<rparr>)"
    using CreateNpAuthRequest_room [OF assms room] by metis
  show ?thesis
    unfolding i(5) using False i(1-4) auth_ok_put [OF assms room i(1-3)] live_auth_put by auto
qed

definition no_auth :: NpAuth where
  "no_auth = \<lparr>na_enabled = True, na_requests = []\<rparr>"

lemma no_auth_ok: "auth_ok no_auth"
  by (simp add: auth_ok_def no_auth_def)

lemma auth_creation_ends_witness: "\<exists>n'. CreateNpAuthRequest True no_auth = Some (0x10000001, n')"
proof -
  have "live_auth no_auth = {}" "length (na_requests no_auth) \<noteq> 16" by (simp_all add: live_auth_def no_auth_def)
  with auth_creation_ends [OF no_auth_ok, of True] obtain i n'
    where "CreateNpAuthRequest True no_auth = Some (i, n')" "0x10000001 \<le> i" "\<forall>j. 0x10000001 \<le> j \<and> j < i \<longrightarrow> False"
    by auto
  then show ?thesis by (metis order_less_le order_refl)
qed

text \<open>
  Claim C22. Once a game aborted or deleted its request, its buffers are safe: whatever the handler
  does from then on, replies of the server, reconnections and sign outs in any order, neither the code
  nor the issuer is written, and a thread that waits gets the result at once.
\<close>
theorem abandoned_code_never_written:
  assumes req: "0 < i" "map_of (na_requests n) i = Some r" "ar_ctx r = Some a" and ctx: "hn_auth_ctxs h a = Some c"
    and op: "sceNpAuthAbortRequest i n h = (rc, n', h1) \<or> sceNpAuthDeleteRequest i n h = (rc, n', h1)"
    and steps: "(handler_step cfg)\<^sup>*\<^sup>* h1 h2"
  shows "rc = ORBIS_OK \<and> (\<exists>c'. hn_auth_ctxs h2 a = Some c' \<and> ac_auth_code c' = ac_auth_code c \<and>
    ac_issuer_id c' = ac_issuer_id c) \<and> auth_wait a h2 = Some (case ac_result c of None \<Rightarrow> ORBIS_NP_AUTH_ERROR_ABORTED | Some res \<Rightarrow> res)"
proof -
  have h1: "h1 = auth_set a ORBIS_NP_AUTH_ERROR_ABORTED h" and rc: "rc = ORBIS_OK"
    using op req by (auto simp: sceNpAuthAbortRequest_def sceNpAuthDeleteRequest_def FindRequest_def)
  have "hn_auth_ctxs h1 a = Some (AuthSetResult ORBIS_NP_AUTH_ERROR_ABORTED c)"
    using ctx by (simp add: h1 auth_set_def at_addr_apply)
  moreover have "ac_result (AuthSetResult ORBIS_NP_AUTH_ERROR_ABORTED c) \<noteq> None"
    by (simp add: auth_cell.result_set)
  ultimately have "hn_auth_ctxs h2 a = Some (AuthSetResult ORBIS_NP_AUTH_ERROR_ABORTED c)"
    using handler_steps_kept [OF steps] by (simp add: answers_kept_def)
  then show ?thesis using rc by (cases "ac_result c") (simp_all add: auth_wait_def AuthSetResult_def)
qed

definition started_auth :: NpAuth where
  "started_auth = \<lparr>na_enabled = True, na_requests = [(0x10000001, \<lparr>ar_async = True, ar_aborted = False, ar_ctx = Some 3\<rparr>)]\<rparr>"

lemma abandoned_code_never_written_witness:
  "auth_wait 3 (OnUserLoggedOut 1 (auth_set 3 ORBIS_NP_AUTH_ERROR_ABORTED
     (init_handler\<lparr>hn_auth_ctxs := [3 \<mapsto> new_auth_ctx]\<rparr>))) = Some ORBIS_NP_AUTH_ERROR_ABORTED"
proof -
  let ?h = "init_handler\<lparr>hn_auth_ctxs := [3 \<mapsto> new_auth_ctx]\<rparr>"
  let ?r = "\<lparr>ar_async = True, ar_aborted = False, ar_ctx = Some 3\<rparr>"
  have "sceNpAuthAbortRequest 0x10000001 started_auth ?h = (ORBIS_OK, started_auth, auth_set 3 ORBIS_NP_AUTH_ERROR_ABORTED ?h)"
    by (simp add: sceNpAuthAbortRequest_def FindRequest_def started_auth_def)
  then have "auth_wait 3 (OnUserLoggedOut 1 (auth_set 3 ORBIS_NP_AUTH_ERROR_ABORTED ?h)) =
      Some (case ac_result new_auth_ctx of None \<Rightarrow> ORBIS_NP_AUTH_ERROR_ABORTED | Some res \<Rightarrow> res)"
    using abandoned_code_never_written [of "0x10000001" started_auth ?r 3 ?h new_auth_ctx ORBIS_OK started_auth
        "auth_set 3 ORBIS_NP_AUTH_ERROR_ABORTED ?h" demo_cfg]
      r_into_rtranclp [of "handler_step demo_cfg", OF step_logout]
    by (simp add: started_auth_def)
  then show ?thesis by (simp add: new_auth_ctx_def)
qed

end
