(* ===== verification/WordFilter.thy ===== *)
theory WordFilter
  imports NpManagerReq
begin

text \<open>
  The word filter (np_utility.cpp): title contexts, requests with timeouts, and the two operations,
  which accept every comment. A request is its context in the map: the pointers that other threads
  hold to it are not kept here, so that a wait is a look at the request in the map.
\<close>

section \<open>State\<close>

record WordFilterTitleCtx =
  wt_user_id :: s32
  wt_self_np_id :: OrbisNpId
  wt_timeouts :: "LookupTimeouts option"

record WordFilter =
  wf_title_ctxs :: "(s32 \<times> WordFilterTitleCtx) list"
  wf_requests :: "(s32 \<times> LookupRequestCtx) list"
  wf_next_ctx_id :: s32
  wf_next_req_id :: s32

definition ORBIS_NP_WORD_FILTER_MAX_CTX_NUM :: nat where [simp]: "ORBIS_NP_WORD_FILTER_MAX_CTX_NUM = 32"
definition ORBIS_NP_WORD_FILTER_MAX_REQUEST_NUM :: nat where [simp]: "ORBIS_NP_WORD_FILTER_MAX_REQUEST_NUM = 32"
definition ORBIS_NP_WORD_FILTER_TITLE_CTX_ID_OFFSET :: s32 where [simp]: "ORBIS_NP_WORD_FILTER_TITLE_CTX_ID_OFFSET = 0x1000000"
definition ORBIS_NP_WORD_FILTER_REQUEST_ID_OFFSET :: s32 where [simp]: "ORBIS_NP_WORD_FILTER_REQUEST_ID_OFFSET = 0x2000000"
definition ORBIS_NP_WORD_FILTER_COMMENT_MAX_LENGTH :: nat where [simp]: "ORBIS_NP_WORD_FILTER_COMMENT_MAX_LENGTH = 0x400"
definition ORBIS_NP_WORD_FILTER_POLL_ASYNC_RET_FINISHED :: s32 where [simp]: "ORBIS_NP_WORD_FILTER_POLL_ASYNC_RET_FINISHED = 0"
definition ORBIS_NP_WORD_FILTER_POLL_ASYNC_RET_RUNNING :: s32 where [simp]: "ORBIS_NP_WORD_FILTER_POLL_ASYNC_RET_RUNNING = 1"

definition init_word_filter :: WordFilter where
  "init_word_filter = \<lparr>wf_title_ctxs = [], wf_requests = [],
     wf_next_ctx_id = ORBIS_NP_WORD_FILTER_TITLE_CTX_ID_OFFSET + 1,
     wf_next_req_id = ORBIS_NP_WORD_FILTER_REQUEST_ID_OFFSET + 1\<rparr>"

definition GetWordFilterRequest :: "s32 \<Rightarrow> WordFilter \<Rightarrow> LookupRequestCtx option" where
  "GetWordFilterRequest req_id w = map_of (wf_requests w) req_id"

definition put_request :: "s32 \<Rightarrow> LookupRequestCtx \<Rightarrow> WordFilter \<Rightarrow> WordFilter" where
  "put_request req_id r w = w\<lparr>wf_requests := omap_put req_id r (wf_requests w)\<rparr>"

section \<open>Using a request\<close>

text \<open>The error of a request that can not be used, or the request marked as used.\<close>

definition StartWordFilterRequest :: "LookupRequestCtx \<Rightarrow> s32 + LookupRequestCtx" where
  "StartWordFilterRequest r =
     (if lc_aborted r then Inl ORBIS_NP_COMMUNITY_ERROR_ABORTED
      else if lc_used r then Inl ORBIS_NP_COMMUNITY_ERROR_INVALID_TYPE
      else Inr (r\<lparr>lc_used := True\<rparr>))"

definition CompleteWordFilterRequest :: "s32 \<Rightarrow> LookupRequestCtx \<Rightarrow> s32 \<times> LookupRequestCtx" where
  "CompleteWordFilterRequest result r = (if lc_is_async r then ORBIS_OK else result, LookupSetResult result r)"

definition abort_ctx :: "LookupRequestCtx \<Rightarrow> LookupRequestCtx" where
  "abort_ctx r = LookupSetResult ORBIS_NP_COMMUNITY_ERROR_ABORTED (r\<lparr>lc_aborted := True\<rparr>)"

definition sceNpWordFilterAbortRequest :: "s32 \<Rightarrow> WordFilter \<Rightarrow> s32 \<times> WordFilter" where
  "sceNpWordFilterAbortRequest req_id w =
     (case GetWordFilterRequest req_id w of
        None \<Rightarrow> (ORBIS_NP_COMMUNITY_ERROR_INVALID_ID, w)
      | Some r \<Rightarrow> (ORBIS_OK, put_request req_id (abort_ctx r) w))"

text \<open>A comment is its characters before the terminating NUL, \<open>None\<close> for a null pointer.\<close>

definition sceNpWordFilterCensorComment :: "s32 \<Rightarrow> bytes option \<Rightarrow> addr option \<Rightarrow> WordFilter \<Rightarrow> s32 \<times> WordFilter" where
  "sceNpWordFilterCensorComment req_id comment opts w =
     (case comment of
        None \<Rightarrow> (ORBIS_NP_COMMUNITY_ERROR_INSUFFICIENT_ARGUMENT, w)
      | Some c \<Rightarrow>
          if opts \<noteq> None then (ORBIS_NP_COMMUNITY_ERROR_INVALID_ARGUMENT, w)
          else if length c > ORBIS_NP_WORD_FILTER_COMMENT_MAX_LENGTH then (ORBIS_NP_COMMUNITY_ERROR_INVALID_ARGUMENT, w)
          else case GetWordFilterRequest req_id w of
                 None \<Rightarrow> (ORBIS_NP_COMMUNITY_ERROR_INVALID_ID, w)
               | Some r \<Rightarrow>
                   (case StartWordFilterRequest r of
                      Inl err \<Rightarrow> (err, w)
                    | Inr r1 \<Rightarrow> let (rc, r2) = CompleteWordFilterRequest ORBIS_OK r1 in (rc, put_request req_id r2 w)))"

text \<open>The bytes written to the output: the comment with its terminating NUL.\<close>

definition sceNpWordFilterSanitizeComment ::
  "s32 \<Rightarrow> bytes option \<Rightarrow> bool \<Rightarrow> addr option \<Rightarrow> WordFilter \<Rightarrow> s32 \<times> bytes option \<times> WordFilter" where
  "sceNpWordFilterSanitizeComment req_id comment has_output opts w =
     (case comment of
        None \<Rightarrow> (ORBIS_NP_COMMUNITY_ERROR_INSUFFICIENT_ARGUMENT, None, w)
      | Some c \<Rightarrow>
          if \<not> has_output then (ORBIS_NP_COMMUNITY_ERROR_INSUFFICIENT_ARGUMENT, None, w)
          else if opts \<noteq> None then (ORBIS_NP_COMMUNITY_ERROR_INVALID_ARGUMENT, None, w)
          else if length c > ORBIS_NP_WORD_FILTER_COMMENT_MAX_LENGTH then (ORBIS_NP_COMMUNITY_ERROR_INVALID_ARGUMENT, None, w)
          else case GetWordFilterRequest req_id w of
                 None \<Rightarrow> (ORBIS_NP_COMMUNITY_ERROR_INVALID_ID, None, w)
               | Some r \<Rightarrow>
                   (case StartWordFilterRequest r of
                      Inl err \<Rightarrow> (err, None, w)
                    | Inr r1 \<Rightarrow> let (rc, r2) = CompleteWordFilterRequest ORBIS_OK r1
                                in (rc, Some (c @ [0]), put_request req_id r2 w)))"

section \<open>Creating and deleting\<close>

definition CreateWordFilterRequest :: "s32 \<Rightarrow> bool \<Rightarrow> WordFilter \<Rightarrow> s32 \<times> WordFilter" where
  "CreateWordFilterRequest title_ctx_id is_async w =
     (case map_of (wf_title_ctxs w) title_ctx_id of
        None \<Rightarrow> (ORBIS_NP_COMMUNITY_ERROR_INVALID_ID, w)
      | Some t \<Rightarrow>
          if length (wf_requests w) \<ge> ORBIS_NP_WORD_FILTER_MAX_REQUEST_NUM
          then (ORBIS_NP_COMMUNITY_ERROR_TOO_MANY_OBJECTS, w)
          else let k = wf_next_req_id w;
                   r = \<lparr>lc_result = None, lc_title_ctx_id = title_ctx_id, lc_is_async = is_async, lc_used = False,
                        lc_aborted = False, lc_timeouts = wt_timeouts t\<rparr>
               in (k, w\<lparr>wf_next_req_id := to_s32 (k + 1),
                       wf_requests := (if map_of (wf_requests w) k = None then omap_put k r (wf_requests w)
                                       else wf_requests w)\<rparr>))"

definition sceNpWordFilterCreateAsyncRequest :: "s32 \<Rightarrow> u64 option \<Rightarrow> WordFilter \<Rightarrow> s32 \<times> WordFilter" where
  "sceNpWordFilterCreateAsyncRequest title_ctx_id param w =
     (if param \<noteq> Some 24 then (ORBIS_NP_COMMUNITY_ERROR_INVALID_ARGUMENT, w)
      else CreateWordFilterRequest title_ctx_id True w)"

definition sceNpWordFilterCreateRequest :: "s32 \<Rightarrow> WordFilter \<Rightarrow> s32 \<times> WordFilter" where
  "sceNpWordFilterCreateRequest title_ctx_id = CreateWordFilterRequest title_ctx_id False"

definition CreateWordFilterTitleCtx :: "s32 \<Rightarrow> OrbisNpId \<Rightarrow> WordFilter \<Rightarrow> s32 \<times> WordFilter" where
  "CreateWordFilterTitleCtx user_id self_np_id w =
     (if length (wf_title_ctxs w) \<ge> ORBIS_NP_WORD_FILTER_MAX_CTX_NUM then (ORBIS_NP_COMMUNITY_ERROR_TOO_MANY_OBJECTS, w)
      else let k = wf_next_ctx_id w;
               t = \<lparr>wt_user_id = user_id, wt_self_np_id = self_np_id, wt_timeouts = None\<rparr>
           in (k, w\<lparr>wf_next_ctx_id := to_s32 (k + 1),
                   wf_title_ctxs := (if map_of (wf_title_ctxs w) k = None then omap_put k t (wf_title_ctxs w)
                                     else wf_title_ctxs w)\<rparr>))"

definition sceNpWordFilterCreateTitleCtx :: "OrbisNpId option \<Rightarrow> NpHandler \<Rightarrow> WordFilter \<Rightarrow> s32 \<times> WordFilter" where
  "sceNpWordFilterCreateTitleCtx self_np_id h w =
     (case self_np_id of
        None \<Rightarrow> (ORBIS_NP_COMMUNITY_ERROR_INSUFFICIENT_ARGUMENT, w)
      | Some np_id \<Rightarrow> CreateWordFilterTitleCtx (GetUserIdByOnlineId (handle np_id) h) np_id w)"

definition sceNpWordFilterCreateTitleCtxA :: "s32 \<Rightarrow> NpHandler \<Rightarrow> WordFilter \<Rightarrow> s32 \<times> WordFilter" where
  "sceNpWordFilterCreateTitleCtxA user_id h w = CreateWordFilterTitleCtx user_id (GetNpId user_id h) w"

text \<open>The erased request is returned for those who still wait on it: it is aborted.\<close>

definition sceNpWordFilterDeleteRequest :: "s32 \<Rightarrow> WordFilter \<Rightarrow> s32 \<times> LookupRequestCtx option \<times> WordFilter" where
  "sceNpWordFilterDeleteRequest req_id w =
     (case map_of (wf_requests w) req_id of
        None \<Rightarrow> (ORBIS_NP_COMMUNITY_ERROR_INVALID_ID, None, w)
      | Some r \<Rightarrow> (ORBIS_OK, Some (abort_ctx r), w\<lparr>wf_requests := omap_erase req_id (wf_requests w)\<rparr>))"

definition sceNpWordFilterDeleteTitleCtx :: "s32 \<Rightarrow> WordFilter \<Rightarrow> s32 \<times> LookupRequestCtx list \<times> WordFilter" where
  "sceNpWordFilterDeleteTitleCtx title_ctx_id w =
     (if map_of (wf_title_ctxs w) title_ctx_id = None then (ORBIS_NP_COMMUNITY_ERROR_INVALID_ID, [], w)
      else (ORBIS_OK,
            map (abort_ctx \<circ> snd) (filter (\<lambda>(k, r). lc_title_ctx_id r = title_ctx_id) (wf_requests w)),
            w\<lparr>wf_requests := filter (\<lambda>(k, r). lc_title_ctx_id r \<noteq> title_ctx_id) (wf_requests w),
              wf_title_ctxs := omap_erase title_ctx_id (wf_title_ctxs w)\<rparr>))"

section \<open>Waiting and timeouts\<close>

definition sceNpWordFilterPollAsync :: "s32 \<Rightarrow> bool \<Rightarrow> WordFilter \<Rightarrow> s32 \<times> s32 option" where
  "sceNpWordFilterPollAsync req_id has_result w =
     (if \<not> has_result then (ORBIS_NP_COMMUNITY_ERROR_INVALID_ARGUMENT, None)
      else case GetWordFilterRequest req_id w of
             None \<Rightarrow> (ORBIS_NP_COMMUNITY_ERROR_INVALID_ID, None)
           | Some r \<Rightarrow>
               if \<not> lc_is_async r then (ORBIS_NP_COMMUNITY_ERROR_INVALID_ID, None)
               else (case lc_result r of
                       None \<Rightarrow> (ORBIS_NP_WORD_FILTER_POLL_ASYNC_RET_RUNNING, None)
                     | Some res \<Rightarrow> (ORBIS_NP_WORD_FILTER_POLL_ASYNC_RET_FINISHED, Some res)))"

text \<open>An error, or the result that is waited for, \<open>None\<close> while there is none.\<close>

definition sceNpWordFilterWaitAsync :: "s32 \<Rightarrow> bool \<Rightarrow> WordFilter \<Rightarrow> s32 + s32 option" where
  "sceNpWordFilterWaitAsync req_id has_result w =
     (if \<not> has_result then Inl ORBIS_NP_COMMUNITY_ERROR_INVALID_ARGUMENT
      else case GetWordFilterRequest req_id w of
             None \<Rightarrow> Inl ORBIS_NP_COMMUNITY_ERROR_INVALID_ID
           | Some r \<Rightarrow> if \<not> lc_is_async r then Inl ORBIS_NP_COMMUNITY_ERROR_INVALID_ID else Inr (lc_result r))"

text \<open>An id names a title context or else a request; contexts pass their timeouts on to new requests.\<close>

definition sceNpWordFilterSetTimeout :: "s32 \<Rightarrow> s32 \<Rightarrow> u32 \<Rightarrow> u32 \<Rightarrow> u32 \<Rightarrow> u32 \<Rightarrow> WordFilter \<Rightarrow> s32 \<times> WordFilter" where
  "sceNpWordFilterSetTimeout k resolve_retry resolve_timeout conn_timeout send_timeout recv_timeout w =
     (if resolve_retry < 0 \<or> \<not> unset_or_at_least resolve_timeout 1000000 \<or>
         \<not> unset_or_at_least conn_timeout 10000000 \<or> \<not> unset_or_at_least send_timeout 10000000 \<or>
         \<not> unset_or_at_least recv_timeout 10000000 \<or>
         (resolve_retry = 0 \<and> resolve_timeout = 0 \<and> conn_timeout = 0 \<and> send_timeout = 0 \<and> recv_timeout = 0)
      then (ORBIS_NP_COMMUNITY_ERROR_INVALID_ARGUMENT, w)
      else
        let timeouts = \<lparr>lt_resolve_retry = resolve_retry, lt_resolve_timeout = resolve_timeout, lt_conn_timeout = conn_timeout,
                        lt_send_timeout = send_timeout, lt_recv_timeout = recv_timeout\<rparr>
        in case map_of (wf_title_ctxs w) k of
             Some t \<Rightarrow> (ORBIS_OK, w\<lparr>wf_title_ctxs := omap_put k (t\<lparr>wt_timeouts := Some timeouts\<rparr>) (wf_title_ctxs w)\<rparr>)
           | None \<Rightarrow>
               (case map_of (wf_requests w) k of
                  Some r \<Rightarrow> (ORBIS_OK, put_request k (r\<lparr>lc_timeouts := Some timeouts\<rparr>) w)
                | None \<Rightarrow> (ORBIS_NP_COMMUNITY_ERROR_INVALID_ID, w)))"

end
