(* ===== verification/WordFilterProps.thy ===== *)
theory WordFilterProps
  imports WordFilter
begin

text \<open>
  The word filter: every request belongs to a title context that exists and has a result exactly
  when it was used or aborted; its tables are tables of ids.
\<close>

section \<open>Invariant\<close>

definition request_ok :: "WordFilter \<Rightarrow> LookupRequestCtx \<Rightarrow> bool" where
  "request_ok w r \<longleftrightarrow> map_of (wf_title_ctxs w) (lc_title_ctx_id r) \<noteq> None \<and>
     (lc_result r \<noteq> None \<longleftrightarrow> lc_used r \<or> lc_aborted r)"

definition wf_ok :: "nat \<Rightarrow> WordFilter \<Rightarrow> bool" where
  "wf_ok k w \<longleftrightarrow>
     omap_inv (wf_title_ctxs w) \<and> omap_inv (wf_requests w) \<and>
     length (wf_title_ctxs w) \<le> 32 \<and> length (wf_requests w) \<le> 32 \<and>
     (\<forall>i \<in> set (keys (wf_requests w)). 0x2000001 \<le> i \<and> i < wf_next_req_id w) \<and>
     (\<forall>i \<in> set (keys (wf_title_ctxs w)). 0x1000001 \<le> i \<and> i < wf_next_ctx_id w) \<and>
     0x2000001 \<le> wf_next_req_id w \<and> wf_next_req_id w + int k < 2 ^ 31 \<and>
     0x1000001 \<le> wf_next_ctx_id w \<and> wf_next_ctx_id w + int k < 2 ^ 31 \<and>
     (\<forall>i r. map_of (wf_requests w) i = Some r \<longrightarrow> request_ok w r)"

lemma wf_ok_mono: "wf_ok (Suc k) w \<Longrightarrow> wf_ok k w"
  by (auto simp: wf_ok_def)

lemma length_put_old: "omap_inv m \<Longrightarrow> map_of m k \<noteq> None \<Longrightarrow> length (omap_put k v m) = length m"
proof (induction k v m rule: omap_put.induct)
  case (2 k v k' v' m)
  show ?case
  proof (cases "k < k'")
    case True
    have "map_of m k = None"
    proof (rule ccontr)
      assume "map_of m k \<noteq> None"
      then have "k \<in> set (keys m)" by (simp add: map_of_eq_None_iff)
      with "2.prems"(1) have "k' < k" by (auto simp: omap_inv_Cons)
      with True show False by simp
    qed
    with "2.prems"(2) True show ?thesis by (auto split: if_splits)
  qed (use 2 in \<open>auto simp: omap_inv_Cons split: if_splits\<close>)
qed simp

lemma put_request_ok:
  assumes "wf_ok k w" and "map_of (wf_requests w) i = Some r" and "request_ok w r'"
  shows "wf_ok k (put_request i r' w)"
proof -
  have "i \<in> set (keys (wf_requests w))" using assms(2) by (force dest: map_of_SomeD)
  moreover have "length (omap_put i r' (wf_requests w)) = length (wf_requests w)"
    using assms by (intro length_put_old) (auto simp: wf_ok_def)
  ultimately show ?thesis
    using assms by (auto simp: wf_ok_def put_request_def omap_inv_put set_keys_omap_put map_of_omap_put request_ok_def
        insert_absorb simp del: set_map split: if_splits)
qed

lemma used_request_ok:
  "request_ok w r \<Longrightarrow> StartWordFilterRequest r = Inr r1 \<Longrightarrow> request_ok w (snd (CompleteWordFilterRequest res r1))"
  by (auto simp: request_ok_def StartWordFilterRequest_def CompleteWordFilterRequest_def LookupSetResult_def split: if_splits)

lemma abort_request_ok: "request_ok w r \<Longrightarrow> request_ok w (abort_ctx r)"
  by (auto simp: request_ok_def abort_ctx_def LookupSetResult_def)

lemma found_ok: "wf_ok k w \<Longrightarrow> GetWordFilterRequest i w = Some r \<Longrightarrow> map_of (wf_requests w) i = Some r \<and> request_ok w r"
  by (auto simp: wf_ok_def GetWordFilterRequest_def)

lemma put_found:
  assumes "wf_ok k w" and "GetWordFilterRequest i w = Some r" and "request_ok w r \<Longrightarrow> request_ok w r'"
  shows "wf_ok k (put_request i r' w)"
  using put_request_ok [of k w i r r'] found_ok [OF assms(1,2)] assms by blast

section \<open>Every operation keeps it\<close>

lemma Abort_wf: "wf_ok k w \<Longrightarrow> wf_ok k (snd (sceNpWordFilterAbortRequest i w))"
  by (auto simp: sceNpWordFilterAbortRequest_def split: option.split intro: put_found abort_request_ok)

lemma Censor_wf: "wf_ok k w \<Longrightarrow> wf_ok k (snd (sceNpWordFilterCensorComment i c opts w))"
  by (auto simp: sceNpWordFilterCensorComment_def Let_def split_beta split: option.split sum.split
      intro!: put_found used_request_ok)

lemma Sanitize_wf: "wf_ok k w \<Longrightarrow> wf_ok k (snd (snd (sceNpWordFilterSanitizeComment i c has opts w)))"
  by (auto simp: sceNpWordFilterSanitizeComment_def Let_def split_beta split: option.split sum.split
      intro!: put_found used_request_ok)

lemma next_free:
  assumes "wf_ok k w"
  shows "map_of (wf_requests w) (wf_next_req_id w) = None" and "map_of (wf_title_ctxs w) (wf_next_ctx_id w) = None"
  using assms by (auto simp: wf_ok_def map_of_eq_None_iff)

lemma CreateRequest_room:
  fixes async :: bool
  assumes ok: "wf_ok (Suc k) w" and t: "map_of (wf_title_ctxs w) t = Some tc" and room: "length (wf_requests w) < 32"
  defines "w' \<equiv> snd (CreateWordFilterRequest t async w)"
  shows "CreateWordFilterRequest t async w = (wf_next_req_id w, w')" and "wf_ok k w'"
    and "set (keys (wf_requests w')) = insert (wf_next_req_id w) (set (keys (wf_requests w)))"
    and "wf_title_ctxs w' = wf_title_ctxs w"
proof -
  have nxt: "to_s32 (wf_next_req_id w + 1) = wf_next_req_id w + 1"
    using ok by (intro to_s32_id) (auto simp: wf_ok_def)
  note new = next_free(1) [OF ok]
  show "CreateWordFilterRequest t async w = (wf_next_req_id w, w')"
    using t room by (simp add: CreateWordFilterRequest_def w'_def Let_def)
  show "set (keys (wf_requests w')) = insert (wf_next_req_id w) (set (keys (wf_requests w)))"
    using t room new by (simp add: CreateWordFilterRequest_def w'_def Let_def set_keys_omap_put del: set_map)
  show "wf_title_ctxs w' = wf_title_ctxs w"
    using t room by (simp add: CreateWordFilterRequest_def w'_def Let_def)
  show "wf_ok k w'"
    using ok t room new nxt
    by (auto simp: CreateWordFilterRequest_def w'_def Let_def wf_ok_def omap_inv_put set_keys_omap_put map_of_omap_put
        length_omap_put request_ok_def simp del: set_map split: if_splits)
qed

lemma CreateRequest_wf: "wf_ok (Suc k) w \<Longrightarrow> wf_ok k (snd (CreateWordFilterRequest t async w))"
proof (cases "map_of (wf_title_ctxs w) t")
  case (Some tc)
  moreover assume "wf_ok (Suc k) w"
  ultimately show ?thesis
    using CreateRequest_room(2) by (cases "length (wf_requests w) < 32") (auto simp: CreateWordFilterRequest_def wf_ok_mono)
qed (simp add: CreateWordFilterRequest_def wf_ok_mono)

lemma CreateCtx_wf:
  assumes ok: "wf_ok (Suc k) w"
  shows "wf_ok k (snd (CreateWordFilterTitleCtx u np_id w))"
proof (cases "length (wf_title_ctxs w) < 32")
  case True
  have nxt: "to_s32 (wf_next_ctx_id w + 1) = wf_next_ctx_id w + 1"
    using ok by (intro to_s32_id) (auto simp: wf_ok_def)
  with True ok next_free(2) [OF ok] show ?thesis
    by (auto simp: CreateWordFilterTitleCtx_def Let_def wf_ok_def omap_inv_put set_keys_omap_put map_of_omap_put
        length_omap_put request_ok_def simp del: set_map split: if_splits)
qed (use ok in \<open>simp add: CreateWordFilterTitleCtx_def wf_ok_mono\<close>)

lemma Delete_wf:
  assumes "wf_ok k w"
  shows "wf_ok k (snd (snd (sceNpWordFilterDeleteRequest i w)))"
proof -
  have "set (omap_erase i (wf_requests w)) \<subseteq> set (wf_requests w)"
    and "length (omap_erase i (wf_requests w)) \<le> length (wf_requests w)"
    by (auto simp: omap_erase_def)
  with assms show ?thesis
    by (auto simp: sceNpWordFilterDeleteRequest_def wf_ok_def omap_inv_erase map_of_omap_erase request_ok_def
        subset_iff split: option.splits if_splits)
qed

lemma map_of_filter_keep:
  "omap_inv m \<Longrightarrow> map_of (filter (\<lambda>(i, r). P r) m) i = (case map_of m i of None \<Rightarrow> None | Some r \<Rightarrow> if P r then Some r else None)"
proof (induction m)
  case (Cons e m)
  obtain j r where e: "e = (j, r)" by (cases e)
  have "map_of m j = None" using Cons.prems by (auto simp: e omap_inv_Cons map_of_eq_None_iff)
  with Cons show ?case by (auto simp: e omap_inv_Cons split: option.splits)
qed simp

lemma omap_inv_filter: "omap_inv m \<Longrightarrow> omap_inv (filter P m)"
  unfolding omap_inv_def by (induction m) (auto simp: image_iff)

lemma DeleteCtx_wf:
  assumes "wf_ok k w"
  shows "wf_ok k (snd (snd (sceNpWordFilterDeleteTitleCtx t w)))"
proof -
  have "length (filter (\<lambda>(k, r). lc_title_ctx_id r \<noteq> t) (wf_requests w)) \<le> 32"
    using assms le_trans [OF length_filter_le] by (auto simp: wf_ok_def)
  moreover have "length (omap_erase t (wf_title_ctxs w)) \<le> 32"
    using assms le_trans [OF length_filter_le] by (auto simp: wf_ok_def omap_erase_def)
  moreover have "set (omap_erase t (wf_title_ctxs w)) \<subseteq> set (wf_title_ctxs w)"
    by (auto simp: omap_erase_def)
  moreover have "request_ok (w\<lparr>wf_requests := rs, wf_title_ctxs := omap_erase t (wf_title_ctxs w)\<rparr>) r"
    if "request_ok w r" "lc_title_ctx_id r \<noteq> t" for r rs
    using that by (simp add: request_ok_def map_of_omap_erase)
  ultimately show ?thesis
    using assms
    by (auto simp: sceNpWordFilterDeleteTitleCtx_def wf_ok_def omap_inv_erase omap_inv_filter
        map_of_filter_keep subset_iff split: option.splits if_splits)
qed

lemma SetTimeout_wf: "wf_ok k w \<Longrightarrow> wf_ok k (snd (sceNpWordFilterSetTimeout i a b c d e w))"
proof -
  assume ok: "wf_ok k w"
  have req: "wf_ok k (put_request i (r\<lparr>lc_timeouts := ts\<rparr>) w)" if "map_of (wf_requests w) i = Some r" for r ts
  proof (rule put_request_ok [OF ok that])
    have "request_ok w r" using ok that by (simp add: wf_ok_def)
    then show "request_ok w (r\<lparr>lc_timeouts := ts\<rparr>)" by (simp add: request_ok_def)
  qed
  have ctx: "wf_ok k (w\<lparr>wf_title_ctxs := omap_put i (t\<lparr>wt_timeouts := ts\<rparr>) (wf_title_ctxs w)\<rparr>)"
    if "map_of (wf_title_ctxs w) i = Some t" for t ts
  proof -
    have "i \<in> set (keys (wf_title_ctxs w))" using that by (force dest: map_of_SomeD)
    moreover have "length (omap_put i (t\<lparr>wt_timeouts := ts\<rparr>) (wf_title_ctxs w)) = length (wf_title_ctxs w)"
      using ok that by (intro length_put_old) (auto simp: wf_ok_def)
    ultimately show ?thesis
      using ok by (auto simp: wf_ok_def omap_inv_put set_keys_omap_put map_of_omap_put request_ok_def insert_absorb
          simp del: set_map)
  qed
  show ?thesis
    using ok req ctx by (auto simp: sceNpWordFilterSetTimeout_def Let_def split: option.splits)
qed

section \<open>The table of requests\<close>

definition wf_del :: "s32 \<Rightarrow> WordFilter \<Rightarrow> s32 \<times> WordFilter" where
  "wf_del i w = (let (rc, r, w') = sceNpWordFilterDeleteRequest i w in (rc, w'))"

definition wf_live :: "WordFilter \<Rightarrow> s32 set" where
  "wf_live w = set (keys (wf_requests w))"

lemma card_wf_live: "wf_ok k w \<Longrightarrow> card (wf_live w) = length (wf_requests w)"
  unfolding wf_ok_def wf_live_def by (metis distinct_card length_map omap_inv_distinct)

interpretation wf_table: request_table "\<lambda>k w. wf_ok k w \<and> map_of (wf_title_ctxs w) t \<noteq> None" wf_live
  "CreateWordFilterRequest t async" wf_del 32 for t async
proof (unfold_locales, goal_cases)
  case (1 k w)
  then obtain tc where tc: "map_of (wf_title_ctxs w) t = Some tc" by auto
  have room: "length (wf_requests w) < 32" using 1 card_wf_live [OF conjunct1 [OF 1(1)]] by simp
  note new = CreateRequest_room [OF conjunct1 [OF 1(1)] tc room]
  have "0 < wf_next_req_id w" "wf_next_req_id w \<notin> wf_live w"
    using 1(1) by (auto simp: wf_ok_def wf_live_def)
  with new [of async] tc show ?case
    by (intro exI [of _ "wf_next_req_id w"] exI [of _ "snd (CreateWordFilterRequest t async w)"]) (simp add: wf_live_def)
next
  case (2 k w)
  then show ?case by (auto simp: card_wf_live CreateWordFilterRequest_def)
next
  case (3 k w i)
  then have "map_of (wf_requests w) i \<noteq> None" by (simp add: wf_live_def map_of_eq_None_iff)
  then obtain r where "map_of (wf_requests w) i = Some r" by blast
  moreover have "wf_ok k (snd (snd (sceNpWordFilterDeleteRequest i w)))" using 3(1) Delete_wf by blast
  ultimately show ?case
    using 3(1) by (auto simp: wf_del_def sceNpWordFilterDeleteRequest_def wf_live_def omap_erase_def)
next
  case (4 k w i)
  then have "map_of (wf_requests w) i = None" by (simp add: wf_live_def map_of_eq_None_iff)
  then show ?case by (simp add: wf_del_def sceNpWordFilterDeleteRequest_def)
next
  case (5 k w)
  then show ?case by (simp add: wf_ok_mono)
qed

section \<open>Reachable states\<close>

text \<open>\<open>k\<close> counts down the ids that the counters can still hand out.\<close>

inductive wf_reach :: "nat \<Rightarrow> WordFilter \<Rightarrow> bool" where
  wf_init: "wf_reach 0x7d000000 init_word_filter"
| wf_abort: "wf_reach k w \<Longrightarrow> wf_reach k (snd (sceNpWordFilterAbortRequest i w))"
| wf_censor: "wf_reach k w \<Longrightarrow> wf_reach k (snd (sceNpWordFilterCensorComment i c opts w))"
| wf_sanitize: "wf_reach k w \<Longrightarrow> wf_reach k (snd (snd (sceNpWordFilterSanitizeComment i c has opts w)))"
| wf_create: "wf_reach (Suc k) w \<Longrightarrow> wf_reach k (snd (sceNpWordFilterCreateRequest t w))"
| wf_create_async: "wf_reach (Suc k) w \<Longrightarrow> wf_reach k (snd (sceNpWordFilterCreateAsyncRequest t param w))"
| wf_create_ctx: "wf_reach (Suc k) w \<Longrightarrow> wf_reach k (snd (sceNpWordFilterCreateTitleCtx self h w))"
| wf_create_ctx_a: "wf_reach (Suc k) w \<Longrightarrow> wf_reach k (snd (sceNpWordFilterCreateTitleCtxA u h w))"
| wf_delete: "wf_reach k w \<Longrightarrow> wf_reach k (snd (snd (sceNpWordFilterDeleteRequest i w)))"
| wf_delete_ctx: "wf_reach k w \<Longrightarrow> wf_reach k (snd (snd (sceNpWordFilterDeleteTitleCtx t w)))"
| wf_timeout: "wf_reach k w \<Longrightarrow> wf_reach k (snd (sceNpWordFilterSetTimeout i a b c d e w))"

lemma wf_reach_ok: "wf_reach k w \<Longrightarrow> wf_ok k w"
proof (induction rule: wf_reach.induct)
  case wf_init
  show ?case by (simp add: wf_ok_def init_word_filter_def)
qed (auto simp: Abort_wf Censor_wf Sanitize_wf Delete_wf DeleteCtx_wf SetTimeout_wf CreateRequest_wf CreateCtx_wf wf_ok_mono
    sceNpWordFilterCreateRequest_def sceNpWordFilterCreateAsyncRequest_def sceNpWordFilterCreateTitleCtx_def
    sceNpWordFilterCreateTitleCtxA_def split: option.splits)



end
