(* ===== verification/NpTrophy.thy ===== *)
theory NpTrophy
  imports HandlerConnect HandlerScoreProps
begin

text \<open>
  Trophies (np_trophy.cpp): the hooks of the trophy library of the console. The console's own
  library is not part of the program: it is the parameter \<open>tc\<close>, functions over a state of its own.
  The unlocked trophies of the console go to the server when a context is registered, those of the
  server are unlocked on the console, and what the game unlocks is reported.
\<close>

section \<open>The console\<close>

record 'c TrophyConsole =
  tc_create :: "s32 \<Rightarrow> u32 \<Rightarrow> u64 \<Rightarrow> 'c \<Rightarrow> s32 \<times> s32 \<times> 'c"
  tc_destroy :: "s32 \<Rightarrow> 'c \<Rightarrow> s32 \<times> 'c"
  tc_register :: "s32 \<Rightarrow> s32 \<Rightarrow> u64 \<Rightarrow> 'c \<Rightarrow> s32 \<times> 'c"
  tc_unlock :: "s32 \<Rightarrow> s32 \<Rightarrow> s32 \<Rightarrow> s32 \<Rightarrow> 'c \<Rightarrow> s32 \<times> s32 \<times> 'c"
  tc_unlock_state :: "s32 \<Rightarrow> s32 \<Rightarrow> 'c \<Rightarrow> s32 \<times> u32 list \<times> u32"
  tc_trophy_info :: "s32 \<Rightarrow> s32 \<Rightarrow> s32 \<Rightarrow> 'c \<Rightarrow> s32 \<times> u64"
  tc_create_handle :: "'c \<Rightarrow> s32 \<times> s32 \<times> 'c"
  tc_destroy_handle :: "s32 \<Rightarrow> 'c \<Rightarrow> 'c"

text \<open>The contexts of the library with their user and service label, and the flag of the server's trophies.\<close>

record NpTrophy =
  nt_contexts :: "(s32 \<times> (s32 \<times> u32)) list"
  nt_server_applied :: bool

definition ORBIS_NP_TROPHY_NUM_MAX :: nat where [simp]: "ORBIS_NP_TROPHY_NUM_MAX = 128"
definition ORBIS_NP_TROPHY_INVALID_TROPHY_ID :: s32 where [simp]: "ORBIS_NP_TROPHY_INVALID_TROPHY_ID = -1"
definition ORBIS_NP_TROPHY_ERROR_TROPHY_ALREADY_UNLOCKED :: s32 where
  [simp]: "ORBIS_NP_TROPHY_ERROR_TROPHY_ALREADY_UNLOCKED = 0x8055160C - 2 ^ 32"
definition UNIX_EPOCH_TICKS :: u64 where [simp]: "UNIX_EPOCH_TICKS = 0xdcbffeff2bc000"

text \<open>\<open>contexts[context]\<close> makes an entry for a context that has none.\<close>

definition context_of :: "s32 \<Rightarrow> NpTrophy \<Rightarrow> (s32 \<times> u32) \<times> NpTrophy" where
  "context_of ctx t = (at_or (0, 0) ctx (nt_contexts t),
     t\<lparr>nt_contexts := omap_put ctx (at_or (0, 0) ctx (nt_contexts t)) (nt_contexts t)\<rparr>)"

section \<open>Contexts\<close>

definition sceNpTrophyCreateContext ::
  "'c TrophyConsole \<Rightarrow> s32 \<Rightarrow> u32 \<Rightarrow> u64 \<Rightarrow> NpTrophy \<Rightarrow> 'c \<Rightarrow> s32 \<times> s32 \<times> NpTrophy \<times> 'c" where
  "sceNpTrophyCreateContext tc user_id service_label opts t c =
     (let (ret, ctx, c1) = tc_create tc user_id service_label opts c
      in (ret, ctx, (if ret = 0 then t\<lparr>nt_contexts := omap_put ctx (user_id, service_label) (nt_contexts t)\<rparr> else t), c1))"

definition sceNpTrophyDestroyContext :: "'c TrophyConsole \<Rightarrow> s32 \<Rightarrow> NpTrophy \<Rightarrow> 'c \<Rightarrow> s32 \<times> NpTrophy \<times> 'c" where
  "sceNpTrophyDestroyContext tc ctx t c =
     (let (ret, c1) = tc_destroy tc ctx c
      in (ret, (if ret = 0 then t\<lparr>nt_contexts := omap_erase ctx (nt_contexts t)\<rparr> else t), c1))"

section \<open>What the console has unlocked\<close>

definition IsFlagSet :: "nat \<Rightarrow> u32 list \<Rightarrow> bool" where
  "IsFlagSet trophy_id flag_bits = bit (flag_bits ! (trophy_id div 32)) (trophy_id mod 32)"

text \<open>Seconds since 1970, or 0 when the console does not say.\<close>

definition trophy_time :: "'c TrophyConsole \<Rightarrow> s32 \<Rightarrow> s32 \<Rightarrow> s32 \<Rightarrow> 'c \<Rightarrow> s32 \<times> u64" where
  "trophy_time tc ctx hnd trophy_id c =
     (let (ret, ts) = tc_trophy_info tc ctx hnd trophy_id c
      in (ret, if ret = 0 then (ts - UNIX_EPOCH_TICKS) div 1000000 else 0))"

definition ReadUnlockedTrophies :: "'c TrophyConsole \<Rightarrow> s32 \<Rightarrow> s32 \<Rightarrow> 'c \<Rightarrow> (s32 \<times> u64) list" where
  "ReadUnlockedTrophies tc ctx hnd c =
     (let (ret, flags, count) = tc_unlock_state tc ctx hnd c
      in if ret = 0 \<and> count > 0
         then map (\<lambda>k. (int k, snd (trophy_time tc ctx hnd (int k) c)))
                (filter (\<lambda>k. IsFlagSet k flags) [0..<ORBIS_NP_TROPHY_NUM_MAX])
         else [])"

section \<open>Unlocking\<close>

text \<open>The result of asking for the time of the trophy replaces that of unlocking it.\<close>

definition sceNpTrophyUnlockTrophy ::
  "HandlerConfig \<Rightarrow> 'c TrophyConsole \<Rightarrow> s32 \<Rightarrow> s32 \<Rightarrow> s32 \<Rightarrow> s32 \<Rightarrow> NpTrophy \<Rightarrow> NpHandler \<Rightarrow> 'c \<Rightarrow>
   s32 \<times> s32 \<times> NpTrophy \<times> NpHandler \<times> 'c" where
  "sceNpTrophyUnlockTrophy cfg tc ctx hnd trophy_id plat0 t h c =
     (let (ret, plat, c1) = tc_unlock tc ctx hnd trophy_id plat0 c
      in if ret = 0 \<and> \<not> nt_server_applied t
         then (let ((user_id, label), t1) = context_of ctx t;
                   (ret2, timestamp) = trophy_time tc ctx hnd trophy_id c1;
                   h1 = ReportTrophyUnlock cfg user_id (sint label) trophy_id timestamp h;
                   h2 = (if plat \<noteq> ORBIS_NP_TROPHY_INVALID_TROPHY_ID
                         then ReportTrophyUnlock cfg user_id (sint label) plat timestamp h1 else h1)
               in (ret2, plat, t1, h2, c1))
         else (ret, plat, t, h, c1))"

text \<open>One trophy of the server, unlocked with the flag raised; whether it counts as applied.\<close>

definition apply_one ::
  "HandlerConfig \<Rightarrow> 'c TrophyConsole \<Rightarrow> s32 \<Rightarrow> s32 \<Rightarrow> s32 \<times> u64 \<Rightarrow> u32 \<times> NpTrophy \<times> NpHandler \<times> 'c \<Rightarrow>
   u32 \<times> NpTrophy \<times> NpHandler \<times> 'c" where
  "apply_one cfg tc ctx hnd entry st =
     (let (applied, t, h, c) = st;
          (ret, plat, t1, h1, c1) = sceNpTrophyUnlockTrophy cfg tc ctx hnd (fst entry) ORBIS_NP_TROPHY_INVALID_TROPHY_ID
                                      (t\<lparr>nt_server_applied := True\<rparr>) h c
      in (if ret \<noteq> 0 \<and> ret \<noteq> ORBIS_NP_TROPHY_ERROR_TROPHY_ALREADY_UNLOCKED then applied else applied + 1,
          t1\<lparr>nt_server_applied := False\<rparr>, h1, c1))"

definition ApplyServerTrophies ::
  "HandlerConfig \<Rightarrow> 'c TrophyConsole \<Rightarrow> s32 \<Rightarrow> (s32 \<times> u64) list \<Rightarrow> NpTrophy \<Rightarrow> NpHandler \<Rightarrow> 'c \<Rightarrow>
   u32 \<times> NpTrophy \<times> NpHandler \<times> 'c" where
  "ApplyServerTrophies cfg tc ctx server_trophies t h c =
     (if server_trophies = [] then (0, t, h, c)
      else let (ret, hnd, c1) = tc_create_handle tc c
           in if ret \<noteq> 0 then (0, t, h, c1)
              else let (applied, t2, h2, c2) = fold (apply_one cfg tc ctx hnd) server_trophies (0, t, h, c1)
                   in (applied, t2, h2, tc_destroy_handle tc hnd c2))"

text \<open>\<open>merged ctx\<close> is the function that will be called with the trophies of the server for the context.\<close>

definition sceNpTrophyRegisterContext ::
  "HandlerConfig \<Rightarrow> 'c TrophyConsole \<Rightarrow> (s32 \<Rightarrow> addr) \<Rightarrow> s32 \<Rightarrow> s32 \<Rightarrow> u64 \<Rightarrow> NpTrophy \<Rightarrow> NpHandler \<Rightarrow> 'c \<Rightarrow>
   s32 \<times> NpTrophy \<times> NpHandler \<times> 'c" where
  "sceNpTrophyRegisterContext cfg tc merged ctx hnd opts t h c =
     (let (ret, c1) = tc_register tc ctx hnd opts c
      in if ret = 0
         then (let ((user_id, label), t1) = context_of ctx t
               in (ret, t1, HandlerSyncTrophies cfg user_id (sint label) (ReadUnlockedTrophies tc ctx hnd c1)
                              (Some (merged ctx)) h, c1))
         else (ret, t, h, c1))"

section \<open>Properties\<close>

lemma apply_one_handler:
  assumes "apply_one cfg tc ctx hnd e (n, t, h, c) = (n', t', h', c')"
  shows "h' = h \<and> nt_contexts t' = nt_contexts t \<and> \<not> nt_server_applied t'"
  using assms by (auto simp: apply_one_def sceNpTrophyUnlockTrophy_def Let_def split: prod.splits)

lemma apply_fold_handler:
  assumes "fold (apply_one cfg tc ctx hnd) es (n, t, h, c) = (n', t', h', c')"
  shows "h' = h \<and> nt_contexts t' = nt_contexts t \<and> (\<not> nt_server_applied t \<longrightarrow> \<not> nt_server_applied t')"
  using assms
proof (induction es arbitrary: n t h c)
  case (Cons e es)
  obtain n1 t1 h1 c1 where s: "apply_one cfg tc ctx hnd e (n, t, h, c) = (n1, t1, h1, c1)"
    by (cases "apply_one cfg tc ctx hnd e (n, t, h, c)")
  from apply_one_handler [OF s] Cons.IH [of n1 t1 h1 c1] Cons.prems show ?case by (simp add: s)
qed simp

text \<open>
  What the server sends is never sent back: unlocking the trophies of the server on the
  console, whatever the console answers, leaves the handler and so every connection as it is, and
  ends with the flag lowered; while a trophy that the game unlocks is reported for the user of its
  context, and the platinum trophy after it when the console says that it was unlocked too.
\<close>
theorem server_trophies_not_echoed:
  assumes "ApplyServerTrophies cfg tc ctx trophies t h c = (n, t', h', c')" and "\<not> nt_server_applied t"
    and "map_of (nt_contexts t) ctx = Some (user_id, label)"
    and "tc_unlock tc ctx hnd trophy_id plat0 c' = (0, plat, c1)"
  shows "h' = h \<and> \<not> nt_server_applied t' \<and>
    (let report = (\<lambda>k. ReportTrophyUnlock cfg user_id (sint label) k (snd (trophy_time tc ctx hnd trophy_id c1)));
         (ret, p, t2, h2, c2) = sceNpTrophyUnlockTrophy cfg tc ctx hnd trophy_id plat0 t' h' c'
     in h2 = (if plat \<noteq> ORBIS_NP_TROPHY_INVALID_TROPHY_ID then report plat (report trophy_id h) else report trophy_id h))"
proof -
  have keep: "h' = h \<and> nt_contexts t' = nt_contexts t \<and> \<not> nt_server_applied t'"
    using assms(1,2) by (auto simp: ApplyServerTrophies_def Let_def split: if_splits prod.splits dest!: apply_fold_handler)
  then have "fst (context_of ctx t') = (user_id, label)" using assms(3) by (simp add: context_of_def at_or_def)
  then obtain t2 where ctx: "context_of ctx t' = ((user_id, label), t2)" by (cases "context_of ctx t'") simp
  obtain r ts where time: "trophy_time tc ctx hnd trophy_id c1 = (r, ts)" by fastforce
  show ?thesis using keep assms(4) by (simp add: sceNpTrophyUnlockTrophy_def Let_def ctx time)
qed

definition demo_console :: "unit TrophyConsole" where
  "demo_console = \<lparr>tc_create = (\<lambda>u l o' c. (0, 1, c)), tc_destroy = (\<lambda>x c. (0, c)), tc_register = (\<lambda>x h o' c. (0, c)),
     tc_unlock = (\<lambda>x h k p c. (0, p, c)), tc_unlock_state = (\<lambda>x h c. (0, [0, 0, 0, 0], 0)),
     tc_trophy_info = (\<lambda>x h k c. (if k = 3 then -1 else 0, UNIX_EPOCH_TICKS)), tc_create_handle = (\<lambda>c. (0, 1, c)), tc_destroy_handle = (\<lambda>h c. c)\<rparr>"

definition demo_trophy :: NpTrophy where
  "demo_trophy = \<lparr>nt_contexts = [(1, (7, 0))], nt_server_applied = False\<rparr>"

lemma server_trophies_not_echoed_witness:
  "fst (snd (snd (ApplyServerTrophies demo_cfg demo_console 1 [(5, 0)] demo_trophy init_handler ()))) = init_handler"
proof -
  obtain n t' h' c' where a: "ApplyServerTrophies demo_cfg demo_console 1 [(5, 0)] demo_trophy init_handler () = (n, t', h', c')"
    by (cases "ApplyServerTrophies demo_cfg demo_console 1 [(5, 0)] demo_trophy init_handler ()")
  have "tc_unlock demo_console 1 1 2 (-1) c' = (0, -1, ())" by (simp add: demo_console_def)
  moreover have "\<not> nt_server_applied demo_trophy" "map_of (nt_contexts demo_trophy) 1 = Some (7, 0)"
    by (simp_all add: demo_trophy_def)
  ultimately show ?thesis using server_trophies_not_echoed [OF a] a by fastforce
qed

text \<open>
  The code a game gets for unlocking a trophy is not that of unlocking it: when the console unlocks
  the trophy and then fails to tell its time, the game is told the failure.
\<close>

theorem unlock_returns_info_error:
  assumes "tc_unlock tc ctx hnd trophy_id plat0 c = (0, plat, c1)" and "\<not> nt_server_applied t"
    and "tc_trophy_info tc ctx hnd trophy_id c1 = (err, ts)"
  shows "fst (sceNpTrophyUnlockTrophy cfg tc ctx hnd trophy_id plat0 t h c) = err"
  using assms by (simp add: sceNpTrophyUnlockTrophy_def trophy_time_def context_of_def Let_def split: prod.split)

end
