(* ===== verification/NpScore.thy ===== *)
theory NpScore
  imports HandlerScore RequestTable
begin

text \<open>
  The score library a game calls (np_score.cpp): title contexts, requests, and the calls that hand a
  request to the handler. Title contexts and requests are two maps behind one mutex; the contents
  of a request are its context in the handler's store. A call locks, looks its request up, begins
  an operation on it and sends; it is one step of the model. A call that waits answers \<open>WaitFor\<close>.
  Arrays of the game that a call clears are in the memory of the handler's state; arrays that it
  reads are passed as their contents.
\<close>

section \<open>State\<close>

record ScoreTitleCtx =
  st_service_label :: u32
  st_user_id :: s32
  st_pc_id :: s32

record NpScore =
  ns_title_ctxs :: "(s32 \<times> ScoreTitleCtx) list"
  ns_requests :: "(s32 \<times> addr) list"
  ns_next_ctx_id :: s32
  ns_next_req_id :: s32
  ns_firmware_version :: s32

definition init_score :: NpScore where
  "init_score = \<lparr>ns_title_ctxs = [], ns_requests = [], ns_next_ctx_id = 1, ns_next_req_id = 1, ns_firmware_version = -1\<rparr>"

definition ORBIS_NP_SCORE_MAX_CTX_NUM :: nat where [simp]: "ORBIS_NP_SCORE_MAX_CTX_NUM = 32"
definition ORBIS_NP_SCORE_COMMENT_MAXLEN :: nat where [simp]: "ORBIS_NP_SCORE_COMMENT_MAXLEN = 63"
definition ORBIS_NP_SCORE_GAMEINFO_MAXSIZE :: u64 where [simp]: "ORBIS_NP_SCORE_GAMEINFO_MAXSIZE = 189"
definition ORBIS_NP_SCORE_CENSOR_COMMENT_MAXLEN :: nat where [simp]: "ORBIS_NP_SCORE_CENSOR_COMMENT_MAXLEN = 255"
definition ORBIS_NP_SCORE_SANITIZE_COMMENT_MAXLEN :: nat where [simp]: "ORBIS_NP_SCORE_SANITIZE_COMMENT_MAXLEN = 255"
definition ORBIS_NP_SCORE_MAX_RANGE_NUM_PER_REQUEST :: u64 where [simp]: "ORBIS_NP_SCORE_MAX_RANGE_NUM_PER_REQUEST = 100"
definition ORBIS_NP_SCORE_MAX_ID_NUM_PER_REQUEST :: u64 where [simp]: "ORBIS_NP_SCORE_MAX_ID_NUM_PER_REQUEST = 101"
definition ORBIS_NP_SCORE_MAX_NPID_NUM_PER_REQUEST :: u64 where [simp]: "ORBIS_NP_SCORE_MAX_NPID_NUM_PER_REQUEST = 101"
definition FW_250 :: s32 where [simp]: "FW_250 = 0x2500000"

definition LookupTitleCtxUnlocked :: "s32 \<Rightarrow> NpScore \<Rightarrow> ScoreTitleCtx option" where
  "LookupTitleCtxUnlocked i n = map_of (ns_title_ctxs n) i"

definition LookupRequestUnlocked :: "s32 \<Rightarrow> NpScore \<Rightarrow> addr option" where
  "LookupRequestUnlocked i n = map_of (ns_requests n) i"

definition ServiceLabelForRequest :: "ScoreRequestCtx \<Rightarrow> NpScore \<Rightarrow> s32" where
  "ServiceLabelForRequest req n =
     (case LookupTitleCtxUnlocked (sc_title_ctx_id req) n of
        None \<Rightarrow> 0
      | Some tc \<Rightarrow> to_s32 (uint (st_service_label tc)))"

section \<open>Title contexts\<close>

definition add_title_ctx :: "u32 \<Rightarrow> s32 \<Rightarrow> NpScore \<Rightarrow> s32 \<times> NpScore" where
  "add_title_ctx service_label user_id n =
     (let i = ns_next_ctx_id n
      in (i, n\<lparr>ns_next_ctx_id := to_s32 (i + 1),
               ns_title_ctxs := omap_put i \<lparr>st_service_label = service_label, st_user_id = user_id, st_pc_id = 0\<rparr>
                                  (ns_title_ctxs n)\<rparr>))"

definition sceNpScoreCreateNpTitleCtx :: "u32 \<Rightarrow> OrbisNpId option \<Rightarrow> NpHandler \<Rightarrow> NpScore \<Rightarrow> s32 \<times> NpScore" where
  "sceNpScoreCreateNpTitleCtx service_label self_np_id h n =
     (if service_label = ORBIS_NP_INVALID_SERVICE_LABEL then (ORBIS_NP_COMMUNITY_ERROR_INVALID_ARGUMENT, n)
      else case self_np_id of
        None \<Rightarrow> (ORBIS_NP_COMMUNITY_ERROR_INSUFFICIENT_ARGUMENT, n)
      | Some np_id \<Rightarrow>
          if length (ns_title_ctxs n) \<ge> ORBIS_NP_SCORE_MAX_CTX_NUM then (ORBIS_NP_COMMUNITY_ERROR_TOO_MANY_OBJECTS, n)
          else add_title_ctx service_label (GetUserIdByOnlineId (handle np_id) h) n)"

definition sceNpScoreCreateNpTitleCtxA :: "u32 \<Rightarrow> s32 \<Rightarrow> NpHandler \<Rightarrow> NpScore \<Rightarrow> s32 \<times> NpScore" where
  "sceNpScoreCreateNpTitleCtxA np_service_label self_id h n =
     (if \<not> IsSignedIn self_id h then (ORBIS_NP_ERROR_SIGNED_OUT, n)
      else if np_service_label = ORBIS_NP_INVALID_SERVICE_LABEL then (ORBIS_NP_COMMUNITY_ERROR_INVALID_ARGUMENT, n)
      else if length (ns_title_ctxs n) \<ge> ORBIS_NP_SCORE_MAX_CTX_NUM then (ORBIS_NP_COMMUNITY_ERROR_TOO_MANY_OBJECTS, n)
      else add_title_ctx np_service_label self_id n)"

definition title_of :: "addr \<Rightarrow> NpHandler \<Rightarrow> s32" where
  "title_of a h = (case hn_score_ctxs h a of None \<Rightarrow> 0 | Some c \<Rightarrow> sc_title_ctx_id c)"

text \<open>The requests of a deleted title context are aborted and go with it.\<close>

definition sceNpScoreDeleteNpTitleCtx :: "s32 \<Rightarrow> NpScore \<Rightarrow> NpHandler \<Rightarrow> s32 \<times> NpScore \<times> NpHandler" where
  "sceNpScoreDeleteNpTitleCtx title_ctx_id n h =
     (if LookupTitleCtxUnlocked title_ctx_id n = None then (ORBIS_NP_COMMUNITY_ERROR_INVALID_ID, n, h)
      else (ORBIS_OK,
            n\<lparr>ns_requests := filter (\<lambda>(_, a). title_of a h \<noteq> title_ctx_id) (ns_requests n),
              ns_title_ctxs := omap_erase title_ctx_id (ns_title_ctxs n)\<rparr>,
            fold (\<lambda>(_, a). score_set a ORBIS_NP_COMMUNITY_ERROR_ABORTED)
              (filter (\<lambda>(_, a). title_of a h = title_ctx_id) (ns_requests n)) h))"

section \<open>Requests\<close>

text \<open>The context of the new request is at the address \<open>a\<close>.\<close>

definition sceNpScoreCreateRequest :: "s32 \<Rightarrow> addr \<Rightarrow> NpScore \<Rightarrow> NpHandler \<Rightarrow> s32 \<times> NpScore \<times> NpHandler" where
  "sceNpScoreCreateRequest title_ctx_id a n h =
     (case LookupTitleCtxUnlocked title_ctx_id n of
        None \<Rightarrow> (ORBIS_NP_COMMUNITY_ERROR_INVALID_ID, n, h)
      | Some tc \<Rightarrow>
          if length (ns_requests n) \<ge> ORBIS_NP_SCORE_MAX_CTX_NUM then (ORBIS_NP_COMMUNITY_ERROR_TOO_MANY_OBJECTS, n, h)
          else let i = ns_next_req_id n
               in (i, n\<lparr>ns_next_req_id := to_s32 (i + 1), ns_requests := omap_put i a (ns_requests n)\<rparr>,
                   h\<lparr>hn_score_ctxs := (hn_score_ctxs h)(a \<mapsto> new_score_ctx\<lparr>sc_title_ctx_id := title_ctx_id,
                        sc_user_id := st_user_id tc, sc_pc_id := st_pc_id tc\<rparr>)\<rparr>))"

definition sceNpScoreDeleteRequest :: "s32 \<Rightarrow> NpScore \<Rightarrow> NpHandler \<Rightarrow> s32 \<times> NpScore \<times> NpHandler" where
  "sceNpScoreDeleteRequest req_id n h =
     (case LookupRequestUnlocked req_id n of
        None \<Rightarrow> (ORBIS_NP_COMMUNITY_ERROR_INVALID_ID, n, h)
      | Some a \<Rightarrow> (ORBIS_OK, n\<lparr>ns_requests := omap_erase req_id (ns_requests n)\<rparr>,
                   score_set a ORBIS_NP_COMMUNITY_ERROR_ABORTED h))"

definition sceNpScoreAbortRequest :: "s32 \<Rightarrow> NpScore \<Rightarrow> NpHandler \<Rightarrow> s32 \<times> NpHandler" where
  "sceNpScoreAbortRequest req_id n h =
     (case LookupRequestUnlocked req_id n of
        None \<Rightarrow> (ORBIS_NP_COMMUNITY_ERROR_INVALID_ID, h)
      | Some a \<Rightarrow> (ORBIS_OK, score_set a ORBIS_NP_COMMUNITY_ERROR_ABORTED h))"

text \<open>What a thread that waits for the context gets, \<open>None\<close> while it blocks.\<close>

definition score_wait :: "addr \<Rightarrow> NpHandler \<Rightarrow> s32 option" where
  "score_wait a h = (case hn_score_ctxs h a of None \<Rightarrow> None | Some c \<Rightarrow> sc_result c)"

text \<open>The second component is what is written to the result pointer.\<close>

definition sceNpScorePollAsync :: "s32 \<Rightarrow> bool \<Rightarrow> NpScore \<Rightarrow> NpHandler \<Rightarrow> s32 \<times> s32 option" where
  "sceNpScorePollAsync req_id has_result n h =
     (case LookupRequestUnlocked req_id n of
        None \<Rightarrow> (ORBIS_NP_COMMUNITY_ERROR_INVALID_ID, None)
      | Some a \<Rightarrow> (case score_wait a h of
                     None \<Rightarrow> (1, None)
                   | Some r \<Rightarrow> (0, if has_result then Some r else None)))"

text \<open>Waiting returns 0 and the result of the context at the address, once it has one.\<close>

definition sceNpScoreWaitAsync :: "s32 \<Rightarrow> NpScore \<Rightarrow> s32 + addr" where
  "sceNpScoreWaitAsync req_id n =
     (case LookupRequestUnlocked req_id n of
        None \<Rightarrow> Inl ORBIS_NP_COMMUNITY_ERROR_INVALID_ID
      | Some a \<Rightarrow> Inr a)"

section \<open>Starting an operation\<close>

text \<open>
  The section that looks the request up and begins an operation, which every call has. A request in
  the table always has its context; an address without one is treated as an unknown request.
\<close>

definition begin_score_op :: "s32 \<Rightarrow> NpScore \<Rightarrow> NpHandler \<Rightarrow> s32 + (addr \<times> ScoreRequestCtx \<times> NpHandler)" where
  "begin_score_op req_id n h =
     (case LookupRequestUnlocked req_id n of
        None \<Rightarrow> Inl ORBIS_NP_COMMUNITY_ERROR_INVALID_ID
      | Some a \<Rightarrow>
          (case hn_score_ctxs h a of
             None \<Rightarrow> Inl ORBIS_NP_COMMUNITY_ERROR_INVALID_ID
           | Some c \<Rightarrow>
               (let (started, c') = BeginOp c
                in if \<not> started then Inl ORBIS_NP_COMMUNITY_ERROR_ABORTED
                   else Inr (a, c', h\<lparr>hn_score_ctxs := (hn_score_ctxs h)(a \<mapsto> c')\<rparr>))))"

text \<open>What a call does with the answer of the handler.\<close>

definition score_dispatch :: "bool \<Rightarrow> addr \<Rightarrow> s32 \<times> NpHandler \<Rightarrow> answer \<times> NpHandler" where
  "score_dispatch is_async a r =
     (case r of (dispatch_err, h) \<Rightarrow>
        if dispatch_err \<noteq> ORBIS_OK then (Answer dispatch_err, score_set a dispatch_err h)
        else (if is_async then Answer ORBIS_OK else WaitFor a, h))"

definition score_call ::
  "s32 \<Rightarrow> bool \<Rightarrow> (addr \<Rightarrow> ScoreRequestCtx \<Rightarrow> NpHandler \<Rightarrow> (s32 \<times> NpHandler) outcome) \<Rightarrow> NpScore \<Rightarrow> NpHandler \<Rightarrow>
   (answer \<times> NpHandler) outcome" where
  "score_call req_id is_async send n h =
     (case begin_score_op req_id n h of
        Inl err \<Rightarrow> Returned (Answer err, h)
      | Inr (a, c, h1) \<Rightarrow> bind_outcome (send a c h1) (\<lambda>r. Returned (score_dispatch is_async a r)))"

definition upd_score :: "addr \<Rightarrow> (ScoreRequestCtx \<Rightarrow> ScoreRequestCtx) \<Rightarrow> NpHandler \<Rightarrow> NpHandler" where
  "upd_score a f h = h\<lparr>hn_score_ctxs := at_addr f a (hn_score_ctxs h)\<rparr>"

section \<open>Recording a score\<close>

text \<open>\<open>score_comment\<close> is the array of 64 characters, \<open>has_tmp_rank\<close> says whether the rank is asked for.\<close>

definition record_score_call ::
  "HandlerConfig \<Rightarrow> s32 \<Rightarrow> u32 \<Rightarrow> s64 \<Rightarrow> bytes option \<Rightarrow> OrbisNpScoreGameInfo option \<Rightarrow> bool \<Rightarrow> u64 option \<Rightarrow> bool \<Rightarrow>
   bool \<Rightarrow> NpScore \<Rightarrow> NpHandler \<Rightarrow> (answer \<times> NpHandler) outcome" where
  "record_score_call cfg req_id board_id score score_comment game_info has_tmp_rank compare_date has_option is_async n h =
     (if has_option then Returned (Answer ORBIS_NP_COMMUNITY_ERROR_INVALID_ARGUMENT, h)
      else if (case game_info of None \<Rightarrow> False | Some g \<Rightarrow> gi_info_size g > ORBIS_NP_SCORE_GAMEINFO_MAXSIZE)
      then Returned (Answer ORBIS_NP_COMMUNITY_ERROR_INVALID_ARGUMENT, h)
      else score_call req_id is_async
             (\<lambda>a c h1. Returned (RecordScore cfg (sc_user_id c) (ServiceLabelForRequest c n) board_id (sc_pc_id c) score
                (map_option (\<lambda>s. takeWhile (\<lambda>b. b \<noteq> 0) (take ORBIS_NP_SCORE_COMMENT_MAXLEN s)) score_comment)
                (map_option (\<lambda>g. take (unat (gi_info_size g)) (gi_data g)) game_info)
                (case compare_date of None \<Rightarrow> 0 | Some tick \<Rightarrow> tick) (Some a)
                (upd_score a (\<lambda>c. c\<lparr>sc_has_tmp_rank := has_tmp_rank, sc_tmp_rank := None\<rparr>) h1)))
             n h)"

definition sceNpScoreRecordScore ::
  "HandlerConfig \<Rightarrow> s32 \<Rightarrow> u32 \<Rightarrow> s64 \<Rightarrow> bytes option \<Rightarrow> OrbisNpScoreGameInfo option \<Rightarrow> bool \<Rightarrow> u64 option \<Rightarrow> bool \<Rightarrow>
   NpScore \<Rightarrow> NpHandler \<Rightarrow> (answer \<times> NpHandler) outcome" where
  "sceNpScoreRecordScore cfg req_id board_id score score_comment game_info has_tmp_rank compare_date has_option =
     record_score_call cfg req_id board_id score score_comment game_info has_tmp_rank compare_date has_option False"

definition sceNpScoreRecordScoreAsync ::
  "HandlerConfig \<Rightarrow> s32 \<Rightarrow> u32 \<Rightarrow> s64 \<Rightarrow> bytes option \<Rightarrow> OrbisNpScoreGameInfo option \<Rightarrow> bool \<Rightarrow> u64 option \<Rightarrow> bool \<Rightarrow>
   NpScore \<Rightarrow> NpHandler \<Rightarrow> (answer \<times> NpHandler) outcome" where
  "sceNpScoreRecordScoreAsync cfg req_id board_id score score_comment game_info has_tmp_rank compare_date has_option =
     record_score_call cfg req_id board_id score score_comment game_info has_tmp_rank compare_date has_option True"

section \<open>Rankings\<close>

text \<open>The arrays of a ranking call with the sizes in bytes that the game gives for them.\<close>

record RankArgs = RankOut +
  rk_rank_array_size :: u64
  rk_comment_array_size :: u64
  rk_info_array_size :: u64
  rk_array_num :: u64

text \<open>\<open>memset\<close> of the first \<open>k\<close> elements of an array.\<close>

definition zero_out :: "nat \<Rightarrow> 'a \<Rightarrow> addr option \<Rightarrow> (addr \<rightharpoonup> 'a list) \<Rightarrow> (addr \<rightharpoonup> 'a list) outcome" where
  "zero_out k z p m =
     (if k = 0 then Returned m
      else case p of
        None \<Rightarrow> OutOfBounds
      | Some a \<Rightarrow>
          (case m a of
             None \<Rightarrow> OutOfBounds
           | Some xs \<Rightarrow> if k \<le> length xs then Returned (m(a \<mapsto> replicate k z @ drop k xs)) else OutOfBounds))"

definition zero_rank_data :: OrbisNpScoreRankData where
  "zero_rank_data = \<lparr>rd_np_id = zero_np_id, rd_pc_id = 0, rd_serial_rank = 0, rd_rank = 0, rd_highest_rank = 0,
     rd_has_game_data = 0, rd_score_value = 0, rd_record_date = 0\<rparr>"

definition zero_rank_data_a :: OrbisNpScoreRankDataA where
  "zero_rank_data_a = \<lparr>ra_online_id = zero_online_id, ra_pc_id = 0, ra_serial_rank = 0, ra_rank = 0, ra_highest_rank = 0,
     ra_has_game_data = 0, ra_score_value = 0, ra_record_date = 0, ra_account_id = 0\<rparr>"

definition zero_ranks :: "RankArgs \<Rightarrow> addr option \<Rightarrow> GameMem \<Rightarrow> GameMem outcome" where
  "zero_ranks g p m = bind_outcome (zero_out (unat (rk_array_num g)) zero_rank_data p (gm_rank m))
     (\<lambda>x. Returned (m\<lparr>gm_rank := x\<rparr>))"

definition zero_ranks_a :: "RankArgs \<Rightarrow> addr option \<Rightarrow> GameMem \<Rightarrow> GameMem outcome" where
  "zero_ranks_a g p m = bind_outcome (zero_out (unat (rk_array_num g)) zero_rank_data_a p (gm_rank_a m))
     (\<lambda>x. Returned (m\<lparr>gm_rank_a := x\<rparr>))"

definition zero_players :: "RankArgs \<Rightarrow> addr option \<Rightarrow> GameMem \<Rightarrow> GameMem outcome" where
  "zero_players g p m =
     bind_outcome (zero_out (unat (rk_array_num g)) \<lparr>pd_has_data = 0, pd_rank_data = zero_rank_data\<rparr> p (gm_player m))
       (\<lambda>x. Returned (m\<lparr>gm_player := x\<rparr>))"

definition zero_players_a :: "RankArgs \<Rightarrow> addr option \<Rightarrow> GameMem \<Rightarrow> GameMem outcome" where
  "zero_players_a g p m =
     bind_outcome (zero_out (unat (rk_array_num g)) \<lparr>pa_has_data = 0, pa_rank_data = zero_rank_data_a\<rparr> p (gm_player_a m))
       (\<lambda>x. Returned (m\<lparr>gm_player_a := x\<rparr>))"

text \<open>The optional arrays: \<open>False\<close> when a size is wrong, which is found after the earlier arrays were cleared.\<close>

definition zero_comments :: "RankArgs \<Rightarrow> GameMem \<Rightarrow> (bool \<times> GameMem) outcome" where
  "zero_comments g m =
     (if ro_comment_array g = None then Returned (True, m)
      else if rk_comment_array_size g \<noteq> rk_array_num g * 64 then Returned (False, m)
      else bind_outcome (zero_out (unat (rk_array_num g)) (replicate 64 0) (ro_comment_array g) (gm_comment m))
             (\<lambda>x. Returned (True, m\<lparr>gm_comment := x\<rparr>)))"

definition zero_infos :: "RankArgs \<Rightarrow> GameMem \<Rightarrow> (bool \<times> GameMem) outcome" where
  "zero_infos g m =
     (if ro_info_array g = None then Returned (True, m)
      else if rk_info_array_size g \<noteq> rk_array_num g * 200 then Returned (False, m)
      else bind_outcome (zero_out (unat (rk_array_num g)) \<lparr>gi_info_size = 0, gi_data = replicate 189 0\<rparr> (ro_info_array g) (gm_info m))
             (\<lambda>x. Returned (True, m\<lparr>gm_info := x\<rparr>)))"

definition clear_extras :: "RankArgs \<Rightarrow> GameMem \<Rightarrow> (bool \<times> GameMem) outcome" where
  "clear_extras g m =
     bind_outcome (zero_comments g m) (\<lambda>(sized, m1). if sized then zero_infos g m1 else Returned (False, m1))"

text \<open>What the ranking calls do once their own arguments are checked.\<close>

definition ranking_call ::
  "(GameMem \<Rightarrow> GameMem outcome) \<Rightarrow> RankArgs \<Rightarrow> s32 \<Rightarrow> bool \<Rightarrow>
   (addr \<Rightarrow> ScoreRequestCtx \<Rightarrow> NpHandler \<Rightarrow> (s32 \<times> NpHandler) outcome) \<Rightarrow> NpScore \<Rightarrow> NpHandler \<Rightarrow>
   (answer \<times> NpHandler) outcome" where
  "ranking_call zero g req_id is_async send n h =
     bind_outcome (zero (hn_mem h)) (\<lambda>m1. bind_outcome (clear_extras g m1) (\<lambda>(sized, m2).
       if \<not> sized then Returned (Answer ORBIS_NP_COMMUNITY_ERROR_INVALID_ALIGNMENT, h\<lparr>hn_mem := m2\<rparr>)
       else score_call req_id is_async send n (h\<lparr>hn_mem := m2\<rparr>)))"

definition reject :: "s32 \<Rightarrow> NpHandler \<Rightarrow> (answer \<times> NpHandler) outcome" where
  "reject err h = Returned (Answer err, h)"

text \<open>Reading an array of the game, of which the game passes the length.\<close>

definition read_array :: "u64 \<Rightarrow> 'a list \<Rightarrow> ('a list \<Rightarrow> 'b outcome) \<Rightarrow> 'b outcome" where
  "read_array k xs f = (if unat k \<le> length xs then f (take (unat k) xs) else OutOfBounds)"

definition GetRankingByRangeImpl ::
  "HandlerConfig \<Rightarrow> s32 \<Rightarrow> u32 \<Rightarrow> u32 \<Rightarrow> addr option \<Rightarrow> addr option \<Rightarrow> RankArgs \<Rightarrow> bool \<Rightarrow> bool \<Rightarrow> NpScore \<Rightarrow> NpHandler \<Rightarrow>
   (answer \<times> NpHandler) outcome" where
  "GetRankingByRangeImpl cfg req_id board_id start_serial_rank rank_array a_rank_array g has_option is_async n h =
     (if has_option then reject ORBIS_NP_COMMUNITY_ERROR_INVALID_ARGUMENT h
      else if rk_array_num g > ORBIS_NP_SCORE_MAX_RANGE_NUM_PER_REQUEST then reject ORBIS_NP_COMMUNITY_ERROR_INVALID_ARGUMENT h
      else if start_serial_rank = 0 then reject ORBIS_NP_COMMUNITY_ERROR_INVALID_ARGUMENT h
      else if (a_rank_array \<noteq> None) = (rank_array \<noteq> None) then reject ORBIS_NP_COMMUNITY_ERROR_INSUFFICIENT_ARGUMENT h
      else if rk_array_num g = 0 then reject ORBIS_NP_COMMUNITY_ERROR_INSUFFICIENT_ARGUMENT h
      else if rk_rank_array_size g \<noteq> rk_array_num g * (if a_rank_array \<noteq> None then 144 else 128)
      then reject ORBIS_NP_COMMUNITY_ERROR_INVALID_ALIGNMENT h
      else ranking_call (if a_rank_array \<noteq> None then zero_ranks_a g a_rank_array else zero_ranks g rank_array) g req_id is_async
             (\<lambda>a c h1. Returned
                (if a_rank_array \<noteq> None
                 then GetRankingByRangeA cfg (sc_user_id c) (ServiceLabelForRequest c n) board_id start_serial_rank
                        (ucast (rk_array_num g)) a_rank_array (RankOut.truncate g) (Some a) h1
                 else GetRankingByRange cfg (sc_user_id c) (ServiceLabelForRequest c n) board_id start_serial_rank
                        (ucast (rk_array_num g)) rank_array (RankOut.truncate g) (Some a) h1))
             n h)"

definition sceNpScoreGetRankingByRange ::
  "HandlerConfig \<Rightarrow> s32 \<Rightarrow> u32 \<Rightarrow> u32 \<Rightarrow> addr option \<Rightarrow> RankArgs \<Rightarrow> bool \<Rightarrow> NpScore \<Rightarrow> NpHandler \<Rightarrow> (answer \<times> NpHandler) outcome" where
  "sceNpScoreGetRankingByRange cfg req_id board_id start_serial_rank rank_array g has_option =
     GetRankingByRangeImpl cfg req_id board_id start_serial_rank rank_array None g has_option False"

definition sceNpScoreGetRankingByRangeAsync ::
  "HandlerConfig \<Rightarrow> s32 \<Rightarrow> u32 \<Rightarrow> u32 \<Rightarrow> addr option \<Rightarrow> RankArgs \<Rightarrow> bool \<Rightarrow> NpScore \<Rightarrow> NpHandler \<Rightarrow> (answer \<times> NpHandler) outcome" where
  "sceNpScoreGetRankingByRangeAsync cfg req_id board_id start_serial_rank rank_array g has_option =
     GetRankingByRangeImpl cfg req_id board_id start_serial_rank rank_array None g has_option True"

definition sceNpScoreGetRankingByRangeA ::
  "HandlerConfig \<Rightarrow> s32 \<Rightarrow> u32 \<Rightarrow> u32 \<Rightarrow> addr option \<Rightarrow> RankArgs \<Rightarrow> bool \<Rightarrow> NpScore \<Rightarrow> NpHandler \<Rightarrow> (answer \<times> NpHandler) outcome" where
  "sceNpScoreGetRankingByRangeA cfg req_id board_id start_serial_rank rank_array g has_option =
     GetRankingByRangeImpl cfg req_id board_id start_serial_rank None rank_array g has_option False"

definition sceNpScoreGetRankingByRangeAAsync ::
  "HandlerConfig \<Rightarrow> s32 \<Rightarrow> u32 \<Rightarrow> u32 \<Rightarrow> addr option \<Rightarrow> RankArgs \<Rightarrow> bool \<Rightarrow> NpScore \<Rightarrow> NpHandler \<Rightarrow> (answer \<times> NpHandler) outcome" where
  "sceNpScoreGetRankingByRangeAAsync cfg req_id board_id start_serial_rank rank_array g has_option =
     GetRankingByRangeImpl cfg req_id board_id start_serial_rank None rank_array g has_option True"

text \<open>Np ids come as the array at the pointer, \<open>None\<close> when it is null.\<close>

definition GetRankingByNpIdImpl ::
  "HandlerConfig \<Rightarrow> s32 \<Rightarrow> u32 \<Rightarrow> OrbisNpId list option \<Rightarrow> u64 \<Rightarrow> addr option \<Rightarrow> RankArgs \<Rightarrow> bool \<Rightarrow> bool \<Rightarrow> NpScore \<Rightarrow>
   NpHandler \<Rightarrow> (answer \<times> NpHandler) outcome" where
  "GetRankingByNpIdImpl cfg req_id board_id np_id_array np_id_array_size rank_array g has_option is_async n h =
     (if has_option then reject ORBIS_NP_COMMUNITY_ERROR_INVALID_ARGUMENT h
      else if rk_array_num g > ORBIS_NP_SCORE_MAX_NPID_NUM_PER_REQUEST then reject ORBIS_NP_COMMUNITY_ERROR_TOO_MANY_NPID h
      else case np_id_array of
        None \<Rightarrow> reject ORBIS_NP_COMMUNITY_ERROR_INSUFFICIENT_ARGUMENT h
      | Some ids \<Rightarrow>
          if rank_array = None then reject ORBIS_NP_COMMUNITY_ERROR_INSUFFICIENT_ARGUMENT h
          else if np_id_array_size \<noteq> rk_array_num g * 36 \<or> rk_rank_array_size g \<noteq> rk_array_num g * 136
          then reject ORBIS_NP_COMMUNITY_ERROR_INVALID_ALIGNMENT h
          else ranking_call (zero_players g rank_array) g req_id is_async
                 (\<lambda>a c h1. read_array (rk_array_num g) ids (\<lambda>xs. Returned
                    (GetRankingByNpId cfg (sc_user_id c) (ServiceLabelForRequest c n) board_id (map OnlineIdFromNpId xs) []
                       rank_array (RankOut.truncate g) (Some a) h1)))
                 n h)"

definition sceNpScoreGetRankingByNpId ::
  "HandlerConfig \<Rightarrow> s32 \<Rightarrow> u32 \<Rightarrow> OrbisNpId list option \<Rightarrow> u64 \<Rightarrow> addr option \<Rightarrow> RankArgs \<Rightarrow> bool \<Rightarrow> NpScore \<Rightarrow> NpHandler \<Rightarrow>
   (answer \<times> NpHandler) outcome" where
  "sceNpScoreGetRankingByNpId cfg req_id board_id np_id_array np_id_array_size rank_array g has_option =
     GetRankingByNpIdImpl cfg req_id board_id np_id_array np_id_array_size rank_array g has_option False"

definition sceNpScoreGetRankingByNpIdAsync ::
  "HandlerConfig \<Rightarrow> s32 \<Rightarrow> u32 \<Rightarrow> OrbisNpId list option \<Rightarrow> u64 \<Rightarrow> addr option \<Rightarrow> RankArgs \<Rightarrow> bool \<Rightarrow> NpScore \<Rightarrow> NpHandler \<Rightarrow>
   (answer \<times> NpHandler) outcome" where
  "sceNpScoreGetRankingByNpIdAsync cfg req_id board_id np_id_array np_id_array_size rank_array g has_option =
     GetRankingByNpIdImpl cfg req_id board_id np_id_array np_id_array_size rank_array g has_option True"

definition GetRankingByAccountIdImpl ::
  "HandlerConfig \<Rightarrow> s32 \<Rightarrow> u32 \<Rightarrow> u64 list option \<Rightarrow> u64 \<Rightarrow> addr option \<Rightarrow> RankArgs \<Rightarrow> bool \<Rightarrow> bool \<Rightarrow> NpScore \<Rightarrow>
   NpHandler \<Rightarrow> (answer \<times> NpHandler) outcome" where
  "GetRankingByAccountIdImpl cfg req_id board_id account_id_array account_id_array_size rank_array g has_option is_async n h =
     (if has_option then reject ORBIS_NP_COMMUNITY_ERROR_INVALID_ARGUMENT h
      else if rk_array_num g > ORBIS_NP_SCORE_MAX_ID_NUM_PER_REQUEST then reject ORBIS_NP_COMMUNITY_ERROR_TOO_MANY_NPID h
      else case account_id_array of
        None \<Rightarrow> reject ORBIS_NP_COMMUNITY_ERROR_INSUFFICIENT_ARGUMENT h
      | Some ids \<Rightarrow>
          if rk_array_num g = 0 \<or> rank_array = None then reject ORBIS_NP_COMMUNITY_ERROR_INSUFFICIENT_ARGUMENT h
          else if account_id_array_size \<noteq> rk_array_num g * 8 then reject ORBIS_NP_COMMUNITY_ERROR_INVALID_ALIGNMENT h
          else if rk_rank_array_size g \<noteq> rk_array_num g * 152 then reject ORBIS_NP_COMMUNITY_ERROR_INVALID_ALIGNMENT h
          else ranking_call (zero_players_a g rank_array) g req_id is_async
                 (\<lambda>a c h1. read_array (rk_array_num g) ids (\<lambda>xs. Returned
                    (GetRankingByAccountId cfg (sc_user_id c) (ServiceLabelForRequest c n) board_id xs []
                       rank_array (RankOut.truncate g) (Some a) h1)))
                 n h)"

definition sceNpScoreGetRankingByAccountId ::
  "HandlerConfig \<Rightarrow> s32 \<Rightarrow> u32 \<Rightarrow> u64 list option \<Rightarrow> u64 \<Rightarrow> addr option \<Rightarrow> RankArgs \<Rightarrow> bool \<Rightarrow> NpScore \<Rightarrow> NpHandler \<Rightarrow>
   (answer \<times> NpHandler) outcome" where
  "sceNpScoreGetRankingByAccountId cfg req_id board_id account_id_array account_id_array_size rank_array g has_option =
     GetRankingByAccountIdImpl cfg req_id board_id account_id_array account_id_array_size rank_array g has_option False"

definition sceNpScoreGetRankingByAccountIdAsync ::
  "HandlerConfig \<Rightarrow> s32 \<Rightarrow> u32 \<Rightarrow> u64 list option \<Rightarrow> u64 \<Rightarrow> addr option \<Rightarrow> RankArgs \<Rightarrow> bool \<Rightarrow> NpScore \<Rightarrow> NpHandler \<Rightarrow>
   (answer \<times> NpHandler) outcome" where
  "sceNpScoreGetRankingByAccountIdAsync cfg req_id board_id account_id_array account_id_array_size rank_array g has_option =
     GetRankingByAccountIdImpl cfg req_id board_id account_id_array account_id_array_size rank_array g has_option True"

text \<open>The option of the friends ranking: its size, and the rank its pointer leads to, if it is not null.\<close>

record OrbisNpScoreGetFriendRankingOptParam =
  fo_size :: u64
  fo_start_serial_rank :: "u32 option"

definition GetFriendsRankingImpl ::
  "HandlerConfig \<Rightarrow> s32 \<Rightarrow> u32 \<Rightarrow> s32 \<Rightarrow> addr option \<Rightarrow> addr option \<Rightarrow> RankArgs \<Rightarrow>
   OrbisNpScoreGetFriendRankingOptParam option \<Rightarrow> bool \<Rightarrow> NpScore \<Rightarrow> NpHandler \<Rightarrow> (answer \<times> NpHandler) outcome" where
  "GetFriendsRankingImpl cfg req_id board_id include_self rank_array a_rank_array g opt_param is_async n h =
     (let start_serial_rank = (case opt_param of None \<Rightarrow> 1 | Some p \<Rightarrow>
            (if include_self = 0 then 1 else case fo_start_serial_rank p of None \<Rightarrow> 1 | Some r \<Rightarrow> r))
      in if (a_rank_array \<noteq> None) = (rank_array \<noteq> None) then reject ORBIS_NP_COMMUNITY_ERROR_INSUFFICIENT_ARGUMENT h
      else if rk_rank_array_size g \<noteq> rk_array_num g * (if a_rank_array \<noteq> None then 144 else 128)
      then reject ORBIS_NP_COMMUNITY_ERROR_INVALID_ALIGNMENT h
      else if (case opt_param of None \<Rightarrow> False | Some p \<Rightarrow> include_self = 0 \<or> fo_size p \<noteq> 24)
      then reject ORBIS_NP_COMMUNITY_ERROR_INVALID_ARGUMENT h
      else if rk_array_num g > ORBIS_NP_SCORE_MAX_RANGE_NUM_PER_REQUEST then reject ORBIS_NP_COMMUNITY_ERROR_INVALID_ARGUMENT h
      else if start_serial_rank = 0 then reject ORBIS_NP_COMMUNITY_ERROR_INVALID_ARGUMENT h
      else if rk_array_num g = 0 then reject ORBIS_NP_COMMUNITY_ERROR_INSUFFICIENT_ARGUMENT h
      else ranking_call (if a_rank_array \<noteq> None then zero_ranks_a g a_rank_array else zero_ranks g rank_array) g req_id is_async
             (\<lambda>a c h1. Returned
                (if a_rank_array \<noteq> None
                 then GetFriendsRankingA cfg (sc_user_id c) (ServiceLabelForRequest c n) board_id (include_self \<noteq> 0)
                        start_serial_rank (ucast (rk_array_num g)) a_rank_array (RankOut.truncate g) (Some a) h1
                 else GetFriendsRanking cfg (sc_user_id c) (ServiceLabelForRequest c n) board_id (include_self \<noteq> 0)
                        start_serial_rank (ucast (rk_array_num g)) rank_array (RankOut.truncate g) (Some a) h1))
             n h)"

definition sceNpScoreGetFriendsRanking ::
  "HandlerConfig \<Rightarrow> s32 \<Rightarrow> u32 \<Rightarrow> s32 \<Rightarrow> addr option \<Rightarrow> RankArgs \<Rightarrow> OrbisNpScoreGetFriendRankingOptParam option \<Rightarrow>
   NpScore \<Rightarrow> NpHandler \<Rightarrow> (answer \<times> NpHandler) outcome" where
  "sceNpScoreGetFriendsRanking cfg req_id board_id include_self rank_array g opt_param =
     GetFriendsRankingImpl cfg req_id board_id include_self rank_array None g opt_param False"

definition sceNpScoreGetFriendsRankingAsync ::
  "HandlerConfig \<Rightarrow> s32 \<Rightarrow> u32 \<Rightarrow> s32 \<Rightarrow> addr option \<Rightarrow> RankArgs \<Rightarrow> OrbisNpScoreGetFriendRankingOptParam option \<Rightarrow>
   NpScore \<Rightarrow> NpHandler \<Rightarrow> (answer \<times> NpHandler) outcome" where
  "sceNpScoreGetFriendsRankingAsync cfg req_id board_id include_self rank_array g opt_param =
     GetFriendsRankingImpl cfg req_id board_id include_self rank_array None g opt_param True"

definition sceNpScoreGetFriendsRankingA ::
  "HandlerConfig \<Rightarrow> s32 \<Rightarrow> u32 \<Rightarrow> s32 \<Rightarrow> addr option \<Rightarrow> RankArgs \<Rightarrow> OrbisNpScoreGetFriendRankingOptParam option \<Rightarrow>
   NpScore \<Rightarrow> NpHandler \<Rightarrow> (answer \<times> NpHandler) outcome" where
  "sceNpScoreGetFriendsRankingA cfg req_id board_id include_self rank_array g opt_param =
     GetFriendsRankingImpl cfg req_id board_id include_self None rank_array g opt_param False"

definition sceNpScoreGetFriendsRankingAAsync ::
  "HandlerConfig \<Rightarrow> s32 \<Rightarrow> u32 \<Rightarrow> s32 \<Rightarrow> addr option \<Rightarrow> RankArgs \<Rightarrow> OrbisNpScoreGetFriendRankingOptParam option \<Rightarrow>
   NpScore \<Rightarrow> NpHandler \<Rightarrow> (answer \<times> NpHandler) outcome" where
  "sceNpScoreGetFriendsRankingAAsync cfg req_id board_id include_self rank_array g opt_param =
     GetFriendsRankingImpl cfg req_id board_id include_self None rank_array g opt_param True"

text \<open>Players named by their id and their character.\<close>

record OrbisNpScoreNpIdPcId =
  ip_np_id :: OrbisNpId
  ip_pc_id :: s32

record OrbisNpScoreAccountIdPcId =
  ap_account_id :: u64
  ap_pc_id :: s32

definition GetRankingByNpIdPcIdImpl ::
  "HandlerConfig \<Rightarrow> s32 \<Rightarrow> u32 \<Rightarrow> OrbisNpScoreNpIdPcId list option \<Rightarrow> u64 \<Rightarrow> addr option \<Rightarrow> RankArgs \<Rightarrow> bool \<Rightarrow> bool \<Rightarrow> NpScore \<Rightarrow>
   NpHandler \<Rightarrow> (answer \<times> NpHandler) outcome" where
  "GetRankingByNpIdPcIdImpl cfg req_id board_id id_array id_array_size rank_array g has_option is_async n h =
     (if has_option then reject ORBIS_NP_COMMUNITY_ERROR_INVALID_ARGUMENT h
      else case id_array of
        None \<Rightarrow> reject ORBIS_NP_COMMUNITY_ERROR_INSUFFICIENT_ARGUMENT h
      | Some ids \<Rightarrow>
          if rk_array_num g = 0 \<or> rank_array = None then reject ORBIS_NP_COMMUNITY_ERROR_INSUFFICIENT_ARGUMENT h
          else if rk_array_num g > ORBIS_NP_SCORE_MAX_NPID_NUM_PER_REQUEST then reject ORBIS_NP_COMMUNITY_ERROR_TOO_MANY_NPID h
          else if id_array_size \<noteq> rk_array_num g * 44 \<or> rk_rank_array_size g \<noteq> rk_array_num g * 136
          then reject ORBIS_NP_COMMUNITY_ERROR_INVALID_ALIGNMENT h
          else ranking_call (zero_players g rank_array) g req_id is_async
                 (\<lambda>a c h1. read_array (rk_array_num g) ids (\<lambda>xs. Returned
                    (GetRankingByNpId cfg (sc_user_id c) (ServiceLabelForRequest c n) board_id
                       (map (\<lambda>x. OnlineIdFromNpId (ip_np_id x)) xs) (map ip_pc_id xs)
                       rank_array (RankOut.truncate g) (Some a) h1)))
                 n h)"

definition sceNpScoreGetRankingByNpIdPcId ::
  "HandlerConfig \<Rightarrow> s32 \<Rightarrow> u32 \<Rightarrow> OrbisNpScoreNpIdPcId list option \<Rightarrow> u64 \<Rightarrow> addr option \<Rightarrow> RankArgs \<Rightarrow> bool \<Rightarrow> NpScore \<Rightarrow>
   NpHandler \<Rightarrow> (answer \<times> NpHandler) outcome" where
  "sceNpScoreGetRankingByNpIdPcId cfg req_id board_id id_array id_array_size rank_array g has_option =
     GetRankingByNpIdPcIdImpl cfg req_id board_id id_array id_array_size rank_array g has_option False"

definition sceNpScoreGetRankingByNpIdPcIdAsync ::
  "HandlerConfig \<Rightarrow> s32 \<Rightarrow> u32 \<Rightarrow> OrbisNpScoreNpIdPcId list option \<Rightarrow> u64 \<Rightarrow> addr option \<Rightarrow> RankArgs \<Rightarrow> bool \<Rightarrow> NpScore \<Rightarrow>
   NpHandler \<Rightarrow> (answer \<times> NpHandler) outcome" where
  "sceNpScoreGetRankingByNpIdPcIdAsync cfg req_id board_id id_array id_array_size rank_array g has_option =
     GetRankingByNpIdPcIdImpl cfg req_id board_id id_array id_array_size rank_array g has_option True"

definition GetRankingByAccountIdPcIdImpl ::
  "HandlerConfig \<Rightarrow> s32 \<Rightarrow> u32 \<Rightarrow> OrbisNpScoreAccountIdPcId list option \<Rightarrow> u64 \<Rightarrow> addr option \<Rightarrow> RankArgs \<Rightarrow> bool \<Rightarrow> bool \<Rightarrow>
   NpScore \<Rightarrow> NpHandler \<Rightarrow> (answer \<times> NpHandler) outcome" where
  "GetRankingByAccountIdPcIdImpl cfg req_id board_id id_array id_array_size rank_array g has_option is_async n h =
     (if has_option then reject ORBIS_NP_COMMUNITY_ERROR_INVALID_ARGUMENT h
      else if rk_array_num g > ORBIS_NP_SCORE_MAX_ID_NUM_PER_REQUEST then reject ORBIS_NP_COMMUNITY_ERROR_TOO_MANY_NPID h
      else case id_array of
        None \<Rightarrow> reject ORBIS_NP_COMMUNITY_ERROR_INSUFFICIENT_ARGUMENT h
      | Some ids \<Rightarrow>
          if rk_array_num g = 0 \<or> rank_array = None then reject ORBIS_NP_COMMUNITY_ERROR_INSUFFICIENT_ARGUMENT h
          else if id_array_size \<noteq> rk_array_num g * 16 then reject ORBIS_NP_COMMUNITY_ERROR_INVALID_ALIGNMENT h
          else if rk_rank_array_size g \<noteq> rk_array_num g * 152 then reject ORBIS_NP_COMMUNITY_ERROR_INVALID_ALIGNMENT h
          else ranking_call (zero_players_a g rank_array) g req_id is_async
                 (\<lambda>a c h1. read_array (rk_array_num g) ids (\<lambda>xs. Returned
                    (GetRankingByAccountId cfg (sc_user_id c) (ServiceLabelForRequest c n) board_id
                       (map ap_account_id xs) (map ap_pc_id xs) rank_array (RankOut.truncate g) (Some a) h1)))
                 n h)"

definition sceNpScoreGetRankingByAccountIdPcId ::
  "HandlerConfig \<Rightarrow> s32 \<Rightarrow> u32 \<Rightarrow> OrbisNpScoreAccountIdPcId list option \<Rightarrow> u64 \<Rightarrow> addr option \<Rightarrow> RankArgs \<Rightarrow> bool \<Rightarrow> NpScore \<Rightarrow>
   NpHandler \<Rightarrow> (answer \<times> NpHandler) outcome" where
  "sceNpScoreGetRankingByAccountIdPcId cfg req_id board_id id_array id_array_size rank_array g has_option =
     GetRankingByAccountIdPcIdImpl cfg req_id board_id id_array id_array_size rank_array g has_option False"

definition sceNpScoreGetRankingByAccountIdPcIdAsync ::
  "HandlerConfig \<Rightarrow> s32 \<Rightarrow> u32 \<Rightarrow> OrbisNpScoreAccountIdPcId list option \<Rightarrow> u64 \<Rightarrow> addr option \<Rightarrow> RankArgs \<Rightarrow> bool \<Rightarrow> NpScore \<Rightarrow>
   NpHandler \<Rightarrow> (answer \<times> NpHandler) outcome" where
  "sceNpScoreGetRankingByAccountIdPcIdAsync cfg req_id board_id id_array id_array_size rank_array g has_option =
     GetRankingByAccountIdPcIdImpl cfg req_id board_id id_array id_array_size rank_array g has_option True"

end
