(* ===== verification/NpScoreData.thy ===== *)
theory NpScoreData
  imports NpScore HandlerScoreReply
begin

text \<open>
  The rest of the score library (np_score.cpp): board information, game data, which is read in pages
  from a cache and sent in chunks, comments, and the calls that do nothing.
\<close>

section \<open>Board information\<close>

definition zero_board :: OrbisNpScoreBoardInfo where
  "zero_board = \<lparr>bi_rank_limit = 0, bi_update_mode = 0, bi_sort_mode = 0, bi_upload_num_limit = 0, bi_upload_size_limit = 0\<rparr>"

definition GetBoardInfoImpl ::
  "HandlerConfig \<Rightarrow> s32 \<Rightarrow> u32 \<Rightarrow> addr option \<Rightarrow> bool \<Rightarrow> bool \<Rightarrow> NpScore \<Rightarrow> NpHandler \<Rightarrow> (answer \<times> NpHandler) outcome" where
  "GetBoardInfoImpl cfg req_id board_id board_info has_option is_async n h =
     (if has_option then reject ORBIS_NP_COMMUNITY_ERROR_INVALID_ARGUMENT h
      else if ns_firmware_version n \<ge> 0 \<and> ns_firmware_version n \<ge> FW_250 \<and> board_info = None
      then reject ORBIS_NP_COMMUNITY_ERROR_INSUFFICIENT_ARGUMENT h
      else case begin_score_op req_id n h of
        Inl err \<Rightarrow> reject err h
      | Inr (a, c, h1) \<Rightarrow>
          if board_info = None then Returned (Answer ORBIS_OK, score_set a ORBIS_OK h1)
          else bind_outcome (zero_out 1 zero_board board_info (gm_board (hn_mem h1))) (\<lambda>x. Returned (score_dispatch is_async a
                 (GetBoardInfo cfg (sc_user_id c) (ServiceLabelForRequest c n) board_id board_info (Some a)
                    (h1\<lparr>hn_mem := (hn_mem h1)\<lparr>gm_board := x\<rparr>\<rparr>)))))"

definition sceNpScoreGetBoardInfo ::
  "HandlerConfig \<Rightarrow> s32 \<Rightarrow> u32 \<Rightarrow> addr option \<Rightarrow> bool \<Rightarrow> NpScore \<Rightarrow> NpHandler \<Rightarrow> (answer \<times> NpHandler) outcome" where
  "sceNpScoreGetBoardInfo cfg req_id board_id board_info has_option =
     GetBoardInfoImpl cfg req_id board_id board_info has_option False"

definition sceNpScoreGetBoardInfoAsync ::
  "HandlerConfig \<Rightarrow> s32 \<Rightarrow> u32 \<Rightarrow> addr option \<Rightarrow> bool \<Rightarrow> NpScore \<Rightarrow> NpHandler \<Rightarrow> (answer \<times> NpHandler) outcome" where
  "sceNpScoreGetBoardInfoAsync cfg req_id board_id board_info has_option =
     GetBoardInfoImpl cfg req_id board_id board_info has_option True"

section \<open>Reading game data\<close>

text \<open>\<open>std::to_string\<close> of an unsigned number.\<close>

fun to_string :: "nat \<Rightarrow> bytes" where
  "to_string k = (if k < 10 then [of_nat (48 + k)] else to_string (k div 10) @ [of_nat (48 + k mod 10)])"

declare to_string.simps [simp del]

text \<open>\<open>:npid:\<close> and \<open>:acc:\<close>.\<close>

definition npid_key :: "u32 \<Rightarrow> bytes \<Rightarrow> bytes" where
  "npid_key board_id np_id = to_string (unat board_id) @ [58, 110, 112, 105, 100, 58] @ np_id"

definition acc_key :: "u32 \<Rightarrow> u64 \<Rightarrow> bytes" where
  "acc_key board_id account_id = to_string (unat board_id) @ [58, 97, 99, 99, 58] @ to_string (unat account_id)"

definition cache_start :: "ScoreRequestCtx \<Rightarrow> nat" where
  "cache_start req = min (unat (sc_game_data_recv_offset req)) (length (sc_game_data_recv_cache req))"

definition cache_page :: "ScoreRequestCtx \<Rightarrow> bool \<Rightarrow> u64 \<Rightarrow> bytes" where
  "cache_page req has_data recv_size =
     (if has_data then take (unat recv_size) (drop (cache_start req) (sc_game_data_recv_cache req)) else [])"

text \<open>A page that is not full is the last one.\<close>

definition turn_page :: "nat \<Rightarrow> u64 \<Rightarrow> ScoreRequestCtx \<Rightarrow> ScoreRequestCtx" where
  "turn_page k recv_size req =
     (if k < unat recv_size then req\<lparr>sc_game_data_recv_offset := 0, sc_game_data_recv_cache := []\<rparr>
      else req\<lparr>sc_game_data_recv_offset := of_nat (cache_start req + k)\<rparr>)"

text \<open>
  The next page out of the cache of the request, or \<open>None\<close> when the cache is of other data or is
  exhausted; then it is cleared for the blob that the server sends.
\<close>

definition ServeGameDataFromCache ::
  "addr \<Rightarrow> ScoreRequestCtx \<Rightarrow> bytes \<Rightarrow> addr option \<Rightarrow> u64 \<Rightarrow> addr option \<Rightarrow> bool \<Rightarrow> NpHandler \<Rightarrow> (s32 option \<times> NpHandler) outcome" where
  "ServeGameDataFromCache a req key total_size recv_size dat is_async h =
     (if sc_game_data_recv_offset req = 0 \<or> sc_game_data_recv_key req \<noteq> key then
        Returned (None, upd_score a (\<lambda>c. c\<lparr>sc_game_data_recv_offset := 0, sc_game_data_recv_cache := [],
                                          sc_game_data_recv_key := key\<rparr>) h)
      else
        let page = cache_page req (dat \<noteq> None) recv_size
        in bind_outcome (if page \<noteq> [] then copy_out dat page (hn_mem h) else Returned (hn_mem h)) (\<lambda>m1.
           bind_outcome (out_u64 total_size (of_nat (length (sc_game_data_recv_cache req))) m1) (\<lambda>m2.
             Returned (Some (if is_async then ORBIS_OK else to_s32 (int (length page))),
               score_set a (to_s32 (int (length page))) (upd_score a (turn_page (length page) recv_size) (h\<lparr>hn_mem := m2\<rparr>))))))"

text \<open>The cache first, then the server.\<close>

definition cached_or_fetched ::
  "addr \<Rightarrow> bool \<Rightarrow> (s32 option \<times> NpHandler) outcome \<Rightarrow> (NpHandler \<Rightarrow> s32 \<times> NpHandler) \<Rightarrow> (answer \<times> NpHandler) outcome" where
  "cached_or_fetched a is_async served fetch =
     bind_outcome served (\<lambda>(ret, h1). Returned
       (case ret of Some r \<Rightarrow> (Answer r, h1) | None \<Rightarrow> score_dispatch is_async a (fetch h1)))"

definition GetGameDataImpl ::
  "HandlerConfig \<Rightarrow> s32 \<Rightarrow> u32 \<Rightarrow> OrbisNpId option \<Rightarrow> addr option \<Rightarrow> u64 \<Rightarrow> addr option \<Rightarrow> bool \<Rightarrow> bool \<Rightarrow> NpScore \<Rightarrow>
   NpHandler \<Rightarrow> (answer \<times> NpHandler) outcome" where
  "GetGameDataImpl cfg req_id board_id np_id total_size recv_size dat has_option is_async n h =
     (case np_id of
        None \<Rightarrow> reject ORBIS_NP_COMMUNITY_ERROR_INSUFFICIENT_ARGUMENT h
      | Some np \<Rightarrow>
          if has_option then reject ORBIS_NP_COMMUNITY_ERROR_INVALID_ARGUMENT h
          else case begin_score_op req_id n h of
            Inl err \<Rightarrow> reject err h
          | Inr (a, c, h1) \<Rightarrow>
              let np_id_str = OnlineIdFromNpId np
              in if np_id_str = [] then
                   Returned (Answer ORBIS_NP_COMMUNITY_ERROR_INVALID_ARGUMENT,
                             score_set a ORBIS_NP_COMMUNITY_ERROR_INVALID_ARGUMENT h1)
                 else cached_or_fetched a is_async
                        (ServeGameDataFromCache a c (npid_key board_id np_id_str) total_size recv_size dat is_async h1)
                        (GetGameData cfg (sc_user_id c) (ServiceLabelForRequest c n) board_id np_id_str (sc_pc_id c)
                           dat recv_size total_size (Some a)))"

definition GetGameDataByAccountIdImpl ::
  "HandlerConfig \<Rightarrow> s32 \<Rightarrow> u32 \<Rightarrow> u64 \<Rightarrow> addr option \<Rightarrow> u64 \<Rightarrow> addr option \<Rightarrow> bool \<Rightarrow> bool \<Rightarrow> NpScore \<Rightarrow> NpHandler \<Rightarrow>
   (answer \<times> NpHandler) outcome" where
  "GetGameDataByAccountIdImpl cfg req_id board_id account_id total_size recv_size dat has_option is_async n h =
     (if has_option then reject ORBIS_NP_COMMUNITY_ERROR_INVALID_ARGUMENT h
      else if account_id = 0 then reject ORBIS_NP_COMMUNITY_ERROR_INVALID_ARGUMENT h
      else case begin_score_op req_id n h of
        Inl err \<Rightarrow> reject err h
      | Inr (a, c, h1) \<Rightarrow>
          cached_or_fetched a is_async
            (ServeGameDataFromCache a c (acc_key board_id account_id) total_size recv_size dat is_async h1)
            (GetGameDataByAccountId cfg (sc_user_id c) (ServiceLabelForRequest c n) board_id account_id (sc_pc_id c)
               dat recv_size total_size (Some a)))"

definition sceNpScoreGetGameData ::
  "HandlerConfig \<Rightarrow> s32 \<Rightarrow> u32 \<Rightarrow> OrbisNpId option \<Rightarrow> addr option \<Rightarrow> u64 \<Rightarrow> addr option \<Rightarrow> bool \<Rightarrow> NpScore \<Rightarrow> NpHandler \<Rightarrow>
   (answer \<times> NpHandler) outcome" where
  "sceNpScoreGetGameData cfg req_id board_id np_id total_size recv_size dat has_option =
     GetGameDataImpl cfg req_id board_id np_id total_size recv_size dat has_option False"

definition sceNpScoreGetGameDataAsync ::
  "HandlerConfig \<Rightarrow> s32 \<Rightarrow> u32 \<Rightarrow> OrbisNpId option \<Rightarrow> addr option \<Rightarrow> u64 \<Rightarrow> addr option \<Rightarrow> bool \<Rightarrow> NpScore \<Rightarrow> NpHandler \<Rightarrow>
   (answer \<times> NpHandler) outcome" where
  "sceNpScoreGetGameDataAsync cfg req_id board_id np_id total_size recv_size dat has_option =
     GetGameDataImpl cfg req_id board_id np_id total_size recv_size dat has_option True"

definition sceNpScoreGetGameDataByAccountId ::
  "HandlerConfig \<Rightarrow> s32 \<Rightarrow> u32 \<Rightarrow> u64 \<Rightarrow> addr option \<Rightarrow> u64 \<Rightarrow> addr option \<Rightarrow> bool \<Rightarrow> NpScore \<Rightarrow> NpHandler \<Rightarrow>
   (answer \<times> NpHandler) outcome" where
  "sceNpScoreGetGameDataByAccountId cfg req_id board_id account_id total_size recv_size dat has_option =
     GetGameDataByAccountIdImpl cfg req_id board_id account_id total_size recv_size dat has_option False"

definition sceNpScoreGetGameDataByAccountIdAsync ::
  "HandlerConfig \<Rightarrow> s32 \<Rightarrow> u32 \<Rightarrow> u64 \<Rightarrow> addr option \<Rightarrow> u64 \<Rightarrow> addr option \<Rightarrow> bool \<Rightarrow> NpScore \<Rightarrow> NpHandler \<Rightarrow>
   (answer \<times> NpHandler) outcome" where
  "sceNpScoreGetGameDataByAccountIdAsync cfg req_id board_id account_id total_size recv_size dat has_option =
     GetGameDataByAccountIdImpl cfg req_id board_id account_id total_size recv_size dat has_option True"

section \<open>Sending game data\<close>

text \<open>
  A chunk is appended to the buffer of the request, and the last one sends the whole. \<open>dat\<close> is the
  memory at the pointer.
\<close>

definition RecordGameDataImpl ::
  "HandlerConfig \<Rightarrow> s32 \<Rightarrow> u32 \<Rightarrow> s64 \<Rightarrow> u64 \<Rightarrow> u64 \<Rightarrow> bytes option \<Rightarrow> bool \<Rightarrow> bool \<Rightarrow> NpScore \<Rightarrow> NpHandler \<Rightarrow>
   (answer \<times> NpHandler) outcome" where
  "RecordGameDataImpl cfg req_id board_id score total_size send_size dat has_option is_async n h =
     (if has_option then reject ORBIS_NP_COMMUNITY_ERROR_INVALID_ARGUMENT h
      else if total_size = 0 then reject ORBIS_NP_COMMUNITY_ERROR_INVALID_ARGUMENT h
      else case dat of
        None \<Rightarrow> reject ORBIS_NP_COMMUNITY_ERROR_INSUFFICIENT_ARGUMENT h
      | Some src \<Rightarrow>
          if send_size = 0 then reject ORBIS_NP_COMMUNITY_ERROR_INVALID_ARGUMENT h
          else case begin_score_op req_id n h of
            Inl err \<Rightarrow> reject err h
          | Inr (a, c, h1) \<Rightarrow>
              let buf = sc_game_data_send_buf c;
                  total = (if buf = [] then total_size else sc_game_data_send_total c);
                  remaining = total - of_nat (length buf)
              in read_array (min send_size remaining) src (\<lambda>chunk.
                   let buf1 = buf @ chunk
                   in if length buf1 < unat total then
                        Returned (Answer ORBIS_OK,
                          score_set a ORBIS_OK (upd_score a (\<lambda>c. c\<lparr>sc_game_data_send_buf := buf1, sc_game_data_send_total := total\<rparr>) h1))
                      else Returned (score_dispatch is_async a
                             (RecordGameData cfg (sc_user_id c) (ServiceLabelForRequest c n) board_id (sc_pc_id c) score
                                (Some buf1) (Some a)
                                (upd_score a (\<lambda>c. c\<lparr>sc_game_data_send_buf := [], sc_game_data_send_total := 0\<rparr>) h1)))))"

definition sceNpScoreRecordGameData ::
  "HandlerConfig \<Rightarrow> s32 \<Rightarrow> u32 \<Rightarrow> s64 \<Rightarrow> u64 \<Rightarrow> u64 \<Rightarrow> bytes option \<Rightarrow> bool \<Rightarrow> NpScore \<Rightarrow> NpHandler \<Rightarrow>
   (answer \<times> NpHandler) outcome" where
  "sceNpScoreRecordGameData cfg req_id board_id score total_size send_size dat has_option =
     RecordGameDataImpl cfg req_id board_id score total_size send_size dat has_option False"

definition sceNpScoreRecordGameDataAsync ::
  "HandlerConfig \<Rightarrow> s32 \<Rightarrow> u32 \<Rightarrow> s64 \<Rightarrow> u64 \<Rightarrow> u64 \<Rightarrow> bytes option \<Rightarrow> bool \<Rightarrow> NpScore \<Rightarrow> NpHandler \<Rightarrow>
   (answer \<times> NpHandler) outcome" where
  "sceNpScoreRecordGameDataAsync cfg req_id board_id score total_size send_size dat has_option =
     RecordGameDataImpl cfg req_id board_id score total_size send_size dat has_option True"

section \<open>Comments\<close>

text \<open>
  \<open>comment\<close> is the string at the pointer, without its terminator. A comment that is too long is
  found after the operation began.
\<close>

definition CensorCommentImpl ::
  "s32 \<Rightarrow> bytes option \<Rightarrow> bool \<Rightarrow> bool \<Rightarrow> NpScore \<Rightarrow> NpHandler \<Rightarrow> (answer \<times> NpHandler) outcome" where
  "CensorCommentImpl req_id comment has_option is_async n h =
     (if has_option then reject ORBIS_NP_COMMUNITY_ERROR_INVALID_ARGUMENT h
      else case comment of
        None \<Rightarrow> reject ORBIS_NP_COMMUNITY_ERROR_INSUFFICIENT_ARGUMENT h
      | Some s \<Rightarrow>
          (case begin_score_op req_id n h of
             Inl err \<Rightarrow> reject err h
           | Inr (a, c, h1) \<Rightarrow>
               if length s > ORBIS_NP_SCORE_CENSOR_COMMENT_MAXLEN then reject ORBIS_NP_COMMUNITY_ERROR_INVALID_ARGUMENT h1
               else Returned (if is_async then Answer ORBIS_OK else WaitFor a, score_set a ORBIS_OK h1)))"

definition SanitizeCommentImpl ::
  "s32 \<Rightarrow> bytes option \<Rightarrow> addr option \<Rightarrow> bool \<Rightarrow> bool \<Rightarrow> NpScore \<Rightarrow> NpHandler \<Rightarrow> (answer \<times> NpHandler) outcome" where
  "SanitizeCommentImpl req_id comment sanitized_comment has_option is_async n h =
     (if has_option then reject ORBIS_NP_COMMUNITY_ERROR_INVALID_ARGUMENT h
      else case comment of
        None \<Rightarrow> reject ORBIS_NP_COMMUNITY_ERROR_INSUFFICIENT_ARGUMENT h
      | Some s \<Rightarrow>
          if sanitized_comment = None then reject ORBIS_NP_COMMUNITY_ERROR_INSUFFICIENT_ARGUMENT h
          else case begin_score_op req_id n h of
            Inl err \<Rightarrow> reject err h
          | Inr (a, c, h1) \<Rightarrow>
              if length s > ORBIS_NP_SCORE_SANITIZE_COMMENT_MAXLEN then reject ORBIS_NP_COMMUNITY_ERROR_INVALID_ARGUMENT h1
              else bind_outcome (copy_out sanitized_comment (s @ [0]) (hn_mem h1)) (\<lambda>m1.
                     Returned (if is_async then Answer ORBIS_OK else WaitFor a, score_set a ORBIS_OK (h1\<lparr>hn_mem := m1\<rparr>))))"

definition sceNpScoreCensorComment :: "s32 \<Rightarrow> bytes option \<Rightarrow> bool \<Rightarrow> NpScore \<Rightarrow> NpHandler \<Rightarrow> (answer \<times> NpHandler) outcome" where
  "sceNpScoreCensorComment req_id comment has_option = CensorCommentImpl req_id comment has_option False"

definition sceNpScoreCensorCommentAsync :: "s32 \<Rightarrow> bytes option \<Rightarrow> bool \<Rightarrow> NpScore \<Rightarrow> NpHandler \<Rightarrow> (answer \<times> NpHandler) outcome" where
  "sceNpScoreCensorCommentAsync req_id comment has_option = CensorCommentImpl req_id comment has_option True"

definition sceNpScoreSanitizeComment ::
  "s32 \<Rightarrow> bytes option \<Rightarrow> addr option \<Rightarrow> bool \<Rightarrow> NpScore \<Rightarrow> NpHandler \<Rightarrow> (answer \<times> NpHandler) outcome" where
  "sceNpScoreSanitizeComment req_id comment sanitized_comment has_option =
     SanitizeCommentImpl req_id comment sanitized_comment has_option False"

definition sceNpScoreSanitizeCommentAsync ::
  "s32 \<Rightarrow> bytes option \<Rightarrow> addr option \<Rightarrow> bool \<Rightarrow> NpScore \<Rightarrow> NpHandler \<Rightarrow> (answer \<times> NpHandler) outcome" where
  "sceNpScoreSanitizeCommentAsync req_id comment sanitized_comment has_option =
     SanitizeCommentImpl req_id comment sanitized_comment has_option True"

section \<open>Characters, start and the calls that do nothing\<close>

text \<open>An id that names a title context and a request is taken for the title context.\<close>

definition sceNpScoreSetPlayerCharacterId :: "s32 \<Rightarrow> s32 \<Rightarrow> NpScore \<Rightarrow> NpHandler \<Rightarrow> s32 \<times> NpScore \<times> NpHandler" where
  "sceNpScoreSetPlayerCharacterId ctx_id pc_id n h =
     (if pc_id < 0 then (ORBIS_NP_COMMUNITY_ERROR_INVALID_ARGUMENT, n, h)
      else case LookupTitleCtxUnlocked ctx_id n of
        Some tc \<Rightarrow> (ORBIS_OK, n\<lparr>ns_title_ctxs := omap_put ctx_id (tc\<lparr>st_pc_id := pc_id\<rparr>) (ns_title_ctxs n)\<rparr>, h)
      | None \<Rightarrow>
          (case LookupRequestUnlocked ctx_id n of
             Some a \<Rightarrow> (ORBIS_OK, n, upd_score a (\<lambda>c. c\<lparr>sc_pc_id := pc_id\<rparr>) h)
           | None \<Rightarrow> (ORBIS_NP_COMMUNITY_ERROR_INVALID_ID, n, h)))"

text \<open>\<open>sdk_version\<close> is what the kernel answers.\<close>

definition score_RegisterHooks :: "s32 \<Rightarrow> NpScore \<Rightarrow> NpScore" where
  "score_RegisterHooks sdk_version n = n\<lparr>ns_firmware_version := sdk_version\<rparr>"

definition sceNpScoreChangeModeForOtherSaveDataOwners :: s32 where
  "sceNpScoreChangeModeForOtherSaveDataOwners = ORBIS_OK"
definition sceNpScoreCreateTitleCtx :: s32 where "sceNpScoreCreateTitleCtx = ORBIS_OK"
definition sceNpScoreGetFriendsRankingForCrossSave :: s32 where "sceNpScoreGetFriendsRankingForCrossSave = ORBIS_OK"
definition sceNpScoreGetFriendsRankingForCrossSaveAsync :: s32 where "sceNpScoreGetFriendsRankingForCrossSaveAsync = ORBIS_OK"
definition sceNpScoreGetRankingByAccountIdForCrossSave :: s32 where "sceNpScoreGetRankingByAccountIdForCrossSave = ORBIS_OK"
definition sceNpScoreGetRankingByAccountIdForCrossSaveAsync :: s32 where
  "sceNpScoreGetRankingByAccountIdForCrossSaveAsync = ORBIS_OK"
definition sceNpScoreGetRankingByAccountIdPcIdForCrossSave :: s32 where
  "sceNpScoreGetRankingByAccountIdPcIdForCrossSave = ORBIS_OK"
definition sceNpScoreGetRankingByAccountIdPcIdForCrossSaveAsync :: s32 where
  "sceNpScoreGetRankingByAccountIdPcIdForCrossSaveAsync = ORBIS_OK"
definition sceNpScoreGetRankingByRangeForCrossSave :: s32 where "sceNpScoreGetRankingByRangeForCrossSave = ORBIS_OK"
definition sceNpScoreGetRankingByRangeForCrossSaveAsync :: s32 where "sceNpScoreGetRankingByRangeForCrossSaveAsync = ORBIS_OK"
definition sceNpScoreSetThreadParam :: s32 where "sceNpScoreSetThreadParam = ORBIS_OK"
definition sceNpScoreSetTimeout :: s32 where "sceNpScoreSetTimeout = ORBIS_OK"

end
