(* ===== verification/NpScoreProps.thy ===== *)
theory NpScoreProps
  imports NpScoreData HandlerScoreProps
begin

text \<open>
  The score library: a call that waits is the asynchronous call followed by a wait; game data arrives
  in pages as it was sent in chunks; its requests are a table of ids; and what a deleted request
  leaves behind.
\<close>

section \<open>Waiting\<close>

text \<open>
  The synchronous call leaves the state of the asynchronous one. Either both return the same at
  once, or the asynchronous call says OK and the synchronous one waits, or has waited, for the
  result of the request that a wait for its id would wait for.
\<close>

definition sync_matches ::
  "s32 \<Rightarrow> NpScore \<Rightarrow> (answer \<times> NpHandler) outcome \<Rightarrow> (answer \<times> NpHandler) outcome \<Rightarrow> bool" where
  "sync_matches req_id n sync async \<longleftrightarrow>
     (case (sync, async) of
        (Returned (rs, hs), Returned (ra, ha)) \<Rightarrow> hs = ha \<and> (\<exists>r. ra = Answer r) \<and>
          (rs = ra \<or> ra = Answer ORBIS_OK \<and> (\<exists>a. sceNpScoreWaitAsync req_id n = Inr a \<and>
             (rs = WaitFor a \<or> (\<exists>r. rs = Answer r \<and> score_wait a hs = Some r))))
      | (x, y) \<Rightarrow> x = y)"

named_theorems matches_intro "rules for \<open>sync_matches\<close>"

lemma matches_reject [matches_intro]: "sync_matches req_id n (reject e h) (reject e h)"
  by (simp add: sync_matches_def reject_def)

lemma matches_error [matches_intro]: "sync_matches req_id n (Returned (Answer e, h)) (Returned (Answer e, h))"
  by (simp add: sync_matches_def)

lemma matches_OutOfBounds [matches_intro]: "sync_matches req_id n OutOfBounds OutOfBounds"
  by (simp add: sync_matches_def)

lemma matches_Threw [matches_intro]: "sync_matches req_id n Threw Threw"
  by (simp add: sync_matches_def)

lemma matches_if [matches_intro]:
  "(b \<Longrightarrow> sync_matches req_id n x x') \<Longrightarrow> (\<not> b \<Longrightarrow> sync_matches req_id n y y') \<Longrightarrow>
   sync_matches req_id n (if b then x else y) (if b then x' else y')"
  by simp

lemma matches_bind [matches_intro]:
  "(\<And>x. m = Returned x \<Longrightarrow> sync_matches req_id n (f x) (g x)) \<Longrightarrow> sync_matches req_id n (bind_outcome m f) (bind_outcome m g)"
  by (cases m) (simp_all add: sync_matches_def)

lemma matches_option [matches_intro]:
  "sync_matches req_id n y y' \<Longrightarrow> (\<And>x. p = Some x \<Longrightarrow> sync_matches req_id n (f x) (g x)) \<Longrightarrow>
   sync_matches req_id n (case p of None \<Rightarrow> y | Some x \<Rightarrow> f x) (case p of None \<Rightarrow> y' | Some x \<Rightarrow> g x)"
  by (cases p) auto

lemma begin_found: "begin_score_op req_id n h = Inr (a, c, h1) \<Longrightarrow>
    sceNpScoreWaitAsync req_id n = Inr a \<and> hn_score_ctxs h1 a = Some c \<and> sc_result c = None"
  by (auto simp: begin_score_op_def sceNpScoreWaitAsync_def BeginOp_def Let_def split: option.splits if_splits)

lemma matches_begin [matches_intro]:
  assumes "\<And>a c h1. begin_score_op req_id n h = Inr (a, c, h1) \<Longrightarrow> sync_matches req_id n (f a c h1) (g a c h1)"
  shows "sync_matches req_id n (case begin_score_op req_id n h of Inl err \<Rightarrow> reject err h | Inr (a, c, h1) \<Rightarrow> f a c h1)
    (case begin_score_op req_id n h of Inl err \<Rightarrow> reject err h | Inr (a, c, h1) \<Rightarrow> g a c h1)"
  using assms by (cases "begin_score_op req_id n h") (auto simp: sync_matches_def reject_def)

lemma matches_dispatch:
  assumes "begin_score_op req_id n h = Inr (a, c, h1)"
  shows "sync_matches req_id n (Returned (score_dispatch False a r)) (Returned (score_dispatch True a r))"
  using begin_found [OF assms] by (cases r) (auto simp: sync_matches_def score_dispatch_def)

lemma matches_score_call [matches_intro]:
  "sync_matches req_id n (score_call req_id False send n h) (score_call req_id True send n h)"
proof (cases "begin_score_op req_id n h")
  case (Inl e)
  then show ?thesis by (simp add: score_call_def sync_matches_def)
next
  case (Inr t)
  then obtain a c h1 where t: "begin_score_op req_id n h = Inr (a, c, h1)" by (metis prod_cases3)
  show ?thesis
    unfolding score_call_def t by (auto intro!: matches_bind matches_dispatch [OF t])
qed

lemma matches_ranking_call [matches_intro]:
  "sync_matches req_id n (ranking_call zero g req_id False send n h) (ranking_call zero g req_id True send n h)"
  unfolding ranking_call_def by (auto intro!: matches_intro)

lemma score_wait_set:
  "hn_score_ctxs h a = Some c \<Longrightarrow> sc_result c = None \<Longrightarrow> score_wait a (score_set a r h) = Some r"
  by (simp add: score_wait_def score_set_def at_addr_apply ScoreSetResult_def)

lemma matches_done:
  assumes "begin_score_op req_id n h = Inr (a, c, h1)" and "hn_score_ctxs h2 = hn_score_ctxs h1"
  shows "sync_matches req_id n (Returned (WaitFor a, score_set a r h2)) (Returned (Answer ORBIS_OK, score_set a r h2))"
  using begin_found [OF assms(1)] by (simp add: sync_matches_def)

lemma upd_score_at: "hn_score_ctxs (upd_score a f h) a = map_option f (hn_score_ctxs h a)"
  by (simp add: upd_score_def at_addr_apply)

lemma matches_cache:
  assumes t: "begin_score_op req_id n h = Inr (a, c, h1)"
  shows "sync_matches req_id n
    (cached_or_fetched a False (ServeGameDataFromCache a c key total_size recv_size dat False h1) fetch)
    (cached_or_fetched a True (ServeGameDataFromCache a c key total_size recv_size dat True h1) fetch)"
proof (cases "sc_game_data_recv_offset c = 0 \<or> sc_game_data_recv_key c \<noteq> key")
  case True
  then show ?thesis
    by (simp add: cached_or_fetched_def ServeGameDataFromCache_def matches_dispatch [OF t])
next
  case False
  note c = begin_found [OF t]
  have wait: "sync_matches req_id n
      (Returned (Answer r, score_set a r (upd_score a (turn_page k recv_size) (h1\<lparr>hn_mem := m\<rparr>))))
      (Returned (Answer ORBIS_OK, score_set a r (upd_score a (turn_page k recv_size) (h1\<lparr>hn_mem := m\<rparr>))))" for r k m
    using c score_wait_set [of "upd_score a (turn_page k recv_size) (h1\<lparr>hn_mem := m\<rparr>)" a "turn_page k recv_size c" r]
    by (simp add: sync_matches_def upd_score_at turn_page_def)
  let ?page = "cache_page c (dat \<noteq> None) recv_size"
  show ?thesis
    unfolding ServeGameDataFromCache_def cached_or_fetched_def Let_def if_not_P [OF False]
    by (cases "if ?page \<noteq> [] then copy_out dat ?page (hn_mem h1) else Returned (hn_mem h1)";
        cases "out_u64 total_size (of_nat (length (sc_game_data_recv_cache c)))
          (case if ?page \<noteq> [] then copy_out dat ?page (hn_mem h1) else Returned (hn_mem h1) of Returned m \<Rightarrow> m)")
      (simp_all only: bind_outcome.simps outcome.case option.case prod.case wait matches_OutOfBounds matches_Threw if_True if_False)
qed

lemma matches_board:
  "sync_matches req_id n (GetBoardInfoImpl cfg req_id board_id board_info has_option False n h)
     (GetBoardInfoImpl cfg req_id board_id board_info has_option True n h)"
  unfolding GetBoardInfoImpl_def by (intro matches_intro matches_dispatch) auto

lemma matches_game_data:
  "sync_matches req_id n (GetGameDataImpl cfg req_id board_id np_id total_size recv_size dat has_option False n h)
     (GetGameDataImpl cfg req_id board_id np_id total_size recv_size dat has_option True n h)"
  unfolding GetGameDataImpl_def Let_def by (intro matches_intro matches_cache) auto

lemma matches_game_data_account:
  "sync_matches req_id n (GetGameDataByAccountIdImpl cfg req_id board_id acc total_size recv_size dat has_option False n h)
     (GetGameDataByAccountIdImpl cfg req_id board_id acc total_size recv_size dat has_option True n h)"
  unfolding GetGameDataByAccountIdImpl_def by (intro matches_intro matches_cache) auto

lemma matches_record_data:
  "sync_matches req_id n (RecordGameDataImpl cfg req_id board_id score total_size send_size dat has_option False n h)
     (RecordGameDataImpl cfg req_id board_id score total_size send_size dat has_option True n h)"
  unfolding RecordGameDataImpl_def Let_def read_array_def by (intro matches_intro matches_dispatch) auto

lemma matches_censor:
  "sync_matches req_id n (CensorCommentImpl req_id comment has_option False n h) (CensorCommentImpl req_id comment has_option True n h)"
  unfolding CensorCommentImpl_def by (intro matches_intro) (auto intro: matches_done [unfolded ORBIS_OK_def])

lemma matches_sanitize:
  "sync_matches req_id n (SanitizeCommentImpl req_id comment out has_option False n h)
     (SanitizeCommentImpl req_id comment out has_option True n h)"
  unfolding SanitizeCommentImpl_def by (intro matches_intro) (auto intro: matches_done [unfolded ORBIS_OK_def])


section \<open>The table of requests\<close>

text \<open>
  The requests of a title context \<open>t\<close> that exists; the context of a request that is created is at
  the address \<open>fresh\<close> chooses.
\<close>

definition score_new :: "s32 \<Rightarrow> (NpHandler \<Rightarrow> addr) \<Rightarrow> NpScore \<times> NpHandler \<Rightarrow> s32 \<times> NpScore \<times> NpHandler" where
  "score_new t fresh s = sceNpScoreCreateRequest t (fresh (snd s)) (fst s) (snd s)"

definition score_del :: "s32 \<Rightarrow> NpScore \<times> NpHandler \<Rightarrow> s32 \<times> NpScore \<times> NpHandler" where
  "score_del i s = sceNpScoreDeleteRequest i (fst s) (snd s)"

definition score_live :: "NpScore \<times> NpHandler \<Rightarrow> s32 set" where
  "score_live s = set (keys (ns_requests (fst s)))"

interpretation score_table: counter_table "\<lambda>s. ns_requests (fst s)" "\<lambda>s. ns_next_req_id (fst s)"
  "\<lambda>s. LookupTitleCtxUnlocked t (fst s) \<noteq> None" "score_new t fresh" score_del 32 for t fresh
  by unfold_locales
    (auto simp: score_new_def score_del_def sceNpScoreCreateRequest_def sceNpScoreDeleteRequest_def Let_def
      LookupTitleCtxUnlocked_def LookupRequestUnlocked_def not_le split: option.splits)

text \<open>
  The requests of a title context of the score library are a table of at most 32 ids:
  along any sequence of creations and deletions, from the start of the library with a title context
  created in it, a creation returns a new positive id exactly when fewer than 32 requests are live,
  and a deletion succeeds exactly on a live id.
\<close>
theorem score_table_refines:
  assumes start: "sceNpScoreCreateNpTitleCtx label np_id h init_score = (t, n)" and t: "0 < t"
    and ops: "list_all op_ids_ok ops" "length ops < 2 ^ 31 - 1"
    and run: "run_table (score_new t fresh) score_del ops (n, h) = (rs, s')"
  shows "table_spec 32 ops rs {} (score_live s')"
proof -
  from start t have n: "LookupTitleCtxUnlocked t n \<noteq> None \<and> ns_requests n = [] \<and> ns_next_req_id n = 1"
    by (auto simp: sceNpScoreCreateNpTitleCtx_def add_title_ctx_def init_score_def LookupTitleCtxUnlocked_def Let_def
        split: if_splits option.splits)
  then have "counter_ok (ns_requests n) (ns_next_req_id n) (length ops)" using ops(2) by (simp add: counter_ok_def omap_inv_Nil)
  with n score_table.table.run_refines [OF _ ops(1) run] show ?thesis by (simp add: score_live_def)
qed

lemma score_table_refines_witness:
  "\<exists>s'. table_spec 32 [CreateOp, DeleteOp 9, DeleteOp 1] [1, ORBIS_NP_COMMUNITY_ERROR_INVALID_ID, 0] {} (score_live s')"
proof -
  define n where "n = snd (sceNpScoreCreateNpTitleCtx 0 (Some zero_np_id) init_handler init_score)"
  have start: "sceNpScoreCreateNpTitleCtx 0 (Some zero_np_id) init_handler init_score = (1, n)"
    by (simp add: n_def sceNpScoreCreateNpTitleCtx_def add_title_ctx_def init_score_def Let_def)
  have n: "ns_requests n = []" "ns_next_req_id n = 1" "map_of (ns_title_ctxs n) 1 \<noteq> None"
    by (simp_all add: n_def sceNpScoreCreateNpTitleCtx_def add_title_ctx_def init_score_def Let_def)
  from n(3) obtain tc where tc: "map_of (ns_title_ctxs n) 1 = Some tc" by blast
  have "\<exists>s'. run_table (score_new 1 (\<lambda>_. 7)) score_del [CreateOp, DeleteOp 9, DeleteOp 1] (n, init_handler) =
      ([1, ORBIS_NP_COMMUNITY_ERROR_INVALID_ID, 0], s')"
    by (auto simp: score_new_def score_del_def sceNpScoreCreateRequest_def sceNpScoreDeleteRequest_def
        LookupTitleCtxUnlocked_def LookupRequestUnlocked_def n tc Let_def omap_erase_def)
  then obtain s' where "run_table (score_new 1 (\<lambda>_. 7)) score_del [CreateOp, DeleteOp 9, DeleteOp 1] (n, init_handler) =
      ([1, ORBIS_NP_COMMUNITY_ERROR_INVALID_ID, 0], s')" by blast
  from score_table_refines [OF start _ _ _ this] show ?thesis by (intro exI [of _ s']) (simp add: is_s32_def)
qed

section \<open>Pages\<close>

lemma uint_no_error [simp]: "uint (w :: u64) \<noteq> - numeral k"
proof -
  have "- numeral k < (0::int)" by simp
  with uint_ge_0 [of w] show ?thesis by linarith
qed

lemma unat_u64: "k < 2 ^ 31 \<Longrightarrow> unat (of_nat k :: u64) = k"
  by (subst unsigned_of_nat, subst take_bit_nat_eq_self) simp_all

text \<open>A game that reads on into the same buffer, with the sizes it asks for; the pieces it finds there.\<close>

fun read_pages :: "HandlerConfig \<Rightarrow> s32 \<Rightarrow> u32 \<Rightarrow> OrbisNpId \<Rightarrow> addr \<Rightarrow> u64 list \<Rightarrow> NpScore \<Rightarrow> NpHandler \<Rightarrow> (bytes list \<times> NpHandler) option" where
  "read_pages cfg req_id board_id np d [] n h = Some ([], h)"
| "read_pages cfg req_id board_id np d (sz # szs) n h =
     (case sceNpScoreGetGameData cfg req_id board_id (Some np) None sz (Some d) False n h of
        Returned (Answer r, h1) \<Rightarrow>
          (case gm_buf (hn_mem h1) d of
             None \<Rightarrow> None
           | Some buf \<Rightarrow> map_option (\<lambda>(ps, h2). (take (nat r) buf # ps, h2)) (read_pages cfg req_id board_id np d szs n h1))
      | _ \<Rightarrow> None)"

text \<open>The request at \<open>a\<close> is in the middle of a blob: \<open>off\<close> bytes were read, all of them full pages.\<close>

definition mid_blob :: "addr \<Rightarrow> bytes \<Rightarrow> bytes \<Rightarrow> nat \<Rightarrow> NpHandler \<Rightarrow> bool" where
  "mid_blob a key blob off h \<longleftrightarrow> (\<exists>c. hn_score_ctxs h a = Some c \<and> sc_result c \<noteq> Some ORBIS_NP_COMMUNITY_ERROR_ABORTED \<and>
     sc_game_data_recv_key c = key \<and> sc_game_data_recv_cache c = blob \<and> sc_game_data_recv_offset c = of_nat off \<and>
     0 < off \<and> off \<le> length blob)"

lemma page_step:
  assumes live: "LookupRequestUnlocked req_id n = Some a" and np: "OnlineIdFromNpId np \<noteq> []"
    and mid: "mid_blob a (npid_key board_id (OnlineIdFromNpId np)) blob off h" and small: "length blob < 2 ^ 31"
    and buf: "gm_buf (hn_mem h) d = Some buf" "unat sz \<le> length buf"
  defines "page \<equiv> take (unat sz) (drop off blob)"
  shows "\<exists>h1 buf1. sceNpScoreGetGameData cfg req_id board_id (Some np) None sz (Some d) False n h =
      Returned (Answer (int (length page)), h1) \<and> gm_buf (hn_mem h1) d = Some buf1 \<and> length buf1 = length buf \<and>
    take (length page) buf1 = page \<and> hn_clients h1 = hn_clients h \<and>
    (unat sz \<le> length blob - off \<longrightarrow> mid_blob a (npid_key board_id (OnlineIdFromNpId np)) blob (off + unat sz) h1)"
proof -
  from mid obtain c where c: "hn_score_ctxs h a = Some c" "sc_result c \<noteq> Some ORBIS_NP_COMMUNITY_ERROR_ABORTED"
    "sc_game_data_recv_key c = npid_key board_id (OnlineIdFromNpId np)" "sc_game_data_recv_cache c = blob"
    "sc_game_data_recv_offset c = of_nat off" "0 < off" "off \<le> length blob"
    unfolding mid_blob_def by blast
  have u: "unat (of_nat off :: u64) = off" using c(7) small by (intro unat_u64) simp
  have ne: "of_nat off \<noteq> (0::u64)" using u c(6) by auto
  let ?c = "c\<lparr>sc_result := None\<rparr>"
  have start: "cache_start ?c = off" using c u by (simp add: cache_start_def)
  have page: "cache_page ?c True sz = page" using c start by (simp add: cache_page_def page_def)
  have len: "to_s32 (int (length page)) = int (length page)"
    using small by (intro to_s32_id) (auto simp: page_def)
  have fits: "length page \<le> length buf" using buf(2) by (simp add: page_def)
  let ?h1 = "h\<lparr>hn_score_ctxs := (hn_score_ctxs h)(a \<mapsto> ?c)\<rparr>"
  let ?m1 = "(hn_mem h)\<lparr>gm_buf := (gm_buf (hn_mem h))(d \<mapsto> page @ drop (length page) buf)\<rparr>"
  have begun: "begin_score_op req_id n h = Inr (a, ?c, ?h1)"
    using live c by (simp add: begin_score_op_def BeginOp_def)
  have copied: "(if page \<noteq> [] then copy_out (Some d) page (hn_mem ?h1) else Returned (hn_mem ?h1)) = Returned ?m1"
    using buf fits by (auto simp: copy_out_def fun_upd_idem)
  have "sceNpScoreGetGameData cfg req_id board_id (Some np) None sz (Some d) False n h = Returned (Answer (int (length page)),
      score_set a (int (length page)) (upd_score a (turn_page (length page) sz) (?h1\<lparr>hn_mem := ?m1\<rparr>)))"
    using np c ne begun copied page len
    by (simp add: sceNpScoreGetGameData_def GetGameDataImpl_def cached_or_fetched_def ServeGameDataFromCache_def Let_def
        out_u64_def write_out_def)
  moreover have "mid_blob a (npid_key board_id (OnlineIdFromNpId np)) blob (off + unat sz)
      (score_set a (int (length page)) (upd_score a (turn_page (length page) sz) (?h1\<lparr>hn_mem := ?m1\<rparr>)))"
    if "unat sz \<le> length blob - off"
  proof -
    from that have "length page = unat sz" by (simp add: page_def)
    moreover have "off + unat sz \<le> length blob" using that c(7) by linarith
    ultimately show ?thesis
      using c start by (simp add: mid_blob_def score_set_def upd_score_def at_addr_apply turn_page_def ScoreSetResult_def)
  qed
  ultimately show ?thesis
    using fits by (auto simp: score_set_def upd_score_def)
qed

lemma pages_from_cache:
  assumes live: "LookupRequestUnlocked req_id n = Some a" and np: "OnlineIdFromNpId np \<noteq> []"
    and mid: "mid_blob a (npid_key board_id (OnlineIdFromNpId np)) blob off h" and small: "length blob < 2 ^ 31"
    and buf: "gm_buf (hn_mem h) d = Some buf" "\<forall>sz \<in> set sizes. unat sz \<le> length buf"
    and full: "sum_list (map unat (butlast sizes)) \<le> length blob - off"
  shows "\<exists>ps h2. read_pages cfg req_id board_id np d sizes n h = Some (ps, h2) \<and>
    concat ps = take (sum_list (map unat sizes)) (drop off blob) \<and> hn_clients h2 = hn_clients h"
  using mid buf full
proof (induction sizes arbitrary: off h buf)
  case (Cons sz szs)
  let ?page = "take (unat sz) (drop off blob)"
  from Cons.prems(3) have "unat sz \<le> length buf" by simp
  from page_step [OF live np Cons.prems(1) small Cons.prems(2) this] obtain h1 buf1
    where h1: "sceNpScoreGetGameData cfg req_id board_id (Some np) None sz (Some d) False n h =
        Returned (Answer (int (length ?page)), h1)" "gm_buf (hn_mem h1) d = Some buf1" "length buf1 = length buf"
      "take (length ?page) buf1 = ?page" "hn_clients h1 = hn_clients h"
      "unat sz \<le> length blob - off \<Longrightarrow> mid_blob a (npid_key board_id (OnlineIdFromNpId np)) blob (off + unat sz) h1"
    by blast
  show ?case
  proof (cases "szs = []")
    case True
    with h1 show ?thesis by simp
  next
    case False
    with Cons.prems(4) have sz: "unat sz + sum_list (map unat (butlast szs)) \<le> length blob - off" by simp
    then have "unat sz \<le> length blob - off" by simp
    note mid1 = h1(6) [OF this]
    have "\<forall>sz \<in> set szs. unat sz \<le> length buf1" using Cons.prems(3) h1(3) by simp
    moreover have "sum_list (map unat (butlast szs)) \<le> length blob - (off + unat sz)" using sz by linarith
    ultimately obtain ps h2 where "read_pages cfg req_id board_id np d szs n h1 = Some (ps, h2)"
      "concat ps = take (sum_list (map unat szs)) (drop (off + unat sz) blob)" "hn_clients h2 = hn_clients h1"
      using Cons.IH [OF mid1 h1(2)] by blast
    with h1 show ?thesis by (simp add: take_add add.commute)
  qed
qed simp

text \<open>
  Claim C24. Reading game data in pages gives the data of the server whole and in order: when the
  reply to a first read of \<open>s0\<close> bytes has come, what it left in the buffer of the game followed by the
  pieces that further reads put there is the beginning of the data, as long as the reads together,
  and the further reads ask the server nothing.
\<close>
theorem game_data_pages:
  assumes live: "LookupRequestUnlocked req_id n = Some a" and np: "OnlineIdFromNpId np \<noteq> []"
    and ctx: "hn_score_ctxs h a = Some c" "sc_result c = None" "sc_game_data_recv_key c = npid_key board_id (OnlineIdFromNpId np)"
    and pending: "qs_req p = Some a" "qs_data_out p = Some d" "qs_total_size_out p = None"
    and reply: "reply_blob body = Some blob" "game_data_reply p body h = Returned h1"
    and first: "0 < unat (qs_recv_size p)" "unat (qs_recv_size p) \<le> length blob" "length blob < 2 ^ 31"
    and buf: "gm_buf (hn_mem h) d = Some buf" "unat (qs_recv_size p) \<le> length buf" "\<forall>sz \<in> set sizes. unat sz \<le> length buf"
    and full: "sum_list (map unat (butlast sizes)) \<le> length blob - unat (qs_recv_size p)"
  shows "\<exists>page1 ps h2. map_option (take (unat (qs_recv_size p))) (gm_buf (hn_mem h1) d) = Some page1 \<and>
    read_pages cfg req_id board_id np d sizes n h1 = Some (ps, h2) \<and>
    page1 @ concat ps = take (unat (qs_recv_size p) + sum_list (map unat sizes)) blob \<and> hn_clients h2 = hn_clients h"
proof -
  let ?s0 = "unat (qs_recv_size p)"
  let ?buf1 = "take ?s0 blob @ drop ?s0 buf"
  have recv: "(0::u64) < qs_recv_size p" using first(1) by (simp add: word_less_nat_alt)
  have k: "to_s32 (int j) = int j" if "j \<le> length blob" for j using that first(3) by (intro to_s32_id) auto
  have h1: "h1 = score_set a (int ?s0) (h\<lparr>hn_mem := (hn_mem h)\<lparr>gm_buf := (gm_buf (hn_mem h))(d \<mapsto> ?buf1)\<rparr>,
      hn_score_ctxs := (hn_score_ctxs h)(a \<mapsto> c\<lparr>sc_game_data_recv_offset := of_nat ?s0, sc_game_data_recv_cache := blob\<rparr>)\<rparr>)"
    using reply(2) pending ctx(1) recv first buf k [OF first(2)]
    by (simp add: game_data_reply_def reply(1) with_mem_def out_u64_def write_out_def copy_out_def upd_score_ctx_def
        finish_score_def at_addr_def min_absorb2 Let_def)
  have "mid_blob a (npid_key board_id (OnlineIdFromNpId np)) blob ?s0 h1"
    using ctx first by (simp add: h1 mid_blob_def score_set_def at_addr_apply ScoreSetResult_def)
  moreover have "gm_buf (hn_mem h1) d = Some ?buf1" by (simp add: h1 score_set_def)
  moreover have "\<forall>sz \<in> set sizes. unat sz \<le> length ?buf1" using buf first by auto
  ultimately obtain ps h2 where "read_pages cfg req_id board_id np d sizes n h1 = Some (ps, h2)"
    "concat ps = take (sum_list (map unat sizes)) (drop ?s0 blob)" "hn_clients h2 = hn_clients h1"
    using pages_from_cache [OF live np _ first(3) _ _ full] by blast
  moreover have "hn_clients h1 = hn_clients h" by (simp add: h1 score_set_def)
  ultimately show ?thesis
    using first \<open>gm_buf (hn_mem h1) d = Some ?buf1\<close> by (simp add: take_add)
qed

definition demo_score :: NpScore where
  "demo_score = init_score\<lparr>ns_requests := [(1, 7)]\<rparr>"

definition demo_np :: OrbisNpId where "demo_np = SetNpId [97]"

definition demo_data_handler :: NpHandler where
  "demo_data_handler = init_handler\<lparr>
     hn_score_ctxs := [7 \<mapsto> new_score_ctx\<lparr>sc_game_data_recv_key := npid_key 0 [97]\<rparr>],
     hn_mem := empty_mem\<lparr>gm_buf := [5 \<mapsto> [0, 0, 0]]\<rparr>\<rparr>"

lemma demo_np_id: "OnlineIdFromNpId demo_np = [97]"
  by (simp add: demo_np_def SetNpId_def SetNpOnlineId_def OnlineIdFromNpId_def OnlineIdToString_def zero_online_id_def)

lemma demo_blob: "reply_blob [3, 0, 0, 0, 1, 2, 3] = Some [1, 2, 3]"
  by (simp add: reply_blob_def GetLE32_def mem_slice_def Let_def)

lemma game_data_pages_witness:
  "\<exists>page1 ps (h2 :: NpHandler). page1 @ concat ps = [(1 :: 8 word), 2, 3] \<and> hn_clients h2 = hn_clients demo_data_handler"
proof -
  let ?p = "new_score_pending\<lparr>qs_req := Some 7, qs_data_out := Some 5, qs_recv_size := 2\<rparr>"
  have "\<exists>h1. game_data_reply ?p [3, 0, 0, 0, 1, 2, 3] demo_data_handler = Returned h1"
    by (simp add: game_data_reply_def demo_blob with_mem_def out_u64_def write_out_def copy_out_def
        upd_score_ctx_def finish_score_def demo_data_handler_def new_score_pending_def Let_def)
  then obtain h1 where h1: "game_data_reply ?p [3, 0, 0, 0, 1, 2, 3] demo_data_handler = Returned h1" by blast
  have "\<exists>page1 ps h2. map_option (take (unat (qs_recv_size ?p))) (gm_buf (hn_mem h1) 5) = Some page1 \<and>
      read_pages demo_cfg 1 0 demo_np 5 [2] demo_score h1 = Some (ps, h2) \<and>
      page1 @ concat ps = take (unat (qs_recv_size ?p) + sum_list (map unat [2 :: u64])) [1, 2, 3] \<and>
      hn_clients h2 = hn_clients demo_data_handler"
    by (rule game_data_pages [where a = 7 and buf = "[0, 0, 0]" and
        c = "new_score_ctx\<lparr>sc_game_data_recv_key := npid_key 0 [97]\<rparr>", OF _ _ _ _ _ _ _ _ demo_blob h1])
      (simp_all add: demo_score_def LookupRequestUnlocked_def demo_np_id demo_data_handler_def new_score_ctx_def
        new_score_pending_def)
  then obtain page1 ps and h2 :: NpHandler
    where "page1 @ concat ps = take (unat (qs_recv_size ?p) + sum_list (map unat [2 :: u64])) [1 :: 8 word, 2, 3]"
    "hn_clients h2 = hn_clients demo_data_handler" by blast
  then show ?thesis by (intro exI [of _ page1] exI [of _ ps] exI [of _ h2]) simp
qed

section \<open>Chunks\<close>

text \<open>Sending data in chunks of the game's choice; the answers of the calls.\<close>

fun send_chunks ::
  "HandlerConfig \<Rightarrow> s32 \<Rightarrow> u32 \<Rightarrow> s64 \<Rightarrow> u64 \<Rightarrow> bool \<Rightarrow> bytes list \<Rightarrow> NpScore \<Rightarrow> NpHandler \<Rightarrow> (answer list \<times> NpHandler) outcome" where
  "send_chunks cfg req_id board_id score total_size is_async [] n h = Returned ([], h)"
| "send_chunks cfg req_id board_id score total_size is_async (x # xs) n h =
     bind_outcome (RecordGameDataImpl cfg req_id board_id score total_size (of_nat (length x)) (Some x) False is_async n h)
       (\<lambda>(r, h1). bind_outcome (send_chunks cfg req_id board_id score total_size is_async xs n h1)
          (\<lambda>(rs, h2). Returned (r # rs, h2)))"

text \<open>A context with the upload in it: the bytes so far, their total and the result.\<close>

definition uploading :: "ScoreRequestCtx \<Rightarrow> bytes \<Rightarrow> u64 \<Rightarrow> s32 option \<Rightarrow> ScoreRequestCtx" where
  "uploading c buf t r = c\<lparr>sc_game_data_send_buf := buf, sc_game_data_send_total := t, sc_result := r\<rparr>"

lemma uploading_simps [simp]:
  "sc_game_data_send_buf (uploading c buf t r) = buf" "sc_game_data_send_total (uploading c buf t r) = t"
  "sc_result (uploading c buf t r) = r" "sc_user_id (uploading c buf t r) = sc_user_id c" "sc_pc_id (uploading c buf t r) = sc_pc_id c"
  "ServiceLabelForRequest (uploading c buf t r) n = ServiceLabelForRequest c n"
  "(uploading c buf t r)\<lparr>sc_result := r'\<rparr> = uploading c buf t r'"
  "(uploading c buf t r)\<lparr>sc_game_data_send_buf := buf', sc_game_data_send_total := t'\<rparr> = uploading c buf' t' r"
  "ScoreSetResult q (uploading c buf t None) = uploading c buf t (Some q)"
  by (simp_all add: uploading_def ServiceLabelForRequest_def ScoreSetResult_def)

definition with_upload :: "addr \<Rightarrow> ScoreRequestCtx \<Rightarrow> bytes \<Rightarrow> u64 \<Rightarrow> s32 option \<Rightarrow> NpHandler \<Rightarrow> NpHandler" where
  "with_upload a c buf t r h = h\<lparr>hn_score_ctxs := (hn_score_ctxs h)(a \<mapsto> uploading c buf t r)\<rparr>"

lemma with_upload_set:
  "score_set a q (with_upload a c buf t None h) = with_upload a c buf t (Some q) h"
  "upd_score a (\<lambda>c. c\<lparr>sc_game_data_send_buf := buf', sc_game_data_send_total := t'\<rparr>) (with_upload a c buf t r h) = with_upload a c buf' t' r h"
  by (simp_all add: with_upload_def score_set_def upd_score_def at_addr_def)

text \<open>The request at \<open>a\<close> holds the bytes \<open>got\<close> of an upload of \<open>tot\<close>.\<close>

definition mid_upload :: "addr \<Rightarrow> ScoreRequestCtx \<Rightarrow> bytes \<Rightarrow> nat \<Rightarrow> NpHandler \<Rightarrow> NpHandler \<Rightarrow> bool" where
  "mid_upload a c got tot h0 h \<longleftrightarrow> (\<exists>r t. r \<noteq> Some ORBIS_NP_COMMUNITY_ERROR_ABORTED \<and> (got \<noteq> [] \<longrightarrow> t = of_nat tot) \<and>
     h = with_upload a c got t r h0)"

lemma chunk_call:
  assumes live: "LookupRequestUnlocked req_id n = Some a" and mid: "mid_upload a c got tot h0 h"
    and sizes: "x \<noteq> []" "length got + length x \<le> tot" "tot < 2 ^ 31"
  shows "RecordGameDataImpl cfg req_id board_id score (of_nat tot) (of_nat (length x)) (Some x) False is_async n h =
    (if length got + length x < tot then Returned (Answer ORBIS_OK, with_upload a c (got @ x) (of_nat tot) (Some ORBIS_OK) h0)
     else Returned (score_dispatch is_async a (RecordGameData cfg (sc_user_id c) (ServiceLabelForRequest c n) board_id
               (sc_pc_id c) score (Some (got @ x)) (Some a) (with_upload a c [] 0 None h0))))"
proof -
  from mid obtain r t where h: "h = with_upload a c got t r h0"
    and r: "r \<noteq> Some ORBIS_NP_COMMUNITY_ERROR_ABORTED" "got \<noteq> [] \<Longrightarrow> t = of_nat tot"
    unfolding mid_upload_def by blast
  have rest: "(of_nat tot :: u64) - of_nat (length got) = of_nat (tot - length got)"
    using sizes by (simp add: of_nat_diff)
  have "(of_nat (length x) :: u64) \<le> of_nat (tot - length got)" and pos: "(of_nat tot :: u64) \<noteq> 0" "(of_nat (length x) :: u64) \<noteq> 0"
    using sizes unat_u64 [of "length x"] unat_u64 [of "tot - length got"] unat_u64 [of tot]
    by (auto simp: word_le_nat_alt dest: arg_cong [where f = unat])
  then have least: "min (of_nat (length x) :: u64) (of_nat tot - of_nat (length got)) = of_nat (length x)"
    unfolding rest by (intro min_absorb1)
  have "unat (of_nat (length x) :: u64) = length x" using sizes by (intro unat_u64) linarith
  then have chunk: "read_array (min (of_nat (length x)) (of_nat tot - of_nat (length got))) x f = f x"
    for f :: "bytes \<Rightarrow> (answer \<times> NpHandler) outcome"
    by (simp add: least read_array_def)
  have begun: "begin_score_op req_id n h = Inr (a, uploading c got t None, with_upload a c got t None h0)"
    using live r(1) by (simp add: begin_score_op_def h BeginOp_def with_upload_def)
  have tt: "(if got = [] then of_nat tot else t) = of_nat tot" using r(2) by auto
  have tn: "unat (of_nat tot :: u64) = tot" using sizes(3) by (rule unat_u64)
  show ?thesis
    unfolding RecordGameDataImpl_def begun Let_def sum.case prod.case option.case uploading_simps tt chunk with_upload_set tn
    using pos by (simp del: ORBIS_OK_def of_nat_eq_0_iff)
qed

lemma chunks_assemble:
  assumes live: "LookupRequestUnlocked req_id n = Some a" and "mid_upload a c got tot h0 h"
    and "chunks \<noteq> []" "\<forall>x \<in> set chunks. x \<noteq> []" "length got + length (concat chunks) = tot" "tot < 2 ^ 31"
    and last: "score_dispatch is_async a (RecordGameData cfg (sc_user_id c) (ServiceLabelForRequest c n) board_id (sc_pc_id c) score
      (Some (got @ concat chunks)) (Some a) (with_upload a c [] 0 None h0)) = (r, h')"
  shows "send_chunks cfg req_id board_id score (of_nat tot) is_async chunks n h =
    Returned (replicate (length chunks - 1) (Answer ORBIS_OK) @ [r], h')"
  using assms(2-5) last
proof (induction chunks arbitrary: got h)
  case (Cons x xs)
  from Cons.prems(3,4) have x: "x \<noteq> []" "length got + length x \<le> tot" by auto
  note call = chunk_call [OF live Cons.prems(1) x assms(6), of cfg board_id score is_async]
  show ?case
  proof (cases "xs = []")
    case True
    then have "\<not> length got + length x < tot" using Cons.prems(4) by simp
    with call Cons.prems(5) True show ?thesis by simp
  next
    case False
    then have more: "length got + length x < tot" using Cons.prems(3,4) by (cases xs) auto
    have mid: "mid_upload a c (got @ x) tot h0 (with_upload a c (got @ x) (of_nat tot) (Some ORBIS_OK) h0)"
      unfolding mid_upload_def by (intro exI [of _ "Some ORBIS_OK"] exI [of _ "of_nat tot"]) simp
    have "send_chunks cfg req_id board_id score (of_nat tot) is_async xs n
        (with_upload a c (got @ x) (of_nat tot) (Some ORBIS_OK) h0) =
        Returned (replicate (length xs - 1) (Answer ORBIS_OK) @ [r], h')"
      using Cons.IH [OF mid False] Cons.prems(3,4,5) by simp
    moreover obtain m where "length xs = Suc m" using False by (cases xs) auto
    ultimately show ?thesis using call more by simp
  qed
qed simp

text \<open>
  Claim C25. Sending game data in chunks sends it whole and once: the calls for all the chunks but
  the last return OK at once and change nothing outside the request, and the last one is the
  request to the server with the concatenation of the chunks.
\<close>
theorem upload_assembles:
  assumes live: "LookupRequestUnlocked req_id n = Some a"
    and ctx: "hn_score_ctxs h a = Some c" "sc_result c \<noteq> Some ORBIS_NP_COMMUNITY_ERROR_ABORTED" "sc_game_data_send_buf c = []"
    and chunks: "chunks \<noteq> []" "\<forall>x \<in> set chunks. x \<noteq> []" "length (concat chunks) < 2 ^ 31"
    and last: "score_dispatch is_async a (RecordGameData cfg (sc_user_id c) (ServiceLabelForRequest c n) board_id (sc_pc_id c) score
      (Some (concat chunks)) (Some a) (with_upload a c [] 0 None h)) = (r, h')"
  shows "send_chunks cfg req_id board_id score (of_nat (length (concat chunks))) is_async chunks n h =
    Returned (replicate (length chunks - 1) (Answer ORBIS_OK) @ [r], h')"
proof (rule chunks_assemble [OF live _ chunks(1,2) _ chunks(3)])
  have "c = uploading c [] (sc_game_data_send_total c) (sc_result c)"
    using ctx(3) by (cases c) (simp add: uploading_def)
  then have "h = with_upload a c [] (sc_game_data_send_total c) (sc_result c) h"
    using ctx(1) by (simp add: with_upload_def fun_upd_idem)
  then show "mid_upload a c [] (length (concat chunks)) h h" using ctx(2) unfolding mid_upload_def by blast
qed (use last in simp_all)

lemma upload_assembles_witness:
  "\<exists>r (h' :: NpHandler). send_chunks demo_cfg 1 0 9 3 True [[1], [2, 3]] demo_score demo_data_handler = Returned ([Answer ORBIS_OK, r], h')"
proof -
  let ?c = "new_score_ctx\<lparr>sc_game_data_recv_key := npid_key 0 [97]\<rparr>"
  obtain r and h' :: NpHandler where "score_dispatch True 7 (RecordGameData demo_cfg (sc_user_id ?c) (ServiceLabelForRequest ?c demo_score) 0
      (sc_pc_id ?c) 9 (Some (concat [[1], [2, 3]])) (Some 7) (with_upload 7 ?c [] 0 None demo_data_handler)) = (r, h')"
    by fastforce
  from upload_assembles [OF _ _ _ _ _ _ _ this, of 1] show ?thesis
    by (simp add: demo_score_def LookupRequestUnlocked_def demo_data_handler_def new_score_ctx_def)
qed

section \<open>Late replies\<close>

text \<open>Two outcomes that agree on the memory of the game.\<close>

definition same_mem :: "NpHandler outcome \<Rightarrow> NpHandler outcome \<Rightarrow> bool" where
  "same_mem x y \<longleftrightarrow> (case (x, y) of (Returned h, Returned h') \<Rightarrow> hn_mem h = hn_mem h' | _ \<Rightarrow> x = y)"

named_theorems same_mem_intro "rules for \<open>same_mem\<close>"

lemma same_finish [same_mem_intro]: "hn_mem h = hn_mem h' \<Longrightarrow> same_mem (finish_score req r h) (finish_score req r h')"
  by (simp add: same_mem_def finish_score_def score_set_def split: option.split)

lemma same_upd [same_mem_intro]: "hn_mem h = hn_mem h' \<Longrightarrow> same_mem (upd_score_ctx req f h) (upd_score_ctx req f h')"
  by (simp add: same_mem_def upd_score_ctx_def split: option.split)

lemma same_Returned [same_mem_intro]: "hn_mem h = hn_mem h' \<Longrightarrow> same_mem (Returned h) (Returned h')"
  by (simp add: same_mem_def)

lemma same_with_mem [same_mem_intro]: "m = m' \<Longrightarrow> same_mem (with_mem h m) (with_mem h' m')"
  by (cases m') (simp_all add: same_mem_def with_mem_def)

lemma same_bind [same_mem_intro]:
  "same_mem m m' \<Longrightarrow> (\<And>h h'. hn_mem h = hn_mem h' \<Longrightarrow> same_mem (f h) (g h')) \<Longrightarrow> same_mem (bind_outcome m f) (bind_outcome m' g)"
  by (cases m; cases m') (auto simp: same_mem_def)

lemma same_bind_mem [same_mem_intro]:
  "(\<And>x :: 'a. same_mem (f x) (g x)) \<Longrightarrow> same_mem (bind_outcome m f) (bind_outcome m g)"
  by (cases m) (simp_all add: same_mem_def)

lemma same_if [same_mem_intro]:
  "(b \<Longrightarrow> same_mem x x') \<Longrightarrow> (\<not> b \<Longrightarrow> same_mem y y') \<Longrightarrow> same_mem (if b then x else y) (if b then x' else y')"
  by simp

lemma same_option [same_mem_intro]:
  "same_mem y y' \<Longrightarrow> (\<And>x. same_mem (f x) (g x)) \<Longrightarrow>
   same_mem (case v of None \<Rightarrow> y | Some x \<Rightarrow> f x) (case v of None \<Rightarrow> y' | Some x \<Rightarrow> g x)"
  by (cases v) auto

lemma same_ranking [same_mem_intro]:
  "hn_mem h = hn_mem h' \<Longrightarrow> same_mem (ranking_reply cfg p body fill meta result h) (ranking_reply cfg p body fill meta result h')"
  unfolding ranking_reply_def by (auto intro!: same_finish same_option same_bind_mem)

lemma same_game_data [same_mem_intro]:
  "hn_mem h = hn_mem h' \<Longrightarrow> same_mem (game_data_reply p body h) (game_data_reply p body h')"
  unfolding game_data_reply_def Let_def by (intro same_mem_intro) auto

lemma same_board [same_mem_intro]:
  "hn_mem h = hn_mem h' \<Longrightarrow> same_mem (board_info_reply cfg p body h) (board_info_reply cfg p body h')"
  unfolding board_info_reply_def by (auto intro!: same_finish same_option same_bind same_with_mem)

lemma same_record [same_mem_intro]:
  "hn_mem h = hn_mem h' \<Longrightarrow> same_mem (record_score_reply p body h) (record_score_reply p body h')"
  unfolding record_score_reply_def by (auto intro!: same_mem_intro)

lemma same_reply:
  assumes "hn_mem h = hn_mem h'" "hn_pending_score h = hn_pending_score h'"
  shows "same_mem (OnScoreReply cfg user cmd pkt err body h) (OnScoreReply cfg user cmd pkt err body h')"
  unfolding OnScoreReply_def score_success_def Let_def assms(2)
  using assms(1) by (intro same_mem_intro) auto

text \<open>
  Deleting a request of the score library does not take it out of the hands of the
  handler: a reply that comes later changes the memory of the game exactly as if the request had
  never been deleted, although the game may have freed what the request pointed at.
\<close>
theorem deleted_request_still_writes:
  assumes "sceNpScoreDeleteRequest req_id n h = (ORBIS_OK, n', h')"
  shows "same_mem (OnScoreReply cfg user_id cmd pkt_id err body h) (OnScoreReply cfg user_id cmd pkt_id err body h')"
proof (rule same_reply)
  obtain a where "h' = score_set a ORBIS_NP_COMMUNITY_ERROR_ABORTED h"
    using assms by (auto simp: sceNpScoreDeleteRequest_def split: option.splits)
  then show "hn_mem h = hn_mem h'" "hn_pending_score h = hn_pending_score h'" by (simp_all add: score_set_def)
qed

lemma deleted_request_still_writes_witness:
  "\<exists>n' h'. sceNpScoreDeleteRequest 1 demo_score demo_data_handler = (ORBIS_OK, n', h') \<and>
     same_mem (OnScoreReply demo_cfg 1 CmdGetScoreData 3 NoError [] demo_data_handler) (OnScoreReply demo_cfg 1 CmdGetScoreData 3 NoError [] h')"
proof -
  obtain n' h' where d: "sceNpScoreDeleteRequest 1 demo_score demo_data_handler = (ORBIS_OK, n', h')"
    by (simp add: sceNpScoreDeleteRequest_def demo_score_def LookupRequestUnlocked_def)
  from d deleted_request_still_writes [OF d] show ?thesis by blast
qed

end
