(* ===== verification/NpTus.thy ===== *)
theory NpTus
  imports HandlerTusReply NpManager RequestTable
begin

text \<open>
  The storage library a game calls (np_tus.cpp): title contexts, requests, the transfer of data in
  pieces that a request remembers, and the frame that all its calls share: they check their
  arguments in the order of the code, resolve the request, put a new context into it, and hand it
  to the handler. A call that waits answers \<open>WaitFor\<close>. The address of a new context is an argument.
  Arrays that a call reads are passed as their contents, \<open>None\<close> for a null pointer; arrays that it
  has filled are addresses in the memory of the handler's state.
\<close>

section \<open>State\<close>

record NpTusDataXfer =
  xf_active :: bool
  xf_slot_id :: s32
  xf_account_id :: s64
  xf_virtual_user :: bytes
  xf_send_buf :: bytes
  xf_total_size :: u64
  xf_info :: bytes
  xf_recv_offset :: u64

definition no_xfer :: NpTusDataXfer where
  "no_xfer = \<lparr>xf_active = False, xf_slot_id = -1, xf_account_id = 0, xf_virtual_user = [], xf_send_buf = [],
     xf_total_size = 0, xf_info = [], xf_recv_offset = 0\<rparr>"

definition SameTarget :: "s32 \<Rightarrow> s64 \<Rightarrow> bytes \<Rightarrow> NpTusDataXfer \<Rightarrow> bool" where
  "SameTarget slot account vuser x \<longleftrightarrow>
     xf_active x \<and> xf_slot_id x = slot \<and> xf_account_id x = account \<and> xf_virtual_user x = vuser"

definition BeginXfer :: "s32 \<Rightarrow> s64 \<Rightarrow> bytes \<Rightarrow> NpTusDataXfer" where
  "BeginXfer slot account vuser =
     no_xfer\<lparr>xf_active := True, xf_slot_id := slot, xf_account_id := account, xf_virtual_user := vuser\<rparr>"

record NpTusRequest =
  tr_title_ctx_id :: s32
  tr_ctx :: "addr option"
  tr_xfer :: NpTusDataXfer

record NpTusTitleContext =
  tt_service_label :: u32
  tt_np_id :: OrbisNpId

record NpTus =
  nt_title_ctxs :: "(s32 \<times> NpTusTitleContext) list"
  nt_requests :: "(s32 \<times> NpTusRequest) list"
  nt_next_ctx_id :: s32
  nt_next_req_id :: s32

definition init_tus :: NpTus where
  "init_tus = \<lparr>nt_title_ctxs = [], nt_requests = [], nt_next_ctx_id = 1, nt_next_req_id = 1\<rparr>"

definition TusMaxTitleCtx :: nat where [simp]: "TusMaxTitleCtx = 32"
definition TusMaxRequests :: nat where [simp]: "TusMaxRequests = 256"
definition TusMaxSlotsPerRequest :: s32 where [simp]: "TusMaxSlotsPerRequest = 64"
definition TusMaxSelectedFriends :: s32 where [simp]: "TusMaxSelectedFriends = 100"
definition TssMaxSize :: u64 where [simp]: "TssMaxSize = 64 * 1024"
definition TssMaxSlotId :: s32 where [simp]: "TssMaxSlotId = 15"
definition TusMaxUsersPerRequest :: s32 where [simp]: "TusMaxUsersPerRequest = 101"

definition new_tus_ctx :: TusRequestCtx where
  "new_tus_ctx = \<lparr>tc_result = None\<rparr>"

definition put_tus_ctx :: "addr \<Rightarrow> TusRequestCtx \<Rightarrow> NpHandler \<Rightarrow> NpHandler" where
  "put_tus_ctx a c h = h\<lparr>hn_tus_ctxs := (hn_tus_ctxs h)(a \<mapsto> c)\<rparr>"

section \<open>Title contexts\<close>

definition sceNpTusCreateNpTitleCtx :: "u32 \<Rightarrow> OrbisNpId option \<Rightarrow> NpTus \<Rightarrow> s32 \<times> NpTus" where
  "sceNpTusCreateNpTitleCtx service_label np_id n =
     (case np_id of
        None \<Rightarrow> (ORBIS_NP_COMMUNITY_ERROR_INSUFFICIENT_ARGUMENT, n)
      | Some np \<Rightarrow>
          if service_label = ORBIS_NP_INVALID_SERVICE_LABEL then (ORBIS_NP_COMMUNITY_ERROR_INVALID_ARGUMENT, n)
          else if length (nt_title_ctxs n) \<ge> TusMaxTitleCtx then (ORBIS_NP_COMMUNITY_ERROR_TOO_MANY_OBJECTS, n)
          else (nt_next_ctx_id n, n\<lparr>nt_next_ctx_id := to_s32 (nt_next_ctx_id n + 1),
                 nt_title_ctxs := omap_emplace (nt_next_ctx_id n) \<lparr>tt_service_label = service_label, tt_np_id = np\<rparr>
                                    (nt_title_ctxs n)\<rparr>))"

definition sceNpTssCreateNpTitleCtx :: "u32 \<Rightarrow> OrbisNpId option \<Rightarrow> NpTus \<Rightarrow> s32 \<times> NpTus" where
  "sceNpTssCreateNpTitleCtx = sceNpTusCreateNpTitleCtx"

definition sceNpTusCreateNpTitleCtxA :: "s32 \<Rightarrow> u32 \<Rightarrow> s32 \<Rightarrow> NpHandler \<Rightarrow> NpTus \<Rightarrow> s32 \<times> NpTus" where
  "sceNpTusCreateNpTitleCtxA firmware service_label user_id h n =
     (case sceNpGetNpId firmware user_id True h of
        (ret, np_id) \<Rightarrow> if ret < 0 then (ret, n) else sceNpTusCreateNpTitleCtx service_label np_id n)"

definition sceNpTssCreateNpTitleCtxA :: "s32 \<Rightarrow> u32 \<Rightarrow> s32 \<Rightarrow> NpHandler \<Rightarrow> NpTus \<Rightarrow> s32 \<times> NpTus" where
  "sceNpTssCreateNpTitleCtxA = sceNpTusCreateNpTitleCtxA"

text \<open>The result of a context that is there; a request may have none yet.\<close>

definition set_result :: "s32 \<Rightarrow> addr option \<Rightarrow> NpHandler \<Rightarrow> NpHandler" where
  "set_result r ctx h = (case ctx of None \<Rightarrow> h | Some a \<Rightarrow> tus_set a r h)"

definition sceNpTusDeleteNpTitleCtx :: "s32 \<Rightarrow> NpTus \<Rightarrow> NpHandler \<Rightarrow> s32 \<times> NpTus \<times> NpHandler" where
  "sceNpTusDeleteNpTitleCtx ctx_id n h =
     (if map_of (nt_title_ctxs n) ctx_id = None then (ORBIS_NP_COMMUNITY_ERROR_INVALID_ID, n, h)
      else (ORBIS_OK,
        n\<lparr>nt_requests := filter (\<lambda>(_, r). tr_title_ctx_id r \<noteq> ctx_id) (nt_requests n),
          nt_title_ctxs := omap_erase ctx_id (nt_title_ctxs n)\<rparr>,
        fold (\<lambda>(_, r). set_result ORBIS_NP_COMMUNITY_ERROR_ABORTED (tr_ctx r))
          (filter (\<lambda>(_, r). tr_title_ctx_id r = ctx_id) (nt_requests n)) h))"

section \<open>Requests\<close>

definition sceNpTusCreateRequest :: "s32 \<Rightarrow> NpTus \<Rightarrow> s32 \<times> NpTus" where
  "sceNpTusCreateRequest lib_ctx_id n =
     (if map_of (nt_title_ctxs n) lib_ctx_id = None then (ORBIS_NP_COMMUNITY_ERROR_INVALID_ID, n)
      else if length (nt_requests n) \<ge> TusMaxRequests then (ORBIS_NP_COMMUNITY_ERROR_TOO_MANY_OBJECTS, n)
      else (nt_next_req_id n, n\<lparr>nt_next_req_id := to_s32 (nt_next_req_id n + 1),
             nt_requests := omap_emplace (nt_next_req_id n)
               \<lparr>tr_title_ctx_id = lib_ctx_id, tr_ctx = None, tr_xfer = no_xfer\<rparr> (nt_requests n)\<rparr>))"

definition sceNpTusDeleteRequest :: "s32 \<Rightarrow> NpTus \<Rightarrow> NpHandler \<Rightarrow> s32 \<times> NpTus \<times> NpHandler" where
  "sceNpTusDeleteRequest request_id n h =
     (case map_of (nt_requests n) request_id of
        None \<Rightarrow> (ORBIS_NP_COMMUNITY_ERROR_INVALID_ID, n, h)
      | Some r \<Rightarrow> (ORBIS_OK, n\<lparr>nt_requests := omap_erase request_id (nt_requests n)\<rparr>,
                   set_result ORBIS_NP_COMMUNITY_ERROR_ABORTED (tr_ctx r) h))"

definition sceNpTusAbortRequest :: "s32 \<Rightarrow> NpTus \<Rightarrow> NpHandler \<Rightarrow> s32 \<times> NpHandler" where
  "sceNpTusAbortRequest req_id n h =
     (case map_of (nt_requests n) req_id of
        None \<Rightarrow> (ORBIS_NP_COMMUNITY_ERROR_INVALID_ID, h)
      | Some r \<Rightarrow> (ORBIS_OK, set_result ORBIS_NP_COMMUNITY_ERROR_ABORTED (tr_ctx r) h))"

text \<open>What a thread that waits for the context gets, \<open>None\<close> while it blocks.\<close>

definition tus_result :: "addr \<Rightarrow> NpHandler \<Rightarrow> s32 option" where
  "tus_result a h = (case hn_tus_ctxs h a of None \<Rightarrow> None | Some c \<Rightarrow> tc_result c)"

text \<open>The second component is what is written to the result pointer.\<close>

definition sceNpTusPollAsync :: "s32 \<Rightarrow> bool \<Rightarrow> NpTus \<Rightarrow> NpHandler \<Rightarrow> s32 \<times> s32 option" where
  "sceNpTusPollAsync req_id has_result n h =
     (case map_of (nt_requests n) req_id of
        None \<Rightarrow> (ORBIS_NP_COMMUNITY_ERROR_INVALID_ID, None)
      | Some r \<Rightarrow>
          (case tr_ctx r of
             None \<Rightarrow> (1, None)
           | Some a \<Rightarrow>
               (case tus_result a h of
                  None \<Rightarrow> (1, None)
                | Some res \<Rightarrow> (0, if has_result then Some res else None))))"

text \<open>An error, or the context whose result is waited for and written to the result pointer.\<close>

definition sceNpTusWaitAsync :: "s32 \<Rightarrow> NpTus \<Rightarrow> s32 + addr" where
  "sceNpTusWaitAsync req_id n =
     (case map_of (nt_requests n) req_id of
        None \<Rightarrow> Inl ORBIS_NP_COMMUNITY_ERROR_INVALID_ID
      | Some r \<Rightarrow> (case tr_ctx r of None \<Rightarrow> Inl ORBIS_NP_COMMUNITY_ERROR_INVALID_ARGUMENT | Some a \<Rightarrow> Inr a))"

definition FakeAsyncComplete :: "s32 \<Rightarrow> s32 \<Rightarrow> addr \<Rightarrow> NpTus \<Rightarrow> NpHandler \<Rightarrow> s32 \<times> NpTus \<times> NpHandler" where
  "FakeAsyncComplete req_id result fresh n h =
     (case map_of (nt_requests n) req_id of
        None \<Rightarrow> (ORBIS_NP_COMMUNITY_ERROR_INVALID_ID, n, h)
      | Some r \<Rightarrow> (ORBIS_OK, n\<lparr>nt_requests := omap_put req_id (r\<lparr>tr_ctx := Some fresh\<rparr>) (nt_requests n)\<rparr>,
                   put_tus_ctx fresh (TusSetResult result new_tus_ctx) h))"

definition GetTusRequest :: "s32 \<Rightarrow> NpTus \<Rightarrow> s32 + NpTusRequest" where
  "GetTusRequest request_id n =
     (case map_of (nt_requests n) request_id of
        None \<Rightarrow> Inl ORBIS_NP_COMMUNITY_ERROR_INVALID_ID
      | Some r \<Rightarrow> Inr r)"

text \<open>
  A C string that starts at the character array of an Np id: up to the first zero, which may come
  after the array.
\<close>

definition np_id_string :: "OrbisNpId \<Rightarrow> bytes" where
  "np_id_string np =
     takeWhile (\<lambda>b. b \<noteq> 0) (oid_data (handle np) @ [oid_term (handle np)] @ oid_dummy (handle np) @ opt np @ np_reserved np)"

definition ResolveTus :: "s32 \<Rightarrow> NpTus \<Rightarrow> NpHandler \<Rightarrow> s32 + (NpTusRequest \<times> u32 \<times> s32 \<times> bytes)" where
  "ResolveTus request_id n h =
     (case map_of (nt_requests n) request_id of
        None \<Rightarrow> Inl ORBIS_NP_COMMUNITY_ERROR_INVALID_ID
      | Some r \<Rightarrow>
          (case map_of (nt_title_ctxs n) (tr_title_ctx_id r) of
             None \<Rightarrow> Inl ORBIS_NP_COMMUNITY_ERROR_INVALID_ID
           | Some tc \<Rightarrow> Inr (r, tt_service_label tc, GetUserIdByOnlineId (handle (tt_np_id tc)) h, np_id_string (tt_np_id tc))))"

section \<open>Checks\<close>

text \<open>A check gives an error, or none, or reads outside an array of the game. The first error counts.\<close>

fun first_error :: "s32 option outcome list \<Rightarrow> s32 option outcome" where
  "first_error [] = Returned None"
| "first_error (c # cs) = bind_outcome c (\<lambda>e. case e of Some err \<Rightarrow> Returned (Some err) | None \<Rightarrow> first_error cs)"

definition check :: "bool \<Rightarrow> s32 \<Rightarrow> s32 option outcome" where
  "check b err = Returned (if b then Some err else None)"

text \<open>A check of the first \<open>len\<close> elements of an array, which stops at the first bad one.\<close>

definition check_all :: "('a \<Rightarrow> bool) \<Rightarrow> s32 \<Rightarrow> 'a list option \<Rightarrow> s32 \<Rightarrow> s32 option outcome" where
  "check_all bad len p err =
     (case p of
        None \<Rightarrow> OutOfBounds
      | Some xs \<Rightarrow>
          if \<exists>x \<in> set (take (nat len) xs). bad x then Returned (Some err)
          else if nat len \<le> length xs then Returned None else OutOfBounds)"

definition check_slots :: "s32 \<Rightarrow> s32 list option \<Rightarrow> s32 option outcome" where
  "check_slots len slot_ids = check_all (\<lambda>i. i < 0) len slot_ids ORBIS_NP_COMMUNITY_ERROR_INVALID_ARGUMENT"

text \<open>The name of a virtual user, which must not be empty.\<close>

definition vuser_name :: "bytes \<Rightarrow> bytes" where
  "vuser_name d = takeWhile (\<lambda>b. b \<noteq> 0) (take ORBIS_NP_ONLINEID_MAX_LENGTH d)"

definition vuser :: "bytes option \<Rightarrow> bytes" where
  "vuser p = (case p of None \<Rightarrow> [] | Some d \<Rightarrow> vuser_name d)"

definition check_vuser :: "bytes option \<Rightarrow> s32 option outcome" where
  "check_vuser p = check (vuser p = []) ORBIS_NP_COMMUNITY_ERROR_INVALID_ARGUMENT"

definition check_vusers :: "s32 \<Rightarrow> bytes list option \<Rightarrow> s32 option outcome" where
  "check_vusers len ps = check_all (\<lambda>d. vuser_name d = []) len ps ORBIS_NP_COMMUNITY_ERROR_INVALID_ARGUMENT"

text \<open>The size in bytes of an array of \<open>len\<close> elements.\<close>

definition array_bytes :: "s32 \<Rightarrow> nat \<Rightarrow> u64" where
  "array_bytes len elem = word_of_int len * of_nat elem"

section \<open>The frame of a call\<close>

text \<open>Reading the first \<open>k\<close> elements of an array.\<close>

definition read_n :: "nat \<Rightarrow> 'a list option \<Rightarrow> 'a list outcome" where
  "read_n k p = (case p of None \<Rightarrow> OutOfBounds | Some xs \<Rightarrow> if k \<le> length xs then Returned (take k xs) else OutOfBounds)"

text \<open>
  What a call gathers before its context is made: it may read arrays and it may change the transfer
  of the request. It is given the online id of the title context.
\<close>

type_synonym 'x gather = "bytes \<Rightarrow> NpTusDataXfer \<Rightarrow> ('x \<times> NpTusDataXfer) outcome"

definition reading :: "'x outcome \<Rightarrow> 'x gather" where
  "reading m self x = bind_outcome m (\<lambda>v. Returned (v, x))"

type_synonym tus_step = "NpTus \<Rightarrow> NpHandler \<Rightarrow> (s32 \<times> NpTus \<times> NpHandler) outcome"

text \<open>\<open>send\<close> is given the label, the user, the online id, what was gathered and the context.\<close>

definition tus_call ::
  "s32 \<Rightarrow> s32 option outcome list \<Rightarrow> 'x gather \<Rightarrow>
   (s32 \<Rightarrow> s32 \<Rightarrow> bytes \<Rightarrow> 'x \<Rightarrow> addr \<Rightarrow> NpHandler \<Rightarrow> s32 \<times> NpHandler) \<Rightarrow> addr \<Rightarrow> tus_step" where
  "tus_call req_id checks gather send fresh n h =
     bind_outcome (first_error checks) (\<lambda>err.
       case err of
         Some e \<Rightarrow> Returned (e, n, h)
       | None \<Rightarrow>
           (case ResolveTus req_id n h of
              Inl e \<Rightarrow> Returned (e, n, h)
            | Inr (req, svc, uid, self) \<Rightarrow>
                bind_outcome (gather self (tr_xfer req)) (\<lambda>(x, xfer).
                  let n1 = n\<lparr>nt_requests := omap_put req_id (req\<lparr>tr_ctx := Some fresh, tr_xfer := xfer\<rparr>) (nt_requests n)\<rparr>
                  in case send (to_s32 (uint svc)) uid self x fresh (put_tus_ctx fresh new_tus_ctx h) of
                       (submit, h1) \<Rightarrow> Returned (if submit < 0 then submit else ORBIS_OK, n1, h1))))"

text \<open>A call that waits: the asynchronous call, then the result of the request.\<close>

definition tus_sync :: "s32 \<Rightarrow> tus_step \<Rightarrow> NpTus \<Rightarrow> NpHandler \<Rightarrow> (answer \<times> NpTus \<times> NpHandler) outcome" where
  "tus_sync req_id async n h =
     bind_outcome (async n h) (\<lambda>(ret, n1, h1). Returned
       (if ret < 0 then Answer ret
        else (case sceNpTusWaitAsync req_id n1 of Inl err \<Rightarrow> Answer err | Inr a \<Rightarrow> WaitFor a), n1, h1))"

type_synonym tus_wait_step = "NpTus \<Rightarrow> NpHandler \<Rightarrow> (answer \<times> NpTus \<times> NpHandler) outcome"

section \<open>Owners, authors and outputs\<close>

text \<open>The online id the game names, or its own when it names none.\<close>

definition owner_of :: "OrbisNpId option \<Rightarrow> bytes \<Rightarrow> bytes" where
  "owner_of np_id self =
     (case np_id of
        None \<Rightarrow> self
      | Some np \<Rightarrow> if oid_data (handle np) ! 0 \<noteq> 0 then np_id_string np else self)"

text \<open>The same for an element of an array, whose id is read within the character array.\<close>

definition owner_in :: "bytes \<Rightarrow> OrbisNpId \<Rightarrow> bytes" where
  "owner_in self np = (if oid_data (handle np) ! 0 \<noteq> 0 then OnlineIdFromNpId np else self)"

definition author_string :: "OrbisNpId option \<Rightarrow> bytes" where
  "author_string author = (case author of None \<Rightarrow> [] | Some np \<Rightarrow> np_id_string np)"

definition author_account :: "u64 option \<Rightarrow> s64" where
  "author_account author = (case author of None \<Rightarrow> 0 | Some account \<Rightarrow> to_s64 (uint account))"

definition date_tick :: "u64 option \<Rightarrow> u64" where
  "date_tick date = (case date of None \<Rightarrow> 0 | Some tick \<Rightarrow> tick)"

definition var_plain :: "addr option \<Rightarrow> VarOut" where "var_plain p = \<lparr>vo_plain = p, vo_a = None, vo_cs = None\<rparr>"
definition var_a :: "addr option \<Rightarrow> VarOut" where "var_a p = \<lparr>vo_plain = None, vo_a = p, vo_cs = None\<rparr>"
definition var_cs :: "addr option \<Rightarrow> VarOut" where "var_cs p = \<lparr>vo_plain = None, vo_a = None, vo_cs = p\<rparr>"
definition status_plain :: "addr option \<Rightarrow> StatusOut" where "status_plain p = \<lparr>so_plain = p, so_a = None, so_cs = None\<rparr>"
definition status_a :: "addr option \<Rightarrow> StatusOut" where "status_a p = \<lparr>so_plain = None, so_a = p, so_cs = None\<rparr>"
definition status_cs :: "addr option \<Rightarrow> StatusOut" where "status_cs p = \<lparr>so_plain = None, so_a = None, so_cs = p\<rparr>"

text \<open>The sizes of the structures a game passes arrays of.\<close>

definition sizeof_variable :: nat where "sizeof_variable = 120"
definition sizeof_variable_a :: nat where "sizeof_variable_a = 120"
definition sizeof_variable_cs :: nat where "sizeof_variable_cs = 120"

end
