(* ===== verification/NpTusVar.thy ===== *)
theory NpTusVar
  imports NpTus
begin

text \<open>
  The calls of the storage library (np_tus.cpp) for variables: of a user, a virtual user or an
  account, of several of them, and of friends. Each asynchronous call is its checks in the order of
  the code and what it hands to the handler; each call that waits is the asynchronous one and a wait.
\<close>

definition ORBIS_NP_TUS_OPETYPE_EQUAL :: s32 where [simp]: "ORBIS_NP_TUS_OPETYPE_EQUAL = 1"
definition ORBIS_NP_TUS_OPETYPE_LESS_OR_EQUAL :: s32 where [simp]: "ORBIS_NP_TUS_OPETYPE_LESS_OR_EQUAL = 6"
definition ORBIS_NP_TUS_VARIABLE_SORTTYPE_DESCENDING_DATE :: s32 where
  [simp]: "ORBIS_NP_TUS_VARIABLE_SORTTYPE_DESCENDING_DATE = 1"
definition ORBIS_NP_TUS_VARIABLE_SORTTYPE_ASCENDING_VALUE :: s32 where
  [simp]: "ORBIS_NP_TUS_VARIABLE_SORTTYPE_ASCENDING_VALUE = 4"

section \<open>Reading variables of a user\<close>

definition sceNpTusGetMultiSlotVariableAsync ::
  "HandlerConfig \<Rightarrow> s32 \<Rightarrow> OrbisNpId option \<Rightarrow> s32 list option \<Rightarrow>
   addr option \<Rightarrow> u64 \<Rightarrow> s32 \<Rightarrow> bool \<Rightarrow> addr \<Rightarrow> tus_step" where
  "sceNpTusGetMultiSlotVariableAsync cfg req_id np_id slot_ids variable_array variables_size array_len has_option fresh =
     tus_call req_id
       [check (slot_ids = None \<or> variable_array = None) ORBIS_NP_COMMUNITY_ERROR_INSUFFICIENT_ARGUMENT,
        check (array_len < 1 \<or> has_option) ORBIS_NP_COMMUNITY_ERROR_INVALID_ARGUMENT,
        check (array_len > TusMaxSlotsPerRequest) ORBIS_NP_COMMUNITY_ERROR_TOO_MANY_SLOTID,
        check_slots array_len slot_ids,
        check (variables_size \<noteq> array_bytes array_len sizeof_variable) ORBIS_NP_COMMUNITY_ERROR_INVALID_ALIGNMENT]
       (reading (read_n (nat array_len) slot_ids))
       (\<lambda>svc uid self slots ctx. TusGetMultiSlotVariable cfg uid svc (owner_of np_id self) [] slots
          (var_plain variable_array) (word_of_int array_len) (Some ctx) 0)
       fresh"

definition sceNpTusGetMultiSlotVariable ::
  "HandlerConfig \<Rightarrow> s32 \<Rightarrow> OrbisNpId option \<Rightarrow> s32 list option \<Rightarrow>
   addr option \<Rightarrow> u64 \<Rightarrow> s32 \<Rightarrow> bool \<Rightarrow> addr \<Rightarrow> tus_wait_step" where
  "sceNpTusGetMultiSlotVariable cfg req_id np_id slot_ids variable_array variables_size array_len has_option fresh =
     tus_sync req_id (sceNpTusGetMultiSlotVariableAsync cfg req_id np_id slot_ids variable_array variables_size array_len
          has_option fresh)"

definition sceNpTusGetMultiSlotVariableAVUserAsync ::
  "HandlerConfig \<Rightarrow> s32 \<Rightarrow> bytes option \<Rightarrow> s32 list option \<Rightarrow>
   addr option \<Rightarrow> u64 \<Rightarrow> s32 \<Rightarrow> bool \<Rightarrow> addr \<Rightarrow> tus_step" where
  "sceNpTusGetMultiSlotVariableAVUserAsync cfg req_id virtual_user_id slot_ids variable_array variables_size array_len
     has_option fresh =
     tus_call req_id
       [check (virtual_user_id = None \<or> slot_ids = None \<or> variable_array = None)
          ORBIS_NP_COMMUNITY_ERROR_INSUFFICIENT_ARGUMENT,
        check (array_len < 1 \<or> has_option) ORBIS_NP_COMMUNITY_ERROR_INVALID_ARGUMENT,
        check (array_len > TusMaxSlotsPerRequest) ORBIS_NP_COMMUNITY_ERROR_TOO_MANY_SLOTID,
        check_slots array_len slot_ids,
        check (variables_size \<noteq> array_bytes array_len sizeof_variable_a) ORBIS_NP_COMMUNITY_ERROR_INVALID_ALIGNMENT,
        check_vuser virtual_user_id]
       (reading (read_n (nat array_len) slot_ids))
       (\<lambda>svc uid self slots ctx. TusGetMultiSlotVariable cfg uid svc [] (vuser virtual_user_id) slots
          (var_a variable_array) (word_of_int array_len) (Some ctx) 0)
       fresh"

definition sceNpTusGetMultiSlotVariableAVUser ::
  "HandlerConfig \<Rightarrow> s32 \<Rightarrow> bytes option \<Rightarrow> s32 list option \<Rightarrow>
   addr option \<Rightarrow> u64 \<Rightarrow> s32 \<Rightarrow> bool \<Rightarrow> addr \<Rightarrow> tus_wait_step" where
  "sceNpTusGetMultiSlotVariableAVUser cfg req_id virtual_user_id slot_ids variable_array variables_size array_len has_option
     fresh =
     tus_sync req_id (sceNpTusGetMultiSlotVariableAVUserAsync cfg req_id virtual_user_id slot_ids variable_array variables_size
          array_len has_option fresh)"

definition sceNpTusGetMultiSlotVariableAAsync ::
  "HandlerConfig \<Rightarrow> s32 \<Rightarrow> u64 \<Rightarrow> s32 list option \<Rightarrow> addr option \<Rightarrow>
   u64 \<Rightarrow> s32 \<Rightarrow> bool \<Rightarrow> addr \<Rightarrow> tus_step" where
  "sceNpTusGetMultiSlotVariableAAsync cfg req_id target_account_id slot_ids variable_array variables_size array_len
     has_option fresh =
     tus_call req_id
       [check (slot_ids = None \<or> variable_array = None) ORBIS_NP_COMMUNITY_ERROR_INSUFFICIENT_ARGUMENT,
        check (array_len < 1 \<or> has_option) ORBIS_NP_COMMUNITY_ERROR_INVALID_ARGUMENT,
        check (array_len > TusMaxSlotsPerRequest) ORBIS_NP_COMMUNITY_ERROR_TOO_MANY_SLOTID,
        check_slots array_len slot_ids,
        check (variables_size \<noteq> array_bytes array_len sizeof_variable_a) ORBIS_NP_COMMUNITY_ERROR_INVALID_ALIGNMENT]
       (reading (read_n (nat array_len) slot_ids))
       (\<lambda>svc uid self slots ctx. TusGetMultiSlotVariable cfg uid svc [] [] slots
          (var_a variable_array) (word_of_int array_len) (Some ctx) (to_s64 (uint target_account_id)))
       fresh"

definition sceNpTusGetMultiSlotVariableA ::
  "HandlerConfig \<Rightarrow> s32 \<Rightarrow> u64 \<Rightarrow> s32 list option \<Rightarrow> addr option \<Rightarrow>
   u64 \<Rightarrow> s32 \<Rightarrow> bool \<Rightarrow> addr \<Rightarrow> tus_wait_step" where
  "sceNpTusGetMultiSlotVariableA cfg req_id target_account_id slot_ids variable_array variables_size array_len has_option
     fresh =
     tus_sync req_id (sceNpTusGetMultiSlotVariableAAsync cfg req_id target_account_id slot_ids variable_array variables_size
          array_len has_option fresh)"

definition sceNpTusGetMultiSlotVariableVUserAsync ::
  "HandlerConfig \<Rightarrow> s32 \<Rightarrow> bytes option \<Rightarrow> s32 list option \<Rightarrow>
   addr option \<Rightarrow> u64 \<Rightarrow> s32 \<Rightarrow> bool \<Rightarrow> addr \<Rightarrow> tus_step" where
  "sceNpTusGetMultiSlotVariableVUserAsync cfg req_id target_virtual_user_id slot_ids variable_array variable_array_size
     array_len has_option fresh =
     tus_call req_id
       [check (target_virtual_user_id = None \<or> slot_ids = None \<or> variable_array = None \<or> array_len < 1)
          ORBIS_NP_COMMUNITY_ERROR_INSUFFICIENT_ARGUMENT,
        check has_option ORBIS_NP_COMMUNITY_ERROR_INVALID_ARGUMENT,
        check (array_len > TusMaxSlotsPerRequest) ORBIS_NP_COMMUNITY_ERROR_TOO_MANY_SLOTID,
        check_slots array_len slot_ids,
        check (variable_array_size \<noteq> array_bytes array_len sizeof_variable) ORBIS_NP_COMMUNITY_ERROR_INVALID_ALIGNMENT,
        check_vuser target_virtual_user_id]
       (reading (read_n (nat array_len) slot_ids))
       (\<lambda>svc uid self slots ctx. TusGetMultiSlotVariable cfg uid svc [] (vuser target_virtual_user_id) slots
          (var_plain variable_array) (word_of_int array_len) (Some ctx) 0)
       fresh"

definition sceNpTusGetMultiSlotVariableVUser ::
  "HandlerConfig \<Rightarrow> s32 \<Rightarrow> bytes option \<Rightarrow> s32 list option \<Rightarrow>
   addr option \<Rightarrow> u64 \<Rightarrow> s32 \<Rightarrow> bool \<Rightarrow> addr \<Rightarrow> tus_wait_step" where
  "sceNpTusGetMultiSlotVariableVUser cfg req_id target_virtual_user_id slot_ids variable_array variable_array_size array_len
     has_option fresh =
     tus_sync req_id (sceNpTusGetMultiSlotVariableVUserAsync cfg req_id target_virtual_user_id slot_ids variable_array
          variable_array_size array_len has_option fresh)"

definition sceNpTusGetMultiSlotVariableForCrossSaveAsync ::
  "HandlerConfig \<Rightarrow> s32 \<Rightarrow> u64 \<Rightarrow> s32 list option \<Rightarrow> addr option \<Rightarrow>
   u64 \<Rightarrow> s32 \<Rightarrow> bool \<Rightarrow> addr \<Rightarrow> tus_step" where
  "sceNpTusGetMultiSlotVariableForCrossSaveAsync cfg req_id target_account_id slot_ids variable_array variables_size
     array_len has_option fresh =
     tus_call req_id
       [check (slot_ids = None \<or> variable_array = None) ORBIS_NP_COMMUNITY_ERROR_INSUFFICIENT_ARGUMENT,
        check (array_len < 1 \<or> has_option) ORBIS_NP_COMMUNITY_ERROR_INVALID_ARGUMENT,
        check (array_len > TusMaxSlotsPerRequest) ORBIS_NP_COMMUNITY_ERROR_TOO_MANY_SLOTID,
        check_slots array_len slot_ids,
        check (variables_size \<noteq> array_bytes array_len sizeof_variable_cs) ORBIS_NP_COMMUNITY_ERROR_INVALID_ALIGNMENT]
       (reading (read_n (nat array_len) slot_ids))
       (\<lambda>svc uid self slots ctx. TusGetMultiSlotVariable cfg uid svc [] [] slots
          (var_cs variable_array) (word_of_int array_len) (Some ctx) (to_s64 (uint target_account_id)))
       fresh"

definition sceNpTusGetMultiSlotVariableForCrossSave ::
  "HandlerConfig \<Rightarrow> s32 \<Rightarrow> u64 \<Rightarrow> s32 list option \<Rightarrow> addr option \<Rightarrow>
   u64 \<Rightarrow> s32 \<Rightarrow> bool \<Rightarrow> addr \<Rightarrow> tus_wait_step" where
  "sceNpTusGetMultiSlotVariableForCrossSave cfg req_id target_account_id slot_ids variable_array variables_size array_len
     has_option fresh =
     tus_sync req_id (sceNpTusGetMultiSlotVariableForCrossSaveAsync cfg req_id target_account_id slot_ids variable_array
          variables_size array_len has_option fresh)"

definition sceNpTusGetMultiSlotVariableForCrossSaveVUserAsync ::
  "HandlerConfig \<Rightarrow> s32 \<Rightarrow> bytes option \<Rightarrow> s32 list option \<Rightarrow>
   addr option \<Rightarrow> u64 \<Rightarrow> s32 \<Rightarrow> bool \<Rightarrow> addr \<Rightarrow> tus_step" where
  "sceNpTusGetMultiSlotVariableForCrossSaveVUserAsync cfg req_id virtual_user_id slot_ids variable_array variables_size
     array_len has_option fresh =
     tus_call req_id
       [check (virtual_user_id = None \<or> slot_ids = None \<or> variable_array = None)
          ORBIS_NP_COMMUNITY_ERROR_INSUFFICIENT_ARGUMENT,
        check (array_len < 1 \<or> has_option) ORBIS_NP_COMMUNITY_ERROR_INVALID_ARGUMENT,
        check (array_len > TusMaxSlotsPerRequest) ORBIS_NP_COMMUNITY_ERROR_TOO_MANY_SLOTID,
        check_slots array_len slot_ids,
        check (variables_size \<noteq> array_bytes array_len sizeof_variable_cs) ORBIS_NP_COMMUNITY_ERROR_INVALID_ALIGNMENT,
        check_vuser virtual_user_id]
       (reading (read_n (nat array_len) slot_ids))
       (\<lambda>svc uid self slots ctx. TusGetMultiSlotVariable cfg uid svc [] (vuser virtual_user_id) slots
          (var_cs variable_array) (word_of_int array_len) (Some ctx) 0)
       fresh"

definition sceNpTusGetMultiSlotVariableForCrossSaveVUser ::
  "HandlerConfig \<Rightarrow> s32 \<Rightarrow> bytes option \<Rightarrow> s32 list option \<Rightarrow>
   addr option \<Rightarrow> u64 \<Rightarrow> s32 \<Rightarrow> bool \<Rightarrow> addr \<Rightarrow> tus_wait_step" where
  "sceNpTusGetMultiSlotVariableForCrossSaveVUser cfg req_id virtual_user_id slot_ids variable_array variables_size array_len
     has_option fresh =
     tus_sync req_id (sceNpTusGetMultiSlotVariableForCrossSaveVUserAsync cfg req_id virtual_user_id slot_ids variable_array
          variables_size array_len has_option fresh)"

section \<open>Setting and deleting variables\<close>

definition sceNpTusSetMultiSlotVariableAsync ::
  "HandlerConfig \<Rightarrow> s32 \<Rightarrow> OrbisNpId option \<Rightarrow> s32 list option \<Rightarrow>
   s64 list option \<Rightarrow> s32 \<Rightarrow> bool \<Rightarrow> addr \<Rightarrow> tus_step" where
  "sceNpTusSetMultiSlotVariableAsync cfg req_id np_id slot_ids variables array_len has_option fresh =
     tus_call req_id
       [check (slot_ids = None \<or> variables = None) ORBIS_NP_COMMUNITY_ERROR_INSUFFICIENT_ARGUMENT,
        check (array_len < 1 \<or> has_option) ORBIS_NP_COMMUNITY_ERROR_INVALID_ARGUMENT,
        check (array_len > TusMaxSlotsPerRequest) ORBIS_NP_COMMUNITY_ERROR_TOO_MANY_SLOTID,
        check_slots array_len slot_ids]
       (reading (bind_outcome (read_n (nat array_len) slot_ids) (\<lambda>slots.
          bind_outcome (read_n (nat array_len) variables) (\<lambda>vals. Returned (slots, vals)))))
       (\<lambda>svc uid self (slots, vals) ctx. TusSetMultiSlotVariable cfg uid svc (owner_of np_id self) [] slots vals (Some ctx) 0)
       fresh"

definition sceNpTusSetMultiSlotVariable ::
  "HandlerConfig \<Rightarrow> s32 \<Rightarrow> OrbisNpId option \<Rightarrow> s32 list option \<Rightarrow>
   s64 list option \<Rightarrow> s32 \<Rightarrow> bool \<Rightarrow> addr \<Rightarrow> tus_wait_step" where
  "sceNpTusSetMultiSlotVariable cfg req_id np_id slot_ids variables array_len has_option fresh =
     tus_sync req_id (sceNpTusSetMultiSlotVariableAsync cfg req_id np_id slot_ids variables array_len has_option fresh)"

definition sceNpTusSetMultiSlotVariableVUserAsync ::
  "HandlerConfig \<Rightarrow> s32 \<Rightarrow> bytes option \<Rightarrow> s32 list option \<Rightarrow>
   s64 list option \<Rightarrow> s32 \<Rightarrow> bool \<Rightarrow> addr \<Rightarrow> tus_step" where
  "sceNpTusSetMultiSlotVariableVUserAsync cfg req_id virtual_user_id slot_ids variables array_len has_option fresh =
     tus_call req_id
       [check (virtual_user_id = None \<or> slot_ids = None \<or> variables = None) ORBIS_NP_COMMUNITY_ERROR_INSUFFICIENT_ARGUMENT,
        check (array_len < 1 \<or> has_option) ORBIS_NP_COMMUNITY_ERROR_INVALID_ARGUMENT,
        check (array_len > TusMaxSlotsPerRequest) ORBIS_NP_COMMUNITY_ERROR_TOO_MANY_SLOTID,
        check_slots array_len slot_ids,
        check_vuser virtual_user_id]
       (reading (bind_outcome (read_n (nat array_len) slot_ids) (\<lambda>slots.
          bind_outcome (read_n (nat array_len) variables) (\<lambda>vals. Returned (slots, vals)))))
       (\<lambda>svc uid self (slots, vals) ctx. TusSetMultiSlotVariable cfg uid svc [] (vuser virtual_user_id) slots vals (Some ctx) 0)
       fresh"

definition sceNpTusSetMultiSlotVariableVUser ::
  "HandlerConfig \<Rightarrow> s32 \<Rightarrow> bytes option \<Rightarrow> s32 list option \<Rightarrow>
   s64 list option \<Rightarrow> s32 \<Rightarrow> bool \<Rightarrow> addr \<Rightarrow> tus_wait_step" where
  "sceNpTusSetMultiSlotVariableVUser cfg req_id virtual_user_id slot_ids variables array_len has_option fresh =
     tus_sync req_id (sceNpTusSetMultiSlotVariableVUserAsync cfg req_id virtual_user_id slot_ids variables array_len has_option
          fresh)"

definition sceNpTusSetMultiSlotVariableAAsync ::
  "HandlerConfig \<Rightarrow> s32 \<Rightarrow> u64 \<Rightarrow> s32 list option \<Rightarrow>
   s64 list option \<Rightarrow> s32 \<Rightarrow> bool \<Rightarrow> addr \<Rightarrow> tus_step" where
  "sceNpTusSetMultiSlotVariableAAsync cfg req_id target_account_id slot_ids variables array_len has_option fresh =
     tus_call req_id
       [check (slot_ids = None \<or> variables = None) ORBIS_NP_COMMUNITY_ERROR_INSUFFICIENT_ARGUMENT,
        check (array_len < 1 \<or> has_option) ORBIS_NP_COMMUNITY_ERROR_INVALID_ARGUMENT,
        check (array_len > TusMaxSlotsPerRequest) ORBIS_NP_COMMUNITY_ERROR_TOO_MANY_SLOTID,
        check_slots array_len slot_ids]
       (reading (bind_outcome (read_n (nat array_len) slot_ids) (\<lambda>slots.
          bind_outcome (read_n (nat array_len) variables) (\<lambda>vals. Returned (slots, vals)))))
       (\<lambda>svc uid self (slots, vals) ctx. TusSetMultiSlotVariable cfg uid svc [] [] slots vals (Some ctx) (to_s64 (uint target_account_id)))
       fresh"

definition sceNpTusSetMultiSlotVariableA ::
  "HandlerConfig \<Rightarrow> s32 \<Rightarrow> u64 \<Rightarrow> s32 list option \<Rightarrow>
   s64 list option \<Rightarrow> s32 \<Rightarrow> bool \<Rightarrow> addr \<Rightarrow> tus_wait_step" where
  "sceNpTusSetMultiSlotVariableA cfg req_id target_account_id slot_ids variables array_len has_option fresh =
     tus_sync req_id (sceNpTusSetMultiSlotVariableAAsync cfg req_id target_account_id slot_ids variables array_len has_option
          fresh)"

definition sceNpTusDeleteMultiSlotVariableAsync ::
  "HandlerConfig \<Rightarrow> s32 \<Rightarrow> OrbisNpId option \<Rightarrow> s32 list option \<Rightarrow>
   s32 \<Rightarrow> bool \<Rightarrow> addr \<Rightarrow> tus_step" where
  "sceNpTusDeleteMultiSlotVariableAsync cfg req_id target_np_id slot_ids array_len has_option fresh =
     tus_call req_id
       [check (target_np_id = None \<or> slot_ids = None \<or> array_len < 1) ORBIS_NP_COMMUNITY_ERROR_INSUFFICIENT_ARGUMENT,
        check has_option ORBIS_NP_COMMUNITY_ERROR_INVALID_ARGUMENT,
        check (array_len > TusMaxSlotsPerRequest) ORBIS_NP_COMMUNITY_ERROR_TOO_MANY_SLOTID,
        check_slots array_len slot_ids]
       (reading (read_n (nat array_len) slot_ids))
       (\<lambda>svc uid self slots ctx. TusDeleteMultiSlotVariable cfg uid svc (owner_of target_np_id self) [] 0 slots (Some ctx))
       fresh"

definition sceNpTusDeleteMultiSlotVariable ::
  "HandlerConfig \<Rightarrow> s32 \<Rightarrow> OrbisNpId option \<Rightarrow> s32 list option \<Rightarrow>
   s32 \<Rightarrow> bool \<Rightarrow> addr \<Rightarrow> tus_wait_step" where
  "sceNpTusDeleteMultiSlotVariable cfg req_id target_np_id slot_ids array_len has_option fresh =
     tus_sync req_id (sceNpTusDeleteMultiSlotVariableAsync cfg req_id target_np_id slot_ids array_len has_option fresh)"

definition sceNpTusDeleteMultiSlotVariableVUserAsync ::
  "HandlerConfig \<Rightarrow> s32 \<Rightarrow> bytes option \<Rightarrow> s32 list option \<Rightarrow> s32 \<Rightarrow>
   bool \<Rightarrow> addr \<Rightarrow> tus_step" where
  "sceNpTusDeleteMultiSlotVariableVUserAsync cfg req_id target_virtual_user_id slot_ids array_len has_option fresh =
     tus_call req_id
       [check (target_virtual_user_id = None \<or> slot_ids = None \<or> array_len < 1)
          ORBIS_NP_COMMUNITY_ERROR_INSUFFICIENT_ARGUMENT,
        check has_option ORBIS_NP_COMMUNITY_ERROR_INVALID_ARGUMENT,
        check (array_len > TusMaxSlotsPerRequest) ORBIS_NP_COMMUNITY_ERROR_TOO_MANY_SLOTID,
        check_slots array_len slot_ids,
        check_vuser target_virtual_user_id]
       (reading (read_n (nat array_len) slot_ids))
       (\<lambda>svc uid self slots ctx. TusDeleteMultiSlotVariable cfg uid svc [] (vuser target_virtual_user_id) 0 slots (Some ctx))
       fresh"

definition sceNpTusDeleteMultiSlotVariableVUser ::
  "HandlerConfig \<Rightarrow> s32 \<Rightarrow> bytes option \<Rightarrow> s32 list option \<Rightarrow> s32 \<Rightarrow>
   bool \<Rightarrow> addr \<Rightarrow> tus_wait_step" where
  "sceNpTusDeleteMultiSlotVariableVUser cfg req_id target_virtual_user_id slot_ids array_len has_option fresh =
     tus_sync req_id (sceNpTusDeleteMultiSlotVariableVUserAsync cfg req_id target_virtual_user_id slot_ids array_len has_option
          fresh)"

definition sceNpTusDeleteMultiSlotVariableAAsync ::
  "HandlerConfig \<Rightarrow> s32 \<Rightarrow> u64 \<Rightarrow> s32 list option \<Rightarrow> s32 \<Rightarrow>
   bool \<Rightarrow> addr \<Rightarrow> tus_step" where
  "sceNpTusDeleteMultiSlotVariableAAsync cfg req_id target_account_id slot_ids array_len has_option fresh =
     tus_call req_id
       [check (slot_ids = None) ORBIS_NP_COMMUNITY_ERROR_INSUFFICIENT_ARGUMENT,
        check (has_option \<or> array_len < 1) ORBIS_NP_COMMUNITY_ERROR_INVALID_ARGUMENT,
        check (array_len > TusMaxSlotsPerRequest) ORBIS_NP_COMMUNITY_ERROR_TOO_MANY_SLOTID,
        check_slots array_len slot_ids]
       (reading (read_n (nat array_len) slot_ids))
       (\<lambda>svc uid self slots ctx. TusDeleteMultiSlotVariable cfg uid svc [] [] (to_s64 (uint target_account_id)) slots (Some ctx))
       fresh"

definition sceNpTusDeleteMultiSlotVariableA ::
  "HandlerConfig \<Rightarrow> s32 \<Rightarrow> u64 \<Rightarrow> s32 list option \<Rightarrow> s32 \<Rightarrow>
   bool \<Rightarrow> addr \<Rightarrow> tus_wait_step" where
  "sceNpTusDeleteMultiSlotVariableA cfg req_id target_account_id slot_ids array_len has_option fresh =
     tus_sync req_id (sceNpTusDeleteMultiSlotVariableAAsync cfg req_id target_account_id slot_ids array_len has_option fresh)"

section \<open>Adding to a variable\<close>

definition sceNpTusAddAndGetVariableAsync ::
  "HandlerConfig \<Rightarrow> s32 \<Rightarrow> OrbisNpId option \<Rightarrow> s32 \<Rightarrow> s64 \<Rightarrow>
   OrbisNpId option \<Rightarrow> u64 option \<Rightarrow> addr option \<Rightarrow> u64 \<Rightarrow> bool \<Rightarrow>
   addr \<Rightarrow> tus_step" where
  "sceNpTusAddAndGetVariableAsync cfg req_id target_np_id slot_id in_variable author date out_variable out_variable_size
     has_option fresh =
     tus_call req_id
       [check has_option ORBIS_NP_COMMUNITY_ERROR_INVALID_ARGUMENT,
        check (out_variable = None) ORBIS_NP_COMMUNITY_ERROR_INSUFFICIENT_ARGUMENT,
        check (slot_id < 0) ORBIS_NP_COMMUNITY_ERROR_INVALID_ARGUMENT,
        check (out_variable_size \<noteq> of_nat sizeof_variable) ORBIS_NP_COMMUNITY_ERROR_INVALID_ALIGNMENT]
       (reading (Returned ()))
       (\<lambda>svc uid self _ ctx. TusAddAndGetVariable cfg uid svc (owner_of target_np_id self) [] 0 slot_id in_variable
          (author \<noteq> None) 0 (author_string author) (date \<noteq> None) (date_tick date) (var_plain out_variable) (Some ctx))
       fresh"

definition sceNpTusAddAndGetVariable ::
  "HandlerConfig \<Rightarrow> s32 \<Rightarrow> OrbisNpId option \<Rightarrow> s32 \<Rightarrow> s64 \<Rightarrow>
   OrbisNpId option \<Rightarrow> u64 option \<Rightarrow> addr option \<Rightarrow> u64 \<Rightarrow> bool \<Rightarrow>
   addr \<Rightarrow> tus_wait_step" where
  "sceNpTusAddAndGetVariable cfg req_id target_np_id slot_id in_variable author date out_variable out_variable_size
     has_option fresh =
     tus_sync req_id (sceNpTusAddAndGetVariableAsync cfg req_id target_np_id slot_id in_variable author date out_variable
          out_variable_size has_option fresh)"

definition sceNpTusAddAndGetVariableVUserAsync ::
  "HandlerConfig \<Rightarrow> s32 \<Rightarrow> bytes option \<Rightarrow> s32 \<Rightarrow> s64 \<Rightarrow>
   OrbisNpId option \<Rightarrow> u64 option \<Rightarrow> addr option \<Rightarrow> u64 \<Rightarrow> bool \<Rightarrow>
   addr \<Rightarrow> tus_step" where
  "sceNpTusAddAndGetVariableVUserAsync cfg req_id target_virtual_user_id slot_id in_variable author date out_variable
     out_variable_size has_option fresh =
     tus_call req_id
       [check has_option ORBIS_NP_COMMUNITY_ERROR_INVALID_ARGUMENT,
        check (target_virtual_user_id = None \<or> out_variable = None) ORBIS_NP_COMMUNITY_ERROR_INSUFFICIENT_ARGUMENT,
        check (slot_id < 0) ORBIS_NP_COMMUNITY_ERROR_INVALID_ARGUMENT,
        check (out_variable_size \<noteq> of_nat sizeof_variable) ORBIS_NP_COMMUNITY_ERROR_INVALID_ALIGNMENT,
        check_vuser target_virtual_user_id]
       (reading (Returned ()))
       (\<lambda>svc uid self _ ctx. TusAddAndGetVariable cfg uid svc [] (vuser target_virtual_user_id) 0 slot_id in_variable
          (author \<noteq> None) 0 (author_string author) (date \<noteq> None) (date_tick date) (var_plain out_variable) (Some ctx))
       fresh"

definition sceNpTusAddAndGetVariableVUser ::
  "HandlerConfig \<Rightarrow> s32 \<Rightarrow> bytes option \<Rightarrow> s32 \<Rightarrow> s64 \<Rightarrow>
   OrbisNpId option \<Rightarrow> u64 option \<Rightarrow> addr option \<Rightarrow> u64 \<Rightarrow> bool \<Rightarrow>
   addr \<Rightarrow> tus_wait_step" where
  "sceNpTusAddAndGetVariableVUser cfg req_id target_virtual_user_id slot_id in_variable author date out_variable
     out_variable_size has_option fresh =
     tus_sync req_id (sceNpTusAddAndGetVariableVUserAsync cfg req_id target_virtual_user_id slot_id in_variable author date
          out_variable out_variable_size has_option fresh)"

definition sceNpTusAddAndGetVariableAAsync ::
  "HandlerConfig \<Rightarrow> s32 \<Rightarrow> u64 \<Rightarrow> s32 \<Rightarrow> s64 \<Rightarrow>
   u64 option \<Rightarrow> u64 option \<Rightarrow> addr option \<Rightarrow> u64 \<Rightarrow> bool \<Rightarrow>
   addr \<Rightarrow> tus_step" where
  "sceNpTusAddAndGetVariableAAsync cfg req_id target_account_id slot_id in_variable author_acc date out_variable
     out_variable_size has_option fresh =
     tus_call req_id
       [check (has_option \<or> slot_id < 0) ORBIS_NP_COMMUNITY_ERROR_INVALID_ARGUMENT,
        check (out_variable = None) ORBIS_NP_COMMUNITY_ERROR_INSUFFICIENT_ARGUMENT,
        check (out_variable_size \<noteq> of_nat sizeof_variable_a) ORBIS_NP_COMMUNITY_ERROR_INVALID_ALIGNMENT]
       (reading (Returned ()))
       (\<lambda>svc uid self _ ctx. TusAddAndGetVariable cfg uid svc [] [] (to_s64 (uint target_account_id)) slot_id in_variable
          (author_acc \<noteq> None) (author_account author_acc) [] (date \<noteq> None) (date_tick date) (var_a out_variable) (Some ctx))
       fresh"

definition sceNpTusAddAndGetVariableA ::
  "HandlerConfig \<Rightarrow> s32 \<Rightarrow> u64 \<Rightarrow> s32 \<Rightarrow> s64 \<Rightarrow>
   u64 option \<Rightarrow> u64 option \<Rightarrow> addr option \<Rightarrow> u64 \<Rightarrow> bool \<Rightarrow>
   addr \<Rightarrow> tus_wait_step" where
  "sceNpTusAddAndGetVariableA cfg req_id target_account_id slot_id in_variable author_acc date out_variable
     out_variable_size has_option fresh =
     tus_sync req_id (sceNpTusAddAndGetVariableAAsync cfg req_id target_account_id slot_id in_variable author_acc date
          out_variable out_variable_size has_option fresh)"

definition sceNpTusAddAndGetVariableAVUserAsync ::
  "HandlerConfig \<Rightarrow> s32 \<Rightarrow> bytes option \<Rightarrow> s32 \<Rightarrow> s64 \<Rightarrow>
   u64 option \<Rightarrow> u64 option \<Rightarrow> addr option \<Rightarrow> u64 \<Rightarrow> bool \<Rightarrow>
   addr \<Rightarrow> tus_step" where
  "sceNpTusAddAndGetVariableAVUserAsync cfg req_id target_virtual_user_id slot_id in_variable author_acc date out_variable
     out_variable_size has_option fresh =
     tus_call req_id
       [check (target_virtual_user_id = None \<or> out_variable = None) ORBIS_NP_COMMUNITY_ERROR_INSUFFICIENT_ARGUMENT,
        check (has_option \<or> slot_id < 0) ORBIS_NP_COMMUNITY_ERROR_INVALID_ARGUMENT,
        check (out_variable_size \<noteq> of_nat sizeof_variable_a) ORBIS_NP_COMMUNITY_ERROR_INVALID_ALIGNMENT,
        check_vuser target_virtual_user_id]
       (reading (Returned ()))
       (\<lambda>svc uid self _ ctx. TusAddAndGetVariable cfg uid svc [] (vuser target_virtual_user_id) 0 slot_id in_variable
          (author_acc \<noteq> None) (author_account author_acc) [] (date \<noteq> None) (date_tick date) (var_a out_variable) (Some ctx))
       fresh"

definition sceNpTusAddAndGetVariableAVUser ::
  "HandlerConfig \<Rightarrow> s32 \<Rightarrow> bytes option \<Rightarrow> s32 \<Rightarrow> s64 \<Rightarrow>
   u64 option \<Rightarrow> u64 option \<Rightarrow> addr option \<Rightarrow> u64 \<Rightarrow> bool \<Rightarrow>
   addr \<Rightarrow> tus_wait_step" where
  "sceNpTusAddAndGetVariableAVUser cfg req_id target_virtual_user_id slot_id in_variable author_acc date out_variable
     out_variable_size has_option fresh =
     tus_sync req_id (sceNpTusAddAndGetVariableAVUserAsync cfg req_id target_virtual_user_id slot_id in_variable author_acc
          date out_variable out_variable_size has_option fresh)"

definition sceNpTusAddAndGetVariableForCrossSaveAsync ::
  "HandlerConfig \<Rightarrow> s32 \<Rightarrow> u64 \<Rightarrow> s32 \<Rightarrow> s64 \<Rightarrow>
   u64 option \<Rightarrow> u64 option \<Rightarrow> addr option \<Rightarrow> u64 \<Rightarrow> bool \<Rightarrow>
   addr \<Rightarrow> tus_step" where
  "sceNpTusAddAndGetVariableForCrossSaveAsync cfg req_id target_account_id slot_id in_variable author_acc date out_variable
     out_variable_size has_option fresh =
     tus_call req_id
       [check (has_option \<or> slot_id < 0) ORBIS_NP_COMMUNITY_ERROR_INVALID_ARGUMENT,
        check (out_variable = None) ORBIS_NP_COMMUNITY_ERROR_INSUFFICIENT_ARGUMENT,
        check (out_variable_size \<noteq> of_nat sizeof_variable_cs) ORBIS_NP_COMMUNITY_ERROR_INVALID_ALIGNMENT]
       (reading (Returned ()))
       (\<lambda>svc uid self _ ctx. TusAddAndGetVariable cfg uid svc [] [] (to_s64 (uint target_account_id)) slot_id in_variable
          (author_acc \<noteq> None) (author_account author_acc) [] (date \<noteq> None) (date_tick date) (var_cs out_variable) (Some ctx))
       fresh"

definition sceNpTusAddAndGetVariableForCrossSave ::
  "HandlerConfig \<Rightarrow> s32 \<Rightarrow> u64 \<Rightarrow> s32 \<Rightarrow> s64 \<Rightarrow>
   u64 option \<Rightarrow> u64 option \<Rightarrow> addr option \<Rightarrow> u64 \<Rightarrow> bool \<Rightarrow>
   addr \<Rightarrow> tus_wait_step" where
  "sceNpTusAddAndGetVariableForCrossSave cfg req_id target_account_id slot_id in_variable author_acc date out_variable
     out_variable_size has_option fresh =
     tus_sync req_id (sceNpTusAddAndGetVariableForCrossSaveAsync cfg req_id target_account_id slot_id in_variable author_acc
          date out_variable out_variable_size has_option fresh)"

definition sceNpTusAddAndGetVariableForCrossSaveVUserAsync ::
  "HandlerConfig \<Rightarrow> s32 \<Rightarrow> bytes option \<Rightarrow> s32 \<Rightarrow> s64 \<Rightarrow>
   u64 option \<Rightarrow> u64 option \<Rightarrow> addr option \<Rightarrow> u64 \<Rightarrow> bool \<Rightarrow>
   addr \<Rightarrow> tus_step" where
  "sceNpTusAddAndGetVariableForCrossSaveVUserAsync cfg req_id target_virtual_user_id slot_id in_variable author_acc date
     out_variable out_variable_size has_option fresh =
     tus_call req_id
       [check (target_virtual_user_id = None \<or> out_variable = None) ORBIS_NP_COMMUNITY_ERROR_INSUFFICIENT_ARGUMENT,
        check (has_option \<or> slot_id < 0) ORBIS_NP_COMMUNITY_ERROR_INVALID_ARGUMENT,
        check (out_variable_size \<noteq> of_nat sizeof_variable_cs) ORBIS_NP_COMMUNITY_ERROR_INVALID_ALIGNMENT,
        check_vuser target_virtual_user_id]
       (reading (Returned ()))
       (\<lambda>svc uid self _ ctx. TusAddAndGetVariable cfg uid svc [] (vuser target_virtual_user_id) 0 slot_id in_variable
          (author_acc \<noteq> None) (author_account author_acc) [] (date \<noteq> None) (date_tick date) (var_cs out_variable) (Some ctx))
       fresh"

definition sceNpTusAddAndGetVariableForCrossSaveVUser ::
  "HandlerConfig \<Rightarrow> s32 \<Rightarrow> bytes option \<Rightarrow> s32 \<Rightarrow> s64 \<Rightarrow>
   u64 option \<Rightarrow> u64 option \<Rightarrow> addr option \<Rightarrow> u64 \<Rightarrow> bool \<Rightarrow>
   addr \<Rightarrow> tus_wait_step" where
  "sceNpTusAddAndGetVariableForCrossSaveVUser cfg req_id target_virtual_user_id slot_id in_variable author_acc date
     out_variable out_variable_size has_option fresh =
     tus_sync req_id (sceNpTusAddAndGetVariableForCrossSaveVUserAsync cfg req_id target_virtual_user_id slot_id in_variable
          author_acc date out_variable out_variable_size has_option fresh)"

section \<open>Setting a variable when it compares\<close>

definition sceNpTusTryAndSetVariableAsync ::
  "HandlerConfig \<Rightarrow> s32 \<Rightarrow> OrbisNpId option \<Rightarrow> s32 \<Rightarrow> s32 \<Rightarrow>
   s64 \<Rightarrow> s64 option \<Rightarrow> OrbisNpId option \<Rightarrow> u64 option \<Rightarrow>
   addr option \<Rightarrow> u64 \<Rightarrow> bool \<Rightarrow> addr \<Rightarrow> tus_step" where
  "sceNpTusTryAndSetVariableAsync cfg req_id target_np_id slot_id ope_type variable compare_value author date
     result_variable result_variable_size has_option fresh =
     tus_call req_id
       [check (target_np_id = None \<or> result_variable = None) ORBIS_NP_COMMUNITY_ERROR_INSUFFICIENT_ARGUMENT,
        check (has_option \<or> slot_id < 0) ORBIS_NP_COMMUNITY_ERROR_INVALID_ARGUMENT,
        check (ope_type < ORBIS_NP_TUS_OPETYPE_EQUAL \<or> ope_type > ORBIS_NP_TUS_OPETYPE_LESS_OR_EQUAL)
          ORBIS_NP_COMMUNITY_ERROR_INVALID_ARGUMENT,
        check (result_variable_size \<noteq> of_nat sizeof_variable) ORBIS_NP_COMMUNITY_ERROR_INVALID_ALIGNMENT]
       (reading (Returned ()))
       (\<lambda>svc uid self _ ctx. TusTryAndSetVariable cfg uid svc (owner_of target_np_id self) [] 0 slot_id ope_type variable compare_value
          (author \<noteq> None) 0 (author_string author) (date \<noteq> None) (date_tick date) (var_plain result_variable) (Some ctx))
       fresh"

definition sceNpTusTryAndSetVariable ::
  "HandlerConfig \<Rightarrow> s32 \<Rightarrow> OrbisNpId option \<Rightarrow> s32 \<Rightarrow> s32 \<Rightarrow>
   s64 \<Rightarrow> s64 option \<Rightarrow> OrbisNpId option \<Rightarrow> u64 option \<Rightarrow>
   addr option \<Rightarrow> u64 \<Rightarrow> bool \<Rightarrow> addr \<Rightarrow> tus_wait_step" where
  "sceNpTusTryAndSetVariable cfg req_id target_np_id slot_id ope_type variable compare_value author date result_variable
     result_variable_size has_option fresh =
     tus_sync req_id (sceNpTusTryAndSetVariableAsync cfg req_id target_np_id slot_id ope_type variable compare_value author
          date result_variable result_variable_size has_option fresh)"

definition sceNpTusTryAndSetVariableVUserAsync ::
  "HandlerConfig \<Rightarrow> s32 \<Rightarrow> bytes option \<Rightarrow> s32 \<Rightarrow> s32 \<Rightarrow>
   s64 \<Rightarrow> s64 option \<Rightarrow> OrbisNpId option \<Rightarrow> u64 option \<Rightarrow>
   addr option \<Rightarrow> u64 \<Rightarrow> bool \<Rightarrow> addr \<Rightarrow> tus_step" where
  "sceNpTusTryAndSetVariableVUserAsync cfg req_id target_virtual_user_id slot_id ope_type variable compare_value author date
     result_variable result_variable_size has_option fresh =
     tus_call req_id
       [check (target_virtual_user_id = None \<or> result_variable = None) ORBIS_NP_COMMUNITY_ERROR_INSUFFICIENT_ARGUMENT,
        check (has_option \<or> slot_id < 0) ORBIS_NP_COMMUNITY_ERROR_INVALID_ARGUMENT,
        check (ope_type < ORBIS_NP_TUS_OPETYPE_EQUAL \<or> ope_type > ORBIS_NP_TUS_OPETYPE_LESS_OR_EQUAL)
          ORBIS_NP_COMMUNITY_ERROR_INVALID_ARGUMENT,
        check (result_variable_size \<noteq> of_nat sizeof_variable) ORBIS_NP_COMMUNITY_ERROR_INVALID_ALIGNMENT,
        check_vuser target_virtual_user_id]
       (reading (Returned ()))
       (\<lambda>svc uid self _ ctx. TusTryAndSetVariable cfg uid svc [] (vuser target_virtual_user_id) 0 slot_id ope_type variable compare_value
          (author \<noteq> None) 0 (author_string author) (date \<noteq> None) (date_tick date) (var_plain result_variable) (Some ctx))
       fresh"

definition sceNpTusTryAndSetVariableVUser ::
  "HandlerConfig \<Rightarrow> s32 \<Rightarrow> bytes option \<Rightarrow> s32 \<Rightarrow> s32 \<Rightarrow>
   s64 \<Rightarrow> s64 option \<Rightarrow> OrbisNpId option \<Rightarrow> u64 option \<Rightarrow>
   addr option \<Rightarrow> u64 \<Rightarrow> bool \<Rightarrow> addr \<Rightarrow> tus_wait_step" where
  "sceNpTusTryAndSetVariableVUser cfg req_id target_virtual_user_id slot_id ope_type variable compare_value author date
     result_variable result_variable_size has_option fresh =
     tus_sync req_id (sceNpTusTryAndSetVariableVUserAsync cfg req_id target_virtual_user_id slot_id ope_type variable
          compare_value author date result_variable result_variable_size has_option fresh)"

definition sceNpTusTryAndSetVariableAAsync ::
  "HandlerConfig \<Rightarrow> s32 \<Rightarrow> u64 \<Rightarrow> s32 \<Rightarrow> s32 \<Rightarrow> s64 \<Rightarrow>
   s64 option \<Rightarrow> u64 option \<Rightarrow> u64 option \<Rightarrow> addr option \<Rightarrow> u64 \<Rightarrow>
   bool \<Rightarrow> addr \<Rightarrow> tus_step" where
  "sceNpTusTryAndSetVariableAAsync cfg req_id target_account_id slot_id ope_type variable compare_value author_acc date
     result_variable result_variable_size has_option fresh =
     tus_call req_id
       [check (result_variable = None) ORBIS_NP_COMMUNITY_ERROR_INSUFFICIENT_ARGUMENT,
        check (has_option \<or> slot_id < 0) ORBIS_NP_COMMUNITY_ERROR_INVALID_ARGUMENT,
        check (ope_type < ORBIS_NP_TUS_OPETYPE_EQUAL \<or> ope_type > ORBIS_NP_TUS_OPETYPE_LESS_OR_EQUAL)
          ORBIS_NP_COMMUNITY_ERROR_INVALID_TYPE,
        check (result_variable_size \<noteq> of_nat sizeof_variable_a) ORBIS_NP_COMMUNITY_ERROR_INVALID_ALIGNMENT]
       (reading (Returned ()))
       (\<lambda>svc uid self _ ctx. TusTryAndSetVariable cfg uid svc [] [] (to_s64 (uint target_account_id)) slot_id ope_type variable compare_value
          (author_acc \<noteq> None) (author_account author_acc) [] (date \<noteq> None) (date_tick date) (var_a result_variable) (Some ctx))
       fresh"

definition sceNpTusTryAndSetVariableA ::
  "HandlerConfig \<Rightarrow> s32 \<Rightarrow> u64 \<Rightarrow> s32 \<Rightarrow> s32 \<Rightarrow> s64 \<Rightarrow>
   s64 option \<Rightarrow> u64 option \<Rightarrow> u64 option \<Rightarrow> addr option \<Rightarrow> u64 \<Rightarrow>
   bool \<Rightarrow> addr \<Rightarrow> tus_wait_step" where
  "sceNpTusTryAndSetVariableA cfg req_id target_account_id slot_id ope_type variable compare_value author_acc date
     result_variable result_variable_size has_option fresh =
     tus_sync req_id (sceNpTusTryAndSetVariableAAsync cfg req_id target_account_id slot_id ope_type variable compare_value
          author_acc date result_variable result_variable_size has_option fresh)"

definition sceNpTusTryAndSetVariableAVUserAsync ::
  "HandlerConfig \<Rightarrow> s32 \<Rightarrow> bytes option \<Rightarrow> s32 \<Rightarrow> s32 \<Rightarrow>
   s64 \<Rightarrow> s64 option \<Rightarrow> u64 option \<Rightarrow> u64 option \<Rightarrow> addr option \<Rightarrow>
   u64 \<Rightarrow> bool \<Rightarrow> addr \<Rightarrow> tus_step" where
  "sceNpTusTryAndSetVariableAVUserAsync cfg req_id target_virtual_user_id slot_id ope_type variable compare_value author_acc
     date result_variable result_variable_size has_option fresh =
     tus_call req_id
       [check (target_virtual_user_id = None \<or> result_variable = None) ORBIS_NP_COMMUNITY_ERROR_INSUFFICIENT_ARGUMENT,
        check (has_option \<or> slot_id < 0) ORBIS_NP_COMMUNITY_ERROR_INVALID_ARGUMENT,
        check (ope_type < ORBIS_NP_TUS_OPETYPE_EQUAL \<or> ope_type > ORBIS_NP_TUS_OPETYPE_LESS_OR_EQUAL)
          ORBIS_NP_COMMUNITY_ERROR_INVALID_TYPE,
        check (result_variable_size \<noteq> of_nat sizeof_variable_a) ORBIS_NP_COMMUNITY_ERROR_INVALID_ALIGNMENT,
        check_vuser target_virtual_user_id]
       (reading (Returned ()))
       (\<lambda>svc uid self _ ctx. TusTryAndSetVariable cfg uid svc [] (vuser target_virtual_user_id) 0 slot_id ope_type variable compare_value
          (author_acc \<noteq> None) (author_account author_acc) [] (date \<noteq> None) (date_tick date) (var_a result_variable) (Some ctx))
       fresh"

definition sceNpTusTryAndSetVariableAVUser ::
  "HandlerConfig \<Rightarrow> s32 \<Rightarrow> bytes option \<Rightarrow> s32 \<Rightarrow> s32 \<Rightarrow>
   s64 \<Rightarrow> s64 option \<Rightarrow> u64 option \<Rightarrow> u64 option \<Rightarrow> addr option \<Rightarrow>
   u64 \<Rightarrow> bool \<Rightarrow> addr \<Rightarrow> tus_wait_step" where
  "sceNpTusTryAndSetVariableAVUser cfg req_id target_virtual_user_id slot_id ope_type variable compare_value author_acc date
     result_variable result_variable_size has_option fresh =
     tus_sync req_id (sceNpTusTryAndSetVariableAVUserAsync cfg req_id target_virtual_user_id slot_id ope_type variable
          compare_value author_acc date result_variable result_variable_size has_option fresh)"

definition sceNpTusTryAndSetVariableForCrossSaveAsync ::
  "HandlerConfig \<Rightarrow> s32 \<Rightarrow> u64 \<Rightarrow> s32 \<Rightarrow> s32 \<Rightarrow> s64 \<Rightarrow>
   s64 option \<Rightarrow> u64 option \<Rightarrow> u64 option \<Rightarrow> addr option \<Rightarrow> u64 \<Rightarrow>
   bool \<Rightarrow> addr \<Rightarrow> tus_step" where
  "sceNpTusTryAndSetVariableForCrossSaveAsync cfg req_id target_account_id slot_id ope_type variable compare_value
     author_acc date result_variable result_variable_size has_option fresh =
     tus_call req_id
       [check (result_variable = None) ORBIS_NP_COMMUNITY_ERROR_INSUFFICIENT_ARGUMENT,
        check (has_option \<or> slot_id < 0) ORBIS_NP_COMMUNITY_ERROR_INVALID_ARGUMENT,
        check (ope_type < ORBIS_NP_TUS_OPETYPE_EQUAL \<or> ope_type > ORBIS_NP_TUS_OPETYPE_LESS_OR_EQUAL)
          ORBIS_NP_COMMUNITY_ERROR_INVALID_TYPE,
        check (result_variable_size \<noteq> of_nat sizeof_variable_cs) ORBIS_NP_COMMUNITY_ERROR_INVALID_ALIGNMENT]
       (reading (Returned ()))
       (\<lambda>svc uid self _ ctx. TusTryAndSetVariable cfg uid svc [] [] (to_s64 (uint target_account_id)) slot_id ope_type variable compare_value
          (author_acc \<noteq> None) (author_account author_acc) [] (date \<noteq> None) (date_tick date) (var_cs result_variable) (Some ctx))
       fresh"

definition sceNpTusTryAndSetVariableForCrossSave ::
  "HandlerConfig \<Rightarrow> s32 \<Rightarrow> u64 \<Rightarrow> s32 \<Rightarrow> s32 \<Rightarrow> s64 \<Rightarrow>
   s64 option \<Rightarrow> u64 option \<Rightarrow> u64 option \<Rightarrow> addr option \<Rightarrow> u64 \<Rightarrow>
   bool \<Rightarrow> addr \<Rightarrow> tus_wait_step" where
  "sceNpTusTryAndSetVariableForCrossSave cfg req_id target_account_id slot_id ope_type variable compare_value author_acc
     date result_variable result_variable_size has_option fresh =
     tus_sync req_id (sceNpTusTryAndSetVariableForCrossSaveAsync cfg req_id target_account_id slot_id ope_type variable
          compare_value author_acc date result_variable result_variable_size has_option fresh)"

definition sceNpTusTryAndSetVariableForCrossSaveVUserAsync ::
  "HandlerConfig \<Rightarrow> s32 \<Rightarrow> bytes option \<Rightarrow> s32 \<Rightarrow> s32 \<Rightarrow>
   s64 \<Rightarrow> s64 option \<Rightarrow> u64 option \<Rightarrow> u64 option \<Rightarrow> addr option \<Rightarrow>
   u64 \<Rightarrow> bool \<Rightarrow> addr \<Rightarrow> tus_step" where
  "sceNpTusTryAndSetVariableForCrossSaveVUserAsync cfg req_id target_virtual_user_id slot_id ope_type variable compare_value
     author_acc date result_variable result_variable_size has_option fresh =
     tus_call req_id
       [check (target_virtual_user_id = None \<or> result_variable = None) ORBIS_NP_COMMUNITY_ERROR_INSUFFICIENT_ARGUMENT,
        check (has_option \<or> slot_id < 0) ORBIS_NP_COMMUNITY_ERROR_INVALID_ARGUMENT,
        check (ope_type < ORBIS_NP_TUS_OPETYPE_EQUAL \<or> ope_type > ORBIS_NP_TUS_OPETYPE_LESS_OR_EQUAL)
          ORBIS_NP_COMMUNITY_ERROR_INVALID_TYPE,
        check (result_variable_size \<noteq> of_nat sizeof_variable_cs) ORBIS_NP_COMMUNITY_ERROR_INVALID_ALIGNMENT,
        check_vuser target_virtual_user_id]
       (reading (Returned ()))
       (\<lambda>svc uid self _ ctx. TusTryAndSetVariable cfg uid svc [] (vuser target_virtual_user_id) 0 slot_id ope_type variable compare_value
          (author_acc \<noteq> None) (author_account author_acc) [] (date \<noteq> None) (date_tick date) (var_cs result_variable) (Some ctx))
       fresh"

definition sceNpTusTryAndSetVariableForCrossSaveVUser ::
  "HandlerConfig \<Rightarrow> s32 \<Rightarrow> bytes option \<Rightarrow> s32 \<Rightarrow> s32 \<Rightarrow>
   s64 \<Rightarrow> s64 option \<Rightarrow> u64 option \<Rightarrow> u64 option \<Rightarrow> addr option \<Rightarrow>
   u64 \<Rightarrow> bool \<Rightarrow> addr \<Rightarrow> tus_wait_step" where
  "sceNpTusTryAndSetVariableForCrossSaveVUser cfg req_id target_virtual_user_id slot_id ope_type variable compare_value
     author_acc date result_variable result_variable_size has_option fresh =
     tus_sync req_id (sceNpTusTryAndSetVariableForCrossSaveVUserAsync cfg req_id target_virtual_user_id slot_id ope_type
          variable compare_value author_acc date result_variable result_variable_size has_option fresh)"

section \<open>Variables of several users and of friends\<close>

record OrbisNpTusGetFriendsVariableOptParam =
  fv_size :: u64
  fv_start_serial_rank :: "u32 option"
  fv_hits :: "addr option"

definition fv_start_offset :: "OrbisNpTusGetFriendsVariableOptParam option \<Rightarrow> u32" where
  "fv_start_offset p =
     (case p of None \<Rightarrow> 0 | Some q \<Rightarrow> (case fv_start_serial_rank q of None \<Rightarrow> 0 | Some rank \<Rightarrow> rank - 1))"

definition sceNpTusGetMultiUserVariableAsync ::
  "HandlerConfig \<Rightarrow> s32 \<Rightarrow> OrbisNpId list option \<Rightarrow> s32 \<Rightarrow>
   addr option \<Rightarrow> u64 \<Rightarrow> s32 \<Rightarrow> bool \<Rightarrow> addr \<Rightarrow> tus_step" where
  "sceNpTusGetMultiUserVariableAsync cfg req_id target_np_id_array slot_id variable_array variable_array_size array_len
     has_option fresh =
     tus_call req_id
       [check (target_np_id_array = None \<or> variable_array = None \<or> array_len < 1)
          ORBIS_NP_COMMUNITY_ERROR_INSUFFICIENT_ARGUMENT,
        check (has_option \<or> slot_id < 0) ORBIS_NP_COMMUNITY_ERROR_INVALID_ARGUMENT,
        check (array_len > TusMaxUsersPerRequest) ORBIS_NP_COMMUNITY_ERROR_TOO_MANY_NPID,
        check (variable_array_size \<noteq> array_bytes array_len sizeof_variable) ORBIS_NP_COMMUNITY_ERROR_INVALID_ALIGNMENT]
       (reading (read_n (nat array_len) target_np_id_array))
       (\<lambda>svc uid self ids ctx. TusGetMultiUserVariable cfg uid svc slot_id (map (owner_in self) ids) [] []
          (var_plain variable_array) (word_of_int array_len) (Some ctx))
       fresh"

definition sceNpTusGetMultiUserVariable ::
  "HandlerConfig \<Rightarrow> s32 \<Rightarrow> OrbisNpId list option \<Rightarrow> s32 \<Rightarrow>
   addr option \<Rightarrow> u64 \<Rightarrow> s32 \<Rightarrow> bool \<Rightarrow> addr \<Rightarrow> tus_wait_step" where
  "sceNpTusGetMultiUserVariable cfg req_id target_np_id_array slot_id variable_array variable_array_size array_len
     has_option fresh =
     tus_sync req_id (sceNpTusGetMultiUserVariableAsync cfg req_id target_np_id_array slot_id variable_array
          variable_array_size array_len has_option fresh)"

definition sceNpTusGetMultiUserVariableVUserAsync ::
  "HandlerConfig \<Rightarrow> s32 \<Rightarrow> bytes list option \<Rightarrow> s32 \<Rightarrow> addr option \<Rightarrow>
   u64 \<Rightarrow> s32 \<Rightarrow> bool \<Rightarrow> addr \<Rightarrow> tus_step" where
  "sceNpTusGetMultiUserVariableVUserAsync cfg req_id target_virtual_user_id_array slot_id variable_array variable_array_size
     array_len has_option fresh =
     tus_call req_id
       [check (target_virtual_user_id_array = None \<or> variable_array = None \<or> array_len < 1)
          ORBIS_NP_COMMUNITY_ERROR_INSUFFICIENT_ARGUMENT,
        check (has_option \<or> slot_id < 0) ORBIS_NP_COMMUNITY_ERROR_INVALID_ARGUMENT,
        check (array_len > TusMaxUsersPerRequest) ORBIS_NP_COMMUNITY_ERROR_TOO_MANY_NPID,
        check (variable_array_size \<noteq> array_bytes array_len sizeof_variable) ORBIS_NP_COMMUNITY_ERROR_INVALID_ALIGNMENT,
        check_vusers array_len target_virtual_user_id_array]
       (reading (read_n (nat array_len) target_virtual_user_id_array))
       (\<lambda>svc uid self ids ctx. TusGetMultiUserVariable cfg uid svc slot_id [] (map vuser_name ids) []
          (var_plain variable_array) (word_of_int array_len) (Some ctx))
       fresh"

definition sceNpTusGetMultiUserVariableVUser ::
  "HandlerConfig \<Rightarrow> s32 \<Rightarrow> bytes list option \<Rightarrow> s32 \<Rightarrow> addr option \<Rightarrow>
   u64 \<Rightarrow> s32 \<Rightarrow> bool \<Rightarrow> addr \<Rightarrow> tus_wait_step" where
  "sceNpTusGetMultiUserVariableVUser cfg req_id target_virtual_user_id_array slot_id variable_array variable_array_size
     array_len has_option fresh =
     tus_sync req_id (sceNpTusGetMultiUserVariableVUserAsync cfg req_id target_virtual_user_id_array slot_id variable_array
          variable_array_size array_len has_option fresh)"

definition sceNpTusGetMultiUserVariableAAsync ::
  "HandlerConfig \<Rightarrow> s32 \<Rightarrow> u64 list option \<Rightarrow> s32 \<Rightarrow> addr option \<Rightarrow>
   u64 \<Rightarrow> s32 \<Rightarrow> bool \<Rightarrow> addr \<Rightarrow> tus_step" where
  "sceNpTusGetMultiUserVariableAAsync cfg req_id target_account_id_array slot_id variable_array variable_array_size
     array_len has_option fresh =
     tus_call req_id
       [check (target_account_id_array = None \<or> variable_array = None) ORBIS_NP_COMMUNITY_ERROR_INSUFFICIENT_ARGUMENT,
        check (has_option \<or> array_len < 1 \<or> slot_id < 0) ORBIS_NP_COMMUNITY_ERROR_INVALID_ARGUMENT,
        check (array_len > TusMaxUsersPerRequest) ORBIS_NP_COMMUNITY_ERROR_TOO_MANY_NPID,
        check (variable_array_size \<noteq> array_bytes array_len sizeof_variable_a) ORBIS_NP_COMMUNITY_ERROR_INVALID_ALIGNMENT]
       (reading (read_n (nat array_len) target_account_id_array))
       (\<lambda>svc uid self ids ctx. TusGetMultiUserVariable cfg uid svc slot_id [] [] (map (\<lambda>a. to_s64 (uint a)) ids)
          (var_a variable_array) (word_of_int array_len) (Some ctx))
       fresh"

definition sceNpTusGetMultiUserVariableA ::
  "HandlerConfig \<Rightarrow> s32 \<Rightarrow> u64 list option \<Rightarrow> s32 \<Rightarrow> addr option \<Rightarrow>
   u64 \<Rightarrow> s32 \<Rightarrow> bool \<Rightarrow> addr \<Rightarrow> tus_wait_step" where
  "sceNpTusGetMultiUserVariableA cfg req_id target_account_id_array slot_id variable_array variable_array_size array_len
     has_option fresh =
     tus_sync req_id (sceNpTusGetMultiUserVariableAAsync cfg req_id target_account_id_array slot_id variable_array
          variable_array_size array_len has_option fresh)"

definition sceNpTusGetMultiUserVariableAVUserAsync ::
  "HandlerConfig \<Rightarrow> s32 \<Rightarrow> bytes list option \<Rightarrow> s32 \<Rightarrow> addr option \<Rightarrow>
   u64 \<Rightarrow> s32 \<Rightarrow> bool \<Rightarrow> addr \<Rightarrow> tus_step" where
  "sceNpTusGetMultiUserVariableAVUserAsync cfg req_id target_virtual_user_id_array slot_id variable_array
     variable_array_size array_len has_option fresh =
     tus_call req_id
       [check (target_virtual_user_id_array = None \<or> variable_array = None) ORBIS_NP_COMMUNITY_ERROR_INSUFFICIENT_ARGUMENT,
        check (has_option \<or> array_len < 1 \<or> slot_id < 0) ORBIS_NP_COMMUNITY_ERROR_INVALID_ARGUMENT,
        check (array_len > TusMaxUsersPerRequest) ORBIS_NP_COMMUNITY_ERROR_TOO_MANY_NPID,
        check (variable_array_size \<noteq> array_bytes array_len sizeof_variable_a) ORBIS_NP_COMMUNITY_ERROR_INVALID_ALIGNMENT,
        check_vusers array_len target_virtual_user_id_array]
       (reading (read_n (nat array_len) target_virtual_user_id_array))
       (\<lambda>svc uid self ids ctx. TusGetMultiUserVariable cfg uid svc slot_id [] (map vuser_name ids) []
          (var_a variable_array) (word_of_int array_len) (Some ctx))
       fresh"

definition sceNpTusGetMultiUserVariableAVUser ::
  "HandlerConfig \<Rightarrow> s32 \<Rightarrow> bytes list option \<Rightarrow> s32 \<Rightarrow> addr option \<Rightarrow>
   u64 \<Rightarrow> s32 \<Rightarrow> bool \<Rightarrow> addr \<Rightarrow> tus_wait_step" where
  "sceNpTusGetMultiUserVariableAVUser cfg req_id target_virtual_user_id_array slot_id variable_array variable_array_size
     array_len has_option fresh =
     tus_sync req_id (sceNpTusGetMultiUserVariableAVUserAsync cfg req_id target_virtual_user_id_array slot_id variable_array
          variable_array_size array_len has_option fresh)"

definition sceNpTusGetMultiUserVariableForCrossSaveAsync ::
  "HandlerConfig \<Rightarrow> s32 \<Rightarrow> u64 list option \<Rightarrow> s32 \<Rightarrow> addr option \<Rightarrow>
   u64 \<Rightarrow> s32 \<Rightarrow> bool \<Rightarrow> addr \<Rightarrow> tus_step" where
  "sceNpTusGetMultiUserVariableForCrossSaveAsync cfg req_id target_account_id_array slot_id variable_array
     variable_array_size array_len has_option fresh =
     tus_call req_id
       [check (target_account_id_array = None \<or> variable_array = None) ORBIS_NP_COMMUNITY_ERROR_INSUFFICIENT_ARGUMENT,
        check (has_option \<or> array_len < 1 \<or> slot_id < 0) ORBIS_NP_COMMUNITY_ERROR_INVALID_ARGUMENT,
        check (array_len > TusMaxUsersPerRequest) ORBIS_NP_COMMUNITY_ERROR_TOO_MANY_NPID,
        check (variable_array_size \<noteq> array_bytes array_len sizeof_variable_cs) ORBIS_NP_COMMUNITY_ERROR_INVALID_ALIGNMENT]
       (reading (read_n (nat array_len) target_account_id_array))
       (\<lambda>svc uid self ids ctx. TusGetMultiUserVariable cfg uid svc slot_id [] [] (map (\<lambda>a. to_s64 (uint a)) ids)
          (var_cs variable_array) (word_of_int array_len) (Some ctx))
       fresh"

definition sceNpTusGetMultiUserVariableForCrossSave ::
  "HandlerConfig \<Rightarrow> s32 \<Rightarrow> u64 list option \<Rightarrow> s32 \<Rightarrow> addr option \<Rightarrow>
   u64 \<Rightarrow> s32 \<Rightarrow> bool \<Rightarrow> addr \<Rightarrow> tus_wait_step" where
  "sceNpTusGetMultiUserVariableForCrossSave cfg req_id target_account_id_array slot_id variable_array variable_array_size
     array_len has_option fresh =
     tus_sync req_id (sceNpTusGetMultiUserVariableForCrossSaveAsync cfg req_id target_account_id_array slot_id variable_array
          variable_array_size array_len has_option fresh)"

definition sceNpTusGetMultiUserVariableForCrossSaveVUserAsync ::
  "HandlerConfig \<Rightarrow> s32 \<Rightarrow> bytes list option \<Rightarrow> s32 \<Rightarrow> addr option \<Rightarrow>
   u64 \<Rightarrow> s32 \<Rightarrow> bool \<Rightarrow> addr \<Rightarrow> tus_step" where
  "sceNpTusGetMultiUserVariableForCrossSaveVUserAsync cfg req_id target_virtual_user_id_array slot_id variable_array
     variable_array_size array_len has_option fresh =
     tus_call req_id
       [check (target_virtual_user_id_array = None \<or> variable_array = None) ORBIS_NP_COMMUNITY_ERROR_INSUFFICIENT_ARGUMENT,
        check (has_option \<or> array_len < 1 \<or> slot_id < 0) ORBIS_NP_COMMUNITY_ERROR_INVALID_ARGUMENT,
        check (array_len > TusMaxUsersPerRequest) ORBIS_NP_COMMUNITY_ERROR_TOO_MANY_NPID,
        check (variable_array_size \<noteq> array_bytes array_len sizeof_variable_cs) ORBIS_NP_COMMUNITY_ERROR_INVALID_ALIGNMENT,
        check_vusers array_len target_virtual_user_id_array]
       (reading (read_n (nat array_len) target_virtual_user_id_array))
       (\<lambda>svc uid self ids ctx. TusGetMultiUserVariable cfg uid svc slot_id [] (map vuser_name ids) []
          (var_cs variable_array) (word_of_int array_len) (Some ctx))
       fresh"

definition sceNpTusGetMultiUserVariableForCrossSaveVUser ::
  "HandlerConfig \<Rightarrow> s32 \<Rightarrow> bytes list option \<Rightarrow> s32 \<Rightarrow> addr option \<Rightarrow>
   u64 \<Rightarrow> s32 \<Rightarrow> bool \<Rightarrow> addr \<Rightarrow> tus_wait_step" where
  "sceNpTusGetMultiUserVariableForCrossSaveVUser cfg req_id target_virtual_user_id_array slot_id variable_array
     variable_array_size array_len has_option fresh =
     tus_sync req_id (sceNpTusGetMultiUserVariableForCrossSaveVUserAsync cfg req_id target_virtual_user_id_array slot_id
          variable_array variable_array_size array_len has_option fresh)"

definition sceNpTusGetFriendsVariableAsync ::
  "HandlerConfig \<Rightarrow> s32 \<Rightarrow> s32 \<Rightarrow> s32 \<Rightarrow> s32 \<Rightarrow>
   addr option \<Rightarrow> u64 \<Rightarrow> s32 \<Rightarrow> bool \<Rightarrow> addr \<Rightarrow> tus_step" where
  "sceNpTusGetFriendsVariableAsync cfg req_id slot_id include_self sort_type variable_array variable_array_size array_len
     has_option fresh =
     tus_call req_id
       [check (variable_array = None) ORBIS_NP_COMMUNITY_ERROR_INSUFFICIENT_ARGUMENT,
        check (has_option \<or> array_len < 1 \<or> slot_id < 0) ORBIS_NP_COMMUNITY_ERROR_INVALID_ARGUMENT,
        check (array_len > TusMaxSelectedFriends) ORBIS_NP_COMMUNITY_ERROR_TOO_MANY_NPID,
        check (sort_type < ORBIS_NP_TUS_VARIABLE_SORTTYPE_DESCENDING_DATE \<or> sort_type > ORBIS_NP_TUS_VARIABLE_SORTTYPE_ASCENDING_VALUE)
          ORBIS_NP_COMMUNITY_ERROR_INVALID_ARGUMENT,
        check (variable_array_size \<noteq> array_bytes array_len sizeof_variable) ORBIS_NP_COMMUNITY_ERROR_INVALID_ALIGNMENT]
       (reading (Returned ()))
       (\<lambda>svc uid self _ ctx. TusGetFriendsVariable cfg uid svc slot_id (include_self \<noteq> 0) sort_type (word_of_int array_len)
          (var_plain variable_array) (word_of_int array_len) (Some ctx) 0 None)
       fresh"

definition sceNpTusGetFriendsVariable ::
  "HandlerConfig \<Rightarrow> s32 \<Rightarrow> s32 \<Rightarrow> s32 \<Rightarrow> s32 \<Rightarrow>
   addr option \<Rightarrow> u64 \<Rightarrow> s32 \<Rightarrow> bool \<Rightarrow> addr \<Rightarrow> tus_wait_step" where
  "sceNpTusGetFriendsVariable cfg req_id slot_id include_self sort_type variable_array variable_array_size array_len
     has_option fresh =
     tus_sync req_id (sceNpTusGetFriendsVariableAsync cfg req_id slot_id include_self sort_type variable_array
          variable_array_size array_len has_option fresh)"

definition sceNpTusGetFriendsVariableAAsync ::
  "HandlerConfig \<Rightarrow> s32 \<Rightarrow> s32 \<Rightarrow> s32 \<Rightarrow> s32 \<Rightarrow>
   addr option \<Rightarrow> u64 \<Rightarrow> s32 \<Rightarrow> OrbisNpTusGetFriendsVariableOptParam option \<Rightarrow>
   addr \<Rightarrow> tus_step" where
  "sceNpTusGetFriendsVariableAAsync cfg req_id slot_id include_self sort_type variable_array variable_array_size array_len
     var_param fresh =
     tus_call req_id
       [check (variable_array = None) ORBIS_NP_COMMUNITY_ERROR_INSUFFICIENT_ARGUMENT,
        check (array_len < 1 \<or> slot_id < 0) ORBIS_NP_COMMUNITY_ERROR_INVALID_ARGUMENT,
        check (array_len > TusMaxSelectedFriends) ORBIS_NP_COMMUNITY_ERROR_TOO_MANY_NPID,
        check (sort_type < ORBIS_NP_TUS_VARIABLE_SORTTYPE_DESCENDING_DATE \<or> sort_type > ORBIS_NP_TUS_VARIABLE_SORTTYPE_ASCENDING_VALUE)
          ORBIS_NP_COMMUNITY_ERROR_INVALID_ARGUMENT,
        check (variable_array_size \<noteq> array_bytes array_len sizeof_variable_a) ORBIS_NP_COMMUNITY_ERROR_INVALID_ALIGNMENT,
        check (case var_param of None \<Rightarrow> False | Some p \<Rightarrow> fv_size p \<noteq> 24)
          ORBIS_NP_COMMUNITY_ERROR_INVALID_ALIGNMENT,
        check (case var_param of None \<Rightarrow> False | Some p \<Rightarrow> fv_start_serial_rank p = Some 0)
          ORBIS_NP_COMMUNITY_ERROR_INVALID_ARGUMENT]
       (reading (Returned ()))
       (\<lambda>svc uid self _ ctx. TusGetFriendsVariable cfg uid svc slot_id (include_self \<noteq> 0) sort_type (word_of_int array_len)
          (var_a variable_array) (word_of_int array_len) (Some ctx) (fv_start_offset var_param) (Option.bind var_param fv_hits))
       fresh"

definition sceNpTusGetFriendsVariableA ::
  "HandlerConfig \<Rightarrow> s32 \<Rightarrow> s32 \<Rightarrow> s32 \<Rightarrow> s32 \<Rightarrow>
   addr option \<Rightarrow> u64 \<Rightarrow> s32 \<Rightarrow> OrbisNpTusGetFriendsVariableOptParam option \<Rightarrow>
   addr \<Rightarrow> tus_wait_step" where
  "sceNpTusGetFriendsVariableA cfg req_id slot_id include_self sort_type variable_array variable_array_size array_len
     var_param fresh =
     tus_sync req_id (sceNpTusGetFriendsVariableAAsync cfg req_id slot_id include_self sort_type variable_array
          variable_array_size array_len var_param fresh)"

definition sceNpTusGetFriendsVariableForCrossSaveAsync ::
  "HandlerConfig \<Rightarrow> s32 \<Rightarrow> s32 \<Rightarrow> s32 \<Rightarrow> s32 \<Rightarrow>
   addr option \<Rightarrow> u64 \<Rightarrow> s32 \<Rightarrow> OrbisNpTusGetFriendsVariableOptParam option \<Rightarrow>
   addr \<Rightarrow> tus_step" where
  "sceNpTusGetFriendsVariableForCrossSaveAsync cfg req_id slot_id include_self sort_type variable_array variable_array_size
     array_len var_param fresh =
     tus_call req_id
       [check (variable_array = None) ORBIS_NP_COMMUNITY_ERROR_INSUFFICIENT_ARGUMENT,
        check (array_len < 1 \<or> slot_id < 0) ORBIS_NP_COMMUNITY_ERROR_INVALID_ARGUMENT,
        check (array_len > TusMaxSelectedFriends) ORBIS_NP_COMMUNITY_ERROR_TOO_MANY_NPID,
        check (sort_type < ORBIS_NP_TUS_VARIABLE_SORTTYPE_DESCENDING_DATE \<or> sort_type > ORBIS_NP_TUS_VARIABLE_SORTTYPE_ASCENDING_VALUE)
          ORBIS_NP_COMMUNITY_ERROR_INVALID_ARGUMENT,
        check (variable_array_size \<noteq> array_bytes array_len sizeof_variable_cs) ORBIS_NP_COMMUNITY_ERROR_INVALID_ALIGNMENT,
        check (case var_param of None \<Rightarrow> False | Some p \<Rightarrow> fv_size p \<noteq> 24)
          ORBIS_NP_COMMUNITY_ERROR_INVALID_ALIGNMENT,
        check (case var_param of None \<Rightarrow> False | Some p \<Rightarrow> fv_start_serial_rank p = Some 0)
          ORBIS_NP_COMMUNITY_ERROR_INVALID_ARGUMENT]
       (reading (Returned ()))
       (\<lambda>svc uid self _ ctx. TusGetFriendsVariable cfg uid svc slot_id (include_self \<noteq> 0) sort_type (word_of_int array_len)
          (var_cs variable_array) (word_of_int array_len) (Some ctx) (fv_start_offset var_param) (Option.bind var_param fv_hits))
       fresh"

definition sceNpTusGetFriendsVariableForCrossSave ::
  "HandlerConfig \<Rightarrow> s32 \<Rightarrow> s32 \<Rightarrow> s32 \<Rightarrow> s32 \<Rightarrow>
   addr option \<Rightarrow> u64 \<Rightarrow> s32 \<Rightarrow> OrbisNpTusGetFriendsVariableOptParam option \<Rightarrow>
   addr \<Rightarrow> tus_wait_step" where
  "sceNpTusGetFriendsVariableForCrossSave cfg req_id slot_id include_self sort_type variable_array variable_array_size
     array_len var_param fresh =
     tus_sync req_id (sceNpTusGetFriendsVariableForCrossSaveAsync cfg req_id slot_id include_self sort_type variable_array
          variable_array_size array_len var_param fresh)"

end
