(* ===== verification/NpTusData.thy ===== *)
theory NpTusData
  imports NpTusVar
begin

text \<open>
  The calls of the storage library (np_tus.cpp) that read, write and delete data. A request
  remembers how far a transfer in pieces has come; a piece that is read is cut out of the whole
  data by the handler when the reply comes (HandlerTusReply).
\<close>

section \<open>Pieces\<close>

text \<open>
  Each read of data takes the next piece: the transfer of the request counts the bytes asked for
  so far, and starts again when the game names another slot or owner.
\<close>

definition next_piece :: "s32 \<Rightarrow> s64 \<Rightarrow> bytes \<Rightarrow> bool \<Rightarrow> u64 \<Rightarrow> NpTusDataXfer \<Rightarrow> u64 \<times> NpTusDataXfer" where
  "next_piece slot account vusr has_data recv_size x =
     (let x1 = (if SameTarget slot account vusr x then x else BeginXfer slot account vusr)
      in (xf_recv_offset x1, if has_data then x1\<lparr>xf_recv_offset := xf_recv_offset x1 + recv_size\<rparr> else x1))"

text \<open>The owner may be the game's own online id.\<close>

definition piece_of :: "s32 \<Rightarrow> s64 \<Rightarrow> (bytes \<Rightarrow> bytes) \<Rightarrow> addr option \<Rightarrow> u64 \<Rightarrow> u64 gather" where
  "piece_of slot account owner dat recv_size self x =
     Returned (next_piece slot account (owner self) (dat \<noteq> None) recv_size x)"

definition sizeof_data_info :: u64 where "sizeof_data_info = 392"

definition info_bytes :: "OrbisNpTusDataInfo option \<Rightarrow> u64 \<Rightarrow> bytes" where
  "info_bytes info info_struct_size =
     (case info of
        None \<Rightarrow> []
      | Some i \<Rightarrow> if info_struct_size \<ge> sizeof_data_info then take (min (unat (di_size i)) 384) (di_data i) else [])"

text \<open>
  Each write of data adds a piece. The size and the information are those of the first piece. The
  piece that fills it up gives the data and its information, and ends the transfer. Reserving room
  for the size throws when it is more than a vector can hold.
\<close>

definition add_piece ::
  "s32 \<Rightarrow> s64 \<Rightarrow> (bytes \<Rightarrow> bytes) \<Rightarrow> u64 \<Rightarrow> u64 \<Rightarrow> bytes option \<Rightarrow> OrbisNpTusDataInfo option \<Rightarrow> u64 \<Rightarrow>
   (bytes \<times> bytes) option gather" where
  "add_piece slot account owner total_size send_size src info info_struct_size self x =
     (let same = SameTarget slot account (owner self) x
      in if \<not> same \<and> unat total_size \<ge> 2 ^ 63 then Threw
         else
           let x1 = (if same then x
                     else (BeginXfer slot account (owner self))\<lparr>xf_total_size := total_size,
                            xf_info := info_bytes info info_struct_size\<rparr>)
           in bind_outcome (read_n (unat send_size) src) (\<lambda>piece.
                let buf = xf_send_buf x1 @ piece
                in Returned (if length buf \<ge> unat (xf_total_size x1) then (Some (buf, xf_info x1), no_xfer)
                             else (None, x1\<lparr>xf_send_buf := buf\<rparr>))))"

text \<open>Data that is complete is sent; until then the call succeeds at once.\<close>

definition send_complete ::
  "(bytes \<Rightarrow> bytes \<Rightarrow> addr \<Rightarrow> NpHandler \<Rightarrow> s32 \<times> NpHandler) \<Rightarrow> (bytes \<times> bytes) option \<Rightarrow> addr \<Rightarrow> NpHandler \<Rightarrow>
   s32 \<times> NpHandler" where
  "send_complete send complete ctx h =
     (case complete of
        None \<Rightarrow> (ORBIS_OK, tus_set ctx ORBIS_OK h)
      | Some (blob, info) \<Rightarrow> send blob info ctx h)"

section \<open>Reading data\<close>

definition sceNpTusGetDataAsync ::
  "HandlerConfig \<Rightarrow> s32 \<Rightarrow> OrbisNpId option \<Rightarrow> s32 \<Rightarrow> addr option \<Rightarrow>
   u64 \<Rightarrow> addr option \<Rightarrow> u64 \<Rightarrow> bool \<Rightarrow> addr \<Rightarrow> tus_step" where
  "sceNpTusGetDataAsync cfg req_id target_np_id slot_id data_status data_status_size dat recv_size has_option fresh =
     tus_call req_id
       [check has_option ORBIS_NP_COMMUNITY_ERROR_INVALID_ARGUMENT,
        check (data_status = None \<or> data_status_size = 0) ORBIS_NP_COMMUNITY_ERROR_INSUFFICIENT_ARGUMENT,
        check (slot_id < 0) ORBIS_NP_COMMUNITY_ERROR_INVALID_ARGUMENT]
       (piece_of slot_id 0 (owner_of target_np_id) dat recv_size)
       (\<lambda>svc uid self offset ctx. TusGetData cfg uid svc (owner_of target_np_id self) [] 0 slot_id (status_plain data_status)
          data_status_size dat (if dat \<noteq> None then recv_size else 0) offset (Some ctx))
       fresh"

definition sceNpTusGetData ::
  "HandlerConfig \<Rightarrow> s32 \<Rightarrow> OrbisNpId option \<Rightarrow> s32 \<Rightarrow> addr option \<Rightarrow>
   u64 \<Rightarrow> addr option \<Rightarrow> u64 \<Rightarrow> bool \<Rightarrow> addr \<Rightarrow> tus_wait_step" where
  "sceNpTusGetData cfg req_id target_np_id slot_id data_status data_status_size dat recv_size has_option fresh =
     tus_sync req_id (sceNpTusGetDataAsync cfg req_id target_np_id slot_id data_status data_status_size dat recv_size
          has_option fresh)"

definition sceNpTusGetDataVUserAsync ::
  "HandlerConfig \<Rightarrow> s32 \<Rightarrow> bytes option \<Rightarrow> s32 \<Rightarrow> addr option \<Rightarrow>
   u64 \<Rightarrow> addr option \<Rightarrow> u64 \<Rightarrow> bool \<Rightarrow> addr \<Rightarrow> tus_step" where
  "sceNpTusGetDataVUserAsync cfg req_id target_virtual_user_id slot_id data_status data_status_size dat recv_size has_option
     fresh =
     tus_call req_id
       [check has_option ORBIS_NP_COMMUNITY_ERROR_INVALID_ARGUMENT,
        check (target_virtual_user_id = None \<or> data_status = None \<or> data_status_size = 0)
          ORBIS_NP_COMMUNITY_ERROR_INSUFFICIENT_ARGUMENT,
        check (slot_id < 0) ORBIS_NP_COMMUNITY_ERROR_INVALID_ARGUMENT,
        check_vuser target_virtual_user_id]
       (piece_of slot_id 0 (\<lambda>_. vuser target_virtual_user_id) dat recv_size)
       (\<lambda>svc uid self offset ctx. TusGetData cfg uid svc [] (vuser target_virtual_user_id) 0 slot_id (status_plain data_status)
          data_status_size dat (if dat \<noteq> None then recv_size else 0) offset (Some ctx))
       fresh"

definition sceNpTusGetDataVUser ::
  "HandlerConfig \<Rightarrow> s32 \<Rightarrow> bytes option \<Rightarrow> s32 \<Rightarrow> addr option \<Rightarrow>
   u64 \<Rightarrow> addr option \<Rightarrow> u64 \<Rightarrow> bool \<Rightarrow> addr \<Rightarrow> tus_wait_step" where
  "sceNpTusGetDataVUser cfg req_id target_virtual_user_id slot_id data_status data_status_size dat recv_size has_option
     fresh =
     tus_sync req_id (sceNpTusGetDataVUserAsync cfg req_id target_virtual_user_id slot_id data_status data_status_size dat
          recv_size has_option fresh)"

definition sceNpTusGetDataAAsync ::
  "HandlerConfig \<Rightarrow> s32 \<Rightarrow> u64 \<Rightarrow> s32 \<Rightarrow> addr option \<Rightarrow>
   u64 \<Rightarrow> addr option \<Rightarrow> u64 \<Rightarrow> bool \<Rightarrow> addr \<Rightarrow> tus_step" where
  "sceNpTusGetDataAAsync cfg req_id target_account_id slot_id data_status data_status_size dat recv_size has_option fresh =
     tus_call req_id
       [check has_option ORBIS_NP_COMMUNITY_ERROR_INVALID_ARGUMENT,
        check (data_status = None \<or> data_status_size = 0) ORBIS_NP_COMMUNITY_ERROR_INSUFFICIENT_ARGUMENT,
        check (slot_id < 0) ORBIS_NP_COMMUNITY_ERROR_INVALID_ARGUMENT]
       (piece_of slot_id (to_s64 (uint target_account_id)) (\<lambda>_. []) dat recv_size)
       (\<lambda>svc uid self offset ctx. TusGetData cfg uid svc [] [] (to_s64 (uint target_account_id)) slot_id (status_a data_status)
          data_status_size dat (if dat \<noteq> None then recv_size else 0) offset (Some ctx))
       fresh"

definition sceNpTusGetDataA ::
  "HandlerConfig \<Rightarrow> s32 \<Rightarrow> u64 \<Rightarrow> s32 \<Rightarrow> addr option \<Rightarrow>
   u64 \<Rightarrow> addr option \<Rightarrow> u64 \<Rightarrow> bool \<Rightarrow> addr \<Rightarrow> tus_wait_step" where
  "sceNpTusGetDataA cfg req_id target_account_id slot_id data_status data_status_size dat recv_size has_option fresh =
     tus_sync req_id (sceNpTusGetDataAAsync cfg req_id target_account_id slot_id data_status data_status_size dat recv_size
          has_option fresh)"

definition sceNpTusGetDataAVUserAsync ::
  "HandlerConfig \<Rightarrow> s32 \<Rightarrow> bytes option \<Rightarrow> s32 \<Rightarrow> addr option \<Rightarrow>
   u64 \<Rightarrow> addr option \<Rightarrow> u64 \<Rightarrow> bool \<Rightarrow> addr \<Rightarrow> tus_step" where
  "sceNpTusGetDataAVUserAsync cfg req_id target_virtual_user_id slot_id data_status data_status_size dat recv_size
     has_option fresh =
     tus_call req_id
       [check has_option ORBIS_NP_COMMUNITY_ERROR_INVALID_ARGUMENT,
        check (target_virtual_user_id = None \<or> data_status = None \<or> data_status_size = 0)
          ORBIS_NP_COMMUNITY_ERROR_INSUFFICIENT_ARGUMENT,
        check (slot_id < 0) ORBIS_NP_COMMUNITY_ERROR_INVALID_ARGUMENT,
        check_vuser target_virtual_user_id]
       (piece_of slot_id 0 (\<lambda>_. vuser target_virtual_user_id) dat recv_size)
       (\<lambda>svc uid self offset ctx. TusGetData cfg uid svc [] (vuser target_virtual_user_id) 0 slot_id (status_a data_status)
          data_status_size dat (if dat \<noteq> None then recv_size else 0) offset (Some ctx))
       fresh"

definition sceNpTusGetDataAVUser ::
  "HandlerConfig \<Rightarrow> s32 \<Rightarrow> bytes option \<Rightarrow> s32 \<Rightarrow> addr option \<Rightarrow>
   u64 \<Rightarrow> addr option \<Rightarrow> u64 \<Rightarrow> bool \<Rightarrow> addr \<Rightarrow> tus_wait_step" where
  "sceNpTusGetDataAVUser cfg req_id target_virtual_user_id slot_id data_status data_status_size dat recv_size has_option
     fresh =
     tus_sync req_id (sceNpTusGetDataAVUserAsync cfg req_id target_virtual_user_id slot_id data_status data_status_size dat
          recv_size has_option fresh)"

definition sceNpTusGetDataForCrossSaveAsync ::
  "HandlerConfig \<Rightarrow> s32 \<Rightarrow> u64 \<Rightarrow> s32 \<Rightarrow> addr option \<Rightarrow>
   u64 \<Rightarrow> addr option \<Rightarrow> u64 \<Rightarrow> bool \<Rightarrow> addr \<Rightarrow> tus_step" where
  "sceNpTusGetDataForCrossSaveAsync cfg req_id target_account_id slot_id data_status data_status_size dat recv_size
     has_option fresh =
     tus_call req_id
       [check (has_option \<or> slot_id < 0) ORBIS_NP_COMMUNITY_ERROR_INVALID_ARGUMENT,
        check (data_status = None \<or> data_status_size = 0) ORBIS_NP_COMMUNITY_ERROR_INSUFFICIENT_ARGUMENT,
        check (data_status_size \<noteq> of_nat sizeof_status_cs) ORBIS_NP_COMMUNITY_ERROR_INVALID_ALIGNMENT]
       (piece_of slot_id (to_s64 (uint target_account_id)) (\<lambda>_. []) dat recv_size)
       (\<lambda>svc uid self offset ctx. TusGetData cfg uid svc [] [] (to_s64 (uint target_account_id)) slot_id (status_cs data_status)
          data_status_size dat (if dat \<noteq> None then recv_size else 0) offset (Some ctx))
       fresh"

definition sceNpTusGetDataForCrossSave ::
  "HandlerConfig \<Rightarrow> s32 \<Rightarrow> u64 \<Rightarrow> s32 \<Rightarrow> addr option \<Rightarrow>
   u64 \<Rightarrow> addr option \<Rightarrow> u64 \<Rightarrow> bool \<Rightarrow> addr \<Rightarrow> tus_wait_step" where
  "sceNpTusGetDataForCrossSave cfg req_id target_account_id slot_id data_status data_status_size dat recv_size has_option
     fresh =
     tus_sync req_id (sceNpTusGetDataForCrossSaveAsync cfg req_id target_account_id slot_id data_status data_status_size dat
          recv_size has_option fresh)"

definition sceNpTusGetDataForCrossSaveVUserAsync ::
  "HandlerConfig \<Rightarrow> s32 \<Rightarrow> bytes option \<Rightarrow> s32 \<Rightarrow> addr option \<Rightarrow>
   u64 \<Rightarrow> addr option \<Rightarrow> u64 \<Rightarrow> bool \<Rightarrow> addr \<Rightarrow> tus_step" where
  "sceNpTusGetDataForCrossSaveVUserAsync cfg req_id target_virtual_user_id slot_id data_status data_status_size dat
     recv_size has_option fresh =
     tus_call req_id
       [check (has_option \<or> slot_id < 0) ORBIS_NP_COMMUNITY_ERROR_INVALID_ARGUMENT,
        check (target_virtual_user_id = None \<or> data_status = None \<or> data_status_size = 0)
          ORBIS_NP_COMMUNITY_ERROR_INSUFFICIENT_ARGUMENT,
        check (data_status_size \<noteq> of_nat sizeof_status_cs) ORBIS_NP_COMMUNITY_ERROR_INVALID_ALIGNMENT,
        check_vuser target_virtual_user_id]
       (piece_of slot_id 0 (\<lambda>_. vuser target_virtual_user_id) dat recv_size)
       (\<lambda>svc uid self offset ctx. TusGetData cfg uid svc [] (vuser target_virtual_user_id) 0 slot_id (status_cs data_status)
          data_status_size dat (if dat \<noteq> None then recv_size else 0) offset (Some ctx))
       fresh"

definition sceNpTusGetDataForCrossSaveVUser ::
  "HandlerConfig \<Rightarrow> s32 \<Rightarrow> bytes option \<Rightarrow> s32 \<Rightarrow> addr option \<Rightarrow>
   u64 \<Rightarrow> addr option \<Rightarrow> u64 \<Rightarrow> bool \<Rightarrow> addr \<Rightarrow> tus_wait_step" where
  "sceNpTusGetDataForCrossSaveVUser cfg req_id target_virtual_user_id slot_id data_status data_status_size dat recv_size
     has_option fresh =
     tus_sync req_id (sceNpTusGetDataForCrossSaveVUserAsync cfg req_id target_virtual_user_id slot_id data_status
          data_status_size dat recv_size has_option fresh)"

section \<open>Writing and deleting data\<close>

definition sceNpTusSetDataAsync ::
  "HandlerConfig \<Rightarrow> s32 \<Rightarrow> OrbisNpId option \<Rightarrow> s32 \<Rightarrow> u64 \<Rightarrow>
   u64 \<Rightarrow> bytes option \<Rightarrow> OrbisNpTusDataInfo option \<Rightarrow> u64 \<Rightarrow>
   OrbisNpId option \<Rightarrow> u64 option \<Rightarrow> bool \<Rightarrow> addr \<Rightarrow> tus_step" where
  "sceNpTusSetDataAsync cfg req_id target_np_id slot_id total_size send_size src info info_struct_size author date
     has_option fresh =
     tus_call req_id
       [check has_option ORBIS_NP_COMMUNITY_ERROR_INVALID_ARGUMENT,
        check (src = None \<or> send_size = 0) ORBIS_NP_COMMUNITY_ERROR_INSUFFICIENT_ARGUMENT,
        check (slot_id < 0 \<or> send_size > total_size) ORBIS_NP_COMMUNITY_ERROR_INVALID_ARGUMENT]
       (add_piece slot_id 0 (owner_of target_np_id) total_size send_size src info info_struct_size)
       (\<lambda>svc uid self complete ctx. send_complete (\<lambda>blob inf ctx. TusSetData cfg uid svc (owner_of target_np_id self) [] 0 slot_id blob inf
          (author \<noteq> None) 0 (author_string author) (date \<noteq> None) (date_tick date) (Some ctx)) complete ctx)
       fresh"

definition sceNpTusSetData ::
  "HandlerConfig \<Rightarrow> s32 \<Rightarrow> OrbisNpId option \<Rightarrow> s32 \<Rightarrow> u64 \<Rightarrow>
   u64 \<Rightarrow> bytes option \<Rightarrow> OrbisNpTusDataInfo option \<Rightarrow> u64 \<Rightarrow>
   OrbisNpId option \<Rightarrow> u64 option \<Rightarrow> bool \<Rightarrow> addr \<Rightarrow> tus_wait_step" where
  "sceNpTusSetData cfg req_id target_np_id slot_id total_size send_size src info info_struct_size author date has_option
     fresh =
     tus_sync req_id (sceNpTusSetDataAsync cfg req_id target_np_id slot_id total_size send_size src info info_struct_size
          author date has_option fresh)"

definition sceNpTusSetDataVUserAsync ::
  "HandlerConfig \<Rightarrow> s32 \<Rightarrow> bytes option \<Rightarrow> s32 \<Rightarrow> u64 \<Rightarrow>
   u64 \<Rightarrow> bytes option \<Rightarrow> OrbisNpTusDataInfo option \<Rightarrow> u64 \<Rightarrow>
   OrbisNpId option \<Rightarrow> u64 option \<Rightarrow> bool \<Rightarrow> addr \<Rightarrow> tus_step" where
  "sceNpTusSetDataVUserAsync cfg req_id target_virtual_user_id slot_id total_size send_size src info info_struct_size author
     date has_option fresh =
     tus_call req_id
       [check has_option ORBIS_NP_COMMUNITY_ERROR_INVALID_ARGUMENT,
        check (target_virtual_user_id = None \<or> src = None \<or> send_size = 0) ORBIS_NP_COMMUNITY_ERROR_INSUFFICIENT_ARGUMENT,
        check (slot_id < 0 \<or> send_size > total_size) ORBIS_NP_COMMUNITY_ERROR_INVALID_ARGUMENT,
        check_vuser target_virtual_user_id]
       (add_piece slot_id 0 (\<lambda>_. vuser target_virtual_user_id) total_size send_size src info info_struct_size)
       (\<lambda>svc uid self complete ctx. send_complete (\<lambda>blob inf ctx. TusSetData cfg uid svc [] (vuser target_virtual_user_id) 0 slot_id blob inf
          (author \<noteq> None) 0 (author_string author) (date \<noteq> None) (date_tick date) (Some ctx)) complete ctx)
       fresh"

definition sceNpTusSetDataVUser ::
  "HandlerConfig \<Rightarrow> s32 \<Rightarrow> bytes option \<Rightarrow> s32 \<Rightarrow> u64 \<Rightarrow>
   u64 \<Rightarrow> bytes option \<Rightarrow> OrbisNpTusDataInfo option \<Rightarrow> u64 \<Rightarrow>
   OrbisNpId option \<Rightarrow> u64 option \<Rightarrow> bool \<Rightarrow> addr \<Rightarrow> tus_wait_step" where
  "sceNpTusSetDataVUser cfg req_id target_virtual_user_id slot_id total_size send_size src info info_struct_size author date
     has_option fresh =
     tus_sync req_id (sceNpTusSetDataVUserAsync cfg req_id target_virtual_user_id slot_id total_size send_size src info
          info_struct_size author date has_option fresh)"

definition sceNpTusSetDataAAsync ::
  "HandlerConfig \<Rightarrow> s32 \<Rightarrow> u64 \<Rightarrow> s32 \<Rightarrow> u64 \<Rightarrow> u64 \<Rightarrow>
   bytes option \<Rightarrow> OrbisNpTusDataInfo option \<Rightarrow> u64 \<Rightarrow> u64 option \<Rightarrow>
   u64 option \<Rightarrow> bool \<Rightarrow> addr \<Rightarrow> tus_step" where
  "sceNpTusSetDataAAsync cfg req_id target_account_id slot_id total_size send_size src info info_struct_size author_acc date
     has_option fresh =
     tus_call req_id
       [check has_option ORBIS_NP_COMMUNITY_ERROR_INVALID_ARGUMENT,
        check (src = None \<or> send_size = 0) ORBIS_NP_COMMUNITY_ERROR_INSUFFICIENT_ARGUMENT,
        check (slot_id < 0 \<or> send_size > total_size) ORBIS_NP_COMMUNITY_ERROR_INVALID_ARGUMENT]
       (add_piece slot_id (to_s64 (uint target_account_id)) (\<lambda>_. []) total_size send_size src info info_struct_size)
       (\<lambda>svc uid self complete ctx. send_complete (\<lambda>blob inf ctx. TusSetData cfg uid svc [] [] (to_s64 (uint target_account_id)) slot_id blob inf
          (author_acc \<noteq> None) (author_account author_acc) [] (date \<noteq> None) (date_tick date) (Some ctx)) complete ctx)
       fresh"

definition sceNpTusSetDataA ::
  "HandlerConfig \<Rightarrow> s32 \<Rightarrow> u64 \<Rightarrow> s32 \<Rightarrow> u64 \<Rightarrow> u64 \<Rightarrow>
   bytes option \<Rightarrow> OrbisNpTusDataInfo option \<Rightarrow> u64 \<Rightarrow> u64 option \<Rightarrow>
   u64 option \<Rightarrow> bool \<Rightarrow> addr \<Rightarrow> tus_wait_step" where
  "sceNpTusSetDataA cfg req_id target_account_id slot_id total_size send_size src info info_struct_size author_acc date
     has_option fresh =
     tus_sync req_id (sceNpTusSetDataAAsync cfg req_id target_account_id slot_id total_size send_size src info info_struct_size
          author_acc date has_option fresh)"

definition sceNpTusSetDataAVUserAsync ::
  "HandlerConfig \<Rightarrow> s32 \<Rightarrow> bytes option \<Rightarrow> s32 \<Rightarrow> u64 \<Rightarrow>
   u64 \<Rightarrow> bytes option \<Rightarrow> OrbisNpTusDataInfo option \<Rightarrow> u64 \<Rightarrow>
   u64 option \<Rightarrow> u64 option \<Rightarrow> bool \<Rightarrow> addr \<Rightarrow> tus_step" where
  "sceNpTusSetDataAVUserAsync cfg req_id target_virtual_user_id slot_id total_size send_size src info info_struct_size
     author_acc date has_option fresh =
     tus_call req_id
       [check has_option ORBIS_NP_COMMUNITY_ERROR_INVALID_ARGUMENT,
        check (target_virtual_user_id = None \<or> src = None \<or> send_size = 0) ORBIS_NP_COMMUNITY_ERROR_INSUFFICIENT_ARGUMENT,
        check (slot_id < 0 \<or> send_size > total_size) ORBIS_NP_COMMUNITY_ERROR_INVALID_ARGUMENT,
        check_vuser target_virtual_user_id]
       (add_piece slot_id 0 (\<lambda>_. vuser target_virtual_user_id) total_size send_size src info info_struct_size)
       (\<lambda>svc uid self complete ctx. send_complete (\<lambda>blob inf ctx. TusSetData cfg uid svc [] (vuser target_virtual_user_id) 0 slot_id blob inf
          (author_acc \<noteq> None) (author_account author_acc) [] (date \<noteq> None) (date_tick date) (Some ctx)) complete ctx)
       fresh"

definition sceNpTusSetDataAVUser ::
  "HandlerConfig \<Rightarrow> s32 \<Rightarrow> bytes option \<Rightarrow> s32 \<Rightarrow> u64 \<Rightarrow>
   u64 \<Rightarrow> bytes option \<Rightarrow> OrbisNpTusDataInfo option \<Rightarrow> u64 \<Rightarrow>
   u64 option \<Rightarrow> u64 option \<Rightarrow> bool \<Rightarrow> addr \<Rightarrow> tus_wait_step" where
  "sceNpTusSetDataAVUser cfg req_id target_virtual_user_id slot_id total_size send_size src info info_struct_size author_acc
     date has_option fresh =
     tus_sync req_id (sceNpTusSetDataAVUserAsync cfg req_id target_virtual_user_id slot_id total_size send_size src info
          info_struct_size author_acc date has_option fresh)"

definition sceNpTusDeleteMultiSlotDataAsync ::
  "HandlerConfig \<Rightarrow> s32 \<Rightarrow> OrbisNpId option \<Rightarrow> s32 list option \<Rightarrow>
   s32 \<Rightarrow> bool \<Rightarrow> addr \<Rightarrow> tus_step" where
  "sceNpTusDeleteMultiSlotDataAsync cfg req_id target_np_id slot_ids array_len has_option fresh =
     tus_call req_id
       [check (target_np_id = None \<or> slot_ids = None \<or> array_len < 1) ORBIS_NP_COMMUNITY_ERROR_INSUFFICIENT_ARGUMENT,
        check has_option ORBIS_NP_COMMUNITY_ERROR_INVALID_ARGUMENT,
        check (array_len > TusMaxSlotsPerRequest) ORBIS_NP_COMMUNITY_ERROR_TOO_MANY_SLOTID,
        check_slots array_len slot_ids]
       (reading (read_n (nat array_len) slot_ids))
       (\<lambda>svc uid self slots ctx. TusDeleteMultiSlotData cfg uid svc (owner_of target_np_id self) [] 0 slots (Some ctx))
       fresh"

definition sceNpTusDeleteMultiSlotData ::
  "HandlerConfig \<Rightarrow> s32 \<Rightarrow> OrbisNpId option \<Rightarrow> s32 list option \<Rightarrow>
   s32 \<Rightarrow> bool \<Rightarrow> addr \<Rightarrow> tus_wait_step" where
  "sceNpTusDeleteMultiSlotData cfg req_id target_np_id slot_ids array_len has_option fresh =
     tus_sync req_id (sceNpTusDeleteMultiSlotDataAsync cfg req_id target_np_id slot_ids array_len has_option fresh)"

definition sceNpTusDeleteMultiSlotDataVUserAsync ::
  "HandlerConfig \<Rightarrow> s32 \<Rightarrow> bytes option \<Rightarrow> s32 list option \<Rightarrow> s32 \<Rightarrow>
   bool \<Rightarrow> addr \<Rightarrow> tus_step" where
  "sceNpTusDeleteMultiSlotDataVUserAsync cfg req_id target_virtual_user_id slot_ids array_len has_option fresh =
     tus_call req_id
       [check (target_virtual_user_id = None \<or> slot_ids = None \<or> array_len < 1)
          ORBIS_NP_COMMUNITY_ERROR_INSUFFICIENT_ARGUMENT,
        check has_option ORBIS_NP_COMMUNITY_ERROR_INVALID_ARGUMENT,
        check (array_len > TusMaxSlotsPerRequest) ORBIS_NP_COMMUNITY_ERROR_TOO_MANY_SLOTID,
        check_slots array_len slot_ids,
        check_vuser target_virtual_user_id]
       (reading (read_n (nat array_len) slot_ids))
       (\<lambda>svc uid self slots ctx. TusDeleteMultiSlotData cfg uid svc [] (vuser target_virtual_user_id) 0 slots (Some ctx))
       fresh"

definition sceNpTusDeleteMultiSlotDataVUser ::
  "HandlerConfig \<Rightarrow> s32 \<Rightarrow> bytes option \<Rightarrow> s32 list option \<Rightarrow> s32 \<Rightarrow>
   bool \<Rightarrow> addr \<Rightarrow> tus_wait_step" where
  "sceNpTusDeleteMultiSlotDataVUser cfg req_id target_virtual_user_id slot_ids array_len has_option fresh =
     tus_sync req_id (sceNpTusDeleteMultiSlotDataVUserAsync cfg req_id target_virtual_user_id slot_ids array_len has_option fresh)"

definition sceNpTusDeleteMultiSlotDataAAsync ::
  "HandlerConfig \<Rightarrow> s32 \<Rightarrow> u64 \<Rightarrow> s32 list option \<Rightarrow> s32 \<Rightarrow>
   bool \<Rightarrow> addr \<Rightarrow> tus_step" where
  "sceNpTusDeleteMultiSlotDataAAsync cfg req_id target_account_id slot_ids array_len has_option fresh =
     tus_call req_id
       [check (slot_ids = None) ORBIS_NP_COMMUNITY_ERROR_INSUFFICIENT_ARGUMENT,
        check (has_option \<or> array_len < 1) ORBIS_NP_COMMUNITY_ERROR_INVALID_ARGUMENT,
        check (array_len > TusMaxSlotsPerRequest) ORBIS_NP_COMMUNITY_ERROR_TOO_MANY_SLOTID,
        check_slots array_len slot_ids]
       (reading (read_n (nat array_len) slot_ids))
       (\<lambda>svc uid self slots ctx. TusDeleteMultiSlotData cfg uid svc [] [] (to_s64 (uint target_account_id)) slots (Some ctx))
       fresh"

definition sceNpTusDeleteMultiSlotDataA ::
  "HandlerConfig \<Rightarrow> s32 \<Rightarrow> u64 \<Rightarrow> s32 list option \<Rightarrow> s32 \<Rightarrow>
   bool \<Rightarrow> addr \<Rightarrow> tus_wait_step" where
  "sceNpTusDeleteMultiSlotDataA cfg req_id target_account_id slot_ids array_len has_option fresh =
     tus_sync req_id (sceNpTusDeleteMultiSlotDataAAsync cfg req_id target_account_id slot_ids array_len has_option fresh)"

end
