(* ===== verification/NpTusStatus.thy ===== *)
theory NpTusStatus
  imports NpTusData
begin

text \<open>
  The calls of the storage library (np_tus.cpp) for the status of data, of a user, of several and
  of friends, the title storage, and the calls that do nothing.
\<close>

definition ORBIS_NP_TUS_DATASTATUS_SORTTYPE_DESCENDING_DATE :: s32 where
  [simp]: "ORBIS_NP_TUS_DATASTATUS_SORTTYPE_DESCENDING_DATE = 1"
definition ORBIS_NP_TUS_DATASTATUS_SORTTYPE_ASCENDING_DATE :: s32 where
  [simp]: "ORBIS_NP_TUS_DATASTATUS_SORTTYPE_ASCENDING_DATE = 2"

section \<open>The status of data\<close>

definition sceNpTusGetMultiSlotDataStatusAsync ::
  "HandlerConfig \<Rightarrow> s32 \<Rightarrow> OrbisNpId option \<Rightarrow> s32 list option \<Rightarrow>
   addr option \<Rightarrow> u64 \<Rightarrow> s32 \<Rightarrow> bool \<Rightarrow> addr \<Rightarrow> tus_step" where
  "sceNpTusGetMultiSlotDataStatusAsync cfg req_id target_np_id slot_ids status_array status_array_size array_len has_option
     fresh =
     tus_call req_id
       [check (target_np_id = None \<or> slot_ids = None \<or> status_array = None \<or> array_len < 1)
          ORBIS_NP_COMMUNITY_ERROR_INSUFFICIENT_ARGUMENT,
        check has_option ORBIS_NP_COMMUNITY_ERROR_INVALID_ARGUMENT,
        check (array_len > TusMaxSlotsPerRequest) ORBIS_NP_COMMUNITY_ERROR_TOO_MANY_NPID,
        check_slots array_len slot_ids,
        check (status_array_size \<noteq> array_bytes array_len sizeof_status) ORBIS_NP_COMMUNITY_ERROR_INVALID_ALIGNMENT]
       (reading (read_n (nat array_len) slot_ids))
       (\<lambda>svc uid self slots ctx. TusGetMultiSlotDataStatus cfg uid svc (owner_of target_np_id self) [] 0 slots
          (status_plain status_array) (word_of_int array_len) (Some ctx))
       fresh"

definition sceNpTusGetMultiSlotDataStatus ::
  "HandlerConfig \<Rightarrow> s32 \<Rightarrow> OrbisNpId option \<Rightarrow> s32 list option \<Rightarrow>
   addr option \<Rightarrow> u64 \<Rightarrow> s32 \<Rightarrow> bool \<Rightarrow> addr \<Rightarrow> tus_wait_step" where
  "sceNpTusGetMultiSlotDataStatus cfg req_id target_np_id slot_ids status_array status_array_size array_len has_option fresh
     =
     tus_sync req_id (sceNpTusGetMultiSlotDataStatusAsync cfg req_id target_np_id slot_ids status_array status_array_size
          array_len has_option fresh)"

definition sceNpTusGetMultiSlotDataStatusVUserAsync ::
  "HandlerConfig \<Rightarrow> s32 \<Rightarrow> bytes option \<Rightarrow> s32 list option \<Rightarrow>
   addr option \<Rightarrow> u64 \<Rightarrow> s32 \<Rightarrow> bool \<Rightarrow> addr \<Rightarrow> tus_step" where
  "sceNpTusGetMultiSlotDataStatusVUserAsync cfg req_id target_virtual_user_id slot_ids status_array status_array_size
     array_len has_option fresh =
     tus_call req_id
       [check (target_virtual_user_id = None \<or> slot_ids = None \<or> status_array = None \<or> array_len < 1)
          ORBIS_NP_COMMUNITY_ERROR_INSUFFICIENT_ARGUMENT,
        check has_option ORBIS_NP_COMMUNITY_ERROR_INVALID_ARGUMENT,
        check (array_len > TusMaxSlotsPerRequest) ORBIS_NP_COMMUNITY_ERROR_TOO_MANY_NPID,
        check_slots array_len slot_ids,
        check (status_array_size \<noteq> array_bytes array_len sizeof_status) ORBIS_NP_COMMUNITY_ERROR_INVALID_ALIGNMENT,
        check_vuser target_virtual_user_id]
       (reading (read_n (nat array_len) slot_ids))
       (\<lambda>svc uid self slots ctx. TusGetMultiSlotDataStatus cfg uid svc [] (vuser target_virtual_user_id) 0 slots
          (status_plain status_array) (word_of_int array_len) (Some ctx))
       fresh"

definition sceNpTusGetMultiSlotDataStatusVUser ::
  "HandlerConfig \<Rightarrow> s32 \<Rightarrow> bytes option \<Rightarrow> s32 list option \<Rightarrow>
   addr option \<Rightarrow> u64 \<Rightarrow> s32 \<Rightarrow> bool \<Rightarrow> addr \<Rightarrow> tus_wait_step" where
  "sceNpTusGetMultiSlotDataStatusVUser cfg req_id target_virtual_user_id slot_ids status_array status_array_size array_len
     has_option fresh =
     tus_sync req_id (sceNpTusGetMultiSlotDataStatusVUserAsync cfg req_id target_virtual_user_id slot_ids status_array
          status_array_size array_len has_option fresh)"

definition sceNpTusGetMultiSlotDataStatusAAsync ::
  "HandlerConfig \<Rightarrow> s32 \<Rightarrow> u64 \<Rightarrow> s32 list option \<Rightarrow> addr option \<Rightarrow>
   u64 \<Rightarrow> s32 \<Rightarrow> bool \<Rightarrow> addr \<Rightarrow> tus_step" where
  "sceNpTusGetMultiSlotDataStatusAAsync cfg req_id target_account_id slot_ids status_array status_array_size array_len
     has_option fresh =
     tus_call req_id
       [check (slot_ids = None \<or> status_array = None) ORBIS_NP_COMMUNITY_ERROR_INSUFFICIENT_ARGUMENT,
        check (has_option \<or> array_len < 1) ORBIS_NP_COMMUNITY_ERROR_INVALID_ARGUMENT,
        check (array_len > TusMaxSlotsPerRequest) ORBIS_NP_COMMUNITY_ERROR_TOO_MANY_SLOTID,
        check_slots array_len slot_ids,
        check (status_array_size \<noteq> array_bytes array_len sizeof_status_a) ORBIS_NP_COMMUNITY_ERROR_INVALID_ALIGNMENT]
       (reading (read_n (nat array_len) slot_ids))
       (\<lambda>svc uid self slots ctx. TusGetMultiSlotDataStatus cfg uid svc [] [] (to_s64 (uint target_account_id)) slots
          (status_a status_array) (word_of_int array_len) (Some ctx))
       fresh"

definition sceNpTusGetMultiSlotDataStatusA ::
  "HandlerConfig \<Rightarrow> s32 \<Rightarrow> u64 \<Rightarrow> s32 list option \<Rightarrow> addr option \<Rightarrow>
   u64 \<Rightarrow> s32 \<Rightarrow> bool \<Rightarrow> addr \<Rightarrow> tus_wait_step" where
  "sceNpTusGetMultiSlotDataStatusA cfg req_id target_account_id slot_ids status_array status_array_size array_len has_option
     fresh =
     tus_sync req_id (sceNpTusGetMultiSlotDataStatusAAsync cfg req_id target_account_id slot_ids status_array status_array_size
          array_len has_option fresh)"

definition sceNpTusGetMultiSlotDataStatusAVUserAsync ::
  "HandlerConfig \<Rightarrow> s32 \<Rightarrow> bytes option \<Rightarrow> s32 list option \<Rightarrow>
   addr option \<Rightarrow> u64 \<Rightarrow> s32 \<Rightarrow> bool \<Rightarrow> addr \<Rightarrow> tus_step" where
  "sceNpTusGetMultiSlotDataStatusAVUserAsync cfg req_id target_virtual_user_id slot_ids status_array status_array_size
     array_len has_option fresh =
     tus_call req_id
       [check (target_virtual_user_id = None \<or> slot_ids = None \<or> status_array = None)
          ORBIS_NP_COMMUNITY_ERROR_INSUFFICIENT_ARGUMENT,
        check (has_option \<or> array_len < 1) ORBIS_NP_COMMUNITY_ERROR_INVALID_ARGUMENT,
        check (array_len > TusMaxSlotsPerRequest) ORBIS_NP_COMMUNITY_ERROR_TOO_MANY_SLOTID,
        check_slots array_len slot_ids,
        check (status_array_size \<noteq> array_bytes array_len sizeof_status_a) ORBIS_NP_COMMUNITY_ERROR_INVALID_ALIGNMENT,
        check_vuser target_virtual_user_id]
       (reading (read_n (nat array_len) slot_ids))
       (\<lambda>svc uid self slots ctx. TusGetMultiSlotDataStatus cfg uid svc [] (vuser target_virtual_user_id) 0 slots
          (status_a status_array) (word_of_int array_len) (Some ctx))
       fresh"

definition sceNpTusGetMultiSlotDataStatusAVUser ::
  "HandlerConfig \<Rightarrow> s32 \<Rightarrow> bytes option \<Rightarrow> s32 list option \<Rightarrow>
   addr option \<Rightarrow> u64 \<Rightarrow> s32 \<Rightarrow> bool \<Rightarrow> addr \<Rightarrow> tus_wait_step" where
  "sceNpTusGetMultiSlotDataStatusAVUser cfg req_id target_virtual_user_id slot_ids status_array status_array_size array_len
     has_option fresh =
     tus_sync req_id (sceNpTusGetMultiSlotDataStatusAVUserAsync cfg req_id target_virtual_user_id slot_ids status_array
          status_array_size array_len has_option fresh)"

definition sceNpTusGetMultiSlotDataStatusForCrossSaveAsync ::
  "HandlerConfig \<Rightarrow> s32 \<Rightarrow> u64 \<Rightarrow> s32 list option \<Rightarrow> addr option \<Rightarrow>
   u64 \<Rightarrow> s32 \<Rightarrow> bool \<Rightarrow> addr \<Rightarrow> tus_step" where
  "sceNpTusGetMultiSlotDataStatusForCrossSaveAsync cfg req_id target_account_id slot_ids status_array status_array_size
     array_len has_option fresh =
     tus_call req_id
       [check (slot_ids = None \<or> status_array = None) ORBIS_NP_COMMUNITY_ERROR_INSUFFICIENT_ARGUMENT,
        check (has_option \<or> array_len < 1) ORBIS_NP_COMMUNITY_ERROR_INVALID_ARGUMENT,
        check (array_len > TusMaxSlotsPerRequest) ORBIS_NP_COMMUNITY_ERROR_TOO_MANY_SLOTID,
        check_slots array_len slot_ids,
        check (status_array_size \<noteq> array_bytes array_len sizeof_status_cs) ORBIS_NP_COMMUNITY_ERROR_INVALID_ALIGNMENT]
       (reading (read_n (nat array_len) slot_ids))
       (\<lambda>svc uid self slots ctx. TusGetMultiSlotDataStatus cfg uid svc [] [] (to_s64 (uint target_account_id)) slots
          (status_cs status_array) (word_of_int array_len) (Some ctx))
       fresh"

definition sceNpTusGetMultiSlotDataStatusForCrossSave ::
  "HandlerConfig \<Rightarrow> s32 \<Rightarrow> u64 \<Rightarrow> s32 list option \<Rightarrow> addr option \<Rightarrow>
   u64 \<Rightarrow> s32 \<Rightarrow> bool \<Rightarrow> addr \<Rightarrow> tus_wait_step" where
  "sceNpTusGetMultiSlotDataStatusForCrossSave cfg req_id target_account_id slot_ids status_array status_array_size array_len
     has_option fresh =
     tus_sync req_id (sceNpTusGetMultiSlotDataStatusForCrossSaveAsync cfg req_id target_account_id slot_ids status_array
          status_array_size array_len has_option fresh)"

definition sceNpTusGetMultiSlotDataStatusForCrossSaveVUserAsync ::
  "HandlerConfig \<Rightarrow> s32 \<Rightarrow> bytes option \<Rightarrow> s32 list option \<Rightarrow>
   addr option \<Rightarrow> u64 \<Rightarrow> s32 \<Rightarrow> bool \<Rightarrow> addr \<Rightarrow> tus_step" where
  "sceNpTusGetMultiSlotDataStatusForCrossSaveVUserAsync cfg req_id target_virtual_user_id slot_ids status_array
     status_array_size array_len has_option fresh =
     tus_call req_id
       [check (target_virtual_user_id = None \<or> slot_ids = None \<or> status_array = None)
          ORBIS_NP_COMMUNITY_ERROR_INSUFFICIENT_ARGUMENT,
        check (has_option \<or> array_len < 1) ORBIS_NP_COMMUNITY_ERROR_INVALID_ARGUMENT,
        check (array_len > TusMaxSlotsPerRequest) ORBIS_NP_COMMUNITY_ERROR_TOO_MANY_SLOTID,
        check_slots array_len slot_ids,
        check (status_array_size \<noteq> array_bytes array_len sizeof_status_cs) ORBIS_NP_COMMUNITY_ERROR_INVALID_ALIGNMENT,
        check_vuser target_virtual_user_id]
       (reading (read_n (nat array_len) slot_ids))
       (\<lambda>svc uid self slots ctx. TusGetMultiSlotDataStatus cfg uid svc [] (vuser target_virtual_user_id) 0 slots
          (status_cs status_array) (word_of_int array_len) (Some ctx))
       fresh"

definition sceNpTusGetMultiSlotDataStatusForCrossSaveVUser ::
  "HandlerConfig \<Rightarrow> s32 \<Rightarrow> bytes option \<Rightarrow> s32 list option \<Rightarrow>
   addr option \<Rightarrow> u64 \<Rightarrow> s32 \<Rightarrow> bool \<Rightarrow> addr \<Rightarrow> tus_wait_step" where
  "sceNpTusGetMultiSlotDataStatusForCrossSaveVUser cfg req_id target_virtual_user_id slot_ids status_array status_array_size
     array_len has_option fresh =
     tus_sync req_id (sceNpTusGetMultiSlotDataStatusForCrossSaveVUserAsync cfg req_id target_virtual_user_id slot_ids
          status_array status_array_size array_len has_option fresh)"

definition sceNpTusGetMultiUserDataStatusAsync ::
  "HandlerConfig \<Rightarrow> s32 \<Rightarrow> OrbisNpId list option \<Rightarrow> s32 \<Rightarrow>
   addr option \<Rightarrow> u64 \<Rightarrow> s32 \<Rightarrow> bool \<Rightarrow> addr \<Rightarrow> tus_step" where
  "sceNpTusGetMultiUserDataStatusAsync cfg req_id target_np_id_array slot_id status_array status_array_size array_len
     has_option fresh =
     tus_call req_id
       [check (target_np_id_array = None \<or> status_array = None \<or> array_len < 1)
          ORBIS_NP_COMMUNITY_ERROR_INSUFFICIENT_ARGUMENT,
        check (has_option \<or> slot_id < 0) ORBIS_NP_COMMUNITY_ERROR_INVALID_ARGUMENT,
        check (array_len > TusMaxUsersPerRequest) ORBIS_NP_COMMUNITY_ERROR_TOO_MANY_NPID,
        check (status_array_size \<noteq> array_bytes array_len sizeof_status) ORBIS_NP_COMMUNITY_ERROR_INVALID_ALIGNMENT]
       (reading (read_n (nat array_len) target_np_id_array))
       (\<lambda>svc uid self ids ctx. TusGetMultiUserDataStatus cfg uid svc slot_id (map (owner_in self) ids) [] []
          (status_plain status_array) (word_of_int array_len) (Some ctx))
       fresh"

definition sceNpTusGetMultiUserDataStatus ::
  "HandlerConfig \<Rightarrow> s32 \<Rightarrow> OrbisNpId list option \<Rightarrow> s32 \<Rightarrow>
   addr option \<Rightarrow> u64 \<Rightarrow> s32 \<Rightarrow> bool \<Rightarrow> addr \<Rightarrow> tus_wait_step" where
  "sceNpTusGetMultiUserDataStatus cfg req_id target_np_id_array slot_id status_array status_array_size array_len has_option
     fresh =
     tus_sync req_id (sceNpTusGetMultiUserDataStatusAsync cfg req_id target_np_id_array slot_id status_array status_array_size
          array_len has_option fresh)"

definition sceNpTusGetMultiUserDataStatusVUserAsync ::
  "HandlerConfig \<Rightarrow> s32 \<Rightarrow> bytes list option \<Rightarrow> s32 \<Rightarrow> addr option \<Rightarrow>
   u64 \<Rightarrow> s32 \<Rightarrow> bool \<Rightarrow> addr \<Rightarrow> tus_step" where
  "sceNpTusGetMultiUserDataStatusVUserAsync cfg req_id target_virtual_user_id_array slot_id status_array status_array_size
     array_len has_option fresh =
     tus_call req_id
       [check (target_virtual_user_id_array = None \<or> status_array = None \<or> array_len < 1)
          ORBIS_NP_COMMUNITY_ERROR_INSUFFICIENT_ARGUMENT,
        check (has_option \<or> slot_id < 0) ORBIS_NP_COMMUNITY_ERROR_INVALID_ARGUMENT,
        check (array_len > TusMaxUsersPerRequest) ORBIS_NP_COMMUNITY_ERROR_TOO_MANY_NPID,
        check (status_array_size \<noteq> array_bytes array_len sizeof_status) ORBIS_NP_COMMUNITY_ERROR_INVALID_ALIGNMENT,
        check_vusers array_len target_virtual_user_id_array]
       (reading (read_n (nat array_len) target_virtual_user_id_array))
       (\<lambda>svc uid self ids ctx. TusGetMultiUserDataStatus cfg uid svc slot_id [] (map vuser_name ids) []
          (status_plain status_array) (word_of_int array_len) (Some ctx))
       fresh"

definition sceNpTusGetMultiUserDataStatusVUser ::
  "HandlerConfig \<Rightarrow> s32 \<Rightarrow> bytes list option \<Rightarrow> s32 \<Rightarrow> addr option \<Rightarrow>
   u64 \<Rightarrow> s32 \<Rightarrow> bool \<Rightarrow> addr \<Rightarrow> tus_wait_step" where
  "sceNpTusGetMultiUserDataStatusVUser cfg req_id target_virtual_user_id_array slot_id status_array status_array_size
     array_len has_option fresh =
     tus_sync req_id (sceNpTusGetMultiUserDataStatusVUserAsync cfg req_id target_virtual_user_id_array slot_id status_array
          status_array_size array_len has_option fresh)"

definition sceNpTusGetMultiUserDataStatusAAsync ::
  "HandlerConfig \<Rightarrow> s32 \<Rightarrow> u64 list option \<Rightarrow> s32 \<Rightarrow> addr option \<Rightarrow>
   u64 \<Rightarrow> s32 \<Rightarrow> bool \<Rightarrow> addr \<Rightarrow> tus_step" where
  "sceNpTusGetMultiUserDataStatusAAsync cfg req_id target_account_id_array slot_id status_array status_array_size array_len
     has_option fresh =
     tus_call req_id
       [check (target_account_id_array = None \<or> status_array = None) ORBIS_NP_COMMUNITY_ERROR_INSUFFICIENT_ARGUMENT,
        check (has_option \<or> array_len < 1 \<or> slot_id < 0) ORBIS_NP_COMMUNITY_ERROR_INVALID_ARGUMENT,
        check (array_len > TusMaxUsersPerRequest) ORBIS_NP_COMMUNITY_ERROR_TOO_MANY_NPID,
        check (status_array_size \<noteq> array_bytes array_len sizeof_status_a) ORBIS_NP_COMMUNITY_ERROR_INVALID_ALIGNMENT]
       (reading (read_n (nat array_len) target_account_id_array))
       (\<lambda>svc uid self ids ctx. TusGetMultiUserDataStatus cfg uid svc slot_id [] [] (map (\<lambda>a. to_s64 (uint a)) ids)
          (status_a status_array) (word_of_int array_len) (Some ctx))
       fresh"

definition sceNpTusGetMultiUserDataStatusA ::
  "HandlerConfig \<Rightarrow> s32 \<Rightarrow> u64 list option \<Rightarrow> s32 \<Rightarrow> addr option \<Rightarrow>
   u64 \<Rightarrow> s32 \<Rightarrow> bool \<Rightarrow> addr \<Rightarrow> tus_wait_step" where
  "sceNpTusGetMultiUserDataStatusA cfg req_id target_account_id_array slot_id status_array status_array_size array_len
     has_option fresh =
     tus_sync req_id (sceNpTusGetMultiUserDataStatusAAsync cfg req_id target_account_id_array slot_id status_array
          status_array_size array_len has_option fresh)"

definition sceNpTusGetMultiUserDataStatusAVUserAsync ::
  "HandlerConfig \<Rightarrow> s32 \<Rightarrow> bytes list option \<Rightarrow> s32 \<Rightarrow> addr option \<Rightarrow>
   u64 \<Rightarrow> s32 \<Rightarrow> bool \<Rightarrow> addr \<Rightarrow> tus_step" where
  "sceNpTusGetMultiUserDataStatusAVUserAsync cfg req_id target_virtual_user_id_array slot_id status_array status_array_size
     array_len has_option fresh =
     tus_call req_id
       [check (target_virtual_user_id_array = None \<or> status_array = None) ORBIS_NP_COMMUNITY_ERROR_INSUFFICIENT_ARGUMENT,
        check (has_option \<or> array_len < 1 \<or> slot_id < 0) ORBIS_NP_COMMUNITY_ERROR_INVALID_ARGUMENT,
        check (array_len > TusMaxUsersPerRequest) ORBIS_NP_COMMUNITY_ERROR_TOO_MANY_NPID,
        check (status_array_size \<noteq> array_bytes array_len sizeof_status_a) ORBIS_NP_COMMUNITY_ERROR_INVALID_ALIGNMENT,
        check_vusers array_len target_virtual_user_id_array]
       (reading (read_n (nat array_len) target_virtual_user_id_array))
       (\<lambda>svc uid self ids ctx. TusGetMultiUserDataStatus cfg uid svc slot_id [] (map vuser_name ids) []
          (status_a status_array) (word_of_int array_len) (Some ctx))
       fresh"

definition sceNpTusGetMultiUserDataStatusAVUser ::
  "HandlerConfig \<Rightarrow> s32 \<Rightarrow> bytes list option \<Rightarrow> s32 \<Rightarrow> addr option \<Rightarrow>
   u64 \<Rightarrow> s32 \<Rightarrow> bool \<Rightarrow> addr \<Rightarrow> tus_wait_step" where
  "sceNpTusGetMultiUserDataStatusAVUser cfg req_id target_virtual_user_id_array slot_id status_array status_array_size
     array_len has_option fresh =
     tus_sync req_id (sceNpTusGetMultiUserDataStatusAVUserAsync cfg req_id target_virtual_user_id_array slot_id status_array
          status_array_size array_len has_option fresh)"

definition sceNpTusGetMultiUserDataStatusForCrossSaveAsync ::
  "HandlerConfig \<Rightarrow> s32 \<Rightarrow> u64 list option \<Rightarrow> s32 \<Rightarrow> addr option \<Rightarrow>
   u64 \<Rightarrow> s32 \<Rightarrow> bool \<Rightarrow> addr \<Rightarrow> tus_step" where
  "sceNpTusGetMultiUserDataStatusForCrossSaveAsync cfg req_id target_account_id_array slot_id status_array status_array_size
     array_len has_option fresh =
     tus_call req_id
       [check (target_account_id_array = None \<or> status_array = None) ORBIS_NP_COMMUNITY_ERROR_INSUFFICIENT_ARGUMENT,
        check (has_option \<or> array_len < 1 \<or> slot_id < 0) ORBIS_NP_COMMUNITY_ERROR_INVALID_ARGUMENT,
        check (array_len > TusMaxUsersPerRequest) ORBIS_NP_COMMUNITY_ERROR_TOO_MANY_NPID,
        check (status_array_size \<noteq> array_bytes array_len sizeof_status_cs) ORBIS_NP_COMMUNITY_ERROR_INVALID_ALIGNMENT]
       (reading (read_n (nat array_len) target_account_id_array))
       (\<lambda>svc uid self ids ctx. TusGetMultiUserDataStatus cfg uid svc slot_id [] [] (map (\<lambda>a. to_s64 (uint a)) ids)
          (status_cs status_array) (word_of_int array_len) (Some ctx))
       fresh"

definition sceNpTusGetMultiUserDataStatusForCrossSave ::
  "HandlerConfig \<Rightarrow> s32 \<Rightarrow> u64 list option \<Rightarrow> s32 \<Rightarrow> addr option \<Rightarrow>
   u64 \<Rightarrow> s32 \<Rightarrow> bool \<Rightarrow> addr \<Rightarrow> tus_wait_step" where
  "sceNpTusGetMultiUserDataStatusForCrossSave cfg req_id target_account_id_array slot_id status_array status_array_size
     array_len has_option fresh =
     tus_sync req_id (sceNpTusGetMultiUserDataStatusForCrossSaveAsync cfg req_id target_account_id_array slot_id status_array
          status_array_size array_len has_option fresh)"

definition sceNpTusGetMultiUserDataStatusForCrossSaveVUserAsync ::
  "HandlerConfig \<Rightarrow> s32 \<Rightarrow> bytes list option \<Rightarrow> s32 \<Rightarrow> addr option \<Rightarrow>
   u64 \<Rightarrow> s32 \<Rightarrow> bool \<Rightarrow> addr \<Rightarrow> tus_step" where
  "sceNpTusGetMultiUserDataStatusForCrossSaveVUserAsync cfg req_id target_virtual_user_id_array slot_id status_array
     status_array_size array_len has_option fresh =
     tus_call req_id
       [check (target_virtual_user_id_array = None \<or> status_array = None) ORBIS_NP_COMMUNITY_ERROR_INSUFFICIENT_ARGUMENT,
        check (has_option \<or> array_len < 1 \<or> slot_id < 0) ORBIS_NP_COMMUNITY_ERROR_INVALID_ARGUMENT,
        check (array_len > TusMaxUsersPerRequest) ORBIS_NP_COMMUNITY_ERROR_TOO_MANY_NPID,
        check (status_array_size \<noteq> array_bytes array_len sizeof_status_cs) ORBIS_NP_COMMUNITY_ERROR_INVALID_ALIGNMENT,
        check_vusers array_len target_virtual_user_id_array]
       (reading (read_n (nat array_len) target_virtual_user_id_array))
       (\<lambda>svc uid self ids ctx. TusGetMultiUserDataStatus cfg uid svc slot_id [] (map vuser_name ids) []
          (status_cs status_array) (word_of_int array_len) (Some ctx))
       fresh"

definition sceNpTusGetMultiUserDataStatusForCrossSaveVUser ::
  "HandlerConfig \<Rightarrow> s32 \<Rightarrow> bytes list option \<Rightarrow> s32 \<Rightarrow> addr option \<Rightarrow>
   u64 \<Rightarrow> s32 \<Rightarrow> bool \<Rightarrow> addr \<Rightarrow> tus_wait_step" where
  "sceNpTusGetMultiUserDataStatusForCrossSaveVUser cfg req_id target_virtual_user_id_array slot_id status_array
     status_array_size array_len has_option fresh =
     tus_sync req_id (sceNpTusGetMultiUserDataStatusForCrossSaveVUserAsync cfg req_id target_virtual_user_id_array slot_id
          status_array status_array_size array_len has_option fresh)"

record OrbisNpTusGetFriendsDataStatusOptParam =
  fd_size :: u64
  fd_start_serial_rank :: "u32 option"
  fd_hits :: "addr option"

definition fd_start_offset :: "OrbisNpTusGetFriendsDataStatusOptParam option \<Rightarrow> u32" where
  "fd_start_offset p =
     (case p of None \<Rightarrow> 0 | Some q \<Rightarrow> (case fd_start_serial_rank q of None \<Rightarrow> 0 | Some rank \<Rightarrow> rank - 1))"

definition sceNpTusGetFriendsDataStatusAsync ::
  "HandlerConfig \<Rightarrow> s32 \<Rightarrow> s32 \<Rightarrow> s32 \<Rightarrow> s32 \<Rightarrow>
   addr option \<Rightarrow> u64 \<Rightarrow> s32 \<Rightarrow> bool \<Rightarrow> addr \<Rightarrow> tus_step" where
  "sceNpTusGetFriendsDataStatusAsync cfg req_id slot_id include_self sort_type status_array status_array_size array_len
     has_option fresh =
     tus_call req_id
       [check (status_array = None) ORBIS_NP_COMMUNITY_ERROR_INSUFFICIENT_ARGUMENT,
        check (has_option \<or> array_len < 1 \<or> slot_id < 0) ORBIS_NP_COMMUNITY_ERROR_INVALID_ARGUMENT,
        check (array_len > TusMaxSelectedFriends) ORBIS_NP_COMMUNITY_ERROR_TOO_MANY_NPID,
        check (sort_type < ORBIS_NP_TUS_DATASTATUS_SORTTYPE_DESCENDING_DATE \<or> sort_type > ORBIS_NP_TUS_DATASTATUS_SORTTYPE_ASCENDING_DATE)
          ORBIS_NP_COMMUNITY_ERROR_INVALID_ARGUMENT,
        check (status_array_size \<noteq> array_bytes array_len sizeof_status) ORBIS_NP_COMMUNITY_ERROR_INVALID_ALIGNMENT]
       (reading (Returned ()))
       (\<lambda>svc uid self _ ctx. TusGetFriendsDataStatus cfg uid svc slot_id (include_self \<noteq> 0) sort_type (word_of_int array_len)
          (status_plain status_array) (word_of_int array_len) (Some ctx) 0 None)
       fresh"

definition sceNpTusGetFriendsDataStatus ::
  "HandlerConfig \<Rightarrow> s32 \<Rightarrow> s32 \<Rightarrow> s32 \<Rightarrow> s32 \<Rightarrow>
   addr option \<Rightarrow> u64 \<Rightarrow> s32 \<Rightarrow> bool \<Rightarrow> addr \<Rightarrow> tus_wait_step" where
  "sceNpTusGetFriendsDataStatus cfg req_id slot_id include_self sort_type status_array status_array_size array_len
     has_option fresh =
     tus_sync req_id (sceNpTusGetFriendsDataStatusAsync cfg req_id slot_id include_self sort_type status_array
          status_array_size array_len has_option fresh)"

definition sceNpTusGetFriendsDataStatusAAsync ::
  "HandlerConfig \<Rightarrow> s32 \<Rightarrow> s32 \<Rightarrow> s32 \<Rightarrow> s32 \<Rightarrow>
   addr option \<Rightarrow> u64 \<Rightarrow> s32 \<Rightarrow> OrbisNpTusGetFriendsDataStatusOptParam option \<Rightarrow>
   addr \<Rightarrow> tus_step" where
  "sceNpTusGetFriendsDataStatusAAsync cfg req_id slot_id include_self sort_type status_array status_array_size array_len
     status_param fresh =
     tus_call req_id
       [check (status_array = None) ORBIS_NP_COMMUNITY_ERROR_INSUFFICIENT_ARGUMENT,
        check (array_len < 1 \<or> slot_id < 0) ORBIS_NP_COMMUNITY_ERROR_INVALID_ARGUMENT,
        check (array_len > TusMaxSelectedFriends) ORBIS_NP_COMMUNITY_ERROR_TOO_MANY_NPID,
        check (sort_type < ORBIS_NP_TUS_DATASTATUS_SORTTYPE_DESCENDING_DATE \<or> sort_type > ORBIS_NP_TUS_DATASTATUS_SORTTYPE_ASCENDING_DATE)
          ORBIS_NP_COMMUNITY_ERROR_INVALID_ARGUMENT,
        check (status_array_size \<noteq> array_bytes array_len sizeof_status_a) ORBIS_NP_COMMUNITY_ERROR_INVALID_ALIGNMENT,
        check (case status_param of None \<Rightarrow> False | Some p \<Rightarrow> fd_size p \<noteq> 24)
          ORBIS_NP_COMMUNITY_ERROR_INVALID_ALIGNMENT,
        check (case status_param of None \<Rightarrow> False | Some p \<Rightarrow> fd_start_serial_rank p = Some 0)
          ORBIS_NP_COMMUNITY_ERROR_INVALID_ARGUMENT]
       (reading (Returned ()))
       (\<lambda>svc uid self _ ctx. TusGetFriendsDataStatus cfg uid svc slot_id (include_self \<noteq> 0) sort_type (word_of_int array_len)
          (status_a status_array) (word_of_int array_len) (Some ctx) (fd_start_offset status_param) (Option.bind status_param fd_hits))
       fresh"

definition sceNpTusGetFriendsDataStatusA ::
  "HandlerConfig \<Rightarrow> s32 \<Rightarrow> s32 \<Rightarrow> s32 \<Rightarrow> s32 \<Rightarrow>
   addr option \<Rightarrow> u64 \<Rightarrow> s32 \<Rightarrow> OrbisNpTusGetFriendsDataStatusOptParam option \<Rightarrow>
   addr \<Rightarrow> tus_wait_step" where
  "sceNpTusGetFriendsDataStatusA cfg req_id slot_id include_self sort_type status_array status_array_size array_len
     status_param fresh =
     tus_sync req_id (sceNpTusGetFriendsDataStatusAAsync cfg req_id slot_id include_self sort_type status_array
          status_array_size array_len status_param fresh)"

definition sceNpTusGetFriendsDataStatusForCrossSaveAsync ::
  "HandlerConfig \<Rightarrow> s32 \<Rightarrow> s32 \<Rightarrow> s32 \<Rightarrow> s32 \<Rightarrow>
   addr option \<Rightarrow> u64 \<Rightarrow> s32 \<Rightarrow> OrbisNpTusGetFriendsDataStatusOptParam option \<Rightarrow>
   addr \<Rightarrow> tus_step" where
  "sceNpTusGetFriendsDataStatusForCrossSaveAsync cfg req_id slot_id include_self sort_type status_array status_array_size
     array_len status_param fresh =
     tus_call req_id
       [check (status_array = None) ORBIS_NP_COMMUNITY_ERROR_INSUFFICIENT_ARGUMENT,
        check (array_len < 1 \<or> slot_id < 0) ORBIS_NP_COMMUNITY_ERROR_INVALID_ARGUMENT,
        check (array_len > TusMaxSelectedFriends) ORBIS_NP_COMMUNITY_ERROR_TOO_MANY_NPID,
        check (sort_type < ORBIS_NP_TUS_DATASTATUS_SORTTYPE_DESCENDING_DATE \<or> sort_type > ORBIS_NP_TUS_DATASTATUS_SORTTYPE_ASCENDING_DATE)
          ORBIS_NP_COMMUNITY_ERROR_INVALID_ARGUMENT,
        check (status_array_size \<noteq> array_bytes array_len sizeof_status_cs) ORBIS_NP_COMMUNITY_ERROR_INVALID_ALIGNMENT,
        check (case status_param of None \<Rightarrow> False | Some p \<Rightarrow> fd_size p \<noteq> 24)
          ORBIS_NP_COMMUNITY_ERROR_INVALID_ALIGNMENT,
        check (case status_param of None \<Rightarrow> False | Some p \<Rightarrow> fd_start_serial_rank p = Some 0)
          ORBIS_NP_COMMUNITY_ERROR_INVALID_ARGUMENT]
       (reading (Returned ()))
       (\<lambda>svc uid self _ ctx. TusGetFriendsDataStatus cfg uid svc slot_id (include_self \<noteq> 0) sort_type (word_of_int array_len)
          (status_cs status_array) (word_of_int array_len) (Some ctx) (fd_start_offset status_param) (Option.bind status_param fd_hits))
       fresh"

definition sceNpTusGetFriendsDataStatusForCrossSave ::
  "HandlerConfig \<Rightarrow> s32 \<Rightarrow> s32 \<Rightarrow> s32 \<Rightarrow> s32 \<Rightarrow>
   addr option \<Rightarrow> u64 \<Rightarrow> s32 \<Rightarrow> OrbisNpTusGetFriendsDataStatusOptParam option \<Rightarrow>
   addr \<Rightarrow> tus_wait_step" where
  "sceNpTusGetFriendsDataStatusForCrossSave cfg req_id slot_id include_self sort_type status_array status_array_size
     array_len status_param fresh =
     tus_sync req_id (sceNpTusGetFriendsDataStatusForCrossSaveAsync cfg req_id slot_id include_self sort_type status_array
          status_array_size array_len status_param fresh)"

section \<open>Title storage\<close>

record OrbisNpTssGetDataOptParam =
  to_size :: u64
  to_offset :: "u64 option"
  to_last_byte :: "u64 option"
  to_if_param :: "(s32 \<times> u64) option"

definition sizeof_tss_status :: nat where "sizeof_tss_status = 24"
definition sizeof_tss_param :: nat where "sizeof_tss_param = 32"

text \<open>A read of a slot that was read before goes on where it ended, unless the game names an offset.\<close>

definition tss_piece :: "s32 \<Rightarrow> u64 option \<Rightarrow> addr option \<Rightarrow> u64 \<Rightarrow> u64 option gather" where
  "tss_piece slot offset dat recv_size self x =
     (let same = SameTarget slot 0 [] x;
          x1 = (if same then x else BeginXfer slot 0 [])
      in Returned (if same \<and> offset = None then Some (xf_recv_offset x1) else offset,
                   if dat \<noteq> None then x1\<lparr>xf_recv_offset := xf_recv_offset x1 + recv_size\<rparr> else x1))"

definition sceNpTssGetDataAsync ::
  "HandlerConfig \<Rightarrow> s32 \<Rightarrow> s32 \<Rightarrow> addr option \<Rightarrow> u64 \<Rightarrow>
   addr option \<Rightarrow> u64 \<Rightarrow> OrbisNpTssGetDataOptParam option \<Rightarrow> addr \<Rightarrow>
   tus_step" where
  "sceNpTssGetDataAsync cfg req_id slot_id data_status data_status_size dat recv_size tss_param fresh =
     tus_call req_id
       [check (data_status = None) ORBIS_NP_COMMUNITY_ERROR_INSUFFICIENT_ARGUMENT,
        check (data_status_size \<noteq> of_nat sizeof_tss_status) ORBIS_NP_COMMUNITY_ERROR_INVALID_ALIGNMENT,
        check (slot_id < 0 \<or> slot_id > TssMaxSlotId) ORBIS_NP_COMMUNITY_ERROR_INVALID_ARGUMENT,
        check (case tss_param of None \<Rightarrow> False | Some p \<Rightarrow> to_size p \<noteq> of_nat sizeof_tss_param)
          ORBIS_NP_COMMUNITY_ERROR_INVALID_ALIGNMENT]
       (tss_piece slot_id (Option.bind tss_param to_offset) dat recv_size)
       (\<lambda>svc uid self offset ctx. TssGetData cfg uid svc slot_id offset (Option.bind tss_param to_last_byte)
          (Option.bind tss_param to_if_param) data_status dat (if dat \<noteq> None then recv_size else 0) (Some ctx) None)
       fresh"

definition sceNpTssGetData ::
  "HandlerConfig \<Rightarrow> s32 \<Rightarrow> s32 \<Rightarrow> addr option \<Rightarrow> u64 \<Rightarrow>
   addr option \<Rightarrow> u64 \<Rightarrow> OrbisNpTssGetDataOptParam option \<Rightarrow> addr \<Rightarrow>
   tus_wait_step" where
  "sceNpTssGetData cfg req_id slot_id data_status data_status_size dat recv_size tss_param fresh =
     tus_sync req_id (sceNpTssGetDataAsync cfg req_id slot_id data_status data_status_size dat recv_size tss_param fresh)"

definition sceNpTssGetSmallStorageAsync ::
  "HandlerConfig \<Rightarrow> s32 \<Rightarrow> addr option \<Rightarrow> u64 \<Rightarrow> addr option \<Rightarrow>
   bool \<Rightarrow> addr \<Rightarrow> tus_step" where
  "sceNpTssGetSmallStorageAsync cfg req_id dat max_size content_length has_option fresh =
     tus_call req_id
       [check has_option ORBIS_NP_COMMUNITY_ERROR_INVALID_ARGUMENT,
        check (max_size > TssMaxSize) ORBIS_NP_COMMUNITY_ERROR_INVALID_ARGUMENT]
       (reading (Returned ()))
       (\<lambda>svc uid self _ ctx. TssGetData cfg uid svc 0 None None None None dat (if dat \<noteq> None then max_size else 0) (Some ctx) content_length)
       fresh"

definition sceNpTssGetSmallStorage ::
  "HandlerConfig \<Rightarrow> s32 \<Rightarrow> addr option \<Rightarrow> u64 \<Rightarrow> addr option \<Rightarrow>
   bool \<Rightarrow> addr \<Rightarrow> tus_wait_step" where
  "sceNpTssGetSmallStorage cfg req_id dat max_size content_length has_option fresh =
     tus_sync req_id (sceNpTssGetSmallStorageAsync cfg req_id dat max_size content_length has_option fresh)"

definition sceNpTssGetStorageAsync :: "s32 \<Rightarrow> addr \<Rightarrow> NpTus \<Rightarrow> NpHandler \<Rightarrow> s32 \<times> NpTus \<times> NpHandler" where
  "sceNpTssGetStorageAsync req_id fresh = FakeAsyncComplete req_id ORBIS_OK fresh"

definition sceNpTssGetStorage :: s32 where "sceNpTssGetStorage = ORBIS_OK"
definition sceNpTusChangeModeForOtherSaveDataOwners :: s32 where "sceNpTusChangeModeForOtherSaveDataOwners = ORBIS_OK"
definition sceNpTusCreateTitleCtx :: s32 where "sceNpTusCreateTitleCtx = ORBIS_OK"
definition sceNpTusSetThreadParam :: s32 where "sceNpTusSetThreadParam = ORBIS_OK"
definition sceNpTusSetTimeout :: s32 where "sceNpTusSetTimeout = ORBIS_OK"

end
