(* ===== verification/NpTusProps.thy ===== *)
theory NpTusProps
  imports NpTusStatus HandlerTusProps
begin

text \<open>
  The storage library with the handler behind it: what the checks of the calls give to the replies,
  the table of requests, data that is sent and read in pieces, and calls that cannot be sent.
\<close>

section \<open>Outputs of calls\<close>

lemma first_error_None [simp]:
  "first_error (c # cs) = Returned None \<longleftrightarrow> c = Returned None \<and> first_error cs = Returned None"
  by (cases c) (auto split: option.splits)

declare first_error.simps(2) [simp del]

lemma check_None [simp]: "check b err = Returned None \<longleftrightarrow> \<not> b"
  by (simp add: check_def)

text \<open>Every pending request has its context, and room for what it asks for.\<close>

definition replies_safe :: "NpHandler \<Rightarrow> bool" where
  "replies_safe h \<longleftrightarrow> (\<forall>(k, p) \<in> set (hn_pending_tus h).
     tus_fits p (hn_mem h) \<and> (\<exists>a. qt_req p = Some a \<and> hn_tus_ctxs h a \<noteq> None))"

definition fits :: "NpTus \<Rightarrow> NpHandler \<Rightarrow> tus_step \<Rightarrow> bool" where
  "fits n h step \<longleftrightarrow> (\<forall>r n' h'. step n h = Returned (r, n', h') \<longrightarrow> replies_safe h')"

lemma set_omap_put: "set (omap_put k v m) \<subseteq> insert (k, v) (set m)"
  by (induction k v m rule: omap_put.induct) auto

lemma set_omap_emplace: "set (omap_emplace k v m) \<subseteq> insert (k, v) (set m)"
  using set_omap_put [of k v m] by (auto simp: omap_emplace_def)

lemma tus_fits_user [simp]: "tus_fits (p\<lparr>qt_cmd := cmd, qt_user_id := u\<rparr>) m = tus_fits p m"
  by (simp add: tus_fits_def)

lemma request_fits:
  assumes "replies_safe h" "tus_fits p (hn_mem h)" "qt_req p \<noteq> None" "hn_tus_ctxs h (the (qt_req p)) \<noteq> None"
  shows "replies_safe (snd (tus_request cfg uid svc cmd req p h))"
proof -
  have "replies_safe (tus_register k (p\<lparr>qt_cmd := cmd, qt_user_id := uid\<rparr>) (h\<lparr>hn_clients := cs\<rparr>))" for k cs
    using assms set_omap_emplace [of k "p\<lparr>qt_cmd := cmd, qt_user_id := uid\<rparr>" "hn_pending_tus h"]
    by (fastforce simp: replies_safe_def tus_register_def)
  with assms(1) show ?thesis
    by (auto simp: tus_request_def tus_send_def send_request_def Let_def split: option.split prod.split)
qed

lemma call_fits:
  assumes safe: "replies_safe h"
    and send: "\<And>svc uid self x y xf h1. first_error checks = Returned None \<Longrightarrow> gather self y = Returned (x, xf) \<Longrightarrow>
      hn_mem h1 = hn_mem h \<Longrightarrow> replies_safe h1 \<Longrightarrow> hn_tus_ctxs h1 fresh \<noteq> None \<Longrightarrow>
      replies_safe (snd (send svc uid self x fresh h1))"
  shows "fits n h (tus_call req_id checks gather send fresh)"
  unfolding fits_def
proof (intro allI impI)
  fix r n' h' assume call: "tus_call req_id checks gather send fresh n h = Returned (r, n', h')"
  let ?h1 = "put_tus_ctx fresh new_tus_ctx h"
  have h1: "replies_safe ?h1" "hn_mem ?h1 = hn_mem h" "hn_tus_ctxs ?h1 fresh \<noteq> None"
    using safe by (fastforce simp: replies_safe_def put_tus_ctx_def)+
  show "replies_safe h'"
  proof (cases "first_error checks = Returned None")
    case False
    then obtain e where "first_error checks = Returned (Some e)"
      using call by (cases "first_error checks") (auto simp: tus_call_def split: option.splits)
    with call safe show ?thesis by (simp add: tus_call_def)
  next
    case True
    show ?thesis
    proof (cases "ResolveTus req_id n h")
      case (Inl e)
      with call safe True show ?thesis by (simp add: tus_call_def)
    next
      case (Inr t)
      then obtain q svc uid self where t: "ResolveTus req_id n h = Inr (q, svc, uid, self)" by (metis prod_cases4)
      obtain x xf where g: "gather self (tr_xfer q) = Returned (x, xf)"
        using call True t by (cases "gather self (tr_xfer q)") (auto simp: tus_call_def)
      have "h' = snd (send (to_s32 (uint svc)) uid self x fresh ?h1)"
        using call True t g by (simp add: tus_call_def Let_def split: prod.splits)
      with send [OF True g h1(2,1,3)] show ?thesis by simp
    qed
  qed
qed

definition rows :: "u64 \<Rightarrow> nat" where "rows k = max 1 (unat k)"

lemma rows_simps [simp]: "rows 1 = 1" "1 \<le> k \<Longrightarrow> k \<le> 101 \<Longrightarrow> rows (word_of_int k) = nat k"
  by (simp_all add: rows_def unat_eq_nat_uint uint_word_of_int)

lemma pending_fits [simp]:
  "tus_fits (var_pending (var_plain p) k ctx) m = holds (rows k) (gm_var m) p"
  "tus_fits (var_pending (var_a p) k ctx) m = holds (rows k) (gm_var_a m) p"
  "tus_fits (var_pending (var_cs p) k ctx) m = holds (rows k) (gm_var_cs m) p"
  "tus_fits (status_pending (status_plain p) k ctx) m = holds (rows k) (gm_status m) p"
  "tus_fits (status_pending (status_a p) k ctx) m = holds (rows k) (gm_status_a m) p"
  "tus_fits (status_pending (status_cs p) k ctx) m = holds (rows k) (gm_status_cs m) p"
  "tus_fits (new_tus_pending\<lparr>qt_req := ctx\<rparr>) m"
  by (simp_all add: tus_fits_def var_pending_def status_pending_def new_tus_pending_def Let_def holds_def
      rows_def var_plain_def var_a_def var_cs_def status_plain_def status_a_def status_cs_def)

lemma fits_total [simp]: "tus_fits (p\<lparr>qt_total_out := t\<rparr>) m \<longleftrightarrow> tus_fits (p\<lparr>qt_total_out := None\<rparr>) m \<and> holds 1 (gm_u32 m) t"
  by (auto simp: tus_fits_def holds_def Let_def)

lemma fits_data [simp]:
  "tus_fits ((status_pending out k ctx)\<lparr>qt_status_cap := c, qt_data_out := d, qt_data_cap := w, qt_data_offset := x\<rparr>) m \<longleftrightarrow>
   tus_fits (status_pending out k ctx) m \<and> holds (unat w) (gm_buf m) d"
  "tus_fits (new_tus_pending\<lparr>qt_req := ctx, qt_tss_status_out := t, qt_tss_content_length_out := l, qt_data_out := d,
     qt_data_cap := w\<rparr>) m \<longleftrightarrow> holds 1 (gm_tss m) t \<and> holds 1 (gm_u64 m) l \<and> holds (unat w) (gm_buf m) d"
  by (auto simp: tus_fits_def status_pending_def new_tus_pending_def holds_def Let_def)

lemma holds_None [simp]: "holds k m None"
  by (simp add: holds_def)

lemma replies_tus_set: "replies_safe h \<Longrightarrow> replies_safe (tus_set a r h)"
  by (fastforce simp: replies_safe_def tus_set_def at_addr_def split: option.split)

lemma pending_total [simp]:
  "qt_req (p\<lparr>qt_status_cap := c, qt_data_out := d, qt_data_cap := w, qt_data_offset := x\<rparr>) = qt_req p"
  "(var_pending out k ctx)\<lparr>qt_total_out := None\<rparr> = var_pending out k ctx"
  "(status_pending so k ctx)\<lparr>qt_total_out := None\<rparr> = status_pending so k ctx"
  "qt_req (var_pending out k ctx) = ctx" "qt_req (status_pending so k ctx) = ctx"
  by (simp_all add: var_pending_def status_pending_def new_tus_pending_def)

lemmas tus_sends = TusGetMultiSlotVariable_def TusSetMultiSlotVariable_def TssGetData_def TusGetData_def
  TusDeleteMultiSlotData_def TusDeleteMultiSlotVariable_def TusGetMultiUserDataStatus_def TusGetMultiUserVariable_def
  TusTryAndSetVariable_def TusAddAndGetVariable_def TusGetFriendsDataStatus_def TusGetFriendsVariable_def
  TusGetMultiSlotDataStatus_def TusSetData_def

lemma variable_calls_fit:
  assumes safe: "replies_safe h"
    and out: "holds (nat len) (gm_var (hn_mem h)) pv"
      "holds (nat len) (gm_var_a (hn_mem h)) pa"
      "holds (nat len) (gm_var_cs (hn_mem h)) pc"
      "holds 1 (gm_var (hn_mem h)) pv1"
      "holds 1 (gm_var_a (hn_mem h)) pa1"
      "holds 1 (gm_var_cs (hn_mem h)) pc1"
      "holds 1 (gm_u32 (hn_mem h)) (Option.bind fv fv_hits)"
  shows "fits n h (sceNpTusGetMultiSlotVariableAsync cfg req np slots pv sz len has_opt fresh) \<and>
    fits n h (sceNpTusGetMultiSlotVariableAVUserAsync cfg req vu slots pa sz len has_opt fresh) \<and>
    fits n h (sceNpTusGetMultiSlotVariableAAsync cfg req acc slots pa sz len has_opt fresh) \<and>
    fits n h (sceNpTusGetMultiSlotVariableVUserAsync cfg req vu slots pv sz len has_opt fresh) \<and>
    fits n h (sceNpTusGetMultiSlotVariableForCrossSaveAsync cfg req acc slots pc sz len has_opt fresh) \<and>
    fits n h (sceNpTusGetMultiSlotVariableForCrossSaveVUserAsync cfg req vu slots pc sz len has_opt fresh) \<and>
    fits n h (sceNpTusSetMultiSlotVariableAsync cfg req np slots vals len has_opt fresh) \<and>
    fits n h (sceNpTusSetMultiSlotVariableVUserAsync cfg req vu slots vals len has_opt fresh) \<and>
    fits n h (sceNpTusSetMultiSlotVariableAAsync cfg req acc slots vals len has_opt fresh) \<and>
    fits n h (sceNpTusDeleteMultiSlotVariableAsync cfg req np slots len has_opt fresh) \<and>
    fits n h (sceNpTusDeleteMultiSlotVariableVUserAsync cfg req vu slots len has_opt fresh) \<and>
    fits n h (sceNpTusDeleteMultiSlotVariableAAsync cfg req acc slots len has_opt fresh) \<and>
    fits n h (sceNpTusAddAndGetVariableAsync cfg req np slot v auth date pv1 sz has_opt fresh) \<and>
    fits n h (sceNpTusAddAndGetVariableVUserAsync cfg req vu slot v auth date pv1 sz has_opt fresh) \<and>
    fits n h (sceNpTusAddAndGetVariableAAsync cfg req acc slot v aacc date pa1 sz has_opt fresh) \<and>
    fits n h (sceNpTusAddAndGetVariableAVUserAsync cfg req vu slot v aacc date pa1 sz has_opt fresh) \<and>
    fits n h (sceNpTusAddAndGetVariableForCrossSaveAsync cfg req acc slot v aacc date pc1 sz has_opt fresh) \<and>
    fits n h (sceNpTusAddAndGetVariableForCrossSaveVUserAsync cfg req vu slot v aacc date pc1 sz has_opt fresh) \<and>
    fits n h (sceNpTusTryAndSetVariableAsync cfg req np slot op v cmp auth date pv1 sz has_opt fresh) \<and>
    fits n h (sceNpTusTryAndSetVariableVUserAsync cfg req vu slot op v cmp auth date pv1 sz has_opt fresh) \<and>
    fits n h (sceNpTusTryAndSetVariableAAsync cfg req acc slot op v cmp aacc date pa1 sz has_opt fresh) \<and>
    fits n h (sceNpTusTryAndSetVariableAVUserAsync cfg req vu slot op v cmp aacc date pa1 sz has_opt fresh) \<and>
    fits n h (sceNpTusTryAndSetVariableForCrossSaveAsync cfg req acc slot op v cmp aacc date pc1 sz has_opt fresh) \<and>
    fits n h (sceNpTusTryAndSetVariableForCrossSaveVUserAsync cfg req vu slot op v cmp aacc date pc1 sz has_opt fresh) \<and>
    fits n h (sceNpTusGetMultiUserVariableAsync cfg req nps slot pv sz len has_opt fresh) \<and>
    fits n h (sceNpTusGetMultiUserVariableVUserAsync cfg req vus slot pv sz len has_opt fresh) \<and>
    fits n h (sceNpTusGetMultiUserVariableAAsync cfg req accs slot pa sz len has_opt fresh) \<and>
    fits n h (sceNpTusGetMultiUserVariableAVUserAsync cfg req vus slot pa sz len has_opt fresh) \<and>
    fits n h (sceNpTusGetMultiUserVariableForCrossSaveAsync cfg req accs slot pc sz len has_opt fresh) \<and>
    fits n h (sceNpTusGetMultiUserVariableForCrossSaveVUserAsync cfg req vus slot pc sz len has_opt fresh) \<and>
    fits n h (sceNpTusGetFriendsVariableAsync cfg req slot incl order pv sz len has_opt fresh) \<and>
    fits n h (sceNpTusGetFriendsVariableAAsync cfg req slot incl order pa sz len fv fresh) \<and>
    fits n h (sceNpTusGetFriendsVariableForCrossSaveAsync cfg req slot incl order pc sz len fv fresh)"
  unfolding sceNpTusGetMultiSlotVariableAsync_def
    sceNpTusGetMultiSlotVariableAVUserAsync_def
    sceNpTusGetMultiSlotVariableAAsync_def
    sceNpTusGetMultiSlotVariableVUserAsync_def
    sceNpTusGetMultiSlotVariableForCrossSaveAsync_def
    sceNpTusGetMultiSlotVariableForCrossSaveVUserAsync_def
    sceNpTusSetMultiSlotVariableAsync_def
    sceNpTusSetMultiSlotVariableVUserAsync_def
    sceNpTusSetMultiSlotVariableAAsync_def
    sceNpTusDeleteMultiSlotVariableAsync_def
    sceNpTusDeleteMultiSlotVariableVUserAsync_def
    sceNpTusDeleteMultiSlotVariableAAsync_def
    sceNpTusAddAndGetVariableAsync_def
    sceNpTusAddAndGetVariableVUserAsync_def
    sceNpTusAddAndGetVariableAAsync_def
    sceNpTusAddAndGetVariableAVUserAsync_def
    sceNpTusAddAndGetVariableForCrossSaveAsync_def
    sceNpTusAddAndGetVariableForCrossSaveVUserAsync_def
    sceNpTusTryAndSetVariableAsync_def
    sceNpTusTryAndSetVariableVUserAsync_def
    sceNpTusTryAndSetVariableAAsync_def
    sceNpTusTryAndSetVariableAVUserAsync_def
    sceNpTusTryAndSetVariableForCrossSaveAsync_def
    sceNpTusTryAndSetVariableForCrossSaveVUserAsync_def
    sceNpTusGetMultiUserVariableAsync_def
    sceNpTusGetMultiUserVariableVUserAsync_def
    sceNpTusGetMultiUserVariableAAsync_def
    sceNpTusGetMultiUserVariableAVUserAsync_def
    sceNpTusGetMultiUserVariableForCrossSaveAsync_def
    sceNpTusGetMultiUserVariableForCrossSaveVUserAsync_def
    sceNpTusGetFriendsVariableAsync_def
    sceNpTusGetFriendsVariableAAsync_def
    sceNpTusGetFriendsVariableForCrossSaveAsync_def
  by (intro conjI) (rule call_fits [OF safe], simp add: tus_sends request_fits send_complete_def replies_tus_set out del: One_nat_def split: prod.split option.split)+

lemma data_calls_fit:
  assumes safe: "replies_safe h"
    and out: "holds 1 (gm_status (hn_mem h)) ps1"
      "holds 1 (gm_status_a (hn_mem h)) sa1"
      "holds 1 (gm_status_cs (hn_mem h)) sc1"
      "holds (unat k) (gm_buf (hn_mem h)) d"
  shows "fits n h (sceNpTusGetDataAsync cfg req np slot ps1 sz d k has_opt fresh) \<and>
    fits n h (sceNpTusGetDataVUserAsync cfg req vu slot ps1 sz d k has_opt fresh) \<and>
    fits n h (sceNpTusGetDataAAsync cfg req acc slot sa1 sz d k has_opt fresh) \<and>
    fits n h (sceNpTusGetDataAVUserAsync cfg req vu slot sa1 sz d k has_opt fresh) \<and>
    fits n h (sceNpTusGetDataForCrossSaveAsync cfg req acc slot sc1 sz d k has_opt fresh) \<and>
    fits n h (sceNpTusGetDataForCrossSaveVUserAsync cfg req vu slot sc1 sz d k has_opt fresh) \<and>
    fits n h (sceNpTusSetDataAsync cfg req np slot tot sz src info isz auth date has_opt fresh) \<and>
    fits n h (sceNpTusSetDataVUserAsync cfg req vu slot tot sz src info isz auth date has_opt fresh) \<and>
    fits n h (sceNpTusSetDataAAsync cfg req acc slot tot sz src info isz aacc date has_opt fresh) \<and>
    fits n h (sceNpTusSetDataAVUserAsync cfg req vu slot tot sz src info isz aacc date has_opt fresh) \<and>
    fits n h (sceNpTusDeleteMultiSlotDataAsync cfg req np slots len has_opt fresh) \<and>
    fits n h (sceNpTusDeleteMultiSlotDataVUserAsync cfg req vu slots len has_opt fresh) \<and>
    fits n h (sceNpTusDeleteMultiSlotDataAAsync cfg req acc slots len has_opt fresh)"
  unfolding sceNpTusGetDataAsync_def
    sceNpTusGetDataVUserAsync_def
    sceNpTusGetDataAAsync_def
    sceNpTusGetDataAVUserAsync_def
    sceNpTusGetDataForCrossSaveAsync_def
    sceNpTusGetDataForCrossSaveVUserAsync_def
    sceNpTusSetDataAsync_def
    sceNpTusSetDataVUserAsync_def
    sceNpTusSetDataAAsync_def
    sceNpTusSetDataAVUserAsync_def
    sceNpTusDeleteMultiSlotDataAsync_def
    sceNpTusDeleteMultiSlotDataVUserAsync_def
    sceNpTusDeleteMultiSlotDataAAsync_def
  by (intro conjI) (rule call_fits [OF safe], simp add: tus_sends request_fits send_complete_def replies_tus_set out del: One_nat_def split: prod.split option.split)+

lemma status_calls_fit:
  assumes safe: "replies_safe h"
    and out: "holds (nat len) (gm_status (hn_mem h)) ps"
      "holds (nat len) (gm_status_a (hn_mem h)) sa"
      "holds (nat len) (gm_status_cs (hn_mem h)) sc"
      "holds (unat k) (gm_buf (hn_mem h)) d"
      "holds 1 (gm_tss (hn_mem h)) ts"
      "holds 1 (gm_u64 (hn_mem h)) cl"
      "holds 1 (gm_u32 (hn_mem h)) (Option.bind fd fd_hits)"
  shows "fits n h (sceNpTusGetMultiSlotDataStatusAsync cfg req np slots ps sz len has_opt fresh) \<and>
    fits n h (sceNpTusGetMultiSlotDataStatusVUserAsync cfg req vu slots ps sz len has_opt fresh) \<and>
    fits n h (sceNpTusGetMultiSlotDataStatusAAsync cfg req acc slots sa sz len has_opt fresh) \<and>
    fits n h (sceNpTusGetMultiSlotDataStatusAVUserAsync cfg req vu slots sa sz len has_opt fresh) \<and>
    fits n h (sceNpTusGetMultiSlotDataStatusForCrossSaveAsync cfg req acc slots sc sz len has_opt fresh) \<and>
    fits n h (sceNpTusGetMultiSlotDataStatusForCrossSaveVUserAsync cfg req vu slots sc sz len has_opt fresh) \<and>
    fits n h (sceNpTusGetMultiUserDataStatusAsync cfg req nps slot ps sz len has_opt fresh) \<and>
    fits n h (sceNpTusGetMultiUserDataStatusVUserAsync cfg req vus slot ps sz len has_opt fresh) \<and>
    fits n h (sceNpTusGetMultiUserDataStatusAAsync cfg req accs slot sa sz len has_opt fresh) \<and>
    fits n h (sceNpTusGetMultiUserDataStatusAVUserAsync cfg req vus slot sa sz len has_opt fresh) \<and>
    fits n h (sceNpTusGetMultiUserDataStatusForCrossSaveAsync cfg req accs slot sc sz len has_opt fresh) \<and>
    fits n h (sceNpTusGetMultiUserDataStatusForCrossSaveVUserAsync cfg req vus slot sc sz len has_opt fresh) \<and>
    fits n h (sceNpTusGetFriendsDataStatusAsync cfg req slot incl order ps sz len has_opt fresh) \<and>
    fits n h (sceNpTusGetFriendsDataStatusAAsync cfg req slot incl order sa sz len fd fresh) \<and>
    fits n h (sceNpTusGetFriendsDataStatusForCrossSaveAsync cfg req slot incl order sc sz len fd fresh) \<and>
    fits n h (sceNpTssGetDataAsync cfg req slot ts sz d k tp fresh) \<and>
    fits n h (sceNpTssGetSmallStorageAsync cfg req d k cl has_opt fresh)"
  unfolding sceNpTusGetMultiSlotDataStatusAsync_def
    sceNpTusGetMultiSlotDataStatusVUserAsync_def
    sceNpTusGetMultiSlotDataStatusAAsync_def
    sceNpTusGetMultiSlotDataStatusAVUserAsync_def
    sceNpTusGetMultiSlotDataStatusForCrossSaveAsync_def
    sceNpTusGetMultiSlotDataStatusForCrossSaveVUserAsync_def
    sceNpTusGetMultiUserDataStatusAsync_def
    sceNpTusGetMultiUserDataStatusVUserAsync_def
    sceNpTusGetMultiUserDataStatusAAsync_def
    sceNpTusGetMultiUserDataStatusAVUserAsync_def
    sceNpTusGetMultiUserDataStatusForCrossSaveAsync_def
    sceNpTusGetMultiUserDataStatusForCrossSaveVUserAsync_def
    sceNpTusGetFriendsDataStatusAsync_def
    sceNpTusGetFriendsDataStatusAAsync_def
    sceNpTusGetFriendsDataStatusForCrossSaveAsync_def
    sceNpTssGetDataAsync_def
    sceNpTssGetSmallStorageAsync_def
  by (intro conjI) (rule call_fits [OF safe], simp add: tus_sends request_fits send_complete_def replies_tus_set out del: One_nat_def split: prod.split option.split)+

end
