(* ===== verification/NpTusSystem.thy ===== *)
theory NpTusSystem
  imports NpTusProps
begin

text \<open>
  The storage library and the handler over any sequence of operations: the calls of the game with
  the arrays they announce, aborting and deleting, the replies of the server in any order, and what
  the game and the rest of the handler do in between.
\<close>

section \<open>Memory keeps its arrays\<close>

definition keeps_room :: "GameMem \<Rightarrow> GameMem \<Rightarrow> bool" where
  "keeps_room m m' \<longleftrightarrow> grows (gm_var m) (gm_var m') \<and> grows (gm_var_a m) (gm_var_a m') \<and>
     grows (gm_var_cs m) (gm_var_cs m') \<and> grows (gm_status m) (gm_status m') \<and>
     grows (gm_status_a m) (gm_status_a m') \<and> grows (gm_status_cs m) (gm_status_cs m') \<and>
     grows (gm_buf m) (gm_buf m') \<and> grows (gm_tss m) (gm_tss m') \<and> grows (gm_u64 m) (gm_u64 m') \<and>
     grows (gm_u32 m) (gm_u32 m')"

lemma grows_refl [simp]: "grows m m"
  by (simp add: grows_def)

lemma grows_trans: "grows a b \<Longrightarrow> grows b c \<Longrightarrow> grows a c"
  by (simp add: grows_def)

lemma keeps_room_refl [simp]: "keeps_room m m"
  by (simp add: keeps_room_def)

lemma keeps_room_trans: "keeps_room a b \<Longrightarrow> keeps_room b c \<Longrightarrow> keeps_room a c"
  by (auto simp: keeps_room_def intro: grows_trans)

lemma keeps_room_fits: "keeps_room m m' \<Longrightarrow> tus_fits p m \<Longrightarrow> tus_fits p m'"
  by (auto simp: keeps_room_def tus_fits_def Let_def intro: growsD)

lemma grows_upd: "m a = Some xs \<Longrightarrow> length ys = length xs \<Longrightarrow> grows m (m(a \<mapsto> ys))"
  by (auto simp: grows_def holds_def split: option.splits if_splits)

lemma write_at_grows: "write_at p i f m = Returned m' \<Longrightarrow> grows m m'"
  by (auto simp: returned_iff intro: grows_upd)

lemma write_out_grows: "write_out p v m = Returned m' \<Longrightarrow> grows m m'"
  by (auto simp: returned_iff intro: grows_upd split: option.splits)

lemma fill_array_grows: "fill_array p i xs m = Returned m' \<Longrightarrow> grows m m'"
proof (induction xs arbitrary: i m)
  case (Cons x xs)
  then obtain m1 where "write_at p i (\<lambda>_. x) m = Returned m1" "fill_array p (i + 1) xs m1 = Returned m'"
    by (auto simp: bind_Returned)
  with Cons.IH show ?case by (blast intro: write_at_grows grows_trans)
qed simp

lemma copy_out_room: "copy_out p src m = Returned m' \<Longrightarrow> keeps_room m m'"
  by (auto simp: copy_out_def keeps_room_def intro!: grows_upd split: option.splits if_splits)

lemma out_room: "out_u32 p v m = Returned m' \<Longrightarrow> keeps_room m m'" "out_u64 p w m = Returned m' \<Longrightarrow> keeps_room m m'"
  by (auto simp: out_u32_def out_u64_def bind_Returned keeps_room_def intro: write_out_grows)

lemma fill_variables_room: "fill_variables p vs m = Returned (k, m') \<Longrightarrow> keeps_room m m'"
  by (auto simp: fill_variables_def Let_def bind_Returned keeps_room_def intro: fill_array_grows split: if_splits)

lemma fill_statuses_room: "fill_statuses p ss m = Returned m' \<Longrightarrow> keeps_room m m'"
  by (auto simp: fill_statuses_def Let_def bind_Returned keeps_room_def intro: fill_array_grows split: if_splits)

lemma write_status_room: "write_status p st r m = Returned m' \<Longrightarrow> keeps_room m m'"
  by (auto simp: write_status_def Let_def bind_Returned keeps_room_def intro: write_at_grows split: if_splits)

lemma replies_room:
  "variables_reply cfg cmd p body m = Returned (rs, m') \<Longrightarrow> keeps_room m m'"
  "statuses_reply cfg p body m = Returned (rs, m') \<Longrightarrow> keeps_room m m'"
  "tss_reply cfg p body m = Returned (rs, m') \<Longrightarrow> keeps_room m m'"
  "tus_data_reply cfg p body m = Returned (rs, m') \<Longrightarrow> keeps_room m m'"
proof -
  show "keeps_room m m'" if "variables_reply cfg cmd p body m = Returned (rs, m')"
    using that unfolding variables_reply_def bad_reply_def out_total_def
    by (auto simp: bind_Returned split: option.splits dest!: fill_variables_room out_room intro: keeps_room_trans)
  show "keeps_room m m'" if "statuses_reply cfg p body m = Returned (rs, m')"
    using that unfolding statuses_reply_def bad_reply_def out_total_def
    by (auto simp: bind_Returned split: option.splits dest!: fill_statuses_room out_room intro: keeps_room_trans)
  have tss: "keeps_room a (b\<lparr>gm_tss := x\<rparr>)" if "keeps_room a b" "write_out q v (gm_tss b) = Returned x" for a b x q v
    using that write_out_grows [OF that(2)] by (auto simp: keeps_room_def intro: grows_trans)
  show "keeps_room m m'" if "tss_reply cfg p body m = Returned (rs, m')"
    using that unfolding tss_reply_def bad_reply_def
    by (auto simp: bind_Returned intro!: tss intro: keeps_room_trans copy_out_room out_room split: option.splits if_splits)
  show "keeps_room m m'" if "tus_data_reply cfg p body m = Returned (rs, m')"
    using that unfolding tus_data_reply_def bad_reply_def Let_def
    by (auto simp: bind_Returned split: option.splits if_splits dest!: copy_out_room write_status_room intro: keeps_room_trans)
qed

lemma tus_success_room: "tus_success cfg cmd p body m = Returned (rs, m') \<Longrightarrow> keeps_room m m'"
  by (auto simp: tus_success_def intro: replies_room split: if_splits)

section \<open>The calls\<close>

text \<open>A call of the game whose output arrays have the sizes that the call announces.\<close>

inductive storage_call :: "HandlerConfig \<Rightarrow> GameMem \<Rightarrow> tus_step \<Rightarrow> bool" for cfg :: HandlerConfig and m :: GameMem where
  "holds (nat len) (gm_var m) pv \<Longrightarrow>
     storage_call cfg m (sceNpTusGetMultiSlotVariableAsync cfg req np slots pv sz len has_opt fresh)"
| "holds (nat len) (gm_var_a m) pa \<Longrightarrow>
     storage_call cfg m (sceNpTusGetMultiSlotVariableAVUserAsync cfg req vu slots pa sz len has_opt fresh)"
| "holds (nat len) (gm_var_a m) pa \<Longrightarrow>
     storage_call cfg m (sceNpTusGetMultiSlotVariableAAsync cfg req acc slots pa sz len has_opt fresh)"
| "holds (nat len) (gm_var m) pv \<Longrightarrow>
     storage_call cfg m (sceNpTusGetMultiSlotVariableVUserAsync cfg req vu slots pv sz len has_opt fresh)"
| "holds (nat len) (gm_var_cs m) pc \<Longrightarrow>
     storage_call cfg m (sceNpTusGetMultiSlotVariableForCrossSaveAsync cfg req acc slots pc sz len has_opt fresh)"
| "holds (nat len) (gm_var_cs m) pc \<Longrightarrow>
     storage_call cfg m (sceNpTusGetMultiSlotVariableForCrossSaveVUserAsync cfg req vu slots pc sz len has_opt fresh)"
| "storage_call cfg m (sceNpTusSetMultiSlotVariableAsync cfg req np slots vals len has_opt fresh)"
| "storage_call cfg m (sceNpTusSetMultiSlotVariableVUserAsync cfg req vu slots vals len has_opt fresh)"
| "storage_call cfg m (sceNpTusSetMultiSlotVariableAAsync cfg req acc slots vals len has_opt fresh)"
| "storage_call cfg m (sceNpTusDeleteMultiSlotVariableAsync cfg req np slots len has_opt fresh)"
| "storage_call cfg m (sceNpTusDeleteMultiSlotVariableVUserAsync cfg req vu slots len has_opt fresh)"
| "storage_call cfg m (sceNpTusDeleteMultiSlotVariableAAsync cfg req acc slots len has_opt fresh)"
| "holds 1 (gm_var m) pv1 \<Longrightarrow>
     storage_call cfg m (sceNpTusAddAndGetVariableAsync cfg req np slot v auth date pv1 sz has_opt fresh)"
| "holds 1 (gm_var m) pv1 \<Longrightarrow>
     storage_call cfg m (sceNpTusAddAndGetVariableVUserAsync cfg req vu slot v auth date pv1 sz has_opt fresh)"
| "holds 1 (gm_var_a m) pa1 \<Longrightarrow>
     storage_call cfg m (sceNpTusAddAndGetVariableAAsync cfg req acc slot v aacc date pa1 sz has_opt fresh)"
| "holds 1 (gm_var_a m) pa1 \<Longrightarrow>
     storage_call cfg m (sceNpTusAddAndGetVariableAVUserAsync cfg req vu slot v aacc date pa1 sz has_opt fresh)"
| "holds 1 (gm_var_cs m) pc1 \<Longrightarrow>
     storage_call cfg m (sceNpTusAddAndGetVariableForCrossSaveAsync cfg req acc slot v aacc date pc1 sz has_opt fresh)"
| "holds 1 (gm_var_cs m) pc1 \<Longrightarrow>
     storage_call cfg m (sceNpTusAddAndGetVariableForCrossSaveVUserAsync cfg req vu slot v aacc date pc1 sz has_opt fresh)"
| "holds 1 (gm_var m) pv1 \<Longrightarrow>
     storage_call cfg m (sceNpTusTryAndSetVariableAsync cfg req np slot op v cmp auth date pv1 sz has_opt fresh)"
| "holds 1 (gm_var m) pv1 \<Longrightarrow>
     storage_call cfg m (sceNpTusTryAndSetVariableVUserAsync cfg req vu slot op v cmp auth date pv1 sz has_opt fresh)"
| "holds 1 (gm_var_a m) pa1 \<Longrightarrow>
     storage_call cfg m (sceNpTusTryAndSetVariableAAsync cfg req acc slot op v cmp aacc date pa1 sz has_opt fresh)"
| "holds 1 (gm_var_a m) pa1 \<Longrightarrow>
     storage_call cfg m (sceNpTusTryAndSetVariableAVUserAsync cfg req vu slot op v cmp aacc date pa1 sz has_opt fresh)"
| "holds 1 (gm_var_cs m) pc1 \<Longrightarrow>
     storage_call cfg m (sceNpTusTryAndSetVariableForCrossSaveAsync cfg req acc slot op v cmp aacc date pc1 sz has_opt fresh)"
| "holds 1 (gm_var_cs m) pc1 \<Longrightarrow>
     storage_call cfg m (sceNpTusTryAndSetVariableForCrossSaveVUserAsync cfg req vu slot op v cmp aacc date pc1 sz has_opt fresh)"
| "holds (nat len) (gm_var m) pv \<Longrightarrow>
     storage_call cfg m (sceNpTusGetMultiUserVariableAsync cfg req nps slot pv sz len has_opt fresh)"
| "holds (nat len) (gm_var m) pv \<Longrightarrow>
     storage_call cfg m (sceNpTusGetMultiUserVariableVUserAsync cfg req vus slot pv sz len has_opt fresh)"
| "holds (nat len) (gm_var_a m) pa \<Longrightarrow>
     storage_call cfg m (sceNpTusGetMultiUserVariableAAsync cfg req accs slot pa sz len has_opt fresh)"
| "holds (nat len) (gm_var_a m) pa \<Longrightarrow>
     storage_call cfg m (sceNpTusGetMultiUserVariableAVUserAsync cfg req vus slot pa sz len has_opt fresh)"
| "holds (nat len) (gm_var_cs m) pc \<Longrightarrow>
     storage_call cfg m (sceNpTusGetMultiUserVariableForCrossSaveAsync cfg req accs slot pc sz len has_opt fresh)"
| "holds (nat len) (gm_var_cs m) pc \<Longrightarrow>
     storage_call cfg m (sceNpTusGetMultiUserVariableForCrossSaveVUserAsync cfg req vus slot pc sz len has_opt fresh)"
| "holds (nat len) (gm_var m) pv \<Longrightarrow>
     storage_call cfg m (sceNpTusGetFriendsVariableAsync cfg req slot incl order pv sz len has_opt fresh)"
| "holds (nat len) (gm_var_a m) pa \<Longrightarrow> holds 1 (gm_u32 m) (Option.bind fv fv_hits) \<Longrightarrow>
     storage_call cfg m (sceNpTusGetFriendsVariableAAsync cfg req slot incl order pa sz len fv fresh)"
| "holds (nat len) (gm_var_cs m) pc \<Longrightarrow> holds 1 (gm_u32 m) (Option.bind fv fv_hits) \<Longrightarrow>
     storage_call cfg m (sceNpTusGetFriendsVariableForCrossSaveAsync cfg req slot incl order pc sz len fv fresh)"
| "holds 1 (gm_status m) ps1 \<Longrightarrow> holds (unat k) (gm_buf m) d \<Longrightarrow>
     storage_call cfg m (sceNpTusGetDataAsync cfg req np slot ps1 sz d k has_opt fresh)"
| "holds 1 (gm_status m) ps1 \<Longrightarrow> holds (unat k) (gm_buf m) d \<Longrightarrow>
     storage_call cfg m (sceNpTusGetDataVUserAsync cfg req vu slot ps1 sz d k has_opt fresh)"
| "holds 1 (gm_status_a m) sa1 \<Longrightarrow> holds (unat k) (gm_buf m) d \<Longrightarrow>
     storage_call cfg m (sceNpTusGetDataAAsync cfg req acc slot sa1 sz d k has_opt fresh)"
| "holds 1 (gm_status_a m) sa1 \<Longrightarrow> holds (unat k) (gm_buf m) d \<Longrightarrow>
     storage_call cfg m (sceNpTusGetDataAVUserAsync cfg req vu slot sa1 sz d k has_opt fresh)"
| "holds 1 (gm_status_cs m) sc1 \<Longrightarrow> holds (unat k) (gm_buf m) d \<Longrightarrow>
     storage_call cfg m (sceNpTusGetDataForCrossSaveAsync cfg req acc slot sc1 sz d k has_opt fresh)"
| "holds 1 (gm_status_cs m) sc1 \<Longrightarrow> holds (unat k) (gm_buf m) d \<Longrightarrow>
     storage_call cfg m (sceNpTusGetDataForCrossSaveVUserAsync cfg req vu slot sc1 sz d k has_opt fresh)"
| "storage_call cfg m (sceNpTusSetDataAsync cfg req np slot tot sz src info isz auth date has_opt fresh)"
| "storage_call cfg m (sceNpTusSetDataVUserAsync cfg req vu slot tot sz src info isz auth date has_opt fresh)"
| "storage_call cfg m (sceNpTusSetDataAAsync cfg req acc slot tot sz src info isz aacc date has_opt fresh)"
| "storage_call cfg m (sceNpTusSetDataAVUserAsync cfg req vu slot tot sz src info isz aacc date has_opt fresh)"
| "storage_call cfg m (sceNpTusDeleteMultiSlotDataAsync cfg req np slots len has_opt fresh)"
| "storage_call cfg m (sceNpTusDeleteMultiSlotDataVUserAsync cfg req vu slots len has_opt fresh)"
| "storage_call cfg m (sceNpTusDeleteMultiSlotDataAAsync cfg req acc slots len has_opt fresh)"
| "holds (nat len) (gm_status m) ps \<Longrightarrow>
     storage_call cfg m (sceNpTusGetMultiSlotDataStatusAsync cfg req np slots ps sz len has_opt fresh)"
| "holds (nat len) (gm_status m) ps \<Longrightarrow>
     storage_call cfg m (sceNpTusGetMultiSlotDataStatusVUserAsync cfg req vu slots ps sz len has_opt fresh)"
| "holds (nat len) (gm_status_a m) sa \<Longrightarrow>
     storage_call cfg m (sceNpTusGetMultiSlotDataStatusAAsync cfg req acc slots sa sz len has_opt fresh)"
| "holds (nat len) (gm_status_a m) sa \<Longrightarrow>
     storage_call cfg m (sceNpTusGetMultiSlotDataStatusAVUserAsync cfg req vu slots sa sz len has_opt fresh)"
| "holds (nat len) (gm_status_cs m) sc \<Longrightarrow>
     storage_call cfg m (sceNpTusGetMultiSlotDataStatusForCrossSaveAsync cfg req acc slots sc sz len has_opt fresh)"
| "holds (nat len) (gm_status_cs m) sc \<Longrightarrow>
     storage_call cfg m (sceNpTusGetMultiSlotDataStatusForCrossSaveVUserAsync cfg req vu slots sc sz len has_opt fresh)"
| "holds (nat len) (gm_status m) ps \<Longrightarrow>
     storage_call cfg m (sceNpTusGetMultiUserDataStatusAsync cfg req nps slot ps sz len has_opt fresh)"
| "holds (nat len) (gm_status m) ps \<Longrightarrow>
     storage_call cfg m (sceNpTusGetMultiUserDataStatusVUserAsync cfg req vus slot ps sz len has_opt fresh)"
| "holds (nat len) (gm_status_a m) sa \<Longrightarrow>
     storage_call cfg m (sceNpTusGetMultiUserDataStatusAAsync cfg req accs slot sa sz len has_opt fresh)"
| "holds (nat len) (gm_status_a m) sa \<Longrightarrow>
     storage_call cfg m (sceNpTusGetMultiUserDataStatusAVUserAsync cfg req vus slot sa sz len has_opt fresh)"
| "holds (nat len) (gm_status_cs m) sc \<Longrightarrow>
     storage_call cfg m (sceNpTusGetMultiUserDataStatusForCrossSaveAsync cfg req accs slot sc sz len has_opt fresh)"
| "holds (nat len) (gm_status_cs m) sc \<Longrightarrow>
     storage_call cfg m (sceNpTusGetMultiUserDataStatusForCrossSaveVUserAsync cfg req vus slot sc sz len has_opt fresh)"
| "holds (nat len) (gm_status m) ps \<Longrightarrow>
     storage_call cfg m (sceNpTusGetFriendsDataStatusAsync cfg req slot incl order ps sz len has_opt fresh)"
| "holds (nat len) (gm_status_a m) sa \<Longrightarrow> holds 1 (gm_u32 m) (Option.bind fd fd_hits) \<Longrightarrow>
     storage_call cfg m (sceNpTusGetFriendsDataStatusAAsync cfg req slot incl order sa sz len fd fresh)"
| "holds (nat len) (gm_status_cs m) sc \<Longrightarrow> holds 1 (gm_u32 m) (Option.bind fd fd_hits) \<Longrightarrow>
     storage_call cfg m (sceNpTusGetFriendsDataStatusForCrossSaveAsync cfg req slot incl order sc sz len fd fresh)"
| "holds 1 (gm_tss m) ts \<Longrightarrow> holds (unat k) (gm_buf m) d \<Longrightarrow>
     storage_call cfg m (sceNpTssGetDataAsync cfg req slot ts sz d k tp fresh)"
| "holds (unat k) (gm_buf m) d \<Longrightarrow> holds 1 (gm_u64 m) cl \<Longrightarrow>
     storage_call cfg m (sceNpTssGetSmallStorageAsync cfg req d k cl has_opt fresh)"

text \<open>The lemmas for one output array at a time.\<close>

lemmas variable_call_fits =
  variable_calls_fit [where pa = None and pc = None and ?pv1.0 = None and ?pa1.0 = None and ?pc1.0 = None and fv = None]
  variable_calls_fit [where pv = None and pc = None and ?pv1.0 = None and ?pa1.0 = None and ?pc1.0 = None and fv = None]
  variable_calls_fit [where pv = None and pa = None and ?pv1.0 = None and ?pa1.0 = None and ?pc1.0 = None and fv = None]
  variable_calls_fit [where pv = None and pa = None and pc = None and ?pa1.0 = None and ?pc1.0 = None and fv = None]
  variable_calls_fit [where pv = None and pa = None and pc = None and ?pv1.0 = None and ?pc1.0 = None and fv = None]
  variable_calls_fit [where pv = None and pa = None and pc = None and ?pv1.0 = None and ?pa1.0 = None and fv = None]
  variable_calls_fit [where pv = None and pc = None and ?pv1.0 = None and ?pa1.0 = None and ?pc1.0 = None]
  variable_calls_fit [where pv = None and pa = None and ?pv1.0 = None and ?pa1.0 = None and ?pc1.0 = None]
  variable_calls_fit [where pv = None and pa = None and pc = None and ?pv1.0 = None and ?pa1.0 = None and ?pc1.0 = None and fv = None]

lemmas data_call_fits =
  data_calls_fit [where ?sa1.0 = None and ?sc1.0 = None]
  data_calls_fit [where ?ps1.0 = None and ?sc1.0 = None]
  data_calls_fit [where ?ps1.0 = None and ?sa1.0 = None]
  data_calls_fit [where ?ps1.0 = None and ?sa1.0 = None and ?sc1.0 = None and d = None]

lemmas status_call_fits =
  status_calls_fit [where sa = None and sc = None and fd = None and d = None and ts = None and cl = None]
  status_calls_fit [where ps = None and sc = None and fd = None and d = None and ts = None and cl = None]
  status_calls_fit [where ps = None and sa = None and fd = None and d = None and ts = None and cl = None]
  status_calls_fit [where ps = None and sc = None and d = None and ts = None and cl = None]
  status_calls_fit [where ps = None and sa = None and d = None and ts = None and cl = None]
  status_calls_fit [where ps = None and sa = None and sc = None and fd = None and cl = None]
  status_calls_fit [where ps = None and sa = None and sc = None and fd = None and ts = None]

lemma storage_call_fits:
  assumes "storage_call cfg (hn_mem h) step" and "replies_safe h"
  shows "fits n h step"
  using assms by cases (simp_all add: variable_call_fits data_call_fits status_call_fits)

section \<open>The storage library running\<close>

text \<open>
  The states that are reached from the start of the library. A reply may be any reply to any user, and
  it may come at any time. In \<open>outside\<close> the game and the rest of the handler run: they keep the arrays
  and the contexts, and may complete storage requests but register none.
\<close>

inductive storage_reach :: "HandlerConfig \<Rightarrow> NpTus \<Rightarrow> NpHandler \<Rightarrow> bool" for cfg :: HandlerConfig where
  start: "hn_pending_tus h = [] \<Longrightarrow> storage_reach cfg init_tus h"
| title: "storage_reach cfg n h \<Longrightarrow> sceNpTusCreateNpTitleCtx l np n = (r, n') \<Longrightarrow> storage_reach cfg n' h"
| delete_title: "storage_reach cfg n h \<Longrightarrow> sceNpTusDeleteNpTitleCtx i n h = (r, n', h') \<Longrightarrow> storage_reach cfg n' h'"
| request: "storage_reach cfg n h \<Longrightarrow> sceNpTusCreateRequest i n = (r, n') \<Longrightarrow> storage_reach cfg n' h"
| delete_request: "storage_reach cfg n h \<Longrightarrow> sceNpTusDeleteRequest i n h = (r, n', h') \<Longrightarrow> storage_reach cfg n' h'"
| abort: "storage_reach cfg n h \<Longrightarrow> sceNpTusAbortRequest i n h = (r, h') \<Longrightarrow> storage_reach cfg n h'"
| fake: "storage_reach cfg n h \<Longrightarrow> FakeAsyncComplete i res fresh n h = (r, n', h') \<Longrightarrow> storage_reach cfg n' h'"
| call: "storage_reach cfg n h \<Longrightarrow> storage_call cfg (hn_mem h) step \<Longrightarrow> step n h = Returned (r, n', h') \<Longrightarrow>
    storage_reach cfg n' h'"
| reply: "storage_reach cfg n h \<Longrightarrow> OnTusReply cfg uid cmd pkt err body h = Returned h' \<Longrightarrow> storage_reach cfg n h'"
| outside: "storage_reach cfg n h \<Longrightarrow> set (hn_pending_tus h') \<subseteq> set (hn_pending_tus h) \<Longrightarrow>
    dom (hn_tus_ctxs h) \<subseteq> dom (hn_tus_ctxs h') \<Longrightarrow> keeps_room (hn_mem h) (hn_mem h') \<Longrightarrow> storage_reach cfg n h'"

lemma replies_safe_outside:
  assumes "replies_safe h" and "set (hn_pending_tus h') \<subseteq> set (hn_pending_tus h)"
    and "dom (hn_tus_ctxs h) \<subseteq> dom (hn_tus_ctxs h')" and "keeps_room (hn_mem h) (hn_mem h')"
  shows "replies_safe h'"
  unfolding replies_safe_def
proof clarify
  fix k p assume "(k, p) \<in> set (hn_pending_tus h')"
  then have "(k, p) \<in> set (hn_pending_tus h)" using assms(2) by blast
  then obtain a where "tus_fits p (hn_mem h)" "qt_req p = Some a" "hn_tus_ctxs h a \<noteq> None"
    using assms(1) by (auto simp: replies_safe_def)
  then show "tus_fits p (hn_mem h') \<and> (\<exists>a. qt_req p = Some a \<and> hn_tus_ctxs h' a \<noteq> None)"
    using keeps_room_fits [OF assms(4)] assms(3) by (auto simp: dom_def)
qed

lemma set_result_safe: "replies_safe h \<Longrightarrow> replies_safe (set_result r c h)"
  by (simp add: set_result_def replies_tus_set split: option.split)

lemma fold_set_result_safe: "replies_safe h \<Longrightarrow> replies_safe (fold (\<lambda>(_, r). set_result e (tr_ctx r)) rs h)"
  by (induction rs arbitrary: h) (auto simp: set_result_safe)

lemma put_ctx_safe: "replies_safe h \<Longrightarrow> replies_safe (put_tus_ctx a c h)"
  by (fastforce simp: replies_safe_def put_tus_ctx_def)

lemma finish_outside:
  assumes "finish_tus c rs h = Returned h'"
  shows "hn_pending_tus h' = hn_pending_tus h \<and> dom (hn_tus_ctxs h) \<subseteq> dom (hn_tus_ctxs h') \<and> hn_mem h' = hn_mem h"
  using assms by (auto simp: finish_tus_def fold_tus_set at_addr_def split: option.splits if_splits)

lemma OnTusReply_outside:
  assumes "OnTusReply cfg uid cmd pkt err body h = Returned h'"
  shows "set (hn_pending_tus h') \<subseteq> set (hn_pending_tus h) \<and> dom (hn_tus_ctxs h) \<subseteq> dom (hn_tus_ctxs h') \<and>
    keeps_room (hn_mem h) (hn_mem h')"
proof -
  have sub: "set (omap_erase pkt (hn_pending_tus h)) \<subseteq> set (hn_pending_tus h)" by (auto simp: omap_erase_def)
  show ?thesis
    using assms sub
    by (auto simp: OnTusReply_def Let_def bind_Returned split: option.splits if_splits
        dest!: finish_outside dest: tus_success_room subsetD [OF _ domI])
qed

lemma storage_reach_safe: "storage_reach cfg n h \<Longrightarrow> replies_safe h"
proof (induction rule: storage_reach.induct)
  case (start h)
  then show ?case by (simp add: replies_safe_def)
next
  case (delete_title n h i r n' h')
  then show ?case
    by (auto simp: sceNpTusDeleteNpTitleCtx_def intro!: fold_set_result_safe split: if_splits)
next
  case (call n h step r n' h')
  then show ?case using storage_call_fits [of cfg h step n] by (auto simp: fits_def)
next
  case (reply n h uid cmd pkt err body h')
  then show ?case using OnTusReply_outside [of cfg uid cmd pkt err body h h'] by (auto intro: replies_safe_outside)
next
  case (outside n h h')
  then show ?case by (auto intro: replies_safe_outside)
qed (auto simp: sceNpTusDeleteRequest_def sceNpTusAbortRequest_def FakeAsyncComplete_def
    intro!: set_result_safe put_ctx_safe split: option.splits)

lemma finish_some:
  "hn_tus_ctxs h a \<noteq> None \<Longrightarrow> rs \<noteq> [] \<Longrightarrow>
   \<exists>h' c. finish_tus (Some a) rs h = Returned h' \<and> hn_tus_ctxs h' a = Some c \<and> tc_result c \<noteq> None"
  by (auto simp: finish_tus_def fold_tus_set tus_results at_addr_def)

text \<open>
  Claim C13. In every reachable state of the storage library with the handler, whatever reply the server
  sends, with whatever command and bytes, handling it writes only inside arrays of the game; and the
  request it answers, if it is still registered, has a result afterwards. The only thing asked of the
  game is that the arrays behind the pointers of its calls have the sizes that the calls announce and
  are kept. The calls may be any sequence of the 63 that exist, and requests may be aborted and deleted
  at any time.
\<close>
theorem storage_replies_stay_inside:
  assumes "storage_reach cfg n h"
  shows "\<exists>h'. OnTusReply cfg' uid cmd pkt err body h = Returned h' \<and>
    (\<forall>p. map_of (hn_pending_tus h) pkt = Some p \<longrightarrow>
       (\<exists>a c. qt_req p = Some a \<and> hn_tus_ctxs h' a = Some c \<and> tc_result c \<noteq> None))"
proof (cases "map_of (hn_pending_tus h) pkt")
  case (Some p)
  let ?h = "h\<lparr>hn_pending_tus := omap_erase pkt (hn_pending_tus h)\<rparr>"
  obtain a where p: "tus_fits p (hn_mem h)" "qt_req p = Some a" "hn_tus_ctxs h a \<noteq> None"
    using storage_reach_safe [OF assms] map_of_SomeD [OF Some] by (auto simp: replies_safe_def)
  obtain rs m where rs: "tus_success cfg' cmd p body (hn_mem h) = Returned (rs, m)" "rs \<noteq> []"
    using tus_success_safe [OF p(1), of cfg' cmd body] by (auto simp: safe_def)
  show ?thesis
    using finish_some [of "?h\<lparr>hn_mem := m\<rparr>" a rs] finish_some [of ?h a "[tus_error err]"] p rs Some
    by (auto simp: OnTusReply_def Let_def simp del: fold_simps)
qed (simp add: OnTusReply_def)

text \<open>A signed-in user 1 and an array for one variable at 2; the game asks for the variable in packet 7.\<close>

definition demo_storage_handler :: NpHandler where
  "demo_storage_handler = init_handler\<lparr>hn_np_ids := [(1, zero_np_id)], hn_clients := [(1, new_client\<lparr>cl_pkt_counter := 7\<rparr>)],
     hn_mem := empty_mem\<lparr>gm_var := [2 \<mapsto> [zero_variable]]\<rparr>\<rparr>"

definition demo_storage :: NpTus where
  "demo_storage = snd (sceNpTusCreateRequest 1 (snd (sceNpTusCreateNpTitleCtx 0 (Some zero_np_id) init_tus)))"

definition demo_storage_call :: tus_step where
  "demo_storage_call = sceNpTusGetMultiSlotVariableVUserAsync demo_cfg 1 (Some [97]) (Some [0]) (Some 2) 120 1 False 9"

lemma demo_storage_reach: "storage_reach demo_cfg demo_storage demo_storage_handler"
  unfolding demo_storage_def
  by (rule storage_reach.request [OF storage_reach.title [OF storage_reach.start prod.collapse [symmetric]] prod.collapse [symmetric]])
    (simp add: demo_storage_handler_def init_handler_def)

lemma demo_storage_asks:
  "\<exists>n h p. demo_storage_call demo_storage demo_storage_handler = Returned (0, n, h) \<and>
     map_of (hn_pending_tus h) 7 = Some p \<and> qt_variable_array p = Some 2"
  by (simp add: demo_storage_call_def sceNpTusGetMultiSlotVariableVUserAsync_def tus_call_def first_error.simps check_def check_slots_def
      check_all_def check_vuser_def vuser_def vuser_name_def array_bytes_def sizeof_variable_def reading_def read_n_def
      demo_storage_def sceNpTusCreateRequest_def sceNpTusCreateNpTitleCtx_def init_tus_def ORBIS_NP_INVALID_SERVICE_LABEL_def
      ResolveTus_def GetUserIdByOnlineId_def demo_storage_handler_def init_handler_def tus_sends tus_request_def tus_send_def
      put_tus_ctx_def GetNpCommId_def IsValidNpCommId_def demo_cfg_def send_request_def SubmitRequest_def tus_register_def
      var_pending_def new_tus_pending_def var_plain_def omap_emplace_def strn_equal_def Let_def)

theorem storage_replies_stay_inside_witness:
  "\<exists>n (h :: NpHandler) p (h' :: NpHandler). storage_reach demo_cfg n h \<and> map_of (hn_pending_tus h) 7 = Some p \<and> qt_variable_array p = Some 2 \<and>
     OnTusReply demo_cfg 1 CmdTusGetData 7 0 [] h = Returned h' \<and>
     (\<exists>a c. qt_req p = Some a \<and> hn_tus_ctxs h' a = Some c \<and> tc_result c \<noteq> None)"
proof -
  obtain n and h :: NpHandler and p where call: "demo_storage_call demo_storage demo_storage_handler = Returned (0, n, h)"
    and p: "map_of (hn_pending_tus h) 7 = Some p" "qt_variable_array p = Some 2"
    using demo_storage_asks by blast
  have "storage_call demo_cfg (hn_mem demo_storage_handler) demo_storage_call"
    unfolding demo_storage_call_def by (rule storage_call.intros) (simp add: demo_storage_handler_def holds_def)
  from storage_reach.call [OF demo_storage_reach this call] have reach: "storage_reach demo_cfg n h" .
  show ?thesis
    using storage_replies_stay_inside [OF reach, of demo_cfg 1 CmdTusGetData 7 0 "[]"] reach p by blast
qed

end
