(* ===== verification/NpTusTransfer.thy ===== *)
theory NpTusTransfer
  imports NpTusSystem
begin

text \<open>
  Data of the storage library sent and read in pieces (claims on the calls by account): an upload in
  pieces is one upload of the whole, reads follow each other through the data, and what happens when
  a request is used for both.
\<close>

section \<open>Stepping a call\<close>

lemma omap_put_twice: "omap_put k v (omap_put k w m) = omap_put k v m"
  by (induction k w m rule: omap_put.induct) auto

lemma ResolveTus_put:
  assumes "ResolveTus req n h = Inr (q, svc, uid, self)" and "hn_np_ids h' = hn_np_ids h"
    and "tr_title_ctx_id q' = tr_title_ctx_id q"
  shows "ResolveTus req (n\<lparr>nt_requests := omap_put req q' (nt_requests n)\<rparr>) h' = Inr (q', svc, uid, self)"
  using assms by (auto simp: ResolveTus_def GetUserIdByOnlineId_def map_of_omap_put split: option.splits)

lemma put_tus_ctx_np_ids [simp]: "hn_np_ids (put_tus_ctx a c h) = hn_np_ids h"
  by (simp add: put_tus_ctx_def)

lemma tus_set_new: "tus_set a r (put_tus_ctx a new_tus_ctx h) = put_tus_ctx a \<lparr>tc_result = Some r\<rparr> h"
  by (simp add: tus_set_def put_tus_ctx_def at_addr_def TusSetResult_def new_tus_ctx_def)

lemma unat_length:
  assumes "length xs \<le> unat (w :: u64)"
  shows "unat (of_nat (length xs) :: u64) = length xs"
  using le_less_trans [OF assms unsigned_less] by (subst unsigned_of_nat, subst take_bit_nat_eq_self) simp_all

section \<open>Uploads\<close>

text \<open>One piece with its information and the address of its context, and a sequence of them.\<close>

definition upload_call ::
  "HandlerConfig \<Rightarrow> s32 \<Rightarrow> u64 \<Rightarrow> s32 \<Rightarrow> u64 \<Rightarrow> u64 \<Rightarrow> u64 option \<Rightarrow> u64 option \<Rightarrow>
   bytes \<Rightarrow> OrbisNpTusDataInfo option \<Rightarrow> addr \<Rightarrow> tus_step" where
  "upload_call cfg req acct slot tot isz auth date piece info fresh =
     sceNpTusSetDataAAsync cfg req acct slot tot (of_nat (length piece)) (Some piece) info isz auth date False fresh"

type_synonym upload_piece = "bytes \<times> OrbisNpTusDataInfo option \<times> addr"

fun send_pieces ::
  "HandlerConfig \<Rightarrow> s32 \<Rightarrow> u64 \<Rightarrow> s32 \<Rightarrow> u64 \<Rightarrow> u64 \<Rightarrow> u64 option \<Rightarrow> u64 option \<Rightarrow> upload_piece list \<Rightarrow>
   NpTus \<Rightarrow> NpHandler \<Rightarrow> (s32 list \<times> NpTus \<times> NpHandler) outcome" where
  "send_pieces cfg req acct slot tot isz auth date [] n h = Returned ([], n, h)"
| "send_pieces cfg req acct slot tot isz auth date ((piece, info, fresh) # ps) n h =
     bind_outcome (upload_call cfg req acct slot tot isz auth date piece info fresh n h) (\<lambda>(r, n1, h1).
       bind_outcome (send_pieces cfg req acct slot tot isz auth date ps n1 h1) (\<lambda>(rs, n2, h2). Returned (r # rs, n2, h2)))"

text \<open>The transfer of an upload that has the bytes \<open>buf\<close>.\<close>

definition upload_xfer :: "s32 \<Rightarrow> s64 \<Rightarrow> u64 \<Rightarrow> bytes \<Rightarrow> bytes \<Rightarrow> NpTusDataXfer" where
  "upload_xfer slot account tot info buf =
     (BeginXfer slot account [])\<lparr>xf_total_size := tot, xf_info := info, xf_send_buf := buf\<rparr>"

text \<open>The data is sent and the transfer ends.\<close>

definition complete_upload ::
  "HandlerConfig \<Rightarrow> s32 \<Rightarrow> u64 \<Rightarrow> s32 \<Rightarrow> u64 option \<Rightarrow> u64 option \<Rightarrow> bytes \<Rightarrow> bytes \<Rightarrow> addr \<Rightarrow>
   NpTusRequest \<Rightarrow> u32 \<Rightarrow> s32 \<Rightarrow> tus_step" where
  "complete_upload cfg req acct slot auth date blob info fresh q svc uid n h =
     (case TusSetData cfg uid (to_s32 (uint svc)) [] [] (to_s64 (uint acct)) slot blob info
             (auth \<noteq> None) (author_account auth) [] (date \<noteq> None) (date_tick date) (Some fresh) (put_tus_ctx fresh new_tus_ctx h) of
        (submit, h1) \<Rightarrow>
          Returned (if submit < 0 then submit else ORBIS_OK,
            n\<lparr>nt_requests := omap_put req (q\<lparr>tr_ctx := Some fresh, tr_xfer := no_xfer\<rparr>) (nt_requests n)\<rparr>, h1))"

lemma upload_step:
  assumes live: "ResolveTus req n h = Inr (q, svc, uid, self)" and slot: "0 \<le> slot"
    and piece: "piece \<noteq> []" "length piece \<le> unat tot"
    and add: "add_piece slot (to_s64 (uint acct)) (\<lambda>_. []) tot (of_nat (length piece)) (Some piece) info isz self (tr_xfer q) =
      Returned (out, x)"
  shows "upload_call cfg req acct slot tot isz auth date piece info fresh n h =
    (case out of
       None \<Rightarrow> Returned (ORBIS_OK, n\<lparr>nt_requests := omap_put req (q\<lparr>tr_ctx := Some fresh, tr_xfer := x\<rparr>) (nt_requests n)\<rparr>,
                 put_tus_ctx fresh \<lparr>tc_result = Some ORBIS_OK\<rparr> h)
     | Some (blob, ib) \<Rightarrow>
         (case complete_upload cfg req acct slot auth date blob ib fresh q svc uid n h of
            Returned (r, n1, h1) \<Rightarrow>
              Returned (r, n\<lparr>nt_requests := omap_put req (q\<lparr>tr_ctx := Some fresh, tr_xfer := x\<rparr>) (nt_requests n)\<rparr>, h1)))"
proof -
  have "(of_nat (length piece) :: u64) \<noteq> 0" and "\<not> of_nat (length piece) > tot"
    using unat_length [OF piece(2)] piece by (auto simp: word_less_nat_alt simp flip: unat_eq_0)
  then show ?thesis
    using live slot add
    by (simp add: upload_call_def sceNpTusSetDataAAsync_def tus_call_def first_error.simps check_def send_complete_def
        complete_upload_def tus_set_new split: option.split prod.split)
qed

lemma piece_first:
  assumes "\<not> SameTarget slot account [] x" and "unat tot < 2 ^ 31" and "length piece \<le> unat tot"
  shows "add_piece slot account (\<lambda>_. []) tot (of_nat (length piece)) (Some piece) info isz self x =
    Returned (if unat tot \<le> length piece then Some (piece, info_bytes info isz) else None,
      if unat tot \<le> length piece then no_xfer else upload_xfer slot account tot (info_bytes info isz) piece)"
  using assms unat_length [OF assms(3)]
  by (simp add: add_piece_def read_n_def upload_xfer_def BeginXfer_def no_xfer_def Let_def)

lemma piece_next:
  assumes "length buf + length piece \<le> unat tot"
  shows "add_piece slot account (\<lambda>_. []) tot' (of_nat (length piece)) (Some piece) info isz self
      (upload_xfer slot account tot ib buf) =
    Returned (if unat tot \<le> length buf + length piece then Some (buf @ piece, ib) else None,
      if unat tot \<le> length buf + length piece then no_xfer else upload_xfer slot account tot ib (buf @ piece))"
proof -
  have "unat (of_nat (length piece) :: u64) = length piece" using assms by (intro unat_length [of _ tot]) simp
  then show ?thesis
    by (simp add: add_piece_def read_n_def upload_xfer_def BeginXfer_def no_xfer_def SameTarget_def Let_def)
qed

definition pieces_of :: "upload_piece list \<Rightarrow> bytes" where
  "pieces_of ps = concat (map fst ps)"

lemma pieces_of_Cons [simp]: "pieces_of (p # ps) = fst p @ pieces_of ps"
  by (simp add: pieces_of_def)

text \<open>Each piece before the last has its context completed.\<close>

definition accepted :: "upload_piece list \<Rightarrow> NpHandler \<Rightarrow> NpHandler" where
  "accepted ps h = fold (\<lambda>(_, _, a). put_tus_ctx a \<lparr>tc_result = Some ORBIS_OK\<rparr>) (butlast ps) h"

abbreviation ends where
  "ends k m \<equiv> bind_outcome m (\<lambda>(r, s). Returned (replicate k ORBIS_OK @ [r], s))"

lemma cons_ends: "bind_outcome (ends k m) (\<lambda>(rs, n', h'). Returned (ORBIS_OK # rs, n', h')) = ends (Suc k) m"
  by (cases m) auto

lemma complete_upload_put [simp]:
  "complete_upload cfg req acct slot auth date blob ib fresh (q\<lparr>tr_ctx := c, tr_xfer := x\<rparr>) svc uid
     (n\<lparr>nt_requests := omap_put req q' (nt_requests n)\<rparr>) h =
   complete_upload cfg req acct slot auth date blob ib fresh q svc uid n h"
  by (simp add: complete_upload_def omap_put_twice split: prod.split)

lemma pieces_mid:
  assumes "ResolveTus req n h = Inr (q, svc, uid, self)" and "tr_xfer q = upload_xfer slot (to_s64 (uint acct)) tot ib buf"
    and "0 \<le> slot" and "ps \<noteq> []" and "\<forall>(piece, _) \<in> set ps. piece \<noteq> []" and "length buf + length (pieces_of ps) = unat tot"
  shows "send_pieces cfg req acct slot tot isz auth date ps n h =
    ends (length ps - 1) (complete_upload cfg req acct slot auth date (buf @ pieces_of ps) ib (snd (snd (last ps))) q svc uid n
      (accepted ps h))"
  using assms
proof (induction ps arbitrary: n h q buf)
  case (Cons p ps)
  obtain piece info fresh where p: "p = (piece, info, fresh)" by (cases p)
  have piece: "piece \<noteq> []" "length piece \<le> unat tot" "length buf + length piece \<le> unat tot"
    using Cons.prems(5,6) p by auto
  note add = piece_next [OF piece(3), of slot "to_s64 (uint acct)" tot info isz self ib]
  note step = upload_step [OF Cons.prems(1,3) piece(1,2) add [folded Cons.prems(2)], of cfg auth date fresh]
  show ?case
  proof (cases "ps = []")
    case True
    with step Cons.prems(6) p show ?thesis
      by (simp add: accepted_def pieces_of_def complete_upload_def split: prod.split)
  next
    case False
    then obtain p' ps' where ps: "ps = p' # ps'" by (cases ps) auto
    have "fst p' \<noteq> []" using Cons.prems(5) ps by (cases p') simp
    then have less: "\<not> unat tot \<le> length buf + length piece" using Cons.prems(6) p ps by (cases "fst p'") auto
    let ?q = "q\<lparr>tr_ctx := Some fresh, tr_xfer := upload_xfer slot (to_s64 (uint acct)) tot ib (buf @ piece)\<rparr>"
    let ?n = "n\<lparr>nt_requests := omap_put req ?q (nt_requests n)\<rparr>"
    let ?h = "put_tus_ctx fresh \<lparr>tc_result = Some ORBIS_OK\<rparr> h"
    have call: "upload_call cfg req acct slot tot isz auth date piece info fresh n h = Returned (ORBIS_OK, ?n, ?h)"
      using step less by simp
    have rest: "send_pieces cfg req acct slot tot isz auth date ps ?n ?h =
      ends (length ps - 1) (complete_upload cfg req acct slot auth date ((buf @ piece) @ pieces_of ps) ib
        (snd (snd (last ps))) ?q svc uid ?n (accepted ps ?h))"
    proof (rule Cons.IH)
      show "ResolveTus req ?n ?h = Inr (?q, svc, uid, self)"
        by (rule ResolveTus_put [OF Cons.prems(1)]) simp_all
    qed (use Cons.prems p False in auto)
    have "accepted (p # ps) h = accepted ps ?h" "length (p # ps) - 1 = Suc (length ps - 1)" "last (p # ps) = last ps"
      "buf @ pieces_of (p # ps) = (buf @ piece) @ pieces_of ps"
      using False p by (simp_all add: accepted_def)
    then show ?thesis
      unfolding p send_pieces.simps call bind_outcome.simps prod.case rest complete_upload_put cons_ends by simp
  qed
qed simp

text \<open>
  Claim C26. Sending data in pieces is sending it whole. When a request is not in the middle of a transfer
  to the slot, and the pieces, none of them empty, add up to the size that is announced, then the calls
  do what one call with all the data and the information of the first piece does after the other calls
  have only completed their own contexts: nothing but the whole data goes to the handler, and it goes
  once.
\<close>
theorem upload_in_pieces:
  assumes "ResolveTus req n h = Inr (q, svc, uid, self)"
    and "\<not> SameTarget slot (to_s64 (uint acct)) [] (tr_xfer q)" and "0 \<le> slot"
    and "\<forall>(piece, _) \<in> set ((piece, info, fresh) # ps). piece \<noteq> []"
    and "length (pieces_of ((piece, info, fresh) # ps)) = unat tot" and "unat tot < 2 ^ 31"
  shows "send_pieces cfg req acct slot tot isz auth date ((piece, info, fresh) # ps) n h =
    ends (length ps) (upload_call cfg req acct slot tot isz auth date (pieces_of ((piece, info, fresh) # ps)) info
      (snd (snd (last ((piece, info, fresh) # ps)))) n (accepted ((piece, info, fresh) # ps) h))"
proof -
  let ?all = "pieces_of ((piece, info, fresh) # ps)" and ?h' = "accepted ((piece, info, fresh) # ps) h"
  let ?last = "snd (snd (last ((piece, info, fresh) # ps)))" and ?ib = "info_bytes info isz"
  have h': "hn_np_ids ?h' = hn_np_ids h"
  proof -
    have "hn_np_ids (fold (\<lambda>(_, _, a). put_tus_ctx a c) xs h) = hn_np_ids h" for c and xs :: "upload_piece list"
      by (induction xs arbitrary: h) auto
    then show ?thesis by (simp add: accepted_def)
  qed
  have live: "ResolveTus req n ?h' = Inr (q, svc, uid, self)"
    using assms(1) by (auto simp: ResolveTus_def GetUserIdByOnlineId_def h' simp del: fold_simps split: option.splits)
  have whole: "upload_call cfg req acct slot tot isz auth date ?all info ?last n ?h' =
      complete_upload cfg req acct slot auth date ?all ?ib ?last q svc uid n ?h'"
    using upload_step [OF live assms(3) _ _ piece_first [OF assms(2,6)], where piece = ?all and info = info and isz = isz
        and cfg = cfg and auth = auth and date = date and fresh = ?last] assms(4,5)
    by (simp add: complete_upload_def split: prod.split)
  have len: "length piece \<le> unat tot" "piece \<noteq> []" using assms(4,5) by auto
  note first = upload_step [OF assms(1,3) len(2,1) piece_first [OF assms(2,6) len(1)], where info = info and isz = isz
      and cfg = cfg and auth = auth and date = date and fresh = fresh]
  show ?thesis
  proof (cases "ps = []")
    case True
    then show ?thesis using first assms(5) by (simp add: accepted_def pieces_of_def complete_upload_def split: prod.split)
  next
    case False
    then obtain p' ps' where ps: "ps = p' # ps'" by (cases ps) auto
    have "fst p' \<noteq> []" using assms(4) ps by (cases p') simp
    then have less: "\<not> unat tot \<le> length piece" using assms(5) ps by (cases "fst p'") auto
    let ?q = "q\<lparr>tr_ctx := Some fresh, tr_xfer := upload_xfer slot (to_s64 (uint acct)) tot ?ib piece\<rparr>"
    let ?n = "n\<lparr>nt_requests := omap_put req ?q (nt_requests n)\<rparr>"
    let ?h = "put_tus_ctx fresh \<lparr>tc_result = Some ORBIS_OK\<rparr> h"
    have call: "upload_call cfg req acct slot tot isz auth date piece info fresh n h = Returned (ORBIS_OK, ?n, ?h)"
      using first less by simp
    have rest: "send_pieces cfg req acct slot tot isz auth date ps ?n ?h =
      ends (length ps - 1) (complete_upload cfg req acct slot auth date (piece @ pieces_of ps) ?ib
        (snd (snd (last ps))) ?q svc uid ?n (accepted ps ?h))"
    proof (rule pieces_mid)
      show "ResolveTus req ?n ?h = Inr (?q, svc, uid, self)"
        by (rule ResolveTus_put [OF assms(1)]) simp_all
    qed (use assms False in auto)
    have "accepted ((piece, info, fresh) # ps) h = accepted ps ?h" "length ps = Suc (length ps - 1)"
      "last ((piece, info, fresh) # ps) = last ps" "?all = piece @ pieces_of ps"
      using False by (simp_all add: accepted_def)
    then show ?thesis
      unfolding send_pieces.simps call bind_outcome.simps prod.case rest complete_upload_put cons_ends whole by simp
  qed
qed

section \<open>Reads\<close>

text \<open>A read of \<open>k\<close> bytes to the buffer \<open>d\<close>, with the status at \<open>st\<close>.\<close>

definition read_call :: "HandlerConfig \<Rightarrow> s32 \<Rightarrow> u64 \<Rightarrow> s32 \<Rightarrow> addr \<Rightarrow> addr \<Rightarrow> u64 \<Rightarrow> addr \<Rightarrow> tus_step" where
  "read_call cfg req acct slot st d k fresh =
     sceNpTusGetDataAAsync cfg req acct slot (Some st) (of_nat sizeof_status_a) (Some d) k False fresh"

definition read_pending :: "s32 \<Rightarrow> addr \<Rightarrow> addr \<Rightarrow> u64 \<Rightarrow> u64 \<Rightarrow> addr \<Rightarrow> PendingTusRequest" where
  "read_pending uid st d k off fresh =
     (status_pending (status_a (Some st)) 1 (Some fresh))\<lparr>qt_status_cap := of_nat sizeof_status_a, qt_data_out := Some d,
        qt_data_cap := k, qt_data_offset := off, qt_cmd := CmdTusGetData, qt_user_id := uid\<rparr>"

lemma read_step:
  assumes live: "ResolveTus req n h = Inr (q, svc, uid, self)" and slot: "0 \<le> slot"
    and client: "map_of (hn_clients h) uid = Some client" and com: "IsValidNpCommId (GetNpCommId cfg (to_s32 (uint svc)))"
    and none: "hn_pending_tus h = []"
    and piece: "next_piece slot (to_s64 (uint acct)) [] True k (tr_xfer q) = (off, x)"
  shows "\<exists>pkt h1. read_call cfg req acct slot st d k fresh n h =
      Returned (ORBIS_OK, n\<lparr>nt_requests := omap_put req (q\<lparr>tr_ctx := Some fresh, tr_xfer := x\<rparr>) (nt_requests n)\<rparr>, h1) \<and>
    hn_pending_tus h1 = [(pkt, read_pending uid st d k off fresh)] \<and> hn_np_ids h1 = hn_np_ids h \<and> hn_mem h1 = hn_mem h \<and>
    map_of (hn_clients h1) uid \<noteq> None \<and> hn_tus_ctxs h1 fresh = Some new_tus_ctx"
  using assms
  by (simp add: read_call_def sceNpTusGetDataAAsync_def tus_call_def first_error.simps check_def piece_of_def TusGetData_def
      tus_request_def tus_send_def send_request_def SubmitRequest_def tus_register_def put_tus_ctx_def omap_emplace_def
      map_of_omap_put read_pending_def sizeof_status_a_def Let_def)

text \<open>What a reply with the data puts into the buffer.\<close>

lemma read_reply:
  assumes pend: "hn_pending_tus h = [(pkt, read_pending uid st d k off fresh)]" and ctx: "hn_tus_ctxs h fresh = Some new_tus_ctx"
    and reply: "parse_tus_body (hc_pb_tus_data cfg) body = Some (status, blob)" and small: "length blob < 2 ^ 31"
    and room: "gm_buf (hn_mem h) d = Some buf" "unat k \<le> length buf" "holds 1 (gm_status_a (hn_mem h)) (Some st)"
  defines "page \<equiv> take (unat k) (drop (unat off) blob)"
  shows "\<exists>h2. OnTusReply cfg uid CmdTusGetData pkt NoError body h = Returned h2 \<and> hn_pending_tus h2 = [] \<and>
    tus_result fresh h2 = Some (int (length page)) \<and> gm_buf (hn_mem h2) d = Some (page @ drop (length page) buf) \<and>
    holds 1 (gm_status_a (hn_mem h2)) (Some st) \<and> hn_np_ids h2 = hn_np_ids h \<and> hn_clients h2 = hn_clients h"
proof -
  let ?p = "read_pending uid st d k off fresh"
  let ?m = "(hn_mem h)\<lparr>gm_buf := (gm_buf (hn_mem h))(d \<mapsto> page @ drop (length page) buf)\<rparr>"
  have p [simp]: "qt_data_out ?p = Some d" "qt_data_cap ?p = k" "qt_data_offset ?p = off" "qt_status_array_a ?p = Some st"
    "qt_req ?p = Some fresh"
    by (simp_all add: read_pending_def status_pending_def status_a_def new_tus_pending_def)
  have len: "length page \<le> length buf" using room(2) by (simp add: page_def)
  have copied: "(if unat off < length blob then copy_out (Some d) (take (min (unat k) (length blob - unat off)) (drop (unat off) blob))
      (hn_mem h) else Returned (hn_mem h)) = Returned ?m"
    using room len by (auto simp: copy_out_def page_def min_def fun_upd_idem)
  have recv: "(if unat off < length blob then min (unat k) (length blob - unat off) else 0) = length page"
    by (auto simp: page_def)
  have r: "to_s32 (int (length page)) = int (length page)" using small by (intro to_s32_id) (auto simp: page_def)
  obtain x xs where st: "gm_status_a (hn_mem h) st = Some (x # xs)"
    using room(3) by (auto simp: holds_def Suc_le_eq length_greater_0_conv neq_Nil_conv split: option.splits)
  obtain s where written: "write_status ?p status (length page) ?m = Returned (?m\<lparr>gm_status_a := (gm_status_a ?m)(st \<mapsto> s # xs)\<rparr>)"
    using st by (simp add: write_status_def write_at_def)
  have success: "tus_success cfg CmdTusGetData ?p body (hn_mem h) =
      Returned ([int (length page)], ?m\<lparr>gm_status_a := (gm_status_a ?m)(st \<mapsto> s # xs)\<rparr>)"
  proof (cases "unat off < length blob")
    case True
    then show ?thesis using copied written recv r by (simp add: tus_success_def tus_data_reply_def reply Let_def)
  next
    case False
    then show ?thesis using copied written recv r by (simp add: tus_success_def tus_data_reply_def reply Let_def)
  qed
  show ?thesis
    using pend ctx success
    by (simp add: OnTusReply_def finish_tus_def omap_erase_def tus_set_def at_addr_def TusSetResult_def new_tus_ctx_def
        tus_result_def holds_def Let_def)
qed

text \<open>
  Reading on: each read, of \<open>k\<close> bytes to \<open>d\<close> with the context \<open>a\<close>, is followed by the reply of the server, and
  the game takes as many bytes from the buffer as the result says.
\<close>

fun read_pieces ::
  "HandlerConfig \<Rightarrow> s32 \<Rightarrow> u64 \<Rightarrow> s32 \<Rightarrow> addr \<Rightarrow> s32 \<Rightarrow> bytes \<Rightarrow> (addr \<times> u64 \<times> addr) list \<Rightarrow> NpTus \<Rightarrow> NpHandler \<Rightarrow> bytes list option" where
  "read_pieces cfg req acct slot st uid body [] n h = Some []"
| "read_pieces cfg req acct slot st uid body ((d, k, a) # rs) n h =
     (case read_call cfg req acct slot st d k a n h of
        Returned (r, n1, h1) \<Rightarrow>
          (case hn_pending_tus h1 of
             [(pkt, p)] \<Rightarrow>
               (case OnTusReply cfg uid CmdTusGetData pkt NoError body h1 of
                  Returned h2 \<Rightarrow>
                    (case (tus_result a h2, gm_buf (hn_mem h2) d) of
                       (Some res, Some buf) \<Rightarrow>
                         map_option ((#) (take (nat res) buf)) (read_pieces cfg req acct slot st uid body rs n1 h2)
                     | _ \<Rightarrow> None)
                | _ \<Rightarrow> None)
           | _ \<Rightarrow> None)
      | _ \<Rightarrow> None)"

definition reads_size :: "(addr \<times> u64 \<times> addr) list \<Rightarrow> nat" where
  "reads_size rs = sum_list (map (\<lambda>(_, k, _). unat k) rs)"

definition buffers_fit :: "(addr \<times> u64 \<times> addr) list \<Rightarrow> GameMem \<Rightarrow> bool" where
  "buffers_fit rs m \<longleftrightarrow> (\<forall>(d, k, _) \<in> set rs. \<exists>buf. gm_buf m d = Some buf \<and> unat k \<le> length buf)"

lemma keeps_room_buffers:
  assumes "keeps_room m m'" and "buffers_fit rs m"
  shows "buffers_fit rs m'"
  unfolding buffers_fit_def
proof clarify
  fix d k a assume "(d, k, a) \<in> set rs"
  then have "holds (unat k) (gm_buf m) (Some d)" using assms(2) by (auto simp: buffers_fit_def holds_def)
  then have "holds (unat k) (gm_buf m') (Some d)" using assms(1) by (auto simp: keeps_room_def intro: growsD)
  then show "\<exists>buf. gm_buf m' d = Some buf \<and> unat k \<le> length buf" by (auto simp: holds_def split: option.splits)
qed

text \<open>Before the first read, and when \<open>off\<close> bytes have been asked for.\<close>

definition reads_from :: "s32 \<Rightarrow> s64 \<Rightarrow> nat \<Rightarrow> NpTusDataXfer \<Rightarrow> bool" where
  "reads_from slot account off x \<longleftrightarrow>
     (if SameTarget slot account [] x then xf_recv_offset x = of_nat off else off = 0)"

lemma next_piece_from:
  assumes "reads_from slot account off x" and "off + unat k < 2 ^ 64"
  obtains x' where "next_piece slot account [] True k x = (of_nat off, x')" and "reads_from slot account (off + unat k) x'"
  using assms by (auto simp: next_piece_def reads_from_def Let_def SameTarget_def BeginXfer_def no_xfer_def)

lemma take_page: "take (min (length xs - off) k) (drop off xs) = take k (drop off xs)"
  by (simp add: min_def)

lemma reads_go_on:
  assumes "ResolveTus req n h = Inr (q, svc, uid, self)" and "reads_from slot (to_s64 (uint acct)) off (tr_xfer q)"
    and "0 \<le> slot" and "map_of (hn_clients h) uid \<noteq> None" and "IsValidNpCommId (GetNpCommId cfg (to_s32 (uint svc)))"
    and "hn_pending_tus h = []" and "parse_tus_body (hc_pb_tus_data cfg) body = Some (status, blob)" and "length blob < 2 ^ 31"
    and "buffers_fit rs (hn_mem h)" and "holds 1 (gm_status_a (hn_mem h)) (Some st)" and "off + reads_size rs < 2 ^ 64"
  shows "\<exists>ps. read_pieces cfg req acct slot st uid body rs n h = Some ps \<and> concat ps = take (reads_size rs) (drop off blob)"
  using assms
proof (induction rs arbitrary: n h q off)
  case (Cons a rs)
  obtain d k fresh where a: "a = (d, k, fresh)" by (cases a)
  have size: "off + unat k < 2 ^ 64" "(off + unat k) + reads_size rs < 2 ^ 64" and off: "off < 2 ^ 64"
    using Cons.prems(11) a by (simp_all add: reads_size_def)
  obtain x where x: "next_piece slot (to_s64 (uint acct)) [] True k (tr_xfer q) = (of_nat off, x)"
    "reads_from slot (to_s64 (uint acct)) (off + unat k) x"
    using next_piece_from [OF Cons.prems(2) size(1)] by blast
  obtain client where client: "map_of (hn_clients h) uid = Some client" using Cons.prems(4) by auto
  let ?q = "q\<lparr>tr_ctx := Some fresh, tr_xfer := x\<rparr>"
  let ?n = "n\<lparr>nt_requests := omap_put req ?q (nt_requests n)\<rparr>"
  obtain pkt and h1 :: NpHandler where h1: "read_call cfg req acct slot st d k fresh n h = Returned (ORBIS_OK, ?n, h1)"
    "hn_pending_tus h1 = [(pkt, read_pending uid st d k (of_nat off) fresh)]" "hn_np_ids h1 = hn_np_ids h" "hn_mem h1 = hn_mem h"
    "map_of (hn_clients h1) uid \<noteq> None" "hn_tus_ctxs h1 fresh = Some new_tus_ctx"
    using read_step [OF Cons.prems(1,3) client Cons.prems(5,6) x(1)] by blast
  obtain buf where buf: "gm_buf (hn_mem h1) d = Some buf" "unat k \<le> length buf"
    using Cons.prems(9) a h1(4) by (auto simp: buffers_fit_def)
  have u: "unat (of_nat off :: u64) = off" using off by (subst unsigned_of_nat, subst take_bit_nat_eq_self) simp_all
  let ?page = "take (unat k) (drop off blob)"
  obtain h2 :: NpHandler where h2: "OnTusReply cfg uid CmdTusGetData pkt NoError body h1 = Returned h2" "hn_pending_tus h2 = []"
    "tus_result fresh h2 = Some (int (length ?page))" "gm_buf (hn_mem h2) d = Some (?page @ drop (length ?page) buf)"
    "holds 1 (gm_status_a (hn_mem h2)) (Some st)" "hn_np_ids h2 = hn_np_ids h1" "hn_clients h2 = hn_clients h1"
    using read_reply [OF h1(2,6) Cons.prems(7,8) buf] Cons.prems(10) h1(4) u by auto
  have room: "keeps_room (hn_mem h) (hn_mem h2)" using OnTusReply_outside [OF h2(1)] h1(4) by simp
  have fit: "buffers_fit rs (hn_mem h2)"
    using Cons.prems(9) by (intro keeps_room_buffers [OF room]) (simp add: buffers_fit_def)
  have live: "ResolveTus req ?n h2 = Inr (?q, svc, uid, self)"
    by (rule ResolveTus_put [OF Cons.prems(1)]) (simp_all add: h1(3) h2(6))
  have "\<exists>ps. read_pieces cfg req acct slot st uid body rs ?n h2 = Some ps \<and>
      concat ps = take (reads_size rs) (drop (off + unat k) blob)"
    by (rule Cons.IH [OF live _ Cons.prems(3) _ Cons.prems(5) h2(2) Cons.prems(7,8) fit h2(5) size(2)])
      (use x(2) h1(5) h2(7) in simp_all)
  then obtain ps where ps: "read_pieces cfg req acct slot st uid body rs ?n h2 = Some ps"
    "concat ps = take (reads_size rs) (drop (off + unat k) blob)" by blast
  then show ?case
    using h2(1) by (simp add: a h1 h2 reads_size_def take_add add.commute take_page)
qed (simp add: reads_size_def)

text \<open>
  Claim C27. Reading data in pieces gives the data in order: when a request starts to read a slot, and each
  read of the size the game chooses has been answered with the data of the slot, what the reads put
  into their buffers is, one after the other, the beginning of the data, as long as the reads
  together.
\<close>
theorem reads_in_pieces:
  assumes "ResolveTus req n h = Inr (q, svc, uid, self)" and "\<not> SameTarget slot (to_s64 (uint acct)) [] (tr_xfer q)"
    and "0 \<le> slot" and "map_of (hn_clients h) uid \<noteq> None" and "IsValidNpCommId (GetNpCommId cfg (to_s32 (uint svc)))"
    and "hn_pending_tus h = []" and "parse_tus_body (hc_pb_tus_data cfg) body = Some (status, blob)" and "length blob < 2 ^ 31"
    and "buffers_fit rs (hn_mem h)" and "holds 1 (gm_status_a (hn_mem h)) (Some st)" and "reads_size rs < 2 ^ 64"
  shows "\<exists>ps. read_pieces cfg req acct slot st uid body rs n h = Some ps \<and> concat ps = take (reads_size rs) blob"
  using reads_go_on [OF assms(1) _ assms(3-10), of acct 0] assms(2,11) by (simp add: reads_from_def)

section \<open>Reading and then writing with one request\<close>

text \<open>
  Claim C28. A request that has read from a slot and is then used to write to it in pieces sends the first
  piece as if it were the whole: the transfer of the read is taken for one of an upload, whose size
  is zero. The information is lost with it.
\<close>
theorem upload_after_read_truncated:
  assumes "ResolveTus req n h = Inr (q, svc, uid, self)" and "\<not> SameTarget slot (to_s64 (uint acct)) [] (tr_xfer q)"
    and "0 \<le> slot" and "map_of (hn_clients h) uid = Some client" and "IsValidNpCommId (GetNpCommId cfg (to_s32 (uint svc)))"
    and "hn_pending_tus h = []" and "piece \<noteq> []" and "length piece < unat tot"
  shows "\<exists>n1 h1. read_call cfg req acct slot st d k fresh n h = Returned (ORBIS_OK, n1, h1) \<and>
    upload_call cfg req acct slot tot isz auth date piece info fresh' n1 h1 =
      complete_upload cfg req acct slot auth date piece [] fresh' q svc uid n h1"
proof -
  let ?x = "(BeginXfer slot (to_s64 (uint acct)) [])\<lparr>xf_recv_offset := k\<rparr>"
  have next_x: "next_piece slot (to_s64 (uint acct)) [] True k (tr_xfer q) = (0, ?x)"
    using assms(2) by (simp add: next_piece_def BeginXfer_def no_xfer_def Let_def)
  let ?q = "q\<lparr>tr_ctx := Some fresh, tr_xfer := ?x\<rparr>"
  let ?n = "n\<lparr>nt_requests := omap_put req ?q (nt_requests n)\<rparr>"
  obtain h1 :: NpHandler where h1: "read_call cfg req acct slot st d k fresh n h = Returned (ORBIS_OK, ?n, h1)"
    "hn_np_ids h1 = hn_np_ids h"
    using read_step [OF assms(1,3-6) next_x] by blast
  have live: "ResolveTus req ?n h1 = Inr (?q, svc, uid, self)"
    by (rule ResolveTus_put [OF assms(1)]) (simp_all add: h1(2))
  have len: "length piece \<le> unat tot" using assms(8) by simp
  have "add_piece slot (to_s64 (uint acct)) (\<lambda>_. []) tot (of_nat (length piece)) (Some piece) info isz self (tr_xfer ?q) =
      Returned (Some (piece, []), no_xfer)"
    using unat_length [OF len] by (simp add: add_piece_def SameTarget_def BeginXfer_def no_xfer_def read_n_def Let_def)
  from upload_step [OF live assms(3,7) len this, of cfg auth date fresh']
  have "upload_call cfg req acct slot tot isz auth date piece info fresh' ?n h1 =
      complete_upload cfg req acct slot auth date piece [] fresh' q svc uid n h1"
    by (simp add: omap_put_twice complete_upload_def split: prod.split)
  with h1(1) show ?thesis by blast
qed

section \<open>Witnesses\<close>

lemma demo_resolves:
  "ResolveTus 1 demo_storage demo_storage_handler =
     Inr (\<lparr>tr_title_ctx_id = 1, tr_ctx = None, tr_xfer = no_xfer\<rparr>, 0, 1, np_id_string zero_np_id)"
  by (simp add: ResolveTus_def demo_storage_def sceNpTusCreateRequest_def sceNpTusCreateNpTitleCtx_def init_tus_def
      ORBIS_NP_INVALID_SERVICE_LABEL_def omap_emplace_def GetUserIdByOnlineId_def demo_storage_handler_def init_handler_def
      strn_equal_def)

theorem upload_in_pieces_witness:
  "send_pieces demo_cfg 1 7 0 3 0 None None [([1, 2], None, 5), ([3], None, 6)] demo_storage demo_storage_handler =
     ends 1 (upload_call demo_cfg 1 7 0 3 0 None None [1, 2, 3] None 6 demo_storage
       (put_tus_ctx 5 \<lparr>tc_result = Some ORBIS_OK\<rparr> demo_storage_handler))"
  using upload_in_pieces [OF demo_resolves, of 0 7 "[1, 2]" None 5 "[([3], None, 6)]" 3 demo_cfg 0 None None]
  by (simp add: SameTarget_def no_xfer_def pieces_of_def accepted_def)

text \<open>A buffer of three bytes at 5 and a status at 6; the server has the data 1, 2, 3.\<close>

definition demo_data_status :: PbTusDataStatus where
  "demo_data_status = \<lparr>py_ownernpid = [], py_set = True, py_lastchangeddate = 0, py_lastchangedauthornpid = [], py_datasize = 3,
     py_info = [], py_owneraccountid = 0, py_lastchangedauthoraccountid = 0\<rparr>"

definition demo_data_cfg :: HandlerConfig where
  "demo_data_cfg = demo_cfg\<lparr>hc_pb_tus_data := (\<lambda>b. Some (demo_data_status, b))\<rparr>"

definition demo_reader :: NpHandler where
  "demo_reader = demo_storage_handler\<lparr>hn_mem := empty_mem\<lparr>gm_buf := [5 \<mapsto> [0, 0, 0]],
     gm_status_a := [6 \<mapsto> [Whole (fill_status_a demo_data_status)]]\<rparr>\<rparr>"

lemma demo_reader_simps [simp]:
  "hn_clients demo_reader = [(1, new_client\<lparr>cl_pkt_counter := 7\<rparr>)]" "hn_pending_tus demo_reader = []"
  "gm_buf (hn_mem demo_reader) = [5 \<mapsto> [0, 0, 0]]" "holds 1 (gm_status_a (hn_mem demo_reader)) (Some 6)"
  "ResolveTus 1 demo_storage demo_reader =
     Inr (\<lparr>tr_title_ctx_id = 1, tr_ctx = None, tr_xfer = no_xfer\<rparr>, 0, 1, np_id_string zero_np_id)"
proof -
  show "hn_clients demo_reader = [(1, new_client\<lparr>cl_pkt_counter := 7\<rparr>)]" "hn_pending_tus demo_reader = []"
    "gm_buf (hn_mem demo_reader) = [5 \<mapsto> [0, 0, 0]]" "holds 1 (gm_status_a (hn_mem demo_reader)) (Some 6)"
    by (simp_all add: demo_reader_def demo_storage_handler_def init_handler_def holds_def)
  show "ResolveTus 1 demo_storage demo_reader =
     Inr (\<lparr>tr_title_ctx_id = 1, tr_ctx = None, tr_xfer = no_xfer\<rparr>, 0, 1, np_id_string zero_np_id)"
    using demo_resolves by (simp add: demo_reader_def ResolveTus_def GetUserIdByOnlineId_def cong: option.case_cong)
qed

lemma demo_com [simp]: "IsValidNpCommId (GetNpCommId demo_data_cfg l)" "IsValidNpCommId (GetNpCommId demo_cfg l)"
  by (auto simp: IsValidNpCommId_def GetNpCommId_def demo_data_cfg_def demo_cfg_def)

theorem reads_in_pieces_witness:
  "\<exists>ps. read_pieces demo_data_cfg 1 7 0 6 1 [3, 0, 0, 0, 1, 2, 3] [(5, 2, 8), (5, 2, 9)] demo_storage demo_reader = Some ps \<and>
     concat ps = [1, 2, 3]"
proof -
  have "parse_tus_body (hc_pb_tus_data demo_data_cfg) [3, 0, 0, 0, 1, 2, 3] = Some (demo_data_status, [1, 2, 3])"
    by (simp add: parse_tus_body_def demo_data_cfg_def reply_blob_def GetLE32_def mem_slice_def Let_def)
  from reads_in_pieces [OF demo_reader_simps(5) _ _ _ _ _ this, of 0 7 "[(5, 2, 8), (5, 2, 9)]" 6] show ?thesis
    by (simp add: SameTarget_def no_xfer_def buffers_fit_def reads_size_def del: read_pieces.simps One_nat_def)
qed

theorem upload_after_read_truncated_witness:
  "\<exists>n1 (h1 :: NpHandler). read_call demo_cfg 1 7 0 6 5 2 8 demo_storage demo_reader = Returned (ORBIS_OK, n1, h1) \<and>
     upload_call demo_cfg 1 7 0 3 0 None None [1, 2] None 9 n1 h1 =
       complete_upload demo_cfg 1 7 0 None None [1, 2] [] 9
         \<lparr>tr_title_ctx_id = 1, tr_ctx = None, tr_xfer = no_xfer\<rparr> 0 1 demo_storage h1"
  by (rule upload_after_read_truncated [OF demo_reader_simps(5)]) (simp_all add: SameTarget_def no_xfer_def)

end
