(* ===== verification/WebApiState.thy ===== *)
theory WebApiState
  imports NpHandler
begin

text \<open>
  The web API library (np_web_api_internal.cpp): its objects, the reference counts and locks that its
  functions take and release, and the handles. Library contexts, user contexts and requests are stored
  under ids that contain the id of what they belong to. The console's HTTP library is not part of the
  program: it is the parameter \<open>HttpLib\<close>, functions over a state of their own that is kept in the
  state of the library. The process time is an argument.
\<close>

section \<open>The HTTP library of the console\<close>

text \<open>
  Templates, connections and requests are ids, negative for an error. A read gives an error or the
  bytes it has written; the headers are one block or none.
\<close>

record 'w HttpLib =
  hl_create_template :: "s32 \<Rightarrow> 'w \<Rightarrow> s32 \<times> 'w"
  hl_create_connection :: "s32 \<Rightarrow> bytes \<Rightarrow> 'w \<Rightarrow> s32 \<times> 'w"
  hl_create_request :: "s32 \<Rightarrow> s32 \<Rightarrow> bytes \<Rightarrow> u64 \<Rightarrow> 'w \<Rightarrow> s32 \<times> 'w"
  hl_add_header :: "s32 \<Rightarrow> bytes \<Rightarrow> bytes \<Rightarrow> 'w \<Rightarrow> 'w"
  hl_send :: "s32 \<Rightarrow> bytes option \<Rightarrow> u64 \<Rightarrow> 'w \<Rightarrow> s32 \<times> 'w"
  hl_status :: "s32 \<Rightarrow> 'w \<Rightarrow> s32 \<times> s32 option"
  hl_read :: "s32 \<Rightarrow> nat \<Rightarrow> 'w \<Rightarrow> (s32 + bytes) \<times> 'w"
  hl_headers :: "s32 \<Rightarrow> 'w \<Rightarrow> s32 \<times> bytes option"
  hl_abort :: "s32 \<Rightarrow> 'w \<Rightarrow> 'w"
  hl_delete_request :: "s32 \<Rightarrow> 'w \<Rightarrow> 'w"
  hl_delete_connection :: "s32 \<Rightarrow> 'w \<Rightarrow> 'w"
  hl_delete_template :: "s32 \<Rightarrow> 'w \<Rightarrow> 'w"

section \<open>Objects\<close>

record MultipartPart =
  mp_raw_headers :: bytes
  mp_content_length :: u64
  mp_data :: bytes
  mp_sent_size :: u64

record OrbisNpWebApiRequest =
  wr_user_count :: s32
  wr_request_id :: s64
  wr_api_group :: bytes
  wr_path :: bytes
  wr_method :: s32
  wr_content_length :: u64
  wr_content_type :: bytes
  wr_headers :: "(bytes \<times> bytes) list"
  wr_multipart :: bool
  wr_multipart_content_type :: bytes
  wr_multipart_boundary :: bytes
  wr_multipart_parts :: "MultipartPart list"
  wr_aborted :: bool
  wr_sent :: bool
  wr_timeout :: u32
  wr_end_time :: u64
  wr_timed_out :: bool
  wr_state :: u8
  wr_remaining_data :: u64
  wr_read_offset :: u32
  wr_data :: bytes
  wr_http_connection_id :: s32
  wr_http_request_id :: s32
  wr_http_template_id :: s32

definition new_web_request :: OrbisNpWebApiRequest where
  "new_web_request = \<lparr>wr_user_count = 0, wr_request_id = 0, wr_api_group = [], wr_path = [], wr_method = 0,
     wr_content_length = 0, wr_content_type = [], wr_headers = [], wr_multipart = False, wr_multipart_content_type = [],
     wr_multipart_boundary = [], wr_multipart_parts = [], wr_aborted = False, wr_sent = False, wr_timeout = 0, wr_end_time = 0,
     wr_timed_out = False, wr_state = 0, wr_remaining_data = 0, wr_read_offset = 0, wr_data = replicate 64 0,
     wr_http_connection_id = 0, wr_http_request_id = 0, wr_http_template_id = 0\<rparr>"

record OrbisNpWebApiHandle =
  wh_handle_id :: s32
  wh_aborted :: bool
  wh_deleted :: bool
  wh_user_count :: s32

record OrbisNpWebApiTimerHandle =
  wt_handle_id :: s32
  wt_timeout :: u32
  wt_end_time :: u64
  wt_timed_out :: bool

text \<open>The parameters of a filter are data types, arrays of 65 characters.\<close>

record OrbisNpWebApiPushEventFilter =
  pf_filter_id :: s32
  pf_params :: "bytes list"

record OrbisNpWebApiServicePushEventFilter =
  sf_filter_id :: s32
  sf_internal :: bool
  sf_params :: "bytes list"
  sf_service_name :: bytes
  sf_service_label :: u32

record OrbisNpWebApiExtendedPushEventFilter =
  xf_filter_id :: s32
  xf_internal :: bool
  xf_params :: "bytes list"
  xf_extd_data_keys :: "bytes list list"
  xf_service_name :: bytes
  xf_service_label :: u32

text \<open>Functions of the game are addresses, none for a null pointer.\<close>

record OrbisNpWebApiRegisteredPushEventCallback =
  pc_callback_id :: s32
  pc_filter_id :: s32
  pc_cb_func :: "addr option"
  pc_user_arg :: "addr option"

record OrbisNpWebApiRegisteredServicePushEventCallback =
  sv_callback_id :: s32
  sv_filter_id :: s32
  sv_cb_func :: "addr option"
  sv_internal_cb_func :: "addr option"
  sv_internal_cb_func_a :: "addr option"
  sv_user_arg :: "addr option"

record OrbisNpWebApiRegisteredExtendedPushEventCallback =
  xc_callback_id :: s32
  xc_filter_id :: s32
  xc_cb_func :: "addr option"
  xc_cb_func_a :: "addr option"
  xc_user_arg :: "addr option"

record OrbisNpWebApiUserContext =
  wu_user_count :: s32
  wu_user_ctx_id :: s32
  wu_user_id :: s32
  wu_requests :: "(s64 \<times> OrbisNpWebApiRequest) list"
  wu_push_callbacks :: "(s32 \<times> OrbisNpWebApiRegisteredPushEventCallback) list"
  wu_service_callbacks :: "(s32 \<times> OrbisNpWebApiRegisteredServicePushEventCallback) list"
  wu_extended_callbacks :: "(s32 \<times> OrbisNpWebApiRegisteredExtendedPushEventCallback) list"
  wu_deleted :: bool
  wu_notification_callback :: "addr option"
  wu_notification_args :: "addr option"

definition new_user_context :: OrbisNpWebApiUserContext where
  "new_user_context = \<lparr>wu_user_count = 0, wu_user_ctx_id = 0, wu_user_id = 0, wu_requests = [], wu_push_callbacks = [],
     wu_service_callbacks = [], wu_extended_callbacks = [], wu_deleted = False, wu_notification_callback = None,
     wu_notification_args = None\<rparr>"

text \<open>The lock of a context is recursive: \<open>wc_lock\<close> is how often the running thread holds it.\<close>

record OrbisNpWebApiContext =
  wc_type :: s32
  wc_user_count :: s32
  wc_lib_ctx_id :: s32
  wc_lib_http_ctx_id :: s32
  wc_lock :: nat
  wc_user_contexts :: "(s32 \<times> OrbisNpWebApiUserContext) list"
  wc_handles :: "(s32 \<times> OrbisNpWebApiHandle) list"
  wc_timer_handles :: "(s32 \<times> OrbisNpWebApiTimerHandle) list"
  wc_push_filters :: "(s32 \<times> OrbisNpWebApiPushEventFilter) list"
  wc_service_filters :: "(s32 \<times> OrbisNpWebApiServicePushEventFilter) list"
  wc_extended_filters :: "(s32 \<times> OrbisNpWebApiExtendedPushEventFilter) list"
  wc_name :: bytes
  wc_terminated :: bool

definition new_lib_context :: OrbisNpWebApiContext where
  "new_lib_context = \<lparr>wc_type = 0, wc_user_count = 0, wc_lib_ctx_id = 0, wc_lib_http_ctx_id = 0, wc_lock = 0,
     wc_user_contexts = [], wc_handles = [], wc_timer_handles = [], wc_push_filters = [], wc_service_filters = [],
     wc_extended_filters = [], wc_name = [], wc_terminated = False\<rparr>"

record 'w WebApi =
  wa_contexts :: "(s32 \<times> OrbisNpWebApiContext) list"
  wa_library_context_count :: s32
  wa_user_context_count :: s32
  wa_handle_count :: s32
  wa_push_filter_count :: s32
  wa_service_filter_count :: s32
  wa_extended_filter_count :: s32
  wa_callback_count :: s32
  wa_request_count :: s64
  wa_last_timeout_check :: u64
  wa_sdk_ver :: s32
  wa_last_error :: s32
  wa_push_queue :: "PushEventInput list"
  wa_is_initialized :: bool
  wa_active_library_contexts :: s32
  wa_http :: 'w

definition init_web_api :: "'w \<Rightarrow> 'w WebApi" where
  "init_web_api w = \<lparr>wa_contexts = [], wa_library_context_count = 0, wa_user_context_count = 0, wa_handle_count = 0,
     wa_push_filter_count = 0, wa_service_filter_count = 0, wa_extended_filter_count = 0, wa_callback_count = 0,
     wa_request_count = 0, wa_last_timeout_check = 0, wa_sdk_ver = 0, wa_last_error = 0, wa_push_queue = [],
     wa_is_initialized = False, wa_active_library_contexts = 0, wa_http = w\<rparr>"

text \<open>An operation answers and changes the state; one that may sleep answers nothing while it does.\<close>

type_synonym 'w web_op = "'w WebApi \<Rightarrow> s32 \<times> 'w WebApi"
type_synonym 'w web_wait = "'w WebApi \<Rightarrow> s32 option \<times> 'w WebApi"

section \<open>Changing an object in place\<close>

definition alter :: "'k \<Rightarrow> ('v \<Rightarrow> 'v) \<Rightarrow> ('k \<times> 'v) list \<Rightarrow> ('k \<times> 'v) list" where
  "alter k f m = map (\<lambda>(k', v). (k', if k' = k then f v else v)) m"

definition upd_context :: "s32 \<Rightarrow> (OrbisNpWebApiContext \<Rightarrow> OrbisNpWebApiContext) \<Rightarrow> 'w WebApi \<Rightarrow> 'w WebApi" where
  "upd_context c f s = s\<lparr>wa_contexts := alter c f (wa_contexts s)\<rparr>"

definition upd_user :: "s32 \<Rightarrow> s32 \<Rightarrow> (OrbisNpWebApiUserContext \<Rightarrow> OrbisNpWebApiUserContext) \<Rightarrow> 'w WebApi \<Rightarrow> 'w WebApi" where
  "upd_user c u f = upd_context c (\<lambda>x. x\<lparr>wc_user_contexts := alter u f (wc_user_contexts x)\<rparr>)"

definition upd_request ::
  "s32 \<Rightarrow> s32 \<Rightarrow> s64 \<Rightarrow> (OrbisNpWebApiRequest \<Rightarrow> OrbisNpWebApiRequest) \<Rightarrow> 'w WebApi \<Rightarrow> 'w WebApi" where
  "upd_request c u r f = upd_user c u (\<lambda>x. x\<lparr>wu_requests := alter r f (wu_requests x)\<rparr>)"

definition upd_handle :: "s32 \<Rightarrow> s32 \<Rightarrow> (OrbisNpWebApiHandle \<Rightarrow> OrbisNpWebApiHandle) \<Rightarrow> 'w WebApi \<Rightarrow> 'w WebApi" where
  "upd_handle c i f = upd_context c (\<lambda>x. x\<lparr>wc_handles := alter i f (wc_handles x)\<rparr>)"

definition context_at :: "s32 \<Rightarrow> 'w WebApi \<Rightarrow> OrbisNpWebApiContext option" where
  "context_at c s = map_of (wa_contexts s) c"

definition user_at :: "s32 \<Rightarrow> s32 \<Rightarrow> 'w WebApi \<Rightarrow> OrbisNpWebApiUserContext option" where
  "user_at c u s = Option.bind (context_at c s) (\<lambda>x. map_of (wc_user_contexts x) u)"

definition request_at :: "s32 \<Rightarrow> s32 \<Rightarrow> s64 \<Rightarrow> 'w WebApi \<Rightarrow> OrbisNpWebApiRequest option" where
  "request_at c u r s = Option.bind (user_at c u s) (\<lambda>x. map_of (wu_requests x) r)"

section \<open>Errors\<close>

definition ORBIS_NP_WEBAPI_ERROR_INVALID_ARGUMENT :: s32 where
  [simp]: "ORBIS_NP_WEBAPI_ERROR_INVALID_ARGUMENT = 0x80552902 - 2 ^ 32"
definition ORBIS_NP_WEBAPI_ERROR_INVALID_LIB_CONTEXT_ID :: s32 where
  [simp]: "ORBIS_NP_WEBAPI_ERROR_INVALID_LIB_CONTEXT_ID = 0x80552903 - 2 ^ 32"
definition ORBIS_NP_WEBAPI_ERROR_LIB_CONTEXT_NOT_FOUND :: s32 where
  [simp]: "ORBIS_NP_WEBAPI_ERROR_LIB_CONTEXT_NOT_FOUND = 0x80552904 - 2 ^ 32"
definition ORBIS_NP_WEBAPI_ERROR_USER_CONTEXT_NOT_FOUND :: s32 where
  [simp]: "ORBIS_NP_WEBAPI_ERROR_USER_CONTEXT_NOT_FOUND = 0x80552905 - 2 ^ 32"
definition ORBIS_NP_WEBAPI_ERROR_REQUEST_NOT_FOUND :: s32 where
  [simp]: "ORBIS_NP_WEBAPI_ERROR_REQUEST_NOT_FOUND = 0x80552906 - 2 ^ 32"
definition ORBIS_NP_WEBAPI_ERROR_NOT_SIGNED_IN :: s32 where
  [simp]: "ORBIS_NP_WEBAPI_ERROR_NOT_SIGNED_IN = 0x80552907 - 2 ^ 32"
definition ORBIS_NP_WEBAPI_ERROR_INVALID_CONTENT_PARAMETER :: s32 where
  [simp]: "ORBIS_NP_WEBAPI_ERROR_INVALID_CONTENT_PARAMETER = 0x80552908 - 2 ^ 32"
definition ORBIS_NP_WEBAPI_ERROR_ABORTED :: s32 where
  [simp]: "ORBIS_NP_WEBAPI_ERROR_ABORTED = 0x80552909 - 2 ^ 32"
definition ORBIS_NP_WEBAPI_ERROR_USER_CONTEXT_ALREADY_EXIST :: s32 where
  [simp]: "ORBIS_NP_WEBAPI_ERROR_USER_CONTEXT_ALREADY_EXIST = 0x8055290A - 2 ^ 32"
definition ORBIS_NP_WEBAPI_ERROR_PUSH_EVENT_FILTER_NOT_FOUND :: s32 where
  [simp]: "ORBIS_NP_WEBAPI_ERROR_PUSH_EVENT_FILTER_NOT_FOUND = 0x8055290B - 2 ^ 32"
definition ORBIS_NP_WEBAPI_ERROR_PUSH_EVENT_CALLBACK_NOT_FOUND :: s32 where
  [simp]: "ORBIS_NP_WEBAPI_ERROR_PUSH_EVENT_CALLBACK_NOT_FOUND = 0x8055290C - 2 ^ 32"
definition ORBIS_NP_WEBAPI_ERROR_HANDLE_NOT_FOUND :: s32 where
  [simp]: "ORBIS_NP_WEBAPI_ERROR_HANDLE_NOT_FOUND = 0x8055290D - 2 ^ 32"
definition ORBIS_NP_WEBAPI_ERROR_SERVICE_PUSH_EVENT_FILTER_NOT_FOUND :: s32 where
  [simp]: "ORBIS_NP_WEBAPI_ERROR_SERVICE_PUSH_EVENT_FILTER_NOT_FOUND = 0x8055290E - 2 ^ 32"
definition ORBIS_NP_WEBAPI_ERROR_SERVICE_PUSH_EVENT_CALLBACK_NOT_FOUND :: s32 where
  [simp]: "ORBIS_NP_WEBAPI_ERROR_SERVICE_PUSH_EVENT_CALLBACK_NOT_FOUND = 0x8055290F - 2 ^ 32"
definition ORBIS_NP_WEBAPI_ERROR_SIGNED_IN_USER_NOT_FOUND :: s32 where
  [simp]: "ORBIS_NP_WEBAPI_ERROR_SIGNED_IN_USER_NOT_FOUND = 0x80552910 - 2 ^ 32"
definition ORBIS_NP_WEBAPI_ERROR_LIB_CONTEXT_BUSY :: s32 where
  [simp]: "ORBIS_NP_WEBAPI_ERROR_LIB_CONTEXT_BUSY = 0x80552911 - 2 ^ 32"
definition ORBIS_NP_WEBAPI_ERROR_USER_CONTEXT_BUSY :: s32 where
  [simp]: "ORBIS_NP_WEBAPI_ERROR_USER_CONTEXT_BUSY = 0x80552912 - 2 ^ 32"
definition ORBIS_NP_WEBAPI_ERROR_REQUEST_BUSY :: s32 where
  [simp]: "ORBIS_NP_WEBAPI_ERROR_REQUEST_BUSY = 0x80552913 - 2 ^ 32"
definition ORBIS_NP_WEBAPI_ERROR_HANDLE_BUSY :: s32 where
  [simp]: "ORBIS_NP_WEBAPI_ERROR_HANDLE_BUSY = 0x80552919 - 2 ^ 32"
definition ORBIS_NP_WEBAPI_ERROR_LIB_CONTEXT_MAX :: s32 where
  [simp]: "ORBIS_NP_WEBAPI_ERROR_LIB_CONTEXT_MAX = 0x8055291A - 2 ^ 32"
definition ORBIS_NP_WEBAPI_ERROR_USER_CONTEXT_MAX :: s32 where
  [simp]: "ORBIS_NP_WEBAPI_ERROR_USER_CONTEXT_MAX = 0x8055291B - 2 ^ 32"
definition ORBIS_NP_WEBAPI_ERROR_EXTD_PUSH_EVENT_FILTER_NOT_FOUND :: s32 where
  [simp]: "ORBIS_NP_WEBAPI_ERROR_EXTD_PUSH_EVENT_FILTER_NOT_FOUND = 0x8055291C - 2 ^ 32"
definition ORBIS_NP_WEBAPI_ERROR_EXTD_PUSH_EVENT_CALLBACK_NOT_FOUND :: s32 where
  [simp]: "ORBIS_NP_WEBAPI_ERROR_EXTD_PUSH_EVENT_CALLBACK_NOT_FOUND = 0x8055291D - 2 ^ 32"
definition ORBIS_NP_WEBAPI_ERROR_TIMEOUT :: s32 where
  [simp]: "ORBIS_NP_WEBAPI_ERROR_TIMEOUT = 0x8055291F - 2 ^ 32"
text \<open>The version of the SDK is compared as an unsigned number.\<close>

definition sdk_at_least :: "u32 \<Rightarrow> 'w WebApi \<Rightarrow> bool" where
  "sdk_at_least fw s \<longleftrightarrow> fw \<le> word_of_int (wa_sdk_ver s)"

definition WEB_FW_100 :: u32 where [simp]: "WEB_FW_100 = 0x1000000"
definition WEB_FW_200 :: u32 where [simp]: "WEB_FW_200 = 0x2000000"
definition WEB_FW_250 :: u32 where [simp]: "WEB_FW_250 = 0x2500000"
definition WEB_FW_300 :: u32 where [simp]: "WEB_FW_300 = 0x3000000"
definition WEB_FW_400 :: u32 where [simp]: "WEB_FW_400 = 0x4000000"

section \<open>Ids\<close>

text \<open>The ids above a user context and a request, \<open>id >> n\<close>, and their ids under these.\<close>

definition lib_of_user :: "s32 \<Rightarrow> s32" where "lib_of_user title_user_ctx_id = drop_bit 16 title_user_ctx_id"
definition lib_of_request :: "s64 \<Rightarrow> s32" where "lib_of_request request_id = to_s32 (drop_bit 48 request_id)"
definition user_of_request :: "s64 \<Rightarrow> s32" where "user_of_request request_id = to_s32 (drop_bit 32 request_id)"

text \<open>The loops that look for a free id downwards.\<close>

function free_id :: "int set \<Rightarrow> int \<Rightarrow> int" where
  "free_id taken i = (if finite taken \<and> i \<in> taken then free_id taken (i - 1) else i)"
  by pat_completeness auto

termination
proof (relation "measure (\<lambda>(taken, i). card {k \<in> taken. k \<le> i})")
  fix taken and i :: int assume taken: "finite taken \<and> i \<in> taken"
  then have "card {k \<in> taken. k \<le> i - 1} < card {k \<in> taken. k \<le> i}"
    by (intro psubset_card_mono) auto
  then show "((taken, i - 1), taken, i) \<in> measure (\<lambda>(taken, i). card {k \<in> taken. k \<le> i})" by simp
qed simp

declare free_id.simps [simp del]

section \<open>Library contexts\<close>

definition initializeLibrary :: "s32 \<times> s32 \<Rightarrow> 'w web_op" where
  "initializeLibrary answer s = (fst answer, s\<lparr>wa_sdk_ver := snd answer\<rparr>)"

definition getCompiledSdkVersion :: "'w WebApi \<Rightarrow> s32" where
  "getCompiledSdkVersion = wa_sdk_ver"

definition createLibraryContext :: "s32 \<Rightarrow> u64 \<Rightarrow> bytes option \<Rightarrow> s32 \<Rightarrow> 'w web_op" where
  "createLibraryContext lib_http_ctx_id pool_size name type s =
     (let n = wa_library_context_count s + 1;
          n1 = (if n \<ge> 0x8000 then 1 else n);
          s1 = s\<lparr>wa_library_context_count := n1\<rparr>;
          ctx_id = free_id (set (keys (wa_contexts s))) n1
      in if ctx_id \<le> 0 then (ORBIS_NP_WEBAPI_ERROR_LIB_CONTEXT_MAX, s1)
         else (ctx_id, s1\<lparr>wa_contexts := omap_put ctx_id
                (new_lib_context\<lparr>wc_lib_ctx_id := ctx_id, wc_lib_http_ctx_id := lib_http_ctx_id, wc_type := type,
                   wc_name := (case name of None \<Rightarrow> [] | Some x \<Rightarrow> x)\<rparr>) (wa_contexts s)\<rparr>))"

text \<open>A context that is found is counted as used until it is released.\<close>

definition findAndValidateContext :: "s32 \<Rightarrow> s32 \<Rightarrow> 'w WebApi \<Rightarrow> 'w WebApi option" where
  "findAndValidateContext lib_ctx_id flag s =
     (if lib_ctx_id < 1 \<or> lib_ctx_id \<ge> 0x8000 then None
      else case context_at lib_ctx_id s of
             None \<Rightarrow> None
           | Some x \<Rightarrow>
               if flag = 0 \<and> wc_terminated x then None
               else Some (upd_context lib_ctx_id (\<lambda>x. x\<lparr>wc_user_count := wc_user_count x + 1\<rparr>) s))"

definition releaseContext :: "s32 \<Rightarrow> 'w WebApi \<Rightarrow> 'w WebApi" where
  "releaseContext c = upd_context c (\<lambda>x. x\<lparr>wc_user_count := wc_user_count x - 1\<rparr>)"

definition isContextTerminated :: "s32 \<Rightarrow> 'w WebApi \<Rightarrow> bool" where
  "isContextTerminated c s = (case context_at c s of None \<Rightarrow> False | Some x \<Rightarrow> wc_terminated x)"

definition isContextBusy :: "s32 \<Rightarrow> 'w WebApi \<Rightarrow> bool" where
  "isContextBusy c s = (case context_at c s of None \<Rightarrow> False | Some x \<Rightarrow> wc_user_count x > 1)"

definition areContextHandlesBusy :: "s32 \<Rightarrow> 'w WebApi \<Rightarrow> bool" where
  "areContextHandlesBusy c s =
     (case context_at c s of None \<Rightarrow> False | Some x \<Rightarrow> (\<exists>(_, hdl) \<in> set (wc_handles x). wh_user_count hdl > 0))"

definition lockContext :: "s32 \<Rightarrow> 'w WebApi \<Rightarrow> 'w WebApi" where
  "lockContext c = upd_context c (\<lambda>x. x\<lparr>wc_lock := wc_lock x + 1\<rparr>)"

definition unlockContext :: "s32 \<Rightarrow> 'w WebApi \<Rightarrow> 'w WebApi" where
  "unlockContext c = upd_context c (\<lambda>x. x\<lparr>wc_lock := wc_lock x - 1\<rparr>)"

definition markContextAsTerminated :: "s32 \<Rightarrow> 'w WebApi \<Rightarrow> 'w WebApi" where
  "markContextAsTerminated c = upd_context c (\<lambda>x. x\<lparr>wc_terminated := True\<rparr>)"

text \<open>
  A call on a library context: it is found first and released last. Calls with output parameters answer
  a pair or a record; \<open>err\<close> makes the answer of an error.
\<close>

definition with_context_out :: "(s32 \<Rightarrow> 'r) \<Rightarrow> s32 \<Rightarrow> ('w WebApi \<Rightarrow> 'r \<times> 'w WebApi) \<Rightarrow> 'w WebApi \<Rightarrow> 'r \<times> 'w WebApi" where
  "with_context_out err c f s =
     (case findAndValidateContext c 0 s of
        None \<Rightarrow> (err ORBIS_NP_WEBAPI_ERROR_LIB_CONTEXT_NOT_FOUND, s)
      | Some s1 \<Rightarrow> (case f s1 of (r, s2) \<Rightarrow> (r, releaseContext c s2)))"

abbreviation with_context :: "s32 \<Rightarrow> 'w web_op \<Rightarrow> 'w web_op" where
  "with_context \<equiv> with_context_out (\<lambda>e. e)"

section \<open>Finding user contexts and requests\<close>

definition ORBIS_USER_SERVICE_USER_ID_INVALID :: s32 where [simp]: "ORBIS_USER_SERVICE_USER_ID_INVALID = -1"

text \<open>The first one of the user, with its count raised.\<close>

definition findUserContextByUserId :: "s32 \<Rightarrow> s32 \<Rightarrow> 'w WebApi \<Rightarrow> (s32 \<times> 'w WebApi) option" where
  "findUserContextByUserId c user_id s =
     (if user_id = ORBIS_USER_SERVICE_USER_ID_INVALID then None
      else case context_at c s of
             None \<Rightarrow> None
           | Some x \<Rightarrow>
               (case find (\<lambda>(_, uc). wu_user_id uc = user_id) (wc_user_contexts x) of
                  None \<Rightarrow> None
                | Some (u, _) \<Rightarrow> Some (u, upd_user c u (\<lambda>uc. uc\<lparr>wu_user_count := wu_user_count uc + 1\<rparr>) s)))"

definition findUserContext :: "s32 \<Rightarrow> s32 \<Rightarrow> 'w WebApi \<Rightarrow> 'w WebApi option" where
  "findUserContext c title_user_ctx_id s =
     (case user_at c title_user_ctx_id s of
        None \<Rightarrow> None
      | Some uc \<Rightarrow>
          if wu_deleted uc then None
          else Some (upd_user c title_user_ctx_id (\<lambda>uc. uc\<lparr>wu_user_count := wu_user_count uc + 1\<rparr>) s))"

definition isUserContextBusy :: "s32 \<Rightarrow> s32 \<Rightarrow> 'w WebApi \<Rightarrow> bool" where
  "isUserContextBusy c u s = (case user_at c u s of None \<Rightarrow> False | Some uc \<Rightarrow> wu_user_count uc > 1)"

text \<open>\<open>isRequestBusy\<close> looks for a second user: the caller's own count is one of them.\<close>

definition isRequestBusy :: "OrbisNpWebApiRequest \<Rightarrow> bool" where
  "isRequestBusy request \<longleftrightarrow> wr_user_count request > 1"

definition areUserContextRequestsBusy :: "s32 \<Rightarrow> s32 \<Rightarrow> 'w WebApi \<Rightarrow> bool" where
  "areUserContextRequestsBusy c u s =
     (case user_at c u s of
        None \<Rightarrow> False
      | Some uc \<Rightarrow> (\<exists>(_, request) \<in> set (wu_requests uc). isRequestBusy (request\<lparr>wr_user_count := wr_user_count request + 1\<rparr>)))"

definition releaseUserContext :: "s32 \<Rightarrow> s32 \<Rightarrow> 'w WebApi \<Rightarrow> 'w WebApi" where
  "releaseUserContext c u = upd_user c u (\<lambda>uc. uc\<lparr>wu_user_count := wu_user_count uc - 1\<rparr>)"

text \<open>A call on a user context: both contexts are found and released.\<close>

definition in_user_context ::
  "(s32 \<Rightarrow> 'r) \<Rightarrow> s32 \<Rightarrow> s32 \<Rightarrow> (s32 \<Rightarrow> s32 \<Rightarrow> 'w WebApi \<Rightarrow> 'r \<times> 'w WebApi) \<Rightarrow> 'w WebApi \<Rightarrow> 'r \<times> 'w WebApi" where
  "in_user_context err c u f = with_context_out err c (\<lambda>s.
     case findUserContext c u s of
       None \<Rightarrow> (err ORBIS_NP_WEBAPI_ERROR_USER_CONTEXT_NOT_FOUND, s)
     | Some s1 \<Rightarrow> (case f c u s1 of (r, s2) \<Rightarrow> (r, releaseUserContext c u s2)))"

definition with_user_out ::
  "(s32 \<Rightarrow> 'r) \<Rightarrow> s32 \<Rightarrow> (s32 \<Rightarrow> s32 \<Rightarrow> 'w WebApi \<Rightarrow> 'r \<times> 'w WebApi) \<Rightarrow> 'w WebApi \<Rightarrow> 'r \<times> 'w WebApi" where
  "with_user_out err u = in_user_context err (lib_of_user u) u"

abbreviation with_user :: "s32 \<Rightarrow> (s32 \<Rightarrow> s32 \<Rightarrow> 'w web_op) \<Rightarrow> 'w web_op" where
  "with_user \<equiv> with_user_out (\<lambda>e. e)"

definition findRequest :: "s32 \<Rightarrow> s32 \<Rightarrow> s64 \<Rightarrow> 'w WebApi \<Rightarrow> OrbisNpWebApiRequest option" where
  "findRequest c u r s = request_at c u r s"

definition findRequestAndMarkBusy :: "s32 \<Rightarrow> s32 \<Rightarrow> s64 \<Rightarrow> 'w WebApi \<Rightarrow> 'w WebApi option" where
  "findRequestAndMarkBusy c u r s =
     (case request_at c u r s of
        None \<Rightarrow> None
      | Some request \<Rightarrow> Some (upd_request c u r (\<lambda>q. q\<lparr>wr_user_count := wr_user_count q + 1\<rparr>) s))"

definition releaseRequest :: "s32 \<Rightarrow> s32 \<Rightarrow> s64 \<Rightarrow> 'w WebApi \<Rightarrow> 'w WebApi" where
  "releaseRequest c u r = upd_request c u r (\<lambda>q. q\<lparr>wr_user_count := wr_user_count q - 1\<rparr>)"

text \<open>
  Calls on a request find its contexts from its id. In \<open>on_request\<close> the request is only looked up, in
  \<open>with_request\<close> it is marked busy and released at the end.
\<close>

definition on_request_out ::
  "(s32 \<Rightarrow> 'r) \<Rightarrow> s64 \<Rightarrow> (s32 \<Rightarrow> s32 \<Rightarrow> OrbisNpWebApiRequest \<Rightarrow> 'w WebApi \<Rightarrow> 'r \<times> 'w WebApi) \<Rightarrow>
   'w WebApi \<Rightarrow> 'r \<times> 'w WebApi" where
  "on_request_out err r f = in_user_context err (lib_of_request r) (user_of_request r) (\<lambda>c u s.
     case findRequest c u r s of
       None \<Rightarrow> (err ORBIS_NP_WEBAPI_ERROR_REQUEST_NOT_FOUND, s)
     | Some request \<Rightarrow> f c u request s)"

definition with_request_out ::
  "(s32 \<Rightarrow> 'r) \<Rightarrow> s64 \<Rightarrow> (s32 \<Rightarrow> s32 \<Rightarrow> 'w WebApi \<Rightarrow> 'r \<times> 'w WebApi) \<Rightarrow> 'w WebApi \<Rightarrow> 'r \<times> 'w WebApi" where
  "with_request_out err r f = in_user_context err (lib_of_request r) (user_of_request r) (\<lambda>c u s.
     case findRequestAndMarkBusy c u r s of
       None \<Rightarrow> (err ORBIS_NP_WEBAPI_ERROR_REQUEST_NOT_FOUND, s)
     | Some s1 \<Rightarrow> (case f c u s1 of (res, s2) \<Rightarrow> (res, releaseRequest c u r s2)))"

abbreviation on_request :: "s64 \<Rightarrow> (s32 \<Rightarrow> s32 \<Rightarrow> OrbisNpWebApiRequest \<Rightarrow> 'w web_op) \<Rightarrow> 'w web_op" where
  "on_request \<equiv> on_request_out (\<lambda>e. e)"

abbreviation with_request :: "s64 \<Rightarrow> (s32 \<Rightarrow> s32 \<Rightarrow> 'w web_op) \<Rightarrow> 'w web_op" where
  "with_request \<equiv> with_request_out (\<lambda>e. e)"

section \<open>Handles\<close>

text \<open>The counters are compared with a constant that only a negative number reaches when read unsigned.\<close>

definition next_count :: "s32 \<Rightarrow> s32" where
  "next_count n = (let n1 = to_s32 (n + 1) in if (word_of_int n1 :: u32) \<ge> 0xf0000000 then 1 else n1)"

definition createHandleInternal :: "s32 \<Rightarrow> 'w web_op" where
  "createHandleInternal c s =
     (let i = next_count (wa_handle_count s);
          s1 = s\<lparr>wa_handle_count := i\<rparr>;
          s2 = upd_context c (\<lambda>x. x\<lparr>wc_handles := omap_put i
                 \<lparr>wh_handle_id = i, wh_aborted = False, wh_deleted = False, wh_user_count = 0\<rparr> (wc_handles x)\<rparr>) s1
      in (i, if sdk_at_least WEB_FW_300 s
             then upd_context c (\<lambda>x. x\<lparr>wc_timer_handles := omap_put i
                    \<lparr>wt_handle_id = i, wt_timeout = 0, wt_end_time = 0, wt_timed_out = False\<rparr> (wc_timer_handles x)\<rparr>) s2
             else s2))"

definition createHandle :: "s32 \<Rightarrow> 'w web_op" where
  "createHandle lib_ctx_id = with_context lib_ctx_id (createHandleInternal lib_ctx_id)"

definition setHandleTimeoutInternal :: "s32 \<Rightarrow> s32 \<Rightarrow> u32 \<Rightarrow> 'w web_op" where
  "setHandleTimeoutInternal c handle_id timeout s =
     (case context_at c s of
        None \<Rightarrow> (ORBIS_NP_WEBAPI_ERROR_HANDLE_NOT_FOUND, s)
      | Some x \<Rightarrow>
          if map_of (wc_timer_handles x) handle_id = None then (ORBIS_NP_WEBAPI_ERROR_HANDLE_NOT_FOUND, s)
          else (ORBIS_OK, upd_context c (\<lambda>x. x\<lparr>wc_timer_handles := alter handle_id (\<lambda>t. t\<lparr>wt_timeout := timeout\<rparr>)
                            (wc_timer_handles x)\<rparr>) s))"

definition setHandleTimeout :: "s32 \<Rightarrow> s32 \<Rightarrow> u32 \<Rightarrow> 'w web_op" where
  "setHandleTimeout lib_ctx_id handle_id timeout =
     with_context lib_ctx_id (setHandleTimeoutInternal lib_ctx_id handle_id timeout)"

definition startHandleTimer :: "u64 \<Rightarrow> s32 \<Rightarrow> s32 \<Rightarrow> 'w WebApi \<Rightarrow> 'w WebApi" where
  "startHandleTimer now c handle_id = upd_context c (\<lambda>x. x\<lparr>wc_timer_handles := alter handle_id
     (\<lambda>t. if wt_timeout t = 0 then t else t\<lparr>wt_end_time := now + ucast (wt_timeout t)\<rparr>) (wc_timer_handles x)\<rparr>)"

definition releaseHandle :: "s32 \<Rightarrow> s32 \<Rightarrow> 'w WebApi \<Rightarrow> 'w WebApi" where
  "releaseHandle c handle_id = upd_handle c handle_id (\<lambda>h. h\<lparr>wh_user_count := wh_user_count h - 1\<rparr>)"

definition getHandle :: "s32 \<Rightarrow> s32 \<Rightarrow> 'w web_op" where
  "getHandle c handle_id s =
     (case Option.bind (context_at c s) (\<lambda>x. map_of (wc_handles x) handle_id) of
        None \<Rightarrow> (ORBIS_NP_WEBAPI_ERROR_HANDLE_NOT_FOUND, s)
      | Some _ \<Rightarrow> (ORBIS_OK, upd_handle c handle_id (\<lambda>h. h\<lparr>wh_user_count := wh_user_count h + 1\<rparr>) s))"

definition abortHandle :: "s32 \<Rightarrow> s32 \<Rightarrow> 'w web_op" where
  "abortHandle lib_ctx_id handle_id = with_context lib_ctx_id (\<lambda>s.
     case getHandle lib_ctx_id handle_id s of
       (result, s1) \<Rightarrow>
         (result, if result = ORBIS_OK
                  then releaseHandle lib_ctx_id handle_id (upd_handle lib_ctx_id handle_id (\<lambda>h. h\<lparr>wh_aborted := True\<rparr>) s1)
                  else s1))"

text \<open>
  Waiting for the other users of a handle: the caller sleeps, without the lock, while there is one, and
  looks again later; when there is none the handle goes.
\<close>

definition erase_handle :: "s32 \<Rightarrow> s32 \<Rightarrow> 'w WebApi \<Rightarrow> 'w WebApi" where
  "erase_handle c handle_id s = unlockContext c (upd_context c (\<lambda>x. x\<lparr>wc_handles := omap_erase handle_id (wc_handles x),
     wc_timer_handles := (if sdk_at_least WEB_FW_300 s then omap_erase handle_id (wc_timer_handles x) else wc_timer_handles x)\<rparr>) s)"

definition await_handle :: "s32 \<Rightarrow> s32 \<Rightarrow> 'w web_wait" where
  "await_handle c handle_id s =
     (case Option.bind (context_at c s) (\<lambda>x. map_of (wc_handles x) handle_id) of
        None \<Rightarrow> (Some ORBIS_OK, erase_handle c handle_id s)
      | Some hdl \<Rightarrow>
          if wh_user_count hdl + 1 > 1 then (None, unlockContext c s) else (Some ORBIS_OK, erase_handle c handle_id s))"

definition deleteHandleInternal :: "s32 \<Rightarrow> s32 \<Rightarrow> 'w web_wait" where
  "deleteHandleInternal c handle_id s =
     (let s1 = lockContext c s
      in case Option.bind (context_at c s) (\<lambda>x. map_of (wc_handles x) handle_id) of
           None \<Rightarrow> (Some ORBIS_NP_WEBAPI_ERROR_HANDLE_NOT_FOUND, unlockContext c s1)
         | Some hdl \<Rightarrow>
             if sdk_at_least WEB_FW_400 s
             then (if wh_deleted hdl then (Some ORBIS_NP_WEBAPI_ERROR_HANDLE_NOT_FOUND, unlockContext c s1)
                   else let s2 = unlockContext c (upd_handle c handle_id (\<lambda>h. h\<lparr>wh_deleted := True\<rparr>) s1);
                            s3 = snd (abortHandle c handle_id s2)
                        in await_handle c handle_id (lockContext c s3))
             else if wh_user_count hdl > 0 then (Some ORBIS_NP_WEBAPI_ERROR_HANDLE_BUSY, unlockContext c s1)
             else (Some ORBIS_OK, erase_handle c handle_id s1))"

text \<open>The context is released when the operation has an answer.\<close>

definition release_after :: "s32 \<Rightarrow> s32 option \<times> 'w WebApi \<Rightarrow> s32 option \<times> 'w WebApi" where
  "release_after c x = (case x of (None, s) \<Rightarrow> (None, s) | (Some r, s) \<Rightarrow> (Some r, releaseContext c s))"

definition deleteHandle :: "s32 \<Rightarrow> s32 \<Rightarrow> 'w web_wait" where
  "deleteHandle lib_ctx_id handle_id s =
     (case findAndValidateContext lib_ctx_id 0 s of
        None \<Rightarrow> (Some ORBIS_NP_WEBAPI_ERROR_LIB_CONTEXT_NOT_FOUND, s)
      | Some s1 \<Rightarrow> release_after lib_ctx_id (deleteHandleInternal lib_ctx_id handle_id s1))"

end
