(* ===== verification/WebApiRequest.thy ===== *)
theory WebApiRequest
  imports WebApiState HandlerTus NpScoreData
begin

text \<open>
  The requests of the web API library (np_web_api_internal.cpp): creating, sending in one or several
  parts, reading the response, aborting and deleting.
\<close>

section \<open>Creating\<close>

record OrbisNpWebApiContentParameter =
  ct_content_length :: u64
  ct_content_type :: "bytes option"

text \<open>The second component is what is written to the output parameter.\<close>

definition createRequest ::
  "s32 \<Rightarrow> bytes option \<Rightarrow> bytes option \<Rightarrow> s32 \<Rightarrow> OrbisNpWebApiContentParameter option \<Rightarrow> bool \<Rightarrow>
   'w WebApi \<Rightarrow> (s32 \<times> s64 option) \<times> 'w WebApi" where
  "createRequest title_user_ctx_id api_group path method content_parameter is_multipart =
     with_user_out (\<lambda>e. (e, None)) title_user_ctx_id (\<lambda>c u s.
       case user_at c u s of
         None \<Rightarrow> ((ORBIS_NP_WEBAPI_ERROR_USER_CONTEXT_NOT_FOUND, None), s)
       | Some uc \<Rightarrow>
           if sdk_at_least WEB_FW_400 s \<and> wu_deleted uc then ((ORBIS_NP_WEBAPI_ERROR_USER_CONTEXT_NOT_FOUND, None), s)
           else
             let n = wa_request_count s + 1;
                 n1 = (if drop_bit 32 n \<noteq> 0 then 1 else n);
                 request_id = free_id (set (keys (wu_requests uc))) (push_bit 32 title_user_ctx_id OR n1);
                 request = new_web_request\<lparr>wr_request_id := request_id, wr_method := method, wr_multipart := is_multipart,
                   wr_api_group := (case api_group of None \<Rightarrow> [] | Some x \<Rightarrow> x),
                   wr_path := (case path of None \<Rightarrow> [] | Some x \<Rightarrow> x),
                   wr_content_length := (case content_parameter of None \<Rightarrow> 0 | Some p \<Rightarrow> ct_content_length p),
                   wr_content_type := (case content_parameter of None \<Rightarrow> []
                     | Some p \<Rightarrow> (case ct_content_type p of None \<Rightarrow> [] | Some x \<Rightarrow> x))\<rparr>
             in ((ORBIS_OK, Some request_id),
                 upd_user c u (\<lambda>uc. uc\<lparr>wu_requests := omap_put request_id request (wu_requests uc)\<rparr>)
                   (s\<lparr>wa_request_count := n1\<rparr>)))"

section \<open>Aborting and timeouts\<close>

definition abortRequestInternal :: "'w HttpLib \<Rightarrow> s32 \<Rightarrow> s32 \<Rightarrow> s64 \<Rightarrow> 'w web_op" where
  "abortRequestInternal lib c u r s =
     (case request_at c u r s of
        None \<Rightarrow> (ORBIS_NP_WEBAPI_ERROR_INVALID_ARGUMENT, s)
      | Some request \<Rightarrow>
          if wr_aborted request then (ORBIS_OK, s)
          else (ORBIS_OK,
            (upd_request c u r (\<lambda>q. q\<lparr>wr_aborted := True\<rparr>) s)
              \<lparr>wa_http := (if wr_http_request_id request \<noteq> 0 then hl_abort lib (wr_http_request_id request) (wa_http s)
                           else wa_http s)\<rparr>))"

definition abortRequest :: "'w HttpLib \<Rightarrow> s64 \<Rightarrow> 'w web_op" where
  "abortRequest lib r = on_request r (\<lambda>c u request. abortRequestInternal lib c u r)"

definition setRequestTimeout :: "s64 \<Rightarrow> u32 \<Rightarrow> 'w web_op" where
  "setRequestTimeout r timeout = with_request r (\<lambda>c u s. (ORBIS_OK, upd_request c u r (\<lambda>q. q\<lparr>wr_timeout := timeout\<rparr>) s))"

definition startRequestTimer :: "u64 \<Rightarrow> OrbisNpWebApiRequest \<Rightarrow> OrbisNpWebApiRequest" where
  "startRequestTimer now q =
     (if wr_timeout q \<noteq> 0 \<and> wr_end_time q = 0 then q\<lparr>wr_end_time := now + ucast (wr_timeout q)\<rparr> else q)"

definition setRequestEndTime :: "u64 \<Rightarrow> OrbisNpWebApiRequest \<Rightarrow> OrbisNpWebApiRequest" where
  "setRequestEndTime now q =
     (if wr_timeout q \<noteq> 0 \<and> wr_end_time q = 0 then q\<lparr>wr_end_time := ucast (wr_timeout q) + now\<rparr> else q)"

definition clearRequestEndTime :: "OrbisNpWebApiRequest \<Rightarrow> OrbisNpWebApiRequest" where
  "clearRequestEndTime q = q\<lparr>wr_end_time := 0\<rparr>"

definition hasRequestTimedOut :: "OrbisNpWebApiRequest \<Rightarrow> bool" where "hasRequestTimedOut = wr_timed_out"
definition isRequestAborted :: "OrbisNpWebApiRequest \<Rightarrow> bool" where "isRequestAborted = wr_aborted"

definition setRequestState :: "u8 \<Rightarrow> OrbisNpWebApiRequest \<Rightarrow> OrbisNpWebApiRequest" where
  "setRequestState st q = q\<lparr>wr_state := st\<rparr>"

text \<open>The request aborts itself through its id.\<close>

definition checkRequestTimeout :: "'w HttpLib \<Rightarrow> u64 \<Rightarrow> s32 \<Rightarrow> s32 \<Rightarrow> s64 \<Rightarrow> 'w WebApi \<Rightarrow> 'w WebApi" where
  "checkRequestTimeout lib now c u r s =
     (case request_at c u r s of
        None \<Rightarrow> s
      | Some q \<Rightarrow>
          if \<not> wr_timed_out q \<and> wr_end_time q \<noteq> 0 \<and> wr_end_time q < now
          then snd (abortRequest lib (wr_request_id q) (upd_request c u r (\<lambda>q. q\<lparr>wr_timed_out := True\<rparr>) s))
          else s)"

section \<open>Parts\<close>

definition setMultipartContentType :: "s64 \<Rightarrow> bytes option \<Rightarrow> bytes option \<Rightarrow> 'w web_op" where
  "setMultipartContentType r type_name boundary = on_request r (\<lambda>c u request s.
     (ORBIS_OK, releaseRequest c u r (upd_request c u r (\<lambda>q. q\<lparr>
        wr_multipart_content_type := (case type_name of None \<Rightarrow> [] | Some x \<Rightarrow> x),
        wr_multipart_boundary := (case boundary of None \<Rightarrow> [] | Some x \<Rightarrow> x)\<rparr>) s)))"

record OrbisNpWebApiMultipartPartParameter =
  pp_headers :: "(bytes option \<times> bytes option) list"
  pp_content_length :: u64

definition ascii :: "string \<Rightarrow> bytes" where "ascii = map (of_nat \<circ> of_char)"
definition CRLF :: bytes where "CRLF = [13, 10]"

definition is_content_length :: "bytes \<Rightarrow> bool" where
  "is_content_length name \<longleftrightarrow> map to_lower_char name = ascii ''content-length''"

definition header_line :: "bytes \<Rightarrow> bytes \<Rightarrow> bytes" where
  "header_line name v = name @ ascii '': '' @ v @ CRLF"

definition part_headers :: "OrbisNpWebApiMultipartPartParameter \<Rightarrow> bytes" where
  "part_headers p =
     concat (map (\<lambda>h. case h of
         (Some name, Some v) \<Rightarrow> if is_content_length name then [] else header_line name v
       | _ \<Rightarrow> []) (pp_headers p)) @
     ascii ''Content-Length: '' @ to_string (unat (pp_content_length p)) @ CRLF @ CRLF"

text \<open>The index that is given out counts from one.\<close>

definition addMultipartPart ::
  "s64 \<Rightarrow> OrbisNpWebApiMultipartPartParameter option \<Rightarrow> 'w WebApi \<Rightarrow> (s32 \<times> s32 option) \<times> 'w WebApi" where
  "addMultipartPart r param s =
     (case param of
        None \<Rightarrow> ((ORBIS_NP_WEBAPI_ERROR_INVALID_ARGUMENT, None), s)
      | Some p \<Rightarrow>
          on_request_out (\<lambda>e. (e, None)) r (\<lambda>c u request s.
            ((ORBIS_OK, Some (to_s32 (int (length (wr_multipart_parts request) + 1)))),
             releaseRequest c u r (upd_request c u r (\<lambda>q. q\<lparr>wr_multipart_parts := wr_multipart_parts q @
               [\<lparr>mp_raw_headers = part_headers p, mp_content_length = pp_content_length p, mp_data = [], mp_sent_size = 0\<rparr>]\<rparr>) s))) s)"

definition add_part_data :: "bytes option \<Rightarrow> u64 \<Rightarrow> MultipartPart \<Rightarrow> MultipartPart" where
  "add_part_data dat data_size p = p\<lparr>mp_data := mp_data p @ (case dat of None \<Rightarrow> [] | Some d \<Rightarrow> take (unat data_size) d),
     mp_sent_size := mp_sent_size p + data_size\<rparr>"

definition all_complete :: "MultipartPart list \<Rightarrow> bool" where
  "all_complete parts \<longleftrightarrow> (\<forall>p \<in> set parts. mp_content_length p \<le> mp_sent_size p)"

definition hex_digit :: "u64 \<Rightarrow> u8" where
  "hex_digit d = (if d < 10 then ucast (48 + d) else ucast (87 + d))"

definition default_boundary :: "s64 \<Rightarrow> bytes" where
  "default_boundary request_id = ascii ''----shadPS4Boundary'' @
     map (\<lambda>shift. hex_digit (drop_bit shift (word_of_int request_id) AND 0xf))
       [60, 56, 52, 48, 44, 40, 36, 32, 28, 24, 20, 16, 12, 8, 4, 0]"

definition multipart_body :: "bytes \<Rightarrow> MultipartPart list \<Rightarrow> bytes" where
  "multipart_body boundary parts =
     concat (map (\<lambda>p. ascii ''--'' @ boundary @ CRLF @ mp_raw_headers p @ mp_data p @ CRLF) parts) @
     ascii ''--'' @ boundary @ ascii ''--'' @ CRLF"

text \<open>
  The body of a request that has parts: an answer while parts are missing, and then what is sent and
  the request with its content type and length.
\<close>

definition multipart_step ::
  "s64 \<Rightarrow> s32 \<Rightarrow> bytes option \<Rightarrow> u64 \<Rightarrow> OrbisNpWebApiRequest \<Rightarrow> (s32 + bytes) \<times> OrbisNpWebApiRequest" where
  "multipart_step request_id part_index dat data_size q =
     (if part_index < 1 \<or> part_index > int (length (wr_multipart_parts q)) then (Inl ORBIS_NP_WEBAPI_ERROR_INVALID_ARGUMENT, q)
      else
        let i = nat (part_index - 1);
            parts = (wr_multipart_parts q)[i := add_part_data dat data_size (wr_multipart_parts q ! i)];
            q1 = q\<lparr>wr_multipart_parts := parts\<rparr>
        in if \<not> all_complete parts then (Inl ORBIS_OK, q1)
           else
             let boundary = (if wr_multipart_boundary q = [] then default_boundary request_id else wr_multipart_boundary q);
                 type_name = (if wr_multipart_content_type q = [] then ascii ''multipart/mixed'' else wr_multipart_content_type q);
                 body = multipart_body boundary parts
             in (Inr body, q1\<lparr>wr_content_type := type_name @ ascii ''; boundary='' @ boundary,
                             wr_content_length := of_nat (length body)\<rparr>))"

end
