(* ===== verification/WebApiSend.thy ===== *)
theory WebApiSend
  imports WebApiRequest
begin

text \<open>
  Sending a request of the web API library over the HTTP library of the console, its response, and
  deleting it (np_web_api_internal.cpp).
\<close>

section \<open>Errors in a response\<close>

fun find_bytes :: "bytes \<Rightarrow> bytes \<Rightarrow> nat option" where
  "find_bytes pat xs =
     (if take (length pat) xs = pat then Some 0
      else case xs of [] \<Rightarrow> None | _ # ys \<Rightarrow> map_option Suc (find_bytes pat ys))"

declare find_bytes.simps [simp del]

definition is_code_digit :: "u8 \<Rightarrow> bool" where "is_code_digit b \<longleftrightarrow> 48 \<le> b \<and> b \<le> 57"

definition decimal :: "bytes \<Rightarrow> int" where
  "decimal ds = foldl (\<lambda>v d. v * 10 + (int (unat d) - 48)) 0 ds"

text \<open>The number after the first \<open>"code"\<close> of the body.\<close>

definition parseErrorCode :: "bytes \<Rightarrow> s32 option" where
  "parseErrorCode body =
     (case find_bytes (ascii ''\"code\"'') body of
        None \<Rightarrow> None
      | Some k \<Rightarrow>
          let xs = dropWhile (\<lambda>b. b = 32 \<or> b = 58 \<or> b = 34) (drop (k + 6) body);
              neg = (xs \<noteq> [] \<and> hd xs = 45);
              ys = (if xs \<noteq> [] \<and> (hd xs = 45 \<or> hd xs = 43) then tl xs else xs);
              ds = takeWhile is_code_digit ys
          in if ds = [] then None else Some (to_s32 (if neg then - decimal ds else decimal ds)))"

definition captureWebApiError :: "bytes \<Rightarrow> 'w web_op" where
  "captureWebApiError body s =
     (if body = [] then (0, s)
      else case parseErrorCode body of
             None \<Rightarrow> (0, s)
           | Some code \<Rightarrow> (code, s\<lparr>wa_last_error := code\<rparr>))"

definition getLastWebApiError :: "'w WebApi \<Rightarrow> s32" where
  "getLastWebApiError = wa_last_error"

section \<open>Headers of a response\<close>

definition iEquals :: "bytes \<Rightarrow> bytes \<Rightarrow> bool" where
  "iEquals a b \<longleftrightarrow> map to_lower_char a = map to_lower_char b"

text \<open>The value of a header line with the name \<open>field\<close>.\<close>

definition strip_cr :: "bytes \<Rightarrow> bytes" where
  "strip_cr line = (if line \<noteq> [] \<and> last line = 13 then butlast line else line)"

definition line_value :: "bytes \<Rightarrow> bytes \<Rightarrow> bytes option" where
  "line_value line field =
     (if 58 \<in> set line \<and> iEquals (takeWhile (\<lambda>b. b \<noteq> 58) line) field
      then Some (dropWhile (\<lambda>b. b = 32 \<or> b = 9) (tl (dropWhile (\<lambda>b. b \<noteq> 58) line)))
      else None)"

function findHeaderValue :: "bytes \<Rightarrow> bytes \<Rightarrow> bytes option" where
  "findHeaderValue block field =
     (if block = [] then None
      else let line = takeWhile (\<lambda>b. b \<noteq> 10) block
           in case line_value (strip_cr line) field of
                Some v \<Rightarrow> Some v
              | None \<Rightarrow> findHeaderValue (drop (Suc (length line)) block) field)"
  by pat_completeness auto

termination
  by (relation "measure (\<lambda>(block, _). length block)") auto

declare findHeaderValue.simps [simp del]

text \<open>A copy to a buffer of the game, cut so that the zero at its end fits.\<close>

definition bounded_text :: "u64 \<Rightarrow> bytes \<Rightarrow> bytes" where
  "bounded_text cap v = take (min (length v) (unat cap - 1)) v @ [0]"

section \<open>The state of the response\<close>

definition addHttpRequestHeaderInternal :: "s64 \<Rightarrow> bytes \<Rightarrow> bytes \<Rightarrow> 'w web_op" where
  "addHttpRequestHeaderInternal r field_name v = with_request r (\<lambda>c u s.
     (ORBIS_OK, upd_request c u r (\<lambda>q. q\<lparr>wr_headers := wr_headers q @ [(field_name, v)]\<rparr>) s))"

definition http_id :: "s32 \<Rightarrow> s32 \<Rightarrow> s64 \<Rightarrow> 'w WebApi \<Rightarrow> s32" where
  "http_id c u r s = (case request_at c u r s of None \<Rightarrow> 0 | Some q \<Rightarrow> wr_http_request_id q)"

definition getHttpRequestIdFromRequest :: "OrbisNpWebApiRequest \<Rightarrow> s32" where
  "getHttpRequestIdFromRequest = wr_http_request_id"

text \<open>The answer, the length that is written, and the text that is written to a buffer of \<open>value_size\<close> bytes.\<close>

definition getHttpResponseHeaderValueInternal ::
  "'w HttpLib \<Rightarrow> s64 \<Rightarrow> bytes \<Rightarrow> bool \<Rightarrow> u64 \<Rightarrow> bool \<Rightarrow> 'w WebApi \<Rightarrow> (s32 \<times> u64 option \<times> bytes option) \<times> 'w WebApi" where
  "getHttpResponseHeaderValueInternal lib r field_name has_value value_size has_length =
     with_request_out (\<lambda>e. (e, None, None)) r (\<lambda>c u s.
       case hl_headers lib (http_id c u r s) (wa_http s) of
         (err, block) \<Rightarrow>
           if err < 0 then ((err, None, None), s)
           else
             let found = (case block of None \<Rightarrow> None | Some b \<Rightarrow> findHeaderValue b field_name);
                 v = (case found of None \<Rightarrow> [] | Some x \<Rightarrow> x)
             in ((ORBIS_OK, if has_length then Some (of_nat (length v)) else None,
                  if has_value \<and> value_size > 0 then Some (bounded_text value_size v) else None), s))"

text \<open>What is written to the output parameter is only known when the HTTP library has set it.\<close>

definition getHttpStatusCodeInternal :: "'w HttpLib \<Rightarrow> s64 \<Rightarrow> 'w WebApi \<Rightarrow> (s32 \<times> s32 option) \<times> 'w WebApi" where
  "getHttpStatusCodeInternal lib r = with_request_out (\<lambda>e. (e, None)) r (\<lambda>c u s.
     (hl_status lib (http_id c u r s) (wa_http s), s))"

section \<open>Sending\<close>

record OrbisNpWebApiResponseInformationOption =
  ri_http_status :: "s32 option"
  ri_response_data_size :: "u64 option"
  ri_error_object :: "bytes option"

definition no_response :: OrbisNpWebApiResponseInformationOption where
  "no_response = \<lparr>ri_http_status = None, ri_response_data_size = None, ri_error_object = None\<rparr>"

text \<open>The body of an error, read in pieces of 256 bytes until there is nothing more or it is too long.\<close>

function read_error_body :: "'w HttpLib \<Rightarrow> s32 \<Rightarrow> bytes \<Rightarrow> 'w \<Rightarrow> bytes \<times> 'w" where
  "read_error_body lib req body w =
     (case hl_read lib req 256 w of
        (Inl err, w1) \<Rightarrow> (body, w1)
      | (Inr piece, w1) \<Rightarrow>
          if piece = [] then (body, w1)
          else if length (body @ piece) > 64 * 1024 then (body @ piece, w1)
          else read_error_body lib req (body @ piece) w1)"
  by pat_completeness auto

termination
  by (relation "measure (\<lambda>(lib, req, body, w). 64 * 1024 + 1 - length body)") (auto simp flip: length_greater_0_conv)

declare read_error_body.simps [simp del]

definition send_result_of :: "s32 \<Rightarrow> s32 \<Rightarrow> s32" where
  "send_result_of np_err status =
     (if np_err > 0 \<and> np_err < 0xc00000 then to_s32 (0x82000000 OR np_err)
      else if status \<ge> 100 \<and> status < 600 then to_s32 (0x82f00000 OR status)
      else to_s32 0x82ffffff)"

text \<open>The second form of sending waits for the status: \<open>info\<close> is whether the game gives a buffer and its size.\<close>

definition check_response ::
  "'w HttpLib \<Rightarrow> (bool \<times> u64) option \<Rightarrow> s32 \<Rightarrow> 'w WebApi \<Rightarrow> (s32 \<times> OrbisNpWebApiResponseInformationOption) \<times> 'w WebApi" where
  "check_response lib info req s =
     (case hl_status lib req (wa_http s) of
        (ret, st) \<Rightarrow>
          if ret < 0 then ((ORBIS_OK, no_response), s)
          else
            let status = (case st of None \<Rightarrow> 0 | Some x \<Rightarrow> x);
                ri = (if info \<noteq> None then no_response\<lparr>ri_http_status := Some status\<rparr> else no_response)
            in if status < 400 then ((ORBIS_OK, ri), s)
               else
                 let (body, w1) = read_error_body lib req [] (wa_http s);
                     ri1 = (case info of
                              None \<Rightarrow> ri
                            | Some (has_object, cap) \<Rightarrow>
                                ri\<lparr>ri_response_data_size := Some (of_nat (length body)),
                                   ri_error_object := (if has_object \<and> cap > 0 then Some (bounded_text cap body) else None)\<rparr>);
                     (np_err, s1) = captureWebApiError body (s\<lparr>wa_http := w1\<rparr>)
                 in ((send_result_of np_err status, ri1), s1))"

definition http_method :: "s32 \<Rightarrow> s32 option" where
  "http_method m = (if m = 0 then Some 0 else if m = 1 then Some 1 else if m = 2 then Some 4 else if m = 3 then Some 5
                    else if m = 4 then Some 8 else None)"

definition is_content_type :: "bytes \<Rightarrow> bool" where
  "is_content_type name \<longleftrightarrow> map to_lower_char name = ascii ''content-type''"

definition request_headers :: "bytes \<Rightarrow> OrbisNpWebApiRequest \<Rightarrow> (bytes \<times> bytes) list" where
  "request_headers bearer q =
     (if wr_content_type q \<noteq> [] then [(ascii ''Content-Type'', wr_content_type q)] else []) @
     (if bearer \<noteq> [] then [(ascii ''Authorization'', ascii ''Bearer '' @ bearer)] else []) @
     filter (\<lambda>(name, _). \<not> (wr_content_type q \<noteq> [] \<and> is_content_type name)) (wr_headers q)"

text \<open>
  The template, connection and request of the HTTP library: an error, or none. A method that is not
  known leaves the connection open.
\<close>

definition open_http ::
  "'w HttpLib \<Rightarrow> bytes \<Rightarrow> bytes \<Rightarrow> s32 \<Rightarrow> OrbisNpWebApiRequest \<Rightarrow> 'w \<Rightarrow> s32 option \<times> OrbisNpWebApiRequest \<times> 'w" where
  "open_http lib base_url bearer lib_http_ctx_id q w =
     (case hl_create_template lib lib_http_ctx_id w of
        (tmpl_id, w1) \<Rightarrow>
          if tmpl_id < 0 then (Some tmpl_id, q, w1)
          else
            case hl_create_connection lib tmpl_id base_url w1 of
              (conn_id, w2) \<Rightarrow>
                if conn_id < 0 then (Some conn_id, q\<lparr>wr_http_template_id := 0\<rparr>, hl_delete_template lib tmpl_id w2)
                else
                  let q1 = q\<lparr>wr_http_template_id := tmpl_id, wr_http_connection_id := conn_id\<rparr>
                  in case http_method (wr_method q) of
                       None \<Rightarrow> (Some ORBIS_NP_WEBAPI_ERROR_INVALID_ARGUMENT, q1, w2)
                     | Some m \<Rightarrow>
                         (case hl_create_request lib conn_id m (base_url @ wr_path q) (wr_content_length q) w2 of
                            (req_id, w3) \<Rightarrow>
                              if req_id < 0
                              then (Some req_id, q\<lparr>wr_http_template_id := 0, wr_http_connection_id := 0\<rparr>,
                                    hl_delete_template lib tmpl_id (hl_delete_connection lib conn_id w3))
                              else (None, q1\<lparr>wr_http_request_id := req_id\<rparr>,
                                    fold (\<lambda>(name, v). hl_add_header lib req_id name v) (request_headers bearer q) w3)))"

definition send_http ::
  "'w HttpLib \<Rightarrow> s32 \<Rightarrow> s32 \<Rightarrow> s64 \<Rightarrow> bytes option \<Rightarrow> u64 \<Rightarrow> bool \<Rightarrow> (bool \<times> u64) option \<Rightarrow>
   'w WebApi \<Rightarrow> (s32 \<times> OrbisNpWebApiResponseInformationOption) \<times> 'w WebApi" where
  "send_http lib c u r send_data send_size flag info s =
     (let s1 = upd_request c u r (setRequestState 4) s
      in case hl_send lib (http_id c u r s1) send_data send_size (wa_http s1) of
           (send_err, w) \<Rightarrow>
             let s2 = s1\<lparr>wa_http := w\<rparr>
             in if send_err < 0 then ((send_err, no_response), s2)
                else if flag then check_response lib info (http_id c u r s2) s2
                else ((ORBIS_OK, no_response), s2))"

text \<open>The part of sending after the body is known.\<close>

definition send_body ::
  "'w HttpLib \<Rightarrow> bytes \<Rightarrow> NpHandler \<Rightarrow> s32 \<Rightarrow> s32 \<Rightarrow> s64 \<Rightarrow> bytes option \<Rightarrow> u64 \<Rightarrow> bool \<Rightarrow> (bool \<times> u64) option \<Rightarrow>
   'w WebApi \<Rightarrow> (s32 \<times> OrbisNpWebApiResponseInformationOption) \<times> 'w WebApi" where
  "send_body lib base_url h c u r send_data send_size flag info s =
     (let s1 = (if sdk_at_least WEB_FW_250 s then upd_request c u r (\<lambda>q. q\<lparr>wr_sent := True\<rparr>) s else s)
      in case (context_at c s1, user_at c u s1, request_at c u r s1) of
           (Some ctx, Some uc, Some q) \<Rightarrow>
             if \<not> wr_timed_out q \<and> wr_aborted q then ((ORBIS_NP_WEBAPI_ERROR_ABORTED, no_response), s1)
             else if \<not> IsSignedIn (wu_user_id uc) h then ((ORBIS_NP_WEBAPI_ERROR_NOT_SIGNED_IN, no_response), s1)
             else if wr_http_request_id q \<noteq> 0 then send_http lib c u r send_data send_size flag info s1
             else
               (case open_http lib base_url (GetBearerToken (wu_user_id uc) h) (wc_lib_http_ctx_id ctx) q (wa_http s1) of
                  (err, q1, w) \<Rightarrow>
                    let s2 = (upd_request c u r (\<lambda>_. q1) s1)\<lparr>wa_http := w\<rparr>
                    in case err of
                         Some e \<Rightarrow> ((e, no_response), s2)
                       | None \<Rightarrow> send_http lib c u r send_data send_size flag info s2)
         | _ \<Rightarrow> ((ORBIS_NP_WEBAPI_ERROR_REQUEST_NOT_FOUND, no_response), s1))"

definition sendRequest ::
  "'w HttpLib \<Rightarrow> bytes \<Rightarrow> NpHandler \<Rightarrow> u64 \<Rightarrow> s64 \<Rightarrow> s32 \<Rightarrow> bytes option \<Rightarrow> u64 \<Rightarrow> bool \<Rightarrow> (bool \<times> u64) option \<Rightarrow>
   'w WebApi \<Rightarrow> (s32 \<times> OrbisNpWebApiResponseInformationOption) \<times> 'w WebApi" where
  "sendRequest lib base_url h now r part_index dat data_size flag info =
     with_request_out (\<lambda>e. (e, no_response)) r (\<lambda>c u s.
       let s1 = upd_request c u r (startRequestTimer now) s
       in case request_at c u r s1 of
            None \<Rightarrow> ((ORBIS_NP_WEBAPI_ERROR_REQUEST_NOT_FOUND, no_response), s1)
          | Some q \<Rightarrow>
              if \<not> wr_multipart q then send_body lib base_url h c u r dat data_size flag info s1
              else
                (case multipart_step r part_index dat data_size q of
                   (Inl e, q1) \<Rightarrow> ((e, no_response), upd_request c u r (\<lambda>_. q1) s1)
                 | (Inr body, q1) \<Rightarrow>
                     send_body lib base_url h c u r (Some body) (of_nat (length body)) flag info
                       (upd_request c u r (\<lambda>_. q1) s1)))"

section \<open>Reading the response\<close>

text \<open>The bytes that are copied from the request, and the request after it.\<close>

definition copyRequestData :: "u64 \<Rightarrow> OrbisNpWebApiRequest \<Rightarrow> bytes \<times> OrbisNpWebApiRequest" where
  "copyRequestData len q =
     (if wr_remaining_data q = 0 then ([], q)
      else
        let remaining_size = wr_remaining_data q - ucast (wr_read_offset q)
        in if remaining_size = 0 then ([], q)
           else
             let k = min remaining_size len
             in (take (unat k) (drop (unat (wr_read_offset q)) (wr_data q)),
                 q\<lparr>wr_read_offset := wr_read_offset q + ucast k\<rparr>))"

text \<open>The answer and the bytes written to the buffer of the game.\<close>

definition readDataInternal :: "'w HttpLib \<Rightarrow> u64 \<Rightarrow> s64 \<Rightarrow> u64 \<Rightarrow> 'w WebApi \<Rightarrow> (s32 \<times> bytes) \<times> 'w WebApi" where
  "readDataInternal lib now r len = with_request_out (\<lambda>e. (e, [])) r (\<lambda>c u s.
     case request_at c u r s of
       None \<Rightarrow> ((ORBIS_NP_WEBAPI_ERROR_REQUEST_NOT_FOUND, []), s)
     | Some q0 \<Rightarrow>
         let (copied, q1) = copyRequestData len (setRequestEndTime now q0);
             offset = (of_nat (length copied) :: u32);
             remaining_size = len - ucast offset;
             q2 = (if remaining_size \<noteq> 0 then setRequestState 5 q1 else q1);
             (offset1, dat, w1) =
               (if remaining_size = 0 then (offset, copied, wa_http s)
                else if \<not> hasRequestTimedOut q2 \<and> isRequestAborted q2
                then (word_of_int ORBIS_NP_WEBAPI_ERROR_ABORTED, copied, wa_http s)
                else case hl_read lib (getHttpRequestIdFromRequest q2) (unat remaining_size) (wa_http s) of
                       (Inl _, w1) \<Rightarrow> (offset, copied, w1)
                     | (Inr piece, w1) \<Rightarrow> (offset + of_nat (length piece), copied @ piece, w1));
             q3 = setRequestState 0 q2;
             s1 = (upd_request c u r (\<lambda>_. clearRequestEndTime q3) s)\<lparr>wa_http := w1\<rparr>
         in if hasRequestTimedOut q3 then ((ORBIS_NP_WEBAPI_ERROR_TIMEOUT, dat), s1)
            else if isRequestAborted q3 then ((ORBIS_NP_WEBAPI_ERROR_ABORTED, dat), s1)
            else
              ((to_s32 (uint offset1), dat),
               if offset1 > 0
               then (case hl_status lib (getHttpRequestIdFromRequest q3) w1 of
                       (ret, st) \<Rightarrow>
                         if ret \<ge> 0 \<and> (case st of None \<Rightarrow> 0 | Some x \<Rightarrow> x) \<ge> 400
                         then snd (captureWebApiError (take (unat offset1) dat) s1) else s1)
               else s1))"

section \<open>Deleting a request\<close>

definition close_http :: "'w HttpLib \<Rightarrow> OrbisNpWebApiRequest \<Rightarrow> 'w \<Rightarrow> 'w" where
  "close_http lib q w =
     (let w1 = (if wr_http_request_id q \<noteq> 0 then hl_delete_request lib (wr_http_request_id q) w else w);
          w2 = (if wr_http_connection_id q \<noteq> 0 then hl_delete_connection lib (wr_http_connection_id q) w1 else w1)
      in if wr_http_template_id q \<noteq> 0 then hl_delete_template lib (wr_http_template_id q) w2 else w2)"

text \<open>While somebody else uses the request the caller sleeps without the lock, and looks again later.\<close>

definition await_request :: "'w HttpLib \<Rightarrow> s32 \<Rightarrow> s32 \<Rightarrow> s64 \<Rightarrow> 'w web_wait" where
  "await_request lib c u r s =
     (case request_at c u r s of
        None \<Rightarrow> (Some ORBIS_OK, releaseContext c (unlockContext c (releaseUserContext c u s)))
      | Some q \<Rightarrow>
          if isRequestBusy q then (None, unlockContext c s)
          else
            let s1 = (releaseRequest c u r s)\<lparr>wa_http := close_http lib q (wa_http s)\<rparr>;
                s2 = upd_user c u (\<lambda>uc. uc\<lparr>wu_requests := omap_erase r (wu_requests uc)\<rparr>) s1
            in (Some ORBIS_OK, releaseContext c (unlockContext c (releaseUserContext c u s2))))"

definition deleteRequest :: "'w HttpLib \<Rightarrow> s64 \<Rightarrow> 'w web_wait" where
  "deleteRequest lib r s =
     (let c = lib_of_request r; u = user_of_request r
      in case findAndValidateContext c 0 s of
           None \<Rightarrow> (Some ORBIS_NP_WEBAPI_ERROR_LIB_CONTEXT_NOT_FOUND, s)
         | Some s1 \<Rightarrow>
             let s2 = lockContext c s1
             in case findUserContext c u s2 of
                  None \<Rightarrow> (Some ORBIS_NP_WEBAPI_ERROR_USER_CONTEXT_NOT_FOUND, releaseContext c s2)
                | Some s3 \<Rightarrow>
                    (case findRequestAndMarkBusy c u r s3 of
                       None \<Rightarrow> (Some ORBIS_NP_WEBAPI_ERROR_REQUEST_NOT_FOUND, releaseContext c (releaseUserContext c u s3))
                     | Some s4 \<Rightarrow>
                         if \<not> sdk_at_least WEB_FW_400 s4 \<and>
                            (case request_at c u r s4 of None \<Rightarrow> False | Some q \<Rightarrow> isRequestBusy q)
                         then (Some ORBIS_NP_WEBAPI_ERROR_REQUEST_BUSY,
                               releaseContext c (releaseUserContext c u (releaseRequest c u r s4)))
                         else await_request lib c u r (snd (abortRequestInternal lib c u r s4))))"

end
