(* ===== verification/WebApiContext.thy ===== *)
theory WebApiContext
  imports WebApiSend
begin

text \<open>
  The contexts of the web API library over time (np_web_api_internal.cpp): the periodic check for
  timeouts, creating and deleting user contexts, and terminating a library context.
\<close>

section \<open>Timeouts\<close>

definition checkUserContextTimeout :: "'w HttpLib \<Rightarrow> u64 \<Rightarrow> s32 \<Rightarrow> s32 \<Rightarrow> 'w WebApi \<Rightarrow> 'w WebApi" where
  "checkUserContextTimeout lib now c u s =
     (case user_at c u s of
        None \<Rightarrow> s
      | Some uc \<Rightarrow> fold (\<lambda>(r, _). checkRequestTimeout lib now c u r) (wu_requests uc) s)"

definition check_timer :: "u64 \<Rightarrow> s32 \<Rightarrow> OrbisNpWebApiTimerHandle \<Rightarrow> 'w WebApi \<Rightarrow> 'w WebApi" where
  "check_timer now c t s =
     (if \<not> wt_timed_out t \<and> wt_timeout t \<noteq> 0 \<and> wt_end_time t < now
      then snd (abortHandle c (wt_handle_id t)
             (upd_context c (\<lambda>x. x\<lparr>wc_timer_handles := alter (wt_handle_id t) (\<lambda>t. t\<lparr>wt_timed_out := True\<rparr>) (wc_timer_handles x)\<rparr>) s))
      else s)"

definition checkContextTimeout :: "'w HttpLib \<Rightarrow> u64 \<Rightarrow> s32 \<Rightarrow> 'w WebApi \<Rightarrow> 'w WebApi" where
  "checkContextTimeout lib now c s =
     (case context_at c s of
        None \<Rightarrow> s
      | Some x \<Rightarrow>
          fold (\<lambda>(_, t). check_timer now c t) (wc_timer_handles x)
            (fold (\<lambda>(u, _). checkUserContextTimeout lib now c u) (wc_user_contexts x) s))"

definition checkTimeout :: "'w HttpLib \<Rightarrow> u64 \<Rightarrow> 'w WebApi \<Rightarrow> 'w WebApi" where
  "checkTimeout lib now s =
     (if now < wa_last_timeout_check s + 1000 then s
      else fold (\<lambda>(c, _). checkContextTimeout lib now c) (wa_contexts s) (s\<lparr>wa_last_timeout_check := now\<rparr>))"

section \<open>User contexts\<close>

text \<open>When there is no free id the library context is not released.\<close>

definition createUserContext :: "s32 \<Rightarrow> s32 \<Rightarrow> 'w web_op" where
  "createUserContext lib_ctx_id user_id s =
     (case findAndValidateContext lib_ctx_id 0 s of
        None \<Rightarrow> (ORBIS_NP_WEBAPI_ERROR_LIB_CONTEXT_NOT_FOUND, s)
      | Some s1 \<Rightarrow>
          (case findUserContextByUserId lib_ctx_id user_id s1 of
             Some (u, s2) \<Rightarrow> (ORBIS_NP_WEBAPI_ERROR_USER_CONTEXT_ALREADY_EXIST,
                              releaseContext lib_ctx_id (releaseUserContext lib_ctx_id u s2))
           | None \<Rightarrow>
               let n = wa_user_context_count s1 + 1;
                   n1 = (if n \<ge> 0x10000 then 1 else n);
                   s2 = s1\<lparr>wa_user_context_count := n1\<rparr>;
                   taken = (case context_at lib_ctx_id s2 of None \<Rightarrow> {} | Some x \<Rightarrow> set (keys (wc_user_contexts x)));
                   user_ctx_id = free_id taken (push_bit 16 lib_ctx_id OR n1)
               in if user_ctx_id \<le> push_bit 16 lib_ctx_id then (ORBIS_NP_WEBAPI_ERROR_USER_CONTEXT_MAX, s2)
                  else (user_ctx_id, releaseContext lib_ctx_id (upd_context lib_ctx_id (\<lambda>x. x\<lparr>wc_user_contexts :=
                         omap_put user_ctx_id (new_user_context\<lparr>wu_user_id := user_id, wu_user_ctx_id := user_ctx_id\<rparr>)
                           (wc_user_contexts x)\<rparr>) s2))))"

text \<open>The online id is not used: the context is for the initial user of the console, an argument here.\<close>

definition createUserContextWithOnlineId :: "s32 \<Rightarrow> s32 \<Rightarrow> 'w web_op" where
  "createUserContextWithOnlineId initial_user lib_ctx_id = createUserContext lib_ctx_id initial_user"

definition set_notification :: "s32 \<Rightarrow> addr option \<Rightarrow> addr option \<Rightarrow> 'w web_op" where
  "set_notification title_user_ctx_id func user_arg = with_user title_user_ctx_id (\<lambda>c u s.
     (ORBIS_OK, upd_user c u (\<lambda>uc. uc\<lparr>wu_notification_callback := func, wu_notification_args := user_arg\<rparr>) s))"

definition registerNotificationCallback :: "s32 \<Rightarrow> addr option \<Rightarrow> addr option \<Rightarrow> 'w web_op" where
  "registerNotificationCallback = set_notification"

definition unregisterNotificationCallback :: "s32 \<Rightarrow> 'w web_op" where
  "unregisterNotificationCallback title_user_ctx_id = set_notification title_user_ctx_id None None"

section \<open>Deleting a user context\<close>

definition erase_user_context :: "s32 \<Rightarrow> s32 \<Rightarrow> 'w web_wait" where
  "erase_user_context c u s = (Some ORBIS_OK, releaseContext c (unlockContext c
     (upd_context c (\<lambda>x. x\<lparr>wc_user_contexts := omap_erase u (wc_user_contexts x)\<rparr>) s)))"

text \<open>While it is in use the caller sleeps without the lock, and looks again later.\<close>

definition await_user_context :: "s32 \<Rightarrow> s32 \<Rightarrow> 'w web_wait" where
  "await_user_context c u s =
     (if isUserContextBusy c u s \<or> areUserContextRequestsBusy c u s then (None, unlockContext c s)
      else erase_user_context c u s)"

definition deleteUserContext :: "'w HttpLib \<Rightarrow> s32 \<Rightarrow> 'w web_wait" where
  "deleteUserContext lib u s =
     (let c = lib_of_user u
      in case findAndValidateContext c 0 s of
           None \<Rightarrow> (Some ORBIS_NP_WEBAPI_ERROR_LIB_CONTEXT_NOT_FOUND, s)
         | Some s1 \<Rightarrow>
             let s2 = lockContext c s1
             in case findUserContext c u s2 of
                  None \<Rightarrow> (Some ORBIS_NP_WEBAPI_ERROR_USER_CONTEXT_NOT_FOUND, releaseContext c (unlockContext c s2))
                | Some s3 \<Rightarrow>
                    if \<not> sdk_at_least WEB_FW_400 s3
                    then (if isUserContextBusy c u s3 \<or> areUserContextRequestsBusy c u s3
                          then (Some ORBIS_NP_WEBAPI_ERROR_USER_CONTEXT_BUSY,
                                releaseContext c (unlockContext c (releaseUserContext c u s3)))
                          else erase_user_context c u s3)
                    else
                      let requests = (case user_at c u s3 of None \<Rightarrow> [] | Some uc \<Rightarrow> wu_requests uc);
                          s4 = fold (\<lambda>(r, _) s. snd (abortRequestInternal lib c u r s)) requests s3
                      in if (case user_at c u s4 of None \<Rightarrow> False | Some uc \<Rightarrow> wu_deleted uc)
                         then (Some ORBIS_NP_WEBAPI_ERROR_USER_CONTEXT_NOT_FOUND,
                               releaseContext c (unlockContext c (releaseUserContext c u s4)))
                         else await_user_context c u (upd_user c u (\<lambda>uc. uc\<lparr>wu_deleted := True\<rparr>) s4))"

section \<open>Terminating a library context\<close>

definition deleteContext :: "s32 \<Rightarrow> 'w web_op" where
  "deleteContext lib_ctx_id s =
     (if context_at lib_ctx_id s = None then (ORBIS_NP_WEBAPI_ERROR_LIB_CONTEXT_NOT_FOUND, s)
      else (ORBIS_OK, s\<lparr>wa_contexts := omap_erase lib_ctx_id (wa_contexts s)\<rparr>))"

text \<open>
  The user contexts are deleted in turn until one answers anything but that it is not found; before
  version 4.00 the first answer ends the call.
\<close>

datatype user_loop = Sleeps | Answers s32 | GoesOn

fun terminate_users :: "'w HttpLib \<Rightarrow> s32 list \<Rightarrow> 'w WebApi \<Rightarrow> user_loop \<times> 'w WebApi" where
  "terminate_users lib [] s = (GoesOn, s)"
| "terminate_users lib (u # us) s =
     (case deleteUserContext lib u s of
        (None, s1) \<Rightarrow> (Sleeps, s1)
      | (Some r, s1) \<Rightarrow>
          if r \<noteq> ORBIS_NP_WEBAPI_ERROR_USER_CONTEXT_NOT_FOUND \<or> \<not> sdk_at_least WEB_FW_400 s1 then (Answers r, s1)
          else terminate_users lib us s1)"

definition finish_terminate :: "s32 \<Rightarrow> 'w web_wait" where
  "finish_terminate c s = (case deleteContext c (releaseContext c (unlockContext c s)) of (r, s1) \<Rightarrow> (Some r, s1))"

definition await_context :: "s32 \<Rightarrow> 'w web_wait" where
  "await_context c s =
     (if isContextBusy c s \<or> areContextHandlesBusy c s then (None, unlockContext c s) else finish_terminate c s)"

definition terminateContext :: "'w HttpLib \<Rightarrow> s32 \<Rightarrow> 'w web_wait" where
  "terminateContext lib c s =
     (case findAndValidateContext c 0 s of
        None \<Rightarrow> (Some ORBIS_NP_WEBAPI_ERROR_LIB_CONTEXT_NOT_FOUND, s)
      | Some s1 \<Rightarrow>
          if \<not> sdk_at_least WEB_FW_400 s1 \<and> isContextBusy c s1
          then (Some ORBIS_NP_WEBAPI_ERROR_LIB_CONTEXT_BUSY, releaseContext c s1)
          else
            case terminate_users lib (case context_at c s1 of None \<Rightarrow> [] | Some x \<Rightarrow> keys (wc_user_contexts x)) s1 of
              (Sleeps, s2) \<Rightarrow> (None, s2)
            | (Answers r, s2) \<Rightarrow> (Some r, s2)
            | (GoesOn, s2) \<Rightarrow>
                let s3 = lockContext c s2
                in if \<not> sdk_at_least WEB_FW_400 s3 then finish_terminate c s3
                   else
                     let handles = (case context_at c s3 of None \<Rightarrow> [] | Some x \<Rightarrow> keys (wc_handles x));
                         s4 = fold (\<lambda>i s. snd (abortHandle c i s)) handles s3
                     in if isContextTerminated c s4
                        then (Some ORBIS_NP_WEBAPI_ERROR_LIB_CONTEXT_NOT_FOUND, releaseContext c (unlockContext c s4))
                        else await_context c (markContextAsTerminated c s4))"

end
