(* ===== verification/WebApiPush.thy ===== *)
theory WebApiPush
  imports WebApiContext
begin

text \<open>
  Push events of the web API library (np_web_api_internal.cpp): filters, callbacks, the queue that
  the network thread fills, and the dispatch on the thread of the game. The calls of callbacks are
  the answer of the dispatch; a game that changes the tables from inside a callback is not modelled.
\<close>

section \<open>Filters\<close>

definition createPushEventFilterInternal :: "s32 \<Rightarrow> bytes list option \<Rightarrow> 'w web_op" where
  "createPushEventFilterInternal c filter_param s =
     (let i = next_count (wa_push_filter_count s)
      in (i, upd_context c (\<lambda>x. x\<lparr>wc_push_filters := omap_put i
               \<lparr>pf_filter_id = i, pf_params = (case filter_param of None \<Rightarrow> [] | Some ps \<Rightarrow> ps)\<rparr> (wc_push_filters x)\<rparr>)
             (s\<lparr>wa_push_filter_count := i\<rparr>)))"

definition createPushEventFilter :: "s32 \<Rightarrow> bytes list option \<Rightarrow> 'w web_op" where
  "createPushEventFilter lib_ctx_id filter_param = with_context lib_ctx_id (createPushEventFilterInternal lib_ctx_id filter_param)"

definition deletePushEventFilterInternal :: "s32 \<Rightarrow> s32 \<Rightarrow> 'w web_op" where
  "deletePushEventFilterInternal c filter_id s =
     (case Option.bind (context_at c s) (\<lambda>x. map_of (wc_push_filters x) filter_id) of
        None \<Rightarrow> (ORBIS_NP_WEBAPI_ERROR_PUSH_EVENT_FILTER_NOT_FOUND, s)
      | Some _ \<Rightarrow> (ORBIS_OK, upd_context c (\<lambda>x. x\<lparr>wc_push_filters := omap_erase filter_id (wc_push_filters x)\<rparr>) s))"

definition deletePushEventFilter :: "s32 \<Rightarrow> s32 \<Rightarrow> 'w web_op" where
  "deletePushEventFilter lib_ctx_id filter_id = with_context lib_ctx_id (deletePushEventFilterInternal lib_ctx_id filter_id)"

text \<open>The handle that a filter is created with is used meanwhile; its count is the same afterwards.\<close>

definition createServicePushEventFilterInternal ::
  "NpHandler \<Rightarrow> s32 \<Rightarrow> s32 \<Rightarrow> bytes option \<Rightarrow> u32 \<Rightarrow> bytes list option \<Rightarrow> 'w web_op" where
  "createServicePushEventFilterInternal h c handle_id np_service_name np_service_label filter_param s =
     (case Option.bind (context_at c s) (\<lambda>x. map_of (wc_handles x) handle_id) of
        None \<Rightarrow> (ORBIS_NP_WEBAPI_ERROR_HANDLE_NOT_FOUND, s)
      | Some _ \<Rightarrow>
          if np_service_name \<noteq> None \<and> \<not> hn_initialized h then (ORBIS_NP_WEBAPI_ERROR_SIGNED_IN_USER_NOT_FOUND, s)
          else
            let i = next_count (wa_service_filter_count s);
                flt = \<lparr>sf_filter_id = i, sf_internal = (np_service_name = None),
                       sf_params = (case filter_param of None \<Rightarrow> [] | Some ps \<Rightarrow> ps),
                       sf_service_name = (case np_service_name of None \<Rightarrow> [] | Some x \<Rightarrow> x), sf_service_label = np_service_label\<rparr>
            in (i, upd_context c (\<lambda>x. x\<lparr>wc_service_filters := omap_put i flt (wc_service_filters x)\<rparr>)
                     (s\<lparr>wa_service_filter_count := i\<rparr>)))"

definition createServicePushEventFilter ::
  "NpHandler \<Rightarrow> u64 \<Rightarrow> s32 \<Rightarrow> s32 \<Rightarrow> bytes option \<Rightarrow> u32 \<Rightarrow> bytes list option \<Rightarrow> 'w web_op" where
  "createServicePushEventFilter h now lib_ctx_id handle_id np_service_name np_service_label filter_param =
     with_context lib_ctx_id (\<lambda>s. createServicePushEventFilterInternal h lib_ctx_id handle_id np_service_name np_service_label
       filter_param (startHandleTimer now lib_ctx_id handle_id s))"

definition deleteServicePushEventFilterInternal :: "s32 \<Rightarrow> s32 \<Rightarrow> 'w web_op" where
  "deleteServicePushEventFilterInternal c filter_id s =
     (case Option.bind (context_at c s) (\<lambda>x. map_of (wc_service_filters x) filter_id) of
        None \<Rightarrow> (ORBIS_NP_WEBAPI_ERROR_SERVICE_PUSH_EVENT_FILTER_NOT_FOUND, s)
      | Some _ \<Rightarrow> (ORBIS_OK, upd_context c (\<lambda>x. x\<lparr>wc_service_filters := omap_erase filter_id (wc_service_filters x)\<rparr>) s))"

definition deleteServicePushEventFilter :: "s32 \<Rightarrow> s32 \<Rightarrow> 'w web_op" where
  "deleteServicePushEventFilter lib_ctx_id filter_id =
     with_context lib_ctx_id (deleteServicePushEventFilterInternal lib_ctx_id filter_id)"

text \<open>A parameter of an extended filter: the data type and the keys it asks for, arrays of 33 characters.\<close>

record OrbisNpWebApiExtdPushEventFilterParameter =
  ep_data_type :: bytes
  ep_extd_data_key :: "bytes list option"

definition extd_keys :: "OrbisNpWebApiExtdPushEventFilterParameter \<Rightarrow> bytes list" where
  "extd_keys p = (case ep_extd_data_key p of None \<Rightarrow> [] | Some ks \<Rightarrow> map (\<lambda>k. takeWhile (\<lambda>b. b \<noteq> 0) (take 33 k)) ks)"

definition createExtendedPushEventFilterInternal ::
  "NpHandler \<Rightarrow> s32 \<Rightarrow> s32 \<Rightarrow> bytes option \<Rightarrow> u32 \<Rightarrow> OrbisNpWebApiExtdPushEventFilterParameter list option \<Rightarrow> bool \<Rightarrow> 'w web_op" where
  "createExtendedPushEventFilterInternal h c handle_id np_service_name np_service_label filter_param internal s =
     (case Option.bind (context_at c s) (\<lambda>x. map_of (wc_handles x) handle_id) of
        None \<Rightarrow> (ORBIS_NP_WEBAPI_ERROR_HANDLE_NOT_FOUND, s)
      | Some _ \<Rightarrow>
          if np_service_name \<noteq> None \<and> \<not> hn_initialized h then (ORBIS_NP_WEBAPI_ERROR_SIGNED_IN_USER_NOT_FOUND, s)
          else
            let i = next_count (wa_extended_filter_count s);
                ps = (case filter_param of None \<Rightarrow> [] | Some ps \<Rightarrow> ps);
                flt = \<lparr>xf_filter_id = i, xf_internal = internal, xf_params = map ep_data_type ps, xf_extd_data_keys = map extd_keys ps,
                       xf_service_name = (case np_service_name of None \<Rightarrow> [] | Some x \<Rightarrow> x),
                       xf_service_label = (if np_service_name = None then -1 else np_service_label)\<rparr>
            in (i, upd_context c (\<lambda>x. x\<lparr>wc_extended_filters := omap_put i flt (wc_extended_filters x)\<rparr>)
                     (s\<lparr>wa_extended_filter_count := i\<rparr>)))"

definition createExtendedPushEventFilter ::
  "NpHandler \<Rightarrow> u64 \<Rightarrow> s32 \<Rightarrow> s32 \<Rightarrow> bytes option \<Rightarrow> u32 \<Rightarrow> OrbisNpWebApiExtdPushEventFilterParameter list option \<Rightarrow> bool \<Rightarrow>
   'w web_op" where
  "createExtendedPushEventFilter h now lib_ctx_id handle_id np_service_name np_service_label filter_param internal =
     with_context lib_ctx_id (\<lambda>s. createExtendedPushEventFilterInternal h lib_ctx_id handle_id np_service_name np_service_label
       filter_param internal (startHandleTimer now lib_ctx_id handle_id s))"

definition deleteExtendedPushEventFilterInternal :: "s32 \<Rightarrow> s32 \<Rightarrow> 'w web_op" where
  "deleteExtendedPushEventFilterInternal c filter_id s =
     (case Option.bind (context_at c s) (\<lambda>x. map_of (wc_extended_filters x) filter_id) of
        None \<Rightarrow> (ORBIS_NP_WEBAPI_ERROR_EXTD_PUSH_EVENT_FILTER_NOT_FOUND, s)
      | Some _ \<Rightarrow> (ORBIS_OK, upd_context c (\<lambda>x. x\<lparr>wc_extended_filters := omap_erase filter_id (wc_extended_filters x)\<rparr>) s))"

definition deleteExtendedPushEventFilter :: "s32 \<Rightarrow> s32 \<Rightarrow> 'w web_op" where
  "deleteExtendedPushEventFilter lib_ctx_id filter_id =
     with_context lib_ctx_id (deleteExtendedPushEventFilterInternal lib_ctx_id filter_id)"

section \<open>Callbacks\<close>

definition registerPushEventCallbackInternal :: "s32 \<Rightarrow> s32 \<Rightarrow> s32 \<Rightarrow> addr option \<Rightarrow> addr option \<Rightarrow> 'w web_op" where
  "registerPushEventCallbackInternal c u filter_id func user_arg s =
     (let i = next_count (wa_callback_count s)
      in (i, upd_user c u (\<lambda>uc. uc\<lparr>wu_push_callbacks := omap_put i
               \<lparr>pc_callback_id = i, pc_filter_id = filter_id, pc_cb_func = func, pc_user_arg = user_arg\<rparr> (wu_push_callbacks uc)\<rparr>)
             (s\<lparr>wa_callback_count := i\<rparr>)))"

definition registerPushEventCallback :: "s32 \<Rightarrow> s32 \<Rightarrow> addr option \<Rightarrow> addr option \<Rightarrow> 'w web_op" where
  "registerPushEventCallback title_user_ctx_id filter_id func user_arg = with_user title_user_ctx_id (\<lambda>c u s.
     if sdk_at_least WEB_FW_250 s \<and> Option.bind (context_at c s) (\<lambda>x. map_of (wc_push_filters x) filter_id) = None
     then (ORBIS_NP_WEBAPI_ERROR_PUSH_EVENT_FILTER_NOT_FOUND, s)
     else registerPushEventCallbackInternal c u filter_id func user_arg s)"

definition unregisterPushEventCallback :: "s32 \<Rightarrow> s32 \<Rightarrow> 'w web_op" where
  "unregisterPushEventCallback title_user_ctx_id callback_id = with_user title_user_ctx_id (\<lambda>c u s.
     if Option.bind (user_at c u s) (\<lambda>uc. map_of (wu_push_callbacks uc) callback_id) = None
     then (ORBIS_NP_WEBAPI_ERROR_PUSH_EVENT_CALLBACK_NOT_FOUND, s)
     else (ORBIS_OK, upd_user c u (\<lambda>uc. uc\<lparr>wu_push_callbacks := omap_erase callback_id (wu_push_callbacks uc)\<rparr>) s))"

definition registerServicePushEventCallbackInternal ::
  "s32 \<Rightarrow> s32 \<Rightarrow> s32 \<Rightarrow> addr option \<Rightarrow> addr option \<Rightarrow> addr option \<Rightarrow> addr option \<Rightarrow> 'w web_op" where
  "registerServicePushEventCallbackInternal c u filter_id func int_cb_func int_cb_func_a user_arg s =
     (if func = None \<and> int_cb_func = None \<and> int_cb_func_a = None then (ORBIS_NP_WEBAPI_ERROR_INVALID_ARGUMENT, s)
      else
        let i = next_count (wa_callback_count s)
        in (i, upd_user c u (\<lambda>uc. uc\<lparr>wu_service_callbacks := omap_put i
                 \<lparr>sv_callback_id = i, sv_filter_id = filter_id, sv_cb_func = func, sv_internal_cb_func = int_cb_func,
                  sv_internal_cb_func_a = int_cb_func_a, sv_user_arg = user_arg\<rparr> (wu_service_callbacks uc)\<rparr>)
               (s\<lparr>wa_callback_count := i\<rparr>)))"

definition registerServicePushEventCallback ::
  "s32 \<Rightarrow> s32 \<Rightarrow> addr option \<Rightarrow> addr option \<Rightarrow> addr option \<Rightarrow> addr option \<Rightarrow> 'w web_op" where
  "registerServicePushEventCallback title_user_ctx_id filter_id func int_cb_func int_cb_func_a user_arg =
     with_user title_user_ctx_id (\<lambda>c u s.
       if sdk_at_least WEB_FW_250 s \<and> Option.bind (context_at c s) (\<lambda>x. map_of (wc_service_filters x) filter_id) = None
       then (ORBIS_NP_WEBAPI_ERROR_SERVICE_PUSH_EVENT_FILTER_NOT_FOUND, s)
       else registerServicePushEventCallbackInternal c u filter_id func int_cb_func int_cb_func_a user_arg s)"

definition unregisterServicePushEventCallback :: "s32 \<Rightarrow> s32 \<Rightarrow> 'w web_op" where
  "unregisterServicePushEventCallback title_user_ctx_id callback_id = with_user title_user_ctx_id (\<lambda>c u s.
     if Option.bind (user_at c u s) (\<lambda>uc. map_of (wu_service_callbacks uc) callback_id) = None
     then (ORBIS_NP_WEBAPI_ERROR_SERVICE_PUSH_EVENT_CALLBACK_NOT_FOUND, s)
     else (ORBIS_OK, upd_user c u (\<lambda>uc. uc\<lparr>wu_service_callbacks := omap_erase callback_id (wu_service_callbacks uc)\<rparr>) s))"

text \<open>The counter goes on even when no function is given.\<close>

definition registerExtdPushEventCallbackInternal ::
  "s32 \<Rightarrow> s32 \<Rightarrow> s32 \<Rightarrow> addr option \<Rightarrow> addr option \<Rightarrow> addr option \<Rightarrow> 'w web_op" where
  "registerExtdPushEventCallbackInternal c u filter_id func func_a user_arg s =
     (let i = next_count (wa_callback_count s); s1 = s\<lparr>wa_callback_count := i\<rparr>
      in if func = None \<and> func_a = None then (ORBIS_NP_WEBAPI_ERROR_INVALID_ARGUMENT, s1)
         else (i, upd_user c u (\<lambda>uc. uc\<lparr>wu_extended_callbacks := omap_put i
                    \<lparr>xc_callback_id = i, xc_filter_id = filter_id, xc_cb_func = func, xc_cb_func_a = func_a,
                     xc_user_arg = user_arg\<rparr> (wu_extended_callbacks uc)\<rparr>) s1))"

definition registerExtdPushEventCallback ::
  "s32 \<Rightarrow> s32 \<Rightarrow> addr option \<Rightarrow> addr option \<Rightarrow> addr option \<Rightarrow> 'w web_op" where
  "registerExtdPushEventCallback title_user_ctx_id filter_id func func_a user_arg =
     with_user title_user_ctx_id (\<lambda>c u s.
       if Option.bind (context_at c s) (\<lambda>x. map_of (wc_extended_filters x) filter_id) = None
       then (ORBIS_NP_WEBAPI_ERROR_EXTD_PUSH_EVENT_FILTER_NOT_FOUND, s)
       else registerExtdPushEventCallbackInternal c u filter_id func func_a user_arg s)"

definition registerExtdPushEventCallbackA :: "s32 \<Rightarrow> s32 \<Rightarrow> addr option \<Rightarrow> addr option \<Rightarrow> 'w web_op" where
  "registerExtdPushEventCallbackA title_user_ctx_id filter_id func user_arg =
     registerExtdPushEventCallback title_user_ctx_id filter_id None func user_arg"

definition unregisterExtdPushEventCallback :: "s32 \<Rightarrow> s32 \<Rightarrow> 'w web_op" where
  "unregisterExtdPushEventCallback title_user_ctx_id callback_id = with_user title_user_ctx_id (\<lambda>c u s.
     if Option.bind (user_at c u s) (\<lambda>uc. map_of (wu_extended_callbacks uc) callback_id) = None
     then (ORBIS_NP_WEBAPI_ERROR_EXTD_PUSH_EVENT_CALLBACK_NOT_FOUND, s)
     else (ORBIS_OK, upd_user c u (\<lambda>uc. uc\<lparr>wu_extended_callbacks := omap_erase callback_id (wu_extended_callbacks uc)\<rparr>) s))"

section \<open>Dispatch\<close>

text \<open>
  The calls of the game's functions: the function, user context, callback id, service and label, the
  receiver and the sender as account and online id, the data type, the data, the extended data, and
  the argument of the game. Extended callbacks are always called with the signature of the newer ones.
\<close>

datatype PushCall =
    ExtdPush addr s32 s32 "bytes option" u32 "u64 option" "OrbisNpOnlineId option" "u64 option" "OrbisNpOnlineId option"
      bytes "bytes option" "(bytes \<times> bytes) list option" "addr option"
  | ServicePush addr s32 s32 "bytes option" u32 OrbisNpOnlineId OrbisNpOnlineId bytes "bytes option" "addr option"
  | BasicPush addr s32 s32 OrbisNpOnlineId OrbisNpOnlineId bytes "bytes option" "addr option"

definition c_str :: "bytes \<Rightarrow> bytes" where "c_str v = takeWhile (\<lambda>b. b \<noteq> 0) v"

text \<open>\<open>snprintf\<close> of a string into an array of \<open>n + 1\<close> characters.\<close>

definition text_array :: "nat \<Rightarrow> bytes \<Rightarrow> bytes" where "text_array n v = strncpy0 n v @ [0]"

definition filterMatches :: "bytes \<Rightarrow> u32 \<Rightarrow> bytes list \<Rightarrow> PushEventInput \<Rightarrow> bool" where
  "filterMatches service_name service_label params ev \<longleftrightarrow>
     (if service_name = [] \<and> service_label = 0xffffffff then ev_np_service_name ev = []
      else ev_np_service_name ev \<noteq> [] \<and> service_name = ev_np_service_name ev) \<and>
     (\<exists>p \<in> set params. ev_data_type ev = c_str p)"

text \<open>The keys of the first parameter with the data type.\<close>

definition wanted_keys :: "OrbisNpWebApiExtendedPushEventFilter \<Rightarrow> bytes \<Rightarrow> bytes list" where
  "wanted_keys flt data_type =
     (case find (\<lambda>(p, _). data_type = c_str p) (zip (xf_params flt) (xf_extd_data_keys flt)) of None \<Rightarrow> [] | Some (_, ks) \<Rightarrow> ks)"

definition nonempty :: "'a list \<Rightarrow> 'a list option" where "nonempty xs = (if xs = [] then None else Some xs)"

definition peer_id :: "bool \<Rightarrow> OrbisNpOnlineId \<Rightarrow> OrbisNpOnlineId" where
  "peer_id has online_id = (if has then online_id else zero_online_id)"

definition account_of :: "u64 \<Rightarrow> u64 option" where "account_of a = (if a \<noteq> 0 then Some a else None)"

definition extended_call ::
  "PushEventInput \<Rightarrow> OrbisNpWebApiContext \<Rightarrow> s32 \<Rightarrow> s32 \<times> OrbisNpWebApiRegisteredExtendedPushEventCallback \<Rightarrow> PushCall option" where
  "extended_call ev x u entry =
     (case entry of (cb_id, cb) \<Rightarrow>
        (case (if xc_cb_func_a cb \<noteq> None then xc_cb_func_a cb else xc_cb_func cb) of
           None \<Rightarrow> None
         | Some raw \<Rightarrow>
             (case map_of (wc_extended_filters x) (xc_filter_id cb) of
                None \<Rightarrow> None
              | Some flt \<Rightarrow>
                  if \<not> filterMatches (xf_service_name flt) (xf_service_label flt) (xf_params flt) ev then None
                  else Some (ExtdPush raw u cb_id (nonempty (xf_service_name flt)) (xf_service_label flt)
                    (account_of (ev_to_account_id ev)) (if ev_has_to ev then Some (ev_to_online_id ev) else None)
                    (account_of (ev_from_account_id ev)) (if ev_has_from ev then Some (ev_from_online_id ev) else None)
                    (text_array 64 (ev_data_type ev)) (nonempty (ev_data ev))
                    (nonempty (map (\<lambda>(k, v). (text_array 32 k, v))
                       (filter (\<lambda>(k, _). k \<in> set (wanted_keys flt (ev_data_type ev))) (ev_extd_data ev))))
                    (xc_user_arg cb)))))"

definition service_call ::
  "PushEventInput \<Rightarrow> OrbisNpWebApiContext \<Rightarrow> s32 \<Rightarrow> s32 \<times> OrbisNpWebApiRegisteredServicePushEventCallback \<Rightarrow> PushCall option" where
  "service_call ev x u entry =
     (case entry of (cb_id, cb) \<Rightarrow>
        (case sv_cb_func cb of
           None \<Rightarrow> None
         | Some f \<Rightarrow>
             (case map_of (wc_service_filters x) (sv_filter_id cb) of
                None \<Rightarrow> None
              | Some flt \<Rightarrow>
                  if \<not> filterMatches (sf_service_name flt) (sf_service_label flt) (sf_params flt) ev then None
                  else Some (ServicePush f u cb_id (nonempty (sf_service_name flt)) (sf_service_label flt)
                    (peer_id (ev_has_to ev) (ev_to_online_id ev)) (peer_id (ev_has_from ev) (ev_from_online_id ev))
                    (text_array 64 (ev_data_type ev)) (nonempty (ev_data ev)) (sv_user_arg cb)))))"

definition basic_call ::
  "PushEventInput \<Rightarrow> OrbisNpWebApiContext \<Rightarrow> s32 \<Rightarrow> s32 \<times> OrbisNpWebApiRegisteredPushEventCallback \<Rightarrow> PushCall option" where
  "basic_call ev x u entry =
     (case entry of (cb_id, cb) \<Rightarrow>
        (case pc_cb_func cb of
           None \<Rightarrow> None
         | Some f \<Rightarrow>
             (case map_of (wc_push_filters x) (pc_filter_id cb) of
                None \<Rightarrow> None
              | Some flt \<Rightarrow>
                  if \<not> (\<exists>p \<in> set (pf_params flt). ev_data_type ev = c_str p) then None
                  else Some (BasicPush f u cb_id (peer_id (ev_has_to ev) (ev_to_online_id ev))
                    (peer_id (ev_has_from ev) (ev_from_online_id ev)) (text_array 64 (ev_data_type ev)) (nonempty (ev_data ev))
                    (pc_user_arg cb)))))"

text \<open>The calls for one user context: extended, service, and without a service the basic ones.\<close>

definition user_calls :: "PushEventInput \<Rightarrow> OrbisNpWebApiContext \<Rightarrow> s32 \<times> OrbisNpWebApiUserContext \<Rightarrow> PushCall list" where
  "user_calls ev x entry =
     (case entry of (u, uc) \<Rightarrow>
        if wu_user_id uc \<noteq> ev_target_user_id ev then []
        else List.map_filter (extended_call ev x u) (wu_extended_callbacks uc) @
             List.map_filter (service_call ev x u) (wu_service_callbacks uc) @
             (if ev_np_service_name ev = [] then List.map_filter (basic_call ev x u) (wu_push_callbacks uc) else []))"

definition dispatch_event :: "'w WebApi \<Rightarrow> PushEventInput \<Rightarrow> PushCall list" where
  "dispatch_event s ev = concat (map (\<lambda>(_, x). concat (map (user_calls ev x) (wc_user_contexts x))) (wa_contexts s))"

definition enqueue_push_event :: "PushEventInput \<Rightarrow> 'w WebApi \<Rightarrow> 'w WebApi" where
  "enqueue_push_event ev s = s\<lparr>wa_push_queue := wa_push_queue s @ [ev]\<rparr>"

definition DrainPushEvents :: "'w WebApi \<Rightarrow> PushCall list \<times> 'w WebApi" where
  "DrainPushEvents s = (concat (map (dispatch_event s) (wa_push_queue s)), s\<lparr>wa_push_queue := []\<rparr>)"

end
