(* ===== verification/WebApi.thy ===== *)
theory WebApi
  imports WebApiPush
begin

text \<open>
  The functions of the web API library that a game calls (np_web_api.cpp): the checks of their arguments,
  starting and terminating the library. A parameter array is given by its elements, none for a null
  pointer; an array of no elements stands for a length of zero.
\<close>

section \<open>Starting and terminating\<close>

text \<open>Each way to start gives its context another type; \<open>answer\<close> is that of the kernel to the version query.\<close>

definition start_library :: "s32 \<times> s32 \<Rightarrow> s32 \<Rightarrow> u64 \<Rightarrow> bytes option \<Rightarrow> s32 \<Rightarrow> 'w web_op" where
  "start_library answer lib_http_ctx_id pool_size name type s =
     (let (result, s1) = (if wa_is_initialized s then (ORBIS_OK, s)
                          else initializeLibrary answer (s\<lparr>wa_is_initialized := True\<rparr>))
      in if result < ORBIS_OK then (result, s1)
         else (case createLibraryContext lib_http_ctx_id pool_size name type s1 of
                 (ctx, s2) \<Rightarrow>
                   (ctx, if ctx \<ge> ORBIS_OK then s2\<lparr>wa_active_library_contexts := wa_active_library_contexts s2 + 1\<rparr> else s2)))"

definition sceNpWebApiInitialize :: "s32 \<times> s32 \<Rightarrow> s32 \<Rightarrow> u64 \<Rightarrow> 'w web_op" where
  "sceNpWebApiInitialize answer lib_http_ctx_id pool_size = start_library answer lib_http_ctx_id pool_size None 0"

definition sceNpWebApiInitializeForPresence :: "s32 \<times> s32 \<Rightarrow> s32 \<Rightarrow> u64 \<Rightarrow> 'w web_op" where
  "sceNpWebApiInitializeForPresence answer lib_http_ctx_id pool_size = start_library answer lib_http_ctx_id pool_size None 3"

definition sceNpWebApiVshInitialize :: "s32 \<times> s32 \<Rightarrow> s32 \<Rightarrow> u64 \<Rightarrow> 'w web_op" where
  "sceNpWebApiVshInitialize answer lib_http_ctx_id pool_size = start_library answer lib_http_ctx_id pool_size None 4"

record OrbisNpWebApiInitializeParameter =
  ip_lib_http_ctx_id :: u32
  ip_pool_size :: u64
  ip_name :: "bytes option"
  ip_struct_size :: u64

definition sizeof_initialize_parameter :: u64 where "sizeof_initialize_parameter = 32"

definition sceNpWebApiIntInitialize :: "s32 \<times> s32 \<Rightarrow> OrbisNpWebApiInitializeParameter option \<Rightarrow> 'w web_op" where
  "sceNpWebApiIntInitialize answer args s =
     (case args of
        None \<Rightarrow> (ORBIS_NP_WEBAPI_ERROR_INVALID_ARGUMENT, s)
      | Some p \<Rightarrow>
          if ip_struct_size p \<noteq> sizeof_initialize_parameter then (ORBIS_NP_WEBAPI_ERROR_INVALID_ARGUMENT, s)
          else start_library answer (to_s32 (uint (ip_lib_http_ctx_id p))) (ip_pool_size p) (ip_name p) 2 s)"

text \<open>What follows the termination of a context.\<close>

definition terminated :: "s32 option \<times> 'w WebApi \<Rightarrow> s32 option \<times> 'w WebApi" where
  "terminated x =
     (case x of
        (Some r, s) \<Rightarrow>
          (Some r, if r = ORBIS_OK
                   then s\<lparr>wa_active_library_contexts := wa_active_library_contexts s - 1,
                          wa_is_initialized := (wa_active_library_contexts s - 1 \<noteq> 0 \<and> wa_is_initialized s)\<rparr>
                   else s)
      | (None, s) \<Rightarrow> (None, s))"

definition sceNpWebApiTerminate :: "'w HttpLib \<Rightarrow> s32 \<Rightarrow> 'w web_wait" where
  "sceNpWebApiTerminate lib lib_ctx_id s = terminated (terminateContext lib lib_ctx_id s)"

definition sceNpWebApiCheckTimeout :: "'w HttpLib \<Rightarrow> u64 \<Rightarrow> 'w WebApi \<Rightarrow> 'w WebApi" where
  "sceNpWebApiCheckTimeout lib now s = (if wa_is_initialized s then checkTimeout lib now s else s)"

section \<open>User contexts\<close>

definition sceNpWebApiCreateContext :: "s32 \<Rightarrow> s32 \<Rightarrow> OrbisNpOnlineId option \<Rightarrow> 'w web_op" where
  "sceNpWebApiCreateContext initial_user lib_ctx_id online_id s =
     (if lib_ctx_id \<ge> 0x8000 then (ORBIS_NP_WEBAPI_ERROR_INVALID_LIB_CONTEXT_ID, s)
      else if online_id = None then (ORBIS_NP_WEBAPI_ERROR_INVALID_ARGUMENT, s)
      else createUserContextWithOnlineId initial_user lib_ctx_id s)"

definition sceNpWebApiCreateContextA :: "s32 \<Rightarrow> s32 \<Rightarrow> 'w web_op" where
  "sceNpWebApiCreateContextA lib_ctx_id user_id s =
     (if lib_ctx_id \<ge> 0x8000 then (ORBIS_NP_WEBAPI_ERROR_INVALID_LIB_CONTEXT_ID, s)
      else if user_id = ORBIS_USER_SERVICE_USER_ID_INVALID then (ORBIS_NP_WEBAPI_ERROR_INVALID_ARGUMENT, s)
      else createUserContext lib_ctx_id user_id s)"

definition sceNpWebApiDeleteContext :: "'w HttpLib \<Rightarrow> s32 \<Rightarrow> 'w web_wait" where
  "sceNpWebApiDeleteContext = deleteUserContext"

definition sceNpWebApiRegisterNotificationCallback :: "s32 \<Rightarrow> addr option \<Rightarrow> addr option \<Rightarrow> 'w web_op" where
  "sceNpWebApiRegisterNotificationCallback title_user_ctx_id func user_arg s =
     (if func = None then (ORBIS_NP_WEBAPI_ERROR_INVALID_ARGUMENT, s)
      else registerNotificationCallback title_user_ctx_id func user_arg s)"

definition sceNpWebApiUnregisterNotificationCallback :: "s32 \<Rightarrow> 'w web_op" where
  "sceNpWebApiUnregisterNotificationCallback = unregisterNotificationCallback"

section \<open>Handles\<close>

definition sceNpWebApiCreateHandle :: "s32 \<Rightarrow> 'w web_op" where "sceNpWebApiCreateHandle = createHandle"
definition sceNpWebApiAbortHandle :: "s32 \<Rightarrow> s32 \<Rightarrow> 'w web_op" where "sceNpWebApiAbortHandle = abortHandle"
definition sceNpWebApiDeleteHandle :: "s32 \<Rightarrow> s32 \<Rightarrow> 'w web_wait" where "sceNpWebApiDeleteHandle = deleteHandle"
definition sceNpWebApiSetHandleTimeout :: "s32 \<Rightarrow> s32 \<Rightarrow> u32 \<Rightarrow> 'w web_op" where "sceNpWebApiSetHandleTimeout = setHandleTimeout"

section \<open>Requests\<close>

definition bad_content :: "OrbisNpWebApiContentParameter option \<Rightarrow> bool" where
  "bad_content p = (case p of None \<Rightarrow> False | Some x \<Rightarrow> ct_content_length x \<noteq> 0 \<and> ct_content_type x = None)"

definition sceNpWebApiCreateRequest ::
  "s32 \<Rightarrow> bytes option \<Rightarrow> bytes option \<Rightarrow> s32 \<Rightarrow> OrbisNpWebApiContentParameter option \<Rightarrow>
   'w WebApi \<Rightarrow> (s32 \<times> s64 option) \<times> 'w WebApi" where
  "sceNpWebApiCreateRequest title_user_ctx_id api_group path method content_parameter s =
     (if api_group = None \<or> path = None then ((ORBIS_NP_WEBAPI_ERROR_INVALID_ARGUMENT, None), s)
      else if bad_content content_parameter then ((ORBIS_NP_WEBAPI_ERROR_INVALID_CONTENT_PARAMETER, None), s)
      else if sdk_at_least WEB_FW_250 s \<and> method > 3 then ((ORBIS_NP_WEBAPI_ERROR_INVALID_ARGUMENT, None), s)
      else createRequest title_user_ctx_id api_group path method content_parameter False s)"

definition sceNpWebApiIntCreateRequest ::
  "s32 \<Rightarrow> bytes option \<Rightarrow> bytes option \<Rightarrow> s32 \<Rightarrow> OrbisNpWebApiContentParameter option \<Rightarrow>
   'w WebApi \<Rightarrow> (s32 \<times> s64 option) \<times> 'w WebApi" where
  "sceNpWebApiIntCreateRequest title_user_ctx_id api_group path method content_parameter s =
     (if api_group = None \<or> path = None \<or> method > 4 then ((ORBIS_NP_WEBAPI_ERROR_INVALID_ARGUMENT, None), s)
      else if bad_content content_parameter then ((ORBIS_NP_WEBAPI_ERROR_INVALID_CONTENT_PARAMETER, None), s)
      else createRequest title_user_ctx_id api_group path method content_parameter False s)"

definition sceNpWebApiCreateMultipartRequest ::
  "s32 \<Rightarrow> bytes option \<Rightarrow> bytes option \<Rightarrow> s32 \<Rightarrow> 'w WebApi \<Rightarrow> (s32 \<times> s64 option) \<times> 'w WebApi" where
  "sceNpWebApiCreateMultipartRequest title_user_ctx_id api_group path method s =
     (if api_group = None \<or> path = None then ((ORBIS_NP_WEBAPI_ERROR_INVALID_ARGUMENT, None), s)
      else if sdk_at_least WEB_FW_250 s \<and> method > 3 then ((ORBIS_NP_WEBAPI_ERROR_INVALID_ARGUMENT, None), s)
      else createRequest title_user_ctx_id api_group path method None True s)"

definition sceNpWebApiAbortRequest :: "'w HttpLib \<Rightarrow> s64 \<Rightarrow> 'w web_op" where "sceNpWebApiAbortRequest = abortRequest"
definition sceNpWebApiDeleteRequest :: "'w HttpLib \<Rightarrow> s64 \<Rightarrow> 'w web_wait" where "sceNpWebApiDeleteRequest = deleteRequest"
definition sceNpWebApiSetRequestTimeout :: "s64 \<Rightarrow> u32 \<Rightarrow> 'w web_op" where "sceNpWebApiSetRequestTimeout = setRequestTimeout"

definition sceNpWebApiSetMultipartContentType :: "s64 \<Rightarrow> bytes option \<Rightarrow> bytes option \<Rightarrow> 'w web_op" where
  "sceNpWebApiSetMultipartContentType = setMultipartContentType"

definition sceNpWebApiAddMultipartPart ::
  "s64 \<Rightarrow> OrbisNpWebApiMultipartPartParameter option \<Rightarrow> 'w WebApi \<Rightarrow> (s32 \<times> s32 option) \<times> 'w WebApi" where
  "sceNpWebApiAddMultipartPart = addMultipartPart"

definition sceNpWebApiAddHttpRequestHeader :: "s64 \<Rightarrow> bytes option \<Rightarrow> bytes option \<Rightarrow> 'w web_op" where
  "sceNpWebApiAddHttpRequestHeader request_id field_name v s =
     (case (field_name, v) of
        (Some n, Some x) \<Rightarrow> addHttpRequestHeaderInternal request_id n x s
      | _ \<Rightarrow> (ORBIS_NP_WEBAPI_ERROR_INVALID_ARGUMENT, s))"

type_synonym 'w send_op = "'w WebApi \<Rightarrow> (s32 \<times> OrbisNpWebApiResponseInformationOption) \<times> 'w WebApi"

definition sceNpWebApiSendRequest ::
  "'w HttpLib \<Rightarrow> bytes \<Rightarrow> NpHandler \<Rightarrow> u64 \<Rightarrow> s64 \<Rightarrow> bytes option \<Rightarrow> u64 \<Rightarrow> 'w send_op" where
  "sceNpWebApiSendRequest lib base_url h now request_id dat data_size =
     sendRequest lib base_url h now request_id 0 dat data_size False None"

definition sceNpWebApiSendRequest2 ::
  "'w HttpLib \<Rightarrow> bytes \<Rightarrow> NpHandler \<Rightarrow> u64 \<Rightarrow> s64 \<Rightarrow> bytes option \<Rightarrow> u64 \<Rightarrow> (bool \<times> u64) option \<Rightarrow> 'w send_op" where
  "sceNpWebApiSendRequest2 lib base_url h now request_id dat data_size info =
     sendRequest lib base_url h now request_id 0 dat data_size True info"

definition sceNpWebApiSendMultipartRequest ::
  "'w HttpLib \<Rightarrow> bytes \<Rightarrow> NpHandler \<Rightarrow> u64 \<Rightarrow> s64 \<Rightarrow> s32 \<Rightarrow> bytes option \<Rightarrow> u64 \<Rightarrow> 'w send_op" where
  "sceNpWebApiSendMultipartRequest lib base_url h now request_id part_index dat data_size s =
     (if part_index \<le> 0 \<or> dat = None \<or> data_size = 0 then ((ORBIS_NP_WEBAPI_ERROR_INVALID_ARGUMENT, no_response), s)
      else sendRequest lib base_url h now request_id part_index dat data_size False None s)"

definition sceNpWebApiSendMultipartRequest2 ::
  "'w HttpLib \<Rightarrow> bytes \<Rightarrow> NpHandler \<Rightarrow> u64 \<Rightarrow> s64 \<Rightarrow> s32 \<Rightarrow> bytes option \<Rightarrow> u64 \<Rightarrow> (bool \<times> u64) option \<Rightarrow> 'w send_op" where
  "sceNpWebApiSendMultipartRequest2 lib base_url h now request_id part_index dat data_size info s =
     (if part_index \<le> 0 \<or> dat = None \<or> data_size = 0 then ((ORBIS_NP_WEBAPI_ERROR_INVALID_ARGUMENT, no_response), s)
      else sendRequest lib base_url h now request_id part_index dat data_size True info s)"

section \<open>Responses\<close>

definition sceNpWebApiGetErrorCode :: "'w WebApi \<Rightarrow> s32" where "sceNpWebApiGetErrorCode = getLastWebApiError"

definition sceNpWebApiGetHttpResponseHeaderValue ::
  "'w HttpLib \<Rightarrow> s64 \<Rightarrow> bytes option \<Rightarrow> bool \<Rightarrow> u64 \<Rightarrow> 'w WebApi \<Rightarrow> (s32 \<times> u64 option \<times> bytes option) \<times> 'w WebApi" where
  "sceNpWebApiGetHttpResponseHeaderValue lib request_id field_name has_value value_size s =
     (case field_name of
        None \<Rightarrow> ((ORBIS_NP_WEBAPI_ERROR_INVALID_ARGUMENT, None, None), s)
      | Some f \<Rightarrow>
          if \<not> has_value \<or> value_size = 0 then ((ORBIS_NP_WEBAPI_ERROR_INVALID_ARGUMENT, None, None), s)
          else getHttpResponseHeaderValueInternal lib request_id f has_value value_size False s)"

definition sceNpWebApiGetHttpResponseHeaderValueLength ::
  "'w HttpLib \<Rightarrow> s64 \<Rightarrow> bytes option \<Rightarrow> bool \<Rightarrow> 'w WebApi \<Rightarrow> (s32 \<times> u64 option \<times> bytes option) \<times> 'w WebApi" where
  "sceNpWebApiGetHttpResponseHeaderValueLength lib request_id field_name has_length s =
     (case field_name of
        None \<Rightarrow> ((ORBIS_NP_WEBAPI_ERROR_INVALID_ARGUMENT, None, None), s)
      | Some f \<Rightarrow>
          if \<not> has_length then ((ORBIS_NP_WEBAPI_ERROR_INVALID_ARGUMENT, None, None), s)
          else getHttpResponseHeaderValueInternal lib request_id f False 0 has_length s)"

definition sceNpWebApiGetHttpStatusCode :: "'w HttpLib \<Rightarrow> s64 \<Rightarrow> bool \<Rightarrow> 'w WebApi \<Rightarrow> (s32 \<times> s32 option) \<times> 'w WebApi" where
  "sceNpWebApiGetHttpStatusCode lib request_id has_out s =
     (if word_of_int (wa_sdk_ver s) > WEB_FW_100 \<and> \<not> has_out then ((ORBIS_NP_WEBAPI_ERROR_INVALID_ARGUMENT, None), s)
      else (case getHttpStatusCodeInternal lib request_id s of
              ((r, st), s1) \<Rightarrow> ((r, if has_out then st else None), s1)))"

definition sceNpWebApiReadData :: "'w HttpLib \<Rightarrow> u64 \<Rightarrow> s64 \<Rightarrow> bool \<Rightarrow> u64 \<Rightarrow> 'w WebApi \<Rightarrow> (s32 \<times> bytes) \<times> 'w WebApi" where
  "sceNpWebApiReadData lib now request_id has_data len s =
     (if \<not> has_data \<or> len = 0 then ((ORBIS_NP_WEBAPI_ERROR_INVALID_ARGUMENT, []), s)
      else readDataInternal lib now request_id len s)"

section \<open>Filters and callbacks\<close>

definition no_params :: "'p list option \<Rightarrow> bool" where "no_params p \<longleftrightarrow> p = None \<or> p = Some []"

definition sceNpWebApiCreatePushEventFilter :: "s32 \<Rightarrow> bytes list option \<Rightarrow> 'w web_op" where
  "sceNpWebApiCreatePushEventFilter lib_ctx_id filter_param s =
     (if no_params filter_param then (ORBIS_NP_WEBAPI_ERROR_INVALID_ARGUMENT, s)
      else createPushEventFilter lib_ctx_id filter_param s)"

definition sceNpWebApiCreateServicePushEventFilter ::
  "NpHandler \<Rightarrow> u64 \<Rightarrow> s32 \<Rightarrow> s32 \<Rightarrow> bytes option \<Rightarrow> u32 \<Rightarrow> bytes list option \<Rightarrow> 'w web_op" where
  "sceNpWebApiCreateServicePushEventFilter h now lib_ctx_id handle_id np_service_name np_service_label filter_param s =
     (if np_service_name = None \<or> no_params filter_param then (ORBIS_NP_WEBAPI_ERROR_INVALID_ARGUMENT, s)
      else if sdk_at_least WEB_FW_200 s \<and> np_service_label = -1 then (ORBIS_NP_WEBAPI_ERROR_INVALID_ARGUMENT, s)
      else createServicePushEventFilter h now lib_ctx_id handle_id np_service_name np_service_label filter_param s)"

definition sceNpWebApiIntCreateServicePushEventFilter ::
  "NpHandler \<Rightarrow> u64 \<Rightarrow> s32 \<Rightarrow> s32 \<Rightarrow> bytes option \<Rightarrow> u32 \<Rightarrow> bytes list option \<Rightarrow> 'w web_op" where
  "sceNpWebApiIntCreateServicePushEventFilter h now lib_ctx_id handle_id np_service_name np_service_label filter_param s =
     (if no_params filter_param then (ORBIS_NP_WEBAPI_ERROR_INVALID_ARGUMENT, s)
      else createServicePushEventFilter h now lib_ctx_id handle_id np_service_name np_service_label filter_param s)"

definition sceNpWebApiCreateExtdPushEventFilter ::
  "NpHandler \<Rightarrow> u64 \<Rightarrow> s32 \<Rightarrow> s32 \<Rightarrow> bytes option \<Rightarrow> u32 \<Rightarrow> OrbisNpWebApiExtdPushEventFilterParameter list option \<Rightarrow> 'w web_op" where
  "sceNpWebApiCreateExtdPushEventFilter h now lib_ctx_id handle_id np_service_name np_service_label filter_param s =
     (if np_service_name \<noteq> None \<and> np_service_label = -1 \<or> no_params filter_param then (ORBIS_NP_WEBAPI_ERROR_INVALID_ARGUMENT, s)
      else createExtendedPushEventFilter h now lib_ctx_id handle_id np_service_name np_service_label filter_param False s)"

definition sceNpWebApiIntCreateCtxIndExtdPushEventFilter ::
  "NpHandler \<Rightarrow> u64 \<Rightarrow> s32 \<Rightarrow> s32 \<Rightarrow> OrbisNpWebApiExtdPushEventFilterParameter list option \<Rightarrow> 'w web_op" where
  "sceNpWebApiIntCreateCtxIndExtdPushEventFilter h now lib_ctx_id handle_id filter_param s =
     (if no_params filter_param then (ORBIS_NP_WEBAPI_ERROR_INVALID_ARGUMENT, s)
      else createExtendedPushEventFilter h now lib_ctx_id handle_id None (-1) filter_param True s)"

definition sceNpWebApiDeletePushEventFilter :: "s32 \<Rightarrow> s32 \<Rightarrow> 'w web_op" where
  "sceNpWebApiDeletePushEventFilter = deletePushEventFilter"
definition sceNpWebApiDeleteServicePushEventFilter :: "s32 \<Rightarrow> s32 \<Rightarrow> 'w web_op" where
  "sceNpWebApiDeleteServicePushEventFilter = deleteServicePushEventFilter"
definition sceNpWebApiDeleteExtdPushEventFilter :: "s32 \<Rightarrow> s32 \<Rightarrow> 'w web_op" where
  "sceNpWebApiDeleteExtdPushEventFilter = deleteExtendedPushEventFilter"

definition sceNpWebApiRegisterPushEventCallback :: "s32 \<Rightarrow> s32 \<Rightarrow> addr option \<Rightarrow> addr option \<Rightarrow> 'w web_op" where
  "sceNpWebApiRegisterPushEventCallback title_user_ctx_id filter_id func user_arg s =
     (if sdk_at_least WEB_FW_100 s \<and> func = None then (ORBIS_NP_WEBAPI_ERROR_INVALID_ARGUMENT, s)
      else registerPushEventCallback title_user_ctx_id filter_id func user_arg s)"

definition sceNpWebApiRegisterServicePushEventCallback :: "s32 \<Rightarrow> s32 \<Rightarrow> addr option \<Rightarrow> addr option \<Rightarrow> 'w web_op" where
  "sceNpWebApiRegisterServicePushEventCallback title_user_ctx_id filter_id func user_arg s =
     (if sdk_at_least WEB_FW_100 s \<and> func = None then (ORBIS_NP_WEBAPI_ERROR_INVALID_ARGUMENT, s)
      else registerServicePushEventCallback title_user_ctx_id filter_id func None None user_arg s)"

definition sceNpWebApiIntRegisterServicePushEventCallback :: "s32 \<Rightarrow> s32 \<Rightarrow> addr option \<Rightarrow> addr option \<Rightarrow> 'w web_op" where
  "sceNpWebApiIntRegisterServicePushEventCallback title_user_ctx_id filter_id func user_arg s =
     (if func = None then (ORBIS_NP_WEBAPI_ERROR_INVALID_ARGUMENT, s)
      else registerServicePushEventCallback title_user_ctx_id filter_id None func None user_arg s)"

definition sceNpWebApiIntRegisterServicePushEventCallbackA :: "s32 \<Rightarrow> s32 \<Rightarrow> addr option \<Rightarrow> addr option \<Rightarrow> 'w web_op" where
  "sceNpWebApiIntRegisterServicePushEventCallbackA title_user_ctx_id filter_id func user_arg s =
     (if func = None then (ORBIS_NP_WEBAPI_ERROR_INVALID_ARGUMENT, s)
      else registerServicePushEventCallback title_user_ctx_id filter_id None None func user_arg s)"

definition sceNpWebApiRegisterExtdPushEventCallback :: "s32 \<Rightarrow> s32 \<Rightarrow> addr option \<Rightarrow> addr option \<Rightarrow> 'w web_op" where
  "sceNpWebApiRegisterExtdPushEventCallback title_user_ctx_id filter_id func user_arg s =
     (if func = None then (ORBIS_NP_WEBAPI_ERROR_INVALID_ARGUMENT, s)
      else registerExtdPushEventCallback title_user_ctx_id filter_id func None user_arg s)"

definition sceNpWebApiRegisterExtdPushEventCallbackA :: "s32 \<Rightarrow> s32 \<Rightarrow> addr option \<Rightarrow> addr option \<Rightarrow> 'w web_op" where
  "sceNpWebApiRegisterExtdPushEventCallbackA title_user_ctx_id filter_id func user_arg s =
     (if func = None then (ORBIS_NP_WEBAPI_ERROR_INVALID_ARGUMENT, s)
      else registerExtdPushEventCallbackA title_user_ctx_id filter_id func user_arg s)"

definition sceNpWebApiUnregisterPushEventCallback :: "s32 \<Rightarrow> s32 \<Rightarrow> 'w web_op" where
  "sceNpWebApiUnregisterPushEventCallback = unregisterPushEventCallback"
definition sceNpWebApiUnregisterServicePushEventCallback :: "s32 \<Rightarrow> s32 \<Rightarrow> 'w web_op" where
  "sceNpWebApiUnregisterServicePushEventCallback = unregisterServicePushEventCallback"
definition sceNpWebApiUnregisterExtdPushEventCallback :: "s32 \<Rightarrow> s32 \<Rightarrow> 'w web_op" where
  "sceNpWebApiUnregisterExtdPushEventCallback = unregisterExtdPushEventCallback"

section \<open>Stubs\<close>

definition sceNpWebApiClearAllUnusedConnection :: "s32 \<Rightarrow> bool \<Rightarrow> 'w web_op" where
  "sceNpWebApiClearAllUnusedConnection user_ctx_id remain_keep_alive_connection s = (ORBIS_OK, s)"
definition sceNpWebApiClearUnusedConnection :: "s32 \<Rightarrow> bytes option \<Rightarrow> bool \<Rightarrow> 'w web_op" where
  "sceNpWebApiClearUnusedConnection user_ctx_id api_group remain_keep_alive_connection s = (ORBIS_OK, s)"
definition sceNpWebApiGetConnectionStats :: "s32 \<Rightarrow> bytes option \<Rightarrow> 'w web_op" where
  "sceNpWebApiGetConnectionStats user_ctx_id api_group s = (ORBIS_OK, s)"
definition sceNpWebApiGetMemoryPoolStats :: "s32 \<Rightarrow> 'w web_op" where
  "sceNpWebApiGetMemoryPoolStats lib_ctx_id s = (ORBIS_OK, s)"
definition sceNpWebApiSetMaxConnection :: "s32 \<Rightarrow> s32 \<Rightarrow> 'w web_op" where
  "sceNpWebApiSetMaxConnection lib_ctx_id max_connection s = (ORBIS_OK, s)"

end
