(* ===== verification/WebApiCounts.thy ===== *)
theory WebApiCounts
  imports WebApi
begin

text \<open>
  The reference counts and locks of the web API library. \<open>counted e s\<close> says that each object of
  \<open>s\<close> is as often in use, and each context as often locked, as \<open>e\<close> expects, that it is stored under
  its own id and a user context under the id of its library context. The functions that find an
  object raise an expectation and those that release it lower it, so that an operation between the
  two is only shown to keep what is expected.
\<close>

section \<open>What is expected\<close>

record web_expect =
  we_lock :: "s32 \<Rightarrow> nat"
  we_ctx :: "s32 \<Rightarrow> int"
  we_user :: "s32 \<Rightarrow> s32 \<Rightarrow> int"
  we_req :: "s32 \<Rightarrow> s32 \<Rightarrow> s64 \<Rightarrow> int"

definition unused :: web_expect where
  "unused = \<lparr>we_lock = (\<lambda>_. 0), we_ctx = (\<lambda>_. 0), we_user = (\<lambda>_ _. 0), we_req = (\<lambda>_ _ _. 0)\<rparr>"

definition add_lock :: "s32 \<Rightarrow> web_expect \<Rightarrow> web_expect" where
  "add_lock c e = e\<lparr>we_lock := (we_lock e)(c := we_lock e c + 1)\<rparr>"
definition add_ctx :: "s32 \<Rightarrow> web_expect \<Rightarrow> web_expect" where
  "add_ctx c e = e\<lparr>we_ctx := (we_ctx e)(c := we_ctx e c + 1)\<rparr>"
definition add_user :: "s32 \<Rightarrow> s32 \<Rightarrow> web_expect \<Rightarrow> web_expect" where
  "add_user c u e = e\<lparr>we_user := (\<lambda>c' u'. if c' = c \<and> u' = u then we_user e c u + 1 else we_user e c' u')\<rparr>"
definition add_req :: "s32 \<Rightarrow> s32 \<Rightarrow> s64 \<Rightarrow> web_expect \<Rightarrow> web_expect" where
  "add_req c u r e = e\<lparr>we_req := (\<lambda>c' u' r'. if c' = c \<and> u' = u \<and> r' = r then we_req e c u r + 1 else we_req e c' u' r')\<rparr>"

lemmas expect_defs = unused_def add_lock_def add_ctx_def add_user_def add_req_def

section \<open>Objects that are as expected\<close>

text \<open>The count of a request may be lower: two operations release a request that they have not marked.\<close>

definition req_ok :: "web_expect \<Rightarrow> s32 \<Rightarrow> s32 \<Rightarrow> s64 \<times> OrbisNpWebApiRequest \<Rightarrow> bool" where
  "req_ok e c u p = (case p of (r, q) \<Rightarrow> wr_request_id q = r \<and> wr_user_count q \<le> we_req e c u r)"

definition user_ok :: "web_expect \<Rightarrow> s32 \<Rightarrow> s32 \<times> OrbisNpWebApiUserContext \<Rightarrow> bool" where
  "user_ok e c p = (case p of (u, uc) \<Rightarrow>
     wu_user_ctx_id uc = u \<and> lib_of_user u = c \<and> wu_user_count uc = we_user e c u \<and> \<not> wu_deleted uc \<and>
     omap_inv (wu_requests uc) \<and> omap_inv (wu_push_callbacks uc) \<and> omap_inv (wu_service_callbacks uc) \<and>
     omap_inv (wu_extended_callbacks uc) \<and> (\<forall>q \<in> set (wu_requests uc). req_ok e c u q))"

definition handle_ok :: "s32 \<times> OrbisNpWebApiHandle \<Rightarrow> bool" where
  "handle_ok p = (case p of (i, hdl) \<Rightarrow> wh_handle_id hdl = i \<and> wh_user_count hdl = 0)"

definition ctx_ok :: "web_expect \<Rightarrow> s32 \<times> OrbisNpWebApiContext \<Rightarrow> bool" where
  "ctx_ok e p = (case p of (c, x) \<Rightarrow>
     0 < c \<and> c < 0x8000 \<and> wc_lib_ctx_id x = c \<and> wc_user_count x = we_ctx e c \<and> wc_lock x = we_lock e c \<and> \<not> wc_terminated x \<and>
     omap_inv (wc_user_contexts x) \<and> (\<forall>h \<in> set (wc_handles x). handle_ok h) \<and>
     (\<forall>u \<in> set (wc_user_contexts x). user_ok e c u))"

definition counted :: "web_expect \<Rightarrow> 'w WebApi \<Rightarrow> bool" where
  "counted e s \<longleftrightarrow> 0 \<le> wa_library_context_count s \<and> 0 \<le> wa_user_context_count s \<and>
     omap_inv (wa_contexts s) \<and> (\<forall>p \<in> set (wa_contexts s). ctx_ok e p)"

lemma counted_frame [simp]:
  "counted e (s\<lparr>wa_http := w\<rparr>) = counted e s" "counted e (s\<lparr>wa_last_error := i\<rparr>) = counted e s"
  "counted e (s\<lparr>wa_handle_count := i\<rparr>) = counted e s"
  "counted e (s\<lparr>wa_push_filter_count := i\<rparr>) = counted e s" "counted e (s\<lparr>wa_service_filter_count := i\<rparr>) = counted e s"
  "counted e (s\<lparr>wa_extended_filter_count := i\<rparr>) = counted e s" "counted e (s\<lparr>wa_callback_count := i\<rparr>) = counted e s"
  "counted e (s\<lparr>wa_request_count := r\<rparr>) = counted e s" "counted e (s\<lparr>wa_last_timeout_check := t\<rparr>) = counted e s"
  "counted e (s\<lparr>wa_sdk_ver := i\<rparr>) = counted e s" "counted e (s\<lparr>wa_push_queue := evs\<rparr>) = counted e s"
  "counted e (s\<lparr>wa_is_initialized := b\<rparr>) = counted e s" "counted e (s\<lparr>wa_active_library_contexts := i\<rparr>) = counted e s"
  by (simp_all add: counted_def)

section \<open>Changing one object\<close>

lemma keys_alter [simp]: "keys (alter k f m) = keys m"
  by (induction m) (auto simp: alter_def)

lemma omap_inv_alter [simp]: "omap_inv (alter k f m) = omap_inv m"
  by (simp add: omap_inv_def)

lemma ball_alter: "(\<forall>p \<in> set (alter k f m). P p) \<longleftrightarrow> (\<forall>(k', v) \<in> set m. P (k', if k' = k then f v else v))"
  by (auto simp: alter_def)

lemma map_of_alter: "map_of (alter k f m) k' = (if k' = k then map_option f (map_of m k') else map_of m k')"
  by (induction m) (auto simp: alter_def)

lemma in_omap_put: "p \<in> set (omap_put k v m) \<Longrightarrow> p = (k, v) \<or> p \<in> set m"
  by (induction k v m rule: omap_put.induct) (auto split: if_splits)

lemma in_omap_erase: "p \<in> set (omap_erase k m) \<Longrightarrow> fst p \<noteq> k \<and> p \<in> set m"
  by (auto simp: omap_erase_def)

lemma counted_upd_context:
  assumes "counted e s" "\<And>x. ctx_ok e (c, x) \<Longrightarrow> ctx_ok e' (c, f x)"
    and "\<And>c' x. c' \<noteq> c \<Longrightarrow> ctx_ok e (c', x) \<Longrightarrow> ctx_ok e' (c', x)"
  shows "counted e' (upd_context c f s)"
  using assms by (auto simp: counted_def upd_context_def ball_alter)

text \<open>What is not in these fields of a context can change.\<close>

lemma ctx_okI:
  "\<lbrakk>ctx_ok e (c, x); wc_lib_ctx_id y = wc_lib_ctx_id x; wc_user_count y = wc_user_count x; wc_lock y = wc_lock x;
    wc_terminated y = wc_terminated x; wc_user_contexts y = wc_user_contexts x;
    \<forall>h \<in> set (wc_handles x). handle_ok h \<Longrightarrow> \<forall>h \<in> set (wc_handles y). handle_ok h\<rbrakk> \<Longrightarrow> ctx_ok e (c, y)"
  by (auto simp: ctx_ok_def)

lemma counted_context_frame:
  assumes "counted e s" "\<And>x. wc_lib_ctx_id (f x) = wc_lib_ctx_id x \<and> wc_user_count (f x) = wc_user_count x \<and>
      wc_lock (f x) = wc_lock x \<and> wc_terminated (f x) = wc_terminated x \<and> wc_user_contexts (f x) = wc_user_contexts x"
    "\<And>x. \<forall>h \<in> set (wc_handles x). handle_ok h \<Longrightarrow> \<forall>h \<in> set (wc_handles (f x)). handle_ok h"
  shows "counted e (upd_context c f s)"
  by (rule counted_upd_context [OF assms(1)]) (auto intro: ctx_okI simp: assms(2,3))

lemma counted_upd_user:
  assumes "counted e s" "\<And>uc. user_ok e c (u, uc) \<Longrightarrow> user_ok e c (u, f uc)"
  shows "counted e (upd_user c u f s)"
  unfolding upd_user_def
  by (rule counted_upd_context [OF assms(1)]) (use assms(2) in \<open>auto simp: ctx_ok_def ball_alter\<close>)

lemma counted_upd_request:
  assumes "counted e s" "\<And>q. req_ok e c u (r, q) \<Longrightarrow> req_ok e c u (r, f q)"
  shows "counted e (upd_request c u r f s)"
  unfolding upd_request_def
  by (rule counted_upd_user [OF assms(1)]) (use assms(2) in \<open>auto simp: user_ok_def ball_alter\<close>)

lemma context_at_ok: "counted e s \<Longrightarrow> context_at c s = Some x \<Longrightarrow> ctx_ok e (c, x)"
  by (auto simp: counted_def context_at_def dest: map_of_SomeD)

lemma user_at_ok: "counted e s \<Longrightarrow> user_at c u s = Some uc \<Longrightarrow> user_ok e c (u, uc)"
  by (auto simp: user_at_def ctx_ok_def dest!: context_at_ok map_of_SomeD split: Option.bind_splits)

lemma request_at_ok: "counted e s \<Longrightarrow> request_at c u r s = Some q \<Longrightarrow> req_ok e c u (r, q)"
  by (auto simp: request_at_def user_ok_def dest!: user_at_ok map_of_SomeD split: Option.bind_splits)

lemma counted_set_request:
  assumes "counted e s" "request_at c u r s = Some q" "wr_request_id q1 = wr_request_id q" "wr_user_count q1 = wr_user_count q"
  shows "counted e (upd_request c u r (\<lambda>_. q1) s)"
  using request_at_ok [OF assms(1,2)] assms(3,4) by (intro counted_upd_request [OF assms(1)]) (simp add: req_ok_def)

section \<open>Finding and releasing\<close>

lemma counted_findAndValidate:
  "counted e s \<Longrightarrow> findAndValidateContext c flag s = Some s1 \<Longrightarrow> counted (add_ctx c e) s1"
  by (auto simp: findAndValidateContext_def add_ctx_def ctx_ok_def user_ok_def req_ok_def split: if_splits option.splits
      intro!: counted_upd_context [of e])

lemma counted_releaseContext: "counted (add_ctx c e) s \<Longrightarrow> counted e (releaseContext c s)"
  unfolding releaseContext_def
  by (rule counted_upd_context [of "add_ctx c e"]) (auto simp: add_ctx_def ctx_ok_def user_ok_def req_ok_def)

lemma counted_lockContext: "counted e s \<Longrightarrow> counted (add_lock c e) (lockContext c s)"
  unfolding lockContext_def
  by (rule counted_upd_context [of e]) (auto simp: add_lock_def ctx_ok_def user_ok_def req_ok_def)

lemma counted_unlockContext: "counted (add_lock c e) s \<Longrightarrow> counted e (unlockContext c s)"
  unfolding unlockContext_def
  by (rule counted_upd_context [of "add_lock c e"]) (auto simp: add_lock_def ctx_ok_def user_ok_def req_ok_def)

lemma counted_user_count:
  assumes "counted e s"
    and "\<And>uc. user_ok e c (u, uc) \<Longrightarrow> user_ok e' c (u, f uc)"
    and "we_lock e' = we_lock e" "we_ctx e' = we_ctx e" "we_req e' = we_req e"
    and "\<And>c' u'. c' \<noteq> c \<or> u' \<noteq> u \<Longrightarrow> we_user e' c' u' = we_user e c' u'"
  shows "counted e' (upd_user c u f s)"
proof -
  have req: "req_ok e' = req_ok e" by (simp add: req_ok_def fun_eq_iff assms(5))
  have user: "user_ok e' c' (u', uc) = user_ok e c' (u', uc)" if "c' \<noteq> c \<or> u' \<noteq> u" for c' u' uc
    using assms(6) [OF that] by (simp add: user_ok_def req)
  show ?thesis
    unfolding upd_user_def
  proof (rule counted_upd_context [OF assms(1)])
    show "ctx_ok e' (c, x\<lparr>wc_user_contexts := alter u f (wc_user_contexts x)\<rparr>)" if "ctx_ok e (c, x)" for x
      using that assms(2) by (auto simp: ctx_ok_def ball_alter assms(3,4) user)
    show "ctx_ok e' (c', x)" if "c' \<noteq> c" "ctx_ok e (c', x)" for c' x
      using that by (auto simp: ctx_ok_def assms(3,4) user)
  qed
qed

lemma counted_findUser: "counted e s \<Longrightarrow> findUserContext c u s = Some s1 \<Longrightarrow> counted (add_user c u e) s1"
  by (auto simp: findUserContext_def add_user_def user_ok_def req_ok_def split: if_splits option.splits
      intro!: counted_user_count [of e])

lemma counted_findByUserId: "counted e s \<Longrightarrow> findUserContextByUserId c i s = Some (u, s1) \<Longrightarrow> counted (add_user c u e) s1"
  by (auto simp: findUserContextByUserId_def add_user_def user_ok_def req_ok_def split: if_splits option.splits
      intro!: counted_user_count [of e])

lemma counted_releaseUser: "counted (add_user c u e) s \<Longrightarrow> counted e (releaseUserContext c u s)"
  unfolding releaseUserContext_def
  by (rule counted_user_count [of "add_user c u e"]) (auto simp: add_user_def user_ok_def req_ok_def)

lemma counted_request_count:
  assumes "counted e s"
    and "\<And>q. req_ok e c u (r, q) \<Longrightarrow> req_ok e' c u (r, f q)"
    and "we_lock e' = we_lock e" "we_ctx e' = we_ctx e" "we_user e' = we_user e"
    and "\<And>c' u' r'. c' \<noteq> c \<or> u' \<noteq> u \<or> r' \<noteq> r \<Longrightarrow> we_req e' c' u' r' = we_req e c' u' r'"
  shows "counted e' (upd_request c u r f s)"
proof -
  have req: "req_ok e' c' u' (r', q) = req_ok e c' u' (r', q)" if "c' \<noteq> c \<or> u' \<noteq> u \<or> r' \<noteq> r" for c' u' r' q
    using assms(6) [OF that] by (simp add: req_ok_def)
  have user: "user_ok e' c' (u', uc) = user_ok e c' (u', uc)" if "c' \<noteq> c \<or> u' \<noteq> u" for c' u' uc
    using that by (auto simp: user_ok_def assms(5) req)
  have "user_ok e' c (u, uc\<lparr>wu_requests := alter r f (wu_requests uc)\<rparr>)" if "user_ok e c (u, uc)" for uc
    using that assms(2) by (auto simp: user_ok_def ball_alter assms(5) req)
  note upd = this
  show ?thesis
    unfolding upd_request_def upd_user_def
  proof (rule counted_upd_context [OF assms(1), rotated])
    show "ctx_ok e' (c', x)" if "c' \<noteq> c" "ctx_ok e (c', x)" for c' x
      using that by (auto simp: ctx_ok_def assms(3,4) user)
  qed (use upd in \<open>auto simp: ctx_ok_def ball_alter assms(3,4) user\<close>)
qed

lemma counted_findRequest: "counted e s \<Longrightarrow> findRequestAndMarkBusy c u r s = Some s1 \<Longrightarrow> counted (add_req c u r e) s1"
  by (auto simp: findRequestAndMarkBusy_def add_req_def req_ok_def split: option.splits
      intro!: counted_request_count [of e])

lemma counted_releaseRequest: "counted (add_req c u r e) s \<Longrightarrow> counted e (releaseRequest c u r s)"
  unfolding releaseRequest_def
  by (rule counted_request_count [of "add_req c u r e"]) (auto simp: add_req_def req_ok_def)

text \<open>The release of a request that was not marked.\<close>

lemma counted_extra_release: "counted e s \<Longrightarrow> counted e (releaseRequest c u r s)"
  unfolding releaseRequest_def by (rule counted_upd_request) (auto simp: req_ok_def)

section \<open>Operations between finding and releasing\<close>

lemma counted_with_context:
  assumes "counted e s" "\<And>s. counted (add_ctx c e) s \<Longrightarrow> counted (add_ctx c e) (snd (f s))"
  shows "counted e (snd (with_context_out err c f s))"
proof (cases "findAndValidateContext c 0 s")
  case (Some s1)
  from assms(2) [OF counted_findAndValidate [OF assms(1) Some]] Some show ?thesis
    by (auto simp: with_context_out_def split: prod.split intro: counted_releaseContext)
qed (simp add: with_context_out_def assms(1))

lemma counted_in_user:
  assumes "counted e s" "\<And>s. counted (add_user c u (add_ctx c e)) s \<Longrightarrow> counted (add_user c u (add_ctx c e)) (snd (f c u s))"
  shows "counted e (snd (in_user_context err c u f s))"
  unfolding in_user_context_def
proof (rule counted_with_context [OF assms(1)])
  fix t :: "'a WebApi" assume t: "counted (add_ctx c e) t"
  show "counted (add_ctx c e) (snd (case findUserContext c u t of
      None \<Rightarrow> (err ORBIS_NP_WEBAPI_ERROR_USER_CONTEXT_NOT_FOUND, t)
    | Some s1 \<Rightarrow> (case f c u s1 of (r, s2) \<Rightarrow> (r, releaseUserContext c u s2))))"
  proof (cases "findUserContext c u t")
    case (Some s1)
    from assms(2) [OF counted_findUser [OF t Some]] Some show ?thesis
      by (auto split: prod.split intro: counted_releaseUser)
  qed (simp add: t)
qed

lemma counted_with_user:
  assumes "counted e s" "\<And>c s. counted (add_user c u (add_ctx c e)) s \<Longrightarrow> counted (add_user c u (add_ctx c e)) (snd (f c u s))"
  shows "counted e (snd (with_user_out err u f s))"
  unfolding with_user_out_def by (rule counted_in_user) (fact assms)+

lemma counted_on_request:
  assumes "counted e s"
    and "\<And>c u q s. counted (add_user c u (add_ctx c e)) s \<Longrightarrow> request_at c u r s = Some q \<Longrightarrow>
           counted (add_user c u (add_ctx c e)) (snd (f c u q s))"
  shows "counted e (snd (on_request_out err r f s))"
  unfolding on_request_out_def
  by (rule counted_in_user [OF assms(1)]) (auto simp: findRequest_def intro: assms(2) split: option.split)

lemma counted_with_request:
  assumes "counted e s"
    and "\<And>c u s. counted (add_req c u r (add_user c u (add_ctx c e))) s \<Longrightarrow>
           counted (add_req c u r (add_user c u (add_ctx c e))) (snd (f c u s))"
  shows "counted e (snd (with_request_out err r f s))"
  unfolding with_request_out_def
proof (rule counted_in_user [OF assms(1)])
  fix t :: "'a WebApi" let ?c = "lib_of_request r" and ?u = "user_of_request r"
  assume t: "counted (add_user ?c ?u (add_ctx ?c e)) t"
  show "counted (add_user ?c ?u (add_ctx ?c e)) (snd (case findRequestAndMarkBusy ?c ?u r t of
      None \<Rightarrow> (err ORBIS_NP_WEBAPI_ERROR_REQUEST_NOT_FOUND, t)
    | Some s1 \<Rightarrow> (case f ?c ?u s1 of (res, s2) \<Rightarrow> (res, releaseRequest ?c ?u r s2))))"
  proof (cases "findRequestAndMarkBusy ?c ?u r t")
    case (Some s1)
    from assms(2) [OF counted_findRequest [OF t Some]] Some show ?thesis
      by (auto split: prod.split intro: counted_releaseRequest)
  qed (simp add: t)
qed

end
