(* ===== verification/WebApiSystem.thy ===== *)
theory WebApiSystem
  imports WebApiCounts
begin

text \<open>
  The web API library over any sequence of calls: each call keeps what is expected of the counts and
  locks, so that between two calls nothing is in use or locked. The calls that break this are left
  out of the sequence where they do, each by a premise of its rule.
\<close>

section \<open>Handles\<close>

lemma upd_context_twice: "upd_context c f (upd_context c g s) = upd_context c (\<lambda>x. f (g x)) s"
  by (simp add: upd_context_def alter_def case_prod_beta comp_def)

lemma alter_twice: "alter k f (alter k g m) = alter k (\<lambda>v. f (g v)) m"
  by (simp add: alter_def case_prod_beta comp_def)

lemma upd_handle_twice: "upd_handle c i f (upd_handle c i g s) = upd_handle c i (\<lambda>h. f (g h)) s"
  by (simp add: upd_handle_def upd_context_twice alter_twice)

lemma counted_upd_handle:
  "counted e s \<Longrightarrow> (\<And>h. handle_ok (i, h) \<Longrightarrow> handle_ok (i, f h)) \<Longrightarrow> counted e (upd_handle c i f s)"
  unfolding upd_handle_def by (rule counted_context_frame) (auto simp: ball_alter)

lemma counted_startHandleTimer: "counted e s \<Longrightarrow> counted e (startHandleTimer now c i s)"
  unfolding startHandleTimer_def by (rule counted_context_frame) auto

lemma counted_abortHandle:
  assumes "counted e s" shows "counted e (snd (abortHandle c i s))"
  unfolding abortHandle_def
  by (rule counted_with_context [OF assms])
     (auto simp: getHandle_def releaseHandle_def upd_handle_twice handle_ok_def split: option.split intro!: counted_upd_handle)

lemma counted_createHandle:
  assumes "counted e s" shows "counted e (snd (createHandle c s))"
  unfolding createHandle_def
proof (rule counted_with_context [OF assms])
  fix t assume t: "counted (add_ctx c e) t"
  show "counted (add_ctx c e) (snd (createHandleInternal c t))"
    unfolding createHandleInternal_def Let_def
    by (auto intro!: counted_context_frame dest!: in_omap_put simp: t handle_ok_def)
qed

lemma counted_setHandleTimeout:
  assumes "counted e s" shows "counted e (snd (setHandleTimeout c i t s))"
  unfolding setHandleTimeout_def
  by (rule counted_with_context [OF assms])
     (auto simp: setHandleTimeoutInternal_def split: option.split intro!: counted_context_frame)

lemma counted_erase_handle: "counted (add_lock c e) s \<Longrightarrow> counted e (erase_handle c i s)"
  unfolding erase_handle_def
  by (rule counted_unlockContext) (auto intro!: counted_context_frame dest!: in_omap_erase)


lemma handle_at_ok:
  "counted e s \<Longrightarrow> Option.bind (context_at c s) (\<lambda>x. map_of (wc_handles x) i) = Some hdl \<Longrightarrow> wh_user_count hdl = 0"
  by (auto simp: ctx_ok_def handle_ok_def dest!: context_at_ok map_of_SomeD split: Option.bind_splits)

lemma counted_await_handle:
  assumes "counted (add_lock c e) s"
  shows "counted e (snd (await_handle c i s)) \<and> fst (await_handle c i s) = Some ORBIS_OK"
  using counted_erase_handle [OF assms] handle_at_ok [OF assms]
  by (auto simp: await_handle_def split: option.split)

lemma counted_deleteHandleInternal:
  assumes e: "counted e s"
  shows "counted e (snd (deleteHandleInternal c i s)) \<and> fst (deleteHandleInternal c i s) \<noteq> None"
proof -
  note l = counted_lockContext [OF e, of c]
  show ?thesis
  proof (cases "Option.bind (context_at c s) (\<lambda>x. map_of (wc_handles x) i)")
    case None
    then show ?thesis using counted_unlockContext [OF l] by (simp add: deleteHandleInternal_def)
  next
    case (Some hdl)
    let ?s = "snd (abortHandle c i (unlockContext c (upd_handle c i (\<lambda>h. h\<lparr>wh_deleted := True\<rparr>) (lockContext c s))))"
    have "counted (add_lock c e) (upd_handle c i (\<lambda>h. h\<lparr>wh_deleted := True\<rparr>) (lockContext c s))"
      by (rule counted_upd_handle [OF l]) (simp add: handle_ok_def)
    then have "counted (add_lock c e) (lockContext c ?s)"
      by (intro counted_lockContext counted_abortHandle counted_unlockContext)
    from counted_await_handle [OF this, of i] counted_erase_handle [OF l, of i] counted_unlockContext [OF l] Some show ?thesis
      by (auto simp: deleteHandleInternal_def Let_def handle_at_ok [OF e])
  qed
qed

lemma counted_deleteHandle:
  assumes "counted e s"
  shows "counted e (snd (deleteHandle c i s)) \<and> fst (deleteHandle c i s) \<noteq> None"
proof (cases "findAndValidateContext c 0 s")
  case (Some s1)
  from counted_deleteHandleInternal [OF counted_findAndValidate [OF assms Some], of c i] Some show ?thesis
    by (auto simp: deleteHandle_def release_after_def split: prod.split option.split intro: counted_releaseContext)
qed (simp add: deleteHandle_def assms)

section \<open>Requests\<close>

text \<open>A new request is only stored where no count below zero is expected of its id.\<close>

lemma counted_createRequest:
  assumes e: "counted e s" and pos: "\<And>c u r. 0 \<le> we_req e c u r"
  shows "counted e (snd (createRequest u grp path m ct mp s))"
  unfolding createRequest_def
proof (rule counted_with_user [OF e], goal_cases)
  case (1 c t)
  let ?e = "add_user c u (add_ctx c e)"
  note t = 1
  have pos': "0 \<le> we_req ?e c u r" for r by (simp add: add_user_def add_ctx_def pos)
  have new: "counted ?e (upd_user c u (\<lambda>uc. uc\<lparr>wu_requests := omap_put r q (wu_requests uc)\<rparr>) (t\<lparr>wa_request_count := n\<rparr>))"
    if "wr_request_id q = r" "wr_user_count q = 0" for r q n
    by (rule counted_upd_user) (use that pos' in \<open>auto simp: t user_ok_def req_ok_def omap_inv_put dest!: in_omap_put\<close>)
  show ?case
    by (auto simp: t Let_def new_web_request_def split: option.split intro!: new)
qed

lemma counted_upd_frame:
  assumes "counted e s" "\<And>q. wr_request_id (f q) = wr_request_id q \<and> wr_user_count (f q) = wr_user_count q"
  shows "counted e (upd_request c u r f s)"
  by (rule counted_upd_request [OF assms(1)]) (simp add: req_ok_def assms(2))

lemma counted_abortRequestInternal: "counted e s \<Longrightarrow> counted e (snd (abortRequestInternal lib c u r s))"
  by (auto simp: abortRequestInternal_def split: option.split intro!: counted_upd_frame)

lemma counted_abortRequest: "counted e s \<Longrightarrow> counted e (snd (abortRequest lib r s))"
  unfolding abortRequest_def by (rule counted_on_request) (auto intro: counted_abortRequestInternal)

lemma counted_setRequestTimeout: "counted e s \<Longrightarrow> counted e (snd (setRequestTimeout r t s))"
  unfolding setRequestTimeout_def by (rule counted_with_request) (auto intro: counted_upd_frame)

lemma counted_checkRequestTimeout: "counted e s \<Longrightarrow> counted e (checkRequestTimeout lib now c u r s)"
  by (auto simp: checkRequestTimeout_def split: option.split intro!: counted_abortRequest counted_upd_frame)

lemma counted_setMultipartContentType: "counted e s \<Longrightarrow> counted e (snd (setMultipartContentType r t b s))"
  unfolding setMultipartContentType_def
  by (rule counted_on_request) (auto intro!: counted_extra_release counted_upd_frame)

lemma counted_addMultipartPart: "counted e s \<Longrightarrow> counted e (snd (addMultipartPart r p s))"
  unfolding addMultipartPart_def
  by (cases p) (auto intro!: counted_on_request counted_extra_release counted_upd_frame)

lemma counted_addHttpRequestHeader: "counted e s \<Longrightarrow> counted e (snd (addHttpRequestHeaderInternal r n v s))"
  unfolding addHttpRequestHeaderInternal_def by (rule counted_with_request) (auto intro: counted_upd_frame)

lemma counted_getHttpResponseHeaderValue:
  "counted e s \<Longrightarrow> counted e (snd (getHttpResponseHeaderValueInternal lib r n has k len s))"
  unfolding getHttpResponseHeaderValueInternal_def
  by (rule counted_with_request) (auto simp: Let_def split: prod.split option.split)

lemma counted_getHttpStatusCode: "counted e s \<Longrightarrow> counted e (snd (getHttpStatusCodeInternal lib r s))"
  unfolding getHttpStatusCodeInternal_def by (rule counted_with_request) auto

section \<open>Sending and reading\<close>

lemma counted_check_response: "counted e s \<Longrightarrow> counted e (snd (check_response lib info req s))"
  by (auto simp: check_response_def captureWebApiError_def Let_def split: prod.split option.split)

lemma counted_send_http: "counted e s \<Longrightarrow> counted e (snd (send_http lib c u r d n flag info s))"
  unfolding send_http_def Let_def
  by (auto split: prod.split intro!: counted_check_response counted_upd_frame simp: setRequestState_def)

lemma open_http_frame:
  "open_http lib base bearer ctx q w = (err, q1, w1) \<Longrightarrow> wr_request_id q1 = wr_request_id q \<and> wr_user_count q1 = wr_user_count q"
  by (auto simp: open_http_def Let_def split: prod.splits if_splits option.splits)

lemma counted_send_body: 
  assumes "counted e s" shows "counted e (snd (send_body lib base h c u r d n flag info s))"
proof -
  define t where "t = (if sdk_at_least WEB_FW_250 s then upd_request c u r (\<lambda>q. q\<lparr>wr_sent := True\<rparr>) s else s)"
  have t: "counted e t" using assms by (auto simp: t_def intro: counted_upd_frame)
  have http: "counted e ((upd_request c u r (\<lambda>_. q1) t)\<lparr>wa_http := w\<rparr>)"
    if "request_at c u r t = Some q" "open_http lib base bearer ctx q w0 = (err, q1, w)" for q q1 w w0 err bearer ctx
    using counted_set_request [OF t that(1)] open_http_frame [OF that(2)] by simp
  note http' = http [unfolded counted_frame]
  show ?thesis
    unfolding send_body_def Let_def t_def [symmetric]
    by (auto split: option.split prod.split simp: t intro!: counted_send_http http http')
qed

lemma multipart_step_frame:
  "multipart_step r i d n q = (a, q1) \<Longrightarrow> wr_request_id q1 = wr_request_id q \<and> wr_user_count q1 = wr_user_count q"
  by (auto simp: multipart_step_def Let_def split: if_splits)

lemma counted_sendRequest: "counted e s \<Longrightarrow> counted e (snd (sendRequest lib base h now r i d n flag info s))"
  unfolding sendRequest_def
proof (rule counted_with_request, goal_cases)
  case (2 c u t)
  let ?e = "add_req c u r (add_user c u (add_ctx c e))"
  let ?t = "upd_request c u r (startRequestTimer now) t"
  from 2(2) have t: "counted ?e ?t" by (rule counted_upd_frame) (simp add: startRequestTimer_def)
  show ?case
    using t by (auto simp: Let_def split: option.split prod.split sum.split
        intro!: counted_send_body counted_set_request dest: multipart_step_frame)
qed

lemma copyRequestData_frame:
  "wr_request_id (snd (copyRequestData n q)) = wr_request_id q \<and> wr_user_count (snd (copyRequestData n q)) = wr_user_count q"
  by (simp add: copyRequestData_def Let_def)

lemma counted_captureWebApiError [simp]: "counted e (snd (captureWebApiError body s)) = counted e s"
  by (auto simp: captureWebApiError_def split: option.split)

lemma counted_readData: "counted e s \<Longrightarrow> counted e (snd (readDataInternal lib now r n s))"
  unfolding readDataInternal_def
proof (rule counted_with_request, goal_cases)
  case (2 c u t)
  let ?e = "add_req c u r (add_user c u (add_ctx c e))" and ?t = t
  note t = 2(2)
  show ?case
  proof (cases "request_at c u r t")
    case (Some q0)
    obtain copied q1 where copy: "copyRequestData n (setRequestEndTime now q0) = (copied, q1)" by fastforce
    have q1: "wr_request_id q1 = wr_request_id q0" "wr_user_count q1 = wr_user_count q0"
      using copyRequestData_frame [of n "setRequestEndTime now q0", unfolded copy] by (simp_all add: setRequestEndTime_def)
    have "counted ?e (upd_request c u r (\<lambda>_. clearRequestEndTime (setRequestState 0 q)) t)"
      if "q = setRequestState 5 q1 \<or> q = q1" for q
      by (rule counted_set_request [OF t Some]) (use that q1 in \<open>auto simp: clearRequestEndTime_def setRequestState_def\<close>)
    then show ?thesis
      unfolding Some option.case Let_def copy prod.case by (simp split: prod.split)
  qed (simp add: t)
qed

section \<open>Where objects are after a change\<close>

lemma context_at_upd: "context_at c' (upd_context c f s) = (if c' = c then map_option f (context_at c s) else context_at c' s)"
  by (simp add: context_at_def upd_context_def map_of_alter)

lemma user_at_upd_context: "(\<And>x. wc_user_contexts (f x) = wc_user_contexts x) \<Longrightarrow> user_at c' u (upd_context c f s) = user_at c' u s"
  by (cases "context_at c s") (auto simp: user_at_def context_at_upd)

lemma user_at_upd: "user_at c' u' (upd_user c u f s) = (if c' = c \<and> u' = u then map_option f (user_at c u s) else user_at c' u' s)"
  by (cases "context_at c s") (auto simp: user_at_def upd_user_def context_at_upd map_of_alter)

lemma request_at_upd_context: "(\<And>x. wc_user_contexts (f x) = wc_user_contexts x) \<Longrightarrow> request_at c' u r (upd_context c f s) = request_at c' u r s"
  by (simp add: request_at_def user_at_upd_context)

lemma request_at_upd_user: "(\<And>x. wu_requests (f x) = wu_requests x) \<Longrightarrow> request_at c' u' r (upd_user c u f s) = request_at c' u' r s"
  by (cases "user_at c u s") (auto simp: request_at_def user_at_upd)

lemma request_at_upd:
  "request_at c' u' r' (upd_request c u r f s) =
     (if c' = c \<and> u' = u \<and> r' = r then map_option f (request_at c u r s) else request_at c' u' r' s)"
  by (cases "user_at c u s") (auto simp: request_at_def upd_request_def user_at_upd map_of_alter)

lemma request_at_http: "request_at c u r (s\<lparr>wa_http := w\<rparr>) = request_at c u r s"
  by (simp add: request_at_def user_at_def context_at_def)

lemmas place_simps = request_at_http context_at_upd user_at_upd_context user_at_upd request_at_upd_context request_at_upd_user request_at_upd

section \<open>Deleting requests and user contexts\<close>

lemma not_busy:
  assumes "counted (add_req c u r (add_user c u (add_lock c (add_ctx c unused)))) s" "request_at c u r s = Some q"
  shows "\<not> isRequestBusy q"
  using request_at_ok [OF assms] by (simp add: req_ok_def isRequestBusy_def expect_defs)

lemma counted_await_request:
  assumes s: "counted (add_req c u r (add_user c u (add_lock c (add_ctx c unused)))) s" and q: "request_at c u r s = Some q"
  shows "counted unused (snd (await_request lib c u r s)) \<and> fst (await_request lib c u r s) = Some ORBIS_OK"
proof -
  let ?s = "upd_user c u (\<lambda>uc. uc\<lparr>wu_requests := omap_erase r (wu_requests uc)\<rparr>)
    ((releaseRequest c u r s)\<lparr>wa_http := close_http lib q (wa_http s)\<rparr>)"
  have "counted (add_user c u (add_lock c (add_ctx c unused))) ?s"
    by (rule counted_upd_user) (auto simp: counted_releaseRequest [OF s] user_ok_def omap_inv_erase dest!: in_omap_erase)
  then have "counted unused (releaseContext c (unlockContext c (releaseUserContext c u ?s)))"
    by (intro counted_releaseContext counted_unlockContext counted_releaseUser)
  then show ?thesis by (simp add: await_request_def q not_busy [OF s q])
qed

lemma counted_deleteRequest:
  assumes s: "counted unused s" and q: "request_at (lib_of_request r) (user_of_request r) r s \<noteq> None"
  shows "counted unused (snd (deleteRequest lib r s)) \<and> fst (deleteRequest lib r s) \<noteq> None"
proof (cases "findAndValidateContext (lib_of_request r) 0 s")
  case (Some s1)
  let ?c = "lib_of_request r" and ?u = "user_of_request r"
  have c1: "counted (add_lock ?c (add_ctx ?c unused)) (lockContext ?c s1)"
    by (rule counted_lockContext [OF counted_findAndValidate [OF s Some]])
  have q1: "request_at ?c ?u r (lockContext ?c s1) \<noteq> None"
    using Some q by (auto simp: findAndValidateContext_def lockContext_def place_simps split: if_splits option.splits)
  then obtain uc where uc: "user_at ?c ?u (lockContext ?c s1) = Some uc"
    by (auto simp: request_at_def split: Option.bind_splits)
  then have "\<not> wu_deleted uc" using user_at_ok [OF c1 uc] by (simp add: user_ok_def)
  with uc obtain s3 where s3: "findUserContext ?c ?u (lockContext ?c s1) = Some s3" by (simp add: findUserContext_def)
  with q1 have "request_at ?c ?u r s3 \<noteq> None"
    by (auto simp: findUserContext_def place_simps split: if_splits option.splits)
  then obtain s4 where s4: "findRequestAndMarkBusy ?c ?u r s3 = Some s4" and "request_at ?c ?u r s4 \<noteq> None"
    by (auto simp: findRequestAndMarkBusy_def place_simps)
  then obtain q4 where q4: "request_at ?c ?u r s4 = Some q4" by auto
  note c4 = counted_findRequest [OF counted_findUser [OF c1 s3] s4]
  let ?s5 = "snd (abortRequestInternal lib ?c ?u r s4)"
  obtain q5 where "request_at ?c ?u r ?s5 = Some q5"
    using q4 by (cases "wr_aborted q4") (auto simp: abortRequestInternal_def place_simps)
  from counted_await_request [OF counted_abortRequestInternal [OF c4] this] not_busy [OF c4 q4] show ?thesis
    using Some s3 s4 q4 by (simp add: deleteRequest_def Let_def)
qed (simp add: deleteRequest_def s)

text \<open>No user context or request is in use.\<close>

definition idle :: "web_expect \<Rightarrow> bool" where
  "idle e \<longleftrightarrow> we_user e = (\<lambda>_ _. 0) \<and> we_req e = (\<lambda>_ _ _. 0)"

lemma idle_simps [simp]: "idle unused" "idle (add_ctx c e) = idle e" "idle (add_lock c e) = idle e"
  by (simp_all add: idle_def expect_defs)

lemma counted_erase_user:
  assumes "counted (add_user c u (add_lock c (add_ctx c e))) s"
  shows "counted e (snd (erase_user_context c u s))"
proof -
  have "counted (add_lock c (add_ctx c e)) (upd_context c (\<lambda>x. x\<lparr>wc_user_contexts := omap_erase u (wc_user_contexts x)\<rparr>) s)"
    by (rule counted_upd_context [OF assms])
       (auto simp: ctx_ok_def user_ok_def req_ok_def add_user_def omap_inv_erase dest!: in_omap_erase)
  then show ?thesis
    by (auto simp: erase_user_context_def intro: counted_releaseContext counted_unlockContext)
qed

lemma omap_erase_alter: "omap_erase k (alter k f m) = omap_erase k m"
  by (induction m) (auto simp: omap_erase_def alter_def)

lemma erase_marked_user: "erase_user_context c u (upd_user c u f s) = erase_user_context c u s"
  by (simp add: erase_user_context_def upd_user_def upd_context_twice omap_erase_alter)

lemma user_not_busy:
  assumes "idle e" "counted (add_user c u (add_lock c (add_ctx c e))) s"
  shows "\<not> isUserContextBusy c u s" "\<not> areUserContextRequestsBusy c u s"
  using assms(1)
  by (auto simp: isUserContextBusy_def areUserContextRequestsBusy_def isRequestBusy_def user_ok_def req_ok_def expect_defs idle_def
      split: option.split dest!: user_at_ok [OF assms(2)]) fastforce

lemma fold_counted:
  "counted e s \<Longrightarrow> (\<And>x s. x \<in> set xs \<Longrightarrow> counted e s \<Longrightarrow> counted e (f x s)) \<Longrightarrow> counted e (fold f xs s)"
  by (induction xs arbitrary: s) auto

lemma counted_await_user:
  assumes e: "idle e" and s: "counted (add_user c u (add_lock c (add_ctx c e))) s"
  shows "counted e (snd (await_user_context c u (upd_user c u (\<lambda>uc. uc\<lparr>wu_deleted := True\<rparr>) s))) \<and>
    fst (await_user_context c u (upd_user c u (\<lambda>uc. uc\<lparr>wu_deleted := True\<rparr>) s)) = Some ORBIS_OK"
proof -
  have "\<not> isUserContextBusy c u (upd_user c u (\<lambda>uc. uc\<lparr>wu_deleted := True\<rparr>) s)"
    "\<not> areUserContextRequestsBusy c u (upd_user c u (\<lambda>uc. uc\<lparr>wu_deleted := True\<rparr>) s)"
    using user_not_busy [OF e s]
    by (auto simp: isUserContextBusy_def areUserContextRequestsBusy_def place_simps split: option.splits)
  then show ?thesis
    using counted_erase_user [OF s] unfolding await_user_context_def erase_marked_user
    by (simp add: erase_user_context_def)
qed

lemma counted_deleteUserContext:
  assumes e: "idle e" and s: "counted e s"
  shows "counted e (snd (deleteUserContext lib u s)) \<and> fst (deleteUserContext lib u s) \<noteq> None"
proof (cases "findAndValidateContext (lib_of_user u) 0 s")
  case (Some s1)
  let ?c = "lib_of_user u"
  have c1: "counted (add_lock ?c (add_ctx ?c e)) (lockContext ?c s1)"
    by (rule counted_lockContext [OF counted_findAndValidate [OF s Some]])
  show ?thesis
  proof (cases "findUserContext ?c u (lockContext ?c s1)")
    case None
    with Some counted_releaseContext [OF counted_unlockContext [OF c1]] show ?thesis by (simp add: deleteUserContext_def Let_def)
  next
    case (Some s3)
    note c3 = counted_findUser [OF c1 Some]
    define s4 where "s4 = fold (\<lambda>(r, _) s. snd (abortRequestInternal lib ?c u r s))
      (case user_at ?c u s3 of None \<Rightarrow> [] | Some uc \<Rightarrow> wu_requests uc) s3"
    have c4: "counted (add_user ?c u (add_lock ?c (add_ctx ?c e))) s4"
      unfolding s4_def by (rule fold_counted [OF c3]) (auto intro: counted_abortRequestInternal)
    have "\<not> (case user_at ?c u s4 of None \<Rightarrow> False | Some uc \<Rightarrow> wu_deleted uc)"
      by (auto simp: user_ok_def split: option.split dest: user_at_ok [OF c4])
    with \<open>findAndValidateContext ?c 0 s = Some s1\<close> Some counted_erase_user [OF c3] counted_await_user [OF e c4] user_not_busy [OF e c3]
    show ?thesis
      unfolding deleteUserContext_def Let_def s4_def [symmetric] by (simp add: erase_user_context_def s4_def [symmetric])
  qed
qed (simp add: deleteUserContext_def s)

section \<open>New contexts\<close>

lemma free_id_le: "finite taken \<Longrightarrow> free_id taken i \<le> i"
  by (induction taken i rule: free_id.induct) (subst free_id.simps, force)

lemma or_low_bits:
  fixes c n :: int assumes "0 \<le> n" "n < 2 ^ 16" shows "push_bit 16 c OR n = push_bit 16 c + n"
proof -
  have "push_bit 16 c AND take_bit 16 n = 0" by (rule bit_eqI) (auto simp: bit_simps)
  moreover from assms have "take_bit 16 n = n" by (simp add: take_bit_int_eq_self)
  ultimately have "push_bit 16 c AND n = 0" by simp
  with plus_and_or [of "push_bit 16 c" n] show ?thesis by simp
qed

lemma lib_of_user_new:
  assumes "0 \<le> n" "n < 0x10000" "push_bit 16 c < free_id taken (push_bit 16 c OR n)" "finite taken"
  shows "lib_of_user (free_id taken (push_bit 16 c OR n)) = c"
proof -
  have "free_id taken (push_bit 16 c OR n) \<le> push_bit 16 c + n"
    using free_id_le [OF assms(4)] or_low_bits [of n c] assms(1,2) by simp
  with assms show ?thesis by (simp add: lib_of_user_def push_bit_eq_mult drop_bit_eq_div)
qed

lemma counted_createLibraryContext:
  assumes s: "counted unused s" shows "counted unused (snd (createLibraryContext http pool name type s))"
proof -
  let ?n = "wa_library_context_count s + 1" let ?n1 = "if ?n \<ge> 0x8000 then 1 else ?n"
  let ?i = "free_id (set (keys (wa_contexts s))) ?n1"
  have "?i < 0x8000" using free_id_le [of "set (keys (wa_contexts s))" ?n1] by (auto split: if_splits)
  with s show ?thesis
    unfolding createLibraryContext_def Let_def
    by (auto simp: counted_def ctx_ok_def new_lib_context_def unused_def omap_inv_put simp del: set_map dest!: in_omap_put)
qed

lemma counted_createUserContext:
  assumes s: "counted unused s" and room: "fst (createUserContext c i s) \<noteq> ORBIS_NP_WEBAPI_ERROR_USER_CONTEXT_MAX"
  shows "counted unused (snd (createUserContext c i s))"
proof (cases "findAndValidateContext c 0 s")
  case (Some s1)
  note c1 = counted_findAndValidate [OF s Some]
  show ?thesis
  proof (cases "findUserContextByUserId c i s1")
    case found: (Some us)
    obtain u s2 where us: "us = (u, s2)" by force
    from counted_releaseContext [OF counted_releaseUser [OF counted_findByUserId [OF c1 found [unfolded us]]]] Some found us
    show ?thesis by (simp add: createUserContext_def)
  next
    case None
    define n where "n = (if wa_user_context_count s1 + 1 \<ge> 0x10000 then 1 else wa_user_context_count s1 + 1)"
    define s2 where "s2 = s1\<lparr>wa_user_context_count := n\<rparr>"
    define taken where "taken = (case context_at c s2 of None \<Rightarrow> {} | Some x \<Rightarrow> set (keys (wc_user_contexts x)))"
    define u where "u = free_id taken (push_bit 16 c OR n)"
    have n: "0 \<le> n" "n < 0x10000" using c1 by (auto simp: n_def counted_def)
    have c2: "counted (add_ctx c unused) s2" using c1 n by (auto simp: s2_def counted_def)
    have eq: "createUserContext c i s =
      (if u \<le> push_bit 16 c then (ORBIS_NP_WEBAPI_ERROR_USER_CONTEXT_MAX, s2)
       else (u, releaseContext c (upd_context c (\<lambda>x. x\<lparr>wc_user_contexts :=
         omap_put u (new_user_context\<lparr>wu_user_id := i, wu_user_ctx_id := u\<rparr>) (wc_user_contexts x)\<rparr>) s2)))"
      unfolding u_def taken_def s2_def n_def createUserContext_def by (simp add: Some None Let_def)
    have "finite taken" by (simp add: taken_def split: option.split)
    with room n have "lib_of_user u = c" unfolding eq u_def by (intro lib_of_user_new) (auto split: if_splits)
    then have "counted (add_ctx c unused) (upd_context c (\<lambda>x. x\<lparr>wc_user_contexts :=
        omap_put u (new_user_context\<lparr>wu_user_id := i, wu_user_ctx_id := u\<rparr>) (wc_user_contexts x)\<rparr>) s2)"
      by (intro counted_upd_context [OF c2])
         (auto simp: ctx_ok_def user_ok_def new_user_context_def expect_defs omap_inv_put dest!: in_omap_put)
    with room show ?thesis unfolding eq by (auto intro: counted_releaseContext split: if_splits)
  qed
qed (simp add: createUserContext_def s)

lemma counted_set_notification: "counted e s \<Longrightarrow> counted e (snd (set_notification u f a s))"
  unfolding set_notification_def
  by (rule counted_with_user) (auto intro!: counted_upd_user simp: user_ok_def)

section \<open>Timeouts and termination\<close>

lemma counted_context_change:
  "counted e s \<Longrightarrow> (\<And>x. f x = x\<lparr>wc_timer_handles := g x\<rparr>) \<Longrightarrow> counted e (upd_context c f s)"
  by (rule counted_context_frame) auto

lemma counted_checkTimeout:
  assumes s: "counted e s" shows "counted e (checkTimeout lib now s)"
proof -
  have timer: "counted e (check_timer now c t s)" if "counted e s" for c t and s :: "'a WebApi"
    using that by (auto simp: check_timer_def intro!: counted_abortHandle intro: counted_context_change)
  have user: "counted e (checkUserContextTimeout lib now c u s)" if "counted e s" for c u and s :: "'a WebApi"
    using that by (auto simp: checkUserContextTimeout_def split: option.split intro!: fold_counted intro: counted_checkRequestTimeout)
  have ctx: "counted e (checkContextTimeout lib now c s)" if "counted e s" for c and s :: "'a WebApi"
    using that by (auto simp: checkContextTimeout_def split: option.split intro!: fold_counted intro: timer user)
  show ?thesis using s by (auto simp: checkTimeout_def intro!: fold_counted intro: ctx)
qed

lemma finish_terminate_erases:
  "context_at c s \<noteq> None \<Longrightarrow> finish_terminate c (upd_context c f s) = (Some ORBIS_OK, s\<lparr>wa_contexts := omap_erase c (wa_contexts s)\<rparr>)"
  by (simp add: finish_terminate_def deleteContext_def unlockContext_def releaseContext_def context_at_upd)
     (simp add: upd_context_def alter_twice omap_erase_alter)

lemma counted_erase_context:
  assumes "counted (add_lock c (add_ctx c unused)) s"
  shows "counted unused (s\<lparr>wa_contexts := omap_erase c (wa_contexts s)\<rparr>)"
proof -
  have "ctx_ok unused p" if "ctx_ok (add_lock c (add_ctx c unused)) p" "fst p \<noteq> c" for p
    using that by (auto simp: ctx_ok_def user_ok_def req_ok_def expect_defs)
  with assms show ?thesis by (auto simp: counted_def omap_inv_erase dest!: in_omap_erase)
qed

lemma ctx_not_busy:
  assumes "counted (add_lock c (add_ctx c unused)) s"
  shows "\<not> isContextBusy c s" "\<not> areContextHandlesBusy c s" "\<not> isContextTerminated c s"
  by (auto simp: isContextBusy_def areContextHandlesBusy_def isContextTerminated_def ctx_ok_def handle_ok_def expect_defs
      split: option.split dest!: context_at_ok [OF assms]) fastforce

lemma keys_upd_context [simp]: "keys (wa_contexts (upd_context c f s)) = keys (wa_contexts s)"
  by (simp add: upd_context_def)

lemma context_at_keys: "context_at c s = None \<longleftrightarrow> c \<notin> set (keys (wa_contexts s))"
  by (simp add: context_at_def map_of_eq_None_iff)

lemma keys_abortHandle [simp]: "keys (wa_contexts (snd (abortHandle c i s))) = keys (wa_contexts s)"
  by (auto simp: abortHandle_def with_context_out_def findAndValidateContext_def getHandle_def releaseHandle_def releaseContext_def
      upd_handle_def simp del: set_map split: option.split)

lemma counted_terminateContext:
  assumes s: "counted unused s" and none: "\<And>x. context_at c s = Some x \<Longrightarrow> wc_user_contexts x = []"
  shows "counted unused (snd (terminateContext lib c s)) \<and> fst (terminateContext lib c s) \<noteq> None"
proof (cases "findAndValidateContext c 0 s")
  case (Some s1)
  note c1 = counted_findAndValidate [OF s Some]
  obtain x1 where x1: "context_at c s1 = Some x1" and no_users: "wc_user_contexts x1 = []"
    using Some none by (auto simp: findAndValidateContext_def context_at_upd split: if_splits option.splits)
  define s4 where "s4 = fold (\<lambda>i s. snd (abortHandle c i s))
    (case context_at c (lockContext c s1) of None \<Rightarrow> [] | Some x \<Rightarrow> keys (wc_handles x)) (lockContext c s1)"
  note c2 = counted_lockContext [OF c1, of c]
  have c4: "counted (add_lock c (add_ctx c unused)) s4"
    unfolding s4_def by (rule fold_counted [OF c2]) (auto intro: counted_abortHandle)
  have idle: "\<not> isContextBusy c s1"
    using context_at_ok [OF c1 x1] by (simp add: isContextBusy_def x1 ctx_ok_def expect_defs)
  have keys_fold: "keys (wa_contexts (fold (\<lambda>i s. snd (abortHandle c i s)) is t)) = keys (wa_contexts t)" for "is" and t :: "'a WebApi"
    by (induction "is" arbitrary: t) simp_all
  have x4: "context_at c s4 \<noteq> None"
    using x1 context_at_keys [of c s1] by (simp add: context_at_keys s4_def keys_fold lockContext_def del: set_map)
  have end4: "finish_terminate c (markContextAsTerminated c s4) = (Some ORBIS_OK, s4\<lparr>wa_contexts := omap_erase c (wa_contexts s4)\<rparr>)"
    unfolding markContextAsTerminated_def by (rule finish_terminate_erases [OF x4])
  have await4: "await_context c (markContextAsTerminated c s4) = finish_terminate c (markContextAsTerminated c s4)"
    using ctx_not_busy [OF c4]
    by (auto simp: await_context_def markContextAsTerminated_def isContextBusy_def areContextHandlesBusy_def context_at_upd split: option.splits)
  have end2: "finish_terminate c (lockContext c s1) = (Some ORBIS_OK, s1\<lparr>wa_contexts := omap_erase c (wa_contexts s1)\<rparr>)"
    unfolding lockContext_def by (rule finish_terminate_erases) (simp add: x1)
  have "counted unused (s1\<lparr>wa_contexts := omap_erase c (wa_contexts s1)\<rparr>)"
    using counted_erase_context [OF c2] by (simp add: lockContext_def upd_context_def omap_erase_alter)
  then show ?thesis
    using Some idle counted_erase_context [OF c4] ctx_not_busy(3) [OF c4]
    by (auto simp: terminateContext_def x1 no_users Let_def end2 end4 await4 s4_def [symmetric])
qed (simp add: terminateContext_def s)

section \<open>Filters and callbacks\<close>

lemma counted_filters:
  assumes "counted e s"
  shows "counted e (snd (createPushEventFilter c ps s))" and "counted e (snd (deletePushEventFilter c i s))"
    and "counted e (snd (createServicePushEventFilter h now c k n l ps s))" and "counted e (snd (deleteServicePushEventFilter c i s))"
    and "counted e (snd (createExtendedPushEventFilter h now c k n l xs b s))" and "counted e (snd (deleteExtendedPushEventFilter c i s))"
  unfolding createPushEventFilter_def deletePushEventFilter_def createServicePushEventFilter_def deleteServicePushEventFilter_def
    createExtendedPushEventFilter_def deleteExtendedPushEventFilter_def
  by (rule counted_with_context [OF assms],
      force simp: createPushEventFilterInternal_def deletePushEventFilterInternal_def createServicePushEventFilterInternal_def
        deleteServicePushEventFilterInternal_def createExtendedPushEventFilterInternal_def deleteExtendedPushEventFilterInternal_def
        Let_def counted_startHandleTimer split: option.split intro!: counted_context_frame counted_startHandleTimer)+

lemma counted_callbacks:
  assumes "counted e s"
  shows "counted e (snd (registerPushEventCallback u i f a s))" and "counted e (snd (unregisterPushEventCallback u i s))"
    and "counted e (snd (registerServicePushEventCallback u i f g k a s))" and "counted e (snd (unregisterServicePushEventCallback u i s))"
    and "counted e (snd (registerExtdPushEventCallback u i f g a s))" and "counted e (snd (unregisterExtdPushEventCallback u i s))"
    and "counted e (snd (registerExtdPushEventCallbackA u i f a s))"
  unfolding registerPushEventCallback_def unregisterPushEventCallback_def registerServicePushEventCallback_def
    unregisterServicePushEventCallback_def registerExtdPushEventCallback_def unregisterExtdPushEventCallback_def
    registerExtdPushEventCallbackA_def
  by (rule counted_with_user [OF assms],
      force simp: registerPushEventCallbackInternal_def registerServicePushEventCallbackInternal_def
        registerExtdPushEventCallbackInternal_def user_ok_def omap_inv_put omap_inv_erase Let_def
        intro!: counted_upd_user)+

end
