(* ===== verification/WebApiProps.thy ===== *)
theory WebApiProps
  imports WebApiSystem
begin

text \<open>
  The web API library in every reachable state: nothing stays in use or locked between calls and the
  deletions answer at once; and what becomes of this when a library context is terminated that still
  has a user context.
\<close>

section \<open>Calls\<close>

text \<open>
  Left out are creating a user context when its library context has no free id, deleting a request
  that is not found, and terminating a library context that has user contexts.
\<close>

inductive web_call :: "'w HttpLib \<Rightarrow> 'w WebApi \<Rightarrow> 'w WebApi \<Rightarrow> bool" for lib where
  Initialize: "web_call lib s (snd (sceNpWebApiInitialize answer http pool s))"
| InitializeForPresence: "web_call lib s (snd (sceNpWebApiInitializeForPresence answer http pool s))"
| VshInitialize: "web_call lib s (snd (sceNpWebApiVshInitialize answer http pool s))"
| IntInitialize: "web_call lib s (snd (sceNpWebApiIntInitialize answer ini s))"
| Terminate: "(\<And>x. context_at c s = Some x \<Longrightarrow> wc_user_contexts x = []) \<Longrightarrow> web_call lib s (snd (sceNpWebApiTerminate lib c s))"
| CheckTimeout: "web_call lib s (sceNpWebApiCheckTimeout lib now s)"
| CreateContext: "fst (sceNpWebApiCreateContext user c oid s) \<noteq> ORBIS_NP_WEBAPI_ERROR_USER_CONTEXT_MAX \<Longrightarrow>
    web_call lib s (snd (sceNpWebApiCreateContext user c oid s))"
| CreateContextA: "fst (sceNpWebApiCreateContextA c user s) \<noteq> ORBIS_NP_WEBAPI_ERROR_USER_CONTEXT_MAX \<Longrightarrow>
    web_call lib s (snd (sceNpWebApiCreateContextA c user s))"
| DeleteContext: "web_call lib s (snd (sceNpWebApiDeleteContext lib u s))"
| RegisterNotificationCallback: "web_call lib s (snd (sceNpWebApiRegisterNotificationCallback u f a s))"
| UnregisterNotificationCallback: "web_call lib s (snd (sceNpWebApiUnregisterNotificationCallback u s))"
| CreateHandle: "web_call lib s (snd (sceNpWebApiCreateHandle c s))"
| AbortHandle: "web_call lib s (snd (sceNpWebApiAbortHandle c i s))"
| DeleteHandle: "web_call lib s (snd (sceNpWebApiDeleteHandle c i s))"
| SetHandleTimeout: "web_call lib s (snd (sceNpWebApiSetHandleTimeout c i t s))"
| CreateRequest: "web_call lib s (snd (sceNpWebApiCreateRequest u grp path m ct s))"
| IntCreateRequest: "web_call lib s (snd (sceNpWebApiIntCreateRequest u grp path m ct s))"
| CreateMultipartRequest: "web_call lib s (snd (sceNpWebApiCreateMultipartRequest u grp path m s))"
| AbortRequest: "web_call lib s (snd (sceNpWebApiAbortRequest lib r s))"
| DeleteRequest: "request_at (lib_of_request r) (user_of_request r) r s \<noteq> None \<Longrightarrow>
    web_call lib s (snd (sceNpWebApiDeleteRequest lib r s))"
| SetRequestTimeout: "web_call lib s (snd (sceNpWebApiSetRequestTimeout r t s))"
| SetMultipartContentType: "web_call lib s (snd (sceNpWebApiSetMultipartContentType r ty b s))"
| AddMultipartPart: "web_call lib s (snd (sceNpWebApiAddMultipartPart r p s))"
| AddHttpRequestHeader: "web_call lib s (snd (sceNpWebApiAddHttpRequestHeader r n v s))"
| SendRequest: "web_call lib s (snd (sceNpWebApiSendRequest lib base h now r d k s))"
| SendRequest2: "web_call lib s (snd (sceNpWebApiSendRequest2 lib base h now r d k info s))"
| SendMultipartRequest: "web_call lib s (snd (sceNpWebApiSendMultipartRequest lib base h now r i d k s))"
| SendMultipartRequest2: "web_call lib s (snd (sceNpWebApiSendMultipartRequest2 lib base h now r i d k info s))"
| GetHttpResponseHeaderValue: "web_call lib s (snd (sceNpWebApiGetHttpResponseHeaderValue lib r fn has k s))"
| GetHttpResponseHeaderValueLength: "web_call lib s (snd (sceNpWebApiGetHttpResponseHeaderValueLength lib r fn has s))"
| GetHttpStatusCode: "web_call lib s (snd (sceNpWebApiGetHttpStatusCode lib r has s))"
| ReadData: "web_call lib s (snd (sceNpWebApiReadData lib now r has k s))"
| CreatePushEventFilter: "web_call lib s (snd (sceNpWebApiCreatePushEventFilter c ps s))"
| CreateServicePushEventFilter: "web_call lib s (snd (sceNpWebApiCreateServicePushEventFilter h now c i n l ps s))"
| IntCreateServicePushEventFilter: "web_call lib s (snd (sceNpWebApiIntCreateServicePushEventFilter h now c i n l ps s))"
| CreateExtdPushEventFilter: "web_call lib s (snd (sceNpWebApiCreateExtdPushEventFilter h now c i n l xs s))"
| IntCreateCtxIndExtdPushEventFilter: "web_call lib s (snd (sceNpWebApiIntCreateCtxIndExtdPushEventFilter h now c i xs s))"
| DeletePushEventFilter: "web_call lib s (snd (sceNpWebApiDeletePushEventFilter c i s))"
| DeleteServicePushEventFilter: "web_call lib s (snd (sceNpWebApiDeleteServicePushEventFilter c i s))"
| DeleteExtdPushEventFilter: "web_call lib s (snd (sceNpWebApiDeleteExtdPushEventFilter c i s))"
| RegisterPushEventCallback: "web_call lib s (snd (sceNpWebApiRegisterPushEventCallback u i f a s))"
| RegisterServicePushEventCallback: "web_call lib s (snd (sceNpWebApiRegisterServicePushEventCallback u i f a s))"
| IntRegisterServicePushEventCallback: "web_call lib s (snd (sceNpWebApiIntRegisterServicePushEventCallback u i f a s))"
| IntRegisterServicePushEventCallbackA: "web_call lib s (snd (sceNpWebApiIntRegisterServicePushEventCallbackA u i f a s))"
| RegisterExtdPushEventCallback: "web_call lib s (snd (sceNpWebApiRegisterExtdPushEventCallback u i f a s))"
| RegisterExtdPushEventCallbackA: "web_call lib s (snd (sceNpWebApiRegisterExtdPushEventCallbackA u i f a s))"
| UnregisterPushEventCallback: "web_call lib s (snd (sceNpWebApiUnregisterPushEventCallback u i s))"
| UnregisterServicePushEventCallback: "web_call lib s (snd (sceNpWebApiUnregisterServicePushEventCallback u i s))"
| UnregisterExtdPushEventCallback: "web_call lib s (snd (sceNpWebApiUnregisterExtdPushEventCallback u i s))"
| EnqueuePush: "web_call lib s (enqueue_push_event ev s)"
| DrainPush: "web_call lib s (snd (DrainPushEvents s))"

inductive web_reach :: "'w HttpLib \<Rightarrow> 'w WebApi \<Rightarrow> bool" for lib where
  Start: "web_reach lib (init_web_api w)"
| Call: "web_reach lib s \<Longrightarrow> web_call lib s s' \<Longrightarrow> web_reach lib s'"

lemma counted_start_library:
  "counted unused s \<Longrightarrow> counted unused (snd (start_library answer http pool n t s))"
  using counted_createLibraryContext [of s http pool n t]
    counted_createLibraryContext [of "s\<lparr>wa_is_initialized := True, wa_sdk_ver := snd answer\<rparr>" http pool n t]
  by (auto simp: start_library_def initializeLibrary_def split: prod.splits)

lemma counted_terminated:
  "counted unused (snd x) \<Longrightarrow> counted unused (snd (terminated x))"
  by (auto simp: terminated_def split: prod.split option.split)

lemma counted_new_request: "counted unused s \<Longrightarrow> counted unused (snd (createRequest u grp path m ct mp s))"
  by (rule counted_createRequest) (simp_all add: unused_def)

lemmas counted_ops = counted_new_request counted_start_library counted_terminated counted_checkTimeout counted_set_notification counted_createHandle
  counted_abortHandle counted_setHandleTimeout counted_abortRequest counted_setRequestTimeout counted_setMultipartContentType
  counted_addMultipartPart counted_addHttpRequestHeader counted_sendRequest counted_getHttpResponseHeaderValue
  counted_getHttpStatusCode counted_readData counted_filters counted_callbacks

lemma web_call_counted: "web_call lib s s' \<Longrightarrow> counted unused s \<Longrightarrow> counted unused s'"
proof (induction rule: web_call.induct)
  case (Terminate c s)
  then show ?case using counted_terminateContext [of s c lib] by (auto simp: sceNpWebApiTerminate_def intro: counted_terminated)
next
  case (CreateContext user c oid s)
  then show ?case using counted_createUserContext [of s c user]
    by (auto simp: sceNpWebApiCreateContext_def createUserContextWithOnlineId_def split: if_splits)
next
  case (CreateContextA c user s)
  then show ?case using counted_createUserContext [of s c user] by (auto simp: sceNpWebApiCreateContextA_def split: if_splits)
next
  case (DeleteRequest r s)
  then show ?case using counted_deleteRequest [of s r lib] by (simp add: sceNpWebApiDeleteRequest_def)
next
  case (GetHttpStatusCode s r has)
  then show ?case using counted_getHttpStatusCode [of unused s lib r] by (auto simp: sceNpWebApiGetHttpStatusCode_def split: prod.splits)
next
  case (AddHttpRequestHeader s r n v)
  then show ?case by (auto simp: sceNpWebApiAddHttpRequestHeader_def split: option.split intro: counted_ops)
next
  case (IntInitialize s answer ini)
  then show ?case by (auto simp: sceNpWebApiIntInitialize_def split: option.split intro: counted_ops)
next
  case (GetHttpResponseHeaderValue s r fn has k)
  then show ?case by (auto simp: sceNpWebApiGetHttpResponseHeaderValue_def split: option.split intro: counted_ops)
next
  case (GetHttpResponseHeaderValueLength s r fn has)
  then show ?case by (auto simp: sceNpWebApiGetHttpResponseHeaderValueLength_def split: option.split intro: counted_ops)
qed (simp_all add: sceNpWebApiInitialize_def sceNpWebApiInitializeForPresence_def sceNpWebApiVshInitialize_def
  sceNpWebApiCheckTimeout_def sceNpWebApiDeleteContext_def
  sceNpWebApiRegisterNotificationCallback_def registerNotificationCallback_def sceNpWebApiUnregisterNotificationCallback_def
  unregisterNotificationCallback_def sceNpWebApiCreateHandle_def sceNpWebApiAbortHandle_def sceNpWebApiDeleteHandle_def
  sceNpWebApiSetHandleTimeout_def sceNpWebApiCreateRequest_def sceNpWebApiIntCreateRequest_def sceNpWebApiCreateMultipartRequest_def
  sceNpWebApiAbortRequest_def sceNpWebApiSetRequestTimeout_def sceNpWebApiSetMultipartContentType_def sceNpWebApiAddMultipartPart_def
  sceNpWebApiSendRequest_def sceNpWebApiSendRequest2_def sceNpWebApiSendMultipartRequest_def sceNpWebApiSendMultipartRequest2_def
  sceNpWebApiReadData_def sceNpWebApiCreatePushEventFilter_def
  sceNpWebApiCreateServicePushEventFilter_def sceNpWebApiIntCreateServicePushEventFilter_def sceNpWebApiCreateExtdPushEventFilter_def
  sceNpWebApiIntCreateCtxIndExtdPushEventFilter_def sceNpWebApiDeletePushEventFilter_def sceNpWebApiDeleteServicePushEventFilter_def
  sceNpWebApiDeleteExtdPushEventFilter_def sceNpWebApiRegisterPushEventCallback_def sceNpWebApiRegisterServicePushEventCallback_def
  sceNpWebApiIntRegisterServicePushEventCallback_def sceNpWebApiIntRegisterServicePushEventCallbackA_def
  sceNpWebApiRegisterExtdPushEventCallback_def sceNpWebApiRegisterExtdPushEventCallbackA_def sceNpWebApiUnregisterPushEventCallback_def
  sceNpWebApiUnregisterServicePushEventCallback_def sceNpWebApiUnregisterExtdPushEventCallback_def enqueue_push_event_def
  DrainPushEvents_def counted_ops counted_deleteUserContext counted_deleteHandle)

lemma web_reach_counted: "web_reach lib s \<Longrightarrow> counted unused s"
proof (induction rule: web_reach.induct)
  case (Start w)
  show ?case by (simp add: counted_def init_web_api_def)
qed (rule web_call_counted)

section \<open>Nothing stays in use\<close>

definition demo_http :: "unit HttpLib" where
  "demo_http = \<lparr>hl_create_template = (\<lambda>_ w. (1, w)), hl_create_connection = (\<lambda>_ _ w. (1, w)),
     hl_create_request = (\<lambda>_ _ _ _ w. (1, w)), hl_add_header = (\<lambda>_ _ _ w. w), hl_send = (\<lambda>_ _ _ w. (0, w)),
     hl_status = (\<lambda>_ w. (0, Some 200)), hl_read = (\<lambda>_ _ w. (Inr [], w)), hl_headers = (\<lambda>_ w. (0, None)),
     hl_abort = (\<lambda>_ w. w), hl_delete_request = (\<lambda>_ w. w), hl_delete_connection = (\<lambda>_ w. w), hl_delete_template = (\<lambda>_ w. w)\<rparr>"

text \<open>A library of SDK 5.00 with one library context and one user context.\<close>

definition demo_web :: "unit WebApi" where
  "demo_web = snd (sceNpWebApiCreateContextA 1 7 (snd (sceNpWebApiInitialize (0, 0x5000000) 3 0 (init_web_api ()))))"

lemma demo_web_eq:
  "demo_web = (init_web_api ())\<lparr>wa_is_initialized := True, wa_sdk_ver := 0x5000000, wa_library_context_count := 1,
     wa_active_library_contexts := 1, wa_user_context_count := 1,
     wa_contexts := [(1, new_lib_context\<lparr>wc_lib_ctx_id := 1, wc_lib_http_ctx_id := 3,
       wc_user_contexts := [(0x10001, new_user_context\<lparr>wu_user_id := 7, wu_user_ctx_id := 0x10001\<rparr>)]\<rparr>)]\<rparr>"
  by (simp add: demo_web_def sceNpWebApiCreateContextA_def sceNpWebApiInitialize_def start_library_def initializeLibrary_def
      createLibraryContext_def createUserContext_def findAndValidateContext_def findUserContextByUserId_def releaseContext_def
      context_at_def upd_context_def alter_def init_web_api_def free_id.simps new_lib_context_def new_user_context_def Let_def)

lemma demo_web_reach: "web_reach demo_http demo_web"
proof -
  have "web_reach demo_http (snd (sceNpWebApiInitialize (0, 0x5000000) 3 0 (init_web_api ())))"
    by (rule web_reach.Call [OF web_reach.Start web_call.Initialize])
  then show ?thesis
    unfolding demo_web_def
    by (rule web_reach.Call [OF _ web_call.CreateContextA])
       (simp add: sceNpWebApiCreateContextA_def sceNpWebApiInitialize_def start_library_def initializeLibrary_def
      createLibraryContext_def createUserContext_def findAndValidateContext_def findUserContextByUserId_def releaseContext_def
      context_at_def upd_context_def alter_def init_web_api_def free_id.simps new_lib_context_def new_user_context_def Let_def)
qed



section \<open>Deleting\<close>

text \<open>A request that is not found leaves its context locked.\<close>

lemma deleteRequest_unknown:
  assumes s: "counted unused s" and x: "context_at (lib_of_request r) s = Some x"
    and none: "request_at (lib_of_request r) (user_of_request r) r s = None"
  shows "fst (deleteRequest lib r s) \<in> {Some ORBIS_NP_WEBAPI_ERROR_USER_CONTEXT_NOT_FOUND, Some ORBIS_NP_WEBAPI_ERROR_REQUEST_NOT_FOUND}"
    and "\<exists>y. context_at (lib_of_request r) (snd (deleteRequest lib r s)) = Some y \<and> wc_lock y = 1 \<and> wc_user_count y = 0"
proof -
  let ?c = "lib_of_request r" and ?u = "user_of_request r"
  have ok: "ctx_ok unused (?c, x)" by (rule context_at_ok [OF s x])
  then obtain s1 where s1: "findAndValidateContext ?c 0 s = Some s1"
    by (auto simp: findAndValidateContext_def x ctx_ok_def)
  note c2 = counted_lockContext [OF counted_findAndValidate [OF s s1], of ?c]
  have none2: "request_at ?c ?u r (lockContext ?c s1) = None"
    using s1 none by (auto simp: findAndValidateContext_def lockContext_def place_simps split: if_splits option.splits)
  have locked: "\<exists>y. context_at ?c t = Some y \<and> wc_lock y = 1 \<and> wc_user_count y = 0"
    if "counted (add_lock ?c unused) t" "context_at ?c t \<noteq> None" for t :: "'a WebApi"
    using that context_at_ok [OF that(1)] by (fastforce simp: ctx_ok_def expect_defs)
  have swap: "add_lock ?c (add_ctx ?c unused) = add_ctx ?c (add_lock ?c unused)" by (simp add: add_lock_def add_ctx_def)
  have x2: "context_at ?c (lockContext ?c s1) \<noteq> None"
    using s1 by (auto simp: findAndValidateContext_def lockContext_def context_at_upd split: if_splits option.splits)
  have "fst (deleteRequest lib r s) \<in> {Some ORBIS_NP_WEBAPI_ERROR_USER_CONTEXT_NOT_FOUND, Some ORBIS_NP_WEBAPI_ERROR_REQUEST_NOT_FOUND} \<and>
    (\<exists>y. context_at ?c (snd (deleteRequest lib r s)) = Some y \<and> wc_lock y = 1 \<and> wc_user_count y = 0)"
  proof (cases "findUserContext ?c ?u (lockContext ?c s1)")
    case None
    have "counted (add_lock ?c unused) (releaseContext ?c (lockContext ?c s1))"
      using counted_releaseContext [OF c2 [unfolded swap]] .
    from locked [OF this] x2 s1 None show ?thesis
      by (simp add: deleteRequest_def Let_def) (simp add: releaseContext_def context_at_upd)
  next
    case (Some s3)
    note c3 = counted_findUser [OF c2 Some]
    have s3: "s3 = upd_user ?c ?u (\<lambda>uc. uc\<lparr>wu_user_count := wu_user_count uc + 1\<rparr>) (lockContext ?c s1)"
      using Some by (auto simp: findUserContext_def split: option.splits if_splits)
    have "request_at ?c ?u r s3 = None" using none2 by (simp add: s3 request_at_upd_user)
    moreover have "counted (add_lock ?c unused) (releaseContext ?c (releaseUserContext ?c ?u s3))"
      using counted_releaseContext [OF counted_releaseUser [OF c3, unfolded swap]] .
    note locked [OF this]
    moreover have "context_at ?c (releaseContext ?c (releaseUserContext ?c ?u s3)) \<noteq> None"
      using x2 by (simp add: s3 releaseContext_def releaseUserContext_def upd_user_def context_at_upd)
    ultimately show ?thesis using s1 Some by (simp add: deleteRequest_def findRequestAndMarkBusy_def Let_def)
  qed
  then show "fst (deleteRequest lib r s) \<in> {Some ORBIS_NP_WEBAPI_ERROR_USER_CONTEXT_NOT_FOUND, Some ORBIS_NP_WEBAPI_ERROR_REQUEST_NOT_FOUND}"
    and "\<exists>y. context_at ?c (snd (deleteRequest lib r s)) = Some y \<and> wc_lock y = 1 \<and> wc_user_count y = 0" by blast+
qed



section \<open>Terminating a library context that has user contexts\<close>

definition user_keys :: "s32 \<Rightarrow> 'w WebApi \<Rightarrow> s32 list" where
  "user_keys c s = (case context_at c s of None \<Rightarrow> [] | Some x \<Rightarrow> keys (wc_user_contexts x))"

lemma user_keys_upd [simp]:
  "(\<And>x. keys (wc_user_contexts (f x)) = keys (wc_user_contexts x)) \<Longrightarrow> user_keys c' (upd_context c f s) = user_keys c' s"
  by (auto simp: user_keys_def context_at_upd split: option.split)

lemma user_keys_http [simp]: "user_keys c (s\<lparr>wa_http := w\<rparr>) = user_keys c s"
  by (simp add: user_keys_def context_at_def)

lemma user_keys_upd_user [simp]: "user_keys c' (upd_user c u f s) = user_keys c' s"
  by (simp add: upd_user_def)

lemma user_at_keys: "user_at c u s \<noteq> None \<longleftrightarrow> u \<in> set (user_keys c s)"
  by (cases "context_at c s") (simp_all add: user_at_def user_keys_def map_of_eq_None_iff)

lemma sdk_upd [simp]: "wa_sdk_ver (upd_context c f s) = wa_sdk_ver s" "wa_sdk_ver (upd_user c u k s) = wa_sdk_ver s"
  "wa_sdk_ver (upd_request c u r g s) = wa_sdk_ver s"
  by (simp_all add: upd_request_def upd_user_def upd_context_def)

lemma keys_omap_erase: "keys (omap_erase k m) = filter (\<lambda>k'. k' \<noteq> k) (keys m)"
  by (induction m) (auto simp: omap_erase_def)

lemma erase_user_keys: "user_keys c (snd (erase_user_context c u s)) = filter (\<lambda>k. k \<noteq> u) (user_keys c s)"
  by (cases "context_at c s")
     (auto simp: erase_user_context_def releaseContext_def unlockContext_def user_keys_def context_at_upd keys_omap_erase)

lemma abort_requests_keep:
  "user_keys c' (fold (\<lambda>(r, _) s. snd (abortRequestInternal lib c u r s)) qs s) = user_keys c' s \<and>
   wa_sdk_ver (fold (\<lambda>(r, _) s. snd (abortRequestInternal lib c u r s)) qs s) = wa_sdk_ver s \<and>
   keys (wa_contexts (fold (\<lambda>(r, _) s. snd (abortRequestInternal lib c u r s)) qs s)) = keys (wa_contexts s)"
proof (induction qs arbitrary: s)
  case (Cons q qs)
  have "user_keys c' (snd (abortRequestInternal lib c u r s)) = user_keys c' s \<and>
    wa_sdk_ver (snd (abortRequestInternal lib c u r s)) = wa_sdk_ver s \<and>
    keys (wa_contexts (snd (abortRequestInternal lib c u r s))) = keys (wa_contexts s)" for r
    by (auto simp: abortRequestInternal_def upd_request_def upd_user_def simp del: set_map split: option.split)
  with Cons show ?case by (simp add: case_prod_beta)
qed simp

text \<open>A user context that is there is deleted.\<close>

lemma deleteUserContext_there:
  assumes e: "idle e" "counted e s" and u: "u \<in> set (user_keys (lib_of_user u) s)"
  shows "fst (deleteUserContext lib u s) = Some ORBIS_OK \<and>
    user_keys (lib_of_user u) (snd (deleteUserContext lib u s)) = filter (\<lambda>k. k \<noteq> u) (user_keys (lib_of_user u) s) \<and>
    wa_sdk_ver (snd (deleteUserContext lib u s)) = wa_sdk_ver s \<and>
    keys (wa_contexts (snd (deleteUserContext lib u s))) = keys (wa_contexts s)"
proof -
  let ?c = "lib_of_user u"
  from u obtain x where x: "context_at ?c s = Some x" by (cases "context_at ?c s") (auto simp: user_keys_def)
  with context_at_ok [OF e(2) x] obtain s1 where s1: "findAndValidateContext ?c 0 s = Some s1"
    by (auto simp: findAndValidateContext_def ctx_ok_def)
  then have s1_keys: "user_keys ?c s1 = user_keys ?c s" "wa_sdk_ver s1 = wa_sdk_ver s" "keys (wa_contexts s1) = keys (wa_contexts s)"
    by (auto simp: findAndValidateContext_def split: if_splits option.splits)
  note c2 = counted_lockContext [OF counted_findAndValidate [OF e(2) s1], of ?c]
  have "user_at ?c u (lockContext ?c s1) \<noteq> None" using u unfolding user_at_keys by (simp add: lockContext_def s1_keys)
  then obtain uc where "user_at ?c u (lockContext ?c s1) = Some uc" by blast
  with user_at_ok [OF c2 this] obtain s3 where s3: "findUserContext ?c u (lockContext ?c s1) = Some s3"
    by (auto simp: findUserContext_def user_ok_def)
  then have s3_keys: "user_keys ?c s3 = user_keys ?c s" "wa_sdk_ver s3 = wa_sdk_ver s" "keys (wa_contexts s3) = keys (wa_contexts s)"
    by (auto simp: findUserContext_def lockContext_def s1_keys upd_user_def split: if_splits option.splits)
  note c3 = counted_findUser [OF c2 s3]
  define s4 where "s4 = fold (\<lambda>(r, _) s. snd (abortRequestInternal lib ?c u r s))
    (case user_at ?c u s3 of None \<Rightarrow> [] | Some uc \<Rightarrow> wu_requests uc) s3"
  have s4_keys: "user_keys ?c s4 = user_keys ?c s" "wa_sdk_ver s4 = wa_sdk_ver s" "keys (wa_contexts s4) = keys (wa_contexts s)"
    unfolding s4_def by (simp_all add: abort_requests_keep s3_keys)
  have c4: "counted (add_user ?c u (add_lock ?c (add_ctx ?c e))) s4"
    unfolding s4_def by (rule fold_counted [OF c3]) (auto intro: counted_abortRequestInternal)
  have alive: "\<not> (case user_at ?c u s4 of None \<Rightarrow> False | Some uc \<Rightarrow> wu_deleted uc)"
    by (auto simp: user_ok_def split: option.split dest: user_at_ok [OF c4])
  have await: "await_user_context ?c u (upd_user ?c u (\<lambda>uc. uc\<lparr>wu_deleted := True\<rparr>) s4) = erase_user_context ?c u s4"
    using counted_await_user [OF e(1) c4] unfolding await_user_context_def erase_marked_user by (auto split: if_splits)
  have "deleteUserContext lib u s = erase_user_context ?c u s3 \<or> deleteUserContext lib u s = erase_user_context ?c u s4"
    using s1 s3 alive await user_not_busy [OF e(1) c3]
    unfolding deleteUserContext_def Let_def s4_def [symmetric] by (simp add: s4_def [symmetric])
  moreover have "fst (erase_user_context ?c u t) = Some ORBIS_OK \<and> wa_sdk_ver (snd (erase_user_context ?c u t)) = wa_sdk_ver t \<and>
      keys (wa_contexts (snd (erase_user_context ?c u t))) = keys (wa_contexts t)"
    for t :: "'a WebApi" by (simp add: erase_user_context_def releaseContext_def unlockContext_def)
  ultimately show ?thesis using erase_user_keys [of ?c u s3] erase_user_keys [of ?c u s4] s3_keys s4_keys by auto
qed

lemma user_keys_distinct: "counted e s \<Longrightarrow> distinct (user_keys c s)"
  by (cases "context_at c s") (auto simp: user_keys_def ctx_ok_def omap_inv_distinct dest: context_at_ok)

lemma user_keys_lib: "counted e s \<Longrightarrow> u \<in> set (user_keys c s) \<Longrightarrow> lib_of_user u = c"
  using user_at_keys [of c u s] by (auto simp: user_ok_def dest: user_at_ok)

text \<open>Only the first user context is deleted.\<close>

lemma terminateContext_users:
  assumes s: "counted unused s" and x: "context_at c s = Some x" and us: "keys (wc_user_contexts x) = u # us"
  shows "fst (terminateContext lib c s) = Some ORBIS_OK \<and> counted (add_ctx c unused) (snd (terminateContext lib c s)) \<and>
    user_keys c (snd (terminateContext lib c s)) = us \<and> context_at c (snd (terminateContext lib c s)) \<noteq> None \<and>
    wa_sdk_ver (snd (terminateContext lib c s)) = wa_sdk_ver s"
proof -
  from context_at_ok [OF s x] x obtain s1 where s1: "findAndValidateContext c 0 s = Some s1"
    by (auto simp: findAndValidateContext_def ctx_ok_def)
  then have keys1: "user_keys c s1 = u # us" "wa_sdk_ver s1 = wa_sdk_ver s"
    using x us by (auto simp: findAndValidateContext_def user_keys_def context_at_upd split: if_splits option.splits)
  then have x1: "context_at c s1 \<noteq> None" by (cases "context_at c s1") (simp_all add: user_keys_def)
  note c1 = counted_findAndValidate [OF s s1]
  have idle: "\<not> isContextBusy c s1"
    using context_at_ok [OF c1] by (auto simp: isContextBusy_def ctx_ok_def expect_defs split: option.split)
  have u: "lib_of_user u = c" using user_keys_lib [OF c1, of u c] keys1 by simp
  have del: "fst (deleteUserContext lib u s1) = Some ORBIS_OK" "user_keys c (snd (deleteUserContext lib u s1)) = us"
    "wa_sdk_ver (snd (deleteUserContext lib u s1)) = wa_sdk_ver s" "context_at c (snd (deleteUserContext lib u s1)) \<noteq> None"
    using deleteUserContext_there [OF _ c1, of u lib] user_keys_distinct [OF c1, of c] x1
    by (auto simp: u keys1 context_at_keys filter_id_conv simp del: set_map)
  have c2: "counted (add_ctx c unused) (snd (deleteUserContext lib u s1))"
    using counted_deleteUserContext [OF _ c1, of lib u] by simp
  obtain s2 where s2: "deleteUserContext lib u s1 = (Some ORBIS_OK, s2)" using del(1) by (cases "deleteUserContext lib u s1") auto
  have "(case context_at c s1 of None \<Rightarrow> [] | Some x \<Rightarrow> keys (wc_user_contexts x)) = u # us"
    using keys1 by (simp add: user_keys_def)
  then have "terminateContext lib c s = (Some ORBIS_OK, s2)"
    using s1 idle s2 by (simp add: terminateContext_def)
  with del c2 s2 show ?thesis by simp
qed

lemma unlock_lock: "unlockContext c (lockContext c s) = s"
  by (simp add: unlockContext_def lockContext_def upd_context_twice) (simp add: upd_context_def alter_def case_prod_beta)

text \<open>A call that sleeps for a context that stays in use sleeps again.\<close>

lemma await_context_busy:
  assumes "isContextBusy c s"
  shows "await_context c s = (None, unlockContext c s)" and "await_context c (lockContext c (unlockContext c s)) = (None, unlockContext c s)"
proof -
  have "isContextBusy c (lockContext c (unlockContext c s))"
    using assms by (auto simp: isContextBusy_def lockContext_def unlockContext_def context_at_upd split: option.splits)
  then show "await_context c (lockContext c (unlockContext c s)) = (None, unlockContext c s)"
    by (simp add: await_context_def unlock_lock)
qed (simp add: await_context_def assms)

lemma terminateContext_in_use:
  assumes s: "counted (add_ctx c unused) s" and x: "context_at c s \<noteq> None"
  shows "\<not> sdk_at_least WEB_FW_400 s \<Longrightarrow> fst (terminateContext lib c s) = Some ORBIS_NP_WEBAPI_ERROR_LIB_CONTEXT_BUSY"
    and "sdk_at_least WEB_FW_400 s \<Longrightarrow> user_keys c s = [] \<Longrightarrow> \<exists>t. terminateContext lib c s = (None, t) \<and>
      await_context c (lockContext c t) = (None, t)"
proof -
  from x obtain y where y: "context_at c s = Some y" by auto
  with context_at_ok [OF s y] obtain s1 where s1: "findAndValidateContext c 0 s = Some s1"
    by (auto simp: findAndValidateContext_def ctx_ok_def)
  then have s1_keys: "user_keys c s1 = user_keys c s" "wa_sdk_ver s1 = wa_sdk_ver s" "context_at c s1 \<noteq> None"
    using y by (auto simp: findAndValidateContext_def context_at_upd split: if_splits)
  note c1 = counted_findAndValidate [OF s s1]
  have busy: "isContextBusy c t" if "counted e t" "we_ctx e c = 2" "context_at c t \<noteq> None" for e and t :: "'a WebApi"
    using that context_at_ok [OF that(1)] by (fastforce simp: isContextBusy_def ctx_ok_def)
  have "isContextBusy c s1" by (rule busy [OF c1]) (simp_all add: expect_defs s1_keys)
  then show "\<not> sdk_at_least WEB_FW_400 s \<Longrightarrow> fst (terminateContext lib c s) = Some ORBIS_NP_WEBAPI_ERROR_LIB_CONTEXT_BUSY"
    using s1 s1_keys(2) by (simp add: terminateContext_def sdk_at_least_def)
  assume sdk: "sdk_at_least WEB_FW_400 s" and none: "user_keys c s = []"
  define s4 where "s4 = fold (\<lambda>i s. snd (abortHandle c i s))
    (case context_at c (lockContext c s1) of None \<Rightarrow> [] | Some x \<Rightarrow> keys (wc_handles x)) (lockContext c s1)"
  have c4: "counted (add_lock c (add_ctx c (add_ctx c unused))) s4"
    unfolding s4_def by (rule fold_counted [OF counted_lockContext [OF c1]]) (auto intro: counted_abortHandle)
  have keys_fold: "keys (wa_contexts (fold (\<lambda>i s. snd (abortHandle c i s)) is t)) = keys (wa_contexts t)" for "is" and t :: "'a WebApi"
    by (induction "is" arbitrary: t) simp_all
  have x4: "context_at c s4 \<noteq> None"
    using s1_keys(3) by (simp add: context_at_keys s4_def keys_fold lockContext_def del: set_map)
  have "isContextBusy c s4" by (rule busy [OF c4 _ x4]) (simp add: expect_defs)
  then have busy4: "isContextBusy c (markContextAsTerminated c s4)"
    by (auto simp: isContextBusy_def markContextAsTerminated_def context_at_upd split: option.splits)
  have alive: "\<not> isContextTerminated c s4"
    using context_at_ok [OF c4] by (auto simp: isContextTerminated_def ctx_ok_def split: option.split)
  have users: "(case context_at c s1 of None \<Rightarrow> [] | Some x \<Rightarrow> keys (wc_user_contexts x)) = []"
    using s1_keys(1) none by (simp add: user_keys_def)
  have sdk1: "sdk_at_least WEB_FW_400 s1" "sdk_at_least WEB_FW_400 (lockContext c s1)"
    using sdk s1_keys(2) by (simp_all add: sdk_at_least_def lockContext_def)
  have "terminateContext lib c s = (None, unlockContext c (markContextAsTerminated c s4))"
    using s1 users sdk1 alive await_context_busy(1) [OF busy4]
    unfolding terminateContext_def Let_def s4_def [symmetric] by (simp add: s4_def [symmetric])
  with await_context_busy(2) [OF busy4] show "\<exists>t. terminateContext lib c s = (None, t) \<and> await_context c (lockContext c t) = (None, t)"
    by simp
qed

text \<open>
  Claim C29. Terminating a library context that still has user contexts deletes the first of them, answers OK and
  leaves the library context there, counted as used once. The next call to terminate it answers that
  it is busy before version 4.00; from then on, once there is no user context left, it sleeps, and as
  often as it looks again nothing has changed.
\<close>

theorem terminate_with_users_never_ends:
  assumes "web_reach lib s" "context_at c s = Some x" "keys (wc_user_contexts x) = u # us"
  shows "let s1 = snd (sceNpWebApiTerminate lib c s); answer = sceNpWebApiTerminate lib c s1
    in fst (sceNpWebApiTerminate lib c s) = Some ORBIS_OK \<and>
       (\<exists>y. context_at c s1 = Some y \<and> wc_user_count y = 1 \<and> keys (wc_user_contexts y) = us) \<and>
       (\<not> sdk_at_least WEB_FW_400 s \<longrightarrow> fst answer = Some ORBIS_NP_WEBAPI_ERROR_LIB_CONTEXT_BUSY) \<and>
       (sdk_at_least WEB_FW_400 s \<and> us = [] \<longrightarrow>
          fst answer = None \<and> await_context c (lockContext c (snd answer)) = (None, snd answer))"
proof -
  obtain s2 where s2: "terminateContext lib c s = (Some ORBIS_OK, s2)" and c2: "counted (add_ctx c unused) s2"
    and us: "user_keys c s2 = us" and x2: "context_at c s2 \<noteq> None" and sdk: "wa_sdk_ver s2 = wa_sdk_ver s"
    using terminateContext_users [OF web_reach_counted [OF assms(1)] assms(2,3), of lib] by (cases "terminateContext lib c s") auto
  define s1 where "s1 = snd (sceNpWebApiTerminate lib c s)"
  have s1: "counted (add_ctx c unused) s1" "user_keys c s1 = us" "context_at c s1 = context_at c s2" "wa_sdk_ver s1 = wa_sdk_ver s"
    using c2 us sdk by (simp_all add: s1_def sceNpWebApiTerminate_def s2 terminated_def user_keys_def context_at_def)
  then obtain y where y: "context_at c s1 = Some y" using x2 by auto
  have "wc_user_count y = 1 \<and> keys (wc_user_contexts y) = us"
    using context_at_ok [OF s1(1) y] s1(2) y by (simp add: ctx_ok_def user_keys_def expect_defs)
  moreover have "fst (sceNpWebApiTerminate lib c s) = Some ORBIS_OK" by (simp add: sceNpWebApiTerminate_def s2 terminated_def)
  moreover have "fst (terminated z) = fst z" for z :: "s32 option \<times> 'a WebApi" by (auto simp: terminated_def split: prod.split option.split)
  ultimately show ?thesis
    using terminateContext_in_use [where lib = lib, OF s1(1)] y s1(2,4) unfolding s1_def [symmetric] Let_def
    by (auto simp: sceNpWebApiTerminate_def sdk_at_least_def terminated_def)
qed

lemma terminate_with_users_never_ends_witness:
  "fst (sceNpWebApiTerminate demo_http 1 demo_web) = Some ORBIS_OK \<and>
   fst (sceNpWebApiTerminate demo_http 1 (snd (sceNpWebApiTerminate demo_http 1 demo_web))) = None"
  using terminate_with_users_never_ends [OF demo_web_reach, of 1 _ "0x10001" "[]"]
  by (simp add: demo_web_eq init_web_api_def context_at_def new_lib_context_def sdk_at_least_def Let_def)

end
