(* ===== verification/WebApiEvents.thy ===== *)
theory WebApiEvents
  imports WebApiProps
begin

text \<open>
  What the web API library delivers: push events to the callbacks of the game, the body of a request that
  is sent in parts, and the headers of a response.
\<close>

section \<open>Push events\<close>

fun basic_for :: "s32 \<Rightarrow> s32 \<Rightarrow> PushCall \<Rightarrow> bool" where
  "basic_for u i (BasicPush f u' i' to_peer from_peer dt dat arg) \<longleftrightarrow> u' = u \<and> i' = i"
| "basic_for u i _ \<longleftrightarrow> False"

fun extended_for :: "s32 \<Rightarrow> s32 \<Rightarrow> PushCall \<Rightarrow> bool" where
  "extended_for u i (ExtdPush f u' i' svc label to_account to_id from_account from_id dt dat extd arg) \<longleftrightarrow> u' = u \<and> i' = i"
| "extended_for u i _ \<longleftrightarrow> False"

lemma filter_concat_one:
  "z \<in> set xs \<Longrightarrow> distinct xs \<Longrightarrow> (\<And>y. y \<in> set xs \<Longrightarrow> y \<noteq> z \<Longrightarrow> filter P (h y) = []) \<Longrightarrow>
   filter P (concat (map h xs)) = filter P (h z)"
proof (induction xs)
  case (Cons x xs)
  show ?case
  proof (cases "x = z")
    case True
    with Cons.prems have "filter P (concat (map h xs)) = []" by (auto simp: filter_concat filter_empty_conv)
    with True show ?thesis by simp
  next
    case False
    with Cons show ?thesis by auto
  qed
qed simp

lemma map_filter_concat: "List.map_filter g xs = concat (map (\<lambda>x. case g x of None \<Rightarrow> [] | Some y \<Rightarrow> [y]) xs)"
  by (induction xs) (auto simp: List.map_filter_def split: option.split)

lemma map_filter_one:
  "z \<in> set xs \<Longrightarrow> distinct xs \<Longrightarrow> (\<And>y c. y \<in> set xs \<Longrightarrow> y \<noteq> z \<Longrightarrow> g y = Some c \<Longrightarrow> \<not> P c) \<Longrightarrow>
   (\<And>c. g z = Some c \<Longrightarrow> P c) \<Longrightarrow> filter P (List.map_filter g xs) = (case g z of None \<Rightarrow> [] | Some c \<Rightarrow> [c])"
  unfolding map_filter_concat by (subst filter_concat_one [of z]) (auto split: option.split)

lemma map_filter_none: "(\<And>y c. y \<in> set xs \<Longrightarrow> g y = Some c \<Longrightarrow> \<not> P c) \<Longrightarrow> filter P (List.map_filter g xs) = []"
  by (force simp: List.map_filter_def filter_empty_conv)

lemma omap_entries: "omap_inv m \<Longrightarrow> distinct m"
  by (auto simp: distinct_map dest: omap_inv_distinct)

lemma omap_other: "omap_inv m \<Longrightarrow> (k, v) \<in> set m \<Longrightarrow> p \<in> set m \<Longrightarrow> p \<noteq> (k, v) \<Longrightarrow> fst p \<noteq> k"
  using omap_inv_distinct by (metis eq_key_imp_eq_value prod.collapse)

text \<open>The callbacks of another user context are not called for this one.\<close>

lemma calls_of_entry:
  "extended_call ev x u entry = Some pc \<Longrightarrow> extended_for u (fst entry) pc \<and> \<not> basic_for u' i pc"
  "service_call ev x u sentry = Some pc \<Longrightarrow> \<not> extended_for u' i pc \<and> \<not> basic_for u' i pc"
  "basic_call ev x u bentry = Some pc \<Longrightarrow> basic_for u (fst bentry) pc \<and> \<not> extended_for u' i pc"
  by (auto simp: extended_call_def service_call_def basic_call_def split: prod.splits option.splits if_splits)

lemma for_unique: "basic_for u i pc \<Longrightarrow> basic_for u' i' pc \<Longrightarrow> u' = u \<and> i' = i"
  "extended_for u i pc \<Longrightarrow> extended_for u' i' pc \<Longrightarrow> u' = u \<and> i' = i"
  by (cases pc; simp)+

lemma other_user_calls:
  assumes "u' \<noteq> u"
  shows "filter (basic_for u i) (user_calls ev x (u', uc)) = []" "filter (extended_for u i) (user_calls ev x (u', uc)) = []"
  using assms by (auto simp: user_calls_def intro!: map_filter_none dest!: calls_of_entry dest: for_unique)

lemma user_calls_once:
  assumes inv: "omap_inv (wu_push_callbacks uc)" "omap_inv (wu_extended_callbacks uc)"
  shows "map_of (wu_push_callbacks uc) i = Some cb \<Longrightarrow> filter (basic_for u i) (user_calls ev x (u, uc)) =
      (if wu_user_id uc = ev_target_user_id ev \<and> ev_np_service_name ev = []
       then case basic_call ev x u (i, cb) of None \<Rightarrow> [] | Some pc \<Rightarrow> [pc] else [])"
    and "map_of (wu_extended_callbacks uc) i = Some cbx \<Longrightarrow> filter (extended_for u i) (user_calls ev x (u, uc)) =
      (if wu_user_id uc = ev_target_user_id ev
       then case extended_call ev x u (i, cbx) of None \<Rightarrow> [] | Some pc \<Rightarrow> [pc] else [])"
proof -
  assume cb: "map_of (wu_push_callbacks uc) i = Some cb"
  have "filter (basic_for u i) (List.map_filter (extended_call ev x u) (wu_extended_callbacks uc)) = []"
    "filter (basic_for u i) (List.map_filter (service_call ev x u) (wu_service_callbacks uc)) = []"
    by (auto intro!: map_filter_none dest: calls_of_entry)
  moreover have "filter (basic_for u i) (List.map_filter (basic_call ev x u) (wu_push_callbacks uc)) =
      (case basic_call ev x u (i, cb) of None \<Rightarrow> [] | Some pc \<Rightarrow> [pc])"
    using map_of_SomeD [OF cb] omap_entries [OF inv(1)] omap_other [OF inv(1) map_of_SomeD [OF cb]]
    by (intro map_filter_one) (force dest!: calls_of_entry dest: for_unique)+
  ultimately show "filter (basic_for u i) (user_calls ev x (u, uc)) =
      (if wu_user_id uc = ev_target_user_id ev \<and> ev_np_service_name ev = []
       then case basic_call ev x u (i, cb) of None \<Rightarrow> [] | Some pc \<Rightarrow> [pc] else [])"
    by (simp add: user_calls_def)
next
  assume cb: "map_of (wu_extended_callbacks uc) i = Some cbx"
  have "filter (extended_for u i) (List.map_filter (basic_call ev x u) (wu_push_callbacks uc)) = []"
    "filter (extended_for u i) (List.map_filter (service_call ev x u) (wu_service_callbacks uc)) = []"
    by (auto intro!: map_filter_none dest: calls_of_entry)
  moreover have "filter (extended_for u i) (List.map_filter (extended_call ev x u) (wu_extended_callbacks uc)) =
      (case extended_call ev x u (i, cbx) of None \<Rightarrow> [] | Some pc \<Rightarrow> [pc])"
    using map_of_SomeD [OF cb] omap_entries [OF inv(2)] omap_other [OF inv(2) map_of_SomeD [OF cb]]
    by (intro map_filter_one) (force dest!: calls_of_entry dest: for_unique)+
  ultimately show "filter (extended_for u i) (user_calls ev x (u, uc)) =
      (if wu_user_id uc = ev_target_user_id ev
       then case extended_call ev x u (i, cbx) of None \<Rightarrow> [] | Some pc \<Rightarrow> [pc] else [])"
    by (simp add: user_calls_def)
qed

lemma dispatch_one:
  assumes s: "counted unused s" and x: "context_at c s = Some x" and uc: "map_of (wc_user_contexts x) u = Some uc"
    and other: "\<And>y u' uc'. u' \<noteq> u \<Longrightarrow> filter P (user_calls ev y (u', uc')) = []"
  shows "filter P (dispatch_event s ev) = filter P (user_calls ev x (u, uc))"
proof -
  have inv: "omap_inv (wa_contexts s)" and cx: "(c, x) \<in> set (wa_contexts s)"
    using s map_of_SomeD x by (auto simp: counted_def context_at_def dest: map_of_SomeD)
  have users: "omap_inv (wc_user_contexts x)" and lib: "lib_of_user u = c"
    using context_at_ok [OF s x] map_of_SomeD [OF uc] by (auto simp: ctx_ok_def user_ok_def)
  have away: "filter P (concat (map (user_calls ev y) (wc_user_contexts y))) = []" if "(c', y) \<in> set (wa_contexts s)" "(c', y) \<noteq> (c, x)" for c' y
  proof -
    have "c' \<noteq> c" using omap_other [OF inv cx that] by simp
    moreover have "ctx_ok unused (c', y)" using s that(1) by (auto simp: counted_def)
    ultimately have "u' \<noteq> u" if "(u', uc') \<in> set (wc_user_contexts y)" for u' uc'
      using that lib by (auto simp: ctx_ok_def user_ok_def)
    then show ?thesis using other by (fastforce simp: filter_concat)
  qed
  have "filter P (dispatch_event s ev) = filter P (concat (map (user_calls ev x) (wc_user_contexts x)))"
    unfolding dispatch_event_def using cx away
    by (subst filter_concat_one [OF cx omap_entries [OF inv]]) auto
  also have "\<dots> = filter P (user_calls ev x (u, uc))"
    using omap_other [OF users map_of_SomeD [OF uc]] other
    by (intro filter_concat_one [OF map_of_SomeD [OF uc] omap_entries [OF users]]) force
  finally show ?thesis .
qed

lemma filter_concat_map_filter:
  "(\<And>x. filter P (h x) = (if Q x then [f x] else [])) \<Longrightarrow> filter P (concat (map h xs)) = map f (filter Q xs)"
  by (induction xs) auto

lemma filter_concat_cases:
  "(\<And>x. filter P (h x) = (if Q x then case g x of None \<Rightarrow> [] | Some y \<Rightarrow> [y] else [])) \<Longrightarrow>
   filter P (concat (map h xs)) = List.map_filter g (filter Q xs)"
  unfolding map_filter_concat by (induction xs) auto

text \<open>
  Claim C30. In every reachable state, draining the push events calls a registered basic callback exactly once for
  each queued event of its user that has no service and a data type of the filter of the callback, in the order of
  the queue, and an extended callback once for each event of its user that its filter accepts; then the queue is empty.
\<close>

theorem push_events_delivered_once:
  assumes "web_reach lib s" "context_at c s = Some x" "map_of (wc_user_contexts x) u = Some uc"
    and "map_of (wu_push_callbacks uc) i = Some cb" "pc_cb_func cb = Some f" "map_of (wc_push_filters x) (pc_filter_id cb) = Some flt"
    and "map_of (wu_extended_callbacks uc) j = Some cbx"
  shows "filter (basic_for u i) (fst (DrainPushEvents s)) =
      map (\<lambda>ev. BasicPush f u i (peer_id (ev_has_to ev) (ev_to_online_id ev)) (peer_id (ev_has_from ev) (ev_from_online_id ev))
            (text_array 64 (ev_data_type ev)) (nonempty (ev_data ev)) (pc_user_arg cb))
        (filter (\<lambda>ev. ev_target_user_id ev = wu_user_id uc \<and> ev_np_service_name ev = [] \<and>
            ev_data_type ev \<in> set (map c_str (pf_params flt))) (wa_push_queue s)) \<and>
    filter (extended_for u j) (fst (DrainPushEvents s)) =
      List.map_filter (\<lambda>ev. extended_call ev x u (j, cbx)) (filter (\<lambda>ev. ev_target_user_id ev = wu_user_id uc) (wa_push_queue s)) \<and>
    wa_push_queue (snd (DrainPushEvents s)) = []"
proof (intro conjI)
  note s = web_reach_counted [OF assms(1)]
  note one = dispatch_one [OF s assms(2,3)]
  have inv: "omap_inv (wu_push_callbacks uc)" "omap_inv (wu_extended_callbacks uc)"
    using context_at_ok [OF s assms(2)] map_of_SomeD [OF assms(3)] by (auto simp: ctx_ok_def user_ok_def)
  show "filter (basic_for u i) (fst (DrainPushEvents s)) =
      map (\<lambda>ev. BasicPush f u i (peer_id (ev_has_to ev) (ev_to_online_id ev)) (peer_id (ev_has_from ev) (ev_from_online_id ev))
            (text_array 64 (ev_data_type ev)) (nonempty (ev_data ev)) (pc_user_arg cb))
        (filter (\<lambda>ev. ev_target_user_id ev = wu_user_id uc \<and> ev_np_service_name ev = [] \<and>
            ev_data_type ev \<in> set (map c_str (pf_params flt))) (wa_push_queue s))"
    unfolding DrainPushEvents_def fst_conv
    by (rule filter_concat_map_filter)
       (subst one [OF other_user_calls(1)], auto simp: user_calls_once(1) [OF inv assms(4)] basic_call_def assms(5,6))
  show "filter (extended_for u j) (fst (DrainPushEvents s)) =
      List.map_filter (\<lambda>ev. extended_call ev x u (j, cbx)) (filter (\<lambda>ev. ev_target_user_id ev = wu_user_id uc) (wa_push_queue s))"
    unfolding DrainPushEvents_def fst_conv
    by (rule filter_concat_cases) (subst one [OF other_user_calls(2)], auto simp: user_calls_once(2) [OF inv assms(7)])
qed (simp add: DrainPushEvents_def)

text \<open>A user context with one callback of each kind, and one event for it.\<close>

definition demo_event :: PushEventInput where
  "demo_event = zero_push_input\<lparr>ev_target_user_id := 7, ev_data_type := [65]\<rparr>"

definition demo_push_calls :: "(unit WebApi \<Rightarrow> unit WebApi) list" where
  "demo_push_calls = [\<lambda>s. snd (sceNpWebApiCreatePushEventFilter 1 (Some [[65, 0]]) s),
     \<lambda>s. snd (sceNpWebApiRegisterPushEventCallback 0x10001 1 (Some 40) None s),
     \<lambda>s. snd (sceNpWebApiCreateHandle 1 s),
     \<lambda>s. snd (sceNpWebApiCreateExtdPushEventFilter init_handler 5 1 1 None 0
       (Some [\<lparr>ep_data_type = [65, 0], ep_extd_data_key = None\<rparr>]) s),
     \<lambda>s. snd (sceNpWebApiRegisterExtdPushEventCallbackA 0x10001 1 (Some 41) None s),
     enqueue_push_event demo_event]"

definition demo_push :: "unit WebApi" where "demo_push = fold (\<lambda>f. f) demo_push_calls demo_web"

lemma demo_push_reach: "web_reach demo_http demo_push"
  unfolding demo_push_def demo_push_calls_def fold.simps comp_def id_def
  by (intro web_reach.Call [OF _ web_call.EnqueuePush] web_reach.Call [OF _ web_call.RegisterExtdPushEventCallbackA]
      web_reach.Call [OF _ web_call.CreateExtdPushEventFilter] web_reach.Call [OF _ web_call.CreateHandle]
      web_reach.Call [OF _ web_call.RegisterPushEventCallback] web_reach.Call [OF _ web_call.CreatePushEventFilter] demo_web_reach)

lemmas web_eval = in_user_context_def with_user_out_def with_context_out_def findAndValidateContext_def findUserContext_def
  releaseContext_def releaseUserContext_def context_at_def user_at_def upd_user_def upd_context_def alter_def next_count_def
  lib_of_user_def drop_bit_eq_div sdk_at_least_def to_s32_def Let_def

lemmas push_eval = sceNpWebApiCreatePushEventFilter_def createPushEventFilter_def createPushEventFilterInternal_def
  sceNpWebApiRegisterPushEventCallback_def registerPushEventCallback_def registerPushEventCallbackInternal_def
  sceNpWebApiCreateHandle_def createHandle_def createHandleInternal_def sceNpWebApiCreateExtdPushEventFilter_def
  createExtendedPushEventFilter_def createExtendedPushEventFilterInternal_def startHandleTimer_def
  sceNpWebApiRegisterExtdPushEventCallbackA_def registerExtdPushEventCallbackA_def registerExtdPushEventCallback_def
  registerExtdPushEventCallbackInternal_def enqueue_push_event_def no_params_def extd_keys_def

lemma demo_push_eq:
  "context_at 1 demo_push = Some (new_lib_context\<lparr>wc_lib_ctx_id := 1, wc_lib_http_ctx_id := 3,
     wc_handles := [(1, \<lparr>wh_handle_id = 1, wh_aborted = False, wh_deleted = False, wh_user_count = 0\<rparr>)],
     wc_timer_handles := [(1, \<lparr>wt_handle_id = 1, wt_timeout = 0, wt_end_time = 0, wt_timed_out = False\<rparr>)],
     wc_push_filters := [(1, \<lparr>pf_filter_id = 1, pf_params = [[65, 0]]\<rparr>)],
     wc_extended_filters := [(1, \<lparr>xf_filter_id = 1, xf_internal = False, xf_params = [[65, 0]], xf_extd_data_keys = [[]],
       xf_service_name = [], xf_service_label = -1\<rparr>)],
     wc_user_contexts := [(0x10001, new_user_context\<lparr>wu_user_id := 7, wu_user_ctx_id := 0x10001,
       wu_push_callbacks := [(1, \<lparr>pc_callback_id = 1, pc_filter_id = 1, pc_cb_func = Some 40, pc_user_arg = None\<rparr>)],
       wu_extended_callbacks := [(2, \<lparr>xc_callback_id = 2, xc_filter_id = 1, xc_cb_func = None, xc_cb_func_a = Some 41, xc_user_arg = None\<rparr>)]\<rparr>)]\<rparr>)
   \<and> wa_push_queue demo_push = [demo_event]"
  by (simp add: demo_push_def demo_push_calls_def demo_web_eq init_web_api_def new_lib_context_def new_user_context_def push_eval web_eval
      del: One_nat_def)

lemma push_events_delivered_once_witness:
  "\<exists>pc. filter (basic_for 0x10001 1) (fst (DrainPushEvents demo_push)) = [pc] \<and>
    (\<exists>pc'. filter (extended_for 0x10001 2) (fst (DrainPushEvents demo_push)) = [pc'])"
proof -
  note at = demo_push_eq [THEN conjunct1] and queue = demo_push_eq [THEN conjunct2]
  show ?thesis
    using push_events_delivered_once [OF demo_push_reach at, of "0x10001" _ 1 _ 40 _ 2]
    by (simp add: new_lib_context_def new_user_context_def queue demo_event_def zero_push_input_def c_str_def map_filter_concat
        extended_call_def filterMatches_def)
qed

end
