(* ===== verification/WebApiParts.thy ===== *)
theory WebApiParts
  imports WebApiSend
begin

text \<open>
  Bytes on the wire of the web API library: the headers of a response read back from their block, and the
  body that a request of several parts sends when the last piece arrives.
\<close>

section \<open>Headers\<close>

text \<open>A name has no colon, no text has the end of a line, and a value does not begin with a space or a tab.\<close>

definition plain_header :: "bytes \<times> bytes \<Rightarrow> bool" where
  "plain_header h \<longleftrightarrow> (case h of (name, v) \<Rightarrow> 58 \<notin> set name \<and> 10 \<notin> set name \<and> 10 \<notin> set v \<and> (v = [] \<or> hd v \<noteq> 32 \<and> hd v \<noteq> 9))"

lemma takeWhile_line: "10 \<notin> set line \<Longrightarrow> takeWhile (\<lambda>b. b \<noteq> 10) (line @ 10 # rest) = (line :: bytes)"
  by (induction line) auto

lemma find_line:
  fixes line rest :: bytes assumes "10 \<notin> set line"
  shows "findHeaderValue (line @ 10 # rest) field =
    (case line_value (strip_cr line) field of Some v \<Rightarrow> Some v | None \<Rightarrow> findHeaderValue rest field)"
  by (subst findHeaderValue.simps) (simp add: takeWhile_line [OF assms] Let_def split: option.split)

lemma header_line_value:
  assumes "plain_header (name, v)"
  shows "line_value (strip_cr (name @ [58, 32] @ v @ [13])) field = (if iEquals name field then Some v else None)"
proof -
  from assms have name: "58 \<notin> set name" and v: "v = [] \<or> hd v \<noteq> 32 \<and> hd v \<noteq> 9" by (auto simp: plain_header_def)
  have "takeWhile (\<lambda>b. b \<noteq> 58) (name @ 58 # 32 # v) = name" "dropWhile (\<lambda>b. b \<noteq> 58) (name @ 58 # 32 # v) = 58 # 32 # v"
    using name by (simp_all add: takeWhile_append dropWhile_append)
  moreover have "dropWhile (\<lambda>b. b = 32 \<or> b = 9) v = v" using v by (cases v) auto
  ultimately show ?thesis by (simp add: strip_cr_def line_value_def butlast_append)
qed

lemma header_line_bytes: "header_line name v = (name @ [58, 32] @ v @ [13]) @ [10]"
  by (simp add: header_line_def ascii_def CRLF_def)

lemma find_in_headers:
  "list_all plain_header hs \<Longrightarrow> findHeaderValue (concat (map (\<lambda>(name, v). header_line name v) hs) @ CRLF) field =
    map_option snd (find (\<lambda>(name, _). iEquals name field) hs)"
proof (induction hs)
  case Nil
  show ?case by (simp add: CRLF_def findHeaderValue.simps strip_cr_def line_value_def)
next
  case (Cons h hs)
  obtain name v where h: "h = (name, v)" by force
  with Cons.prems have "10 \<notin> set (name @ [58, 32] @ v @ [13])" and plain: "plain_header (name, v)" by (auto simp: plain_header_def)
  from find_line [OF this(1)] Cons show ?case
    by (simp add: h header_line_bytes [unfolded append_assoc] header_line_value [OF plain, simplified])
qed

text \<open>
  In a block of headers as a server sends it, a line with the status and then one line for each header,
  the search for a name gives the value of the first header of that name, the case of letters aside,
  and nothing when there is none.
\<close>

theorem header_value_roundtrip:
  assumes "58 \<notin> set status" "10 \<notin> set status" "list_all plain_header hs"
  shows "findHeaderValue (status @ CRLF @ concat (map (\<lambda>(name, v). header_line name v) hs) @ CRLF) field =
    map_option snd (find (\<lambda>(name, _). iEquals name field) hs)"
proof -
  have "10 \<notin> set (status @ [13])" "line_value (strip_cr (status @ [13])) field = None"
    using assms(1,2) by (auto simp: line_value_def strip_cr_def)
  with find_line [of "status @ [13]"] find_in_headers [OF assms(3)] show ?thesis by (simp add: CRLF_def)
qed

lemma header_value_roundtrip_witness:
  "findHeaderValue ([72] @ CRLF @ header_line [65] [49] @ header_line [66] [50] @ CRLF) [98] = Some [50]"
  using header_value_roundtrip [of "[72]" "[([65], [49]), ([66], [50])]" "[98]"]
  by (simp add: plain_header_def iEquals_def to_lower_char_def)

section \<open>Parts\<close>

text \<open>Sending the pieces of a request: the index of a part and bytes for it.\<close>

fun send_parts :: "s64 \<Rightarrow> (s32 \<times> bytes) list \<Rightarrow> OrbisNpWebApiRequest \<Rightarrow> (s32 + bytes) list \<times> OrbisNpWebApiRequest" where
  "send_parts r [] q = ([], q)"
| "send_parts r ((i, d) # ps) q =
     (let (a, q1) = multipart_step r i (Some d) (of_nat (length d)) q; (as, q2) = send_parts r ps q1 in (a # as, q2))"

definition for_part :: "nat \<Rightarrow> (s32 \<times> bytes) list \<Rightarrow> bytes" where
  "for_part k ps = concat (map snd (filter (\<lambda>(i, _). i = int k + 1) ps))"

lemma for_part_simps [simp]: "for_part k [] = []" "for_part k (ps @ qs) = for_part k ps @ for_part k qs"
  "for_part k ((i, d) # ps) = (if i = int k + 1 then d else []) @ for_part k ps"
  by (simp_all add: for_part_def)

text \<open>The parts when some pieces have been sent.\<close>

definition gathered :: "MultipartPart list \<Rightarrow> (s32 \<times> bytes) list \<Rightarrow> MultipartPart list" where
  "gathered parts ps = map (\<lambda>(k, p). p\<lparr>mp_data := for_part k ps, mp_sent_size := of_nat (length (for_part k ps))\<rparr>) (enumerate 0 parts)"

lemma length_gathered [simp]: "length (gathered parts ps) = length parts"
  by (simp add: gathered_def)

lemma nth_gathered: "k < length parts \<Longrightarrow> gathered parts ps ! k =
    (parts ! k)\<lparr>mp_data := for_part k ps, mp_sent_size := of_nat (length (for_part k ps))\<rparr>"
  by (simp add: gathered_def nth_enumerate_eq)

lemma gathered_piece:
  assumes "k < length parts" "length d < 2 ^ 64"
  shows "(gathered parts ps)[k := add_part_data (Some d) (of_nat (length d)) (gathered parts ps ! k)] = gathered parts (ps @ [(int k + 1, d)])"
proof (rule nth_equalityI)
  fix j assume "j < length ((gathered parts ps)[k := add_part_data (Some d) (of_nat (length d)) (gathered parts ps ! k)])"
  moreover have "unat (of_nat (length d) :: u64) = length d" using assms(2) by (simp add: unat_of_nat take_bit_nat_eq_self)
  ultimately show "(gathered parts ps)[k := add_part_data (Some d) (of_nat (length d)) (gathered parts ps ! k)] ! j =
      gathered parts (ps @ [(int k + 1, d)]) ! j"
    using assms(1) by (cases "j = k") (auto simp: nth_gathered add_part_data_def)
qed simp

lemma for_part_length: "length (for_part k ps) \<le> length (concat (map snd ps))"
  by (induction ps) auto

lemma unat_small: "n < 2 ^ 64 \<Longrightarrow> unat (of_nat n :: u64) = n"
  by (simp add: unat_of_nat take_bit_nat_eq_self)

lemma complete_gathered:
  assumes total: "length (concat (map snd (pre @ suf))) < 2 ^ 64"
    and len: "\<forall>k < length parts. mp_content_length (parts ! k) = of_nat (length (for_part k (pre @ suf)))"
    and ok: "\<forall>(i, d) \<in> set suf. 1 \<le> i \<and> i \<le> int (length parts) \<and> d \<noteq> []"
  shows "all_complete (gathered parts pre) \<longleftrightarrow> suf = []"
proof (cases suf)
  case Nil
  with len show ?thesis by (auto simp: all_complete_def in_set_conv_nth nth_gathered)
next
  case (Cons p rest)
  obtain i d where p: "p = (i, d)" by force
  define k where "k = nat (i - 1)"
  from ok Cons p have k: "i = int k + 1" "k < length parts" and d: "d \<noteq> []" by (auto simp: k_def)
  have small: "length (for_part k ps) < 2 ^ 64" if "ps = pre \<or> ps = pre @ suf" for ps
    using that for_part_length [of k ps] total by auto
  have "length (for_part k pre) < length (for_part k (pre @ suf))" using Cons p d k by simp
  then have "(of_nat (length (for_part k pre)) :: u64) < of_nat (length (for_part k (pre @ suf)))"
    by (simp only: word_less_nat_alt unat_small [OF small, OF disjI1, OF refl] unat_small [OF small, OF disjI2, OF refl])
  with len k have "mp_sent_size (gathered parts pre ! k) < mp_content_length (gathered parts pre ! k)"
    by (simp add: nth_gathered)
  with k have "\<not> all_complete (gathered parts pre)"
    by (auto simp: all_complete_def not_le [symmetric] intro!: bexI [of _ "gathered parts pre ! k"])
  with Cons show ?thesis by simp
qed

lemma multipart_step_piece:
  assumes parts: "wr_multipart_parts q = gathered parts pre" and i: "1 \<le> i" "i \<le> int (length parts)" and d: "length d < 2 ^ 64"
  shows "wr_multipart_parts (snd (multipart_step r i (Some d) (of_nat (length d)) q)) = gathered parts (pre @ [(i, d)]) \<and>
    wr_multipart_boundary (snd (multipart_step r i (Some d) (of_nat (length d)) q)) = wr_multipart_boundary q \<and>
    fst (multipart_step r i (Some d) (of_nat (length d)) q) =
      (if all_complete (gathered parts (pre @ [(i, d)]))
       then Inr (multipart_body (if wr_multipart_boundary q = [] then default_boundary r else wr_multipart_boundary q)
              (gathered parts (pre @ [(i, d)])))
       else Inl ORBIS_OK)"
proof -
  define k where "k = nat (i - 1)"
  with i have k: "i = int k + 1" "k < length parts" by auto
  show ?thesis
    using k gathered_piece [OF k(2) d, of pre] by (simp add: multipart_step_def parts Let_def)
qed

lemma send_parts_rest:
  assumes "wr_multipart_parts q = gathered parts pre" "suf \<noteq> []"
    and "length (concat (map snd (pre @ suf))) < 2 ^ 64"
    and "\<forall>k < length parts. mp_content_length (parts ! k) = of_nat (length (for_part k (pre @ suf)))"
    and "\<forall>(i, d) \<in> set suf. 1 \<le> i \<and> i \<le> int (length parts) \<and> d \<noteq> []"
  shows "fst (send_parts r suf q) = replicate (length suf - 1) (Inl ORBIS_OK) @
    [Inr (multipart_body (if wr_multipart_boundary q = [] then default_boundary r else wr_multipart_boundary q) (gathered parts (pre @ suf)))]"
  using assms
proof (induction suf arbitrary: q pre)
  case (Cons p rest)
  obtain i d where p: "p = (i, d)" by force
  let ?q = "snd (multipart_step r i (Some d) (of_nat (length d)) q)"
  have step: "wr_multipart_parts ?q = gathered parts (pre @ [(i, d)])" "wr_multipart_boundary ?q = wr_multipart_boundary q"
    "fst (multipart_step r i (Some d) (of_nat (length d)) q) = (if rest = []
       then Inr (multipart_body (if wr_multipart_boundary q = [] then default_boundary r else wr_multipart_boundary q)
              (gathered parts (pre @ [(i, d)])))
       else Inl ORBIS_OK)"
    using multipart_step_piece [OF Cons.prems(1), of i d r] complete_gathered [of "pre @ [(i, d)]" rest parts] Cons.prems(3-5)
    by (auto simp: p)
  show ?case
  proof (cases "rest = []")
    case False
    from Cons.IH [OF step(1) False] Cons.prems(3-5) have "fst (send_parts r rest ?q) = replicate (length rest - 1) (Inl ORBIS_OK) @
      [Inr (multipart_body (if wr_multipart_boundary q = [] then default_boundary r else wr_multipart_boundary q) (gathered parts (pre @ p # rest)))]"
      by (simp add: p step(2))
    with step(3) False show ?thesis by (cases rest) (simp_all add: p case_prod_beta Let_def)
  qed (use step(3) in \<open>simp add: p case_prod_beta\<close>)
qed simp

text \<open>
  Claim C31. A request of several parts whose parts are sent in pieces, those of different parts in any order,
  sends nothing while the announced length of a part has not been reached; the last piece sends one body that
  holds each part once, its headers and all its pieces in the order in which they were sent.
\<close>

theorem multipart_sent_once:
  assumes "\<forall>p \<in> set (wr_multipart_parts q). mp_data p = [] \<and> mp_sent_size p = 0" "ps \<noteq> []"
    and "\<forall>(i, d) \<in> set ps. 1 \<le> i \<and> i \<le> int (length (wr_multipart_parts q)) \<and> d \<noteq> []"
    and "\<forall>k < length (wr_multipart_parts q). mp_content_length (wr_multipart_parts q ! k) = of_nat (length (for_part k ps))"
    and "length (concat (map snd ps)) < 2 ^ 64"
  shows "fst (send_parts r ps q) = replicate (length ps - 1) (Inl ORBIS_OK) @
    [Inr (multipart_body (if wr_multipart_boundary q = [] then default_boundary r else wr_multipart_boundary q)
       (map (\<lambda>(k, p). p\<lparr>mp_data := for_part k ps, mp_sent_size := mp_content_length p\<rparr>) (enumerate 0 (wr_multipart_parts q))))]"
proof -
  have "wr_multipart_parts q = gathered (wr_multipart_parts q) []"
    by (rule nth_equalityI) (use assms(1) in \<open>auto simp: nth_gathered\<close>)
  from send_parts_rest [OF this assms(2)] assms(3-5) have
    "fst (send_parts r ps q) = replicate (length ps - 1) (Inl ORBIS_OK) @
    [Inr (multipart_body (if wr_multipart_boundary q = [] then default_boundary r else wr_multipart_boundary q)
       (gathered (wr_multipart_parts q) ps))]" by simp
  moreover have "gathered (wr_multipart_parts q) ps =
    map (\<lambda>(k, p). p\<lparr>mp_data := for_part k ps, mp_sent_size := mp_content_length p\<rparr>) (enumerate 0 (wr_multipart_parts q))"
    unfolding gathered_def using assms(4) by (auto simp: in_set_enumerate_eq)
  ultimately show ?thesis by simp
qed

lemma multipart_sent_once_witness:
  "fst (send_parts 5 [(2, [7]), (1, [8]), (2, [9])]
     (new_web_request\<lparr>wr_multipart := True, wr_multipart_boundary := [66], wr_multipart_parts :=
        [\<lparr>mp_raw_headers = [1], mp_content_length = 1, mp_data = [], mp_sent_size = 0\<rparr>,
         \<lparr>mp_raw_headers = [2], mp_content_length = 2, mp_data = [], mp_sent_size = 0\<rparr>]\<rparr>)) =
   [Inl 0, Inl 0, Inr (multipart_body [66] [\<lparr>mp_raw_headers = [1], mp_content_length = 1, mp_data = [8], mp_sent_size = 1\<rparr>,
     \<lparr>mp_raw_headers = [2], mp_content_length = 2, mp_data = [7, 9], mp_sent_size = 2\<rparr>])]"
  by (subst multipart_sent_once) (simp_all add: All_less_Suc)

end
