(* ===== verification/Spec2Isabelle.thy ===== *)
theory Spec2Isabelle
  imports SigTimers SigApiProps P2P NpBind PsfFile HandlerSystem
    NpManagerProps NpManagerEvents NpAuthProps WordFilterProps NpTrophy NpScoreProps NpTusTransfer WebApiEvents WebApiParts
begin

text \<open>
  A verification development of shadNet-PS4, a plugin that replaces the online libraries of the
  console (NP signaling, matching2, scores, storage, web API) by ones that talk to a shadNet
  server and, peer to peer, to other consoles over UDP.

  The core of the program's own logic is the signaling library under
  src/src/core/libraries/np/np_signaling: it keeps contexts (one per user and callback),
  connections (context and peer), and transports (one per peer, shared by its connections and by
  matching2), runs a four-message handshake with the peer over UDP, steps, times out and
  publishes from a runtime thread, and hands events to the game from a dispatch thread. It sends
  and receives through the P2P transport of src/src/core/net_util/net_p2p.cpp.

  Theories, in the order they build on each other.

  Prelude: machine integers, association lists in the iteration order of the C++ maps (with a
  locale for the key-value interface, interpreted on the hash map and on the ordered map),
  little-endian layout.

  NpTypes: online ids and np ids (np_types.h, np_signaling_state.cpp), error codes.

  SigPackets: the packets and their images (np_signaling_state.h).
  SigTypes: the records of the state; \<open>SigState\<close> is the one singleton the C++ files share,
  guarded there by one mutex. The model takes a locked section as one step. The clock, the random
  source, the answers of the hooks and the platform are read through explicit counters in the
  state, so that every function is a function.
  SigState: np_signaling_state.cpp: allocators (one locale \<open>id_allocator\<close>, interpreted on the
  context, connection and transport ids), rate limit, tables, dispatch staging.
  SigTransport, SigHandler, SigRuntime: np_signaling_handler.cpp: transports and closing; packet
  handlers; the turns of the threads. SigApi: np_signaling.cpp: the functions the game calls.

  SigInvariant states the invariant of the shared state and proves that each operation keeps it;
  SigSystem closes it over every interleaving of API calls, datagrams and thread turns
  (\<open>sys_step\<close>, \<open>reachable\<close>). SigApiProps, SigConnProps, SigProtocol and SigTimers hold the
  properties: the API contracts, connections and closing, the protocol between two peers, and
  the behaviour over time.

  P2P: net_p2p.cpp and net_p2p.h: binding with port fallback and borrowed credentials, the
  per-channel queues; the socket and credential calls are functions from the number of the call
  to its answer, so that the theorems hold for every behaviour of the network.

  ByteFile, NpBind, PsfFile: the npbind and param.sfo files of a title (core/file_format): parsers whose reads outside
  the image and exceptions are values, their bounds and round trips.

  ShadNetClient, ShadNetReader, ShadNetProps: client.cpp and client.h under src/src/shadnet: the
  connection to the server: framing and the send queue, the reader thread over the bytes the
  server sends, login, replies and notifications, connecting with retries and waiting. The
  protobuf serialisers and parsers are generated code and a parameter (\<open>ProtoOps\<close>); the
  results of socket calls are parameters too. The callbacks of a client are the list of the
  events it delivered, in order.

  NpErrors: the error codes of np_error.h. RequestCtx: the request contexts that libraries and
  handler share (np_auth_ctx.h, np_score_ctx.h, np_tus_ctx.h, np_utility_ctx.h), results that
  are set once, with a locale \<open>result_cell\<close> interpreted on each of them.

  HandlerState, NpHandler, HandlerScore, HandlerScoreReply: the handler between the NP libraries
  and the clients (np_handler): its state, the lookups, friends, invitations, signing out, and
  the score requests with their replies. The memory of the game that replies are written to is a
  store from addresses to arrays, and a write outside an array is the outcome \<open>OutOfBounds\<close>.
  HandlerScoreProps: replies stay inside the arrays and complete their request.

  HandlerTus, HandlerTusReply, HandlerTusProps: np_handler_tus.cpp: the storage requests with the
  owner they name, the structures that replies fill, and the same two results for them; the lock
  that sending and registering do not share is why a request is two steps.

  HandlerConnect, HandlerFrame, HandlerConnectProps: authorization codes, trophies, the routing
  of notifications, connecting a user with the login awaited, the worker that reconnects, and what
  signing out completes. HandlerSystem closes the operations of the handler over every
  interleaving (\<open>handler_step\<close>, \<open>handler_reachable\<close>) and proves the invariant of its tables.

  RequestTable: the contract of the request tables of the NP libraries, an abstract set of ids
  with a limit, and the locale \<open>request_table\<close> in which any sequence of creations and deletions is
  shown to refine it. NpManagerReq and NpManagerProps (np_manager_requests.cpp) interpret it on a
  list of reused slots, NpAuth and NpAuthProps (np_auth.cpp) on a map whose least free id is
  searched by a loop without a bound, WordFilter and WordFilterProps (np_utility.cpp) on a counter
  of ids.

  NpManager, NpManagerEvents: np_manager_callbacks.cpp and np_manager.cpp: the callbacks of the
  game and the queue of state events, and the events of the user service through handler, queue
  and callbacks. NpTrophy: np_trophy.cpp over the console's library, which is a parameter.

  NpScore and NpScoreData: np_score.cpp. g_title_ctxs and g_requests are association lists, a
  request is the address of its context in the store of the handler (hn_score_ctxs). Each call is
  one step up to the point where it blocks: it answers a result, or WaitFor the request. The
  checks of a call come in the order of the code, so the arrays that are cleared before a later
  check fails are cleared in the model too. NpScoreProps: the calls that wait against their
  asynchronous versions, the table of requests (an instance of the locale counter_table), game
  data in pages and in chunks, composed with the replies of HandlerScoreReply, and the late reply
  to a deleted request.

  NpTus, NpTusVar, NpTusData, NpTusStatus: np_tus.cpp, all of its calls: the contexts and
  requests, the checks and what a call gathers from the arguments before it sends (\<open>tus_call\<close>), the
  calls on variables, on data and on the status of data. A call takes the arrays of the game and
  the address of its new context and answers like those of NpScore. NpTusProps and
  NpTusSystem: the library with the handler behind it, over any sequence of its 63 calls, aborts,
  deletions and replies (\<open>storage_call\<close>, \<open>storage_reach\<close>): replies stay inside the arrays that the
  calls announce. NpTusTransfer: data sent and read in pieces, and a request used for both.

  WebApiState, WebApiRequest, WebApiSend, WebApiContext, WebApiPush, WebApi: np_web_api: library
  contexts, user contexts and requests under ids that contain the id of what they belong to, the
  reference counts and the recursive lock of a context, requests and their parts over the HTTP
  library of the console (the parameter \<open>HttpLib\<close>), filters, callbacks and the dispatch of push
  events. The functions that find an object, run and release it are one definition over what they
  run (\<open>with_context_out\<close>, \<open>in_user_context\<close>, \<open>on_request_out\<close>, \<open>with_request_out\<close>). A call that
  sleeps until another thread acts answers nothing, and \<open>await_\<close> definitions are its next look.
  WebApiCounts, WebApiSystem and WebApiProps: what is expected of the counts and locks and kept by
  every operation, hence between any calls (\<open>web_call\<close>, \<open>web_reach\<close>), and how terminating a context
  in use breaks it. WebApiEvents and WebApiParts: what is delivered of push events, parts and headers.

  Bounds. No fuel is used in the signaling model: the allocators' retry loops carry the bound
  the code has, and the loops over tables are folds. Ids are kept at their width where the code
  wraps them.

  Not modelled: the matching2 server protocol, whose code converts protobuf messages, user
  interface, logging, vendored code and the hooks that only forward to the console. The data
  that signaling reads of matching2 is modelled, its other operations are not yet; nor is the
  second version of the web API.
\<close>

end
